(* ===== verification/Prelude.thy ===== *)
theory Prelude
  imports Complex_Main "HOL-Library.Multiset"
begin

text \<open>
  The host language as the models need it, and the generic lemmas they share:
  results of code that may throw, JavaScript numbers and values of type
  \<open>unknown\<close>, the string and list operations of the standard library that
  the sources call, and facts on lists and finite enumerations.

  A JavaScript string is a sequence of UTF-16 code units. The development
  writes it as \<open>string\<close>, so every code unit is below 256 (Latin-1): the
  functions on case, white space and diacritics are exact on that range.
\<close>

named_theorems res_simps \<open>how a successful result splits into its steps\<close>
named_theorems str_simps \<open>characterisations of the string operations\<close>

section \<open>Results of code that may throw\<close>

text \<open>\<open>Inl message\<close> stands for \<open>throw new Error(message)\<close>.\<close>

type_synonym 'a result = "string + 'a"

definition andThen :: "'e + 'a \<Rightarrow> ('a \<Rightarrow> 'e + 'b) \<Rightarrow> 'e + 'b" where
  "andThen m f = (case m of Inl e \<Rightarrow> Inl e | Inr a \<Rightarrow> f a)"

lemma andThen_simps [simp]:
  "andThen (Inl e) f = Inl e"
  "andThen (Inr a) f = f a"
  by (simp_all add: andThen_def)

lemma andThen_Inr_iff [res_simps]:
  "andThen m f = Inr b \<longleftrightarrow> (\<exists>a. m = Inr a \<and> f a = Inr b)"
  by (cases m) auto

lemma andThen_Inl_iff [res_simps]:
  "andThen m f = Inl e \<longleftrightarrow> m = Inl e \<or> (\<exists>a. m = Inr a \<and> f a = Inl e)"
  by (cases m) auto

lemma andThen_cong [fundef_cong]:
  "m = m' \<Longrightarrow> (\<And>a. m' = Inr a \<Longrightarrow> f a = f' a) \<Longrightarrow> andThen m f = andThen m' f'"
  by (cases m') auto

text \<open>\<open>xs.map(f)\<close> for an \<open>f\<close> that gets the index too and may throw.\<close>

fun traverse_from :: "nat \<Rightarrow> (nat \<Rightarrow> 'a \<Rightarrow> 'e + 'b) \<Rightarrow> 'a list \<Rightarrow> 'e + 'b list" where
  "traverse_from i f [] = Inr []"
| "traverse_from i f (x # xs) =
     andThen (f i x) (\<lambda>y. andThen (traverse_from (Suc i) f xs) (\<lambda>ys. Inr (y # ys)))"

abbreviation traverse :: "(nat \<Rightarrow> 'a \<Rightarrow> 'e + 'b) \<Rightarrow> 'a list \<Rightarrow> 'e + 'b list" where
  "traverse \<equiv> traverse_from 0"

lemma traverse_from_length: "traverse_from i f xs = Inr ys \<Longrightarrow> length ys = length xs"
  by (induction xs arbitrary: i ys) (auto simp: res_simps)

lemma traverse_from_all:
  assumes "traverse_from i f xs = Inr ys" and "\<And>j x y. f j x = Inr y \<Longrightarrow> P y"
  shows "\<forall>y \<in> set ys. P y"
  using assms(1)
proof (induction xs arbitrary: i ys)
  case Nil
  then show ?case by simp
next
  case (Cons x xs)
  then show ?case by (auto simp: res_simps dest: assms(2))
qed

lemma traverse_from_map_id:
  "(\<And>j y. y \<in> set ys \<Longrightarrow> f j (g y) = Inr y) \<Longrightarrow> traverse_from i f (map g ys) = Inr ys"
  by (induction ys arbitrary: i) simp_all

section \<open>Numbers\<close>

text \<open>
  A JavaScript number: a finite double is a rational. The arithmetic the sources do
  on numbers (cursors, counters, order values) stays among integers that a double
  represents exactly, so rounding is left out.
\<close>

datatype jsnum = Fin rat | NaN | PosInf | NegInf

abbreviation IntNum :: "int \<Rightarrow> jsnum" where
  "IntNum i \<equiv> Fin (of_int i)"

fun num_isFinite :: "jsnum \<Rightarrow> bool" where
  "num_isFinite (Fin _) = True"
| "num_isFinite _ = False"

text \<open>\<open>Number.isInteger\<close>\<close>

fun num_isInteger :: "jsnum \<Rightarrow> bool" where
  "num_isInteger (Fin r) = (of_int \<lfloor>r\<rfloor> = r)"
| "num_isInteger _ = False"

lemma num_isInteger_IntNum [simp]: "num_isInteger (IntNum i)"
  by simp

lemma num_isInteger_iff: "num_isInteger n \<longleftrightarrow> (\<exists>i. n = IntNum i)"
proof (cases n)
  case (Fin r)
  then show ?thesis
    by (auto intro!: exI [of _ "\<lfloor>r\<rfloor>"])
qed auto

fun num_less :: "jsnum \<Rightarrow> jsnum \<Rightarrow> bool" where
  "num_less (Fin a) (Fin b) = (a < b)"
| "num_less NegInf (Fin b) = True"
| "num_less NegInf PosInf = True"
| "num_less (Fin a) PosInf = True"
| "num_less _ _ = False"

fun num_add :: "jsnum \<Rightarrow> jsnum \<Rightarrow> jsnum" where
  "num_add (Fin a) (Fin b) = Fin (a + b)"
| "num_add NaN _ = NaN"
| "num_add _ NaN = NaN"
| "num_add PosInf NegInf = NaN"
| "num_add NegInf PosInf = NaN"
| "num_add PosInf _ = PosInf"
| "num_add _ PosInf = PosInf"
| "num_add NegInf _ = NegInf"
| "num_add _ NegInf = NegInf"

text \<open>\<open>Math.max\<close> of two numbers\<close>

fun num_max :: "jsnum \<Rightarrow> jsnum \<Rightarrow> jsnum" where
  "num_max NaN _ = NaN"
| "num_max _ NaN = NaN"
| "num_max a b = (if num_less a b then b else a)"

text \<open>\<open>Math.min\<close> of two numbers\<close>

fun num_min :: "jsnum \<Rightarrow> jsnum \<Rightarrow> jsnum" where
  "num_min NaN _ = NaN"
| "num_min _ NaN = NaN"
| "num_min a b = (if num_less b a then b else a)"

text \<open>\<open>Math.trunc\<close> of a finite number rounds towards zero.\<close>

definition num_trunc :: "rat \<Rightarrow> int" where
  "num_trunc r = (if 0 \<le> r then \<lfloor>r\<rfloor> else \<lceil>r\<rceil>)"

section \<open>Values of type \<open>unknown\<close>\<close>

text \<open>
  What crosses the process boundary or comes out of \<open>JSON.parse\<close>. The entries of an
  object stand in enumeration order (\<open>Object.entries\<close>); a property that is missing
  reads as \<open>undefined\<close>.
\<close>

datatype jsval =
    JUndef
  | JNull
  | JBool bool
  | JNum jsnum
  | JStr string
  | JArr "jsval list"
  | JObj "(string \<times> jsval) list"

definition jget :: "(string \<times> jsval) list \<Rightarrow> string \<Rightarrow> jsval" where
  "jget rec k = (case map_of rec k of None \<Rightarrow> JUndef | Some v \<Rightarrow> v)"

text \<open>\<open>k in rec\<close>\<close>

definition jhas :: "(string \<times> jsval) list \<Rightarrow> string \<Rightarrow> bool" where
  "jhas rec k \<longleftrightarrow> map_of rec k \<noteq> None"

text \<open>\<open>value == null\<close> holds of \<open>undefined\<close> and \<open>null\<close> only.\<close>

fun is_nullish :: "jsval \<Rightarrow> bool" where
  "is_nullish JUndef = True"
| "is_nullish JNull = True"
| "is_nullish _ = False"

lemma jget_Nil [simp]: "jget [] k = JUndef"
  by (simp add: jget_def)

lemma jget_Cons [simp]: "jget ((k', v) # rec) k = (if k = k' then v else jget rec k)"
  by (simp add: jget_def)

lemma jhas_simps [simp]: "jhas [] k = False" "jhas ((k', v) # rec) k = (k = k' \<or> jhas rec k)"
  by (auto simp: jhas_def)

lemma jget_append: "jget (r @ q) k = (if jhas r k then jget r k else jget q k)"
  by (auto simp: jget_def jhas_def split: option.splits)

text \<open>\<open>a ?? b\<close> on an optional field\<close>

definition orElse :: "'a option \<Rightarrow> 'a \<Rightarrow> 'a" where
  "orElse a b = (case a of None \<Rightarrow> b | Some x \<Rightarrow> x)"

definition orOption :: "'a option \<Rightarrow> 'a option \<Rightarrow> 'a option" where
  "orOption a b = (case a of None \<Rightarrow> b | Some x \<Rightarrow> Some x)"

text \<open>\<open>a || b\<close> on texts: an absent or empty text falls through.\<close>

definition orText :: "string option \<Rightarrow> string \<Rightarrow> string" where
  "orText a b = (case a of None \<Rightarrow> b | Some s \<Rightarrow> if s = [] then b else s)"

lemma orElse_simps [simp]: "orElse None b = b" "orElse (Some x) b = x"
  by (simp_all add: orElse_def)

lemma orOption_simps [simp]: "orOption None b = b" "orOption (Some x) b = Some x"
  by (simp_all add: orOption_def)

text \<open>A field declared \<open>?: T | null\<close> has three kinds of value.\<close>

datatype 'a nullable = Undef | Null | Val 'a

section \<open>Strings\<close>

text \<open>
  The white space of \<open>trim\<close> and \<open>\s\<close> below code unit 256: tab, line feed, vertical
  tab, form feed, carriage return, space, no-break space.
\<close>

definition js_space :: "char \<Rightarrow> bool" where
  "js_space c \<longleftrightarrow> c \<in> {CHR 0x09, CHR 0x0A, CHR 0x0B, CHR 0x0C, CHR 0x0D, CHR 0x20, CHR 0xA0}"

abbreviation newline :: char where
  "newline \<equiv> CHR 0x0A"

definition trim_left :: "string \<Rightarrow> string" where
  "trim_left s = dropWhile js_space s"

definition trim_right :: "string \<Rightarrow> string" where
  "trim_right s = rev (dropWhile js_space (rev s))"

definition trim :: "string \<Rightarrow> string" where
  "trim s = trim_right (trim_left s)"

lemma trim_Nil [simp]: "trim [] = []"
  by (simp add: trim_def trim_left_def trim_right_def)

text \<open>A string is trimmed when neither end is white space.\<close>

definition trimmed :: "string \<Rightarrow> bool" where
  "trimmed s \<longleftrightarrow> (s = [] \<or> (\<not> js_space (hd s) \<and> \<not> js_space (last s)))"

lemma dropWhile_hd: "dropWhile P xs \<noteq> [] \<Longrightarrow> \<not> P (hd (dropWhile P xs))"
  by (rule hd_dropWhile)

lemma trim_right_append: "\<exists>t. s = trim_right s @ t \<and> (\<forall>c \<in> set t. js_space c)"
proof -
  have "s = rev (takeWhile js_space (rev s) @ dropWhile js_space (rev s))"
    by simp
  then have "s = trim_right s @ rev (takeWhile js_space (rev s))"
    by (simp add: trim_right_def flip: rev_append)
  then show ?thesis
    by (metis set_rev set_takeWhileD)
qed

lemma trim_right_prefix_hd: "trim_right s \<noteq> [] \<Longrightarrow> hd (trim_right s) = hd s"
  using trim_right_append [of s] by (metis hd_append2)

lemma trim_right_last: "trim_right s \<noteq> [] \<Longrightarrow> \<not> js_space (last (trim_right s))"
  using dropWhile_hd [of js_space "rev s"] by (simp add: trim_right_def last_rev)

lemma trimmed_trim [simp]: "trimmed (trim s)"
proof -
  have "trim_right (trim_left s) \<noteq> [] \<Longrightarrow> trim_left s \<noteq> []"
    by (auto simp: trim_right_def)
  then show ?thesis
    using trim_right_prefix_hd [of "trim_left s"] trim_right_last [of "trim_left s"]
      dropWhile_hd [of js_space s]
    by (auto simp: trimmed_def trim_def trim_left_def)
qed

lemma trim_trimmed: "trimmed s \<Longrightarrow> trim s = s"
proof (cases "s = []")
  case False
  assume t: "trimmed s"
  have "dropWhile js_space s = s"
    using False t by (cases s) (auto simp: trimmed_def)
  moreover have "dropWhile js_space (rev s) = rev s"
    using False t by (cases "rev s") (auto simp: trimmed_def last_rev hd_rev[symmetric])
  ultimately show ?thesis
    by (simp add: trim_def trim_left_def trim_right_def)
qed simp

lemma trim_idem [simp]: "trim (trim s) = trim s"
  by (rule trim_trimmed) simp

lemma trim_eq_Nil_iff: "trim s = [] \<longleftrightarrow> (\<forall>c \<in> set s. js_space c)"
proof
  assume "trim s = []"
  then have "\<forall>c \<in> set (dropWhile js_space s). js_space c"
    by (auto simp: trim_def trim_right_def trim_left_def dropWhile_eq_Nil_conv)
  then show "\<forall>c \<in> set s. js_space c"
    by (metis dropWhile_eq_Nil_conv dropWhile_hd hd_in_set)
next
  assume "\<forall>c \<in> set s. js_space c"
  then show "trim s = []"
    by (auto simp: trim_def trim_left_def trim_right_def dest: set_dropWhileD)
qed

text \<open>\<open>toLowerCase\<close>, \<open>startsWith\<close>, \<open>endsWith\<close>, and \<open>includes\<close> as \<open>contains\<close>\<close>

definition lower_char :: "char \<Rightarrow> char" where
  "lower_char c =
     (let n = (of_char c :: nat)
      in if 65 \<le> n \<and> n \<le> 90 \<or> 192 \<le> n \<and> n \<le> 222 \<and> n \<noteq> 215 then char_of (n + 32) else c)"

definition toLowerCase :: "string \<Rightarrow> string" where
  "toLowerCase s = map lower_char s"

text \<open>The three letters of Latin-1 whose capital is outside of it stay as they are.\<close>

definition upper_char :: "char \<Rightarrow> char" where
  "upper_char c =
     (let n = (of_char c :: nat)
      in if 97 \<le> n \<and> n \<le> 122 \<or> 224 \<le> n \<and> n \<le> 254 \<and> n \<noteq> 247 then char_of (n - 32) else c)"

definition toUpperCase :: "string \<Rightarrow> string" where
  "toUpperCase s = map upper_char s"

fun startsWith :: "string \<Rightarrow> string \<Rightarrow> bool" where
  "startsWith s [] = True"
| "startsWith [] (p # ps) = False"
| "startsWith (c # s) (p # ps) = (c = p \<and> startsWith s ps)"

definition endsWith :: "string \<Rightarrow> string \<Rightarrow> bool" where
  "endsWith s p = startsWith (rev s) (rev p)"

fun contains :: "string \<Rightarrow> string \<Rightarrow> bool" where
  "contains [] p = (p = [])"
| "contains (c # s) p = (startsWith (c # s) p \<or> contains s p)"

lemma startsWith_append [simp]: "startsWith (p @ s) p"
  by (induction p) auto

lemma startsWith_iff: "startsWith s p \<longleftrightarrow> (\<exists>t. s = p @ t)"
  by (induction s p rule: startsWith.induct) auto

text \<open>\<open>s.split(sep)\<close> for a separator of one character: never the empty list.\<close>

fun split_on :: "char \<Rightarrow> string \<Rightarrow> string list" where
  "split_on sep [] = [[]]"
| "split_on sep (c # s) =
     (if c = sep then [] # split_on sep s
      else (case split_on sep s of [] \<Rightarrow> [[c]] | l # ls \<Rightarrow> (c # l) # ls))"

text \<open>\<open>parts.join(sep)\<close>\<close>

fun join :: "string \<Rightarrow> string list \<Rightarrow> string" where
  "join sep [] = []"
| "join sep [x] = x"
| "join sep (x # y # xs) = x @ sep @ join sep (y # xs)"

lemma split_on_not_Nil [simp]: "split_on sep s \<noteq> []"
  by (induction s) (auto split: list.splits)

lemma join_split_on: "join [sep] (split_on sep s) = s"
proof (induction s)
  case (Cons c s)
  show ?case
  proof (cases "split_on sep s")
    case Nil
    then show ?thesis by simp
  next
    case (Cons l ls)
    with Cons.IH show ?thesis by (cases ls) auto
  qed
qed simp

lemma split_on_no_sep: "l \<in> set (split_on sep s) \<Longrightarrow> sep \<notin> set l"
proof (induction s arbitrary: l)
  case (Cons c s)
  then show ?case
    by (cases "split_on sep s") (auto split: if_splits)
qed simp

lemma split_on_single: "sep \<notin> set s \<Longrightarrow> split_on sep s = [s]"
  by (induction s) auto

lemma split_on_append: "sep \<notin> set s \<Longrightarrow> split_on sep (s @ sep # t) = s # split_on sep t"
  by (induction s) auto

lemma split_on_join:
  "ls \<noteq> [] \<Longrightarrow> \<forall>l \<in> set ls. sep \<notin> set l \<Longrightarrow> split_on sep (join [sep] ls) = ls"
  by (induction "[sep]" ls rule: join.induct) (auto simp: split_on_single split_on_append)

lemma split_on_chars: "\<forall>l \<in> set (split_on sep s). \<forall>x \<in> set l. x \<in> set s"
  by (induction sep s rule: split_on.induct) (auto split: list.splits)

text \<open>\<open>s.replace(/\r\n/g, "\n")\<close>\<close>

fun crlfToLf :: "string \<Rightarrow> string" where
  "crlfToLf (c # d # s) =
     (if c = CHR 0x0D \<and> d = newline then newline # crlfToLf s else c # crlfToLf (d # s))"
| "crlfToLf s = s"

lemma crlfToLf_id: "CHR 0x0D \<notin> set s \<Longrightarrow> crlfToLf s = s"
  by (induction s rule: crlfToLf.induct) auto

section \<open>Decimal digits\<close>

definition digit_char :: "nat \<Rightarrow> char" where
  "digit_char d = char_of (48 + d)"

fun show_nat :: "nat \<Rightarrow> string" where
  "show_nat n = (if n < 10 then [digit_char n] else show_nat (n div 10) @ [digit_char (n mod 10)])"

declare show_nat.simps [simp del]

definition show_int :: "int \<Rightarrow> string" where
  "show_int i = (if i < 0 then CHR ''-'' # show_nat (nat (- i)) else show_nat (nat i))"

definition is_digit :: "char \<Rightarrow> bool" where
  "is_digit c \<longleftrightarrow> 48 \<le> (of_char c :: nat) \<and> (of_char c :: nat) \<le> 57"

definition digit_value :: "char \<Rightarrow> nat" where
  "digit_value c = of_char c - 48"

text \<open>\<open>Number(s)\<close> on a string of digits\<close>

definition digits_value :: "string \<Rightarrow> nat" where
  "digits_value s = foldl (\<lambda>n c. 10 * n + digit_value c) 0 s"

lemma digit_char_value: "d < 10 \<Longrightarrow> digit_value (digit_char d) = d"
  by (simp add: digit_value_def digit_char_def)

lemma digit_char_digit: "d < 10 \<Longrightarrow> is_digit (digit_char d)"
  by (simp add: is_digit_def digit_char_def)

lemma digits_value_snoc: "digits_value (s @ [c]) = 10 * digits_value s + digit_value c"
  by (simp add: digits_value_def)

lemma digits_value_show_nat: "digits_value (show_nat n) = n"
proof (induction n rule: show_nat.induct)
  case (1 n)
  show ?case
  proof (cases "n < 10")
    case True
    then show ?thesis
      by (subst show_nat.simps) (simp add: digits_value_def digit_char_value)
  next
    case False
    with 1 show ?thesis
      by (subst show_nat.simps) (simp add: digits_value_snoc digit_char_value)
  qed
qed

lemma show_nat_inj: "show_nat m = show_nat n \<Longrightarrow> m = n"
  by (metis digits_value_show_nat)

lemma show_nat_digits: "c \<in> set (show_nat n) \<Longrightarrow> is_digit c"
proof (induction n rule: show_nat.induct)
  case (1 n)
  then show ?case
    by (subst (asm) (2) show_nat.simps) (auto split: if_splits simp: digit_char_digit)
qed

lemma show_nat_not_Nil [simp]: "show_nat n \<noteq> []"
  by (subst show_nat.simps) simp

text \<open>\<open>s.padStart(2, "0")\<close>\<close>

definition padStart2 :: "string \<Rightarrow> string" where
  "padStart2 s = replicate (2 - length s) (CHR ''0'') @ s"

section \<open>Lists\<close>

text \<open>\<open>xs.indexOf(x)\<close>; the source's \<open>-1\<close> is \<open>None\<close>.\<close>

fun index_of :: "'a \<Rightarrow> 'a list \<Rightarrow> nat option" where
  "index_of x [] = None"
| "index_of x (y # ys) = (if y = x then Some 0 else map_option Suc (index_of x ys))"

lemma index_of_None_iff: "index_of x xs = None \<longleftrightarrow> x \<notin> set xs"
  by (induction xs) auto

lemma index_of_Some: "index_of x xs = Some i \<Longrightarrow> i < length xs \<and> xs ! i = x"
  by (induction xs arbitrary: i) (auto split: if_splits)

text \<open>\<open>xs.findIndex(p)\<close>\<close>

fun find_index :: "('a \<Rightarrow> bool) \<Rightarrow> 'a list \<Rightarrow> nat option" where
  "find_index p [] = None"
| "find_index p (y # ys) = (if p y then Some 0 else map_option Suc (find_index p ys))"

lemma find_index_Some:
  "find_index p xs = Some i \<Longrightarrow> i < length xs \<and> p (xs ! i) \<and> (\<forall>j < i. \<not> p (xs ! j))"
proof (induction xs arbitrary: i)
  case (Cons y ys)
  then show ?case
    by (cases "p y") (auto simp: less_Suc_eq_0_disj nth_Cons')
qed simp

lemma find_index_None_iff: "find_index p xs = None \<longleftrightarrow> (\<forall>x \<in> set xs. \<not> p x)"
  by (induction xs) auto

text \<open>\<open>xs.map((x, i) => f(x, i))\<close>\<close>

fun map_idx_from :: "nat \<Rightarrow> (nat \<Rightarrow> 'a \<Rightarrow> 'b) \<Rightarrow> 'a list \<Rightarrow> 'b list" where
  "map_idx_from i f [] = []"
| "map_idx_from i f (x # xs) = f i x # map_idx_from (Suc i) f xs"

abbreviation map_idx :: "(nat \<Rightarrow> 'a \<Rightarrow> 'b) \<Rightarrow> 'a list \<Rightarrow> 'b list" where
  "map_idx \<equiv> map_idx_from 0"

lemma length_map_idx [simp]: "length (map_idx_from i f xs) = length xs"
  by (induction xs arbitrary: i) auto

lemma map_map_idx [simp]: "map g (map_idx_from i f xs) = map_idx_from i (\<lambda>j x. g (f j x)) xs"
  by (induction xs arbitrary: i) auto

lemma map_idx_const: "map_idx_from i (\<lambda>_. f) xs = map f xs"
  by (induction xs arbitrary: i) auto

lemma map_idx_index: "map_idx_from i (\<lambda>j x. g j) xs = map g [i..<i + length xs]"
  by (induction xs arbitrary: i) (auto simp: upt_conv_Cons simp del: upt_Suc)

lemma nth_map_idx: "k < length xs \<Longrightarrow> map_idx_from i f xs ! k = f (i + k) (xs ! k)"
  by (induction xs arbitrary: i k) (auto simp: nth_Cons')

lemma set_map_idx: "y \<in> set (map_idx_from i f xs) \<longleftrightarrow> (\<exists>k < length xs. y = f (i + k) (xs ! k))"
  by (auto simp: in_set_conv_nth nth_map_idx)

text \<open>\<open>xs.filter(isDefined)\<close> after a map to optional values\<close>

lemma map_filter_id_SomeD: "y \<in> set (List.map_filter f xs) \<longleftrightarrow> (\<exists>x \<in> set xs. f x = Some y)"
  by (induction xs) (auto simp: List.map_filter_simps split: option.splits)

lemma map_filter_map_id:
  "(\<And>y. y \<in> set ys \<Longrightarrow> f (g y) = Some y) \<Longrightarrow> List.map_filter f (map g ys) = ys"
  by (induction ys) (simp_all add: List.map_filter_simps)

lemma length_map_filter: "length (List.map_filter f xs) \<le> length xs"
  by (induction xs) (auto simp: List.map_filter_simps split: option.splits)

end
