(* ===== verification/Domain.thy ===== *)
theory Domain
  imports Prelude
begin

text \<open>
  The data the two processes exchange: the types of \<open>shared/ipc.ts\<close> that the models
  use, and the plan item kinds of \<open>shared/planKinds.ts\<close> with the labels
  \<open>renderer/src/lib/planKinds.ts\<close> attaches to them. An optional field \<open>x?: T\<close> is a
  \<open>T option\<close>; a record over \<open>ScreenKey\<close> is a function on \<open>screenKey\<close>.
\<close>

section \<open>Screens\<close>

datatype screenKey = ScreenA | ScreenB | ScreenC

instantiation screenKey :: enum
begin

definition enum_screenKey :: "screenKey list" where
  "enum_screenKey = [ScreenA, ScreenB, ScreenC]"

definition enum_all_screenKey :: "(screenKey \<Rightarrow> bool) \<Rightarrow> bool" where
  "enum_all_screenKey P \<longleftrightarrow> P ScreenA \<and> P ScreenB \<and> P ScreenC"

definition enum_ex_screenKey :: "(screenKey \<Rightarrow> bool) \<Rightarrow> bool" where
  "enum_ex_screenKey P \<longleftrightarrow> P ScreenA \<or> P ScreenB \<or> P ScreenC"

instance
proof
  show "(UNIV :: screenKey set) = set enum_class.enum"
    by (auto simp: enum_screenKey_def intro: screenKey.exhaust)
  show "distinct (enum_class.enum :: screenKey list)"
    by (simp add: enum_screenKey_def)
  show "\<And>P. enum_class.enum_all P = Ball (UNIV :: screenKey set) P"
    by (auto simp: enum_all_screenKey_def) (metis screenKey.exhaust)
  show "\<And>P. enum_class.enum_ex P = Bex (UNIV :: screenKey set) P"
    by (auto simp: enum_ex_screenKey_def) (metis screenKey.exhaust)
qed

end

text \<open>The list \<open>["A", "B", "C"]\<close> that the loops over screens run through\<close>

definition SCREEN_KEYS :: "screenKey list" where
  "SCREEN_KEYS = [ScreenA, ScreenB, ScreenC]"

lemma all_screens: "(\<forall>k. P k) \<longleftrightarrow> P ScreenA \<and> P ScreenB \<and> P ScreenC"
  by (metis screenKey.exhaust)

lemma ex_screens: "(\<exists>k. P k) \<longleftrightarrow> P ScreenA \<or> P ScreenB \<or> P ScreenC"
  by (metis screenKey.exhaust)

lemma set_SCREEN_KEYS [simp]: "set SCREEN_KEYS = UNIV"
  by (auto simp: SCREEN_KEYS_def intro: screenKey.exhaust)

lemma distinct_SCREEN_KEYS [simp]: "distinct SCREEN_KEYS"
  by (simp add: SCREEN_KEYS_def)

datatype screenMirrorMode = FREE | MIRROR screenKey

datatype cpProjectionMode = NORMAL | BLACK | WHITE

datatype cpMediaType = IMAGE | PDF | VIDEO

datatype cpBackgroundFillMode = BG_SOLID | BG_GRADIENT_LINEAR | BG_GRADIENT_RADIAL

datatype cpForegroundFillMode = FG_SOLID | FG_GRADIENT

datatype cpLogoPosition = BottomRight | BottomLeft | TopRight | TopLeft | Center

section \<open>Projection state\<close>

record cpSongMeta =
  sm_title :: "string option"
  sm_artist :: "string option"
  sm_album :: "string option"
  sm_year :: "string option"

text \<open>One entry of \<open>secondaryTexts\<close>\<close>

record secondaryText =
  st_label :: string
  st_body :: string

record cpItemBackground =
  ib_background :: "string option"
  ib_backgroundMode :: "cpBackgroundFillMode option"
  ib_backgroundGradientFrom :: "string option"
  ib_backgroundGradientTo :: "string option"
  ib_backgroundGradientAngle :: "jsnum option"
  ib_backgroundMedia :: "string option"
  ib_backgroundMediaType :: "cpMediaType option"
  ib_foreground :: "string option"
  ib_foregroundMode :: "cpForegroundFillMode option"
  ib_foregroundGradientFrom :: "string option"
  ib_foregroundGradientTo :: "string option"

datatype currentKind = EMPTY | TEXT | MEDIA

record cpProjectionCurrent =
  pc_kind :: currentKind
  pc_title :: "string option"
  pc_body :: "string option"
  pc_mediaPath :: "string option"
  pc_mediaType :: "cpMediaType option"
  pc_metaSong :: "cpSongMeta option"
  pc_secondaryTexts :: "secondaryText list option"
  pc_backgroundOverride :: "cpItemBackground option"

definition emptyCurrent :: cpProjectionCurrent where
  "emptyCurrent = \<lparr>pc_kind = EMPTY, pc_title = None, pc_body = None, pc_mediaPath = None,
     pc_mediaType = None, pc_metaSong = None, pc_secondaryTexts = None,
     pc_backgroundOverride = None\<rparr>"

record cpProjectionState =
  ps_mode :: cpProjectionMode
  ps_lowerThirdEnabled :: bool
  ps_transitionEnabled :: bool
  ps_textScale :: jsnum
  ps_titleTextScale :: "jsnum option"
  ps_textFont :: string
  ps_textFontPath :: "string option"
  ps_background :: string
  ps_backgroundMode :: "cpBackgroundFillMode option"
  ps_backgroundGradientFrom :: "string option"
  ps_backgroundGradientTo :: "string option"
  ps_backgroundGradientAngle :: "jsnum option"
  ps_backgroundImage :: "string option"
  ps_logoPath :: "string option"
  ps_logoPosition :: "cpLogoPosition option"
  ps_logoOpacity :: "jsnum option"
  ps_logoScale :: "jsnum option"
  ps_foregroundMode :: "cpForegroundFillMode option"
  ps_foregroundGradientFrom :: "string option"
  ps_foregroundGradientTo :: "string option"
  ps_foreground :: string
  ps_current :: cpProjectionCurrent
  ps_updatedAt :: int

text \<open>
  The live state. The cursor is a JavaScript number: the remote command
  \<open>live:setCursor\<close> stores whatever number it is sent.
\<close>

record cpLiveState =
  lv_enabled :: bool
  lv_planId :: "string option"
  lv_cursor :: jsnum
  lv_target :: screenKey
  lv_black :: bool
  lv_white :: bool
  lv_lockedScreens :: "screenKey \<Rightarrow> bool"
  lv_updatedAt :: int

record cpProjectionSetAppearancePayload =
  ap_textScale :: "jsnum option"
  ap_titleTextScale :: "jsnum option"
  ap_textFont :: "string option"
  ap_textFontPath :: "string option"
  ap_background :: "string option"
  ap_backgroundMode :: "cpBackgroundFillMode option"
  ap_backgroundGradientFrom :: "string option"
  ap_backgroundGradientTo :: "string option"
  ap_backgroundGradientAngle :: "jsnum option"
  ap_backgroundImage :: "string option"
  ap_logoPath :: "string option"
  ap_logoPosition :: "cpLogoPosition option"
  ap_logoOpacity :: "jsnum option"
  ap_logoScale :: "jsnum option"
  ap_foregroundMode :: "cpForegroundFillMode option"
  ap_foregroundGradientFrom :: "string option"
  ap_foregroundGradientTo :: "string option"
  ap_foreground :: "string option"

definition emptyAppearance :: cpProjectionSetAppearancePayload where
  "emptyAppearance = \<lparr>ap_textScale = None, ap_titleTextScale = None, ap_textFont = None,
     ap_textFontPath = None, ap_background = None, ap_backgroundMode = None,
     ap_backgroundGradientFrom = None, ap_backgroundGradientTo = None,
     ap_backgroundGradientAngle = None, ap_backgroundImage = None, ap_logoPath = None,
     ap_logoPosition = None, ap_logoOpacity = None, ap_logoScale = None,
     ap_foregroundMode = None, ap_foregroundGradientFrom = None,
     ap_foregroundGradientTo = None, ap_foreground = None\<rparr>"

record cpProjectionSetTextPayload =
  tp_title :: "string option"
  tp_body :: string
  tp_metaSong :: "cpSongMeta option"
  tp_secondaryTexts :: "secondaryText list option"
  tp_backgroundOverride :: "cpItemBackground option"

record cpProjectionSetMediaPayload =
  mp_title :: "string option"
  mp_mediaPath :: string
  mp_mediaType :: cpMediaType

text \<open>
  The payload of \<open>live:set\<close>: a field is \<open>None\<close> when the key is absent;
  \<open>planId\<close> and \<open>cursor\<close> may be \<open>null\<close>, the inner \<open>None\<close>.
\<close>

record cpLiveSetPayload =
  ls_planId :: "string option option"
  ls_cursor :: "jsnum option option"
  ls_enabled :: "bool option"
  ls_target :: "screenKey option"
  ls_black :: "bool option"
  ls_white :: "bool option"

section \<open>Plan item kinds\<close>

datatype cpPlanItemKind =
    ANNOUNCEMENT_TEXT
  | ANNOUNCEMENT_IMAGE
  | ANNOUNCEMENT_PDF
  | ANNOUNCEMENT_VIDEO
  | VERSE_MANUAL
  | BIBLE_VERSE
  | BIBLE_PASSAGE
  | SONG_BLOCK
  | TIMER

definition CP_PLAN_ITEM_KIND_VALUES :: "(string \<times> cpPlanItemKind) list" where
  "CP_PLAN_ITEM_KIND_VALUES =
     [(''ANNOUNCEMENT_TEXT'', ANNOUNCEMENT_TEXT),
      (''ANNOUNCEMENT_IMAGE'', ANNOUNCEMENT_IMAGE),
      (''ANNOUNCEMENT_PDF'', ANNOUNCEMENT_PDF),
      (''ANNOUNCEMENT_VIDEO'', ANNOUNCEMENT_VIDEO),
      (''VERSE_MANUAL'', VERSE_MANUAL),
      (''BIBLE_VERSE'', BIBLE_VERSE),
      (''BIBLE_PASSAGE'', BIBLE_PASSAGE),
      (''SONG_BLOCK'', SONG_BLOCK),
      (''TIMER'', TIMER)]"

definition isCpPlanItemKind :: "string \<Rightarrow> cpPlanItemKind option" where
  "isCpPlanItemKind s = map_of CP_PLAN_ITEM_KIND_VALUES s"

fun kindName :: "cpPlanItemKind \<Rightarrow> string" where
  "kindName ANNOUNCEMENT_TEXT = ''ANNOUNCEMENT_TEXT''"
| "kindName ANNOUNCEMENT_IMAGE = ''ANNOUNCEMENT_IMAGE''"
| "kindName ANNOUNCEMENT_PDF = ''ANNOUNCEMENT_PDF''"
| "kindName ANNOUNCEMENT_VIDEO = ''ANNOUNCEMENT_VIDEO''"
| "kindName VERSE_MANUAL = ''VERSE_MANUAL''"
| "kindName BIBLE_VERSE = ''BIBLE_VERSE''"
| "kindName BIBLE_PASSAGE = ''BIBLE_PASSAGE''"
| "kindName SONG_BLOCK = ''SONG_BLOCK''"
| "kindName TIMER = ''TIMER''"

text \<open>The argument of the source is \<open>unknown\<close>: \<open>None\<close> stands for a value that is no string.\<close>

definition normalizeCpPlanItemKind :: "string option \<Rightarrow> cpPlanItemKind" where
  "normalizeCpPlanItemKind v =
     (case v of
        None \<Rightarrow> ANNOUNCEMENT_TEXT
      | Some s \<Rightarrow> (case isCpPlanItemKind s of Some k \<Rightarrow> k | None \<Rightarrow> ANNOUNCEMENT_TEXT))"

definition isBiblePlanItemKind :: "string \<Rightarrow> bool" where
  "isBiblePlanItemKind kind \<longleftrightarrow>
     kind = ''VERSE_MANUAL'' \<or> kind = ''BIBLE_VERSE'' \<or> kind = ''BIBLE_PASSAGE''"

definition isMediaPlanItemKind :: "string \<Rightarrow> bool" where
  "isMediaPlanItemKind kind \<longleftrightarrow>
     kind = ''ANNOUNCEMENT_IMAGE'' \<or> kind = ''ANNOUNCEMENT_PDF'' \<or> kind = ''ANNOUNCEMENT_VIDEO''"

abbreviation video_label :: string where
  "video_label \<equiv> ''Vid'' @ [CHR 0xE9] @ ''o''"

fun CP_PLAN_ITEM_KIND_LABELS :: "cpPlanItemKind \<Rightarrow> string" where
  "CP_PLAN_ITEM_KIND_LABELS ANNOUNCEMENT_TEXT = ''Annonce''"
| "CP_PLAN_ITEM_KIND_LABELS ANNOUNCEMENT_IMAGE = ''Image''"
| "CP_PLAN_ITEM_KIND_LABELS ANNOUNCEMENT_PDF = ''PDF''"
| "CP_PLAN_ITEM_KIND_LABELS ANNOUNCEMENT_VIDEO = video_label"
| "CP_PLAN_ITEM_KIND_LABELS VERSE_MANUAL = ''Verset''"
| "CP_PLAN_ITEM_KIND_LABELS BIBLE_VERSE = ''Verset''"
| "CP_PLAN_ITEM_KIND_LABELS BIBLE_PASSAGE = ''Passage''"
| "CP_PLAN_ITEM_KIND_LABELS SONG_BLOCK = ''Chant''"
| "CP_PLAN_ITEM_KIND_LABELS TIMER = ''Minuterie''"

fun CP_PLAN_ITEM_KIND_DEFAULT_TITLES :: "cpPlanItemKind \<Rightarrow> string" where
  "CP_PLAN_ITEM_KIND_DEFAULT_TITLES ANNOUNCEMENT_TEXT = ''Annonce''"
| "CP_PLAN_ITEM_KIND_DEFAULT_TITLES ANNOUNCEMENT_IMAGE = ''Image''"
| "CP_PLAN_ITEM_KIND_DEFAULT_TITLES ANNOUNCEMENT_PDF = ''PDF''"
| "CP_PLAN_ITEM_KIND_DEFAULT_TITLES ANNOUNCEMENT_VIDEO = video_label"
| "CP_PLAN_ITEM_KIND_DEFAULT_TITLES VERSE_MANUAL = ''Bible''"
| "CP_PLAN_ITEM_KIND_DEFAULT_TITLES BIBLE_VERSE = ''Bible''"
| "CP_PLAN_ITEM_KIND_DEFAULT_TITLES BIBLE_PASSAGE = ''Bible''"
| "CP_PLAN_ITEM_KIND_DEFAULT_TITLES SONG_BLOCK = ''Chant''"
| "CP_PLAN_ITEM_KIND_DEFAULT_TITLES TIMER = ''Minuterie''"

datatype planKindBadgeVariant = BadgeDefault | BadgeSecondary | BadgeOutline | BadgeDestructive

fun PLAN_KIND_BADGE_VARIANTS :: "cpPlanItemKind \<Rightarrow> planKindBadgeVariant" where
  "PLAN_KIND_BADGE_VARIANTS VERSE_MANUAL = BadgeSecondary"
| "PLAN_KIND_BADGE_VARIANTS BIBLE_VERSE = BadgeSecondary"
| "PLAN_KIND_BADGE_VARIANTS BIBLE_PASSAGE = BadgeSecondary"
| "PLAN_KIND_BADGE_VARIANTS SONG_BLOCK = BadgeDefault"
| "PLAN_KIND_BADGE_VARIANTS _ = BadgeOutline"

definition getPlanKindLabel :: "string \<Rightarrow> string" where
  "getPlanKindLabel kind =
     (case isCpPlanItemKind kind of Some k \<Rightarrow> CP_PLAN_ITEM_KIND_LABELS k | None \<Rightarrow> kind)"

definition getPlanKindDefaultTitle :: "string \<Rightarrow> string" where
  "getPlanKindDefaultTitle kind =
     (case isCpPlanItemKind kind of Some k \<Rightarrow> CP_PLAN_ITEM_KIND_DEFAULT_TITLES k | None \<Rightarrow> kind)"

definition getPlanKindBadgeVariant :: "string \<Rightarrow> planKindBadgeVariant" where
  "getPlanKindBadgeVariant kind =
     (case isCpPlanItemKind kind of Some k \<Rightarrow> PLAN_KIND_BADGE_VARIANTS k | None \<Rightarrow> BadgeOutline)"

text \<open>Names and kinds are in bijection.\<close>

lemma isCpPlanItemKind_kindName [simp]: "isCpPlanItemKind (kindName k) = Some k"
  by (cases k) (simp_all add: isCpPlanItemKind_def CP_PLAN_ITEM_KIND_VALUES_def)

lemma isCpPlanItemKind_Some: "isCpPlanItemKind s = Some k \<longleftrightarrow> s = kindName k"
proof
  assume "isCpPlanItemKind s = Some k"
  then have "(s, k) \<in> set CP_PLAN_ITEM_KIND_VALUES"
    unfolding isCpPlanItemKind_def by (rule map_of_SomeD)
  then show "s = kindName k"
    by (auto simp: CP_PLAN_ITEM_KIND_VALUES_def)
qed simp

lemma kindName_inj: "kindName k = kindName k' \<Longrightarrow> k = k'"
  by (metis isCpPlanItemKind_kindName option.inject)

lemma kindName_not_Nil [simp]: "kindName k \<noteq> []"
  by (cases k) simp_all

lemma trimmed_kindName [simp]: "trimmed (kindName k)"
  by (cases k) (simp_all add: trimmed_def js_space_def)

lemma normalizeCpPlanItemKind_kindName [simp]: "normalizeCpPlanItemKind (Some (kindName k)) = k"
  by (simp add: normalizeCpPlanItemKind_def)

end
