(* ===== verification/Screens.thy ===== *)
theory Screens
  imports Domain
begin

text \<open>
  \<open>main/ipc/screenState.ts\<close>: the projection state of the three screens, their mirror
  configuration and the live state, with the five content setters, \<open>setMirror\<close>,
  \<open>applyLiveProjectionMode\<close> and \<open>mergeLive\<close>. The context is passed through explicitly;
  what it broadcasts to the windows is appended to \<open>sent\<close>. \<open>now k\<close> is the value
  \<open>Date.now()\<close> returns when the state of screen \<open>k\<close> is written.

  The lemmas show the effect of every operation on every screen, the shared contract of
  the setters (locale \<open>content_setter\<close>), and the two invariants of the component:
  a screen that mirrors a free screen shows its picture, and the live state is never
  black and white at once.
\<close>

section \<open>The context\<close>

datatype broadcastMsg = ScreenMsg screenKey cpProjectionState | LiveMsg cpLiveState

record screenContext =
  screenStates :: "screenKey \<Rightarrow> cpProjectionState"
  mirrors :: "screenKey \<Rightarrow> screenMirrorMode"
  liveState :: cpLiveState
  sent :: "broadcastMsg list"

definition createDefaultProjectionState :: "int \<Rightarrow> cpProjectionState" where
  "createDefaultProjectionState t =
     \<lparr>ps_mode = NORMAL, ps_lowerThirdEnabled = False, ps_transitionEnabled = False,
      ps_textScale = IntNum 1, ps_titleTextScale = None, ps_textFont = ''system-ui'',
      ps_textFontPath = Some [], ps_background = ''#050505'', ps_backgroundMode = Some BG_SOLID,
      ps_backgroundGradientFrom = Some ''#2563eb'', ps_backgroundGradientTo = Some ''#7c3aed'',
      ps_backgroundGradientAngle = Some (IntNum 135), ps_backgroundImage = Some [],
      ps_logoPath = Some [], ps_logoPosition = Some TopRight, ps_logoOpacity = Some (IntNum 80),
      ps_logoScale = Some (IntNum 100), ps_foregroundMode = Some FG_SOLID,
      ps_foregroundGradientFrom = Some ''#ffffff'', ps_foregroundGradientTo = Some ''#93c5fd'',
      ps_foreground = ''#ffffff'', ps_current = emptyCurrent, ps_updatedAt = t\<rparr>"

definition createDefaultLiveState :: "int \<Rightarrow> cpLiveState" where
  "createDefaultLiveState t =
     \<lparr>lv_enabled = False, lv_planId = None, lv_cursor = IntNum 0, lv_target = ScreenA,
      lv_black = False, lv_white = False, lv_lockedScreens = (\<lambda>_. False), lv_updatedAt = t\<rparr>"

text \<open>The initial globals of \<open>main.ts\<close>: B and C mirror A.\<close>

definition initialMirrors :: "screenKey \<Rightarrow> screenMirrorMode" where
  "initialMirrors = (\<lambda>_. FREE)(ScreenB := MIRROR ScreenA, ScreenC := MIRROR ScreenA)"

definition initialContext :: "(screenKey \<Rightarrow> int) \<Rightarrow> int \<Rightarrow> screenContext" where
  "initialContext now t =
     \<lparr>screenStates = (\<lambda>k. createDefaultProjectionState (now k)), mirrors = initialMirrors,
      liveState = createDefaultLiveState t, sent = []\<rparr>"

definition broadcast :: "screenContext \<Rightarrow> screenKey \<Rightarrow> screenContext" where
  "broadcast ctx key = ctx\<lparr>sent := sent ctx @ [ScreenMsg key (screenStates ctx key)]\<rparr>"

definition broadcastLive :: "screenContext \<Rightarrow> screenContext" where
  "broadcastLive ctx = ctx\<lparr>sent := sent ctx @ [LiveMsg (liveState ctx)]\<rparr>"

definition setScreenState :: "screenContext \<Rightarrow> screenKey \<Rightarrow> cpProjectionState \<Rightarrow> screenContext" where
  "setScreenState ctx key s = ctx\<lparr>screenStates := (screenStates ctx)(key := s)\<rparr>"

section \<open>Mirror propagation\<close>

definition mirrorStep ::
  "(screenKey \<Rightarrow> int) \<Rightarrow> screenKey \<Rightarrow> screenContext \<Rightarrow> screenKey \<Rightarrow> screenContext" where
  "mirrorStep now source ctx k =
     (if k = source then ctx
      else (case mirrors ctx k of
              FREE \<Rightarrow> ctx
            | MIRROR from \<Rightarrow>
                if from = source
                then broadcast
                       (setScreenState ctx k ((screenStates ctx source)\<lparr>ps_updatedAt := now k\<rparr>)) k
                else ctx))"

definition applyMirrorsFrom ::
  "(screenKey \<Rightarrow> int) \<Rightarrow> screenContext \<Rightarrow> screenKey \<Rightarrow> screenContext" where
  "applyMirrorsFrom now ctx source = foldl (mirrorStep now source) ctx SCREEN_KEYS"

section \<open>Screen content mutations\<close>

datatype mutationReason = ReasonMirror | ReasonLocked

datatype screenMutationResult =
    MutationOk cpProjectionState
  | MutationErr mutationReason cpProjectionState

definition guardScreen :: "screenContext \<Rightarrow> screenKey \<Rightarrow> screenMutationResult option" where
  "guardScreen ctx key =
     (if mirrors ctx key \<noteq> FREE then Some (MutationErr ReasonMirror (screenStates ctx key))
      else if lv_lockedScreens (liveState ctx) key
           then Some (MutationErr ReasonLocked (screenStates ctx key))
      else None)"

text \<open>
  The tail the setters share: store the new state, broadcast it, propagate it to the
  mirrors and answer with the stored state.
\<close>

definition commitScreen ::
  "(screenKey \<Rightarrow> int) \<Rightarrow> screenContext \<Rightarrow> screenKey \<Rightarrow> cpProjectionState
     \<Rightarrow> screenContext \<times> screenMutationResult" where
  "commitScreen now ctx key s =
     (let ctx1 = setScreenState ctx key (s\<lparr>ps_updatedAt := now key\<rparr>);
          ctx2 = broadcast ctx1 key;
          ctx3 = applyMirrorsFrom now ctx2 key
      in (ctx3, MutationOk (screenStates ctx3 key)))"

definition setContentText ::
  "(screenKey \<Rightarrow> int) \<Rightarrow> screenContext \<Rightarrow> screenKey \<Rightarrow> cpProjectionSetTextPayload
     \<Rightarrow> screenContext \<times> screenMutationResult" where
  "setContentText now ctx key payload =
     (case guardScreen ctx key of
        Some err \<Rightarrow> (ctx, err)
      | None \<Rightarrow>
          commitScreen now ctx key
            ((screenStates ctx key)
               \<lparr>ps_mode := NORMAL,
                ps_current :=
                  \<lparr>pc_kind = TEXT, pc_title = tp_title payload, pc_body = Some (tp_body payload),
                   pc_mediaPath = None, pc_mediaType = None, pc_metaSong = tp_metaSong payload,
                   pc_secondaryTexts = tp_secondaryTexts payload,
                   pc_backgroundOverride = tp_backgroundOverride payload\<rparr>\<rparr>))"

definition setContentMedia ::
  "(screenKey \<Rightarrow> int) \<Rightarrow> screenContext \<Rightarrow> screenKey \<Rightarrow> cpProjectionSetMediaPayload
     \<Rightarrow> screenContext \<times> screenMutationResult" where
  "setContentMedia now ctx key payload =
     (case guardScreen ctx key of
        Some err \<Rightarrow> (ctx, err)
      | None \<Rightarrow>
          commitScreen now ctx key
            ((screenStates ctx key)
               \<lparr>ps_mode := NORMAL,
                ps_current :=
                  emptyCurrent\<lparr>pc_kind := MEDIA, pc_title := mp_title payload,
                    pc_mediaPath := Some (mp_mediaPath payload),
                    pc_mediaType := Some (mp_mediaType payload)\<rparr>\<rparr>))"

definition setMode ::
  "(screenKey \<Rightarrow> int) \<Rightarrow> screenContext \<Rightarrow> screenKey \<Rightarrow> cpProjectionMode
     \<Rightarrow> screenContext \<times> screenMutationResult" where
  "setMode now ctx key mode =
     (case guardScreen ctx key of
        Some err \<Rightarrow> (ctx, err)
      | None \<Rightarrow> commitScreen now ctx key ((screenStates ctx key)\<lparr>ps_mode := mode\<rparr>))"

text \<open>The appearance fields after a patch: \<open>patch.x ?? state.x ?? default\<close>\<close>

definition patchAppearance ::
  "cpProjectionSetAppearancePayload \<Rightarrow> cpProjectionState \<Rightarrow> cpProjectionState" where
  "patchAppearance p s =
     s\<lparr>ps_textScale := orElse (ap_textScale p) (ps_textScale s),
       ps_titleTextScale := orOption (ap_titleTextScale p) (ps_titleTextScale s),
       ps_textFont := orElse (ap_textFont p) (ps_textFont s),
       ps_textFontPath := Some (orElse (orOption (ap_textFontPath p) (ps_textFontPath s)) []),
       ps_background := orElse (ap_background p) (ps_background s),
       ps_backgroundMode :=
         Some (orElse (orOption (ap_backgroundMode p) (ps_backgroundMode s)) BG_SOLID),
       ps_backgroundGradientFrom :=
         Some (orElse (orOption (ap_backgroundGradientFrom p) (ps_backgroundGradientFrom s))
           ''#2563eb''),
       ps_backgroundGradientTo :=
         Some (orElse (orOption (ap_backgroundGradientTo p) (ps_backgroundGradientTo s))
           ''#7c3aed''),
       ps_backgroundGradientAngle :=
         Some (orElse (orOption (ap_backgroundGradientAngle p) (ps_backgroundGradientAngle s))
           (IntNum 135)),
       ps_backgroundImage :=
         Some (orElse (orOption (ap_backgroundImage p) (ps_backgroundImage s)) []),
       ps_logoPath := Some (orElse (orOption (ap_logoPath p) (ps_logoPath s)) []),
       ps_logoPosition :=
         Some (orElse (orOption (ap_logoPosition p) (ps_logoPosition s)) TopRight),
       ps_logoOpacity :=
         Some (orElse (orOption (ap_logoOpacity p) (ps_logoOpacity s)) (IntNum 80)),
       ps_logoScale :=
         Some (orElse (orOption (ap_logoScale p) (ps_logoScale s)) (IntNum 100)),
       ps_foregroundMode :=
         Some (orElse (orOption (ap_foregroundMode p) (ps_foregroundMode s)) FG_SOLID),
       ps_foregroundGradientFrom :=
         Some (orElse (orOption (ap_foregroundGradientFrom p) (ps_foregroundGradientFrom s))
           ''#ffffff''),
       ps_foregroundGradientTo :=
         Some (orElse (orOption (ap_foregroundGradientTo p) (ps_foregroundGradientTo s))
           ''#93c5fd''),
       ps_foreground := orElse (ap_foreground p) (ps_foreground s)\<rparr>"

definition setAppearance ::
  "(screenKey \<Rightarrow> int) \<Rightarrow> screenContext \<Rightarrow> screenKey \<Rightarrow> cpProjectionSetAppearancePayload
     \<Rightarrow> screenContext \<times> screenMutationResult" where
  "setAppearance now ctx key patch =
     (case guardScreen ctx key of
        Some err \<Rightarrow> (ctx, err)
      | None \<Rightarrow> commitScreen now ctx key (patchAppearance patch (screenStates ctx key)))"

text \<open>
  \<open>Partial<CpProjectionState>\<close> with the fields its parser can set; \<open>{...state, ...patch}\<close>
  takes every field the patch has.
\<close>

record projectionStatePatch =
  pp_mode :: "cpProjectionMode option"
  pp_lowerThirdEnabled :: "bool option"
  pp_transitionEnabled :: "bool option"
  pp_textScale :: "jsnum option"
  pp_textFont :: "string option"
  pp_textFontPath :: "string option"
  pp_background :: "string option"
  pp_backgroundMode :: "cpBackgroundFillMode option"
  pp_backgroundGradientFrom :: "string option"
  pp_backgroundGradientTo :: "string option"
  pp_backgroundGradientAngle :: "jsnum option"
  pp_foregroundMode :: "cpForegroundFillMode option"
  pp_foregroundGradientFrom :: "string option"
  pp_foregroundGradientTo :: "string option"
  pp_foreground :: "string option"
  pp_logoPath :: "string option"
  pp_current :: "cpProjectionCurrent option"

definition emptyStatePatch :: projectionStatePatch where
  "emptyStatePatch = \<lparr>pp_mode = None, pp_lowerThirdEnabled = None, pp_transitionEnabled = None,
     pp_textScale = None, pp_textFont = None, pp_textFontPath = None, pp_background = None,
     pp_backgroundMode = None, pp_backgroundGradientFrom = None, pp_backgroundGradientTo = None,
     pp_backgroundGradientAngle = None, pp_foregroundMode = None,
     pp_foregroundGradientFrom = None, pp_foregroundGradientTo = None, pp_foreground = None,
     pp_logoPath = None, pp_current = None\<rparr>"

definition patchState :: "projectionStatePatch \<Rightarrow> cpProjectionState \<Rightarrow> cpProjectionState" where
  "patchState p s =
     s\<lparr>ps_mode := orElse (pp_mode p) (ps_mode s),
       ps_lowerThirdEnabled := orElse (pp_lowerThirdEnabled p) (ps_lowerThirdEnabled s),
       ps_transitionEnabled := orElse (pp_transitionEnabled p) (ps_transitionEnabled s),
       ps_textScale := orElse (pp_textScale p) (ps_textScale s),
       ps_textFont := orElse (pp_textFont p) (ps_textFont s),
       ps_textFontPath := orOption (pp_textFontPath p) (ps_textFontPath s),
       ps_background := orElse (pp_background p) (ps_background s),
       ps_backgroundMode := orOption (pp_backgroundMode p) (ps_backgroundMode s),
       ps_backgroundGradientFrom :=
         orOption (pp_backgroundGradientFrom p) (ps_backgroundGradientFrom s),
       ps_backgroundGradientTo :=
         orOption (pp_backgroundGradientTo p) (ps_backgroundGradientTo s),
       ps_backgroundGradientAngle :=
         orOption (pp_backgroundGradientAngle p) (ps_backgroundGradientAngle s),
       ps_foregroundMode := orOption (pp_foregroundMode p) (ps_foregroundMode s),
       ps_foregroundGradientFrom :=
         orOption (pp_foregroundGradientFrom p) (ps_foregroundGradientFrom s),
       ps_foregroundGradientTo :=
         orOption (pp_foregroundGradientTo p) (ps_foregroundGradientTo s),
       ps_foreground := orElse (pp_foreground p) (ps_foreground s),
       ps_logoPath := orOption (pp_logoPath p) (ps_logoPath s),
       ps_current := orElse (pp_current p) (ps_current s)\<rparr>"

definition setStatePatch ::
  "(screenKey \<Rightarrow> int) \<Rightarrow> screenContext \<Rightarrow> screenKey \<Rightarrow> projectionStatePatch
     \<Rightarrow> screenContext \<times> screenMutationResult" where
  "setStatePatch now ctx key patch =
     (case guardScreen ctx key of
        Some err \<Rightarrow> (ctx, err)
      | None \<Rightarrow> commitScreen now ctx key (patchState patch (screenStates ctx key)))"

definition setMirror ::
  "(screenKey \<Rightarrow> int) \<Rightarrow> screenContext \<Rightarrow> screenKey \<Rightarrow> screenMirrorMode \<Rightarrow> screenContext" where
  "setMirror now ctx key mirror =
     (let ctx1 = ctx\<lparr>mirrors := (mirrors ctx)(key := mirror)\<rparr>
      in case mirror of
           FREE \<Rightarrow> ctx1
         | MIRROR from \<Rightarrow>
             broadcast (setScreenState ctx1 key ((screenStates ctx1 from)\<lparr>ps_updatedAt := now key\<rparr>))
               key)"

section \<open>Live state\<close>

text \<open>\<open>Partial<CpLiveState>\<close>; the inner option of \<open>lp_planId\<close> is \<open>string | null\<close>.\<close>

record livePatch =
  lp_enabled :: "bool option"
  lp_planId :: "string option option"
  lp_cursor :: "jsnum option"
  lp_target :: "screenKey option"
  lp_black :: "bool option"
  lp_white :: "bool option"
  lp_lockedScreens :: "(screenKey \<Rightarrow> bool) option"

definition emptyLivePatch :: livePatch where
  "emptyLivePatch = \<lparr>lp_enabled = None, lp_planId = None, lp_cursor = None, lp_target = None,
     lp_black = None, lp_white = None, lp_lockedScreens = None\<rparr>"

definition liveMode :: "cpLiveState \<Rightarrow> cpProjectionMode" where
  "liveMode lv = (if lv_black lv then BLACK else if lv_white lv then WHITE else NORMAL)"

definition applyLiveProjectionMode ::
  "(screenKey \<Rightarrow> int) \<Rightarrow> screenContext \<Rightarrow> screenContext" where
  "applyLiveProjectionMode now ctx =
     (let mode = liveMode (liveState ctx); key = lv_target (liveState ctx)
      in if lv_lockedScreens (liveState ctx) key then ctx
         else if mirrors ctx key \<noteq> FREE then ctx
         else
           let ctx1 = setScreenState ctx key
                        ((screenStates ctx key)\<lparr>ps_mode := mode, ps_updatedAt := now key\<rparr>);
               ctx2 = broadcast ctx1 key
           in applyMirrorsFrom now ctx2 key)"

text \<open>
  The merged live state: spread, mutual exclusion of black and white, clamping of the
  cursor. The source's last clamp, \<open>if (!next.target)\<close>, has no case here: a target is
  always one of the three screens.
\<close>

definition nextLive :: "int \<Rightarrow> cpLiveState \<Rightarrow> livePatch \<Rightarrow> cpLiveState" where
  "nextLive t lv patch =
     (let next = lv\<lparr>lv_enabled := orElse (lp_enabled patch) (lv_enabled lv),
                    lv_planId := orElse (lp_planId patch) (lv_planId lv),
                    lv_cursor := orElse (lp_cursor patch) (lv_cursor lv),
                    lv_target := orElse (lp_target patch) (lv_target lv),
                    lv_black := orElse (lp_black patch) (lv_black lv),
                    lv_white := orElse (lp_white patch) (lv_white lv),
                    lv_lockedScreens := orElse (lp_lockedScreens patch) (lv_lockedScreens lv),
                    lv_updatedAt := t\<rparr>;
          next = (if lp_black patch = Some True then next\<lparr>lv_white := False\<rparr> else next);
          next = (if lp_white patch = Some True then next\<lparr>lv_black := False\<rparr> else next)
      in if num_less (lv_cursor next) (IntNum 0) then next\<lparr>lv_cursor := IntNum 0\<rparr> else next)"

definition mergeLive ::
  "(screenKey \<Rightarrow> int) \<Rightarrow> int \<Rightarrow> screenContext \<Rightarrow> livePatch \<Rightarrow> screenContext \<times> cpLiveState" where
  "mergeLive now t ctx patch =
     (let ctx1 = ctx\<lparr>liveState := nextLive t (liveState ctx) patch\<rparr>;
          ctx2 = applyLiveProjectionMode now ctx1;
          ctx3 = broadcastLive ctx2
      in (ctx3, liveState ctx3))"

section \<open>Effects on the screens\<close>

lemma setScreenState_simps [simp]:
  "screenStates (setScreenState ctx k s) = (screenStates ctx)(k := s)"
  "mirrors (setScreenState ctx k s) = mirrors ctx"
  "liveState (setScreenState ctx k s) = liveState ctx"
  "sent (setScreenState ctx k s) = sent ctx"
  by (simp_all add: setScreenState_def)

lemma broadcast_simps [simp]:
  "screenStates (broadcast ctx k) = screenStates ctx"
  "mirrors (broadcast ctx k) = mirrors ctx"
  "liveState (broadcast ctx k) = liveState ctx"
  "screenStates (broadcastLive ctx) = screenStates ctx"
  "mirrors (broadcastLive ctx) = mirrors ctx"
  "liveState (broadcastLive ctx) = liveState ctx"
  by (simp_all add: broadcast_def broadcastLive_def)

lemma mirrorStep_frame [simp]:
  "mirrors (mirrorStep now source ctx k) = mirrors ctx"
  "liveState (mirrorStep now source ctx k) = liveState ctx"
  by (auto simp: mirrorStep_def split: screenMirrorMode.split)

lemma mirrorStep_states:
  "screenStates (mirrorStep now source ctx k) =
     (if k \<noteq> source \<and> mirrors ctx k = MIRROR source
      then (screenStates ctx)(k := (screenStates ctx source)\<lparr>ps_updatedAt := now k\<rparr>)
      else screenStates ctx)"
  by (auto simp: mirrorStep_def split: screenMirrorMode.split)

lemma foldl_mirrorStep_frame [simp]:
  "mirrors (foldl (mirrorStep now source) ctx ks) = mirrors ctx"
  "liveState (foldl (mirrorStep now source) ctx ks) = liveState ctx"
  by (induction ks arbitrary: ctx) simp_all

lemma foldl_mirrorStep_states:
  "screenStates (foldl (mirrorStep now source) ctx ks) k =
     (if k \<in> set ks \<and> k \<noteq> source \<and> mirrors ctx k = MIRROR source
      then (screenStates ctx source)\<lparr>ps_updatedAt := now k\<rparr> else screenStates ctx k)"
  by (induction ks arbitrary: ctx) (auto simp: mirrorStep_states)

lemma applyMirrorsFrom_frame [simp]:
  "mirrors (applyMirrorsFrom now ctx source) = mirrors ctx"
  "liveState (applyMirrorsFrom now ctx source) = liveState ctx"
  by (simp_all add: applyMirrorsFrom_def)

lemma applyMirrorsFrom_states:
  "screenStates (applyMirrorsFrom now ctx source) k =
     (if k \<noteq> source \<and> mirrors ctx k = MIRROR source
      then (screenStates ctx source)\<lparr>ps_updatedAt := now k\<rparr> else screenStates ctx k)"
  by (simp add: applyMirrorsFrom_def foldl_mirrorStep_states)

lemma commitScreen_frame [simp]:
  "mirrors (fst (commitScreen now ctx key s)) = mirrors ctx"
  "liveState (fst (commitScreen now ctx key s)) = liveState ctx"
  by (simp_all add: commitScreen_def Let_def)

lemma commitScreen_states:
  "screenStates (fst (commitScreen now ctx key s)) k =
     (if k = key \<or> mirrors ctx k = MIRROR key then s\<lparr>ps_updatedAt := now k\<rparr>
      else screenStates ctx k)"
  by (auto simp: commitScreen_def Let_def applyMirrorsFrom_states)

lemma commitScreen_result:
  "snd (commitScreen now ctx key s) = MutationOk (s\<lparr>ps_updatedAt := now key\<rparr>)"
  by (simp add: commitScreen_def Let_def applyMirrorsFrom_states)

lemma guardScreen_None_iff:
  "guardScreen ctx key = None \<longleftrightarrow>
     mirrors ctx key = FREE \<and> \<not> lv_lockedScreens (liveState ctx) key"
  by (simp add: guardScreen_def)

section \<open>Mirror coherence\<close>

text \<open>Two states with the same picture differ in their time stamp at most.\<close>

definition samePicture :: "cpProjectionState \<Rightarrow> cpProjectionState \<Rightarrow> bool" where
  "samePicture s u \<longleftrightarrow> s\<lparr>ps_updatedAt := 0\<rparr> = u\<lparr>ps_updatedAt := 0\<rparr>"

definition mirrorsCoherent :: "screenContext \<Rightarrow> bool" where
  "mirrorsCoherent ctx \<longleftrightarrow>
     (\<forall>k src. mirrors ctx k = MIRROR src \<longrightarrow> mirrors ctx src = FREE \<longrightarrow>
        samePicture (screenStates ctx k) (screenStates ctx src))"

lemma samePicture_refl [simp]: "samePicture s s"
  by (simp add: samePicture_def)

lemma samePicture_stamp [simp]:
  "samePicture (s\<lparr>ps_updatedAt := a\<rparr>) (s\<lparr>ps_updatedAt := b\<rparr>)"
  "samePicture (s\<lparr>ps_updatedAt := a\<rparr>) s"
  "samePicture s (s\<lparr>ps_updatedAt := a\<rparr>)"
  by (simp_all add: samePicture_def)

lemma samePicture_current: "samePicture s u \<Longrightarrow> ps_current s = ps_current u"
  unfolding samePicture_def
  by (drule arg_cong [where f = ps_current]) simp

lemma commitScreen_coherent:
  assumes "mirrorsCoherent ctx" and "mirrors ctx key = FREE"
  shows "mirrorsCoherent (fst (commitScreen now ctx key s))"
  using assms by (fastforce simp: mirrorsCoherent_def commitScreen_states)

section \<open>The contract of the content setters\<close>

text \<open>
  Five operations share one contract: refuse a mirroring or locked screen and leave the
  context alone, otherwise commit the screen's state changed by \<open>upd\<close>.
\<close>

locale content_setter =
  fixes setter :: "(screenKey \<Rightarrow> int) \<Rightarrow> screenContext \<Rightarrow> screenKey \<Rightarrow> 'p
                     \<Rightarrow> screenContext \<times> screenMutationResult"
    and upd :: "'p \<Rightarrow> cpProjectionState \<Rightarrow> cpProjectionState"
  assumes setter_refuses: "guardScreen ctx key = Some err \<Longrightarrow> setter now ctx key p = (ctx, err)"
    and setter_commits: "guardScreen ctx key = None \<Longrightarrow>
          setter now ctx key p = commitScreen now ctx key (upd p (screenStates ctx key))"
begin

lemma setter_cases:
  obtains (refused) err where "guardScreen ctx key = Some err" "setter now ctx key p = (ctx, err)"
  | (committed) "mirrors ctx key = FREE" "\<not> lv_lockedScreens (liveState ctx) key"
      "setter now ctx key p = commitScreen now ctx key (upd p (screenStates ctx key))"
  by (cases "guardScreen ctx key")
    (auto simp: setter_refuses setter_commits guardScreen_None_iff)

lemma setter_frame:
  "mirrors (fst (setter now ctx key p)) = mirrors ctx"
  "liveState (fst (setter now ctx key p)) = liveState ctx"
  by (cases rule: setter_cases [of ctx key now p]; simp)+

lemma setter_coherent: "mirrorsCoherent ctx \<Longrightarrow> mirrorsCoherent (fst (setter now ctx key p))"
  by (cases rule: setter_cases [of ctx key now p]) (simp_all add: commitScreen_coherent)

lemma setter_locked_mirror_refused:
  assumes "mirrors ctx key \<noteq> FREE \<or> lv_lockedScreens (liveState ctx) key"
  shows "fst (setter now ctx key p) = ctx"
    and "\<exists>reason. snd (setter now ctx key p) = MutationErr reason (screenStates ctx key)"
proof -
  obtain reason where "guardScreen ctx key = Some (MutationErr reason (screenStates ctx key))"
    using assms by (cases "mirrors ctx key = FREE") (auto simp: guardScreen_def)
  then have "setter now ctx key p = (ctx, MutationErr reason (screenStates ctx key))"
    by (rule setter_refuses)
  then show "fst (setter now ctx key p) = ctx"
    and "\<exists>reason. snd (setter now ctx key p) = MutationErr reason (screenStates ctx key)"
    by simp_all
qed

lemma setter_screens:
  assumes "mirrors ctx key = FREE" and "\<not> lv_lockedScreens (liveState ctx) key"
  shows "screenStates (fst (setter now ctx key p)) k =
           (if k = key \<or> mirrors ctx k = MIRROR key
            then (upd p (screenStates ctx key))\<lparr>ps_updatedAt := now k\<rparr>
            else screenStates ctx k)"
  using assms by (simp add: setter_commits guardScreen_None_iff commitScreen_states)

end

definition textUpdate :: "cpProjectionSetTextPayload \<Rightarrow> cpProjectionState \<Rightarrow> cpProjectionState" where
  "textUpdate payload s =
     s\<lparr>ps_mode := NORMAL,
       ps_current :=
         \<lparr>pc_kind = TEXT, pc_title = tp_title payload, pc_body = Some (tp_body payload),
          pc_mediaPath = None, pc_mediaType = None, pc_metaSong = tp_metaSong payload,
          pc_secondaryTexts = tp_secondaryTexts payload,
          pc_backgroundOverride = tp_backgroundOverride payload\<rparr>\<rparr>"

definition mediaUpdate :: "cpProjectionSetMediaPayload \<Rightarrow> cpProjectionState \<Rightarrow> cpProjectionState" where
  "mediaUpdate payload s =
     s\<lparr>ps_mode := NORMAL,
       ps_current :=
         emptyCurrent\<lparr>pc_kind := MEDIA, pc_title := mp_title payload,
           pc_mediaPath := Some (mp_mediaPath payload),
           pc_mediaType := Some (mp_mediaType payload)\<rparr>\<rparr>"

interpretation txtset: content_setter setContentText textUpdate
  by unfold_locales (simp_all add: setContentText_def textUpdate_def)

interpretation mediaset: content_setter setContentMedia mediaUpdate
  by unfold_locales (simp_all add: setContentMedia_def mediaUpdate_def)

interpretation modeset: content_setter setMode "\<lambda>mode s. s\<lparr>ps_mode := mode\<rparr>"
  by unfold_locales (simp_all add: setMode_def)

interpretation appset: content_setter setAppearance patchAppearance
  by unfold_locales (simp_all add: setAppearance_def)

interpretation patchset: content_setter setStatePatch patchState
  by unfold_locales (simp_all add: setStatePatch_def)

section \<open>The machine of screen operations\<close>

text \<open>
  The operations on the context of the screen and live handlers of \<open>main.ts\<close> and of the remote
  commands. Two other parts change the states and mirrors directly: the settings that are applied at
  the start, and a profile that is activated (\<open>applyProfileToRuntime\<close>); the theory of the profiles
  has them.
\<close>

datatype screenOp =
    OpText screenKey cpProjectionSetTextPayload
  | OpMedia screenKey cpProjectionSetMediaPayload
  | OpMode screenKey cpProjectionMode
  | OpAppearance screenKey cpProjectionSetAppearancePayload
  | OpPatch screenKey projectionStatePatch
  | OpMirror screenKey screenMirrorMode
  | OpLive livePatch

inductive screenStep :: "screenOp \<Rightarrow> screenContext \<Rightarrow> screenContext \<Rightarrow> bool" where
  step_text: "screenStep (OpText key p) ctx (fst (setContentText now ctx key p))"
| step_media: "screenStep (OpMedia key q) ctx (fst (setContentMedia now ctx key q))"
| step_mode: "screenStep (OpMode key m) ctx (fst (setMode now ctx key m))"
| step_appearance: "screenStep (OpAppearance key a) ctx (fst (setAppearance now ctx key a))"
| step_patch: "screenStep (OpPatch key d) ctx (fst (setStatePatch now ctx key d))"
| step_mirror: "screenStep (OpMirror key r) ctx (setMirror now ctx key r)"
| step_live: "screenStep (OpLive l) ctx (fst (mergeLive now t ctx l))"

inductive_cases screenStepE: "screenStep op ctx ctx'"
inductive_simps screenStep_mirror_iff: "screenStep (OpMirror key r) ctx ctx'"

text \<open>
  The contexts reachable from start-up by operations that \<open>allowed\<close> permits in the
  context where they happen.
\<close>

inductive screensReachable ::
  "(screenContext \<Rightarrow> screenOp \<Rightarrow> bool) \<Rightarrow> screenContext \<Rightarrow> bool"
  for allowed where
  reach_start: "screensReachable allowed (initialContext now t)"
| reach_step: "screensReachable allowed ctx \<Longrightarrow> allowed ctx op \<Longrightarrow> screenStep op ctx ctx'
    \<Longrightarrow> screensReachable allowed ctx'"

text \<open>
  The one operation that breaks coherence: a screen that mirrors another one and has
  followers of its own is set free.
\<close>

fun releasesFollowed :: "screenContext \<Rightarrow> screenOp \<Rightarrow> bool" where
  "releasesFollowed ctx (OpMirror key FREE) =
     (mirrors ctx key \<noteq> FREE \<and> (\<exists>k. mirrors ctx k = MIRROR key))"
| "releasesFollowed ctx _ = False"

lemma setMirror_simps [simp]:
  "mirrors (setMirror now ctx key m) = (mirrors ctx)(key := m)"
  "liveState (setMirror now ctx key m) = liveState ctx"
  "screenStates (setMirror now ctx key m) =
     (case m of FREE \<Rightarrow> screenStates ctx
      | MIRROR from \<Rightarrow>
          (screenStates ctx)(key := (screenStates ctx from)\<lparr>ps_updatedAt := now key\<rparr>))"
  by (simp_all add: setMirror_def Let_def split: screenMirrorMode.split)

lemma setMirror_coherent:
  assumes "mirrorsCoherent ctx" and "\<not> releasesFollowed ctx (OpMirror key m)"
  shows "mirrorsCoherent (setMirror now ctx key m)"
proof (cases m)
  case FREE
  then show ?thesis
    using assms by (auto simp: mirrorsCoherent_def)
next
  case (MIRROR src)
  then show ?thesis
    using assms(1) by (auto simp: mirrorsCoherent_def split: if_splits)
qed

lemma applyLive_frame [simp]:
  "mirrors (applyLiveProjectionMode now ctx) = mirrors ctx"
  "liveState (applyLiveProjectionMode now ctx) = liveState ctx"
  by (simp_all add: applyLiveProjectionMode_def Let_def)

lemma applyLive_states:
  "screenStates (applyLiveProjectionMode now ctx) k =
     (let key = lv_target (liveState ctx)
      in if \<not> lv_lockedScreens (liveState ctx) key \<and> mirrors ctx key = FREE
            \<and> (k = key \<or> mirrors ctx k = MIRROR key)
         then (screenStates ctx key)\<lparr>ps_mode := liveMode (liveState ctx), ps_updatedAt := now k\<rparr>
         else screenStates ctx k)"
  by (auto simp: applyLiveProjectionMode_def Let_def applyMirrorsFrom_states)

lemma applyLive_coherent:
  "mirrorsCoherent ctx \<Longrightarrow> mirrorsCoherent (applyLiveProjectionMode now ctx)"
  by (fastforce simp: mirrorsCoherent_def applyLive_states Let_def)

lemma mergeLive_simps [simp]:
  "mirrors (fst (mergeLive now t ctx p)) = mirrors ctx"
  "liveState (fst (mergeLive now t ctx p)) = nextLive t (liveState ctx) p"
  "snd (mergeLive now t ctx p) = nextLive t (liveState ctx) p"
  "screenStates (fst (mergeLive now t ctx p)) =
     screenStates (applyLiveProjectionMode now (ctx\<lparr>liveState := nextLive t (liveState ctx) p\<rparr>))"
  by (simp_all add: mergeLive_def Let_def)

lemma mergeLive_coherent:
  assumes "mirrorsCoherent ctx"
  shows "mirrorsCoherent (fst (mergeLive now t ctx p))"
proof -
  have "mirrorsCoherent (ctx\<lparr>liveState := nextLive t (liveState ctx) p\<rparr>)"
    using assms by (simp add: mirrorsCoherent_def)
  then have "mirrorsCoherent
      (applyLiveProjectionMode now (ctx\<lparr>liveState := nextLive t (liveState ctx) p\<rparr>))"
    by (rule applyLive_coherent)
  then show ?thesis
    by (simp add: mirrorsCoherent_def)
qed

lemma screenStep_coherent:
  assumes "screenStep op ctx ctx'" and "\<not> releasesFollowed ctx op" and "mirrorsCoherent ctx"
  shows "mirrorsCoherent ctx'"
  using assms
  by cases (simp_all add: txtset.setter_coherent mediaset.setter_coherent modeset.setter_coherent
      appset.setter_coherent patchset.setter_coherent setMirror_coherent mergeLive_coherent)

lemma initialContext_coherent: "mirrorsCoherent (initialContext now t)"
  by (simp add: mirrorsCoherent_def initialContext_def samePicture_def
      createDefaultProjectionState_def)

section \<open>The live state\<close>

definition liveOk :: "cpLiveState \<Rightarrow> bool" where
  "liveOk lv \<longleftrightarrow> \<not> (lv_black lv \<and> lv_white lv) \<and> \<not> num_less (lv_cursor lv) (IntNum 0)"

lemma nextLive_ok: "liveOk lv \<Longrightarrow> liveOk (nextLive t lv p)"
  by (auto simp: liveOk_def nextLive_def Let_def orElse_def split: option.splits)

lemma setters_live [simp]:
  "liveState (fst (setContentText now ctx key p)) = liveState ctx"
  "liveState (fst (setContentMedia now ctx key q)) = liveState ctx"
  "liveState (fst (setMode now ctx key m)) = liveState ctx"
  "liveState (fst (setAppearance now ctx key a)) = liveState ctx"
  "liveState (fst (setStatePatch now ctx key d)) = liveState ctx"
  by (simp_all add: txtset.setter_frame mediaset.setter_frame modeset.setter_frame
      appset.setter_frame patchset.setter_frame)

lemma screenStep_liveOk:
  "screenStep op ctx ctx' \<Longrightarrow> liveOk (liveState ctx) \<Longrightarrow> liveOk (liveState ctx')"
  by (erule screenStepE) (simp_all add: nextLive_ok)

lemma initialContext_liveOk: "liveOk (liveState (initialContext now t))"
  by (simp add: liveOk_def initialContext_def createDefaultLiveState_def)

section \<open>Properties\<close>

text \<open>Sample data for the witnesses: the context at start-up, with A free and unlocked.\<close>

definition sampleContext :: screenContext where
  "sampleContext = initialContext (\<lambda>_. 0) 0"

definition sampleText :: "string \<Rightarrow> cpProjectionSetTextPayload" where
  "sampleText body = \<lparr>tp_title = None, tp_body = body, tp_metaSong = None,
     tp_secondaryTexts = None, tp_backgroundOverride = None\<rparr>"

lemmas sample_defs = sampleContext_def sampleText_def initialContext_def initialMirrors_def
  createDefaultProjectionState_def createDefaultLiveState_def emptyCurrent_def

definition refused :: "screenContext \<Rightarrow> screenKey \<Rightarrow> screenContext \<times> screenMutationResult \<Rightarrow> bool" where
  "refused ctx key r \<longleftrightarrow>
     fst r = ctx \<and> (\<exists>reason. snd r = MutationErr reason (screenStates ctx key))"

text \<open>
  C17: A screen that mirrors another one, or that is locked, refuses all five content
  operations: each answers with an error that carries the screen's present state, and
  leaves the whole context (every screen, the mirrors, the live state, the broadcasts)
  as it was.
\<close>
theorem setters_refuse:
  assumes "mirrors ctx key \<noteq> FREE \<or> lv_lockedScreens (liveState ctx) key"
  shows "refused ctx key (setContentText now ctx key tp)
       \<and> refused ctx key (setContentMedia now ctx key mp)
       \<and> refused ctx key (setMode now ctx key m)
       \<and> refused ctx key (setAppearance now ctx key ap)
       \<and> refused ctx key (setStatePatch now ctx key pp)"
  by (simp add: refused_def txtset.setter_locked_mirror_refused [OF assms]
      mediaset.setter_locked_mirror_refused [OF assms]
      modeset.setter_locked_mirror_refused [OF assms]
      appset.setter_locked_mirror_refused [OF assms]
      patchset.setter_locked_mirror_refused [OF assms])

theorem setters_refuse_witness:
  "refused sampleContext ScreenB (setContentText (\<lambda>_. 1) sampleContext ScreenB (sampleText ''x''))"
  by (rule setters_refuse [THEN conjunct1]) (simp add: sample_defs)

text \<open>
  Projecting a text on a free, unlocked screen puts it, in mode \<open>NORMAL\<close>, on that screen
  and on every screen that mirrors it, and on no other; each of those keeps the appearance
  of the addressed screen and gets its own time stamp. The answer carries the stored state.
  Mirrors and live state do not change.
\<close>
theorem text_reaches_followers:
  fixes tp :: cpProjectionSetTextPayload
  assumes "mirrors ctx key = FREE" and "\<not> lv_lockedScreens (liveState ctx) key"
  shows "let r = setContentText now ctx key tp in
         (\<forall>k. screenStates (fst r) k =
            (if k = key \<or> mirrors ctx k = MIRROR key
             then (textUpdate tp (screenStates ctx key))\<lparr>ps_updatedAt := now k\<rparr>
             else screenStates ctx k))
       \<and> snd r = MutationOk (screenStates (fst r) key)
       \<and> mirrors (fst r) = mirrors ctx \<and> liveState (fst r) = liveState ctx"
  using assms
  by (simp add: Let_def txtset.setter_screens txtset.setter_frame txtset.setter_commits
      guardScreen_None_iff commitScreen_result commitScreen_states)

theorem text_reaches_followers_witness:
  "pc_body (ps_current (screenStates
     (fst (setContentText (\<lambda>_. 1) sampleContext ScreenA (sampleText ''x''))) ScreenC)) = Some ''x''"
  by (subst text_reaches_followers [unfolded Let_def, THEN conjunct1, THEN spec])
    (simp_all add: sample_defs textUpdate_def)

text \<open>
  C21: Whatever sequence of operations of the screen and live handlers runs from free screens, as
  long as it never frees a mirroring screen that has followers of its own, every screen that mirrors
  a free screen shows that screen's picture. Profiles and the settings of the start, which set
  states and mirrors directly, are not among the operations.
\<close>
theorem mirrors_stay_coherent:
  assumes "screensReachable (\<lambda>ctx op. \<not> releasesFollowed ctx op) ctx"
  shows "mirrorsCoherent ctx"
  using assms
proof (induction rule: screensReachable.induct)
  case (reach_start now t)
  show ?case by (rule initialContext_coherent)
next
  case (reach_step ctx op ctx')
  then show ?case by (blast intro: screenStep_coherent)
qed

theorem mirrors_stay_coherent_witness:
  "mirrorsCoherent (fst (setContentText (\<lambda>_. 1) sampleContext ScreenA (sampleText ''x'')))"
proof (rule mirrors_stay_coherent)
  show "screensReachable (\<lambda>ctx op. \<not> releasesFollowed ctx op)
      (fst (setContentText (\<lambda>_. 1) sampleContext ScreenA (sampleText ''x'')))"
    unfolding sampleContext_def
    by (rule reach_step [OF reach_start _ step_text]) simp
qed

text \<open>
  Without that restriction coherence fails. Let C mirror B while B mirrors A: a text sent
  to A reaches B, but not C, because propagation is not transitive. When B is then set
  free, C mirrors a free screen and still shows the old picture.
\<close>
theorem chained_mirror_left_stale:
  "\<exists>ctx. screensReachable (\<lambda>_ _. True) ctx \<and> \<not> mirrorsCoherent ctx"
proof -
  define c1 where "c1 = setMirror (\<lambda>_. 1) sampleContext ScreenC (MIRROR ScreenB)"
  define c2 where "c2 = fst (setContentText (\<lambda>_. 2) c1 ScreenA (sampleText ''x''))"
  define c3 where "c3 = setMirror (\<lambda>_. 3) c2 ScreenB FREE"
  have r0: "screensReachable (\<lambda>_ _. True) sampleContext"
    unfolding sampleContext_def by (rule reach_start)
  have r1: "screensReachable (\<lambda>_ _. True) c1"
    unfolding c1_def by (rule reach_step [OF r0 _ step_mirror]) simp
  have r2: "screensReachable (\<lambda>_ _. True) c2"
    unfolding c2_def by (rule reach_step [OF r1 _ step_text]) simp
  have r3: "screensReachable (\<lambda>_ _. True) c3"
    unfolding c3_def by (rule reach_step [OF r2 _ step_mirror]) simp
  have m1: "mirrors c1 = initialMirrors(ScreenC := MIRROR ScreenB)"
    and l1: "liveState c1 = createDefaultLiveState 0"
    by (simp_all add: c1_def sampleContext_def initialContext_def)
  have "mirrors c3 ScreenC = MIRROR ScreenB" and "mirrors c3 ScreenB = FREE"
    by (simp_all add: c3_def c2_def m1 txtset.setter_frame)
  moreover have "pc_body (ps_current (screenStates c3 ScreenB)) = Some ''x''"
    by (simp add: c3_def c2_def txtset.setter_screens m1 l1 textUpdate_def
        initialMirrors_def createDefaultLiveState_def sampleText_def)
  moreover have "pc_body (ps_current (screenStates c3 ScreenC)) = None"
  proof -
    have "screenStates c3 ScreenC = screenStates c1 ScreenC"
      by (simp add: c3_def c2_def txtset.setter_screens m1 l1
          initialMirrors_def createDefaultLiveState_def)
    then show ?thesis
      by (simp add: c1_def sample_defs)
  qed
  ultimately have "\<not> mirrorsCoherent c3"
    using samePicture_current unfolding mirrorsCoherent_def by force
  with r3 show ?thesis by blast
qed

text \<open>
  In every reachable context the live state is not black and white at once, and its
  cursor is not negative, whatever the operations were.
\<close>
theorem live_state_exclusive:
  assumes "screensReachable allowed ctx"
  shows "\<not> (lv_black (liveState ctx) \<and> lv_white (liveState ctx))
       \<and> \<not> num_less (lv_cursor (liveState ctx)) (IntNum 0)"
proof -
  have "liveOk (liveState ctx)"
    using assms
  proof (induction rule: screensReachable.induct)
    case (reach_start now t)
    show ?case by (rule initialContext_liveOk)
  next
    case (reach_step ctx op ctx')
    then show ?case by (blast intro: screenStep_liveOk)
  qed
  then show ?thesis by (simp add: liveOk_def)
qed

theorem live_state_exclusive_witness:
  "\<not> (lv_black (liveState sampleContext) \<and> lv_white (liveState sampleContext))"
  using live_state_exclusive [of "\<lambda>_ _. True" sampleContext] reach_start
  unfolding sampleContext_def by blast

text \<open>
  After any change of the live state, the target screen, when it is free and unlocked,
  and the screens that mirror it show the target's content in the mode the new flags ask for:
  black before white before normal. Every other screen is untouched.
\<close>
theorem live_change_sets_target_mode:
  "let lv = nextLive t (liveState ctx) p; key = lv_target lv in
   screenStates (fst (mergeLive now t ctx p)) k =
     (if mirrors ctx key = FREE \<and> \<not> lv_lockedScreens lv key
         \<and> (k = key \<or> mirrors ctx k = MIRROR key)
      then (screenStates ctx key)
             \<lparr>ps_mode := (if lv_black lv then BLACK
                           else if lv_white lv then WHITE else NORMAL),
              ps_updatedAt := now k\<rparr>
      else screenStates ctx k)"
  by (auto simp: applyLive_states Let_def liveMode_def)

text \<open>
  A patch that asks for black and white together gets neither: each flag switches the
  other one off.
\<close>
theorem black_and_white_together_is_neither:
  assumes "lp_black p = Some True" and "lp_white p = Some True"
  shows "\<not> lv_black (nextLive t lv p) \<and> \<not> lv_white (nextLive t lv p)"
  using assms by (simp add: nextLive_def Let_def)

theorem black_and_white_together_is_neither_witness:
  "\<not> lv_black (nextLive 1 (createDefaultLiveState 0)
       (emptyLivePatch\<lparr>lp_black := Some True, lp_white := Some True\<rparr>))"
  by (rule black_and_white_together_is_neither [THEN conjunct1]) simp_all

text \<open>
  A lock does not protect a mirroring screen: with B locked and mirroring A, a text sent
  to A still changes what B shows.
\<close>
theorem locked_follower_still_changes:
  assumes "mirrors ctx src = FREE" and "\<not> lv_lockedScreens (liveState ctx) src"
    and "mirrors ctx k = MIRROR src" and "lv_lockedScreens (liveState ctx) k"
  shows "ps_current (screenStates (fst (setContentText now ctx src tp)) k)
           = ps_current (textUpdate tp (screenStates ctx src))"
  using assms by (simp add: txtset.setter_screens)

theorem locked_follower_still_changes_witness:
  "pc_body (ps_current (screenStates (fst (setContentText (\<lambda>_. 1)
      (sampleContext\<lparr>liveState := (createDefaultLiveState 0)
         \<lparr>lv_lockedScreens := (\<lambda>k. k = ScreenB)\<rparr>\<rparr>)
      ScreenA (sampleText ''x''))) ScreenB)) = Some ''x''"
  by (subst locked_follower_still_changes) (simp_all add: sample_defs textUpdate_def)

end
