(* ===== verification/Validation.thy ===== *)
theory Validation
  imports Screens
begin

text \<open>
  The validation of everything the windows and remote clients send:
  \<open>main/ipc/runtimeValidation.ts\<close>. A payload of type \<open>unknown\<close> is a \<open>jsval\<close>;
  \<open>invalid(message)\<close> is \<open>Inl\<close> of the error's message. The option objects of
  \<open>expectString\<close> and its relatives are arguments. An enumeration of strings is a table
  that gives each string its constructor.
\<close>

section \<open>Elementary checks\<close>

fun typeOf :: "jsval \<Rightarrow> string" where
  "typeOf JUndef = ''undefined''"
| "typeOf JNull = ''null''"
| "typeOf (JBool _) = ''boolean''"
| "typeOf (JNum _) = ''number''"
| "typeOf (JStr _) = ''string''"
| "typeOf (JArr _) = ''array''"
| "typeOf (JObj _) = ''object''"

definition invalid :: "string \<Rightarrow> 'a result" where
  "invalid message = Inl (''Invalid payload: '' @ message)"

fun expectRecord :: "jsval \<Rightarrow> string \<Rightarrow> (string \<times> jsval) list result" where
  "expectRecord (JObj rec) label = Inr rec"
| "expectRecord _ label = invalid (label @ '' must be an object'')"

fun expectArray :: "jsval \<Rightarrow> string \<Rightarrow> jsval list result" where
  "expectArray (JArr xs) label = Inr xs"
| "expectArray _ label = invalid (label @ '' must be an array'')"

definition expectString :: "bool \<Rightarrow> bool \<Rightarrow> jsval \<Rightarrow> string \<Rightarrow> string result" where
  "expectString trims allowEmpty value label =
     (case value of
        JStr s \<Rightarrow>
          (let trimmed = if trims then trim s else s
           in if \<not> allowEmpty \<and> trimmed = []
              then invalid (label @ '' must not be empty'') else Inr trimmed)
      | _ \<Rightarrow> invalid (label @ '' must be a string (got '' @ typeOf value @ '')''))"

text \<open>\<open>expectString(value, label)\<close> without options\<close>

abbreviation expectText :: "jsval \<Rightarrow> string \<Rightarrow> string result" where
  "expectText \<equiv> expectString True False"

definition expectOptionalString ::
  "bool \<Rightarrow> bool \<Rightarrow> bool \<Rightarrow> jsval \<Rightarrow> string \<Rightarrow> string option result" where
  "expectOptionalString trims allowEmpty emptyAsUndefined value label =
     (if is_nullish value then Inr None
      else andThen (expectString trims True value label) (\<lambda>str.
        if str \<noteq> [] then Inr (Some str)
        else if allowEmpty then Inr (Some str)
        else if emptyAsUndefined then Inr None
        else invalid (label @ '' must not be empty'')))"

text \<open>The two ways the parsers call it: without options, and \<open>{trim: false, allowEmpty: true}\<close>\<close>

abbreviation optionalText :: "jsval \<Rightarrow> string \<Rightarrow> string option result" where
  "optionalText \<equiv> expectOptionalString True False True"

abbreviation optionalRaw :: "jsval \<Rightarrow> string \<Rightarrow> string option result" where
  "optionalRaw \<equiv> expectOptionalString False True True"

fun expectBoolean :: "jsval \<Rightarrow> string \<Rightarrow> bool result" where
  "expectBoolean (JBool b) label = Inr b"
| "expectBoolean _ label = invalid (label @ '' must be a boolean'')"

definition expectNumber ::
  "bool \<Rightarrow> int option \<Rightarrow> int option \<Rightarrow> jsval \<Rightarrow> string \<Rightarrow> jsnum result" where
  "expectNumber integer mn mx value label =
     (case value of
        JNum n \<Rightarrow>
          if \<not> num_isFinite n then invalid (label @ '' must be a finite number'')
          else if integer \<and> \<not> num_isInteger n then invalid (label @ '' must be an integer'')
          else if (case mn of None \<Rightarrow> False | Some m \<Rightarrow> num_less n (IntNum m))
          then invalid (label @ '' must be >= '' @ (case mn of None \<Rightarrow> [] | Some m \<Rightarrow> show_int m))
          else if (case mx of None \<Rightarrow> False | Some m \<Rightarrow> num_less (IntNum m) n)
          then invalid (label @ '' must be <= '' @ (case mx of None \<Rightarrow> [] | Some m \<Rightarrow> show_int m))
          else Inr n
      | _ \<Rightarrow> invalid (label @ '' must be a finite number''))"

abbreviation expectFinite :: "jsval \<Rightarrow> string \<Rightarrow> jsnum result" where
  "expectFinite \<equiv> expectNumber False None None"

abbreviation expectInteger :: "jsval \<Rightarrow> string \<Rightarrow> jsnum result" where
  "expectInteger \<equiv> expectNumber True None None"

definition expectEnum :: "(string \<times> 'a) list \<Rightarrow> jsval \<Rightarrow> string \<Rightarrow> 'a result" where
  "expectEnum allowed value label =
     andThen (expectText value label) (\<lambda>parsed.
       case map_of allowed parsed of
         None \<Rightarrow> invalid (label @ '' must be one of: '' @ join '', '' (map fst allowed))
       | Some x \<Rightarrow> Inr x)"

text \<open>\<open>if (rec.f !== undefined) patch.f = ...\<close> and \<open>if (rec.f != null) bg.f = ...\<close>\<close>

definition whenDefined ::
  "(jsval \<Rightarrow> string \<Rightarrow> 'a result) \<Rightarrow> jsval \<Rightarrow> string \<Rightarrow> 'a option result" where
  "whenDefined parse value label =
     (if value = JUndef then Inr None else andThen (parse value label) (\<lambda>x. Inr (Some x)))"

definition whenPresent ::
  "(jsval \<Rightarrow> string \<Rightarrow> 'a result) \<Rightarrow> jsval \<Rightarrow> string \<Rightarrow> 'a option result" where
  "whenPresent parse value label =
     (if is_nullish value then Inr None else andThen (parse value label) (\<lambda>x. Inr (Some x)))"

section \<open>Enumerations\<close>

definition SCREEN_KEY_NAMES :: "(string \<times> screenKey) list" where
  "SCREEN_KEY_NAMES = [(''A'', ScreenA), (''B'', ScreenB), (''C'', ScreenC)]"

definition PROJECTION_MODES :: "(string \<times> cpProjectionMode) list" where
  "PROJECTION_MODES = [(''NORMAL'', NORMAL), (''BLACK'', BLACK), (''WHITE'', WHITE)]"

definition BACKGROUND_FILL_MODES :: "(string \<times> cpBackgroundFillMode) list" where
  "BACKGROUND_FILL_MODES =
     [(''SOLID'', BG_SOLID), (''GRADIENT_LINEAR'', BG_GRADIENT_LINEAR),
      (''GRADIENT_RADIAL'', BG_GRADIENT_RADIAL)]"

definition FOREGROUND_FILL_MODES :: "(string \<times> cpForegroundFillMode) list" where
  "FOREGROUND_FILL_MODES = [(''SOLID'', FG_SOLID), (''GRADIENT'', FG_GRADIENT)]"

definition LOGO_POSITIONS :: "(string \<times> cpLogoPosition) list" where
  "LOGO_POSITIONS =
     [(''bottom-right'', BottomRight), (''bottom-left'', BottomLeft), (''top-right'', TopRight),
      (''top-left'', TopLeft), (''center'', Center)]"

definition MEDIA_TYPES :: "(string \<times> cpMediaType) list" where
  "MEDIA_TYPES = [(''IMAGE'', IMAGE), (''PDF'', PDF), (''VIDEO'', VIDEO)]"

definition CURRENT_KINDS :: "(string \<times> currentKind) list" where
  "CURRENT_KINDS = [(''EMPTY'', EMPTY), (''TEXT'', TEXT), (''MEDIA'', MEDIA)]"

datatype cpDevtoolsTarget = REGIE | PROJECTION | SCREEN_A | SCREEN_B | SCREEN_C

definition DEVTOOLS_TARGETS :: "(string \<times> cpDevtoolsTarget) list" where
  "DEVTOOLS_TARGETS =
     [(''REGIE'', REGIE), (''PROJECTION'', PROJECTION), (''SCREEN_A'', SCREEN_A),
      (''SCREEN_B'', SCREEN_B), (''SCREEN_C'', SCREEN_C)]"

datatype cpDataImportMode = MERGE | REPLACE

datatype cpDataImportAtomicity = ENTITY | STRICT

definition DATA_IMPORT_MODES :: "(string \<times> cpDataImportMode) list" where
  "DATA_IMPORT_MODES = [(''MERGE'', MERGE), (''REPLACE'', REPLACE)]"

definition DATA_IMPORT_ATOMICITY :: "(string \<times> cpDataImportAtomicity) list" where
  "DATA_IMPORT_ATOMICITY = [(''ENTITY'', ENTITY), (''STRICT'', STRICT)]"

definition parseScreenKey :: "jsval \<Rightarrow> string \<Rightarrow> screenKey result" where
  "parseScreenKey = expectEnum SCREEN_KEY_NAMES"

definition parseProjectionMode :: "jsval \<Rightarrow> string \<Rightarrow> cpProjectionMode result" where
  "parseProjectionMode = expectEnum PROJECTION_MODES"

definition parseBackgroundFillMode :: "jsval \<Rightarrow> string \<Rightarrow> cpBackgroundFillMode result" where
  "parseBackgroundFillMode = expectEnum BACKGROUND_FILL_MODES"

definition parseForegroundFillMode :: "jsval \<Rightarrow> string \<Rightarrow> cpForegroundFillMode result" where
  "parseForegroundFillMode = expectEnum FOREGROUND_FILL_MODES"

definition parseLogoPosition :: "jsval \<Rightarrow> string \<Rightarrow> cpLogoPosition result" where
  "parseLogoPosition = expectEnum LOGO_POSITIONS"

definition parseMediaType :: "jsval \<Rightarrow> string \<Rightarrow> cpMediaType result" where
  "parseMediaType = expectEnum MEDIA_TYPES"

definition parseDevtoolsTarget :: "jsval \<Rightarrow> cpDevtoolsTarget result" where
  "parseDevtoolsTarget value = expectEnum DEVTOOLS_TARGETS value ''devtools target''"

definition parseNonEmptyString :: "jsval \<Rightarrow> string \<Rightarrow> string result" where
  "parseNonEmptyString value label = expectText value label"

definition parseOptionalQuery :: "jsval \<Rightarrow> string \<Rightarrow> string option result" where
  "parseOptionalQuery value label = whenPresent (expectString True True) value label"

section \<open>Projection payloads\<close>

definition parseSongMeta :: "jsval \<Rightarrow> string \<Rightarrow> cpSongMeta option result" where
  "parseSongMeta value label =
     (if is_nullish value then Inr None
      else
        andThen (expectRecord value label) (\<lambda>rec.
        andThen (optionalText (jget rec ''title'') (label @ ''.title'')) (\<lambda>title.
        andThen (optionalText (jget rec ''artist'') (label @ ''.artist'')) (\<lambda>artist.
        andThen (optionalText (jget rec ''album'') (label @ ''.album'')) (\<lambda>album.
        andThen (optionalText (jget rec ''year'') (label @ ''.year'')) (\<lambda>year.
        Inr (Some \<lparr>sm_title = title, sm_artist = artist, sm_album = album, sm_year = year\<rparr>)))))))"

definition parseCpItemBackground :: "jsval \<Rightarrow> cpItemBackground result" where
  "parseCpItemBackground value =
     andThen (expectRecord value ''CpItemBackground'') (\<lambda>rec.
     andThen (whenPresent (expectString True True) (jget rec ''background'')
       ''CpItemBackground.background'') (\<lambda>bg.
     andThen (whenPresent (expectEnum BACKGROUND_FILL_MODES) (jget rec ''backgroundMode'')
       ''CpItemBackground.backgroundMode'') (\<lambda>bgMode.
     andThen (whenPresent (expectString True True) (jget rec ''backgroundGradientFrom'')
       ''CpItemBackground.backgroundGradientFrom'') (\<lambda>bgFrom.
     andThen (whenPresent (expectString True True) (jget rec ''backgroundGradientTo'')
       ''CpItemBackground.backgroundGradientTo'') (\<lambda>bgTo.
     andThen (whenPresent expectFinite (jget rec ''backgroundGradientAngle'')
       ''CpItemBackground.backgroundGradientAngle'') (\<lambda>angle.
     andThen (whenPresent expectText (jget rec ''backgroundMedia'')
       ''CpItemBackground.backgroundMedia'') (\<lambda>media.
     andThen (whenPresent (expectEnum [(''IMAGE'', IMAGE), (''VIDEO'', VIDEO)])
       (jget rec ''backgroundMediaType'') ''CpItemBackground.backgroundMediaType'') (\<lambda>mediaType.
     andThen (whenPresent (expectString True True) (jget rec ''foreground'')
       ''CpItemBackground.foreground'') (\<lambda>fg.
     andThen (whenPresent (expectEnum FOREGROUND_FILL_MODES) (jget rec ''foregroundMode'')
       ''CpItemBackground.foregroundMode'') (\<lambda>fgMode.
     andThen (whenPresent (expectString True True) (jget rec ''foregroundGradientFrom'')
       ''CpItemBackground.foregroundGradientFrom'') (\<lambda>fgFrom.
     andThen (whenPresent (expectString True True) (jget rec ''foregroundGradientTo'')
       ''CpItemBackground.foregroundGradientTo'') (\<lambda>fgTo.
     Inr \<lparr>ib_background = bg, ib_backgroundMode = bgMode, ib_backgroundGradientFrom = bgFrom,
          ib_backgroundGradientTo = bgTo, ib_backgroundGradientAngle = angle,
          ib_backgroundMedia = media, ib_backgroundMediaType = mediaType, ib_foreground = fg,
          ib_foregroundMode = fgMode, ib_foregroundGradientFrom = fgFrom,
          ib_foregroundGradientTo = fgTo\<rparr>))))))))))))"

definition parseProjectionCurrent :: "jsval \<Rightarrow> string \<Rightarrow> cpProjectionCurrent result" where
  "parseProjectionCurrent value label =
     andThen (expectRecord value label) (\<lambda>rec.
     andThen (expectEnum CURRENT_KINDS (jget rec ''kind'') (label @ ''.kind'')) (\<lambda>kind.
     andThen (optionalRaw (jget rec ''title'') (label @ ''.title'')) (\<lambda>title.
     andThen (optionalRaw (jget rec ''body'') (label @ ''.body'')) (\<lambda>body.
     andThen (optionalText (jget rec ''mediaPath'') (label @ ''.mediaPath'')) (\<lambda>mediaPath.
     andThen (whenPresent (expectEnum MEDIA_TYPES) (jget rec ''mediaType'') (label @ ''.mediaType''))
       (\<lambda>mediaType.
     andThen (parseSongMeta (jget rec ''metaSong'') (label @ ''.metaSong'')) (\<lambda>metaSong.
     Inr \<lparr>pc_kind = kind, pc_title = title, pc_body = body, pc_mediaPath = mediaPath,
          pc_mediaType = mediaType, pc_metaSong = metaSong, pc_secondaryTexts = None,
          pc_backgroundOverride = None\<rparr>)))))))"

definition parseProjectionStatePatch :: "jsval \<Rightarrow> projectionStatePatch result" where
  "parseProjectionStatePatch value =
     andThen (expectRecord value ''projection:setState payload'') (\<lambda>rec.
     andThen (whenDefined parseProjectionMode (jget rec ''mode'')
       ''projection:setState.mode'') (\<lambda>mode.
     andThen (whenDefined expectBoolean (jget rec ''lowerThirdEnabled'')
       ''projection:setState.lowerThirdEnabled'') (\<lambda>lowerThirdEnabled.
     andThen (whenDefined expectBoolean (jget rec ''transitionEnabled'')
       ''projection:setState.transitionEnabled'') (\<lambda>transitionEnabled.
     andThen (whenDefined expectFinite (jget rec ''textScale'')
       ''projection:setState.textScale'') (\<lambda>textScale.
     andThen (whenDefined expectText (jget rec ''textFont'')
       ''projection:setState.textFont'') (\<lambda>textFont.
     andThen (whenDefined (expectString True True) (jget rec ''textFontPath'')
       ''projection:setState.textFontPath'') (\<lambda>textFontPath.
     andThen (whenDefined expectText (jget rec ''background'')
       ''projection:setState.background'') (\<lambda>background.
     andThen (whenDefined parseBackgroundFillMode (jget rec ''backgroundMode'')
       ''projection:setState.backgroundMode'') (\<lambda>backgroundMode.
     andThen (whenDefined expectText (jget rec ''backgroundGradientFrom'')
       ''projection:setState.backgroundGradientFrom'') (\<lambda>backgroundGradientFrom.
     andThen (whenDefined expectText (jget rec ''backgroundGradientTo'')
       ''projection:setState.backgroundGradientTo'') (\<lambda>backgroundGradientTo.
     andThen (whenDefined expectFinite (jget rec ''backgroundGradientAngle'')
       ''projection:setState.backgroundGradientAngle'') (\<lambda>backgroundGradientAngle.
     andThen (whenDefined parseForegroundFillMode (jget rec ''foregroundMode'')
       ''projection:setState.foregroundMode'') (\<lambda>foregroundMode.
     andThen (whenDefined expectText (jget rec ''foregroundGradientFrom'')
       ''projection:setState.foregroundGradientFrom'') (\<lambda>foregroundGradientFrom.
     andThen (whenDefined expectText (jget rec ''foregroundGradientTo'')
       ''projection:setState.foregroundGradientTo'') (\<lambda>foregroundGradientTo.
     andThen (whenDefined expectText (jget rec ''foreground'')
       ''projection:setState.foreground'') (\<lambda>foreground.
     andThen (whenDefined (expectString True True) (jget rec ''logoPath'')
       ''projection:setState.logoPath'') (\<lambda>logoPath.
     andThen (whenDefined parseProjectionCurrent (jget rec ''current'')
       ''projection:setState.current'') (\<lambda>current.
     Inr \<lparr>pp_mode = mode, pp_lowerThirdEnabled = lowerThirdEnabled,
          pp_transitionEnabled = transitionEnabled, pp_textScale = textScale,
          pp_textFont = textFont, pp_textFontPath = textFontPath,
          pp_background = background, pp_backgroundMode = backgroundMode,
          pp_backgroundGradientFrom = backgroundGradientFrom,
          pp_backgroundGradientTo = backgroundGradientTo,
          pp_backgroundGradientAngle = backgroundGradientAngle,
          pp_foregroundMode = foregroundMode,
          pp_foregroundGradientFrom = foregroundGradientFrom,
          pp_foregroundGradientTo = foregroundGradientTo, pp_foreground = foreground,
          pp_logoPath = logoPath, pp_current = current\<rparr>))))))))))))))))))"

definition parseProjectionSetAppearancePayload :: "jsval \<Rightarrow> cpProjectionSetAppearancePayload result" where
  "parseProjectionSetAppearancePayload value =
     andThen (expectRecord value ''projection:setAppearance payload'') (\<lambda>rec.
     andThen (whenDefined expectFinite (jget rec ''textScale'')
       ''projection:setAppearance.textScale'') (\<lambda>textScale.
     andThen (whenDefined expectFinite (jget rec ''titleTextScale'')
       ''projection:setAppearance.titleTextScale'') (\<lambda>titleTextScale.
     andThen (whenDefined expectText (jget rec ''textFont'')
       ''projection:setAppearance.textFont'') (\<lambda>textFont.
     andThen (whenDefined (expectString True True) (jget rec ''textFontPath'')
       ''projection:setAppearance.textFontPath'') (\<lambda>textFontPath.
     andThen (whenDefined expectText (jget rec ''background'')
       ''projection:setAppearance.background'') (\<lambda>background.
     andThen (whenDefined parseBackgroundFillMode (jget rec ''backgroundMode'')
       ''projection:setAppearance.backgroundMode'') (\<lambda>backgroundMode.
     andThen (whenDefined expectText (jget rec ''backgroundGradientFrom'')
       ''projection:setAppearance.backgroundGradientFrom'') (\<lambda>backgroundGradientFrom.
     andThen (whenDefined expectText (jget rec ''backgroundGradientTo'')
       ''projection:setAppearance.backgroundGradientTo'') (\<lambda>backgroundGradientTo.
     andThen (whenDefined expectFinite (jget rec ''backgroundGradientAngle'')
       ''projection:setAppearance.backgroundGradientAngle'') (\<lambda>backgroundGradientAngle.
     andThen (whenDefined (expectString True True) (jget rec ''backgroundImage'')
       ''projection:setAppearance.backgroundImage'') (\<lambda>backgroundImage.
     andThen (whenDefined (expectString True True) (jget rec ''logoPath'')
       ''projection:setAppearance.logoPath'') (\<lambda>logoPath.
     andThen (whenDefined parseLogoPosition (jget rec ''logoPosition'')
       ''projection:setAppearance.logoPosition'') (\<lambda>logoPosition.
     andThen (whenDefined expectFinite (jget rec ''logoOpacity'')
       ''projection:setAppearance.logoOpacity'') (\<lambda>logoOpacity.
     andThen (whenDefined expectFinite (jget rec ''logoScale'')
       ''projection:setAppearance.logoScale'') (\<lambda>logoScale.
     andThen (whenDefined parseForegroundFillMode (jget rec ''foregroundMode'')
       ''projection:setAppearance.foregroundMode'') (\<lambda>foregroundMode.
     andThen (whenDefined expectText (jget rec ''foregroundGradientFrom'')
       ''projection:setAppearance.foregroundGradientFrom'') (\<lambda>foregroundGradientFrom.
     andThen (whenDefined expectText (jget rec ''foregroundGradientTo'')
       ''projection:setAppearance.foregroundGradientTo'') (\<lambda>foregroundGradientTo.
     andThen (whenDefined expectText (jget rec ''foreground'')
       ''projection:setAppearance.foreground'') (\<lambda>foreground.
     Inr \<lparr>ap_textScale = textScale, ap_titleTextScale = titleTextScale,
          ap_textFont = textFont, ap_textFontPath = textFontPath,
          ap_background = background, ap_backgroundMode = backgroundMode,
          ap_backgroundGradientFrom = backgroundGradientFrom,
          ap_backgroundGradientTo = backgroundGradientTo,
          ap_backgroundGradientAngle = backgroundGradientAngle,
          ap_backgroundImage = backgroundImage, ap_logoPath = logoPath,
          ap_logoPosition = logoPosition, ap_logoOpacity = logoOpacity,
          ap_logoScale = logoScale, ap_foregroundMode = foregroundMode,
          ap_foregroundGradientFrom = foregroundGradientFrom,
          ap_foregroundGradientTo = foregroundGradientTo,
          ap_foreground = foreground\<rparr>)))))))))))))))))))"

text \<open>
  \<open>String(x)\<close> of a value that came through the process boundary; \<open>fmt\<close> is the decimal
  representation of a number that is not an integer.
\<close>

fun js_String :: "(rat \<Rightarrow> string) \<Rightarrow> jsval \<Rightarrow> string" where
  "js_String fmt JUndef = ''undefined''"
| "js_String fmt JNull = ''null''"
| "js_String fmt (JBool b) = (if b then ''true'' else ''false'')"
| "js_String fmt (JNum (Fin r)) = (if of_int \<lfloor>r\<rfloor> = r then show_int \<lfloor>r\<rfloor> else fmt r)"
| "js_String fmt (JNum NaN) = ''NaN''"
| "js_String fmt (JNum PosInf) = ''Infinity''"
| "js_String fmt (JNum NegInf) = ''-Infinity''"
| "js_String fmt (JStr s) = s"
| "js_String fmt (JArr xs) =
     join '','' (map (\<lambda>x. if is_nullish x then [] else js_String fmt x) xs)"
| "js_String fmt (JObj rec) = ''[object Object]''"

text \<open>\<open>x is { label: string; body: string }\<close> and the object it is rebuilt as\<close>

definition isSecondaryText :: "jsval \<Rightarrow> bool" where
  "isSecondaryText x =
     (case x of JObj r \<Rightarrow> (case jget r ''body'' of JStr _ \<Rightarrow> True | _ \<Rightarrow> False) | _ \<Rightarrow> False)"

definition toSecondaryText :: "(rat \<Rightarrow> string) \<Rightarrow> jsval \<Rightarrow> secondaryText" where
  "toSecondaryText fmt x =
     (let r = (case x of JObj r \<Rightarrow> r | _ \<Rightarrow> [])
      in \<lparr>st_label = (if is_nullish (jget r ''label'') then []
                      else js_String fmt (jget r ''label'')),
          st_body = js_String fmt (jget r ''body'')\<rparr>)"

definition parseProjectionSetTextPayload ::
  "(rat \<Rightarrow> string) \<Rightarrow> jsval \<Rightarrow> cpProjectionSetTextPayload result" where
  "parseProjectionSetTextPayload fmt value =
     andThen (expectRecord value ''projection:setContentText payload'') (\<lambda>rec.
     let secondaryTexts =
           (case jget rec ''secondaryTexts'' of
              JArr xs \<Rightarrow> Some (map (toSecondaryText fmt) (filter isSecondaryText xs))
            | _ \<Rightarrow> None)
     in
     andThen (case jget rec ''backgroundOverride'' of
                JObj r \<Rightarrow> andThen (parseCpItemBackground (JObj r)) (\<lambda>bg. Inr (Some bg))
              | JArr xs \<Rightarrow> andThen (parseCpItemBackground (JArr xs)) (\<lambda>bg. Inr (Some bg))
              | _ \<Rightarrow> Inr None) (\<lambda>backgroundOverride.
     andThen (optionalRaw (jget rec ''title'') ''projection:setContentText.title'') (\<lambda>title.
     andThen (expectString False True (jget rec ''body'') ''projection:setContentText.body'') (\<lambda>body.
     andThen (parseSongMeta (jget rec ''metaSong'') ''projection:setContentText.metaSong'') (\<lambda>metaSong.
     Inr \<lparr>tp_title = title, tp_body = body, tp_metaSong = metaSong,
          tp_secondaryTexts = secondaryTexts, tp_backgroundOverride = backgroundOverride\<rparr>)))))"

definition parseProjectionSetMediaPayload :: "jsval \<Rightarrow> cpProjectionSetMediaPayload result" where
  "parseProjectionSetMediaPayload value =
     andThen (expectRecord value ''projection:setContentMedia payload'') (\<lambda>rec.
     andThen (optionalRaw (jget rec ''title'') ''projection:setContentMedia.title'') (\<lambda>title.
     andThen (expectText (jget rec ''mediaPath'') ''projection:setContentMedia.mediaPath'') (\<lambda>mediaPath.
     andThen (parseMediaType (jget rec ''mediaType'') ''projection:setContentMedia.mediaType'') (\<lambda>mediaType.
     Inr \<lparr>mp_title = title, mp_mediaPath = mediaPath, mp_mediaType = mediaType\<rparr>))))"

definition parseScreenMirrorMode :: "jsval \<Rightarrow> screenMirrorMode result" where
  "parseScreenMirrorMode value =
     andThen (expectRecord value ''screens:setMirror mirror'') (\<lambda>rec.
     andThen (expectEnum [(''FREE'', True), (''MIRROR'', False)] (jget rec ''kind'')
       ''screens:setMirror.mirror.kind'') (\<lambda>isFree.
     if isFree then Inr FREE
     else andThen (parseScreenKey (jget rec ''from'') ''screens:setMirror.mirror.from'') (\<lambda>src.
       Inr (MIRROR src))))"

section \<open>Live payloads\<close>

text \<open>\<open>if ("k" in rec) payload.k = ...\<close>\<close>

definition whenIn ::
  "(jsval \<Rightarrow> string \<Rightarrow> 'a result) \<Rightarrow> (string \<times> jsval) list \<Rightarrow> string \<Rightarrow> string \<Rightarrow> 'a option result" where
  "whenIn parse rec k label =
     (if jhas rec k then andThen (parse (jget rec k) label) (\<lambda>x. Inr (Some x)) else Inr None)"

text \<open>\<open>rec.k === null ? null : ...\<close>\<close>

definition orNull :: "(jsval \<Rightarrow> string \<Rightarrow> 'a result) \<Rightarrow> jsval \<Rightarrow> string \<Rightarrow> 'a option result" where
  "orNull parse value label =
     (if value = JNull then Inr None else andThen (parse value label) (\<lambda>x. Inr (Some x)))"

definition parseLiveSetPayload :: "jsval \<Rightarrow> cpLiveSetPayload result" where
  "parseLiveSetPayload value =
     andThen (expectRecord value ''live:set payload'') (\<lambda>rec.
     andThen (whenIn (orNull expectText) rec ''planId'' ''live:set.planId'') (\<lambda>planId.
     andThen (whenIn (orNull expectInteger) rec ''cursor'' ''live:set.cursor'') (\<lambda>cursor.
     andThen (whenIn expectBoolean rec ''enabled'' ''live:set.enabled'') (\<lambda>enabled.
     andThen (whenIn parseScreenKey rec ''target'' ''live:set.target'') (\<lambda>target.
     andThen (whenIn expectBoolean rec ''black'' ''live:set.black'') (\<lambda>black.
     andThen (whenIn expectBoolean rec ''white'' ''live:set.white'') (\<lambda>white.
     Inr \<lparr>ls_planId = planId, ls_cursor = cursor, ls_enabled = enabled, ls_target = target,
          ls_black = black, ls_white = white\<rparr>)))))))"

definition parseLiveCursor :: "jsval \<Rightarrow> jsnum result" where
  "parseLiveCursor value = expectInteger value ''live:setCursor.cursor''"

definition parseLiveSetLockedPayload :: "jsval \<Rightarrow> (screenKey \<times> bool) result" where
  "parseLiveSetLockedPayload value =
     andThen (expectRecord value ''live:setLocked payload'') (\<lambda>rec.
     andThen (parseScreenKey (jget rec ''key'') ''live:setLocked.key'') (\<lambda>key.
     andThen (expectBoolean (jget rec ''locked'') ''live:setLocked.locked'') (\<lambda>locked.
     Inr (key, locked))))"

section \<open>File payloads\<close>

definition parseFilesDeleteMediaPayload :: "jsval \<Rightarrow> string result" where
  "parseFilesDeleteMediaPayload value =
     andThen (expectRecord value ''files:deleteMedia payload'') (\<lambda>rec.
       expectText (jget rec ''path'') ''files:deleteMedia.path'')"

definition parseFilesRenameMediaPayload :: "jsval \<Rightarrow> (string \<times> string) result" where
  "parseFilesRenameMediaPayload value =
     andThen (expectRecord value ''files:renameMedia payload'') (\<lambda>rec.
     andThen (expectText (jget rec ''path'') ''files:renameMedia.path'') (\<lambda>path.
     andThen (expectText (jget rec ''name'') ''files:renameMedia.name'') (\<lambda>name.
     Inr (path, name))))"

section \<open>What the elementary checks accept\<close>

text \<open>A text that \<open>expectString\<close> returns without options: trimmed and not empty\<close>

definition textOk :: "string \<Rightarrow> bool" where
  "textOk s \<longleftrightarrow> s \<noteq> [] \<and> trimmed s"

named_theorems accept_simps \<open>when an elementary check succeeds\<close>

lemma invalid_not_Inr [simp]: "invalid m \<noteq> Inr x" "(Inr x = invalid m) = False"
  by (simp_all add: invalid_def)

lemma invalid_Inr_False [simp]: "(invalid m = Inr x) = False"
  by simp

lemma expectRecord_iff [accept_simps]: "expectRecord v l = Inr rec \<longleftrightarrow> v = JObj rec"
  by (cases v) auto

lemma expectArray_iff [accept_simps]: "expectArray v l = Inr xs \<longleftrightarrow> v = JArr xs"
  by (cases v) auto

lemma expectBoolean_iff [accept_simps]: "expectBoolean v l = Inr b \<longleftrightarrow> v = JBool b"
  by (cases v) auto

lemma expectText_iff [accept_simps]:
  "expectText v l = Inr s \<longleftrightarrow> (\<exists>raw. v = JStr raw \<and> s = trim raw \<and> s \<noteq> [])"
  by (auto simp: expectString_def Let_def split: jsval.splits)

lemma expectRaw_iff [accept_simps]: "expectString False True v l = Inr s \<longleftrightarrow> v = JStr s"
  by (auto simp: expectString_def Let_def split: jsval.splits)

lemma expectTrimmed_iff [accept_simps]:
  "expectString True True v l = Inr s \<longleftrightarrow> (\<exists>raw. v = JStr raw \<and> s = trim raw)"
  by (auto simp: expectString_def Let_def split: jsval.splits)

lemma expectFinite_iff [accept_simps]:
  "expectFinite v l = Inr n \<longleftrightarrow> v = JNum n \<and> num_isFinite n"
  by (auto simp: expectNumber_def split: jsval.splits)

lemma expectInteger_iff [accept_simps]:
  "expectInteger v l = Inr n \<longleftrightarrow> v = JNum n \<and> (\<exists>i. n = IntNum i)"
  by (auto simp: expectNumber_def num_isInteger_iff split: jsval.splits)

lemma expectEnum_iff [accept_simps]:
  "expectEnum tbl v l = Inr x \<longleftrightarrow>
     (\<exists>raw. v = JStr raw \<and> trim raw \<noteq> [] \<and> map_of tbl (trim raw) = Some x)"
  by (auto simp: expectEnum_def res_simps accept_simps split: option.splits)

lemma whenDefined_iff [accept_simps]:
  "whenDefined P v l = Inr r \<longleftrightarrow>
     (v = JUndef \<and> r = None) \<or> (v \<noteq> JUndef \<and> (\<exists>x. r = Some x \<and> P v l = Inr x))"
  by (auto simp: whenDefined_def res_simps)

lemma optionalRaw_iff [accept_simps]:
  "optionalRaw v l = Inr r \<longleftrightarrow>
     (is_nullish v \<and> r = None) \<or> (\<exists>s. v = JStr s \<and> r = Some s)"
  by (cases v) (auto simp: expectOptionalString_def res_simps expectString_def)

lemma optionalText_iff [accept_simps]:
  "optionalText v l = Inr r \<longleftrightarrow>
     (is_nullish v \<and> r = None)
     \<or> (\<exists>s. v = JStr s \<and> r = (if trim s = [] then None else Some (trim s)))"
  by (cases v) (auto simp: expectOptionalString_def res_simps expectString_def Let_def
      split: if_splits)

lemma textOk_expect [simp]: "textOk s \<Longrightarrow> expectText (JStr s) l = Inr s"
  by (auto simp: textOk_def accept_simps trim_trimmed)

lemma trimmed_expect [simp]: "trimmed s \<Longrightarrow> expectString True True (JStr s) l = Inr s"
  by (auto simp: accept_simps trim_trimmed)

text \<open>The name a table gives to a constructor, and a table that names each constructor once\<close>

definition nameIn :: "(string \<times> 'a) list \<Rightarrow> 'a \<Rightarrow> string" where
  "nameIn tbl x = (case map_of (map (\<lambda>(s, y). (y, s)) tbl) x of None \<Rightarrow> [] | Some s \<Rightarrow> s)"

definition names_all :: "(string \<times> 'a) list \<Rightarrow> bool" where
  "names_all tbl \<longleftrightarrow>
     (\<forall>x. textOk (nameIn tbl x) \<and> map_of tbl (nameIn tbl x) = Some x)"

lemma expectEnum_nameIn:
  "names_all tbl \<Longrightarrow> expectEnum tbl (JStr (nameIn tbl x)) l = Inr x"
  by (auto simp: names_all_def accept_simps textOk_def trim_trimmed)

lemma names_all_SCREEN_KEY_NAMES: "names_all SCREEN_KEY_NAMES"
  unfolding names_all_def
proof
  fix x show "textOk (nameIn SCREEN_KEY_NAMES x)
      \<and> map_of SCREEN_KEY_NAMES (nameIn SCREEN_KEY_NAMES x) = Some x"
    by (cases x) (simp_all add: nameIn_def SCREEN_KEY_NAMES_def textOk_def trimmed_def js_space_def)
qed

lemma names_all_BACKGROUND_FILL_MODES: "names_all BACKGROUND_FILL_MODES"
  unfolding names_all_def
proof
  fix x show "textOk (nameIn BACKGROUND_FILL_MODES x)
      \<and> map_of BACKGROUND_FILL_MODES (nameIn BACKGROUND_FILL_MODES x) = Some x"
    by (cases x)
      (simp_all add: nameIn_def BACKGROUND_FILL_MODES_def textOk_def trimmed_def js_space_def)
qed

lemma names_all_FOREGROUND_FILL_MODES: "names_all FOREGROUND_FILL_MODES"
  unfolding names_all_def
proof
  fix x show "textOk (nameIn FOREGROUND_FILL_MODES x)
      \<and> map_of FOREGROUND_FILL_MODES (nameIn FOREGROUND_FILL_MODES x) = Some x"
    by (cases x)
      (simp_all add: nameIn_def FOREGROUND_FILL_MODES_def textOk_def trimmed_def js_space_def)
qed

lemma names_all_LOGO_POSITIONS: "names_all LOGO_POSITIONS"
  unfolding names_all_def
proof
  fix x show "textOk (nameIn LOGO_POSITIONS x)
      \<and> map_of LOGO_POSITIONS (nameIn LOGO_POSITIONS x) = Some x"
    by (cases x) (simp_all add: nameIn_def LOGO_POSITIONS_def textOk_def trimmed_def js_space_def)
qed

section \<open>The appearance payload as an object\<close>

text \<open>The object of a payload; an absent field may as well be present and \<open>undefined\<close>.\<close>

definition enc :: "('a \<Rightarrow> jsval) \<Rightarrow> 'a option \<Rightarrow> jsval" where
  "enc f x = (case x of None \<Rightarrow> JUndef | Some y \<Rightarrow> f y)"

definition encodeAppearance :: "cpProjectionSetAppearancePayload \<Rightarrow> jsval" where
  "encodeAppearance p = JObj
     [(''textScale'', enc JNum (ap_textScale p)),
      (''titleTextScale'', enc JNum (ap_titleTextScale p)),
      (''textFont'', enc JStr (ap_textFont p)),
      (''textFontPath'', enc JStr (ap_textFontPath p)),
      (''background'', enc JStr (ap_background p)),
      (''backgroundMode'', enc (\<lambda>x. JStr (nameIn BACKGROUND_FILL_MODES x)) (ap_backgroundMode p)),
      (''backgroundGradientFrom'', enc JStr (ap_backgroundGradientFrom p)),
      (''backgroundGradientTo'', enc JStr (ap_backgroundGradientTo p)),
      (''backgroundGradientAngle'', enc JNum (ap_backgroundGradientAngle p)),
      (''backgroundImage'', enc JStr (ap_backgroundImage p)),
      (''logoPath'', enc JStr (ap_logoPath p)),
      (''logoPosition'', enc (\<lambda>x. JStr (nameIn LOGO_POSITIONS x)) (ap_logoPosition p)),
      (''logoOpacity'', enc JNum (ap_logoOpacity p)),
      (''logoScale'', enc JNum (ap_logoScale p)),
      (''foregroundMode'', enc (\<lambda>x. JStr (nameIn FOREGROUND_FILL_MODES x)) (ap_foregroundMode p)),
      (''foregroundGradientFrom'', enc JStr (ap_foregroundGradientFrom p)),
      (''foregroundGradientTo'', enc JStr (ap_foregroundGradientTo p)),
      (''foreground'', enc JStr (ap_foreground p))]"

definition fieldOk :: "('a \<Rightarrow> bool) \<Rightarrow> 'a option \<Rightarrow> bool" where
  "fieldOk P x = (case x of None \<Rightarrow> True | Some y \<Rightarrow> P y)"

lemma fieldOk_simps [simp]: "fieldOk P None" "fieldOk P (Some y) = P y"
  by (simp_all add: fieldOk_def)

text \<open>
  The well-formed payloads: every number is finite, every text is trimmed, and only the
  three paths may be empty.
\<close>

definition appearanceOk :: "cpProjectionSetAppearancePayload \<Rightarrow> bool" where
  "appearanceOk p \<longleftrightarrow>
     fieldOk num_isFinite (ap_textScale p)
     \<and> fieldOk num_isFinite (ap_titleTextScale p)
     \<and> fieldOk textOk (ap_textFont p)
     \<and> fieldOk trimmed (ap_textFontPath p)
     \<and> fieldOk textOk (ap_background p)
     \<and> fieldOk textOk (ap_backgroundGradientFrom p)
     \<and> fieldOk textOk (ap_backgroundGradientTo p)
     \<and> fieldOk num_isFinite (ap_backgroundGradientAngle p)
     \<and> fieldOk trimmed (ap_backgroundImage p)
     \<and> fieldOk trimmed (ap_logoPath p)
     \<and> fieldOk num_isFinite (ap_logoOpacity p)
     \<and> fieldOk num_isFinite (ap_logoScale p)
     \<and> fieldOk textOk (ap_foregroundGradientFrom p)
     \<and> fieldOk textOk (ap_foregroundGradientTo p)
     \<and> fieldOk textOk (ap_foreground p)"

lemma whenDefined_enc:
  assumes "fieldOk P x" and "\<And>y. P y \<Longrightarrow> parse (f y) l = Inr y" and "\<And>y. f y \<noteq> JUndef"
  shows "whenDefined parse (enc f x) l = Inr x"
  using assms by (cases x) (simp_all add: whenDefined_def enc_def)

lemma whenDefined_fieldOk:
  assumes "whenDefined parse v l = Inr x" and "\<And>y. parse v l = Inr y \<Longrightarrow> P y"
  shows "fieldOk P x"
  using assms by (auto simp: accept_simps)

lemmas whenDefined_enc_rules =
  whenDefined_enc [where P = num_isFinite and f = JNum and parse = expectFinite]
  whenDefined_enc [where P = textOk and f = JStr and parse = expectText]
  whenDefined_enc [where P = trimmed and f = JStr and parse = "expectString True True"]

lemma whenDefined_enum:
  "names_all tbl \<Longrightarrow>
     whenDefined (expectEnum tbl) (enc (\<lambda>x. JStr (nameIn tbl x)) x) l = Inr x"
  by (cases x) (simp_all add: whenDefined_def enc_def expectEnum_nameIn)

lemma parse_encodeAppearance:
  assumes "appearanceOk p"
  shows "parseProjectionSetAppearancePayload (encodeAppearance p) = Inr p"
  using assms
  by (simp add: parseProjectionSetAppearancePayload_def encodeAppearance_def appearanceOk_def
      parseBackgroundFillMode_def parseForegroundFillMode_def parseLogoPosition_def
      whenDefined_enc_rules accept_simps whenDefined_enum names_all_BACKGROUND_FILL_MODES
      names_all_FOREGROUND_FILL_MODES names_all_LOGO_POSITIONS)

lemma text_fieldOk: "whenDefined expectText v l = Inr x \<Longrightarrow> fieldOk textOk x"
  by (auto simp: accept_simps textOk_def)

lemma trimmed_fieldOk: "whenDefined (expectString True True) v l = Inr x \<Longrightarrow> fieldOk trimmed x"
  by (auto simp: accept_simps)

lemma finite_fieldOk: "whenDefined expectFinite v l = Inr x \<Longrightarrow> fieldOk num_isFinite x"
  by (auto simp: accept_simps)

lemma parse_appearanceOk:
  assumes "parseProjectionSetAppearancePayload v = Inr p"
  shows "appearanceOk p"
  using assms
  unfolding parseProjectionSetAppearancePayload_def andThen_Inr_iff
  by (clarsimp simp: appearanceOk_def)
    (blast intro: text_fieldOk trimmed_fieldOk finite_fieldOk)

text \<open>
  The validator of appearance payloads returns exactly the well-formed payloads: finite
  numbers, trimmed texts, and an empty text for the three optional paths only. Each of
  them is what the validator makes of its own object, so a stored appearance that is sent
  again comes back unchanged.
\<close>
theorem appearance_parser_exact:
  "(\<exists>v. parseProjectionSetAppearancePayload v = Inr p) \<longleftrightarrow> appearanceOk p"
  using parse_encodeAppearance parse_appearanceOk by blast

end
