(* ===== verification/Payloads.thy ===== *)
theory Payloads
  imports Validation
begin

text \<open>
  The payloads of the song, plan and data handlers: their types in \<open>shared/ipc.ts\<close> and
  the parsers at the end of \<open>main/ipc/runtimeValidation.ts\<close>. A block's \<open>order\<close> is checked
  to be an integer, and is an \<open>int\<close> from there on.
\<close>

section \<open>Songs\<close>

definition num_int :: "jsnum \<Rightarrow> int" where
  "num_int n = (case n of Fin r \<Rightarrow> \<lfloor>r\<rfloor> | _ \<Rightarrow> 0)"

lemma num_int_IntNum [simp]: "num_int (IntNum i) = i"
  by (simp add: num_int_def)

record songCreatePayload =
  sc_title :: string
  sc_artist :: "string option"
  sc_album :: "string option"
  sc_year :: "string option"

record songUpdateMetaPayload =
  su_id :: string
  su_title :: string
  su_artist :: "string option"
  su_album :: "string option"
  su_year :: "string option"

record songBlockPayload =
  rb_order :: int
  rb_type :: string
  rb_title :: "string option"
  rb_content :: string

definition parseSongCreatePayload :: "jsval \<Rightarrow> songCreatePayload result" where
  "parseSongCreatePayload value =
     andThen (expectRecord value ''songs:create payload'') (\<lambda>rec.
     andThen (expectText (jget rec ''title'') ''songs:create.title'') (\<lambda>title.
     andThen (optionalText (jget rec ''artist'') ''songs:create.artist'') (\<lambda>artist.
     andThen (optionalText (jget rec ''album'') ''songs:create.album'') (\<lambda>album.
     andThen (optionalText (jget rec ''year'') ''songs:create.year'') (\<lambda>year.
     Inr \<lparr>sc_title = title, sc_artist = artist, sc_album = album, sc_year = year\<rparr>)))))"

definition parseSongUpdateMetaPayload :: "jsval \<Rightarrow> songUpdateMetaPayload result" where
  "parseSongUpdateMetaPayload value =
     andThen (expectRecord value ''songs:updateMeta payload'') (\<lambda>rec.
     andThen (expectText (jget rec ''id'') ''songs:updateMeta.id'') (\<lambda>id.
     andThen (expectText (jget rec ''title'') ''songs:updateMeta.title'') (\<lambda>title.
     andThen (optionalText (jget rec ''artist'') ''songs:updateMeta.artist'') (\<lambda>artist.
     andThen (optionalText (jget rec ''album'') ''songs:updateMeta.album'') (\<lambda>album.
     andThen (optionalText (jget rec ''year'') ''songs:updateMeta.year'') (\<lambda>year.
     Inr \<lparr>su_id = id, su_title = title, su_artist = artist, su_album = album, su_year = year\<rparr>))))))"

text \<open>The label of element \<open>idx\<close> of a list: \<open>`${label}[${idx}]`\<close>\<close>

definition indexed :: "string \<Rightarrow> nat \<Rightarrow> string" where
  "indexed label idx = label @ ''['' @ show_nat idx @ '']''"

definition parseSongBlock :: "nat \<Rightarrow> jsval \<Rightarrow> songBlockPayload result" where
  "parseSongBlock idx rawBlock =
     (let label = indexed ''songs:replaceBlocks.blocks'' idx in
      andThen (expectRecord rawBlock label) (\<lambda>b.
      andThen (expectNumber True (Some 1) None (jget b ''order'') (label @ ''.order'')) (\<lambda>order.
      andThen (expectText (jget b ''type'') (label @ ''.type'')) (\<lambda>type.
      andThen (optionalText (jget b ''title'') (label @ ''.title'')) (\<lambda>title.
      andThen (expectString False True (jget b ''content'') (label @ ''.content'')) (\<lambda>content.
      Inr \<lparr>rb_order = num_int order, rb_type = type, rb_title = title, rb_content = content\<rparr>))))))"

definition parseSongReplaceBlocksPayload :: "jsval \<Rightarrow> (string \<times> songBlockPayload list) result" where
  "parseSongReplaceBlocksPayload value =
     andThen (expectRecord value ''songs:replaceBlocks payload'') (\<lambda>rec.
     andThen (expectArray (jget rec ''blocks'') ''songs:replaceBlocks.blocks'') (\<lambda>blocksRaw.
     andThen (traverse parseSongBlock blocksRaw) (\<lambda>blocks.
     andThen (expectText (jget rec ''songId'') ''songs:replaceBlocks.songId'') (\<lambda>songId.
     Inr (songId, blocks)))))"

text \<open>A list of identifiers, each trimmed and not empty\<close>

definition parseIds :: "jsval \<Rightarrow> string \<Rightarrow> string list result" where
  "parseIds value label =
     andThen (expectArray value label) (\<lambda>ids.
       traverse (\<lambda>idx id. expectText id (indexed label idx)) ids)"

definition parseSongExportWordPackPayload :: "jsval \<Rightarrow> string list option result" where
  "parseSongExportWordPackPayload value =
     (if is_nullish value then Inr None
      else
        andThen (expectRecord value ''songs:exportWordPack payload'') (\<lambda>rec.
        if is_nullish (jget rec ''songIds'') then Inr None
        else andThen (parseIds (jget rec ''songIds'') ''songs:exportWordPack.songIds'') (\<lambda>ids.
          Inr (Some ids))))"

section \<open>Plans\<close>

record cpPlanDuplicatePayload =
  pd_planId :: string
  pd_dateIso :: "string option"
  pd_title :: "string option"

record cpPlanCreatePayload =
  pr_dateIso :: string
  pr_title :: "string option"

record cpPlanUpdatePayload =
  pu_planId :: string
  pu_title :: "string option"
  pu_backgroundConfig :: "string nullable"

record cpPlanUpdateItemPayload =
  ui_planId :: string
  ui_itemId :: string
  ui_title :: "string option"
  ui_content :: "string option"
  ui_notes :: "string option"
  ui_secondaryContent :: "string option"
  ui_backgroundConfig :: "string nullable"

record cpPlanAddItemPayload =
  ai_planId :: string
  ai_kind :: cpPlanItemKind
  ai_title :: "string option"
  ai_content :: "string option"
  ai_notes :: "string option"
  ai_refId :: "string option"
  ai_refSubId :: "string option"
  ai_mediaPath :: "string option"
  ai_secondaryContent :: "string option"
  ai_backgroundConfig :: "string option"

record cpPlanReorderPayload =
  ro_planId :: string
  ro_orderedItemIds :: "string list"

definition parsePlanDuplicatePayload :: "jsval \<Rightarrow> cpPlanDuplicatePayload result" where
  "parsePlanDuplicatePayload value =
     andThen (expectRecord value ''plans:duplicate payload'') (\<lambda>rec.
     andThen (expectText (jget rec ''planId'') ''plans:duplicate.planId'') (\<lambda>planId.
     andThen (optionalText (jget rec ''dateIso'') ''plans:duplicate.dateIso'') (\<lambda>dateIso.
     andThen (optionalText (jget rec ''title'') ''plans:duplicate.title'') (\<lambda>title.
     Inr \<lparr>pd_planId = planId, pd_dateIso = dateIso, pd_title = title\<rparr>))))"

definition parsePlanCreatePayload :: "jsval \<Rightarrow> cpPlanCreatePayload result" where
  "parsePlanCreatePayload value =
     andThen (expectRecord value ''plans:create payload'') (\<lambda>rec.
     andThen (expectText (jget rec ''dateIso'') ''plans:create.dateIso'') (\<lambda>dateIso.
     andThen (optionalText (jget rec ''title'') ''plans:create.title'') (\<lambda>title.
     Inr \<lparr>pr_dateIso = dateIso, pr_title = title\<rparr>)))"

text \<open>\<open>rec.backgroundConfig === null ? null : expectOptionalString(...)\<close>\<close>

definition nullableRaw :: "jsval \<Rightarrow> string \<Rightarrow> string nullable result" where
  "nullableRaw value label =
     (if value = JNull then Inr Null
      else andThen (optionalRaw value label) (\<lambda>r.
        Inr (case r of None \<Rightarrow> Undef | Some s \<Rightarrow> Val s)))"

definition parsePlanUpdatePayload :: "jsval \<Rightarrow> cpPlanUpdatePayload result" where
  "parsePlanUpdatePayload value =
     andThen (expectRecord value ''plans:update payload'') (\<lambda>rec.
     andThen (expectText (jget rec ''planId'') ''plans:update.planId'') (\<lambda>planId.
     andThen (optionalText (jget rec ''title'') ''plans:update.title'') (\<lambda>title.
     andThen (nullableRaw (jget rec ''backgroundConfig'') ''plans:update.backgroundConfig'') (\<lambda>bg.
     Inr \<lparr>pu_planId = planId, pu_title = title, pu_backgroundConfig = bg\<rparr>))))"

definition parsePlanUpdateItemPayload :: "jsval \<Rightarrow> cpPlanUpdateItemPayload result" where
  "parsePlanUpdateItemPayload value =
     andThen (expectRecord value ''plans:updateItem payload'') (\<lambda>rec.
     andThen (expectText (jget rec ''planId'') ''plans:updateItem.planId'') (\<lambda>planId.
     andThen (expectText (jget rec ''itemId'') ''plans:updateItem.itemId'') (\<lambda>itemId.
     andThen (optionalRaw (jget rec ''title'') ''plans:updateItem.title'') (\<lambda>title.
     andThen (optionalRaw (jget rec ''content'') ''plans:updateItem.content'') (\<lambda>content.
     andThen (optionalRaw (jget rec ''notes'') ''plans:updateItem.notes'') (\<lambda>notes.
     andThen (optionalRaw (jget rec ''secondaryContent'') ''plans:updateItem.secondaryContent'')
       (\<lambda>secondaryContent.
     andThen (nullableRaw (jget rec ''backgroundConfig'') ''plans:updateItem.backgroundConfig'')
       (\<lambda>bg.
     Inr \<lparr>ui_planId = planId, ui_itemId = itemId, ui_title = title, ui_content = content,
          ui_notes = notes, ui_secondaryContent = secondaryContent,
          ui_backgroundConfig = bg\<rparr>))))))))"

definition parsePlanAddItemPayload :: "jsval \<Rightarrow> cpPlanAddItemPayload result" where
  "parsePlanAddItemPayload value =
     andThen (expectRecord value ''plans:addItem payload'') (\<lambda>rec.
     andThen (expectText (jget rec ''planId'') ''plans:addItem.planId'') (\<lambda>planId.
     andThen (expectEnum CP_PLAN_ITEM_KIND_VALUES (jget rec ''kind'') ''plans:addItem.kind'') (\<lambda>kind.
     andThen (optionalRaw (jget rec ''title'') ''plans:addItem.title'') (\<lambda>title.
     andThen (optionalRaw (jget rec ''content'') ''plans:addItem.content'') (\<lambda>content.
     andThen (optionalRaw (jget rec ''notes'') ''plans:addItem.notes'') (\<lambda>notes.
     andThen (optionalText (jget rec ''refId'') ''plans:addItem.refId'') (\<lambda>refId.
     andThen (optionalText (jget rec ''refSubId'') ''plans:addItem.refSubId'') (\<lambda>refSubId.
     andThen (optionalText (jget rec ''mediaPath'') ''plans:addItem.mediaPath'') (\<lambda>mediaPath.
     andThen (optionalRaw (jget rec ''secondaryContent'') ''plans:addItem.secondaryContent'')
       (\<lambda>secondaryContent.
     andThen (optionalRaw (jget rec ''backgroundConfig'') ''plans:addItem.backgroundConfig'')
       (\<lambda>backgroundConfig.
     Inr \<lparr>ai_planId = planId, ai_kind = kind, ai_title = title, ai_content = content,
          ai_notes = notes, ai_refId = refId, ai_refSubId = refSubId, ai_mediaPath = mediaPath,
          ai_secondaryContent = secondaryContent,
          ai_backgroundConfig = backgroundConfig\<rparr>)))))))))))"

definition parsePlanRemoveItemPayload :: "jsval \<Rightarrow> (string \<times> string) result" where
  "parsePlanRemoveItemPayload value =
     andThen (expectRecord value ''plans:removeItem payload'') (\<lambda>rec.
     andThen (expectText (jget rec ''planId'') ''plans:removeItem.planId'') (\<lambda>planId.
     andThen (expectText (jget rec ''itemId'') ''plans:removeItem.itemId'') (\<lambda>itemId.
     Inr (planId, itemId))))"

definition parsePlanRemoveItemsPayload :: "jsval \<Rightarrow> (string \<times> string list) result" where
  "parsePlanRemoveItemsPayload value =
     andThen (expectRecord value ''plans:removeItems payload'') (\<lambda>rec.
     andThen (expectText (jget rec ''planId'') ''plans:removeItems.planId'') (\<lambda>planId.
     andThen (parseIds (jget rec ''itemIds'') ''plans:removeItems.itemIds'') (\<lambda>itemIds.
     Inr (planId, itemIds))))"

definition parsePlanReorderPayload :: "jsval \<Rightarrow> cpPlanReorderPayload result" where
  "parsePlanReorderPayload value =
     andThen (expectRecord value ''plans:reorder payload'') (\<lambda>rec.
     andThen (expectText (jget rec ''planId'') ''plans:reorder.planId'') (\<lambda>planId.
     andThen (parseIds (jget rec ''orderedItemIds'') ''plans:reorder.orderedItemIds'') (\<lambda>ids.
     Inr \<lparr>ro_planId = planId, ro_orderedItemIds = ids\<rparr>)))"

definition parsePlanExportPayload :: "jsval \<Rightarrow> string result" where
  "parsePlanExportPayload value =
     andThen (expectRecord value ''plans:export payload'') (\<lambda>rec.
       expectText (jget rec ''planId'') ''plans:export.planId'')"

section \<open>Data import\<close>

definition parseDataImportPayload ::
  "jsval \<Rightarrow> (cpDataImportMode \<times> cpDataImportAtomicity) result" where
  "parseDataImportPayload value =
     (if is_nullish value then Inr (MERGE, ENTITY)
      else
        andThen (expectRecord value ''data:importAll payload'') (\<lambda>rec.
        andThen (if is_nullish (jget rec ''mode'') then Inr MERGE
                 else expectEnum DATA_IMPORT_MODES (jget rec ''mode'') ''data:importAll.mode'')
          (\<lambda>mode.
        andThen (if is_nullish (jget rec ''atomicity'')
                 then Inr (if mode = REPLACE then STRICT else ENTITY)
                 else expectEnum DATA_IMPORT_ATOMICITY (jget rec ''atomicity'')
                        ''data:importAll.atomicity'') (\<lambda>atomicity.
        Inr (mode, atomicity)))))"

section \<open>What the parsers accept\<close>

lemma parseIds_iff [accept_simps]:
  "parseIds v l = Inr ids \<longleftrightarrow>
     (\<exists>raws. v = JArr (map JStr raws) \<and> ids = map trim raws \<and> [] \<notin> set ids)"
proof -
  have step: "traverse_from i (\<lambda>idx id. expectText id (indexed l idx)) xs = Inr ids \<longleftrightarrow>
      (\<exists>raws. xs = map JStr raws \<and> ids = map trim raws \<and> [] \<notin> set ids)" for i xs
  proof (induction xs arbitrary: i ids)
    case Nil
    show ?case by auto
  next
    case (Cons x xs)
    show ?case
    proof
      assume "traverse_from i (\<lambda>idx id. expectText id (indexed l idx)) (x # xs) = Inr ids"
      then obtain raw raws where "x = JStr raw" "xs = map JStr raws" "ids = map trim (raw # raws)"
        "[] \<notin> set ids"
        by (auto simp: res_simps accept_simps Cons.IH)
      then show "\<exists>raws. x # xs = map JStr raws \<and> ids = map trim raws \<and> [] \<notin> set ids"
        by (intro exI [of _ "raw # raws"]) simp
    next
      assume "\<exists>raws. x # xs = map JStr raws \<and> ids = map trim raws \<and> [] \<notin> set ids"
      then obtain raws where "x # xs = map JStr raws" "ids = map trim raws" "[] \<notin> set ids"
        by (elim exE conjE)
      then obtain r rs where r: "x = JStr r" "xs = map JStr rs" "ids = trim r # map trim rs"
          "[] \<notin> set ids"
        by (cases raws) auto
      then have "traverse_from (Suc i) (\<lambda>idx id. expectText id (indexed l idx)) xs
          = Inr (map trim rs)"
        by (intro Cons.IH [THEN iffD2] exI [of _ rs]) auto
      with r show "traverse_from i (\<lambda>idx id. expectText id (indexed l idx)) (x # xs) = Inr ids"
        by (auto simp: res_simps accept_simps)
    qed
  qed
  show ?thesis
    by (auto simp: parseIds_def res_simps accept_simps step)
qed

lemma map_of_kinds: "map_of CP_PLAN_ITEM_KIND_VALUES s = Some k \<longleftrightarrow> s = kindName k"
  using isCpPlanItemKind_Some by (simp add: isCpPlanItemKind_def)

text \<open>The object of an item payload and the payloads that are well formed\<close>

definition encodeAddItem :: "cpPlanAddItemPayload \<Rightarrow> jsval" where
  "encodeAddItem p = JObj
     [(''planId'', JStr (ai_planId p)), (''kind'', JStr (kindName (ai_kind p))),
      (''title'', enc JStr (ai_title p)), (''content'', enc JStr (ai_content p)),
      (''notes'', enc JStr (ai_notes p)), (''refId'', enc JStr (ai_refId p)),
      (''refSubId'', enc JStr (ai_refSubId p)), (''mediaPath'', enc JStr (ai_mediaPath p)),
      (''secondaryContent'', enc JStr (ai_secondaryContent p)),
      (''backgroundConfig'', enc JStr (ai_backgroundConfig p))]"

definition addItemOk :: "cpPlanAddItemPayload \<Rightarrow> bool" where
  "addItemOk p \<longleftrightarrow>
     textOk (ai_planId p) \<and> fieldOk textOk (ai_refId p) \<and> fieldOk textOk (ai_refSubId p)
     \<and> fieldOk textOk (ai_mediaPath p)"

lemma optionalRaw_enc [simp]: "optionalRaw (enc JStr x) l = Inr x"
  by (cases x) (simp_all add: accept_simps enc_def)

lemma optionalText_enc: "fieldOk textOk x \<Longrightarrow> optionalText (enc JStr x) l = Inr x"
  by (cases x) (auto simp: accept_simps enc_def textOk_def trim_trimmed)

lemma optionalText_ok: "optionalText v l = Inr x \<Longrightarrow> fieldOk textOk x"
  by (auto simp: accept_simps textOk_def split: if_splits)

lemma parse_encodeAddItem: "addItemOk p \<Longrightarrow> parsePlanAddItemPayload (encodeAddItem p) = Inr p"
  by (simp add: parsePlanAddItemPayload_def encodeAddItem_def addItemOk_def optionalText_enc
      expectEnum_def map_of_kinds [THEN iffD2] textOk_def)

lemma parse_addItemOk:
  assumes "parsePlanAddItemPayload v = Inr p"
  shows "addItemOk p"
  using assms
  unfolding parsePlanAddItemPayload_def andThen_Inr_iff
  by (clarsimp simp: addItemOk_def expectText_iff textOk_def optionalText_ok)

text \<open>
  The validator of \<open>plans:addItem\<close> returns exactly the payloads with a plan
  identifier that is trimmed and not empty, a known item kind, and references that are
  absent or trimmed and not empty; titles, contents and notes pass unchanged.
\<close>
theorem addItem_parser_exact:
  "(\<exists>v. parsePlanAddItemPayload v = Inr p) \<longleftrightarrow> addItemOk p"
  using parse_encodeAddItem parse_addItemOk by blast

text \<open>
  An import that replaces all data and yet tolerates partial failure happens only
  when the payload asks for both by name: the atomicity defaults to \<open>STRICT\<close> with
  \<open>REPLACE\<close>, and a missing payload never replaces.
\<close>
theorem lax_replace_is_explicit:
  assumes "parseDataImportPayload v = Inr (REPLACE, ENTITY)"
  shows "\<exists>rec m a. v = JObj rec \<and> jget rec ''mode'' = JStr m \<and> trim m = ''REPLACE''
           \<and> jget rec ''atomicity'' = JStr a \<and> trim a = ''ENTITY''"
  using assms
  by (auto simp: parseDataImportPayload_def res_simps accept_simps DATA_IMPORT_MODES_def
      DATA_IMPORT_ATOMICITY_def split: if_splits)

theorem lax_replace_is_explicit_witness:
  "\<exists>rec. JObj [(''mode'', JStr '' REPLACE''), (''atomicity'', JStr ''ENTITY'')] = JObj rec
     \<and> jget rec ''atomicity'' = JStr ''ENTITY''"
  using lax_replace_is_explicit
    [of "JObj [(''mode'', JStr '' REPLACE''), (''atomicity'', JStr ''ENTITY'')]"]
  by (simp add: parseDataImportPayload_def expectEnum_def expectString_def trim_def trim_left_def
      trim_right_def js_space_def DATA_IMPORT_MODES_def DATA_IMPORT_ATOMICITY_def)

end
