(* ===== verification/Reorder.thy ===== *)
theory Reorder
  imports Payloads
begin

text \<open>
  Reordering the items of a plan: the order the window computes after a drag
  (\<open>renderer/src/lib/reorder.ts\<close>) and the check the main process makes before it stores
  an order (\<open>main/ipc/reorderValidation.ts\<close>).
\<close>

section \<open>The validator of the main process\<close>

definition validatePlanReorderPayload :: "string list \<Rightarrow> string list \<Rightarrow> unit result" where
  "validatePlanReorderPayload currentIds requestedIds =
     (if length requestedIds \<noteq> length currentIds then Inl ''Invalid reorder payload size''
      else if card (set requestedIds) \<noteq> length requestedIds
      then Inl ''Duplicate item id in reorder payload''
      else if \<exists>id \<in> set requestedIds. id \<notin> set currentIds
      then Inl ''Reorder payload contains item outside target plan''
      else Inr ())"

lemma validatePlanReorderPayload_iff:
  assumes "distinct currentIds"
  shows "validatePlanReorderPayload currentIds requestedIds = Inr ()
           \<longleftrightarrow> mset requestedIds = mset currentIds"
proof
  assume "validatePlanReorderPayload currentIds requestedIds = Inr ()"
  then have len: "length requestedIds = length currentIds" and d: "distinct requestedIds"
    and sub: "set requestedIds \<subseteq> set currentIds"
    by (auto simp: validatePlanReorderPayload_def card_distinct split: if_splits)
  have "set requestedIds = set currentIds"
    using assms d len sub by (metis List.finite_set card_subset_eq distinct_card)
  then show "mset requestedIds = mset currentIds"
    using assms d by (simp add: set_eq_iff_mset_eq_distinct)
next
  assume m: "mset requestedIds = mset currentIds"
  then have "distinct requestedIds" "set requestedIds = set currentIds"
      "length requestedIds = length currentIds"
    using assms by (metis mset_eq_imp_distinct_iff, metis mset_eq_setD, metis mset_eq_length)
  then show "validatePlanReorderPayload currentIds requestedIds = Inr ()"
    using assms by (simp add: validatePlanReorderPayload_def distinct_card)
qed

section \<open>The order after a drag\<close>

record planItem =
  pi_id :: string
  pi_order :: int
  pi_kind :: cpPlanItemKind
  pi_title :: "string option"
  pi_content :: "string option"
  pi_refId :: "string option"
  pi_refSubId :: "string option"
  pi_songId :: "string option"
  pi_mediaPath :: "string option"
  pi_secondaryContent :: "string option"
  pi_backgroundConfig :: "string option"

definition moveArray :: "'a list \<Rightarrow> nat \<Rightarrow> nat \<Rightarrow> 'a list" where
  "moveArray arr src dst =
     (if src < length arr
      then let copy = take src arr @ drop (Suc src) arr
           in take dst copy @ [arr ! src] @ drop dst copy
      else arr)"

text \<open>
  The map over the items that replaces the visible ones, with the cursor of the source as
  an argument. Reading past the end of \<open>reorderedVisibleIds\<close> gives \<open>undefined\<close>, here \<open>None\<close>.
\<close>

fun mergeVisible :: "string set \<Rightarrow> string list \<Rightarrow> nat \<Rightarrow> string list \<Rightarrow> string option list" where
  "mergeVisible visibleSet reordered cursor [] = []"
| "mergeVisible visibleSet reordered cursor (i # ids) =
     (if i \<notin> visibleSet then Some i # mergeVisible visibleSet reordered cursor ids
      else (if cursor < length reordered then Some (reordered ! cursor) else None)
             # mergeVisible visibleSet reordered (Suc cursor) ids)"

text \<open>The reduce that looks each identifier up and numbers the items found from 1\<close>

fun numberItems :: "(string \<rightharpoonup> planItem) \<Rightarrow> nat \<Rightarrow> string option list \<Rightarrow> planItem list" where
  "numberItems byId idx [] = []"
| "numberItems byId idx (oid # ids) =
     (case oid of
        None \<Rightarrow> numberItems byId (Suc idx) ids
      | Some i \<Rightarrow>
          (case byId i of
             None \<Rightarrow> numberItems byId (Suc idx) ids
           | Some item \<Rightarrow>
               item\<lparr>pi_order := int idx + 1\<rparr> # numberItems byId (Suc idx) ids))"

definition orderedIdsAfterDrag ::
  "planItem list \<Rightarrow> planItem list \<Rightarrow> bool \<Rightarrow> string \<Rightarrow> string \<Rightarrow> string option list option" where
  "orderedIdsAfterDrag items visibleItems filterSongsOnly activeId overId =
     (if filterSongsOnly then
        let visibleIds = map pi_id visibleItems
        in case (index_of activeId visibleIds, index_of overId visibleIds) of
             (Some oldVisibleIndex, Some newVisibleIndex) \<Rightarrow>
               Some (mergeVisible (set visibleIds)
                 (moveArray visibleIds oldVisibleIndex newVisibleIndex) 0 (map pi_id items))
           | _ \<Rightarrow> None
      else
        let currentIds = map pi_id items
        in case (index_of activeId currentIds, index_of overId currentIds) of
             (Some oldIndex, Some newIndex) \<Rightarrow>
               Some (map Some (moveArray currentIds oldIndex newIndex))
           | _ \<Rightarrow> None)"

definition reorderPlanItems ::
  "planItem list \<Rightarrow> planItem list \<Rightarrow> bool \<Rightarrow> string \<Rightarrow> string
     \<Rightarrow> (string option list \<times> planItem list) option" where
  "reorderPlanItems items visibleItems filterSongsOnly activeId overId =
     (case orderedIdsAfterDrag items visibleItems filterSongsOnly activeId overId of
        None \<Rightarrow> None
      | Some orderedItemIds \<Rightarrow>
          let byId = map_of (rev (map (\<lambda>item. (pi_id item, item)) items));
              newItems = numberItems byId 0 orderedItemIds
          in if length newItems \<noteq> length items then None
             else Some (orderedItemIds, newItems))"

section \<open>The result is a permutation\<close>

lemma mset_moveArray [simp]: "mset (moveArray arr src dst) = mset arr"
proof (cases "src < length arr")
  case True
  let ?copy = "take src arr @ drop (Suc src) arr"
  have "mset (moveArray arr src dst) = add_mset (arr ! src) (mset (take dst ?copy @ drop dst ?copy))"
    unfolding moveArray_def using True by (simp add: Let_def del: append_take_drop_id)
  also have "mset (take dst ?copy @ drop dst ?copy) = mset ?copy"
    by (simp only: append_take_drop_id)
  also have "add_mset (arr ! src) (mset ?copy) = mset (take src arr @ arr ! src # drop (Suc src) arr)"
    by simp
  also have "\<dots> = mset arr"
    using True by (simp add: id_take_nth_drop [symmetric])
  finally show ?thesis .
qed (simp add: moveArray_def)

lemma length_moveArray [simp]: "length (moveArray arr src dst) = length arr"
  by (metis mset_moveArray size_mset)

lemma moveArray_lands:
  assumes "src < length arr" and "dst < length arr"
  shows "moveArray arr src dst ! dst = arr ! src"
  using assms by (simp add: moveArray_def Let_def nth_append min_def)

text \<open>
  The visible identifiers, in the order of the items, replaced by \<open>reordered\<close>: the hidden
  ones keep their places.
\<close>

lemma mergeVisible_Some:
  assumes "length (filter (\<lambda>i. i \<in> V) ids) + c = length reordered"
  shows "\<exists>out. mergeVisible V reordered c ids = map Some out
           \<and> mset out = mset (filter (\<lambda>i. i \<notin> V) ids) + mset (drop c reordered)
           \<and> length out = length ids
           \<and> (\<forall>k < length ids. ids ! k \<notin> V \<longrightarrow> out ! k = ids ! k)"
  using assms
proof (induction ids arbitrary: c)
  case Nil
  then show ?case by simp
next
  case (Cons i ids)
  show ?case
  proof (cases "i \<in> V")
    case False
    with Cons.prems obtain out where "mergeVisible V reordered c ids = map Some out"
        "mset out = mset (filter (\<lambda>i. i \<notin> V) ids) + mset (drop c reordered)"
        "length out = length ids" "\<forall>k < length ids. ids ! k \<notin> V \<longrightarrow> out ! k = ids ! k"
      using Cons.IH [of c] by auto
    with False show ?thesis
      by (intro exI [of _ "i # out"]) (auto simp: nth_Cons' split: nat.splits)
  next
    case True
    with Cons.prems obtain out where o: "mergeVisible V reordered (Suc c) ids = map Some out"
        "mset out = mset (filter (\<lambda>i. i \<notin> V) ids) + mset (drop (Suc c) reordered)"
        "length out = length ids" "\<forall>k < length ids. ids ! k \<notin> V \<longrightarrow> out ! k = ids ! k"
      using Cons.IH [of "Suc c"] by auto
    have c: "c < length reordered"
      using True Cons.prems by simp
    then have "mset (drop c reordered) = add_mset (reordered ! c) (mset (drop (Suc c) reordered))"
      by (metis Cons_nth_drop_Suc mset.simps(2))
    with o True c show ?thesis
      by (intro exI [of _ "reordered ! c # out"]) (auto simp: nth_Cons')
  qed
qed

lemma numberItems_found:
  assumes "\<And>i. i \<in> set ids \<Longrightarrow> byId i = Some (item i)"
  shows "numberItems byId idx (map Some ids)
           = map_idx_from idx (\<lambda>k i. (item i)\<lparr>pi_order := int k + 1\<rparr>) ids"
  using assms by (induction ids arbitrary: idx) simp_all

lemma byId_found:
  assumes "distinct (map pi_id items)" and "it \<in> set items"
  shows "map_of (rev (map (\<lambda>item. (pi_id item, item)) items)) (pi_id it) = Some it"
  using assms
  by (intro map_of_is_SomeI) (auto simp: rev_map [symmetric] comp_def distinct_map)

lemma drag_ids:
  assumes "filterSongsOnly \<Longrightarrow> visibleItems = filter vis items"
    and "distinct (map pi_id items)"
    and "shown = (if filterSongsOnly then visibleItems else items)"
    and "activeId \<in> set (map pi_id shown)" and "overId \<in> set (map pi_id shown)"
  obtains ids where
    "orderedIdsAfterDrag items visibleItems filterSongsOnly activeId overId = Some (map Some ids)"
    "mset ids = mset (map pi_id items)"
    "\<forall>k < length items. items ! k \<notin> set shown \<longrightarrow> ids ! k = pi_id (items ! k)"
proof -
  obtain i j where ij: "index_of activeId (map pi_id shown) = Some i"
      "index_of overId (map pi_id shown) = Some j"
    using assms(4,5) by (metis index_of_None_iff option.exhaust)
  show thesis
  proof (cases filterSongsOnly)
    case False
    with assms(3) ij show thesis
      by (intro that [of "moveArray (map pi_id items) i j"])
        (simp_all add: orderedIdsAfterDrag_def Let_def)
  next
    case True
    let ?V = "set (map pi_id visibleItems)" and ?ids = "map pi_id items"
    have vis: "filter (\<lambda>i. i \<in> ?V) ?ids = map pi_id visibleItems"
      using assms(1) [OF True] assms(2)
      by (auto simp: filter_map comp_def distinct_map inj_on_def intro!: arg_cong2 [where f = map]
          filter_cong)
    obtain out where out: "mergeVisible ?V (moveArray (map pi_id visibleItems) i j) 0 ?ids
          = map Some out"
        "mset out = mset (filter (\<lambda>i. i \<notin> ?V) ?ids) + mset (map pi_id visibleItems)"
        "\<forall>k < length ?ids. ?ids ! k \<notin> ?V \<longrightarrow> out ! k = ?ids ! k"
      using mergeVisible_Some [of ?V ?ids 0 "moveArray (map pi_id visibleItems) i j"] vis
      by (auto simp del: set_map)
    have "orderedIdsAfterDrag items visibleItems filterSongsOnly activeId overId
        = Some (map Some out)"
      using True ij assms(3) out(1) by (simp add: orderedIdsAfterDrag_def Let_def)
    moreover have "mset out = mset ?ids"
    proof -
      have "mset out = mset (filter (\<lambda>i. i \<notin> ?V) ?ids) + mset (filter (\<lambda>i. i \<in> ?V) ?ids)"
        by (simp only: out(2) vis)
      also have "\<dots> = mset ?ids"
        using multiset_partition [of "mset ?ids" "\<lambda>i. i \<in> ?V"]
        by (simp only: mset_filter add.commute)
      finally show ?thesis .
    qed
    moreover have "\<forall>k < length items. items ! k \<notin> set shown \<longrightarrow> out ! k = pi_id (items ! k)"
    proof (intro allI impI)
      fix k assume k: "k < length items" "items ! k \<notin> set shown"
      have "pi_id (items ! k) \<notin> ?V"
      proof
        assume "pi_id (items ! k) \<in> ?V"
        then obtain v where "v \<in> set visibleItems" "pi_id v = pi_id (items ! k)"
          by auto
        moreover have "v \<in> set items" "items ! k \<in> set items"
          using calculation k(1) assms(1) [OF True] by auto
        ultimately have "v = items ! k"
          using assms(2) by (metis distinct_map inj_onD)
        with \<open>v \<in> set visibleItems\<close> k(2) True assms(3) show False by simp
      qed
      with out(3) k(1) show "out ! k = pi_id (items ! k)" by simp
    qed
    ultimately show thesis by (rule that)
  qed
qed

text \<open>
  Dragging one shown item onto another yields an order of the whole plan: it is a
  permutation of the plan's identifiers that the main process accepts, the rows of the
  answer carry it with the order values 1, 2, 3 and so on and are otherwise the items of
  the plan, and items the song filter hides keep their places.
\<close>
theorem drag_is_accepted_permutation:
  assumes "filterSongsOnly \<Longrightarrow> visibleItems = filter vis items"
    and "distinct (map pi_id items)"
    and "shown = (if filterSongsOnly then visibleItems else items)"
    and "activeId \<in> pi_id ` set shown" and "overId \<in> pi_id ` set shown"
  shows "\<exists>ids newItems.
           reorderPlanItems items visibleItems filterSongsOnly activeId overId
             = Some (map Some ids, newItems)
         \<and> validatePlanReorderPayload (map pi_id items) ids = Inr ()
         \<and> map pi_id newItems = ids
         \<and> map pi_order newItems = map (\<lambda>k. int k + 1) [0..<length items]
         \<and> (\<forall>n \<in> set newItems. \<exists>it \<in> set items. n = it\<lparr>pi_order := pi_order n\<rparr>)
         \<and> (\<forall>k < length items. items ! k \<notin> set shown \<longrightarrow> ids ! k = pi_id (items ! k))"
proof -
  obtain ids where ids:
      "orderedIdsAfterDrag items visibleItems filterSongsOnly activeId overId = Some (map Some ids)"
      "mset ids = mset (map pi_id items)"
      "\<forall>k < length items. items ! k \<notin> set shown \<longrightarrow> ids ! k = pi_id (items ! k)"
    using drag_ids [OF assms(1-3), of activeId overId] assms(4,5) by auto
  let ?byId = "map_of (rev (map (\<lambda>item. (pi_id item, item)) items))"
  define item where "item i = the (?byId i)" for i
  have found: "?byId i = Some (item i)" "item i \<in> set items" "pi_id (item i) = i"
    if "i \<in> set ids" for i
  proof -
    from that ids(2) obtain it where "it \<in> set items" "pi_id it = i"
      by (metis image_iff list.set_map mset_eq_setD)
    with byId_found [OF assms(2)] show "?byId i = Some (item i)" "item i \<in> set items"
        "pi_id (item i) = i"
      by (auto simp: item_def)
  qed
  let ?new = "map_idx_from 0 (\<lambda>k i. (item i)\<lparr>pi_order := int k + 1\<rparr>) ids"
  have len: "length ids = length items"
    using ids(2) by (metis length_map mset_eq_length)
  have "reorderPlanItems items visibleItems filterSongsOnly activeId overId
      = Some (map Some ids, ?new)"
    using ids(1) len found(1) by (simp add: reorderPlanItems_def numberItems_found)
  moreover have "map pi_id ?new = ids"
    using found(3) by (auto simp: list_eq_iff_nth_eq nth_map_idx)
  moreover have "map pi_order ?new = map (\<lambda>k. int k + 1) [0..<length items]"
    using map_idx_index [of 0 "\<lambda>k. int k + 1" ids] by (simp add: len)
  moreover have "\<forall>n \<in> set ?new. \<exists>it \<in> set items. n = it\<lparr>pi_order := pi_order n\<rparr>"
  proof
    fix n assume "n \<in> set ?new"
    then obtain k where k: "k < length ids" "n = (item (ids ! k))\<lparr>pi_order := int (0 + k) + 1\<rparr>"
      unfolding set_map_idx by blast
    then show "\<exists>it \<in> set items. n = it\<lparr>pi_order := pi_order n\<rparr>"
      using found(2) [of "ids ! k"] by (intro bexI [of _ "item (ids ! k)"]) simp_all
  qed
  moreover have "validatePlanReorderPayload (map pi_id items) ids = Inr ()"
    using ids(2) assms(2) by (simp add: validatePlanReorderPayload_iff)
  ultimately show ?thesis
    using ids(3) by (intro exI [of _ ids] exI [of _ ?new] conjI)
qed

definition sampleItem :: "string \<Rightarrow> cpPlanItemKind \<Rightarrow> planItem" where
  "sampleItem i k = \<lparr>pi_id = i, pi_order = 0, pi_kind = k, pi_title = None, pi_content = None,
     pi_refId = None, pi_refSubId = None, pi_songId = None, pi_mediaPath = None,
     pi_secondaryContent = None, pi_backgroundConfig = None\<rparr>"

theorem drag_is_accepted_permutation_witness:
  "\<exists>ids newItems.
     reorderPlanItems [sampleItem ''a'' TIMER, sampleItem ''b'' SONG_BLOCK] [] False ''a'' ''b''
       = Some (map Some ids, newItems) \<and> map pi_id newItems = ids"
  using drag_is_accepted_permutation
    [of False "[]" "\<lambda>_. True" "[sampleItem ''a'' TIMER, sampleItem ''b'' SONG_BLOCK]"
      "[sampleItem ''a'' TIMER, sampleItem ''b'' SONG_BLOCK]" "''a''" "''b''"]
  by (auto simp: sampleItem_def)

text \<open>
  C37: The main process accepts an order exactly when it is a permutation of the
  identifiers of the plan's items.
\<close>
theorem reorder_payload_is_permutation:
  assumes "distinct currentIds"
  shows "validatePlanReorderPayload currentIds requestedIds = Inr ()
           \<longleftrightarrow> mset requestedIds = mset currentIds"
  using assms by (rule validatePlanReorderPayload_iff)

theorem reorder_payload_is_permutation_witness:
  "validatePlanReorderPayload [''a'', ''b''] [''b'', ''a''] = Inr ()"
  using reorder_payload_is_permutation [of "[''a'', ''b'']" "[''b'', ''a'']"] by simp

end
