(* ===== verification/Dates.thy ===== *)
theory Dates
  imports Prelude
begin

text \<open>
  Dates: the UTC arithmetic of ECMAScript on time values in milliseconds, as far as the
  sources use it, \<open>normalizeDateToMidnight\<close> and \<open>addUtcDays\<close> of \<open>main/ipc/plans.ts\<close> and
  \<open>isoToYmd\<close> of \<open>renderer/src/lib/date.ts\<close>. A \<open>Date\<close> is its time value, an \<open>int\<close>; an
  invalid date is \<open>None\<close>. \<open>new Date(text)\<close> on a text that is no plain day is the
  engine's own affair: the parameter \<open>parseDate\<close>.
\<close>

section \<open>Days, years and months\<close>

abbreviation msPerDay :: int where
  "msPerDay \<equiv> 86400000"

definition DayFromYear :: "int \<Rightarrow> int" where
  "DayFromYear y = 365 * (y - 1970) + (y - 1969) div 4 - (y - 1901) div 100 + (y - 1601) div 400"

definition InLeapYear :: "int \<Rightarrow> bool" where
  "InLeapYear y \<longleftrightarrow> (y mod 4 = 0 \<and> y mod 100 \<noteq> 0) \<or> y mod 400 = 0"

definition YearFromDay :: "int \<Rightarrow> int" where
  "YearFromDay d =
     (let y = 1970 + (400 * d) div 146097
      in if d < DayFromYear y then y - 1 else if DayFromYear (y + 1) \<le> d then y + 1 else y)"

text \<open>The day within the year on which month \<open>m\<close> (from 0) starts\<close>

definition monthStart :: "int \<Rightarrow> int \<Rightarrow> int" where
  "monthStart leap m =
     (if m \<le> 0 then 0 else if m = 1 then 31 else if m = 2 then 59 + leap
      else if m = 3 then 90 + leap else if m = 4 then 120 + leap else if m = 5 then 151 + leap
      else if m = 6 then 181 + leap else if m = 7 then 212 + leap else if m = 8 then 243 + leap
      else if m = 9 then 273 + leap else if m = 10 then 304 + leap
      else if m = 11 then 334 + leap else 365 + leap)"

definition monthOf :: "int \<Rightarrow> int \<Rightarrow> int" where
  "monthOf leap n =
     (if n < 31 then 0 else if n < 59 + leap then 1 else if n < 90 + leap then 2
      else if n < 120 + leap then 3 else if n < 151 + leap then 4 else if n < 181 + leap then 5
      else if n < 212 + leap then 6 else if n < 243 + leap then 7 else if n < 273 + leap then 8
      else if n < 304 + leap then 9 else if n < 334 + leap then 10 else 11)"

definition leapDay :: "int \<Rightarrow> int" where
  "leapDay y = (if InLeapYear y then 1 else 0)"

definition MakeDay :: "int \<Rightarrow> int \<Rightarrow> int \<Rightarrow> int" where
  "MakeDay y m dt =
     (let ym = y + m div 12; mn = m mod 12
      in DayFromYear ym + monthStart (leapDay ym) mn + dt - 1)"

definition getUTCFullYear :: "int \<Rightarrow> int" where
  "getUTCFullYear t = YearFromDay (t div msPerDay)"

definition getUTCMonth :: "int \<Rightarrow> int" where
  "getUTCMonth t =
     (let d = t div msPerDay; y = YearFromDay d in monthOf (leapDay y) (d - DayFromYear y))"

definition getUTCDate :: "int \<Rightarrow> int" where
  "getUTCDate t =
     (let d = t div msPerDay; y = YearFromDay d; n = d - DayFromYear y
      in n - monthStart (leapDay y) (monthOf (leapDay y) n) + 1)"

text \<open>\<open>Date.UTC(y, m, d)\<close>: the years 0 to 99 stand for 1900 to 1999.\<close>

definition dateUTC :: "int \<Rightarrow> int \<Rightarrow> int \<Rightarrow> int" where
  "dateUTC y m d = MakeDay (if 0 \<le> y \<and> y \<le> 99 then 1900 + y else y) m d * msPerDay"

section \<open>The calendar is consistent\<close>

lemma DayFromYear_near:
  "146097 * (y - 1970) - 600 \<le> 400 * DayFromYear y"
  "400 * DayFromYear y \<le> 146097 * (y - 1970) + 600"
proof -
  define p where "p = (y - 1969) div 4"
  define q where "q = (y - 1901) div 100"
  define r where "r = (y - 1601) div 400"
  have a: "y - 1969 - 3 \<le> 4 * p" "4 * p \<le> y - 1969"
    unfolding p_def by linarith+
  have b: "y - 1901 - 99 \<le> 100 * q" "100 * q \<le> y - 1901"
    unfolding q_def by linarith+
  have c: "y - 1601 - 399 \<le> 400 * r" "400 * r \<le> y - 1601"
    unfolding r_def by linarith+
  have e: "DayFromYear y = 365 * (y - 1970) + p - q + r"
    by (simp add: DayFromYear_def p_def q_def r_def)
  show "146097 * (y - 1970) - 600 \<le> 400 * DayFromYear y"
    unfolding e using a b c by (simp add: algebra_simps)
  show "400 * DayFromYear y \<le> 146097 * (y - 1970) + 600"
    unfolding e using a b c by (simp add: algebra_simps)
qed

lemma YearFromDay_bounds:
  "DayFromYear (YearFromDay d) \<le> d" "d < DayFromYear (YearFromDay d + 1)"
proof -
  define k where "k = 400 * d div 146097"
  have "146097 * k = 400 * d - 400 * d mod 146097"
    by (simp add: k_def minus_mod_eq_mult_div)
  then have y: "146097 * k \<le> 400 * d" "400 * d < 146097 * k + 146097"
    by simp_all
  have "400 * DayFromYear (1970 + k - 1) \<le> 400 * d"
    using DayFromYear_near(2) [of "1970 + k - 1"] y(1) by (simp add: algebra_simps)
  moreover have "400 * d < 400 * DayFromYear (1970 + k + 2)"
    using DayFromYear_near(1) [of "1970 + k + 2"] y(2) by (simp add: algebra_simps)
  ultimately show "DayFromYear (YearFromDay d) \<le> d" "d < DayFromYear (YearFromDay d + 1)"
    by (auto simp: YearFromDay_def Let_def k_def [symmetric] add.assoc split: if_splits)
qed

lemma div_step:
  fixes a k :: int
  assumes "0 < k"
  shows "(a + 1) div k = a div k + (if (a + 1) mod k = 0 then 1 else 0)"
proof (cases "a mod k + 1 = k")
  case True
  then have "a + 1 = k * (a div k + 1)"
    by (metis add.assoc distrib_left mult.right_neutral mult_div_mod_eq)
  then show ?thesis using assms by simp
next
  case False
  then have r: "0 < a mod k + 1" "a mod k + 1 < k"
    using assms pos_mod_bound [of k a] pos_mod_sign [of k a] by linarith+
  have "a + 1 = k * (a div k) + (a mod k + 1)" by simp
  then have "(a + 1) div k = a div k" "(a + 1) mod k = a mod k + 1"
    using r by (metis less_imp_le int_div_pos_eq, metis less_imp_le int_mod_pos_eq)
  then show ?thesis using r by simp
qed

lemma shifted_div:
  fixes y c k :: int
  assumes "0 < k" and "c mod k = 0" and "c' = c + 1"
  shows "(y - c) div k = (y - c') div k + (if y mod k = 0 then 1 else 0)"
proof -
  have "(y - c) mod k = y mod k"
    using assms(2) by (metis diff_zero mod_diff_right_eq)
  then show ?thesis
    using div_step [OF assms(1), of "y - c'"] assms(3) by simp
qed

lemma leap_rule:
  "(c \<longrightarrow> b) \<Longrightarrow> (b \<longrightarrow> a) \<Longrightarrow>
     (if (a \<and> \<not> b) \<or> c then 1 else 0) =
     (if a then 1 else 0) - (if b then 1 else 0) + (if c then 1 else 0 :: int)"
  by auto

lemma leapDay_rule:
  "leapDay y = (if y mod 4 = 0 then 1 else 0) - (if y mod 100 = 0 then 1 else 0)
     + (if y mod 400 = 0 then 1 else 0)"
  unfolding leapDay_def InLeapYear_def
proof (rule leap_rule)
  show "y mod 400 = 0 \<longrightarrow> y mod 100 = 0"
    unfolding mod_eq_0_iff_dvd by (intro impI, rule dvd_trans [of _ 400]) simp_all
  show "y mod 100 = 0 \<longrightarrow> y mod 4 = 0"
    unfolding mod_eq_0_iff_dvd by (intro impI, rule dvd_trans [of _ 100]) simp_all
qed

lemma DayFromYear_step: "DayFromYear (y + 1) = DayFromYear y + 365 + leapDay y"
proof -
  have shift: "y + 1 - 1970 = y - 1970 + 1" "y + 1 - 1969 = y - 1968" "y + 1 - 1901 = y - 1900"
      "y + 1 - 1601 = y - 1600"
    by simp_all
  have "DayFromYear (y + 1) = 365 * (y - 1970 + 1) + (y - 1968) div 4 - (y - 1900) div 100
      + (y - 1600) div 400"
    unfolding DayFromYear_def shift by (rule refl)
  also have "\<dots> = 365 * (y - 1970 + 1)
      + ((y - 1969) div 4 + (if y mod 4 = 0 then 1 else 0))
      - ((y - 1901) div 100 + (if y mod 100 = 0 then 1 else 0))
      + ((y - 1601) div 400 + (if y mod 400 = 0 then 1 else 0))"
    by (intro arg_cong2 [where f = "(+)"] arg_cong2 [where f = "(-)"] refl shifted_div) simp_all
  also have "\<dots> = DayFromYear y + 365 + leapDay y"
    unfolding DayFromYear_def leapDay_rule by (simp only: ring_distribs algebra_simps mult_1_right)
  finally show ?thesis .
qed

lemma leapDay_cases: "leapDay y = 0 \<or> leapDay y = 1"
  by (simp add: leapDay_def)

lemma monthOf_range: "0 \<le> monthOf l n" "monthOf l n \<le> 11"
  by (simp_all add: monthOf_def)

lemma monthOf_div_mod [simp]: "monthOf l n div 12 = 0" "monthOf l n mod 12 = monthOf l n"
  using monthOf_range [of l n] by (simp_all add: div_pos_pos_trivial mod_pos_pos_trivial)

lemma MakeDay_add: "MakeDay y m (dt + n) = MakeDay y m dt + n"
  by (simp add: MakeDay_def Let_def)

text \<open>Reading a time value's fields and making a day of them gives the day back.\<close>

lemma MakeDay_fields:
  "MakeDay (getUTCFullYear t) (getUTCMonth t) (getUTCDate t) = t div msPerDay"
  by (simp add: MakeDay_def getUTCFullYear_def getUTCMonth_def getUTCDate_def Let_def)

text \<open>A day of the calendar: the fields of the day made of it are the given ones.\<close>

definition validYmd :: "int \<Rightarrow> int \<Rightarrow> int \<Rightarrow> bool" where
  "validYmd y m d \<longleftrightarrow>
     0 \<le> m \<and> m \<le> 11 \<and> 1 \<le> d
     \<and> d \<le> monthStart (leapDay y) (m + 1) - monthStart (leapDay y) m"

lemma DayFromYear_mono: "y \<le> z \<Longrightarrow> DayFromYear y \<le> DayFromYear z"
proof (induction z rule: int_ge_induct)
  case (step z)
  then show ?case
    using leapDay_cases [of z] by (auto simp: DayFromYear_step)
qed simp

lemma YearFromDay_unique:
  assumes "DayFromYear y \<le> d" and "d < DayFromYear (y + 1)"
  shows "YearFromDay d = y"
proof (rule ccontr)
  assume "YearFromDay d \<noteq> y"
  then consider "YearFromDay d + 1 \<le> y" | "y + 1 \<le> YearFromDay d" by linarith
  then show False
    using DayFromYear_mono YearFromDay_bounds [of d] assms by cases fastforce+
qed

lemma month_cases:
  fixes m :: int
  assumes "0 \<le> m" and "m \<le> 11"
  shows "m = 0 \<or> m = 1 \<or> m = 2 \<or> m = 3 \<or> m = 4 \<or> m = 5 \<or> m = 6 \<or> m = 7 \<or> m = 8
           \<or> m = 9 \<or> m = 10 \<or> m = 11"
  using assms by presburger

lemma monthOf_start_leap:
  assumes "0 \<le> m" and "m \<le> 11" and "1 \<le> d" and "d \<le> monthStart l (m + 1) - monthStart l m"
    and "l = 0 \<or> l = 1"
  shows "monthOf l (monthStart l m + d - 1) = m \<and> 0 \<le> monthStart l m + d - 1
           \<and> monthStart l m + d - 1 < 365 + l"
  using month_cases [OF assms(1,2)] assms(3-5)
  by (elim disjE) (simp_all add: monthStart_def monthOf_def)

lemma monthOf_start:
  assumes "validYmd y m d"
  shows "monthOf (leapDay y) (monthStart (leapDay y) m + d - 1) = m"
    and "0 \<le> monthStart (leapDay y) m + d - 1"
    and "monthStart (leapDay y) m + d - 1 < 365 + leapDay y"
  using monthOf_start_leap [of m d "leapDay y"] assms leapDay_cases [of y]
  by (simp_all add: validYmd_def)

lemma fields_of_valid:
  assumes "validYmd y m d" and "t = MakeDay y m d * msPerDay"
  shows "getUTCFullYear t = y" and "getUTCMonth t = m" and "getUTCDate t = d"
proof -
  have day: "t div msPerDay = DayFromYear y + (monthStart (leapDay y) m + d - 1)"
    using assms by (simp add: MakeDay_def Let_def validYmd_def div_pos_pos_trivial)
  then have "YearFromDay (t div msPerDay) = y"
    using monthOf_start(2,3) [OF assms(1)]
    by (intro YearFromDay_unique) (simp_all add: DayFromYear_step)
  then show "getUTCFullYear t = y" "getUTCMonth t = m" "getUTCDate t = d"
    using monthOf_start(1) [OF assms(1)] day
    by (simp_all add: getUTCFullYear_def getUTCMonth_def getUTCDate_def Let_def)
qed

section \<open>Dates of plans\<close>

text \<open>The match of \<open>/^(\d{4})-(\d{2})-(\d{2})$/\<close> with its groups as numbers\<close>

definition matchYmd :: "string \<Rightarrow> (int \<times> int \<times> int) option" where
  "matchYmd s =
     (let ys = take 4 s; ms = take 2 (drop 5 s); ds = drop 8 s
      in if length s = 10 \<and> s ! 4 = CHR ''-'' \<and> s ! 7 = CHR ''-''
            \<and> list_all is_digit ys \<and> list_all is_digit ms \<and> list_all is_digit ds
         then Some (int (digits_value ys), int (digits_value ms), int (digits_value ds))
         else None)"

definition normalizeDateToMidnight :: "(string \<Rightarrow> int option) \<Rightarrow> string \<Rightarrow> int result" where
  "normalizeDateToMidnight parseDate dateIso =
     (case matchYmd dateIso of
        Some (y, m, d) \<Rightarrow> Inr (dateUTC y (m - 1) d)
      | None \<Rightarrow>
          (case parseDate dateIso of
             None \<Rightarrow> Inl ''Invalid date''
           | Some t \<Rightarrow> Inr (dateUTC (getUTCFullYear t) (getUTCMonth t) (getUTCDate t))))"

definition addUtcDays :: "int \<Rightarrow> int \<Rightarrow> int" where
  "addUtcDays date days =
     dateUTC (getUTCFullYear date) (getUTCMonth date) (getUTCDate date + days)"

text \<open>The argument of \<open>isoToYmd\<close> is a text or a \<open>Date\<close>; an invalid date is \<open>None\<close>.\<close>

datatype isoOrDate = IsoText string | IsoDate "int option"

definition ymdOfTime :: "int \<Rightarrow> string" where
  "ymdOfTime t =
     show_int (getUTCFullYear t) @ ''-'' @ padStart2 (show_int (getUTCMonth t + 1)) @ ''-''
       @ padStart2 (show_int (getUTCDate t))"

text \<open>\<open>date.toISOString()\<close>\<close>

definition padStartN :: "nat \<Rightarrow> string \<Rightarrow> string" where
  "padStartN n s = replicate (n - length s) (CHR ''0'') @ s"

definition isoYear :: "int \<Rightarrow> string" where
  "isoYear y =
     (if 0 \<le> y \<and> y \<le> 9999 then padStartN 4 (show_int y)
      else (if y < 0 then ''-'' else ''+'') @ padStartN 6 (show_int \<bar>y\<bar>))"

definition toISOString :: "int \<Rightarrow> string" where
  "toISOString t =
     (let ms = t mod msPerDay
      in isoYear (getUTCFullYear t) @ ''-'' @ padStart2 (show_int (getUTCMonth t + 1)) @ ''-''
         @ padStart2 (show_int (getUTCDate t)) @ ''T'' @ padStart2 (show_int (ms div 3600000)) @ '':''
         @ padStart2 (show_int (ms div 60000 mod 60)) @ '':''
         @ padStart2 (show_int (ms div 1000 mod 60)) @ ''.'' @ padStartN 3 (show_int (ms mod 1000)) @ ''Z'')"

definition isoToYmd :: "(string \<Rightarrow> int option) \<Rightarrow> isoOrDate \<Rightarrow> string" where
  "isoToYmd parseDate input =
     (case input of
        IsoDate None \<Rightarrow> []
      | IsoDate (Some t) \<Rightarrow> ymdOfTime t
      | IsoText s \<Rightarrow>
          (case matchYmd (take 10 s) of
             Some _ \<Rightarrow> take 10 s
           | None \<Rightarrow> (case parseDate s of None \<Rightarrow> [] | Some t \<Rightarrow> ymdOfTime t)))"

lemma dateUTC_fields:
  assumes "\<not> (0 \<le> getUTCFullYear t \<and> getUTCFullYear t \<le> 99)"
  shows "dateUTC (getUTCFullYear t) (getUTCMonth t) (getUTCDate t + n)
           = (t div msPerDay + n) * msPerDay"
  using assms by (auto simp: dateUTC_def MakeDay_add MakeDay_fields)

lemma digit_char_of_value: "is_digit c \<Longrightarrow> digit_char (digit_value c) = c"
  by (simp add: is_digit_def digit_char_def digit_value_def)

lemma digit_value_less: "is_digit c \<Longrightarrow> digit_value c < 10"
  unfolding is_digit_def digit_value_def by linarith

lemma digits_value_pos: "is_digit c \<Longrightarrow> c \<noteq> CHR ''0'' \<Longrightarrow> 0 < digits_value (c # ds)"
proof (induction ds rule: rev_induct)
  case Nil
  have "digit_value c \<noteq> 0"
  proof
    assume "digit_value c = 0"
    then have "c = char_of (48 :: nat)"
      using digit_char_of_value [OF Nil(1)] by (simp add: digit_char_def)
    also have "\<dots> = CHR ''0''"
      by (simp add: char_of_def bit_0)
    finally show False using Nil(2) by simp
  qed
  then show ?case by (simp add: digits_value_def)
next
  case (snoc d ds)
  then show ?case
    using digits_value_snoc [of "c # ds" d] by simp
qed

lemma show_nat_digits_value:
  assumes "list_all is_digit (c # ds)" and "c \<noteq> CHR ''0''"
  shows "show_nat (digits_value (c # ds)) = c # ds"
  using assms(1)
proof (induction ds rule: rev_induct)
  case Nil
  then show ?case
    by (subst show_nat.simps)
      (simp add: digits_value_def digit_char_of_value digit_value_less)
next
  case (snoc d ds)
  have pos: "0 < digits_value (c # ds)" and d: "is_digit d"
    using snoc.prems assms(2) by (auto intro: digits_value_pos)
  have "digits_value (c # ds @ [d]) = 10 * digits_value (c # ds) + digit_value d"
    using digits_value_snoc [of "c # ds" d] by simp
  with pos digit_value_less [OF d] snoc show ?case
    by (subst show_nat.simps) (simp add: digit_char_of_value d)
qed

lemma show_int_nat [simp]: "show_int (int n) = show_nat n"
  by (simp add: show_int_def)

lemma padStart2_digits:
  assumes "list_all is_digit [a, b]"
  shows "padStart2 (show_nat (digits_value [a, b])) = [a, b]"
proof (cases "a = CHR ''0''")
  case True
  then have "digits_value [a, b] = digit_value b"
    by (simp add: digits_value_def digit_value_def)
  with assms True show ?thesis
    by (subst show_nat.simps)
      (simp add: digit_value_less digit_char_of_value padStart2_def)
next
  case False
  with assms show ?thesis
    by (simp add: show_nat_digits_value padStart2_def)
qed

lemma list10:
  assumes "length s = 10"
  obtains a b c d p e f q g h where "s = [a, b, c, d, p, e, f, q, g, h]"
  using assms by (auto simp: length_Suc_conv eval_nat_numeral)

lemma normalize_matchYmd:
  assumes "matchYmd s = Some (y, m, d)" and "1000 \<le> y" and "validYmd y (m - 1) d"
  shows "normalizeDateToMidnight parseDate s = Inr (MakeDay y (m - 1) d * msPerDay)"
    and "ymdOfTime (MakeDay y (m - 1) d * msPerDay) = s"
    and "\<exists>u. toISOString (MakeDay y (m - 1) d * msPerDay) = s @ u"
proof -
  show "normalizeDateToMidnight parseDate s = Inr (MakeDay y (m - 1) d * msPerDay)"
    using assms by (simp add: normalizeDateToMidnight_def dateUTC_def)
  have "length s = 10"
    using assms(1) by (auto simp: matchYmd_def Let_def split: if_splits)
  then obtain a b c e p f g q h i where "s = [a, b, c, e, p, f, g, q, h, i]"
    by (rule list10)
  moreover from this have "p = CHR ''-''" "q = CHR ''-''"
    using assms(1) by (auto simp: matchYmd_def Let_def split: if_splits)
  ultimately have st: "s = [a, b, c, e, CHR ''-'', f, g, CHR ''-'', h, i]"
    by simp
  have v: "y = int (digits_value [a, b, c, e])" "m = int (digits_value [f, g])"
      "d = int (digits_value [h, i])"
    and dig: "list_all is_digit [a, b, c, e]" "list_all is_digit [f, g]" "list_all is_digit [h, i]"
    using assms(1) unfolding st by (auto simp: matchYmd_def Let_def split: if_splits)
  have "a \<noteq> CHR ''0''"
  proof
    assume "a = CHR ''0''"
    then have "digits_value [a, b, c, e] < 1000"
      using dig(1) digit_value_less [of b] digit_value_less [of c] digit_value_less [of e]
      by (simp add: digits_value_def digit_value_def)
    with v(1) assms(2) show False by simp
  qed
  then have "show_int y = [a, b, c, e]"
    using show_nat_digits_value [OF dig(1)] v(1) by simp
  moreover have year: "0 \<le> y" "y \<le> 9999"
    using v(1) dig(1) digit_value_less [of a] digit_value_less [of b] digit_value_less [of c]
      digit_value_less [of e]
    by (simp_all add: digits_value_def)
  moreover have "padStart2 (show_int m) = [f, g]" "padStart2 (show_int d) = [h, i]"
    using padStart2_digits [OF dig(2)] padStart2_digits [OF dig(3)] v by simp_all
  ultimately show "ymdOfTime (MakeDay y (m - 1) d * msPerDay) = s"
      "\<exists>u. toISOString (MakeDay y (m - 1) d * msPerDay) = s @ u"
    using fields_of_valid [OF assms(3) refl] st year
    by (simp_all add: ymdOfTime_def toISOString_def isoYear_def padStartN_def Let_def)
qed

text \<open>
  A day of the calendar from the year 1000 on, written \<open>YYYY-MM-DD\<close>, is stored as a
  time value at midnight UTC, whatever the engine's parser does, and the window shows that
  stored date as the same text.
\<close>
theorem plan_date_roundtrip:
  assumes "matchYmd s = Some (y, m, d)" and "1000 \<le> y" and "validYmd y (m - 1) d"
  shows "\<exists>t. normalizeDateToMidnight parseDate s = Inr t \<and> t mod msPerDay = 0
           \<and> isoToYmd parseDate' (IsoDate (Some t)) = s"
  using normalize_matchYmd [OF assms] by (auto simp: isoToYmd_def)

theorem plan_date_roundtrip_witness:
  "\<exists>t. normalizeDateToMidnight (\<lambda>_. None) ''2024-02-29'' = Inr t \<and> t mod msPerDay = 0
     \<and> isoToYmd (\<lambda>_. None) (IsoDate (Some t)) = ''2024-02-29''"
  by (rule plan_date_roundtrip [of _ 2024 2 29])
    (simp_all add: matchYmd_def is_digit_def digits_value_def digit_value_def validYmd_def
      monthStart_def leapDay_def InLeapYear_def)

text \<open>
  The next candidate date of a plan is the midnight that starts the next day, for every
  time value whose year is not one of 0 to 99.
\<close>
theorem addUtcDays_next_midnight:
  assumes "\<not> (0 \<le> getUTCFullYear t \<and> getUTCFullYear t \<le> 99)"
  shows "addUtcDays t n = (t div msPerDay + n) * msPerDay"
  using dateUTC_fields [OF assms] by (simp add: addUtcDays_def)

theorem addUtcDays_next_midnight_witness:
  "addUtcDays 1709164800000 1 = 1709251200000"
  by (subst addUtcDays_next_midnight)
    (simp_all add: getUTCFullYear_def YearFromDay_def DayFromYear_def)

end
