(* ===== verification/PlanStore.thy ===== *)
theory PlanStore
  imports Reorder Dates
begin

text \<open>
  What the handlers of plans rely on: the two tables \<open>ServicePlan\<close> and \<open>ServiceItem\<close> of
  \<open>prisma/schema.prisma\<close> behind the Prisma client. The client is no part of the
  repository, so its calls are the fields of a record \<open>planDb\<close> over an abstract state, and
  the locale \<open>plan_store\<close> states the laws the schema and the client's documentation
  promise: unique and foreign keys are checked at each statement, a failing statement
  changes nothing. A table implementation at the end satisfies the laws. The columns
  \<open>createdAt\<close> and \<open>updatedAt\<close>, which the client maintains, are left out.
\<close>

section \<open>Rows and errors\<close>

datatype dbCode = P2002 | P2003 | P2025

datatype failure = ErrorMsg string | Prisma dbCode

record planRow =
  pl_id :: string
  pl_date :: int
  pl_title :: "string option"
  pl_backgroundConfig :: "string option"
  pl_deletedAt :: "int option"

record itemRow =
  it_id :: string
  it_planId :: string
  it_order :: int
  it_kind :: string
  it_refId :: "string option"
  it_refSubId :: "string option"
  it_songId :: "string option"
  it_title :: "string option"
  it_content :: "string option"
  it_notes :: "string option"
  it_mediaPath :: "string option"
  it_secondaryContent :: "string option"
  it_backgroundConfig :: "string option"

text \<open>
  \<open>findPlan\<close> and \<open>findItem\<close> are \<open>findUnique\<close> by identifier, \<open>findItems\<close> is \<open>findMany\<close>
  ordered by \<open>order\<close>, \<open>updatePlan\<close> and \<open>updateItem\<close> are \<open>update\<close> by identifier with the
  change as a function on rows. A row passed to a \<open>create\<close> has no identifier yet.
\<close>

record 'db planDb =
  findPlan :: "'db \<Rightarrow> string \<Rightarrow> planRow option"
  findPlans :: "'db \<Rightarrow> planRow list"
  createPlan :: "'db \<Rightarrow> planRow \<Rightarrow> failure + planRow \<times> 'db"
  updatePlan :: "'db \<Rightarrow> string \<Rightarrow> (planRow \<Rightarrow> planRow) \<Rightarrow> failure + 'db"
  findItem :: "'db \<Rightarrow> string \<Rightarrow> itemRow option"
  findItems :: "'db \<Rightarrow> (itemRow \<Rightarrow> bool) \<Rightarrow> itemRow list"
  createItem :: "'db \<Rightarrow> itemRow \<Rightarrow> failure + itemRow \<times> 'db"
  updateItem :: "'db \<Rightarrow> string \<Rightarrow> (itemRow \<Rightarrow> itemRow) \<Rightarrow> failure + 'db"
  deleteItems :: "'db \<Rightarrow> (itemRow \<Rightarrow> bool) \<Rightarrow> 'db"

text \<open>\<open>prisma.$transaction\<close>: an error in the body rolls everything back.\<close>

definition transaction :: "('db \<Rightarrow> failure + 'a \<times> 'db) \<Rightarrow> 'db \<Rightarrow> (failure + 'a) \<times> 'db" where
  "transaction body db =
     (case body db of Inl e \<Rightarrow> (Inl e, db) | Inr (x, db') \<Rightarrow> (Inr x, db'))"

lemma transaction_simps [simp]:
  "body db = Inl e \<Longrightarrow> transaction body db = (Inl e, db)"
  "body db = Inr (x, db') \<Longrightarrow> transaction body db = (Inr x, db')"
  by (simp_all add: transaction_def)

text \<open>Two rows of one plan with the same order, the key \<open>@@unique([planId, order])\<close>\<close>

definition sameSlot :: "itemRow \<Rightarrow> itemRow \<Rightarrow> bool" where
  "sameSlot r q \<longleftrightarrow> it_planId r = it_planId q \<and> it_order r = it_order q"

text \<open>The foreign keys of an item\<close>

definition refsOk :: "(string \<rightharpoonup> planRow) \<Rightarrow> string set \<Rightarrow> itemRow \<Rightarrow> bool" where
  "refsOk ps songs r \<longleftrightarrow>
     it_planId r \<in> dom ps \<and> (case it_songId r of None \<Rightarrow> True | Some s \<Rightarrow> s \<in> songs)"

text \<open>A change of a row that leaves its keys alone\<close>

definition keepsItemKeys :: "(itemRow \<Rightarrow> itemRow) \<Rightarrow> bool" where
  "keepsItemKeys f \<longleftrightarrow>
     (\<forall>r. it_id (f r) = it_id r \<and> it_planId (f r) = it_planId r \<and> it_songId (f r) = it_songId r)"

section \<open>The laws of the store\<close>

locale plan_store =
  fixes D :: "'db planDb"
    and plans :: "'db \<Rightarrow> string \<rightharpoonup> planRow"
    and items :: "'db \<Rightarrow> string \<rightharpoonup> itemRow"
    and songs :: "'db \<Rightarrow> string set"
    and ok :: "'db \<Rightarrow> bool"
  assumes find_plan: "ok db \<Longrightarrow> findPlan D db i = plans db i"
    and find_plans: "ok db \<Longrightarrow> set (findPlans D db) = ran (plans db)"
    and find_item: "ok db \<Longrightarrow> findItem D db i = items db i"
    and find_items_set: "ok db \<Longrightarrow> set (findItems D db P) = {r \<in> ran (items db). P r}"
    and find_items_sorted: "ok db \<Longrightarrow> sorted (map it_order (findItems D db P))"
    and find_items_distinct: "ok db \<Longrightarrow> distinct (findItems D db P)"
    and plan_key: "ok db \<Longrightarrow> plans db i = Some p \<Longrightarrow> pl_id p = i"
    and item_key: "ok db \<Longrightarrow> items db i = Some r \<Longrightarrow> it_id r = i"
    and date_unique: "ok db \<Longrightarrow> plans db i = Some p \<Longrightarrow> plans db j = Some p' \<Longrightarrow>
          pl_date p = pl_date p' \<Longrightarrow> i = j"
    and slot_unique: "ok db \<Longrightarrow> items db i = Some r \<Longrightarrow> items db j = Some q \<Longrightarrow>
          sameSlot r q \<Longrightarrow> i = j"
    and item_refs: "ok db \<Longrightarrow> items db i = Some r \<Longrightarrow> refsOk (plans db) (songs db) r"
    and create_plan_taken: "ok db \<Longrightarrow> plans db j = Some p' \<Longrightarrow> pl_date p' = pl_date p \<Longrightarrow>
          createPlan D db p = Inl (Prisma P2002)"
    and create_plan: "ok db \<Longrightarrow> (\<And>j p'. plans db j = Some p' \<Longrightarrow> pl_date p' \<noteq> pl_date p) \<Longrightarrow>
          \<exists>i db'. createPlan D db p = Inr (p\<lparr>pl_id := i\<rparr>, db') \<and> i \<notin> dom (plans db)
            \<and> plans db' = (plans db)(i \<mapsto> p\<lparr>pl_id := i\<rparr>) \<and> items db' = items db
            \<and> songs db' = songs db \<and> ok db'"
    and update_plan_missing: "ok db \<Longrightarrow> plans db i = None \<Longrightarrow>
          updatePlan D db i g = Inl (Prisma P2025)"
    and update_plan: "ok db \<Longrightarrow> plans db i = Some p \<Longrightarrow>
          (\<And>p'. pl_id (g p') = pl_id p' \<and> pl_date (g p') = pl_date p') \<Longrightarrow>
          \<exists>db'. updatePlan D db i g = Inr db' \<and> plans db' = (plans db)(i \<mapsto> g p)
            \<and> items db' = items db \<and> songs db' = songs db \<and> ok db'"
    and create_item_taken: "ok db \<Longrightarrow> items db j = Some q \<Longrightarrow> sameSlot r q \<Longrightarrow>
          createItem D db r = Inl (Prisma P2002)"
    and create_item_dangling: "ok db \<Longrightarrow> (\<And>j q. items db j = Some q \<Longrightarrow> \<not> sameSlot r q) \<Longrightarrow>
          \<not> refsOk (plans db) (songs db) r \<Longrightarrow> createItem D db r = Inl (Prisma P2003)"
    and create_item: "ok db \<Longrightarrow> (\<And>j q. items db j = Some q \<Longrightarrow> \<not> sameSlot r q) \<Longrightarrow>
          refsOk (plans db) (songs db) r \<Longrightarrow>
          \<exists>i db'. createItem D db r = Inr (r\<lparr>it_id := i\<rparr>, db') \<and> i \<notin> dom (items db)
            \<and> items db' = (items db)(i \<mapsto> r\<lparr>it_id := i\<rparr>) \<and> plans db' = plans db
            \<and> songs db' = songs db \<and> ok db'"
    and update_item_missing: "ok db \<Longrightarrow> items db i = None \<Longrightarrow>
          updateItem D db i f = Inl (Prisma P2025)"
    and update_item_taken: "ok db \<Longrightarrow> items db i = Some r \<Longrightarrow> items db j = Some q \<Longrightarrow> j \<noteq> i \<Longrightarrow>
          sameSlot (f r) q \<Longrightarrow> updateItem D db i f = Inl (Prisma P2002)"
    and update_item: "ok db \<Longrightarrow> items db i = Some r \<Longrightarrow> keepsItemKeys f \<Longrightarrow>
          (\<And>j q. items db j = Some q \<Longrightarrow> j \<noteq> i \<Longrightarrow> \<not> sameSlot (f r) q) \<Longrightarrow>
          \<exists>db'. updateItem D db i f = Inr db' \<and> items db' = (items db)(i \<mapsto> f r)
            \<and> plans db' = plans db \<and> songs db' = songs db \<and> ok db'"
    and delete_items: "ok db \<Longrightarrow>
          items (deleteItems D db P) =
            (\<lambda>i. case items db i of None \<Rightarrow> None | Some r \<Rightarrow> if P r then None else Some r)
          \<and> plans (deleteItems D db P) = plans db \<and> songs (deleteItems D db P) = songs db
          \<and> ok (deleteItems D db P)"
begin

text \<open>The items of a plan, in order: their identifiers and order values are distinct.\<close>

lemma plan_items_mem:
  "ok db \<Longrightarrow> r \<in> set (findItems D db P) \<longleftrightarrow> items db (it_id r) = Some r \<and> P r"
  using find_items_set [of db P] by (auto simp: ran_def dest: item_key)

lemma plan_items_ids: "ok db \<Longrightarrow> distinct (map it_id (findItems D db P))"
  unfolding distinct_map inj_on_def
  by (metis find_items_distinct option.inject plan_items_mem)

lemma plan_items_orders:
  assumes "ok db"
  shows "sorted_wrt (<) (map it_order (findItems D db (\<lambda>r. it_planId r = p)))"
proof -
  have "distinct (map it_order (findItems D db (\<lambda>r. it_planId r = p)))"
    unfolding distinct_map inj_on_def
    using assms find_items_distinct plan_items_mem slot_unique
    by (metis (mono_tags, lifting) option.inject sameSlot_def)
  then show ?thesis
    using find_items_sorted [OF assms] by (simp add: strict_sorted_iff)
qed

end

section \<open>Tables that satisfy the laws\<close>

record planTables =
  tb_planRows :: "planRow list"
  tb_itemRows :: "itemRow list"
  tb_songIds :: "string list"
  tb_next :: nat

definition tb_plans :: "planTables \<Rightarrow> string \<rightharpoonup> planRow" where
  "tb_plans t = map_of (map (\<lambda>p. (pl_id p, p)) (tb_planRows t))"

definition tb_items :: "planTables \<Rightarrow> string \<rightharpoonup> itemRow" where
  "tb_items t = map_of (map (\<lambda>r. (it_id r, r)) (tb_itemRows t))"

definition tb_songs :: "planTables \<Rightarrow> string set" where
  "tb_songs t = set (tb_songIds t)"

text \<open>Identifiers are the numerals below the counter.\<close>

definition usedIds :: "nat \<Rightarrow> string set" where
  "usedIds n = show_nat ` {..<n}"

definition tablesOk :: "planTables \<Rightarrow> bool" where
  "tablesOk t \<longleftrightarrow>
     distinct (map pl_id (tb_planRows t)) \<and> distinct (map pl_date (tb_planRows t))
     \<and> distinct (map it_id (tb_itemRows t))
     \<and> distinct (map (\<lambda>r. (it_planId r, it_order r)) (tb_itemRows t))
     \<and> (\<forall>r \<in> set (tb_itemRows t). refsOk (tb_plans t) (tb_songs t) r)
     \<and> (\<forall>p \<in> set (tb_planRows t). pl_id p \<in> usedIds (tb_next t))
     \<and> (\<forall>r \<in> set (tb_itemRows t). it_id r \<in> usedIds (tb_next t))"

definition tablesDb :: "planTables planDb" where
  "tablesDb = \<lparr>
     findPlan = tb_plans,
     findPlans = tb_planRows,
     createPlan = (\<lambda>t p.
       if pl_date p \<in> set (map pl_date (tb_planRows t)) then Inl (Prisma P2002)
       else let q = p\<lparr>pl_id := show_nat (tb_next t)\<rparr>
            in Inr (q, t\<lparr>tb_planRows := q # tb_planRows t, tb_next := Suc (tb_next t)\<rparr>)),
     updatePlan = (\<lambda>t i g.
       if tb_plans t i = None then Inl (Prisma P2025)
       else Inr (t\<lparr>tb_planRows := map (\<lambda>p. if pl_id p = i then g p else p) (tb_planRows t)\<rparr>)),
     findItem = tb_items,
     findItems = (\<lambda>t P. sort_key it_order (filter P (tb_itemRows t))),
     createItem = (\<lambda>t r.
       if list_ex (sameSlot r) (tb_itemRows t) then Inl (Prisma P2002)
       else if \<not> refsOk (tb_plans t) (tb_songs t) r then Inl (Prisma P2003)
       else let q = r\<lparr>it_id := show_nat (tb_next t)\<rparr>
            in Inr (q, t\<lparr>tb_itemRows := q # tb_itemRows t, tb_next := Suc (tb_next t)\<rparr>)),
     updateItem = (\<lambda>t i f.
       case tb_items t i of
         None \<Rightarrow> Inl (Prisma P2025)
       | Some r \<Rightarrow>
           if list_ex (\<lambda>q. it_id q \<noteq> i \<and> sameSlot (f r) q) (tb_itemRows t)
           then Inl (Prisma P2002)
           else Inr (t\<lparr>tb_itemRows :=
                        map (\<lambda>q. if it_id q = i then f q else q) (tb_itemRows t)\<rparr>)),
     deleteItems = (\<lambda>t P. t\<lparr>tb_itemRows := filter (\<lambda>r. \<not> P r) (tb_itemRows t)\<rparr>)\<rparr>"

lemma usedIds_Suc: "usedIds (Suc n) = insert (show_nat n) (usedIds n)"
  by (auto simp: usedIds_def lessThan_Suc)

lemma fresh_usedIds [simp]: "show_nat n \<notin> usedIds n"
  by (auto simp: usedIds_def dest: show_nat_inj)

lemma tb_items_Some:
  "tablesOk t \<Longrightarrow> tb_items t i = Some r \<longleftrightarrow> r \<in> set (tb_itemRows t) \<and> it_id r = i"
  unfolding tb_items_def tablesOk_def
  by (subst map_of_eq_Some_iff) (auto simp: comp_def)

lemma tb_plans_Some:
  "tablesOk t \<Longrightarrow> tb_plans t i = Some p \<longleftrightarrow> p \<in> set (tb_planRows t) \<and> pl_id p = i"
  unfolding tb_plans_def tablesOk_def
  by (subst map_of_eq_Some_iff) (auto simp: comp_def)

lemma map_of_update_row:
  assumes "distinct (map key rows)" and "map_of (map (\<lambda>r. (key r, r)) rows) i = Some r"
    and "\<And>r. key (f r) = key r"
  shows "map_of (map (\<lambda>r. (key r, r)) (map (\<lambda>q. if key q = i then f q else q) rows))
           = (map_of (map (\<lambda>r. (key r, r)) rows))(i \<mapsto> f r)"
  using assms
proof (induction rows)
  case (Cons q rows)
  show ?case
  proof (cases "key q = i")
    case True
    then have "map (\<lambda>q. if key q = i then f q else q) rows = rows"
      using Cons.prems(1) by (intro map_idI) (auto simp: image_iff)
    with True Cons.prems show ?thesis by (auto simp: comp_def)
  next
    case False
    with Cons show ?thesis by (auto simp: comp_def fun_upd_twist)
  qed
qed simp

lemma map_of_filter_rows:
  "distinct (map key rows) \<Longrightarrow>
     map_of (map (\<lambda>r. (key r, r)) (filter (\<lambda>r. \<not> P r) rows)) i
       = (case map_of (map (\<lambda>r. (key r, r)) rows) i of
            None \<Rightarrow> None | Some r \<Rightarrow> if P r then None else Some r)"
proof (induction rows)
  case (Cons q rows)
  then show ?case
    by (auto simp: map_of_eq_None_iff image_iff split: option.splits)
qed simp

lemma tb_items_insert:
  "tb_items (t\<lparr>tb_itemRows := q # tb_itemRows t\<rparr>) = (tb_items t)(it_id q \<mapsto> q)"
  by (simp add: tb_items_def)

lemma tb_plans_insert:
  "tb_plans (t\<lparr>tb_planRows := q # tb_planRows t\<rparr>) = (tb_plans t)(pl_id q \<mapsto> q)"
  by (simp add: tb_plans_def)

lemma tb_frames [simp]:
  "tb_plans (t\<lparr>tb_itemRows := rs\<rparr>) = tb_plans t"
  "tb_plans (t\<lparr>tb_next := n\<rparr>) = tb_plans t"
  "tb_items (t\<lparr>tb_planRows := ps\<rparr>) = tb_items t"
  "tb_items (t\<lparr>tb_next := n\<rparr>) = tb_items t"
  "tb_songs (t\<lparr>tb_itemRows := rs\<rparr>) = tb_songs t"
  "tb_songs (t\<lparr>tb_planRows := ps\<rparr>) = tb_songs t"
  "tb_songs (t\<lparr>tb_next := n\<rparr>) = tb_songs t"
  by (simp_all add: tb_plans_def tb_items_def tb_songs_def)

lemma refsOk_more: "refsOk ps S r \<Longrightarrow> dom ps \<subseteq> dom ps' \<Longrightarrow> refsOk ps' S r"
  by (auto simp: refsOk_def)

lemma sameSlot_pair: "sameSlot r q \<longleftrightarrow> (it_planId r, it_order r) = (it_planId q, it_order q)"
  by (simp add: sameSlot_def)

lemma tables_createPlan:
  assumes "tablesOk t" and "pl_date p \<notin> set (map pl_date (tb_planRows t))"
  defines "q \<equiv> p\<lparr>pl_id := show_nat (tb_next t)\<rparr>"
  shows "tablesOk (t\<lparr>tb_planRows := q # tb_planRows t, tb_next := Suc (tb_next t)\<rparr>)"
    and "pl_id q \<notin> dom (tb_plans t)"
proof -
  have "\<forall>x \<in> set (tb_planRows t). pl_id x \<in> usedIds (tb_next t)"
    using assms(1) by (simp add: tablesOk_def)
  then have fresh: "pl_id q \<notin> pl_id ` set (tb_planRows t)"
    by (simp add: q_def image_iff) (metis fresh_usedIds)
  have "refsOk ((tb_plans t)(pl_id q \<mapsto> q)) (tb_songs t) r" if "r \<in> set (tb_itemRows t)" for r
  proof (rule refsOk_more)
    show "refsOk (tb_plans t) (tb_songs t) r"
      using assms(1) that by (simp add: tablesOk_def)
  qed (simp add: subset_insertI)
  moreover have "pl_date q = pl_date p" "pl_id q = show_nat (tb_next t)"
    by (simp_all add: q_def)
  ultimately show "tablesOk (t\<lparr>tb_planRows := q # tb_planRows t, tb_next := Suc (tb_next t)\<rparr>)"
    using assms(1,2) fresh by (simp add: tablesOk_def tb_plans_insert usedIds_Suc)
  show "pl_id q \<notin> dom (tb_plans t)"
    using fresh by (auto simp: tb_plans_Some [OF assms(1)]) (metis image_eqI)
qed

lemma tables_createItem:
  assumes "tablesOk t" and "\<not> list_ex (sameSlot r) (tb_itemRows t)"
    and "refsOk (tb_plans t) (tb_songs t) r"
  defines "q \<equiv> r\<lparr>it_id := show_nat (tb_next t)\<rparr>"
  shows "tablesOk (t\<lparr>tb_itemRows := q # tb_itemRows t, tb_next := Suc (tb_next t)\<rparr>)"
    and "it_id q \<notin> dom (tb_items t)"
proof -
  have "\<forall>x \<in> set (tb_itemRows t). it_id x \<in> usedIds (tb_next t)"
    using assms(1) by (simp add: tablesOk_def)
  then have fresh: "it_id q \<notin> it_id ` set (tb_itemRows t)"
    by (simp add: q_def image_iff) (metis fresh_usedIds)
  have "refsOk (tb_plans t) (tb_songs t) q"
    using assms(3) by (simp add: q_def refsOk_def)
  moreover have "(it_planId q, it_order q)
      \<notin> (\<lambda>r. (it_planId r, it_order r)) ` set (tb_itemRows t)"
    using assms(2) by (auto simp: list_ex_iff sameSlot_def q_def)
  ultimately show "tablesOk (t\<lparr>tb_itemRows := q # tb_itemRows t, tb_next := Suc (tb_next t)\<rparr>)"
    using assms(1) fresh by (auto simp: tablesOk_def usedIds_Suc q_def)
  show "it_id q \<notin> dom (tb_items t)"
    using fresh by (auto simp: tb_items_Some [OF assms(1)]) (metis image_eqI)
qed

lemma distinct_map_change:
  assumes "distinct (map k xs)" and "\<And>x y. x \<in> set xs \<Longrightarrow> y \<in> set xs \<Longrightarrow> x \<noteq> y \<Longrightarrow> k' x \<noteq> k' y"
  shows "distinct (map k' xs)"
proof -
  have "distinct xs" using assms(1) by (simp add: distinct_map)
  then show ?thesis using assms(2) by (auto simp: distinct_map inj_on_def)
qed

lemma tables_updateItem:
  assumes "tablesOk t" and "tb_items t i = Some r" and "keepsItemKeys f"
    and "\<not> list_ex (\<lambda>q. it_id q \<noteq> i \<and> sameSlot (f r) q) (tb_itemRows t)"
  defines "t' \<equiv> t\<lparr>tb_itemRows := map (\<lambda>q. if it_id q = i then f q else q) (tb_itemRows t)\<rparr>"
  shows "tablesOk t'" and "tb_items t' = (tb_items t)(i \<mapsto> f r)"
proof -
  let ?h = "\<lambda>q. if it_id q = i then f q else q"
  have key: "it_id (f q) = it_id q" "it_planId (f q) = it_planId q" "it_songId (f q) = it_songId q"
    for q using assms(3) by (simp_all add: keepsItemKeys_def)
  have d: "distinct (map it_id (tb_itemRows t))"
    using assms(1) by (simp add: tablesOk_def)
  have r: "q \<in> set (tb_itemRows t) \<Longrightarrow> it_id q = i \<Longrightarrow> q = r" for q
    using tb_items_Some [OF assms(1)] assms(2) by (metis option.inject)
  have ids: "map it_id (map ?h (tb_itemRows t)) = map it_id (tb_itemRows t)"
    by (simp add: key)
  have slots: "distinct (map (\<lambda>q. (it_planId (?h q), it_order (?h q))) (tb_itemRows t))"
  proof (rule distinct_map_change [where k = "\<lambda>r. (it_planId r, it_order r)"])
    show old: "distinct (map (\<lambda>r. (it_planId r, it_order r)) (tb_itemRows t))"
      using assms(1) by (simp add: tablesOk_def)
    fix x y assume xy: "x \<in> set (tb_itemRows t)" "y \<in> set (tb_itemRows t)" "x \<noteq> y"
    have no: "q \<in> set (tb_itemRows t) \<Longrightarrow> it_id q \<noteq> i \<Longrightarrow> \<not> sameSlot (f r) q" for q
      using assms(4) by (auto simp: list_ex_iff)
    have "(it_planId x, it_order x) \<noteq> (it_planId y, it_order y)"
      using old xy by (auto simp: distinct_map inj_on_def)
    then show "(it_planId (?h x), it_order (?h x)) \<noteq> (it_planId (?h y), it_order (?h y))"
      using xy r [of x] r [of y] no [of x] no [of y] by (auto simp: sameSlot_def)
  qed
  have "map (\<lambda>r. (it_planId r, it_order r)) (map ?h (tb_itemRows t))
      = map (\<lambda>q. (it_planId (?h q), it_order (?h q))) (tb_itemRows t)"
    by simp
  with slots have slots': "distinct (map (\<lambda>r. (it_planId r, it_order r)) (map ?h (tb_itemRows t)))"
    by (simp only:)
  have refs: "\<forall>q \<in> set (map ?h (tb_itemRows t)). refsOk (tb_plans t) (tb_songs t) q"
    using assms(1) by (auto simp: tablesOk_def refsOk_def key)
  have used: "\<forall>q \<in> set (map ?h (tb_itemRows t)). it_id q \<in> usedIds (tb_next t)"
    using assms(1) by (auto simp: tablesOk_def key)
  show "tablesOk t'"
    unfolding tablesOk_def t'_def
    using assms(1) d ids slots' refs used by (simp add: tablesOk_def del: map_map set_map)
  show "tb_items t' = (tb_items t)(i \<mapsto> f r)"
    using map_of_update_row [of it_id "tb_itemRows t" i r f] d assms(2) key(1)
    by (simp add: tb_items_def t'_def)
qed

lemma tables_deleteItems:
  fixes P :: "itemRow \<Rightarrow> bool"
  assumes "tablesOk t"
  defines "t' \<equiv> t\<lparr>tb_itemRows := filter (\<lambda>r. \<not> P r) (tb_itemRows t)\<rparr>"
  shows "tablesOk t'"
    and "tb_items t' =
      (\<lambda>i. case tb_items t i of None \<Rightarrow> None | Some r \<Rightarrow> if P r then None else Some r)"
proof -
  show "tablesOk t'"
    using assms(1) by (auto simp: tablesOk_def t'_def distinct_map_filter)
  show "tb_items t' =
      (\<lambda>i. case tb_items t i of None \<Rightarrow> None | Some r \<Rightarrow> if P r then None else Some r)"
    using map_of_filter_rows [of it_id "tb_itemRows t" P] assms(1)
    by (auto simp: tb_items_def t'_def tablesOk_def)
qed

lemma tables_updatePlan:
  assumes "tablesOk t" and "tb_plans t i = Some p"
    and g: "\<And>p. pl_id (g p) = pl_id p \<and> pl_date (g p) = pl_date p"
  defines "t' \<equiv> t\<lparr>tb_planRows := map (\<lambda>p. if pl_id p = i then g p else p) (tb_planRows t)\<rparr>"
  shows "tablesOk t'" and "tb_plans t' = (tb_plans t)(i \<mapsto> g p)"
proof -
  let ?h = "\<lambda>p. if pl_id p = i then g p else p"
  show m: "tb_plans t' = (tb_plans t)(i \<mapsto> g p)"
    using map_of_update_row [of pl_id "tb_planRows t" i p g] assms(1,2) g
    by (simp add: tb_plans_def t'_def tablesOk_def)
  have "map pl_id (map ?h (tb_planRows t)) = map pl_id (tb_planRows t)"
    "map pl_date (map ?h (tb_planRows t)) = map pl_date (tb_planRows t)"
    using g by simp_all
  moreover have "\<forall>q \<in> set (map ?h (tb_planRows t)). pl_id q \<in> usedIds (tb_next t)"
    using assms(1) g by (auto simp: tablesOk_def)
  moreover have "\<forall>r \<in> set (tb_itemRows t). refsOk ((tb_plans t)(i \<mapsto> g p)) (tb_songs t) r"
    using assms(1) refsOk_more [of "tb_plans t" "tb_songs t" _ "(tb_plans t)(i \<mapsto> g p)"]
    by (simp add: tablesOk_def subset_insertI)
  ultimately show "tablesOk t'"
    unfolding tablesOk_def m
    using assms(1) by (simp add: tablesOk_def t'_def del: map_map set_map)
qed

lemma tb_dates: "tablesOk t \<Longrightarrow> tb_plans t i = Some p \<Longrightarrow> tb_plans t j = Some q \<Longrightarrow>
    pl_date p = pl_date q \<Longrightarrow> i = j"
  by (auto simp: tb_plans_Some) (auto simp: tablesOk_def distinct_map inj_on_def)

lemma tb_slots: "tablesOk t \<Longrightarrow> tb_items t i = Some r \<Longrightarrow> tb_items t j = Some q \<Longrightarrow>
    sameSlot r q \<Longrightarrow> i = j"
  by (auto simp: tb_items_Some sameSlot_def) (auto simp: tablesOk_def distinct_map inj_on_def)

lemma tb_no_slot:
  "tablesOk t \<Longrightarrow> (\<And>j q. tb_items t j = Some q \<Longrightarrow> \<not> sameSlot r q) \<Longrightarrow>
     \<not> list_ex (sameSlot r) (tb_itemRows t)"
  by (auto simp: list_ex_iff tb_items_Some)

lemma tb_distinct_items: "tablesOk t \<Longrightarrow> distinct (tb_itemRows t)"
  by (simp add: tablesOk_def distinct_map)

lemma tables_plan_store: "plan_store tablesDb tb_plans tb_items tb_songs tablesOk"
proof (unfold_locales, goal_cases)
  case 9
  then show ?case by (rule tb_dates)
next
  case 10
  then show ?case by (rule tb_slots)
next
  case (12 db j p' p)
  then have "pl_date p \<in> set (map pl_date (tb_planRows db))"
    using tb_plans_Some [OF 12(1)] by (metis image_eqI list.set_map)
  then show ?case by (simp add: tablesDb_def)
next
  case (20 db i r j q f)
  then have "list_ex (\<lambda>q. it_id q \<noteq> i \<and> sameSlot (f r) q) (tb_itemRows db)"
    unfolding list_ex_iff using tb_items_Some [OF 20(1)] by metis
  then show ?case using 20(2) by (simp add: tablesDb_def)
next
  case (11 db i r)
  then show ?case by (auto simp: tb_items_Some) (auto simp: tablesOk_def)
next
  case (13 db p)
  let ?q = "p\<lparr>pl_id := show_nat (tb_next db)\<rparr>"
  have free: "pl_date p \<notin> set (map pl_date (tb_planRows db))"
  proof
    assume "pl_date p \<in> set (map pl_date (tb_planRows db))"
    then obtain p' where p': "p' \<in> set (tb_planRows db)" "pl_date p' = pl_date p" by auto
    then have "tb_plans db (pl_id p') = Some p'"
      by (simp add: tb_plans_Some [OF 13(1)])
    with 13(2) p'(2) show False by blast
  qed
  show ?case
    using tables_createPlan [OF 13(1) free] free
    by (intro exI [of _ "pl_id ?q"] exI [of _ "db\<lparr>tb_planRows := ?q # tb_planRows db,
          tb_next := Suc (tb_next db)\<rparr>"])
      (simp add: tablesDb_def Let_def tb_plans_insert)
next
  case (15 db i p g)
  show ?case
    using tables_updatePlan [OF 15] 15(2) by (simp add: tablesDb_def)
next
  case (18 db r)
  let ?q = "r\<lparr>it_id := show_nat (tb_next db)\<rparr>"
  note free = tb_no_slot [OF 18(1,2)]
  show ?case
    using tables_createItem [OF 18(1) free 18(3)] free 18(3)
    by (intro exI [of _ "it_id ?q"] exI [of _ "db\<lparr>tb_itemRows := ?q # tb_itemRows db,
          tb_next := Suc (tb_next db)\<rparr>"])
      (simp add: tablesDb_def Let_def tb_items_insert)
next
  case (21 db i r f)
  then have free: "\<not> list_ex (\<lambda>q. it_id q \<noteq> i \<and> sameSlot (f r) q) (tb_itemRows db)"
    by (auto simp: list_ex_iff tb_items_Some)
  show ?case
    using tables_updateItem [OF 21(1,2,3) free] free 21(2) by (simp add: tablesDb_def)
next
  case (22 db P)
  then show ?case
    using tables_deleteItems [of db P] by (simp add: tablesDb_def)
qed (auto simp: tablesDb_def tb_plans_Some tb_items_Some ran_def list_ex_iff tb_distinct_items
    dest: tb_dates tb_slots tb_no_slot)

interpretation tables: plan_store tablesDb tb_plans tb_items tb_songs tablesOk
  by (rule tables_plan_store)

end
