(* ===== verification/SongText.thy ===== *)
theory SongText
  imports Payloads
begin

text \<open>
  The text of songs, from \<open>src/apps/desktop/src/main/ipc/songs-meta.ts\<close> and
  \<open>songs-import.ts\<close>: the normalisations of text, the repair of mojibake, the recognition of
  metadata lines and section headings, and the three ways of cutting lyrics into blocks.

  Strings are Latin-1, so the character classes of the regular expressions are exact on
  that range; the dashes and the wide colon beyond it do not occur. The loop over repeated
  chunks is a partial function whose value \<open>None\<close> stands for not returning; the lemmas show
  that it returns on every input it is called with, that the blocks it cuts hold all the
  lines, and that the normal forms are fixed points.
\<close>

section \<open>Normal forms of text\<close>

abbreviation carriage :: char where
  "carriage \<equiv> CHR 0x0D"

abbreviation tabulator :: char where
  "tabulator \<equiv> CHR 0x09"

text \<open>\<open>s.replace(/[P]+/g, " ")\<close>\<close>

function collapse :: "(char \<Rightarrow> bool) \<Rightarrow> string \<Rightarrow> string" where
  "collapse P [] = []"
| "collapse P (c # s) =
     (if P c then CHR '' '' # collapse P (dropWhile P s) else c # collapse P s)"
  by pat_completeness auto
termination
  by (relation "measure (\<lambda>(P, s). length s)") (auto simp: le_imp_less_Suc length_dropWhile_le)

definition normalizeWhitespace :: "string \<Rightarrow> string" where
  "normalizeWhitespace s = trim (collapse js_space s)"

text \<open>\<open>s.replace(/\r\n?/g, "\n")\<close>\<close>

fun unixNewlines :: "string \<Rightarrow> string" where
  "unixNewlines [] = []"
| "unixNewlines [c] = [if c = carriage then newline else c]"
| "unixNewlines (c # d # s) =
     (if c = carriage then newline # (if d = newline then unixNewlines s else unixNewlines (d # s))
      else c # unixNewlines (d # s))"

text \<open>\<open>s.replace(/[ \t]+\n/g, "\n")\<close>\<close>

definition is_blank :: "char \<Rightarrow> bool" where
  "is_blank c \<longleftrightarrow> c = CHR '' '' \<or> c = tabulator"

fun dropLineEnds :: "string \<Rightarrow> string" where
  "dropLineEnds [] = []"
| "dropLineEnds (c # s) =
     (let t = dropLineEnds s
      in if is_blank c \<and> t \<noteq> [] \<and> hd t = newline then t else c # t)"

text \<open>\<open>s.replace(/\n{3,}/g, "\n\n")\<close>\<close>

fun squeezeNewlines :: "string \<Rightarrow> string" where
  "squeezeNewlines [] = []"
| "squeezeNewlines (c # s) =
     (let t = squeezeNewlines s
      in if c = newline \<and> startsWith t [newline, newline] then t else c # t)"

definition normalizeMultiline :: "string \<Rightarrow> string" where
  "normalizeMultiline s = trim (squeezeNewlines (dropLineEnds (unixNewlines s)))"

text \<open>The year of a text: \<open>/\b(19\d{2}|20\d{2}|21\d{2})\b/\<close>, else its only four digits\<close>

definition is_word :: "char \<Rightarrow> bool" where
  "is_word c \<longleftrightarrow>
     (let n = (of_char c :: nat)
      in is_digit c \<or> 65 \<le> n \<and> n \<le> 90 \<or> 97 \<le> n \<and> n \<le> 122 \<or> n = 95)"

definition yearHere :: "string \<Rightarrow> bool" where
  "yearHere s \<longleftrightarrow>
     4 \<le> length s \<and> list_all is_digit (take 4 s) \<and> take 2 s \<in> {''19'', ''20'', ''21''}
     \<and> (case drop 4 s of [] \<Rightarrow> True | c # _ \<Rightarrow> \<not> is_word c)"

fun findYear :: "bool \<Rightarrow> string \<Rightarrow> string option" where
  "findYear afterWord [] = None"
| "findYear afterWord (c # s) =
     (if \<not> afterWord \<and> yearHere (c # s) then Some (take 4 (c # s)) else findYear (is_word c) s)"

definition normalizeYear :: "string option \<Rightarrow> string option" where
  "normalizeYear value =
     (case value of None \<Rightarrow> None
      | Some v \<Rightarrow>
          if v = [] then None
          else let clean = normalizeWhitespace v
               in case findYear False clean of
                    Some y \<Rightarrow> Some y
                  | None \<Rightarrow>
                      (let digits = filter is_digit clean
                       in if length digits = 4 then Some digits else None))"

definition forbiddenInFilename :: "char \<Rightarrow> bool" where
  "forbiddenInFilename c \<longleftrightarrow> c \<in> set ''<>:/|?*'' \<or> c = CHR 0x22 \<or> c = CHR 0x5C"

definition sanitizeFilename :: "string \<Rightarrow> string" where
  "sanitizeFilename value =
     (let s = map (\<lambda>c. if forbiddenInFilename c then CHR '' '' else c) (normalizeWhitespace value);
          s = map (\<lambda>c. if (of_char c :: nat) < 32 then CHR '' '' else c) s;
          normalized = trim (collapse js_space s);
          compact = rev (dropWhile (\<lambda>c. c = CHR ''.'' \<or> c = CHR '' '') (rev normalized))
      in if compact \<noteq> [] then compact else ''chant'')"

section \<open>Mojibake\<close>

text \<open>
  The marks of a text that was decoded as Latin-1 instead of UTF-8. Tokens beyond Latin-1,
  the byte order mark and the replacement character do not occur in these strings, and each
  character is its own byte. \<open>decode\<close> is \<open>Buffer.from(bytes).toString("utf8")\<close>.
\<close>

definition MOJIBAKE_TOKENS :: "string list" where
  "MOJIBAKE_TOKENS =
     [[CHR 0xC3], [CHR 0xC2], [CHR 0xE2, CHR 0x80], [CHR 0xEF, CHR 0xBF, CHR 0xBD]]"

text \<open>The occurrences of a token that is not empty; they do not overlap.\<close>

function countOccurrences :: "string \<Rightarrow> string \<Rightarrow> nat" where
  "countOccurrences [] tok = 0"
| "countOccurrences (c # s) tok =
     (if startsWith (c # s) tok then Suc (countOccurrences (drop (length tok - 1) s) tok)
      else countOccurrences s tok)"
  by pat_completeness auto
termination
  by (relation "measure (\<lambda>(s, tok). length s)") auto

definition countMojibakeMarkers :: "string \<Rightarrow> nat" where
  "countMojibakeMarkers v =
     sum_list (map (countOccurrences v) MOJIBAKE_TOKENS)
     + length (filter (\<lambda>c. 0x80 \<le> (of_char c :: nat) \<and> (of_char c :: nat) \<le> 0x9F) v)"

definition maybeRepairMojibake :: "(string \<Rightarrow> string) \<Rightarrow> string \<Rightarrow> string" where
  "maybeRepairMojibake decode source =
     (if countMojibakeMarkers source = 0 then source
      else let repaired = decode source
           in if repaired = [] then source
              else if countMojibakeMarkers repaired < countMojibakeMarkers source then repaired
              else source)"

definition asString :: "(string \<Rightarrow> string) \<Rightarrow> jsval \<Rightarrow> string option" where
  "asString decode value =
     (case value of
        JStr s \<Rightarrow>
          (let trimmed = trim (maybeRepairMojibake decode s)
           in if trimmed \<noteq> [] then Some trimmed else None)
      | _ \<Rightarrow> None)"

text \<open>\<open>fmt\<close> is \<open>String(x)\<close> on a finite number.\<close>

definition asStringLike ::
  "(rat \<Rightarrow> string) \<Rightarrow> (string \<Rightarrow> string) \<Rightarrow> jsval \<Rightarrow> string option" where
  "asStringLike fmt decode value =
     (case value of
        JStr _ \<Rightarrow> asString decode value
      | JNum (Fin r) \<Rightarrow> Some (js_String fmt (JNum (Fin r)))
      | _ \<Rightarrow> None)"

section \<open>Labels\<close>

text \<open>\<open>normalize("NFD")\<close> without the combining marks: the accented letters of Latin-1\<close>

definition stripDiacritic :: "char \<Rightarrow> char" where
  "stripDiacritic c =
     (let n = (of_char c :: nat)
      in if 192 \<le> n \<and> n \<le> 197 then CHR ''A'' else if n = 199 then CHR ''C''
      else if 200 \<le> n \<and> n \<le> 203 then CHR ''E'' else if 204 \<le> n \<and> n \<le> 207 then CHR ''I''
      else if n = 209 then CHR ''N'' else if 210 \<le> n \<and> n \<le> 214 then CHR ''O''
      else if 217 \<le> n \<and> n \<le> 220 then CHR ''U'' else if n = 221 then CHR ''Y''
      else if 224 \<le> n \<and> n \<le> 229 then CHR ''a'' else if n = 231 then CHR ''c''
      else if 232 \<le> n \<and> n \<le> 235 then CHR ''e'' else if 236 \<le> n \<and> n \<le> 239 then CHR ''i''
      else if n = 241 then CHR ''n'' else if 242 \<le> n \<and> n \<le> 246 then CHR ''o''
      else if 249 \<le> n \<and> n \<le> 252 then CHR ''u'' else if n = 253 \<or> n = 255 then CHR ''y''
      else c)"

definition stripDiacritics :: "string \<Rightarrow> string" where
  "stripDiacritics s = map stripDiacritic s"

definition is_label_char :: "char \<Rightarrow> bool" where
  "is_label_char c \<longleftrightarrow> is_digit c \<or> 97 \<le> (of_char c :: nat) \<and> (of_char c :: nat) \<le> 122"

definition canonicalLabel :: "string \<Rightarrow> string" where
  "canonicalLabel s = trim (collapse (\<lambda>c. \<not> is_label_char c) (toLowerCase (stripDiacritics s)))"

text \<open>
  \<open>normalizeMultiline(text).split(/\n\s*\n/g)\<close>, trimmed, without the empty ones. A separator is
  a newline, white space, and a newline again; the scan takes the longest one.
\<close>

definition takesBreak :: "string \<Rightarrow> string option" where
  "takesBreak s =
     (case s of [] \<Rightarrow> None
      | c # r \<Rightarrow>
          (let w = takeWhile js_space r
           in if c = newline \<and> newline \<in> set w
              then Some (drop (length w - length (takeWhile (\<lambda>x. x \<noteq> newline) (rev w))) r)
              else None))"

lemma takesBreak_shorter: "takesBreak (c # s) = Some r \<Longrightarrow> length r \<le> length s"
  by (auto simp: takesBreak_def Let_def split: if_splits)

function splitParagraphs :: "string \<Rightarrow> string \<Rightarrow> string list" where
  "splitParagraphs acc [] = [rev acc]"
| "splitParagraphs acc (c # s) =
     (case takesBreak (c # s) of
        Some r \<Rightarrow> rev acc # splitParagraphs [] r
      | None \<Rightarrow> splitParagraphs (c # acc) s)"
  by pat_completeness auto
termination
  by (relation "measure (\<lambda>(acc, s). length s)")
    (auto dest: takesBreak_shorter simp: le_imp_less_Suc)

definition splitBlocks :: "string \<Rightarrow> string list" where
  "splitBlocks value =
     filter (\<lambda>p. p \<noteq> []) (map trim (splitParagraphs [] (normalizeMultiline value)))"

datatype metaField = FTitle | FArtist | FAlbum | FYear | FLanguage | FTags | FLyrics

definition classifyMetadataLabel :: "string \<Rightarrow> metaField option" where
  "classifyMetadataLabel labelRaw =
     (let label = canonicalLabel labelRaw
      in if label = [] then None
      else if label = ''title'' \<or> startsWith label ''titre'' \<or> label = ''nom'' then Some FTitle
      else if label = ''artist'' \<or> startsWith label ''auteur'' \<or> contains label ''interprete''
              \<or> contains label ''compositeur'' then Some FArtist
      else if startsWith label ''album'' then Some FAlbum
      else if label = ''year'' \<or> contains label ''annee'' \<or> contains label ''published''
              \<or> contains label ''release year'' \<or> contains label ''sortie'' then Some FYear
      else if label = ''lang'' \<or> label = ''language'' \<or> startsWith label ''langue''
        then Some FLanguage
      else if startsWith label ''tag'' then Some FTags
      else if label = ''lyrics'' \<or> startsWith label ''paroles'' \<or> label = ''texte''
        then Some FLyrics
      else None)"

section \<open>Section headings\<close>

datatype sectionType = VERSE | CHORUS | BRIDGE

fun sectionName :: "sectionType \<Rightarrow> string" where
  "sectionName VERSE = ''VERSE''"
| "sectionName CHORUS = ''CHORUS''"
| "sectionName BRIDGE = ''BRIDGE''"

record parsedHeading =
  ph_type :: sectionType
  ph_title :: string
  ph_inline :: string

definition HEADING_WORDS :: "(string \<times> sectionType) list" where
  "HEADING_WORDS =
     [(''refrain'', CHORUS), (''chorus'', CHORUS), (''couplet'', VERSE), (''verse'', VERSE),
      (''pont'', BRIDGE), (''bridge'', BRIDGE)]"

text \<open>
  \<open>/^(refrain|chorus|couplet|verse|pont|bridge)\s*([0-9]+)?\s*[:-]?\s*(.*)$/i\<close>: every part after
  the word may be empty, so a line matches when it begins with one of the words.
\<close>

definition headingWord :: "string \<Rightarrow> (string \<times> sectionType) option" where
  "headingWord line = find (\<lambda>(w, _). startsWith (toLowerCase line) w) HEADING_WORDS"

definition skipSeparator :: "string \<Rightarrow> string" where
  "skipSeparator s =
     (case s of [] \<Rightarrow> [] | c # r \<Rightarrow> if c = CHR '':'' \<or> c = CHR ''-'' then r else s)"

definition parseSectionHeading :: "string \<Rightarrow> nat \<Rightarrow> parsedHeading option" where
  "parseSectionHeading line fallbackVerseIndex =
     (case headingWord line of
        None \<Rightarrow> None
      | Some (word, head) \<Rightarrow>
          (let rest = trim_left (drop (length word) line);
               sequence = takeWhile is_digit rest;
               inlined = trim (trim_left (skipSeparator (trim_left (drop (length sequence) rest))));
               numbered = (\<lambda>base dflt. if sequence \<noteq> [] then base @ '' '' @ sequence else dflt)
           in Some
             \<lparr>ph_type = head,
              ph_title =
                (case head of
                   CHORUS \<Rightarrow> numbered ''Refrain'' ''Refrain''
                 | BRIDGE \<Rightarrow> numbered ''Pont'' ''Pont''
                 | VERSE \<Rightarrow> numbered ''Couplet'' (''Couplet '' @ show_nat fallbackVerseIndex)),
              ph_inline = inlined\<rparr>))"

section \<open>Lyrics with headings\<close>

definition block :: "nat \<Rightarrow> string \<Rightarrow> string \<Rightarrow> string \<Rightarrow> songBlockPayload" where
  "block order type title content =
     \<lparr>rb_order = int order, rb_type = type, rb_title = Some title, rb_content = content\<rparr>"

text \<open>\<open>blocks.map((block, idx) => ({ ...block, order: idx + 1 }))\<close>\<close>

definition numberBlocks :: "songBlockPayload list \<Rightarrow> songBlockPayload list" where
  "numberBlocks bs = map_idx (\<lambda>i b. b\<lparr>rb_order := int i + 1\<rparr>) bs"

abbreviation joinLines :: "string list \<Rightarrow> string" where
  "joinLines ls \<equiv> join [newline] ls"

definition parseParagraphToBlock :: "nat \<Rightarrow> string \<Rightarrow> songBlockPayload" where
  "parseParagraphToBlock idx paragraph =
     (let ls = map trim (split_on newline paragraph)
      in case parseSectionHeading (hd ls) (idx + 1) of
           None \<Rightarrow> block (idx + 1) ''VERSE'' (''Couplet '' @ show_nat (idx + 1))
                     (normalizeMultiline (joinLines ls))
         | Some h \<Rightarrow>
             block (idx + 1) (sectionName (ph_type h)) (ph_title h)
               (normalizeMultiline (joinLines
                  (if ph_inline h \<noteq> [] then ph_inline h # tl ls else tl ls))))"

record headingScan =
  hs_headingCount :: nat
  hs_verseCounter :: nat
  hs_type :: sectionType
  hs_title :: string
  hs_lines :: "string list"
  hs_blocks :: "songBlockPayload list"

definition emptyScan :: headingScan where
  "emptyScan = \<lparr>hs_headingCount = 0, hs_verseCounter = 0, hs_type = VERSE, hs_title = [],
     hs_lines = [], hs_blocks = []\<rparr>"

definition flushCurrent :: "headingScan \<Rightarrow> headingScan" where
  "flushCurrent st =
     (let content = normalizeMultiline (joinLines (hs_lines st))
      in if content = [] then st
         else st\<lparr>hs_blocks := hs_blocks st @
                  [block (length (hs_blocks st) + 1) (sectionName (hs_type st))
                     (if hs_title st \<noteq> [] then hs_title st
                      else ''Couplet '' @ show_nat (max (hs_verseCounter st) 1)) content],
                hs_lines := []\<rparr>)"

text \<open>\<open>/^couplet\s+\d+$/i\<close> on a title, and the number in it\<close>

definition isCoupletTitle :: "string \<Rightarrow> bool" where
  "isCoupletTitle t \<longleftrightarrow>
     startsWith (toLowerCase t) ''couplet''
     \<and> (let r = drop 7 t
        in r \<noteq> [] \<and> js_space (hd r) \<and> trim_left r \<noteq> [] \<and> list_all is_digit (trim_left r))"

definition firstNumber :: "string \<Rightarrow> nat" where
  "firstNumber t = digits_value (takeWhile is_digit (dropWhile (\<lambda>c. \<not> is_digit c) t))"

definition headingLine :: "parsedHeading \<Rightarrow> headingScan \<Rightarrow> headingScan" where
  "headingLine h st =
     (let st1 = flushCurrent (st\<lparr>hs_headingCount := hs_headingCount st + 1\<rparr>);
          v = hs_verseCounter st1;
          v1 = (if ph_type h \<noteq> VERSE then v
                else if isCoupletTitle (ph_title h) then max v (firstNumber (ph_title h))
                else v + 1)
      in st1\<lparr>hs_verseCounter := v1, hs_type := ph_type h, hs_title := ph_title h,
             hs_lines := (if ph_inline h \<noteq> [] then [ph_inline h] else [])\<rparr>)"

definition scanLine :: "string \<Rightarrow> headingScan \<Rightarrow> headingScan" where
  "scanLine rawLine st =
     (let line = trim rawLine
      in if line = [] then (if hs_lines st \<noteq> [] then st\<lparr>hs_lines := hs_lines st @ [[]]\<rparr> else st)
         else case parseSectionHeading line (hs_verseCounter st + 1) of
                Some h \<Rightarrow> headingLine h st
              | None \<Rightarrow>
                  (let st1 = (if hs_title st = []
                              then st\<lparr>hs_verseCounter := hs_verseCounter st + 1, hs_type := VERSE,
                                      hs_title := ''Couplet '' @ show_nat (hs_verseCounter st + 1)\<rparr>
                              else st)
                   in st1\<lparr>hs_lines := hs_lines st1 @ [line]\<rparr>))"

definition parseLyricsByHeadings :: "string \<Rightarrow> songBlockPayload list option" where
  "parseLyricsByHeadings lyrics =
     (let st = flushCurrent (fold scanLine (split_on newline (normalizeMultiline lyrics)) emptyScan)
      in if hs_headingCount st = 0 \<or> hs_blocks st = [] then None
         else Some (numberBlocks (hs_blocks st)))"

section \<open>Lyrics with a repeated chunk\<close>

record repeatingChunk =
  rc_length :: nat
  rc_indices :: "nat list"
  rc_lines :: "string list"
  rc_score :: nat

text \<open>The map from the keys of the chunks of one length to their places, in insertion order\<close>

type_synonym chunkMap = "(string \<times> string list \<times> nat list) list"

fun addChunk :: "string \<Rightarrow> string list \<Rightarrow> nat \<Rightarrow> chunkMap \<Rightarrow> chunkMap" where
  "addChunk key chunk i [] = [(key, chunk, [i])]"
| "addChunk key chunk i ((k, ls, is) # m) =
     (if k = key then (k, ls, is @ [i]) # m else (k, ls, is) # addChunk key chunk i m)"

definition chunkAt :: "nat \<Rightarrow> string list \<Rightarrow> nat \<Rightarrow> chunkMap \<Rightarrow> chunkMap" where
  "chunkAt len ls i m =
     (let chunk = take len (drop i ls);
          key = joinLines (map canonicalLabel chunk)
      in if key = [] \<or> length key < len then m else addChunk key chunk i m)"

definition chunksOf :: "nat \<Rightarrow> string list \<Rightarrow> chunkMap" where
  "chunksOf len ls = fold (chunkAt len ls) [0..<Suc (length ls) - len] []"

definition nonOverlapping :: "nat \<Rightarrow> nat list \<Rightarrow> nat list" where
  "nonOverlapping len is =
     foldl (\<lambda>acc i. if acc = [] \<or> last acc + len \<le> i then acc @ [i] else acc) [] is"

definition considerChunk ::
  "nat \<Rightarrow> nat \<Rightarrow> string \<times> string list \<times> nat list \<Rightarrow> repeatingChunk option \<Rightarrow> repeatingChunk option" where
  "considerChunk n len entry best =
     (let (key, ls, is) = entry;
          starts = nonOverlapping len is;
          score = length starts * len
      in if length starts < 2 then best
         else if 100 * (length starts * len) < 18 * n \<and> len < 4 then best
         else if (case best of None \<Rightarrow> True
                  | Some b \<Rightarrow> rc_score b < score \<or> score = rc_score b \<and> rc_length b < len)
              then Some \<lparr>rc_length = len, rc_indices = starts, rc_lines = ls, rc_score = score\<rparr>
         else best)"

definition findBestRepeatingChunk :: "string list \<Rightarrow> repeatingChunk option" where
  "findBestRepeatingChunk ls =
     fold (\<lambda>len best. fold (considerChunk (length ls) len) (chunksOf len ls) best)
       (rev [2..<Suc (min 8 (length ls div 2))]) None"

record chunkScan =
  cs_verseCounter :: nat
  cs_chorusCounter :: nat
  cs_verseLines :: "string list"
  cs_blocks :: "songBlockPayload list"

definition flushVerse :: "chunkScan \<Rightarrow> chunkScan" where
  "flushVerse st =
     (if cs_verseLines st = [] then st
      else let content = normalizeMultiline (joinLines (cs_verseLines st))
           in if content = [] then st
              else st\<lparr>cs_verseCounter := cs_verseCounter st + 1,
                     cs_blocks := cs_blocks st @
                       [block (length (cs_blocks st) + 1) ''VERSE''
                          (''Couplet '' @ show_nat (cs_verseCounter st + 1)) content],
                     cs_verseLines := []\<rparr>)"

definition chorusBlock :: "repeatingChunk \<Rightarrow> chunkScan \<Rightarrow> chunkScan" where
  "chorusBlock rep st =
     (let n = cs_chorusCounter st + 1
      in st\<lparr>cs_chorusCounter := n,
            cs_blocks := cs_blocks st @
              [block (length (cs_blocks st) + 1) ''CHORUS''
                 (if 1 < n then ''Refrain '' @ show_nat n else ''Refrain'')
                 (normalizeMultiline (joinLines (rc_lines rep)))]\<rparr>)"

text \<open>The \<open>while\<close> loop; a chunk of length 0 would make it run forever.\<close>

partial_function (option) chunkLoop ::
  "repeatingChunk \<Rightarrow> string list \<Rightarrow> nat \<Rightarrow> chunkScan \<Rightarrow> chunkScan option" where
  "chunkLoop rep ls cursor st =
     (if cursor < length ls then
        if cursor \<in> set (rc_indices rep)
        then chunkLoop rep ls (cursor + rc_length rep) (chorusBlock rep (flushVerse st))
        else chunkLoop rep ls (cursor + 1) (st\<lparr>cs_verseLines := cs_verseLines st @ [ls ! cursor]\<rparr>)
      else Some (flushVerse st))"

text \<open>The outer option is \<open>None\<close> when the loop does not return.\<close>

definition parseLyricsByRepeatingChunk :: "string \<Rightarrow> songBlockPayload list option option" where
  "parseLyricsByRepeatingChunk lyrics =
     (let ls = filter (\<lambda>l. l \<noteq> []) (map trim (split_on newline (normalizeMultiline lyrics)))
      in if length ls < 6 then Some None
         else case findBestRepeatingChunk ls of
                None \<Rightarrow> Some None
              | Some rep \<Rightarrow>
                  map_option
                    (\<lambda>st. if length (cs_blocks st) \<le> 1 then None else Some (numberBlocks (cs_blocks st)))
                    (chunkLoop rep ls 0 \<lparr>cs_verseCounter = 0, cs_chorusCounter = 0,
                       cs_verseLines = [], cs_blocks = []\<rparr>))"

definition parseLyricsToBlocks :: "string \<Rightarrow> songBlockPayload list option" where
  "parseLyricsToBlocks lyrics =
     (let normalizedLyrics = normalizeMultiline lyrics
      in if normalizedLyrics = [] then Some [block 1 ''VERSE'' ''Couplet 1'' []]
         else case parseLyricsByHeadings normalizedLyrics of
                Some bs \<Rightarrow> Some bs
              | None \<Rightarrow>
                  (let paragraphs = splitBlocks lyrics
                   in if 1 < length paragraphs then
                        (let blocks = map_idx parseParagraphToBlock paragraphs;
                             filtered = filter (\<lambda>b. rb_content b \<noteq> []) blocks
                         in Some (numberBlocks (if filtered \<noteq> [] then filtered else blocks)))
                      else map_option
                             (\<lambda>r. case r of Some bs \<Rightarrow> bs
                                | None \<Rightarrow> [block 1 ''VERSE'' ''Couplet 1'' normalizedLyrics])
                             (parseLyricsByRepeatingChunk normalizedLyrics)))"

declare chunkLoop.simps [code]

section \<open>Normal forms are fixed points\<close>

text \<open>A tidy text: no carriage return, no blank before a newline, no three newlines in a row\<close>

fun tidy :: "string \<Rightarrow> bool" where
  "tidy [] = True"
| "tidy (c # s) =
     (c \<noteq> carriage \<and> \<not> (is_blank c \<and> startsWith s [newline])
      \<and> \<not> (c = newline \<and> startsWith s [newline, newline]) \<and> tidy s)"

fun endsClean :: "string \<Rightarrow> bool" where
  "endsClean [] = True"
| "endsClean (c # s) = (c \<noteq> carriage \<and> \<not> (is_blank c \<and> startsWith s [newline]) \<and> endsClean s)"

lemma newline_neq_carriage [simp]: "newline \<noteq> carriage" "carriage \<noteq> newline"
  by simp_all

lemma startsWith_hd [simp]: "startsWith s [c] \<longleftrightarrow> s \<noteq> [] \<and> hd s = c"
  by (cases s) auto

lemma unixNewlines_no_cr: "carriage \<notin> set (unixNewlines s)"
  by (induction s rule: unixNewlines.induct) auto

lemma dropLineEnds_clean: "carriage \<notin> set s \<Longrightarrow> endsClean (dropLineEnds s)"
  by (induction s) (auto simp: Let_def)

lemma squeeze_hd [simp]: "hd (squeezeNewlines s) = hd s"
  by (cases s) (auto simp: Let_def elim: startsWith.elims)

lemma squeeze_Nil [simp]: "squeezeNewlines s = [] \<longleftrightarrow> s = []"
  by (cases s) (auto simp: Let_def)

lemma squeeze_tidy: "endsClean s \<Longrightarrow> tidy (squeezeNewlines s)"
  by (induction s) (auto simp: Let_def)

lemma tidy_append: "tidy (a @ b) \<Longrightarrow> tidy a \<and> tidy b"
proof (induction a)
  case (Cons c a)
  have "startsWith (a @ b) [newline]" if "startsWith a [newline]"
    using that by (cases a) auto
  moreover have "startsWith (a @ b) [newline, newline]" if "startsWith a [newline, newline]"
    using that by (metis append_assoc startsWith_iff)
  ultimately show ?case
    using Cons by auto
qed simp

lemma tidy_trim: "tidy s \<Longrightarrow> tidy (trim s)"
proof -
  assume "tidy s"
  then have "tidy (trim_left s)"
    unfolding trim_left_def by (metis takeWhile_dropWhile_id tidy_append)
  then show ?thesis
    unfolding trim_def using trim_right_append [of "trim_left s"] tidy_append by metis
qed

lemma tidy_unix: "tidy s \<Longrightarrow> unixNewlines s = s"
  by (induction s rule: unixNewlines.induct) auto

lemma tidy_dropLineEnds: "tidy s \<Longrightarrow> dropLineEnds s = s"
  by (induction s) (auto simp: Let_def)

lemma tidy_squeeze: "tidy s \<Longrightarrow> squeezeNewlines s = s"
  by (induction s) (auto simp: Let_def)

lemma normalizeMultiline_tidy: "tidy (normalizeMultiline s)" "trimmed (normalizeMultiline s)"
  by (simp_all add: normalizeMultiline_def tidy_trim squeeze_tidy dropLineEnds_clean
      unixNewlines_no_cr)

lemma normalizeMultiline_id: "tidy s \<Longrightarrow> trimmed s \<Longrightarrow> normalizeMultiline s = s"
  by (simp add: normalizeMultiline_def tidy_unix tidy_dropLineEnds tidy_squeeze trim_trimmed)

lemma normalizeMultiline_idem [simp]: "normalizeMultiline (normalizeMultiline s) = normalizeMultiline s"
  by (rule normalizeMultiline_id) (rule normalizeMultiline_tidy)+

section \<open>Lines put together\<close>

text \<open>A line of lyrics: not empty, trimmed, of one line\<close>

definition lineOk :: "string \<Rightarrow> bool" where
  "lineOk l \<longleftrightarrow> l \<noteq> [] \<and> trimmed l \<and> newline \<notin> set l \<and> carriage \<notin> set l"

lemma tidy_line: "newline \<notin> set l \<Longrightarrow> carriage \<notin> set l \<Longrightarrow> tidy l"
proof (induction l)
  case (Cons c l)
  then have "\<not> startsWith l [newline]"
    by (cases l) auto
  with Cons show ?case by auto
qed simp

lemma tidy_join:
  assumes "lineOk l" and "tidy t" and "t \<noteq> []" and "hd t \<noteq> newline"
  shows "tidy (l @ newline # t)"
proof -
  have "newline \<notin> set l" "carriage \<notin> set l" "l \<noteq> [] \<Longrightarrow> \<not> is_blank (last l)"
    using assms(1) by (auto simp: lineOk_def trimmed_def js_space_def is_blank_def)
  then show ?thesis
  proof (induction l)
    case Nil
    then show ?case
      using assms(2-4) by (cases t) (auto simp: is_blank_def)
  next
    case (Cons c l)
    then show ?case
      by (cases l) auto
  qed
qed

lemma lineOk_hd: "lineOk l \<Longrightarrow> l \<noteq> [] \<and> \<not> js_space (hd l) \<and> \<not> js_space (last l)"
  by (auto simp: lineOk_def trimmed_def)

lemma join_lines_shape:
  assumes "ls \<noteq> []" and "\<forall>l \<in> set ls. lineOk l"
  shows "tidy (joinLines ls) \<and> joinLines ls \<noteq> [] \<and> \<not> js_space (hd (joinLines ls))
    \<and> \<not> js_space (last (joinLines ls))"
  using assms
proof (induction "[newline]" ls rule: join.induct)
  case (2 x)
  then show ?case
    using lineOk_hd [of x] by (auto simp: lineOk_def tidy_line)
next
  case (3 x y xs)
  then have t: "tidy (joinLines (y # xs))" "joinLines (y # xs) \<noteq> []"
      "\<not> js_space (hd (joinLines (y # xs)))" "\<not> js_space (last (joinLines (y # xs)))"
    and x: "lineOk x" by auto
  have "hd (joinLines (y # xs)) \<noteq> newline"
    using t(3) by (auto simp: js_space_def)
  then have "tidy (x @ newline # joinLines (y # xs))"
    by (intro tidy_join x t)
  with t lineOk_hd [OF x] show ?case by auto
qed simp

lemma normalize_joinLines:
  assumes "ls \<noteq> []" and "\<forall>l \<in> set ls. lineOk l"
  shows "normalizeMultiline (joinLines ls) = joinLines ls"
  using join_lines_shape [OF assms] by (intro normalizeMultiline_id) (auto simp: trimmed_def)

lemma split_joinLines:
  "ls \<noteq> [] \<Longrightarrow> \<forall>l \<in> set ls. lineOk l \<Longrightarrow> split_on newline (joinLines ls) = ls"
  by (rule split_on_join) (auto simp: lineOk_def)

section \<open>The blocks\<close>

lemma length_numberBlocks [simp]: "length (numberBlocks bs) = length bs"
  by (simp add: numberBlocks_def)

lemma numberBlocks_Nil [simp]: "numberBlocks bs = [] \<longleftrightarrow> bs = []"
  by (metis length_0_conv length_numberBlocks)

lemma numberBlocks_orders: "map rb_order (numberBlocks bs) = map int [1..<Suc (length bs)]"
proof -
  have "map rb_order (numberBlocks bs) = map (\<lambda>i. int i + 1) [0..<length bs]"
    by (simp add: numberBlocks_def map_idx_index)
  also have "\<dots> = map int (map Suc [0..<length bs])"
    by simp
  also have "map Suc [0..<length bs] = [1..<Suc (length bs)]"
    by (simp add: map_Suc_upt)
  finally show ?thesis .
qed

lemma numberBlocks_contents [simp]: "map rb_content (numberBlocks bs) = map rb_content bs"
  by (simp add: numberBlocks_def map_idx_const)

lemma considerChunk_len:
  assumes "2 \<le> len" and "\<And>r. best = Some r \<Longrightarrow> 2 \<le> rc_length r"
    and "considerChunk n len e best = Some r"
  shows "2 \<le> rc_length r"
  using assms by (auto simp: considerChunk_def Let_def split: prod.splits if_splits option.splits)

lemma fold_consider_len:
  "2 \<le> len \<Longrightarrow> (\<And>r. best = Some r \<Longrightarrow> 2 \<le> rc_length r) \<Longrightarrow>
     fold (considerChunk n len) es best = Some r \<Longrightarrow> 2 \<le> rc_length r"
proof (induction es arbitrary: best)
  case (Cons e es)
  show ?case
    using Cons.prems considerChunk_len [OF Cons.prems(1,2)]
    by (intro Cons.IH [of "considerChunk n len e best"]) auto
qed simp

lemma bestChunk_len: "findBestRepeatingChunk ls = Some r \<Longrightarrow> 2 \<le> rc_length r"
proof -
  have "2 \<le> rc_length r"
    if "fold (\<lambda>len best. fold (considerChunk (length ls) len) (chunksOf len ls) best) lens best = Some r"
      "\<forall>len \<in> set lens. 2 \<le> len" "\<And>q. best = Some q \<Longrightarrow> 2 \<le> rc_length q" for lens best
    using that
  proof (induction lens arbitrary: best)
    case (Cons len lens)
    show ?case
      using Cons.prems fold_consider_len [of len best]
      by (intro Cons.IH [of "fold (considerChunk (length ls) len) (chunksOf len ls) best"]) auto
  qed simp
  then show "findBestRepeatingChunk ls = Some r \<Longrightarrow> 2 \<le> rc_length r"
    unfolding findBestRepeatingChunk_def by fastforce
qed

lemma chunkLoop_returns:
  assumes "0 < rc_length rep"
  shows "\<exists>st'. chunkLoop rep ls cursor st = Some st'"
proof (induction "length ls - cursor" arbitrary: cursor st rule: less_induct)
  case less
  show ?case
    using assms less by (subst chunkLoop.simps) (simp add: less)
qed

lemma repeatingChunk_returns: "\<exists>r. parseLyricsByRepeatingChunk lyrics = Some r"
proof -
  have "\<exists>st'. chunkLoop rep ls c st = Some st'" if "findBestRepeatingChunk ls = Some rep"
    for rep ls c st
    using bestChunk_len [OF that] by (intro chunkLoop_returns) simp
  then show ?thesis
    by (fastforce simp: parseLyricsByRepeatingChunk_def Let_def split: option.split)
qed

lemma headings_numbered:
  "parseLyricsByHeadings l = Some bs \<Longrightarrow> bs \<noteq> [] \<and> (\<exists>cs. bs = numberBlocks cs)"
  by (auto simp: parseLyricsByHeadings_def Let_def split: if_splits)

lemma repeating_numbered:
  "parseLyricsByRepeatingChunk l = Some (Some bs) \<Longrightarrow> bs \<noteq> [] \<and> (\<exists>cs. bs = numberBlocks cs)"
  by (auto simp: parseLyricsByRepeatingChunk_def Let_def split: if_splits option.splits)

lemma single_numbered: "[block 1 t title c] = numberBlocks [block 1 t title c]"
  by (simp add: numberBlocks_def block_def)

lemma lyrics_blocks: "\<exists>bs. parseLyricsToBlocks l = Some (numberBlocks bs) \<and> bs \<noteq> []"
proof (cases "normalizeMultiline l = [] \<or> parseLyricsByHeadings (normalizeMultiline l) \<noteq> None")
  case True
  then show ?thesis
    using headings_numbered [of "normalizeMultiline l"] single_numbered
    by (fastforce simp: parseLyricsToBlocks_def Let_def)
next
  case False
  show ?thesis
  proof (cases "1 < length (splitBlocks l)")
    case True
    have "map_idx parseParagraphToBlock (splitBlocks l) \<noteq> []"
      using True by (metis length_map_idx list.size(3) not_less_zero)
    with True False show ?thesis
      by (auto simp: parseLyricsToBlocks_def Let_def)
  next
    case short: False
    obtain r where r: "parseLyricsByRepeatingChunk (normalizeMultiline l) = Some r"
      using repeatingChunk_returns by blast
    show ?thesis
    proof (cases r)
      case None
      with False short r show ?thesis
        using single_numbered by (fastforce simp: parseLyricsToBlocks_def Let_def)
    next
      case (Some bs)
      with False short r show ?thesis
        using repeating_numbered [of "normalizeMultiline l" bs]
        by (fastforce simp: parseLyricsToBlocks_def Let_def)
    qed
  qed
qed

section \<open>Cutting at a repeated chunk loses no line\<close>

text \<open>Two lists of lines that agree up to case, accents and punctuation\<close>

definition sameLines :: "string list \<Rightarrow> string list \<Rightarrow> bool" where
  "sameLines xs ys \<longleftrightarrow> map canonicalLabel xs = map canonicalLabel ys"

definition blockLines :: "songBlockPayload \<Rightarrow> string list" where
  "blockLines b = split_on newline (rb_content b)"

lemma sameLines_refl [simp]: "sameLines xs xs"
  by (simp add: sameLines_def)

lemma sameLines_append: "sameLines a b \<Longrightarrow> sameLines c d \<Longrightarrow> sameLines (a @ c) (b @ d)"
  by (simp add: sameLines_def)

lemma sameLines_trans: "sameLines a b \<Longrightarrow> sameLines b c \<Longrightarrow> sameLines a c"
  by (simp add: sameLines_def)

lemma set_collapse: "c \<in> set (collapse P s) \<Longrightarrow> c = CHR '' '' \<or> c \<in> set s \<and> \<not> P c"
  by (induction P s rule: collapse.induct) (auto split: if_splits dest: set_dropWhileD)

lemma set_trim: "c \<in> set (trim s) \<Longrightarrow> c \<in> set s"
  by (auto simp: trim_def trim_left_def trim_right_def dest!: set_dropWhileD)

lemma canonicalLabel_no_newline: "newline \<notin> set (canonicalLabel s)"
proof
  assume "newline \<in> set (canonicalLabel s)"
  then have "newline \<in> set (collapse (\<lambda>c. \<not> is_label_char c) (toLowerCase (stripDiacritics s)))"
    unfolding canonicalLabel_def by (rule set_trim)
  then show False
    by (auto dest!: set_collapse simp: is_label_char_def is_digit_def)
qed

lemma key_sameLines:
  assumes "joinLines (map canonicalLabel xs) = joinLines (map canonicalLabel ys)"
    and "xs \<noteq> []" and "ys \<noteq> []"
  shows "sameLines xs ys"
proof -
  have "split_on newline (joinLines (map canonicalLabel zs)) = map canonicalLabel zs" if "zs \<noteq> []" for zs
    using that canonicalLabel_no_newline by (intro split_on_join) auto
  then show ?thesis
    using assms unfolding sameLines_def by metis
qed

text \<open>A place where the lines of a chunk stand\<close>

definition chunkPlace :: "string list \<Rightarrow> string list \<Rightarrow> nat \<Rightarrow> bool" where
  "chunkPlace ls chunk i \<longleftrightarrow>
     i + length chunk \<le> length ls \<and> sameLines chunk (take (length chunk) (drop i ls))"

definition entryOk :: "nat \<Rightarrow> string list \<Rightarrow> string \<times> string list \<times> nat list \<Rightarrow> bool" where
  "entryOk len ls = (\<lambda>(key, chunk, is).
     length chunk = len \<and> set chunk \<subseteq> set ls \<and> key = joinLines (map canonicalLabel chunk)
     \<and> (\<forall>i \<in> set is. chunkPlace ls chunk i))"

lemma addChunk_ok:
  assumes "\<forall>e \<in> set m. entryOk len ls e" and "chunk = take len (drop i ls)" and "i + len \<le> length ls"
    and "0 < len" and "e \<in> set (addChunk (joinLines (map canonicalLabel chunk)) chunk i m)"
  shows "entryOk len ls e"
proof -
  have len: "length chunk = len"
    using assms(2,3) by simp
  have new: "chunkPlace ls chunk i"
    using assms(2,3) by (simp add: chunkPlace_def min_def)
  have sub: "set chunk \<subseteq> set ls"
    using assms(2) by (auto dest: in_set_takeD in_set_dropD)
  show ?thesis
    using assms(1,5)
  proof (induction m)
    case Nil
    then show ?case
      using len new sub by (simp add: entryOk_def)
  next
    case (Cons q m)
    obtain k c "is" where q: "q = (k, c, is)"
      by (cases q)
    show ?case
    proof (cases "k = joinLines (map canonicalLabel chunk)")
      case True
      have c: "length c = len" "k = joinLines (map canonicalLabel c)"
        using Cons.prems(1) by (auto simp: q entryOk_def)
      have "c \<noteq> []" "chunk \<noteq> []"
        using c(1) len assms(4) by auto
      then have "sameLines c chunk"
        using c(2) True by (intro key_sameLines) simp_all
      then have "chunkPlace ls c i"
        using new len c(1) by (auto simp: chunkPlace_def intro: sameLines_trans)
      then show ?thesis
        using Cons.prems True by (auto simp: q entryOk_def)
    next
      case False
      then show ?thesis
        using Cons by (auto simp: q)
    qed
  qed
qed

lemma chunksOf_ok:
  assumes "0 < len"
  shows "\<forall>e \<in> set (chunksOf len ls). entryOk len ls e"
proof -
  have "\<forall>e \<in> set (fold (chunkAt len ls) is m). entryOk len ls e"
    if "\<forall>i \<in> set is. i + len \<le> length ls" "\<forall>e \<in> set m. entryOk len ls e" for "is" m
    using that
  proof (induction "is" arbitrary: m)
    case (Cons i "is")
    have "\<forall>e \<in> set (chunkAt len ls i m). entryOk len ls e"
      using Cons.prems addChunk_ok [OF Cons.prems(2) refl _ assms]
      by (auto simp: chunkAt_def Let_def)
    then show ?case
      using Cons by simp
  qed simp
  from this [of "[0..<Suc (length ls) - len]" "[]"] show ?thesis
    unfolding chunksOf_def by (auto simp: less_diff_conv)
qed

lemma nonOverlapping_subset: "set (nonOverlapping len is) \<subseteq> set is"
proof -
  have "set (foldl (\<lambda>acc i. if acc = [] \<or> last acc + len \<le> i then acc @ [i] else acc) acc is)
      \<subseteq> set acc \<union> set is" for acc
  proof (induction "is" arbitrary: acc)
    case (Cons i "is")
    show ?case
      using Cons.IH [of "acc @ [i]"] Cons.IH [of acc] by auto
  qed simp
  from this [of "[]"] show ?thesis
    by (simp add: nonOverlapping_def)
qed

definition repeatOk :: "string list \<Rightarrow> repeatingChunk \<Rightarrow> bool" where
  "repeatOk ls r \<longleftrightarrow> rc_length r = length (rc_lines r) \<and> 2 \<le> rc_length r
     \<and> set (rc_lines r) \<subseteq> set ls \<and> (\<forall>i \<in> set (rc_indices r). chunkPlace ls (rc_lines r) i)"

lemma considerChunk_ok:
  assumes "2 \<le> len" and "entryOk len ls e" and "\<And>r. best = Some r \<Longrightarrow> repeatOk ls r"
    and "considerChunk n len e best = Some r"
  shows "repeatOk ls r"
  using assms nonOverlapping_subset
  by (fastforce simp: considerChunk_def Let_def entryOk_def repeatOk_def
      split: prod.splits if_splits option.splits)

lemma bestChunk_ok:
  assumes "findBestRepeatingChunk ls = Some r"
  shows "repeatOk ls r"
proof -
  have inner: "repeatOk ls r"
    if "2 \<le> len" "\<forall>e \<in> set es. entryOk len ls e" "\<And>q. best = Some q \<Longrightarrow> repeatOk ls q"
      "fold (considerChunk (length ls) len) es best = Some r" for len es best r
    using that
  proof (induction es arbitrary: best)
    case (Cons e es)
    show ?case
    proof (rule Cons.IH [OF Cons.prems(1)])
      show "repeatOk ls q" if "considerChunk (length ls) len e best = Some q" for q
        by (rule considerChunk_ok [OF Cons.prems(1) _ _ that]) (use Cons.prems in auto)
    qed (use Cons.prems in auto)
  qed simp
  have "repeatOk ls r"
    if "fold (\<lambda>len best. fold (considerChunk (length ls) len) (chunksOf len ls) best) lens best = Some r"
      "\<forall>len \<in> set lens. 2 \<le> len" "\<And>q. best = Some q \<Longrightarrow> repeatOk ls q" for lens best
    using that
  proof (induction lens arbitrary: best)
    case (Cons len lens)
    have "\<forall>e \<in> set (chunksOf len ls). entryOk len ls e"
      using Cons.prems(2) by (intro chunksOf_ok) auto
    with Cons.prems show ?case
      by (intro Cons.IH [of "fold (considerChunk (length ls) len) (chunksOf len ls) best"])
        (auto intro: inner)
  qed simp
  then show ?thesis
    using assms unfolding findBestRepeatingChunk_def by fastforce
qed

text \<open>The lines that a state of the loop has taken in so far\<close>

definition scannedLines :: "chunkScan \<Rightarrow> string list" where
  "scannedLines st = concat (map blockLines (cs_blocks st)) @ cs_verseLines st"

definition verseOk :: "chunkScan \<Rightarrow> bool" where
  "verseOk st \<longleftrightarrow> (\<forall>l \<in> set (cs_verseLines st). lineOk l)"

lemma flushVerse_scanned:
  assumes "verseOk st"
  shows "scannedLines (flushVerse st) = scannedLines st \<and> cs_verseLines (flushVerse st) = []"
proof (cases "cs_verseLines st = []")
  case False
  then show ?thesis
    using join_lines_shape [OF False] split_joinLines [OF False] normalize_joinLines [OF False] assms
    by (simp add: flushVerse_def Let_def scannedLines_def blockLines_def block_def verseOk_def)
qed (simp add: flushVerse_def)

lemma chorusBlock_scanned:
  assumes "rc_lines rep \<noteq> []" and "\<forall>l \<in> set (rc_lines rep). lineOk l" and "cs_verseLines st = []"
  shows "scannedLines (chorusBlock rep st) = scannedLines st @ rc_lines rep"
  using normalize_joinLines [OF assms(1,2)] split_joinLines [OF assms(1,2)] assms(3)
  by (simp add: chorusBlock_def Let_def scannedLines_def blockLines_def block_def)

lemma chunkLoop_scanned:
  assumes "repeatOk ls rep" and "\<forall>l \<in> set ls. lineOk l"
  shows "chunkLoop rep ls cursor st = Some st' \<Longrightarrow> cursor \<le> length ls \<Longrightarrow> verseOk st \<Longrightarrow>
    sameLines (scannedLines st) (take cursor ls) \<Longrightarrow>
    sameLines (scannedLines st') ls \<and> cs_verseLines st' = []"
proof (induction "length ls - cursor" arbitrary: cursor st rule: less_induct)
  case less
  have rl: "rc_length rep = length (rc_lines rep)" "2 \<le> rc_length rep"
    "\<forall>l \<in> set (rc_lines rep). lineOk l" "rc_lines rep \<noteq> []"
    using assms by (auto simp: repeatOk_def)
  show ?case
  proof (cases "cursor < length ls")
    case False
    then have "st' = flushVerse st" "take cursor ls = ls"
      using less.prems(1,2) by (simp_all add: chunkLoop.simps)
    then show ?thesis
      using flushVerse_scanned [OF less.prems(3)] less.prems(4) by simp
  next
    case lt: True
    show ?thesis
    proof (cases "cursor \<in> set (rc_indices rep)")
      case True
      let ?st = "chorusBlock rep (flushVerse st)"
      have place: "chunkPlace ls (rc_lines rep) cursor"
        using assms(1) True by (simp add: repeatOk_def)
      have "scannedLines ?st = scannedLines st @ rc_lines rep"
        using flushVerse_scanned [OF less.prems(3)] rl by (simp add: chorusBlock_scanned)
      moreover have "sameLines (rc_lines rep) (take (rc_length rep) (drop cursor ls))"
        using place rl(1) by (simp add: chunkPlace_def)
      ultimately have "sameLines (scannedLines ?st) (take (cursor + rc_length rep) ls)"
        using less.prems(4) by (simp add: take_add sameLines_append)
      moreover have "verseOk ?st"
        using flushVerse_scanned [OF less.prems(3)]
        by (simp add: verseOk_def chorusBlock_def Let_def)
      moreover have "chunkLoop rep ls (cursor + rc_length rep) ?st = Some st'"
        using less.prems(1) lt True by (subst (asm) chunkLoop.simps) simp
      moreover have "cursor + rc_length rep \<le> length ls"
        using place rl(1) by (simp add: chunkPlace_def)
      ultimately show ?thesis
        using lt rl(2) by (intro less.hyps [of "cursor + rc_length rep" ?st]) auto
    next
      case False
      let ?st = "st\<lparr>cs_verseLines := cs_verseLines st @ [ls ! cursor]\<rparr>"
      have "chunkLoop rep ls (cursor + 1) ?st = Some st'"
        using less.prems(1) lt False by (subst (asm) chunkLoop.simps) simp
      moreover have "verseOk ?st"
        using less.prems(3) assms(2) lt by (auto simp: verseOk_def)
      moreover have "sameLines (scannedLines ?st) (take (cursor + 1) ls)"
        using less.prems(4) lt
        by (simp add: scannedLines_def take_Suc_conv_app_nth sameLines_def)
      ultimately show ?thesis
        using lt by (intro less.hyps [of "cursor + 1" ?st]) auto
    qed
  qed
qed

lemma split_on_subset: "l \<in> set (split_on sep t) \<Longrightarrow> set l \<subseteq> set t"
proof (induction t arbitrary: l)
  case (Cons c t)
  show ?case
  proof (cases "c = sep")
    case True
    with Cons show ?thesis by auto
  next
    case False
    obtain x xs where x: "split_on sep t = x # xs"
      by (cases "split_on sep t") auto
    with Cons False have "l = c # x \<or> l \<in> set xs"
      by simp
    with Cons.IH x show ?thesis by fastforce
  qed
qed simp

lemma unixLines_ok:
  assumes "l \<in> set (map trim (split_on newline (normalizeMultiline s)))" and "l \<noteq> []"
  shows "lineOk l"
proof -
  obtain r where r: "r \<in> set (split_on newline (normalizeMultiline s))" "l = trim r"
    using assms(1) by auto
  have "newline \<notin> set r"
    using r(1) by (rule split_on_no_sep)
  moreover have "carriage \<notin> set r"
  proof -
    have cr: "tidy t \<Longrightarrow> carriage \<notin> set t" for t
      by (induction t) auto
    show ?thesis
      using split_on_subset [OF r(1)] cr [OF normalizeMultiline_tidy(1) [of s]] by blast
  qed
  ultimately show ?thesis
    using assms(2) r(2) set_trim by (auto simp: lineOk_def)
qed

section \<open>Properties\<close>

text \<open>
  The normal form of a text has no carriage return, no blank before a newline, no three
  newlines in a row and no white space at its ends, and these texts are exactly the ones
  the normalisation leaves unchanged: it is idempotent.
\<close>
theorem multiline_normal_form:
  "(normalizeMultiline s = s \<longleftrightarrow> tidy s \<and> trimmed s)
   \<and> normalizeMultiline (normalizeMultiline s) = normalizeMultiline s"
  using normalizeMultiline_id normalizeMultiline_tidy [of s] by auto

text \<open>
  Cutting lyrics into blocks ends on every text, and gives at least one block, numbered
  from 1 without gaps.
\<close>
theorem lyrics_always_cut:
  "\<exists>bs. parseLyricsToBlocks lyrics = Some bs \<and> bs \<noteq> []
        \<and> map rb_order bs = map int [1..<Suc (length bs)]"
  using lyrics_blocks [of lyrics] numberBlocks_orders by fastforce

text \<open>
  Lyrics that are cut at their repeated chunk keep all their lines in order: the lines of
  the blocks are the lines of the lyrics that are not blank, up to case, accents and
  punctuation (every chorus shows the lines of the first occurrence).
\<close>
theorem repeated_chunk_keeps_lines:
  assumes "parseLyricsByRepeatingChunk lyrics = Some (Some bs)"
  shows "sameLines (concat (map blockLines bs))
           (filter (\<lambda>l. l \<noteq> []) (map trim (split_on newline (normalizeMultiline lyrics))))"
proof -
  let ?ls = "filter (\<lambda>l. l \<noteq> []) (map trim (split_on newline (normalizeMultiline lyrics)))"
  let ?st = "\<lparr>cs_verseCounter = 0, cs_chorusCounter = 0, cs_verseLines = [], cs_blocks = []\<rparr>"
  obtain rep st where r: "findBestRepeatingChunk ?ls = Some rep"
    and l: "chunkLoop rep ?ls 0 ?st = Some st" and b: "bs = numberBlocks (cs_blocks st)"
    using assms by (auto simp: parseLyricsByRepeatingChunk_def Let_def split: if_splits option.splits)
  have "sameLines (scannedLines st) ?ls \<and> cs_verseLines st = []"
  proof (rule chunkLoop_scanned [OF bestChunk_ok [OF r] _ l])
    show "\<forall>x \<in> set ?ls. lineOk x"
      using unixLines_ok by (fastforce simp del: set_map simp: set_filter)
  qed (simp_all add: verseOk_def scannedLines_def)
  moreover have "map blockLines bs = map blockLines (cs_blocks st)"
    using numberBlocks_contents [of "cs_blocks st"] b
    by (simp add: blockLines_def [abs_def] flip: map_map [of "split_on newline" rb_content, unfolded comp_def])
  ultimately show ?thesis
    unfolding scannedLines_def by (metis append_Nil2)
qed

lemma repeated_chunk_keeps_lines_witness:
  "\<exists>bs. parseLyricsByRepeatingChunk (joinLines [''a'', ''b'', ''c'', ''d'', ''b'', ''c'']) = Some (Some bs)
     \<and> length bs = 4
     \<and> sameLines (concat (map blockLines bs))
         (filter (\<lambda>l. l \<noteq> []) (map trim (split_on newline
           (normalizeMultiline (joinLines [''a'', ''b'', ''c'', ''d'', ''b'', ''c''])))))"
proof -
  have "map_option (map_option length)
      (parseLyricsByRepeatingChunk (joinLines [''a'', ''b'', ''c'', ''d'', ''b'', ''c''])) = Some (Some 4)"
    by code_simp
  then obtain bs where bs: "parseLyricsByRepeatingChunk
      (joinLines [''a'', ''b'', ''c'', ''d'', ''b'', ''c'']) = Some (Some bs)" "length bs = 4"
    by auto
  with repeated_chunk_keeps_lines [OF bs(1)] show ?thesis
    by blast
qed

text \<open>
  A line of lyrics that begins with a heading word loses it: \<open>Versez ta paix\<close> is taken for
  the heading \<open>Verse\<close> followed by \<open>z ta paix\<close>, because the pattern asks for no boundary after
  the word.
\<close>
theorem heading_words_swallowed:
  "parseLyricsToBlocks (joinLines [''Versez ta paix'', ''sur nous''])
     = Some [\<lparr>rb_order = 1, rb_type = ''VERSE'', rb_title = Some ''Couplet 1'',
              rb_content = joinLines [''z ta paix'', ''sur nous'']\<rparr>]"
  by code_simp

end
