(* ===== verification/SongImport.thy ===== *)
theory SongImport
  imports SongText
begin

text \<open>
  Songs from files, from \<open>src/apps/desktop/src/main/ipc/songs-import.ts\<close>: a text with metadata
  lines (\<open>parseSongText\<close>), the entries of a JSON export (\<open>migrateSongsJsonPayload\<close>,
  \<open>normalizeSongFromJson\<close>), and the text and JSON that the application writes itself
  (\<open>songs-export.ts\<close>, \<open>songs-meta.ts\<close>). A value \<open>None\<close> of the outermost option stands for a
  computation that does not return; the lemmas show that there is none.
\<close>

section \<open>Texts with metadata\<close>

record parsedSong =
  px_title :: string
  px_artist :: "string option"
  px_album :: "string option"
  px_year :: "string option"
  px_language :: "string option"
  px_tags :: "string option"
  px_lyrics :: string
  px_blocks :: "songBlockPayload list"
  px_warnings :: "string list"

record metaScan =
  ms_title :: "string option"
  ms_artist :: "string option"
  ms_album :: "string option"
  ms_yearRaw :: "string option"
  ms_language :: "string option"
  ms_tags :: "string option"
  ms_lyricsStarted :: bool
  ms_lyricsLines :: "string list"

definition emptyMeta :: metaScan where
  "emptyMeta = \<lparr>ms_title = None, ms_artist = None, ms_album = None, ms_yearRaw = None,
     ms_language = None, ms_tags = None, ms_lyricsStarted = False, ms_lyricsLines = []\<rparr>"

text \<open>\<open>line.replace(/[:]\s*$/, "")\<close> on a trimmed line\<close>

definition dropColon :: "string \<Rightarrow> string" where
  "dropColon line = (if line \<noteq> [] \<and> last line = CHR '':'' then butlast line else line)"

text \<open>
  \<open>line.match(/^([^:]{1,120})\s*[:]\s*(.*)$/)\<close>: the label is what stands before the first colon,
  its first 120 characters when only white space follows them.
\<close>

definition matchLabel :: "string \<Rightarrow> (string \<times> string) option" where
  "matchLabel line =
     (let pre = takeWhile (\<lambda>c. c \<noteq> CHR '':'') line;
          post = drop (Suc (length pre)) line
      in if length pre = length line \<or> pre = [] then None
         else if length pre \<le> 120 \<or> list_all js_space (drop 120 pre)
              then Some (take 120 pre, trim_left post)
         else None)"

definition nonEmpty :: "string \<Rightarrow> string option" where
  "nonEmpty s = (if s = [] then None else Some s)"

text \<open>\<open>if (!x) x = value || undefined\<close>: the first value that is not empty stays.\<close>

definition firstValue :: "string option \<Rightarrow> string \<Rightarrow> string option" where
  "firstValue x value = (if x = None \<or> x = Some [] then nonEmpty value else x)"

fun setField :: "metaField \<Rightarrow> string \<Rightarrow> metaScan \<Rightarrow> metaScan" where
  "setField FTitle v st = st\<lparr>ms_title := firstValue (ms_title st) v\<rparr>"
| "setField FArtist v st = st\<lparr>ms_artist := firstValue (ms_artist st) v\<rparr>"
| "setField FAlbum v st = st\<lparr>ms_album := firstValue (ms_album st) v\<rparr>"
| "setField FYear v st = st\<lparr>ms_yearRaw := firstValue (ms_yearRaw st) v\<rparr>"
| "setField FLanguage v st = st\<lparr>ms_language := firstValue (ms_language st) v\<rparr>"
| "setField FTags v st = st\<lparr>ms_tags := firstValue (ms_tags st) v\<rparr>"
| "setField FLyrics v st =
     st\<lparr>ms_lyricsStarted := True,
        ms_lyricsLines := ms_lyricsLines st @ (if v = [] then [] else [v])\<rparr>"

definition plainLine :: "string \<Rightarrow> metaScan \<Rightarrow> metaScan" where
  "plainLine rawLine st =
     (if trim rawLine \<noteq> []
      then st\<lparr>ms_lyricsStarted := True, ms_lyricsLines := ms_lyricsLines st @ [rawLine]\<rparr> else st)"

definition metaLine :: "string \<Rightarrow> metaScan \<Rightarrow> metaScan" where
  "metaLine rawLine st =
     (let line = trim rawLine
      in if ms_lyricsStarted st then st\<lparr>ms_lyricsLines := ms_lyricsLines st @ [rawLine]\<rparr>
         else if classifyMetadataLabel (dropColon line) = Some FLyrics
              then st\<lparr>ms_lyricsStarted := True\<rparr>
         else case matchLabel line of
                None \<Rightarrow> plainLine rawLine st
              | Some (label, value) \<Rightarrow>
                  (case classifyMetadataLabel label of
                     None \<Rightarrow> plainLine rawLine st
                   | Some field \<Rightarrow> setField field (normalizeWhitespace value) st))"

text \<open>\<open>filename.replace(/\.(docx|odt)$/i, "").trim()\<close>\<close>

definition stripDocExtension :: "string \<Rightarrow> string" where
  "stripDocExtension name =
     trim (if endsWith (toLowerCase name) ''.docx'' then take (length name - 5) name
           else if endsWith (toLowerCase name) ''.odt'' then take (length name - 4) name
           else name)"

definition orNext :: "string option \<Rightarrow> string option \<Rightarrow> string option" where
  "orNext a b = (case a of Some (c # s) \<Rightarrow> a | _ \<Rightarrow> b)"

definition songTextWarnings :: "metaScan \<Rightarrow> string option \<Rightarrow> string \<Rightarrow> string list" where
  "songTextWarnings st fallbackTitle lyrics =
     (if orNext (ms_title st) None = None \<and> orNext fallbackTitle None \<noteq> None
      then [''Titre absent: nom de fichier utilise.''] else [])
     @ (case orNext (ms_yearRaw st) None of None \<Rightarrow> []
        | Some y \<Rightarrow> if normalizeYear (Some y) = None
                    then [''Annee ignoree (format invalide): '' @ [CHR 0x22] @ y @ [CHR 0x22] @ ''.'']
                    else [])
     @ (if lyrics = [] then [''Paroles absentes ou vides.''] else [])"

definition parseSongText :: "string \<Rightarrow> string option \<Rightarrow> parsedSong option" where
  "parseSongText raw filename =
     (let st = fold metaLine (split_on newline (unixNewlines raw)) emptyMeta;
          fallbackTitle = map_option stripDocExtension filename;
          title = orElse (orNext (ms_title st) (orNext fallbackTitle None)) ''Sans titre'';
          lyrics = normalizeMultiline (joinLines (ms_lyricsLines st));
          clean = (\<lambda>x. map_option normalizeWhitespace (orNext x None))
      in map_option
           (\<lambda>blocks. \<lparr>px_title = normalizeWhitespace title, px_artist = clean (ms_artist st),
              px_album = clean (ms_album st), px_year = normalizeYear (ms_yearRaw st),
              px_language = clean (ms_language st), px_tags = clean (ms_tags st),
              px_lyrics = lyrics, px_blocks = blocks,
              px_warnings = songTextWarnings st fallbackTitle lyrics\<rparr>)
           (parseLyricsToBlocks lyrics))"

text \<open>
  The text of an OpenDocument file: \<open>content.xml\<close> with paragraph ends as blank lines and all
  tags dropped. \<open>/<[^>]+>/g\<close> takes a \<open><\<close>, at least one other character, up to the next \<open>>\<close>.
\<close>

fun replaceAll :: "string \<Rightarrow> string \<Rightarrow> nat \<Rightarrow> string \<Rightarrow> string" where
  "replaceAll pat repl (Suc skip) (c # s) = replaceAll pat repl skip s"
| "replaceAll pat repl 0 (c # s) =
     (if startsWith (c # s) pat then repl @ replaceAll pat repl (length pat - 1) s
      else c # replaceAll pat repl 0 s)"
| "replaceAll pat repl n [] = []"

function dropTags :: "string \<Rightarrow> string" where
  "dropTags [] = []"
| "dropTags (c # s) =
     (let tag = takeWhile (\<lambda>x. x \<noteq> CHR ''>'') s; rest = drop (length tag) s
      in if c = CHR ''<'' \<and> tag \<noteq> [] \<and> rest \<noteq> [] then dropTags (tl rest) else c # dropTags s)"
  by pat_completeness auto
termination
  by (relation "measure length") auto

definition odtText :: "string \<Rightarrow> string" where
  "odtText xml = trim (squeezeNewlines (dropTags
     (replaceAll ''</text:p>'' [newline, newline] 0 xml)))"

section \<open>JSON exports\<close>

record importSong =
  im_title :: string
  im_artist :: "string option"
  im_album :: "string option"
  im_year :: "string option"
  im_language :: "string option"
  im_tags :: "string option"
  im_blocks :: "songBlockPayload list"

definition normalizeBlock ::
  "(rat \<Rightarrow> string) \<Rightarrow> (string \<Rightarrow> string) \<Rightarrow> nat \<Rightarrow> jsval \<Rightarrow> songBlockPayload option" where
  "normalizeBlock fmt decode idx rawBlock =
     (case rawBlock of
        JObj rec \<Rightarrow>
          (let content = normalizeMultiline (orElse (asStringLike fmt decode (jget rec ''content'')) []);
               parsedOrder = (case jget rec ''order'' of
                 JNum (Fin r) \<Rightarrow> \<lfloor>r\<rfloor> | _ \<Rightarrow> int idx + 1)
           in Some \<lparr>rb_order = (if 0 < parsedOrder then parsedOrder else int idx + 1),
                    rb_type = normalizeWhitespace (orElse (asString decode (jget rec ''type'')) ''VERSE''),
                    rb_title = map_option normalizeWhitespace (asString decode (jget rec ''title'')),
                    rb_content = content\<rparr>)
      | _ \<Rightarrow> None)"

text \<open>The first value of each canonical key, in entry order\<close>

fun addCanonical :: "string \<times> jsval \<Rightarrow> (string \<times> jsval) list \<Rightarrow> (string \<times> jsval) list" where
  "addCanonical (key, value) out =
     (let canonical = canonicalLabel key
      in if canonical = [] \<or> jhas out canonical then out else out @ [(canonical, value)])"

definition buildCanonicalMap :: "(string \<times> jsval) list \<Rightarrow> (string \<times> jsval) list" where
  "buildCanonicalMap rec = fold addCanonical rec []"

fun pickFromMaps ::
  "(jsval \<Rightarrow> string option) \<Rightarrow> (string \<times> jsval) list \<Rightarrow> (string \<times> jsval) list \<Rightarrow> string list
     \<Rightarrow> (string \<Rightarrow> string) \<Rightarrow> string option" where
  "pickFromMaps str primary secondary [] normalizer = None"
| "pickFromMaps str primary secondary (key # keys) normalizer =
     (let canonical = canonicalLabel key;
          pick = (\<lambda>m. case str (jget m canonical) of
                    None \<Rightarrow> None | Some v \<Rightarrow> if v = [] then None else nonEmpty (normalizer v))
      in case pick primary of
           Some v \<Rightarrow> Some v
         | None \<Rightarrow>
             (case pick secondary of
                Some v \<Rightarrow> Some v
              | None \<Rightarrow> pickFromMaps str primary secondary keys normalizer))"

definition YEAR_KEYS :: "string list" where
  "YEAR_KEYS = [''year'', ''annee'', ''annee de parution'', ''annee de sortie'',
     ''annee de sortie single'', ''published'', ''release year'']"

definition parseJsonBlocks ::
  "(rat \<Rightarrow> string) \<Rightarrow> (string \<Rightarrow> string) \<Rightarrow> jsval \<Rightarrow> songBlockPayload list \<times> string list" where
  "parseJsonBlocks fmt decode value =
     (case value of
        JArr raw \<Rightarrow>
          (let parsed = List.map_filter (\<lambda>x. x) (map_idx (normalizeBlock fmt decode) raw)
           in (parsed, if length parsed \<noteq> length raw
                       then [''Certains blocs ont ete ignores (format invalide).''] else []))
      | v \<Rightarrow> ([], if is_nullish v then []
                   else [''Le champ blocks est ignore (tableau attendu).'']))"

definition songOfRecord ::
  "(rat \<Rightarrow> string) \<Rightarrow> (string \<Rightarrow> string) \<Rightarrow> (string \<times> jsval) list \<Rightarrow> (importSong \<times> string list) option" where
  "songOfRecord fmt decode rec =
     (let topMap = buildCanonicalMap rec;
          metaMap = buildCanonicalMap (case jget rec ''meta'' of JObj m \<Rightarrow> m | _ \<Rightarrow> []);
          pick = (\<lambda>keys. pickFromMaps (asStringLike fmt decode) topMap metaMap keys normalizeWhitespace);
          title = orElse (pick [''title'', ''titre'', ''nom'']) ''Sans titre'';
          artist = pick [''artist'', ''auteur'', ''interprete'', ''auteur interprete'', ''compositeur''];
          album = pick [''album'', ''album inclus dans''];
          yearRaw = pick YEAR_KEYS;
          year = normalizeYear yearRaw;
          warnYear = (case yearRaw of
             Some y \<Rightarrow> if year = None
                       then [''Annee ignoree (format invalide): '' @ [CHR 0x22] @ y @ [CHR 0x22]] else []
           | None \<Rightarrow> []);
          language = pick [''language'', ''lang'', ''langue''];
          tags = orOption (pick [''tags'', ''tag'']) (pick [''notes'', ''note'']);
          lyrics = pickFromMaps (asStringLike fmt decode) topMap metaMap
            [''lyrics'', ''paroles'', ''texte''] normalizeMultiline;
          (parsed, warnBlocks) = parseJsonBlocks fmt decode (jget rec ''blocks'')
      in map_option
           (\<lambda>blocks.
              let (final, warnEmpty) =
                    (if blocks = [] then ([block 1 ''VERSE'' ''Couplet 1'' []],
                       [''Aucun contenu detecte: bloc vide ajoute.'']) else (blocks, []))
              in (\<lparr>im_title = normalizeWhitespace title,
                   im_artist = map_option normalizeWhitespace artist,
                   im_album = map_option normalizeWhitespace album, im_year = year,
                   im_language = map_option normalizeWhitespace language,
                   im_tags = map_option normalizeWhitespace tags,
                   im_blocks = numberBlocks final\<rparr>,
                  warnYear @ warnBlocks @ warnEmpty))
           (case (parsed, lyrics) of
              ([], Some l) \<Rightarrow> parseLyricsToBlocks l
            | _ \<Rightarrow> Some parsed))"

text \<open>The answer for one entry: the message of its error, or the song with its warnings\<close>

definition normalizeSongFromJson ::
  "(rat \<Rightarrow> string) \<Rightarrow> (string \<Rightarrow> string) \<Rightarrow> jsval \<Rightarrow> nat \<Rightarrow> (importSong \<times> string list) result option" where
  "normalizeSongFromJson fmt decode rawSong songIdx =
     (case rawSong of
        JObj rec \<Rightarrow> map_option Inr (songOfRecord fmt decode rec)
      | _ \<Rightarrow> Some (Inl (''Entree #'' @ show_nat (songIdx + 1)
                        @ '': format invalide (objet attendu)'')))"

definition SONGS_JSON_KIND :: string where
  "SONGS_JSON_KIND = ''CHURCH_PRESENTER_SONGS_EXPORT''"

definition SONGS_JSON_SCHEMA_VERSION :: int where
  "SONGS_JSON_SCHEMA_VERSION = 2"

definition payloadSongs :: "(string \<times> jsval) list \<Rightarrow> jsval list option" where
  "payloadSongs rec =
     (case jget rec ''payload'' of
        JObj p \<Rightarrow> (case jget p ''songs'' of JArr songs \<Rightarrow> Some songs | _ \<Rightarrow> None)
      | _ \<Rightarrow> None)"

definition migrateSongsJsonPayload ::
  "(rat \<Rightarrow> string) \<Rightarrow> (string \<Rightarrow> string) \<Rightarrow> jsval \<Rightarrow> (jsval list \<times> string list) result" where
  "migrateSongsJsonPayload fmt decode raw =
     (case raw of
        JArr songs \<Rightarrow> Inr (songs, [])
      | JObj rec \<Rightarrow>
          (let kind = asStringLike fmt decode (jget rec ''kind'');
               schemaVersion = (case jget rec ''schemaVersion'' of
                 JNum (Fin r) \<Rightarrow> Some (num_trunc r) | _ \<Rightarrow> None)
           in if schemaVersion \<noteq> None \<or> kind \<noteq> None \<or> jhas rec ''payload'' then
                (let detectedVersion = orElse schemaVersion 1
                 in if kind \<noteq> None \<and> kind \<noteq> Some SONGS_JSON_KIND
                    then Inl (''Unsupported songs export kind: '' @ orElse kind [])
                    else if SONGS_JSON_SCHEMA_VERSION < detectedVersion
                    then Inl (''Unsupported songs schema version: '' @ show_int detectedVersion)
                    else if 2 \<le> detectedVersion
                    then (case payloadSongs rec of
                            None \<Rightarrow> Inl ''Invalid songs JSON: payload.songs must be an array''
                          | Some songs \<Rightarrow> Inr (songs, []))
                    else Inr (case jget rec ''songs'' of
                                JArr songs \<Rightarrow> songs | _ \<Rightarrow> orElse (payloadSongs rec) [],
                              [''Legacy songs JSON detected (v1). Migration applied automatically.'']))
              else (case jget rec ''songs'' of
                      JArr songs \<Rightarrow> Inr (songs,
                        [''Legacy songs JSON detected (missing schema metadata). Migration applied automatically.''])
                    | _ \<Rightarrow> Inr ([JObj rec], [])))
      | _ \<Rightarrow> Inl ''Le fichier doit contenir un tableau de chants ou un objet.'')"

section \<open>What the application writes\<close>

text \<open>The JSON file of one song, \<open>writeSongJsonAutoSync\<close>\<close>

definition blockJson :: "songBlockPayload \<Rightarrow> jsval" where
  "blockJson b = JObj ([(''order'', JNum (IntNum (rb_order b))), (''type'', JStr (rb_type b))]
     @ (case rb_title b of None \<Rightarrow> [] | Some t \<Rightarrow> [(''title'', JStr t)])
     @ [(''content'', JStr (rb_content b))])"

definition songJson :: "importSong \<Rightarrow> jsval" where
  "songJson s = JObj ([(''title'', JStr (im_title s))]
     @ (case im_artist s of None \<Rightarrow> [] | Some v \<Rightarrow> [(''artist'', JStr v)])
     @ (case im_album s of None \<Rightarrow> [] | Some v \<Rightarrow> [(''album'', JStr v)])
     @ (case im_year s of None \<Rightarrow> [] | Some v \<Rightarrow> [(''year'', JStr v)])
     @ [(''blocks'', JArr (map blockJson (im_blocks s)))])"

definition songFileJson :: "importSong \<Rightarrow> jsval" where
  "songFileJson s = JObj
     [(''kind'', JStr SONGS_JSON_KIND), (''schemaVersion'', JNum (IntNum SONGS_JSON_SCHEMA_VERSION)),
      (''payload'', JObj [(''songs'', JArr [songJson s])])]"

text \<open>The paragraphs of a Word export\<close>

definition buildWordLyrics :: "songBlockPayload list \<Rightarrow> string" where
  "buildWordLyrics blocks =
     join [newline, newline] (filter (\<lambda>c. c \<noteq> []) (map (\<lambda>b. normalizeMultiline (rb_content b)) blocks))"

definition buildSongWordDocument :: "importSong \<Rightarrow> string list" where
  "buildSongWordDocument song =
     (let title = normalizeWhitespace (if im_title song = [] then ''Sans titre'' else im_title song);
          year = orElse (orOption (normalizeYear (im_year song)) (normalizeYear (im_tags song))) []
      in [''Titre : '' @ title, ''Auteur : '' @ normalizeWhitespace (orElse (im_artist song) []),
          ''Annee de parution : '' @ year,
          ''Album : '' @ normalizeWhitespace (orElse (im_album song) []), [], ''Paroles :'']
         @ split_on newline (buildWordLyrics (im_blocks song)))"

text \<open>\<open>uniqueDocxName\<close>; \<open>used\<close> holds the names taken, in lower case. The loop may not end.\<close>

definition docxCandidate :: "string \<Rightarrow> nat \<Rightarrow> string" where
  "docxCandidate base index =
     (if index < 2 then base @ ''.docx'' else base @ '' ('' @ show_nat index @ '').docx'')"

partial_function (option) freeDocxName :: "string \<Rightarrow> string set \<Rightarrow> nat \<Rightarrow> string option" where
  "freeDocxName base used index =
     (if toLowerCase (docxCandidate base index) \<in> used then freeDocxName base used (index + 1)
      else Some (docxCandidate base index))"

definition uniqueDocxName :: "string \<Rightarrow> string set \<Rightarrow> (string \<times> string set) option" where
  "uniqueDocxName baseTitle used =
     map_option (\<lambda>n. (n, insert (toLowerCase n) used)) (freeDocxName (sanitizeFilename baseTitle) used 1)"

declare freeDocxName.simps [code]

section \<open>A written song comes back\<close>

text \<open>The texts that the import leaves alone, and the songs made of them\<close>

definition wsOk :: "string \<Rightarrow> bool" where
  "wsOk t \<longleftrightarrow> normalizeWhitespace t = t \<and> t \<noteq> [] \<and> countMojibakeMarkers t = 0"

definition contentOk :: "string \<Rightarrow> bool" where
  "contentOk c \<longleftrightarrow> normalizeMultiline c = c \<and> countMojibakeMarkers c = 0"

definition blockOk :: "songBlockPayload \<Rightarrow> bool" where
  "blockOk b \<longleftrightarrow> wsOk (rb_type b) \<and> fieldOk wsOk (rb_title b) \<and> contentOk (rb_content b)"

definition yearOk :: "string \<Rightarrow> bool" where
  "yearOk y \<longleftrightarrow> wsOk y \<and> normalizeYear (Some y) = Some y"

definition songOk :: "importSong \<Rightarrow> bool" where
  "songOk s \<longleftrightarrow> wsOk (im_title s) \<and> fieldOk wsOk (im_artist s) \<and> fieldOk wsOk (im_album s)
     \<and> fieldOk yearOk (im_year s) \<and> im_language s = None \<and> im_tags s = None
     \<and> im_blocks s \<noteq> [] \<and> (\<forall>b \<in> set (im_blocks s). blockOk b)
     \<and> map rb_order (im_blocks s) = map int [1..<Suc (length (im_blocks s))]"

lemma wsOk_simps:
  assumes "wsOk t"
  shows "asString decode (JStr t) = Some t" "normalizeWhitespace t = t" "t \<noteq> []"
proof -
  have "trim t = t"
    using assms by (metis normalizeWhitespace_def trim_idem wsOk_def)
  then show "asString decode (JStr t) = Some t" "normalizeWhitespace t = t" "t \<noteq> []"
    using assms by (simp_all add: wsOk_def asString_def maybeRepairMojibake_def)
qed

lemma contentOk_read:
  assumes "contentOk c"
  shows "normalizeMultiline (orElse (asStringLike fmt decode (JStr c)) []) = c"
proof -
  have "trim c = c"
    using assms normalizeMultiline_tidy(2) [of c] by (simp add: contentOk_def trim_trimmed)
  then show ?thesis
    using assms
    by (auto simp: contentOk_def asStringLike_def asString_def maybeRepairMojibake_def)
qed

lemma normalizeBlock_written:
  "blockOk b \<Longrightarrow> 0 < rb_order b \<Longrightarrow> normalizeBlock fmt decode i (blockJson b) = Some b"
  by (cases "rb_title b")
    (simp_all add: normalizeBlock_def blockJson_def blockOk_def wsOk_simps contentOk_read asString_def [of _ JUndef])

lemma map_idx_ext:
  "(\<And>i x. x \<in> set xs \<Longrightarrow> f i (g x) = h x) \<Longrightarrow> map_idx_from n f (map g xs) = map h xs"
  by (induction xs arbitrary: n) auto

lemma parseJsonBlocks_written:
  assumes "\<forall>b \<in> set bs. blockOk b \<and> 0 < rb_order b"
  shows "parseJsonBlocks fmt decode (JArr (map blockJson bs)) = (bs, [])"
proof -
  have "map_idx (normalizeBlock fmt decode) (map blockJson bs) = map Some bs"
    using assms by (intro map_idx_ext) (simp add: normalizeBlock_written)
  then show ?thesis
    by (simp add: parseJsonBlocks_def map_filter_map_id)
qed

lemma numberBlocks_id:
  assumes "map rb_order bs = map int [1..<Suc (length bs)]"
  shows "numberBlocks bs = bs"
proof (rule nth_equalityI)
  fix i assume i: "i < length (numberBlocks bs)"
  have "map rb_order bs ! i = map int [1..<Suc (length bs)] ! i"
    using assms by (rule arg_cong)
  with i show "numberBlocks bs ! i = bs ! i"
    by (simp add: numberBlocks_def nth_map_idx nth_append del: upt_Suc)
qed simp

lemma orders_positive:
  assumes "map rb_order bs = map int [1..<Suc (length bs)]" and "b \<in> set bs"
  shows "0 < rb_order b"
proof -
  have "rb_order b \<in> set (map rb_order bs)"
    using assms(2) by simp
  then show ?thesis
    unfolding assms(1) by auto
qed

text \<open>Words of lower-case letters with single spaces between them are their own label.\<close>

fun labelWords :: "string \<Rightarrow> bool" where
  "labelWords [] = False"
| "labelWords [c] = is_label_char c"
| "labelWords (c # d # s) =
     (labelWords (d # s) \<and> (is_label_char c \<or> c = CHR '' '' \<and> is_label_char d))"

lemma label_char_plain:
  "is_label_char c \<or> c = CHR '' '' \<Longrightarrow> stripDiacritic c = c \<and> lower_char c = c"
proof -
  define n where "n = (of_char c :: nat)"
  assume "is_label_char c \<or> c = CHR '' ''"
  then have "n \<le> 122" "\<not> (65 \<le> n \<and> n \<le> 90)"
    by (auto simp: is_label_char_def is_digit_def n_def)
  then show ?thesis
    unfolding stripDiacritic_def lower_char_def n_def [symmetric] Let_def by auto
qed

lemma space_no_label [simp]: "\<not> is_label_char (CHR '' '')"
  by (simp add: is_label_char_def is_digit_def)

lemma label_no_space: "is_label_char c \<Longrightarrow> \<not> js_space c"
  by (auto simp: is_label_char_def js_space_def is_digit_def)

lemma labelWords_plain:
  "labelWords s \<Longrightarrow> toLowerCase (stripDiacritics s) = s
     \<and> collapse (\<lambda>c. \<not> is_label_char c) s = s \<and> (\<forall>c \<in> set s. is_label_char c \<or> c = CHR '' '')
     \<and> s \<noteq> [] \<and> is_label_char (last s)"
proof (induction s rule: labelWords.induct)
  case (3 c d s)
  then have "labelWords (d # s)" "is_label_char c \<or> c = CHR '' '' \<and> is_label_char d"
    by auto
  with 3 label_char_plain [of c] show ?case
    by (auto simp: toLowerCase_def stripDiacritics_def)
qed (use label_char_plain in \<open>auto simp: toLowerCase_def stripDiacritics_def\<close>)

lemma labelWords_id:
  assumes "labelWords s" and "is_label_char (hd s)"
  shows "canonicalLabel s = s"
proof -
  have "trimmed s"
    using assms(2) labelWords_plain [OF assms(1)] label_no_space by (auto simp: trimmed_def)
  then show ?thesis
    using labelWords_plain [OF assms(1)] by (simp add: canonicalLabel_def trim_trimmed)
qed

lemma song_labels [simp]:
  "canonicalLabel ''title'' = ''title''" "canonicalLabel ''titre'' = ''titre''"
  "canonicalLabel ''nom'' = ''nom''" "canonicalLabel ''artist'' = ''artist''"
  "canonicalLabel ''auteur'' = ''auteur''" "canonicalLabel ''interprete'' = ''interprete''"
  "canonicalLabel ''auteur interprete'' = ''auteur interprete''"
  "canonicalLabel ''compositeur'' = ''compositeur''" "canonicalLabel ''album'' = ''album''"
  "canonicalLabel ''album inclus dans'' = ''album inclus dans''"
  "canonicalLabel ''year'' = ''year''" "canonicalLabel ''annee'' = ''annee''"
  "canonicalLabel ''annee de parution'' = ''annee de parution''"
  "canonicalLabel ''annee de sortie'' = ''annee de sortie''"
  "canonicalLabel ''annee de sortie single'' = ''annee de sortie single''"
  "canonicalLabel ''published'' = ''published''" "canonicalLabel ''release year'' = ''release year''"
  "canonicalLabel ''language'' = ''language''" "canonicalLabel ''lang'' = ''lang''"
  "canonicalLabel ''langue'' = ''langue''" "canonicalLabel ''tags'' = ''tags''"
  "canonicalLabel ''tag'' = ''tag''" "canonicalLabel ''notes'' = ''notes''"
  "canonicalLabel ''note'' = ''note''" "canonicalLabel ''lyrics'' = ''lyrics''"
  "canonicalLabel ''paroles'' = ''paroles''" "canonicalLabel ''texte'' = ''texte''"
  "canonicalLabel ''blocks'' = ''blocks''"
  by (rule labelWords_id; simp add: is_label_char_def is_digit_def)+

lemma asStringLike_simps [simp]:
  "asStringLike fmt decode JUndef = None"
  "asStringLike fmt decode (JStr t) = asString decode (JStr t)"
  "asStringLike fmt decode (JArr xs) = None"
  by (simp_all add: asStringLike_def asString_def)

lemma canonical_written:
  "buildCanonicalMap ([(''title'', t)]
     @ (case a of None \<Rightarrow> [] | Some v \<Rightarrow> [(''artist'', JStr v)])
     @ (case b of None \<Rightarrow> [] | Some v \<Rightarrow> [(''album'', JStr v)])
     @ (case y of None \<Rightarrow> [] | Some v \<Rightarrow> [(''year'', JStr v)]) @ [(''blocks'', bs)])
   = [(''title'', t)]
     @ (case a of None \<Rightarrow> [] | Some v \<Rightarrow> [(''artist'', JStr v)])
     @ (case b of None \<Rightarrow> [] | Some v \<Rightarrow> [(''album'', JStr v)])
     @ (case y of None \<Rightarrow> [] | Some v \<Rightarrow> [(''year'', JStr v)]) @ [(''blocks'', bs)]"
  by (cases a; cases b; cases y) (simp_all add: buildCanonicalMap_def Let_def)

lemma songOfRecord_written:
  assumes "songOk s" and "songJson s = JObj rec"
  shows "songOfRecord fmt decode rec = Some (s, [])"
proof -
  obtain t a b y bs where s: "s = \<lparr>im_title = t, im_artist = a, im_album = b, im_year = y,
      im_language = None, im_tags = None, im_blocks = bs\<rparr>"
    using assms(1) by (cases s) (auto simp: songOk_def)
  have rec: "rec = [(''title'', JStr t)]
     @ (case a of None \<Rightarrow> [] | Some v \<Rightarrow> [(''artist'', JStr v)])
     @ (case b of None \<Rightarrow> [] | Some v \<Rightarrow> [(''album'', JStr v)])
     @ (case y of None \<Rightarrow> [] | Some v \<Rightarrow> [(''year'', JStr v)])
     @ [(''blocks'', bj)]" if "bj = JArr (map blockJson bs)" for bj
    using assms(2) that by (simp add: s songJson_def)
  define bj where "bj = JArr (map blockJson bs)"
  note rec = rec [OF bj_def]
  have blocks: "jget rec ''blocks'' = bj" "jget rec ''meta'' = JUndef"
    by (auto simp: rec split: option.split)
  have parsed: "parseJsonBlocks fmt decode bj = (bs, [])"
    unfolding bj_def using assms(1) orders_positive [of bs]
    by (intro parseJsonBlocks_written) (auto simp: s songOk_def)
  have num: "numberBlocks bs = bs" "bs \<noteq> []"
    using assms(1) by (auto simp: s songOk_def intro: numberBlocks_id)
  have t: "wsOk t" "fieldOk wsOk a" "fieldOk wsOk b" "fieldOk yearOk y"
    using assms(1) by (simp_all add: s songOk_def)
  note facts = wsOk_simps [OF t(1)]
  show ?thesis
    unfolding songOfRecord_def blocks jsval.case rec canonical_written
    using t num facts
    by (cases a; cases b; cases y)
      (simp_all add: s parsed list.case_eq_if buildCanonicalMap_def [of "[]"] YEAR_KEYS_def nonEmpty_def
        wsOk_simps yearOk_def case_prod_beta normalizeYear_def [of None] Let_def)
qed

section \<open>Free file names\<close>

lemma toLowerCase_append: "toLowerCase (a @ b) = toLowerCase a @ toLowerCase b"
  by (simp add: toLowerCase_def)

lemma lower_digits: "list_all is_digit d \<Longrightarrow> toLowerCase d = d"
proof (induction d)
  case (Cons c d)
  then have "lower_char c = c"
    by (intro conjunct2 [OF label_char_plain]) (simp add: is_label_char_def)
  with Cons show ?case
    by (simp add: toLowerCase_def)
qed (simp add: toLowerCase_def)

lemma lower_show_nat: "toLowerCase (show_nat n) = show_nat n"
  by (rule lower_digits) (auto simp: list_all_iff show_nat_digits)

lemma docxCandidate_inj:
  assumes "toLowerCase (docxCandidate base i) = toLowerCase (docxCandidate base j)"
    and "2 \<le> i" and "2 \<le> j"
  shows "i = j"
proof -
  have "toLowerCase ('' ('' @ show_nat i @ '').docx'') = toLowerCase ('' ('' @ show_nat j @ '').docx'')"
    using assms by (simp add: docxCandidate_def toLowerCase_append)
  then have "show_nat i = show_nat j"
    using lower_show_nat [of i] lower_show_nat [of j] by (simp add: toLowerCase_def)
  then show ?thesis
    by (rule show_nat_inj)
qed

lemma freeDocxName_returns:
  assumes "finite used"
  shows "\<exists>n. freeDocxName base used i = Some n \<and> toLowerCase n \<notin> used"
proof -
  define taken where "taken = (\<lambda>i. {k. i \<le> k \<and> 2 \<le> k \<and> toLowerCase (docxCandidate base k) \<in> used})"
  have "inj_on (\<lambda>k. toLowerCase (docxCandidate base k)) (taken i)" for i
    using docxCandidate_inj by (auto simp: inj_on_def taken_def)
  moreover have "(\<lambda>k. toLowerCase (docxCandidate base k)) ` taken i \<subseteq> used" for i
    by (auto simp: taken_def)
  ultimately have fin: "finite (taken i)" for i
    using assms by (meson finite_imageD finite_subset)
  have big: "\<exists>n. freeDocxName base used i = Some n \<and> toLowerCase n \<notin> used" if "2 \<le> i" for i
    using that
  proof (induction "card (taken i)" arbitrary: i rule: less_induct)
    case less
    show ?case
    proof (cases "toLowerCase (docxCandidate base i) \<in> used")
      case True
      then have "i \<in> taken i" "taken (i + 1) \<subseteq> taken i" "i \<notin> taken (i + 1)"
        using less.prems by (auto simp: taken_def)
      then have "card (taken (i + 1)) < card (taken i)"
        by (intro psubset_card_mono fin) auto
      then show ?thesis
        using less True by (subst freeDocxName.simps) simp
    next
      case False
      then show ?thesis
        by (subst freeDocxName.simps) simp
    qed
  qed
  show ?thesis
  proof (cases "2 \<le> i")
    case False
    have step: "freeDocxName base used k =
        (if toLowerCase (docxCandidate base k) \<in> used then freeDocxName base used (k + 1)
         else Some (docxCandidate base k))" for k
      by (rule freeDocxName.simps)
    have "i = 0 \<or> i = 1"
      using False by auto
    then show ?thesis
      using big [of 2] step [of 0] step [of 1] by (auto simp: numeral_2_eq_2 split: if_splits)
  qed (rule big)
qed

section \<open>Properties\<close>

text \<open>
  A song in normal form that the application has written to its JSON folder is read back
  as the same song, blocks and numbering included, without a warning.
\<close>
theorem song_json_roundtrip:
  assumes "songOk s"
  shows "migrateSongsJsonPayload fmt decode (songFileJson s) = Inr ([songJson s], [])
    \<and> normalizeSongFromJson fmt decode (songJson s) i = Some (Inr (s, []))"
proof
  obtain rec where rec: "songJson s = JObj rec"
    by (simp add: songJson_def)
  show "normalizeSongFromJson fmt decode (songJson s) i = Some (Inr (s, []))"
    using songOfRecord_written [OF assms rec] by (simp add: normalizeSongFromJson_def rec)
  have "asString decode (JStr SONGS_JSON_KIND) = Some SONGS_JSON_KIND"
  proof (rule wsOk_simps(1))
    show "wsOk SONGS_JSON_KIND"
      by code_simp
  qed
  then show "migrateSongsJsonPayload fmt decode (songFileJson s) = Inr ([songJson s], [])"
    by (simp add: migrateSongsJsonPayload_def songFileJson_def SONGS_JSON_SCHEMA_VERSION_def
        payloadSongs_def num_trunc_def Let_def)
qed

definition sampleSong :: importSong where
  "sampleSong = \<lparr>im_title = ''Grace'', im_artist = Some ''J N'', im_album = None,
     im_year = Some ''2004'', im_language = None, im_tags = None,
     im_blocks = [block 1 ''VERSE'' ''Couplet 1'' ''la la'']\<rparr>"

lemma song_json_roundtrip_witness:
  "migrateSongsJsonPayload (\<lambda>_. []) (\<lambda>x. x) (songFileJson sampleSong) = Inr ([songJson sampleSong], [])
    \<and> normalizeSongFromJson (\<lambda>_. []) (\<lambda>x. x) (songJson sampleSong) 0 = Some (Inr (sampleSong, []))"
proof (rule song_json_roundtrip)
  show "songOk sampleSong"
    by code_simp
qed

text \<open>
  A JSON export of a later schema version, or of another kind, is refused as a whole;
  the versions up to 2 are read.
\<close>
theorem later_schema_refused:
  assumes "jget rec ''schemaVersion'' = JNum (IntNum v)" and "2 < v"
  shows "\<exists>e. migrateSongsJsonPayload fmt decode (JObj rec) = Inl e"
  using assms
  by (auto simp: migrateSongsJsonPayload_def Let_def SONGS_JSON_SCHEMA_VERSION_def num_trunc_def)

lemma later_schema_refused_witness:
  "\<exists>e. migrateSongsJsonPayload (\<lambda>_. []) (\<lambda>x. x) (JObj [(''schemaVersion'', JNum (IntNum 3))]) = Inl e"
  by (rule later_schema_refused [where v = 3]) simp_all

text \<open>
  The search for a free file name ends whatever names are taken, and its result is new
  even when case is ignored: the songs of a Word pack do not overwrite each other.
\<close>
theorem docx_name_fresh:
  assumes "finite used"
  shows "\<exists>n used'. uniqueDocxName title used = Some (n, used') \<and> toLowerCase n \<notin> used
           \<and> used' = insert (toLowerCase n) used"
  using freeDocxName_returns [OF assms] by (fastforce simp: uniqueDocxName_def)

lemma docx_name_fresh_witness:
  "\<exists>n used'. uniqueDocxName ''a/b'' {''a b.docx''} = Some (n, used') \<and> toLowerCase n \<notin> {''a b.docx''}
     \<and> used' = insert (toLowerCase n) {''a b.docx''}"
  by (rule docx_name_fresh) simp

end
