(* ===== verification/SongStore.thy ===== *)
theory SongStore
  imports PlanStore SongImport
begin

text \<open>
  The tables \<open>Song\<close> and \<open>SongBlock\<close> of \<open>prisma/schema.prisma\<close> behind the Prisma client, like
  the plan store a record of calls with the locale \<open>song_store\<close> of their laws. The locale
  \<open>church_store\<close> is the whole database: both stores over one state, where the foreign keys of
  the items point into the songs. Tables at the end satisfy the laws.
\<close>

section \<open>Rows\<close>

record songRow =
  so_id :: string
  so_title :: string
  so_artist :: "string option"
  so_album :: "string option"
  so_year :: "string option"
  so_language :: "string option"
  so_tags :: "string option"
  so_deletedAt :: "int option"
  so_createdAt :: int
  so_updatedAt :: int

record blockRow =
  bl_id :: string
  bl_songId :: string
  bl_order :: int
  bl_type :: string
  bl_title :: "string option"
  bl_content :: string

definition sameBlockSlot :: "blockRow \<Rightarrow> blockRow \<Rightarrow> bool" where
  "sameBlockSlot b c \<longleftrightarrow> bl_songId b = bl_songId c \<and> bl_order b = bl_order c"

abbreviation blocksOf :: "string \<Rightarrow> blockRow \<Rightarrow> bool" where
  "blocksOf i \<equiv> \<lambda>b. bl_songId b = i"

text \<open>
  \<open>findBlocks\<close> is \<open>findMany\<close> ordered by \<open>order\<close>; \<open>deleteSongs\<close> and \<open>deletePlans\<close> are
  \<open>deleteMany({})\<close> with the cascades of the schema. The client sets \<open>createdAt\<close> and \<open>updatedAt\<close>.
\<close>

record 'db songDb =
  findSong :: "'db \<Rightarrow> string \<Rightarrow> songRow option"
  findSongs :: "'db \<Rightarrow> songRow list"
  createSong :: "'db \<Rightarrow> songRow \<Rightarrow> songRow \<times> 'db"
  updateSong :: "'db \<Rightarrow> string \<Rightarrow> (songRow \<Rightarrow> songRow) \<Rightarrow> failure + 'db"
  findBlocks :: "'db \<Rightarrow> (blockRow \<Rightarrow> bool) \<Rightarrow> blockRow list"
  createBlock :: "'db \<Rightarrow> blockRow \<Rightarrow> failure + 'db"
  deleteBlocks :: "'db \<Rightarrow> (blockRow \<Rightarrow> bool) \<Rightarrow> 'db"
  deleteSongs :: "'db \<Rightarrow> 'db"
  deletePlans :: "'db \<Rightarrow> 'db"

text \<open>A change of a song row that leaves its identifier alone\<close>

definition keepsSongId :: "(songRow \<Rightarrow> songRow) \<Rightarrow> bool" where
  "keepsSongId f \<longleftrightarrow> (\<forall>r. so_id (f r) = so_id r)"

text \<open>What a statement on songs leaves alone, and what one on plans and items does\<close>

definition dropSong :: "itemRow \<Rightarrow> itemRow" where
  "dropSong r = r\<lparr>it_songId := None\<rparr>"

section \<open>The laws of the song tables\<close>

locale song_store =
  fixes S :: "'db songDb"
    and rows :: "'db \<Rightarrow> string \<rightharpoonup> songRow"
    and blocks :: "'db \<Rightarrow> string \<rightharpoonup> blockRow"
    and ok :: "'db \<Rightarrow> bool"
  assumes find_song: "ok db \<Longrightarrow> findSong S db i = rows db i"
    and find_songs: "ok db \<Longrightarrow> set (findSongs S db) = ran (rows db)"
    and find_songs_distinct: "ok db \<Longrightarrow> distinct (findSongs S db)"
    and find_blocks_set: "ok db \<Longrightarrow> set (findBlocks S db P) = {b \<in> ran (blocks db). P b}"
    and find_blocks_sorted: "ok db \<Longrightarrow> sorted (map bl_order (findBlocks S db P))"
    and find_blocks_distinct: "ok db \<Longrightarrow> distinct (findBlocks S db P)"
    and song_key: "ok db \<Longrightarrow> rows db i = Some r \<Longrightarrow> so_id r = i"
    and block_key: "ok db \<Longrightarrow> blocks db i = Some b \<Longrightarrow> bl_id b = i"
    and block_slot: "ok db \<Longrightarrow> blocks db i = Some b \<Longrightarrow> blocks db j = Some c \<Longrightarrow>
          sameBlockSlot b c \<Longrightarrow> i = j"
    and block_ref: "ok db \<Longrightarrow> blocks db i = Some b \<Longrightarrow> bl_songId b \<in> dom (rows db)"
    and create_song: "ok db \<Longrightarrow> \<exists>i c u db'.
          createSong S db r = (r\<lparr>so_id := i, so_createdAt := c, so_updatedAt := u\<rparr>, db')
          \<and> i \<notin> dom (rows db)
          \<and> rows db' = (rows db)(i \<mapsto> r\<lparr>so_id := i, so_createdAt := c, so_updatedAt := u\<rparr>)
          \<and> blocks db' = blocks db \<and> ok db'"
    and update_song_missing: "ok db \<Longrightarrow> rows db i = None \<Longrightarrow>
          updateSong S db i f = Inl (Prisma P2025)"
    and update_song: "ok db \<Longrightarrow> rows db i = Some r \<Longrightarrow> keepsSongId f \<Longrightarrow>
          \<exists>u db'. updateSong S db i f = Inr db' \<and> rows db' = (rows db)(i \<mapsto> (f r)\<lparr>so_updatedAt := u\<rparr>)
            \<and> blocks db' = blocks db \<and> ok db'"
    and create_block_taken: "ok db \<Longrightarrow> blocks db j = Some c \<Longrightarrow> sameBlockSlot b c \<Longrightarrow>
          createBlock S db b = Inl (Prisma P2002)"
    and create_block_dangling: "ok db \<Longrightarrow> bl_songId b \<notin> dom (rows db) \<Longrightarrow>
          createBlock S db b = Inl (Prisma P2003)"
    and create_block: "ok db \<Longrightarrow> (\<And>j c. blocks db j = Some c \<Longrightarrow> \<not> sameBlockSlot b c) \<Longrightarrow>
          bl_songId b \<in> dom (rows db) \<Longrightarrow>
          \<exists>i db'. createBlock S db b = Inr db' \<and> i \<notin> dom (blocks db)
            \<and> blocks db' = (blocks db)(i \<mapsto> b\<lparr>bl_id := i\<rparr>) \<and> rows db' = rows db \<and> ok db'"
    and delete_blocks: "ok db \<Longrightarrow>
          blocks (deleteBlocks S db P) =
            (\<lambda>i. case blocks db i of None \<Rightarrow> None | Some b \<Rightarrow> if P b then None else Some b)
          \<and> rows (deleteBlocks S db P) = rows db \<and> ok (deleteBlocks S db P)"
    and delete_songs: "ok db \<Longrightarrow> rows (deleteSongs S db) = Map.empty
          \<and> blocks (deleteSongs S db) = Map.empty \<and> ok (deleteSongs S db)"
begin

lemma song_mem: "ok db \<Longrightarrow> r \<in> set (findSongs S db) \<longleftrightarrow> rows db (so_id r) = Some r"
  using find_songs [of db] by (auto simp: ran_def dest: song_key)

lemma block_mem:
  "ok db \<Longrightarrow> b \<in> set (findBlocks S db P) \<longleftrightarrow> blocks db (bl_id b) = Some b \<and> P b"
  using find_blocks_set [of db P] by (auto simp: ran_def dest: block_key)

lemma song_ids: "ok db \<Longrightarrow> distinct (map so_id (findSongs S db))"
  unfolding distinct_map inj_on_def
  by (metis find_songs_distinct option.inject song_mem)

lemma block_orders:
  assumes "ok db"
  shows "sorted_wrt (<) (map bl_order (findBlocks S db (blocksOf i)))"
proof -
  have "distinct (map bl_order (findBlocks S db (blocksOf i)))"
    unfolding distinct_map inj_on_def
    using assms find_blocks_distinct block_mem block_slot
    by (metis (mono_tags, lifting) option.inject sameBlockSlot_def)
  then show ?thesis
    using find_blocks_sorted [OF assms] by (simp add: strict_sorted_iff)
qed

text \<open>The blocks found depend on the table only.\<close>

lemma find_blocks_cong:
  assumes "ok db" and "ok db'"
    and "\<And>b. bl_songId b = i \<Longrightarrow> b \<in> ran (blocks db) \<longleftrightarrow> b \<in> ran (blocks db')"
  shows "findBlocks S db (blocksOf i) = findBlocks S db' (blocksOf i)"
proof -
  have sets: "set (findBlocks S db (blocksOf i)) = set (findBlocks S db' (blocksOf i))"
    using assms(3) by (auto simp: find_blocks_set assms(1,2))
  have keys: "map bl_order (findBlocks S db (blocksOf i)) = map bl_order (findBlocks S db' (blocksOf i))"
    using block_orders [OF assms(1), of i] block_orders [OF assms(2), of i] sets
    by (intro strict_sorted_equal) (simp_all add: image_Un)
  moreover have "inj_on bl_order (set (findBlocks S db (blocksOf i)))"
    using block_orders [OF assms(1), of i] by (simp add: strict_sorted_iff distinct_map)
  ultimately show ?thesis
    using sets by (intro map_inj_on [of bl_order]) auto
qed

end

section \<open>The whole database\<close>

locale church_store =
  plan_store D plans items songs ok + song_store S rows blocks ok
  for D :: "'db planDb" and plans items songs ok and S :: "'db songDb" and rows blocks +
  assumes songs_rows: "ok db \<Longrightarrow> songs db = dom (rows db)"
    and find_plans_distinct: "ok db \<Longrightarrow> distinct (findPlans D db)"
    and plan_frame: "ok db \<Longrightarrow> createPlan D db p = Inr (q, db') \<Longrightarrow>
          rows db' = rows db \<and> blocks db' = blocks db"
    and item_frame: "ok db \<Longrightarrow> createItem D db r = Inr (q', db') \<Longrightarrow>
          rows db' = rows db \<and> blocks db' = blocks db"
    and delete_items_frame: "ok db \<Longrightarrow> rows (deleteItems D db P) = rows db
          \<and> blocks (deleteItems D db P) = blocks db"
    and song_frame: "ok db \<Longrightarrow> createSong S db s = (s', db') \<Longrightarrow>
          plans db' = plans db \<and> items db' = items db"
    and block_frame: "ok db \<Longrightarrow> createBlock S db b = Inr db' \<Longrightarrow>
          plans db' = plans db \<and> items db' = items db"
    and delete_blocks_frame: "ok db \<Longrightarrow> plans (deleteBlocks S db Q) = plans db
          \<and> items (deleteBlocks S db Q) = items db"
    and delete_songs_frame: "ok db \<Longrightarrow> plans (deleteSongs S db) = plans db
          \<and> items (deleteSongs S db) = (\<lambda>i. map_option dropSong (items db i))"
    and delete_plans: "ok db \<Longrightarrow> plans (deletePlans S db) = Map.empty
          \<and> items (deletePlans S db) = Map.empty \<and> rows (deletePlans S db) = rows db
          \<and> blocks (deletePlans S db) = blocks db \<and> ok (deletePlans S db)"

section \<open>A plan store inside a larger state\<close>

text \<open>A client of one part of the state as a client of the whole\<close>

definition liftDb :: "('s \<Rightarrow> 'p) \<Rightarrow> ('p \<Rightarrow> 's \<Rightarrow> 's) \<Rightarrow> 'p planDb \<Rightarrow> 's planDb" where
  "liftDb part put D = \<lparr>
     findPlan = (\<lambda>s. findPlan D (part s)),
     findPlans = (\<lambda>s. findPlans D (part s)),
     createPlan = (\<lambda>s p. andThen (createPlan D (part s) p) (\<lambda>(q, x). Inr (q, put x s))),
     updatePlan = (\<lambda>s i g. andThen (updatePlan D (part s) i g) (\<lambda>x. Inr (put x s))),
     findItem = (\<lambda>s. findItem D (part s)),
     findItems = (\<lambda>s. findItems D (part s)),
     createItem = (\<lambda>s r. andThen (createItem D (part s) r) (\<lambda>(q, x). Inr (q, put x s))),
     updateItem = (\<lambda>s i f. andThen (updateItem D (part s) i f) (\<lambda>x. Inr (put x s))),
     deleteItems = (\<lambda>s P. put (deleteItems D (part s) P) s)\<rparr>"

lemma liftDb_store:
  assumes D: "plan_store D plans items songs ok"
    and lens: "\<And>x s. part (put x s) = x"
    and frame: "\<And>x s. songs x = songs (part s) \<Longrightarrow> Q s \<Longrightarrow> Q (put x s)"
  shows "plan_store (liftDb part put D) (\<lambda>s. plans (part s)) (\<lambda>s. items (part s))
    (\<lambda>s. songs (part s)) (\<lambda>s. ok (part s) \<and> Q s)"
proof (unfold_locales, goal_cases)
  case (13 db p)
  then show ?case
    using plan_store.create_plan [OF D, of "part db" p] by (fastforce simp: liftDb_def lens frame)
next
  case (15 db i p g)
  then show ?case
    using plan_store.update_plan [OF D, of "part db" i p g]
    by (fastforce simp: liftDb_def lens frame)
next
  case (18 db r)
  then show ?case
    using plan_store.create_item [OF D, of "part db" r] by (fastforce simp: liftDb_def lens frame)
next
  case (21 db i r f)
  then show ?case
    using plan_store.update_item [OF D, of "part db" i r f]
    by (fastforce simp: liftDb_def lens frame)
next
  case (22 db P)
  then show ?case
    using plan_store.delete_items [OF D, of "part db" P] by (simp add: liftDb_def lens frame)
qed (use D in \<open>auto simp: liftDb_def plan_store.find_plan plan_store.find_plans
      plan_store.find_item plan_store.find_items_set plan_store.find_items_sorted
      plan_store.find_items_distinct plan_store.plan_key plan_store.item_key plan_store.item_refs
      plan_store.create_plan_taken plan_store.update_plan_missing plan_store.create_item_taken
      plan_store.create_item_dangling plan_store.update_item_missing plan_store.update_item_taken
      dest: plan_store.date_unique plan_store.slot_unique\<close>)

section \<open>Tables of the whole database\<close>

record churchTables =
  ch_plans :: planTables
  ch_songs :: "songRow list"
  ch_blocks :: "blockRow list"
  ch_next :: nat

definition ch_rows :: "churchTables \<Rightarrow> string \<rightharpoonup> songRow" where
  "ch_rows t = map_of (map (\<lambda>r. (so_id r, r)) (ch_songs t))"

definition ch_blockRows :: "churchTables \<Rightarrow> string \<rightharpoonup> blockRow" where
  "ch_blockRows t = map_of (map (\<lambda>b. (bl_id b, b)) (ch_blocks t))"

definition songTablesOk :: "churchTables \<Rightarrow> bool" where
  "songTablesOk t \<longleftrightarrow>
     distinct (map so_id (ch_songs t)) \<and> distinct (map bl_id (ch_blocks t))
     \<and> distinct (map (\<lambda>b. (bl_songId b, bl_order b)) (ch_blocks t))
     \<and> (\<forall>b \<in> set (ch_blocks t). bl_songId b \<in> so_id ` set (ch_songs t))
     \<and> (\<forall>r \<in> set (ch_songs t). so_id r \<in> usedIds (ch_next t))
     \<and> (\<forall>b \<in> set (ch_blocks t). bl_id b \<in> usedIds (ch_next t))
     \<and> tb_songs (ch_plans t) = so_id ` set (ch_songs t)"

abbreviation churchOk :: "churchTables \<Rightarrow> bool" where
  "churchOk t \<equiv> tablesOk (ch_plans t) \<and> songTablesOk t"

definition churchPlans :: "churchTables planDb" where
  "churchPlans = liftDb ch_plans (\<lambda>x t. t\<lparr>ch_plans := x\<rparr>) tablesDb"

definition churchSongs :: "churchTables songDb" where
  "churchSongs = \<lparr>
     findSong = ch_rows,
     findSongs = ch_songs,
     createSong = (\<lambda>t r.
       let i = show_nat (ch_next t);
           q = r\<lparr>so_id := i, so_createdAt := int (ch_next t), so_updatedAt := int (ch_next t)\<rparr>
       in (q, t\<lparr>ch_songs := q # ch_songs t, ch_next := Suc (ch_next t),
               ch_plans := (ch_plans t)\<lparr>tb_songIds := i # tb_songIds (ch_plans t)\<rparr>\<rparr>)),
     updateSong = (\<lambda>t i f.
       if ch_rows t i = None then Inl (Prisma P2025)
       else Inr (t\<lparr>ch_songs := map (\<lambda>r. if so_id r = i
              then (f r)\<lparr>so_updatedAt := int (ch_next t)\<rparr> else r) (ch_songs t)\<rparr>)),
     findBlocks = (\<lambda>t P. sort_key bl_order (filter P (ch_blocks t))),
     createBlock = (\<lambda>t b.
       if bl_songId b \<notin> so_id ` set (ch_songs t) then Inl (Prisma P2003)
       else if list_ex (sameBlockSlot b) (ch_blocks t) then Inl (Prisma P2002)
       else Inr (t\<lparr>ch_blocks := b\<lparr>bl_id := show_nat (ch_next t)\<rparr> # ch_blocks t,
                    ch_next := Suc (ch_next t)\<rparr>)),
     deleteBlocks = (\<lambda>t P. t\<lparr>ch_blocks := filter (\<lambda>b. \<not> P b) (ch_blocks t)\<rparr>),
     deleteSongs = (\<lambda>t. t\<lparr>ch_songs := [], ch_blocks := [],
       ch_plans := (ch_plans t)\<lparr>tb_songIds := [],
                      tb_itemRows := map dropSong (tb_itemRows (ch_plans t))\<rparr>\<rparr>),
     deletePlans = (\<lambda>t. t\<lparr>ch_plans := (ch_plans t)\<lparr>tb_planRows := [], tb_itemRows := []\<rparr>\<rparr>)\<rparr>"

lemma ch_rows_Some:
  "songTablesOk t \<Longrightarrow> ch_rows t i = Some r \<longleftrightarrow> r \<in> set (ch_songs t) \<and> so_id r = i"
  unfolding ch_rows_def songTablesOk_def
  by (subst map_of_eq_Some_iff) (auto simp: comp_def)

lemma ch_blocks_Some:
  "songTablesOk t \<Longrightarrow> ch_blockRows t i = Some b \<longleftrightarrow> b \<in> set (ch_blocks t) \<and> bl_id b = i"
  unfolding ch_blockRows_def songTablesOk_def
  by (subst map_of_eq_Some_iff) (auto simp: comp_def)

lemma ch_rows_dom: "dom (ch_rows t) = so_id ` set (ch_songs t)"
  by (simp add: ch_rows_def dom_map_of_conv_image_fst image_image)

lemma church_createBlock:
  assumes "songTablesOk t" and "\<not> list_ex (sameBlockSlot b) (ch_blocks t)"
    and "bl_songId b \<in> so_id ` set (ch_songs t)"
  defines "c \<equiv> b\<lparr>bl_id := show_nat (ch_next t)\<rparr>"
  shows "songTablesOk (t\<lparr>ch_blocks := c # ch_blocks t, ch_next := Suc (ch_next t)\<rparr>)"
    and "bl_id c \<notin> dom (ch_blockRows t)"
proof -
  have "\<forall>x \<in> set (ch_blocks t). bl_id x \<in> usedIds (ch_next t)"
    using assms(1) by (simp add: songTablesOk_def)
  then have fresh: "bl_id c \<notin> bl_id ` set (ch_blocks t)"
    by (simp add: c_def image_iff) (metis fresh_usedIds)
  have "(bl_songId c, bl_order c) \<notin> (\<lambda>b. (bl_songId b, bl_order b)) ` set (ch_blocks t)"
    using assms(2) by (auto simp: list_ex_iff sameBlockSlot_def c_def)
  then show "songTablesOk (t\<lparr>ch_blocks := c # ch_blocks t, ch_next := Suc (ch_next t)\<rparr>)"
    using assms(1,3) fresh by (auto simp: songTablesOk_def usedIds_Suc c_def)
  show "bl_id c \<notin> dom (ch_blockRows t)"
    using fresh by (auto simp: ch_blocks_Some [OF assms(1)]) (metis image_eqI)
qed

lemma church_createSong:
  assumes "churchOk t"
  defines "i \<equiv> show_nat (ch_next t)"
  assumes "so_id q = i"
  shows "churchOk (t\<lparr>ch_songs := q # ch_songs t, ch_next := Suc (ch_next t),
           ch_plans := (ch_plans t)\<lparr>tb_songIds := i # tb_songIds (ch_plans t)\<rparr>\<rparr>)"
    and "i \<notin> dom (ch_rows t)"
proof -
  have "\<forall>x \<in> set (ch_songs t). so_id x \<in> usedIds (ch_next t)"
    using assms(1) by (simp add: songTablesOk_def)
  then have fresh: "i \<notin> so_id ` set (ch_songs t)"
    by (simp add: i_def image_iff) (metis fresh_usedIds)
  then show "i \<notin> dom (ch_rows t)"
    by (simp add: ch_rows_dom)
  have "refsOk ps (insert i S) r" if "refsOk ps S r" for ps S r
    using that by (auto simp: refsOk_def split: option.splits)
  then have "tablesOk ((ch_plans t)\<lparr>tb_songIds := i # tb_songIds (ch_plans t)\<rparr>)"
    using assms(1) by (simp add: tablesOk_def tb_songs_def tb_plans_def)
  then show "churchOk (t\<lparr>ch_songs := q # ch_songs t, ch_next := Suc (ch_next t),
           ch_plans := (ch_plans t)\<lparr>tb_songIds := i # tb_songIds (ch_plans t)\<rparr>\<rparr>)"
    using assms(1,3) fresh by (auto simp: songTablesOk_def tb_songs_def usedIds_Suc i_def)
qed

lemma church_updateSong:
  assumes "songTablesOk t" and "keepsSongId f"
  shows "songTablesOk (t\<lparr>ch_songs := map (\<lambda>r. if so_id r = i then f r else r) (ch_songs t)\<rparr>)"
proof -
  define g where "g = (\<lambda>r. if so_id r = i then f r else r)"
  have key: "so_id (g r) = so_id r" for r
    using assms(2) by (simp add: g_def keepsSongId_def)
  have "map so_id (map g (ch_songs t)) = map so_id (ch_songs t)"
    by (simp add: key comp_def)
  moreover have "so_id ` g ` A = so_id ` A" for A
    by (simp add: image_image key)
  ultimately show ?thesis
    using assms(1) unfolding g_def [symmetric] by (simp add: songTablesOk_def key del: map_map)
qed

lemma church_rows_update:
  assumes "songTablesOk t" and "ch_rows t i = Some r" and "keepsSongId f"
  shows "ch_rows (t\<lparr>ch_songs := map (\<lambda>r. if so_id r = i then f r else r) (ch_songs t)\<rparr>)
           = (ch_rows t)(i \<mapsto> f r)"
  using assms map_of_update_row [of so_id "ch_songs t" i r f]
  by (simp add: ch_rows_def songTablesOk_def keepsSongId_def)

lemma church_deleteBlocks:
  assumes "songTablesOk t"
  shows "songTablesOk (t\<lparr>ch_blocks := filter P (ch_blocks t)\<rparr>)"
  using assms by (simp add: songTablesOk_def distinct_map_filter)

lemma church_deleteSongs:
  assumes "churchOk t"
  shows "churchOk (deleteSongs churchSongs t)"
proof -
  have "refsOk ps S (dropSong r)" if "refsOk ps S' r" for ps S S' r
    using that by (simp add: refsOk_def dropSong_def)
  moreover have "it_id (dropSong r) = it_id r" "it_planId (dropSong r) = it_planId r"
    "it_order (dropSong r) = it_order r" for r
    by (simp_all add: dropSong_def)
  ultimately show ?thesis
    using assms by (auto simp: churchSongs_def songTablesOk_def tablesOk_def tb_songs_def tb_plans_def comp_def)
qed

lemma church_song_store: "song_store churchSongs ch_rows ch_blockRows churchOk"
proof (unfold_locales, goal_cases)
  case (11 db r)
  show ?case
    using church_createSong [OF 11, of "fst (createSong churchSongs db r)"]
    by (intro exI [of _ "show_nat (ch_next db)"] exI [of _ "int (ch_next db)"]
        exI [of _ "snd (createSong churchSongs db r)"])
      (simp add: churchSongs_def Let_def ch_rows_def ch_blockRows_def)
next
  case (13 db i r f)
  let ?f = "\<lambda>r. (f r)\<lparr>so_updatedAt := int (ch_next db)\<rparr>"
  have "keepsSongId ?f"
    using 13(3) by (simp add: keepsSongId_def)
  then show ?case
    using church_updateSong [of db ?f i] church_rows_update [of db i r ?f] 13
    by (intro exI [of _ "int (ch_next db)"] exI [of _ "projr (updateSong churchSongs db i f)"])
      (simp add: churchSongs_def ch_blockRows_def)
next
  case (16 db b)
  then have free: "\<not> list_ex (sameBlockSlot b) (ch_blocks db)"
    by (auto simp: list_ex_iff ch_blocks_Some)
  show ?case
    using church_createBlock [OF _ free] 16 free
    by (intro exI [of _ "show_nat (ch_next db)"] exI [of _ "projr (createBlock churchSongs db b)"])
      (simp add: churchSongs_def ch_rows_dom, simp add: ch_rows_def ch_blockRows_def)
next
  case (17 db P)
  then show ?case
    using church_deleteBlocks [of db "\<lambda>b. \<not> P b"]
    by (auto simp: churchSongs_def ch_rows_def ch_blockRows_def map_of_filter_rows songTablesOk_def)
next
  case (18 db)
  then show ?case
    using church_deleteSongs [of db]
    by (simp add: ch_rows_def ch_blockRows_def) (simp add: churchSongs_def)
next
  case 9
  then show ?case
    by (auto simp: ch_blocks_Some sameBlockSlot_def) (auto simp: songTablesOk_def distinct_map inj_on_def)
next
  case (14 db j c b)
  then show ?case
    by (auto simp: churchSongs_def ch_blocks_Some list_ex_iff songTablesOk_def sameBlockSlot_def)
qed (auto simp: churchSongs_def ch_rows_Some ch_blocks_Some ran_def ch_rows_dom
    songTablesOk_def distinct_map)

lemma church_plan_store:
  "plan_store churchPlans (\<lambda>t. tb_plans (ch_plans t)) (\<lambda>t. tb_items (ch_plans t))
     (\<lambda>t. tb_songs (ch_plans t)) churchOk"
  unfolding churchPlans_def
  by (rule liftDb_store [OF tables_plan_store]) (simp_all add: songTablesOk_def)

interpretation songTables: song_store churchSongs ch_rows ch_blockRows churchOk
  by (rule church_song_store)

lemma church_tables_store:
  "church_store churchPlans (\<lambda>t. tb_plans (ch_plans t)) (\<lambda>t. tb_items (ch_plans t))
     (\<lambda>t. tb_songs (ch_plans t)) churchOk churchSongs ch_rows ch_blockRows"
proof (intro church_store.intro church_plan_store church_song_store, unfold_locales, goal_cases)
  case (9 db)
  have "map_of (map (\<lambda>r. (it_id r, r)) (map dropSong rs)) i
      = map_option dropSong (map_of (map (\<lambda>r. (it_id r, r)) rs) i)" for rs i
    by (induction rs) (simp_all add: dropSong_def)
  then have "tb_items (tables\<lparr>tb_itemRows := map dropSong (tb_itemRows tables)\<rparr>) i
      = map_option dropSong (tb_items tables i)" for tables i
    by (simp add: tb_items_def)
  then show ?case
    by (simp add: churchSongs_def tb_plans_def) (simp add: tb_items_def fun_eq_iff)
next
  case (1 db)
  then show ?case by (simp add: ch_rows_dom songTablesOk_def)
next
  case (2 db)
  then show ?case
    by (simp add: churchPlans_def liftDb_def tablesDb_def tablesOk_def distinct_map)
next
  case (10 db)
  then show ?case
    by (auto simp: churchSongs_def tb_plans_def tb_items_def tablesOk_def songTablesOk_def
        tb_songs_def ch_rows_def ch_blockRows_def)
qed (auto simp: churchPlans_def liftDb_def churchSongs_def tablesDb_def Let_def ch_rows_def
    ch_blockRows_def andThen_def tb_plans_def tb_items_def
    split: sum.splits if_splits)

interpretation church: church_store churchPlans "\<lambda>t. tb_plans (ch_plans t)"
  "\<lambda>t. tb_items (ch_plans t)" "\<lambda>t. tb_songs (ch_plans t)" churchOk churchSongs ch_rows ch_blockRows
  by (rule church_tables_store)

end
