(* ===== verification/Plans.thy ===== *)
theory Plans
  imports PlanStore
begin

text \<open>
  The handlers of plans, \<open>main/ipc/plans.ts\<close>, over any plan store. A handler takes the raw
  payload and the database and returns its answer, an error or a value, with the new
  database; outside a transaction what earlier statements did stays. Handlers run one
  after the other.
\<close>

section \<open>Errors\<close>

definition isUniqueConstraintError :: "failure \<Rightarrow> bool" where
  "isUniqueConstraintError err \<longleftrightarrow> err = Prisma P2002"

text \<open>Parse the payload first; an invalid one throws before the database is touched.\<close>

definition withPayload ::
  "'p result \<Rightarrow> ('p \<Rightarrow> 'db \<Rightarrow> (failure + 'a) \<times> 'db) \<Rightarrow> 'db \<Rightarrow> (failure + 'a) \<times> 'db" where
  "withPayload parsed body db =
     (case parsed of Inl e \<Rightarrow> (Inl (ErrorMsg e), db) | Inr p \<Rightarrow> body p db)"

text \<open>A single statement as a whole handler that answers \<open>{ ok: true }\<close>\<close>

definition statement :: "failure + 'db \<Rightarrow> 'db \<Rightarrow> (failure + unit) \<times> 'db" where
  "statement r db = (case r of Inl e \<Rightarrow> (Inl e, db) | Inr db' \<Rightarrow> (Inr (), db'))"

lemma withPayload_simps [simp]:
  "withPayload (Inl e) body db = (Inl (ErrorMsg e), db)"
  "withPayload (Inr p) body db = body p db"
  by (simp_all add: withPayload_def)

lemma statement_simps [simp]:
  "statement (Inl e) db = (Inl e, db)" "statement (Inr db') db = (Inr (), db')"
  by (simp_all add: statement_def)

section \<open>Adding items\<close>

text \<open>The last item of a plan: \<open>findFirst\<close> by descending order\<close>

definition lastOrder :: "'db planDb \<Rightarrow> 'db \<Rightarrow> string \<Rightarrow> int" where
  "lastOrder D db planId =
     (let xs = findItems D db (\<lambda>r. it_planId r = planId)
      in if xs = [] then 0 else it_order (last xs))"

definition newItemRow :: "cpPlanAddItemPayload \<Rightarrow> int \<Rightarrow> itemRow" where
  "newItemRow payload order =
     \<lparr>it_id = [], it_planId = ai_planId payload, it_order = order,
      it_kind = kindName (ai_kind payload), it_refId = ai_refId payload,
      it_refSubId = ai_refSubId payload,
      it_songId = (if ai_kind payload = SONG_BLOCK then ai_refId payload else None),
      it_title = ai_title payload, it_content = ai_content payload, it_notes = ai_notes payload,
      it_mediaPath = ai_mediaPath payload, it_secondaryContent = ai_secondaryContent payload,
      it_backgroundConfig = ai_backgroundConfig payload\<rparr>"

text \<open>The loop over the attempts; the number counts those that are left.\<close>

fun createPlanItemWithRetry ::
  "'db planDb \<Rightarrow> cpPlanAddItemPayload \<Rightarrow> nat \<Rightarrow> 'db \<Rightarrow> (failure + itemRow) \<times> 'db" where
  "createPlanItemWithRetry D payload 0 db =
     (Inl (ErrorMsg ''Unable to allocate a unique plan item order''), db)"
| "createPlanItemWithRetry D payload (Suc left) db =
     (case transaction (\<lambda>tx. createItem D tx (newItemRow payload (lastOrder D tx (ai_planId payload) + 1))) db of
        (Inr row, db') \<Rightarrow> (Inr row, db')
      | (Inl e, db') \<Rightarrow>
          if \<not> isUniqueConstraintError e \<or> left = 0 then (Inl e, db')
          else createPlanItemWithRetry D payload left db')"

definition plansAddItem :: "'db planDb \<Rightarrow> jsval \<Rightarrow> 'db \<Rightarrow> (failure + itemRow) \<times> 'db" where
  "plansAddItem D raw =
     withPayload (parsePlanAddItemPayload raw) (\<lambda>p. createPlanItemWithRetry D p 20)"

section \<open>Changing and removing items\<close>

definition applyItemUpdate :: "cpPlanUpdateItemPayload \<Rightarrow> itemRow \<Rightarrow> itemRow" where
  "applyItemUpdate p r =
     r\<lparr>it_title := orOption (ui_title p) (it_title r),
       it_content := orOption (ui_content p) (it_content r),
       it_notes := orOption (ui_notes p) (it_notes r),
       it_secondaryContent := orOption (ui_secondaryContent p) (it_secondaryContent r),
       it_backgroundConfig :=
         (case ui_backgroundConfig p of
            Undef \<Rightarrow> it_backgroundConfig r | Null \<Rightarrow> None | Val s \<Rightarrow> Some s)\<rparr>"

definition plansUpdateItem :: "'db planDb \<Rightarrow> jsval \<Rightarrow> 'db \<Rightarrow> (failure + unit) \<times> 'db" where
  "plansUpdateItem D raw =
     withPayload (parsePlanUpdateItemPayload raw) (\<lambda>p db.
       case findItem D db (ui_itemId p) of
         None \<Rightarrow> (Inl (ErrorMsg ''Plan item not found''), db)
       | Some item \<Rightarrow>
           if it_planId item \<noteq> ui_planId p
           then (Inl (ErrorMsg ''Item does not belong to this plan''), db)
           else statement (updateItem D db (ui_itemId p) (applyItemUpdate p)) db)"

text \<open>The updates that number the rows \<open>ids\<close> from \<open>idx + 1\<close> on, one statement each\<close>

fun renumber :: "'db planDb \<Rightarrow> nat \<Rightarrow> string list \<Rightarrow> 'db \<Rightarrow> failure + 'db" where
  "renumber D idx [] db = Inr db"
| "renumber D idx (i # ids) db =
     andThen (updateItem D db i (\<lambda>r. r\<lparr>it_order := int idx + 1\<rparr>)) (renumber D (Suc idx) ids)"

definition planItemIds :: "'db planDb \<Rightarrow> 'db \<Rightarrow> string \<Rightarrow> string list" where
  "planItemIds D db planId = map it_id (findItems D db (\<lambda>r. it_planId r = planId))"

definition plansRemoveItem :: "'db planDb \<Rightarrow> jsval \<Rightarrow> 'db \<Rightarrow> (failure + unit) \<times> 'db" where
  "plansRemoveItem D raw =
     withPayload (parsePlanRemoveItemPayload raw) (\<lambda>(planId, itemId) db.
       case findItem D db itemId of
         None \<Rightarrow> (Inr (), db)
       | Some item \<Rightarrow>
           if it_planId item \<noteq> planId
           then (Inl (ErrorMsg ''Item does not belong to this plan''), db)
           else transaction (\<lambda>tx.
                  let tx = deleteItems D tx (\<lambda>r. it_id r = itemId)
                  in andThen (renumber D 0 (planItemIds D tx planId) tx) (\<lambda>tx. Inr ((), tx))) db)"

definition plansRemoveItems :: "'db planDb \<Rightarrow> jsval \<Rightarrow> 'db \<Rightarrow> (failure + unit) \<times> 'db" where
  "plansRemoveItems D raw =
     withPayload (parsePlanRemoveItemsPayload raw) (\<lambda>(planId, itemIds) db.
       if itemIds = [] then (Inr (), db)
       else transaction (\<lambda>tx.
         case filter (\<lambda>i. it_planId i \<noteq> planId) (findItems D tx (\<lambda>r. it_id r \<in> set itemIds)) of
           foreign # _ \<Rightarrow>
             Inl (ErrorMsg (''Item '' @ it_id foreign @ '' does not belong to plan '' @ planId))
         | [] \<Rightarrow>
             let tx = deleteItems D tx (\<lambda>r. it_id r \<in> set itemIds)
             in andThen (renumber D 0 (planItemIds D tx planId) tx) (\<lambda>tx. Inr ((), tx))) db)"

definition plansReorder :: "'db planDb \<Rightarrow> jsval \<Rightarrow> 'db \<Rightarrow> (failure + unit) \<times> 'db" where
  "plansReorder D raw =
     withPayload (parsePlanReorderPayload raw) (\<lambda>p db.
       let requestedIds = ro_orderedItemIds p in
       withPayload (validatePlanReorderPayload (planItemIds D db (ro_planId p)) requestedIds) (\<lambda>_.
         transaction (\<lambda>tx. andThen (renumber D 0 requestedIds tx) (\<lambda>tx. Inr ((), tx)))) db)"

section \<open>Plans\<close>

text \<open>What \<open>plans:list\<close> selects of a row\<close>

definition plansList :: "'db planDb \<Rightarrow> 'db \<Rightarrow> (string \<times> int \<times> string option) list" where
  "plansList D db =
     map (\<lambda>p. (pl_id p, pl_date p, pl_title p))
       (take 200 (sort_key (\<lambda>p. - pl_date p)
         (filter (\<lambda>p. pl_deletedAt p = None) (findPlans D db))))"

definition normalizeItemKind :: "itemRow \<Rightarrow> itemRow" where
  "normalizeItemKind r = r\<lparr>it_kind := kindName (normalizeCpPlanItemKind (Some (it_kind r)))\<rparr>"

definition planWithItems :: "'db planDb \<Rightarrow> 'db \<Rightarrow> string \<Rightarrow> (planRow \<times> itemRow list) option" where
  "planWithItems D db planId =
     map_option (\<lambda>p. (p, findItems D db (\<lambda>r. it_planId r = planId))) (findPlan D db planId)"

definition plansGet ::
  "'db planDb \<Rightarrow> jsval \<Rightarrow> 'db \<Rightarrow> (failure + (planRow \<times> itemRow list) option) \<times> 'db" where
  "plansGet D raw =
     withPayload (parseNonEmptyString raw ''plans:get.planId'') (\<lambda>planId db.
       (Inr (map_option (\<lambda>(p, its). (p, map normalizeItemKind its)) (planWithItems D db planId)),
        db))"

definition newPlanRow :: "int \<Rightarrow> string option \<Rightarrow> string option \<Rightarrow> planRow" where
  "newPlanRow date title bg =
     \<lparr>pl_id = [], pl_date = date, pl_title = title, pl_backgroundConfig = bg,
      pl_deletedAt = None\<rparr>"

fun createPlanLoop ::
  "'db planDb \<Rightarrow> string \<Rightarrow> nat \<Rightarrow> int \<Rightarrow> 'db \<Rightarrow> (failure + planRow) \<times> 'db" where
  "createPlanLoop D title 0 candidateDate db =
     (Inl (ErrorMsg ''Unable to find an available plan date''), db)"
| "createPlanLoop D title (Suc left) candidateDate db =
     (case createPlan D db (newPlanRow candidateDate (Some title) None) of
        Inr (p, db') \<Rightarrow> (Inr p, db')
      | Inl e \<Rightarrow>
          if \<not> isUniqueConstraintError e then (Inl e, db)
          else createPlanLoop D title left (addUtcDays candidateDate 1) db)"

definition plansCreate ::
  "'db planDb \<Rightarrow> (string \<Rightarrow> int option) \<Rightarrow> jsval \<Rightarrow> 'db \<Rightarrow> (failure + planRow) \<times> 'db" where
  "plansCreate D parseDate raw =
     withPayload (parsePlanCreatePayload raw) (\<lambda>p.
     withPayload (normalizeDateToMidnight parseDate (pr_dateIso p)) (\<lambda>candidateDate.
       createPlanLoop D (orElse (pr_title p) ''Culte'') 3660 candidateDate))"

definition plansUpdate :: "'db planDb \<Rightarrow> jsval \<Rightarrow> 'db \<Rightarrow> (failure + unit) \<times> 'db" where
  "plansUpdate D raw =
     withPayload (parsePlanUpdatePayload raw) (\<lambda>p db.
       statement (updatePlan D db (pu_planId p) (\<lambda>r.
         r\<lparr>pl_title := orOption (pu_title p) (pl_title r),
           pl_backgroundConfig :=
             (case pu_backgroundConfig p of
                Undef \<Rightarrow> pl_backgroundConfig r | Null \<Rightarrow> None | Val s \<Rightarrow> Some s)\<rparr>)) db)"

definition plansDelete :: "'db planDb \<Rightarrow> int \<Rightarrow> jsval \<Rightarrow> 'db \<Rightarrow> (failure + unit) \<times> 'db" where
  "plansDelete D now raw =
     withPayload (parseNonEmptyString raw ''plans:delete.planId'') (\<lambda>planId db.
       statement (updatePlan D db planId (\<lambda>r. r\<lparr>pl_deletedAt := Some now\<rparr>)) db)"

section \<open>Duplicating a plan\<close>

fun copyItems :: "'db planDb \<Rightarrow> string \<Rightarrow> itemRow list \<Rightarrow> 'db \<Rightarrow> failure + 'db" where
  "copyItems D planId [] tx = Inr tx"
| "copyItems D planId (r # rs) tx =
     andThen (createItem D tx ((normalizeItemKind r)\<lparr>it_id := [], it_planId := planId\<rparr>))
       (\<lambda>(_, tx). copyItems D planId rs tx)"

definition duplicateOnce ::
  "'db planDb \<Rightarrow> planRow \<Rightarrow> itemRow list \<Rightarrow> string \<Rightarrow> int
     \<Rightarrow> 'db \<Rightarrow> failure + (planRow \<times> itemRow list) option \<times> 'db" where
  "duplicateOnce D base its title candidateDate tx =
     andThen (createPlan D tx (newPlanRow candidateDate (Some title) (pl_backgroundConfig base)))
       (\<lambda>(created, tx). andThen (copyItems D (pl_id created) its tx) (\<lambda>tx.
          Inr (planWithItems D tx (pl_id created), tx)))"

fun duplicateLoop ::
  "'db planDb \<Rightarrow> planRow \<Rightarrow> itemRow list \<Rightarrow> string \<Rightarrow> nat \<Rightarrow> int
     \<Rightarrow> 'db \<Rightarrow> (failure + (planRow \<times> itemRow list) option) \<times> 'db" where
  "duplicateLoop D base its title 0 candidateDate db =
     (Inl (ErrorMsg ''Unable to find an available plan date''), db)"
| "duplicateLoop D base its title (Suc left) candidateDate db =
     (case transaction (duplicateOnce D base its title candidateDate) db of
        (Inr r, db') \<Rightarrow> (Inr r, db')
      | (Inl e, db') \<Rightarrow>
          if \<not> isUniqueConstraintError e \<or> left = 0 then (Inl e, db')
          else duplicateLoop D base its title left (addUtcDays candidateDate 1) db')"

definition duplicatePlanWithRetry ::
  "'db planDb \<Rightarrow> (string \<Rightarrow> int option) \<Rightarrow> planRow \<Rightarrow> itemRow list
     \<Rightarrow> cpPlanDuplicatePayload \<Rightarrow> nat \<Rightarrow> 'db \<Rightarrow> (failure + (planRow \<times> itemRow list) option) \<times> 'db"
  where
  "duplicatePlanWithRetry D parseDate base its payload maxRetries =
     withPayload
       (normalizeDateToMidnight parseDate (orText (pd_dateIso payload) (toISOString (pl_date base))))
       (\<lambda>candidateDate.
          duplicateLoop D base its
            (orText (map_option trim (pd_title payload)) (orText (pl_title base) ''Culte''))
            maxRetries candidateDate)"

definition plansDuplicate ::
  "'db planDb \<Rightarrow> (string \<Rightarrow> int option) \<Rightarrow> jsval \<Rightarrow> 'db
     \<Rightarrow> (failure + (planRow \<times> itemRow list) option) \<times> 'db" where
  "plansDuplicate D parseDate raw =
     withPayload (parsePlanDuplicatePayload raw) (\<lambda>p db.
       case planWithItems D db (pd_planId p) of
         None \<Rightarrow> (Inl (ErrorMsg ''Plan not found''), db)
       | Some (base, its) \<Rightarrow> duplicatePlanWithRetry D parseDate base its p 3660 db)"

section \<open>Export\<close>

text \<open>The answer with what is written as JSON; \<open>None\<close> when the dialog is cancelled\<close>

definition plansExport ::
  "'db planDb \<Rightarrow> string option \<Rightarrow> jsval \<Rightarrow> 'db
     \<Rightarrow> (failure + (string \<times> planRow \<times> itemRow list) option) \<times> 'db" where
  "plansExport D file raw =
     withPayload (parsePlanExportPayload raw) (\<lambda>planId db.
       case planWithItems D db planId of
         None \<Rightarrow> (Inl (ErrorMsg ''Plan not found''), db)
       | Some (plan, its) \<Rightarrow>
           (Inr (map_option (\<lambda>path. (path, plan, map normalizeItemKind its)) file), db))"

section \<open>Import from a text file\<close>

text \<open>
  The dialog's answer is \<open>None\<close> when cancelled, else the text of the file (for a
  \<open>.docx\<close> file the text that \<open>mammoth\<close> extracts).
\<close>

datatype importPlanResult = ImportCanceled | ImportEmptyFile | ImportAdded nat

definition importedLines :: "string \<Rightarrow> string list" where
  "importedLines txt = filter (\<lambda>l. l \<noteq> []) (map trim (split_on newline txt))"

definition lineItem :: "string \<Rightarrow> string \<Rightarrow> cpPlanAddItemPayload" where
  "lineItem planId line =
     \<lparr>ai_planId = planId, ai_kind = ANNOUNCEMENT_TEXT, ai_title = Some (take 100 line),
      ai_content = Some line, ai_notes = None, ai_refId = None, ai_refSubId = None,
      ai_mediaPath = None, ai_secondaryContent = None, ai_backgroundConfig = None\<rparr>"

fun importLines ::
  "'db planDb \<Rightarrow> string \<Rightarrow> nat \<Rightarrow> string list \<Rightarrow> 'db \<Rightarrow> (failure + importPlanResult) \<times> 'db" where
  "importLines D planId added [] db = (Inr (ImportAdded added), db)"
| "importLines D planId added (line # ls) db =
     (case createPlanItemWithRetry D (lineItem planId line) 20 db of
        (Inl e, db') \<Rightarrow> (Inl e, db')
      | (Inr _, db') \<Rightarrow> importLines D planId (Suc added) ls db')"

definition plansImportFromFile ::
  "'db planDb \<Rightarrow> string option \<Rightarrow> jsval \<Rightarrow> 'db \<Rightarrow> (failure + importPlanResult) \<times> 'db" where
  "plansImportFromFile D file raw =
     withPayload (parseNonEmptyString raw ''plans:importFromFile.planId'') (\<lambda>planId db.
       case findPlan D db planId of
         None \<Rightarrow> (Inl (ErrorMsg ''Plan not found''), db)
       | Some _ \<Rightarrow>
           (case file of
              None \<Rightarrow> (Inr ImportCanceled, db)
            | Some txt \<Rightarrow>
                let ls = importedLines txt
                in if ls = [] then (Inr ImportEmptyFile, db) else importLines D planId 0 ls db))"

section \<open>Items of a plan\<close>

lemma strictly_sorted_unique:
  fixes k :: "'a \<Rightarrow> int"
  assumes "sorted_wrt (<) (map k xs)" and "sorted_wrt (<) (map k ys)" and "set xs = set ys"
  shows "xs = ys"
proof -
  have keys: "map k xs = map k ys"
    using assms by (intro strict_sorted_equal) (simp_all add: image_Un)
  have "inj_on k (set xs)"
    using assms(1) by (simp add: strict_sorted_iff distinct_map)
  then show ?thesis
    using keys assms(3) by (intro map_inj_on [of k]) auto
qed

text \<open>The items of plan \<open>p\<close>, and the change of orders that a renumbering makes\<close>

abbreviation ofPlan :: "string \<Rightarrow> itemRow \<Rightarrow> bool" where
  "ofPlan p \<equiv> \<lambda>r. it_planId r = p"

definition renumbered :: "nat \<Rightarrow> string list \<Rightarrow> (string \<rightharpoonup> itemRow) \<Rightarrow> string \<rightharpoonup> itemRow" where
  "renumbered idx ids its i =
     (case its i of
        None \<Rightarrow> None
      | Some r \<Rightarrow>
          (case index_of i ids of
             None \<Rightarrow> Some r
           | Some k \<Rightarrow> Some (r\<lparr>it_order := int (idx + k) + 1\<rparr>)))"

lemma sorted_numbers: "sorted_wrt (<) (map (\<lambda>k. int k + 1) [0..<n])"
  by (induction n) (auto simp: sorted_wrt_append)

lemma index_of_nth: "distinct xs \<Longrightarrow> k < length xs \<Longrightarrow> index_of (xs ! k) xs = Some k"
proof (induction xs arbitrary: k)
  case (Cons x xs)
  then show ?case by (cases k) auto
qed simp

context plan_store
begin

lemma lastOrder_upper:
  assumes "ok db" and "items db i = Some r" and "it_planId r = p"
  shows "it_order r \<le> lastOrder D db p"
proof -
  let ?xs = "findItems D db (ofPlan p)"
  have r: "r \<in> set ?xs"
    using assms by (simp add: plan_items_mem item_key)
  then have "?xs \<noteq> []" by auto
  then have "?xs = butlast ?xs @ [last ?xs]" by simp
  moreover have "sorted (map it_order ?xs)"
    using assms(1) by (rule find_items_sorted)
  ultimately have "sorted (map it_order (butlast ?xs @ [last ?xs]))" by simp
  then have "\<forall>q \<in> set (butlast ?xs). it_order q \<le> it_order (last ?xs)"
    by (simp add: sorted_append)
  moreover have "r \<in> set (butlast ?xs) \<or> r = last ?xs"
    using r \<open>?xs = butlast ?xs @ [last ?xs]\<close> by (metis Un_iff empty_iff insert_iff list.set set_append)
  ultimately show ?thesis
    using \<open>?xs \<noteq> []\<close> by (auto simp: lastOrder_def Let_def)
qed

lemma createItem_appended:
  assumes "ok db" and "refsOk (plans db) (songs db) (newItemRow p 0)"
  shows "\<exists>i db'. createPlanItemWithRetry D p (Suc n) db
      = (Inr ((newItemRow p (lastOrder D db (ai_planId p) + 1))\<lparr>it_id := i\<rparr>), db')
    \<and> i \<notin> dom (items db)
    \<and> items db' = (items db)(i \<mapsto> (newItemRow p (lastOrder D db (ai_planId p) + 1))\<lparr>it_id := i\<rparr>)
    \<and> plans db' = plans db \<and> songs db' = songs db \<and> ok db'"
proof -
  let ?r = "newItemRow p (lastOrder D db (ai_planId p) + 1)"
  have "\<not> sameSlot ?r q" if "items db j = Some q" for j q
    using lastOrder_upper [OF assms(1) that, of "ai_planId p"]
    by (auto simp: sameSlot_def newItemRow_def)
  moreover have "refsOk (plans db) (songs db) ?r"
    using assms(2) by (simp add: refsOk_def newItemRow_def)
  ultimately obtain i db' where "createItem D db ?r = Inr (?r\<lparr>it_id := i\<rparr>, db')"
      "i \<notin> dom (items db)" "items db' = (items db)(i \<mapsto> ?r\<lparr>it_id := i\<rparr>)"
      "plans db' = plans db" "songs db' = songs db" "ok db'"
    using create_item [OF assms(1)] by blast
  then show ?thesis
    by (intro exI [of _ i] exI [of _ db']) simp
qed

lemma createItem_dangling:
  assumes "ok db" and "\<not> refsOk (plans db) (songs db) (newItemRow p 0)"
  shows "createPlanItemWithRetry D p (Suc n) db = (Inl (Prisma P2003), db)"
proof -
  let ?r = "newItemRow p (lastOrder D db (ai_planId p) + 1)"
  have "\<not> sameSlot ?r q" if "items db j = Some q" for j q
    using lastOrder_upper [OF assms(1) that, of "ai_planId p"]
    by (auto simp: sameSlot_def newItemRow_def)
  moreover have "\<not> refsOk (plans db) (songs db) ?r"
    using assms(2) by (simp add: refsOk_def newItemRow_def)
  ultimately have "createItem D db ?r = Inl (Prisma P2003)"
    using create_item_dangling [OF assms(1)] by blast
  then show ?thesis by (simp add: isUniqueConstraintError_def)
qed

text \<open>
  Renumbering succeeds when the rows stand in increasing order and every one of them keeps
  or lowers its order, with the rows before them already below.
\<close>

lemma renumber_succeeds:
  assumes "ok db" and "distinct ids"
    and "\<forall>i \<in> set ids. \<exists>r. items db i = Some r \<and> it_planId r = p \<and> int idx < it_order r"
    and "sorted_wrt (<) (map (\<lambda>i. it_order (the (items db i))) ids)"
    and "\<forall>i r. items db i = Some r \<longrightarrow> it_planId r = p \<longrightarrow> i \<notin> set ids \<longrightarrow> it_order r \<le> int idx"
  shows "\<exists>db'. renumber D idx ids db = Inr db' \<and> items db' = renumbered idx ids (items db)
           \<and> plans db' = plans db \<and> songs db' = songs db \<and> ok db'"
  using assms
proof (induction ids arbitrary: idx db)
  case Nil
  then show ?case by (auto simp: renumbered_def split: option.splits)
next
  case (Cons i ids)
  let ?f = "\<lambda>r. r\<lparr>it_order := int idx + 1\<rparr>"
  obtain r where r: "items db i = Some r" "it_planId r = p" "int idx < it_order r"
    using Cons.prems(3) by auto
  have above: "it_order r < it_order q" if "items db j = Some q" "j \<in> set ids" for j q
    using Cons.prems(4) that r(1) by (auto simp: dest!: bspec [of _ _ j])
  have "\<not> sameSlot (?f r) q" if "items db j = Some q" "j \<noteq> i" for j q
  proof (cases "j \<in> set ids")
    case True
    with above [OF that(1)] r(3) show ?thesis by (auto simp: sameSlot_def)
  next
    case False
    with Cons.prems(5) that have "it_planId q = p \<Longrightarrow> it_order q \<le> int idx" by simp
    with r(2) show ?thesis by (auto simp: sameSlot_def)
  qed
  then obtain db1 where u: "updateItem D db i ?f = Inr db1"
    and db1: "items db1 = (items db)(i \<mapsto> ?f r)" "plans db1 = plans db" "songs db1 = songs db" "ok db1"
    using update_item [OF Cons.prems(1) r(1), of ?f] by (auto simp: keepsItemKeys_def)
  have tail: "i \<notin> set ids" "distinct ids" using Cons.prems(2) by auto
  have "\<exists>db'. renumber D (Suc idx) ids db1 = Inr db' \<and> items db' = renumbered (Suc idx) ids (items db1)
      \<and> plans db' = plans db1 \<and> songs db' = songs db1 \<and> ok db'"
  proof (rule Cons.IH [OF db1(4) tail(2)])
    show "\<forall>j \<in> set ids. \<exists>q. items db1 j = Some q \<and> it_planId q = p \<and> int (Suc idx) < it_order q"
      using Cons.prems(3) above r(3) tail(1) unfolding db1(1) by fastforce
    show "sorted_wrt (<) (map (\<lambda>j. it_order (the (items db1 j))) ids)"
    proof -
      have "map (\<lambda>j. it_order (the (items db1 j))) ids = map (\<lambda>j. it_order (the (items db j))) ids"
        using tail(1) unfolding db1(1) by (auto intro!: map_cong)
      then show ?thesis
        using Cons.prems(4) by (simp only: list.map sorted_wrt.simps)
    qed
    show "\<forall>j q. items db1 j = Some q \<longrightarrow> it_planId q = p \<longrightarrow> j \<notin> set ids \<longrightarrow> it_order q \<le> int (Suc idx)"
    proof (intro allI impI)
      fix j q assume j: "items db1 j = Some q" "it_planId q = p" "j \<notin> set ids"
      show "it_order q \<le> int (Suc idx)"
      proof (cases "j = i")
        case False
        with j Cons.prems(5) have "it_order q \<le> int idx" by (simp add: db1(1))
        then show ?thesis by simp
      qed (use j in \<open>auto simp: db1(1)\<close>)
    qed
  qed
  moreover have "renumbered (Suc idx) ids (items db1) = renumbered idx (i # ids) (items db)"
  proof
    fix j show "renumbered (Suc idx) ids (items db1) j = renumbered idx (i # ids) (items db) j"
      using tail(1) r(1) index_of_None_iff [of i ids] unfolding db1(1)
      by (auto simp: renumbered_def split: option.splits)
  qed
  ultimately show ?case using u db1 by auto
qed

text \<open>
  Setting the orders one after the other fails at the first place where the requested row
  is not the present one, because the present one still holds the slot.
\<close>

lemma renumber_clashes:
  assumes "ok db" and "mset req = mset cur" and "req \<noteq> cur" and "distinct cur"
    and "\<forall>k < length cur. \<exists>r. items db (cur ! k) = Some r \<and> it_planId r = p
           \<and> it_order r = int (idx + k) + 1"
  shows "renumber D idx req db = Inl (Prisma P2002)"
  using assms
proof (induction req arbitrary: cur idx db)
  case Nil
  then show ?case by simp
next
  case (Cons x req)
  from Cons.prems(2) obtain c cur' where cur: "cur = c # cur'" by (cases cur) auto
  obtain rc where rc: "items db c = Some rc" "it_planId rc = p" "it_order rc = int idx + 1"
    using Cons.prems(5) unfolding cur by force
  have "x \<in> set cur" using Cons.prems(2) by (metis list.set_intros(1) mset_eq_setD)
  then obtain rx where rx: "items db x = Some rx" "it_planId rx = p"
    using Cons.prems(5) by (metis in_set_conv_nth)
  show ?case
  proof (cases "x = c")
    case False
    then have "updateItem D db x (\<lambda>r. r\<lparr>it_order := int idx + 1\<rparr>) = Inl (Prisma P2002)"
      using rx rc by (intro update_item_taken [OF Cons.prems(1) rx(1) rc(1)]) (auto simp: sameSlot_def)
    then show ?thesis by simp
  next
    case True
    let ?f = "\<lambda>r. r\<lparr>it_order := int idx + 1\<rparr>"
    have same: "?f rc = rc" using rc(3) by simp
    have "\<not> sameSlot (?f rc) q" if "items db j = Some q" "j \<noteq> c" for j q
      using slot_unique [OF Cons.prems(1) rc(1) that(1)] that(2) unfolding same by blast
    then obtain db1 where u: "updateItem D db c ?f = Inr db1"
      and db1: "items db1 = (items db)(c \<mapsto> ?f rc)" "ok db1"
      using update_item [OF Cons.prems(1) rc(1), of ?f] by (auto simp: keepsItemKeys_def)
    have "items db1 = items db" using db1(1) rc(1) same by auto
    moreover have "\<forall>k < length cur'. \<exists>r. items db (cur' ! k) = Some r \<and> it_planId r = p
        \<and> it_order r = int (Suc idx + k) + 1"
      using Cons.prems(5) unfolding cur by force
    ultimately have "renumber D (Suc idx) req db1 = Inl (Prisma P2002)"
      using Cons.prems(2-4) db1(2) True unfolding cur by (intro Cons.IH [of db1 cur']) auto
    with u True show ?thesis by simp
  qed
qed

section \<open>What the handlers do to the items of a plan\<close>

lemma find_items_unique:
  assumes "ok db" and "sorted_wrt (<) (map it_order xs)"
    and "set xs = {r \<in> ran (items db). it_planId r = p}"
  shows "findItems D db (ofPlan p) = xs"
  using assms find_items_set [OF assms(1)] plan_items_orders [OF assms(1)]
  by (intro strictly_sorted_unique [of it_order]) simp_all

lemma item_of_plan:
  assumes "ok db" and "k < length (planItemIds D db p)"
  shows "items db (planItemIds D db p ! k) = Some (findItems D db (ofPlan p) ! k)"
    and "it_planId (findItems D db (ofPlan p) ! k) = p"
proof -
  have "findItems D db (ofPlan p) ! k \<in> set (findItems D db (ofPlan p))"
    using assms(2) by (simp add: planItemIds_def)
  then show "items db (planItemIds D db p ! k) = Some (findItems D db (ofPlan p) ! k)"
      "it_planId (findItems D db (ofPlan p) ! k) = p"
    using plan_items_mem [OF assms(1)] assms(2) by (auto simp: planItemIds_def)
qed

lemma find_items_appended:
  assumes "ok db" and "ok db'" and "items db' = (items db)(i \<mapsto> row)" and "i \<notin> dom (items db)"
    and "\<forall>r \<in> set (findItems D db (ofPlan (it_planId row))). it_order r < it_order row"
  shows "findItems D db' (ofPlan (it_planId row)) = findItems D db (ofPlan (it_planId row)) @ [row]"
proof (rule find_items_unique [OF assms(2)])
  show "sorted_wrt (<) (map it_order (findItems D db (ofPlan (it_planId row)) @ [row]))"
    using assms(5) plan_items_orders [OF assms(1)] by (simp add: sorted_wrt_append)
  have "ran (items db') = insert row (ran (items db))"
    using assms(3,4) by (auto simp: ran_map_upd domIff)
  then show "set (findItems D db (ofPlan (it_planId row)) @ [row])
      = {r \<in> ran (items db'). it_planId r = it_planId row}"
    using find_items_set [OF assms(1)] by auto
qed

lemma find_items_other:
  assumes "ok db" and "ok db'"
    and "\<And>i r. it_planId r = q \<Longrightarrow> items db' i = Some r \<longleftrightarrow> items db i = Some r"
  shows "findItems D db' (ofPlan q) = findItems D db (ofPlan q)"
proof (rule find_items_unique [OF assms(2) plan_items_orders [OF assms(1)]])
  show "set (findItems D db (ofPlan q)) = {r \<in> ran (items db'). it_planId r = q}"
    using find_items_set [OF assms(1), of "ofPlan q"] assms(3) by (auto simp: ran_def)
qed

text \<open>Renumbering a plan whose orders are positive numbers its rows 1, 2, 3 and so on.\<close>

lemma renumber_plan:
  assumes "ok db" and "\<forall>r \<in> set (findItems D db (ofPlan p)). 0 < it_order r"
  shows "\<exists>db'. renumber D 0 (planItemIds D db p) db = Inr db' \<and> ok db' \<and> plans db' = plans db
           \<and> songs db' = songs db
           \<and> findItems D db' (ofPlan p)
               = map_idx (\<lambda>k r. r\<lparr>it_order := int k + 1\<rparr>) (findItems D db (ofPlan p))
           \<and> (\<forall>q. q \<noteq> p \<longrightarrow> findItems D db' (ofPlan q) = findItems D db (ofPlan q))"
proof -
  let ?xs = "findItems D db (ofPlan p)" and ?ids = "planItemIds D db p"
  let ?ys = "map_idx (\<lambda>k r. r\<lparr>it_order := int k + 1\<rparr>) ?xs"
  have mem: "r \<in> set ?xs \<longleftrightarrow> items db (it_id r) = Some r \<and> it_planId r = p" for r
    by (rule plan_items_mem [OF assms(1)])
  have inplan: "it_id r \<in> set ?ids" if "items db i = Some r" "it_planId r = p" for i r
  proof -
    have "r \<in> set ?xs"
      unfolding mem using that item_key [OF assms(1) that(1)] by simp
    then show ?thesis by (simp add: planItemIds_def)
  qed
  have orders: "map (\<lambda>i. it_order (the (items db i))) ?ids = map it_order ?xs"
    using mem by (auto simp: planItemIds_def)
  have d: "distinct ?ids"
    using plan_items_ids [OF assms(1)] by (simp add: planItemIds_def)
  have "\<exists>db'. renumber D 0 ?ids db = Inr db' \<and> items db' = renumbered 0 ?ids (items db)
      \<and> plans db' = plans db \<and> songs db' = songs db \<and> ok db'"
  proof (rule renumber_succeeds [where p = p, OF assms(1) d])
    show "\<forall>i \<in> set ?ids. \<exists>r. items db i = Some r \<and> it_planId r = p \<and> int 0 < it_order r"
      using mem assms(2) by (auto simp: planItemIds_def)
    show "sorted_wrt (<) (map (\<lambda>i. it_order (the (items db i))) ?ids)"
      unfolding orders using plan_items_orders [OF assms(1)] .
    show "\<forall>i r. items db i = Some r \<longrightarrow> it_planId r = p \<longrightarrow> i \<notin> set ?ids \<longrightarrow> it_order r \<le> int 0"
      using inplan item_key [OF assms(1)] by metis
  qed
  then obtain db' where db': "renumber D 0 ?ids db = Inr db'" "items db' = renumbered 0 ?ids (items db)"
      "plans db' = plans db" "songs db' = songs db" "ok db'"
    by blast
  have at: "items db' (?ids ! k) = Some ((?xs ! k)\<lparr>it_order := int k + 1\<rparr>)" if "k < length ?ids" for k
    using item_of_plan [OF assms(1) that] index_of_nth [OF d that]
    by (simp add: db'(2) renumbered_def)
  have out: "items db' i = items db i" if "i \<notin> set ?ids" for i
    using that index_of_None_iff [of i ?ids] by (auto simp: db'(2) renumbered_def split: option.splits)
  have "findItems D db' (ofPlan p) = ?ys"
  proof (rule find_items_unique [OF db'(5)])
    show "sorted_wrt (<) (map it_order ?ys)"
      using map_idx_index [of 0 "\<lambda>k. int k + 1" ?xs] sorted_numbers by simp
    show "set ?ys = {r \<in> ran (items db'). it_planId r = p}"
    proof (intro set_eqI iffI)
      fix y assume "y \<in> set ?ys"
      then obtain k where k: "k < length ?xs" "y = (?xs ! k)\<lparr>it_order := int k + 1\<rparr>"
        unfolding set_map_idx by auto
      then have len: "k < length ?ids" by (simp add: planItemIds_def)
      have "items db' (?ids ! k) = Some y"
        unfolding k(2) using len by (rule at)
      moreover have "it_planId y = p"
        unfolding k(2) using item_of_plan(2) [OF assms(1) len] by simp
      ultimately show "y \<in> {r \<in> ran (items db'). it_planId r = p}"
        by (blast intro: ranI)
    next
      fix y assume "y \<in> {r \<in> ran (items db'). it_planId r = p}"
      then obtain i where i: "items db' i = Some y" "it_planId y = p" by (auto simp: ran_def)
      have "i \<in> set ?ids"
      proof (rule ccontr)
        assume "i \<notin> set ?ids"
        with out i have "items db i = Some y" by simp
        with inplan i item_key [OF assms(1)] \<open>i \<notin> set ?ids\<close> show False by metis
      qed
      then obtain k where "k < length ?ids" "?ids ! k = i" by (auto simp: in_set_conv_nth)
      with at [of k] i(1) show "y \<in> set ?ys"
        unfolding set_map_idx by (auto simp: planItemIds_def)
    qed
  qed
  moreover have "findItems D db' (ofPlan q) = findItems D db (ofPlan q)" if "q \<noteq> p" for q
  proof (rule find_items_other [OF assms(1) db'(5)])
    fix i and r :: itemRow assume r: "it_planId r = q"
    show "items db' i = Some r \<longleftrightarrow> items db i = Some r"
    proof (cases "i \<in> set ?ids")
      case True
      then obtain k where k: "k < length ?ids" "?ids ! k = i" by (auto simp: in_set_conv_nth)
      then show ?thesis
        using at [OF k(1)] item_of_plan [OF assms(1) k(1)] r that by auto
    qed (simp add: out)
  qed
  ultimately show ?thesis using db' by blast
qed

text \<open>Deleting rows of a plan and renumbering the rest\<close>

lemma delete_and_renumber:
  assumes "ok db" and "\<forall>r \<in> set (findItems D db (ofPlan p)). 0 < it_order r"
    and "\<And>i r. items db i = Some r \<Longrightarrow> P r \<Longrightarrow> it_planId r = p"
  shows "\<exists>db'. renumber D 0 (planItemIds D (deleteItems D db P) p) (deleteItems D db P) = Inr db'
           \<and> ok db' \<and> plans db' = plans db
           \<and> findItems D db' (ofPlan p)
               = map_idx (\<lambda>k r. r\<lparr>it_order := int k + 1\<rparr>)
                   (filter (\<lambda>r. \<not> P r) (findItems D db (ofPlan p)))
           \<and> (\<forall>q. q \<noteq> p \<longrightarrow> findItems D db' (ofPlan q) = findItems D db (ofPlan q))"
proof -
  let ?db = "deleteItems D db P"
  note del = delete_items [OF assms(1), of P]
  have left: "items ?db i = Some r \<longleftrightarrow> items db i = Some r \<and> \<not> P r" for i r
    using del by (auto split: option.splits if_splits)
  have xs: "findItems D ?db (ofPlan p) = filter (\<lambda>r. \<not> P r) (findItems D db (ofPlan p))"
  proof (rule find_items_unique)
    show "ok ?db" using del by blast
    show "sorted_wrt (<) (map it_order (filter (\<lambda>r. \<not> P r) (findItems D db (ofPlan p))))"
      using plan_items_orders [OF assms(1), of p] by (simp add: sorted_wrt_map sorted_wrt_filter)
    show "set (filter (\<lambda>r. \<not> P r) (findItems D db (ofPlan p)))
        = {r \<in> ran (items ?db). it_planId r = p}"
      using find_items_set [OF assms(1), of "ofPlan p"] left by (auto simp: ran_def)
  qed
  have others: "findItems D ?db (ofPlan q) = findItems D db (ofPlan q)" if "q \<noteq> p" for q
  proof (rule find_items_other [OF assms(1)])
    show "ok ?db" using del by blast
    show "items ?db i = Some r \<longleftrightarrow> items db i = Some r" if "it_planId r = q"
      for i and r :: itemRow
      using left assms(3) [of i r] \<open>q \<noteq> p\<close> that by auto
  qed
  have pos: "\<forall>r \<in> set (findItems D ?db (ofPlan p)). 0 < it_order r"
    using assms(2) unfolding xs by auto
  have okdel: "ok ?db" and plansdel: "plans ?db = plans db"
    using del by blast+
  obtain db' where "renumber D 0 (planItemIds D ?db p) ?db = Inr db'" "ok db'" "plans db' = plans ?db"
      "findItems D db' (ofPlan p)
        = map_idx (\<lambda>k r. r\<lparr>it_order := int k + 1\<rparr>) (findItems D ?db (ofPlan p))"
    and e: "\<forall>q. q \<noteq> p \<longrightarrow> findItems D db' (ofPlan q) = findItems D ?db (ofPlan q)"
    using renumber_plan [OF okdel pos] by blast
  moreover have "\<forall>q. q \<noteq> p \<longrightarrow> findItems D db' (ofPlan q) = findItems D db (ofPlan q)"
    using e others by simp
  ultimately show ?thesis
    unfolding xs plansdel by blast
qed

end

end
