(* ===== verification/SongHandlers.thy ===== *)
theory SongHandlers
  imports SongStore Plans "HOL-Library.Multiset" "HOL-Library.Char_ord"
    "HOL-Library.List_Lexorder" "HOL-Library.Option_ord" "HOL-Library.Product_Lexorder"
begin

text \<open>
  The handlers of songs, \<open>main/ipc/songs-meta.ts\<close>, over any song store, together with the
  folder of JSON files they keep in step, one file per song.
\<close>

section \<open>Songs with their blocks\<close>

definition blockPayload :: "blockRow \<Rightarrow> songBlockPayload" where
  "blockPayload b = \<lparr>rb_order = bl_order b, rb_type = bl_type b, rb_title = bl_title b,
     rb_content = bl_content b\<rparr>"

definition viewOf :: "songRow \<Rightarrow> blockRow list \<Rightarrow> importSong" where
  "viewOf r bs = \<lparr>im_title = so_title r, im_artist = so_artist r, im_album = so_album r,
     im_year = so_year r, im_language = so_language r, im_tags = so_tags r,
     im_blocks = map blockPayload bs\<rparr>"

text \<open>\<open>findUnique({ where: { id }, include: { blocks: { orderBy: { order: "asc" } } } })\<close>\<close>

definition songWithBlocks :: "'db songDb \<Rightarrow> 'db \<Rightarrow> string \<Rightarrow> (songRow \<times> blockRow list) option" where
  "songWithBlocks S db i = map_option (\<lambda>r. (r, findBlocks S db (blocksOf i))) (findSong S db i)"

definition newSongRow :: "importSong \<Rightarrow> songRow" where
  "newSongRow s = \<lparr>so_id = [], so_title = im_title s, so_artist = im_artist s, so_album = im_album s,
     so_year = im_year s, so_language = im_language s, so_tags = im_tags s, so_deletedAt = None,
     so_createdAt = 0, so_updatedAt = 0\<rparr>"

definition newBlockRow :: "string \<Rightarrow> songBlockPayload \<Rightarrow> blockRow" where
  "newBlockRow songId b = \<lparr>bl_id = [], bl_songId = songId, bl_order = rb_order b,
     bl_type = rb_type b, bl_title = rb_title b, bl_content = rb_content b\<rparr>"

fun createBlocks :: "'db songDb \<Rightarrow> string \<Rightarrow> songBlockPayload list \<Rightarrow> 'db \<Rightarrow> failure + 'db" where
  "createBlocks S songId [] tx = Inr tx"
| "createBlocks S songId (b # bs) tx =
     andThen (createBlock S tx (newBlockRow songId b)) (createBlocks S songId bs)"

definition createSongAndBlocks ::
  "'db songDb \<Rightarrow> importSong \<Rightarrow> 'db \<Rightarrow> failure + songRow \<times> 'db" where
  "createSongAndBlocks S song tx =
     (let (r, tx) = createSong S tx (newSongRow song)
      in andThen (createBlocks S (so_id r) (im_blocks song) tx) (\<lambda>tx. Inr (r, tx)))"

text \<open>The imports of songs trim the contents, and give a block without type the type \<open>VERSE\<close>.\<close>

definition atomicBlock :: "songBlockPayload \<Rightarrow> songBlockPayload" where
  "atomicBlock b = b\<lparr>rb_type := (if rb_type b = [] then ''VERSE'' else rb_type b),
     rb_content := trim (rb_content b)\<rparr>"

definition createSongWithBlocksAtomic ::
  "'db songDb \<Rightarrow> importSong \<Rightarrow> 'db \<Rightarrow> (failure + songRow) \<times> 'db" where
  "createSongWithBlocksAtomic S song =
     transaction (createSongAndBlocks S (song\<lparr>im_blocks := map atomicBlock (im_blocks song)\<rparr>))"

text \<open>\<open>getErrorMessage\<close>; the messages of the client are the parameter \<open>msg\<close>.\<close>

fun getErrorMessage :: "(dbCode \<Rightarrow> string) \<Rightarrow> failure \<Rightarrow> string" where
  "getErrorMessage msg (ErrorMsg m) = m"
| "getErrorMessage msg (Prisma c) = msg c"

section \<open>The folder of JSON files\<close>

type_synonym jsonFolder = "string \<rightharpoonup> jsval"

definition songPath :: "string \<Rightarrow> string \<Rightarrow> string" where
  "songPath dir i = dir @ ''/'' @ i @ ''.json''"

text \<open>
  \<open>getSongsJsonDir\<close> gives no directory (\<open>None\<close>) when none is configured; a file that cannot
  be written or deleted is passed over by the code, here every access succeeds.
\<close>

definition writeSongJsonAutoSync ::
  "string option \<Rightarrow> songRow \<times> blockRow list \<Rightarrow> jsonFolder \<Rightarrow> jsonFolder" where
  "writeSongJsonAutoSync dirFn song files =
     (case dirFn of
        Some (c # dir) \<Rightarrow>
          files(songPath (c # dir) (so_id (fst song)) \<mapsto> songFileJson (viewOf (fst song) (snd song)))
      | _ \<Rightarrow> files)"

definition deleteSongJsonAutoSync :: "string option \<Rightarrow> string \<Rightarrow> jsonFolder \<Rightarrow> jsonFolder" where
  "deleteSongJsonAutoSync dirFn songId files =
     (case dirFn of Some (c # dir) \<Rightarrow> files(songPath (c # dir) songId := None) | _ \<Rightarrow> files)"

text \<open>A handler's answer, and the files after it when it has one\<close>

definition thenFiles ::
  "(failure + 'a) \<times> 'db \<Rightarrow> ('a \<Rightarrow> jsonFolder \<Rightarrow> jsonFolder) \<Rightarrow> jsonFolder
     \<Rightarrow> (failure + 'a) \<times> 'db \<times> jsonFolder" where
  "thenFiles res sync files =
     (case res of (Inl e, db) \<Rightarrow> (Inl e, db, files) | (Inr x, db) \<Rightarrow> (Inr x, db, sync x files))"

lemma thenFiles_simps [simp]:
  "thenFiles (Inl e, db) sync files = (Inl e, db, files)"
  "thenFiles (Inr x, db) sync files = (Inr x, db, sync x files)"
  by (simp_all add: thenFiles_def)

section \<open>Handlers that change songs\<close>

definition initialBlocks :: "songBlockPayload list" where
  "initialBlocks = [block 1 ''VERSE'' ''Couplet 1'' [], block 2 ''CHORUS'' ''Refrain'' []]"

definition createdSong :: "songCreatePayload \<Rightarrow> importSong" where
  "createdSong p = \<lparr>im_title = sc_title p, im_artist = sc_artist p, im_album = sc_album p,
     im_year = sc_year p, im_language = None, im_tags = None, im_blocks = initialBlocks\<rparr>"

definition songsCreate ::
  "'db songDb \<Rightarrow> string option \<Rightarrow> jsval \<Rightarrow> 'db \<times> jsonFolder
     \<Rightarrow> (failure + songRow \<times> blockRow list) \<times> 'db \<times> jsonFolder" where
  "songsCreate S dirFn raw =
     withPayload (parseSongCreatePayload raw) (\<lambda>p (db, files).
       thenFiles (transaction (\<lambda>tx. andThen (createSongAndBlocks S (createdSong p) tx)
           (\<lambda>(r, tx). Inr ((r, findBlocks S tx (blocksOf (so_id r))), tx))) db)
         (writeSongJsonAutoSync dirFn) files)"

text \<open>A field that is \<open>undefined\<close> in the data of an update keeps its value.\<close>

definition applyMeta :: "songUpdateMetaPayload \<Rightarrow> songRow \<Rightarrow> songRow" where
  "applyMeta p r = r\<lparr>so_title := su_title p, so_artist := orOption (su_artist p) (so_artist r),
     so_album := orOption (su_album p) (so_album r), so_year := orOption (su_year p) (so_year r)\<rparr>"

definition songsUpdateMeta ::
  "'db songDb \<Rightarrow> string option \<Rightarrow> jsval \<Rightarrow> 'db \<times> jsonFolder
     \<Rightarrow> (failure + (songRow \<times> blockRow list) option) \<times> 'db \<times> jsonFolder" where
  "songsUpdateMeta S dirFn raw =
     withPayload (parseSongUpdateMetaPayload raw) (\<lambda>p (db, files).
       case updateSong S db (su_id p) (applyMeta p) of
         Inl e \<Rightarrow> (Inl e, db, files)
       | Inr db' \<Rightarrow> thenFiles (Inr (songWithBlocks S db' (su_id p)), db')
                    (\<lambda>r files. case r of None \<Rightarrow> files
                       | Some song \<Rightarrow> writeSongJsonAutoSync dirFn song files) files)"

definition songsReplaceBlocks ::
  "'db songDb \<Rightarrow> string option \<Rightarrow> jsval \<Rightarrow> 'db \<times> jsonFolder
     \<Rightarrow> (failure + (songRow \<times> blockRow list) option) \<times> 'db \<times> jsonFolder" where
  "songsReplaceBlocks S dirFn raw =
     withPayload (parseSongReplaceBlocksPayload raw) (\<lambda>(songId, bs) (db, files).
       thenFiles (transaction (\<lambda>tx.
           andThen (createBlocks S songId bs (deleteBlocks S tx (blocksOf songId)))
             (\<lambda>tx. Inr (songWithBlocks S tx songId, tx))) db)
         (\<lambda>r files. case r of None \<Rightarrow> files | Some song \<Rightarrow> writeSongJsonAutoSync dirFn song files) files)"

definition songsDelete ::
  "'db songDb \<Rightarrow> string option \<Rightarrow> int \<Rightarrow> jsval \<Rightarrow> 'db \<times> jsonFolder
     \<Rightarrow> (failure + unit) \<times> 'db \<times> jsonFolder" where
  "songsDelete S dirFn now raw =
     withPayload (parseNonEmptyString raw ''songs:delete.id'') (\<lambda>i (db, files).
       thenFiles (statement (updateSong S db i (\<lambda>r. r\<lparr>so_deletedAt := Some now\<rparr>)) db)
         (\<lambda>_. deleteSongJsonAutoSync dirFn i) files)"

section \<open>Handlers that read songs\<close>

definition songsGet ::
  "'db songDb \<Rightarrow> jsval \<Rightarrow> 'db \<Rightarrow> (failure + (songRow \<times> blockRow list) option) \<times> 'db" where
  "songsGet S raw =
     withPayload (parseNonEmptyString raw ''songs:get.id'') (\<lambda>i db. (Inr (songWithBlocks S db i), db))"

datatype songSort = SortTitle | SortArtist | SortUpdatedAt | SortCreatedAt

definition parseSongSort :: "jsval \<Rightarrow> songSort" where
  "parseSongSort rawSortBy =
     (if rawSortBy = JStr ''artist'' then SortArtist
      else if rawSortBy = JStr ''updatedAt'' then SortUpdatedAt
      else if rawSortBy = JStr ''createdAt'' then SortCreatedAt else SortTitle)"

text \<open>\<open>null\<close> comes first in an ascending order of SQLite; texts compare by code.\<close>

fun sortSongs :: "songSort \<Rightarrow> songRow list \<Rightarrow> songRow list" where
  "sortSongs SortArtist rs = sort_key (\<lambda>r. (so_artist r, so_title r)) rs"
| "sortSongs SortUpdatedAt rs = sort_key (\<lambda>r. - so_updatedAt r) rs"
| "sortSongs SortCreatedAt rs = sort_key (\<lambda>r. - so_createdAt r) rs"
| "sortSongs SortTitle rs = sort_key so_title rs"

text \<open>\<open>s.indexOf(t)\<close> for texts\<close>

fun indexOfText :: "string \<Rightarrow> string \<Rightarrow> nat option" where
  "indexOfText [] t = (if t = [] then Some 0 else None)"
| "indexOfText (c # s) t =
     (if startsWith (c # s) t then Some 0 else map_option Suc (indexOfText s t))"

definition matchSnippet :: "string \<Rightarrow> string \<Rightarrow> string option" where
  "matchSnippet query content =
     map_option
       (\<lambda>idx. let start = idx - 30; stop = min (length content) (idx + length query + 50)
              in (if 0 < start then ''...'' else [])
                 @ trim (drop start (take stop content))
                 @ (if stop < length content then ''...'' else []))
       (indexOfText (toLowerCase content) (toLowerCase query))"

text \<open>
  The filter \<open>contains\<close> of the client on SQLite is the parameter \<open>like\<close>. A list entry is the
  row with \<open>matchSnippet\<close>, which only a search sets.
\<close>

definition songMatches ::
  "(string \<Rightarrow> string \<Rightarrow> bool) \<Rightarrow> string \<Rightarrow> 'db songDb \<Rightarrow> 'db \<Rightarrow> songRow \<Rightarrow> bool" where
  "songMatches like query S db r \<longleftrightarrow>
     like (so_title r) query
     \<or> (\<exists>f \<in> {so_artist r, so_album r, so_tags r}. case f of None \<Rightarrow> False | Some v \<Rightarrow> like v query)
     \<or> list_ex (\<lambda>b. like (bl_content b) query) (findBlocks S db (blocksOf (so_id r)))"

definition snippetOf ::
  "(string \<Rightarrow> string \<Rightarrow> bool) \<Rightarrow> string \<Rightarrow> 'db songDb \<Rightarrow> 'db \<Rightarrow> songRow \<Rightarrow> string option" where
  "snippetOf like query S db r =
     (case filter (\<lambda>b. like (bl_content b) query) (findBlocks S db (blocksOf (so_id r))) of
        [] \<Rightarrow> None | b # _ \<Rightarrow> matchSnippet query (bl_content b))"

definition liveSongs :: "'db songDb \<Rightarrow> 'db \<Rightarrow> songRow list" where
  "liveSongs S db = filter (\<lambda>r. so_deletedAt r = None) (findSongs S db)"

definition songsList ::
  "(string \<Rightarrow> string \<Rightarrow> bool) \<Rightarrow> 'db songDb \<Rightarrow> jsval \<Rightarrow> jsval \<Rightarrow> 'db
     \<Rightarrow> (failure + (songRow \<times> string nullable) list) \<times> 'db" where
  "songsList like S rawQ rawSortBy =
     withPayload (parseOptionalQuery rawQ ''songs:list.query'') (\<lambda>q db.
       let query = trim (orElse q []);
           sorted = sortSongs (parseSongSort rawSortBy)
       in if query \<noteq> [] then
            (Inr (map (\<lambda>r. (r, case snippetOf like query S db r of None \<Rightarrow> Null | Some s \<Rightarrow> Val s))
               (take 200 (sorted (filter (songMatches like query S db) (liveSongs S db))))), db)
          else (Inr (map (\<lambda>r. (r, Undef)) (take 200 (sorted (liveSongs S db)))), db))"

text \<open>
  The songs used most. \<open>take\<close> with a number that is not whole is an error of the client, the
  parameter \<open>invalidArg\<close>. Groups of equal size stand in the order of their first item.
\<close>

definition frequentLimit :: "jsval \<Rightarrow> rat" where
  "frequentLimit rawLimit =
     (case rawLimit of
        JNum (Fin r) \<Rightarrow> if 0 < r then min r 50 else 10
      | JNum PosInf \<Rightarrow> 50
      | _ \<Rightarrow> 10)"

definition wholeNumber :: "rat \<Rightarrow> nat option" where
  "wholeNumber r = (if r = of_int \<lfloor>r\<rfloor> then Some (nat \<lfloor>r\<rfloor>) else None)"

definition usedSongIds :: "'db planDb \<Rightarrow> 'db \<Rightarrow> string list" where
  "usedSongIds D db =
     List.map_filter it_songId (findItems D db (\<lambda>r. it_kind r = ''SONG_BLOCK''))"

definition groupedSongIds :: "string list \<Rightarrow> string list" where
  "groupedSongIds ids = sort_key (\<lambda>i. - int (count_list ids i)) (remdups ids)"

definition songsGetFrequent ::
  "'db planDb \<Rightarrow> 'db songDb \<Rightarrow> failure \<Rightarrow> jsval \<Rightarrow> 'db
     \<Rightarrow> (failure + (songRow \<times> string nullable) list) \<times> 'db" where
  "songsGetFrequent D S invalidArg rawLimit db =
     (let limit = frequentLimit rawLimit
      in ((case wholeNumber (limit * 3) of
            None \<Rightarrow> Inl invalidArg
          | Some n \<Rightarrow>
              (let songIds = take n (groupedSongIds (usedSongIds D db))
               in if songIds = [] then Inr []
                  else case wholeNumber limit of
                         None \<Rightarrow> Inl invalidArg
                       | Some m \<Rightarrow>
                           Inr (map (\<lambda>r. (r, Null))
                             (sort_key (\<lambda>r. orElse (index_of (so_id r) songIds) 999)
                               (take m (filter (\<lambda>r. so_id r \<in> set songIds) (liveSongs S db))))))),
          db))"

section \<open>The library of songs\<close>

text \<open>
  What the application shows of the tables: each song that is not deleted, by identifier,
  with its blocks in order. The handlers are operations on this map.
\<close>

definition library :: "'db songDb \<Rightarrow> 'db \<Rightarrow> string \<rightharpoonup> importSong" where
  "library S db i =
     (case findSong S db i of
        None \<Rightarrow> None
      | Some r \<Rightarrow> if so_deletedAt r = None then Some (viewOf r (findBlocks S db (blocksOf i))) else None)"

text \<open>Block lists that the unique key admits, and the order in which they are read\<close>

definition ordersOk :: "songBlockPayload list \<Rightarrow> bool" where
  "ordersOk bs \<longleftrightarrow> distinct (map rb_order bs)"

definition inOrder :: "songBlockPayload list \<Rightarrow> songBlockPayload list" where
  "inOrder bs = sort_key rb_order bs"

lemma inOrder_unique:
  assumes "mset xs = mset bs" and "sorted_wrt (<) (map rb_order xs)"
  shows "xs = inOrder bs"
proof -
  have "inj_on rb_order (set bs)" "sorted (map rb_order xs)"
    using assms mset_eq_setD [OF assms(1)] by (simp_all add: strict_sorted_iff distinct_map)
  with assms(1) show ?thesis
    unfolding inOrder_def by (intro sort_key_inj_key_eq [symmetric]) simp_all
qed

lemma mset_insert_distinct:
  "distinct xs \<Longrightarrow> distinct ys \<Longrightarrow> x \<notin> set ys \<Longrightarrow> set xs = insert x (set ys) \<Longrightarrow>
     mset xs = add_mset x (mset ys)"
  by (metis distinct.simps(2) list.simps(15) mset.simps(2) set_eq_iff_mset_eq_distinct)

lemma blockPayload_new [simp]: "blockPayload ((newBlockRow i b)\<lparr>bl_id := k\<rparr>) = b"
  by (simp add: blockPayload_def newBlockRow_def)

lemma newBlockRow_simps [simp]:
  "bl_songId (newBlockRow i b) = i" "bl_order (newBlockRow i b) = rb_order b"
  by (simp_all add: newBlockRow_def)

abbreviation blockPayloads :: "'db songDb \<Rightarrow> 'db \<Rightarrow> string \<Rightarrow> songBlockPayload list" where
  "blockPayloads S db i \<equiv> map blockPayload (findBlocks S db (blocksOf i))"

text \<open>Songs added under new identifiers\<close>

definition addsSongs ::
  "(string \<rightharpoonup> importSong) \<Rightarrow> importSong list \<Rightarrow> (string \<rightharpoonup> importSong) \<Rightarrow> bool" where
  "addsSongs lib vs lib' \<longleftrightarrow>
     (\<exists>ids. distinct ids \<and> length ids = length vs \<and> set ids \<inter> dom lib = {}
        \<and> lib' = lib ++ map_of (zip ids vs))"

lemma addsSongs_Nil [simp]: "addsSongs lib [] lib"
  by (simp add: addsSongs_def)

lemma addsSongs_Cons:
  assumes "lib i = None" and "addsSongs (lib(i \<mapsto> v)) vs lib'"
  shows "addsSongs lib (v # vs) lib'"
proof -
  obtain ids where ids: "distinct ids" "length ids = length vs" "set ids \<inter> dom (lib(i \<mapsto> v)) = {}"
      "lib' = lib(i \<mapsto> v) ++ map_of (zip ids vs)"
    using assms(2) by (auto simp: addsSongs_def)
  then have "i \<notin> set ids" "i \<notin> dom (map_of (zip ids vs))"
    by (auto dest!: map_of_SomeD set_zip_leftD)
  then show ?thesis
    unfolding addsSongs_def using ids assms(1)
    by (intro exI [of _ "i # ids"]) (auto simp: map_add_upd_left)
qed

text \<open>The handlers as operations on the library\<close>

definition metaOf :: "songUpdateMetaPayload \<Rightarrow> importSong \<Rightarrow> importSong" where
  "metaOf p s = s\<lparr>im_title := su_title p, im_artist := orOption (su_artist p) (im_artist s),
     im_album := orOption (su_album p) (im_album s), im_year := orOption (su_year p) (im_year s)\<rparr>"

definition editSong ::
  "string \<Rightarrow> (importSong \<Rightarrow> importSong) \<Rightarrow> (string \<rightharpoonup> importSong) \<Rightarrow> string \<rightharpoonup> importSong" where
  "editSong i f lib = lib(i := map_option f (lib i))"

lemma inOrder_initial: "inOrder initialBlocks = initialBlocks" "ordersOk initialBlocks"
  by (simp_all add: inOrder_def initialBlocks_def ordersOk_def block_def)

context song_store
begin

lemma payload_orders: "ok db \<Longrightarrow> map rb_order (blockPayloads S db i) = map bl_order (findBlocks S db (blocksOf i))"
  by (simp add: blockPayload_def)

lemma payloads_strict: "ok db \<Longrightarrow> sorted_wrt (<) (map rb_order (blockPayloads S db i))"
  by (simp only: payload_orders block_orders)

lemma slot_in_payloads:
  assumes "ok db"
  shows "(\<exists>j c. blocks db j = Some c \<and> sameBlockSlot (newBlockRow i b) c)
           \<longleftrightarrow> rb_order b \<in> set (map rb_order (blockPayloads S db i))"
  using block_mem [OF assms] block_key [OF assms]
  by (auto simp: sameBlockSlot_def payload_orders [OF assms] simp del: map_map) (metis+)

lemma createBlock_payloads:
  assumes "ok db" and "i \<in> dom (rows db)" and "rb_order b \<notin> set (map rb_order (blockPayloads S db i))"
  shows "\<exists>db'. createBlock S db (newBlockRow i b) = Inr db' \<and> ok db' \<and> rows db' = rows db
           \<and> mset (blockPayloads S db' i) = add_mset b (mset (blockPayloads S db i))
           \<and> (\<forall>j. j \<noteq> i \<longrightarrow> blockPayloads S db' j = blockPayloads S db j)"
proof -
  have "\<not> sameBlockSlot (newBlockRow i b) c" if "blocks db j = Some c" for j c
    using slot_in_payloads [OF assms(1)] assms(3) that by blast
  then obtain k db' where k: "createBlock S db (newBlockRow i b) = Inr db'" "k \<notin> dom (blocks db)"
      "blocks db' = (blocks db)(k \<mapsto> (newBlockRow i b)\<lparr>bl_id := k\<rparr>)" "rows db' = rows db" "ok db'"
    using create_block [OF assms(1), of "newBlockRow i b"] assms(2) by auto
  let ?c = "(newBlockRow i b)\<lparr>bl_id := k\<rparr>"
  have ran: "ran (blocks db') = insert ?c (ran (blocks db))"
    using k(2,3) by (auto simp: ran_def)
  have new: "?c \<notin> ran (blocks db)"
    using k(2) block_key [OF assms(1)] by (force simp: ran_def)
  have sets: "set (findBlocks S db' (blocksOf i)) = insert ?c (set (findBlocks S db (blocksOf i)))"
    by (auto simp: find_blocks_set k(5) assms(1) ran)
  have "mset (findBlocks S db' (blocksOf i)) = add_mset ?c (mset (findBlocks S db (blocksOf i)))"
    using sets new find_blocks_distinct [OF k(5)] find_blocks_distinct [OF assms(1)]
    by (intro mset_insert_distinct) (simp_all add: find_blocks_set assms(1))
  then have "mset (blockPayloads S db' i) = add_mset b (mset (blockPayloads S db i))"
    by simp
  moreover have "blockPayloads S db' j = blockPayloads S db j" if "j \<noteq> i" for j
    using that by (intro arg_cong [of _ _ "map blockPayload"] find_blocks_cong [OF k(5) assms(1)])
      (auto simp: ran)
  ultimately show ?thesis
    using k by blast
qed

lemma createBlocks_succeeds:
  assumes "ok db" and "i \<in> dom (rows db)" and "ordersOk bs"
    and "set (map rb_order bs) \<inter> set (map rb_order (blockPayloads S db i)) = {}"
  shows "\<exists>db'. createBlocks S i bs db = Inr db' \<and> ok db' \<and> rows db' = rows db
           \<and> mset (blockPayloads S db' i) = mset (blockPayloads S db i) + mset bs
           \<and> (\<forall>j. j \<noteq> i \<longrightarrow> blockPayloads S db' j = blockPayloads S db j)"
  using assms
proof (induction bs arbitrary: db)
  case (Cons b bs)
  then have "rb_order b \<notin> set (map rb_order (blockPayloads S db i))"
    by auto
  then obtain db1 where db1: "createBlock S db (newBlockRow i b) = Inr db1" "ok db1"
      "rows db1 = rows db" "mset (blockPayloads S db1 i) = add_mset b (mset (blockPayloads S db i))"
      "\<forall>j. j \<noteq> i \<longrightarrow> blockPayloads S db1 j = blockPayloads S db j"
    using createBlock_payloads [OF Cons.prems(1,2)] by blast
  have "set (map rb_order (blockPayloads S db1 i)) = insert (rb_order b) (set (map rb_order (blockPayloads S db i)))"
    using arg_cong [OF db1(4), of set_mset] by (simp only: set_map set_mset_mset) simp
  then have "set (map rb_order bs) \<inter> set (map rb_order (blockPayloads S db1 i)) = {}" "ordersOk bs"
    using Cons.prems(3,4) by (auto simp: ordersOk_def)
  then obtain db2 where "createBlocks S i bs db1 = Inr db2" "ok db2" "rows db2 = rows db1"
      "mset (blockPayloads S db2 i) = mset (blockPayloads S db1 i) + mset bs"
      "\<forall>j. j \<noteq> i \<longrightarrow> blockPayloads S db2 j = blockPayloads S db1 j"
    using Cons.IH [of db1] Cons.prems(2) db1(2,3) by auto
  with db1 show ?case by simp
qed simp

lemma createBlocks_clashes:
  assumes "ok db" and "i \<in> dom (rows db)"
    and "\<not> (ordersOk bs \<and> set (map rb_order bs) \<inter> set (map rb_order (blockPayloads S db i)) = {})"
  shows "createBlocks S i bs db = Inl (Prisma P2002)"
  using assms
proof (induction bs arbitrary: db)
  case (Cons b bs)
  show ?case
  proof (cases "rb_order b \<in> set (map rb_order (blockPayloads S db i))")
    case True
    then show ?thesis
      using slot_in_payloads [OF Cons.prems(1), of i b] create_block_taken [OF Cons.prems(1)]
      by fastforce
  next
    case False
    then obtain db1 where db1: "createBlock S db (newBlockRow i b) = Inr db1" "ok db1"
        "rows db1 = rows db" "mset (blockPayloads S db1 i) = add_mset b (mset (blockPayloads S db i))"
      using createBlock_payloads [OF Cons.prems(1,2)] by blast
    have "set (map rb_order (blockPayloads S db1 i)) = insert (rb_order b) (set (map rb_order (blockPayloads S db i)))"
      using arg_cong [OF db1(4), of set_mset] by (simp only: set_map set_mset_mset) simp
    then have "\<not> (ordersOk bs \<and> set (map rb_order bs) \<inter> set (map rb_order (blockPayloads S db1 i)) = {})"
      using Cons.prems(3) False by (auto simp: ordersOk_def)
    then show ?thesis
      using Cons.IH [OF db1(2)] Cons.prems(2) db1 by simp
  qed
qed (simp add: ordersOk_def)

text \<open>Into a song without blocks, a block list goes as a whole or not at all.\<close>

lemma createBlocks_fresh:
  assumes "ok db" and "i \<in> dom (rows db)" and "findBlocks S db (blocksOf i) = []"
  shows "if ordersOk bs
         then \<exists>db'. createBlocks S i bs db = Inr db' \<and> ok db' \<and> rows db' = rows db
                \<and> blockPayloads S db' i = inOrder bs
                \<and> (\<forall>j. j \<noteq> i \<longrightarrow> blockPayloads S db' j = blockPayloads S db j)
         else createBlocks S i bs db = Inl (Prisma P2002)"
proof (cases "ordersOk bs")
  case True
  then obtain db' where db': "createBlocks S i bs db = Inr db'" "ok db'" "rows db' = rows db"
      "mset (blockPayloads S db' i) = mset bs"
      "\<forall>j. j \<noteq> i \<longrightarrow> blockPayloads S db' j = blockPayloads S db j"
    using createBlocks_succeeds [OF assms(1,2), of bs] assms(3) by auto
  then have "blockPayloads S db' i = inOrder bs"
    using payloads_strict by (intro inOrder_unique)
  with db' True show ?thesis by auto
next
  case False
  then show ?thesis
    using createBlocks_clashes [OF assms(1,2), of bs] by simp
qed

lemma new_song_no_blocks:
  assumes "ok db" and "i \<notin> dom (rows db)" and "ok db'" and "blocks db' = blocks db"
  shows "findBlocks S db' (blocksOf i) = []"
proof -
  have "b \<notin> set (findBlocks S db' (blocksOf i))" for b
    using block_mem [OF assms(3)] block_ref [OF assms(1)] assms(2,4) by auto
  then show ?thesis
    by (metis list.set_intros(1) neq_Nil_conv)
qed

lemma library_rows:
  assumes "ok db"
  shows "library S db i = (case rows db i of
           None \<Rightarrow> None
         | Some r \<Rightarrow> if so_deletedAt r = None then Some ((viewOf r [])\<lparr>im_blocks := blockPayloads S db i\<rparr>)
                     else None)"
  by (simp add: library_def find_song assms viewOf_def split: option.splits)

text \<open>The creation of a song with its blocks, for every caller\<close>

lemma createSongAndBlocks_result:
  assumes "ok db"
  shows "if ordersOk (im_blocks s)
         then \<exists>r db'. createSongAndBlocks S s db = Inr (r, db') \<and> ok db' \<and> so_id r \<notin> dom (rows db)
                \<and> so_deletedAt r = None \<and> findSong S db' (so_id r) = Some r
                \<and> rows db' = (rows db)(so_id r \<mapsto> r)
                \<and> library S db' = (library S db)(so_id r \<mapsto> s\<lparr>im_blocks := inOrder (im_blocks s)\<rparr>)
         else createSongAndBlocks S s db = Inl (Prisma P2002)"
proof -
  obtain i c u db1 where db1: "createSong S db (newSongRow s)
        = ((newSongRow s)\<lparr>so_id := i, so_createdAt := c, so_updatedAt := u\<rparr>, db1)"
      "i \<notin> dom (rows db)" "blocks db1 = blocks db" "ok db1"
      "rows db1 = (rows db)(i \<mapsto> (newSongRow s)\<lparr>so_id := i, so_createdAt := c, so_updatedAt := u\<rparr>)"
    using create_song [OF assms] by blast
  let ?r = "(newSongRow s)\<lparr>so_id := i, so_createdAt := c, so_updatedAt := u\<rparr>"
  have empty: "findBlocks S db1 (blocksOf i) = []"
    using new_song_no_blocks [OF assms db1(2,4,3)] .
  have old: "blockPayloads S db1 j = blockPayloads S db j" for j
    by (intro arg_cong [of _ _ "map blockPayload"] find_blocks_cong [OF db1(4) assms]) (simp add: db1(3))
  show ?thesis
  proof (cases "ordersOk (im_blocks s)")
    case True
    then obtain db2 where db2: "createBlocks S i (im_blocks s) db1 = Inr db2" "ok db2"
        "rows db2 = rows db1" "blockPayloads S db2 i = inOrder (im_blocks s)"
        "\<forall>j. j \<noteq> i \<longrightarrow> blockPayloads S db2 j = blockPayloads S db1 j"
      using createBlocks_fresh [OF db1(4) _ empty, of "im_blocks s"] db1(5) by auto
    have "library S db2 = (library S db)(i \<mapsto> s\<lparr>im_blocks := inOrder (im_blocks s)\<rparr>)"
    proof
      fix j
      show "library S db2 j = ((library S db)(i \<mapsto> s\<lparr>im_blocks := inOrder (im_blocks s)\<rparr>)) j"
        using db2(4,5) old [of j]
        by (simp add: library_rows assms db2(2,3) db1(5) viewOf_def newSongRow_def
            split: option.split)
    qed
    moreover have "createSongAndBlocks S s db = Inr (?r, db2)"
      by (simp add: createSongAndBlocks_def db1(1) db2(1))
    ultimately show ?thesis
      using True db1(2) db2(2,3) db1(5)
      by (intro if_P [THEN iffD2] exI [of _ ?r] exI [of _ db2])
        (simp_all add: newSongRow_def find_song)
  next
    case False
    then show ?thesis
      using createBlocks_fresh [OF db1(4) _ empty, of "im_blocks s"] db1(5)
      by (simp add: createSongAndBlocks_def db1(1))
  qed
qed

lemma songWithBlocks_library:
  "ok db \<Longrightarrow> rows db i = Some r \<Longrightarrow> so_deletedAt r = None \<Longrightarrow>
     songWithBlocks S db i = Some (r, findBlocks S db (blocksOf i))
     \<and> library S db i = Some (viewOf r (findBlocks S db (blocksOf i)))"
  by (simp add: songWithBlocks_def find_song library_def)

lemma songsCreate_result:
  assumes "ok db" and "parseSongCreatePayload raw = Inr p"
  shows "\<exists>r bs db'. songsCreate S dirFn raw (db, files)
             = (Inr (r, bs), db', writeSongJsonAutoSync dirFn (r, bs) files)
           \<and> ok db' \<and> so_id r \<notin> dom (rows db) \<and> viewOf r bs = createdSong p
           \<and> library S db' = (library S db)(so_id r \<mapsto> createdSong p)"
proof -
  have same: "(createdSong p)\<lparr>im_blocks := inOrder (im_blocks (createdSong p))\<rparr> = createdSong p"
    "ordersOk (im_blocks (createdSong p))"
    by (simp_all add: createdSong_def inOrder_initial)
  obtain r db' where r: "createSongAndBlocks S (createdSong p) db = Inr (r, db')" "ok db'"
      "so_id r \<notin> dom (rows db)" "so_deletedAt r = None" "findSong S db' (so_id r) = Some r"
      "library S db' = (library S db)(so_id r \<mapsto> createdSong p)"
    using createSongAndBlocks_result [OF assms(1), of "createdSong p"] same by auto
  have "library S db' (so_id r) = Some (viewOf r (findBlocks S db' (blocksOf (so_id r))))"
    using r(4,5) by (simp add: library_def)
  then have "viewOf r (findBlocks S db' (blocksOf (so_id r))) = createdSong p"
    by (simp add: r(6))
  with r show ?thesis
    by (intro exI [of _ r] exI [of _ "findBlocks S db' (blocksOf (so_id r))"] exI [of _ db'])
      (simp add: songsCreate_def assms(2))
qed

text \<open>A change of one row whose blocks stay\<close>

lemma updateSong_library:
  assumes "ok db" and "rows db i = Some r" and "keepsSongId f"
  shows "\<exists>u db'. updateSong S db i f = Inr db' \<and> ok db' \<and> rows db' = (rows db)(i \<mapsto> (f r)\<lparr>so_updatedAt := u\<rparr>)
           \<and> (\<forall>j. findBlocks S db' (blocksOf j) = findBlocks S db (blocksOf j))
           \<and> library S db' = (library S db)(i :=
                if so_deletedAt (f r) = None then Some (viewOf (f r) (findBlocks S db (blocksOf i))) else None)"
proof -
  obtain u db' where u: "updateSong S db i f = Inr db'" "ok db'"
      "rows db' = (rows db)(i \<mapsto> (f r)\<lparr>so_updatedAt := u\<rparr>)" "blocks db' = blocks db"
    using update_song [OF assms] by blast
  have same: "findBlocks S db' (blocksOf j) = findBlocks S db (blocksOf j)" for j
    using u(2,4) assms(1) by (intro find_blocks_cong) simp_all
  have "library S db' = (library S db)(i :=
      if so_deletedAt (f r) = None then Some (viewOf (f r) (findBlocks S db (blocksOf i))) else None)"
    by (rule ext) (simp add: library_def find_song u(2,3) assms(1) same viewOf_def split: option.split)
  with u same show ?thesis by blast
qed

lemma songsUpdateMeta_result:
  assumes "ok db" and "parseSongUpdateMetaPayload raw = Inr p" and "rows db (su_id p) = Some r"
  shows "\<exists>r' db'. songsUpdateMeta S dirFn raw (db, files)
             = (Inr (Some (r', findBlocks S db (blocksOf (su_id p)))), db',
                writeSongJsonAutoSync dirFn (r', findBlocks S db (blocksOf (su_id p))) files)
           \<and> ok db' \<and> so_id r' = su_id p \<and> so_deletedAt r' = so_deletedAt r
           \<and> viewOf r' = metaOf p \<circ> viewOf r
           \<and> library S db' = editSong (su_id p) (metaOf p) (library S db)"
proof -
  have "keepsSongId (applyMeta p)"
    by (simp add: keepsSongId_def applyMeta_def)
  then obtain u db' where u: "updateSong S db (su_id p) (applyMeta p) = Inr db'" "ok db'"
      "rows db' = (rows db)(su_id p \<mapsto> (applyMeta p r)\<lparr>so_updatedAt := u\<rparr>)"
      "\<forall>j. findBlocks S db' (blocksOf j) = findBlocks S db (blocksOf j)"
      "library S db' = (library S db)(su_id p :=
         if so_deletedAt (applyMeta p r) = None
         then Some (viewOf (applyMeta p r) (findBlocks S db (blocksOf (su_id p)))) else None)"
    using updateSong_library [OF assms(1,3)] by blast
  have view: "viewOf ((applyMeta p r)\<lparr>so_updatedAt := u\<rparr>) = metaOf p \<circ> viewOf r"
    by (simp add: fun_eq_iff viewOf_def applyMeta_def metaOf_def)
  have meta: "so_deletedAt (applyMeta p r) = so_deletedAt r"
    "viewOf (applyMeta p r) bs = metaOf p (viewOf r bs)" for bs
    by (simp_all add: viewOf_def applyMeta_def metaOf_def)
  have "library S db' = editSong (su_id p) (metaOf p) (library S db)"
    using assms(1,3) by (simp add: u(5) editSong_def meta library_def find_song)
  moreover have "so_id ((applyMeta p r)\<lparr>so_updatedAt := u\<rparr>) = su_id p"
    using song_key [OF assms(1,3)] by (simp add: applyMeta_def)
  ultimately show ?thesis
    using u view meta(1)
    by (intro exI [of _ "(applyMeta p r)\<lparr>so_updatedAt := u\<rparr>"] exI [of _ db'])
      (simp add: songsUpdateMeta_def assms(2) songWithBlocks_def find_song)
qed

lemma songsUpdateMeta_missing:
  assumes "ok db" and "parseSongUpdateMetaPayload raw = Inr p" and "rows db (su_id p) = None"
  shows "songsUpdateMeta S dirFn raw (db, files) = (Inl (Prisma P2025), db, files)"
  using assms by (simp add: songsUpdateMeta_def update_song_missing)

lemma songsReplaceBlocks_result:
  assumes "ok db" and "parseSongReplaceBlocksPayload raw = Inr (i, bs)" and "rows db i = Some r"
  shows "if ordersOk bs
         then \<exists>cs db'. songsReplaceBlocks S dirFn raw (db, files)
                = (Inr (Some (r, cs)), db', writeSongJsonAutoSync dirFn (r, cs) files)
              \<and> ok db' \<and> map blockPayload cs = inOrder bs
              \<and> library S db' = editSong i (\<lambda>s. s\<lparr>im_blocks := inOrder bs\<rparr>) (library S db)
         else songsReplaceBlocks S dirFn raw (db, files) = (Inl (Prisma P2002), db, files)"
proof -
  let ?db = "deleteBlocks S db (blocksOf i)"
  have del: "rows ?db = rows db" "ok ?db"
    "blocks ?db = (\<lambda>j. case blocks db j of None \<Rightarrow> None | Some b \<Rightarrow> if bl_songId b = i then None else Some b)"
    using delete_blocks [OF assms(1), of "blocksOf i"] by simp_all
  have ran: "b \<in> ran (blocks ?db) \<longleftrightarrow> b \<in> ran (blocks db) \<and> bl_songId b \<noteq> i" for b
    by (auto simp: ran_def del(3) split: option.splits if_splits)
  have "set (findBlocks S ?db (blocksOf i)) = {}"
    by (auto simp: find_blocks_set del(2) ran)
  then have empty: "findBlocks S ?db (blocksOf i) = []" by simp
  have others: "findBlocks S ?db (blocksOf j) = findBlocks S db (blocksOf j)" if "j \<noteq> i" for j
    using that by (intro find_blocks_cong del(2) assms(1)) (auto simp: ran)
  show ?thesis
  proof (cases "ordersOk bs")
    case True
    then obtain db' where db': "createBlocks S i bs ?db = Inr db'" "ok db'" "rows db' = rows db"
        "blockPayloads S db' i = inOrder bs"
        "\<forall>j. j \<noteq> i \<longrightarrow> blockPayloads S db' j = blockPayloads S ?db j"
      using createBlocks_fresh [OF del(2) _ empty, of bs] assms(3) by (auto simp: del(1))
    have "library S db' = editSong i (\<lambda>s. s\<lparr>im_blocks := inOrder bs\<rparr>) (library S db)"
      using db'(4,5) others
      by (auto simp: fun_eq_iff library_rows db'(2,3) assms(1,3) editSong_def viewOf_def split: option.split)
    with True db' show ?thesis
      by (simp add: songsReplaceBlocks_def assms(2,3) songWithBlocks_def find_song)
  next
    case False
    moreover have "i \<in> dom (rows ?db)"
      using assms(3) by (auto simp: del(1))
    ultimately show ?thesis
      using createBlocks_fresh [OF del(2) _ empty, of bs]
      by (simp add: songsReplaceBlocks_def assms(2))
  qed
qed

lemma songsDelete_result:
  assumes "ok db" and "parseNonEmptyString raw ''songs:delete.id'' = Inr i" and "rows db i = Some r"
  shows "\<exists>db'. songsDelete S dirFn now raw (db, files)
             = (Inr (), db', deleteSongJsonAutoSync dirFn i files)
           \<and> ok db' \<and> library S db' = (library S db)(i := None)"
  using updateSong_library [OF assms(1,3), of "\<lambda>r. r\<lparr>so_deletedAt := Some now\<rparr>"]
  by (auto simp: keepsSongId_def songsDelete_def assms(2))

lemma songsReplaceBlocks_missing:
  assumes "ok db" and "parseSongReplaceBlocksPayload raw = Inr (i, bs)" and "rows db i = None"
  shows "\<exists>db' res. songsReplaceBlocks S dirFn raw (db, files) = (res, db', files)
           \<and> ok db' \<and> library S db' = library S db"
proof -
  let ?db = "deleteBlocks S db (blocksOf i)"
  have del: "rows ?db = rows db" "ok ?db"
    "blocks ?db = (\<lambda>j. case blocks db j of None \<Rightarrow> None | Some b \<Rightarrow> if bl_songId b = i then None else Some b)"
    using delete_blocks [OF assms(1), of "blocksOf i"] by simp_all
  have "findBlocks S ?db (blocksOf j) = findBlocks S db (blocksOf j)" if "j \<noteq> i" for j
    using that
    by (intro find_blocks_cong del(2) assms(1))
      (auto simp: del(3) ran_def split: option.splits if_splits)
  then have lib: "library S ?db j = library S db j" for j
    using assms(3) by (cases "j = i") (simp_all add: library_rows del(1,2) assms(1) split: option.split)
  show ?thesis
  proof (cases bs)
    case Nil
    with lib del assms show ?thesis
      by (simp add: songsReplaceBlocks_def songWithBlocks_def find_song fun_eq_iff)
  next
    case (Cons b cs)
    then have "createBlocks S i bs ?db = Inl (Prisma P2003)"
      using create_block_dangling [OF del(2), of "newBlockRow i b"] assms(3)
      by (simp add: del(1) domIff)
    with assms(1,2) show ?thesis
      by (simp add: songsReplaceBlocks_def)
  qed
qed

lemma songsDelete_missing:
  assumes "ok db" and "parseNonEmptyString raw ''songs:delete.id'' = Inr i" and "rows db i = None"
  shows "songsDelete S dirFn now raw (db, files) = (Inl (Prisma P2025), db, files)"
  using assms by (simp add: songsDelete_def update_song_missing)

lemma library_missing: "ok db \<Longrightarrow> rows db i = None \<Longrightarrow> library S db i = None"
  by (simp add: library_def find_song)

lemma editSong_missing: "ok db \<Longrightarrow> rows db i = None \<Longrightarrow> editSong i f (library S db) = library S db"
  by (simp add: editSong_def library_missing fun_upd_idem)

lemma handlers_refine:
  assumes "ok db"
  shows "parseSongCreatePayload raw = Inr p \<Longrightarrow>
      \<exists>i. library S db i = None \<and>
        library S (fst (snd (songsCreate S dirFn raw (db, files)))) = (library S db)(i \<mapsto> createdSong p)"
    and "parseSongUpdateMetaPayload raw = Inr q \<Longrightarrow>
      library S (fst (snd (songsUpdateMeta S dirFn raw (db, files))))
        = editSong (su_id q) (metaOf q) (library S db)"
    and "parseSongReplaceBlocksPayload raw = Inr (i, bs) \<Longrightarrow>
      library S (fst (snd (songsReplaceBlocks S dirFn raw (db, files))))
        = (if ordersOk bs then editSong i (\<lambda>s. s\<lparr>im_blocks := inOrder bs\<rparr>) (library S db) else library S db)"
    and "parseNonEmptyString raw ''songs:delete.id'' = Inr i \<Longrightarrow>
      library S (fst (snd (songsDelete S dirFn now raw (db, files)))) = (library S db)(i := None)"
proof -
  show "\<exists>i. library S db i = None \<and>
        library S (fst (snd (songsCreate S dirFn raw (db, files)))) = (library S db)(i \<mapsto> createdSong p)"
    if "parseSongCreatePayload raw = Inr p"
    using songsCreate_result [OF assms that, of dirFn files] library_missing [OF assms]
    by (fastforce simp: domIff)
  show "library S (fst (snd (songsUpdateMeta S dirFn raw (db, files))))
        = editSong (su_id q) (metaOf q) (library S db)" if "parseSongUpdateMetaPayload raw = Inr q"
    using songsUpdateMeta_result [OF assms that, of _ dirFn files]
      songsUpdateMeta_missing [OF assms that, of dirFn files] editSong_missing [OF assms]
    by (cases "rows db (su_id q)") auto
  show "library S (fst (snd (songsReplaceBlocks S dirFn raw (db, files))))
        = (if ordersOk bs then editSong i (\<lambda>s. s\<lparr>im_blocks := inOrder bs\<rparr>) (library S db) else library S db)"
    if "parseSongReplaceBlocksPayload raw = Inr (i, bs)"
    using songsReplaceBlocks_result [OF assms that, of _ dirFn files]
      songsReplaceBlocks_missing [OF assms that, of dirFn files] editSong_missing [OF assms]
    by (cases "rows db i") (auto split: if_splits)
  show "library S (fst (snd (songsDelete S dirFn now raw (db, files)))) = (library S db)(i := None)"
    if "parseNonEmptyString raw ''songs:delete.id'' = Inr i"
    using songsDelete_result [OF assms that, of _ dirFn now files]
      songsDelete_missing [OF assms that, of dirFn now files] library_missing [OF assms]
    by (cases "rows db i") (auto simp: fun_upd_idem)
qed

end

section \<open>The folder follows the library\<close>

text \<open>Each song has its file, and there is no other; all below a directory \<open>dir\<close>.\<close>

definition mirrored :: "'db songDb \<Rightarrow> string \<Rightarrow> 'db \<times> jsonFolder \<Rightarrow> bool" where
  "mirrored S dir s \<longleftrightarrow> dir \<noteq> []
     \<and> (\<forall>i. snd s (songPath dir i) = map_option songFileJson (library S (fst s) i))"

text \<open>
  Steps of the handlers with any payload, where metadata and blocks are edited of songs that
  are not deleted.
\<close>

inductive songStep ::
  "'db songDb \<Rightarrow> string \<Rightarrow> 'db \<times> jsonFolder \<Rightarrow> 'db \<times> jsonFolder \<Rightarrow> bool"
  for S dir where
  step_create: "songStep S dir s (snd (songsCreate S (Some dir) raw s))"
| step_update: "(\<forall>p. parseSongUpdateMetaPayload raw = Inr p \<longrightarrow> library S (fst s) (su_id p) \<noteq> None) \<Longrightarrow>
    songStep S dir s (snd (songsUpdateMeta S (Some dir) raw s))"
| step_replace: "(\<forall>i bs. parseSongReplaceBlocksPayload raw = Inr (i, bs) \<longrightarrow> library S (fst s) i \<noteq> None) \<Longrightarrow>
    songStep S dir s (snd (songsReplaceBlocks S (Some dir) raw s))"
| step_delete: "songStep S dir s (snd (songsDelete S (Some dir) now raw s))"

lemma songPath_inj [simp]: "songPath dir i = songPath dir j \<longleftrightarrow> i = j"
  by (simp add: songPath_def)

lemma write_mirrored:
  assumes "mirrored S dir (db, files)" and "library S db' = (library S db)(so_id r \<mapsto> viewOf r bs)"
  shows "mirrored S dir (db', writeSongJsonAutoSync (Some dir) (r, bs) files)"
  using assms by (cases dir) (auto simp: mirrored_def writeSongJsonAutoSync_def)

lemma delete_mirrored:
  assumes "mirrored S dir (db, files)" and "library S db' = (library S db)(i := None)"
  shows "mirrored S dir (db', deleteSongJsonAutoSync (Some dir) i files)"
  using assms by (cases dir) (auto simp: mirrored_def deleteSongJsonAutoSync_def)

context song_store
begin

lemma step_mirrored:
  assumes "songStep S dir s s'" and "ok (fst s)" and "mirrored S dir s"
  shows "ok (fst s') \<and> mirrored S dir s'"
proof -
  obtain db files where s: "s = (db, files)" by (cases s)
  note ok = assms(2) [unfolded s fst_conv] and mir = assms(3) [unfolded s]
  have stays: "mirrored S dir (db', files)" if "library S db' = library S db" for db'
    using mir that by (simp add: mirrored_def)
  from assms(1) show ?thesis
  proof cases
    case (step_create raw)
    then show ?thesis
    proof (cases "parseSongCreatePayload raw")
      case (Inr p)
      then show ?thesis
        using songsCreate_result [OF ok Inr, of "Some dir" files] step_create
          write_mirrored [OF mir] by (auto simp: s)
    qed (use assms in \<open>simp add: songsCreate_def\<close>)
  next
    case (step_update raw)
    then show ?thesis
    proof (cases "parseSongUpdateMetaPayload raw")
      case (Inr p)
      then obtain r where r: "rows db (su_id p) = Some r" "so_deletedAt r = None"
        using step_update(2) by (auto simp: s library_rows ok split: option.splits if_splits)
      obtain r' db' where u: "songsUpdateMeta S (Some dir) raw (db, files)
             = (Inr (Some (r', findBlocks S db (blocksOf (su_id p)))), db',
                writeSongJsonAutoSync (Some dir) (r', findBlocks S db (blocksOf (su_id p))) files)"
          "ok db'" "so_id r' = su_id p" "viewOf r' = metaOf p \<circ> viewOf r"
          "library S db' = editSong (su_id p) (metaOf p) (library S db)"
        using songsUpdateMeta_result [OF ok Inr r(1)] by blast
      have "library S db' = (library S db)(so_id r' \<mapsto> viewOf r' (findBlocks S db (blocksOf (su_id p))))"
        using r by (simp add: u(3,4,5) editSong_def library_def find_song ok)
      from write_mirrored [OF mir this] show ?thesis
        using u(1,2) step_update(1) by (simp add: s)
    qed (use assms in \<open>simp add: songsUpdateMeta_def s\<close>)
  next
    case (step_replace raw)
    then show ?thesis
    proof (cases "parseSongReplaceBlocksPayload raw")
      case (Inr p)
      obtain i bs where p: "p = (i, bs)" by (cases p)
      note parsed = Inr [unfolded p]
      obtain r where r: "rows db i = Some r" "so_deletedAt r = None"
        using step_replace(2) parsed by (auto simp: s library_rows ok split: option.splits if_splits)
      show ?thesis
      proof (cases "ordersOk bs")
        case True
        obtain cs db' where u: "songsReplaceBlocks S (Some dir) raw (db, files)
              = (Inr (Some (r, cs)), db', writeSongJsonAutoSync (Some dir) (r, cs) files)" "ok db'"
            "map blockPayload cs = inOrder bs"
            "library S db' = editSong i (\<lambda>s. s\<lparr>im_blocks := inOrder bs\<rparr>) (library S db)"
          using songsReplaceBlocks_result [OF ok parsed r(1), of "Some dir" files] True by auto
        have "library S db' = (library S db)(so_id r \<mapsto> viewOf r cs)"
          using r song_key [OF ok r(1)]
          by (simp add: u(3,4) editSong_def library_def find_song ok viewOf_def)
        from write_mirrored [OF mir this] show ?thesis
          using u(1,2) step_replace(1) by (simp add: s)
      next
        case False
        then show ?thesis
          using songsReplaceBlocks_result [OF ok parsed r(1), of "Some dir" files] assms step_replace(1)
          by (simp add: s)
      qed
    qed (use assms in \<open>simp add: songsReplaceBlocks_def s\<close>)
  next
    case (step_delete now raw)
    then show ?thesis
    proof (cases "parseNonEmptyString raw ''songs:delete.id''")
      case (Inr i)
      then show ?thesis
        using songsDelete_result [OF ok Inr, of _ "Some dir" now files] assms step_delete
          songsDelete_missing [OF ok Inr, of "Some dir" now files] delete_mirrored [OF mir]
        by (cases "rows db i") (fastforce simp: s)+
    qed (use assms in \<open>simp add: songsDelete_def\<close>)
  qed
qed

end

section \<open>Properties\<close>

text \<open>
  C3: The handlers of songs implement operations on the library, the map from identifiers to
  the songs that are not deleted with their blocks in order: creating adds the song with its
  two first blocks under a new identifier, an update of the metadata and a replacement of the
  blocks edit that song only, a block list with two equal orders changes nothing, and deleting
  removes the song.
\<close>
theorem song_handlers_refine_library:
  assumes "song_store S rows blocks ok" and "ok db"
    and "parseSongCreatePayload raw1 = Inr p" and "parseSongUpdateMetaPayload raw2 = Inr q"
    and "parseSongReplaceBlocksPayload raw3 = Inr (i, bs)"
    and "parseNonEmptyString raw4 ''songs:delete.id'' = Inr j"
  shows "(\<exists>n. library S db n = None \<and>
        library S (fst (snd (songsCreate S dirFn raw1 (db, files)))) = (library S db)(n \<mapsto> createdSong p))
    \<and> library S (fst (snd (songsUpdateMeta S dirFn raw2 (db, files))))
        = editSong (su_id q) (metaOf q) (library S db)
    \<and> library S (fst (snd (songsReplaceBlocks S dirFn raw3 (db, files))))
        = (if ordersOk bs then editSong i (\<lambda>s. s\<lparr>im_blocks := inOrder bs\<rparr>) (library S db) else library S db)
    \<and> library S (fst (snd (songsDelete S dirFn now raw4 (db, files)))) = (library S db)(j := None)"
  using song_store.handlers_refine [OF assms(1,2)] assms(3-6) by blast

definition emptyChurch :: churchTables where
  "emptyChurch = \<lparr>ch_plans = \<lparr>tb_planRows = [], tb_itemRows = [], tb_songIds = [], tb_next = 0\<rparr>,
     ch_songs = [], ch_blocks = [], ch_next = 0\<rparr>"

definition graceSong :: songRow where
  "graceSong = \<lparr>so_id = ''0'', so_title = ''Grace'', so_artist = Some ''J N'', so_album = None,
     so_year = None, so_language = None, so_tags = None, so_deletedAt = None, so_createdAt = 0,
     so_updatedAt = 0\<rparr>"

definition graceChurch :: churchTables where
  "graceChurch = emptyChurch\<lparr>ch_songs := [graceSong],
     ch_plans := (ch_plans emptyChurch)\<lparr>tb_songIds := [''0'']\<rparr>,
     ch_blocks := [\<lparr>bl_id = ''1'', bl_songId = ''0'', bl_order = 1, bl_type = ''VERSE'',
                    bl_title = None, bl_content = ''la''\<rparr>], ch_next := 2\<rparr>"

lemma sampleChurch_ids: "usedIds 2 = {''0'', ''1''}"
proof -
  have "map show_nat [0, 1] = [''0'', ''1'']"
    by code_simp
  then show ?thesis by (auto simp: usedIds_def numeral_2_eq_2 lessThan_Suc)
qed

lemma sampleChurch_ok: "churchOk emptyChurch" "churchOk graceChurch"
  by (simp_all add: emptyChurch_def graceChurch_def graceSong_def tablesOk_def songTablesOk_def
      sampleChurch_ids tb_songs_def)

lemma sample_payloads:
  "parseSongCreatePayload (JObj [(''title'', JStr ''Hosanna'')])
     = Inr \<lparr>sc_title = ''Hosanna'', sc_artist = None, sc_album = None, sc_year = None\<rparr>"
  "parseSongUpdateMetaPayload (JObj [(''id'', JStr ''0''), (''title'', JStr ''Grace 2'')])
     = Inr \<lparr>su_id = ''0'', su_title = ''Grace 2'', su_artist = None, su_album = None, su_year = None\<rparr>"
  "parseSongReplaceBlocksPayload (JObj [(''songId'', JStr ''0''), (''blocks'', JArr [])]) = Inr (''0'', [])"
  "parseNonEmptyString (JStr ''0'') ''songs:delete.id'' = Inr ''0''"
  by code_simp+

lemma song_handlers_refine_library_witness:
  "library churchSongs (fst (snd (songsUpdateMeta churchSongs None
       (JObj [(''id'', JStr ''0''), (''title'', JStr ''Grace 2'')]) (graceChurch, Map.empty)))) ''0''
     = map_option (\<lambda>s. s\<lparr>im_title := ''Grace 2''\<rparr>) (library churchSongs graceChurch ''0'')
   \<and> library churchSongs graceChurch ''0'' \<noteq> None"
proof -
  have "metaOf \<lparr>su_id = ''0'', su_title = ''Grace 2'', su_artist = None, su_album = None, su_year = None\<rparr>
      = (\<lambda>s. s\<lparr>im_title := ''Grace 2''\<rparr>)"
    by (rule ext) (simp add: metaOf_def)
  moreover have "library churchSongs graceChurch ''0'' \<noteq> None"
    by code_simp
  ultimately show ?thesis
    using song_handlers_refine_library [OF church_song_store sampleChurch_ok(2) sample_payloads,
      of None Map.empty 0, THEN conjunct2, THEN conjunct1]
    by (simp only: editSong_def songUpdateMetaPayload.simps fun_upd_same simp_thms)
qed

text \<open>
  C19: From a folder that holds exactly one file per song of the library, with its present
  content, any sequence of the handlers that create songs, change their metadata and their blocks
  and delete them leads to such a folder, provided that metadata and blocks are edited of songs that
  are not deleted (\<open>deleted_song_file_returns\<close> is the other case); failing handlers included.
\<close>
theorem json_folder_follows_library:
  assumes "song_store S rows blocks ok" and "(songStep S dir)\<^sup>*\<^sup>* s s'"
    and "ok (fst s)" and "mirrored S dir s"
  shows "ok (fst s') \<and> mirrored S dir s'"
  using assms(2-4)
  by (induction rule: rtranclp_induct) (auto dest: song_store.step_mirrored [OF assms(1)])

lemma json_folder_follows_library_witness:
  "mirrored churchSongs ''d'' (snd (songsCreate churchSongs (Some ''d'')
     (JObj [(''title'', JStr ''Hosanna'')]) (emptyChurch, Map.empty)))"
proof -
  have "mirrored churchSongs ''d'' (emptyChurch, Map.empty)"
    by (simp add: mirrored_def library_def churchSongs_def ch_rows_def emptyChurch_def)
  then show ?thesis
    using json_folder_follows_library [OF church_song_store
        r_into_rtranclp [where r = "songStep churchSongs ''d''", OF step_create],
        of "(emptyChurch, Map.empty)"] sampleChurch_ok(1)
    by simp
qed

text \<open>
  An artist, album or year that the editor clears stays: the empty text is parsed as
  \<open>undefined\<close>, which the update leaves out.
\<close>
lemma cleared_artist_stays:
  "parseSongUpdateMetaPayload (JObj [(''id'', JStr ''0''), (''title'', JStr ''Grace''), (''artist'', JStr [])])
     = Inr \<lparr>su_id = ''0'', su_title = ''Grace'', su_artist = None, su_album = None, su_year = None\<rparr>"
  "so_artist (applyMeta \<lparr>su_id = ''0'', su_title = ''Grace'', su_artist = None, su_album = None,
       su_year = None\<rparr> graceSong) = Some ''J N''"
  by code_simp+

text \<open>An update of a deleted song writes its file again, which the library does not have.\<close>
lemma deleted_song_file_returns:
  "let (_, db, files) = songsDelete churchSongs (Some ''d'') 5 (JStr ''0'') (graceChurch, Map.empty);
       (_, db, files) = songsUpdateMeta churchSongs (Some ''d'')
         (JObj [(''id'', JStr ''0''), (''title'', JStr ''Grace 2'')]) (db, files)
   in library churchSongs db ''0'' = None \<and> files (songPath ''d'' ''0'') \<noteq> None"
  by code_simp

text \<open>
  The list of the most used songs is cut before it is sorted: with room for one song it shows
  a song used once and not the one used twice, when the database finds the former first.
\<close>
definition usedItem :: "string \<Rightarrow> int \<Rightarrow> string \<Rightarrow> itemRow" where
  "usedItem i n song = \<lparr>it_id = i, it_planId = ''p'', it_order = n, it_kind = ''SONG_BLOCK'',
     it_refId = Some song, it_refSubId = None, it_songId = Some song, it_title = None,
     it_content = None, it_notes = None, it_mediaPath = None, it_secondaryContent = None,
     it_backgroundConfig = None\<rparr>"

lemma frequent_cut_before_sorting:
  "fst (songsGetFrequent churchPlans churchSongs (ErrorMsg []) (JNum (IntNum 1))
      (emptyChurch\<lparr>ch_songs := [graceSong, graceSong\<lparr>so_id := ''7''\<rparr>],
         ch_plans := (ch_plans emptyChurch)\<lparr>tb_songIds := [''0'', ''7''],
           tb_itemRows := [usedItem ''a'' 1 ''0'', usedItem ''b'' 2 ''7'', usedItem ''c'' 3 ''7'']\<rparr>\<rparr>))
     = Inr [(graceSong, Null)]"
  by code_simp

end
