(* ===== verification/PlanProps.thy ===== *)
theory PlanProps
  imports Plans
begin

text \<open>
  The properties of the plan handlers, for every store that obeys the laws of
  \<open>plan_store\<close>. Each is proved inside the locale and then stated over an arbitrary
  store; the witnesses run the handlers on the tables of theory \<open>PlanStore\<close>.
\<close>

section \<open>Free dates\<close>

lemma addUtcDays_1970: "0 \<le> t \<Longrightarrow> t mod msPerDay = 0 \<Longrightarrow> addUtcDays t 1 = t + msPerDay"
proof -
  assume t: "0 \<le> t" "t mod msPerDay = 0"
  have "0 < DayFromYear (getUTCFullYear t + 1)"
    using YearFromDay_bounds(2) [of "t div msPerDay"] t(1)
    by (simp add: getUTCFullYear_def)
  moreover have "DayFromYear 1970 = 0"
    by (simp add: DayFromYear_def)
  ultimately have "\<not> getUTCFullYear t + 1 \<le> 1970"
    using DayFromYear_mono [of "getUTCFullYear t + 1" 1970] by linarith
  then have "addUtcDays t 1 = (t div msPerDay + 1) * msPerDay"
    using dateUTC_fields [of t 1] by (simp add: addUtcDays_def)
  also have "\<dots> = t + msPerDay"
    using t(2) by (metis add.right_neutral distrib_right div_mult_mod_eq mult_1)
  finally show ?thesis .
qed

text \<open>The dates that rows hold, those of deleted plans included\<close>

definition planDates :: "(string \<rightharpoonup> planRow) \<Rightarrow> int set" where
  "planDates ps = pl_date ` ran ps"

lemma planDates_iff: "x \<in> planDates ps \<longleftrightarrow> (\<exists>i p. ps i = Some p \<and> pl_date p = x)"
  by (auto simp: planDates_def ran_def)

text \<open>The row \<open>r\<close> as it is copied into plan \<open>planId\<close>, before it gets an identifier\<close>

definition copiedRow :: "string \<Rightarrow> itemRow \<Rightarrow> itemRow" where
  "copiedRow planId r = (normalizeItemKind r)\<lparr>it_id := [], it_planId := planId\<rparr>"

lemma copiedRow_simps [simp]:
  "it_planId (copiedRow p r) = p" "it_order (copiedRow p r) = it_order r"
  "it_songId (copiedRow p r) = it_songId r"
  by (simp_all add: copiedRow_def normalizeItemKind_def)

context plan_store
begin

lemma createPlanLoop_first_free:
  assumes "ok db" and "0 \<le> d" and "d mod msPerDay = 0"
    and "\<forall>j < k. d + int j * msPerDay \<in> planDates (plans db)"
    and "d + int k * msPerDay \<notin> planDates (plans db)"
    and "k < n"
  shows "\<exists>i db'. createPlanLoop D title n d db
      = (Inr ((newPlanRow (d + int k * msPerDay) (Some title) None)\<lparr>pl_id := i\<rparr>), db')
    \<and> i \<notin> dom (plans db)
    \<and> plans db' = (plans db)(i \<mapsto> (newPlanRow (d + int k * msPerDay) (Some title) None)\<lparr>pl_id := i\<rparr>)
    \<and> items db' = items db \<and> ok db'"
  using assms
proof (induction k arbitrary: d n)
  case 0
  then obtain m where n: "n = Suc m" by (cases n) auto
  have "pl_date q \<noteq> pl_date (newPlanRow d (Some title) None)" if "plans db j = Some q" for j q
    using 0(5) that by (auto simp: planDates_iff newPlanRow_def)
  then obtain i db' where "createPlan D db (newPlanRow d (Some title) None)
      = Inr ((newPlanRow d (Some title) None)\<lparr>pl_id := i\<rparr>, db')" "i \<notin> dom (plans db)"
      "plans db' = (plans db)(i \<mapsto> (newPlanRow d (Some title) None)\<lparr>pl_id := i\<rparr>)"
      "items db' = items db" "ok db'"
    using create_plan [OF 0(1)] by blast
  then show ?case
    unfolding n by (intro exI [of _ i] exI [of _ db']) simp
next
  case (Suc k)
  then obtain m where n: "n = Suc m" by (cases n) auto
  have "d \<in> planDates (plans db)"
    using Suc.prems(4) by force
  then obtain j q where "plans db j = Some q" "pl_date q = d"
    unfolding planDates_iff by blast
  then have "createPlan D db (newPlanRow d (Some title) None) = Inl (Prisma P2002)"
    using create_plan_taken [OF Suc.prems(1)] by (simp add: newPlanRow_def)
  moreover have "addUtcDays d 1 = d + msPerDay"
    using Suc.prems(2,3) by (rule addUtcDays_1970)
  ultimately have eq: "createPlanLoop D title n d db = createPlanLoop D title m (d + msPerDay) db"
    unfolding n by (simp add: isUniqueConstraintError_def)
  have shift: "d + msPerDay + int j * msPerDay = d + int (Suc j) * msPerDay" for j
    by (simp add: algebra_simps)
  show ?case
    unfolding eq shift [symmetric]
  proof (rule Suc.IH)
    show "\<forall>j < k. d + msPerDay + int j * msPerDay \<in> planDates (plans db)"
      unfolding shift using Suc.prems(4) by blast
    show "d + msPerDay + int k * msPerDay \<notin> planDates (plans db)"
      unfolding shift using Suc.prems(5) .
  qed (use Suc.prems n in auto)
qed

lemma createPlanLoop_full:
  assumes "ok db" and "0 \<le> d" and "d mod msPerDay = 0"
    and "\<forall>j < n. d + int j * msPerDay \<in> planDates (plans db)"
  shows "createPlanLoop D title n d db
           = (Inl (ErrorMsg ''Unable to find an available plan date''), db)"
  using assms
proof (induction n arbitrary: d)
  case 0
  then show ?case by simp
next
  case (Suc n)
  have "d \<in> planDates (plans db)"
    using Suc.prems(4) by force
  then obtain j q where "plans db j = Some q" "pl_date q = d"
    unfolding planDates_iff by blast
  then have "createPlan D db (newPlanRow d (Some title) None) = Inl (Prisma P2002)"
    using create_plan_taken [OF Suc.prems(1)] by (simp add: newPlanRow_def)
  moreover have "addUtcDays d 1 = d + msPerDay"
    using Suc.prems(2,3) by (rule addUtcDays_1970)
  moreover have "\<forall>j < n. d + msPerDay + int j * msPerDay \<in> planDates (plans db)"
  proof (intro allI impI)
    fix j assume "j < n"
    then have "d + int (Suc j) * msPerDay \<in> planDates (plans db)"
      using Suc.prems(4) by blast
    then show "d + msPerDay + int j * msPerDay \<in> planDates (plans db)"
      by (simp add: algebra_simps)
  qed
  ultimately show ?case
    using Suc.IH [of "d + msPerDay"] Suc.prems(1-3)
    by (simp add: isUniqueConstraintError_def)
qed

lemma copyItems_copies:
  assumes "ok tx" and "p \<in> dom (plans tx)" and "sorted_wrt (<) (map it_order its)"
    and "\<forall>r \<in> set its. case it_songId r of None \<Rightarrow> True | Some s \<Rightarrow> s \<in> songs tx"
    and "\<forall>q \<in> set (findItems D tx (ofPlan p)). \<forall>r \<in> set its. it_order q < it_order r"
  shows "\<exists>tx'. copyItems D p its tx = Inr tx' \<and> ok tx' \<and> plans tx' = plans tx
           \<and> map (\<lambda>r. r\<lparr>it_id := []\<rparr>) (findItems D tx' (ofPlan p))
               = map (\<lambda>r. r\<lparr>it_id := []\<rparr>) (findItems D tx (ofPlan p)) @ map (copiedRow p) its
           \<and> (\<forall>i r. items tx i = Some r \<longrightarrow> items tx' i = Some r)
           \<and> (\<forall>i r. items tx' i = Some r \<longrightarrow> it_planId r \<noteq> p \<longrightarrow> items tx i = Some r)"
  using assms
proof (induction its arbitrary: tx)
  case Nil
  then show ?case by (intro exI [of _ tx]) simp
next
  case (Cons r its)
  let ?row = "copiedRow p r"
  have "\<not> sameSlot ?row q" if "items tx j = Some q" for j q
  proof
    assume same: "sameSlot ?row q"
    then have "q \<in> set (findItems D tx (ofPlan p))"
      using that item_key [OF Cons.prems(1) that]
      by (simp add: plan_items_mem [OF Cons.prems(1)] sameSlot_def)
    with Cons.prems(5) same show False by (auto simp: sameSlot_def)
  qed
  moreover have "refsOk (plans tx) (songs tx) ?row"
    using Cons.prems(2,4) by (simp add: refsOk_def)
  ultimately obtain i tx1 where c: "createItem D tx ?row = Inr (?row\<lparr>it_id := i\<rparr>, tx1)"
      "i \<notin> dom (items tx)" "items tx1 = (items tx)(i \<mapsto> ?row\<lparr>it_id := i\<rparr>)"
      "plans tx1 = plans tx" "songs tx1 = songs tx" "ok tx1"
    using create_item [OF Cons.prems(1)] by blast
  have found: "findItems D tx1 (ofPlan p) = findItems D tx (ofPlan p) @ [?row\<lparr>it_id := i\<rparr>]"
    using find_items_appended [OF Cons.prems(1) c(6,3,2)] Cons.prems(5) by simp
  have "\<exists>tx'. copyItems D p its tx1 = Inr tx' \<and> ok tx' \<and> plans tx' = plans tx1
      \<and> map (\<lambda>r. r\<lparr>it_id := []\<rparr>) (findItems D tx' (ofPlan p))
          = map (\<lambda>r. r\<lparr>it_id := []\<rparr>) (findItems D tx1 (ofPlan p)) @ map (copiedRow p) its
      \<and> (\<forall>i r. items tx1 i = Some r \<longrightarrow> items tx' i = Some r)
      \<and> (\<forall>i r. items tx' i = Some r \<longrightarrow> it_planId r \<noteq> p \<longrightarrow> items tx1 i = Some r)"
  proof (rule Cons.IH [OF c(6)])
    show "p \<in> dom (plans tx1)" unfolding c(4) by (rule Cons.prems(2))
    show "sorted_wrt (<) (map it_order its)" using Cons.prems(3) by simp
    show "\<forall>r \<in> set its. case it_songId r of None \<Rightarrow> True | Some s \<Rightarrow> s \<in> songs tx1"
      unfolding c(5) using Cons.prems(4) by simp
    show "\<forall>q \<in> set (findItems D tx1 (ofPlan p)). \<forall>r \<in> set its. it_order q < it_order r"
      unfolding found using Cons.prems(3,5) by auto
  qed
  then obtain tx' where t: "copyItems D p its tx1 = Inr tx'" "ok tx'" "plans tx' = plans tx1"
      "map (\<lambda>r. r\<lparr>it_id := []\<rparr>) (findItems D tx' (ofPlan p))
        = map (\<lambda>r. r\<lparr>it_id := []\<rparr>) (findItems D tx1 (ofPlan p)) @ map (copiedRow p) its"
      "\<forall>i r. items tx1 i = Some r \<longrightarrow> items tx' i = Some r"
      "\<forall>i r. items tx' i = Some r \<longrightarrow> it_planId r \<noteq> p \<longrightarrow> items tx1 i = Some r"
    by blast
  have "?row\<lparr>it_id := []\<rparr> = ?row" by (simp add: copiedRow_def)
  then have "map (\<lambda>r. r\<lparr>it_id := []\<rparr>) (findItems D tx' (ofPlan p))
      = map (\<lambda>r. r\<lparr>it_id := []\<rparr>) (findItems D tx (ofPlan p)) @ map (copiedRow p) (r # its)"
    unfolding t(4) found by simp
  moreover have "copyItems D p (r # its) tx = Inr tx'"
    using c(1) t(1) by (simp add: copiedRow_def)
  moreover have "\<forall>i r. items tx i = Some r \<longrightarrow> items tx' i = Some r"
  proof (intro allI impI)
    fix j q assume j: "items tx j = Some q"
    with c(2) have "items tx1 j = Some q" unfolding c(3) by auto
    with t(5) show "items tx' j = Some q" by blast
  qed
  moreover have "\<forall>j q. items tx' j = Some q \<longrightarrow> it_planId q \<noteq> p \<longrightarrow> items tx j = Some q"
  proof (intro allI impI)
    fix j q assume j: "items tx' j = Some q" "it_planId q \<noteq> p"
    with t(6) have q: "items tx1 j = Some q" by blast
    with j(2) have "j \<noteq> i" unfolding c(3) by auto
    with q show "items tx j = Some q" unfolding c(3) by simp
  qed
  ultimately show ?case using t(2) t(3) [unfolded c(4)] by blast
qed

text \<open>What a successful duplication leaves: plan \<open>i\<close> at date \<open>d\<close> with copies of \<open>its\<close>\<close>

definition duplicated ::
  "'db \<Rightarrow> planRow \<Rightarrow> itemRow list \<Rightarrow> string \<Rightarrow> (failure + (planRow \<times> itemRow list) option) \<times> 'db \<Rightarrow> bool"
  where
  "duplicated db row its i out \<longleftrightarrow>
     (\<exists>its' db'. out = (Inr (Some (row\<lparr>pl_id := i\<rparr>, its')), db') \<and> ok db'
        \<and> map (\<lambda>r. r\<lparr>it_id := []\<rparr>) its' = map (copiedRow i) its
        \<and> i \<notin> dom (plans db) \<and> plans db' = (plans db)(i \<mapsto> row\<lparr>pl_id := i\<rparr>)
        \<and> (\<forall>q. q \<noteq> i \<longrightarrow> findItems D db' (ofPlan q) = findItems D db (ofPlan q)))"

lemma duplicateOnce_free:
  assumes "ok db" and "d \<notin> planDates (plans db)" and "its = findItems D db (ofPlan p)"
  shows "\<exists>i. duplicated db (newPlanRow d (Some title) (pl_backgroundConfig base)) its i
           (transaction (duplicateOnce D base its title d) db)"
proof -
  let ?row = "newPlanRow d (Some title) (pl_backgroundConfig base)"
  have "pl_date q \<noteq> pl_date ?row" if "plans db j = Some q" for j q
    using assms(2) that by (auto simp: planDates_iff newPlanRow_def)
  then obtain i tx where c: "createPlan D db ?row = Inr (?row\<lparr>pl_id := i\<rparr>, tx)" "i \<notin> dom (plans db)"
      "plans tx = (plans db)(i \<mapsto> ?row\<lparr>pl_id := i\<rparr>)" "items tx = items db" "songs tx = songs db"
      "ok tx"
    using create_plan [OF assms(1)] by blast
  have none: "it_planId r \<noteq> i" if "items db j = Some r" for j r
    using item_refs [OF assms(1) that] c(2) by (auto simp: refsOk_def)
  have empty: "findItems D tx (ofPlan i) = []"
    using none c(4) by (intro find_items_unique [OF c(6)]) (auto simp: ran_def)
  have "\<exists>tx'. copyItems D i its tx = Inr tx' \<and> ok tx' \<and> plans tx' = plans tx
      \<and> map (\<lambda>r. r\<lparr>it_id := []\<rparr>) (findItems D tx' (ofPlan i))
          = map (\<lambda>r. r\<lparr>it_id := []\<rparr>) (findItems D tx (ofPlan i)) @ map (copiedRow i) its
      \<and> (\<forall>j r. items tx j = Some r \<longrightarrow> items tx' j = Some r)
      \<and> (\<forall>j r. items tx' j = Some r \<longrightarrow> it_planId r \<noteq> i \<longrightarrow> items tx j = Some r)"
  proof (rule copyItems_copies [OF c(6)])
    show "i \<in> dom (plans tx)" unfolding c(3) by simp
    show "sorted_wrt (<) (map it_order its)"
      unfolding assms(3) by (rule plan_items_orders [OF assms(1)])
    show "\<forall>r \<in> set its. case it_songId r of None \<Rightarrow> True | Some s \<Rightarrow> s \<in> songs tx"
    proof
      fix r assume "r \<in> set its"
      then have "items db (it_id r) = Some r"
        unfolding assms(3) plan_items_mem [OF assms(1)] by blast
      from item_refs [OF assms(1) this]
      show "case it_songId r of None \<Rightarrow> True | Some s \<Rightarrow> s \<in> songs tx"
        unfolding c(5) by (simp add: refsOk_def)
    qed
  qed (simp add: empty)
  then obtain tx' where t: "copyItems D i its tx = Inr tx'" "ok tx'" "plans tx' = plans tx"
      "map (\<lambda>r. r\<lparr>it_id := []\<rparr>) (findItems D tx' (ofPlan i)) = map (copiedRow i) its"
      "\<forall>j r. items tx j = Some r \<longrightarrow> items tx' j = Some r"
      "\<forall>j r. items tx' j = Some r \<longrightarrow> it_planId r \<noteq> i \<longrightarrow> items tx j = Some r"
    unfolding empty by auto
  have "findItems D tx' (ofPlan q) = findItems D db (ofPlan q)" if "q \<noteq> i" for q
  proof (rule find_items_other [OF assms(1) t(2)])
    show "items tx' j = Some r \<longleftrightarrow> items db j = Some r" if "it_planId r = q" for j and r :: itemRow
      using t(5,6) that \<open>q \<noteq> i\<close> unfolding c(4) by metis
  qed
  moreover have "planWithItems D tx' i = Some (?row\<lparr>pl_id := i\<rparr>, findItems D tx' (ofPlan i))"
    using find_plan [OF t(2)] t(3) c(3) by (simp add: planWithItems_def)
  ultimately show ?thesis
    using c(1-3) t(1-4)
    by (intro exI [of _ i]) (simp add: duplicated_def duplicateOnce_def)
qed

lemma duplicateOnce_taken:
  assumes "ok db" and "d \<in> planDates (plans db)"
  shows "transaction (duplicateOnce D base its title d) db = (Inl (Prisma P2002), db)"
proof -
  obtain j q where "plans db j = Some q" "pl_date q = d"
    using assms(2) unfolding planDates_iff by blast
  then have "createPlan D db (newPlanRow d (Some title) (pl_backgroundConfig base))
      = Inl (Prisma P2002)"
    using create_plan_taken [OF assms(1)] by (simp add: newPlanRow_def)
  then show ?thesis by (simp add: duplicateOnce_def)
qed

lemma duplicateLoop_first_free:
  assumes "ok db" and "0 \<le> d" and "d mod msPerDay = 0" and "its = findItems D db (ofPlan p)"
    and "\<forall>j < k. d + int j * msPerDay \<in> planDates (plans db)"
    and "d + int k * msPerDay \<notin> planDates (plans db)" and "k < n"
  shows "\<exists>i. duplicated db
           (newPlanRow (d + int k * msPerDay) (Some title) (pl_backgroundConfig base)) its i
           (duplicateLoop D base its title n d db)"
  using assms
proof (induction k arbitrary: d n)
  case 0
  then obtain m where n: "n = Suc m" by (cases n) auto
  obtain i where "duplicated db (newPlanRow d (Some title) (pl_backgroundConfig base)) its i
      (transaction (duplicateOnce D base its title d) db)"
    using duplicateOnce_free [OF 0(1) _ 0(4)] 0(6) by fastforce
  then show ?case
    unfolding n by (intro exI [of _ i]) (auto simp: duplicated_def)
next
  case (Suc k)
  then obtain m where n: "n = Suc m" "k < m" by (cases n) auto
  then have "m \<noteq> 0" by simp
  have "d \<in> planDates (plans db)"
    using Suc.prems(5) by force
  then have "duplicateLoop D base its title n d db
      = duplicateLoop D base its title m (addUtcDays d 1) db"
    using duplicateOnce_taken [OF Suc.prems(1)] \<open>m \<noteq> 0\<close>
    unfolding n by (simp add: isUniqueConstraintError_def)
  also have "addUtcDays d 1 = d + msPerDay"
    using Suc.prems(2,3) by (rule addUtcDays_1970)
  finally have eq: "duplicateLoop D base its title n d db
      = duplicateLoop D base its title m (d + msPerDay) db" .
  have shift: "d + msPerDay + int j * msPerDay = d + int (Suc j) * msPerDay" for j
    by (simp add: algebra_simps)
  show ?case
    unfolding eq shift [symmetric]
  proof (rule Suc.IH)
    show "\<forall>j < k. d + msPerDay + int j * msPerDay \<in> planDates (plans db)"
      unfolding shift using Suc.prems(5) by blast
    show "d + msPerDay + int k * msPerDay \<notin> planDates (plans db)"
      unfolding shift using Suc.prems(6) .
  qed (use Suc.prems n in auto)
qed

text \<open>Adding one line of a file, and all of them\<close>

lemma importLines_appends:
  assumes "ok db" and "planId \<in> dom (plans db)"
  shows "\<exists>rows db'. importLines D planId added ls db = (Inr (ImportAdded (added + length ls)), db')
           \<and> ok db' \<and> plans db' = plans db
           \<and> findItems D db' (ofPlan planId) = findItems D db (ofPlan planId) @ rows
           \<and> map it_content rows = map Some ls
           \<and> (\<forall>q. q \<noteq> planId \<longrightarrow> findItems D db' (ofPlan q) = findItems D db (ofPlan q))"
  using assms
proof (induction ls arbitrary: added db)
  case Nil
  then show ?case by (intro exI [of _ "[]"] exI [of _ db]) simp
next
  case (Cons l ls)
  let ?p = "lineItem planId l"
  have "refsOk (plans db) (songs db) (newItemRow ?p 0)"
    using Cons.prems(2) by (simp add: refsOk_def newItemRow_def lineItem_def)
  then obtain i db1 where c: "createPlanItemWithRetry D ?p 20 db
        = (Inr ((newItemRow ?p (lastOrder D db (ai_planId ?p) + 1))\<lparr>it_id := i\<rparr>), db1)"
      "i \<notin> dom (items db)"
      "items db1 = (items db)(i \<mapsto> (newItemRow ?p (lastOrder D db (ai_planId ?p) + 1))\<lparr>it_id := i\<rparr>)"
      "plans db1 = plans db" "ok db1"
    using createItem_appended [OF Cons.prems(1), of ?p 19] by auto
  let ?row = "(newItemRow ?p (lastOrder D db (ai_planId ?p) + 1))\<lparr>it_id := i\<rparr>"
  have row: "it_planId ?row = planId" "it_content ?row = Some l"
    by (simp_all add: newItemRow_def lineItem_def)
  have "\<forall>r \<in> set (findItems D db (ofPlan (it_planId ?row))). it_order r < it_order ?row"
  proof
    fix r assume "r \<in> set (findItems D db (ofPlan (it_planId ?row)))"
    then have "items db (it_id r) = Some r" "it_planId r = planId"
      unfolding plan_items_mem [OF Cons.prems(1)] row by blast+
    from lastOrder_upper [OF Cons.prems(1) this]
    show "it_order r < it_order ?row" by (simp add: newItemRow_def lineItem_def)
  qed
  from find_items_appended [OF Cons.prems(1) c(5,3,2) this]
  have f: "findItems D db1 (ofPlan planId) = findItems D db (ofPlan planId) @ [?row]"
    unfolding row .
  have o: "findItems D db1 (ofPlan q) = findItems D db (ofPlan q)" if "q \<noteq> planId" for q
  proof (rule find_items_other [OF Cons.prems(1) c(5)])
    show "items db1 j = Some r \<longleftrightarrow> items db j = Some r" if "it_planId r = q" for j and r :: itemRow
      using c(2) that \<open>q \<noteq> planId\<close> row(1) unfolding c(3) by auto
  qed
  have "planId \<in> dom (plans db1)" unfolding c(4) by (rule Cons.prems(2))
  from Cons.IH [OF c(5) this, of "Suc added"] obtain rows db' where
      "importLines D planId (Suc added) ls db1 = (Inr (ImportAdded (Suc added + length ls)), db')"
      "ok db'" "plans db' = plans db1"
      "findItems D db' (ofPlan planId) = findItems D db1 (ofPlan planId) @ rows"
      "map it_content rows = map Some ls"
      "\<forall>q. q \<noteq> planId \<longrightarrow> findItems D db' (ofPlan q) = findItems D db1 (ofPlan q)"
    by blast
  then show ?case
    using c(1,4) f o row(2) by (intro exI [of _ "?row # rows"] exI [of _ db']) simp
qed

text \<open>The handlers on the items of a plan\<close>

lemma reorder_clash:
  assumes "ok db" and "parsePlanReorderPayload raw = Inr p"
    and "map it_order (findItems D db (ofPlan (ro_planId p)))
           = map (\<lambda>k. int k + 1) [0..<length (findItems D db (ofPlan (ro_planId p)))]"
    and "mset (ro_orderedItemIds p) = mset (planItemIds D db (ro_planId p))"
    and "ro_orderedItemIds p \<noteq> planItemIds D db (ro_planId p)"
  shows "plansReorder D raw db = (Inl (Prisma P2002), db)"
proof -
  let ?cur = "planItemIds D db (ro_planId p)"
  have d: "distinct ?cur"
    using plan_items_ids [OF assms(1)] by (simp add: planItemIds_def)
  have "\<forall>k < length ?cur. \<exists>r. items db (?cur ! k) = Some r \<and> it_planId r = ro_planId p
      \<and> it_order r = int (0 + k) + 1"
  proof (intro allI impI)
    fix k assume k: "k < length ?cur"
    have "it_order (findItems D db (ofPlan (ro_planId p)) ! k) = int k + 1"
      using arg_cong [OF assms(3), of "\<lambda>xs. xs ! k"] k by (simp add: planItemIds_def)
    then show "\<exists>r. items db (?cur ! k) = Some r \<and> it_planId r = ro_planId p
        \<and> it_order r = int (0 + k) + 1"
      using item_of_plan [OF assms(1) k] by simp
  qed
  then have "renumber D 0 (ro_orderedItemIds p) db = Inl (Prisma P2002)"
    by (rule renumber_clashes [OF assms(1,4,5) d])
  moreover have "validatePlanReorderPayload ?cur (ro_orderedItemIds p) = Inr ()"
    using assms(4) by (simp add: validatePlanReorderPayload_iff [OF d])
  ultimately show ?thesis
    using assms(2) by (simp add: plansReorder_def Let_def)
qed

lemma reorder_same:
  assumes "ok db" and "parsePlanReorderPayload raw = Inr p"
    and "\<forall>r \<in> set (findItems D db (ofPlan (ro_planId p))). 0 < it_order r"
    and "ro_orderedItemIds p = planItemIds D db (ro_planId p)"
  shows "\<exists>db'. plansReorder D raw db = (Inr (), db')
           \<and> planItemIds D db' (ro_planId p) = planItemIds D db (ro_planId p)"
proof -
  have d: "distinct (planItemIds D db (ro_planId p))"
    using plan_items_ids [OF assms(1)] by (simp add: planItemIds_def)
  obtain db' where "renumber D 0 (planItemIds D db (ro_planId p)) db = Inr db'"
      "findItems D db' (ofPlan (ro_planId p))
        = map_idx (\<lambda>k r. r\<lparr>it_order := int k + 1\<rparr>) (findItems D db (ofPlan (ro_planId p)))"
    using renumber_plan [OF assms(1,3)] by blast
  moreover have "validatePlanReorderPayload (planItemIds D db (ro_planId p))
      (planItemIds D db (ro_planId p)) = Inr ()"
    by (simp add: validatePlanReorderPayload_iff [OF d])
  ultimately show ?thesis
    using assms(2,4)
    by (intro exI [of _ db']) (simp add: plansReorder_def Let_def planItemIds_def map_idx_const)
qed

lemma removeItems_result:
  assumes "ok db" and "parsePlanRemoveItemsPayload raw = Inr (p, gone)" and "gone \<noteq> []"
    and "\<forall>i \<in> set gone. \<forall>r. items db i = Some r \<longrightarrow> it_planId r = p"
    and "\<forall>r \<in> set (findItems D db (ofPlan p)). 0 < it_order r"
  shows "\<exists>db'. plansRemoveItems D raw db = (Inr (), db') \<and> ok db' \<and> plans db' = plans db
           \<and> findItems D db' (ofPlan p)
               = map_idx (\<lambda>k r. r\<lparr>it_order := int k + 1\<rparr>)
                   (filter (\<lambda>r. it_id r \<notin> set gone) (findItems D db (ofPlan p)))
           \<and> (\<forall>q. q \<noteq> p \<longrightarrow> findItems D db' (ofPlan q) = findItems D db (ofPlan q))"
proof -
  have own: "it_planId r = p" if "items db i = Some r" "it_id r \<in> set gone" for i r
    using assms(4) that item_key [OF assms(1) that(1)] by metis
  have "filter (\<lambda>i. it_planId i \<noteq> p) (findItems D db (\<lambda>r. it_id r \<in> set gone)) = []"
    using own by (auto simp: filter_empty_conv plan_items_mem [OF assms(1)])
  then have "plansRemoveItems D raw db = transaction (\<lambda>tx.
      andThen (renumber D 0 (planItemIds D (deleteItems D db (\<lambda>r. it_id r \<in> set gone)) p)
        (deleteItems D db (\<lambda>r. it_id r \<in> set gone))) (\<lambda>tx. Inr ((), tx))) db"
    using assms(2,3) by (simp add: plansRemoveItems_def transaction_def Let_def)
  moreover obtain db' where
      "renumber D 0 (planItemIds D (deleteItems D db (\<lambda>r. it_id r \<in> set gone)) p)
         (deleteItems D db (\<lambda>r. it_id r \<in> set gone)) = Inr db'"
      "ok db'" "plans db' = plans db"
      "findItems D db' (ofPlan p)
        = map_idx (\<lambda>k r. r\<lparr>it_order := int k + 1\<rparr>)
            (filter (\<lambda>r. it_id r \<notin> set gone) (findItems D db (ofPlan p)))"
      "\<forall>q. q \<noteq> p \<longrightarrow> findItems D db' (ofPlan q) = findItems D db (ofPlan q)"
    using delete_and_renumber [OF assms(1,5), of "\<lambda>r. it_id r \<in> set gone"] own by blast
  ultimately show ?thesis
    by (intro exI [of _ db']) simp
qed

lemma removeItem_result:
  assumes "ok db" and "parsePlanRemoveItemPayload raw = Inr (p, i)"
    and "items db i = Some r" and "it_planId r = p"
    and "\<forall>r \<in> set (findItems D db (ofPlan p)). 0 < it_order r"
  shows "\<exists>db'. plansRemoveItem D raw db = (Inr (), db') \<and> ok db' \<and> plans db' = plans db
           \<and> findItems D db' (ofPlan p)
               = map_idx (\<lambda>k r. r\<lparr>it_order := int k + 1\<rparr>)
                   (filter (\<lambda>r. it_id r \<noteq> i) (findItems D db (ofPlan p)))
           \<and> (\<forall>q. q \<noteq> p \<longrightarrow> findItems D db' (ofPlan q) = findItems D db (ofPlan q))"
proof -
  have own: "it_planId s = p" if "items db j = Some s" "it_id s = i" for j s
    using that assms(3,4) item_key [OF assms(1) that(1)] by simp
  obtain db' where
      "renumber D 0 (planItemIds D (deleteItems D db (\<lambda>r. it_id r = i)) p)
         (deleteItems D db (\<lambda>r. it_id r = i)) = Inr db'"
      "ok db'" "plans db' = plans db"
      "findItems D db' (ofPlan p)
        = map_idx (\<lambda>k r. r\<lparr>it_order := int k + 1\<rparr>)
            (filter (\<lambda>r. it_id r \<noteq> i) (findItems D db (ofPlan p)))"
      "\<forall>q. q \<noteq> p \<longrightarrow> findItems D db' (ofPlan q) = findItems D db (ofPlan q)"
    using delete_and_renumber [OF assms(1,5), of "\<lambda>r. it_id r = i"] own by blast
  then show ?thesis
    using assms(2-4) find_item [OF assms(1)]
    by (intro exI [of _ db']) (simp add: plansRemoveItem_def Let_def)
qed

lemma removeItem_zero_based:
  assumes "ok db" and "parsePlanRemoveItemPayload raw = Inr (p, i)"
    and "items db i = Some r" and "it_planId r = p"
    and "filter (\<lambda>r. it_id r \<noteq> i) (findItems D db (ofPlan p)) = a # b # rest"
    and "it_order a = 0" and "it_order b = 1"
  shows "plansRemoveItem D raw db = (Inl (Prisma P2002), db)"
proof -
  let ?db = "deleteItems D db (\<lambda>r. it_id r = i)"
  note del = delete_items [OF assms(1), of "\<lambda>r. it_id r = i"]
  have ok': "ok ?db" using del by blast
  have left: "items ?db j = Some s \<longleftrightarrow> items db j = Some s \<and> it_id s \<noteq> i" for j s
    using del by (auto split: option.splits if_splits)
  have xs: "findItems D ?db (ofPlan p) = a # b # rest"
    unfolding assms(5) [symmetric]
  proof (rule find_items_unique [OF ok'])
    show "sorted_wrt (<) (map it_order (filter (\<lambda>r. it_id r \<noteq> i) (findItems D db (ofPlan p))))"
      using plan_items_orders [OF assms(1), of p] by (simp add: sorted_wrt_map sorted_wrt_filter)
    show "set (filter (\<lambda>r. it_id r \<noteq> i) (findItems D db (ofPlan p)))
        = {r \<in> ran (items ?db). it_planId r = p}"
      using find_items_set [OF assms(1), of "ofPlan p"] left by (auto simp: ran_def)
  qed
  have a: "items ?db (it_id a) = Some a" "it_planId a = p"
    and b: "items ?db (it_id b) = Some b" "it_planId b = p"
    using plan_items_mem [OF ok', of _ "ofPlan p"] xs by (metis list.set_intros)+
  have "it_id b \<noteq> it_id a" using a b assms(6,7) by auto
  then have "updateItem D ?db (it_id a) (\<lambda>r. r\<lparr>it_order := int 0 + 1\<rparr>) = Inl (Prisma P2002)"
    using a b assms(7) by (intro update_item_taken [OF ok' a(1) b(1)]) (auto simp: sameSlot_def)
  then have "renumber D 0 (planItemIds D ?db p) ?db = Inl (Prisma P2002)"
    by (simp add: planItemIds_def xs)
  then show ?thesis
    using assms(2-4) find_item [OF assms(1)]
    by (simp add: plansRemoveItem_def Let_def)
qed

lemma foreign_update_refused:
  assumes "ok db" and "items db i = Some r" and "it_planId r \<noteq> p"
  shows "parsePlanUpdateItemPayload raw = Inr u \<Longrightarrow> ui_planId u = p \<Longrightarrow> ui_itemId u = i \<Longrightarrow>
           plansUpdateItem D raw db = (Inl (ErrorMsg ''Item does not belong to this plan''), db)"
    and "parsePlanRemoveItemPayload raw = Inr (p, i) \<Longrightarrow>
           plansRemoveItem D raw db = (Inl (ErrorMsg ''Item does not belong to this plan''), db)"
    and "parsePlanRemoveItemsPayload raw = Inr (p, gone) \<Longrightarrow> i \<in> set gone \<Longrightarrow>
           \<exists>m. plansRemoveItems D raw db = (Inl (ErrorMsg m), db)"
proof -
  show "parsePlanUpdateItemPayload raw = Inr u \<Longrightarrow> ui_planId u = p \<Longrightarrow> ui_itemId u = i \<Longrightarrow>
      plansUpdateItem D raw db = (Inl (ErrorMsg ''Item does not belong to this plan''), db)"
    using assms find_item [OF assms(1)] by (simp add: plansUpdateItem_def)
  show "parsePlanRemoveItemPayload raw = Inr (p, i) \<Longrightarrow>
      plansRemoveItem D raw db = (Inl (ErrorMsg ''Item does not belong to this plan''), db)"
    using assms find_item [OF assms(1)] by (simp add: plansRemoveItem_def)
  assume parsed: "parsePlanRemoveItemsPayload raw = Inr (p, gone)" and i: "i \<in> set gone"
  have "r \<in> set (filter (\<lambda>i. it_planId i \<noteq> p) (findItems D db (\<lambda>r. it_id r \<in> set gone)))"
    using assms i item_key [OF assms(1,2)] by (simp add: plan_items_mem [OF assms(1)])
  then obtain f fs where
      "filter (\<lambda>i. it_planId i \<noteq> p) (findItems D db (\<lambda>r. it_id r \<in> set gone)) = f # fs"
    by (cases "filter (\<lambda>i. it_planId i \<noteq> p) (findItems D db (\<lambda>r. it_id r \<in> set gone))") auto
  then show "\<exists>m. plansRemoveItems D raw db = (Inl (ErrorMsg m), db)"
    using parsed i by (auto simp: plansRemoveItems_def transaction_def)
qed

end

section \<open>Sample tables\<close>

text \<open>
  Two plans: \<open>0\<close> with the items \<open>1\<close> and \<open>2\<close> in that order, and \<open>3\<close> on the next day with
  the items \<open>4\<close>, \<open>5\<close> and \<open>6\<close>, whose orders start at zero.
\<close>

definition sampleRow :: "string \<Rightarrow> string \<Rightarrow> int \<Rightarrow> itemRow" where
  "sampleRow i p n = \<lparr>it_id = i, it_planId = p, it_order = n, it_kind = ''TIMER'', it_refId = None,
     it_refSubId = None, it_songId = None, it_title = None, it_content = None, it_notes = None,
     it_mediaPath = None, it_secondaryContent = None, it_backgroundConfig = None\<rparr>"

definition sampleTables :: planTables where
  "sampleTables = \<lparr>
     tb_planRows = [(newPlanRow 0 None None)\<lparr>pl_id := ''0''\<rparr>,
                    (newPlanRow msPerDay None None)\<lparr>pl_id := ''3'', pl_deletedAt := Some 5\<rparr>],
     tb_itemRows = [sampleRow ''2'' ''0'' 2, sampleRow ''1'' ''0'' 1, sampleRow ''4'' ''3'' 0,
                    sampleRow ''5'' ''3'' 1, sampleRow ''6'' ''3'' 2],
     tb_songIds = [], tb_next = 7\<rparr>"

lemma sample_ids: "usedIds 7 = {''0'', ''1'', ''2'', ''3'', ''4'', ''5'', ''6''}"
proof -
  have "{..<7::nat} = {0, 1, 2, 3, 4, 5, 6}" by auto
  moreover have "map show_nat [0, 1, 2, 3, 4, 5, 6] = [''0'', ''1'', ''2'', ''3'', ''4'', ''5'', ''6'']"
    by code_simp
  ultimately show ?thesis by (simp add: usedIds_def)
qed

lemma sample_ok: "tablesOk sampleTables"
  by (simp add: tablesOk_def sampleTables_def sampleRow_def newPlanRow_def sample_ids refsOk_def
      tb_plans_def)

lemma sample_find:
  "findItems tablesDb sampleTables (\<lambda>r. it_planId r = ''0'') = [sampleRow ''1'' ''0'' 1, sampleRow ''2'' ''0'' 2]"
  "findItems tablesDb sampleTables (\<lambda>r. it_planId r = ''3'')
     = [sampleRow ''4'' ''3'' 0, sampleRow ''5'' ''3'' 1, sampleRow ''6'' ''3'' 2]"
  by (simp_all add: tablesDb_def sampleTables_def sampleRow_def)

lemma sample_items:
  "tb_items sampleTables ''1'' = Some (sampleRow ''1'' ''0'' 1)"
  "tb_items sampleTables ''2'' = Some (sampleRow ''2'' ''0'' 2)"
  "tb_items sampleTables ''4'' = Some (sampleRow ''4'' ''3'' 0)"
  "tb_items sampleTables ''6'' = Some (sampleRow ''6'' ''3'' 2)"
  by (simp_all add: tb_items_def sampleTables_def sampleRow_def)

lemma sample_plan: "''0'' \<in> dom (tb_plans sampleTables)"
  by (simp add: tb_plans_def sampleTables_def newPlanRow_def)

lemma sample_dates: "planDates (tb_plans sampleTables) = {0, msPerDay}"
proof -
  have "planDates (tb_plans sampleTables) = pl_date ` set (tb_planRows sampleTables)"
    using tb_plans_Some [OF sample_ok] by (auto simp: planDates_iff image_iff)
  then show ?thesis by (simp add: sampleTables_def newPlanRow_def)
qed

lemmas parse_eval = expectString_def trim_def trim_left_def trim_right_def js_space_def Let_def
  expectOptionalString_def parseIds_def parsePlanReorderPayload_def parsePlanRemoveItemPayload_def
  parsePlanRemoveItemsPayload_def parsePlanAddItemPayload_def expectEnum_def
  CP_PLAN_ITEM_KIND_VALUES_def parsePlanCreatePayload_def parsePlanDuplicatePayload_def
  parseNonEmptyString_def

section \<open>Properties\<close>

text \<open>
  C1: Reordering does not work. In a plan whose items carry the orders 1, 2, 3 and so on,
  which is what adding, removing and duplicating leave, every new order of the items that
  differs from the present one passes the validation and then fails with the
  unique-constraint error \<open>P2002\<close>, and the transaction is rolled back: the handler sets the
  orders one statement after the other while the rows not yet updated still hold them.
\<close>
theorem reorder_always_fails:
  assumes "plan_store D plans items songs ok" and "ok db"
    and "parsePlanReorderPayload raw = Inr p"
    and "map it_order (findItems D db (\<lambda>r. it_planId r = ro_planId p))
           = map (\<lambda>k. int k + 1) [0..<length (findItems D db (\<lambda>r. it_planId r = ro_planId p))]"
    and "mset (ro_orderedItemIds p) = mset (planItemIds D db (ro_planId p))"
    and "ro_orderedItemIds p \<noteq> planItemIds D db (ro_planId p)"
  shows "plansReorder D raw db = (Inl (Prisma P2002), db)"
  using assms(2-6) by (rule plan_store.reorder_clash [OF assms(1)])

theorem reorder_always_fails_witness:
  "plansReorder tablesDb
     (JObj [(''planId'', JStr ''0''), (''orderedItemIds'', JArr [JStr ''2'', JStr ''1''])]) sampleTables
   = (Inl (Prisma P2002), sampleTables)"
proof -
  have "parsePlanReorderPayload
      (JObj [(''planId'', JStr ''0''), (''orderedItemIds'', JArr [JStr ''2'', JStr ''1''])])
      = Inr \<lparr>ro_planId = ''0'', ro_orderedItemIds = [''2'', ''1'']\<rparr>"
    by (simp add: parse_eval)
  then show ?thesis
    by (rule reorder_always_fails [OF tables_plan_store sample_ok])
      (simp_all add: planItemIds_def sample_find sampleRow_def upt_conv_Cons)
qed

text \<open>
  C2: Removing items of a plan whose orders are all positive, as the desktop application numbers
  them, removes exactly those, keeps the others in their order, numbers them 1, 2, 3 and so on, and
  leaves every other plan alone. A plan numbered from 0, as the web application makes it, is not
  covered: there the removal fails (\<open>remove_item_zero_based_fails\<close>).
\<close>
theorem remove_items_renumbers:
  assumes "plan_store D plans items songs ok" and "ok db"
    and "parsePlanRemoveItemsPayload raw = Inr (p, gone)" and "gone \<noteq> []"
    and "\<forall>i \<in> set gone. \<forall>r. items db i = Some r \<longrightarrow> it_planId r = p"
    and "\<forall>r \<in> set (findItems D db (\<lambda>r. it_planId r = p)). 0 < it_order r"
  shows "\<exists>db'. plansRemoveItems D raw db = (Inr (), db') \<and> ok db' \<and> plans db' = plans db
           \<and> findItems D db' (\<lambda>r. it_planId r = p)
               = map_idx (\<lambda>k r. r\<lparr>it_order := int k + 1\<rparr>)
                   (filter (\<lambda>r. it_id r \<notin> set gone) (findItems D db (\<lambda>r. it_planId r = p)))
           \<and> (\<forall>q. q \<noteq> p \<longrightarrow> findItems D db' (\<lambda>r. it_planId r = q) = findItems D db (\<lambda>r. it_planId r = q))"
  using assms(2-6) by (rule plan_store.removeItems_result [OF assms(1)])

theorem remove_items_renumbers_witness:
  "\<exists>db'. plansRemoveItems tablesDb
           (JObj [(''planId'', JStr ''0''), (''itemIds'', JArr [JStr ''1''])]) sampleTables
           = (Inr (), db')
     \<and> findItems tablesDb db' (\<lambda>r. it_planId r = ''0'') = [sampleRow ''2'' ''0'' 1]"
proof -
  have "parsePlanRemoveItemsPayload (JObj [(''planId'', JStr ''0''), (''itemIds'', JArr [JStr ''1''])])
      = Inr (''0'', [''1''])"
    by (simp add: parse_eval)
  from remove_items_renumbers [OF tables_plan_store sample_ok this] show ?thesis
    by (simp add: sample_items sample_find) (auto simp: sampleRow_def)
qed

text \<open>
  Removing one item of a plan whose orders are positive removes exactly it, keeps the
  others in their order and numbers them 1, 2, 3 and so on.
\<close>
theorem remove_item_renumbers:
  assumes "plan_store D plans items songs ok" and "ok db"
    and "parsePlanRemoveItemPayload raw = Inr (p, i)"
    and "items db i = Some r" and "it_planId r = p"
    and "\<forall>r \<in> set (findItems D db (\<lambda>r. it_planId r = p)). 0 < it_order r"
  shows "\<exists>db'. plansRemoveItem D raw db = (Inr (), db') \<and> ok db' \<and> plans db' = plans db
           \<and> findItems D db' (\<lambda>r. it_planId r = p)
               = map_idx (\<lambda>k r. r\<lparr>it_order := int k + 1\<rparr>)
                   (filter (\<lambda>r. it_id r \<noteq> i) (findItems D db (\<lambda>r. it_planId r = p)))
           \<and> (\<forall>q. q \<noteq> p \<longrightarrow> findItems D db' (\<lambda>r. it_planId r = q) = findItems D db (\<lambda>r. it_planId r = q))"
  using assms(2-6) by (rule plan_store.removeItem_result [OF assms(1)])

theorem remove_item_renumbers_witness:
  "\<exists>db'. plansRemoveItem tablesDb
           (JObj [(''planId'', JStr ''0''), (''itemId'', JStr ''1'')]) sampleTables = (Inr (), db')
     \<and> findItems tablesDb db' (\<lambda>r. it_planId r = ''0'') = [sampleRow ''2'' ''0'' 1]"
proof -
  have "parsePlanRemoveItemPayload (JObj [(''planId'', JStr ''0''), (''itemId'', JStr ''1'')])
      = Inr (''0'', ''1'')"
    by (simp add: parse_eval)
  from remove_item_renumbers [OF tables_plan_store sample_ok this sample_items(1)] show ?thesis
    by (simp add: sample_find) (auto simp: sampleRow_def)
qed

text \<open>
  In a plan whose remaining items would start with the orders 0 and 1, as the plans of
  the web application do, removing an item fails with \<open>P2002\<close> and nothing changes: the
  renumbering moves the first row onto the second one's order.
\<close>
theorem remove_item_zero_based_fails:
  assumes "plan_store D plans items songs ok" and "ok db"
    and "parsePlanRemoveItemPayload raw = Inr (p, i)"
    and "items db i = Some r" and "it_planId r = p"
    and "filter (\<lambda>r. it_id r \<noteq> i) (findItems D db (\<lambda>r. it_planId r = p)) = a # b # rest"
    and "it_order a = 0" and "it_order b = 1"
  shows "plansRemoveItem D raw db = (Inl (Prisma P2002), db)"
  using assms(2-8) by (rule plan_store.removeItem_zero_based [OF assms(1)])

theorem remove_item_zero_based_fails_witness:
  "plansRemoveItem tablesDb (JObj [(''planId'', JStr ''3''), (''itemId'', JStr ''6'')]) sampleTables
     = (Inl (Prisma P2002), sampleTables)"
  by (rule remove_item_zero_based_fails [OF tables_plan_store sample_ok, of _ "''3''" "''6''"
        "sampleRow ''6'' ''3'' 2" "sampleRow ''4'' ''3'' 0" "sampleRow ''5'' ''3'' 1" "[]"])
    (simp_all add: parse_eval sample_find sample_items sampleRow_def)

text \<open>
  An item of another plan is neither changed nor removed: updating it, removing it, or
  removing it together with others answers with an error and leaves the database alone.
\<close>
theorem foreign_items_refused:
  assumes "plan_store D plans items songs ok" and "ok db"
    and "items db i = Some r" and "it_planId r \<noteq> p"
    and "parsePlanUpdateItemPayload raw1 = Inr u" and "ui_planId u = p" and "ui_itemId u = i"
    and "parsePlanRemoveItemPayload raw2 = Inr (p, i)"
    and "parsePlanRemoveItemsPayload raw3 = Inr (p, gone)" and "i \<in> set gone"
  shows "plansUpdateItem D raw1 db = (Inl (ErrorMsg ''Item does not belong to this plan''), db)
       \<and> plansRemoveItem D raw2 db = (Inl (ErrorMsg ''Item does not belong to this plan''), db)
       \<and> (\<exists>m. plansRemoveItems D raw3 db = (Inl (ErrorMsg m), db))"
  using plan_store.foreign_update_refused [OF assms(1-4)] assms(5-10) by blast

theorem foreign_items_refused_witness:
  "plansRemoveItem tablesDb (JObj [(''planId'', JStr ''3''), (''itemId'', JStr ''1'')]) sampleTables
     = (Inl (ErrorMsg ''Item does not belong to this plan''), sampleTables)"
proof -
  let ?u = "\<lparr>ui_planId = ''3'', ui_itemId = ''1'', ui_title = None, ui_content = None,
    ui_notes = None, ui_secondaryContent = None, ui_backgroundConfig = Undef\<rparr>"
  have 1: "parsePlanUpdateItemPayload (JObj [(''planId'', JStr ''3''), (''itemId'', JStr ''1'')])
      = Inr ?u"
    by (simp add: parse_eval parsePlanUpdateItemPayload_def nullableRaw_def)
  have 2: "parsePlanRemoveItemPayload (JObj [(''planId'', JStr ''3''), (''itemId'', JStr ''1'')])
      = Inr (''3'', ''1'')"
    by (simp add: parse_eval)
  have 3: "parsePlanRemoveItemsPayload (JObj [(''planId'', JStr ''3''), (''itemIds'', JArr [JStr ''1''])])
      = Inr (''3'', [''1''])"
    by (simp add: parse_eval)
  show ?thesis
    using foreign_items_refused [OF tables_plan_store sample_ok sample_items(1) _ 1 _ _ 2 3]
    by (simp add: sampleRow_def)
qed

text \<open>
  C6: Adding an item to an existing plan (with an existing song, for a song block) appends
  it after the last item, with an order one above the highest, and touches no other row;
  with a missing plan or song the answer is the foreign-key error and nothing changes.
\<close>
theorem add_item_appends:
  assumes "plan_store D plans items songs ok" and "ok db"
    and "parsePlanAddItemPayload raw = Inr p"
  shows "if refsOk (plans db) (songs db) (newItemRow p 0)
         then let row = newItemRow p (lastOrder D db (ai_planId p) + 1) in
              \<exists>i db'. plansAddItem D raw db = (Inr (row\<lparr>it_id := i\<rparr>), db') \<and> ok db'
                \<and> plans db' = plans db
                \<and> i \<notin> dom (items db) \<and> items db' = (items db)(i \<mapsto> row\<lparr>it_id := i\<rparr>)
                \<and> findItems D db' (\<lambda>r. it_planId r = ai_planId p)
                    = findItems D db (\<lambda>r. it_planId r = ai_planId p) @ [row\<lparr>it_id := i\<rparr>]
         else plansAddItem D raw db = (Inl (Prisma P2003), db)"
proof -
  note laws = assms(1)
  show ?thesis
  proof (cases "refsOk (plans db) (songs db) (newItemRow p 0)")
    case False
    then show ?thesis
      using plan_store.createItem_dangling [OF laws assms(2) False, of 19] assms(3)
      by (simp add: plansAddItem_def)
  next
    case True
    let ?row = "newItemRow p (lastOrder D db (ai_planId p) + 1)"
    obtain i db' where c: "createPlanItemWithRetry D p 20 db = (Inr (?row\<lparr>it_id := i\<rparr>), db')"
        "i \<notin> dom (items db)" "items db' = (items db)(i \<mapsto> ?row\<lparr>it_id := i\<rparr>)"
        "plans db' = plans db" "ok db'"
      using plan_store.createItem_appended [OF laws assms(2) True, of 19] by auto
    have p: "it_planId (?row\<lparr>it_id := i\<rparr>) = ai_planId p"
      by (simp add: newItemRow_def)
    have "\<forall>r \<in> set (findItems D db (\<lambda>r. it_planId r = ai_planId p)). it_order r < it_order (?row\<lparr>it_id := i\<rparr>)"
    proof
      fix r assume "r \<in> set (findItems D db (\<lambda>r. it_planId r = ai_planId p))"
      then have "items db (it_id r) = Some r" "it_planId r = ai_planId p"
        using plan_store.plan_items_mem [OF laws assms(2), of r "\<lambda>r. it_planId r = ai_planId p"]
        by simp_all
      then show "it_order r < it_order (?row\<lparr>it_id := i\<rparr>)"
        using plan_store.lastOrder_upper [OF laws assms(2)] by (fastforce simp: newItemRow_def)
    qed
    then have "findItems D db' (\<lambda>r. it_planId r = ai_planId p)
        = findItems D db (\<lambda>r. it_planId r = ai_planId p) @ [?row\<lparr>it_id := i\<rparr>]"
      using plan_store.find_items_appended [OF laws assms(2) c(5,3,2)] unfolding p by blast
    moreover have "plansAddItem D raw db = (Inr (?row\<lparr>it_id := i\<rparr>), db')"
      using c(1) assms(3) by (simp add: plansAddItem_def)
    ultimately show ?thesis
      unfolding Let_def if_P [OF True] using c(2-5) by blast
  qed
qed

theorem add_item_appends_witness:
  "\<exists>row db'. plansAddItem tablesDb
       (JObj [(''planId'', JStr ''0''), (''kind'', JStr ''TIMER'')]) sampleTables = (Inr row, db')
     \<and> it_order row = 3"
proof -
  let ?p = "\<lparr>ai_planId = ''0'', ai_kind = TIMER, ai_title = None, ai_content = None,
    ai_notes = None, ai_refId = None, ai_refSubId = None, ai_mediaPath = None,
    ai_secondaryContent = None, ai_backgroundConfig = None\<rparr>"
  have 1: "parsePlanAddItemPayload (JObj [(''planId'', JStr ''0''), (''kind'', JStr ''TIMER'')])
      = Inr ?p"
    by (simp add: parse_eval)
  have 2: "refsOk (tb_plans sampleTables) (tb_songs sampleTables) (newItemRow ?p 0)"
    using sample_plan by (simp add: refsOk_def newItemRow_def)
  have 3: "lastOrder tablesDb sampleTables (ai_planId ?p) = 2"
    by (simp add: lastOrder_def sample_find) (simp add: sampleRow_def)
  obtain i db' where "plansAddItem tablesDb
      (JObj [(''planId'', JStr ''0''), (''kind'', JStr ''TIMER'')]) sampleTables
      = (Inr ((newItemRow ?p (2 + 1))\<lparr>it_id := i\<rparr>), db')"
    using add_item_appends [OF tables_plan_store sample_ok 1, unfolded if_P [OF 2] Let_def 3] by blast
  then show ?thesis
    by (intro exI conjI) (assumption, simp add: newItemRow_def)
qed

text \<open>
  C4: Creating a plan takes the requested day when no plan holds it, otherwise the first
  free day after it, trying 3,660 days; dates of deleted plans count as held. When all are
  held the handler throws and nothing is created.
\<close>
theorem create_takes_first_free_day:
  assumes "plan_store D plans items songs ok" and "ok db"
    and "parsePlanCreatePayload raw = Inr p"
    and "normalizeDateToMidnight parseDate (pr_dateIso p) = Inr d"
    and "0 \<le> d" and "d mod msPerDay = 0"
  shows "case find (\<lambda>k. d + int k * msPerDay \<notin> planDates (plans db)) [0..<3660] of
           None \<Rightarrow> plansCreate D parseDate raw db
                     = (Inl (ErrorMsg ''Unable to find an available plan date''), db)
         | Some k \<Rightarrow>
             \<exists>i db'. plansCreate D parseDate raw db
                 = (Inr ((newPlanRow (d + int k * msPerDay) (Some (orElse (pr_title p) ''Culte'')) None)
                      \<lparr>pl_id := i\<rparr>), db')
               \<and> i \<notin> dom (plans db) \<and> dom (plans db') = insert i (dom (plans db))
               \<and> items db' = items db \<and> ok db'"
proof (cases "find (\<lambda>k. d + int k * msPerDay \<notin> planDates (plans db)) [0..<3660]")
  case None
  then have "\<forall>j < 3660. d + int j * msPerDay \<in> planDates (plans db)"
    by (auto simp: find_None_iff)
  from plan_store.createPlanLoop_full [OF assms(1,2,5,6) this]
  show ?thesis using None assms(3,4) by (simp add: plansCreate_def)
next
  case (Some k)
  then have k: "k < 3660" "d + int k * msPerDay \<notin> planDates (plans db)"
      "\<forall>j < k. d + int j * msPerDay \<in> planDates (plans db)"
    by (auto simp: find_Some_iff)
  from plan_store.createPlanLoop_first_free [OF assms(1,2,5,6) k(3,2,1)]
  obtain i db' where "createPlanLoop D (orElse (pr_title p) ''Culte'') 3660 d db
      = (Inr ((newPlanRow (d + int k * msPerDay) (Some (orElse (pr_title p) ''Culte'')) None)
          \<lparr>pl_id := i\<rparr>), db')" "i \<notin> dom (plans db)"
      "plans db' = (plans db)(i \<mapsto>
        (newPlanRow (d + int k * msPerDay) (Some (orElse (pr_title p) ''Culte'')) None)\<lparr>pl_id := i\<rparr>)"
      "items db' = items db" "ok db'"
    by blast
  then show ?thesis
    using Some assms(3,4)
    by simp (intro exI [of _ i] exI [of _ db'], simp add: plansCreate_def)
qed

theorem create_takes_first_free_day_witness:
  "\<exists>p db'. plansCreate tablesDb (\<lambda>_. None) (JObj [(''dateIso'', JStr ''1970-01-01'')]) sampleTables
       = (Inr p, db') \<and> pl_date p = 2 * msPerDay"
proof -
  have 1: "parsePlanCreatePayload (JObj [(''dateIso'', JStr ''1970-01-01'')])
      = Inr \<lparr>pr_dateIso = ''1970-01-01'', pr_title = None\<rparr>"
    by (simp add: parse_eval)
  have 2: "normalizeDateToMidnight (\<lambda>_. None) ''1970-01-01'' = Inr 0"
    by (simp add: normalizeDateToMidnight_def matchYmd_def is_digit_def digits_value_def
        digit_value_def dateUTC_def MakeDay_def DayFromYear_def monthStart_def)
  have "[0..<3660] = 0 # [Suc 0..<3660]" "[Suc 0..<3660] = Suc 0 # [Suc (Suc 0)..<3660]"
      "[Suc (Suc 0)..<3660] = Suc (Suc 0) # [Suc (Suc (Suc 0))..<3660]"
    by (rule upt_conv_Cons, simp)+
  moreover have "find (\<lambda>k. 0 + int k * msPerDay \<notin> {0, msPerDay}) (0 # Suc 0 # Suc (Suc 0) # rest)
      = Some 2" for rest
    by simp
  ultimately have
    "find (\<lambda>k. 0 + int k * msPerDay \<notin> planDates (tb_plans sampleTables)) [0..<3660] = Some 2"
    by (simp only: sample_dates)
  note found = this
  have "normalizeDateToMidnight (\<lambda>_. None) (pr_dateIso \<lparr>pr_dateIso = ''1970-01-01'', pr_title = None\<rparr>)
      = Inr 0"
    using 2 by simp
  from create_takes_first_free_day [OF tables_plan_store sample_ok 1 this order_refl mod_0,
      unfolded found option.case]
  obtain i db' where "plansCreate tablesDb (\<lambda>_. None) (JObj [(''dateIso'', JStr ''1970-01-01'')])
      sampleTables = (Inr ((newPlanRow (0 + int 2 * msPerDay)
        (Some (orElse (pr_title \<lparr>pr_dateIso = ''1970-01-01'', pr_title = None\<rparr>) ''Culte'')) None)
          \<lparr>pl_id := i\<rparr>), db')"
    by blast
  then show ?thesis
    by (intro exI conjI) (assumption, simp add: newPlanRow_def)
qed

text \<open>
  C9: Duplicating a plan creates, at the requested day or the first free one after it, a plan
  with the base plan's background and the requested title, whose items are copies of the
  base plan's items in the same order (only identifiers and the plan differ, unknown kinds
  become plain announcements), and leaves the items of every other plan alone.
\<close>
theorem duplicate_copies_plan:
  assumes "plan_store D plans items songs ok" and "ok db"
    and "parsePlanDuplicatePayload raw = Inr p"
    and "plans db (pd_planId p) = Some base"
    and "normalizeDateToMidnight parseDate (orText (pd_dateIso p) (toISOString (pl_date base))) = Inr d"
    and "0 \<le> d" and "d mod msPerDay = 0"
    and "k < 3660" and "\<forall>j < k. d + int j * msPerDay \<in> planDates (plans db)"
    and "d + int k * msPerDay \<notin> planDates (plans db)"
  shows "let its = findItems D db (\<lambda>r. it_planId r = pd_planId p);
             title = orText (map_option trim (pd_title p)) (orText (pl_title base) ''Culte'');
             row = newPlanRow (d + int k * msPerDay) (Some title) (pl_backgroundConfig base)
         in \<exists>i its' db'. plansDuplicate D parseDate raw db
                = (Inr (Some (row\<lparr>pl_id := i\<rparr>, its')), db')
              \<and> i \<notin> dom (plans db) \<and> plans db' = (plans db)(i \<mapsto> row\<lparr>pl_id := i\<rparr>)
              \<and> map (\<lambda>r. r\<lparr>it_id := []\<rparr>) its' = map (copiedRow i) its
              \<and> (\<forall>q. q \<noteq> i \<longrightarrow>
                    findItems D db' (\<lambda>r. it_planId r = q) = findItems D db (\<lambda>r. it_planId r = q))"
proof -
  let ?its = "findItems D db (\<lambda>r. it_planId r = pd_planId p)"
  let ?title = "orText (map_option trim (pd_title p)) (orText (pl_title base) ''Culte'')"
  obtain i where i: "plan_store.duplicated D plans ok db
      (newPlanRow (d + int k * msPerDay) (Some ?title) (pl_backgroundConfig base)) ?its i
      (duplicateLoop D base ?its ?title 3660 d db)"
    using plan_store.duplicateLoop_first_free [OF assms(1,2,6,7) refl assms(9,10,8)] by blast
  have "planWithItems D db (pd_planId p) = Some (base, ?its)"
    using plan_store.find_plan [OF assms(1,2)] assms(4) by (simp add: planWithItems_def)
  then have eq: "plansDuplicate D parseDate raw db
      = duplicateLoop D base ?its ?title 3660 d db"
    using assms(3,5) by (simp add: plansDuplicate_def duplicatePlanWithRetry_def)
  show ?thesis
    unfolding eq Let_def using i unfolding plan_store.duplicated_def [OF assms(1)] by blast
qed

theorem duplicate_copies_plan_witness:
  "\<exists>row its' db'. plansDuplicate tablesDb (\<lambda>_. None)
       (JObj [(''planId'', JStr ''0''), (''dateIso'', JStr ''1970-01-03'')]) sampleTables
     = (Inr (Some (row, its')), db') \<and> map it_order its' = [1, 2]"
proof -
  let ?p = "\<lparr>pd_planId = ''0'', pd_dateIso = Some ''1970-01-03'', pd_title = None\<rparr>"
  let ?raw = "JObj [(''planId'', JStr ''0''), (''dateIso'', JStr ''1970-01-03'')]"
  have 1: "parsePlanDuplicatePayload ?raw = Inr ?p"
    by (simp add: parse_eval)
  have 2: "tb_plans sampleTables (pd_planId ?p) = Some ((newPlanRow 0 None None)\<lparr>pl_id := ''0''\<rparr>)"
    by (simp add: tb_plans_def sampleTables_def)
  have 3: "normalizeDateToMidnight (\<lambda>_. None) (orText (pd_dateIso ?p)
      (toISOString (pl_date ((newPlanRow 0 None None)\<lparr>pl_id := ''0''\<rparr>)))) = Inr (2 * msPerDay)"
    by (simp add: orText_def normalizeDateToMidnight_def matchYmd_def is_digit_def digits_value_def
        digit_value_def dateUTC_def MakeDay_def DayFromYear_def monthStart_def)
  have 4: "2 * msPerDay + int 0 * msPerDay \<notin> planDates (tb_plans sampleTables)"
    by (simp add: sample_dates)
  have "map it_order its' = [1, 2]"
    if "map (\<lambda>r. r\<lparr>it_id := []\<rparr>) its' = map (copiedRow i) [sampleRow ''1'' ''0'' 1, sampleRow ''2'' ''0'' 2]"
    for its' and i
  proof -
    have "map it_order its' = map it_order (map (\<lambda>r. r\<lparr>it_id := []\<rparr>) its')" by simp
    also have "\<dots> = [1, 2]" unfolding that by (simp add: sampleRow_def)
    finally show ?thesis .
  qed
  note orders = this
  have 5: "(0::int) \<le> 2 * msPerDay" "(2 * msPerDay) mod msPerDay = 0" "(0::nat) < 3660"
      "\<forall>j < (0::nat). 2 * msPerDay + int j * msPerDay \<in> planDates (tb_plans sampleTables)"
    by simp_all
  have 6: "findItems tablesDb sampleTables (\<lambda>r. it_planId r = pd_planId ?p)
      = [sampleRow ''1'' ''0'' 1, sampleRow ''2'' ''0'' 2]"
    by (simp add: sample_find)
  show ?thesis
    using duplicate_copies_plan [OF tables_plan_store sample_ok 1 2 3 5 4, unfolded Let_def 6] orders
    by blast
qed

text \<open>
  Importing a text file into an existing plan appends one announcement per line that is
  not blank, in the order of the file, with the trimmed line as its content, and reports
  their number; the items that were there, and all other plans, stay as they are.
\<close>
theorem import_appends_lines:
  assumes "plan_store D plans items songs ok" and "ok db"
    and "parseNonEmptyString raw ''plans:importFromFile.planId'' = Inr p"
    and "plans db p \<noteq> None" and "importedLines txt \<noteq> []"
  shows "\<exists>rows db'. plansImportFromFile D (Some txt) raw db
             = (Inr (ImportAdded (length (importedLines txt))), db')
           \<and> ok db' \<and> plans db' = plans db
           \<and> findItems D db' (\<lambda>r. it_planId r = p) = findItems D db (\<lambda>r. it_planId r = p) @ rows
           \<and> map it_content rows = map Some (importedLines txt)
           \<and> (\<forall>q. q \<noteq> p \<longrightarrow> findItems D db' (\<lambda>r. it_planId r = q) = findItems D db (\<lambda>r. it_planId r = q))"
proof -
  have dom: "p \<in> dom (plans db)" using assms(4) by auto
  then have eq: "plansImportFromFile D (Some txt) raw db = importLines D p 0 (importedLines txt) db"
    using assms(3,5) plan_store.find_plan [OF assms(1,2), of p]
    by (auto simp: plansImportFromFile_def Let_def)
  show ?thesis
    unfolding eq
    using plan_store.importLines_appends [OF assms(1,2) dom, of 0 "importedLines txt"] by simp
qed

theorem import_appends_lines_witness:
  "\<exists>db'. plansImportFromFile tablesDb (Some ('' a'' @ [newline] @ [newline] @ ''b'')) (JStr ''0'')
       sampleTables = (Inr (ImportAdded 2), db')"
proof -
  have 1: "parseNonEmptyString (JStr ''0'') ''plans:importFromFile.planId'' = Inr ''0''"
    by (simp add: parse_eval)
  have 2: "tb_plans sampleTables ''0'' \<noteq> None" using sample_plan by auto
  have 3: "importedLines ('' a'' @ [newline] @ [newline] @ ''b'') = [''a'', ''b'']"
    by (simp add: importedLines_def trim_def trim_left_def trim_right_def js_space_def)
  show ?thesis
    using import_appends_lines [OF tables_plan_store sample_ok 1 2, of
        "'' a'' @ [newline] @ [newline] @ ''b''"] unfolding 3 by auto
qed

end
