(* ===== verification/DataImport.thy ===== *)
theory DataImport
  imports SongHandlers PlanProps
begin

text \<open>
  Export and import of the whole database, \<open>main/ipc/data.ts\<close>: the normalisation of an imported
  file, the import of the songs and plans it holds, one transaction per entry (\<open>ENTITY\<close>) or one
  for all (\<open>STRICT\<close>), the replacement of the database, and the backups. \<open>fmt\<close> is \<open>String\<close> on
  numbers, \<open>parseDate\<close> the engine's parser of dates,
  \<open>now\<close> the clock.
\<close>

section \<open>Values\<close>

definition dataString :: "jsval \<Rightarrow> string option" where
  "dataString v = (case v of JStr s \<Rightarrow> nonEmpty (trim s) | _ \<Rightarrow> None)"

definition dataStringLike :: "(jsnum \<Rightarrow> string) \<Rightarrow> jsval \<Rightarrow> string option" where
  "dataStringLike fmt v =
     (case v of JStr s \<Rightarrow> dataString v | JNum n \<Rightarrow> Some (fmt n) | _ \<Rightarrow> None)"

definition asRawString :: "jsval \<Rightarrow> string option" where
  "asRawString v = (case v of JStr s \<Rightarrow> Some s | _ \<Rightarrow> None)"

definition asPositiveInt :: "jsval \<Rightarrow> int \<Rightarrow> int" where
  "asPositiveInt v fallback =
     (case v of JNum (Fin r) \<Rightarrow> if 0 < \<lfloor>r\<rfloor> then \<lfloor>r\<rfloor> else fallback | _ \<Rightarrow> fallback)"

record importError =
  ie_kind :: string
  ie_title :: "string option"
  ie_message :: string

definition validationError :: "string \<Rightarrow> string option \<Rightarrow> importError" where
  "validationError message title =
     \<lparr>ie_kind = ''validation'', ie_title = title, ie_message = message\<rparr>"

section \<open>Songs of an imported file\<close>

text \<open>Each normalisation gives what it keeps and, in order, the errors it reports.\<close>

definition normBlock :: "(jsnum \<Rightarrow> string) \<Rightarrow> nat \<Rightarrow> (string \<times> jsval) list \<Rightarrow> songBlockPayload" where
  "normBlock fmt idx b =
     \<lparr>rb_order = asPositiveInt (jget b ''order'') (int idx + 1),
      rb_type = orText (dataStringLike fmt (jget b ''type'')) ''VERSE'',
      rb_title = dataStringLike fmt (jget b ''title''),
      rb_content = orText (dataStringLike fmt (jget b ''content'')) []\<rparr>"

fun normBlocks ::
  "(jsnum \<Rightarrow> string) \<Rightarrow> string \<Rightarrow> string \<Rightarrow> nat \<Rightarrow> jsval list \<Rightarrow> songBlockPayload list \<times> importError list" where
  "normBlocks fmt label title idx [] = ([], [])"
| "normBlocks fmt label title idx (raw # rs) =
     (let (bs, es) = normBlocks fmt label title (Suc idx) rs
      in case raw of
           JObj b \<Rightarrow> (normBlock fmt idx b # bs, es)
         | _ \<Rightarrow> (bs, validationError (indexed (label @ ''.blocks'') idx @ '' ignore: objet attendu'')
                       (Some title) # es))"

definition songBlocksOf ::
  "(jsnum \<Rightarrow> string) \<Rightarrow> string \<Rightarrow> string \<Rightarrow> jsval \<Rightarrow> songBlockPayload list \<times> importError list" where
  "songBlocksOf fmt label title v =
     (if is_nullish v then ([], [])
      else case v of
             JArr rs \<Rightarrow> normBlocks fmt label title 0 rs
           | _ \<Rightarrow> ([], [validationError (label @ ''.blocks ignore: tableau attendu'') (Some title)]))"

definition normSong :: "(jsnum \<Rightarrow> string) \<Rightarrow> nat \<Rightarrow> (string \<times> jsval) list \<Rightarrow> importSong \<times> importError list" where
  "normSong fmt idx s =
     (let title = orText (dataStringLike fmt (jget s ''title'')) ''Sans titre'';
          (bs, es) = songBlocksOf fmt (indexed ''songs'' idx) title (jget s ''blocks'');
          field = (\<lambda>k. dataStringLike fmt (jget s k))
      in (\<lparr>im_title = title, im_artist = field ''artist'', im_album = field ''album'',
           im_year = field ''year'', im_language = field ''language'', im_tags = field ''tags'',
           im_blocks = bs\<rparr>, es))"

fun normSongs :: "(jsnum \<Rightarrow> string) \<Rightarrow> nat \<Rightarrow> jsval list \<Rightarrow> importSong list \<times> importError list" where
  "normSongs fmt idx [] = ([], [])"
| "normSongs fmt idx (raw # rs) =
     (let (ss, es) = normSongs fmt (Suc idx) rs
      in case raw of
           JObj s \<Rightarrow> (fst (normSong fmt idx s) # ss, snd (normSong fmt idx s) @ es)
         | _ \<Rightarrow> (ss, validationError (indexed ''songs'' idx @ '' ignore: objet attendu'') None # es))"

definition normalizeSongs :: "(jsnum \<Rightarrow> string) \<Rightarrow> jsval \<Rightarrow> importSong list \<times> importError list" where
  "normalizeSongs fmt rawSongs =
     (if is_nullish rawSongs then ([], [])
      else case rawSongs of
             JArr rs \<Rightarrow> normSongs fmt 0 rs
           | _ \<Rightarrow> ([], [validationError ''songs doit etre un tableau'' None]))"

section \<open>Plans of an imported file\<close>

text \<open>\<open>String(v)\<close>\<close>

fun jsString :: "(jsnum \<Rightarrow> string) \<Rightarrow> jsval \<Rightarrow> string" where
  "jsString fmt JUndef = ''undefined''"
| "jsString fmt JNull = ''null''"
| "jsString fmt (JBool b) = (if b then ''true'' else ''false'')"
| "jsString fmt (JNum n) = fmt n"
| "jsString fmt (JStr s) = s"
| "jsString fmt (JArr xs) = join '','' (map (\<lambda>x. if is_nullish x then [] else jsString fmt x) xs)"
| "jsString fmt (JObj r) = ''[object Object]''"

fun falsy :: "jsval \<Rightarrow> bool" where
  "falsy JUndef = True"
| "falsy JNull = True"
| "falsy (JBool b) = (\<not> b)"
| "falsy (JNum n) = (n = NaN \<or> n = Fin 0)"
| "falsy (JStr s) = (s = [])"
| "falsy _ = False"

text \<open>\<open>new Date(v)\<close>: a number is a time value, anything else is parsed as a text.\<close>

definition maxTime :: rat where
  "maxTime = 8640000000000000"

fun newDate :: "(jsnum \<Rightarrow> string) \<Rightarrow> (string \<Rightarrow> int option) \<Rightarrow> jsval \<Rightarrow> int option" where
  "newDate fmt parseDate (JNum n) =
     (case n of Fin r \<Rightarrow> if \<bar>r\<bar> \<le> maxTime then Some (num_trunc r) else None | _ \<Rightarrow> None)"
| "newDate fmt parseDate (JBool b) = Some (if b then 1 else 0)"
| "newDate fmt parseDate JNull = Some 0"
| "newDate fmt parseDate JUndef = None"
| "newDate fmt parseDate v = parseDate (jsString fmt v)"

definition midnightOf :: "int \<Rightarrow> int" where
  "midnightOf t = dateUTC (getUTCFullYear t) (getUTCMonth t) (getUTCDate t)"

text \<open>The date of an imported plan; its pattern asks for a prefix only.\<close>

definition importDate ::
  "(jsnum \<Rightarrow> string) \<Rightarrow> (string \<Rightarrow> int option) \<Rightarrow> int \<Rightarrow> jsval \<Rightarrow> int result" where
  "importDate fmt parseDate now v =
     (if falsy v then Inr (midnightOf now)
      else case matchYmd (take 10 (jsString fmt v)) of
             Some (y, m, d) \<Rightarrow> Inr (dateUTC y (m - 1) d)
           | None \<Rightarrow>
               (case newDate fmt parseDate v of
                  None \<Rightarrow> Inl ''Invalid plan date''
                | Some t \<Rightarrow> Inr (midnightOf t)))"

record normPlanItem =
  ni_order :: int
  ni_kind :: cpPlanItemKind
  ni_refId :: "string option"
  ni_refSubId :: "string option"
  ni_title :: "string option"
  ni_content :: "string option"
  ni_mediaPath :: "string option"
  ni_notes :: "string option"
  ni_secondaryContent :: "string option"
  ni_backgroundConfig :: "string option"

record normPlan =
  np_date :: jsval
  np_title :: string
  np_backgroundConfig :: "string option"
  np_items :: "normPlanItem list"

definition normItem ::
  "(jsnum \<Rightarrow> string) \<Rightarrow> string \<Rightarrow> string \<Rightarrow> nat \<Rightarrow> (string \<times> jsval) list \<Rightarrow> normPlanItem \<times> importError list" where
  "normItem fmt label title idx it =
     (let rawKind = dataStringLike fmt (jget it ''kind'');
          kind = normalizeCpPlanItemKind rawKind;
          field = (\<lambda>k. dataStringLike fmt (jget it k))
      in (\<lparr>ni_order = asPositiveInt (jget it ''order'') (int idx + 1), ni_kind = kind,
           ni_refId = field ''refId'', ni_refSubId = field ''refSubId'', ni_title = field ''title'',
           ni_content = field ''content'', ni_mediaPath = field ''mediaPath'',
           ni_notes = asRawString (jget it ''notes''),
           ni_secondaryContent = asRawString (jget it ''secondaryContent''),
           ni_backgroundConfig = asRawString (jget it ''backgroundConfig'')\<rparr>,
          if (case rawKind of None \<Rightarrow> None | Some k \<Rightarrow> isCpPlanItemKind k) = None
          then [validationError (indexed (label @ ''.items'') idx @ ''.kind invalide, fallback ''
                  @ [CHR 0x22] @ kindName kind @ [CHR 0x22] @ '' applique'') (Some title)]
          else []))"

fun normItems ::
  "(jsnum \<Rightarrow> string) \<Rightarrow> string \<Rightarrow> string \<Rightarrow> nat \<Rightarrow> jsval list \<Rightarrow> normPlanItem list \<times> importError list" where
  "normItems fmt label title idx [] = ([], [])"
| "normItems fmt label title idx (raw # rs) =
     (let (xs, es) = normItems fmt label title (Suc idx) rs
      in case raw of
           JObj it \<Rightarrow> (fst (normItem fmt label title idx it) # xs, snd (normItem fmt label title idx it) @ es)
         | _ \<Rightarrow> (xs, validationError (indexed (label @ ''.items'') idx @ '' ignore: objet attendu'')
                       (Some title) # es))"

definition planItemsOf ::
  "(jsnum \<Rightarrow> string) \<Rightarrow> string \<Rightarrow> string \<Rightarrow> jsval \<Rightarrow> normPlanItem list \<times> importError list" where
  "planItemsOf fmt label title v =
     (if is_nullish v then ([], [])
      else case v of
             JArr rs \<Rightarrow> normItems fmt label title 0 rs
           | _ \<Rightarrow> ([], [validationError (label @ ''.items ignore: tableau attendu'') (Some title)]))"

text \<open>A plan whose date is given and does not parse as a text is left out.\<close>

definition normPlanEntry ::
  "(jsnum \<Rightarrow> string) \<Rightarrow> (string \<Rightarrow> int option) \<Rightarrow> nat \<Rightarrow> (string \<times> jsval) list
     \<Rightarrow> normPlan option \<times> importError list" where
  "normPlanEntry fmt parseDate idx p =
     (let label = indexed ''plans'' idx;
          title = orText (dataStringLike fmt (jget p ''title'')) ''Culte'';
          date = jget p ''date''
      in if \<not> is_nullish date \<and> parseDate (jsString fmt date) = None
         then (None, [validationError (label @ '' ignore: date invalide'') (Some title)])
         else (let (its, es) = planItemsOf fmt label title (jget p ''items'')
               in (Some \<lparr>np_date = date, np_title = title,
                     np_backgroundConfig = asRawString (jget p ''backgroundConfig''), np_items = its\<rparr>, es)))"

fun normPlans ::
  "(jsnum \<Rightarrow> string) \<Rightarrow> (string \<Rightarrow> int option) \<Rightarrow> nat \<Rightarrow> jsval list \<Rightarrow> normPlan list \<times> importError list" where
  "normPlans fmt parseDate idx [] = ([], [])"
| "normPlans fmt parseDate idx (raw # rs) =
     (let (ps, es) = normPlans fmt parseDate (Suc idx) rs
      in case raw of
           JObj p \<Rightarrow>
             ((case fst (normPlanEntry fmt parseDate idx p) of None \<Rightarrow> ps | Some q \<Rightarrow> q # ps),
              snd (normPlanEntry fmt parseDate idx p) @ es)
         | _ \<Rightarrow> (ps, validationError (indexed ''plans'' idx @ '' ignore: objet attendu'') None # es))"

definition normalizePlans ::
  "(jsnum \<Rightarrow> string) \<Rightarrow> (string \<Rightarrow> int option) \<Rightarrow> jsval \<Rightarrow> normPlan list \<times> importError list" where
  "normalizePlans fmt parseDate rawPlans =
     (if is_nullish rawPlans then ([], [])
      else case rawPlans of
             JArr rs \<Rightarrow> normPlans fmt parseDate 0 rs
           | _ \<Rightarrow> ([], [validationError ''plans doit etre un tableau'' None]))"

section \<open>Versions of the file\<close>

definition DATA_EXPORT_KIND :: string where
  "DATA_EXPORT_KIND = ''CHURCH_PRESENTER_EXPORT''"

definition DATA_EXPORT_SCHEMA_VERSION :: int where
  "DATA_EXPORT_SCHEMA_VERSION = 2"

record migratedData =
  md_songs :: jsval
  md_plans :: jsval
  md_schemaVersion :: int
  md_warnings :: "string list"

definition migrateImportedDataPayload :: "(jsnum \<Rightarrow> string) \<Rightarrow> jsval \<Rightarrow> migratedData result" where
  "migrateImportedDataPayload fmt raw =
     (case raw of
        JObj rec \<Rightarrow>
          (let kind = dataStringLike fmt (jget rec ''kind'');
               schemaVersion = (case jget rec ''schemaVersion'' of
                 JNum (Fin r) \<Rightarrow> Some (num_trunc r) | _ \<Rightarrow> None);
               data = (\<lambda>p v w. \<lparr>md_songs = jget p ''songs'', md_plans = jget p ''plans'',
                        md_schemaVersion = v, md_warnings = w\<rparr>)
           in if schemaVersion \<noteq> None \<or> kind \<noteq> None \<or> jhas rec ''payload'' then
                (let detectedVersion = orElse schemaVersion 1
                 in if kind \<noteq> None \<and> kind \<noteq> Some DATA_EXPORT_KIND
                    then Inl (''Unsupported export kind: '' @ orElse kind [])
                    else if DATA_EXPORT_SCHEMA_VERSION < detectedVersion
                    then Inl (''Unsupported export schema version: '' @ show_int detectedVersion)
                    else if 2 \<le> detectedVersion
                    then (case jget rec ''payload'' of
                            JObj p \<Rightarrow> Inr (data p detectedVersion [])
                          | _ \<Rightarrow> Inl ''Invalid JSON structure (payload object expected)'')
                    else Inr (data (case jget rec ''payload'' of JObj p \<Rightarrow> p | _ \<Rightarrow> rec) detectedVersion
                           [''Legacy schema detected (v1). Migration applied automatically.'']))
              else Inr (data rec 1
                     [''Legacy JSON detected (missing schema metadata). Migration applied automatically.'']))
      | _ \<Rightarrow> Inl ''Invalid JSON structure (object expected)'')"

section \<open>Writing songs and plans\<close>

definition createSongWithBlocks :: "'db songDb \<Rightarrow> importSong \<Rightarrow> 'db \<Rightarrow> failure + songRow \<times> 'db" where
  "createSongWithBlocks S songData =
     createSongAndBlocks S (songData\<lparr>im_title :=
       (if im_title songData = [] then ''Sans titre'' else im_title songData)\<rparr>)"

definition importedItemRow :: "string \<Rightarrow> normPlanItem \<Rightarrow> itemRow" where
  "importedItemRow planId it =
     \<lparr>it_id = [], it_planId = planId, it_order = ni_order it, it_kind = kindName (ni_kind it),
      it_refId = ni_refId it, it_refSubId = ni_refSubId it, it_songId = None, it_title = ni_title it,
      it_content = ni_content it, it_notes = ni_notes it, it_mediaPath = ni_mediaPath it,
      it_secondaryContent = ni_secondaryContent it, it_backgroundConfig = ni_backgroundConfig it\<rparr>"

fun createItems :: "'db planDb \<Rightarrow> string \<Rightarrow> normPlanItem list \<Rightarrow> 'db \<Rightarrow> failure + 'db" where
  "createItems D planId [] tx = Inr tx"
| "createItems D planId (it # its) tx =
     andThen (createItem D tx (importedItemRow planId it)) (\<lambda>(_, tx). createItems D planId its tx)"

text \<open>The date of a plan is resolved first (\<open>date\<close> is its result).\<close>

definition createPlanWithItems ::
  "'db planDb \<Rightarrow> (jsval \<Rightarrow> int result) \<Rightarrow> normPlan \<Rightarrow> 'db \<Rightarrow> failure + planRow \<times> 'db" where
  "createPlanWithItems D date planData tx =
     (case date (np_date planData) of
        Inl e \<Rightarrow> Inl (ErrorMsg e)
      | Inr d \<Rightarrow>
          andThen (createPlan D tx (newPlanRow d (Some (np_title planData)) (np_backgroundConfig planData)))
            (\<lambda>(plan, tx). andThen (createItems D (pl_id plan) (np_items planData) tx) (\<lambda>tx. Inr (plan, tx))))"

section \<open>The import\<close>

datatype importOutcome =
    Imported bool nat nat "importError list"
  | RolledBack string
  | ImportFailed string
  | DataCanceled

text \<open>All entries in one transaction, songs first\<close>

fun createAll :: "('a \<Rightarrow> 'db \<Rightarrow> failure + 'r \<times> 'db) \<Rightarrow> 'a list \<Rightarrow> 'db \<Rightarrow> failure + nat \<times> 'db" where
  "createAll create [] tx = Inr (0, tx)"
| "createAll create (x # xs) tx =
     andThen (create x tx) (\<lambda>(_, tx). andThen (createAll create xs tx) (\<lambda>(n, tx). Inr (Suc n, tx)))"

definition createEntries ::
  "'db planDb \<Rightarrow> 'db songDb \<Rightarrow> (jsval \<Rightarrow> int result) \<Rightarrow> importSong list \<Rightarrow> normPlan list \<Rightarrow> 'db
     \<Rightarrow> failure + (nat \<times> nat) \<times> 'db" where
  "createEntries D S date songs plans tx =
     andThen (createAll (createSongWithBlocks S) songs tx) (\<lambda>(n, tx).
     andThen (createAll (createPlanWithItems D date) plans tx) (\<lambda>(m, tx). Inr ((n, m), tx)))"

definition strictOutcome ::
  "(dbCode \<Rightarrow> string) \<Rightarrow> importError list \<Rightarrow> (failure + nat \<times> nat) \<times> 'db \<Rightarrow> importOutcome \<times> 'db" where
  "strictOutcome msg validationErrors res =
     (case res of
        (Inr (n, m), db) \<Rightarrow> (Imported (validationErrors \<noteq> []) n m validationErrors, db)
      | (Inl e, db) \<Rightarrow> (RolledBack (getErrorMessage msg e), db))"

text \<open>Each entry in a transaction of its own; the failing ones are reported.\<close>

fun createEach ::
  "('a \<Rightarrow> 'db \<Rightarrow> failure + 'r \<times> 'db) \<Rightarrow> ('a \<Rightarrow> failure \<Rightarrow> importError) \<Rightarrow> 'a list \<Rightarrow> 'db
     \<Rightarrow> nat \<times> importError list \<times> 'db" where
  "createEach create report [] db = (0, [], db)"
| "createEach create report (x # xs) db =
     (let (res, db) = transaction (create x) db;
          (n, es, db) = createEach create report xs db
      in case res of Inr _ \<Rightarrow> (Suc n, es, db) | Inl e \<Rightarrow> (n, report x e # es, db))"

definition importNormalizedDataMerge ::
  "(dbCode \<Rightarrow> string) \<Rightarrow> 'db planDb \<Rightarrow> 'db songDb \<Rightarrow> (jsval \<Rightarrow> int result) \<Rightarrow> importSong list
     \<Rightarrow> normPlan list \<Rightarrow> cpDataImportAtomicity \<Rightarrow> importError list \<Rightarrow> 'db \<Rightarrow> importOutcome \<times> 'db" where
  "importNormalizedDataMerge msg D S date songs plans atomicity validationErrors db =
     (if atomicity = STRICT
      then strictOutcome msg validationErrors (transaction (createEntries D S date songs plans) db)
      else
        (let (n, songErrors, db) = createEach (createSongWithBlocks S)
               (\<lambda>s e. \<lparr>ie_kind = ''song'', ie_title = Some (im_title s), ie_message = getErrorMessage msg e\<rparr>)
               songs db;
             (m, planErrors, db) = createEach (createPlanWithItems D date)
               (\<lambda>p e. \<lparr>ie_kind = ''plan'', ie_title = Some (np_title p), ie_message = getErrorMessage msg e\<rparr>)
               plans db;
             errors = validationErrors @ songErrors @ planErrors
         in (Imported (errors \<noteq> []) n m errors, db)))"

text \<open>
  \<open>REPLACE\<close>: all tables are emptied and filled in one transaction. \<open>backup\<close> is the result of
  the snapshot that is taken before.
\<close>

definition clearAll :: "'db planDb \<Rightarrow> 'db songDb \<Rightarrow> 'db \<Rightarrow> 'db" where
  "clearAll D S tx =
     deletePlans S (deleteItems D (deleteSongs S (deleteBlocks S tx (\<lambda>_. True))) (\<lambda>_. True))"

definition importReplace ::
  "(dbCode \<Rightarrow> string) \<Rightarrow> 'db planDb \<Rightarrow> 'db songDb \<Rightarrow> (jsval \<Rightarrow> int result) \<Rightarrow> importSong list
     \<Rightarrow> normPlan list \<Rightarrow> importError list \<Rightarrow> failure + unit \<Rightarrow> 'db \<Rightarrow> importOutcome \<times> 'db" where
  "importReplace msg D S date songs plans validationErrors backup db =
     (case backup of
        Inl e \<Rightarrow> (RolledBack (getErrorMessage msg e), db)
      | Inr _ \<Rightarrow> strictOutcome msg validationErrors
          (transaction (\<lambda>tx. createEntries D S date songs plans (clearAll D S tx)) db))"

text \<open>
  The handler: \<open>chosen\<close> is the dialog's answer, \<open>file\<close> the chosen file as \<open>JSON.parse\<close> reads it or
  the message of its error.
\<close>

definition dataImportAll ::
  "(jsnum \<Rightarrow> string) \<Rightarrow> (string \<Rightarrow> int option) \<Rightarrow> int \<Rightarrow> (dbCode \<Rightarrow> string) \<Rightarrow> 'db planDb \<Rightarrow> 'db songDb
     \<Rightarrow> failure + unit \<Rightarrow> (string \<Rightarrow> jsval result) \<Rightarrow> string option \<Rightarrow> jsval \<Rightarrow> 'db
     \<Rightarrow> (failure + importOutcome) \<times> 'db" where
  "dataImportAll fmt parseDate now msg D S backup readJson chosen raw =
     withPayload (parseDataImportPayload raw) (\<lambda>(mode, atomicity) db.
       case chosen of
         None \<Rightarrow> (Inr DataCanceled, db)
       | Some path \<Rightarrow>
           (case andThen (readJson path) (migrateImportedDataPayload fmt) of
              Inl e \<Rightarrow> (Inr (ImportFailed (if e = [] then ''Invalid JSON file'' else e)), db)
            | Inr data \<Rightarrow>
                (let warnings = map (\<lambda>w. validationError w None) (md_warnings data);
                     (songs, songErrors) = normalizeSongs fmt (md_songs data);
                     (plans, planErrors) = normalizePlans fmt parseDate (md_plans data);
                     errors = warnings @ songErrors @ planErrors;
                     date = importDate fmt parseDate now;
                     (outcome, db) =
                       (if mode = REPLACE then importReplace msg D S date songs plans errors backup db
                        else importNormalizedDataMerge msg D S date songs plans atomicity errors db)
                 in (Inr outcome, db))))"

section \<open>The export\<close>

definition optJson :: "string option \<Rightarrow> jsval" where
  "optJson v = (case v of None \<Rightarrow> JNull | Some s \<Rightarrow> JStr s)"

definition exportBlock :: "blockRow \<Rightarrow> jsval" where
  "exportBlock b = JObj
     [(''id'', JStr (bl_id b)), (''songId'', JStr (bl_songId b)), (''order'', JNum (IntNum (bl_order b))),
      (''type'', JStr (bl_type b)), (''title'', optJson (bl_title b)), (''content'', JStr (bl_content b))]"

definition exportSong :: "songRow \<Rightarrow> blockRow list \<Rightarrow> jsval" where
  "exportSong r bs = JObj
     [(''id'', JStr (so_id r)), (''title'', JStr (so_title r)), (''artist'', optJson (so_artist r)),
      (''album'', optJson (so_album r)), (''year'', optJson (so_year r)),
      (''language'', optJson (so_language r)), (''tags'', optJson (so_tags r)),
      (''deletedAt'', optJson (map_option toISOString (so_deletedAt r))),
      (''createdAt'', JStr (toISOString (so_createdAt r))), (''updatedAt'', JStr (toISOString (so_updatedAt r))),
      (''blocks'', JArr (map exportBlock bs))]"

definition exportItem :: "itemRow \<Rightarrow> jsval" where
  "exportItem r = JObj
     [(''id'', JStr (it_id r)), (''planId'', JStr (it_planId r)), (''order'', JNum (IntNum (it_order r))),
      (''kind'', JStr (kindName (normalizeCpPlanItemKind (Some (it_kind r))))),
      (''refId'', optJson (it_refId r)), (''refSubId'', optJson (it_refSubId r)),
      (''songId'', optJson (it_songId r)), (''title'', optJson (it_title r)),
      (''content'', optJson (it_content r)), (''notes'', optJson (it_notes r)),
      (''mediaPath'', optJson (it_mediaPath r)),
      (''secondaryContent'', optJson (it_secondaryContent r)),
      (''backgroundConfig'', optJson (it_backgroundConfig r))]"

definition exportPlan :: "planRow \<Rightarrow> itemRow list \<Rightarrow> jsval" where
  "exportPlan p its = JObj
     [(''id'', JStr (pl_id p)), (''date'', JStr (toISOString (pl_date p))), (''title'', optJson (pl_title p)),
      (''backgroundConfig'', optJson (pl_backgroundConfig p)),
      (''deletedAt'', optJson (map_option toISOString (pl_deletedAt p))), (''items'', JArr (map exportItem its))]"

definition exportedSongs :: "'db songDb \<Rightarrow> 'db \<Rightarrow> jsval" where
  "exportedSongs S db =
     JArr (map (\<lambda>r. exportSong r (findBlocks S db (blocksOf (so_id r)))) (liveSongs S db))"

definition exportedPlans :: "'db planDb \<Rightarrow> 'db \<Rightarrow> jsval" where
  "exportedPlans D db =
     JArr (map (\<lambda>p. exportPlan p (findItems D db (ofPlan (pl_id p))))
       (filter (\<lambda>p. pl_deletedAt p = None) (findPlans D db)))"

text \<open>What is written to the chosen path; \<open>None\<close> when the dialog is cancelled\<close>

definition dataExportAll ::
  "int \<Rightarrow> 'db planDb \<Rightarrow> 'db songDb \<Rightarrow> string option \<Rightarrow> 'db \<Rightarrow> (string \<times> jsval) option" where
  "dataExportAll now D S filePath db =
     map_option (\<lambda>path. (path, JObj
       [(''kind'', JStr DATA_EXPORT_KIND), (''schemaVersion'', JNum (IntNum DATA_EXPORT_SCHEMA_VERSION)),
        (''exportedAt'', JStr (toISOString now)),
        (''payload'', JObj [(''songs'', exportedSongs S db), (''plans'', exportedPlans D db)])]))
       filePath"

section \<open>Backups\<close>

text \<open>
  The folder of backups as its entries with the times of their last modification, \<open>None\<close> where
  that cannot be read (then nothing is deleted).
\<close>

definition BACKUP_MAX_AGE_MS :: int where
  "BACKUP_MAX_AGE_MS = 30 * 24 * 60 * 60 * 1000"

definition pruneOldBackups :: "int \<Rightarrow> (string \<times> int option) list \<Rightarrow> (string \<times> int option) list" where
  "pruneOldBackups now entries =
     filter (\<lambda>(name, mtime). \<not> (endsWith name ''.bak''
        \<and> (case mtime of None \<Rightarrow> False | Some t \<Rightarrow> BACKUP_MAX_AGE_MS < now - t))) entries"

text \<open>
  \<open>database\<close> is the name of the database file when it exists, \<open>stamp\<close> the time as a text, \<open>mtime\<close>
  the modification time that the copy gets.
\<close>

definition backupDatabaseSnapshot ::
  "string option \<Rightarrow> string \<Rightarrow> string \<Rightarrow> int \<Rightarrow> int \<Rightarrow> (string \<times> int option) list
     \<Rightarrow> string option \<times> (string \<times> int option) list" where
  "backupDatabaseSnapshot database reason stamp mtime now entries =
     (case database of
        None \<Rightarrow> (None, entries)
      | Some base \<Rightarrow>
          (let name = base @ ''.'' @ reason @ ''.''
                 @ map (\<lambda>c. if c = CHR '':'' \<or> c = CHR ''.'' then CHR ''-'' else c) stamp @ ''.bak''
           in (Some name, pruneOldBackups now ((name, Some mtime) # filter (\<lambda>e. fst e \<noteq> name) entries))))"

end
