(* ===== verification/DataProps.thy ===== *)
theory DataProps
  imports DataImport
begin

text \<open>
  What an import does to the library of songs and to the calendar of plans: exactly the entries
  that the keys of the tables admit are taken, one by one or all together; and what the export
  writes, the import reads back.
\<close>

section \<open>The calendar of plans\<close>

record planView =
  pv_title :: "string option"
  pv_background :: "string option"
  pv_deleted :: bool
  pv_items :: "itemRow list"

text \<open>An item without its keys\<close>

definition itemView :: "itemRow \<Rightarrow> itemRow" where
  "itemView r = r\<lparr>it_id := [], it_planId := [], it_songId := None\<rparr>"

definition planViewOf :: "planRow \<Rightarrow> itemRow list \<Rightarrow> planView" where
  "planViewOf p its = \<lparr>pv_title = pl_title p, pv_background = pl_backgroundConfig p,
     pv_deleted = (pl_deletedAt p \<noteq> None), pv_items = map itemView its\<rparr>"

text \<open>The plan of a date, deleted ones included\<close>

definition calendar :: "'db planDb \<Rightarrow> 'db \<Rightarrow> int \<rightharpoonup> planView" where
  "calendar D db d =
     (case filter (\<lambda>p. pl_date p = d) (findPlans D db) of
        [] \<Rightarrow> None | p # _ \<Rightarrow> Some (planViewOf p (findItems D db (ofPlan (pl_id p)))))"

text \<open>What an import makes of its entries\<close>

definition entryView :: "importSong \<Rightarrow> importSong" where
  "entryView s = s\<lparr>im_title := (if im_title s = [] then ''Sans titre'' else im_title s),
     im_blocks := inOrder (im_blocks s)\<rparr>"

definition planEntryView :: "normPlan \<Rightarrow> planView" where
  "planEntryView p = \<lparr>pv_title = Some (np_title p), pv_background = np_backgroundConfig p,
     pv_deleted = False,
     pv_items = map (\<lambda>it. importedItemRow [] it) (sort_key ni_order (np_items p))\<rparr>"

definition songFits :: "importSong \<Rightarrow> bool" where
  "songFits s \<longleftrightarrow> ordersOk (im_blocks s)"

text \<open>The plans that fit beside the dates taken and each other, with their dates\<close>

fun fittingPlans ::
  "(jsval \<Rightarrow> int result) \<Rightarrow> int set \<Rightarrow> normPlan list \<Rightarrow> (int \<times> normPlan) list" where
  "fittingPlans date taken [] = []"
| "fittingPlans date taken (p # ps) =
     (case date (np_date p) of
        Inr d \<Rightarrow>
          if d \<notin> taken \<and> distinct (map ni_order (np_items p))
          then (d, p) # fittingPlans date (insert d taken) ps
          else fittingPlans date taken ps
      | Inl _ \<Rightarrow> fittingPlans date taken ps)"

lemma length_fittingPlans: "length (fittingPlans date taken ps) \<le> length ps"
  by (induction ps arbitrary: taken) (auto split: sum.splits intro: le_SucI)

section \<open>Items of a new plan\<close>

definition eraseId :: "itemRow \<Rightarrow> itemRow" where
  "eraseId r = r\<lparr>it_id := []\<rparr>"

lemma eraseId_simps [simp]:
  "it_order (eraseId r) = it_order r" "eraseId (r\<lparr>it_id := i\<rparr>) = eraseId r"
  "eraseId (importedItemRow p it) = importedItemRow p it"
  by (simp_all add: eraseId_def importedItemRow_def)

lemma importedItemRow_simps [simp]:
  "it_planId (importedItemRow p it) = p" "it_order (importedItemRow p it) = ni_order it"
  "it_songId (importedItemRow p it) = None"
  by (simp_all add: importedItemRow_def)

lemma itemView_erased: "itemView (eraseId r) = itemView r"
  by (simp add: itemView_def eraseId_def)

lemma itemView_imported [simp]: "itemView (importedItemRow p it) = importedItemRow [] it"
  by (simp add: itemView_def importedItemRow_def)

context plan_store
begin

lemma find_items_cong:
  assumes "ok db" and "ok db'"
    and "\<And>r. it_planId r = p \<Longrightarrow> r \<in> ran (items db) \<longleftrightarrow> r \<in> ran (items db')"
  shows "findItems D db (ofPlan p) = findItems D db' (ofPlan p)"
proof -
  have "set (findItems D db (ofPlan p)) = set (findItems D db' (ofPlan p))"
    using assms(3) by (auto simp: find_items_set assms(1,2))
  with plan_items_orders [OF assms(1)] plan_items_orders [OF assms(2)] show ?thesis
    by (rule strictly_sorted_unique)
qed

lemma createItem_imported:
  assumes "ok db" and "p \<in> dom (plans db)"
  shows "if ni_order it \<notin> it_order ` set (findItems D db (ofPlan p))
         then \<exists>r db'. createItem D db (importedItemRow p it) = Inr (r, db') \<and> ok db'
           \<and> plans db' = plans db \<and> songs db' = songs db
           \<and> mset (map eraseId (findItems D db' (ofPlan p)))
               = add_mset (importedItemRow p it) (mset (map eraseId (findItems D db (ofPlan p))))
           \<and> (\<forall>q. q \<noteq> p \<longrightarrow> findItems D db' (ofPlan q) = findItems D db (ofPlan q))
         else createItem D db (importedItemRow p it) = Inl (Prisma P2002)"
proof -
  let ?row = "importedItemRow p it"
  have slot: "(\<exists>j q. items db j = Some q \<and> sameSlot ?row q)
      \<longleftrightarrow> ni_order it \<in> it_order ` set (findItems D db (ofPlan p))"
    using plan_items_mem [OF assms(1)] item_key [OF assms(1)]
    by (auto simp: sameSlot_def image_iff) (metis+)
  show ?thesis
  proof (cases "ni_order it \<in> it_order ` set (findItems D db (ofPlan p))")
    case True
    then show ?thesis
      using slot create_item_taken [OF assms(1)] by fastforce
  next
    case False
    then have "\<not> sameSlot ?row q" if "items db j = Some q" for j q
      using slot that by blast
    moreover have "refsOk (plans db) (songs db) ?row"
      using assms(2) by (simp add: refsOk_def)
    ultimately obtain i db' where i: "createItem D db ?row = Inr (?row\<lparr>it_id := i\<rparr>, db')"
        "i \<notin> dom (items db)" "items db' = (items db)(i \<mapsto> ?row\<lparr>it_id := i\<rparr>)"
        "plans db' = plans db" "songs db' = songs db" "ok db'"
      using create_item [OF assms(1)] by blast
    let ?r = "?row\<lparr>it_id := i\<rparr>"
    have ran: "ran (items db') = insert ?r (ran (items db))"
      using i(2,3) by (auto simp: ran_def)
    have "?r \<notin> ran (items db)"
      using i(2) item_key [OF assms(1)] by (force simp: ran_def)
    then have "mset (findItems D db' (ofPlan p)) = add_mset ?r (mset (findItems D db (ofPlan p)))"
      by (intro mset_insert_distinct)
        (auto simp: find_items_distinct find_items_set assms(1) i(6) ran)
    then have "mset (map eraseId (findItems D db' (ofPlan p)))
        = add_mset ?row (mset (map eraseId (findItems D db (ofPlan p))))"
      by simp
    moreover have "findItems D db' (ofPlan q) = findItems D db (ofPlan q)" if "q \<noteq> p" for q
      using that by (intro find_items_cong i(6) assms(1)) (auto simp: ran)
    ultimately show ?thesis
      using False i by auto
  qed
qed

lemma createItems_result:
  assumes "ok db" and "p \<in> dom (plans db)"
  shows "if distinct (map ni_order its)
             \<and> ni_order ` set its \<inter> it_order ` set (findItems D db (ofPlan p)) = {}
         then \<exists>db'. createItems D p its db = Inr db' \<and> ok db' \<and> plans db' = plans db
           \<and> songs db' = songs db
           \<and> mset (map eraseId (findItems D db' (ofPlan p)))
               = mset (map eraseId (findItems D db (ofPlan p))) + mset (map (importedItemRow p) its)
           \<and> (\<forall>q. q \<noteq> p \<longrightarrow> findItems D db' (ofPlan q) = findItems D db (ofPlan q))
         else createItems D p its db = Inl (Prisma P2002)"
  using assms
proof (induction its arbitrary: db)
  case (Cons it its)
  note step = createItem_imported [OF Cons.prems, of it]
  show ?case
  proof (cases "ni_order it \<in> it_order ` set (findItems D db (ofPlan p))")
    case True
    with step show ?thesis by auto
  next
    case False
    then obtain r db1 where r: "createItem D db (importedItemRow p it) = Inr (r, db1)" "ok db1"
        "plans db1 = plans db" "songs db1 = songs db"
        "mset (map eraseId (findItems D db1 (ofPlan p)))
           = add_mset (importedItemRow p it) (mset (map eraseId (findItems D db (ofPlan p))))"
        "\<forall>q. q \<noteq> p \<longrightarrow> findItems D db1 (ofPlan q) = findItems D db (ofPlan q)"
      using step by auto
    have "it_order ` set (map eraseId (findItems D db1 (ofPlan p)))
        = insert (ni_order it) (it_order ` set (map eraseId (findItems D db (ofPlan p))))"
      using arg_cong [OF r(5), of "\<lambda>m. it_order ` set_mset m"] by simp
    then have orders: "it_order ` set (findItems D db1 (ofPlan p))
        = insert (ni_order it) (it_order ` set (findItems D db (ofPlan p)))"
      by (simp add: image_image)
    have "p \<in> dom (plans db1)"
      using Cons.prems(2) by (simp add: r(3))
    from Cons.IH [OF r(2) this] show ?thesis
      using False r by (auto simp: orders split: if_splits)
  qed
qed simp

lemma calendar_Some:
  assumes "ok db" and "plans db i = Some p"
  shows "calendar D db (pl_date p) = Some (planViewOf p (findItems D db (ofPlan i)))"
proof -
  let ?xs = "filter (\<lambda>q. pl_date q = pl_date p) (findPlans D db)"
  have "set (findPlans D db) = ran (plans db)"
    by (rule find_plans [OF assms(1)])
  then have set: "set ?xs = {q \<in> ran (plans db). pl_date q = pl_date p}"
    by auto
  have "q = p" if "q \<in> set ?xs" for q
  proof -
    have "q \<in> ran (plans db)" "pl_date q = pl_date p"
      using that unfolding set by simp_all
    then obtain j where "plans db j = Some q" "pl_date q = pl_date p"
      by (auto simp: ran_def)
    with date_unique [OF assms(1) this(1) assms(2)] assms(2) show ?thesis by simp
  qed
  moreover have "p \<in> set ?xs"
    unfolding set using assms(2) by (auto simp: ran_def)
  then obtain q qs where "?xs = q # qs"
    by (cases ?xs) auto
  ultimately have "?xs = p # qs"
    by (metis list.set_intros(1))
  then show ?thesis
    using plan_key [OF assms] by (simp add: calendar_def)
qed

lemma calendar_None: "ok db \<Longrightarrow> d \<notin> planDates (plans db) \<Longrightarrow> calendar D db d = None"
  using find_plans [of db]
  by (subst calendar_def, subst filter_False) (auto simp: planDates_def)

lemma calendar_dom: "ok db \<Longrightarrow> dom (calendar D db) = planDates (plans db)"
proof (intro set_eqI iffI)
  fix d
  assume "ok db" "d \<in> planDates (plans db)"
  then show "d \<in> dom (calendar D db)"
    using calendar_Some [of db] by (auto simp: planDates_iff)
next
  fix d
  assume "ok db" "d \<in> dom (calendar D db)"
  then show "d \<in> planDates (plans db)"
    using calendar_None [of db d] by (metis domIff)
qed

lemma calendar_cong:
  assumes "ok db" and "ok db'" and "plans db' = plans db"
    and "\<And>i p. plans db i = Some p \<Longrightarrow>
           map itemView (findItems D db' (ofPlan i)) = map itemView (findItems D db (ofPlan i))"
  shows "calendar D db' = calendar D db"
proof
  fix d
  show "calendar D db' d = calendar D db d"
  proof (cases "d \<in> planDates (plans db)")
    case True
    then obtain i p where i: "plans db i = Some p" "pl_date p = d"
      by (auto simp: planDates_iff)
    then show ?thesis
      using calendar_Some [OF assms(1) i(1)] calendar_Some [OF assms(2), of i p] assms(3,4)
      by (simp add: planViewOf_def)
  next
    case False
    then show ?thesis
      using assms(1-3) by (simp add: calendar_None)
  qed
qed

lemma sorted_views:
  assumes "mset (map eraseId rs) = mset (map (importedItemRow p) its)"
    and "sorted_wrt (<) (map it_order rs)"
  shows "map itemView rs = map (importedItemRow []) (sort_key ni_order its)"
proof -
  have "map itemView rs = map itemView (map eraseId rs)"
    by (simp add: itemView_erased)
  then have mset: "mset (map itemView rs) = mset (map (importedItemRow []) its)"
    using arg_cong [OF assms(1), of "image_mset itemView"]
    by (simp only: flip: mset_map) (simp add: comp_def)
  have orders: "map it_order (map itemView rs) = map it_order rs"
    by (simp add: itemView_def)
  then have strict: "sorted_wrt (<) (map it_order (map itemView rs))"
    using assms(2) by (simp only:)
  then have sorted: "sorted (map it_order (map itemView rs))" "inj_on it_order (set (map itemView rs))"
    by (simp_all only: strict_sorted_iff distinct_map)
  have "inj_on it_order (set (map (importedItemRow []) its))"
    using sorted(2) mset_eq_setD [OF mset] by simp
  then have "sort_key it_order (map (importedItemRow []) its) = map itemView rs"
    using sorted(1) mset by (intro sort_key_inj_key_eq) simp_all
  moreover have "sort_key it_order (map (importedItemRow []) its)
      = map (importedItemRow []) (sort_key ni_order its)"
    using \<open>inj_on it_order (set (map (importedItemRow []) its))\<close>
    by (intro sort_key_inj_key_eq) (simp_all add: comp_def)
  ultimately show ?thesis by simp
qed

text \<open>A plan with its items goes in as a whole, or fails.\<close>

lemma createPlanWithItems_result:
  assumes "ok db"
  shows "case fittingPlans date (dom (calendar D db)) [p] of
           [] \<Rightarrow> (\<exists>e. createPlanWithItems D date p db = Inl e)
         | (d, _) # _ \<Rightarrow> (\<exists>r db'. createPlanWithItems D date p db = Inr (r, db') \<and> ok db'
             \<and> songs db' = songs db \<and> calendar D db' = (calendar D db)(d \<mapsto> planEntryView p))"
proof (cases "date (np_date p)")
  case (Inr d)
  let ?row = "newPlanRow d (Some (np_title p)) (np_backgroundConfig p)"
  have row: "pl_date ?row = d"
    by (simp add: newPlanRow_def)
  show ?thesis
  proof (cases "d \<in> planDates (plans db)")
    case True
    then obtain j q where "plans db j = Some q" "pl_date q = d"
      by (auto simp: planDates_iff)
    then have "createPlan D db ?row = Inl (Prisma P2002)"
      using create_plan_taken [OF assms, of j q ?row] row by simp
    with True Inr show ?thesis
      by (simp add: createPlanWithItems_def calendar_dom assms)
  next
    case False
    then have "\<And>j q. plans db j = Some q \<Longrightarrow> pl_date q \<noteq> pl_date ?row"
      by (auto simp: planDates_iff row)
    then obtain i db1 where i: "createPlan D db ?row = Inr (?row\<lparr>pl_id := i\<rparr>, db1)"
        "i \<notin> dom (plans db)" "plans db1 = (plans db)(i \<mapsto> ?row\<lparr>pl_id := i\<rparr>)"
        "items db1 = items db" "songs db1 = songs db" "ok db1"
      using create_plan [OF assms] by blast
    have old: "findItems D db1 (ofPlan q) = findItems D db (ofPlan q)" for q
      using i(4) by (intro find_items_cong i(6) assms) simp
    have "r \<notin> set (findItems D db (ofPlan i))" for r
      using plan_items_mem [OF assms] item_refs [OF assms] i(2) by (auto simp: refsOk_def)
    then have none: "findItems D db1 (ofPlan i) = []"
      unfolding old by (metis list.set_intros(1) neq_Nil_conv)
    have "i \<in> dom (plans db1)"
      by (simp add: i(3))
    note its = createItems_result [OF i(6) this, of "np_items p"]
    show ?thesis
    proof (cases "distinct (map ni_order (np_items p))")
      case True
      then obtain db2 where db2: "createItems D i (np_items p) db1 = Inr db2" "ok db2"
          "plans db2 = plans db1" "songs db2 = songs db1"
          "mset (map eraseId (findItems D db2 (ofPlan i))) = mset (map (importedItemRow i) (np_items p))"
          "\<forall>q. q \<noteq> i \<longrightarrow> findItems D db2 (ofPlan q) = findItems D db1 (ofPlan q)"
        using its none by auto
      have "map itemView (findItems D db2 (ofPlan i))
          = map (importedItemRow []) (sort_key ni_order (np_items p))"
        using db2(5) plan_items_orders [OF db2(2)] by (rule sorted_views)
      then have view: "planViewOf (?row\<lparr>pl_id := i\<rparr>) (findItems D db2 (ofPlan i)) = planEntryView p"
        by (simp add: planViewOf_def planEntryView_def newPlanRow_def)
      have "calendar D db2 = (calendar D db)(d \<mapsto> planEntryView p)"
      proof
        fix d'
        consider "d' = d" | (old) j q where "d' \<noteq> d" "plans db j = Some q" "pl_date q = d'"
          | (none) "d' \<noteq> d" "d' \<notin> planDates (plans db)"
          by (auto simp: planDates_iff)
        then show "calendar D db2 d' = ((calendar D db)(d \<mapsto> planEntryView p)) d'"
        proof cases
          case 1
          then show ?thesis
            using calendar_Some [OF db2(2), of i "?row\<lparr>pl_id := i\<rparr>"] view
            by (simp add: db2(3) i(3)) (simp add: newPlanRow_def)
        next
          case old
          then have "j \<noteq> i"
            using i(2) by auto
          with old show ?thesis
            using calendar_Some [OF db2(2), of j q] calendar_Some [OF assms old(2)] db2(6)
            by (simp add: db2(3) i(3) \<open>\<And>q. findItems D db1 (ofPlan q) = findItems D db (ofPlan q)\<close>)
        next
          case none
          then have "d' \<notin> planDates (plans db2)"
            by (auto simp: planDates_iff db2(3) i(3) newPlanRow_def split: if_splits)
          with none show ?thesis
            by (simp add: calendar_None db2(2) assms)
        qed
      qed
      then show ?thesis
        using True Inr False i db2
        by (simp add: createPlanWithItems_def calendar_dom assms)
    next
      case False
      then have "createItems D i (np_items p) db1 = Inl (Prisma P2002)"
        using its by auto
      with False Inr i(1) show ?thesis
        by (simp add: createPlanWithItems_def)
    qed
  qed
qed (simp add: createPlanWithItems_def)

end

section \<open>Both parts of the database\<close>

text \<open>Plans added on their dates\<close>

definition addPlans :: "(int \<rightharpoonup> planView) \<Rightarrow> (int \<times> normPlan) list \<Rightarrow> int \<rightharpoonup> planView" where
  "addPlans cal fits = cal ++ map_of (map (\<lambda>(d, p). (d, planEntryView p)) fits)"

lemma fitting_dates: "(d, p) \<in> set (fittingPlans date taken ps) \<Longrightarrow> d \<notin> taken"
  by (induction ps arbitrary: taken) (auto split: sum.splits if_splits)

lemma addPlans_Nil [simp]: "addPlans cal [] = cal"
  by (simp add: addPlans_def)

lemma addPlans_Cons:
  "addPlans (cal(d \<mapsto> planEntryView p)) (fittingPlans date (insert d (dom cal)) ps)
     = addPlans cal ((d, p) # fittingPlans date (insert d (dom cal)) ps)"
proof -
  have "d \<notin> dom (map_of (map (\<lambda>(d, p). (d, planEntryView p))
      (fittingPlans date (insert d (dom cal)) ps)))"
    by (auto dest!: map_of_SomeD dest: fitting_dates)
  then show ?thesis
    by (simp add: addPlans_def map_add_upd_left)
qed

context church_store
begin

lemma library_cong:
  assumes "ok db" and "ok db'" and "rows db' = rows db" and "blocks db' = blocks db"
  shows "library S db' = library S db"
proof
  fix i
  have "findBlocks S db' (blocksOf i) = findBlocks S db (blocksOf i)"
    using assms by (intro find_blocks_cong) simp_all
  with assms show "library S db' i = library S db i"
    by (simp add: library_rows split: option.split)
qed

lemma calendar_frame:
  assumes "ok db" and "ok db'" and "plans db' = plans db" and "items db' = items db"
  shows "calendar D db' = calendar D db"
proof (rule calendar_cong [OF assms(1-3)])
  fix i
  show "map itemView (findItems D db' (ofPlan i)) = map itemView (findItems D db (ofPlan i))"
    using assms(4) by (intro arg_cong [of _ _ "map itemView"] find_items_cong assms(1,2)) simp
qed

lemma createBlock_frame:
  assumes "ok db" and "createBlock S db b = Inr db'"
  shows "ok db' \<and> plans db' = plans db \<and> items db' = items db"
proof -
  have "\<And>j c. blocks db j = Some c \<Longrightarrow> \<not> sameBlockSlot b c"
    using create_block_taken [OF assms(1)] assms(2) by fastforce
  moreover have "bl_songId b \<in> dom (rows db)"
    using create_block_dangling [OF assms(1)] assms(2) by fastforce
  ultimately show ?thesis
    using create_block [OF assms(1)] block_frame [OF assms] assms(2) by fastforce
qed

lemma createBlocks_frame:
  "ok db \<Longrightarrow> createBlocks S i bs db = Inr db' \<Longrightarrow> plans db' = plans db \<and> items db' = items db"
proof (induction bs arbitrary: db)
  case (Cons b bs)
  then obtain db1 where "createBlock S db (newBlockRow i b) = Inr db1" "createBlocks S i bs db1 = Inr db'"
    by (auto simp: andThen_def split: sum.splits)
  with Cons.IH [of db1] createBlock_frame [OF Cons.prems(1)] show ?case by auto
qed simp

lemma createSongWithBlocks_result:
  assumes "ok db"
  shows "if songFits s
         then \<exists>r db'. createSongWithBlocks S s db = Inr (r, db') \<and> ok db'
           \<and> library S db (so_id r) = None \<and> library S db' = (library S db)(so_id r \<mapsto> entryView s)
           \<and> calendar D db' = calendar D db
         else createSongWithBlocks S s db = Inl (Prisma P2002)"
proof -
  let ?s = "s\<lparr>im_title := (if im_title s = [] then ''Sans titre'' else im_title s)\<rparr>"
  have view: "?s\<lparr>im_blocks := inOrder (im_blocks ?s)\<rparr> = entryView s"
    by (simp add: entryView_def)
  show ?thesis
  proof (cases "songFits s")
    case True
    then obtain r db' where r: "createSongAndBlocks S ?s db = Inr (r, db')" "ok db'"
        "so_id r \<notin> dom (rows db)" "library S db' = (library S db)(so_id r \<mapsto> entryView s)"
      using createSongAndBlocks_result [OF assms, of ?s] view by (auto simp: songFits_def)
    obtain r1 db1 where db1: "createSong S db (newSongRow ?s) = (r1, db1)"
      by fastforce
    then have "ok db1"
      using create_song [OF assms, of "newSongRow ?s"] by auto
    moreover have "createBlocks S (so_id r1) (im_blocks ?s) db1 = Inr db'"
      using r(1) db1 by (auto simp: createSongAndBlocks_def andThen_def split: sum.splits)
    ultimately have "plans db' = plans db" "items db' = items db"
      using createBlocks_frame song_frame [OF assms db1] by simp_all
    then have "calendar D db' = calendar D db"
      using calendar_frame [OF assms r(2)] by simp
    moreover have "library S db (so_id r) = None"
      using r(3) by (intro library_missing [OF assms]) (simp add: domIff)
    ultimately show ?thesis
      using r True by (auto simp: createSongWithBlocks_def)
  next
    case False
    then show ?thesis
      using createSongAndBlocks_result [OF assms, of ?s] by (simp add: songFits_def createSongWithBlocks_def)
  qed
qed

lemma createItems_frame:
  "ok db \<Longrightarrow> p \<in> dom (plans db) \<Longrightarrow> createItems D p its db = Inr db' \<Longrightarrow>
     rows db' = rows db \<and> blocks db' = blocks db"
proof (induction its arbitrary: db)
  case (Cons it its)
  then obtain r db1 where r: "createItem D db (importedItemRow p it) = Inr (r, db1)"
      "createItems D p its db1 = Inr db'"
    by (auto simp: andThen_def split: sum.splits)
  have "ok db1" "plans db1 = plans db"
    using createItem_imported [OF Cons.prems(1,2), of it] r(1) by (auto split: if_splits)
  with Cons.IH [of db1] Cons.prems(2) r item_frame [OF Cons.prems(1)] show ?case by auto
qed simp

lemma createPlanWithItems_library:
  assumes "ok db" and "createPlanWithItems D date p db = Inr (r, db')" and "ok db'"
  shows "library S db' = library S db"
proof -
  obtain d where d: "date (np_date p) = Inr d"
    using assms(2) by (auto simp: createPlanWithItems_def split: sum.splits)
  let ?row = "newPlanRow d (Some (np_title p)) (np_backgroundConfig p)"
  obtain q db1 where q: "createPlan D db ?row = Inr (q, db1)"
      "createItems D (pl_id q) (np_items p) db1 = Inr db'"
    using assms(2) d by (auto simp: createPlanWithItems_def andThen_def split: sum.splits)
  have "\<And>j p'. plans db j = Some p' \<Longrightarrow> pl_date p' \<noteq> pl_date ?row"
    using create_plan_taken [OF assms(1)] q(1) by fastforce
  then have "ok db1" "pl_id q \<in> dom (plans db1)"
    using create_plan [OF assms(1), of ?row] q(1) by auto
  then have "rows db' = rows db" "blocks db' = blocks db"
    using createItems_frame q(2) plan_frame [OF assms(1) q(1)] by simp_all
  then show ?thesis
    using library_cong [OF assms(1,3)] by simp
qed

lemma createEach_songs:
  assumes "ok db"
  shows "\<exists>db'. createEach (createSongWithBlocks S) report ss db
             = (length (filter songFits ss),
                map (\<lambda>s. report s (Prisma P2002)) (filter (\<lambda>s. \<not> songFits s) ss), db')
           \<and> ok db' \<and> calendar D db' = calendar D db
           \<and> addsSongs (library S db) (map entryView (filter songFits ss)) (library S db')"
  using assms
proof (induction ss arbitrary: db)
  case (Cons s ss)
  note result = createSongWithBlocks_result [OF Cons.prems, of s]
  show ?case
  proof (cases "songFits s")
    case True
    then obtain r db1 where r: "createSongWithBlocks S s db = Inr (r, db1)" "ok db1"
        "library S db (so_id r) = None" "library S db1 = (library S db)(so_id r \<mapsto> entryView s)"
        "calendar D db1 = calendar D db"
      using result by auto
    from Cons.IH [OF r(2)] obtain db2 where "createEach (createSongWithBlocks S) report ss db1
             = (length (filter songFits ss),
                map (\<lambda>s. report s (Prisma P2002)) (filter (\<lambda>s. \<not> songFits s) ss), db2)"
        "ok db2" "calendar D db2 = calendar D db1"
        "addsSongs (library S db1) (map entryView (filter songFits ss)) (library S db2)"
      by blast
    with True r show ?thesis by (simp add: addsSongs_Cons)
  next
    case False
    with result Cons.IH [OF Cons.prems] show ?thesis by auto
  qed
qed simp

lemma createAll_songs:
  assumes "ok db"
  shows "if list_all songFits ss
         then \<exists>db'. createAll (createSongWithBlocks S) ss db = Inr (length ss, db') \<and> ok db'
           \<and> calendar D db' = calendar D db
           \<and> addsSongs (library S db) (map entryView ss) (library S db')
         else createAll (createSongWithBlocks S) ss db = Inl (Prisma P2002)"
  using assms
proof (induction ss arbitrary: db)
  case (Cons s ss)
  note result = createSongWithBlocks_result [OF Cons.prems, of s]
  show ?case
  proof (cases "songFits s")
    case True
    then obtain r db1 where r: "createSongWithBlocks S s db = Inr (r, db1)" "ok db1"
        "library S db (so_id r) = None" "library S db1 = (library S db)(so_id r \<mapsto> entryView s)"
        "calendar D db1 = calendar D db"
      using result by auto
    with True Cons.IH [OF r(2)] show ?thesis
      by (auto simp: addsSongs_Cons split: if_splits simp del: fun_upd_apply)
  next
    case False
    with result show ?thesis by simp
  qed
qed simp

lemma createEach_plans:
  assumes "ok db"
  shows "\<exists>es db'. createEach (createPlanWithItems D date) report ps db
             = (length (fittingPlans date (dom (calendar D db)) ps), es, db')
           \<and> length es + length (fittingPlans date (dom (calendar D db)) ps) = length ps
           \<and> ok db' \<and> library S db' = library S db
           \<and> calendar D db' = addPlans (calendar D db) (fittingPlans date (dom (calendar D db)) ps)"
  using assms
proof (induction ps arbitrary: db)
  case (Cons p ps)
  note result = createPlanWithItems_result [OF Cons.prems, of date p]
  show ?case
  proof (cases "fittingPlans date (dom (calendar D db)) [p]")
    case Nil
    then have same: "fittingPlans date (dom (calendar D db)) (p # ps)
        = fittingPlans date (dom (calendar D db)) ps"
      by (auto split: sum.splits if_splits)
    obtain e where "createPlanWithItems D date p db = Inl e"
      using result Nil by auto
    with Cons.IH [OF Cons.prems] show ?thesis
      unfolding same by fastforce
  next
    case (Cons dp rest)
    then obtain d where d: "date (np_date p) = Inr d" "fittingPlans date (dom (calendar D db)) [p] = [(d, p)]"
        "fittingPlans date (dom (calendar D db)) (p # ps)
           = (d, p) # fittingPlans date (insert d (dom (calendar D db))) ps"
      by (auto split: sum.splits if_splits)
    then obtain r db1 where r: "createPlanWithItems D date p db = Inr (r, db1)" "ok db1"
        "calendar D db1 = (calendar D db)(d \<mapsto> planEntryView p)"
      using result by auto
    have "library S db1 = library S db"
      using createPlanWithItems_library [OF Cons.prems r(1,2)] .
    with Cons.IH [OF r(2)] show ?thesis
      using r by (auto simp: d(3) addPlans_Cons simp del: fittingPlans.simps fun_upd_apply)
  qed
qed simp

lemma createAll_plans:
  assumes "ok db"
  shows "if length (fittingPlans date (dom (calendar D db)) ps) = length ps
         then \<exists>db'. createAll (createPlanWithItems D date) ps db = Inr (length ps, db') \<and> ok db'
           \<and> library S db' = library S db
           \<and> calendar D db' = addPlans (calendar D db) (fittingPlans date (dom (calendar D db)) ps)
         else \<exists>e. createAll (createPlanWithItems D date) ps db = Inl e"
  using assms
proof (induction ps arbitrary: db)
  case (Cons p ps)
  note result = createPlanWithItems_result [OF Cons.prems, of date p]
  show ?case
  proof (cases "fittingPlans date (dom (calendar D db)) [p]")
    case Nil
    then have same: "fittingPlans date (dom (calendar D db)) (p # ps)
        = fittingPlans date (dom (calendar D db)) ps"
      by (auto split: sum.splits if_splits)
    obtain e where "createPlanWithItems D date p db = Inl e"
      using result Nil by auto
    then show ?thesis
      using length_fittingPlans [of date "dom (calendar D db)" ps] unfolding same by auto
  next
    case (Cons dp rest)
    then obtain d where d: "date (np_date p) = Inr d" "fittingPlans date (dom (calendar D db)) [p] = [(d, p)]"
        "fittingPlans date (dom (calendar D db)) (p # ps)
           = (d, p) # fittingPlans date (insert d (dom (calendar D db))) ps"
      by (auto split: sum.splits if_splits)
    then obtain r db1 where r: "createPlanWithItems D date p db = Inr (r, db1)" "ok db1"
        "calendar D db1 = (calendar D db)(d \<mapsto> planEntryView p)"
      using result by auto
    have "library S db1 = library S db"
      using createPlanWithItems_library [OF Cons.prems r(1,2)] .
    with Cons.IH [OF r(2)] show ?thesis
      using r by (auto simp: d(3) addPlans_Cons split: if_splits simp del: fittingPlans.simps fun_upd_apply)
  qed
qed simp

text \<open>All entries or none\<close>

lemma createEntries_result:
  assumes "ok db"
  shows "if list_all songFits ss \<and> length (fittingPlans date (dom (calendar D db)) ps) = length ps
         then \<exists>db'. createEntries D S date ss ps db = Inr ((length ss, length ps), db') \<and> ok db'
           \<and> addsSongs (library S db) (map entryView ss) (library S db')
           \<and> calendar D db' = addPlans (calendar D db) (fittingPlans date (dom (calendar D db)) ps)
         else \<exists>e. createEntries D S date ss ps db = Inl e"
proof (cases "list_all songFits ss")
  case True
  then obtain db1 where db1: "createAll (createSongWithBlocks S) ss db = Inr (length ss, db1)"
      "ok db1" "calendar D db1 = calendar D db"
      "addsSongs (library S db) (map entryView ss) (library S db1)"
    using createAll_songs [OF assms, of ss] by auto
  then show ?thesis
    using createAll_plans [OF db1(2), of date ps] True
    by (auto simp: createEntries_def split: if_splits)
next
  case False
  then show ?thesis
    using createAll_songs [OF assms, of ss] by (auto simp: createEntries_def)
qed

end

section \<open>What is written is read back\<close>

text \<open>Texts that the reading leaves alone\<close>

definition portableText :: "string \<Rightarrow> bool" where
  "portableText t \<longleftrightarrow> trim t = t \<and> t \<noteq> []"

definition portableOpt :: "string option \<Rightarrow> bool" where
  "portableOpt v \<longleftrightarrow> (case v of None \<Rightarrow> True | Some t \<Rightarrow> portableText t)"

definition portableSong :: "importSong \<Rightarrow> bool" where
  "portableSong s \<longleftrightarrow> portableText (im_title s) \<and> portableOpt (im_artist s) \<and> portableOpt (im_album s)
     \<and> portableOpt (im_year s) \<and> portableOpt (im_language s) \<and> portableOpt (im_tags s)
     \<and> (\<forall>b \<in> set (im_blocks s). 0 < rb_order b \<and> portableText (rb_type b)
           \<and> portableOpt (rb_title b) \<and> trim (rb_content b) = rb_content b)"

text \<open>A day of the calendar from the year 1000 on, as an instant\<close>

definition calendarDay :: "int \<Rightarrow> bool" where
  "calendarDay t \<longleftrightarrow> (\<exists>s y m d. matchYmd s = Some (y, m, d) \<and> 1000 \<le> y \<and> validYmd y (m - 1) d
     \<and> t = MakeDay y (m - 1) d * msPerDay)"

definition portableItem :: "itemRow \<Rightarrow> bool" where
  "portableItem r \<longleftrightarrow> 0 < it_order r \<and> isCpPlanItemKind (it_kind r) \<noteq> None \<and> portableOpt (it_refId r)
     \<and> portableOpt (it_refSubId r) \<and> portableOpt (it_title r) \<and> portableOpt (it_content r)
     \<and> portableOpt (it_mediaPath r) \<and> trim (it_kind r) = it_kind r"

definition portablePlan :: "(string \<Rightarrow> int option) \<Rightarrow> planRow \<Rightarrow> itemRow list \<Rightarrow> bool" where
  "portablePlan parseDate p its \<longleftrightarrow> (\<exists>t. pl_title p = Some t \<and> portableText t)
     \<and> calendarDay (pl_date p) \<and> parseDate (toISOString (pl_date p)) \<noteq> None
     \<and> (\<forall>r \<in> set its. portableItem r)"

lemma read_text [simp]:
  "portableText t \<Longrightarrow> dataStringLike fmt (JStr t) = Some t"
  "portableText t \<Longrightarrow> orText (Some t) u = t"
  by (simp_all add: portableText_def dataStringLike_def dataString_def nonEmpty_def orText_def)

lemma read_opt [simp]: "portableOpt v \<Longrightarrow> dataStringLike fmt (optJson v) = v"
  by (cases v) (simp_all add: portableOpt_def optJson_def, simp add: dataStringLike_def)

lemma optJson_Some [simp]: "optJson (Some t) = JStr t"
  by (simp add: optJson_def)

lemma read_raw [simp]: "asRawString (optJson v) = v"
  by (cases v) (simp_all add: asRawString_def, simp add: optJson_def)

lemma read_content:
  "trim c = c \<Longrightarrow> orText (dataStringLike fmt (JStr c)) [] = c"
  by (cases "c = []") (simp_all add: dataStringLike_def dataString_def nonEmpty_def orText_def)

lemma read_order: "0 < n \<Longrightarrow> asPositiveInt (JNum (IntNum n)) k = n"
  by (simp add: asPositiveInt_def)

lemma normBlocks_exported:
  assumes "\<forall>b \<in> set bs. 0 < bl_order b \<and> portableText (bl_type b) \<and> portableOpt (bl_title b)
     \<and> trim (bl_content b) = bl_content b"
  shows "normBlocks fmt label title i (map exportBlock bs) = (map blockPayload bs, [])"
  using assms
  by (induction bs arbitrary: i)
    (simp_all add: exportBlock_def normBlock_def blockPayload_def read_order read_content)

lemma normSong_exported:
  assumes "portableSong (viewOf r bs)" and "exportSong r bs = JObj s"
  shows "normSong fmt i s = (viewOf r bs, [])"
proof -
  have "normBlocks fmt label title k (map exportBlock bs) = (map blockPayload bs, [])" for label title k
    using assms(1) by (intro normBlocks_exported) (simp add: portableSong_def viewOf_def blockPayload_def)
  then show ?thesis
    using assms
    by (auto simp: exportSong_def normSong_def portableSong_def viewOf_def songBlocksOf_def Let_def)
qed

lemma normSongs_exported:
  assumes "\<forall>r \<in> set rs. portableSong (viewOf r (f r))"
  shows "normSongs fmt i (map (\<lambda>r. exportSong r (f r)) rs) = (map (\<lambda>r. viewOf r (f r)) rs, [])"
  using assms
proof (induction rs arbitrary: i)
  case (Cons r rs)
  obtain s where "exportSong r (f r) = JObj s"
    by (simp add: exportSong_def)
  with Cons normSong_exported [of r "f r" s fmt i] show ?case by simp
qed simp

definition readItem :: "itemRow \<Rightarrow> normPlanItem" where
  "readItem r = \<lparr>ni_order = it_order r, ni_kind = normalizeCpPlanItemKind (Some (it_kind r)),
     ni_refId = it_refId r, ni_refSubId = it_refSubId r, ni_title = it_title r, ni_content = it_content r,
     ni_mediaPath = it_mediaPath r, ni_notes = it_notes r, ni_secondaryContent = it_secondaryContent r,
     ni_backgroundConfig = it_backgroundConfig r\<rparr>"

definition readPlan :: "planRow \<Rightarrow> itemRow list \<Rightarrow> normPlan" where
  "readPlan p its = \<lparr>np_date = JStr (toISOString (pl_date p)), np_title = orElse (pl_title p) [],
     np_backgroundConfig = pl_backgroundConfig p, np_items = map readItem its\<rparr>"

lemma portable_kindName: "portableText (kindName k)"
  by (cases k) (simp_all add: portableText_def trim_def trim_left_def trim_right_def js_space_def)

lemma normalizeKind_kindName [simp]: "normalizeCpPlanItemKind (Some (kindName k)) = k"
  by (simp add: normalizeCpPlanItemKind_def)

lemma normItem_exported:
  assumes "portableItem r" and "exportItem r = JObj it"
  shows "normItem fmt label title i it = (readItem r, [])"
  using assms portable_kindName
  by (auto simp: exportItem_def normItem_def portableItem_def readItem_def read_order Let_def)

lemma normItems_exported:
  assumes "\<forall>r \<in> set its. portableItem r"
  shows "normItems fmt label title i (map exportItem its) = (map readItem its, [])"
  using assms
proof (induction its arbitrary: i)
  case (Cons r its)
  obtain it where "exportItem r = JObj it"
    by (simp add: exportItem_def)
  with Cons normItem_exported [of r it fmt label title i] show ?case by simp
qed simp

lemma normPlan_exported:
  assumes "portablePlan parseDate p its" and "exportPlan p its = JObj rec"
  shows "normPlanEntry fmt parseDate i rec = (Some (readPlan p its), [])"
  using assms normItems_exported [of its fmt "indexed ''plans'' i" "the (pl_title p)" 0]
  by (auto simp: exportPlan_def normPlanEntry_def portablePlan_def readPlan_def planItemsOf_def Let_def)

lemma normPlans_exported:
  assumes "\<forall>p \<in> set ps. portablePlan parseDate p (f p)"
  shows "normPlans fmt parseDate i (map (\<lambda>p. exportPlan p (f p)) ps) = (map (\<lambda>p. readPlan p (f p)) ps, [])"
  using assms
proof (induction ps arbitrary: i)
  case (Cons p ps)
  obtain rec where "exportPlan p (f p) = JObj rec"
    by (simp add: exportPlan_def)
  with Cons normPlan_exported [of parseDate p "f p" rec fmt i] show ?case by simp
qed simp

lemma importDate_exported:
  assumes "calendarDay t"
  shows "importDate fmt parseDate now (JStr (toISOString t)) = Inr t"
proof -
  obtain s y m d where s: "matchYmd s = Some (y, m, d)" "1000 \<le> y" "validYmd y (m - 1) d"
      "t = MakeDay y (m - 1) d * msPerDay"
    using assms by (auto simp: calendarDay_def)
  obtain u where u: "toISOString t = s @ u"
    using normalize_matchYmd(3) [OF s(1-3)] s(4) by auto
  have "length s = 10"
    using s(1) by (auto simp: matchYmd_def Let_def split: if_splits)
  then have "s \<noteq> []" "take 10 (toISOString t) = s"
    by (auto simp: u)
  moreover have "dateUTC y (m - 1) d = t"
    using s(2,4) by (simp add: dateUTC_def)
  ultimately show ?thesis
    using s(1) by (simp add: importDate_def u)
qed

text \<open>The plans read back fit into an empty calendar, and have their old views.\<close>

lemma fittingPlans_exported:
  assumes "\<forall>p \<in> set ps. portablePlan parseDate p (f p) \<and> distinct (map it_order (f p))"
    and "distinct (map pl_date ps)" and "taken \<inter> pl_date ` set ps = {}"
  shows "fittingPlans (importDate fmt parseDate now) taken (map (\<lambda>p. readPlan p (f p)) ps)
    = map (\<lambda>p. (pl_date p, readPlan p (f p))) ps"
  using assms
proof (induction ps arbitrary: taken)
  case (Cons p ps)
  have "importDate fmt parseDate now (JStr (toISOString (pl_date p))) = Inr (pl_date p)"
    using Cons.prems(1) by (intro importDate_exported) (simp add: portablePlan_def)
  moreover have "map ni_order (map readItem (f p)) = map it_order (f p)"
    by (simp add: readItem_def)
  ultimately show ?case
    using Cons by (simp add: readPlan_def del: map_map)
qed simp

lemma readPlan_view:
  assumes "portablePlan parseDate p its" and "pl_deletedAt p = None" and "sorted (map it_order its)"
  shows "planEntryView (readPlan p its) = planViewOf p its"
proof -
  have "sorted (map ni_order (map readItem its))"
    using assms(3) by (simp add: readItem_def comp_def)
  then have "sort_key ni_order (map readItem its) = map readItem its"
    by (rule sort_key_id_if_sorted)
  moreover have "importedItemRow [] (readItem r) = itemView r" if "r \<in> set its" for r
  proof -
    have "portableItem r"
      using assms(1) that by (simp add: portablePlan_def)
    then obtain k where "isCpPlanItemKind (it_kind r) = Some k"
      by (auto simp: portableItem_def)
    then have "kindName (normalizeCpPlanItemKind (Some (it_kind r))) = it_kind r"
      by (auto simp: normalizeCpPlanItemKind_def isCpPlanItemKind_def CP_PLAN_ITEM_KIND_VALUES_def
          split: if_splits)
    then show ?thesis
      by (simp add: importedItemRow_def readItem_def itemView_def)
  qed
  ultimately show ?thesis
    using assms by (auto simp: planEntryView_def readPlan_def planViewOf_def portablePlan_def)
qed

context church_store
begin

lemma clearAll_empty:
  assumes "ok db"
  shows "ok (clearAll D S db) \<and> library S (clearAll D S db) = Map.empty
           \<and> calendar D (clearAll D S db) = Map.empty"
proof -
  let ?a = "deleteBlocks S db (\<lambda>_. True)" and ?b = "deleteSongs S (deleteBlocks S db (\<lambda>_. True))"
  let ?c = "deleteItems D ?b (\<lambda>_. True)"
  have "ok ?a" using delete_blocks [OF assms] by blast
  then have b: "ok ?b" "rows ?b = Map.empty" using delete_songs by blast+
  then have c: "ok ?c" "rows ?c = Map.empty"
    using delete_items [OF b(1)] delete_items_frame [OF b(1)] by auto
  then have d: "ok (clearAll D S db)" "rows (clearAll D S db) = Map.empty" "plans (clearAll D S db) = Map.empty"
    using delete_plans [OF c(1)] by (auto simp: clearAll_def)
  then have "library S (clearAll D S db) i = None" for i
    by (simp add: library_rows)
  moreover have "calendar D (clearAll D S db) d = None" for d
    using calendar_None [OF d(1)] d(3) by (simp add: planDates_def)
  ultimately show ?thesis
    using d(1) by (auto simp: fun_eq_iff)
qed

lemma live_dates_distinct:
  assumes "ok db"
  shows "distinct (map pl_date (filter P (findPlans D db)))"
proof -
  have "p = q" if p: "p \<in> set (findPlans D db)" and q: "q \<in> set (findPlans D db)"
    and same: "pl_date p = pl_date q" for p q
  proof -
    obtain i j where ij: "plans db i = Some p" "plans db j = Some q"
      using p q by (auto simp: find_plans [OF assms] ran_def)
    then show ?thesis
      using date_unique [OF assms ij same] by simp
  qed
  then show ?thesis
    using find_plans_distinct [OF assms] by (auto simp: distinct_map inj_on_def)
qed

text \<open>The live plans, with their items, and the calendar they make\<close>

lemma live_calendar:
  assumes "ok db"
  defines "live \<equiv> filter (\<lambda>p. pl_deletedAt p = None) (findPlans D db)"
  assumes "\<forall>p \<in> set live. portablePlan parseDate p (findItems D db (ofPlan (pl_id p)))"
  shows "addPlans Map.empty (map (\<lambda>p. (pl_date p, readPlan p (findItems D db (ofPlan (pl_id p))))) live) d
    = (case calendar D db d of None \<Rightarrow> None | Some v \<Rightarrow> if pv_deleted v then None else Some v)"
proof -
  let ?its = "\<lambda>p. findItems D db (ofPlan (pl_id p))"
  let ?view = "\<lambda>p. (pl_date p, planEntryView (readPlan p (?its p)))"
  have set: "p \<in> set (findPlans D db) \<longleftrightarrow> (\<exists>i. plans db i = Some p)" for p
    by (auto simp: find_plans assms(1) ran_def)
  have view: "planEntryView (readPlan p (?its p)) = planViewOf p (?its p)" if "p \<in> set live" for p
    using that assms(3) find_items_sorted [OF assms(1)]
    by (intro readPlan_view) (auto simp: live_def)
  have all: "calendar D db (pl_date p) = Some (planViewOf p (?its p))" if "p \<in> set (findPlans D db)" for p
    using that calendar_Some [OF assms(1)] plan_key [OF assms(1)] by (auto simp: set)
  have dates: "distinct (map fst (map ?view live))"
    using live_dates_distinct [OF assms(1)] by (simp add: live_def comp_def)
  consider (live) p where "p \<in> set live" "pl_date p = d"
    | (dead) p where "p \<in> set (findPlans D db)" "pl_date p = d" "pl_deletedAt p \<noteq> None"
    | (none) "d \<notin> pl_date ` set (findPlans D db)"
    by (cases "d \<in> pl_date ` set (findPlans D db)") (auto simp: live_def, metis not_None_eq)
  then have "map_of (map ?view live) d
      = (case calendar D db d of None \<Rightarrow> None | Some v \<Rightarrow> if pv_deleted v then None else Some v)"
  proof cases
    case live
    then have "map_of (map ?view live) d = Some (planEntryView (readPlan p (?its p)))"
      using dates by (auto simp: map_of_eq_Some_iff)
    moreover have "p \<in> set (findPlans D db)" "pl_deletedAt p = None"
      using live(1) by (auto simp: live_def)
    ultimately show ?thesis
      using view [OF live(1)] all [of p] live(2) by (simp add: planViewOf_def)
  next
    case dead
    have "inj_on pl_date (set (findPlans D db))"
      using live_dates_distinct [OF assms(1), of "\<lambda>_. True"] by (simp add: distinct_map)
    then have "d \<notin> pl_date ` set live"
      using dead by (auto simp: live_def inj_on_def)
    then have "map_of (map ?view live) d = None"
      by (auto simp: map_of_eq_None_iff)
    with dead all [of p] show ?thesis
      by (simp add: planViewOf_def)
  next
    case none
    then have "map_of (map ?view live) d = None"
      by (auto simp: map_of_eq_None_iff live_def)
    moreover have "d \<notin> planDates (plans db)"
      using none set by (auto simp: planDates_iff)
    ultimately show ?thesis
      by (simp add: calendar_None assms(1))
  qed
  then show ?thesis
    by (simp add: addPlans_def comp_def)
qed

lemma roundtrip:
  assumes "ok db"
    and "\<forall>r \<in> set (liveSongs S db). portableSong (viewOf r (findBlocks S db (blocksOf (so_id r))))"
    and "\<forall>p \<in> set (findPlans D db). pl_deletedAt p = None \<longrightarrow>
           portablePlan parseDate p (findItems D db (ofPlan (pl_id p)))"
    and "dataExportAll now D S (Some path) db = Some (path, file)"
    and "readJson path = Inr file" and "parseDataImportPayload raw = Inr (REPLACE, atomicity)"
  shows "\<exists>db'. dataImportAll fmt parseDate now' msg D S (Inr ()) readJson (Some path) raw db
      = (Inr (Imported False (length (liveSongs S db))
           (length (filter (\<lambda>p. pl_deletedAt p = None) (findPlans D db))) []), db')
    \<and> ok db'
    \<and> addsSongs Map.empty (map (\<lambda>r. viewOf r (findBlocks S db (blocksOf (so_id r)))) (liveSongs S db)) (library S db')
    \<and> calendar D db' = (\<lambda>d. case calendar D db d of None \<Rightarrow> None | Some v \<Rightarrow> if pv_deleted v then None else Some v)"
proof -
  define ss where "ss = map (\<lambda>r. viewOf r (findBlocks S db (blocksOf (so_id r)))) (liveSongs S db)"
  define live where "live = filter (\<lambda>p. pl_deletedAt p = None) (findPlans D db)"
  define ps where "ps = map (\<lambda>p. readPlan p (findItems D db (ofPlan (pl_id p)))) live"
  let ?date = "importDate fmt parseDate now'"
  have songs: "normalizeSongs fmt (exportedSongs S db) = (ss, [])"
    using normSongs_exported [OF assms(2)] by (simp add: normalizeSongs_def exportedSongs_def ss_def)
  have portable: "\<forall>p \<in> set live. portablePlan parseDate p (findItems D db (ofPlan (pl_id p)))"
    using assms(3) by (simp add: live_def)
  then have plans: "normalizePlans fmt parseDate (exportedPlans D db) = (ps, [])"
    using normPlans_exported [of live parseDate]
    by (simp add: normalizePlans_def exportedPlans_def ps_def live_def)
  have payload: "migrateImportedDataPayload fmt file = Inr \<lparr>md_songs = exportedSongs S db,
      md_plans = exportedPlans D db, md_schemaVersion = 2, md_warnings = []\<rparr>"
  proof -
    have "portableText DATA_EXPORT_KIND" by code_simp
    then have "dataStringLike fmt (JStr DATA_EXPORT_KIND) = Some DATA_EXPORT_KIND" by simp
    then show ?thesis
      using assms(4)
      by (auto simp: dataExportAll_def migrateImportedDataPayload_def DATA_EXPORT_SCHEMA_VERSION_def
          num_trunc_def Let_def)
  qed
  have strict: "distinct (map bl_order (findBlocks S db (blocksOf i)))" for i
    using block_orders [OF assms(1), of i] by (simp add: strict_sorted_iff)
  have sorted: "sorted (map bl_order (findBlocks S db (blocksOf i)))" for i
    by (rule find_blocks_sorted [OF assms(1)])
  have same: "entryView s = s" "songFits s" if s: "s \<in> set ss" for s
  proof -
    obtain r where r: "r \<in> set (liveSongs S db)" "s = viewOf r (findBlocks S db (blocksOf (so_id r)))"
      using s by (auto simp: ss_def)
    have orders: "map rb_order (im_blocks s) = map bl_order (findBlocks S db (blocksOf (so_id r)))"
      by (simp add: r(2) viewOf_def blockPayload_def)
    then have "inOrder (im_blocks s) = im_blocks s"
      unfolding inOrder_def using sorted by (intro sort_key_id_if_sorted) simp
    moreover have "im_title s \<noteq> []"
      using assms(2) r by (auto simp: portableSong_def portableText_def)
    ultimately show "entryView s = s"
      by (simp add: entryView_def)
    show "songFits s"
      using strict by (simp add: songFits_def ordersOk_def orders)
  qed
  then have views: "map entryView ss = ss" "list_all songFits ss"
    by (auto simp: list_all_iff intro: map_idI)
  have fits: "fittingPlans ?date {} ps
      = map (\<lambda>p. (pl_date p, readPlan p (findItems D db (ofPlan (pl_id p))))) live"
    unfolding ps_def
  proof (rule fittingPlans_exported)
    have "distinct (map it_order (findItems D db (ofPlan p)))" for p
      using plan_items_orders [OF assms(1), of p] by (simp add: strict_sorted_iff)
    then show "\<forall>p \<in> set live. portablePlan parseDate p (findItems D db (ofPlan (pl_id p)))
        \<and> distinct (map it_order (findItems D db (ofPlan (pl_id p))))"
      using portable by simp
    show "distinct (map pl_date live)"
      unfolding live_def by (rule live_dates_distinct [OF assms(1)])
  qed simp
  let ?empty = "clearAll D S db"
  have empty: "ok ?empty" "library S ?empty = Map.empty" "calendar D ?empty = Map.empty"
    using clearAll_empty [OF assms(1)] by simp_all
  have "length (fittingPlans ?date (dom (calendar D ?empty)) ps) = length ps"
    by (simp add: empty(3) fits) (simp add: ps_def)
  then obtain db' where db': "createEntries D S ?date ss ps ?empty = Inr ((length ss, length ps), db')"
      "ok db'" "addsSongs Map.empty ss (library S db')"
      "calendar D db' = addPlans Map.empty (fittingPlans ?date {} ps)"
    using createEntries_result [OF empty(1), of ss ?date ps] views by (auto simp: empty(2,3))
  moreover have "calendar D db' = (\<lambda>d. case calendar D db d of None \<Rightarrow> None
      | Some v \<Rightarrow> if pv_deleted v then None else Some v)"
    unfolding db'(4) fits live_def
    using live_calendar [OF assms(1), of parseDate] portable by (intro ext) (simp add: live_def)
  moreover have "length ss = length (liveSongs S db)" "length ps = length live"
    by (simp_all add: ss_def ps_def)
  ultimately show ?thesis
    unfolding ss_def [symmetric] live_def [symmetric]
    by (simp add: dataImportAll_def assms(5,6) payload songs plans importReplace_def strictOutcome_def)
qed

end

section \<open>Properties\<close>

text \<open>
  C10: A strict merge takes all entries or none: when no song repeats the order of a block, every
  plan has a date that is neither taken nor used twice and no repeated order of items, all songs
  are added under new identifiers and all plans on their dates; otherwise the answer is a
  roll-back and the database is as before.
\<close>
theorem strict_import_all_or_nothing:
  assumes "church_store D plans items songs ok S rows blocks" and "ok db"
  shows "if list_all songFits ss \<and> length (fittingPlans date (dom (calendar D db)) ps) = length ps
    then \<exists>db'. importNormalizedDataMerge msg D S date ss ps STRICT errs db
             = (Imported (errs \<noteq> []) (length ss) (length ps) errs, db') \<and> ok db'
           \<and> addsSongs (library S db) (map entryView ss) (library S db')
           \<and> calendar D db' = addPlans (calendar D db) (fittingPlans date (dom (calendar D db)) ps)
    else \<exists>e. importNormalizedDataMerge msg D S date ss ps STRICT errs db = (RolledBack e, db)"
  using church_store.createEntries_result [OF assms, of ss date ps]
  by (auto simp: importNormalizedDataMerge_def strictOutcome_def split: if_splits)

definition songNamed :: "string \<Rightarrow> songBlockPayload list \<Rightarrow> importSong" where
  "songNamed title bs = \<lparr>im_title = title, im_artist = None, im_album = None, im_year = None,
     im_language = None, im_tags = None, im_blocks = bs\<rparr>"

lemma strict_import_all_or_nothing_witness:
  "\<exists>e. importNormalizedDataMerge (\<lambda>_. []) churchPlans churchSongs (\<lambda>_. Inr 0)
      [songNamed ''A'' [], songNamed ''B'' [block 1 ''VERSE'' [] [], block 1 ''VERSE'' [] []]] [] STRICT []
      graceChurch = (RolledBack e, graceChurch)"
  using strict_import_all_or_nothing [OF church_tables_store sampleChurch_ok(2),
      where msg = "\<lambda>_. []" and date = "\<lambda>_. Inr 0" and ps = "[]" and errs = "[]" and
      ss = "[songNamed ''A'' [], songNamed ''B'' [block 1 ''VERSE'' [] [], block 1 ''VERSE'' [] []]]"]
  by (simp add: songFits_def ordersOk_def songNamed_def block_def)

text \<open>
  C13: A lenient merge takes exactly the entries that fit, songs by themselves and plans beside the
  dates taken and each other, reports one error for each of the others, and counts right.
\<close>
theorem entity_import_takes_what_fits:
  assumes "church_store D plans items songs ok S rows blocks" and "ok db"
  shows "let fits = fittingPlans date (dom (calendar D db)) ps; good = filter songFits ss
    in \<exists>es db'. importNormalizedDataMerge msg D S date ss ps ENTITY errs db
           = (Imported (errs @ es \<noteq> []) (length good) (length fits) (errs @ es), db') \<and> ok db'
         \<and> length es + length good + length fits = length ss + length ps
         \<and> addsSongs (library S db) (map entryView good) (library S db')
         \<and> calendar D db' = addPlans (calendar D db) fits"
proof -
  let ?sr = "\<lambda>s e. \<lparr>ie_kind = ''song'', ie_title = Some (im_title s), ie_message = getErrorMessage msg e\<rparr>"
  let ?pr = "\<lambda>p e. \<lparr>ie_kind = ''plan'', ie_title = Some (np_title p), ie_message = getErrorMessage msg e\<rparr>"
  obtain db1 where db1: "createEach (createSongWithBlocks S) ?sr ss db = (length (filter songFits ss),
        map (\<lambda>s. ?sr s (Prisma P2002)) (filter (\<lambda>s. \<not> songFits s) ss), db1)"
      "ok db1" "calendar D db1 = calendar D db"
      "addsSongs (library S db) (map entryView (filter songFits ss)) (library S db1)"
    using church_store.createEach_songs [OF assms, of ?sr ss] by blast
  obtain es db2 where db2: "createEach (createPlanWithItems D date) ?pr ps db1
        = (length (fittingPlans date (dom (calendar D db)) ps), es, db2)"
      "length es + length (fittingPlans date (dom (calendar D db)) ps) = length ps" "ok db2"
      "library S db2 = library S db1"
      "calendar D db2 = addPlans (calendar D db) (fittingPlans date (dom (calendar D db)) ps)"
    using church_store.createEach_plans [OF assms(1) db1(2), of date ?pr ps] db1(3) by auto
  have "length (filter songFits ss) + length (filter (\<lambda>s. \<not> songFits s) ss) = length ss"
    by (rule sum_length_filter_compl)
  then show ?thesis
    using db1(4) db2 unfolding Let_def
    by (intro exI [of _ "map (\<lambda>s. ?sr s (Prisma P2002)) (filter (\<lambda>s. \<not> songFits s) ss) @ es"]
        exI [of _ db2]) (simp add: importNormalizedDataMerge_def db1(1))
qed

lemma entity_import_takes_what_fits_witness:
  "\<exists>es db'. importNormalizedDataMerge (\<lambda>_. []) churchPlans churchSongs (\<lambda>_. Inr 0)
      [songNamed ''A'' [], songNamed ''B'' [block 1 ''VERSE'' [] [], block 1 ''VERSE'' [] []]] [] ENTITY []
      graceChurch = (Imported True 1 0 es, db')"
  using entity_import_takes_what_fits [OF church_tables_store sampleChurch_ok(2),
      where msg = "\<lambda>_. []" and date = "\<lambda>_. Inr 0" and ps = "[]" and errs = "[]" and
      ss = "[songNamed ''A'' [], songNamed ''B'' [block 1 ''VERSE'' [] [], block 1 ''VERSE'' [] []]]"]
  by (auto simp: songFits_def ordersOk_def songNamed_def block_def Let_def)

text \<open>
  C7: What the export writes, a replacing import reads back: when the texts of the database are
  trimmed and not empty, its orders positive, its kinds of items known, and its plans have a title
  and stand on days of the calendar, the import reports no error, the library then holds the same songs with the same blocks, under new identifiers, and
  the calendar the same plans with the same items, up to their references to songs. Only what
  was deleted is gone.
\<close>
theorem export_import_roundtrip:
  assumes "church_store D plans items songs ok S rows blocks" and "ok db"
    and "\<forall>r \<in> set (liveSongs S db). portableSong (viewOf r (findBlocks S db (blocksOf (so_id r))))"
    and "\<forall>p \<in> set (findPlans D db). pl_deletedAt p = None \<longrightarrow>
           portablePlan parseDate p (findItems D db (ofPlan (pl_id p)))"
    and "dataExportAll now D S (Some path) db = Some (path, file)"
    and "readJson path = Inr file" and "parseDataImportPayload raw = Inr (REPLACE, atomicity)"
  shows "\<exists>db'. dataImportAll fmt parseDate now' msg D S (Inr ()) readJson (Some path) raw db
      = (Inr (Imported False (length (liveSongs S db))
           (length (filter (\<lambda>p. pl_deletedAt p = None) (findPlans D db))) []), db')
    \<and> ok db'
    \<and> addsSongs Map.empty (map (\<lambda>r. viewOf r (findBlocks S db (blocksOf (so_id r)))) (liveSongs S db)) (library S db')
    \<and> calendar D db' = (\<lambda>d. case calendar D db d of None \<Rightarrow> None | Some v \<Rightarrow> if pv_deleted v then None else Some v)"
  using assms(2-7) by (rule church_store.roundtrip [OF assms(1)])

definition sundayPlan :: planRow where
  "sundayPlan = (newPlanRow 1704585600000 (Some ''Culte'') None)\<lparr>pl_id := ''0''\<rparr>"

definition songItem :: itemRow where
  "songItem = \<lparr>it_id = ''1'', it_planId = ''0'', it_order = 1, it_kind = ''SONG_BLOCK'', it_refId = Some ''0'',
     it_refSubId = None, it_songId = Some ''0'', it_title = Some ''Grace'', it_content = None,
     it_notes = None, it_mediaPath = None, it_secondaryContent = None, it_backgroundConfig = None\<rparr>"

definition sundayChurch :: churchTables where
  "sundayChurch = graceChurch\<lparr>ch_plans := \<lparr>tb_planRows = [sundayPlan], tb_itemRows = [songItem],
     tb_songIds = [''0''], tb_next = 2\<rparr>\<rparr>"

lemma sundayChurch_ok: "churchOk sundayChurch"
  using sampleChurch_ok(2)
  by (simp add: sundayChurch_def songTablesOk_def tablesOk_def graceChurch_def emptyChurch_def
      sundayPlan_def songItem_def newPlanRow_def tb_plans_def refsOk_def sampleChurch_ids tb_songs_def)

lemma sunday_day: "calendarDay 1704585600000"
  unfolding calendarDay_def
  by (intro exI [of _ "''2024-01-07''"] exI [of _ 2024] exI [of _ 1] exI [of _ 7])
    (simp add: matchYmd_def is_digit_def digits_value_def digit_value_def validYmd_def monthStart_def
      leapDay_def InLeapYear_def MakeDay_def DayFromYear_def)

lemma export_import_roundtrip_witness:
  "\<exists>db'. dataImportAll (\<lambda>_. []) (\<lambda>_. Some 0) 0 (\<lambda>_. []) churchPlans churchSongs (Inr ())
      (\<lambda>_. Inr (snd (the (dataExportAll 0 churchPlans churchSongs (Some ''f'') sundayChurch)))) (Some ''f'')
      (JObj [(''mode'', JStr ''REPLACE'')]) sundayChurch = (Inr (Imported False 1 1 []), db')"
proof -
  have songs: "\<forall>r \<in> set (liveSongs churchSongs sundayChurch).
      portableSong (viewOf r (findBlocks churchSongs sundayChurch (blocksOf (so_id r))))"
    by code_simp
  have items: "findItems churchPlans sundayChurch (ofPlan ''0'') = [songItem]"
    "findPlans churchPlans sundayChurch = [sundayPlan]"
    by code_simp+
  have "portableItem songItem"
    by code_simp
  then have plans: "\<forall>p \<in> set (findPlans churchPlans sundayChurch). pl_deletedAt p = None \<longrightarrow>
      portablePlan (\<lambda>_. Some 0) p (findItems churchPlans sundayChurch (ofPlan (pl_id p)))"
    using sunday_day
    by (simp add: items sundayPlan_def newPlanRow_def portablePlan_def)
      (simp add: portableText_def trim_def trim_left_def trim_right_def js_space_def)
  have payload: "parseDataImportPayload (JObj [(''mode'', JStr ''REPLACE'')]) = Inr (REPLACE, STRICT)"
    by code_simp
  have export: "dataExportAll 0 churchPlans churchSongs (Some ''f'') sundayChurch
      = Some (''f'', snd (the (dataExportAll 0 churchPlans churchSongs (Some ''f'') sundayChurch)))"
    by (simp add: dataExportAll_def)
  have "length (liveSongs churchSongs sundayChurch) = 1"
    "length (filter (\<lambda>p. pl_deletedAt p = None) (findPlans churchPlans sundayChurch)) = 1"
    by code_simp+
  with export_import_roundtrip [OF church_tables_store sundayChurch_ok songs plans export _ payload,
      where fmt = "\<lambda>_. []" and now' = 0 and msg = "\<lambda>_. []" and
      readJson = "\<lambda>_. Inr (snd (the (dataExportAll 0 churchPlans churchSongs (Some ''f'') sundayChurch)))"]
  show ?thesis by auto
qed

text \<open>
  The items of an imported plan have lost their songs: the reference is the exported identifier,
  which the imported song does not have, and the foreign key is empty.
\<close>
lemma imported_items_lose_songs:
  "map_option (\<lambda>db. (map so_id (ch_songs db),
        map (\<lambda>r. (it_refId r, it_songId r)) (tb_itemRows (ch_plans db))))
      (case createEntries churchPlans churchSongs (\<lambda>_. Inr 0) [viewOf graceSong []]
              [readPlan sundayPlan [songItem]] (graceChurch\<lparr>ch_songs := [], ch_blocks := [],
                 ch_plans := ch_plans emptyChurch\<rparr>) of
         Inl _ \<Rightarrow> None | Inr (_, db) \<Rightarrow> Some db)
    = Some ([''2''], [(Some ''0'', None)])"
  by code_simp

text \<open>
  A date given as a number passes the check of the normalisation, which reads its digits as a
  text, and becomes the day 20 240 107 milliseconds after the epoch.
\<close>
lemma numeric_date_misread:
  assumes "fmt (IntNum 20240107) = ''20240107''"
  shows "importDate fmt parseDate now (JNum (IntNum 20240107)) = Inr 0"
proof -
  have "matchYmd (take 10 ''20240107'') = None" "midnightOf 20240107 = 0"
    by code_simp+
  then show ?thesis
    using assms by (simp add: importDate_def maxTime_def num_trunc_def)
qed

text \<open>Pruning deletes only backups older than thirty days; the new one stays if its time does.\<close>

lemma prune_keeps_recent:
  "(name, Some t) \<in> set entries \<Longrightarrow> now - t \<le> BACKUP_MAX_AGE_MS \<or> \<not> endsWith name ''.bak'' \<Longrightarrow>
     (name, Some t) \<in> set (pruneOldBackups now entries)"
  by (auto simp: pruneOldBackups_def)

lemma new_backup_stays:
  "now - mtime \<le> BACKUP_MAX_AGE_MS \<Longrightarrow>
     \<exists>name. fst (backupDatabaseSnapshot (Some base) reason stamp mtime now entries) = Some name
       \<and> (name, Some mtime) \<in> set (snd (backupDatabaseSnapshot (Some base) reason stamp mtime now entries))"
  by (auto simp: backupDatabaseSnapshot_def Let_def intro!: prune_keeps_recent)

end
