(* ===== verification/Settings.thy ===== *)
theory Settings
  imports Screens Validation
begin

text \<open>
  The settings of the desktop application, from \<open>src/apps/desktop/src/main/settings.ts\<close>:
  the types, the sanitizers that turn a parsed file into well-formed settings, and the
  reading, patching and writing of \<open>settings.json\<close> and of the two legacy files.

  A file is \<open>Some v\<close> when it holds the JSON value \<open>v\<close>, and \<open>None\<close> when it does not exist or
  does not parse: the readers treat both alike. \<open>JSON.stringify\<close> leaves out the fields that are
  \<open>undefined\<close> and writes \<open>null\<close> for a number that is not finite; the \<open>encode\<close> functions do
  so. Writing succeeds; the write queue makes every patch one atomic step. An object
  with a key \<open>__proto__\<close> is left aside.

  The lemmas show that whatever is read is well formed, and that writing and reading
  well-formed settings gives them back.
\<close>

named_theorems sanitize_simps \<open>the sanitizers on written values\<close>

section \<open>Types\<close>

datatype cpTheme = Light | Dark

record keyBinding =
  kb_key :: string
  kb_ctrlKey :: "bool option"
  kb_shiftKey :: "bool option"

text \<open>\<open>CpShortcutOverrides\<close>, an object from action names to bindings, in entry order\<close>

type_synonym shortcutOverrides = "(string \<times> keyBinding list) list"

record templateItem =
  ti_kind :: cpPlanItemKind
  ti_title :: "string nullable"
  ti_content :: "string nullable"
  ti_refId :: "string nullable"
  ti_refSubId :: "string nullable"
  ti_mediaPath :: "string nullable"

record planTemplate =
  pt_id :: string
  pt_name :: string
  pt_items :: "templateItem list"
  pt_createdAt :: string

record filesConfig =
  fc_libraryDir :: "string option"

record appConfig =
  ac_theme :: "cpTheme option"

text \<open>\<open>ProjectionAppearancePrefs\<close> has the fields of the appearance payload.\<close>

type_synonym appearancePrefs = cpProjectionSetAppearancePayload

record projectionConfig =
  pj_screens :: "(screenKey \<Rightarrow> appearancePrefs option) option"

type_synonym mirrorsConfig = "screenKey \<Rightarrow> screenMirrorMode option"

record settingsProfile =
  sp_id :: string
  sp_name :: string
  sp_files :: "filesConfig option"
  sp_projection :: "projectionConfig option"
  sp_mirrors :: "mirrorsConfig option"
  sp_createdAt :: int
  sp_updatedAt :: int

text \<open>\<open>activeProfileId\<close> is read with \<open>?? null\<close>, so \<open>undefined\<close> and \<open>null\<close> are one value.\<close>

record profilesConfig =
  pf_activeProfileId :: "string option"
  pf_entries :: "settingsProfile list option"

record profilesState =
  pr_activeProfileId :: "string option"
  pr_entries :: "settingsProfile list"

record settingsConfig =
  sg_version :: int
  sg_app :: "appConfig option"
  sg_files :: "filesConfig option"
  sg_projection :: "projectionConfig option"
  sg_shortcuts :: "shortcutOverrides option"
  sg_templates :: "planTemplate list option"
  sg_profiles :: "profilesConfig option"

definition SETTINGS_VERSION :: int where
  "SETTINGS_VERSION = 1"

definition emptySettings :: settingsConfig where
  "emptySettings = \<lparr>sg_version = SETTINGS_VERSION, sg_app = None, sg_files = None,
     sg_projection = None, sg_shortcuts = None, sg_templates = None, sg_profiles = None\<rparr>"

section \<open>Sanitizers\<close>

text \<open>The tests on one field: a string, a boolean, a finite number, a name of a table\<close>

fun stringField :: "jsval \<Rightarrow> string option" where
  "stringField (JStr s) = Some s"
| "stringField _ = None"

fun boolField :: "jsval \<Rightarrow> bool option" where
  "boolField (JBool b) = Some b"
| "boolField _ = None"

fun finiteField :: "jsval \<Rightarrow> jsnum option" where
  "finiteField (JNum n) = (if num_isFinite n then Some n else None)"
| "finiteField _ = None"

fun enumField :: "(string \<times> 'a) list \<Rightarrow> jsval \<Rightarrow> 'a option" where
  "enumField tbl (JStr s) = map_of tbl s"
| "enumField tbl _ = None"

fun sanitizeNullableString :: "jsval \<Rightarrow> string nullable" where
  "sanitizeNullableString JNull = Null"
| "sanitizeNullableString (JStr s) = Val s"
| "sanitizeNullableString _ = Undef"

fun sanitizeKeyBinding :: "jsval \<Rightarrow> keyBinding option" where
  "sanitizeKeyBinding (JObj rec) =
     (case jget rec ''key'' of
        JStr k \<Rightarrow>
          if k = [] then None
          else Some \<lparr>kb_key = k, kb_ctrlKey = boolField (jget rec ''ctrlKey''),
                     kb_shiftKey = boolField (jget rec ''shiftKey'')\<rparr>
      | _ \<Rightarrow> None)"
| "sanitizeKeyBinding _ = None"

fun sanitizeBindings :: "string \<times> jsval \<Rightarrow> (string \<times> keyBinding list) option" where
  "sanitizeBindings (action, JArr raw) =
     (let bindings = List.map_filter sanitizeKeyBinding raw
      in if bindings = [] then None else Some (action, bindings))"
| "sanitizeBindings (action, _) = None"

fun sanitizeShortcutOverrides :: "jsval \<Rightarrow> shortcutOverrides" where
  "sanitizeShortcutOverrides (JObj rec) = List.map_filter sanitizeBindings rec"
| "sanitizeShortcutOverrides _ = []"

fun sanitizeTemplateItem :: "jsval \<Rightarrow> templateItem option" where
  "sanitizeTemplateItem (JObj rec) =
     (case jget rec ''kind'' of
        JStr k \<Rightarrow>
          (case isCpPlanItemKind k of
             None \<Rightarrow> None
           | Some kind \<Rightarrow> Some
               \<lparr>ti_kind = kind,
                ti_title = sanitizeNullableString (jget rec ''title''),
                ti_content = sanitizeNullableString (jget rec ''content''),
                ti_refId = sanitizeNullableString (jget rec ''refId''),
                ti_refSubId = sanitizeNullableString (jget rec ''refSubId''),
                ti_mediaPath = sanitizeNullableString (jget rec ''mediaPath'')\<rparr>)
      | _ \<Rightarrow> None)"
| "sanitizeTemplateItem _ = None"

fun nonEmptyField :: "jsval \<Rightarrow> string option" where
  "nonEmptyField (JStr s) = (if s = [] then None else Some s)"
| "nonEmptyField _ = None"

fun sanitizePlanTemplate :: "jsval \<Rightarrow> planTemplate option" where
  "sanitizePlanTemplate (JObj rec) =
     (case nonEmptyField (jget rec ''id'') of None \<Rightarrow> None | Some i \<Rightarrow>
      case nonEmptyField (jget rec ''name'') of None \<Rightarrow> None | Some n \<Rightarrow>
      case jget rec ''items'' of
        JArr raw \<Rightarrow>
          (case nonEmptyField (jget rec ''createdAt'') of None \<Rightarrow> None | Some c \<Rightarrow>
           Some \<lparr>pt_id = i, pt_name = n, pt_items = List.map_filter sanitizeTemplateItem raw,
                 pt_createdAt = c\<rparr>)
      | _ \<Rightarrow> None)"
| "sanitizePlanTemplate _ = None"

fun sanitizePlanTemplates :: "jsval \<Rightarrow> planTemplate list" where
  "sanitizePlanTemplates (JArr raw) = List.map_filter sanitizePlanTemplate raw"
| "sanitizePlanTemplates _ = []"

fun sanitizeProjectionAppearancePrefs :: "jsval \<Rightarrow> appearancePrefs option" where
  "sanitizeProjectionAppearancePrefs (JObj rec) =
     (let out =
        \<lparr>ap_textScale = finiteField (jget rec ''textScale''),
         ap_titleTextScale = finiteField (jget rec ''titleTextScale''),
         ap_textFont = stringField (jget rec ''textFont''),
         ap_textFontPath = stringField (jget rec ''textFontPath''),
         ap_background = stringField (jget rec ''background''),
         ap_backgroundMode = enumField BACKGROUND_FILL_MODES (jget rec ''backgroundMode''),
         ap_backgroundGradientFrom = stringField (jget rec ''backgroundGradientFrom''),
         ap_backgroundGradientTo = stringField (jget rec ''backgroundGradientTo''),
         ap_backgroundGradientAngle = finiteField (jget rec ''backgroundGradientAngle''),
         ap_backgroundImage = stringField (jget rec ''backgroundImage''),
         ap_logoPath = stringField (jget rec ''logoPath''),
         ap_logoPosition = enumField LOGO_POSITIONS (jget rec ''logoPosition''),
         ap_logoOpacity = finiteField (jget rec ''logoOpacity''),
         ap_logoScale = finiteField (jget rec ''logoScale''),
         ap_foregroundMode = enumField FOREGROUND_FILL_MODES (jget rec ''foregroundMode''),
         ap_foregroundGradientFrom = stringField (jget rec ''foregroundGradientFrom''),
         ap_foregroundGradientTo = stringField (jget rec ''foregroundGradientTo''),
         ap_foreground = stringField (jget rec ''foreground'')\<rparr>
      in if out = emptyAppearance then None else Some out)"
| "sanitizeProjectionAppearancePrefs _ = None"

text \<open>\<open>Object.keys(f).length === 0\<close> for a partial record over the screens, and its build-up\<close>

definition noKeys :: "(screenKey \<Rightarrow> 'a option) \<Rightarrow> bool" where
  "noKeys f \<longleftrightarrow> f ScreenA = None \<and> f ScreenB = None \<and> f ScreenC = None"

fun screenName :: "screenKey \<Rightarrow> string" where
  "screenName ScreenA = ''A''"
| "screenName ScreenB = ''B''"
| "screenName ScreenC = ''C''"

fun sanitizeProjectionConfig :: "jsval \<Rightarrow> projectionConfig option" where
  "sanitizeProjectionConfig (JObj projectionRec) =
     (case jget projectionRec ''screens'' of
        JObj screensRec \<Rightarrow>
          (let screens = (\<lambda>key. sanitizeProjectionAppearancePrefs (jget screensRec (screenName key)))
           in if noKeys screens then None else Some \<lparr>pj_screens = Some screens\<rparr>)
      | _ \<Rightarrow> None)"
| "sanitizeProjectionConfig _ = None"

fun sanitizeScreenMirrorMode :: "jsval \<Rightarrow> screenMirrorMode option" where
  "sanitizeScreenMirrorMode (JObj rec) =
     (if jget rec ''kind'' = JStr ''FREE'' then Some FREE
      else if jget rec ''kind'' = JStr ''MIRROR''
        then map_option MIRROR (enumField SCREEN_KEY_NAMES (jget rec ''from''))
      else None)"
| "sanitizeScreenMirrorMode _ = None"

fun sanitizeMirrorsConfig :: "jsval \<Rightarrow> mirrorsConfig option" where
  "sanitizeMirrorsConfig (JObj rec) =
     (let out = (\<lambda>key. sanitizeScreenMirrorMode (jget rec (screenName key)))
      in if noKeys out then None else Some out)"
| "sanitizeMirrorsConfig _ = None"

text \<open>A time stamp of a profile: the truncated number, or the default\<close>

fun stampField :: "jsval \<Rightarrow> int \<Rightarrow> int" where
  "stampField (JNum (Fin r)) dflt = num_trunc r"
| "stampField _ dflt = dflt"

fun profileFiles :: "jsval \<Rightarrow> filesConfig option" where
  "profileFiles (JObj filesRec) =
     (case jget filesRec ''libraryDir'' of
        JStr dir \<Rightarrow> if trim dir = [] then None else Some \<lparr>fc_libraryDir = Some dir\<rparr>
      | _ \<Rightarrow> None)"
| "profileFiles _ = None"

fun trimmedField :: "jsval \<Rightarrow> string option" where
  "trimmedField (JStr s) = (if trim s = [] then None else Some (trim s))"
| "trimmedField _ = None"

fun sanitizeSettingsProfile :: "int \<Rightarrow> jsval \<Rightarrow> settingsProfile option" where
  "sanitizeSettingsProfile now (JObj rec) =
     (case trimmedField (jget rec ''id'') of None \<Rightarrow> None | Some i \<Rightarrow>
      case trimmedField (jget rec ''name'') of None \<Rightarrow> None | Some n \<Rightarrow>
      let createdAt = stampField (jget rec ''createdAt'') now;
          updatedAt = stampField (jget rec ''updatedAt'') createdAt
      in Some \<lparr>sp_id = i, sp_name = n, sp_files = profileFiles (jget rec ''files''),
               sp_projection = sanitizeProjectionConfig (jget rec ''projection''),
               sp_mirrors = sanitizeMirrorsConfig (jget rec ''mirrors''),
               sp_createdAt = createdAt, sp_updatedAt = updatedAt\<rparr>)"
| "sanitizeSettingsProfile now _ = None"

text \<open>The filter of \<open>normalizeProfilesConfig\<close>: the first entry of each id, none without an id\<close>

fun uniqueEntries :: "string list \<Rightarrow> settingsProfile list \<Rightarrow> settingsProfile list" where
  "uniqueEntries seen [] = []"
| "uniqueEntries seen (e # es) =
     (if sp_id e = [] \<or> sp_id e \<in> set seen then uniqueEntries seen es
      else e # uniqueEntries (sp_id e # seen) es)"

definition headId :: "settingsProfile list \<Rightarrow> string option" where
  "headId es = (case es of [] \<Rightarrow> None | e # _ \<Rightarrow> Some (sp_id e))"

text \<open>The active id is tested for truth, so the empty id stays as it is.\<close>

definition normalizeProfilesConfig :: "profilesConfig option \<Rightarrow> profilesState" where
  "normalizeProfilesConfig value =
     (let entries = uniqueEntries [] (case value of None \<Rightarrow> [] | Some v \<Rightarrow> orElse (pf_entries v) []);
          active = (case value of None \<Rightarrow> None | Some v \<Rightarrow> pf_activeProfileId v)
      in \<lparr>pr_activeProfileId =
            (case active of
               None \<Rightarrow> None
             | Some a \<Rightarrow> if a \<noteq> [] \<and> a \<notin> set (map sp_id entries) then headId entries else Some a),
          pr_entries = entries\<rparr>)"

fun sanitizeProfilesConfig :: "int \<Rightarrow> jsval \<Rightarrow> profilesConfig option" where
  "sanitizeProfilesConfig now (JObj rec) =
     (let entries = (case jget rec ''entries'' of
                       JArr raw \<Rightarrow> List.map_filter (sanitizeSettingsProfile now) raw
                     | _ \<Rightarrow> []);
          active = stringField (jget rec ''activeProfileId'');
          normalized = normalizeProfilesConfig
            (Some \<lparr>pf_activeProfileId = active, pf_entries = Some entries\<rparr>)
      in Some \<lparr>pf_activeProfileId = pr_activeProfileId normalized,
               pf_entries = Some (pr_entries normalized)\<rparr>)"
| "sanitizeProfilesConfig now _ = None"

section \<open>The written file\<close>

text \<open>A field that is written when it is defined; a number; a partial record of the screens\<close>

definition opt :: "string \<Rightarrow> ('a \<Rightarrow> jsval) \<Rightarrow> 'a option \<Rightarrow> (string \<times> jsval) list" where
  "opt k f x = (case x of None \<Rightarrow> [] | Some y \<Rightarrow> [(k, f y)])"

definition optNull :: "string \<Rightarrow> string nullable \<Rightarrow> (string \<times> jsval) list" where
  "optNull k x = (case x of Undef \<Rightarrow> [] | Null \<Rightarrow> [(k, JNull)] | Val s \<Rightarrow> [(k, JStr s)])"

definition jsonNum :: "jsnum \<Rightarrow> jsval" where
  "jsonNum n = (if num_isFinite n then JNum n else JNull)"

definition encodeScreens :: "('a \<Rightarrow> jsval) \<Rightarrow> (screenKey \<Rightarrow> 'a option) \<Rightarrow> jsval" where
  "encodeScreens f m = JObj (opt ''A'' f (m ScreenA) @ opt ''B'' f (m ScreenB) @ opt ''C'' f (m ScreenC))"

definition encodeKeyBinding :: "keyBinding \<Rightarrow> jsval" where
  "encodeKeyBinding b = JObj ([(''key'', JStr (kb_key b))]
     @ opt ''ctrlKey'' JBool (kb_ctrlKey b) @ opt ''shiftKey'' JBool (kb_shiftKey b))"

definition encodeShortcuts :: "shortcutOverrides \<Rightarrow> jsval" where
  "encodeShortcuts sc = JObj (map (\<lambda>(a, bs). (a, JArr (map encodeKeyBinding bs))) sc)"

definition encodeTemplateItem :: "templateItem \<Rightarrow> jsval" where
  "encodeTemplateItem i = JObj ([(''kind'', JStr (kindName (ti_kind i)))]
     @ optNull ''title'' (ti_title i) @ optNull ''content'' (ti_content i)
     @ optNull ''refId'' (ti_refId i) @ optNull ''refSubId'' (ti_refSubId i)
     @ optNull ''mediaPath'' (ti_mediaPath i))"

definition encodePlanTemplate :: "planTemplate \<Rightarrow> jsval" where
  "encodePlanTemplate t = JObj [(''id'', JStr (pt_id t)), (''name'', JStr (pt_name t)),
     (''items'', JArr (map encodeTemplateItem (pt_items t))), (''createdAt'', JStr (pt_createdAt t))]"

definition encodePlanTemplates :: "planTemplate list \<Rightarrow> jsval" where
  "encodePlanTemplates ts = JArr (map encodePlanTemplate ts)"

definition encodePrefs :: "appearancePrefs \<Rightarrow> jsval" where
  "encodePrefs p = JObj
     (opt ''textScale'' jsonNum (ap_textScale p)
      @ opt ''titleTextScale'' jsonNum (ap_titleTextScale p)
      @ opt ''textFont'' JStr (ap_textFont p)
      @ opt ''textFontPath'' JStr (ap_textFontPath p)
      @ opt ''background'' JStr (ap_background p)
      @ opt ''backgroundMode'' (\<lambda>x. JStr (nameIn BACKGROUND_FILL_MODES x)) (ap_backgroundMode p)
      @ opt ''backgroundGradientFrom'' JStr (ap_backgroundGradientFrom p)
      @ opt ''backgroundGradientTo'' JStr (ap_backgroundGradientTo p)
      @ opt ''backgroundGradientAngle'' jsonNum (ap_backgroundGradientAngle p)
      @ opt ''backgroundImage'' JStr (ap_backgroundImage p)
      @ opt ''logoPath'' JStr (ap_logoPath p)
      @ opt ''logoPosition'' (\<lambda>x. JStr (nameIn LOGO_POSITIONS x)) (ap_logoPosition p)
      @ opt ''logoOpacity'' jsonNum (ap_logoOpacity p)
      @ opt ''logoScale'' jsonNum (ap_logoScale p)
      @ opt ''foreground'' JStr (ap_foreground p)
      @ opt ''foregroundMode'' (\<lambda>x. JStr (nameIn FOREGROUND_FILL_MODES x)) (ap_foregroundMode p)
      @ opt ''foregroundGradientFrom'' JStr (ap_foregroundGradientFrom p)
      @ opt ''foregroundGradientTo'' JStr (ap_foregroundGradientTo p))"

definition encodeProjection :: "projectionConfig \<Rightarrow> jsval" where
  "encodeProjection c = JObj (opt ''screens'' (encodeScreens encodePrefs) (pj_screens c))"

fun encodeMirror :: "screenMirrorMode \<Rightarrow> jsval" where
  "encodeMirror FREE = JObj [(''kind'', JStr ''FREE'')]"
| "encodeMirror (MIRROR k) = JObj [(''kind'', JStr ''MIRROR''), (''from'', JStr (screenName k))]"

definition encodeFiles :: "filesConfig \<Rightarrow> jsval" where
  "encodeFiles c = JObj (opt ''libraryDir'' JStr (fc_libraryDir c))"

definition encodeProfile :: "settingsProfile \<Rightarrow> jsval" where
  "encodeProfile p = JObj
     ([(''id'', JStr (sp_id p)), (''name'', JStr (sp_name p))]
      @ opt ''files'' encodeFiles (sp_files p)
      @ opt ''projection'' encodeProjection (sp_projection p)
      @ opt ''mirrors'' (encodeScreens encodeMirror) (sp_mirrors p)
      @ [(''createdAt'', JNum (IntNum (sp_createdAt p))),
         (''updatedAt'', JNum (IntNum (sp_updatedAt p)))])"

definition encodeNullable :: "string option \<Rightarrow> jsval" where
  "encodeNullable x = (case x of None \<Rightarrow> JNull | Some s \<Rightarrow> JStr s)"

definition encodeProfiles :: "profilesConfig \<Rightarrow> jsval" where
  "encodeProfiles c = JObj ([(''activeProfileId'', encodeNullable (pf_activeProfileId c))]
     @ opt ''entries'' (\<lambda>es. JArr (map encodeProfile es)) (pf_entries c))"

definition THEMES :: "(string \<times> cpTheme) list" where
  "THEMES = [(''light'', Light), (''dark'', Dark)]"

definition encodeApp :: "appConfig \<Rightarrow> jsval" where
  "encodeApp c = JObj (opt ''theme'' (\<lambda>x. JStr (nameIn THEMES x)) (ac_theme c))"

text \<open>\<open>JSON.stringify({ ...cfg, version: SETTINGS_VERSION })\<close>\<close>

definition encodeSettings :: "settingsConfig \<Rightarrow> jsval" where
  "encodeSettings c = JObj
     ([(''version'', JNum (IntNum SETTINGS_VERSION))]
      @ opt ''app'' encodeApp (sg_app c)
      @ opt ''files'' encodeFiles (sg_files c)
      @ opt ''projection'' encodeProjection (sg_projection c)
      @ opt ''shortcuts'' encodeShortcuts (sg_shortcuts c)
      @ opt ''templates'' encodePlanTemplates (sg_templates c)
      @ opt ''profiles'' encodeProfiles (sg_profiles c))"

section \<open>Reading and patching\<close>

record settingsStore =
  st_settings :: "jsval option"
  st_legacyFiles :: "jsval option"
  st_legacyProjection :: "jsval option"

fun readApp :: "jsval \<Rightarrow> appConfig option" where
  "readApp (JObj rec) =
     map_option (\<lambda>t. \<lparr>ac_theme = Some t\<rparr>) (enumField THEMES (jget rec ''theme''))"
| "readApp _ = None"

fun readFiles :: "jsval \<Rightarrow> filesConfig option" where
  "readFiles (JObj rec) =
     map_option (\<lambda>d. \<lparr>fc_libraryDir = Some d\<rparr>) (stringField (jget rec ''libraryDir''))"
| "readFiles _ = None"

fun readVersion :: "jsval \<Rightarrow> int" where
  "readVersion (JNum (Fin r)) = max 1 (num_trunc r)"
| "readVersion _ = SETTINGS_VERSION"

definition readSettingsConfig :: "int \<Rightarrow> settingsStore \<Rightarrow> settingsConfig" where
  "readSettingsConfig now st =
     (case st_settings st of
        Some (JObj rec) \<Rightarrow>
          \<lparr>sg_version = readVersion (jget rec ''version''),
           sg_app = readApp (jget rec ''app''),
           sg_files = readFiles (jget rec ''files''),
           sg_projection = sanitizeProjectionConfig (jget rec ''projection''),
           sg_shortcuts = (case jget rec ''shortcuts'' of
               JObj sc \<Rightarrow> Some (sanitizeShortcutOverrides (JObj sc)) | _ \<Rightarrow> None),
           sg_templates = (case jget rec ''templates'' of
               JArr ts \<Rightarrow> Some (sanitizePlanTemplates (JArr ts)) | _ \<Rightarrow> None),
           sg_profiles = sanitizeProfilesConfig now (jget rec ''profiles'')\<rparr>
      | _ \<Rightarrow> emptySettings)"

definition writeSettingsConfig :: "settingsConfig \<Rightarrow> settingsStore \<Rightarrow> settingsStore" where
  "writeSettingsConfig cfg st = st\<lparr>st_settings := Some (encodeSettings cfg)\<rparr>"

definition patchSettingsConfig ::
  "int \<Rightarrow> (settingsConfig \<Rightarrow> settingsConfig) \<Rightarrow> settingsStore \<Rightarrow> settingsStore" where
  "patchSettingsConfig now patcher st = writeSettingsConfig (patcher (readSettingsConfig now st)) st"

text \<open>
  The legacy readers. A library directory that is neither a string nor falsy makes the
  files configuration empty; a falsy one counts as absent wherever it is used.
\<close>

fun readLegacyFiles :: "jsval option \<Rightarrow> filesConfig" where
  "readLegacyFiles (Some (JObj rec)) = \<lparr>fc_libraryDir = stringField (jget rec ''libraryDir'')\<rparr>"
| "readLegacyFiles _ = \<lparr>fc_libraryDir = None\<rparr>"

definition readLegacyFilesConfig :: "settingsStore \<Rightarrow> filesConfig" where
  "readLegacyFilesConfig st = readLegacyFiles (st_legacyFiles st)"

definition readLegacyProjectionConfig :: "settingsStore \<Rightarrow> projectionConfig" where
  "readLegacyProjectionConfig st =
     (case st_legacyProjection st of
        None \<Rightarrow> \<lparr>pj_screens = None\<rparr>
      | Some v \<Rightarrow> orElse (sanitizeProjectionConfig v) \<lparr>pj_screens = None\<rparr>)"

text \<open>\<open>cfg?.libraryDir\<close> and \<open>cfg?.screens\<close> where they are tested for truth and for keys\<close>

definition libraryDirOf :: "filesConfig option \<Rightarrow> string option" where
  "libraryDirOf c =
     (case c of None \<Rightarrow> None
      | Some f \<Rightarrow> (case fc_libraryDir f of None \<Rightarrow> None | Some d \<Rightarrow> if d = [] then None else Some d))"

definition screensOf :: "projectionConfig option \<Rightarrow> (screenKey \<Rightarrow> appearancePrefs option) option" where
  "screensOf c =
     (case c of None \<Rightarrow> None
      | Some p \<Rightarrow> (case pj_screens p of None \<Rightarrow> None | Some f \<Rightarrow> if noKeys f then None else Some f))"

definition readFilesConfig :: "int \<Rightarrow> settingsStore \<Rightarrow> filesConfig" where
  "readFilesConfig now st =
     (case libraryDirOf (sg_files (readSettingsConfig now st)) of
        Some d \<Rightarrow> \<lparr>fc_libraryDir = Some d\<rparr>
      | None \<Rightarrow> readLegacyFilesConfig st)"

definition readProjectionConfig :: "int \<Rightarrow> settingsStore \<Rightarrow> projectionConfig" where
  "readProjectionConfig now st =
     (case screensOf (sg_projection (readSettingsConfig now st)) of
        Some f \<Rightarrow> \<lparr>pj_screens = Some f\<rparr>
      | None \<Rightarrow> readLegacyProjectionConfig st)"

definition readAppConfig :: "int \<Rightarrow> settingsStore \<Rightarrow> appConfig" where
  "readAppConfig now st = orElse (sg_app (readSettingsConfig now st)) \<lparr>ac_theme = None\<rparr>"

definition readShortcutsConfig :: "int \<Rightarrow> settingsStore \<Rightarrow> shortcutOverrides" where
  "readShortcutsConfig now st = orElse (sg_shortcuts (readSettingsConfig now st)) []"

definition readTemplatesConfig :: "int \<Rightarrow> settingsStore \<Rightarrow> planTemplate list" where
  "readTemplatesConfig now st = orElse (sg_templates (readSettingsConfig now st)) []"

definition writeFilesConfig :: "int \<Rightarrow> filesConfig \<Rightarrow> settingsStore \<Rightarrow> settingsStore" where
  "writeFilesConfig now c = patchSettingsConfig now (\<lambda>s. s\<lparr>sg_files := Some c\<rparr>)"

definition writeProjectionConfig :: "int \<Rightarrow> projectionConfig \<Rightarrow> settingsStore \<Rightarrow> settingsStore" where
  "writeProjectionConfig now c = patchSettingsConfig now (\<lambda>s. s\<lparr>sg_projection := Some c\<rparr>)"

definition writeAppConfig :: "int \<Rightarrow> appConfig \<Rightarrow> settingsStore \<Rightarrow> settingsStore" where
  "writeAppConfig now c = patchSettingsConfig now (\<lambda>s. s\<lparr>sg_app := Some c\<rparr>)"

definition writeShortcutsConfig :: "int \<Rightarrow> shortcutOverrides \<Rightarrow> settingsStore \<Rightarrow> settingsStore" where
  "writeShortcutsConfig now sc =
     patchSettingsConfig now
       (\<lambda>s. s\<lparr>sg_shortcuts := Some (sanitizeShortcutOverrides (encodeShortcuts sc))\<rparr>)"

definition writeTemplatesConfig :: "int \<Rightarrow> planTemplate list \<Rightarrow> settingsStore \<Rightarrow> settingsStore" where
  "writeTemplatesConfig now ts =
     patchSettingsConfig now
       (\<lambda>s. s\<lparr>sg_templates := Some (sanitizePlanTemplates (encodePlanTemplates ts))\<rparr>)"

definition readProfilesState :: "int \<Rightarrow> settingsStore \<Rightarrow> profilesState" where
  "readProfilesState now st = normalizeProfilesConfig (sg_profiles (readSettingsConfig now st))"

text \<open>\<open>migrateLegacySettingsIfNeeded\<close>: the legacy files fill what \<open>settings.json\<close> does not have.\<close>

definition migrateLegacySettings :: "settingsStore \<Rightarrow> settingsConfig \<Rightarrow> settingsConfig" where
  "migrateLegacySettings st settings =
     (let legacyDir = libraryDirOf (Some (readLegacyFilesConfig st));
          legacyScreens = screensOf (Some (readLegacyProjectionConfig st));
          newFiles = libraryDirOf (sg_files settings) = None \<and> legacyDir \<noteq> None;
          newProjection = screensOf (sg_projection settings) = None \<and> legacyScreens \<noteq> None;
          next = (if newFiles then settings\<lparr>sg_files := Some \<lparr>fc_libraryDir = legacyDir\<rparr>\<rparr>
                  else settings);
          next = (if newProjection then next\<lparr>sg_projection := Some \<lparr>pj_screens = legacyScreens\<rparr>\<rparr>
                  else next)
      in if newFiles \<or> newProjection \<or> sg_version settings \<noteq> SETTINGS_VERSION
         then next\<lparr>sg_version := SETTINGS_VERSION\<rparr> else next)"

definition migrateLegacySettingsIfNeeded :: "int \<Rightarrow> settingsStore \<Rightarrow> settingsStore" where
  "migrateLegacySettingsIfNeeded now st = patchSettingsConfig now (migrateLegacySettings st) st"

section \<open>Well-formed settings\<close>

definition shortcutsOk :: "shortcutOverrides \<Rightarrow> bool" where
  "shortcutsOk sc \<longleftrightarrow> (\<forall>(a, bs) \<in> set sc. bs \<noteq> [] \<and> (\<forall>b \<in> set bs. kb_key b \<noteq> []))"

definition templateOk :: "planTemplate \<Rightarrow> bool" where
  "templateOk t \<longleftrightarrow> pt_id t \<noteq> [] \<and> pt_name t \<noteq> [] \<and> pt_createdAt t \<noteq> []"

definition prefsOk :: "appearancePrefs \<Rightarrow> bool" where
  "prefsOk p \<longleftrightarrow> p \<noteq> emptyAppearance
     \<and> fieldOk num_isFinite (ap_textScale p) \<and> fieldOk num_isFinite (ap_titleTextScale p)
     \<and> fieldOk num_isFinite (ap_backgroundGradientAngle p)
     \<and> fieldOk num_isFinite (ap_logoOpacity p) \<and> fieldOk num_isFinite (ap_logoScale p)"

definition projectionOk :: "projectionConfig \<Rightarrow> bool" where
  "projectionOk c \<longleftrightarrow>
     (case pj_screens c of None \<Rightarrow> False | Some f \<Rightarrow> \<not> noKeys f \<and> (\<forall>k. fieldOk prefsOk (f k)))"

definition filesOk :: "filesConfig \<Rightarrow> bool" where
  "filesOk c \<longleftrightarrow> fc_libraryDir c \<noteq> None"

definition profileFilesOk :: "filesConfig \<Rightarrow> bool" where
  "profileFilesOk f \<longleftrightarrow> (case fc_libraryDir f of None \<Rightarrow> False | Some d \<Rightarrow> trim d \<noteq> [])"

definition appOk :: "appConfig \<Rightarrow> bool" where
  "appOk c \<longleftrightarrow> ac_theme c \<noteq> None"

definition profileOk :: "settingsProfile \<Rightarrow> bool" where
  "profileOk p \<longleftrightarrow> textOk (sp_id p) \<and> textOk (sp_name p)
     \<and> fieldOk profileFilesOk (sp_files p)
     \<and> fieldOk projectionOk (sp_projection p) \<and> fieldOk (\<lambda>m. \<not> noKeys m) (sp_mirrors p)"

definition activeOk :: "string option \<Rightarrow> settingsProfile list \<Rightarrow> bool" where
  "activeOk active es \<longleftrightarrow> fieldOk (\<lambda>a. a = [] \<or> a \<in> set (map sp_id es)) active"

definition profilesOk :: "profilesConfig \<Rightarrow> bool" where
  "profilesOk c \<longleftrightarrow>
     (case pf_entries c of None \<Rightarrow> False
      | Some es \<Rightarrow> (\<forall>p \<in> set es. profileOk p) \<and> distinct (map sp_id es)
          \<and> activeOk (pf_activeProfileId c) es)"

definition settingsOk :: "settingsConfig \<Rightarrow> bool" where
  "settingsOk c \<longleftrightarrow> fieldOk appOk (sg_app c) \<and> fieldOk filesOk (sg_files c)
     \<and> fieldOk projectionOk (sg_projection c) \<and> fieldOk shortcutsOk (sg_shortcuts c)
     \<and> fieldOk (\<lambda>ts. \<forall>t \<in> set ts. templateOk t) (sg_templates c)
     \<and> fieldOk profilesOk (sg_profiles c)"

lemma jget_opt [sanitize_simps]:
  "jget (opt k f x @ rest) k' =
     (if k = k' then (case x of None \<Rightarrow> jget rest k' | Some y \<Rightarrow> f y) else jget rest k')"
  "jget (opt k f x) k' = (if k = k' then (case x of None \<Rightarrow> JUndef | Some y \<Rightarrow> f y) else JUndef)"
  by (simp_all add: opt_def split: option.split)

lemma jget_optNull [sanitize_simps]:
  "jget (optNull k x @ rest) k' =
     (if k = k' then (case x of Undef \<Rightarrow> jget rest k' | Null \<Rightarrow> JNull | Val s \<Rightarrow> JStr s)
      else jget rest k')"
  "jget (optNull k x) k' =
     (if k = k' then (case x of Undef \<Rightarrow> JUndef | Null \<Rightarrow> JNull | Val s \<Rightarrow> JStr s) else JUndef)"
  by (simp_all add: optNull_def split: nullable.split)

lemma field_case [sanitize_simps]:
  "stringField (case x of None \<Rightarrow> JUndef | Some y \<Rightarrow> JStr y) = x"
  "boolField (case b of None \<Rightarrow> JUndef | Some y \<Rightarrow> JBool y) = b"
  "sanitizeNullableString (case z of Undef \<Rightarrow> JUndef | Null \<Rightarrow> JNull | Val s \<Rightarrow> JStr s) = z"
  by (simp_all split: option.split nullable.split)

lemma finiteField_case [sanitize_simps]:
  "fieldOk num_isFinite x \<Longrightarrow>
     finiteField (case x of None \<Rightarrow> JUndef | Some y \<Rightarrow> jsonNum y) = x"
  by (cases x) (simp_all add: jsonNum_def)

lemma enumField_case [sanitize_simps]:
  "names_all tbl \<Longrightarrow> enumField tbl (case x of None \<Rightarrow> JUndef | Some y \<Rightarrow> JStr (nameIn tbl y)) = x"
  by (cases x) (simp_all add: names_all_def)

lemma finiteField_ok: "fieldOk num_isFinite (finiteField v)"
  by (cases v) simp_all

lemma map_filter_map_inv:
  "(\<And>x. x \<in> set xs \<Longrightarrow> f (g x) = Some x) \<Longrightarrow> List.map_filter f (map g xs) = xs"
  by (rule map_filter_map_id)

subsection \<open>Shortcuts and templates\<close>

lemma keyBinding_written [sanitize_simps]:
  "kb_key b \<noteq> [] \<Longrightarrow> sanitizeKeyBinding (encodeKeyBinding b) = Some b"
  by (simp add: encodeKeyBinding_def sanitize_simps cong: option.case_cong)

lemma keyBinding_ok: "sanitizeKeyBinding v = Some b \<Longrightarrow> kb_key b \<noteq> []"
  by (cases v) (auto split: jsval.splits if_splits)

lemma shortcuts_written [sanitize_simps]:
  "shortcutsOk sc \<Longrightarrow> sanitizeShortcutOverrides (encodeShortcuts sc) = sc"
  by (auto simp: encodeShortcuts_def shortcutsOk_def map_filter_map_id sanitize_simps Let_def
      intro!: map_filter_map_id)

lemma sanitizeBindings_ok:
  "sanitizeBindings e = Some (a, bs) \<Longrightarrow> bs \<noteq> [] \<and> (\<forall>b \<in> set bs. kb_key b \<noteq> [])"
  by (cases e rule: sanitizeBindings.cases)
    (auto simp: Let_def map_filter_id_SomeD dest: keyBinding_ok split: if_splits)

lemma shortcuts_ok: "shortcutsOk (sanitizeShortcutOverrides v)"
proof (cases v)
  case (JObj rec)
  then show ?thesis
    using sanitizeBindings_ok by (fastforce simp: shortcutsOk_def map_filter_id_SomeD)
qed (simp_all add: shortcutsOk_def)

lemma templateItem_written [sanitize_simps]:
  "sanitizeTemplateItem (encodeTemplateItem i) = Some i"
proof -
  have "isCpPlanItemKind (kindName (ti_kind i)) = Some (ti_kind i)"
    by (cases "ti_kind i") (simp_all add: isCpPlanItemKind_def CP_PLAN_ITEM_KIND_VALUES_def)
  then show ?thesis
    by (simp add: encodeTemplateItem_def sanitize_simps cong: nullable.case_cong)
qed

lemma templates_written [sanitize_simps]:
  "\<forall>t \<in> set ts. templateOk t \<Longrightarrow> sanitizePlanTemplates (encodePlanTemplates ts) = ts"
  by (auto simp: encodePlanTemplates_def encodePlanTemplate_def templateOk_def sanitize_simps
      map_filter_map_id intro!: map_filter_map_id)

lemma nonEmptyField_Some: "nonEmptyField v = Some s \<Longrightarrow> s \<noteq> []"
  by (cases v) (auto split: if_splits)

lemma templates_ok: "\<forall>t \<in> set (sanitizePlanTemplates v). templateOk t"
proof (cases v)
  case (JArr raw)
  have "sanitizePlanTemplate w = Some t \<Longrightarrow> templateOk t" for w t
    by (cases w) (auto simp: templateOk_def split: option.splits jsval.splits
        dest: nonEmptyField_Some)
  then show ?thesis
    using JArr by (auto simp: map_filter_id_SomeD)
qed simp_all

subsection \<open>Projection, mirrors and profiles\<close>

lemma prefs_written [sanitize_simps]:
  assumes "prefsOk p"
  shows "sanitizeProjectionAppearancePrefs (encodePrefs p) = Some p"
  using assms
  by (cases p) (simp add: encodePrefs_def prefsOk_def sanitize_simps names_all_BACKGROUND_FILL_MODES
      names_all_FOREGROUND_FILL_MODES names_all_LOGO_POSITIONS Let_def cong: option.case_cong)

lemma prefs_ok: "fieldOk prefsOk (sanitizeProjectionAppearancePrefs v)"
  by (cases v) (simp_all add: Let_def prefsOk_def finiteField_ok)

lemma jget_encodeScreens:
  "encodeScreens f m = JObj rec \<Longrightarrow>
     jget rec (screenName k) = (case m k of None \<Rightarrow> JUndef | Some y \<Rightarrow> f y)"
  by (cases k) (auto simp: encodeScreens_def sanitize_simps cong: option.case_cong)

lemma encodeScreens_obj: "\<exists>rec. encodeScreens f m = JObj rec"
  by (simp add: encodeScreens_def)

lemma projection_written [sanitize_simps]:
  assumes "projectionOk c"
  shows "sanitizeProjectionConfig (encodeProjection c) = Some c"
proof -
  obtain m where m: "c = \<lparr>pj_screens = Some m\<rparr>" "\<not> noKeys m" "\<And>k. fieldOk prefsOk (m k)"
    using assms by (cases c) (auto simp: projectionOk_def split: option.splits)
  obtain rec where r: "encodeScreens encodePrefs m = JObj rec"
    using encodeScreens_obj by blast
  have "sanitizeProjectionAppearancePrefs (jget rec (screenName k)) = m k" for k
    using m(3) [of k] by (cases "m k") (simp_all add: jget_encodeScreens [OF r] sanitize_simps)
  then show ?thesis
    using m r by (simp add: encodeProjection_def sanitize_simps)
qed

lemma projection_ok: "fieldOk projectionOk (sanitizeProjectionConfig v)"
  by (cases v) (auto simp: Let_def projectionOk_def prefs_ok split: jsval.split)

lemma mirror_written: "sanitizeScreenMirrorMode (encodeMirror m) = Some m"
proof (cases m)
  case (MIRROR k)
  then show ?thesis
    by (cases k) (simp_all add: SCREEN_KEY_NAMES_def)
qed simp

lemma mirrors_written [sanitize_simps]:
  assumes "\<not> noKeys m"
  shows "sanitizeMirrorsConfig (encodeScreens encodeMirror m) = Some m"
proof -
  obtain rec where r: "encodeScreens encodeMirror m = JObj rec"
    using encodeScreens_obj by blast
  have "sanitizeScreenMirrorMode (jget rec (screenName k)) = m k" for k
    by (cases "m k") (simp_all add: jget_encodeScreens [OF r] mirror_written)
  then show ?thesis
    using assms r by simp
qed

lemma mirrors_ok: "fieldOk (\<lambda>m. \<not> noKeys m) (sanitizeMirrorsConfig v)"
  by (cases v) (simp_all add: Let_def)

lemma stampField_int [simp]: "stampField (JNum (IntNum i)) d = i"
  by (simp add: num_trunc_def)

lemma profile_written [sanitize_simps]:
  assumes "profileOk p"
  shows "sanitizeSettingsProfile now (encodeProfile p) = Some p"
proof -
  have "profileFiles (case sp_files p of None \<Rightarrow> JUndef | Some y \<Rightarrow> encodeFiles y) = sp_files p"
    using assms
    by (cases "sp_files p")
      (auto simp: profileOk_def profileFilesOk_def encodeFiles_def sanitize_simps split: option.splits)
  moreover have "sanitizeProjectionConfig
      (case sp_projection p of None \<Rightarrow> JUndef | Some y \<Rightarrow> encodeProjection y) = sp_projection p"
    using assms by (cases "sp_projection p") (simp_all add: profileOk_def sanitize_simps)
  moreover have "sanitizeMirrorsConfig
      (case sp_mirrors p of None \<Rightarrow> JUndef | Some y \<Rightarrow> encodeScreens encodeMirror y) = sp_mirrors p"
    using assms by (cases "sp_mirrors p") (simp_all add: profileOk_def sanitize_simps)
  moreover have "trimmedField (JStr (sp_id p)) = Some (sp_id p)"
    "trimmedField (JStr (sp_name p)) = Some (sp_name p)"
    using assms by (auto simp: profileOk_def textOk_def trim_trimmed)
  ultimately show ?thesis
    by (simp add: encodeProfile_def sanitize_simps num_trunc_def cong: option.case_cong
        del: trimmedField.simps)
qed

lemma trimmedField_ok: "trimmedField v = Some s \<Longrightarrow> textOk s"
  by (cases v) (auto simp: textOk_def split: if_splits)

lemma profile_ok: "sanitizeSettingsProfile now v = Some p \<Longrightarrow> profileOk p"
proof (cases v)
  case (JObj rec)
  have f: "fieldOk profileFilesOk (profileFiles w)" for w
    by (cases w) (simp_all add: profileFilesOk_def split: jsval.split)
  assume "sanitizeSettingsProfile now v = Some p"
  with JObj show ?thesis
    by (auto simp: profileOk_def Let_def f projection_ok mirrors_ok split: option.splits
        dest: trimmedField_ok)
qed simp_all

lemma set_uniqueEntries: "e \<in> set (uniqueEntries seen es) \<Longrightarrow> e \<in> set es"
  by (induction es arbitrary: seen) (auto split: if_splits)

lemma uniqueEntries_fresh:
  "e \<in> set (uniqueEntries seen es) \<Longrightarrow> sp_id e \<noteq> [] \<and> sp_id e \<notin> set seen"
  by (induction es arbitrary: seen) (fastforce split: if_splits)+

lemma distinct_uniqueEntries: "distinct (map sp_id (uniqueEntries seen es))"
proof (induction es arbitrary: seen)
  case (Cons e es)
  then show ?case
    using uniqueEntries_fresh [of _ "sp_id e # seen" es] by fastforce
qed simp

lemma uniqueEntries_id:
  "distinct (map sp_id es) \<Longrightarrow> \<forall>e \<in> set es. sp_id e \<noteq> [] \<and> sp_id e \<notin> set seen \<Longrightarrow>
     uniqueEntries seen es = es"
proof (induction es arbitrary: seen)
  case (Cons e es)
  then have "\<forall>x \<in> set es. sp_id x \<noteq> [] \<and> sp_id x \<notin> set (sp_id e # seen)"
    by (auto simp: image_iff)
  then show ?case
    using Cons by simp
qed simp

text \<open>What \<open>normalizeProfilesConfig\<close> guarantees\<close>

definition profilesStateOk :: "profilesState \<Rightarrow> bool" where
  "profilesStateOk s \<longleftrightarrow> distinct (map sp_id (pr_entries s)) \<and> [] \<notin> set (map sp_id (pr_entries s))
     \<and> activeOk (pr_activeProfileId s) (pr_entries s)"

definition configOf :: "profilesState \<Rightarrow> profilesConfig" where
  "configOf s = \<lparr>pf_activeProfileId = pr_activeProfileId s, pf_entries = Some (pr_entries s)\<rparr>"

lemma normalize_ok: "profilesStateOk (normalizeProfilesConfig c)"
proof -
  have "[] \<notin> set (map sp_id (uniqueEntries [] es))" for es
    using uniqueEntries_fresh [of _ "[]" es] by (metis (no_types, lifting) in_set_conv_nth length_map nth_map nth_mem)
  then show ?thesis
    by (auto simp: profilesStateOk_def normalizeProfilesConfig_def Let_def distinct_uniqueEntries
        activeOk_def headId_def split: option.splits list.splits)
qed

lemma normalize_id [simp]: "profilesStateOk s \<Longrightarrow> normalizeProfilesConfig (Some (configOf s)) = s"
proof -
  assume ok: "profilesStateOk s"
  then have "uniqueEntries [] (pr_entries s) = pr_entries s"
    by (intro uniqueEntries_id) (force simp: profilesStateOk_def)+
  with ok show ?thesis
    by (cases s) (auto simp: normalizeProfilesConfig_def configOf_def profilesStateOk_def
        activeOk_def split: option.split)
qed

lemma profilesOk_configOf:
  "profilesOk (configOf s) \<longleftrightarrow> profilesStateOk s \<and> (\<forall>p \<in> set (pr_entries s). profileOk p)"
  by (auto simp: profilesOk_def configOf_def profilesStateOk_def profileOk_def textOk_def)

lemma profiles_written [sanitize_simps]:
  assumes "profilesOk c"
  shows "sanitizeProfilesConfig now (encodeProfiles c) = Some c"
proof -
  obtain a es where c: "c = configOf \<lparr>pr_activeProfileId = a, pr_entries = es\<rparr>"
    using assms by (cases c) (auto simp: profilesOk_def configOf_def split: option.splits)
  let ?s = "\<lparr>pr_activeProfileId = a, pr_entries = es\<rparr>"
  have ok: "profilesStateOk ?s" and ps: "\<And>p. p \<in> set es \<Longrightarrow> profileOk p"
    using assms unfolding c profilesOk_configOf by auto
  have "List.map_filter (sanitizeSettingsProfile now) (map encodeProfile es) = es"
    using ps by (intro map_filter_map_id) (simp add: sanitize_simps)
  moreover have "stringField (encodeNullable x) = x" for x
    by (simp add: encodeNullable_def split: option.split)
  ultimately show ?thesis
    using normalize_id [OF ok] by (simp add: encodeProfiles_def sanitize_simps c configOf_def)
qed

lemma sanitizeProfilesConfig_ok: "fieldOk profilesOk (sanitizeProfilesConfig now v)"
proof (cases v)
  case (JObj rec)
  define es where "es = (case jget rec ''entries'' of
      JArr raw \<Rightarrow> List.map_filter (sanitizeSettingsProfile now) raw | _ \<Rightarrow> [])"
  define s where "s = normalizeProfilesConfig
      (Some \<lparr>pf_activeProfileId = stringField (jget rec ''activeProfileId''), pf_entries = Some es\<rparr>)"
  have eq: "sanitizeProfilesConfig now v = Some (configOf s)"
    by (simp add: JObj es_def s_def configOf_def Let_def)
  have "\<forall>p \<in> set es. profileOk p"
    by (auto simp: es_def map_filter_id_SomeD profile_ok split: jsval.splits)
  moreover have "set (pr_entries s) \<subseteq> set es"
    using set_uniqueEntries by (auto simp: s_def normalizeProfilesConfig_def Let_def)
  ultimately show ?thesis
    using normalize_ok by (auto simp: eq profilesOk_configOf s_def)
qed simp_all

section \<open>Reading what was written\<close>

lemma names_all_THEMES: "names_all THEMES"
  unfolding names_all_def
proof
  fix x show "textOk (nameIn THEMES x) \<and> map_of THEMES (nameIn THEMES x) = Some x"
    by (cases x) (simp_all add: nameIn_def THEMES_def textOk_def trimmed_def js_space_def)
qed

lemma read_settingsOk: "settingsOk (readSettingsConfig now st)"
proof (cases "st_settings st")
  case (Some v)
  have a: "fieldOk appOk (readApp w)" for w
    by (cases w) (auto simp: fieldOk_def appOk_def split: option.splits)
  have f: "fieldOk filesOk (readFiles w)" for w
    by (cases w) (auto simp: fieldOk_def filesOk_def split: option.splits)
  have s: "fieldOk shortcutsOk
      (case w of JObj sc \<Rightarrow> Some (sanitizeShortcutOverrides (JObj sc)) | _ \<Rightarrow> None)" for w
    by (cases w) (simp_all add: shortcuts_ok del: sanitizeShortcutOverrides.simps)
  have t: "fieldOk (\<lambda>ts. \<forall>t \<in> set ts. templateOk t)
      (case w of JArr ts \<Rightarrow> Some (sanitizePlanTemplates (JArr ts)) | _ \<Rightarrow> None)" for w
    by (cases w) (simp_all add: templates_ok del: sanitizePlanTemplates.simps)
  show ?thesis
    using Some
    by (cases v) (simp_all add: readSettingsConfig_def settingsOk_def emptySettings_def a f s t
        projection_ok sanitizeProfilesConfig_ok)
qed (simp add: readSettingsConfig_def settingsOk_def emptySettings_def)

lemma read_written:
  assumes "settingsOk c"
  shows "readSettingsConfig now (writeSettingsConfig c st) = c\<lparr>sg_version := SETTINGS_VERSION\<rparr>"
proof -
  have "readApp (case sg_app c of None \<Rightarrow> JUndef | Some y \<Rightarrow> encodeApp y) = sg_app c"
    using assms
    by (cases "sg_app c")
      (auto simp: settingsOk_def appOk_def encodeApp_def sanitize_simps names_all_THEMES)
  moreover have "readFiles (case sg_files c of None \<Rightarrow> JUndef | Some y \<Rightarrow> encodeFiles y) = sg_files c"
    using assms
    by (cases "sg_files c") (auto simp: settingsOk_def filesOk_def encodeFiles_def sanitize_simps)
  moreover have "sanitizeProjectionConfig
      (case sg_projection c of None \<Rightarrow> JUndef | Some y \<Rightarrow> encodeProjection y) = sg_projection c"
    using assms by (cases "sg_projection c") (simp_all add: settingsOk_def sanitize_simps)
  moreover have "(case (case sg_shortcuts c of None \<Rightarrow> JUndef | Some y \<Rightarrow> encodeShortcuts y) of
        JObj sc \<Rightarrow> Some (sanitizeShortcutOverrides (JObj sc)) | _ \<Rightarrow> None) = sg_shortcuts c"
    using assms shortcuts_written
    by (cases "sg_shortcuts c")
      (simp_all add: settingsOk_def encodeShortcuts_def del: sanitizeShortcutOverrides.simps)
  moreover have "(case (case sg_templates c of None \<Rightarrow> JUndef | Some y \<Rightarrow> encodePlanTemplates y) of
        JArr ts \<Rightarrow> Some (sanitizePlanTemplates (JArr ts)) | _ \<Rightarrow> None) = sg_templates c"
    using assms templates_written
    by (cases "sg_templates c")
      (simp_all add: settingsOk_def encodePlanTemplates_def del: sanitizePlanTemplates.simps)
  moreover have "sanitizeProfilesConfig now
      (case sg_profiles c of None \<Rightarrow> JUndef | Some y \<Rightarrow> encodeProfiles y) = sg_profiles c"
    using assms by (cases "sg_profiles c") (simp_all add: settingsOk_def sanitize_simps)
  ultimately show ?thesis
    by (simp add: readSettingsConfig_def writeSettingsConfig_def encodeSettings_def sanitize_simps
        SETTINGS_VERSION_def num_trunc_def cong: option.case_cong
        del: sanitizeShortcutOverrides.simps sanitizePlanTemplates.simps)
qed

text \<open>Each part is read on its own, whatever the others hold.\<close>

lemma read_written_parts:
  "fieldOk profilesOk (sg_profiles c) \<Longrightarrow>
     sg_profiles (readSettingsConfig now (writeSettingsConfig c st)) = sg_profiles c"
  "fieldOk projectionOk (sg_projection c) \<Longrightarrow>
     sg_projection (readSettingsConfig now (writeSettingsConfig c st)) = sg_projection c"
  by (cases "sg_profiles c", simp_all add: readSettingsConfig_def writeSettingsConfig_def
        encodeSettings_def sanitize_simps cong: option.case_cong)
     (cases "sg_projection c", simp_all add: sanitize_simps)

lemma read_patched:
  "settingsOk (f (readSettingsConfig now st)) \<Longrightarrow>
     readSettingsConfig now' (patchSettingsConfig now f st)
       = (f (readSettingsConfig now st))\<lparr>sg_version := SETTINGS_VERSION\<rparr>"
  by (simp add: patchSettingsConfig_def read_written)

lemma projectionOk_screens:
  "projectionOk c \<Longrightarrow> \<exists>f. c = \<lparr>pj_screens = Some f\<rparr> \<and> screensOf (Some c) = Some f"
  by (cases c) (auto simp: projectionOk_def screensOf_def split: option.splits)

lemma screensOf_None: "fieldOk projectionOk p \<Longrightarrow> screensOf p = None \<longleftrightarrow> p = None"
  using projectionOk_screens by (cases p) (force simp: screensOf_def)+

lemma legacyProjection_cases:
  "readLegacyProjectionConfig st = \<lparr>pj_screens = None\<rparr>
     \<and> screensOf (Some (readLegacyProjectionConfig st)) = None
   \<or> (\<exists>f. projectionOk \<lparr>pj_screens = Some f\<rparr>
       \<and> readLegacyProjectionConfig st = \<lparr>pj_screens = Some f\<rparr>
       \<and> screensOf (Some (readLegacyProjectionConfig st)) = Some f)"
proof (cases "st_legacyProjection st")
  case None
  then show ?thesis
    by (simp add: readLegacyProjectionConfig_def screensOf_def)
next
  case (Some v)
  then show ?thesis
    using projection_ok [of v] projectionOk_screens
    by (cases "sanitizeProjectionConfig v")
      (force simp: readLegacyProjectionConfig_def screensOf_def)+
qed

lemma migrate_ok: "settingsOk c \<Longrightarrow> settingsOk (migrateLegacySettings st c)"
  using legacyProjection_cases [of st]
  by (auto simp: migrateLegacySettings_def Let_def settingsOk_def filesOk_def)

section \<open>Properties\<close>

lemma settingsOk_version [simp]: "settingsOk (c\<lparr>sg_version := v\<rparr>) = settingsOk c"
  by (simp add: settingsOk_def)

text \<open>
  C26: Reading \<open>settings.json\<close> gives well-formed settings whatever the file holds, and the
  well-formed settings are exactly those that come back unchanged, but for the version,
  when they are written and read again.
\<close>
theorem settings_roundtrip_exact:
  "settingsOk (readSettingsConfig now st)
   \<and> (readSettingsConfig now (writeSettingsConfig c st) = c\<lparr>sg_version := SETTINGS_VERSION\<rparr>
        \<longleftrightarrow> settingsOk c)"
  using read_settingsOk read_written settingsOk_version by metis

text \<open>
  The migration of the legacy files writes settings that, read again, have the library
  directory and the screens that the accessors found before it, be it in \<open>settings.json\<close> or
  in a legacy file, and it changes neither theme, shortcuts, templates nor profiles. Running
  it again changes nothing.
\<close>
theorem migration_keeps_settings:
  "(let st' = migrateLegacySettingsIfNeeded now st;
        before = readSettingsConfig now st; after = readSettingsConfig now st'
    in libraryDirOf (Some (readFilesConfig now st')) = libraryDirOf (Some (readFilesConfig now st))
       \<and> readProjectionConfig now st' = readProjectionConfig now st
       \<and> sg_app after = sg_app before \<and> sg_shortcuts after = sg_shortcuts before
       \<and> sg_templates after = sg_templates before \<and> sg_profiles after = sg_profiles before
       \<and> migrateLegacySettingsIfNeeded now st' = st')"
proof -
  define b where "b = readSettingsConfig now st"
  define a where "a = (migrateLegacySettings st b)\<lparr>sg_version := SETTINGS_VERSION\<rparr>"
  define st' where "st' = migrateLegacySettingsIfNeeded now st"
  have read: "readSettingsConfig now st' = a"
    unfolding st'_def a_def b_def migrateLegacySettingsIfNeeded_def
    by (rule read_patched) (rule migrate_ok [OF read_settingsOk])
  have legacy: "st_legacyFiles st' = st_legacyFiles st"
      "st_legacyProjection st' = st_legacyProjection st"
    by (simp_all add: st'_def migrateLegacySettingsIfNeeded_def patchSettingsConfig_def
        writeSettingsConfig_def)
  have legacyEq: "readLegacyFilesConfig st' = readLegacyFilesConfig st"
      "readLegacyProjectionConfig st' = readLegacyProjectionConfig st"
    by (simp_all add: readLegacyFilesConfig_def readLegacyProjectionConfig_def legacy)
  have files: "libraryDirOf (Some (readFilesConfig now st')) = libraryDirOf (Some (readFilesConfig now st))"
    by (auto simp: readFilesConfig_def read b_def [symmetric] a_def migrateLegacySettings_def Let_def
        legacyEq libraryDirOf_def split: option.splits if_splits)
  have ok: "fieldOk projectionOk (sg_projection b)"
    using read_settingsOk by (simp add: b_def settingsOk_def)
  have proj: "readProjectionConfig now st' = readProjectionConfig now st"
  proof (cases "screensOf (sg_projection b)")
    case None
    then show ?thesis
      using legacyProjection_cases [of st]
      by (auto simp: readProjectionConfig_def read b_def [symmetric] a_def screensOf_def
          migrateLegacySettings_def Let_def legacyEq)
  next
    case (Some f)
    then show ?thesis
      by (simp add: readProjectionConfig_def read b_def [symmetric] a_def
          migrateLegacySettings_def Let_def)
  qed
  have "migrateLegacySettings st' a = a"
  proof -
    have l: "libraryDirOf (Some \<lparr>fc_libraryDir = libraryDirOf c\<rparr>) = libraryDirOf c" for c
      by (simp add: libraryDirOf_def split: option.split)
    have s: "screensOf (Some \<lparr>pj_screens = screensOf c\<rparr>) = screensOf c" for c
      by (simp add: screensOf_def split: option.split)
    have "libraryDirOf (sg_files a) = None \<Longrightarrow> libraryDirOf (Some (readLegacyFilesConfig st)) = None"
      using l [of "Some (readLegacyFilesConfig st)"]
      by (auto simp: a_def migrateLegacySettings_def Let_def split: if_splits)
    moreover have "screensOf (sg_projection a) = None
        \<Longrightarrow> screensOf (Some (readLegacyProjectionConfig st)) = None"
      using s [of "Some (readLegacyProjectionConfig st)"]
      by (auto simp: a_def migrateLegacySettings_def Let_def split: if_splits)
    moreover have "sg_version a = SETTINGS_VERSION"
      by (simp add: a_def)
    ultimately show ?thesis
      by (auto simp: migrateLegacySettings_def Let_def legacyEq)
  qed
  then have again: "migrateLegacySettingsIfNeeded now st' = writeSettingsConfig a st'"
    by (simp add: migrateLegacySettingsIfNeeded_def patchSettingsConfig_def read)
  have "writeSettingsConfig a st' = st'"
    by (simp add: writeSettingsConfig_def st'_def migrateLegacySettingsIfNeeded_def
        patchSettingsConfig_def a_def b_def encodeSettings_def)
  with again files proj show ?thesis
    by (simp add: Let_def st'_def [symmetric] read)
       (simp add: a_def b_def migrateLegacySettings_def Let_def)
qed

end
