(* ===== verification/Profiles.thy ===== *)
theory Profiles
  imports Settings
begin

text \<open>
  The settings profiles of the desktop application: the profile functions at the end of
  \<open>src/apps/desktop/src/main/settings.ts\<close> and the handlers of \<open>src/apps/desktop/src/main/main.ts\<close>
  on settings, profiles and appearances.

  \<open>appState\<close> joins the screens of the running application with its settings files. In every
  handler, \<open>t\<close> is the time of \<open>Date.now()\<close>, \<open>now\<close> the stamps of the screens, \<open>uuid\<close> the
  result of \<open>randomUUID()\<close>, and \<open>ensure dir\<close> is the error, if any, of \<open>ensureLibraryDirs\<close>,
  which creates the folders of the library. Handlers do not interleave, so the shared
  promise of \<open>ensureProfilesOnStartup\<close> and the second reading of \<open>syncActiveProfileFromRuntime\<close>
  find the state of the first. Messages that only redraw the control window are left out.
  A handler's \<open>{ ok: false, error }\<close> is \<open>Inl error\<close>.
\<close>

record appState =
  rt_ctx :: screenContext
  rt_store :: settingsStore

section \<open>Copies and snapshots\<close>

definition cloneScreenMirrorMode :: "screenMirrorMode \<Rightarrow> screenMirrorMode" where
  "cloneScreenMirrorMode mode = (case mode of MIRROR from \<Rightarrow> MIRROR from | FREE \<Rightarrow> FREE)"

definition cloneProjectionConfig :: "projectionConfig option \<Rightarrow> projectionConfig option" where
  "cloneProjectionConfig cfg =
     (case cfg of None \<Rightarrow> None
      | Some c \<Rightarrow>
          (case pj_screens c of None \<Rightarrow> None
           | Some f \<Rightarrow> if noKeys f then None else Some \<lparr>pj_screens = Some f\<rparr>))"

definition cloneMirrorsConfig :: "mirrorsConfig option \<Rightarrow> mirrorsConfig option" where
  "cloneMirrorsConfig cfg =
     (case cfg of None \<Rightarrow> None
      | Some f \<Rightarrow>
          (let out = (\<lambda>key. map_option cloneScreenMirrorMode (f key))
           in if noKeys out then None else Some out))"

definition cloneSettingsProfile :: "settingsProfile \<Rightarrow> settingsProfile" where
  "cloneSettingsProfile p =
     \<lparr>sp_id = sp_id p, sp_name = sp_name p, sp_files = sp_files p,
      sp_projection = cloneProjectionConfig (sp_projection p),
      sp_mirrors = cloneMirrorsConfig (sp_mirrors p),
      sp_createdAt = sp_createdAt p, sp_updatedAt = sp_updatedAt p\<rparr>"

definition writeProfilesState :: "int \<Rightarrow> profilesState \<Rightarrow> settingsStore \<Rightarrow> settingsStore" where
  "writeProfilesState t state st =
     (let normalized = normalizeProfilesConfig
            (Some \<lparr>pf_activeProfileId = pr_activeProfileId state,
                   pf_entries = Some (map cloneSettingsProfile (pr_entries state))\<rparr>)
      in patchSettingsConfig t
           (\<lambda>s. s\<lparr>sg_profiles := Some \<lparr>pf_activeProfileId = pr_activeProfileId normalized,
                                        pf_entries = Some (pr_entries normalized)\<rparr>\<rparr>) st)"

definition getProfilesSnapshot :: "profilesState \<Rightarrow> profilesState" where
  "getProfilesSnapshot state =
     \<lparr>pr_activeProfileId = pr_activeProfileId state,
      pr_entries = map cloneSettingsProfile (pr_entries state)\<rparr>"

definition pickProjectionAppearancePrefs :: "cpProjectionState \<Rightarrow> appearancePrefs" where
  "pickProjectionAppearancePrefs s =
     \<lparr>ap_textScale = Some (ps_textScale s), ap_titleTextScale = ps_titleTextScale s,
      ap_textFont = Some (ps_textFont s), ap_textFontPath = ps_textFontPath s,
      ap_background = Some (ps_background s), ap_backgroundMode = ps_backgroundMode s,
      ap_backgroundGradientFrom = ps_backgroundGradientFrom s,
      ap_backgroundGradientTo = ps_backgroundGradientTo s,
      ap_backgroundGradientAngle = ps_backgroundGradientAngle s,
      ap_backgroundImage = ps_backgroundImage s, ap_logoPath = ps_logoPath s,
      ap_logoPosition = ps_logoPosition s, ap_logoOpacity = ps_logoOpacity s,
      ap_logoScale = ps_logoScale s, ap_foregroundMode = ps_foregroundMode s,
      ap_foregroundGradientFrom = ps_foregroundGradientFrom s,
      ap_foregroundGradientTo = ps_foregroundGradientTo s,
      ap_foreground = Some (ps_foreground s)\<rparr>"

definition buildProjectionSnapshotFromRuntime ::
  "(screenKey \<Rightarrow> cpProjectionState) \<Rightarrow> projectionConfig" where
  "buildProjectionSnapshotFromRuntime states =
     \<lparr>pj_screens = Some (\<lambda>key. Some (pickProjectionAppearancePrefs (states key)))\<rparr>"

definition buildMirrorsSnapshotFromRuntime :: "(screenKey \<Rightarrow> screenMirrorMode) \<Rightarrow> mirrorsConfig" where
  "buildMirrorsSnapshotFromRuntime m = (\<lambda>key. Some (cloneScreenMirrorMode (m key)))"

definition buildProfileFromRuntime ::
  "int \<Rightarrow> string \<Rightarrow> string \<Rightarrow> appState \<Rightarrow> settingsProfile option \<Rightarrow> settingsProfile" where
  "buildProfileFromRuntime t uuid name app existing =
     \<lparr>sp_id = (case existing of None \<Rightarrow> uuid | Some e \<Rightarrow> sp_id e), sp_name = name,
      sp_files = map_option (\<lambda>d. \<lparr>fc_libraryDir = Some d\<rparr>)
        (libraryDirOf (Some (readFilesConfig t (rt_store app)))),
      sp_projection = Some (buildProjectionSnapshotFromRuntime (screenStates (rt_ctx app))),
      sp_mirrors = Some (buildMirrorsSnapshotFromRuntime (mirrors (rt_ctx app))),
      sp_createdAt = (case existing of None \<Rightarrow> t | Some e \<Rightarrow> sp_createdAt e), sp_updatedAt = t\<rparr>"

section \<open>Applying a profile\<close>

text \<open>
  \<open>{ ...state, ...prefs }\<close>. A preference is absent or \<open>undefined\<close> when it is \<open>None\<close>; an
  \<open>undefined\<close> one occurs only in a profile just built from the state itself, where the
  spread of it changes nothing.
\<close>

definition applyPrefs :: "appearancePrefs \<Rightarrow> cpProjectionState \<Rightarrow> cpProjectionState" where
  "applyPrefs p s =
     s\<lparr>ps_textScale := orElse (ap_textScale p) (ps_textScale s),
       ps_titleTextScale := orOption (ap_titleTextScale p) (ps_titleTextScale s),
       ps_textFont := orElse (ap_textFont p) (ps_textFont s),
       ps_textFontPath := orOption (ap_textFontPath p) (ps_textFontPath s),
       ps_background := orElse (ap_background p) (ps_background s),
       ps_backgroundMode := orOption (ap_backgroundMode p) (ps_backgroundMode s),
       ps_backgroundGradientFrom :=
         orOption (ap_backgroundGradientFrom p) (ps_backgroundGradientFrom s),
       ps_backgroundGradientTo := orOption (ap_backgroundGradientTo p) (ps_backgroundGradientTo s),
       ps_backgroundGradientAngle :=
         orOption (ap_backgroundGradientAngle p) (ps_backgroundGradientAngle s),
       ps_backgroundImage := orOption (ap_backgroundImage p) (ps_backgroundImage s),
       ps_logoPath := orOption (ap_logoPath p) (ps_logoPath s),
       ps_logoPosition := orOption (ap_logoPosition p) (ps_logoPosition s),
       ps_logoOpacity := orOption (ap_logoOpacity p) (ps_logoOpacity s),
       ps_logoScale := orOption (ap_logoScale p) (ps_logoScale s),
       ps_foregroundMode := orOption (ap_foregroundMode p) (ps_foregroundMode s),
       ps_foregroundGradientFrom :=
         orOption (ap_foregroundGradientFrom p) (ps_foregroundGradientFrom s),
       ps_foregroundGradientTo := orOption (ap_foregroundGradientTo p) (ps_foregroundGradientTo s),
       ps_foreground := orElse (ap_foreground p) (ps_foreground s)\<rparr>"

definition applyScreens ::
  "(screenKey \<Rightarrow> int) \<Rightarrow> (screenKey \<Rightarrow> appearancePrefs option) \<Rightarrow> screenContext \<Rightarrow> screenContext" where
  "applyScreens now screens ctx =
     ctx\<lparr>screenStates := (\<lambda>key. case screens key of
           None \<Rightarrow> screenStates ctx key
         | Some p \<Rightarrow> (applyPrefs p (screenStates ctx key))\<lparr>ps_updatedAt := now key\<rparr>)\<rparr>"

definition broadcastAllScreensState :: "screenContext \<Rightarrow> screenContext" where
  "broadcastAllScreensState ctx = foldl broadcast ctx SCREEN_KEYS"

text \<open>The three parts of \<open>applyProfileToRuntime\<close>: library, appearances, mirrors\<close>

definition applyProfileFiles ::
  "(string \<Rightarrow> string option) \<Rightarrow> int \<Rightarrow> settingsProfile \<Rightarrow> appState \<Rightarrow> appState result" where
  "applyProfileFiles ensure t profile app =
     (case sp_files profile of None \<Rightarrow> Inr app
      | Some f \<Rightarrow>
          (case fc_libraryDir f of None \<Rightarrow> Inr app
           | Some dir \<Rightarrow>
               if trim dir = [] then Inr app
               else (case ensure dir of
                       Some e \<Rightarrow> Inl e
                     | None \<Rightarrow> Inr (app\<lparr>rt_store :=
                         writeFilesConfig t \<lparr>fc_libraryDir = Some dir\<rparr> (rt_store app)\<rparr>))))"

definition applyProfileScreens ::
  "(screenKey \<Rightarrow> int) \<Rightarrow> int \<Rightarrow> settingsProfile \<Rightarrow> appState \<Rightarrow> appState" where
  "applyProfileScreens now t profile app =
     (case sp_projection profile of None \<Rightarrow> app
      | Some c \<Rightarrow>
          (case pj_screens c of None \<Rightarrow> app
           | Some screens \<Rightarrow>
               (let ctx = applyScreens now screens (rt_ctx app)
                in \<lparr>rt_ctx = ctx,
                    rt_store = writeProjectionConfig t
                      (buildProjectionSnapshotFromRuntime (screenStates ctx)) (rt_store app)\<rparr>)))"

definition applyProfileMirrors :: "settingsProfile \<Rightarrow> screenContext \<Rightarrow> screenContext" where
  "applyProfileMirrors profile ctx =
     (case sp_mirrors profile of None \<Rightarrow> ctx
      | Some m \<Rightarrow> ctx\<lparr>mirrors := (\<lambda>key. case m key of
            None \<Rightarrow> mirrors ctx key | Some mode \<Rightarrow> cloneScreenMirrorMode mode)\<rparr>)"

definition applyProfileToRuntime ::
  "(string \<Rightarrow> string option) \<Rightarrow> (screenKey \<Rightarrow> int) \<Rightarrow> int \<Rightarrow> settingsProfile \<Rightarrow> appState
     \<Rightarrow> appState result" where
  "applyProfileToRuntime ensure now t profile app =
     andThen (applyProfileFiles ensure t profile app) (\<lambda>app1.
       let app2 = applyProfileScreens now t profile app1
       in Inr (app2\<lparr>rt_ctx :=
            broadcastAllScreensState (applyProfileMirrors profile (rt_ctx app2))\<rparr>))"

section \<open>The active profile\<close>

text \<open>
  The active profile is looked up again after the reading; as nothing happens in
  between, it is at the same place.
\<close>

definition syncActiveProfileFromRuntime :: "int \<Rightarrow> string \<Rightarrow> appState \<Rightarrow> appState" where
  "syncActiveProfileFromRuntime t uuid app =
     (let state = readProfilesState t (rt_store app)
      in case pr_activeProfileId state of
           None \<Rightarrow> app
         | Some active \<Rightarrow>
             if active = [] then app
             else (case find_index (\<lambda>e. sp_id e = active) (pr_entries state) of
                     None \<Rightarrow> app
                   | Some idx \<Rightarrow>
                       (let current = pr_entries state ! idx;
                            updated = buildProfileFromRuntime t uuid (sp_name current) app (Some current);
                            latest = state\<lparr>pr_entries := (pr_entries state)[idx := updated]\<rparr>
                        in app\<lparr>rt_store := writeProfilesState t latest (rt_store app)\<rparr>)))"

definition ensureProfilesOnStartup :: "int \<Rightarrow> string \<Rightarrow> appState \<Rightarrow> profilesState \<times> appState" where
  "ensureProfilesOnStartup t uuid app =
     (let state = readProfilesState t (rt_store app)
      in if pr_entries state \<noteq> [] then (state, app)
         else
           let dflt = buildProfileFromRuntime t uuid ''Profil principal'' app None;
               next = \<lparr>pr_activeProfileId = Some (sp_id dflt), pr_entries = [dflt]\<rparr>
           in (next, app\<lparr>rt_store := writeProfilesState t next (rt_store app)\<rparr>))"

text \<open>The entry that is active: none when the active id is \<open>null\<close> or empty\<close>

definition activeEntry :: "profilesState \<Rightarrow> settingsProfile option" where
  "activeEntry state =
     (case pr_activeProfileId state of
        None \<Rightarrow> None
      | Some a \<Rightarrow> if a = [] then None else find (\<lambda>e. sp_id e = a) (pr_entries state))"

definition applyActiveProfileOnStartup ::
  "(string \<Rightarrow> string option) \<Rightarrow> (screenKey \<Rightarrow> int) \<Rightarrow> int \<Rightarrow> string \<Rightarrow> appState \<Rightarrow> appState result" where
  "applyActiveProfileOnStartup ensure now t uuid app =
     (let (state, app1) = ensureProfilesOnStartup t uuid app
      in case activeEntry state of
           None \<Rightarrow> Inr app1
         | Some active \<Rightarrow> applyProfileToRuntime ensure now t active app1)"

definition applyProjectionConfigOnStartup ::
  "(screenKey \<Rightarrow> int) \<Rightarrow> int \<Rightarrow> appState \<Rightarrow> appState" where
  "applyProjectionConfigOnStartup now t app =
     (case pj_screens (readProjectionConfig t (rt_store app)) of
        None \<Rightarrow> app
      | Some screens \<Rightarrow> app\<lparr>rt_ctx := applyScreens now screens (rt_ctx app)\<rparr>)"

definition persistProjectionAppearanceForScreen ::
  "int \<Rightarrow> string \<Rightarrow> screenKey \<Rightarrow> appState \<Rightarrow> appState" where
  "persistProjectionAppearanceForScreen t uuid key app =
     (let screens = orElse (pj_screens (readProjectionConfig t (rt_store app))) (\<lambda>_. None);
          screens = screens(key :=
            Some (pickProjectionAppearancePrefs (screenStates (rt_ctx app) key)));
          app1 = app\<lparr>rt_store :=
            writeProjectionConfig t \<lparr>pj_screens = Some screens\<rparr> (rt_store app)\<rparr>
      in syncActiveProfileFromRuntime t uuid app1)"

section \<open>Handlers: theme, shortcuts, templates\<close>

type_synonym 'a reply = "appState \<times> 'a result"

definition settingsGetTheme :: "int \<Rightarrow> appState \<Rightarrow> cpTheme option reply" where
  "settingsGetTheme t app = (app, Inr (ac_theme (readAppConfig t (rt_store app))))"

definition settingsSetTheme :: "int \<Rightarrow> jsval \<Rightarrow> appState \<Rightarrow> cpTheme reply" where
  "settingsSetTheme t rawTheme app =
     (case enumField THEMES rawTheme of
        None \<Rightarrow> (app, Inl ''Invalid theme'')
      | Some theme \<Rightarrow>
          (app\<lparr>rt_store := writeAppConfig t \<lparr>ac_theme = Some theme\<rparr> (rt_store app)\<rparr>, Inr theme))"

definition settingsGetShortcuts :: "int \<Rightarrow> appState \<Rightarrow> shortcutOverrides reply" where
  "settingsGetShortcuts t app = (app, Inr (readShortcutsConfig t (rt_store app)))"

definition settingsSetShortcuts :: "int \<Rightarrow> jsval \<Rightarrow> appState \<Rightarrow> shortcutOverrides reply" where
  "settingsSetShortcuts t rawShortcuts app =
     (let shortcuts = sanitizeShortcutOverrides rawShortcuts
      in (app\<lparr>rt_store := writeShortcutsConfig t shortcuts (rt_store app)\<rparr>, Inr shortcuts))"

definition settingsGetTemplates :: "int \<Rightarrow> appState \<Rightarrow> planTemplate list reply" where
  "settingsGetTemplates t app = (app, Inr (readTemplatesConfig t (rt_store app)))"

definition settingsSetTemplates :: "int \<Rightarrow> jsval \<Rightarrow> appState \<Rightarrow> planTemplate list reply" where
  "settingsSetTemplates t rawTemplates app =
     (let templates = sanitizePlanTemplates rawTemplates
      in (app\<lparr>rt_store := writeTemplatesConfig t templates (rt_store app)\<rparr>, Inr templates))"

section \<open>Handlers: profiles\<close>

definition parseProfileIdPayload :: "jsval \<Rightarrow> string result" where
  "parseProfileIdPayload value =
     (case value of
        JObj rec \<Rightarrow>
          (case trimmedField (jget rec ''profileId'') of
             None \<Rightarrow> Inl ''Invalid profileId'' | Some i \<Rightarrow> Inr i)
      | _ \<Rightarrow> Inl ''Invalid profile payload'')"

definition parseProfileNamePayload :: "jsval \<Rightarrow> string result" where
  "parseProfileNamePayload value =
     (case value of
        JObj rec \<Rightarrow>
          (case trimmedField (jget rec ''name'') of
             None \<Rightarrow> Inl ''Invalid profile name'' | Some n \<Rightarrow> Inr n)
      | _ \<Rightarrow> Inl ''Invalid profile payload'')"

definition parseProfileRenamePayload :: "jsval \<Rightarrow> (string \<times> string) result" where
  "parseProfileRenamePayload value =
     andThen (parseProfileIdPayload value) (\<lambda>i.
     andThen (parseProfileNamePayload value) (\<lambda>n. Inr (i, n)))"

definition settingsGetProfiles :: "int \<Rightarrow> string \<Rightarrow> appState \<Rightarrow> profilesState reply" where
  "settingsGetProfiles t uuid app =
     (let (state, app1) = ensureProfilesOnStartup t uuid app
      in (app1, Inr (getProfilesSnapshot state)))"

text \<open>\<open>uuid'\<close> is the id of the default profile, if one has to be made first.\<close>

definition settingsCreateProfile ::
  "int \<Rightarrow> string \<Rightarrow> string \<Rightarrow> jsval \<Rightarrow> appState \<Rightarrow> (profilesState \<times> settingsProfile) reply" where
  "settingsCreateProfile t uuid' uuid rawPayload app =
     (case parseProfileNamePayload rawPayload of
        Inl e \<Rightarrow> (app, Inl e)
      | Inr name \<Rightarrow>
          (let (state, app1) = ensureProfilesOnStartup t uuid' app;
               profile = buildProfileFromRuntime t uuid name app1 None;
               state' = \<lparr>pr_activeProfileId = Some (sp_id profile),
                         pr_entries = pr_entries state @ [profile]\<rparr>
           in (app1\<lparr>rt_store := writeProfilesState t state' (rt_store app1)\<rparr>,
               Inr (getProfilesSnapshot state', cloneSettingsProfile profile))))"

definition settingsActivateProfile ::
  "(string \<Rightarrow> string option) \<Rightarrow> (screenKey \<Rightarrow> int) \<Rightarrow> int \<Rightarrow> string \<Rightarrow> jsval \<Rightarrow> appState
     \<Rightarrow> (profilesState \<times> settingsProfile) reply" where
  "settingsActivateProfile ensure now t uuid rawPayload app =
     (case parseProfileIdPayload rawPayload of
        Inl e \<Rightarrow> (app, Inl e)
      | Inr profileId \<Rightarrow>
          (let (state, app1) = ensureProfilesOnStartup t uuid app
           in case find (\<lambda>e. sp_id e = profileId) (pr_entries state) of
                None \<Rightarrow> (app1, Inl ''Profile not found'')
              | Some profile \<Rightarrow>
                  (let state' = state\<lparr>pr_activeProfileId := Some (sp_id profile)\<rparr>;
                       app2 = app1\<lparr>rt_store := writeProfilesState t state' (rt_store app1)\<rparr>
                   in case applyProfileToRuntime ensure now t profile app2 of
                        Inl e \<Rightarrow> (app2, Inl e)
                      | Inr app3 \<Rightarrow>
                          (app3, Inr (getProfilesSnapshot state', cloneSettingsProfile profile)))))"

definition settingsRenameProfile ::
  "int \<Rightarrow> string \<Rightarrow> jsval \<Rightarrow> appState \<Rightarrow> (profilesState \<times> settingsProfile) reply" where
  "settingsRenameProfile t uuid rawPayload app =
     (case parseProfileRenamePayload rawPayload of
        Inl e \<Rightarrow> (app, Inl e)
      | Inr (profileId, name) \<Rightarrow>
          (let (state, app1) = ensureProfilesOnStartup t uuid app
           in case find_index (\<lambda>e. sp_id e = profileId) (pr_entries state) of
                None \<Rightarrow> (app1, Inl ''Profile not found'')
              | Some idx \<Rightarrow>
                  (let nextProfile =
                         (pr_entries state ! idx)\<lparr>sp_name := name, sp_updatedAt := t\<rparr>;
                       state' = state\<lparr>pr_entries := (pr_entries state)[idx := nextProfile]\<rparr>
                   in (app1\<lparr>rt_store := writeProfilesState t state' (rt_store app1)\<rparr>,
                       Inr (getProfilesSnapshot state', cloneSettingsProfile nextProfile)))))"

definition settingsSaveActiveProfile ::
  "int \<Rightarrow> string \<Rightarrow> appState \<Rightarrow> (profilesState \<times> settingsProfile) reply" where
  "settingsSaveActiveProfile t uuid app =
     (let (state, app1) = ensureProfilesOnStartup t uuid app
      in if pr_activeProfileId state = None \<or> pr_activeProfileId state = Some []
         then (app1, Inl ''No active profile'')
         else (case find_index (\<lambda>e. Some (sp_id e) = pr_activeProfileId state) (pr_entries state) of
                 None \<Rightarrow> (app1, Inl ''Active profile not found'')
               | Some idx \<Rightarrow>
                   (let current = pr_entries state ! idx;
                        updated = buildProfileFromRuntime t uuid (sp_name current) app1 (Some current);
                        state' = state\<lparr>pr_entries := (pr_entries state)[idx := updated]\<rparr>
                    in (app1\<lparr>rt_store := writeProfilesState t state' (rt_store app1)\<rparr>,
                        Inr (getProfilesSnapshot state', cloneSettingsProfile updated)))))"

definition settingsDeleteProfile ::
  "(string \<Rightarrow> string option) \<Rightarrow> (screenKey \<Rightarrow> int) \<Rightarrow> int \<Rightarrow> string \<Rightarrow> jsval \<Rightarrow> appState
     \<Rightarrow> profilesState reply" where
  "settingsDeleteProfile ensure now t uuid rawPayload app =
     (case parseProfileIdPayload rawPayload of
        Inl e \<Rightarrow> (app, Inl e)
      | Inr profileId \<Rightarrow>
          (let (state, app1) = ensureProfilesOnStartup t uuid app
           in if length (pr_entries state) \<le> 1
              then (app1, Inl ''At least one profile is required'')
              else (case find_index (\<lambda>e. sp_id e = profileId) (pr_entries state) of
                 None \<Rightarrow> (app1, Inl ''Profile not found'')
               | Some idx \<Rightarrow>
                   (let deletedWasActive = (pr_activeProfileId state = Some profileId);
                        entries = take idx (pr_entries state) @ drop (Suc idx) (pr_entries state);
                        active =
                          (if pr_activeProfileId state = None \<or> pr_activeProfileId state = Some []
                              \<or> deletedWasActive
                           then headId entries else pr_activeProfileId state);
                        state' = \<lparr>pr_activeProfileId = active, pr_entries = entries\<rparr>;
                        app2 = app1\<lparr>rt_store := writeProfilesState t state' (rt_store app1)\<rparr>
                    in case (if deletedWasActive then activeEntry state' else None) of
                         None \<Rightarrow> (app2, Inr (getProfilesSnapshot state'))
                       | Some profile \<Rightarrow>
                           (case applyProfileToRuntime ensure now t profile app2 of
                              Inl e \<Rightarrow> (app2, Inl e)
                            | Inr app3 \<Rightarrow> (app3, Inr (getProfilesSnapshot state')))))))"

section \<open>Lemmas\<close>

lemma cloneScreenMirrorMode_id [simp]: "cloneScreenMirrorMode m = m"
  by (simp add: cloneScreenMirrorMode_def split: screenMirrorMode.split)

lemma clone_id: "profileOk p \<Longrightarrow> cloneSettingsProfile p = p"
proof -
  assume ok: "profileOk p"
  have "map_option cloneScreenMirrorMode z = z" for z
    by (cases z) simp_all
  then have "cloneMirrorsConfig (sp_mirrors p) = sp_mirrors p"
    using ok by (cases "sp_mirrors p")
      (simp_all add: cloneMirrorsConfig_def profileOk_def Let_def)
  moreover have "cloneProjectionConfig (sp_projection p) = sp_projection p"
    using ok by (cases "sp_projection p")
      (auto simp: cloneProjectionConfig_def profileOk_def projectionOk_def split: option.splits)
  ultimately show ?thesis
    by (simp add: cloneSettingsProfile_def)
qed

definition allProfilesOk :: "profilesState \<Rightarrow> bool" where
  "allProfilesOk s \<longleftrightarrow> profilesStateOk s \<and> (\<forall>p \<in> set (pr_entries s). profileOk p)"

lemma profilesOk_cases: "profilesOk c \<Longrightarrow> \<exists>s. c = configOf s \<and> allProfilesOk s"
proof -
  assume ok: "profilesOk c"
  then obtain a es where "c = configOf \<lparr>pr_activeProfileId = a, pr_entries = es\<rparr>"
    by (cases c) (auto simp: profilesOk_def configOf_def split: option.splits)
  with ok show ?thesis
    by (auto simp: profilesOk_configOf allProfilesOk_def)
qed

lemma readProfilesState_ok: "allProfilesOk (readProfilesState t st)"
proof (cases "sg_profiles (readSettingsConfig t st)")
  case None
  then show ?thesis
    by (simp add: readProfilesState_def allProfilesOk_def normalize_ok)
       (simp add: normalizeProfilesConfig_def)
next
  case (Some c)
  have "fieldOk profilesOk (sg_profiles (readSettingsConfig t st))"
    using read_settingsOk by (simp add: settingsOk_def)
  with Some obtain s where "c = configOf s" "allProfilesOk s"
    using profilesOk_cases by auto
  with Some show ?thesis
    by (simp add: readProfilesState_def allProfilesOk_def)
qed

lemma read_writeProfilesState:
  assumes "allProfilesOk s"
  shows "readProfilesState t' (writeProfilesState t s st) = s"
proof -
  have "map cloneSettingsProfile (pr_entries s) = pr_entries s"
    using assms by (intro map_idI) (simp add: allProfilesOk_def clone_id)
  then have n: "normalizeProfilesConfig (Some \<lparr>pf_activeProfileId = pr_activeProfileId s,
      pf_entries = Some (map cloneSettingsProfile (pr_entries s))\<rparr>) = s"
    using assms normalize_id by (simp add: allProfilesOk_def configOf_def)
  have "profilesOk (configOf s)"
    using assms by (simp add: profilesOk_configOf allProfilesOk_def)
  then show ?thesis
    using assms
    by (simp add: writeProfilesState_def readProfilesState_def patchSettingsConfig_def n Let_def
        flip: configOf_def)
       (simp add: read_written_parts allProfilesOk_def)
qed

lemma patch_keeps_profiles:
  assumes "\<And>s. sg_profiles (f s) = sg_profiles s"
  shows "readProfilesState t' (patchSettingsConfig t f st) = readProfilesState t st"
proof -
  have "fieldOk profilesOk (sg_profiles (f (readSettingsConfig t st)))"
    using read_settingsOk by (simp add: assms settingsOk_def)
  then show ?thesis
    by (simp add: readProfilesState_def patchSettingsConfig_def read_written_parts assms)
qed

lemma broadcastAll_simps [simp]:
  "screenStates (broadcastAllScreensState ctx) = screenStates ctx"
  "mirrors (broadcastAllScreensState ctx) = mirrors ctx"
  "liveState (broadcastAllScreensState ctx) = liveState ctx"
  by (simp_all add: broadcastAllScreensState_def SCREEN_KEYS_def)

lemma applyProfileToRuntime_result:
  assumes "applyProfileToRuntime ensure now t p app = Inr app'"
    and stored: "\<And>t'. readProfilesState t' (rt_store app) = s"
  shows "readProfilesState t' (rt_store app') = s"
    and "screenStates (rt_ctx app') =
      screenStates (applyScreens now
        (case sp_projection p of None \<Rightarrow> \<lambda>_. None | Some c \<Rightarrow> orElse (pj_screens c) (\<lambda>_. None))
        (rt_ctx app))"
    and "mirrors (rt_ctx app') = mirrors (applyProfileMirrors p (rt_ctx app))"
    and "liveState (rt_ctx app') = liveState (rt_ctx app)"
proof -
  obtain app1 where 1: "applyProfileFiles ensure t p app = Inr app1"
    and 2: "app' = (applyProfileScreens now t p app1)\<lparr>rt_ctx := broadcastAllScreensState
        (applyProfileMirrors p (rt_ctx (applyProfileScreens now t p app1)))\<rparr>"
    using assms(1) by (auto simp: applyProfileToRuntime_def res_simps Let_def)
  have ctx1: "rt_ctx app1 = rt_ctx app"
    using 1 by (auto simp: applyProfileFiles_def split: option.splits if_splits)
  have "readProfilesState t' (rt_store app1) = s" for t'
    using 1 stored
    by (auto simp: applyProfileFiles_def writeFilesConfig_def patch_keeps_profiles
        split: option.splits if_splits)
  then show "readProfilesState t' (rt_store app') = s"
    by (auto simp: 2 applyProfileScreens_def writeProjectionConfig_def patch_keeps_profiles Let_def
        split: option.splits)
  show "screenStates (rt_ctx app') =
      screenStates (applyScreens now
        (case sp_projection p of None \<Rightarrow> \<lambda>_. None | Some c \<Rightarrow> orElse (pj_screens c) (\<lambda>_. None))
        (rt_ctx app))"
    by (auto simp: 2 ctx1 applyProfileScreens_def applyProfileMirrors_def applyScreens_def Let_def
        split: option.splits)
  show "mirrors (rt_ctx app') = mirrors (applyProfileMirrors p (rt_ctx app))"
    by (auto simp: 2 ctx1 applyProfileScreens_def applyProfileMirrors_def applyScreens_def Let_def
        split: option.splits)
  show "liveState (rt_ctx app') = liveState (rt_ctx app)"
    by (auto simp: 2 ctx1 applyProfileScreens_def applyProfileMirrors_def applyScreens_def Let_def
        split: option.splits)
qed

lemma applies_without_files:
  "sp_files p = None \<Longrightarrow> \<exists>app'. applyProfileToRuntime ensure now t p app = Inr app'"
  by (simp add: applyProfileToRuntime_def applyProfileFiles_def Let_def)

lemma ensureProfiles_existing:
  "pr_entries (readProfilesState t (rt_store app)) \<noteq> [] \<Longrightarrow>
     ensureProfilesOnStartup t uuid app = (readProfilesState t (rt_store app), app)"
  by (simp add: ensureProfilesOnStartup_def Let_def)

lemma distinct_remove:
  "distinct (map f xs) \<Longrightarrow> find_index (\<lambda>e. f e = y) xs = Some i \<Longrightarrow>
     take i xs @ drop (Suc i) xs = filter (\<lambda>e. f e \<noteq> y) xs"
proof (induction xs arbitrary: i)
  case (Cons x xs)
  show ?case
  proof (cases "f x = y")
    case True
    then have "filter (\<lambda>e. f e \<noteq> y) xs = xs"
      using Cons.prems(1) by (intro filter_True) (force simp: image_iff)
    with True Cons.prems show ?thesis by simp
  next
    case False
    with Cons show ?thesis by auto
  qed
qed simp

lemma length_filter_one:
  "distinct (map f xs) \<Longrightarrow> 1 < length xs \<Longrightarrow> filter (\<lambda>e. f e \<noteq> y) xs \<noteq> []"
proof (rule notI)
  assume d: "distinct (map f xs)" and l: "1 < length xs" and n: "filter (\<lambda>e. f e \<noteq> y) xs = []"
  from n have "\<forall>x \<in> set xs. f x = y"
    by (auto simp: filter_empty_conv)
  moreover have "xs ! 0 \<in> set xs" "xs ! 1 \<in> set xs"
    using l by (auto intro: nth_mem)
  ultimately have "f (xs ! 0) = f (xs ! 1)"
    by auto
  then have "map f (take 2 xs) = [f (xs ! 0), f (xs ! 0)]"
    using l by (cases xs rule: list.exhaust; cases "tl xs") auto
  moreover have "distinct (map f (take 2 xs))"
    using d by (simp add: take_map [symmetric])
  ultimately show False
    by simp
qed

section \<open>Deleting a profile\<close>

text \<open>The state after the deletion\<close>

definition afterDelete :: "string \<Rightarrow> profilesState \<Rightarrow> profilesState" where
  "afterDelete pid s =
     (let es = filter (\<lambda>e. sp_id e \<noteq> pid) (pr_entries s)
      in \<lparr>pr_activeProfileId =
            (if pr_activeProfileId s \<in> {None, Some [], Some pid} then headId es
             else pr_activeProfileId s),
          pr_entries = es\<rparr>)"

lemma headId_member: "es \<noteq> [] \<Longrightarrow> \<exists>e \<in> set es. headId es = Some (sp_id e)"
  by (cases es) (auto simp: headId_def)

lemma afterDelete_ok:
  assumes "allProfilesOk s" and "1 < length (pr_entries s)"
  shows "allProfilesOk (afterDelete pid s)"
    and "\<exists>e \<in> set (pr_entries (afterDelete pid s)). pr_activeProfileId (afterDelete pid s) = Some (sp_id e)"
proof -
  define es where "es = filter (\<lambda>e. sp_id e \<noteq> pid) (pr_entries s)"
  have "distinct (map sp_id (pr_entries s))"
    using assms(1) by (simp add: allProfilesOk_def profilesStateOk_def)
  then have ne: "es \<noteq> []"
    unfolding es_def by (rule length_filter_one) (rule assms(2))
  have "activeOk (pr_activeProfileId s) (pr_entries s)"
    using assms(1) by (simp add: allProfilesOk_def profilesStateOk_def)
  then show act: "\<exists>e \<in> set (pr_entries (afterDelete pid s)).
      pr_activeProfileId (afterDelete pid s) = Some (sp_id e)"
    using headId_member [OF ne]
    by (auto simp: afterDelete_def Let_def activeOk_def es_def [symmetric])
       (auto simp: es_def)
  have "distinct (map sp_id es)"
    unfolding es_def by (rule distinct_map_filter) fact
  then show "allProfilesOk (afterDelete pid s)"
    using assms(1) act
    by (auto simp: allProfilesOk_def profilesStateOk_def activeOk_def afterDelete_def Let_def
        es_def [symmetric]) (auto simp: es_def)
qed

lemma delete_computes:
  assumes pid: "parseProfileIdPayload raw = Inr pid"
    and two: "1 < length (pr_entries (readProfilesState t (rt_store app)))"
    and mem: "pid \<in> set (map sp_id (pr_entries (readProfilesState t (rt_store app))))"
  defines "s \<equiv> readProfilesState t (rt_store app)"
  defines "app2 \<equiv> app\<lparr>rt_store := writeProfilesState t (afterDelete pid s) (rt_store app)\<rparr>"
  shows "settingsDeleteProfile ensure now t uuid raw app =
     (case (if pr_activeProfileId s = Some pid then activeEntry (afterDelete pid s) else None) of
        None \<Rightarrow> (app2, Inr (getProfilesSnapshot (afterDelete pid s)))
      | Some profile \<Rightarrow>
          (case applyProfileToRuntime ensure now t profile app2 of
             Inl e \<Rightarrow> (app2, Inl e)
           | Inr app3 \<Rightarrow> (app3, Inr (getProfilesSnapshot (afterDelete pid s)))))"
proof -
  have "pr_entries s \<noteq> []"
    using two by (auto simp: s_def)
  then have ens: "ensureProfilesOnStartup t uuid app = (s, app)"
    by (simp add: s_def ensureProfiles_existing)
  obtain idx where idx: "find_index (\<lambda>e. sp_id e = pid) (pr_entries s) = Some idx"
    using mem find_index_None_iff [of "\<lambda>e. sp_id e = pid" "pr_entries s"]
    by (cases "find_index (\<lambda>e. sp_id e = pid) (pr_entries s)") (auto simp: s_def)
  have "distinct (map sp_id (pr_entries s))"
    using readProfilesState_ok [of t "rt_store app"]
    by (simp add: s_def allProfilesOk_def profilesStateOk_def)
  then have es: "take idx (pr_entries s) @ drop (Suc idx) (pr_entries s)
      = filter (\<lambda>e. sp_id e \<noteq> pid) (pr_entries s)"
    by (rule distinct_remove) (rule idx)
  have after: "\<lparr>pr_activeProfileId = (if pr_activeProfileId s = None \<or> pr_activeProfileId s = Some []
        \<or> pr_activeProfileId s = Some pid then headId (filter (\<lambda>e. sp_id e \<noteq> pid) (pr_entries s))
        else pr_activeProfileId s), pr_entries = filter (\<lambda>e. sp_id e \<noteq> pid) (pr_entries s)\<rparr>
      = afterDelete pid s"
    by (simp add: afterDelete_def Let_def)
  show ?thesis
    using two
    unfolding settingsDeleteProfile_def pid sum.case ens case_prod_conv Let_def idx option.case es
      after app2_def
    by (simp add: s_def)
qed

section \<open>Properties\<close>

text \<open>Sample data: two profiles, of which the second mirrors nothing and has a larger text\<close>

definition sampleProfile :: "string \<Rightarrow> int \<Rightarrow> settingsProfile" where
  "sampleProfile i scale =
     \<lparr>sp_id = i, sp_name = i, sp_files = None,
      sp_projection = Some \<lparr>pj_screens =
        Some ((\<lambda>_. None)(ScreenA := Some (emptyAppearance\<lparr>ap_textScale := Some (IntNum scale)\<rparr>)))\<rparr>,
      sp_mirrors = Some ((\<lambda>_. None)(ScreenC := Some FREE)), sp_createdAt = 0, sp_updatedAt = 0\<rparr>"

definition sampleProfiles :: profilesState where
  "sampleProfiles = \<lparr>pr_activeProfileId = Some ''p'',
     pr_entries = [sampleProfile ''p'' 1, sampleProfile ''q'' 2]\<rparr>"

definition sampleApp :: appState where
  "sampleApp = \<lparr>rt_ctx = sampleContext,
     rt_store = writeProfilesState 0 sampleProfiles
       \<lparr>st_settings = None, st_legacyFiles = None, st_legacyProjection = None\<rparr>\<rparr>"

lemma sampleProfiles_ok: "allProfilesOk sampleProfiles"
  by (auto simp: sampleProfiles_def sampleProfile_def allProfilesOk_def profilesStateOk_def
      activeOk_def profileOk_def projectionOk_def prefsOk_def emptyAppearance_def noKeys_def
      textOk_def trimmed_def js_space_def)

lemma sampleApp_read: "readProfilesState t (rt_store sampleApp) = sampleProfiles"
  by (simp add: sampleApp_def read_writeProfilesState sampleProfiles_ok)

text \<open>
  Deleting one of several profiles removes that profile alone, keeps the order of the
  others, and leaves an active profile that exists: the active one if another one was
  deleted (then the screens are left alone), else the first that remains. It holds even
  when applying the new active profile fails, so the list of profiles never empties.
\<close>
theorem delete_keeps_an_active_profile:
  assumes "parseProfileIdPayload raw = Inr pid"
    and "1 < length (pr_entries (readProfilesState t (rt_store app)))"
    and "pid \<in> set (map sp_id (pr_entries (readProfilesState t (rt_store app))))"
  shows "(let (app', reply) = settingsDeleteProfile ensure now t uuid raw app;
              old = readProfilesState t (rt_store app);
              new = readProfilesState t' (rt_store app')
          in pr_entries new = filter (\<lambda>e. sp_id e \<noteq> pid) (pr_entries old)
             \<and> (\<exists>e \<in> set (pr_entries new). pr_activeProfileId new = Some (sp_id e))
             \<and> (if pr_activeProfileId old \<in> {None, Some [], Some pid}
                then pr_activeProfileId new = headId (pr_entries new)
                else pr_activeProfileId new = pr_activeProfileId old \<and> rt_ctx app' = rt_ctx app))"
proof -
  define s where "s = readProfilesState t (rt_store app)"
  define app2 where "app2 = app\<lparr>rt_store := writeProfilesState t (afterDelete pid s) (rt_store app)\<rparr>"
  have ok: "allProfilesOk (afterDelete pid s)"
    and act: "\<exists>e \<in> set (pr_entries (afterDelete pid s)).
        pr_activeProfileId (afterDelete pid s) = Some (sp_id e)"
    unfolding s_def by (rule afterDelete_ok [OF readProfilesState_ok assms(2)])+
  have stored: "readProfilesState u (rt_store app2) = afterDelete pid s" for u
    by (simp add: app2_def read_writeProfilesState [OF ok])
  have new: "readProfilesState u (rt_store (fst (settingsDeleteProfile ensure now t uuid raw app)))
      = afterDelete pid s" for u
    unfolding delete_computes [OF assms] s_def [symmetric] app2_def [symmetric]
    by (auto simp: stored applyProfileToRuntime_result(1) [OF _ stored] split: option.split sum.split)
  have ctx: "pr_activeProfileId s \<noteq> Some pid \<Longrightarrow>
      rt_ctx (fst (settingsDeleteProfile ensure now t uuid raw app)) = rt_ctx app"
    unfolding delete_computes [OF assms] s_def [symmetric] by simp
  show ?thesis
    using act ctx
    by (simp add: case_prod_beta Let_def new s_def [symmetric])
       (auto simp: afterDelete_def Let_def)
qed

lemma delete_keeps_an_active_profile_witness:
  "(let (app', reply) = settingsDeleteProfile (\<lambda>_. None) (\<lambda>_. 1) 1 [] (JObj [(''profileId'', JStr ''p'')]) sampleApp;
        old = readProfilesState 1 (rt_store sampleApp);
        new = readProfilesState 2 (rt_store app')
    in pr_entries new = filter (\<lambda>e. sp_id e \<noteq> ''p'') (pr_entries old)
       \<and> (\<exists>e \<in> set (pr_entries new). pr_activeProfileId new = Some (sp_id e))
       \<and> (if pr_activeProfileId old \<in> {None, Some [], Some ''p''}
          then pr_activeProfileId new = headId (pr_entries new)
          else pr_activeProfileId new = pr_activeProfileId old \<and> rt_ctx app' = rt_ctx sampleApp))"
proof -
  have p: "parseProfileIdPayload (JObj [(''profileId'', JStr ''p'')]) = Inr ''p''"
    by (simp add: parseProfileIdPayload_def trim_def trim_left_def trim_right_def js_space_def)
  show ?thesis
    by (rule delete_keeps_an_active_profile [OF p])
      (simp_all add: sampleApp_read, simp_all add: sampleProfiles_def sampleProfile_def)
qed

text \<open>
  Activating a stored profile makes it the active one, leaves the stored profiles as they
  are, and sets on every screen just the appearance the profile has for it and the mirror
  mode it has for it: what a screen shows and its mode stay, also on a screen that the
  profile makes a mirror of another one.
\<close>
theorem activate_applies_profile:
  assumes "parseProfileIdPayload raw = Inr pid"
    and "find (\<lambda>e. sp_id e = pid) (pr_entries (readProfilesState t (rt_store app))) = Some profile"
    and "settingsActivateProfile ensure now t uuid raw app = (app', Inr reply)"
  shows "readProfilesState t' (rt_store app')
           = (readProfilesState t (rt_store app))\<lparr>pr_activeProfileId := Some pid\<rparr>
    \<and> (\<forall>k. screenStates (rt_ctx app') k =
           (case sp_projection profile of
              None \<Rightarrow> screenStates (rt_ctx app) k
            | Some c \<Rightarrow>
                (case orElse (pj_screens c) (\<lambda>_. None) k of
                   None \<Rightarrow> screenStates (rt_ctx app) k
                 | Some p \<Rightarrow> (applyPrefs p (screenStates (rt_ctx app) k))\<lparr>ps_updatedAt := now k\<rparr>))
         \<and> ps_current (screenStates (rt_ctx app') k) = ps_current (screenStates (rt_ctx app) k)
         \<and> ps_mode (screenStates (rt_ctx app') k) = ps_mode (screenStates (rt_ctx app) k)
         \<and> mirrors (rt_ctx app') k =
             orElse (orElse (sp_mirrors profile) (\<lambda>_. None) k) (mirrors (rt_ctx app) k))"
proof -
  define s where "s = readProfilesState t (rt_store app)"
  define s' where "s' = s\<lparr>pr_activeProfileId := Some pid\<rparr>"
  define app2 where "app2 = app\<lparr>rt_store := writeProfilesState t s' (rt_store app)\<rparr>"
  have mem: "profile \<in> set (pr_entries s)" and pid: "sp_id profile = pid"
    using assms(2) by (auto simp: s_def find_Some_iff)
  have ens: "ensureProfilesOnStartup t uuid app = (s, app)"
    using mem by (auto simp: s_def intro!: ensureProfiles_existing)
  have ok: "allProfilesOk s'"
    using readProfilesState_ok [of t "rt_store app"] mem pid
    by (auto simp: s'_def s_def allProfilesOk_def profilesStateOk_def activeOk_def)
  have stored: "readProfilesState u (rt_store app2) = s'" for u
    by (simp add: app2_def read_writeProfilesState [OF ok])
  have applied: "applyProfileToRuntime ensure now t profile app2 = Inr app'"
    using assms(3)
    unfolding settingsActivateProfile_def assms(1) sum.case ens case_prod_conv
      assms(2) [folded s_def] option.case Let_def pid s'_def [symmetric] app2_def [symmetric]
    by (simp split: sum.splits)
  have ctx: "rt_ctx app2 = rt_ctx app"
    by (simp add: app2_def)
  note result = applyProfileToRuntime_result [OF applied stored]
  show ?thesis
    unfolding result(1) result(2) result(3) ctx
    by (auto simp: s'_def s_def applyScreens_def applyProfileMirrors_def applyPrefs_def orElse_def
        split: option.split)
qed

lemma activate_applies_profile_witness:
  "\<exists>app' reply. settingsActivateProfile (\<lambda>_. None) (\<lambda>_. 1) 1 [] (JObj [(''profileId'', JStr ''q'')]) sampleApp
       = (app', Inr reply)
     \<and> pr_activeProfileId (readProfilesState 2 (rt_store app')) = Some ''q''
     \<and> ps_textScale (screenStates (rt_ctx app') ScreenA) = IntNum 2
     \<and> mirrors (rt_ctx app') ScreenC = FREE"
proof -
  have p: "parseProfileIdPayload (JObj [(''profileId'', JStr ''q'')]) = Inr ''q''"
    by (simp add: parseProfileIdPayload_def trim_def trim_left_def trim_right_def js_space_def)
  have f: "find (\<lambda>e. sp_id e = ''q'') (pr_entries (readProfilesState 1 (rt_store sampleApp)))
      = Some (sampleProfile ''q'' 2)"
    by (simp add: sampleApp_read) (simp add: sampleProfiles_def sampleProfile_def)
  have ens: "ensureProfilesOnStartup 1 [] sampleApp = (sampleProfiles, sampleApp)"
    using ensureProfiles_existing [of 1 sampleApp "[]"]
    by (simp add: sampleApp_read) (simp add: sampleProfiles_def)
  have n: "sp_files (sampleProfile ''q'' 2) = None"
    by (simp add: sampleProfile_def)
  define app2 where "app2 = sampleApp\<lparr>rt_store :=
    writeProfilesState 1 (sampleProfiles\<lparr>pr_activeProfileId := Some ''q''\<rparr>) (rt_store sampleApp)\<rparr>"
  obtain app' where a: "applyProfileToRuntime (\<lambda>_. None) (\<lambda>_. 1) 1 (sampleProfile ''q'' 2) app2 = Inr app'"
    using applies_without_files [OF n] by blast
  have i: "sp_id (sampleProfile ''q'' 2) = ''q''"
    by (simp add: sampleProfile_def)
  obtain reply where r: "settingsActivateProfile (\<lambda>_. None) (\<lambda>_. 1) 1 []
      (JObj [(''profileId'', JStr ''q'')]) sampleApp = (app', Inr reply)"
    unfolding settingsActivateProfile_def p sum.case ens case_prod_conv f [unfolded sampleApp_read]
      option.case Let_def i app2_def [symmetric] a
    by blast
  have "readProfilesState 2 (rt_store app') = sampleProfiles\<lparr>pr_activeProfileId := Some ''q''\<rparr>"
    "ps_textScale (screenStates (rt_ctx app') ScreenA) = IntNum 2"
    "mirrors (rt_ctx app') ScreenC = FREE"
    using activate_applies_profile [OF p f r, of 2]
    by (simp_all add: sampleApp_read sampleProfile_def applyPrefs_def)
  with r show ?thesis
    by auto
qed

text \<open>The appearances of the running application: only the scale of titles may be undefined.\<close>

definition appearanceComplete :: "cpProjectionState \<Rightarrow> bool" where
  "appearanceComplete s \<longleftrightarrow>
     ps_textFontPath s \<noteq> None \<and> ps_backgroundMode s \<noteq> None \<and> ps_backgroundGradientFrom s \<noteq> None
     \<and> ps_backgroundGradientTo s \<noteq> None \<and> ps_backgroundGradientAngle s \<noteq> None
     \<and> ps_backgroundImage s \<noteq> None \<and> ps_logoPath s \<noteq> None \<and> ps_logoPosition s \<noteq> None
     \<and> ps_logoOpacity s \<noteq> None \<and> ps_logoScale s \<noteq> None \<and> ps_foregroundMode s \<noteq> None
     \<and> ps_foregroundGradientFrom s \<noteq> None \<and> ps_foregroundGradientTo s \<noteq> None"

lemma orOption_not_None [simp]: "y \<noteq> None \<Longrightarrow> orOption x y \<noteq> None"
  by (cases x) auto

lemma orOption_Some_left: "x \<noteq> None \<Longrightarrow> orOption x y = x"
  by (cases x) auto

lemma pick_apply:
  "appearanceComplete s \<Longrightarrow> pickProjectionAppearancePrefs (applyPrefs (pickProjectionAppearancePrefs s) u)
     = (pickProjectionAppearancePrefs s)\<lparr>ap_titleTextScale :=
          orOption (ps_titleTextScale s) (ps_titleTextScale u)\<rparr>"
  by (simp add: appearanceComplete_def applyPrefs_def pickProjectionAppearancePrefs_def
      orOption_Some_left)

lemma setters_complete:
  "appearanceComplete (patchAppearance p s)"
  "appearanceComplete s \<Longrightarrow> appearanceComplete (patchState d s)"
  by (simp_all add: appearanceComplete_def patchAppearance_def patchState_def)

lemma complete_frame [simp]:
  "appearanceComplete (s\<lparr>ps_updatedAt := t\<rparr>) = appearanceComplete s"
  "appearanceComplete (s\<lparr>ps_mode := m\<rparr>) = appearanceComplete s"
  "appearanceComplete (s\<lparr>ps_current := c\<rparr>) = appearanceComplete s"
  by (simp_all add: appearanceComplete_def)

context content_setter
begin

lemma setter_keeps:
  assumes "\<And>s. P s \<Longrightarrow> P (upd p s)" and "\<And>s n. P s \<Longrightarrow> P (s\<lparr>ps_updatedAt := n\<rparr>)"
    and "\<And>k. P (screenStates ctx k)"
  shows "P (screenStates (fst (setter now ctx key p)) k)"
  using assms by (cases rule: setter_cases [of ctx key now p]) (simp_all add: commitScreen_states)

end

lemma screenStep_complete:
  assumes "screenStep op ctx ctx'" and "\<And>k. appearanceComplete (screenStates ctx k)"
  shows "appearanceComplete (screenStates ctx' k)"
  using assms
proof (cases rule: screenStep.cases)
  case (step_text key now p)
  then show ?thesis
    using assms(2) by (simp add: txtset.setter_keeps textUpdate_def)
next
  case (step_media key now q)
  then show ?thesis
    using assms(2) by (simp add: mediaset.setter_keeps mediaUpdate_def)
next
  case (step_mode key now m)
  then show ?thesis
    using assms(2) by (simp add: modeset.setter_keeps)
next
  case (step_appearance key now a)
  then show ?thesis
    using assms(2) by (simp add: appset.setter_keeps setters_complete)
next
  case (step_patch key now d)
  then show ?thesis
    using assms(2) by (simp add: patchset.setter_keeps setters_complete)
next
  case (step_mirror key now r)
  then show ?thesis
    using assms(2) by (simp split: screenMirrorMode.split)
next
  case (step_live l now t)
  then show ?thesis
    using assms(2) by (simp add: applyLive_states Let_def)
qed

lemma reachable_complete:
  "screensReachable allowed ctx \<Longrightarrow> appearanceComplete (screenStates ctx k)"
proof (induction arbitrary: k rule: screensReachable.induct)
  case (reach_start now t)
  then show ?case
    by (simp add: initialContext_def createDefaultProjectionState_def appearanceComplete_def)
next
  case (reach_step ctx op ctx')
  then show ?case
    using screenStep_complete by blast
qed

text \<open>
  A profile that is saved in one state of the screens and applied in another one brings
  back the whole appearance of every screen, unless the scale of titles was undefined when
  it was saved and is defined now: then the present scale stays. An undefined field is not
  stored, so no profile can take the scale of titles away again.
\<close>
theorem saved_appearance_restored:
  assumes "screensReachable allowed ctx"
  shows "pickProjectionAppearancePrefs
           (applyPrefs (pickProjectionAppearancePrefs (screenStates ctx k)) s)
           = pickProjectionAppearancePrefs (screenStates ctx k)
         \<longleftrightarrow> (ps_titleTextScale (screenStates ctx k) = None \<longrightarrow> ps_titleTextScale s = None)"
proof -
  have "orOption x y = x \<longleftrightarrow> (x = None \<longrightarrow> y = None)" for x y :: "jsnum option"
    by (cases x) auto
  moreover have "p\<lparr>ap_titleTextScale := x\<rparr> = p \<longleftrightarrow> x = ap_titleTextScale p" for p :: appearancePrefs and x
    by (cases p) simp
  ultimately show ?thesis
    by (simp add: pick_apply [OF reachable_complete [OF assms]])
       (simp add: pickProjectionAppearancePrefs_def)
qed

lemma saved_appearance_restored_witness:
  "pickProjectionAppearancePrefs
     (applyPrefs (pickProjectionAppearancePrefs (screenStates sampleContext ScreenA))
       ((screenStates sampleContext ScreenA)\<lparr>ps_titleTextScale := Some (IntNum 2)\<rparr>))
   \<noteq> pickProjectionAppearancePrefs (screenStates sampleContext ScreenA)"
proof -
  have "screensReachable (\<lambda>_ _. True) sampleContext"
    unfolding sampleContext_def by (rule reach_start)
  from saved_appearance_restored [OF this, of ScreenA] show ?thesis
    by (simp add: sampleContext_def initialContext_def createDefaultProjectionState_def)
qed

end
