(* ===== verification/Handlers.thy ===== *)
theory Handlers
  imports Profiles
begin

text \<open>
  The handlers of \<open>src/apps/desktop/src/main/main.ts\<close> on screens and live state: the
  \<open>projection:\<close> handlers for screen A, the \<open>screens:\<close> handlers, the \<open>live:\<close> handlers, and the
  commands that the web remote sends through the sync server. A handler that rejects its
  payload (\<open>Inl\<close>) leaves the application as it was. The windows themselves are left out.

  The lemmas show that each handler is at most one step of the screen machine, so that the
  invariants of the screens hold under every sequence of them; the properties bound the
  live cursor.
\<close>

section \<open>Projection and screen handlers\<close>

type_synonym mutationReply = "(appState \<times> screenMutationResult) result"

text \<open>A setter of the screen state lifted to the application, without and with persistence\<close>

definition onCtx ::
  "(screenContext \<Rightarrow> screenContext \<times> screenMutationResult) \<Rightarrow> appState
     \<Rightarrow> appState \<times> screenMutationResult" where
  "onCtx f app = (let (ctx, r) = f (rt_ctx app) in (app\<lparr>rt_ctx := ctx\<rparr>, r))"

definition isMutationOk :: "screenMutationResult \<Rightarrow> bool" where
  "isMutationOk r = (case r of MutationOk _ \<Rightarrow> True | MutationErr _ _ \<Rightarrow> False)"

definition projectionGetState :: "appState \<Rightarrow> cpProjectionState" where
  "projectionGetState app = screenStates (rt_ctx app) ScreenA"

definition projectionSetState :: "(screenKey \<Rightarrow> int) \<Rightarrow> jsval \<Rightarrow> appState \<Rightarrow> mutationReply" where
  "projectionSetState now rawPatch app =
     andThen (parseProjectionStatePatch rawPatch) (\<lambda>patch.
       Inr (onCtx (\<lambda>ctx. setStatePatch now ctx ScreenA patch) app))"

definition appearanceHandler ::
  "(screenKey \<Rightarrow> int) \<Rightarrow> int \<Rightarrow> string \<Rightarrow> screenKey \<Rightarrow> cpProjectionSetAppearancePayload
     \<Rightarrow> appState \<Rightarrow> appState \<times> screenMutationResult" where
  "appearanceHandler now t uuid key patch app =
     (let (app1, r) = onCtx (\<lambda>ctx. setAppearance now ctx key patch) app
      in (if isMutationOk r then persistProjectionAppearanceForScreen t uuid key app1 else app1, r))"

definition projectionSetAppearance ::
  "(screenKey \<Rightarrow> int) \<Rightarrow> int \<Rightarrow> string \<Rightarrow> jsval \<Rightarrow> appState \<Rightarrow> mutationReply" where
  "projectionSetAppearance now t uuid rawPatch app =
     andThen (parseProjectionSetAppearancePayload rawPatch) (\<lambda>patch.
       Inr (appearanceHandler now t uuid ScreenA patch app))"

definition screensSetAppearance ::
  "(screenKey \<Rightarrow> int) \<Rightarrow> int \<Rightarrow> string \<Rightarrow> jsval \<Rightarrow> jsval \<Rightarrow> appState \<Rightarrow> mutationReply" where
  "screensSetAppearance now t uuid rawKey rawPatch app =
     andThen (parseScreenKey rawKey ''screens:setAppearance.key'') (\<lambda>key.
     andThen (parseProjectionSetAppearancePayload rawPatch) (\<lambda>patch.
       Inr (appearanceHandler now t uuid key patch app)))"

definition projectionSetContentText ::
  "(rat \<Rightarrow> string) \<Rightarrow> (screenKey \<Rightarrow> int) \<Rightarrow> jsval \<Rightarrow> appState \<Rightarrow> mutationReply" where
  "projectionSetContentText fmt now rawPayload app =
     andThen (parseProjectionSetTextPayload fmt rawPayload) (\<lambda>payload.
       Inr (onCtx (\<lambda>ctx. setContentText now ctx ScreenA payload) app))"

definition projectionSetContentMedia ::
  "(screenKey \<Rightarrow> int) \<Rightarrow> jsval \<Rightarrow> appState \<Rightarrow> mutationReply" where
  "projectionSetContentMedia now rawPayload app =
     andThen (parseProjectionSetMediaPayload rawPayload) (\<lambda>payload.
       Inr (onCtx (\<lambda>ctx. setContentMedia now ctx ScreenA payload) app))"

definition projectionSetMode :: "(screenKey \<Rightarrow> int) \<Rightarrow> jsval \<Rightarrow> appState \<Rightarrow> mutationReply" where
  "projectionSetMode now rawMode app =
     andThen (parseProjectionMode rawMode ''projection:setMode.mode'') (\<lambda>mode.
       Inr (onCtx (\<lambda>ctx. setMode now ctx ScreenA mode) app))"

text \<open>\<open>void syncActiveProfileFromRuntime(...)\<close> runs when the handler has answered.\<close>

definition screensSetMirror ::
  "(screenKey \<Rightarrow> int) \<Rightarrow> int \<Rightarrow> string \<Rightarrow> jsval \<Rightarrow> jsval \<Rightarrow> appState \<Rightarrow> appState result" where
  "screensSetMirror now t uuid rawKey rawMirror app =
     andThen (parseScreenKey rawKey ''screens:setMirror.key'') (\<lambda>key.
     andThen (parseScreenMirrorMode rawMirror) (\<lambda>mirror.
       Inr (syncActiveProfileFromRuntime t uuid
              (app\<lparr>rt_ctx := setMirror now (rt_ctx app) key mirror\<rparr>))))"

definition screensGetState :: "jsval \<Rightarrow> appState \<Rightarrow> cpProjectionState result" where
  "screensGetState rawKey app =
     andThen (parseScreenKey rawKey ''screens:getState.key'') (\<lambda>key.
       Inr (screenStates (rt_ctx app) key))"

definition screensSetState ::
  "(screenKey \<Rightarrow> int) \<Rightarrow> jsval \<Rightarrow> jsval \<Rightarrow> appState \<Rightarrow> mutationReply" where
  "screensSetState now rawKey rawPatch app =
     andThen (parseScreenKey rawKey ''screens:setState.key'') (\<lambda>key.
     andThen (parseProjectionStatePatch rawPatch) (\<lambda>patch.
       Inr (onCtx (\<lambda>ctx. setStatePatch now ctx key patch) app)))"

definition screensSetContentText ::
  "(rat \<Rightarrow> string) \<Rightarrow> (screenKey \<Rightarrow> int) \<Rightarrow> jsval \<Rightarrow> jsval \<Rightarrow> appState \<Rightarrow> mutationReply" where
  "screensSetContentText fmt now rawKey rawPayload app =
     andThen (parseScreenKey rawKey ''screens:setContentText.key'') (\<lambda>key.
     andThen (parseProjectionSetTextPayload fmt rawPayload) (\<lambda>payload.
       Inr (onCtx (\<lambda>ctx. setContentText now ctx key payload) app)))"

definition screensSetContentMedia ::
  "(screenKey \<Rightarrow> int) \<Rightarrow> jsval \<Rightarrow> jsval \<Rightarrow> appState \<Rightarrow> mutationReply" where
  "screensSetContentMedia now rawKey rawPayload app =
     andThen (parseScreenKey rawKey ''screens:setContentMedia.key'') (\<lambda>key.
     andThen (parseProjectionSetMediaPayload rawPayload) (\<lambda>payload.
       Inr (onCtx (\<lambda>ctx. setContentMedia now ctx key payload) app)))"

definition screensSetMode ::
  "(screenKey \<Rightarrow> int) \<Rightarrow> jsval \<Rightarrow> jsval \<Rightarrow> appState \<Rightarrow> mutationReply" where
  "screensSetMode now rawKey rawMode app =
     andThen (parseScreenKey rawKey ''screens:setMode.key'') (\<lambda>key.
     andThen (parseProjectionMode rawMode ''screens:setMode.mode'') (\<lambda>mode.
       Inr (onCtx (\<lambda>ctx. setMode now ctx key mode) app)))"

section \<open>Live handlers\<close>

type_synonym liveReply = "(screenContext \<times> cpLiveState) result"

text \<open>\<open>live:set\<close> takes over the fields that are present and of the right type.\<close>

definition liveSetPatch :: "cpLiveSetPayload \<Rightarrow> livePatch" where
  "liveSetPatch p =
     \<lparr>lp_enabled = ls_enabled p, lp_planId = ls_planId p,
      lp_cursor = (case ls_cursor p of None \<Rightarrow> None | Some c \<Rightarrow> c),
      lp_target = ls_target p, lp_black = ls_black p, lp_white = ls_white p,
      lp_lockedScreens = None\<rparr>"

definition liveSet :: "(screenKey \<Rightarrow> int) \<Rightarrow> int \<Rightarrow> jsval \<Rightarrow> screenContext \<Rightarrow> liveReply" where
  "liveSet now t rawPayload ctx =
     andThen (parseLiveSetPayload rawPayload) (\<lambda>payload.
       Inr (mergeLive now t ctx (liveSetPatch payload)))"

definition liveToggle :: "(screenKey \<Rightarrow> int) \<Rightarrow> int \<Rightarrow> screenContext \<Rightarrow> screenContext \<times> cpLiveState" where
  "liveToggle now t ctx =
     mergeLive now t ctx (emptyLivePatch\<lparr>lp_enabled := Some (\<not> lv_enabled (liveState ctx))\<rparr>)"

definition liveNext :: "(screenKey \<Rightarrow> int) \<Rightarrow> int \<Rightarrow> screenContext \<Rightarrow> screenContext \<times> cpLiveState" where
  "liveNext now t ctx =
     mergeLive now t ctx
       (emptyLivePatch\<lparr>lp_cursor := Some (num_add (lv_cursor (liveState ctx)) (IntNum 1)),
                       lp_enabled := Some True\<rparr>)"

definition livePrev :: "(screenKey \<Rightarrow> int) \<Rightarrow> int \<Rightarrow> screenContext \<Rightarrow> screenContext \<times> cpLiveState" where
  "livePrev now t ctx =
     mergeLive now t ctx
       (emptyLivePatch\<lparr>lp_cursor :=
            Some (num_max (num_add (lv_cursor (liveState ctx)) (IntNum (- 1))) (IntNum 0)),
          lp_enabled := Some True\<rparr>)"

definition liveToCursor ::
  "(screenKey \<Rightarrow> int) \<Rightarrow> int \<Rightarrow> jsnum \<Rightarrow> screenContext \<Rightarrow> screenContext \<times> cpLiveState" where
  "liveToCursor now t cursor ctx =
     mergeLive now t ctx (emptyLivePatch\<lparr>lp_cursor := Some cursor, lp_enabled := Some True\<rparr>)"

definition liveSetCursor :: "(screenKey \<Rightarrow> int) \<Rightarrow> int \<Rightarrow> jsval \<Rightarrow> screenContext \<Rightarrow> liveReply" where
  "liveSetCursor now t rawCursor ctx =
     andThen (parseLiveCursor rawCursor) (\<lambda>cursor. Inr (liveToCursor now t cursor ctx))"

definition liveSetTarget :: "(screenKey \<Rightarrow> int) \<Rightarrow> int \<Rightarrow> jsval \<Rightarrow> screenContext \<Rightarrow> liveReply" where
  "liveSetTarget now t rawTarget ctx =
     andThen (parseScreenKey rawTarget ''live:setTarget.target'') (\<lambda>target.
       Inr (mergeLive now t ctx (emptyLivePatch\<lparr>lp_target := Some target\<rparr>)))"

definition liveToggleBlack ::
  "(screenKey \<Rightarrow> int) \<Rightarrow> int \<Rightarrow> screenContext \<Rightarrow> screenContext \<times> cpLiveState" where
  "liveToggleBlack now t ctx =
     mergeLive now t ctx
       (emptyLivePatch\<lparr>lp_black := Some (\<not> lv_black (liveState ctx)), lp_enabled := Some True\<rparr>)"

definition liveToggleWhite ::
  "(screenKey \<Rightarrow> int) \<Rightarrow> int \<Rightarrow> screenContext \<Rightarrow> screenContext \<times> cpLiveState" where
  "liveToggleWhite now t ctx =
     mergeLive now t ctx
       (emptyLivePatch\<lparr>lp_white := Some (\<not> lv_white (liveState ctx)), lp_enabled := Some True\<rparr>)"

definition liveResume :: "(screenKey \<Rightarrow> int) \<Rightarrow> int \<Rightarrow> screenContext \<Rightarrow> screenContext \<times> cpLiveState" where
  "liveResume now t ctx =
     mergeLive now t ctx
       (emptyLivePatch\<lparr>lp_black := Some False, lp_white := Some False, lp_enabled := Some True\<rparr>)"

definition liveSetLocked :: "(screenKey \<Rightarrow> int) \<Rightarrow> int \<Rightarrow> jsval \<Rightarrow> screenContext \<Rightarrow> liveReply" where
  "liveSetLocked now t rawPayload ctx =
     andThen (parseLiveSetLockedPayload rawPayload) (\<lambda>(key, locked).
       Inr (mergeLive now t ctx
         (emptyLivePatch\<lparr>lp_lockedScreens :=
            Some ((lv_lockedScreens (liveState ctx))(key := locked))\<rparr>)))"

text \<open>The values that \<open>live:freeNavigate\<close> and \<open>live:videoVolume\<close> pass on to the windows\<close>

definition freeNavigateDir :: "jsval \<Rightarrow> int" where
  "freeNavigateDir rawDir = (if rawDir = JNum (IntNum 1) then 1 else - 1)"

definition videoVolume :: "jsval \<Rightarrow> jsnum" where
  "videoVolume rawVolume =
     (case rawVolume of JNum v \<Rightarrow> num_max (IntNum 0) (num_min (IntNum 1) v) | _ \<Rightarrow> IntNum 1)"

section \<open>Sequences of commands\<close>

datatype liveCommand =
    CmdSet jsval | CmdToggle | CmdNext | CmdPrev | CmdSetCursor jsval | CmdSetTarget jsval
  | CmdToggleBlack | CmdToggleWhite | CmdResume | CmdSetLocked jsval

fun liveHandler :: "(screenKey \<Rightarrow> int) \<Rightarrow> int \<Rightarrow> liveCommand \<Rightarrow> screenContext \<Rightarrow> liveReply" where
  "liveHandler now t (CmdSet raw) ctx = liveSet now t raw ctx"
| "liveHandler now t CmdToggle ctx = Inr (liveToggle now t ctx)"
| "liveHandler now t CmdNext ctx = Inr (liveNext now t ctx)"
| "liveHandler now t CmdPrev ctx = Inr (livePrev now t ctx)"
| "liveHandler now t (CmdSetCursor raw) ctx = liveSetCursor now t raw ctx"
| "liveHandler now t (CmdSetTarget raw) ctx = liveSetTarget now t raw ctx"
| "liveHandler now t CmdToggleBlack ctx = Inr (liveToggleBlack now t ctx)"
| "liveHandler now t CmdToggleWhite ctx = Inr (liveToggleWhite now t ctx)"
| "liveHandler now t CmdResume ctx = Inr (liveResume now t ctx)"
| "liveHandler now t (CmdSetLocked raw) ctx = liveSetLocked now t raw ctx"

text \<open>A remote command is a name and a value; the cursor of \<open>live:setCursor\<close> may be any number.\<close>

definition onLiveCommand ::
  "(screenKey \<Rightarrow> int) \<Rightarrow> int \<Rightarrow> string \<Rightarrow> jsval \<Rightarrow> screenContext \<Rightarrow> screenContext \<times> cpLiveState" where
  "onLiveCommand now t cmd arg ctx =
     (if cmd = ''live:next'' then liveNext now t ctx
      else if cmd = ''live:prev'' then livePrev now t ctx
      else if cmd = ''live:toggle'' then liveToggle now t ctx
      else if cmd = ''live:toggleBlack'' then liveToggleBlack now t ctx
      else if cmd = ''live:toggleWhite'' then liveToggleWhite now t ctx
      else if cmd = ''live:resume'' then liveResume now t ctx
      else if cmd = ''live:setCursor'' then
        liveToCursor now t (case arg of JNum n \<Rightarrow> n | _ \<Rightarrow> IntNum 0) ctx
      else (ctx, liveState ctx))"

text \<open>Each command comes with the stamps of its moment; one that is rejected changes nothing.\<close>

fun runLive :: "((screenKey \<Rightarrow> int) \<times> int \<times> liveCommand) list \<Rightarrow> screenContext \<Rightarrow> screenContext" where
  "runLive [] ctx = ctx"
| "runLive ((now, t, cmd) # cmds) ctx =
     runLive cmds (case liveHandler now t cmd ctx of Inl _ \<Rightarrow> ctx | Inr (ctx', _) \<Rightarrow> ctx')"

section \<open>Handlers as steps of the screen machine\<close>

lemmas live_defs = liveToggle_def liveNext_def livePrev_def liveToCursor_def liveToggleBlack_def
  liveToggleWhite_def liveResume_def

lemma liveHandler_merge:
  assumes "liveHandler now t cmd ctx = Inr (ctx', lv)"
  shows "\<exists>p. (ctx', lv) = mergeLive now t ctx p"
proof (cases cmd)
  case (CmdSet raw)
  then show ?thesis
    using assms by (auto simp: liveSet_def res_simps intro: sym)
next
  case (CmdSetCursor raw)
  then show ?thesis
    using assms by (auto simp: liveSetCursor_def liveToCursor_def res_simps intro: sym)
next
  case (CmdSetTarget raw)
  then show ?thesis
    using assms by (auto simp: liveSetTarget_def res_simps intro: sym)
next
  case (CmdSetLocked raw)
  then show ?thesis
    using assms by (auto simp: liveSetLocked_def res_simps intro: sym)
qed (use assms in \<open>auto simp: live_defs intro: sym\<close>)

lemma liveHandler_step:
  "liveHandler now t cmd ctx = Inr (ctx', lv) \<Longrightarrow> \<exists>p. screenStep (OpLive p) ctx ctx'"
  using liveHandler_merge by (metis fst_conv step_live)

lemma runLive_reachable:
  "screensReachable (\<lambda>_ _. True) ctx \<Longrightarrow> screensReachable (\<lambda>_ _. True) (runLive cmds ctx)"
proof (induction cmds arbitrary: ctx)
  case (Cons c cmds)
  obtain now t cmd where c: "c = (now, t, cmd)"
    by (cases c)
  show ?case
  proof (cases "liveHandler now t cmd ctx")
    case (Inl e)
    with Cons show ?thesis by (simp add: c)
  next
    case (Inr r)
    then obtain ctx' lv where r: "liveHandler now t cmd ctx = Inr (ctx', lv)"
      by (cases r) auto
    then have "screensReachable (\<lambda>_ _. True) ctx'"
      using liveHandler_step Cons.prems reach_step by blast
    with Cons.IH r show ?thesis by (simp add: c)
  qed
qed simp

section \<open>The live cursor\<close>

definition cursorOk :: "jsnum \<Rightarrow> bool" where
  "cursorOk c \<longleftrightarrow> num_isInteger c \<and> \<not> num_less c (IntNum 0)"

lemma cursorOk_IntNum [simp]: "cursorOk (IntNum i) \<longleftrightarrow> 0 \<le> i"
  by (auto simp: cursorOk_def)

lemma cursorOk_iff: "cursorOk c \<longleftrightarrow> (\<exists>i \<ge> 0. c = IntNum i)"
  by (auto simp: cursorOk_def num_isInteger_iff)

lemma nextLive_cursor:
  "cursorOk (lv_cursor lv) \<Longrightarrow> fieldOk num_isInteger (lp_cursor p) \<Longrightarrow>
     cursorOk (lv_cursor (nextLive t lv p))"
  by (cases "lp_cursor p") (auto simp: nextLive_def Let_def cursorOk_def num_isInteger_iff)

lemma num_IntNum [simp]:
  "num_add (IntNum i) (IntNum j) = IntNum (i + j)"
  "num_max (IntNum i) (IntNum j) = IntNum (max i j)"
  by auto

lemma select_convs_cursor:
  "lp_cursor (p\<lparr>lp_cursor := x, lp_enabled := b\<rparr>) = x"
  by simp

lemma num_isInteger_finite: "num_isInteger n \<Longrightarrow> num_isFinite n"
  by (cases n) simp_all

lemma whenIn_cursor:
  "whenIn (orNull expectInteger) rec k l = Inr c \<Longrightarrow>
     fieldOk num_isInteger (case c of None \<Rightarrow> None | Some x \<Rightarrow> x)"
  by (auto simp: whenIn_def orNull_def res_simps accept_simps split: if_splits)

lemma live_payload_cursor:
  assumes "parseLiveSetPayload raw = Inr payload"
  shows "fieldOk num_isInteger (case ls_cursor payload of None \<Rightarrow> None | Some x \<Rightarrow> x)"
  using assms whenIn_cursor
  unfolding parseLiveSetPayload_def andThen_Inr_iff by fastforce

lemma liveHandler_cursor:
  assumes "liveHandler now t cmd ctx = Inr (ctx', lv)" and "cursorOk (lv_cursor (liveState ctx))"
  shows "cursorOk (lv_cursor (liveState ctx'))"
proof -
  have ok: "cursorOk (lv_cursor (liveState ctx'))"
    if "mergeLive now t ctx p = (ctx', lv)" "fieldOk num_isInteger (lp_cursor p)" for p
  proof -
    have "liveState ctx' = nextLive t (liveState ctx) p"
      using mergeLive_simps(2) [of now t ctx p] by (simp add: that(1))
    then show ?thesis
      using nextLive_cursor [OF assms(2) that(2)] by simp
  qed
  obtain i where c: "lv_cursor (liveState ctx) = IntNum i"
    using assms(2) by (auto simp: cursorOk_iff)
  show ?thesis
  proof (cases cmd)
    case (CmdSet raw)
    then obtain payload where "parseLiveSetPayload raw = Inr payload"
      and m: "mergeLive now t ctx (liveSetPatch payload) = (ctx', lv)"
      using assms(1) by (auto simp: liveSet_def res_simps)
    then have "fieldOk num_isInteger (lp_cursor (liveSetPatch payload))"
      using live_payload_cursor by (simp add: liveSetPatch_def)
    with m ok show ?thesis by blast
  next
    case (CmdSetCursor raw)
    then obtain n where "num_isInteger n" and m: "mergeLive now t ctx
        (emptyLivePatch\<lparr>lp_cursor := Some n, lp_enabled := Some True\<rparr>) = (ctx', lv)"
      using assms(1)
      by (auto simp: liveSetCursor_def liveToCursor_def parseLiveCursor_def res_simps accept_simps
          simp flip: num_isInteger_iff)
    then show ?thesis
      by (intro ok [OF m]) simp
  next
    case (CmdSetTarget raw)
    then obtain target where m: "mergeLive now t ctx
        (emptyLivePatch\<lparr>lp_target := Some target\<rparr>) = (ctx', lv)"
      using assms(1) by (auto simp: liveSetTarget_def res_simps)
    then show ?thesis
      by (intro ok [OF m]) (simp add: emptyLivePatch_def)
  next
    case (CmdSetLocked raw)
    then obtain locked where m: "mergeLive now t ctx
        (emptyLivePatch\<lparr>lp_lockedScreens := Some locked\<rparr>) = (ctx', lv)"
      using assms(1) by (auto simp: liveSetLocked_def res_simps)
    then show ?thesis
      by (intro ok [OF m]) (simp add: emptyLivePatch_def)
  next
    case CmdNext
    then have m: "mergeLive now t ctx
        (emptyLivePatch\<lparr>lp_cursor := Some (IntNum (i + 1)), lp_enabled := Some True\<rparr>) = (ctx', lv)"
      using assms(1) unfolding CmdNext liveHandler.simps liveNext_def c num_IntNum by simp
    then show ?thesis
      by (intro ok [OF m]) (metis fieldOk_simps(2) num_isInteger_IntNum select_convs_cursor)
  next
    case CmdPrev
    then have m: "mergeLive now t ctx
        (emptyLivePatch\<lparr>lp_cursor := Some (IntNum (max (i + - 1) 0)), lp_enabled := Some True\<rparr>) = (ctx', lv)"
      using assms(1) unfolding CmdPrev liveHandler.simps livePrev_def c num_IntNum by simp
    then show ?thesis
      by (intro ok [OF m]) (metis fieldOk_simps(2) num_isInteger_IntNum select_convs_cursor)
  next
    case CmdToggle
    then have m: "mergeLive now t ctx
        (emptyLivePatch\<lparr>lp_enabled := Some (\<not> lv_enabled (liveState ctx))\<rparr>) = (ctx', lv)"
      using assms(1) by (simp add: liveToggle_def)
    then show ?thesis
      by (intro ok [OF m]) (simp add: emptyLivePatch_def)
  next
    case CmdToggleBlack
    then have m: "mergeLive now t ctx (emptyLivePatch\<lparr>lp_black := Some (\<not> lv_black (liveState ctx)),
        lp_enabled := Some True\<rparr>) = (ctx', lv)"
      using assms(1) by (simp add: liveToggleBlack_def)
    then show ?thesis
      by (intro ok [OF m]) (simp add: emptyLivePatch_def)
  next
    case CmdToggleWhite
    then have m: "mergeLive now t ctx (emptyLivePatch\<lparr>lp_white := Some (\<not> lv_white (liveState ctx)),
        lp_enabled := Some True\<rparr>) = (ctx', lv)"
      using assms(1) by (simp add: liveToggleWhite_def)
    then show ?thesis
      by (intro ok [OF m]) (simp add: emptyLivePatch_def)
  next
    case CmdResume
    then have m: "mergeLive now t ctx (emptyLivePatch\<lparr>lp_black := Some False, lp_white := Some False,
        lp_enabled := Some True\<rparr>) = (ctx', lv)"
      using assms(1) by (simp add: liveResume_def)
    then show ?thesis
      by (intro ok [OF m]) (simp add: emptyLivePatch_def)
  qed
qed

lemma runLive_cursor:
  "cursorOk (lv_cursor (liveState ctx)) \<Longrightarrow> cursorOk (lv_cursor (liveState (runLive cmds ctx)))"
proof (induction cmds arbitrary: ctx)
  case (Cons c cmds)
  obtain now t cmd where c: "c = (now, t, cmd)"
    by (cases c)
  with Cons show ?case
    by (auto simp: liveHandler_cursor split: sum.split)
qed simp

section \<open>Properties\<close>

text \<open>
  C31: After any sequence of live handlers, whatever payloads they are sent, the cursor is an
  integer that is not negative, and the screens are not black and white at once.
\<close>
theorem live_cursor_natural:
  "(\<exists>n. lv_cursor (liveState (runLive cmds (initialContext now t))) = IntNum (int n))
   \<and> \<not> (lv_black (liveState (runLive cmds (initialContext now t)))
         \<and> lv_white (liveState (runLive cmds (initialContext now t))))"
proof -
  have "liveOk (liveState ctx)" if "screensReachable (\<lambda>_ _. True) ctx" for ctx
    using that
    by induction (simp add: initialContext_liveOk, metis screenStep_liveOk)
  then have "liveOk (liveState (runLive cmds (initialContext now t)))"
    using runLive_reachable reach_start by blast
  moreover have "cursorOk (lv_cursor (liveState (runLive cmds (initialContext now t))))"
    by (rule runLive_cursor) (simp add: initialContext_def createDefaultLiveState_def cursorOk_def)
  ultimately show ?thesis
    unfolding cursorOk_iff liveOk_def by (metis nonneg_int_cases)
qed

text \<open>
  The remote command \<open>live:setCursor\<close> stores any number it is sent that is not negative,
  while the handler of the same name rejects exactly the numbers that are not integers: a
  web remote can put the cursor between two items.
\<close>
theorem remote_cursor_unchecked:
  "lv_cursor (snd (onLiveCommand now t ''live:setCursor'' (JNum n) ctx))
     = (if num_less n (IntNum 0) then IntNum 0 else n)
   \<and> ((\<exists>e. liveSetCursor now t (JNum n) ctx = Inl e) \<longleftrightarrow> \<not> num_isInteger n)"
proof
  show "lv_cursor (snd (onLiveCommand now t ''live:setCursor'' (JNum n) ctx))
     = (if num_less n (IntNum 0) then IntNum 0 else n)"
    by (simp add: onLiveCommand_def liveToCursor_def nextLive_def Let_def emptyLivePatch_def)
  show "(\<exists>e. liveSetCursor now t (JNum n) ctx = Inl e) \<longleftrightarrow> \<not> num_isInteger n"
    by (auto simp: liveSetCursor_def parseLiveCursor_def expectNumber_def invalid_def
        num_isInteger_finite)
qed

end
