(* ===== verification/Paths.thy ===== *)
theory Paths
  imports Prelude
begin

text \<open>
  The functions of Node's \<open>path\<close> module that the application uses, with \<open>/\<close> as the separator:
  \<open>normalize\<close>, \<open>join\<close>, \<open>resolve\<close>, \<open>basename\<close>, \<open>dirname\<close> and \<open>extname\<close>, and what they say of the
  segments of a path.
\<close>

abbreviation slash :: char where
  "slash \<equiv> CHR ''/''"

text \<open>The segments without \<open>.\<close> and \<open>..\<close>; \<open>up\<close> allows leading \<open>..\<close>, \<open>acc\<close> is what was read, reversed.\<close>

fun normSegs :: "bool \<Rightarrow> string list \<Rightarrow> string list \<Rightarrow> string list" where
  "normSegs up acc [] = rev acc"
| "normSegs up acc (s # ss) =
     (if s = [] \<or> s = ''.'' then normSegs up acc ss
      else if s \<noteq> ''..'' then normSegs up (s # acc) ss
      else if acc \<noteq> [] \<and> hd acc \<noteq> ''..'' then normSegs up (tl acc) ss
      else normSegs up (if up then s # acc else acc) ss)"

definition isAbsolute :: "string \<Rightarrow> bool" where
  "isAbsolute p \<longleftrightarrow> startsWith p [slash]"

definition normalizePath :: "string \<Rightarrow> string" where
  "normalizePath p =
     (if p = [] then ''.''
      else let body = join [slash] (normSegs (\<not> isAbsolute p) [] (split_on slash p));
               root = (if isAbsolute p then [slash] else []);
               trail = (if last p = slash then [slash] else [])
           in if body = [] then (if isAbsolute p then [slash] else ''.'' @ trail)
              else root @ body @ trail)"

definition joinPath :: "string \<Rightarrow> string \<Rightarrow> string" where
  "joinPath a b =
     (if a = [] then normalizePath b else if b = [] then normalizePath a
      else normalizePath (a @ [slash] @ b))"

text \<open>\<open>resolve\<close>, from the working directory \<open>cwd\<close>, and the segments of its result\<close>

definition pathSegs :: "string \<Rightarrow> string \<Rightarrow> string list" where
  "pathSegs cwd p =
     normSegs False [] (split_on slash (if isAbsolute p then p else cwd @ [slash] @ p))"

definition resolvePath :: "string \<Rightarrow> string \<Rightarrow> string" where
  "resolvePath cwd p = [slash] @ join [slash] (pathSegs cwd p)"

definition stripSlashes :: "string \<Rightarrow> string" where
  "stripSlashes p = rev (dropWhile (\<lambda>c. c = slash) (rev p))"

definition basename :: "string \<Rightarrow> string" where
  "basename p = rev (takeWhile (\<lambda>c. c \<noteq> slash) (rev (stripSlashes p)))"

definition dirname :: "string \<Rightarrow> string" where
  "dirname p =
     (if p = [] then ''.''
      else let q = stripSlashes p; stop = length q - length (basename p) - 1
           in if length q \<le> length (basename p) \<or> stop = 0
              then (if isAbsolute p then [slash] else ''.'')
              else if isAbsolute p \<and> stop = 1 then [slash, slash]
              else take stop q)"

definition extname :: "string \<Rightarrow> string" where
  "extname p =
     (let b = basename p; k = length b - length (takeWhile (\<lambda>c. c \<noteq> CHR ''.'') (rev b))
      in if k \<le> 1 \<or> b = ''..'' then [] else drop (k - 1) b)"

section \<open>Segments\<close>

definition segOk :: "string \<Rightarrow> bool" where
  "segOk s \<longleftrightarrow> s \<noteq> [] \<and> slash \<notin> set s \<and> s \<noteq> ''.'' \<and> s \<noteq> ''..''"

lemma split_on_both: "split_on sep (a @ sep # b) = split_on sep a @ split_on sep b"
  by (induction a) (auto split: list.splits)

lemma normSegs_ok:
  "\<forall>s \<in> set ss. slash \<notin> set s \<Longrightarrow> \<forall>s \<in> set acc. segOk s \<Longrightarrow> \<forall>s \<in> set (normSegs False acc ss). segOk s"
proof (induction ss arbitrary: acc)
  case (Cons s ss)
  have rest: "\<forall>x \<in> set ss. slash \<notin> set x"
    using Cons.prems(1) by simp
  have tl: "\<forall>x \<in> set (tl acc). segOk x"
    using Cons.prems(2) by (cases acc) auto
  consider "s = [] \<or> s = ''.''" | "s = ''..''" | "s \<noteq> []" "s \<noteq> ''.''" "s \<noteq> ''..''"
    by blast
  then show ?case
  proof cases
    case 1
    then show ?thesis
      using Cons.IH [OF rest Cons.prems(2)] by simp
  next
    case 2
    then show ?thesis
      using Cons.IH [OF rest Cons.prems(2)] Cons.IH [OF rest tl] by simp
  next
    case 3
    then have "\<forall>x \<in> set (s # acc). segOk x"
      using Cons.prems by (simp add: segOk_def)
    then have "\<forall>x \<in> set (normSegs False (s # acc) ss). segOk x"
      by (rule Cons.IH [OF rest])
    moreover have "normSegs False acc (s # ss) = normSegs False (s # acc) ss"
      using 3 by (simp only: normSegs.simps) simp
    ultimately show ?thesis by (simp only:)
  qed
qed simp

lemma pathSegs_ok: "s \<in> set (pathSegs cwd p) \<Longrightarrow> segOk s"
  using normSegs_ok [of "split_on slash (if isAbsolute p then p else cwd @ [slash] @ p)" "[]"]
    split_on_no_sep [of _ slash "if isAbsolute p then p else cwd @ [slash] @ p"]
  by (simp add: pathSegs_def)

lemma lower_char_slash [simp]: "lower_char c = slash \<longleftrightarrow> c = slash"
proof
  assume "lower_char c = slash"
  then have eq: "of_char (lower_char c) = (47 :: nat)" by simp
  show "c = slash"
  proof (cases "65 \<le> (of_char c :: nat) \<and> of_char c \<le> (90 :: nat)
      \<or> 192 \<le> (of_char c :: nat) \<and> of_char c \<le> (222 :: nat) \<and> of_char c \<noteq> (215 :: nat)")
    case True
    then have "of_char (lower_char c) = (of_char c + 32 :: nat) mod 256"
      by (simp add: lower_char_def)
    moreover have "(of_char c + 32 :: nat) < 256" "(of_char c + 32 :: nat) \<noteq> 47"
      using True by auto
    ultimately show ?thesis
      using eq by simp
  next
    case False
    then show ?thesis
      using \<open>lower_char c = slash\<close> by (auto simp: lower_char_def)
  qed
qed (simp add: lower_char_def)

lemma slash_lower [simp]: "slash = lower_char c \<longleftrightarrow> slash = c"
  using lower_char_slash [of c] by metis

lemma lower_slash [simp]: "lower_char slash = slash"
  by simp

lemma lower_join: "toLowerCase (join [slash] xs) = join [slash] (map toLowerCase xs)"
  by (induction "[slash]" xs rule: join.induct) (auto simp: toLowerCase_def)

lemma lower_slashless [simp]: "slash \<in> set (toLowerCase s) \<longleftrightarrow> slash \<in> set s"
  by (simp only: toLowerCase_def set_map image_iff slash_lower bex_simps) simp

end
