(* ===== verification/LibraryFiles.thy ===== *)
theory LibraryFiles
  imports Paths Profiles
begin

text \<open>
  The library of media files: \<open>main/ipc/fileUtils.ts\<close>, \<open>main/library.ts\<close> and the \<open>files:\<close>
  handlers of \<open>main/main.ts\<close>, over a disk of files and folders with resolved paths. A handler's
  \<open>{ ok: false, error }\<close> is \<open>Inl error\<close>. Symbolic links and access rights are left out.
\<close>

section \<open>Kinds of files\<close>

datatype cpLibraryFileKind = LK_PDF | LK_IMAGE | LK_VIDEO | LK_DOCUMENT | LK_FONT

definition IMAGE_EXTENSIONS :: "string list" where
  "IMAGE_EXTENSIONS = [''.png'', ''.jpg'', ''.jpeg'', ''.gif'', ''.webp'']"

definition PDF_EXTENSIONS :: "string list" where
  "PDF_EXTENSIONS = [''.pdf'']"

definition VIDEO_EXTENSIONS :: "string list" where
  "VIDEO_EXTENSIONS = [''.mp4'', ''.webm'', ''.mov'', ''.avi'', ''.mkv'']"

definition DOCUMENT_EXTENSIONS :: "string list" where
  "DOCUMENT_EXTENSIONS = [''.doc'', ''.docx'', ''.odt'', ''.rtf'', ''.txt'']"

definition FONT_EXTENSIONS :: "string list" where
  "FONT_EXTENSIONS = [''.ttf'', ''.otf'']"

definition MIME_BY_EXT :: "(string \<times> string) list" where
  "MIME_BY_EXT =
     [(''.pdf'', ''application/pdf''), (''.png'', ''image/png''), (''.jpg'', ''image/jpeg''),
      (''.jpeg'', ''image/jpeg''), (''.gif'', ''image/gif''), (''.webp'', ''image/webp''),
      (''.mp4'', ''video/mp4''), (''.webm'', ''video/webm''), (''.mov'', ''video/quicktime''),
      (''.avi'', ''video/x-msvideo''), (''.mkv'', ''video/x-matroska''),
      (''.doc'', ''application/msword''),
      (''.docx'', ''application/vnd.openxmlformats-officedocument.wordprocessingml.document''),
      (''.odt'', ''application/vnd.oasis.opendocument.text''), (''.rtf'', ''application/rtf''),
      (''.txt'', ''text/plain''), (''.ttf'', ''font/ttf''), (''.otf'', ''font/otf'')]"

abbreviation extOf :: "string \<Rightarrow> string" where
  "extOf p \<equiv> toLowerCase (extname p)"

definition inferMediaType :: "string \<Rightarrow> cpMediaType option" where
  "inferMediaType p =
     (if extOf p \<in> set PDF_EXTENSIONS then Some PDF
      else if extOf p \<in> set IMAGE_EXTENSIONS then Some IMAGE
      else if extOf p \<in> set VIDEO_EXTENSIONS then Some VIDEO
      else None)"

definition inferLibraryFileKind :: "string \<Rightarrow> cpLibraryFileKind option" where
  "inferLibraryFileKind p =
     (if extOf p \<in> set PDF_EXTENSIONS then Some LK_PDF
      else if extOf p \<in> set IMAGE_EXTENSIONS then Some LK_IMAGE
      else if extOf p \<in> set VIDEO_EXTENSIONS then Some LK_VIDEO
      else if extOf p \<in> set DOCUMENT_EXTENSIONS then Some LK_DOCUMENT
      else if extOf p \<in> set FONT_EXTENSIONS then Some LK_FONT
      else None)"

definition inferMimeType :: "string \<Rightarrow> string" where
  "inferMimeType p = orElse (map_of MIME_BY_EXT (extOf p)) ''application/octet-stream''"

definition isFontPath :: "string \<Rightarrow> bool" where
  "isFontPath p \<longleftrightarrow> extOf p \<in> set FONT_EXTENSIONS"

text \<open>\<open>filePath.split(/[\\/]/).pop()\<close> without the extension\<close>

definition inferFontFamilyFromPath :: "string \<Rightarrow> string" where
  "inferFontFamilyFromPath p =
     (let fileName = rev (takeWhile (\<lambda>c. c \<noteq> slash \<and> c \<noteq> CHR 0x5C) (rev p));
          name = trim (if endsWith (toLowerCase fileName) ''.ttf'' \<or> endsWith (toLowerCase fileName) ''.otf''
                       then take (length fileName - 4) fileName else fileName)
      in if name = [] then ''CustomFont'' else name)"

text \<open>The bytes of a file are the codes of its characters.\<close>

definition validateFontHeader :: "string \<Rightarrow> string option" where
  "validateFontHeader data =
     (if length data < 4 then Some ''Font file too short''
      else if take 4 data \<in> {[CHR 0x00, CHR 0x01, CHR 0x00, CHR 0x00], ''OTTO'', ''true'', ''typ1''}
      then None
      else Some ''Unsupported or corrupted font header'')"

text \<open>Compared in lower case, whatever the file system does\<close>

definition isPathInDir :: "string \<Rightarrow> string \<Rightarrow> string \<Rightarrow> bool" where
  "isPathInDir cwd baseDir candidatePath \<longleftrightarrow>
     startsWith (toLowerCase (resolvePath cwd candidatePath)) (toLowerCase (resolvePath cwd baseDir @ [slash]))"

section \<open>The disk\<close>

record disk =
  dk_files :: "(string \<times> string) list"
  dk_dirs :: "string list"

text \<open>The working directory, the folder of user data, and the system's message for a path\<close>

record filesEnv =
  ev_cwd :: string
  ev_userData :: string
  ev_osMsg :: "string \<Rightarrow> string"
  ev_clock :: int

abbreviation onDisk :: "filesEnv \<Rightarrow> string \<Rightarrow> string" where
  "onDisk ev p \<equiv> resolvePath (ev_cwd ev) p"

definition pathExists :: "filesEnv \<Rightarrow> disk \<Rightarrow> string \<Rightarrow> bool" where
  "pathExists ev d p \<longleftrightarrow> onDisk ev p \<in> fst ` set (dk_files d) \<union> set (dk_dirs d)"

definition readFileOf :: "filesEnv \<Rightarrow> disk \<Rightarrow> string \<Rightarrow> string result" where
  "readFileOf ev d p =
     (case map_of (dk_files d) (onDisk ev p) of None \<Rightarrow> Inl (ev_osMsg ev p) | Some c \<Rightarrow> Inr c)"

definition unlinkFile :: "filesEnv \<Rightarrow> string \<Rightarrow> disk \<Rightarrow> disk result" where
  "unlinkFile ev p d =
     (if onDisk ev p \<in> fst ` set (dk_files d)
      then Inr (d\<lparr>dk_files := filter (\<lambda>f. fst f \<noteq> onDisk ev p) (dk_files d)\<rparr>)
      else Inl (ev_osMsg ev p))"

text \<open>\<open>rename\<close> of a file, or of a folder with what is below it\<close>

definition movedPath :: "string \<Rightarrow> string \<Rightarrow> string \<Rightarrow> string" where
  "movedPath old new q =
     (if q = old then new
      else if startsWith q (old @ [slash]) then new @ drop (length old) q else q)"

definition renameFile :: "filesEnv \<Rightarrow> string \<Rightarrow> string \<Rightarrow> disk \<Rightarrow> disk" where
  "renameFile ev old new d =
     (let mv = movedPath (onDisk ev old) (onDisk ev new)
      in d\<lparr>dk_files := map (\<lambda>(q, c). (mv q, c)) (dk_files d), dk_dirs := map mv (dk_dirs d)\<rparr>)"

definition copyFileTo :: "filesEnv \<Rightarrow> string \<Rightarrow> string \<Rightarrow> disk \<Rightarrow> disk result" where
  "copyFileTo ev src target d =
     andThen (readFileOf ev d src) (\<lambda>c.
       if onDisk ev target \<in> set (dk_dirs d) then Inl (ev_osMsg ev target)
       else Inr (d\<lparr>dk_files := (onDisk ev target, c)
                    # filter (\<lambda>f. fst f \<noteq> onDisk ev target) (dk_files d)\<rparr>))"

text \<open>\<open>mkdir(p, { recursive: true })\<close>\<close>

definition ancestors :: "string \<Rightarrow> string \<Rightarrow> string list" where
  "ancestors cwd p =
     (let segs = pathSegs cwd p in map (\<lambda>k. [slash] @ join [slash] (take k segs)) [0..<Suc (length segs)])"

definition mkdirAll :: "filesEnv \<Rightarrow> string \<Rightarrow> disk \<Rightarrow> disk result" where
  "mkdirAll ev p d =
     (let as = ancestors (ev_cwd ev) p
      in if list_ex (\<lambda>a. a \<in> fst ` set (dk_files d)) as then Inl (ev_osMsg ev p)
         else Inr (d\<lparr>dk_dirs := filter (\<lambda>a. a \<notin> set (dk_dirs d)) as @ dk_dirs d\<rparr>))"

fun mkdirEach :: "filesEnv \<Rightarrow> string list \<Rightarrow> disk \<Rightarrow> string option \<times> disk" where
  "mkdirEach ev [] d = (None, d)"
| "mkdirEach ev (p # ps) d =
     (case mkdirAll ev p d of Inl e \<Rightarrow> (Some e, d) | Inr d' \<Rightarrow> mkdirEach ev ps d')"

section \<open>The folders of the library\<close>

record libraryDirs =
  ld_rootDir :: string
  ld_imagesDir :: string
  ld_documentsDir :: string
  ld_fontsDir :: string
  ld_videosDir :: string
  ld_songsJsonDir :: string

definition buildLibraryDirs :: "string \<Rightarrow> libraryDirs" where
  "buildLibraryDirs rootDir =
     \<lparr>ld_rootDir = rootDir, ld_imagesDir = joinPath rootDir ''images'',
      ld_documentsDir = joinPath rootDir ''documents'', ld_fontsDir = joinPath rootDir ''fonts'',
      ld_videosDir = joinPath rootDir ''videos'', ld_songsJsonDir = joinPath rootDir ''songs''\<rparr>"

definition ensureLibraryDirs :: "filesEnv \<Rightarrow> string \<Rightarrow> disk \<Rightarrow> libraryDirs result \<times> disk" where
  "ensureLibraryDirs ev rootDir d =
     (let dirs = buildLibraryDirs rootDir
      in case mkdirEach ev [ld_rootDir dirs, ld_imagesDir dirs, ld_documentsDir dirs, ld_fontsDir dirs,
                ld_videosDir dirs, ld_songsJsonDir dirs] d of
           (None, d') \<Rightarrow> (Inr dirs, d') | (Some e, d') \<Rightarrow> (Inl e, d'))"

definition getMediaDir :: "filesEnv \<Rightarrow> string" where
  "getMediaDir ev = joinPath (ev_userData ev) ''media''"

definition getActiveLibraryDirs ::
  "filesEnv \<Rightarrow> settingsStore \<Rightarrow> disk \<Rightarrow> libraryDirs result \<times> disk" where
  "getActiveLibraryDirs ev st =
     ensureLibraryDirs ev
       (orText (map_option trim (fc_libraryDir (readFilesConfig (ev_clock ev) st))) (getMediaDir ev))"

record folderDiagnostics =
  fd_path :: string
  fd_exists :: bool
  fd_fileCount :: nat
  fd_error :: "string option"

text \<open>\<open>readdir\<close>: the names in a folder\<close>

definition entriesOf :: "disk \<Rightarrow> string \<Rightarrow> string list" where
  "entriesOf d dir =
     map basename (filter (\<lambda>q. q \<noteq> dir \<and> dirname q = dir) (map fst (dk_files d) @ dk_dirs d))"

definition getFolderDiagnostics :: "filesEnv \<Rightarrow> disk \<Rightarrow> string \<Rightarrow> folderDiagnostics" where
  "getFolderDiagnostics ev d p =
     (if \<not> pathExists ev d p
      then \<lparr>fd_path = p, fd_exists = False, fd_fileCount = 0, fd_error = Some ''Folder not found''\<rparr>
      else if onDisk ev p \<in> set (dk_dirs d)
      then \<lparr>fd_path = p, fd_exists = True, fd_fileCount = length (entriesOf d (onDisk ev p)),
            fd_error = None\<rparr>
      else \<lparr>fd_path = p, fd_exists = True, fd_fileCount = 0, fd_error = Some (ev_osMsg ev p)\<rparr>)"

text \<open>The reason why a font file is not valid, or its family\<close>

definition validateFontFilePath :: "filesEnv \<Rightarrow> disk \<Rightarrow> string \<Rightarrow> string result" where
  "validateFontFilePath ev d p =
     (if \<not> isFontPath p then Inl ''Unsupported font extension''
      else if \<not> pathExists ev d p then Inl ''Font file not found''
      else andThen (readFileOf ev d p) (\<lambda>data.
        case validateFontHeader (take 4 data) of
          Some reason \<Rightarrow> Inl reason | None \<Rightarrow> Inr (inferFontFamilyFromPath p)))"

record mediaFile =
  mf_name :: string
  mf_path :: string
  mf_kind :: cpLibraryFileKind
  mf_folder :: string

definition listLibraryFilesInDir :: "filesEnv \<Rightarrow> disk \<Rightarrow> string \<Rightarrow> string \<Rightarrow> mediaFile list result" where
  "listLibraryFilesInDir ev d dirPath folder =
     (if \<not> pathExists ev d dirPath then Inr []
      else if onDisk ev dirPath \<notin> set (dk_dirs d) then Inl (ev_osMsg ev dirPath)
      else Inr (List.map_filter (\<lambda>name.
             if onDisk ev (joinPath dirPath name) \<notin> fst ` set (dk_files d) then None
             else map_option (\<lambda>kind. \<lparr>mf_name = name, mf_path = joinPath dirPath name, mf_kind = kind,
                    mf_folder = folder\<rparr>) (inferLibraryFileKind name))
             (entriesOf d (onDisk ev dirPath))))"

section \<open>Handlers\<close>

definition parseFilesDeleteMediaPayload :: "jsval \<Rightarrow> string result" where
  "parseFilesDeleteMediaPayload value =
     andThen (expectRecord value ''files:deleteMedia payload'') (\<lambda>rec.
       expectText (jget rec ''path'') ''files:deleteMedia.path'')"

definition parseFilesRenameMediaPayload :: "jsval \<Rightarrow> (string \<times> string) result" where
  "parseFilesRenameMediaPayload value =
     andThen (expectRecord value ''files:renameMedia payload'') (\<lambda>rec.
     andThen (expectText (jget rec ''path'') ''files:renameMedia.path'') (\<lambda>path.
     andThen (expectText (jget rec ''name'') ''files:renameMedia.name'') (\<lambda>name. Inr (path, name))))"

text \<open>The start that the handlers share: the payload, the folders, the check of the path\<close>

definition withMediaPath ::
  "filesEnv \<Rightarrow> settingsStore \<Rightarrow> ('p \<Rightarrow> string) \<Rightarrow> 'p result
     \<Rightarrow> ('p \<Rightarrow> libraryDirs \<Rightarrow> disk \<Rightarrow> 'a result \<times> disk) \<Rightarrow> disk \<Rightarrow> 'a result \<times> disk" where
  "withMediaPath ev st pathOf parsed body d =
     (case parsed of
        Inl e \<Rightarrow> (Inl e, d)
      | Inr p \<Rightarrow>
          if pathOf p = [] then (Inl ''Missing media path'', d)
          else (case getActiveLibraryDirs ev st d of
                  (Inl e, d) \<Rightarrow> (Inl e, d)
                | (Inr dirs, d) \<Rightarrow>
                    if \<not> isPathInDir (ev_cwd ev) (ld_rootDir dirs) (pathOf p)
                    then (Inl ''Path outside media directory'', d)
                    else body p dirs d))"

definition filesReadMedia ::
  "filesEnv \<Rightarrow> settingsStore \<Rightarrow> jsval \<Rightarrow> disk \<Rightarrow> (string \<times> string) result \<times> disk" where
  "filesReadMedia ev st raw =
     withMediaPath ev st (\<lambda>p. p) (parseFilesDeleteMediaPayload raw) (\<lambda>path dirs d.
       (if \<not> pathExists ev d path then Inl ''Media file not found''
        else andThen (readFileOf ev d path) (\<lambda>data. Inr (data, inferMimeType path)), d))"

definition filesExistsMedia :: "filesEnv \<Rightarrow> settingsStore \<Rightarrow> jsval \<Rightarrow> disk \<Rightarrow> bool result \<times> disk" where
  "filesExistsMedia ev st raw =
     withMediaPath ev st (\<lambda>p. p) (parseFilesDeleteMediaPayload raw) (\<lambda>path dirs d.
       (Inr (pathExists ev d path), d))"

definition filesValidateFont ::
  "filesEnv \<Rightarrow> settingsStore \<Rightarrow> jsval \<Rightarrow> disk \<Rightarrow> (string result) result \<times> disk" where
  "filesValidateFont ev st raw =
     withMediaPath ev st (\<lambda>p. p) (parseFilesDeleteMediaPayload raw) (\<lambda>path dirs d.
       (Inr (validateFontFilePath ev d path), d))"

text \<open>The name that a file gets, or \<open>""\<close> when the extension does not match\<close>

definition finalName :: "string \<Rightarrow> string \<Rightarrow> string" where
  "finalName path requestedName =
     (if extOf requestedName = [] then requestedName @ extOf path
      else if extOf requestedName = extOf path then requestedName else [])"

definition renameBody ::
  "filesEnv \<Rightarrow> string \<times> string \<Rightarrow> libraryDirs \<Rightarrow> disk \<Rightarrow> (string \<times> string) result \<times> disk" where
  "renameBody ev payload dirs d =
     (let path = fst payload; requestedName = trim (snd payload);
          name = finalName path requestedName; nextPath = joinPath (dirname path) name
      in if \<not> pathExists ev d path then (Inl ''Media file not found'', d)
         else if inferLibraryFileKind path = None then (Inl ''Unsupported file kind'', d)
         else if requestedName = [] then (Inl ''Missing destination name'', d)
         else if CHR 0x5C \<in> set requestedName \<or> slash \<in> set requestedName
         then (Inl ''Invalid destination name'', d)
         else if name = [] then (Inl ''Extension must match current file extension'', d)
         else if \<not> isPathInDir (ev_cwd ev) (ld_rootDir dirs) nextPath
         then (Inl ''Path outside media directory'', d)
         else if nextPath = path then (Inr (path, basename path), d)
         else if pathExists ev d nextPath then (Inl ''A file with this name already exists'', d)
         else (Inr (nextPath, basename nextPath), renameFile ev path nextPath d))"

definition filesRenameMedia ::
  "filesEnv \<Rightarrow> settingsStore \<Rightarrow> jsval \<Rightarrow> disk \<Rightarrow> (string \<times> string) result \<times> disk" where
  "filesRenameMedia ev st raw =
     withMediaPath ev st fst (parseFilesRenameMediaPayload raw) (renameBody ev)"

definition filesDeleteMedia :: "filesEnv \<Rightarrow> settingsStore \<Rightarrow> jsval \<Rightarrow> disk \<Rightarrow> unit result \<times> disk" where
  "filesDeleteMedia ev st raw =
     withMediaPath ev st (\<lambda>p. p) (parseFilesDeleteMediaPayload raw) (\<lambda>path dirs d.
       if pathExists ev d path
       then (case unlinkFile ev path d of Inl e \<Rightarrow> (Inl e, d) | Inr d' \<Rightarrow> (Inr (), d'))
       else (Inr (), d))"

text \<open>Files picked in a dialog; \<open>None\<close> is a cancelled dialog, in the argument and in the answer.\<close>

definition filesPickMedia ::
  "filesEnv \<Rightarrow> settingsStore \<Rightarrow> string option \<Rightarrow> disk
     \<Rightarrow> (string \<times> cpMediaType) option result \<times> disk" where
  "filesPickMedia ev st chosen d =
     (case chosen of
        None \<Rightarrow> (Inr None, d)
      | Some p \<Rightarrow>
          (case inferMediaType p of
             None \<Rightarrow> (Inl ''Unsupported media extension'', d)
           | Some mediaType \<Rightarrow>
               (case getActiveLibraryDirs ev st d of
                  (Inl e, d) \<Rightarrow> (Inl e, d)
                | (Inr dirs, d) \<Rightarrow>
                    (let target = joinPath (case mediaType of IMAGE \<Rightarrow> ld_imagesDir dirs
                           | PDF \<Rightarrow> ld_documentsDir dirs | VIDEO \<Rightarrow> ld_videosDir dirs) (basename p)
                     in case copyFileTo ev p target d of
                          Inl e \<Rightarrow> (Inl ([CHR 0xC9] @ ''chec de la copie du fichier m'' @ [CHR 0xE9] @ ''dia''), d)
                        | Inr d' \<Rightarrow> (Inr (Some (target, mediaType)), d')))))"

definition filesPickFont ::
  "filesEnv \<Rightarrow> settingsStore \<Rightarrow> string option \<Rightarrow> disk \<Rightarrow> string option result \<times> disk" where
  "filesPickFont ev st chosen d =
     (case chosen of
        None \<Rightarrow> (Inr None, d)
      | Some p \<Rightarrow>
          if inferLibraryFileKind p \<noteq> Some LK_FONT then (Inl ''Unsupported font extension'', d)
          else (case validateFontFilePath ev d p of
                  Inl reason \<Rightarrow> (Inl (if reason = [] then ''Invalid font file'' else reason), d)
                | Inr _ \<Rightarrow>
                    (case getActiveLibraryDirs ev st d of
                       (Inl e, d) \<Rightarrow> (Inl e, d)
                     | (Inr dirs, d) \<Rightarrow>
                         (let target = joinPath (ld_fontsDir dirs) (basename p)
                          in case copyFileTo ev p target d of
                               Inl e \<Rightarrow> (Inl ''Echec de la copie de la police'', d)
                             | Inr d' \<Rightarrow> (Inr (Some target), d')))))"

text \<open>A list of files by path, the later entry of a path in the place of the first, then sorted\<close>

fun putFile :: "mediaFile \<Rightarrow> mediaFile list \<Rightarrow> mediaFile list" where
  "putFile f [] = [f]"
| "putFile f (g # gs) = (if mf_path g = mf_path f then f # gs else g # putFile f gs)"

fun insertBy :: "('a \<Rightarrow> 'a \<Rightarrow> int) \<Rightarrow> 'a \<Rightarrow> 'a list \<Rightarrow> 'a list" where
  "insertBy cmp x [] = [x]"
| "insertBy cmp x (y # ys) = (if cmp x y \<le> 0 then x # y # ys else y # insertBy cmp x ys)"

definition sortBy :: "('a \<Rightarrow> 'a \<Rightarrow> int) \<Rightarrow> 'a list \<Rightarrow> 'a list" where
  "sortBy cmp xs = foldr (insertBy cmp) xs []"

definition filesListMedia ::
  "filesEnv \<Rightarrow> settingsStore \<Rightarrow> (string \<Rightarrow> string \<Rightarrow> int) \<Rightarrow> disk
     \<Rightarrow> (string \<times> mediaFile list) result \<times> disk" where
  "filesListMedia ev st localeCompare d =
     (case getActiveLibraryDirs ev st d of
        (Inl e, d) \<Rightarrow> (Inl e, d)
      | (Inr dirs, d) \<Rightarrow>
          (andThen (listLibraryFilesInDir ev d (ld_imagesDir dirs) ''images'') (\<lambda>imgs.
           andThen (listLibraryFilesInDir ev d (ld_documentsDir dirs) ''documents'') (\<lambda>docs.
           andThen (listLibraryFilesInDir ev d (ld_fontsDir dirs) ''fonts'') (\<lambda>fonts.
           andThen (listLibraryFilesInDir ev d (ld_videosDir dirs) ''videos'') (\<lambda>videos.
           andThen (listLibraryFilesInDir ev d (ld_rootDir dirs) ''root'') (\<lambda>roots.
             Inr (ld_rootDir dirs, sortBy (\<lambda>a b. localeCompare (mf_name a) (mf_name b))
               (fold putFile (imgs @ docs @ fonts @ videos @ roots) [])))))))
           , d))"

definition filesGetLibraryDir :: "filesEnv \<Rightarrow> settingsStore \<Rightarrow> disk \<Rightarrow> string result \<times> disk" where
  "filesGetLibraryDir ev st d =
     (case getActiveLibraryDirs ev st d of
        (Inl e, d) \<Rightarrow> (Inl e, d) | (Inr dirs, d) \<Rightarrow> (Inr (ld_rootDir dirs), d))"

definition filesChooseLibraryDir ::
  "filesEnv \<Rightarrow> string \<Rightarrow> string option \<Rightarrow> appState \<times> disk \<Rightarrow> string option result \<times> appState \<times> disk" where
  "filesChooseLibraryDir ev uuid chosen s =
     (case s of (app, d) \<Rightarrow>
        (case chosen of
           None \<Rightarrow> (Inr None, app, d)
         | Some p \<Rightarrow>
             (case ensureLibraryDirs ev p d of
                (Inl e, d) \<Rightarrow> (Inl e, app, d)
              | (Inr _, d) \<Rightarrow>
                  (Inr (Some p),
                   syncActiveProfileFromRuntime (ev_clock ev) uuid
                     (app\<lparr>rt_store := writeFilesConfig (ev_clock ev) \<lparr>fc_libraryDir = Some p\<rparr> (rt_store app)\<rparr>),
                   d))))"

section \<open>Inside a folder\<close>

text \<open>The segments of a path extend those of a folder, compared in lower case.\<close>

definition insideDir :: "string \<Rightarrow> string \<Rightarrow> string \<Rightarrow> bool" where
  "insideDir cwd dir p \<longleftrightarrow> (\<exists>rest. rest \<noteq> []
     \<and> map toLowerCase (pathSegs cwd p) = map toLowerCase (pathSegs cwd dir) @ rest)"

lemma lower_segs_ok: "s \<in> set (map toLowerCase (pathSegs cwd p)) \<Longrightarrow> s \<noteq> [] \<and> slash \<notin> set s"
  using pathSegs_ok [of _ cwd p] by (auto simp: segOk_def toLowerCase_def)

lemma inside_segs:
  assumes "isPathInDir cwd dir p"
  shows "insideDir cwd dir p"
proof -
  let ?xs = "map toLowerCase (pathSegs cwd p)" and ?ys = "map toLowerCase (pathSegs cwd dir)"
  obtain t where "toLowerCase (resolvePath cwd p) = toLowerCase (resolvePath cwd dir @ [slash]) @ t"
    using assms by (auto simp: isPathInDir_def startsWith_iff)
  then have eq: "join [slash] ?xs = join [slash] ?ys @ slash # t"
    by (simp add: resolvePath_def toLowerCase_def) (simp flip: toLowerCase_def add: lower_join)
  then have "?xs \<noteq> []" by auto
  then have xs: "?xs = split_on slash (join [slash] ?ys) @ split_on slash t"
    using split_on_join [of ?xs slash] lower_segs_ok [of _ cwd p] eq split_on_both [of slash "join [slash] ?ys" t]
    by metis
  show ?thesis
  proof (cases "?ys = []")
    case True
    then have "[] \<in> set ?xs"
      unfolding xs by simp
    then show ?thesis
      using lower_segs_ok by blast
  next
    case False
    then have "split_on slash (join [slash] ?ys) = ?ys"
      using lower_segs_ok [of _ cwd dir] by (intro split_on_join) auto
    with xs show ?thesis
      unfolding insideDir_def by (intro exI [of _ "split_on slash t"]) simp
  qed
qed

section \<open>Names and extensions\<close>

lemma normSegs_snoc:
  "b \<noteq> [] \<Longrightarrow> b \<noteq> ''.'' \<Longrightarrow> b \<noteq> ''..'' \<Longrightarrow> normSegs up acc (xs @ [b]) = normSegs up acc xs @ [b]"
  by (induction up acc xs rule: normSegs.induct) simp_all

lemma join_snoc: "\<exists>u. join [slash] (xs @ [b]) = u @ b \<and> (u = [] \<or> last u = slash)"
proof (induction xs)
  case (Cons x xs)
  then obtain u where u: "join [slash] (xs @ [b]) = u @ b" "u = [] \<or> last u = slash"
    by blast
  have "join [slash] ((x # xs) @ [b]) = x @ slash # join [slash] (xs @ [b])"
    by (cases xs) simp_all
  with u show ?case
    by (intro exI [of _ "x @ slash # u"]) auto
qed simp

lemma basename_tail:
  assumes "b \<noteq> []" and "slash \<notin> set b" and "u = [] \<or> last u = slash"
  shows "basename (u @ b) = b"
proof -
  have strip: "stripSlashes (u @ b) = u @ b"
    using assms(1,2) by (cases b rule: rev_cases) (auto simp: stripSlashes_def)
  have all: "takeWhile (\<lambda>c. c \<noteq> slash) (rev b @ rev u) = rev b @ takeWhile (\<lambda>c. c \<noteq> slash) (rev u)"
    using assms(2) by (intro takeWhile_append2) auto
  have "takeWhile (\<lambda>c. c \<noteq> slash) (rev u) = []"
    using assms(3) by (cases u rule: rev_cases) auto
  then show ?thesis
    by (simp add: basename_def strip all)
qed

lemma basename_joinPath:
  assumes "b \<noteq> []" and "slash \<notin> set b" and "b \<noteq> ''.''" and "b \<noteq> ''..''"
  shows "basename (joinPath dir b) = b"
proof -
  have norm: "basename (normalizePath q) = b"
    if q: "split_on slash q = xs @ [b]" and last: "q \<noteq> []" "last q \<noteq> slash" for q xs
  proof -
    let ?body = "join [slash] (normSegs (\<not> isAbsolute q) [] (split_on slash q))"
    obtain u where u: "?body = u @ b" "u = [] \<or> last u = slash"
      using join_snoc [of "normSegs (\<not> isAbsolute q) [] xs" b] normSegs_snoc [OF assms(1,3,4)]
      unfolding q by metis
    then have "normalizePath q = (if isAbsolute q then slash # u else u) @ b"
      using last assms(1) by (simp add: normalizePath_def Let_def)
    then show ?thesis
      using basename_tail [OF assms(1,2), of u] basename_tail [OF assms(1,2), of "slash # u"] u(2)
      by (cases u) auto
  qed
  have last: "last b \<noteq> slash"
    using assms(1,2) last_in_set by metis
  have alone: "split_on slash b = [] @ [b]"
    using assms(2) by (simp add: split_on_single)
  have both: "split_on slash (dir @ slash # b) = split_on slash dir @ [b]"
    using assms(2) by (simp add: split_on_both split_on_single)
  show ?thesis
    using norm [OF alone] norm [OF both] assms(1) last by (simp add: joinPath_def)
qed

lemma extname_appended:
  assumes "r \<noteq> []" and "slash \<notin> set r" and "w \<noteq> []" and "slash \<notin> set w" and "CHR ''.'' \<notin> set w"
  shows "extname (r @ CHR ''.'' # w) = CHR ''.'' # w"
proof -
  have "basename ([] @ r @ CHR ''.'' # w) = r @ CHR ''.'' # w"
    using assms by (intro basename_tail) auto
  moreover have "takeWhile (\<lambda>c. c \<noteq> CHR ''.'') (rev w @ CHR ''.'' # rev r)
      = rev w @ takeWhile (\<lambda>c. c \<noteq> CHR ''.'') (CHR ''.'' # rev r)"
    using assms(5) by (intro takeWhile_append2) auto
  moreover have "r @ CHR ''.'' # w \<noteq> ''..''"
    using assms(1,3,5) by (cases r) (auto simp: append_eq_Cons_conv)
  ultimately show ?thesis
    using assms(1) by (simp add: extname_def Let_def)
qed

abbreviation knownExtensions :: "string list" where
  "knownExtensions \<equiv> PDF_EXTENSIONS @ IMAGE_EXTENSIONS @ VIDEO_EXTENSIONS @ DOCUMENT_EXTENSIONS @ FONT_EXTENSIONS"

lemma known_shape:
  assumes "e \<in> set knownExtensions"
  obtains w where "e = CHR ''.'' # w" "w \<noteq> []" "slash \<notin> set w" "CHR ''.'' \<notin> set w" "toLowerCase e = e"
proof -
  have "list_all (\<lambda>e. e \<noteq> [] \<and> hd e = CHR ''.'' \<and> tl e \<noteq> [] \<and> slash \<notin> set (tl e) \<and> CHR ''.'' \<notin> set (tl e)
      \<and> toLowerCase e = e) knownExtensions"
    by code_simp
  then have "e \<noteq> [] \<and> hd e = CHR ''.'' \<and> tl e \<noteq> [] \<and> slash \<notin> set (tl e) \<and> CHR ''.'' \<notin> set (tl e)
      \<and> toLowerCase e = e"
    using assms unfolding list_all_iff by blast
  then show ?thesis
    using that [of "tl e"] by (cases e) auto
qed

lemma kind_known: "inferLibraryFileKind p \<noteq> None \<Longrightarrow> extOf p \<in> set knownExtensions"
  by (auto simp: inferLibraryFileKind_def split: if_splits)

text \<open>A renamed file keeps its extension, in lower case.\<close>

lemma finalName_ext:
  assumes "inferLibraryFileKind path \<noteq> None" and "requested \<noteq> []" and "slash \<notin> set requested"
    and "finalName path requested \<noteq> []"
  shows "extOf (joinPath dir (finalName path requested)) = extOf path
    \<and> basename (joinPath dir (finalName path requested)) = finalName path requested"
proof -
  obtain w where w: "extOf path = CHR ''.'' # w" "w \<noteq> []" "slash \<notin> set w" "CHR ''.'' \<notin> set w"
      "toLowerCase (extOf path) = extOf path"
    using known_shape [OF kind_known [OF assms(1)]] by metis
  let ?b = "finalName path requested"
  have b: "slash \<notin> set ?b \<and> extOf ?b = extOf path"
  proof (cases "extOf requested = []")
    case True
    then have "?b = requested @ CHR ''.'' # w"
      using w(1) by (simp add: finalName_def)
    then show ?thesis
      using extname_appended [OF assms(2,3) w(2,3,4)] assms(3) w by simp
  next
    case False
    then have "?b = requested" "extOf requested = extOf path"
      using assms(4) by (auto simp: finalName_def split: if_splits)
    then show ?thesis
      using assms(3) by simp
  qed
  have "extOf ?b \<noteq> []"
    using b w(1) by simp
  moreover have "extOf ''.'' = []" "extOf ''..'' = []"
    by code_simp+
  ultimately have "?b \<noteq> ''.''" "?b \<noteq> ''..''"
    by metis+
  then have base: "basename (joinPath dir ?b) = ?b"
    using assms(4) b by (intro basename_joinPath) simp_all
  have "basename ?b = ?b"
    using basename_tail [of ?b "[]"] assms(4) b by simp
  then show ?thesis
    using b base by (simp add: extname_def)
qed

section \<open>Properties\<close>

lemma map_of_moved:
  fixes fs :: "(string \<times> string) list"
  assumes "distinct (map fst fs)" and "o' \<in> fst ` set fs" and "n \<notin> fst ` set fs"
    and "\<forall>q \<in> fst ` set fs. \<not> startsWith q (o' @ [slash])"
  shows "map_of (map (\<lambda>(q, c). (movedPath o' n q, c)) fs)
    = (map_of fs)(o' := None, n := map_of fs o')"
proof -
  have mv: "movedPath o' n q = (if q = o' then n else q)" if "q \<in> fst ` set fs" for q
    using bspec [OF assms(4) that] by (simp add: movedPath_def)
  have "map (\<lambda>(q, c). (movedPath o' n q, c)) fs = map (\<lambda>(q, c). (if q = o' then n else q, c)) fs"
  proof (intro map_cong refl)
    fix f
    assume "f \<in> set fs"
    then have "fst f \<in> fst ` set fs" by (rule imageI)
    with mv [of "fst f"] show "(case f of (q, c) \<Rightarrow> (movedPath o' n q, c))
        = (case f of (q, c) \<Rightarrow> (if q = o' then n else q, c))"
      by (cases f) auto
  qed
  moreover have "map_of (map (\<lambda>(q, c). (if q = o' then n else q, c)) fs)
      = (map_of fs)(o' := None, n := map_of fs o')"
    if "distinct (map fst fs)" "n \<notin> fst ` set fs" for fs :: "(string \<times> string) list"
    using that
  proof (induction fs)
    case (Cons f fs)
    obtain q c where f: "f = (q, c)" by (cases f)
    have "map_of fs n = None"
      using Cons.prems(2) by (simp add: map_of_eq_None_iff)
    moreover have "q = o' \<Longrightarrow> map_of fs o' = None"
      using Cons.prems(1) f by (simp add: map_of_eq_None_iff)
    ultimately show ?case
      using Cons f by (auto simp: fun_eq_iff)
  qed (auto simp: fun_eq_iff)
  ultimately show ?thesis
    using assms(1,3) by (simp only:)
qed

text \<open>
  A file that a rename moves stays inside the library and keeps its extension; its content is
  found under the new path and no longer under the old one, no file that existed is overwritten,
  and every other file is as before.
\<close>
theorem renamed_file_moves:
  assumes "parseFilesRenameMediaPayload raw = Inr (path, name)"
    and "getActiveLibraryDirs ev st d = (Inr dirs, d1)"
    and "filesRenameMedia ev st raw d = (Inr (newPath, newName), d2)"
    and "distinct (map fst (dk_files d1))"
    and "map_of (dk_files d1) (resolvePath (ev_cwd ev) path) = Some c"
    and "\<forall>q \<in> fst ` set (dk_files d1). \<not> startsWith q (resolvePath (ev_cwd ev) path @ ''/'')"
  shows "insideDir (ev_cwd ev) (ld_rootDir dirs) path \<and> insideDir (ev_cwd ev) (ld_rootDir dirs) newPath
    \<and> toLowerCase (extname newPath) = toLowerCase (extname path)
    \<and> map_of (dk_files d2) = (map_of (dk_files d1))
        (resolvePath (ev_cwd ev) path := None, resolvePath (ev_cwd ev) newPath \<mapsto> c)
    \<and> (newPath = path \<or> map_of (dk_files d1) (resolvePath (ev_cwd ev) newPath) = None)"
proof -
  have body: "renameBody ev (path, name) dirs d1 = (Inr (newPath, newName), d2)"
    and inside: "isPathInDir (ev_cwd ev) (ld_rootDir dirs) path"
    using assms(1-3) by (auto simp: filesRenameMedia_def withMediaPath_def split: if_splits)
  let ?name = "finalName path (trim name)" and ?next = "joinPath (dirname path) (finalName path (trim name))"
  have guards: "inferLibraryFileKind path \<noteq> None" "trim name \<noteq> []" "slash \<notin> set (trim name)" "?name \<noteq> []"
      "isPathInDir (ev_cwd ev) (ld_rootDir dirs) ?next"
    using body by (auto simp: renameBody_def Let_def split: if_splits)
  have ext: "extOf ?next = extOf path"
    using finalName_ext [OF guards(1-4), of "dirname path"] by blast
  show ?thesis
  proof (cases "?next = path")
    case True
    then have "newPath = path" "d2 = d1"
      using body by (auto simp: renameBody_def Let_def split: if_splits)
    then show ?thesis
      using inside_segs [OF inside] assms(5) by auto
  next
    case False
    then have new: "newPath = ?next" "d2 = renameFile ev path ?next d1" "\<not> pathExists ev d1 ?next"
      using body by (auto simp: renameBody_def Let_def split: if_splits)
    have old: "onDisk ev path \<in> fst ` set (dk_files d1)"
      using assms(5) by (auto dest: map_of_SomeD simp: image_iff) (metis fst_conv map_of_SomeD)
    have free: "onDisk ev ?next \<notin> fst ` set (dk_files d1)"
      using new(3) by (auto simp: pathExists_def)
    have "map_of (dk_files d2) = (map_of (dk_files d1))
        (onDisk ev path := None, onDisk ev ?next := map_of (dk_files d1) (onDisk ev path))"
      using map_of_moved [OF assms(4) old free] assms(6) by (simp add: new(2) renameFile_def Let_def)
    then show ?thesis
      using inside_segs [OF inside] inside_segs [OF guards(5)] ext free assms(5)
      by (simp add: new(1) map_of_eq_None_iff)
  qed
qed

definition sampleEnv :: filesEnv where
  "sampleEnv = \<lparr>ev_cwd = ''/'', ev_userData = ''/u'', ev_osMsg = (\<lambda>_. []), ev_clock = 0\<rparr>"

definition noSettings :: settingsStore where
  "noSettings = \<lparr>st_settings = None, st_legacyFiles = None, st_legacyProjection = None\<rparr>"

definition sampleDisk :: disk where
  "sampleDisk = \<lparr>dk_files = [(''/u/media/images/a.png'', ''x''), (''/u/app.db'', ''db'')], dk_dirs = [''/'', ''/u'']\<rparr>"

definition renameSample :: jsval where
  "renameSample = JObj [(''path'', JStr ''/u/media/images/a.png''), (''name'', JStr ''b'')]"

lemma sample_dirs:
  "getActiveLibraryDirs sampleEnv noSettings sampleDisk
     = (Inr (buildLibraryDirs ''/u/media''), snd (getActiveLibraryDirs sampleEnv noSettings sampleDisk))"
  "dk_files (snd (getActiveLibraryDirs sampleEnv noSettings sampleDisk)) = dk_files sampleDisk"
  by code_simp+

lemma renamed_file_moves_witness:
  "map_of (dk_files (snd (filesRenameMedia sampleEnv noSettings renameSample sampleDisk)))
     = (map_of (dk_files sampleDisk))(''/u/media/images/a.png'' := None, ''/u/media/images/b.png'' \<mapsto> ''x'')"
proof -
  have parse: "parseFilesRenameMediaPayload renameSample = Inr (''/u/media/images/a.png'', ''b'')"
    by code_simp
  have result: "filesRenameMedia sampleEnv noSettings renameSample sampleDisk
      = (Inr (''/u/media/images/b.png'', ''b.png''), snd (filesRenameMedia sampleEnv noSettings renameSample sampleDisk))"
    by code_simp
  have paths: "resolvePath (ev_cwd sampleEnv) ''/u/media/images/a.png'' = ''/u/media/images/a.png''"
    "resolvePath (ev_cwd sampleEnv) ''/u/media/images/b.png'' = ''/u/media/images/b.png''"
    by code_simp+
  have files: "distinct (map fst (dk_files sampleDisk))"
    "map_of (dk_files sampleDisk) ''/u/media/images/a.png'' = Some ''x''"
    "\<forall>q \<in> fst ` set (dk_files sampleDisk). \<not> startsWith q (''/u/media/images/a.png'' @ ''/'')"
    by (simp_all add: sampleDisk_def)
  from renamed_file_moves [OF parse sample_dirs(1) result, unfolded sample_dirs(2) paths, OF files]
  show ?thesis by blast
qed

text \<open>
  C14: Reading and deleting media are confined to the library: the segments of the path, resolved and
  compared in lower case, must go below those of the root folder. For a path that does not, both
  requests answer an error, nothing is read and no file changes. A reading changes no file, and what
  it gives is the file of the payload; a deletion changes no file but that of the payload, and after
  it that file is gone, or it is kept and the answer is an error or there was none.
\<close>
theorem media_access_confined:
  assumes "parseFilesDeleteMediaPayload raw = Inr path"
    and "getActiveLibraryDirs ev st d = (Inr dirs, d1)"
    and "filesReadMedia ev st raw d = (r, d2)"
    and "filesDeleteMedia ev st raw d = (res, d3)"
  shows "(\<not> insideDir (ev_cwd ev) (ld_rootDir dirs) path \<longrightarrow>
        r = Inl ''Path outside media directory'' \<and> res = Inl ''Path outside media directory'' \<and> d3 = d1)
    \<and> d2 = d1 \<and> (\<forall>data mime. r = Inr (data, mime) \<longrightarrow> map_of (dk_files d1) (resolvePath (ev_cwd ev) path) = Some data)
    \<and> (\<forall>q. q \<noteq> resolvePath (ev_cwd ev) path \<longrightarrow> map_of (dk_files d3) q = map_of (dk_files d1) q)
    \<and> (res = Inr () \<longrightarrow> map_of (dk_files d3) (resolvePath (ev_cwd ev) path) = None)
    \<and> ((\<exists>x. r = Inr x) \<longrightarrow> res = Inr ())"
proof -
  obtain rec where "expectText (jget rec ''path'') ''files:deleteMedia.path'' = Inr path"
    using assms(1) by (auto simp: parseFilesDeleteMediaPayload_def andThen_Inr_iff)
  then have path: "path \<noteq> []"
    by (cases "jget rec ''path''") (auto simp: expectString_def invalid_def Let_def split: if_splits)
  show ?thesis
  proof (cases "isPathInDir (ev_cwd ev) (ld_rootDir dirs) path")
    case False
    then have "r = Inl ''Path outside media directory'' \<and> d2 = d1" "res = Inl ''Path outside media directory'' \<and> d3 = d1"
      using assms path by (auto simp: filesReadMedia_def filesDeleteMedia_def withMediaPath_def)
    then show ?thesis by simp
  next
    case True
    have read: "d2 = d1" "r = (if \<not> pathExists ev d1 path then Inl ''Media file not found''
        else andThen (readFileOf ev d1 path) (\<lambda>data. Inr (data, inferMimeType path)))"
      using assms(1-3) path True by (auto simp: filesReadMedia_def withMediaPath_def)
    have delete: "(res, d3) = (if pathExists ev d1 path
        then (case unlinkFile ev path d1 of Inl e \<Rightarrow> (Inl e, d1) | Inr d' \<Rightarrow> (Inr (), d')) else (Inr (), d1))"
      using assms(1,2,4) path True by (simp add: filesDeleteMedia_def withMediaPath_def)
    have gone: "map_of (filter (\<lambda>f. fst f \<noteq> k) fs) = (map_of fs)(k := None)" for k and fs :: "(string \<times> string) list"
      by (induction fs) (auto simp: fun_eq_iff)
    have known: "map_of (dk_files d1) (onDisk ev path) = None \<longleftrightarrow> onDisk ev path \<notin> fst ` set (dk_files d1)"
      by (rule map_of_eq_None_iff)
    have "(\<forall>data mime. r = Inr (data, mime) \<longrightarrow> map_of (dk_files d1) (onDisk ev path) = Some data)
        \<and> ((\<exists>x. r = Inr x) \<longrightarrow> onDisk ev path \<in> fst ` set (dk_files d1))"
      using known by (auto simp: read(2) readFileOf_def andThen_Inr_iff split: if_splits option.splits)
    moreover have "(\<forall>q. q \<noteq> onDisk ev path \<longrightarrow> map_of (dk_files d3) q = map_of (dk_files d1) q)
        \<and> (res = Inr () \<longrightarrow> map_of (dk_files d3) (onDisk ev path) = None)
        \<and> (onDisk ev path \<in> fst ` set (dk_files d1) \<longrightarrow> res = Inr ())"
      using delete known by (auto simp: unlinkFile_def pathExists_def gone split: if_splits)
    ultimately show ?thesis
      using inside_segs [OF True] read(1) by blast
  qed
qed

definition pathSample :: jsval where
  "pathSample = JObj [(''path'', JStr ''/u/media/images/../images/a.png'')]"

lemma media_access_confined_witness:
  "map_of (dk_files (snd (filesDeleteMedia sampleEnv noSettings pathSample sampleDisk))) ''/u/media/images/a.png'' = None
     \<and> map_of (dk_files (snd (filesDeleteMedia sampleEnv noSettings pathSample sampleDisk))) ''/u/app.db'' = Some ''db''"
proof -
  have parse: "parseFilesDeleteMediaPayload pathSample = Inr ''/u/media/images/../images/a.png''"
    by code_simp
  have read: "filesReadMedia sampleEnv noSettings pathSample sampleDisk
      = (Inr (''x'', ''image/png''), snd (filesReadMedia sampleEnv noSettings pathSample sampleDisk))"
    by code_simp
  have path: "resolvePath (ev_cwd sampleEnv) ''/u/media/images/../images/a.png'' = ''/u/media/images/a.png''"
    by code_simp
  have "map_of (dk_files sampleDisk) ''/u/app.db'' = Some ''db''"
    by (simp add: sampleDisk_def)
  then show ?thesis
    using media_access_confined [OF parse sample_dirs(1) read surjective_pairing, unfolded sample_dirs(2) path] by simp
qed

text \<open>A path that leaves the library is refused, in another case too.\<close>

lemma outside_refused:
  "fst (filesReadMedia sampleEnv noSettings (JObj [(''path'', JStr ''/u/media/../app.db'')]) sampleDisk)
     = Inl ''Path outside media directory''"
  by code_simp

text \<open>
  On a file system that tells cases apart, a folder whose name differs in case only counts as the
  library.
\<close>
lemma other_case_accepted:
  "isPathInDir ''/'' ''/u/media'' ''/u/MEDIA/a.png''"
  "pathSegs ''/'' ''/u/MEDIA/a.png'' \<noteq> pathSegs ''/'' ''/u/media'' @ [''a.png'']"
  by code_simp+

text \<open>A picked file replaces one of the same name in the library, without a question.\<close>

lemma pick_overwrites:
  "map_of (dk_files (snd (filesPickMedia sampleEnv noSettings (Some ''/home/a.png'')
      (sampleDisk\<lparr>dk_files := (''/home/a.png'', ''new'') # dk_files sampleDisk\<rparr>)))) ''/u/media/images/a.png''
     = Some ''new''"
  by code_simp

end
