(* ===== verification/SongFiles.thy ===== *)
theory SongFiles
  imports SongHandlers Paths
begin

text \<open>
  The handlers that import songs from files (\<open>main/ipc/songs-import.ts\<close>) and export them as Word
  documents (\<open>main/ipc/songs-export.ts\<close>). Reading a file and its formats are third-party code and
  stand in a record of parameters. \<open>None\<close> as the outermost option is a handler that does not
  return; the lemmas show that there is none.
\<close>

section \<open>Files and reports\<close>

text \<open>
  \<open>sf_readFile\<close> gives the bytes of a file or the message of an error, \<open>sf_docxText\<close> what mammoth
  extracts of them, \<open>sf_contentXml\<close> the entry \<open>content.xml\<close> of a zip archive, \<open>sf_decode\<close> decodes
  UTF-8, \<open>sf_parseJson\<close> is \<open>JSON.parse\<close>, \<open>sf_fmt\<close> is \<open>String\<close> of a number, \<open>sf_msg\<close> the message
  of a failure (\<open>getErrorMessage\<close>), \<open>sf_packDocx\<close> and \<open>sf_packZip\<close> build the files of an export
  and \<open>sf_writeError\<close> is the error of writing to a path, if any.
\<close>

record songEnv =
  sf_readFile :: "string \<Rightarrow> string result"
  sf_docxText :: "string \<Rightarrow> string result"
  sf_contentXml :: "string \<Rightarrow> string option result"
  sf_decode :: "string \<Rightarrow> string"
  sf_parseJson :: "string \<Rightarrow> jsval result"
  sf_fmt :: "rat \<Rightarrow> string"
  sf_msg :: "dbCode \<Rightarrow> string"
  sf_packDocx :: "string list \<Rightarrow> string"
  sf_packZip :: "(string \<times> string) list \<Rightarrow> string"
  sf_writeError :: "string \<Rightarrow> string option"

datatype reportStatus = SUCCESS | ERROR

record normalizedMeta =
  nm_title :: string
  nm_artist :: "string option"
  nm_album :: "string option"
  nm_year :: "string option"
  nm_language :: "string option"

record reportEntry =
  re_path :: string
  re_status :: reportStatus
  re_title :: "string option"
  re_message :: "string option"
  re_warnings :: "string list option"
  re_normalized :: "normalizedMeta option"

record jsonError =
  je_path :: string
  je_title :: "string option"
  je_message :: string

record docError =
  de_path :: string
  de_message :: string

definition errorEntry :: "string \<Rightarrow> string option \<Rightarrow> string \<Rightarrow> reportEntry" where
  "errorEntry path title message =
     \<lparr>re_path = path, re_status = ERROR, re_title = title, re_message = Some message,
      re_warnings = None, re_normalized = None\<rparr>"

definition successEntry :: "string \<Rightarrow> string list \<Rightarrow> normalizedMeta \<Rightarrow> reportEntry" where
  "successEntry path warnings m =
     \<lparr>re_path = path, re_status = SUCCESS, re_title = Some (nm_title m), re_message = None,
      re_warnings = Some warnings, re_normalized = Some m\<rparr>"

section \<open>Documents\<close>

definition SUPPORTED_DOC_EXTENSIONS :: "string list" where
  "SUPPORTED_DOC_EXTENSIONS = [''.docx'', ''.odt'']"

definition extractTextFromDoc :: "songEnv \<Rightarrow> string \<Rightarrow> string \<Rightarrow> string result" where
  "extractTextFromDoc env buffer ext =
     (if ext = ''.docx'' then sf_docxText env buffer
      else if ext = ''.odt'' then
        andThen (sf_contentXml env buffer) (\<lambda>entry.
          case entry of
            None \<Rightarrow> Inl ''content.xml manquant''
          | Some bytes \<Rightarrow> Inr (odtText (sf_decode env bytes)))
      else Inl ''Extension non supportee'')"

definition readDocText :: "songEnv \<Rightarrow> string \<Rightarrow> string result" where
  "readDocText env filePath =
     andThen (sf_readFile env filePath) (\<lambda>buffer.
       let ext = toLowerCase (extname filePath)
       in if ext \<notin> set SUPPORTED_DOC_EXTENSIONS then Inl ''Extension non supportee (docx / odt)''
          else extractTextFromDoc env buffer ext)"

definition songOfParsed :: "parsedSong \<Rightarrow> importSong" where
  "songOfParsed p =
     \<lparr>im_title = px_title p, im_artist = px_artist p, im_album = px_album p, im_year = px_year p,
      im_language = px_language p, im_tags = px_tags p, im_blocks = px_blocks p\<rparr>"

definition docReport :: "string \<Rightarrow> string list \<Rightarrow> songRow \<Rightarrow> reportEntry" where
  "docReport filePath warnings song =
     successEntry filePath warnings
       \<lparr>nm_title = so_title song, nm_artist = orNext (so_artist song) None,
        nm_album = orNext (so_album song) None, nm_year = orNext (so_year song) None,
        nm_language = orNext (so_language song) None\<rparr>"

definition storeDocSong ::
  "'db songDb \<Rightarrow> string \<Rightarrow> parsedSong \<Rightarrow> 'db
     \<Rightarrow> (failure + (songRow \<times> blockRow list) \<times> reportEntry) \<times> 'db" where
  "storeDocSong S filePath parsed db =
     (case createSongWithBlocksAtomic S (songOfParsed parsed) db of
        (Inl e, db) \<Rightarrow> (Inl e, db)
      | (Inr created, db) \<Rightarrow>
          (case songWithBlocks S db (so_id created) of
             None \<Rightarrow> (Inl (ErrorMsg ''Chant introuvable apres importation''), db)
           | Some song \<Rightarrow> (Inr (song, docReport filePath (px_warnings parsed) (fst song)), db)))"

definition importDocSong ::
  "songEnv \<Rightarrow> 'db songDb \<Rightarrow> string \<Rightarrow> 'db
     \<Rightarrow> ((failure + (songRow \<times> blockRow list) \<times> reportEntry) \<times> 'db) option" where
  "importDocSong env S filePath db =
     (case readDocText env filePath of
        Inl e \<Rightarrow> Some (Inl (ErrorMsg e), db)
      | Inr raw \<Rightarrow>
          map_option (\<lambda>parsed. storeDocSong S filePath parsed db)
            (parseSongText raw (Some (basename filePath))))"

section \<open>JSON exports\<close>

record jsonResult =
  jr_imported :: nat
  jr_errors :: "jsonError list"
  jr_report :: "reportEntry list"

definition metaOfSong :: "importSong \<Rightarrow> normalizedMeta" where
  "metaOfSong s = \<lparr>nm_title = im_title s, nm_artist = im_artist s, nm_album = im_album s,
     nm_year = im_year s, nm_language = im_language s\<rparr>"

definition importEntry ::
  "songEnv \<Rightarrow> 'db songDb \<Rightarrow> string \<Rightarrow> importSong \<times> string list \<Rightarrow> 'db \<Rightarrow> jsonResult \<times> 'db" where
  "importEntry env S filePath normalized db =
     (case createSongWithBlocksAtomic S (fst normalized) db of
        (Inr _, db) \<Rightarrow>
          (\<lparr>jr_imported = 1, jr_errors = [],
            jr_report = [successEntry filePath (snd normalized) (metaOfSong (fst normalized))]\<rparr>, db)
      | (Inl e, db) \<Rightarrow>
          (let title = Some (im_title (fst normalized)); message = getErrorMessage (sf_msg env) e
           in (\<lparr>jr_imported = 0,
                jr_errors = [\<lparr>je_path = filePath, je_title = title, je_message = message\<rparr>],
                jr_report = [errorEntry filePath title message]\<rparr>, db)))"

definition addResult :: "jsonResult \<Rightarrow> jsonResult \<Rightarrow> jsonResult" where
  "addResult a b = \<lparr>jr_imported = jr_imported a + jr_imported b,
     jr_errors = jr_errors a @ jr_errors b, jr_report = jr_report a @ jr_report b\<rparr>"

fun importEntries ::
  "songEnv \<Rightarrow> 'db songDb \<Rightarrow> string \<Rightarrow> nat \<Rightarrow> jsval list \<Rightarrow> 'db \<Rightarrow> (jsonResult \<times> 'db) option" where
  "importEntries env S filePath songIdx [] db =
     Some (\<lparr>jr_imported = 0, jr_errors = [], jr_report = []\<rparr>, db)"
| "importEntries env S filePath songIdx (rawSong # rest) db =
     Option.bind (normalizeSongFromJson (sf_fmt env) (sf_decode env) rawSong songIdx) (\<lambda>normalized.
       let (r, db) = (case normalized of
             Inl message \<Rightarrow>
               (\<lparr>jr_imported = 0,
                 jr_errors = [\<lparr>je_path = filePath, je_title = None, je_message = message\<rparr>],
                 jr_report = [errorEntry filePath None message]\<rparr>, db)
           | Inr song \<Rightarrow> importEntry env S filePath song db)
       in map_option (\<lambda>(r', db). (addResult r r', db))
            (importEntries env S filePath (songIdx + 1) rest db))"

definition readJsonSongs :: "songEnv \<Rightarrow> string \<Rightarrow> (jsval list \<times> string list) result" where
  "readJsonSongs env filePath =
     andThen (sf_readFile env filePath) (\<lambda>bytes.
     andThen (sf_parseJson env (sf_decode env bytes)) (\<lambda>parsedRaw.
       migrateSongsJsonPayload (sf_fmt env) (sf_decode env) parsedRaw))"

definition importJsonFile ::
  "songEnv \<Rightarrow> 'db songDb \<Rightarrow> string \<Rightarrow> 'db \<Rightarrow> (jsonResult result \<times> 'db) option" where
  "importJsonFile env S filePath db =
     (case readJsonSongs env filePath of
        Inl e \<Rightarrow> Some (Inl e, db)
      | Inr (rawSongs, warnings) \<Rightarrow>
          map_option (\<lambda>(r, db).
              (Inr (r\<lparr>jr_report := map (errorEntry filePath None) warnings @ jr_report r\<rparr>), db))
            (importEntries env S filePath 0 rawSongs db))"

section \<open>The handlers of imports\<close>

text \<open>
  \<open>chosen\<close> is what the dialog answers, \<open>None\<close> when it is cancelled; so is the answer of the
  handlers then.
\<close>

definition toDocErrors :: "reportEntry list \<Rightarrow> docError list" where
  "toDocErrors report =
     map (\<lambda>entry. \<lparr>de_path = re_path entry, de_message = orText (re_message entry) ''Import failed''\<rparr>)
       (filter (\<lambda>entry. re_status entry = ERROR) report)"

definition firstPath :: "string list option \<Rightarrow> string option" where
  "firstPath chosen = (case chosen of Some (p # ps) \<Rightarrow> orNext (Some p) None | _ \<Rightarrow> None)"

definition songsImportWord ::
  "songEnv \<Rightarrow> 'db songDb \<Rightarrow> string list option \<Rightarrow> 'db
     \<Rightarrow> ((failure + ((songRow \<times> blockRow list) \<times> reportEntry list) option) \<times> 'db) option" where
  "songsImportWord env S chosen db =
     (case firstPath chosen of
        None \<Rightarrow> Some (Inr None, db)
      | Some p \<Rightarrow>
          map_option (\<lambda>(r, db). (andThen r (\<lambda>(song, report). Inr (Some (song, [report]))), db))
            (importDocSong env S p db))"

definition songsImportJson ::
  "songEnv \<Rightarrow> 'db songDb \<Rightarrow> string list option \<Rightarrow> 'db
     \<Rightarrow> ((jsonResult \<times> string) option result \<times> 'db) option" where
  "songsImportJson env S chosen db =
     (case firstPath chosen of
        None \<Rightarrow> Some (Inr None, db)
      | Some p \<Rightarrow>
          map_option (\<lambda>(r, db). (andThen r (\<lambda>imported. Inr (Some (imported, p))), db))
            (importJsonFile env S p db))"

record fileTally =
  ft_imported :: nat
  ft_docFiles :: nat
  ft_jsonFiles :: nat
  ft_report :: "reportEntry list"

definition tallyDoc ::
  "songEnv \<Rightarrow> string \<Rightarrow> fileTally \<Rightarrow> failure + (songRow \<times> blockRow list) \<times> reportEntry \<Rightarrow> fileTally" where
  "tallyDoc env filePath t r =
     (case r of
        Inr (_, report) \<Rightarrow> t\<lparr>ft_imported := ft_imported t + 1, ft_docFiles := ft_docFiles t + 1,
          ft_report := ft_report t @ [report]\<rparr>
      | Inl e \<Rightarrow> t\<lparr>ft_report := ft_report t @ [errorEntry filePath None (getErrorMessage (sf_msg env) e)]\<rparr>)"

definition tallyJson :: "string \<Rightarrow> fileTally \<Rightarrow> jsonResult result \<Rightarrow> fileTally" where
  "tallyJson filePath t r =
     (case r of
        Inr res \<Rightarrow> t\<lparr>ft_imported := ft_imported t + jr_imported res,
          ft_jsonFiles := ft_jsonFiles t + 1, ft_report := ft_report t @ jr_report res\<rparr>
      | Inl message \<Rightarrow> t\<lparr>ft_report := ft_report t @ [errorEntry filePath None message]\<rparr>)"

fun importDocs ::
  "songEnv \<Rightarrow> 'db songDb \<Rightarrow> string list \<Rightarrow> fileTally \<times> 'db \<Rightarrow> (fileTally \<times> 'db) option" where
  "importDocs env S [] st = Some st"
| "importDocs env S (filePath # ps) (t, db) =
     Option.bind (importDocSong env S filePath db) (\<lambda>(r, db).
       importDocs env S ps (tallyDoc env filePath t r, db))"

definition importOneFile ::
  "songEnv \<Rightarrow> 'db songDb \<Rightarrow> string \<Rightarrow> fileTally \<times> 'db \<Rightarrow> (fileTally \<times> 'db) option" where
  "importOneFile env S filePath = (\<lambda>(t, db).
     let ext = toLowerCase (extname filePath)
     in if ext = ''.json''
        then map_option (\<lambda>(r, db). (tallyJson filePath t r, db)) (importJsonFile env S filePath db)
        else if ext \<in> set SUPPORTED_DOC_EXTENSIONS
        then map_option (\<lambda>(r, db). (tallyDoc env filePath t r, db)) (importDocSong env S filePath db)
        else Some (t\<lparr>ft_report := ft_report t
                     @ [errorEntry filePath None ''Extension non supportee'']\<rparr>, db))"

fun importFiles ::
  "songEnv \<Rightarrow> 'db songDb \<Rightarrow> string list \<Rightarrow> fileTally \<times> 'db \<Rightarrow> (fileTally \<times> 'db) option" where
  "importFiles env S [] st = Some st"
| "importFiles env S (filePath # ps) st =
     Option.bind (importOneFile env S filePath st) (importFiles env S ps)"

record importAnswer =
  ia_tally :: fileTally
  ia_errors :: "docError list"
  ia_files :: "string list"

definition noTally :: fileTally where
  "noTally = \<lparr>ft_imported = 0, ft_docFiles = 0, ft_jsonFiles = 0, ft_report = []\<rparr>"

definition importAnswerOf :: "string list \<Rightarrow> fileTally \<Rightarrow> importAnswer" where
  "importAnswerOf filePaths t =
     \<lparr>ia_tally = t, ia_errors = toDocErrors (ft_report t), ia_files = filePaths\<rparr>"

definition songsImportWordBatch ::
  "songEnv \<Rightarrow> 'db songDb \<Rightarrow> string list option \<Rightarrow> 'db \<Rightarrow> (importAnswer option \<times> 'db) option" where
  "songsImportWordBatch env S chosen db =
     (case chosen of
        Some (p # ps) \<Rightarrow>
          map_option (\<lambda>(t, db). (Some (importAnswerOf (p # ps) t), db))
            (importDocs env S (p # ps) (noTally, db))
      | _ \<Rightarrow> Some (None, db))"

definition songsImportAuto ::
  "songEnv \<Rightarrow> 'db songDb \<Rightarrow> string list option \<Rightarrow> 'db \<Rightarrow> (importAnswer option \<times> 'db) option" where
  "songsImportAuto env S chosen db =
     (case chosen of
        Some (p # ps) \<Rightarrow>
          map_option (\<lambda>(t, db). (Some (importAnswerOf (p # ps) t), db))
            (importFiles env S (p # ps) (noTally, db))
      | _ \<Rightarrow> Some (None, db))"

section \<open>The handlers of exports\<close>

text \<open>
  \<open>saveAs\<close> is the save dialog: what it answers to a proposed name. The files written are a map;
  the answer \<open>None\<close> is a cancelled dialog.
\<close>

definition wordBuffer :: "songEnv \<Rightarrow> songRow \<times> blockRow list \<Rightarrow> string" where
  "wordBuffer env song = sf_packDocx env (buildSongWordDocument (viewOf (fst song) (snd song)))"

definition writeExport ::
  "songEnv \<Rightarrow> string option \<Rightarrow> string \<Rightarrow> (string \<rightharpoonup> string)
     \<Rightarrow> (failure + string option) \<times> (string \<rightharpoonup> string)" where
  "writeExport env filePath bytes files =
     (case orNext filePath None of
        None \<Rightarrow> (Inr None, files)
      | Some p \<Rightarrow>
          (case sf_writeError env p of
             Some e \<Rightarrow> (Inl (ErrorMsg e), files)
           | None \<Rightarrow> (Inr (Some p), files(p \<mapsto> bytes))))"

definition songsExportWord ::
  "songEnv \<Rightarrow> 'db songDb \<Rightarrow> (string \<Rightarrow> string option) \<Rightarrow> jsval \<Rightarrow> 'db \<Rightarrow> (string \<rightharpoonup> string)
     \<Rightarrow> (failure + string option) \<times> (string \<rightharpoonup> string)" where
  "songsExportWord env S saveAs rawSongId db files =
     (case parseNonEmptyString rawSongId ''songs:exportWord.songId'' of
        Inl e \<Rightarrow> (Inl (ErrorMsg e), files)
      | Inr songId \<Rightarrow>
          (case songWithBlocks S db songId of
             None \<Rightarrow> (Inl (ErrorMsg ''Song not found''), files)
           | Some song \<Rightarrow>
               writeExport env (saveAs (sanitizeFilename (so_title (fst song)) @ ''.docx''))
                 (wordBuffer env song) files))"

definition exportedRows :: "'db songDb \<Rightarrow> 'db \<Rightarrow> string list option \<Rightarrow> songRow list" where
  "exportedRows S db songIds =
     sort_key so_title
       (case songIds of
          Some (i # ids) \<Rightarrow> filter (\<lambda>r. so_id r \<in> set (i # ids)) (liveSongs S db)
        | _ \<Rightarrow> liveSongs S db)"

fun packSongs ::
  "songEnv \<Rightarrow> 'db songDb \<Rightarrow> 'db \<Rightarrow> songRow list \<Rightarrow> string set \<Rightarrow> (string \<times> string) list option" where
  "packSongs env S db [] usedNames = Some []"
| "packSongs env S db (r # rs) usedNames =
     Option.bind (uniqueDocxName (if so_title r = [] then ''chant'' else so_title r) usedNames)
       (\<lambda>(fileName, usedNames).
         map_option ((#) (fileName, wordBuffer env (r, findBlocks S db (blocksOf (so_id r)))))
           (packSongs env S db rs usedNames))"

definition songsExportWordPack ::
  "songEnv \<Rightarrow> 'db songDb \<Rightarrow> (string \<Rightarrow> string option) \<Rightarrow> jsval \<Rightarrow> 'db \<Rightarrow> (string \<rightharpoonup> string)
     \<Rightarrow> ((failure + (string \<times> nat) option) \<times> (string \<rightharpoonup> string)) option" where
  "songsExportWordPack env S saveAs rawPayload db files =
     (case parseSongExportWordPackPayload rawPayload of
        Inl e \<Rightarrow> Some (Inl (ErrorMsg e), files)
      | Inr songIds \<Rightarrow>
          (let rs = exportedRows S db songIds
           in if rs = [] then Some (Inl (ErrorMsg ''No songs to export''), files)
              else map_option (\<lambda>entries.
                let (r, files) = writeExport env (saveAs ''chants-pack.zip'') (sf_packZip env entries) files
                in (andThen r (\<lambda>p. Inr (map_option (\<lambda>p. (p, length rs)) p)), files))
                (packSongs env S db rs {})))"

section \<open>What the files hold\<close>

text \<open>
  The songs of one file, read without the database, in the form in which they are stored. The
  entries of a JSON file that are no objects, the files that cannot be read and those of other
  kinds hold none.
\<close>

definition storedSong :: "importSong \<Rightarrow> importSong" where
  "storedSong s = s\<lparr>im_blocks := map atomicBlock (im_blocks s)\<rparr>"

definition docSongs :: "songEnv \<Rightarrow> string \<Rightarrow> importSong list" where
  "docSongs env filePath =
     (case readDocText env filePath of
        Inl e \<Rightarrow> []
      | Inr raw \<Rightarrow>
          (case parseSongText raw (Some (basename filePath)) of
             None \<Rightarrow> [] | Some parsed \<Rightarrow> [storedSong (songOfParsed parsed)]))"

definition entrySongs :: "songEnv \<Rightarrow> jsval list \<Rightarrow> importSong list" where
  "entrySongs env raws =
     List.map_filter (\<lambda>raw. case raw of
         JObj rec \<Rightarrow> map_option (\<lambda>(s, _). storedSong s) (songOfRecord (sf_fmt env) (sf_decode env) rec)
       | _ \<Rightarrow> None) raws"

definition jsonSongs :: "songEnv \<Rightarrow> string \<Rightarrow> importSong list" where
  "jsonSongs env filePath =
     (case readJsonSongs env filePath of Inl e \<Rightarrow> [] | Inr (raws, _) \<Rightarrow> entrySongs env raws)"

definition fileSongs :: "songEnv \<Rightarrow> string \<Rightarrow> importSong list" where
  "fileSongs env filePath =
     (let ext = toLowerCase (extname filePath)
      in if ext = ''.json'' then jsonSongs env filePath
         else if ext \<in> set SUPPORTED_DOC_EXTENSIONS then docSongs env filePath else [])"

text \<open>The titles that a report announces\<close>

definition announced :: "reportEntry list \<Rightarrow> string list" where
  "announced report = map (\<lambda>e. orElse (re_title e) []) (filter (\<lambda>e. re_status e = SUCCESS) report)"

lemma announced_simps [simp]:
  "announced [] = []"
  "announced (xs @ ys) = announced xs @ announced ys"
  "announced (successEntry p w m # xs) = nm_title m # announced xs"
  "announced (errorEntry p t e # xs) = announced xs"
  by (simp_all add: announced_def successEntry_def errorEntry_def)

lemma announced_errors [simp]: "announced (map (errorEntry p t) ws) = []"
  by (induction ws) simp_all

lemma entrySongs_simps [simp]:
  "entrySongs env [] = []"
  "entrySongs env (raw # raws) =
     (case raw of JObj rec \<Rightarrow> (case songOfRecord (sf_fmt env) (sf_decode env) rec of
          None \<Rightarrow> [] | Some (s, _) \<Rightarrow> [storedSong s]) | _ \<Rightarrow> []) @ entrySongs env raws"
  by (simp_all add: entrySongs_def List.map_filter_simps split: option.split jsval.split)

text \<open>Every text and every entry gives a song, and its blocks are numbered.\<close>

lemma ordersOk_numbered: "ordersOk (numberBlocks bs)" "inOrder (map atomicBlock (numberBlocks bs)) = map atomicBlock (numberBlocks bs)"
proof -
  have orders: "map rb_order (map atomicBlock (numberBlocks bs)) = map int [1..<Suc (length bs)]"
    using numberBlocks_orders [of bs] by (simp add: atomicBlock_def comp_def del: upt_Suc)
  then show "inOrder (map atomicBlock (numberBlocks bs)) = map atomicBlock (numberBlocks bs)"
    unfolding inOrder_def by (intro sort_key_id_if_sorted) (simp add: orders sorted_map del: upt_Suc map_map)
  show "ordersOk (numberBlocks bs)"
    by (simp add: ordersOk_def numberBlocks_orders distinct_map del: upt_Suc)
qed

lemma parseSongText_numbered:
  "\<exists>p bs. parseSongText raw name = Some p \<and> px_blocks p = numberBlocks bs"
  using lyrics_blocks by (fastforce simp: parseSongText_def Let_def)

lemma blocks_or_lyrics:
  "\<exists>b. (case (parsed, l) of ([], Some l) \<Rightarrow> parseLyricsToBlocks l | _ \<Rightarrow> Some parsed) = Some b"
  using lyrics_blocks by (cases parsed; cases l) fastforce+

lemma numbered_option:
  assumes "\<And>b. \<exists>bs. im_blocks (fst (f b)) = numberBlocks bs" and "\<exists>b. x = Some b"
  shows "\<exists>s w bs. map_option f x = Some (s, w) \<and> im_blocks s = numberBlocks bs"
  using assms by (metis option.simps(9) surjective_pairing)

lemma songOfRecord_numbered:
  "\<exists>s w bs. songOfRecord fmt decode rec = Some (s, w) \<and> im_blocks s = numberBlocks bs"
  unfolding songOfRecord_def Let_def case_prod_beta
  by (rule numbered_option [OF _ blocks_or_lyrics [unfolded case_prod_beta]]) (simp, blast)

text \<open>One song of any file, stored: it never fails, since its blocks are numbered.\<close>

lemma addsSongs_append:
  assumes "addsSongs lib vs lib'" and "addsSongs lib' ws lib''"
  shows "addsSongs lib (vs @ ws) lib''"
proof -
  obtain ks where ks: "distinct ks" "length ks = length vs" "set ks \<inter> dom lib = {}"
      "lib' = lib ++ map_of (zip ks vs)"
    using assms(1) by (auto simp: addsSongs_def)
  obtain js where js: "distinct js" "length js = length ws" "set js \<inter> dom lib' = {}"
      "lib'' = lib' ++ map_of (zip js ws)"
    using assms(2) by (auto simp: addsSongs_def)
  have disj: "set js \<inter> set ks = {}" "set js \<inter> dom lib = {}"
    using js(3) ks(2,4) by auto
  then have "map_of (zip ks vs) ++ map_of (zip js ws) = map_of (zip js ws) ++ map_of (zip ks vs)"
    using ks(2) js(2) by (intro map_add_comm) auto
  then have "lib'' = lib ++ map_of (zip (ks @ js) (vs @ ws))"
    using ks(2) js(2) by (simp add: ks(4) js(4) del: map_add_assoc) (simp only: map_add_assoc [symmetric])
  then show ?thesis
    using ks js disj unfolding addsSongs_def by (intro exI [of _ "ks @ js"]) auto
qed

context song_store
begin

lemma store_atomic:
  assumes "ok db" and "im_blocks s = numberBlocks bs"
  shows "\<exists>r db'. createSongWithBlocksAtomic S s db = (Inr r, db') \<and> ok db'
           \<and> library S db (so_id r) = None \<and> library S db' = (library S db)(so_id r \<mapsto> storedSong s)
           \<and> songWithBlocks S db' (so_id r) = Some (r, findBlocks S db' (blocksOf (so_id r)))"
proof -
  have "im_blocks (storedSong s) = map atomicBlock (numberBlocks bs)"
    by (simp add: storedSong_def assms(2))
  then have "ordersOk (im_blocks (storedSong s))"
      "(storedSong s)\<lparr>im_blocks := inOrder (im_blocks (storedSong s))\<rparr> = storedSong s"
    using ordersOk_numbered [of bs]
    by (simp_all add: ordersOk_def atomicBlock_def comp_def storedSong_def assms(2))
  then show ?thesis
    using createSongAndBlocks_result [OF assms(1), of "storedSong s"]
    by (fastforce simp: createSongWithBlocksAtomic_def storedSong_def [symmetric] songWithBlocks_def
        library_rows assms(1))
qed

lemma store_doc:
  assumes "ok db" and "parseSongText raw name = Some p"
  shows "\<exists>song e db' i. storeDocSong S filePath p db = (Inr (song, e), db') \<and> ok db'
           \<and> announced [e] = [px_title p] \<and> library S db i = None
           \<and> library S db' = (library S db)(i \<mapsto> storedSong (songOfParsed p))"
proof -
  obtain bs where "px_blocks p = numberBlocks bs"
    using parseSongText_numbered [of raw name] assms(2) by auto
  then have "im_blocks (songOfParsed p) = numberBlocks bs"
    by (simp add: songOfParsed_def)
  from store_atomic [OF assms(1) this] obtain r db' where r:
      "createSongWithBlocksAtomic S (songOfParsed p) db = (Inr r, db')" "ok db'"
      "library S db (so_id r) = None" "library S db' = (library S db)(so_id r \<mapsto> storedSong (songOfParsed p))"
      "songWithBlocks S db' (so_id r) = Some (r, findBlocks S db' (blocksOf (so_id r)))"
    by blast
  have "library S db' (so_id r) = Some (storedSong (songOfParsed p))"
    by (simp add: r(4))
  then have "so_title r = px_title p"
    using r(5) by (auto simp: songWithBlocks_def library_def viewOf_def storedSong_def songOfParsed_def
        split: option.splits if_splits)
  with r show ?thesis
    by (intro exI [of _ "(r, findBlocks S db' (blocksOf (so_id r)))"]
        exI [of _ "docReport filePath (px_warnings p) r"] exI [of _ db'] exI [of _ "so_id r"])
      (simp add: storeDocSong_def docReport_def)
qed

lemma importDocSong_result:
  assumes "ok db"
  shows "\<exists>r db'. importDocSong env S filePath db = Some (r, db') \<and> ok db'
           \<and> (case r of Inl _ \<Rightarrow> docSongs env filePath = [] \<and> db' = db
              | Inr (_, e) \<Rightarrow> \<exists>s. docSongs env filePath = [s] \<and> announced [e] = [im_title s]
                               \<and> addsSongs (library S db) [s] (library S db'))"
proof (cases "readDocText env filePath")
  case (Inl e)
  then show ?thesis
    using assms by (simp add: importDocSong_def docSongs_def)
next
  case (Inr raw)
  obtain p where p: "parseSongText raw (Some (basename filePath)) = Some p"
    using parseSongText_numbered by blast
  have title: "im_title (storedSong (songOfParsed p)) = px_title p"
    by (simp add: storedSong_def songOfParsed_def)
  from store_doc [OF assms p, of filePath] obtain song e db' i where
      d: "storeDocSong S filePath p db = (Inr (song, e), db')" "ok db'" "announced [e] = [px_title p]"
      "library S db i = None" "library S db' = (library S db)(i \<mapsto> storedSong (songOfParsed p))"
    by blast
  have "addsSongs (library S db) [storedSong (songOfParsed p)] (library S db')"
    using d(4) by (intro addsSongs_Cons [of _ i]) (simp_all add: d(5))
  then show ?thesis
    using d(1-3) by (simp add: importDocSong_def docSongs_def Inr p title)
qed

lemma importEntry_result:
  assumes "ok db" and "im_blocks s = numberBlocks bs"
  shows "\<exists>r db' i. importEntry env S filePath (s, w) db = (r, db') \<and> ok db'
           \<and> library S db i = None \<and> library S db' = (library S db)(i \<mapsto> storedSong s)
           \<and> jr_imported r = 1 \<and> jr_errors r = [] \<and> announced (jr_report r) = [im_title s]
           \<and> length (jr_report r) = 1"
  using store_atomic [OF assms] by (fastforce simp: importEntry_def metaOfSong_def)

lemma importEntries_result:
  assumes "ok db"
  shows "\<exists>r db'. importEntries env S filePath i raws db = Some (r, db') \<and> ok db'
           \<and> addsSongs (library S db) (entrySongs env raws) (library S db')
           \<and> jr_imported r = length (entrySongs env raws)
           \<and> announced (jr_report r) = map im_title (entrySongs env raws)
           \<and> length (jr_report r) = length raws
           \<and> length (jr_errors r) + jr_imported r = length raws"
  using assms
proof (induction raws arbitrary: db i)
  case (Cons raw raws)
  show ?case
  proof (cases "\<exists>rec. raw = JObj rec")
    case True
    then obtain rec where rec: "raw = JObj rec" by blast
    obtain s w bs where s: "songOfRecord (sf_fmt env) (sf_decode env) rec = Some (s, w)"
        "im_blocks s = numberBlocks bs"
      using songOfRecord_numbered by blast
    obtain r db1 k where r: "importEntry env S filePath (s, w) db = (r, db1)" "ok db1"
        "library S db k = None" "library S db1 = (library S db)(k \<mapsto> storedSong s)"
        "jr_imported r = 1" "jr_errors r = []" "announced (jr_report r) = [im_title s]"
        "length (jr_report r) = 1"
      using importEntry_result [OF Cons.prems s(2)] by blast
    obtain r' db2 where r': "importEntries env S filePath (i + 1) raws db1 = Some (r', db2)" "ok db2"
        "addsSongs (library S db1) (entrySongs env raws) (library S db2)"
        "jr_imported r' = length (entrySongs env raws)"
        "announced (jr_report r') = map im_title (entrySongs env raws)"
        "length (jr_report r') = length raws"
        "length (jr_errors r') + jr_imported r' = length raws"
      using Cons.IH [OF r(2)] by blast
    have "addsSongs (library S db) (storedSong s # entrySongs env raws) (library S db2)"
      using r(3,4) r'(3) by (intro addsSongs_Cons [of _ k]) simp_all
    then show ?thesis
      using r r' by (simp add: rec s normalizeSongFromJson_def addResult_def storedSong_def)
  next
    case False
    then have skip: "entrySongs env (raw # raws) = entrySongs env raws"
      by (cases raw) auto
    from False obtain m where "normalizeSongFromJson (sf_fmt env) (sf_decode env) raw i = Some (Inl m)"
      by (cases raw) (auto simp: normalizeSongFromJson_def)
    then show ?thesis
      using Cons.IH [OF Cons.prems, of "i + 1"]
      by (auto simp: skip addResult_def simp del: entrySongs_simps(2))
  qed
qed simp

lemma importJsonFile_result:
  assumes "ok db"
  shows "\<exists>r db'. importJsonFile env S filePath db = Some (r, db') \<and> ok db'
           \<and> addsSongs (library S db) (jsonSongs env filePath) (library S db')
           \<and> (case r of Inl _ \<Rightarrow> jsonSongs env filePath = []
              | Inr res \<Rightarrow> jr_imported res = length (jsonSongs env filePath)
                         \<and> announced (jr_report res) = map im_title (jsonSongs env filePath))"
proof (cases "readJsonSongs env filePath")
  case (Inl e)
  then show ?thesis
    using assms by (simp add: importJsonFile_def jsonSongs_def)
next
  case (Inr rw)
  obtain raws ws where rw: "rw = (raws, ws)" by (cases rw)
  show ?thesis
    using importEntries_result [OF assms, of env filePath 0 raws]
    by (fastforce simp: importJsonFile_def jsonSongs_def Inr rw)
qed

text \<open>The files of one choice: what one of them adds to the tally and to the library\<close>

lemma importOneFile_result:
  assumes "ok db"
  shows "\<exists>t' db'. importOneFile env S filePath (t, db) = Some (t', db') \<and> ok db'
           \<and> addsSongs (library S db) (fileSongs env filePath) (library S db')
           \<and> ft_imported t' = ft_imported t + length (fileSongs env filePath)
           \<and> announced (ft_report t') = announced (ft_report t) @ map im_title (fileSongs env filePath)"
proof -
  consider (json) "toLowerCase (extname filePath) = ''.json''"
    | (doc) "toLowerCase (extname filePath) \<in> set SUPPORTED_DOC_EXTENSIONS"
        "toLowerCase (extname filePath) \<noteq> ''.json''"
    | (other) "toLowerCase (extname filePath) \<notin> set SUPPORTED_DOC_EXTENSIONS"
        "toLowerCase (extname filePath) \<noteq> ''.json''"
    by blast
  then show ?thesis
  proof cases
    case json
    obtain r db' where r: "importJsonFile env S filePath db = Some (r, db')" "ok db'"
        "addsSongs (library S db) (jsonSongs env filePath) (library S db')"
        "case r of Inl _ \<Rightarrow> jsonSongs env filePath = []
         | Inr res \<Rightarrow> jr_imported res = length (jsonSongs env filePath)
                    \<and> announced (jr_report res) = map im_title (jsonSongs env filePath)"
      using importJsonFile_result [OF assms] by blast
    then show ?thesis
      using json by (cases r) (simp_all add: importOneFile_def fileSongs_def tallyJson_def)
  next
    case doc
    obtain r db' where r: "importDocSong env S filePath db = Some (r, db')" "ok db'"
        "case r of Inl _ \<Rightarrow> docSongs env filePath = [] \<and> db' = db
         | Inr (_, e) \<Rightarrow> \<exists>s. docSongs env filePath = [s] \<and> announced [e] = [im_title s]
                          \<and> addsSongs (library S db) [s] (library S db')"
      using importDocSong_result [OF assms] by blast
    then show ?thesis
      using doc by (cases r) (auto simp: importOneFile_def fileSongs_def tallyDoc_def)
  next
    case other
    then show ?thesis
      using assms by (simp add: importOneFile_def fileSongs_def)
  qed
qed

lemma importFiles_result:
  assumes "ok db"
  shows "\<exists>t' db'. importFiles env S fs (t, db) = Some (t', db') \<and> ok db'
           \<and> addsSongs (library S db) (concat (map (fileSongs env) fs)) (library S db')
           \<and> ft_imported t' = ft_imported t + length (concat (map (fileSongs env) fs))
           \<and> announced (ft_report t')
               = announced (ft_report t) @ map im_title (concat (map (fileSongs env) fs))"
  using assms
proof (induction fs arbitrary: t db)
  case (Cons f fs)
  obtain t1 db1 where one: "importOneFile env S f (t, db) = Some (t1, db1)" "ok db1"
      "addsSongs (library S db) (fileSongs env f) (library S db1)"
      "ft_imported t1 = ft_imported t + length (fileSongs env f)"
      "announced (ft_report t1) = announced (ft_report t) @ map im_title (fileSongs env f)"
    using importOneFile_result [OF Cons.prems] by blast
  obtain t2 db2 where "importFiles env S fs (t1, db1) = Some (t2, db2)" "ok db2"
      "addsSongs (library S db1) (concat (map (fileSongs env) fs)) (library S db2)"
      "ft_imported t2 = ft_imported t1 + length (concat (map (fileSongs env) fs))"
      "announced (ft_report t2)
         = announced (ft_report t1) @ map im_title (concat (map (fileSongs env) fs))"
    using Cons.IH [OF one(2)] by blast
  with one addsSongs_append [OF one(3)] show ?case by simp
qed simp

end

section \<open>Properties\<close>

text \<open>
  C15: Whatever files are chosen, the import of songs returns; exactly the songs that the files hold
  are added to the library, each under a new identifier, and both the number and the titles
  that the answer reports as imported are those of the songs added.
\<close>
theorem import_adds_what_files_hold:
  assumes "song_store S rows blocks ok" and "ok db" and "fs \<noteq> []"
  shows "\<exists>a db'. songsImportAuto env S (Some fs) db = Some (Some a, db') \<and> ok db'
           \<and> addsSongs (library S db) (concat (map (fileSongs env) fs)) (library S db')
           \<and> ft_imported (ia_tally a) = length (concat (map (fileSongs env) fs))
           \<and> announced (ft_report (ia_tally a)) = map im_title (concat (map (fileSongs env) fs))"
proof -
  obtain f fs' where fs: "fs = f # fs'"
    using assms(3) by (cases fs) auto
  have none: "ft_imported noTally = 0" "announced (ft_report noTally) = []"
    by (simp_all add: noTally_def)
  obtain t' db' where "importFiles env S fs (noTally, db) = Some (t', db')" "ok db'"
      "addsSongs (library S db) (concat (map (fileSongs env) fs)) (library S db')"
      "ft_imported t' = length (concat (map (fileSongs env) fs))"
      "announced (ft_report t') = map im_title (concat (map (fileSongs env) fs))"
    using song_store.importFiles_result [OF assms(1,2), of env fs noTally] by (auto simp: none)
  then show ?thesis
    unfolding songsImportAuto_def fs option.case list.case
    by (intro exI [of _ "importAnswerOf fs t'"] exI [of _ db']) (simp add: importAnswerOf_def fs)
qed

definition sampleEnv :: songEnv where
  "sampleEnv = \<lparr>sf_readFile = (\<lambda>p. if p = ''/x.json'' \<or> p = ''/y.docx'' then Inr p else Inl ''ENOENT''),
     sf_docxText = (\<lambda>_. Inr []), sf_contentXml = (\<lambda>_. Inr None), sf_decode = (\<lambda>x. x),
     sf_parseJson = (\<lambda>_. Inr (JObj [(''songs'', JArr [songJson sampleSong, JNum (IntNum 3)])])),
     sf_fmt = (\<lambda>_. []), sf_msg = (\<lambda>_. []), sf_packDocx = concat, sf_packZip = (\<lambda>_. []),
     sf_writeError = (\<lambda>_. None)\<rparr>"

lemma sampleEnv_json:
  "readJsonSongs sampleEnv ''/x.json'' = Inr ([songJson sampleSong, JNum (IntNum 3)],
     [''Legacy songs JSON detected (missing schema metadata). Migration applied automatically.''])"
  "songJson sampleSong = JObj rec \<Longrightarrow>
     songOfRecord (sf_fmt sampleEnv) (sf_decode sampleEnv) rec = Some (sampleSong, [])"
proof -
  show "readJsonSongs sampleEnv ''/x.json'' = Inr ([songJson sampleSong, JNum (IntNum 3)],
      [''Legacy songs JSON detected (missing schema metadata). Migration applied automatically.''])"
    by (simp add: readJsonSongs_def sampleEnv_def migrateSongsJsonPayload_def asStringLike_def Let_def)
  have "songOk sampleSong"
    by code_simp
  then show "songOfRecord (sf_fmt sampleEnv) (sf_decode sampleEnv) rec = Some (sampleSong, [])"
    if "songJson sampleSong = JObj rec"
    using that by (rule songOfRecord_written)
qed

lemma import_adds_what_files_hold_witness:
  "\<exists>a db'. songsImportAuto sampleEnv churchSongs (Some [''/x.json'', ''/y.docx'', ''/z.odt'']) graceChurch
       = Some (Some a, db') \<and> ft_imported (ia_tally a) = 2
     \<and> announced (ft_report (ia_tally a)) = [''Grace'', ''y'']"
proof -
  have "map im_title (concat (map (fileSongs sampleEnv) [''/x.json'', ''/y.docx'', ''/z.odt'']))
          = [''Grace'', ''y'']"
  proof -
    have ext: "toLowerCase (extname ''/x.json'') = ''.json''" "toLowerCase (extname ''/y.docx'') = ''.docx''"
      "toLowerCase (extname ''/z.odt'') = ''.odt''"
      by code_simp+
    obtain rec where rec: "songJson sampleSong = JObj rec"
      by (simp add: songJson_def)
    have "map im_title (jsonSongs sampleEnv ''/x.json'') = [''Grace'']"
      using sampleEnv_json(2) [OF rec]
      by (simp add: jsonSongs_def sampleEnv_json(1) rec storedSong_def) (simp add: sampleSong_def)
    then have "map im_title (fileSongs sampleEnv ''/x.json'') = [''Grace'']"
      by (simp add: fileSongs_def ext)
    moreover have "map im_title (docSongs sampleEnv ''/y.docx'') = [''y'']"
      by code_simp
    then have "map im_title (fileSongs sampleEnv ''/y.docx'') = [''y'']"
      by (simp add: fileSongs_def ext SUPPORTED_DOC_EXTENSIONS_def)
    moreover have "docSongs sampleEnv ''/z.odt'' = []"
      by (simp add: docSongs_def readDocText_def sampleEnv_def)
    then have "fileSongs sampleEnv ''/z.odt'' = []"
      by (simp add: fileSongs_def ext Let_def)
    ultimately show ?thesis
      by (simp only: list.map concat.simps map_append append.simps)
  qed
  moreover from arg_cong [OF this, of length]
  have "length (concat (map (fileSongs sampleEnv) [''/x.json'', ''/y.docx'', ''/z.odt''])) = 2"
    by (simp only: length_map) simp
  moreover obtain a db' where "songsImportAuto sampleEnv churchSongs
        (Some [''/x.json'', ''/y.docx'', ''/z.odt'']) graceChurch = Some (Some a, db')"
      "ft_imported (ia_tally a)
         = length (concat (map (fileSongs sampleEnv) [''/x.json'', ''/y.docx'', ''/z.odt'']))"
      "announced (ft_report (ia_tally a))
         = map im_title (concat (map (fileSongs sampleEnv) [''/x.json'', ''/y.docx'', ''/z.odt'']))"
    using import_adds_what_files_hold [OF church_song_store sampleChurch_ok(2) list.distinct(2)]
    by blast
  ultimately show ?thesis by (simp only:) blast
qed

text \<open>
  A file in the old form is imported, and still its report and its errors hold an entry with the
  status of an error: the notice of the migration.
\<close>
lemma migration_notice_is_error:
  assumes "song_store S rows blocks ok" and "ok db"
  shows "\<exists>r db'. importJsonFile sampleEnv S ''/x.json'' db = Some (Inr r, db') \<and> jr_imported r = 1
           \<and> map re_status (jr_report r) = [ERROR, SUCCESS, ERROR] \<and> length (jr_errors r) = 1"
proof -
  obtain rec where rec: "songJson sampleSong = JObj rec"
    by (simp add: songJson_def)
  obtain bs where "im_blocks sampleSong = numberBlocks bs"
    using songOfRecord_numbered [of "sf_fmt sampleEnv" "sf_decode sampleEnv" rec]
      sampleEnv_json(2) [OF rec] by auto
  then obtain r db' where "createSongWithBlocksAtomic S sampleSong db = (Inr r, db')"
    using song_store.store_atomic [OF assms] by blast
  then show ?thesis
    using sampleEnv_json(2) [OF rec]
    by (simp add: importJsonFile_def sampleEnv_json(1) rec normalizeSongFromJson_def importEntry_def
        addResult_def successEntry_def errorEntry_def)
qed

text \<open>
  C40: A pack of Word documents is built for every selection: the search for names ends, there is
  one document per exported song, in order of title, and no two names agree even without regard
  to case, so that no document overwrites another when the pack is unfolded.
\<close>
theorem word_pack_complete:
  "\<exists>entries. packSongs env S db (exportedRows S db songIds) {} = Some entries
     \<and> map snd entries = map (\<lambda>r. wordBuffer env (r, findBlocks S db (blocksOf (so_id r))))
                            (exportedRows S db songIds)
     \<and> distinct (map (\<lambda>e. toLowerCase (fst e)) entries)"
proof -
  have "\<exists>entries. packSongs env S db rs used = Some entries
     \<and> map snd entries = map (\<lambda>r. wordBuffer env (r, findBlocks S db (blocksOf (so_id r)))) rs
     \<and> distinct (map (\<lambda>e. toLowerCase (fst e)) entries)
     \<and> set (map (\<lambda>e. toLowerCase (fst e)) entries) \<inter> used = {}"
    if "finite used" for rs and used :: "string set"
    using that
  proof (induction rs arbitrary: used)
    case (Cons r rs)
    let ?title = "if so_title r = [] then ''chant'' else so_title r"
    obtain n where n: "freeDocxName (sanitizeFilename ?title) used 1 = Some n" "toLowerCase n \<notin> used"
      using freeDocxName_returns [OF Cons.prems] by blast
    obtain es where "packSongs env S db rs (insert (toLowerCase n) used) = Some es"
        "map snd es = map (\<lambda>r. wordBuffer env (r, findBlocks S db (blocksOf (so_id r)))) rs"
        "distinct (map (\<lambda>e. toLowerCase (fst e)) es)"
        "set (map (\<lambda>e. toLowerCase (fst e)) es) \<inter> insert (toLowerCase n) used = {}"
      using Cons.IH [of "insert (toLowerCase n) used"] Cons.prems by auto
    with n show ?case
      by (auto simp: uniqueDocxName_def)
  qed simp
  from this [of "{}"] show ?thesis by auto
qed

end
