(* ===== verification/Sync.thy ===== *)
theory Sync
  imports Dates PlanStore "HOL-Library.Sublist"
begin

text \<open>
  The synchronisation of the local SQLite file with the PostgreSQL server,
  \<open>main/sync/syncManager.ts\<close>, \<open>pullSync.ts\<close>, \<open>pushSync.ts\<close> and \<open>syncState.ts\<close>, with the tables
  of \<open>schema.prisma\<close> and \<open>schema.pg.prisma\<close>. The client of the server is a record of operations;
  the laws of \<open>pg_server\<close> say what the code relies on. An operation of the manager runs to its
  end before the next one starts.
\<close>

section \<open>The tables\<close>

text \<open>The rows of both databases; \<open>'t\<close> is how a date is kept.\<close>

record 't syncSong =
  ys_id :: string
  ys_title :: string
  ys_artist :: "string option"
  ys_album :: "string option"
  ys_year :: "string option"
  ys_language :: "string option"
  ys_tags :: "string option"
  ys_deletedAt :: "'t option"
  ys_createdAt :: 't
  ys_updatedAt :: 't

record 't syncBlock =
  yb_id :: string
  yb_songId :: string
  yb_order :: int
  yb_type :: string
  yb_title :: "string option"
  yb_content :: string
  yb_createdAt :: 't
  yb_updatedAt :: 't

record 't syncPlan =
  yp_id :: string
  yp_date :: 't
  yp_title :: "string option"
  yp_backgroundConfig :: "string option"
  yp_deletedAt :: "'t option"
  yp_createdAt :: 't
  yp_updatedAt :: 't

record 't syncItem =
  yi_id :: string
  yi_planId :: string
  yi_order :: int
  yi_kind :: string
  yi_refId :: "string option"
  yi_refSubId :: "string option"
  yi_songId :: "string option"
  yi_title :: "string option"
  yi_content :: "string option"
  yi_notes :: "string option"
  yi_mediaPath :: "string option"
  yi_secondaryContent :: "string option"
  yi_backgroundConfig :: "string option"
  yi_createdAt :: 't
  yi_updatedAt :: 't

record 't syncTables =
  yt_songs :: "'t syncSong list"
  yt_blocks :: "'t syncBlock list"
  yt_plans :: "'t syncPlan list"
  yt_items :: "'t syncItem list"

definition noRows :: "'t syncTables" where
  "noRows = \<lparr>yt_songs = [], yt_blocks = [], yt_plans = [], yt_items = []\<rparr>"

text \<open>The insertions with the primary keys, unique keys and foreign keys of the schemas\<close>

definition insertSong :: "'t syncSong \<Rightarrow> 't syncTables \<Rightarrow> failure + 't syncTables" where
  "insertSong r t =
     (if ys_id r \<in> ys_id ` set (yt_songs t) then Inl (Prisma P2002)
      else Inr (t\<lparr>yt_songs := yt_songs t @ [r]\<rparr>))"

definition insertBlock :: "'t syncBlock \<Rightarrow> 't syncTables \<Rightarrow> failure + 't syncTables" where
  "insertBlock r t =
     (if yb_id r \<in> yb_id ` set (yt_blocks t)
         \<or> (yb_songId r, yb_order r) \<in> (\<lambda>b. (yb_songId b, yb_order b)) ` set (yt_blocks t)
      then Inl (Prisma P2002)
      else if yb_songId r \<notin> ys_id ` set (yt_songs t) then Inl (Prisma P2003)
      else Inr (t\<lparr>yt_blocks := yt_blocks t @ [r]\<rparr>))"

definition insertPlan :: "'t syncPlan \<Rightarrow> 't syncTables \<Rightarrow> failure + 't syncTables" where
  "insertPlan r t =
     (if yp_id r \<in> yp_id ` set (yt_plans t) \<or> yp_date r \<in> yp_date ` set (yt_plans t)
      then Inl (Prisma P2002)
      else Inr (t\<lparr>yt_plans := yt_plans t @ [r]\<rparr>))"

definition insertItem :: "'t syncItem \<Rightarrow> 't syncTables \<Rightarrow> failure + 't syncTables" where
  "insertItem r t =
     (if yi_id r \<in> yi_id ` set (yt_items t)
         \<or> (yi_planId r, yi_order r) \<in> (\<lambda>i. (yi_planId i, yi_order i)) ` set (yt_items t)
      then Inl (Prisma P2002)
      else if yi_planId r \<notin> yp_id ` set (yt_plans t)
         \<or> (\<exists>i \<in> set_option (yi_songId r). i \<notin> ys_id ` set (yt_songs t))
      then Inl (Prisma P2003)
      else Inr (t\<lparr>yt_items := yt_items t @ [r]\<rparr>))"

fun insertAll :: "('a \<Rightarrow> 'u \<Rightarrow> failure + 'u) \<Rightarrow> 'a list \<Rightarrow> 'u \<Rightarrow> failure + 'u" where
  "insertAll ins [] t = Inr t"
| "insertAll ins (x # xs) t = andThen (ins x t) (insertAll ins xs)"

text \<open>A song with its blocks, a plan with its items\<close>

definition insertSongTree ::
  "'t syncSong \<times> 't syncBlock list \<Rightarrow> 't syncTables \<Rightarrow> failure + 't syncTables" where
  "insertSongTree = (\<lambda>(s, bs) t. andThen (insertSong s t) (insertAll insertBlock bs))"

definition insertPlanTree ::
  "'t syncPlan \<times> 't syncItem list \<Rightarrow> 't syncTables \<Rightarrow> failure + 't syncTables" where
  "insertPlanTree = (\<lambda>(p, is) t. andThen (insertPlan p t) (insertAll insertItem is))"

section \<open>The client of the server\<close>

text \<open>\<open>pg_songs\<close> and \<open>pg_plans\<close> are \<open>findMany\<close> with \<open>include\<close>; the creations are nested.\<close>

record 'pg pgClient =
  pg_check :: "'pg \<Rightarrow> bool"
  pg_songs :: "'pg \<Rightarrow> failure + (int syncSong \<times> int syncBlock list) list"
  pg_plans :: "'pg \<Rightarrow> failure + (int syncPlan \<times> int syncItem list) list"
  pg_findSong :: "'pg \<Rightarrow> string \<Rightarrow> failure + int syncSong option"
  pg_findPlan :: "'pg \<Rightarrow> string \<Rightarrow> failure + int syncPlan option"
  pg_createSong :: "'pg \<Rightarrow> int syncSong \<times> int syncBlock list \<Rightarrow> failure + 'pg"
  pg_createPlan :: "'pg \<Rightarrow> int syncPlan \<times> int syncItem list \<Rightarrow> failure + 'pg"

definition songTrees :: "'t syncTables \<Rightarrow> ('t syncSong \<times> 't syncBlock list) list" where
  "songTrees t = map (\<lambda>s. (s, filter (\<lambda>b. yb_songId b = ys_id s) (yt_blocks t))) (yt_songs t)"

definition planTrees :: "'t syncTables \<Rightarrow> ('t syncPlan \<times> 't syncItem list) list" where
  "planTrees t = map (\<lambda>p. (p, filter (\<lambda>i. yi_planId i = yp_id p) (yt_items t))) (yt_plans t)"

section \<open>Pull\<close>

text \<open>
  What SQLite keeps as a date: the text that this code writes, or the milliseconds that the
  Prisma client of the application writes.
\<close>

datatype stamp = IsoText string | EpochMs int

definition isoStamp :: "int \<Rightarrow> stamp" where
  "isoStamp t = IsoText (toISOString t)"

definition songCopy :: "int syncSong \<Rightarrow> stamp syncSong" where
  "songCopy s = \<lparr>ys_id = ys_id s, ys_title = ys_title s, ys_artist = ys_artist s, ys_album = ys_album s,
     ys_year = ys_year s, ys_language = ys_language s, ys_tags = ys_tags s,
     ys_deletedAt = map_option isoStamp (ys_deletedAt s), ys_createdAt = isoStamp (ys_createdAt s),
     ys_updatedAt = isoStamp (ys_updatedAt s)\<rparr>"

definition blockCopy :: "int syncBlock \<Rightarrow> stamp syncBlock" where
  "blockCopy b = \<lparr>yb_id = yb_id b, yb_songId = yb_songId b, yb_order = yb_order b, yb_type = yb_type b,
     yb_title = yb_title b, yb_content = yb_content b, yb_createdAt = isoStamp (yb_createdAt b),
     yb_updatedAt = isoStamp (yb_updatedAt b)\<rparr>"

definition planCopy :: "int syncPlan \<Rightarrow> stamp syncPlan" where
  "planCopy p = \<lparr>yp_id = yp_id p, yp_date = isoStamp (yp_date p), yp_title = yp_title p,
     yp_backgroundConfig = yp_backgroundConfig p,
     yp_deletedAt = map_option isoStamp (yp_deletedAt p), yp_createdAt = isoStamp (yp_createdAt p),
     yp_updatedAt = isoStamp (yp_updatedAt p)\<rparr>"

definition itemCopy :: "int syncItem \<Rightarrow> stamp syncItem" where
  "itemCopy i = \<lparr>yi_id = yi_id i, yi_planId = yi_planId i, yi_order = yi_order i, yi_kind = yi_kind i,
     yi_refId = yi_refId i, yi_refSubId = yi_refSubId i, yi_songId = yi_songId i,
     yi_title = yi_title i, yi_content = yi_content i, yi_notes = yi_notes i,
     yi_mediaPath = yi_mediaPath i, yi_secondaryContent = yi_secondaryContent i,
     yi_backgroundConfig = yi_backgroundConfig i, yi_createdAt = isoStamp (yi_createdAt i),
     yi_updatedAt = isoStamp (yi_updatedAt i)\<rparr>"

text \<open>The transaction: the tables are emptied and filled; an error rolls it back.\<close>

definition replaceAllRows ::
  "(int syncSong \<times> int syncBlock list) list \<Rightarrow> (int syncPlan \<times> int syncItem list) list
     \<Rightarrow> stamp syncTables \<Rightarrow> failure + stamp syncTables" where
  "replaceAllRows songs plans local =
     andThen (insertAll insertSongTree (map (\<lambda>(s, bs). (songCopy s, map blockCopy bs)) songs)
        (local\<lparr>yt_songs := [], yt_blocks := [], yt_plans := [], yt_items := []\<rparr>))
       (insertAll insertPlanTree (map (\<lambda>(p, is). (planCopy p, map itemCopy is)) plans))"

definition pullFromPostgres ::
  "'pg pgClient \<Rightarrow> 'pg \<Rightarrow> stamp syncTables \<Rightarrow> failure + stamp syncTables" where
  "pullFromPostgres G pg local =
     andThen (pg_songs G pg) (\<lambda>songs. andThen (pg_plans G pg) (\<lambda>plans.
       replaceAllRows songs plans local))"

section \<open>Push\<close>

text \<open>
  \<open>updatedAt > ?\<close> with a text as its argument: SQLite compares texts by their characters and
  puts every number before every text.
\<close>

fun updatedAfter :: "stamp \<Rightarrow> string \<Rightarrow> bool" where
  "updatedAfter (IsoText s) lastPullAt = lexordp (\<lambda>c d. (of_char c :: nat) < of_char d) lastPullAt s"
| "updatedAfter (EpochMs n) lastPullAt = False"

text \<open>\<open>new Date(value)\<close>; the engine's reading of a text is the parameter \<open>parse\<close>.\<close>

fun dateOfStamp :: "(string \<Rightarrow> int option) \<Rightarrow> stamp \<Rightarrow> int option" where
  "dateOfStamp parse (IsoText s) = parse s"
| "dateOfStamp parse (EpochMs n) = Some n"

text \<open>The client refuses an invalid date.\<close>

definition validDate :: "(string \<Rightarrow> int option) \<Rightarrow> stamp \<Rightarrow> failure + int" where
  "validDate parse st =
     (case dateOfStamp parse st of None \<Rightarrow> Inl (ErrorMsg ''Invalid Date'') | Some t \<Rightarrow> Inr t)"

definition validDateOption :: "(string \<Rightarrow> int option) \<Rightarrow> stamp option \<Rightarrow> failure + int option" where
  "validDateOption parse st =
     (case st of None \<Rightarrow> Inr None | Some s \<Rightarrow> andThen (validDate parse s) (\<lambda>t. Inr (Some t)))"

definition remoteSong :: "(string \<Rightarrow> int option) \<Rightarrow> stamp syncSong \<Rightarrow> failure + int syncSong" where
  "remoteSong parse s =
     andThen (validDateOption parse (ys_deletedAt s)) (\<lambda>deletedAt.
     andThen (validDate parse (ys_createdAt s)) (\<lambda>createdAt.
     andThen (validDate parse (ys_updatedAt s)) (\<lambda>updatedAt.
       Inr \<lparr>ys_id = ys_id s, ys_title = ys_title s, ys_artist = ys_artist s, ys_album = ys_album s,
         ys_year = ys_year s, ys_language = ys_language s, ys_tags = ys_tags s,
         ys_deletedAt = deletedAt, ys_createdAt = createdAt, ys_updatedAt = updatedAt\<rparr>)))"

definition remoteBlock ::
  "(string \<Rightarrow> int option) \<Rightarrow> string \<Rightarrow> stamp syncBlock \<Rightarrow> failure + int syncBlock" where
  "remoteBlock parse songId b =
     andThen (validDate parse (yb_createdAt b)) (\<lambda>createdAt.
     andThen (validDate parse (yb_updatedAt b)) (\<lambda>updatedAt.
       Inr \<lparr>yb_id = yb_id b, yb_songId = songId, yb_order = yb_order b, yb_type = yb_type b,
         yb_title = yb_title b, yb_content = yb_content b, yb_createdAt = createdAt,
         yb_updatedAt = updatedAt\<rparr>))"

definition remotePlan :: "(string \<Rightarrow> int option) \<Rightarrow> stamp syncPlan \<Rightarrow> failure + int syncPlan" where
  "remotePlan parse p =
     andThen (validDate parse (yp_date p)) (\<lambda>date.
     andThen (validDateOption parse (yp_deletedAt p)) (\<lambda>deletedAt.
     andThen (validDate parse (yp_createdAt p)) (\<lambda>createdAt.
     andThen (validDate parse (yp_updatedAt p)) (\<lambda>updatedAt.
       Inr \<lparr>yp_id = yp_id p, yp_date = date, yp_title = yp_title p,
         yp_backgroundConfig = yp_backgroundConfig p, yp_deletedAt = deletedAt,
         yp_createdAt = createdAt, yp_updatedAt = updatedAt\<rparr>))))"

definition remoteItem ::
  "(string \<Rightarrow> int option) \<Rightarrow> string \<Rightarrow> stamp syncItem \<Rightarrow> failure + int syncItem" where
  "remoteItem parse planId i =
     andThen (validDate parse (yi_createdAt i)) (\<lambda>createdAt.
     andThen (validDate parse (yi_updatedAt i)) (\<lambda>updatedAt.
       Inr \<lparr>yi_id = yi_id i, yi_planId = planId, yi_order = yi_order i, yi_kind = yi_kind i,
         yi_refId = yi_refId i, yi_refSubId = yi_refSubId i, yi_songId = yi_songId i,
         yi_title = yi_title i, yi_content = yi_content i, yi_notes = yi_notes i,
         yi_mediaPath = yi_mediaPath i, yi_secondaryContent = yi_secondaryContent i,
         yi_backgroundConfig = yi_backgroundConfig i, yi_createdAt = createdAt,
         yi_updatedAt = updatedAt\<rparr>))"

text \<open>
  \<open>pushed\<close> and \<open>overwritten\<close> are counted; every creation stays on the server, also when a later
  step fails.
\<close>

definition songWithDates ::
  "(string \<Rightarrow> int option) \<Rightarrow> stamp syncTables \<Rightarrow> stamp syncSong
     \<Rightarrow> failure + int syncSong \<times> int syncBlock list" where
  "songWithDates parse local s =
     andThen (remoteSong parse s) (\<lambda>r.
     andThen (traverse (\<lambda>_. remoteBlock parse (ys_id s))
         (sort_key yb_order (filter (\<lambda>b. yb_songId b = ys_id s) (yt_blocks local)))) (\<lambda>bs.
       Inr (r, bs)))"

definition planWithDates ::
  "(string \<Rightarrow> int option) \<Rightarrow> stamp syncTables \<Rightarrow> stamp syncPlan
     \<Rightarrow> failure + int syncPlan \<times> int syncItem list" where
  "planWithDates parse local p =
     andThen (remotePlan parse p) (\<lambda>r.
     andThen (traverse (\<lambda>_. remoteItem parse (yp_id p))
         (sort_key yi_order (filter (\<lambda>i. yi_planId i = yp_id p) (yt_items local)))) (\<lambda>is.
       Inr (r, is)))"

definition localNewer :: "(string \<Rightarrow> int option) \<Rightarrow> stamp \<Rightarrow> int \<Rightarrow> bool" where
  "localNewer parse st t = (case dateOfStamp parse st of None \<Rightarrow> False | Some u \<Rightarrow> t < u)"

type_synonym pushResult = "nat \<times> nat"

definition pushSong ::
  "'pg pgClient \<Rightarrow> (string \<Rightarrow> int option) \<Rightarrow> stamp syncTables \<Rightarrow> stamp syncSong
     \<Rightarrow> 'pg \<Rightarrow> failure + pushResult \<times> 'pg" where
  "pushSong G parse local s pg =
     andThen (pg_findSong G pg (ys_id s)) (\<lambda>remote.
       case remote of
         None \<Rightarrow> andThen (songWithDates parse local s) (\<lambda>data.
                   andThen (pg_createSong G pg data) (\<lambda>pg. Inr ((1, 0), pg)))
       | Some r \<Rightarrow> Inr ((0, if localNewer parse (ys_updatedAt s) (ys_updatedAt r) then 1 else 0), pg))"

definition pushPlan ::
  "'pg pgClient \<Rightarrow> (string \<Rightarrow> int option) \<Rightarrow> stamp syncTables \<Rightarrow> stamp syncPlan
     \<Rightarrow> 'pg \<Rightarrow> failure + pushResult \<times> 'pg" where
  "pushPlan G parse local p pg =
     andThen (pg_findPlan G pg (yp_id p)) (\<lambda>remote.
       case remote of
         None \<Rightarrow> andThen (planWithDates parse local p) (\<lambda>data.
                   andThen (pg_createPlan G pg data) (\<lambda>pg. Inr ((1, 0), pg)))
       | Some r \<Rightarrow> Inr ((0, if localNewer parse (yp_updatedAt p) (yp_updatedAt r) then 1 else 0), pg))"

fun pushEach ::
  "('r \<Rightarrow> 'pg \<Rightarrow> failure + pushResult \<times> 'pg) \<Rightarrow> 'r list \<Rightarrow> pushResult \<times> 'pg
     \<Rightarrow> (failure + pushResult) \<times> 'pg" where
  "pushEach push [] (n, pg) = (Inr n, pg)"
| "pushEach push (r # rs) (n, pg) =
     (case push r pg of
        Inl e \<Rightarrow> (Inl e, pg)
      | Inr (m, pg) \<Rightarrow> pushEach push rs ((fst n + fst m, snd n + snd m), pg))"

definition pushRows ::
  "'pg pgClient \<Rightarrow> (string \<Rightarrow> int option) \<Rightarrow> string \<Rightarrow> stamp syncTables \<Rightarrow> 'pg
     \<Rightarrow> (failure + pushResult) \<times> 'pg" where
  "pushRows G parse lastPullAt local pg =
     (case pushEach (pushSong G parse local)
             (filter (\<lambda>s. updatedAfter (ys_updatedAt s) lastPullAt) (yt_songs local)) ((0, 0), pg) of
        (Inl e, pg) \<Rightarrow> (Inl e, pg)
      | (Inr n, pg) \<Rightarrow> pushEach (pushPlan G parse local)
             (filter (\<lambda>p. updatedAfter (yp_updatedAt p) lastPullAt) (yt_plans local)) (n, pg))"

section \<open>The manager\<close>

datatype connectionState = ONLINE | OFFLINE | SYNCING | SYNC_ERROR

datatype syncEvent = StateChange connectionState | ConflictWarning nat string

text \<open>\<open>sync.json\<close>; a file that cannot be read has neither entry.\<close>

record syncFile =
  sy_lastPullAt :: "string option"
  sy_lastPushAt :: "string option"

record 'pg syncState =
  st_state :: connectionState
  st_file :: syncFile
  st_local :: "stamp syncTables"
  st_pg :: 'pg
  st_events :: "syncEvent list"

definition getLastPullTimestamp :: "syncFile \<Rightarrow> string" where
  "getLastPullTimestamp f = orElse (sy_lastPullAt f) (toISOString 0)"

definition saveLastPullTimestamp :: "int \<Rightarrow> 'pg syncState \<Rightarrow> 'pg syncState" where
  "saveLastPullTimestamp now s = s\<lparr>st_file := (st_file s)\<lparr>sy_lastPullAt := Some (toISOString now)\<rparr>\<rparr>"

definition saveLastPushTimestamp :: "int \<Rightarrow> 'pg syncState \<Rightarrow> 'pg syncState" where
  "saveLastPushTimestamp now s = s\<lparr>st_file := (st_file s)\<lparr>sy_lastPushAt := Some (toISOString now)\<rparr>\<rparr>"

definition broadcastToWindows :: "syncEvent \<Rightarrow> 'pg syncState \<Rightarrow> 'pg syncState" where
  "broadcastToWindows e s = s\<lparr>st_events := st_events s @ [e]\<rparr>"

definition setState :: "connectionState \<Rightarrow> 'pg syncState \<Rightarrow> 'pg syncState" where
  "setState c s = broadcastToWindows (StateChange c) (s\<lparr>st_state := c\<rparr>)"

definition pushOfflineChanges ::
  "'pg pgClient \<Rightarrow> (string \<Rightarrow> int option) \<Rightarrow> int \<Rightarrow> 'pg syncState
     \<Rightarrow> (failure + pushResult) \<times> 'pg syncState" where
  "pushOfflineChanges G parse now s =
     (case pushRows G parse (getLastPullTimestamp (st_file s)) (st_local s) (st_pg s) of
        (Inl e, pg) \<Rightarrow> (Inl e, s\<lparr>st_pg := pg\<rparr>)
      | (Inr n, pg) \<Rightarrow> (Inr n, saveLastPushTimestamp now (s\<lparr>st_pg := pg\<rparr>)))"

text \<open>A pull with the time stamp and the state that follow it\<close>

definition pullAndSave :: "'pg pgClient \<Rightarrow> int \<Rightarrow> 'pg syncState \<Rightarrow> 'pg syncState" where
  "pullAndSave G now s =
     (case pullFromPostgres G (st_pg s) (st_local s) of
        Inl e \<Rightarrow> setState SYNC_ERROR s
      | Inr local \<Rightarrow> setState ONLINE (saveLastPullTimestamp now (s\<lparr>st_local := local\<rparr>)))"

text \<open>\<open>initialize\<close>; \<open>url\<close> is \<open>DATABASE_URL_PG\<close>.\<close>

definition syncInitialize :: "'pg pgClient \<Rightarrow> string option \<Rightarrow> int \<Rightarrow> 'pg syncState \<Rightarrow> 'pg syncState" where
  "syncInitialize G url now s =
     (if orText url [] = [] \<or> sublist ''user:pass'' (orText url []) then setState OFFLINE s
      else if pg_check G (st_pg s) then pullAndSave G now (setState SYNCING s)
      else broadcastToWindows (StateChange OFFLINE) (setState OFFLINE s))"

definition conflictWarning :: "nat \<Rightarrow> syncEvent" where
  "conflictWarning overwritten = ConflictWarning overwritten
     (show_nat overwritten @ '' modification(s) locale(s) '' @ [CHR 0xE9] @ ''cras'' @ [CHR 0xE9]
        @ ''e(s) par la version serveur.'')"

text \<open>\<open>now1\<close> and \<open>now2\<close> are the tries at which the push and the pull are recorded.\<close>

definition checkAndReconnect ::
  "'pg pgClient \<Rightarrow> (string \<Rightarrow> int option) \<Rightarrow> int \<Rightarrow> int \<Rightarrow> 'pg syncState \<Rightarrow> 'pg syncState" where
  "checkAndReconnect G parse now1 now2 s =
     (if st_state s = ONLINE \<or> st_state s = SYNCING then s
      else if \<not> pg_check G (st_pg s) then s
      else (case pushOfflineChanges G parse now1 (setState SYNCING s) of
              (Inl e, s) \<Rightarrow> setState SYNC_ERROR s
            | (Inr (pushed, overwritten), s) \<Rightarrow>
                (let s = pullAndSave G now2 s
                 in if st_state s = ONLINE \<and> 0 < overwritten
                    then broadcastToWindows (conflictWarning overwritten) s else s)))"

definition periodicPull :: "'pg pgClient \<Rightarrow> int \<Rightarrow> 'pg syncState \<Rightarrow> 'pg syncState" where
  "periodicPull G now s =
     (if st_state s \<noteq> ONLINE then s else pullAndSave G now (setState SYNCING s))"

section \<open>The laws of the server\<close>

text \<open>An answer, when there is one, is that of the tables; a creation respects the keys.\<close>

locale pg_server =
  fixes G :: "'pg pgClient"
    and tables :: "'pg \<Rightarrow> int syncTables"
  assumes songs: "pg_songs G pg = Inr ss \<Longrightarrow> ss = songTrees (tables pg)"
    and plans: "pg_plans G pg = Inr ps \<Longrightarrow> ps = planTrees (tables pg)"
    and find_song: "pg_findSong G pg i = Inr r \<Longrightarrow> r = find (\<lambda>s. ys_id s = i) (yt_songs (tables pg))"
    and find_plan: "pg_findPlan G pg i = Inr q \<Longrightarrow> q = find (\<lambda>p. yp_id p = i) (yt_plans (tables pg))"
    and create_song: "pg_createSong G pg d = Inr pg' \<Longrightarrow> insertSongTree d (tables pg) = Inr (tables pg')"
    and create_plan: "pg_createPlan G pg e = Inr pg' \<Longrightarrow> insertPlanTree e (tables pg) = Inr (tables pg')"

text \<open>A server with tables and a connection that may be down\<close>

record serverState =
  sv_link :: bool
  sv_tables :: "int syncTables"

definition whenLinked :: "(serverState \<Rightarrow> failure + 'a) \<Rightarrow> serverState \<Rightarrow> failure + 'a" where
  "whenLinked f sv = (if sv_link sv then f sv else Inl (ErrorMsg ''Connection terminated''))"

definition serverClient :: "serverState pgClient" where
  "serverClient = \<lparr>pg_check = sv_link,
     pg_songs = whenLinked (\<lambda>sv. Inr (songTrees (sv_tables sv))),
     pg_plans = whenLinked (\<lambda>sv. Inr (planTrees (sv_tables sv))),
     pg_findSong = (\<lambda>sv i. whenLinked (\<lambda>sv. Inr (find (\<lambda>s. ys_id s = i) (yt_songs (sv_tables sv)))) sv),
     pg_findPlan = (\<lambda>sv i. whenLinked (\<lambda>sv. Inr (find (\<lambda>p. yp_id p = i) (yt_plans (sv_tables sv)))) sv),
     pg_createSong = (\<lambda>sv d. whenLinked (\<lambda>sv. andThen (insertSongTree d (sv_tables sv))
        (\<lambda>t. Inr (sv\<lparr>sv_tables := t\<rparr>))) sv),
     pg_createPlan = (\<lambda>sv d. whenLinked (\<lambda>sv. andThen (insertPlanTree d (sv_tables sv))
        (\<lambda>t. Inr (sv\<lparr>sv_tables := t\<rparr>))) sv)\<rparr>"

lemma server_pg: "pg_server serverClient sv_tables"
  by unfold_locales (auto simp: serverClient_def whenLinked_def andThen_Inr_iff split: if_splits)

interpretation server: pg_server serverClient sv_tables
  by (rule server_pg)

section \<open>Insertions\<close>

lemma insertSong_Inr:
  "insertSong r t = Inr t' \<longleftrightarrow> ys_id r \<notin> ys_id ` set (yt_songs t) \<and> t' = t\<lparr>yt_songs := yt_songs t @ [r]\<rparr>"
  by (auto simp: insertSong_def)

lemma insertPlan_Inr:
  "insertPlan r t = Inr t' \<longleftrightarrow> yp_id r \<notin> yp_id ` set (yt_plans t) \<and> yp_date r \<notin> yp_date ` set (yt_plans t)
     \<and> t' = t\<lparr>yt_plans := yt_plans t @ [r]\<rparr>"
  by (auto simp: insertPlan_def)

lemma insertBlocks_Inr:
  "insertAll insertBlock bs t = Inr t' \<Longrightarrow> t' = t\<lparr>yt_blocks := yt_blocks t @ bs\<rparr>"
  by (induction bs arbitrary: t) (fastforce simp: insertBlock_def andThen_Inr_iff split: if_splits)+

lemma insertItems_Inr:
  "insertAll insertItem is t = Inr t' \<Longrightarrow> t' = t\<lparr>yt_items := yt_items t @ is\<rparr>"
  by (induction "is" arbitrary: t) (fastforce simp: insertItem_def andThen_Inr_iff split: if_splits)+

lemma insertSongTree_Inr:
  "insertSongTree d t = Inr t' \<Longrightarrow> ys_id (fst d) \<notin> ys_id ` set (yt_songs t)
     \<and> t' = t\<lparr>yt_songs := yt_songs t @ [fst d], yt_blocks := yt_blocks t @ snd d\<rparr>"
  by (auto simp: insertSongTree_def andThen_Inr_iff insertSong_Inr case_prod_beta
      dest!: insertBlocks_Inr)

lemma insertPlanTree_Inr:
  "insertPlanTree d t = Inr t' \<Longrightarrow> yp_id (fst d) \<notin> yp_id ` set (yt_plans t)
     \<and> yp_date (fst d) \<notin> yp_date ` set (yt_plans t)
     \<and> t' = t\<lparr>yt_plans := yt_plans t @ [fst d], yt_items := yt_items t @ snd d\<rparr>"
  by (auto simp: insertPlanTree_def andThen_Inr_iff insertPlan_Inr case_prod_beta
      dest!: insertItems_Inr)

lemma insertSongTrees_Inr:
  "insertAll insertSongTree ds t = Inr t' \<Longrightarrow>
     t' = t\<lparr>yt_songs := yt_songs t @ map fst ds, yt_blocks := yt_blocks t @ concat (map snd ds)\<rparr>"
  by (induction ds arbitrary: t) (fastforce simp: andThen_Inr_iff dest!: insertSongTree_Inr)+

lemma insertPlanTrees_Inr:
  "insertAll insertPlanTree ds t = Inr t' \<Longrightarrow>
     t' = t\<lparr>yt_plans := yt_plans t @ map fst ds, yt_items := yt_items t @ concat (map snd ds)\<rparr>"
  by (induction ds arbitrary: t) (fastforce simp: andThen_Inr_iff dest!: insertPlanTree_Inr)+

text \<open>Rows that the keys admit are taken.\<close>

abbreviation blockSlot :: "'t syncBlock \<Rightarrow> string \<times> int" where
  "blockSlot b \<equiv> (yb_songId b, yb_order b)"

abbreviation itemSlot :: "'t syncItem \<Rightarrow> string \<times> int" where
  "itemSlot i \<equiv> (yi_planId i, yi_order i)"

lemma insertBlocks_fit:
  assumes "distinct (map yb_id (yt_blocks t @ bs))" and "distinct (map blockSlot (yt_blocks t @ bs))"
    and "yb_songId ` set bs \<subseteq> ys_id ` set (yt_songs t)"
  shows "insertAll insertBlock bs t = Inr (t\<lparr>yt_blocks := yt_blocks t @ bs\<rparr>)"
  using assms
proof (induction bs arbitrary: t)
  case (Cons b bs)
  have "insertBlock b t = Inr (t\<lparr>yt_blocks := yt_blocks t @ [b]\<rparr>)"
    using Cons.prems by (auto simp: insertBlock_def)
  with Cons.IH [of "t\<lparr>yt_blocks := yt_blocks t @ [b]\<rparr>"] Cons.prems show ?case by simp
qed simp

lemma insertItems_fit:
  assumes "distinct (map yi_id (yt_items t @ is))" and "distinct (map itemSlot (yt_items t @ is))"
    and "yi_planId ` set is \<subseteq> yp_id ` set (yt_plans t)"
    and "\<forall>i \<in> set is. set_option (yi_songId i) \<subseteq> ys_id ` set (yt_songs t)"
  shows "insertAll insertItem is t = Inr (t\<lparr>yt_items := yt_items t @ is\<rparr>)"
  using assms
proof (induction "is" arbitrary: t)
  case (Cons i "is")
  have "insertItem i t = Inr (t\<lparr>yt_items := yt_items t @ [i]\<rparr>)"
    using Cons.prems by (auto simp: insertItem_def)
  with Cons.IH [of "t\<lparr>yt_items := yt_items t @ [i]\<rparr>"] Cons.prems show ?case by simp
qed simp

lemma insertSongTrees_fit:
  assumes "distinct (map ys_id (yt_songs t @ map fst ds))"
    and "distinct (map yb_id (yt_blocks t @ concat (map snd ds)))"
    and "distinct (map blockSlot (yt_blocks t @ concat (map snd ds)))"
    and "\<forall>d \<in> set ds. \<forall>b \<in> set (snd d). yb_songId b = ys_id (fst d)"
  shows "insertAll insertSongTree ds t
    = Inr (t\<lparr>yt_songs := yt_songs t @ map fst ds, yt_blocks := yt_blocks t @ concat (map snd ds)\<rparr>)"
  using assms
proof (induction ds arbitrary: t)
  case (Cons d ds)
  obtain s bs where d: "d = (s, bs)" by (cases d)
  let ?t = "t\<lparr>yt_songs := yt_songs t @ [s]\<rparr>"
  have "insertAll insertBlock bs ?t = Inr (?t\<lparr>yt_blocks := yt_blocks t @ bs\<rparr>)"
    using Cons.prems by (subst insertBlocks_fit) (auto simp: d)
  then have "insertSongTree d t = Inr (?t\<lparr>yt_blocks := yt_blocks t @ bs\<rparr>)"
    using Cons.prems(1) by (auto simp: d insertSongTree_def insertSong_def)
  with Cons.IH [of "?t\<lparr>yt_blocks := yt_blocks t @ bs\<rparr>"] Cons.prems show ?case
    by (simp add: d)
qed simp

lemma insertPlanTrees_fit:
  assumes "distinct (map yp_id (yt_plans t @ map fst ds))"
    and "distinct (map yp_date (yt_plans t @ map fst ds))"
    and "distinct (map yi_id (yt_items t @ concat (map snd ds)))"
    and "distinct (map itemSlot (yt_items t @ concat (map snd ds)))"
    and "\<forall>d \<in> set ds. \<forall>i \<in> set (snd d).
           yi_planId i = yp_id (fst d) \<and> set_option (yi_songId i) \<subseteq> ys_id ` set (yt_songs t)"
  shows "insertAll insertPlanTree ds t
    = Inr (t\<lparr>yt_plans := yt_plans t @ map fst ds, yt_items := yt_items t @ concat (map snd ds)\<rparr>)"
  using assms
proof (induction ds arbitrary: t)
  case (Cons d ds)
  obtain p "is" where d: "d = (p, is)" by (cases d)
  let ?t = "t\<lparr>yt_plans := yt_plans t @ [p]\<rparr>"
  have "insertAll insertItem is ?t = Inr (?t\<lparr>yt_items := yt_items t @ is\<rparr>)"
    using Cons.prems by (subst insertItems_fit) (auto simp: d)
  then have "insertPlanTree d t = Inr (?t\<lparr>yt_items := yt_items t @ is\<rparr>)"
    using Cons.prems(1,2) by (auto simp: d insertPlanTree_def insertPlan_def)
  with Cons.IH [of "?t\<lparr>yt_items := yt_items t @ is\<rparr>"] Cons.prems show ?case
    by (simp add: d)
qed simp

section \<open>What a pull leaves\<close>

text \<open>
  The rows of the two databases side by side, column by column; a date of the local table is the
  text of the server's.
\<close>

definition dateText :: "int \<Rightarrow> stamp \<Rightarrow> bool" where
  "dateText t st \<longleftrightarrow> st = IsoText (toISOString t)"

definition songMirrored :: "int syncSong \<Rightarrow> stamp syncSong \<Rightarrow> bool" where
  "songMirrored s r \<longleftrightarrow>
     ys_id r = ys_id s \<and> ys_title r = ys_title s \<and> ys_artist r = ys_artist s \<and> ys_album r = ys_album s
     \<and> ys_year r = ys_year s \<and> ys_language r = ys_language s \<and> ys_tags r = ys_tags s
     \<and> rel_option dateText (ys_deletedAt s) (ys_deletedAt r) \<and> dateText (ys_createdAt s) (ys_createdAt r)
     \<and> dateText (ys_updatedAt s) (ys_updatedAt r)"

definition blockMirrored :: "int syncBlock \<Rightarrow> stamp syncBlock \<Rightarrow> bool" where
  "blockMirrored b r \<longleftrightarrow>
     yb_id r = yb_id b \<and> yb_songId r = yb_songId b \<and> yb_order r = yb_order b \<and> yb_type r = yb_type b
     \<and> yb_title r = yb_title b \<and> yb_content r = yb_content b
     \<and> dateText (yb_createdAt b) (yb_createdAt r) \<and> dateText (yb_updatedAt b) (yb_updatedAt r)"

definition planMirrored :: "int syncPlan \<Rightarrow> stamp syncPlan \<Rightarrow> bool" where
  "planMirrored p r \<longleftrightarrow>
     yp_id r = yp_id p \<and> yp_title r = yp_title p \<and> yp_backgroundConfig r = yp_backgroundConfig p
     \<and> rel_option dateText (yp_deletedAt p) (yp_deletedAt r) \<and> dateText (yp_date p) (yp_date r)
     \<and> dateText (yp_createdAt p) (yp_createdAt r) \<and> dateText (yp_updatedAt p) (yp_updatedAt r)"

definition itemMirrored :: "int syncItem \<Rightarrow> stamp syncItem \<Rightarrow> bool" where
  "itemMirrored i r \<longleftrightarrow>
     yi_id r = yi_id i \<and> yi_planId r = yi_planId i \<and> yi_order r = yi_order i \<and> yi_kind r = yi_kind i
     \<and> yi_refId r = yi_refId i \<and> yi_refSubId r = yi_refSubId i \<and> yi_songId r = yi_songId i
     \<and> yi_title r = yi_title i \<and> yi_content r = yi_content i \<and> yi_notes r = yi_notes i
     \<and> yi_mediaPath r = yi_mediaPath i \<and> yi_secondaryContent r = yi_secondaryContent i
     \<and> yi_backgroundConfig r = yi_backgroundConfig i \<and> dateText (yi_createdAt i) (yi_createdAt r)
     \<and> dateText (yi_updatedAt i) (yi_updatedAt r)"

lemma mirrored_copy:
  "songMirrored s r \<longleftrightarrow> r = songCopy s" "blockMirrored b x \<longleftrightarrow> x = blockCopy b"
  "planMirrored p q \<longleftrightarrow> q = planCopy p" "itemMirrored i y \<longleftrightarrow> y = itemCopy i"
  by (cases r, auto simp: songMirrored_def songCopy_def dateText_def isoStamp_def option_rel_Some1 rel_option_iff
      split: option.splits)
    (cases x, auto simp: blockMirrored_def blockCopy_def dateText_def isoStamp_def,
     cases q, auto simp: planMirrored_def planCopy_def dateText_def isoStamp_def rel_option_iff split: option.splits,
     cases y, auto simp: itemMirrored_def itemCopy_def dateText_def isoStamp_def)

lemma list_all2_of_map: "(\<And>x y. R x y \<longleftrightarrow> y = f x) \<Longrightarrow> list_all2 R xs ys \<longleftrightarrow> ys = map f xs"
  by (induction xs arbitrary: ys) (auto simp: list_all2_Cons1)

lemmas mirrored_map =
  list_all2_of_map [of songMirrored, OF mirrored_copy(1)] list_all2_of_map [of blockMirrored, OF mirrored_copy(2)]
  list_all2_of_map [of planMirrored, OF mirrored_copy(3)] list_all2_of_map [of itemMirrored, OF mirrored_copy(4)]

text \<open>
  \<open>copyOf t u\<close>: the local tables \<open>u\<close> are the rows of \<open>t\<close>, the blocks and items in the order of
  their songs and plans.
\<close>

definition copyOf :: "int syncTables \<Rightarrow> stamp syncTables \<Rightarrow> bool" where
  "copyOf t u \<longleftrightarrow>
     list_all2 songMirrored (yt_songs t) (yt_songs u) \<and> list_all2 planMirrored (yt_plans t) (yt_plans u)
     \<and> list_all2 blockMirrored (concat (map snd (songTrees t))) (yt_blocks u)
     \<and> list_all2 itemMirrored (concat (map snd (planTrees t))) (yt_items u)"

lemma copyOf_maps:
  "copyOf t u \<longleftrightarrow>
     yt_songs u = map songCopy (yt_songs t) \<and> yt_plans u = map planCopy (yt_plans t)
     \<and> yt_blocks u = map blockCopy (concat (map snd (songTrees t)))
     \<and> yt_items u = map itemCopy (concat (map snd (planTrees t)))"
  by (simp only: copyOf_def mirrored_map)

text \<open>The keys of the tables, with dates that differ also as texts\<close>

definition serverOk :: "int syncTables \<Rightarrow> bool" where
  "serverOk t \<longleftrightarrow> distinct (map ys_id (yt_songs t))
     \<and> distinct (map yb_id (yt_blocks t)) \<and> distinct (map blockSlot (yt_blocks t))
     \<and> (\<forall>b \<in> set (yt_blocks t). yb_songId b \<in> ys_id ` set (yt_songs t))
     \<and> distinct (map yp_id (yt_plans t)) \<and> distinct (map (toISOString \<circ> yp_date) (yt_plans t))
     \<and> distinct (map yi_id (yt_items t)) \<and> distinct (map itemSlot (yt_items t))
     \<and> (\<forall>i \<in> set (yt_items t). yi_planId i \<in> yp_id ` set (yt_plans t)
          \<and> set_option (yi_songId i) \<subseteq> ys_id ` set (yt_songs t))"

text \<open>Rows grouped by the row they belong to are the same rows.\<close>

lemma mset_grouped:
  assumes "distinct (map g ss)" and "\<forall>b \<in> set bs. f b \<in> g ` set ss"
  shows "mset (concat (map (\<lambda>s. filter (\<lambda>b. f b = g s) bs) ss)) = mset bs"
  using assms
proof (induction ss arbitrary: bs)
  case (Cons s ss)
  let ?rest = "filter (\<lambda>b. f b \<noteq> g s) bs"
  have "map (\<lambda>s. filter (\<lambda>b. f b = g s) bs) ss = map (\<lambda>s. filter (\<lambda>b. f b = g s) ?rest) ss"
    using Cons.prems(1) by (auto simp: image_iff intro!: filter_cong)
  moreover have "mset (concat (map (\<lambda>s. filter (\<lambda>b. f b = g s) ?rest) ss)) = mset ?rest"
    using Cons.prems by (intro Cons.IH) auto
  ultimately have "mset (concat (map (\<lambda>s. filter (\<lambda>b. f b = g s) bs) ss)) = mset ?rest"
    by (simp only:)
  then have "mset (concat (map (\<lambda>s. filter (\<lambda>b. f b = g s) bs) (s # ss)))
      = mset (filter (\<lambda>b. f b = g s) bs) + mset ?rest"
    by (simp only: list.map concat.simps mset_append)
  also have "\<dots> = mset bs"
    using multiset_partition [of "mset bs" "\<lambda>b. f b = g s"] by (simp only: mset_filter)
  finally show ?case .
qed simp

lemma distinct_regrouped: "mset xs = mset ys \<Longrightarrow> distinct (map f ys) \<Longrightarrow> distinct (map f xs)"
  by (metis mset_eq_imp_distinct_iff mset_map)

lemma copies_simps [simp]:
  "ys_id (songCopy s) = ys_id s" "yb_id (blockCopy b) = yb_id b" "yb_songId (blockCopy b) = yb_songId b"
  "yb_order (blockCopy b) = yb_order b" "yp_id (planCopy p) = yp_id p"
  "yp_date (planCopy p) = isoStamp (yp_date p)" "yi_id (itemCopy i) = yi_id i"
  "yi_planId (itemCopy i) = yi_planId i" "yi_order (itemCopy i) = yi_order i"
  "yi_songId (itemCopy i) = yi_songId i"
  by (simp_all add: songCopy_def blockCopy_def planCopy_def itemCopy_def)

lemma trees_mset:
  assumes "serverOk t"
  shows "mset (concat (map snd (songTrees t))) = mset (yt_blocks t)"
    and "mset (concat (map snd (planTrees t))) = mset (yt_items t)"
  using assms mset_grouped [of ys_id "yt_songs t" "yt_blocks t" yb_songId]
    mset_grouped [of yp_id "yt_plans t" "yt_items t" yi_planId]
  by (simp_all add: serverOk_def songTrees_def planTrees_def comp_def)

lemma concat_map_snd: "concat (map snd (map (\<lambda>(x, ys). (f x, map g ys)) ds)) = map g (concat (map snd ds))"
  by (induction ds) auto

lemma map_fst_trees: "map fst (map (\<lambda>(x, ys). (f x, h ys)) ds) = map f (map fst ds)"
  by (simp add: case_prod_beta)

lemma fst_trees [simp]: "map fst (songTrees t) = yt_songs t" "map fst (planTrees t) = yt_plans t"
  by (simp_all add: songTrees_def planTrees_def comp_def)

lemma replaceAll_copies:
  assumes "replaceAllRows (songTrees t) (planTrees t) local = Inr u"
  shows "copyOf t u"
  using assms
proof -
  let ?ss = "map (\<lambda>(s, bs). (songCopy s, map blockCopy bs)) (songTrees t)"
  let ?ps = "map (\<lambda>(p, is). (planCopy p, map itemCopy is)) (planTrees t)"
  obtain v where v: "insertAll insertSongTree ?ss
        (local\<lparr>yt_songs := [], yt_blocks := [], yt_plans := [], yt_items := []\<rparr>) = Inr v"
      "insertAll insertPlanTree ?ps v = Inr u"
    using assms by (auto simp: replaceAllRows_def andThen_Inr_iff)
  have "map fst ?ss = map songCopy (yt_songs t)" "map fst ?ps = map planCopy (yt_plans t)"
    by (simp_all only: map_fst_trees fst_trees)
  then show ?thesis
    using insertSongTrees_Inr [OF v(1)] insertPlanTrees_Inr [OF v(2)]
    by (simp add: copyOf_maps concat_map_snd del: map_map)
qed

lemma replaceAll_fits:
  assumes "serverOk t"
  shows "\<exists>u. replaceAllRows (songTrees t) (planTrees t) local = Inr u"
proof -
  let ?e = "local\<lparr>yt_songs := [], yt_blocks := [], yt_plans := [], yt_items := []\<rparr>"
  let ?ss = "map (\<lambda>(s, bs). (songCopy s, map blockCopy bs)) (songTrees t)"
  let ?ps = "map (\<lambda>(p, is). (planCopy p, map itemCopy is)) (planTrees t)"
  have blocks: "distinct (map yb_id (concat (map snd (songTrees t))))"
      "distinct (map blockSlot (concat (map snd (songTrees t))))"
    using assms by (auto simp: serverOk_def intro!: distinct_regrouped [OF trees_mset(1) [OF assms]])
  have items: "distinct (map yi_id (concat (map snd (planTrees t))))"
      "distinct (map itemSlot (concat (map snd (planTrees t))))"
    using assms by (auto simp: serverOk_def intro!: distinct_regrouped [OF trees_mset(2) [OF assms]])
  have songs: "insertAll insertSongTree ?ss ?e
      = Inr (?e\<lparr>yt_songs := map fst ?ss, yt_blocks := concat (map snd ?ss)\<rparr>)"
  proof (subst insertSongTrees_fit)
    show "distinct (map ys_id (yt_songs ?e @ map fst ?ss))"
      using assms by (simp add: serverOk_def map_fst_trees comp_def del: map_map) (simp add: comp_def)
    show "distinct (map yb_id (yt_blocks ?e @ concat (map snd ?ss)))"
      "distinct (map blockSlot (yt_blocks ?e @ concat (map snd ?ss)))"
      using blocks by (simp_all only: concat_map_snd) (simp_all add: comp_def)
    show "\<forall>d \<in> set ?ss. \<forall>b \<in> set (snd d). yb_songId b = ys_id (fst d)"
      by (auto simp: songTrees_def)
  qed simp
  have date: "distinct (map (\<lambda>p. isoStamp (yp_date p)) (yt_plans t))"
    using assms by (auto simp: serverOk_def isoStamp_def distinct_map inj_on_def)
  have "insertAll insertPlanTree ?ps (?e\<lparr>yt_songs := map fst ?ss, yt_blocks := concat (map snd ?ss)\<rparr>)
      = Inr (?e\<lparr>yt_songs := map fst ?ss, yt_blocks := concat (map snd ?ss), yt_plans := map fst ?ps,
               yt_items := concat (map snd ?ps)\<rparr>)"
  proof (subst insertPlanTrees_fit, goal_cases)
    case 1
    then show ?case
      using assms by (simp add: serverOk_def map_fst_trees comp_def del: map_map) (simp add: comp_def)
  next
    case 2
    then show ?case
      using date by (simp add: map_fst_trees comp_def del: map_map) (simp add: comp_def)
  next
    case 3
    then show ?case using items(1) by (simp only: concat_map_snd) (simp add: comp_def)
  next
    case 4
    then show ?case using items(2) by (simp only: concat_map_snd) (simp add: comp_def)
  next
    case 5
    have fk: "\<forall>i \<in> set (yt_items t). set_option (yi_songId i) \<subseteq> ys_id ` set (yt_songs t)"
      using assms by (simp add: serverOk_def)
    have ids: "ys_id ` set (yt_songs (?e\<lparr>yt_songs := map fst ?ss, yt_blocks := concat (map snd ?ss)\<rparr>))
        = ys_id ` set (yt_songs t)"
      by (simp only: syncTables.simps map_fst_trees fst_trees) (simp add: image_image)
    show ?case
      unfolding ids using fk by (auto simp: planTrees_def)
  next
    case 6
    then show ?case by simp
  qed
  with songs show ?thesis
    by (simp add: replaceAllRows_def)
qed

section \<open>What a push adds\<close>

text \<open>
  A row as the server gets it, column by column: a date is the time that the local stamp is read
  as, the blocks and items are those of the song or plan in their order.
\<close>

definition dateRead :: "(string \<Rightarrow> int option) \<Rightarrow> stamp \<Rightarrow> int \<Rightarrow> bool" where
  "dateRead parse st t \<longleftrightarrow> dateOfStamp parse st = Some t"

definition blockPushed :: "(string \<Rightarrow> int option) \<Rightarrow> stamp syncBlock \<Rightarrow> int syncBlock \<Rightarrow> bool" where
  "blockPushed parse b r \<longleftrightarrow>
     yb_id r = yb_id b \<and> yb_songId r = yb_songId b \<and> yb_order r = yb_order b \<and> yb_type r = yb_type b
     \<and> yb_title r = yb_title b \<and> yb_content r = yb_content b
     \<and> dateRead parse (yb_createdAt b) (yb_createdAt r) \<and> dateRead parse (yb_updatedAt b) (yb_updatedAt r)"

definition itemPushed :: "(string \<Rightarrow> int option) \<Rightarrow> stamp syncItem \<Rightarrow> int syncItem \<Rightarrow> bool" where
  "itemPushed parse i r \<longleftrightarrow>
     yi_id r = yi_id i \<and> yi_planId r = yi_planId i \<and> yi_order r = yi_order i \<and> yi_kind r = yi_kind i
     \<and> yi_refId r = yi_refId i \<and> yi_refSubId r = yi_refSubId i \<and> yi_songId r = yi_songId i
     \<and> yi_title r = yi_title i \<and> yi_content r = yi_content i \<and> yi_notes r = yi_notes i
     \<and> yi_mediaPath r = yi_mediaPath i \<and> yi_secondaryContent r = yi_secondaryContent i
     \<and> yi_backgroundConfig r = yi_backgroundConfig i \<and> dateRead parse (yi_createdAt i) (yi_createdAt r)
     \<and> dateRead parse (yi_updatedAt i) (yi_updatedAt r)"

definition songPushed ::
  "(string \<Rightarrow> int option) \<Rightarrow> stamp syncTables \<Rightarrow> stamp syncSong \<Rightarrow> int syncSong \<times> int syncBlock list \<Rightarrow> bool" where
  "songPushed parse local s d \<longleftrightarrow> (case d of (r, bs) \<Rightarrow>
     ys_id r = ys_id s \<and> ys_title r = ys_title s \<and> ys_artist r = ys_artist s \<and> ys_album r = ys_album s
     \<and> ys_year r = ys_year s \<and> ys_language r = ys_language s \<and> ys_tags r = ys_tags s
     \<and> rel_option (dateRead parse) (ys_deletedAt s) (ys_deletedAt r)
     \<and> dateRead parse (ys_createdAt s) (ys_createdAt r) \<and> dateRead parse (ys_updatedAt s) (ys_updatedAt r)
     \<and> list_all2 (blockPushed parse) (sort_key yb_order (filter (\<lambda>b. yb_songId b = ys_id s) (yt_blocks local))) bs)"

definition planPushed ::
  "(string \<Rightarrow> int option) \<Rightarrow> stamp syncTables \<Rightarrow> stamp syncPlan \<Rightarrow> int syncPlan \<times> int syncItem list \<Rightarrow> bool" where
  "planPushed parse local p d \<longleftrightarrow> (case d of (r, is) \<Rightarrow>
     yp_id r = yp_id p \<and> yp_title r = yp_title p \<and> yp_backgroundConfig r = yp_backgroundConfig p
     \<and> rel_option (dateRead parse) (yp_deletedAt p) (yp_deletedAt r)
     \<and> dateRead parse (yp_date p) (yp_date r) \<and> dateRead parse (yp_createdAt p) (yp_createdAt r)
     \<and> dateRead parse (yp_updatedAt p) (yp_updatedAt r)
     \<and> list_all2 (itemPushed parse) (sort_key yi_order (filter (\<lambda>i. yi_planId i = yp_id p) (yt_items local))) is)"

lemma validDate_Inr: "validDate parse st = Inr t \<longleftrightarrow> dateRead parse st t"
  by (simp add: validDate_def dateRead_def split: option.splits)

lemma validDateOption_Inr: "validDateOption parse st = Inr t \<longleftrightarrow> rel_option (dateRead parse) st t"
  by (auto simp: validDateOption_def validDate_Inr andThen_Inr_iff rel_option_iff split: option.splits)

lemma traverse_rel:
  assumes "traverse_from n f xs = Inr ys" and "\<And>i x y. x \<in> set xs \<Longrightarrow> f i x = Inr y \<Longrightarrow> R x y"
  shows "list_all2 R xs ys"
  using assms by (induction xs arbitrary: n ys) (auto simp: andThen_Inr_iff)

lemma songWithDates_pushed:
  assumes "songWithDates parse local s = Inr d"
  shows "songPushed parse local s d"
proof -
  let ?bs = "sort_key yb_order (filter (\<lambda>b. yb_songId b = ys_id s) (yt_blocks local))"
  obtain r bs where d: "d = (r, bs)" "remoteSong parse s = Inr r"
      and t: "traverse (\<lambda>_. remoteBlock parse (ys_id s)) ?bs = Inr bs"
    using assms by (auto simp: songWithDates_def andThen_Inr_iff)
  have "list_all2 (blockPushed parse) ?bs bs"
    using t by (rule traverse_rel) (auto simp: remoteBlock_def blockPushed_def andThen_Inr_iff validDate_Inr)
  then show ?thesis
    using d(2) by (auto simp: d(1) songPushed_def remoteSong_def andThen_Inr_iff validDate_Inr validDateOption_Inr)
qed

lemma planWithDates_pushed:
  assumes "planWithDates parse local p = Inr d"
  shows "planPushed parse local p d"
proof -
  let ?is = "sort_key yi_order (filter (\<lambda>i. yi_planId i = yp_id p) (yt_items local))"
  obtain r "is" where d: "d = (r, is)" "remotePlan parse p = Inr r"
      and t: "traverse (\<lambda>_. remoteItem parse (yp_id p)) ?is = Inr is"
    using assms by (auto simp: planWithDates_def andThen_Inr_iff)
  have "list_all2 (itemPushed parse) ?is is"
    using t by (rule traverse_rel) (auto simp: remoteItem_def itemPushed_def andThen_Inr_iff validDate_Inr)
  then show ?thesis
    using d(2) by (auto simp: d(1) planPushed_def remotePlan_def andThen_Inr_iff validDate_Inr validDateOption_Inr)
qed

text \<open>
  \<open>extends parse local t t'\<close>: the server's tables \<open>t'\<close> are \<open>t\<close> with songs and plans of the local
  tables behind them.
\<close>

definition extends ::
  "(string \<Rightarrow> int option) \<Rightarrow> stamp syncTables \<Rightarrow> int syncTables \<Rightarrow> int syncTables \<Rightarrow> bool" where
  "extends parse local t t' \<longleftrightarrow> (\<exists>ss ps.
     (\<forall>d \<in> set ss. \<exists>s \<in> set (yt_songs local). songPushed parse local s d)
     \<and> (\<forall>e \<in> set ps. \<exists>p \<in> set (yt_plans local). planPushed parse local p e)
     \<and> t' = t\<lparr>yt_songs := yt_songs t @ map fst ss, yt_blocks := yt_blocks t @ concat (map snd ss),
              yt_plans := yt_plans t @ map fst ps, yt_items := yt_items t @ concat (map snd ps)\<rparr>)"

lemma extends_refl [simp]: "extends parse local t t"
  unfolding extends_def by (intro exI [of _ "[]"]) simp

lemma extends_trans:
  assumes "extends parse local t u" and "extends parse local u v"
  shows "extends parse local t v"
proof -
  obtain ss ps where 1: "\<forall>d \<in> set ss. \<exists>s \<in> set (yt_songs local). songPushed parse local s d"
      "\<forall>e \<in> set ps. \<exists>p \<in> set (yt_plans local). planPushed parse local p e"
      "u = t\<lparr>yt_songs := yt_songs t @ map fst ss, yt_blocks := yt_blocks t @ concat (map snd ss),
             yt_plans := yt_plans t @ map fst ps, yt_items := yt_items t @ concat (map snd ps)\<rparr>"
    using assms(1) unfolding extends_def by blast
  obtain ss' ps' where 2: "\<forall>d \<in> set ss'. \<exists>s \<in> set (yt_songs local). songPushed parse local s d"
      "\<forall>e \<in> set ps'. \<exists>p \<in> set (yt_plans local). planPushed parse local p e"
      "v = u\<lparr>yt_songs := yt_songs u @ map fst ss', yt_blocks := yt_blocks u @ concat (map snd ss'),
             yt_plans := yt_plans u @ map fst ps', yt_items := yt_items u @ concat (map snd ps')\<rparr>"
    using assms(2) unfolding extends_def by blast
  show ?thesis
    unfolding extends_def
    by (rule exI [of _ "ss @ ss'"], rule exI [of _ "ps @ ps'"])
      (use 1(1,2) 2(1,2) in \<open>auto simp: 2(3) 1(3)\<close>)
qed

lemma extends_song:
  "s \<in> set (yt_songs local) \<Longrightarrow> songPushed parse local s d \<Longrightarrow>
     extends parse local t (t\<lparr>yt_songs := yt_songs t @ [fst d], yt_blocks := yt_blocks t @ snd d\<rparr>)"
  unfolding extends_def by (rule exI [of _ "[d]"], rule exI [of _ "[]"]) auto

lemma extends_plan:
  "p \<in> set (yt_plans local) \<Longrightarrow> planPushed parse local p e \<Longrightarrow>
     extends parse local t (t\<lparr>yt_plans := yt_plans t @ [fst e], yt_items := yt_items t @ snd e\<rparr>)"
  unfolding extends_def by (rule exI [of _ "[]"], rule exI [of _ "[e]"]) auto

text \<open>The rows of a server stay where they are.\<close>

definition grows :: "int syncTables \<Rightarrow> int syncTables \<Rightarrow> bool" where
  "grows t t' \<longleftrightarrow> prefix (yt_songs t) (yt_songs t') \<and> prefix (yt_blocks t) (yt_blocks t')
     \<and> prefix (yt_plans t) (yt_plans t') \<and> prefix (yt_items t) (yt_items t')"

lemma grows_refl [simp]: "grows t t"
  by (simp add: grows_def)

lemma grows_trans: "grows t u \<Longrightarrow> grows u v \<Longrightarrow> grows t v"
  by (auto simp: grows_def)

lemma extends_grows: "extends parse local t t' \<Longrightarrow> grows t t'"
  by (auto simp: extends_def grows_def)

lemma extends_ids:
  "extends parse local t t' \<Longrightarrow> ys_id ` set (yt_songs t) \<subseteq> ys_id ` set (yt_songs t')
     \<and> yp_id ` set (yt_plans t) \<subseteq> yp_id ` set (yt_plans t')"
  by (auto simp: extends_def)

lemma extends_keeps:
  "i \<in> ys_id ` set (yt_songs t) \<Longrightarrow> extends parse local t t' \<Longrightarrow> i \<in> ys_id ` set (yt_songs t')"
  "i \<in> yp_id ` set (yt_plans t) \<Longrightarrow> extends parse local t t' \<Longrightarrow> i \<in> yp_id ` set (yt_plans t')"
  using extends_ids by blast+

lemma remote_ids:
  "songWithDates parse local s = Inr d \<Longrightarrow> ys_id (fst d) = ys_id s"
  "planWithDates parse local p = Inr e \<Longrightarrow> yp_id (fst e) = yp_id p"
  by (auto simp: songWithDates_def planWithDates_def remoteSong_def remotePlan_def andThen_Inr_iff)

lemma find_id_None: "find (\<lambda>r. f r = i) rs = None \<longleftrightarrow> i \<notin> f ` set rs"
  by (auto simp: find_None_iff)

lemma find_id_Some: "find (\<lambda>r. f r = i) rs = Some r \<Longrightarrow> i \<in> f ` set rs"
  by (auto simp: find_Some_iff)

text \<open>The loop: a relation between the servers before and after, and a fact per row\<close>

lemma pushEach_rule:
  assumes "\<And>pg. R pg pg" and "\<And>a b c. R a b \<Longrightarrow> R b c \<Longrightarrow> R a c"
    and "\<And>r pg n pg'. r \<in> set rs \<Longrightarrow> push r pg = Inr (n, pg') \<Longrightarrow> R pg pg' \<and> Q r pg'"
    and "\<And>r pg pg'. Q r pg \<Longrightarrow> R pg pg' \<Longrightarrow> Q r pg'"
    and "pushEach push rs (n, pg) = (x, pg')"
  shows "R pg pg' \<and> (\<forall>m. x = Inr m \<longrightarrow> (\<forall>r \<in> set rs. Q r pg'))"
  using assms(3,5)
proof (induction rs arbitrary: n pg)
  case Nil
  then show ?case using assms(1) by simp
next
  case (Cons r rs)
  show ?case
  proof (cases "push r pg")
    case (Inl e)
    then show ?thesis using Cons.prems(2) assms(1) by auto
  next
    case (Inr y)
    obtain m pg1 where y: "y = (m, pg1)" by (cases y)
    have one: "R pg pg1" "Q r pg1"
      using Cons.prems(1) [of r] Inr y by auto
    have step: "R pg pg' \<and> Q q pg'" if "q \<in> set rs" "push q pg = Inr (k, pg')" for q pg k pg'
      using Cons.prems(1) [OF _ that(2)] that(1) by simp
    have "pushEach push rs ((fst n + fst m, snd n + snd m), pg1) = (x, pg')"
      using Cons.prems(2) by (simp add: Inr y)
    from Cons.IH [OF step this]
    have "R pg1 pg' \<and> (\<forall>m. x = Inr m \<longrightarrow> (\<forall>r \<in> set rs. Q r pg'))" .
    then show ?thesis
      using one assms(2,4) by auto
  qed
qed

context pg_server
begin

lemma pushSong_step:
  assumes "pushSong G parse local s pg = Inr (n, pg')" and "s \<in> set (yt_songs local)"
  shows "(extends parse local (tables pg) (tables pg') \<and> yt_plans (tables pg') = yt_plans (tables pg))
           \<and> ys_id s \<in> ys_id ` set (yt_songs (tables pg'))"
proof -
  obtain r where r: "pg_findSong G pg (ys_id s) = Inr r"
    using assms(1) by (auto simp: pushSong_def andThen_Inr_iff)
  note found = find_song [OF r]
  show ?thesis
  proof (cases r)
    case None
    with assms(1) r obtain d where d: "songWithDates parse local s = Inr d"
        "pg_createSong G pg d = Inr pg'"
      by (auto simp: pushSong_def andThen_Inr_iff)
    then show ?thesis
      using insertSongTree_Inr [OF create_song [OF d(2)]] extends_song [OF assms(2) songWithDates_pushed [OF d(1)]]
        remote_ids(1) [OF d(1)]
      by simp
  next
    case (Some q)
    with assms(1) r have "pg' = pg"
      by (simp add: pushSong_def)
    then show ?thesis
      using found Some find_id_Some [of ys_id "ys_id s"] by (metis extends_refl)
  qed
qed

lemma pushPlan_step:
  assumes "pushPlan G parse local p pg = Inr (n, pg')" and "p \<in> set (yt_plans local)"
  shows "extends parse local (tables pg) (tables pg') \<and> yp_id p \<in> yp_id ` set (yt_plans (tables pg'))
           \<and> (yp_id q \<noteq> yp_id p \<longrightarrow> yp_id q \<notin> yp_id ` set (yt_plans (tables pg))
                \<longrightarrow> yp_id q \<notin> yp_id ` set (yt_plans (tables pg')))"
proof -
  obtain r where r: "pg_findPlan G pg (yp_id p) = Inr r"
    using assms(1) by (auto simp: pushPlan_def andThen_Inr_iff)
  note found = find_plan [OF r]
  show ?thesis
  proof (cases r)
    case None
    with assms(1) r obtain d where d: "planWithDates parse local p = Inr d"
        "pg_createPlan G pg d = Inr pg'"
      by (auto simp: pushPlan_def andThen_Inr_iff)
    then show ?thesis
      using insertPlanTree_Inr [OF create_plan [OF d(2)]] extends_plan [OF assms(2) planWithDates_pushed [OF d(1)]]
        remote_ids(2) [OF d(1)]
      by simp
  next
    case (Some o)
    with assms(1) r have "pg' = pg"
      by (simp add: pushPlan_def)
    then show ?thesis
      using found Some find_id_Some [of yp_id "yp_id p"] by (metis extends_refl)
  qed
qed

lemma pushRows_extends:
  assumes "pushRows G parse since local pg = (x, pg')"
  shows "extends parse local (tables pg) (tables pg')
    \<and> (\<forall>m. x = Inr m \<longrightarrow>
         (\<forall>s \<in> set (yt_songs local). updatedAfter (ys_updatedAt s) since
            \<longrightarrow> ys_id s \<in> ys_id ` set (yt_songs (tables pg')))
         \<and> (\<forall>p \<in> set (yt_plans local). updatedAfter (yp_updatedAt p) since
            \<longrightarrow> yp_id p \<in> yp_id ` set (yt_plans (tables pg'))))"
proof -
  let ?ss = "filter (\<lambda>s. updatedAfter (ys_updatedAt s) since) (yt_songs local)"
  let ?ps = "filter (\<lambda>p. updatedAfter (yp_updatedAt p) since) (yt_plans local)"
  obtain y pg1 where y: "pushEach (pushSong G parse local) ?ss ((0, 0), pg) = (y, pg1)"
    by (cases "pushEach (pushSong G parse local) ?ss ((0, 0), pg)")
  have songs: "extends parse local (tables pg) (tables pg1)
      \<and> (\<forall>m. y = Inr m \<longrightarrow> (\<forall>s \<in> set ?ss. ys_id s \<in> ys_id ` set (yt_songs (tables pg1))))"
  proof (rule pushEach_rule [OF _ _ _ _ y])
    show "extends parse local (tables pg) (tables pg') \<and> ys_id r \<in> ys_id ` set (yt_songs (tables pg'))"
      if "r \<in> set ?ss" "pushSong G parse local r pg = Inr (n, pg')" for r pg n pg'
      using pushSong_step [OF that(2)] that(1) by auto
  qed (auto intro: extends_trans extends_keeps)
  show ?thesis
  proof (cases y)
    case (Inl e)
    with assms y have "x = Inl e" "pg' = pg1"
      by (simp_all add: pushRows_def)
    then show ?thesis using songs by simp
  next
    case (Inr k)
    with assms y have z: "pushEach (pushPlan G parse local) ?ps (k, pg1) = (x, pg')"
      by (simp add: pushRows_def)
    have plans: "extends parse local (tables pg1) (tables pg')
        \<and> (\<forall>m. x = Inr m \<longrightarrow> (\<forall>p \<in> set ?ps. yp_id p \<in> yp_id ` set (yt_plans (tables pg'))))"
    proof (rule pushEach_rule [OF _ _ _ _ z])
      show "extends parse local (tables pg) (tables pg') \<and> yp_id r \<in> yp_id ` set (yt_plans (tables pg'))"
        if "r \<in> set ?ps" "pushPlan G parse local r pg = Inr (n, pg')" for r pg n pg'
        using pushPlan_step [OF that(2)] that(1) by auto
    qed (auto intro: extends_trans extends_keeps)
    have "extends parse local (tables pg) (tables pg')"
      using songs plans extends_trans by blast
    then show ?thesis
      using songs plans Inr extends_ids [of parse local "tables pg1" "tables pg'"] by auto
  qed
qed

lemma pull_copies:
  assumes "pullFromPostgres G pg local = Inr u"
  shows "copyOf (tables pg) u"
proof -
  obtain ss ps where "pg_songs G pg = Inr ss" "pg_plans G pg = Inr ps" "replaceAllRows ss ps local = Inr u"
    using assms by (auto simp: pullFromPostgres_def andThen_Inr_iff)
  then show ?thesis
    using songs plans replaceAll_copies by metis
qed

lemma pull_succeeds:
  assumes "pg_songs G pg = Inr ss" and "pg_plans G pg = Inr ps" and "serverOk (tables pg)"
  shows "\<exists>u. pullFromPostgres G pg local = Inr u"
  using replaceAll_fits [OF assms(3), of local] songs [OF assms(1)] plans [OF assms(2)]
  by (simp add: pullFromPostgres_def assms(1,2))

text \<open>A plan whose date the server has given to another plan is never pushed.\<close>

lemma pushPlans_stuck:
  assumes "pushEach (pushPlan G parse local) rs (n, pg) = (x, pg')" and "set rs \<subseteq> set (yt_plans local)"
    and "distinct (map yp_id rs)" and "yp_id p \<notin> yp_id ` set (yt_plans (tables pg))"
    and "dateOfStamp parse (yp_date p) = Some d" and "d \<in> yp_date ` set (yt_plans (tables pg))"
    and "\<forall>r \<in> set rs. yp_id r = yp_id p \<longrightarrow> r = p"
  shows "yp_id p \<notin> yp_id ` set (yt_plans (tables pg'))
    \<and> d \<in> yp_date ` set (yt_plans (tables pg')) \<and> (p \<in> set rs \<longrightarrow> (\<exists>e. x = Inl e))"
  using assms(1-4,6,7)
proof (induction rs arbitrary: n pg)
  case (Cons r rs)
  show ?case
  proof (cases "pushPlan G parse local r pg")
    case (Inl e)
    then show ?thesis using Cons.prems by auto
  next
    case (Inr y)
    obtain m pg1 where y: "pushPlan G parse local r pg = Inr (m, pg1)"
      using Inr by (cases y) auto
    have "r \<noteq> p"
    proof
      assume "r = p"
      then obtain q where q: "pg_findPlan G pg (yp_id p) = Inr q"
        using y by (auto simp: pushPlan_def andThen_Inr_iff)
      have "q = None"
        using find_plan [OF q] Cons.prems(4) find_id_None [of yp_id "yp_id p"] by metis
      then obtain k e where k: "pg_createPlan G pg e = Inr k" "planWithDates parse local p = Inr e"
        using y q \<open>r = p\<close> by (auto simp: pushPlan_def andThen_Inr_iff)
      have "yp_date (fst e) = d"
        using planWithDates_pushed [OF k(2)] assms(5) by (simp add: planPushed_def dateRead_def case_prod_beta)
      then show False
        using insertPlanTree_Inr [OF create_plan [OF k(1)]] Cons.prems(5) by simp
    qed
    then have ids: "yp_id p \<noteq> yp_id r"
      using Cons.prems(6) by auto
    have step: "extends parse local (tables pg) (tables pg1)"
        "yp_id p \<notin> yp_id ` set (yt_plans (tables pg1))"
      using pushPlan_step [OF y, of p] Cons.prems(2,4) ids by auto
    have "d \<in> yp_date ` set (yt_plans (tables pg1))"
      using Cons.prems(5) extends_grows [OF step(1)] by (auto simp: grows_def prefix_def)
    moreover have "pushEach (pushPlan G parse local) rs ((fst n + fst m, snd n + snd m), pg1) = (x, pg')"
      using Cons.prems(1) by (cases n) (simp add: y)
    ultimately show ?thesis
      using Cons.IH step(2) Cons.prems(2,3,6) \<open>r \<noteq> p\<close> by simp
  qed
qed simp

lemma pushRows_stuck:
  assumes "pushRows G parse since local pg = (x, pg')" and "p \<in> set (yt_plans local)"
    and "distinct (map yp_id (yt_plans local))" and "updatedAfter (yp_updatedAt p) since"
    and "yp_id p \<notin> yp_id ` set (yt_plans (tables pg))"
    and "dateOfStamp parse (yp_date p) = Some d" and "d \<in> yp_date ` set (yt_plans (tables pg))"
  shows "(\<exists>e. x = Inl e) \<and> yp_id p \<notin> yp_id ` set (yt_plans (tables pg'))
    \<and> d \<in> yp_date ` set (yt_plans (tables pg'))"
proof -
  let ?ss = "filter (\<lambda>s. updatedAfter (ys_updatedAt s) since) (yt_songs local)"
  let ?ps = "filter (\<lambda>p. updatedAfter (yp_updatedAt p) since) (yt_plans local)"
  obtain y pg1 where y: "pushEach (pushSong G parse local) ?ss ((0, 0), pg) = (y, pg1)"
    by (cases "pushEach (pushSong G parse local) ?ss ((0, 0), pg)")
  have "yt_plans (tables pg1) = yt_plans (tables pg) \<and> (\<forall>m. y = Inr m \<longrightarrow> (\<forall>r \<in> set ?ss. True))"
  proof (rule pushEach_rule [OF _ _ _ _ y])
    show "yt_plans (tables pg') = yt_plans (tables pg) \<and> True"
      if "r \<in> set ?ss" "pushSong G parse local r pg = Inr (n, pg')" for r pg n pg'
      using pushSong_step [OF that(2)] that(1) by auto
  qed simp_all
  then have same: "yt_plans (tables pg1) = yt_plans (tables pg)" by simp
  show ?thesis
  proof (cases y)
    case (Inl e)
    with assms(1) y have "x = Inl e" "pg' = pg1"
      by (simp_all add: pushRows_def)
    then show ?thesis using same assms(5,7) by simp
  next
    case (Inr k)
    with assms(1) y have z: "pushEach (pushPlan G parse local) ?ps (k, pg1) = (x, pg')"
      by (simp add: pushRows_def)
    have "distinct (map yp_id ?ps)"
      using assms(3) by (simp add: distinct_map_filter)
    moreover have "\<forall>r \<in> set ?ps. yp_id r = yp_id p \<longrightarrow> r = p"
      using assms(2,3) by (auto simp: distinct_map inj_on_def)
    ultimately show ?thesis
      using pushPlans_stuck [OF z _ _ _ assms(6)] same assms(2,4,5,7) by auto
  qed
qed

end

section \<open>The states of the manager\<close>

lemma setState_simps [simp]:
  "st_state (setState c s) = c" "st_file (setState c s) = st_file s"
  "st_local (setState c s) = st_local s" "st_pg (setState c s) = st_pg s"
  by (simp_all add: setState_def broadcastToWindows_def)

lemma broadcast_state [simp]:
  "st_state (broadcastToWindows e s) = st_state s" "st_file (broadcastToWindows e s) = st_file s"
  "st_local (broadcastToWindows e s) = st_local s" "st_pg (broadcastToWindows e s) = st_pg s"
  by (simp_all add: broadcastToWindows_def)

lemma saveTimestamp_simps [simp]:
  "st_state (saveLastPullTimestamp n s) = st_state s" "st_local (saveLastPullTimestamp n s) = st_local s"
  "st_pg (saveLastPullTimestamp n s) = st_pg s" "st_state (saveLastPushTimestamp n s) = st_state s"
  "st_local (saveLastPushTimestamp n s) = st_local s" "st_pg (saveLastPushTimestamp n s) = st_pg s"
  by (simp_all add: saveLastPullTimestamp_def saveLastPushTimestamp_def)

lemma pullAndSave_result:
  "pullFromPostgres G (st_pg s) (st_local s) = Inl e \<Longrightarrow>
     st_state (pullAndSave G now s) = SYNC_ERROR \<and> st_local (pullAndSave G now s) = st_local s
     \<and> st_file (pullAndSave G now s) = st_file s"
  "pullFromPostgres G (st_pg s) (st_local s) = Inr u \<Longrightarrow>
     st_state (pullAndSave G now s) = ONLINE \<and> st_local (pullAndSave G now s) = u"
  by (simp_all add: pullAndSave_def)

lemma pullAndSave_pg [simp]: "st_pg (pullAndSave G now s) = st_pg s"
  by (simp add: pullAndSave_def split: sum.split)

lemma pullAndSave_state [simp]: "st_state (pullAndSave G now s) \<noteq> SYNCING"
  by (simp add: pullAndSave_def split: sum.split)

text \<open>The steps: the three operations of the manager, and any work on the local tables\<close>

inductive syncStep ::
  "'pg pgClient \<Rightarrow> (string \<Rightarrow> int option) \<Rightarrow> 'pg syncState \<Rightarrow> 'pg syncState \<Rightarrow> bool"
  for G :: "'pg pgClient" and parse :: "string \<Rightarrow> int option" where
  start: "syncStep G parse s (syncInitialize G url now s)"
| reconnect: "syncStep G parse s (checkAndReconnect G parse now1 now2 s)"
| periodic: "syncStep G parse s (periodicPull G now s)"
| work: "syncStep G parse s (s\<lparr>st_local := local\<rparr>)"

lemma pushOffline_pg:
  "pushOfflineChanges G parse now s = (x, s') \<Longrightarrow>
     (\<exists>pg'. pushRows G parse (getLastPullTimestamp (st_file s)) (st_local s) (st_pg s) = (x, pg') \<and> st_pg s' = pg')
     \<and> st_local s' = st_local s \<and> st_state s' = st_state s \<and> (\<forall>e. x = Inl e \<longrightarrow> st_file s' = st_file s)"
  by (auto simp: pushOfflineChanges_def split: prod.splits sum.splits)

lemma checkAndReconnect_idle:
  "st_state s = ONLINE \<or> st_state s = SYNCING \<or> \<not> pg_check G (st_pg s) \<Longrightarrow>
     checkAndReconnect G parse now1 now2 s = s"
  by (auto simp: checkAndReconnect_def)

lemma checkAndReconnect_push:
  assumes "st_state s \<noteq> ONLINE" and "st_state s \<noteq> SYNCING" and "pg_check G (st_pg s)"
    and "pushOfflineChanges G parse now1 (setState SYNCING s) = (x, s1)"
  shows "checkAndReconnect G parse now1 now2 s =
    (case x of Inl e \<Rightarrow> setState SYNC_ERROR s1
     | Inr (pushed, overwritten) \<Rightarrow>
         if st_state (pullAndSave G now2 s1) = ONLINE \<and> 0 < overwritten
         then broadcastToWindows (conflictWarning overwritten) (pullAndSave G now2 s1)
         else pullAndSave G now2 s1)"
  using assms by (simp add: checkAndReconnect_def Let_def split: sum.split prod.split)

text \<open>What a reconnection comes to\<close>

lemma reconnect_result:
  assumes "pg_server G tables" and "st_state s = OFFLINE \<or> st_state s = SYNC_ERROR"
    and "pg_check G (st_pg s)" and "s' = checkAndReconnect G parse now1 now2 s"
  shows "extends parse (st_local s) (tables (st_pg s)) (tables (st_pg s'))
    \<and> (st_state s' = ONLINE \<and> copyOf (tables (st_pg s')) (st_local s')
         \<and> (\<forall>x \<in> set (yt_songs (st_local s)). updatedAfter (ys_updatedAt x) (getLastPullTimestamp (st_file s))
              \<longrightarrow> ys_id x \<in> ys_id ` set (yt_songs (tables (st_pg s'))))
         \<and> (\<forall>p \<in> set (yt_plans (st_local s)). updatedAfter (yp_updatedAt p) (getLastPullTimestamp (st_file s))
              \<longrightarrow> yp_id p \<in> yp_id ` set (yt_plans (tables (st_pg s'))))
       \<or> st_state s' = SYNC_ERROR \<and> st_local s' = st_local s
         \<and> sy_lastPullAt (st_file s') = sy_lastPullAt (st_file s))"
proof -
  obtain x s1 where push: "pushOfflineChanges G parse now1 (setState SYNCING s) = (x, s1)"
    by (cases "pushOfflineChanges G parse now1 (setState SYNCING s)")
  obtain pg' where pg': "pushRows G parse (getLastPullTimestamp (st_file s)) (st_local s) (st_pg s) = (x, pg')"
      "st_pg s1 = pg'" "st_local s1 = st_local s" "\<forall>e. x = Inl e \<longrightarrow> st_file s1 = st_file s"
    using pushOffline_pg [OF push] by auto
  have lastPull: "sy_lastPullAt (st_file s1) = sy_lastPullAt (st_file s)"
    using push by (auto simp: pushOfflineChanges_def saveLastPushTimestamp_def split: prod.splits sum.splits)
  note ext = pg_server.pushRows_extends [OF assms(1) pg'(1)]
  have s': "s' = (case x of Inl e \<Rightarrow> setState SYNC_ERROR s1
     | Inr (pushed, overwritten) \<Rightarrow>
         if st_state (pullAndSave G now2 s1) = ONLINE \<and> 0 < overwritten
         then broadcastToWindows (conflictWarning overwritten) (pullAndSave G now2 s1)
         else pullAndSave G now2 s1)"
    unfolding assms(4) using assms(2) by (intro checkAndReconnect_push [OF _ _ assms(3) push]) auto
  show ?thesis
  proof (cases x)
    case (Inl e)
    then show ?thesis using s' ext pg' by simp
  next
    case (Inr n)
    have same: "st_state s' = st_state (pullAndSave G now2 s1)" "st_local s' = st_local (pullAndSave G now2 s1)"
        "st_pg s' = pg'" "st_file s' = st_file (pullAndSave G now2 s1)"
      using s' Inr pg'(2) by (auto split: prod.splits)
    show ?thesis
    proof (cases "pullFromPostgres G pg' (st_local s)")
      case (Inl e)
      then show ?thesis
        using pullAndSave_result(1) [of G s1 e now2] pg'(2,3) ext lastPull by (simp add: same)
    next
      case (Inr u)
      then show ?thesis
        using pullAndSave_result(2) [of G s1 u now2] pg'(2,3) ext \<open>x = Inr n\<close>
          pg_server.pull_copies [OF assms(1) Inr] by (simp add: same)
    qed
  qed
qed

section \<open>Properties\<close>

text \<open>
  C8: A pull that reaches the server makes the local tables a copy of the server's, whatever they
  held before: the same songs and plans in the same order, the same blocks and items, every column as
  on the server with the dates as texts, and with all keys of the local schema respected.
\<close>
theorem pull_mirrors_server:
  assumes "pg_server G tables" and "serverOk (tables pg)"
    and "pg_songs G pg = Inr ss" and "pg_plans G pg = Inr ps"
  shows "\<exists>u. pullFromPostgres G pg local = Inr u
    \<and> list_all2 songMirrored (yt_songs (tables pg)) (yt_songs u)
    \<and> list_all2 planMirrored (yt_plans (tables pg)) (yt_plans u)
    \<and> (\<exists>bs. mset bs = mset (yt_blocks (tables pg)) \<and> list_all2 blockMirrored bs (yt_blocks u))
    \<and> (\<exists>is. mset is = mset (yt_items (tables pg)) \<and> list_all2 itemMirrored is (yt_items u))"
proof -
  obtain u where u: "pullFromPostgres G pg local = Inr u"
    using pg_server.pull_succeeds [OF assms(1,3,4,2)] by blast
  have "copyOf (tables pg) u"
    using pg_server.pull_copies [OF assms(1) u] .
  with u show ?thesis
    using trees_mset [OF assms(2)] by (auto simp: copyOf_def)
qed

text \<open>One song with a block and one plan with an item on the server, another plan locally\<close>

definition gospel :: "int syncSong" where
  "gospel = \<lparr>ys_id = ''s'', ys_title = ''Grace'', ys_artist = None, ys_album = None, ys_year = None,
     ys_language = None, ys_tags = None, ys_deletedAt = None, ys_createdAt = 0, ys_updatedAt = 7\<rparr>"

definition gospelBlock :: "int syncBlock" where
  "gospelBlock = \<lparr>yb_id = ''b'', yb_songId = ''s'', yb_order = 1, yb_type = ''VERSE'', yb_title = None,
     yb_content = ''la'', yb_createdAt = 0, yb_updatedAt = 7\<rparr>"

definition sunday :: "int syncPlan" where
  "sunday = \<lparr>yp_id = ''p'', yp_date = 0, yp_title = None, yp_backgroundConfig = None,
     yp_deletedAt = None, yp_createdAt = 0, yp_updatedAt = 7\<rparr>"

definition sundayItem :: "int syncItem" where
  "sundayItem = \<lparr>yi_id = ''i'', yi_planId = ''p'', yi_order = 1, yi_kind = ''SONG_BLOCK'', yi_refId = None,
     yi_refSubId = None, yi_songId = Some ''s'', yi_title = None, yi_content = Some ''la'', yi_notes = Some ''slowly'',
     yi_mediaPath = None, yi_secondaryContent = None, yi_backgroundConfig = None,
     yi_createdAt = 0, yi_updatedAt = 7\<rparr>"

definition sampleServer :: serverState where
  "sampleServer = \<lparr>sv_link = True, sv_tables = \<lparr>yt_songs = [gospel], yt_blocks = [gospelBlock],
     yt_plans = [sunday], yt_items = [sundayItem]\<rparr>\<rparr>"

definition newerStamp :: stamp where
  "newerStamp = IsoText ''2024-01-07T00:00:00.000Z''"

definition localSong :: "stamp syncSong" where
  "localSong = \<lparr>ys_id = ''t'', ys_title = ''Hosanna'', ys_artist = None, ys_album = None, ys_year = None,
     ys_language = None, ys_tags = None, ys_deletedAt = None, ys_createdAt = EpochMs 5,
     ys_updatedAt = newerStamp\<rparr>"

definition localPlan :: "stamp syncPlan" where
  "localPlan = \<lparr>yp_id = ''q'', yp_date = EpochMs 0, yp_title = None, yp_backgroundConfig = None,
     yp_deletedAt = None, yp_createdAt = EpochMs 5, yp_updatedAt = newerStamp\<rparr>"

definition offlineState :: "stamp syncTables \<Rightarrow> serverState syncState" where
  "offlineState local = \<lparr>st_state = OFFLINE, st_file = \<lparr>sy_lastPullAt = Some ''2023'', sy_lastPushAt = None\<rparr>,
     st_local = local, st_pg = sampleServer, st_events = []\<rparr>"

lemma sampleServer_ok:
  "serverOk (sv_tables sampleServer)"
  "pg_songs serverClient sampleServer = Inr [(gospel, [gospelBlock])]"
  "pg_plans serverClient sampleServer = Inr [(sunday, [sundayItem])]"
  by (simp_all add: serverOk_def sampleServer_def gospel_def gospelBlock_def sunday_def sundayItem_def
      serverClient_def whenLinked_def songTrees_def planTrees_def)

lemma pull_mirrors_server_witness:
  "\<exists>u. pullFromPostgres serverClient sampleServer noRows = Inr u
    \<and> map ys_title (yt_songs u) = [''Grace''] \<and> map yp_id (yt_plans u) = [''p'']
    \<and> map yb_content (yt_blocks u) = [''la''] \<and> map yi_content (yt_items u) = [Some ''la'']
    \<and> map yi_notes (yt_items u) = [Some ''slowly'']"
proof -
  obtain u bs "is" where u: "pullFromPostgres serverClient sampleServer noRows = Inr u"
      "list_all2 songMirrored [gospel] (yt_songs u)" "list_all2 planMirrored [sunday] (yt_plans u)"
      "mset bs = {#gospelBlock#}" "list_all2 blockMirrored bs (yt_blocks u)"
      "mset is = {#sundayItem#}" "list_all2 itemMirrored is (yt_items u)"
    using pull_mirrors_server [OF server_pg sampleServer_ok, of noRows] by (auto simp: sampleServer_def)
  moreover have "bs = [gospelBlock]" "is = [sundayItem]"
    using u(4,6) by simp_all
  ultimately show ?thesis
    by (auto simp: list_all2_Cons1 songMirrored_def planMirrored_def blockMirrored_def itemMirrored_def
        gospel_def sunday_def gospelBlock_def sundayItem_def)
qed

text \<open>
  C5: When the connection is back, a synchronisation ends in one of two ways. In both the server
  has all the rows it had, unchanged, and behind them only songs and plans of the local tables with
  their blocks and items, every column as it was locally; a row that the server has already is not
  changed there. Either the state is \<open>ONLINE\<close>, the local tables are a copy of the server's, and
  every local song and plan whose date of change is a text after the last pull is on the server by
  its identifier; or the state is an error and the local tables and the time of the last pull are
  as before. (The dates that the application itself writes are numbers: \<open>client_rows_never_pushed\<close>.)
\<close>
theorem reconnect_merges:
  assumes "pg_server G tables" and "st_state s = OFFLINE \<or> st_state s = SYNC_ERROR"
    and "pg_check G (st_pg s)" and "s' = checkAndReconnect G parse now1 now2 s"
  shows "extends parse (st_local s) (tables (st_pg s)) (tables (st_pg s'))
    \<and> (st_state s' = ONLINE \<and> copyOf (tables (st_pg s')) (st_local s')
         \<and> (\<forall>x \<in> set (yt_songs (st_local s)). updatedAfter (ys_updatedAt x) (getLastPullTimestamp (st_file s))
              \<longrightarrow> ys_id x \<in> ys_id ` set (yt_songs (tables (st_pg s'))))
         \<and> (\<forall>p \<in> set (yt_plans (st_local s)). updatedAfter (yp_updatedAt p) (getLastPullTimestamp (st_file s))
              \<longrightarrow> yp_id p \<in> yp_id ` set (yt_plans (tables (st_pg s'))))
       \<or> st_state s' = SYNC_ERROR \<and> st_local s' = st_local s
         \<and> sy_lastPullAt (st_file s') = sy_lastPullAt (st_file s))"
  using reconnect_result [OF assms] .

definition pushedServer :: serverState where
  "pushedServer = \<lparr>sv_link = True, sv_tables = \<lparr>yt_songs = [gospel,
       \<lparr>ys_id = ''t'', ys_title = ''Hosanna'', ys_artist = None, ys_album = None, ys_year = None,
        ys_language = None, ys_tags = None, ys_deletedAt = None, ys_createdAt = 5, ys_updatedAt = 9\<rparr>],
     yt_blocks = [gospelBlock], yt_plans = [sunday], yt_items = [sundayItem]\<rparr>\<rparr>"

lemma reconnect_merges_witness:
  "\<exists>s'. s' = checkAndReconnect serverClient (\<lambda>_. Some 9) 10 11 (offlineState (noRows\<lparr>yt_songs := [localSong]\<rparr>))
     \<and> st_state s' = ONLINE \<and> copyOf (sv_tables pushedServer) (st_local s') \<and> st_pg s' = pushedServer"
proof -
  let ?local = "noRows\<lparr>yt_songs := [localSong]\<rparr>"
  let ?s = "offlineState ?local"
  let ?s1 = "saveLastPushTimestamp 10 ((setState SYNCING ?s)\<lparr>st_pg := pushedServer\<rparr>)"
  define s' where "s' = checkAndReconnect serverClient (\<lambda>_. Some 9) 10 11 ?s"
  have idle: "st_state ?s = OFFLINE \<or> st_state ?s = SYNC_ERROR" "pg_check serverClient (st_pg ?s)"
    by (simp_all add: offlineState_def serverClient_def sampleServer_def)
  have "pushRows serverClient (\<lambda>_. Some 9) ''2023'' ?local sampleServer = (Inr (1, 0), pushedServer)"
    by code_simp
  then have push: "pushOfflineChanges serverClient (\<lambda>_. Some 9) 10 (setState SYNCING ?s) = (Inr (1, 0), ?s1)"
    by (simp add: pushOfflineChanges_def offlineState_def getLastPullTimestamp_def)
  have "serverOk (sv_tables pushedServer)"
    by (simp add: serverOk_def pushedServer_def gospel_def gospelBlock_def sunday_def sundayItem_def)
  moreover have "pg_songs serverClient pushedServer = Inr (songTrees (sv_tables pushedServer))"
    "pg_plans serverClient pushedServer = Inr (planTrees (sv_tables pushedServer))"
    by (simp_all add: serverClient_def whenLinked_def pushedServer_def)
  ultimately obtain u where u: "pullFromPostgres serverClient pushedServer ?local = Inr u"
    using server.pull_succeeds by blast
  have "s' = pullAndSave serverClient 11 ?s1"
    unfolding s'_def using checkAndReconnect_push [OF _ _ idle(2) push, of 11]
    by (simp add: offlineState_def)
  moreover have "st_state (pullAndSave serverClient 11 ?s1) = ONLINE"
    using u by (intro conjunct1 [OF pullAndSave_result(2)]) (simp add: offlineState_def)
  ultimately have "st_state s' = ONLINE" "st_pg s' = pushedServer"
    by simp_all
  then show ?thesis
    using reconnect_merges [OF server_pg idle s'_def] s'_def by auto
qed

text \<open>
  C11: Whatever the manager does, in any order with any local work between, also when requests fail
  half way, the server loses and changes no row; and no operation leaves the manager in the
  state of a running synchronisation, in which it would refuse every later one.
\<close>
theorem sync_keeps_server_rows:
  assumes "pg_server G tables" and "(syncStep G parse)\<^sup>*\<^sup>* s s'"
  shows "grows (tables (st_pg s)) (tables (st_pg s')) \<and> (st_state s \<noteq> SYNCING \<longrightarrow> st_state s' \<noteq> SYNCING)"
  using assms(2)
proof (induction rule: rtranclp_induct)
  case (step u v)
  have "grows (tables (st_pg u)) (tables (st_pg v)) \<and> (st_state u \<noteq> SYNCING \<longrightarrow> st_state v \<noteq> SYNCING)"
    using step(2)
  proof (cases rule: syncStep.cases)
    case (reconnect now1 now2)
    show ?thesis
    proof (cases "st_state u = ONLINE \<or> st_state u = SYNCING \<or> \<not> pg_check G (st_pg u)")
      case True
      then show ?thesis
        using checkAndReconnect_idle [OF True, of parse now1 now2] by (simp add: reconnect)
    next
      case False
      then have "st_state u = OFFLINE \<or> st_state u = SYNC_ERROR"
        by (cases "st_state u") auto
      then show ?thesis
        using reconnect_result [OF assms(1) _ _ reconnect] False extends_grows by force
    qed
  qed (auto simp: syncInitialize_def periodicPull_def)
  with step(3) show ?case
    using grows_trans by blast
qed simp

lemma sync_keeps_server_rows_witness:
  "grows (sv_tables sampleServer) (sv_tables (st_pg
     (periodicPull serverClient 3 (checkAndReconnect serverClient (\<lambda>_. Some 9) 1 2 (offlineState noRows)))))"
proof -
  have "(syncStep serverClient (\<lambda>_. Some 9))\<^sup>*\<^sup>* (offlineState noRows)
      (periodicPull serverClient 3 (checkAndReconnect serverClient (\<lambda>_. Some 9) 1 2 (offlineState noRows)))"
    by (rule rtranclp.rtrancl_into_rtrancl
        [where b = "checkAndReconnect serverClient (\<lambda>_. Some 9) 1 2 (offlineState noRows)"])
      (rule r_into_rtranclp syncStep.reconnect syncStep.periodic)+
  from sync_keeps_server_rows [OF server_pg this] show ?thesis
    by (simp add: offlineState_def)
qed

text \<open>The situation of a local plan whose date another plan has on the server\<close>

definition dateConflict ::
  "(string \<Rightarrow> int option) \<Rightarrow> int syncTables \<Rightarrow> 'pg syncState \<Rightarrow> stamp syncPlan \<Rightarrow> bool" where
  "dateConflict parse t s p \<longleftrightarrow> p \<in> set (yt_plans (st_local s))
     \<and> distinct (map yp_id (yt_plans (st_local s)))
     \<and> updatedAfter (yp_updatedAt p) (getLastPullTimestamp (st_file s))
     \<and> yp_id p \<notin> yp_id ` set (yt_plans t)
     \<and> (case dateOfStamp parse (yp_date p) of None \<Rightarrow> False | Some d \<Rightarrow> d \<in> yp_date ` set (yt_plans t))"

lemma conflict_persists:
  assumes "pg_server G tables" and "dateConflict parse (tables (st_pg s)) s p"
    and "st_state s = OFFLINE \<or> st_state s = SYNC_ERROR"
    and "s' = checkAndReconnect G parse now1 now2 s"
  shows "dateConflict parse (tables (st_pg s')) s' p \<and> (st_state s' = OFFLINE \<or> st_state s' = SYNC_ERROR)
    \<and> st_local s' = st_local s"
proof (cases "pg_check G (st_pg s)")
  case False
  then have "s' = s"
    unfolding assms(4) by (intro checkAndReconnect_idle) simp
  then show ?thesis using assms(2,3) by simp
next
  case True
  obtain d where d: "dateOfStamp parse (yp_date p) = Some d"
      "d \<in> yp_date ` set (yt_plans (tables (st_pg s)))"
    using assms(2) by (auto simp: dateConflict_def split: option.splits)
  obtain x s1 where push: "pushOfflineChanges G parse now1 (setState SYNCING s) = (x, s1)"
    by (cases "pushOfflineChanges G parse now1 (setState SYNCING s)")
  obtain pg' where pg': "pushRows G parse (getLastPullTimestamp (st_file s)) (st_local s) (st_pg s) = (x, pg')"
      "st_pg s1 = pg'" "st_local s1 = st_local s" "\<forall>e. x = Inl e \<longrightarrow> st_file s1 = st_file s"
    using pushOffline_pg [OF push] by auto
  have stuck: "(\<exists>e. x = Inl e) \<and> yp_id p \<notin> yp_id ` set (yt_plans (tables pg'))
      \<and> d \<in> yp_date ` set (yt_plans (tables pg'))"
    using assms(2) d
    by (intro pg_server.pushRows_stuck [OF assms(1) pg'(1)]) (auto simp: dateConflict_def)
  then obtain e where e: "x = Inl e" by blast
  have "s' = setState SYNC_ERROR s1"
    unfolding assms(4) using assms(3) e
    by (subst checkAndReconnect_push [OF _ _ True push]) auto
  then show ?thesis
    using assms(2) stuck e pg' d by (auto simp: dateConflict_def)
qed

text \<open>
  What may happen while the application runs: the manager tries again or pulls periodically, the
  other rows of the local tables and those of the server are changed by others, as long as the plan
  stays and the server has another plan on its date. The application is not started anew.
\<close>

inductive retryStep ::
  "'pg pgClient \<Rightarrow> (string \<Rightarrow> int option) \<Rightarrow> ('pg \<Rightarrow> int syncTables) \<Rightarrow> stamp syncPlan
     \<Rightarrow> 'pg syncState \<Rightarrow> 'pg syncState \<Rightarrow> bool"
  for G :: "'pg pgClient" and parse :: "string \<Rightarrow> int option" and tables :: "'pg \<Rightarrow> int syncTables"
    and p :: "stamp syncPlan" where
  retry: "retryStep G parse tables p s (checkAndReconnect G parse now1 now2 s)"
| pulls: "retryStep G parse tables p s (periodicPull G now s)"
| edits: "p \<in> set (yt_plans local) \<Longrightarrow> distinct (map yp_id (yt_plans local)) \<Longrightarrow>
     retryStep G parse tables p s (s\<lparr>st_local := local\<rparr>)"
| others: "dateConflict parse (tables pg) s p \<Longrightarrow> retryStep G parse tables p s (s\<lparr>st_pg := pg\<rparr>)"

text \<open>
  C18: A local plan whose date of change is a text after the last pull, which the server does not
  know and on whose date it has another plan, stops the synchronisation while the application runs:
  in whatever order the manager tries again and pulls, with other changes of either side between,
  it never comes to \<open>ONLINE\<close>, no try and no pull brings anything of the server into the local
  tables, and the cause stays.
\<close>
theorem date_conflict_blocks_sync:
  assumes "pg_server G tables" and "st_state s = OFFLINE \<or> st_state s = SYNC_ERROR"
    and "dateConflict parse (tables (st_pg s)) s p"
    and "(retryStep G parse tables p)\<^sup>*\<^sup>* s s'"
  shows "st_state s' \<noteq> ONLINE \<and> dateConflict parse (tables (st_pg s')) s' p
    \<and> st_local (checkAndReconnect G parse now1 now2 s') = st_local s'
    \<and> st_local (periodicPull G now s') = st_local s'"
proof -
  from assms(4) have "(st_state s' = OFFLINE \<or> st_state s' = SYNC_ERROR) \<and> dateConflict parse (tables (st_pg s')) s' p"
  proof (induction rule: rtranclp_induct)
    case (step u v)
    from step(2) show ?case
    proof (cases rule: retryStep.cases)
      case (retry now1 now2)
      then show ?thesis
        using conflict_persists [OF assms(1) _ _ retry] step(3) by blast
    next
      case (pulls now)
      then show ?thesis
        using step(3) by (auto simp: periodicPull_def)
    qed (use step(3) in \<open>auto simp: dateConflict_def\<close>)
  qed (use assms(2,3) in simp)
  then show ?thesis
    using conflict_persists [OF assms(1) _ _ refl, of parse s' p now1 now2] by (auto simp: periodicPull_def)
qed

lemma date_conflict_blocks_sync_witness:
  "let s' = periodicPull serverClient 5 (checkAndReconnect serverClient (\<lambda>_. Some 9) 1 2
        (offlineState (noRows\<lparr>yt_plans := [localPlan]\<rparr>)))
   in st_state s' \<noteq> ONLINE \<and> st_local (checkAndReconnect serverClient (\<lambda>_. Some 9) 3 4 s') = st_local s'"
proof -
  let ?s = "offlineState (noRows\<lparr>yt_plans := [localPlan]\<rparr>)"
  have c: "dateConflict (\<lambda>_. Some 9) (sv_tables sampleServer) ?s localPlan"
    by code_simp
  have "(retryStep serverClient (\<lambda>_. Some 9) sv_tables localPlan)\<^sup>*\<^sup>* ?s
      (periodicPull serverClient 5 (checkAndReconnect serverClient (\<lambda>_. Some 9) 1 2 ?s))"
    by (rule rtranclp.rtrancl_into_rtrancl [where b = "checkAndReconnect serverClient (\<lambda>_. Some 9) 1 2 ?s"])
      (rule r_into_rtranclp retryStep.retry retryStep.pulls)+
  from date_conflict_blocks_sync [OF server_pg _ _ this, of 3 4] c show ?thesis
    by (simp add: offlineState_def Let_def)
qed

text \<open>
  A pull keeps nothing of the local tables: a song that the server does not know is gone. The
  periodic pull and the pull at the start are not preceded by a push.
\<close>

lemma pull_drops_local_songs:
  assumes "pg_server G tables" and "st_state s = ONLINE" and "st_state (periodicPull G now s) = ONLINE"
    and "x \<in> set (yt_songs (st_local (periodicPull G now s)))"
  shows "ys_id x \<in> ys_id ` set (yt_songs (tables (st_pg s)))"
proof -
  obtain u where u: "pullFromPostgres G (st_pg s) (st_local s) = Inr u"
      "st_local (periodicPull G now s) = u"
    using assms(2,3) by (auto simp: periodicPull_def pullAndSave_def split: sum.splits)
  then show ?thesis
    using pg_server.pull_copies [OF assms(1) u(1)] assms(4) by (auto simp: copyOf_maps)
qed

lemma start_drops_local_songs:
  assumes "pg_server G tables" and "st_state (syncInitialize G url now s) = ONLINE"
    and "x \<in> set (yt_songs (st_local (syncInitialize G url now s)))"
  shows "ys_id x \<in> ys_id ` set (yt_songs (tables (st_pg s)))"
proof -
  obtain u where u: "pullFromPostgres G (st_pg s) (st_local s) = Inr u"
      "st_local (syncInitialize G url now s) = u"
    using assms(2) by (auto simp: syncInitialize_def pullAndSave_def split: sum.splits if_splits)
  then show ?thesis
    using pg_server.pull_copies [OF assms(1) u(1)] assms(3) by (auto simp: copyOf_maps)
qed

text \<open>Rows whose dates are kept as numbers, as the Prisma client keeps them, are never pushed.\<close>

lemma client_rows_never_pushed:
  assumes "\<forall>s \<in> set (yt_songs local). \<exists>n. ys_updatedAt s = EpochMs n"
    and "\<forall>p \<in> set (yt_plans local). \<exists>n. yp_updatedAt p = EpochMs n"
  shows "pushRows G parse since local pg = (Inr (0, 0), pg)"
proof -
  have "filter (\<lambda>s. updatedAfter (ys_updatedAt s) since) (yt_songs local) = []"
    "filter (\<lambda>p. updatedAfter (yp_updatedAt p) since) (yt_plans local) = []"
    using assms by (force simp: filter_empty_conv)+
  then show ?thesis by (simp add: pushRows_def)
qed

end
