(* ===== verification/Zod.thy ===== *)
theory Zod
  imports PlanStore
begin

text \<open>
  The web application's checks of request bodies, written with the combinators of the zod
  library, and its answers. A check reads a JSON value and gives the value or the first issue;
  an issue has the message of the schema or the built-in one of zod.
\<close>

datatype issue = Custom string | BuiltIn

type_synonym 'a zod = "jsval \<Rightarrow> issue + 'a"

definition zString :: "string zod" where
  "zString v = (case v of JStr s \<Rightarrow> Inr s | _ \<Rightarrow> Inl BuiltIn)"

definition zBoolean :: "bool zod" where
  "zBoolean v = (case v of JBool b \<Rightarrow> Inr b | _ \<Rightarrow> Inl BuiltIn)"

definition zNumber :: "rat zod" where
  "zNumber v = (case v of JNum (Fin r) \<Rightarrow> Inr r | _ \<Rightarrow> Inl BuiltIn)"

text \<open>\<open>zCheck P e z\<close>: the value of \<open>z\<close> must satisfy \<open>P\<close>.\<close>

definition zCheck :: "('a \<Rightarrow> bool) \<Rightarrow> issue \<Rightarrow> 'a zod \<Rightarrow> 'a zod" where
  "zCheck P e z v = andThen (z v) (\<lambda>x. if P x then Inr x else Inl e)"

definition zMin :: "nat \<Rightarrow> issue \<Rightarrow> 'a list zod \<Rightarrow> 'a list zod" where
  "zMin n e z = zCheck (\<lambda>s. n \<le> length s) e z"

definition zOptional :: "'a zod \<Rightarrow> 'a option zod" where
  "zOptional z v = (if v = JUndef then Inr None else andThen (z v) (\<lambda>x. Inr (Some x)))"

definition zDefault :: "'a \<Rightarrow> 'a zod \<Rightarrow> 'a zod" where
  "zDefault d z v = (if v = JUndef then Inr d else z v)"

text \<open>\<open>.optional().nullable()\<close>: absent, \<open>null\<close> or a value\<close>

datatype 'a zNull = Absent | NullValue | Value 'a

definition zNullish :: "'a zod \<Rightarrow> 'a zNull zod" where
  "zNullish z v =
     (if v = JUndef then Inr Absent else if v = JNull then Inr NullValue
      else andThen (z v) (\<lambda>x. Inr (Value x)))"

fun nullToOption :: "'a zNull \<Rightarrow> 'a option" where
  "nullToOption (Value x) = Some x"
| "nullToOption _ = None"

definition zEnum :: "(string \<times> 'a) list \<Rightarrow> 'a zod" where
  "zEnum names v =
     (case v of JStr s \<Rightarrow> (case map_of names s of Some x \<Rightarrow> Inr x | None \<Rightarrow> Inl BuiltIn)
      | _ \<Rightarrow> Inl BuiltIn)"

definition zArray :: "'a zod \<Rightarrow> 'a list zod" where
  "zArray z v = (case v of JArr vs \<Rightarrow> traverse (\<lambda>_. z) vs | _ \<Rightarrow> Inl BuiltIn)"

definition zObject :: "((string \<times> jsval) list \<Rightarrow> issue + 'a) \<Rightarrow> 'a zod" where
  "zObject shape v = (case v of JObj rec \<Rightarrow> shape rec | _ \<Rightarrow> Inl BuiltIn)"

text \<open>\<open>z.number().int()\<close>\<close>

definition zInt :: "int zod" where
  "zInt v = andThen (zNumber v) (\<lambda>r. if r = of_int \<lfloor>r\<rfloor> then Inr \<lfloor>r\<rfloor> else Inl BuiltIn)"

lemma zString_Inr [simp]: "zString v = Inr s \<longleftrightarrow> v = JStr s"
  by (auto simp: zString_def split: jsval.splits)

lemma zCheck_Inr [simp]: "zCheck P e z v = Inr x \<longleftrightarrow> z v = Inr x \<and> P x"
  by (auto simp: zCheck_def andThen_Inr_iff)

lemma zMin_Inr [simp]: "zMin n e z v = Inr s \<longleftrightarrow> z v = Inr s \<and> n \<le> length s"
  by (simp add: zMin_def)

lemma zOptional_Inr:
  "zOptional z v = Inr x \<longleftrightarrow> (if v = JUndef then x = None else \<exists>y. z v = Inr y \<and> x = Some y)"
  by (auto simp: zOptional_def andThen_Inr_iff)

lemma zOptional_undef [simp]: "zOptional z JUndef = Inr None"
  by (simp add: zOptional_def)

lemma zEnum_Inr: "zEnum names v = Inr x \<longleftrightarrow> (\<exists>s. v = JStr s \<and> map_of names s = Some x)"
  by (auto simp: zEnum_def split: jsval.splits option.splits)

section \<open>Answers\<close>

text \<open>
  An answer with its status: data, a refusal with its message, or an exception that no handler
  catches (status 500). A route leaves the database in a state.
\<close>

datatype 'a reply = Reply nat 'a | Refused nat issue | Crashed failure

type_synonym ('a, 'db) route = "'db \<Rightarrow> 'a reply \<times> 'db"

definition refuse :: "nat \<Rightarrow> string \<Rightarrow> ('a, 'db) route" where
  "refuse status message db = (Refused status (Custom message), db)"

definition parsedBody :: "issue + 'b \<Rightarrow> ('b \<Rightarrow> ('a, 'db) route) \<Rightarrow> ('a, 'db) route" where
  "parsedBody parsed route db =
     (case parsed of Inl e \<Rightarrow> (Refused 400 e, db) | Inr b \<Rightarrow> route b db)"

text \<open>A statement whose failure is not caught\<close>

definition orCrash :: "failure + 'b \<times> 'db \<Rightarrow> 'db \<Rightarrow> ('b \<Rightarrow> ('a, 'db) route) \<Rightarrow> 'a reply \<times> 'db" where
  "orCrash stm db route = (case stm of Inl e \<Rightarrow> (Crashed e, db) | Inr (x, db') \<Rightarrow> route x db')"

lemma parsedBody_simps [simp]:
  "parsedBody (Inl e) route db = (Refused 400 e, db)" "parsedBody (Inr b) route db = route b db"
  by (simp_all add: parsedBody_def)

lemma orCrash_simps [simp]:
  "orCrash (Inl e) db route = (Crashed e, db)" "orCrash (Inr (x, db')) db route = route x db'"
  by (simp_all add: orCrash_def)

end
