(* ===== verification/WebUsers.thy ===== *)
theory WebUsers
  imports Zod
begin

text \<open>
  The accounts of the web application: roles and what they permit (\<open>lib/roles.ts\<close>), login and
  session (\<open>lib/auth.ts\<close>) and the routes of users (\<open>app/api/users\<close>). The store of users is a
  record of the client's operations with the laws of \<open>user_store\<close>; the hash of a password and
  its comparison are parameters.
\<close>

section \<open>Roles\<close>

datatype appRole = ADMIN | RESPONSABLE_CHANTRE | CHANTRE | LECTEUR

fun roleName :: "appRole \<Rightarrow> string" where
  "roleName ADMIN = ''ADMIN''"
| "roleName RESPONSABLE_CHANTRE = ''RESPONSABLE_CHANTRE''"
| "roleName CHANTRE = ''CHANTRE''"
| "roleName LECTEUR = ''LECTEUR''"

definition ROLES :: "appRole list" where
  "ROLES = [ADMIN, RESPONSABLE_CHANTRE, CHANTRE, LECTEUR]"

fun ROLE_LEVEL :: "appRole \<Rightarrow> nat" where
  "ROLE_LEVEL ADMIN = 100"
| "ROLE_LEVEL RESPONSABLE_CHANTRE = 70"
| "ROLE_LEVEL CHANTRE = 40"
| "ROLE_LEVEL LECTEUR = 10"

definition roleOfName :: "string \<Rightarrow> appRole option" where
  "roleOfName s = map_of (map (\<lambda>r. (roleName r, r)) ROLES) s"

definition level :: "string \<Rightarrow> nat" where
  "level role = (case roleOfName role of None \<Rightarrow> 0 | Some r \<Rightarrow> ROLE_LEVEL r)"

definition atLeast :: "string \<Rightarrow> appRole \<Rightarrow> bool" where
  "atLeast role m \<longleftrightarrow> ROLE_LEVEL m \<le> level role"

definition canEditSongs :: "string \<Rightarrow> bool" where
  "canEditSongs role \<longleftrightarrow> atLeast role CHANTRE"

definition canDeleteSongs :: "string \<Rightarrow> bool" where
  "canDeleteSongs role \<longleftrightarrow> atLeast role RESPONSABLE_CHANTRE"

definition canImportSongs :: "string \<Rightarrow> bool" where
  "canImportSongs role \<longleftrightarrow> atLeast role CHANTRE"

definition canManagePlans :: "string \<Rightarrow> bool" where
  "canManagePlans role \<longleftrightarrow> atLeast role RESPONSABLE_CHANTRE"

definition canAccessUserAdmin :: "string \<Rightarrow> bool" where
  "canAccessUserAdmin role \<longleftrightarrow> atLeast role RESPONSABLE_CHANTRE"

definition canCreateUser :: "string \<Rightarrow> bool" where
  "canCreateUser role \<longleftrightarrow> atLeast role RESPONSABLE_CHANTRE"

definition allowedRolesToAssign :: "string \<Rightarrow> appRole list" where
  "allowedRolesToAssign creatorRole =
     (if level creatorRole = 0 then []
      else if creatorRole = ''ADMIN'' then ROLES
      else filter (\<lambda>r. ROLE_LEVEL r < level creatorRole) ROLES)"

definition canChangeUserRole :: "string \<Rightarrow> bool" where
  "canChangeUserRole role \<longleftrightarrow> atLeast role ADMIN"

definition canDeleteUser :: "string \<Rightarrow> bool" where
  "canDeleteUser role \<longleftrightarrow> atLeast role ADMIN"

section \<open>Users\<close>

record userRow =
  us_id :: string
  us_firstName :: string
  us_lastName :: string
  us_username :: string
  us_name :: string
  us_email :: string
  us_passwordHash :: string
  us_role :: appRole
  us_isActive :: bool
  us_lastLoginAt :: "int option"

text \<open>
  \<open>findUser\<close> is \<open>findFirst\<close> and, for a predicate on a key, \<open>findUnique\<close>; \<open>findUsers\<close> is the
  \<open>findMany\<close> of the list of users.
\<close>

record 'db userDb =
  findUser :: "'db \<Rightarrow> (userRow \<Rightarrow> bool) \<Rightarrow> userRow option"
  findUsers :: "'db \<Rightarrow> userRow list"
  createUser :: "'db \<Rightarrow> userRow \<Rightarrow> failure + userRow \<times> 'db"
  updateUser :: "'db \<Rightarrow> string \<Rightarrow> (userRow \<Rightarrow> userRow) \<Rightarrow> failure + userRow \<times> 'db"
  deleteUser :: "'db \<Rightarrow> string \<Rightarrow> failure + unit \<times> 'db"

section \<open>Login and session\<close>

record webToken =
  tk_id :: string
  tk_role :: string
  tk_username :: string
  tk_firstName :: string
  tk_lastName :: string

record webSession =
  ws_id :: string
  ws_role :: string
  ws_username :: string
  ws_firstName :: string
  ws_lastName :: string
  ws_name :: string

text \<open>\<open>cmp\<close> is \<open>compare\<close> of bcrypt: a password against a hash.\<close>

definition authorize ::
  "(string \<Rightarrow> string \<Rightarrow> bool) \<Rightarrow> int \<Rightarrow> 'db userDb \<Rightarrow> string option \<Rightarrow> string option \<Rightarrow> 'db
     \<Rightarrow> (failure + userRow option) \<times> 'db" where
  "authorize cmp now U email password db =
     (case (email, password) of
        (Some (c # e), Some (d # p)) \<Rightarrow>
          (let login = c # e
           in case findUser U db (\<lambda>r. us_email r = login \<or> us_username r = login) of
                None \<Rightarrow> (Inr None, db)
              | Some user \<Rightarrow>
                  if \<not> us_isActive user then (Inr None, db)
                  else if \<not> cmp (d # p) (us_passwordHash user) then (Inr None, db)
                  else (case updateUser U db (us_id user) (\<lambda>r. r\<lparr>us_lastLoginAt := Some now\<rparr>) of
                          Inl e \<Rightarrow> (Inl e, db)
                        | Inr (_, db') \<Rightarrow> (Inr (Some user), db')))
      | _ \<Rightarrow> (Inr None, db))"

text \<open>The token keeps what the user had at login.\<close>

definition jwtToken :: "userRow \<Rightarrow> webToken" where
  "jwtToken u = \<lparr>tk_id = us_id u, tk_role = roleName (us_role u), tk_username = us_username u,
     tk_firstName = us_firstName u, tk_lastName = us_lastName u\<rparr>"

definition sessionOf :: "'db userDb \<Rightarrow> string \<Rightarrow> webToken \<Rightarrow> 'db \<Rightarrow> webSession" where
  "sessionOf U name token db =
     (let s = \<lparr>ws_id = tk_id token, ws_role = tk_role token, ws_username = tk_username token,
               ws_firstName = tk_firstName token, ws_lastName = tk_lastName token, ws_name = name\<rparr>
      in if tk_id token = [] then s
         else (case findUser U db (\<lambda>r. us_id r = tk_id token) of
                 None \<Rightarrow> s\<lparr>ws_id := []\<rparr>
               | Some fresh \<Rightarrow>
                   if \<not> us_isActive fresh then s\<lparr>ws_id := []\<rparr>
                   else s\<lparr>ws_username := us_username fresh, ws_firstName := us_firstName fresh,
                          ws_lastName := us_lastName fresh, ws_name := us_name fresh\<rparr>))"

section \<open>The routes\<close>

text \<open>\<open>if (!session)\<close> and the check of the role, at the head of the routes\<close>

definition withSession :: "webSession option \<Rightarrow> (webSession \<Rightarrow> ('a, 'db) route) \<Rightarrow> ('a, 'db) route" where
  "withSession session route =
     (case session of
        None \<Rightarrow> refuse 401 (''Non authentifi'' @ [CHR 0xE9])
      | Some s \<Rightarrow> route s)"

definition requireRole :: "bool \<Rightarrow> nat \<times> string \<Rightarrow> ('a, 'db) route \<Rightarrow> ('a, 'db) route" where
  "requireRole allowed e route = (if \<not> allowed then refuse (fst e) (snd e) else route)"

definition accessDenied :: "nat \<times> string" where
  "accessDenied = (403, ''Acc'' @ [CHR 0xE8] @ ''s refus'' @ [CHR 0xE9])"

record createUserBody =
  cu_firstName :: string
  cu_lastName :: string
  cu_username :: string
  cu_email :: string
  cu_password :: string
  cu_role :: appRole

definition usernameChar :: "char \<Rightarrow> bool" where
  "usernameChar c \<longleftrightarrow>
     (let n = (of_char (lower_char c) :: nat)
      in of_char c < (128 :: nat) \<and> (97 \<le> n \<and> n \<le> 122 \<or> is_digit c) \<or> c \<in> {CHR ''_'', CHR ''.'', CHR ''-''})"

definition usernameOk :: "string \<Rightarrow> bool" where
  "usernameOk s \<longleftrightarrow> s \<noteq> [] \<and> list_all usernameChar s"

definition roleNames :: "(string \<times> appRole) list" where
  "roleNames = map (\<lambda>r. (roleName r, r)) ROLES"

text \<open>\<open>emailOk\<close> is zod's pattern of an e-mail address.\<close>

definition CreateUserSchema :: "(string \<Rightarrow> bool) \<Rightarrow> createUserBody zod" where
  "CreateUserSchema emailOk = zObject (\<lambda>rec.
     andThen (zMin 1 (Custom (''Pr'' @ [CHR 0xE9] @ ''nom requis'')) zString (jget rec ''firstName'')) (\<lambda>fn.
     andThen (zMin 1 (Custom ''Nom requis'') zString (jget rec ''lastName'')) (\<lambda>ln.
     andThen (zCheck usernameOk (Custom ''Pseudo : lettres, chiffres, _ . - uniquement'')
        (zMin 3 (Custom (''Pseudo minimum 3 caract'' @ [CHR 0xE8] @ ''res'')) zString) (jget rec ''username'')) (\<lambda>un.
     andThen (zCheck emailOk (Custom ''Email invalide'') zString (jget rec ''email'')) (\<lambda>em.
     andThen (zMin 8 (Custom (''Mot de passe minimum 8 caract'' @ [CHR 0xE8] @ ''res'')) zString
        (jget rec ''password'')) (\<lambda>pw.
     andThen (zDefault CHANTRE (zEnum roleNames) (jget rec ''role'')) (\<lambda>role.
       Inr \<lparr>cu_firstName = fn, cu_lastName = ln, cu_username = un, cu_email = em, cu_password = pw,
         cu_role = role\<rparr>)))))))"

definition fullName :: "string \<Rightarrow> string \<Rightarrow> string" where
  "fullName firstName lastName = trim (firstName @ '' '' @ lastName)"

text \<open>What the answers show of an account: the columns of the \<open>select\<close>, which leave out the hash\<close>

definition publicUser :: "userRow \<Rightarrow> userRow" where
  "publicUser r = r\<lparr>us_passwordHash := []\<rparr>"

definition usersGet :: "'db userDb \<Rightarrow> webSession option \<Rightarrow> (userRow list, 'db) route" where
  "usersGet U session = withSession session (\<lambda>s.
     requireRole (canAccessUserAdmin (ws_role s)) accessDenied (\<lambda>db. (Reply 200 (map publicUser (findUsers U db)), db)))"

definition newUserRow :: "(string \<Rightarrow> string) \<Rightarrow> createUserBody \<Rightarrow> userRow" where
  "newUserRow hash b = \<lparr>us_id = [], us_firstName = cu_firstName b, us_lastName = cu_lastName b,
     us_username = cu_username b, us_name = fullName (cu_firstName b) (cu_lastName b),
     us_email = cu_email b, us_passwordHash = hash (cu_password b), us_role = cu_role b,
     us_isActive = True, us_lastLoginAt = None\<rparr>"

definition usersPost ::
  "(string \<Rightarrow> bool) \<Rightarrow> (string \<Rightarrow> string) \<Rightarrow> 'db userDb \<Rightarrow> webSession option \<Rightarrow> jsval \<Rightarrow> (userRow, 'db) route" where
  "usersPost emailOk hash U session body = withSession session (\<lambda>s.
     requireRole (canCreateUser (ws_role s)) accessDenied
      (parsedBody (CreateUserSchema emailOk body) (\<lambda>b.
        if cu_role b \<notin> set (allowedRolesToAssign (ws_role s))
        then refuse 403 (''Vous ne pouvez pas attribuer le r'' @ [CHR 0xF4] @ ''le '' @ [CHR 0x22]
               @ roleName (cu_role b) @ [CHR 0x22])
        else (\<lambda>db.
          if findUser U db (\<lambda>r. us_email r = cu_email b) \<noteq> None
          then refuse 409 (''Cet email est d'' @ [CHR 0xE9, CHR ''j'', CHR 0xE0] @ '' utilis'' @ [CHR 0xE9]) db
          else if findUser U db (\<lambda>r. us_username r = cu_username b) \<noteq> None
          then refuse 409 (''Ce pseudo est d'' @ [CHR 0xE9, CHR ''j'', CHR 0xE0] @ '' pris'') db
          else orCrash (createUser U db (newUserRow hash b)) db (\<lambda>r db. (Reply 201 (publicUser r), db))))))"

record updateUserBody =
  uu_firstName :: "string option"
  uu_lastName :: "string option"
  uu_username :: "string option"
  uu_name :: "string option"
  uu_email :: "string option"
  uu_role :: "appRole option"
  uu_isActive :: "bool option"
  uu_password :: "string option"

definition UpdateUserSchema :: "(string \<Rightarrow> bool) \<Rightarrow> updateUserBody zod" where
  "UpdateUserSchema emailOk = zObject (\<lambda>rec.
     andThen (zOptional (zMin 1 BuiltIn zString) (jget rec ''firstName'')) (\<lambda>fn.
     andThen (zOptional (zMin 1 BuiltIn zString) (jget rec ''lastName'')) (\<lambda>ln.
     andThen (zOptional (zCheck usernameOk BuiltIn (zMin 3 BuiltIn zString)) (jget rec ''username'')) (\<lambda>un.
     andThen (zOptional (zMin 1 BuiltIn zString) (jget rec ''name'')) (\<lambda>nm.
     andThen (zOptional (zCheck emailOk BuiltIn zString) (jget rec ''email'')) (\<lambda>em.
     andThen (zOptional (zEnum roleNames) (jget rec ''role'')) (\<lambda>role.
     andThen (zOptional zBoolean (jget rec ''isActive'')) (\<lambda>act.
     andThen (zOptional (zMin 8 BuiltIn zString) (jget rec ''password'')) (\<lambda>pw.
       Inr \<lparr>uu_firstName = fn, uu_lastName = ln, uu_username = un, uu_name = nm, uu_email = em,
         uu_role = role, uu_isActive = act, uu_password = pw\<rparr>)))))))))"

text \<open>The fields that the update writes\<close>

definition patchUser :: "(string \<Rightarrow> string) \<Rightarrow> updateUserBody \<Rightarrow> userRow \<Rightarrow> userRow" where
  "patchUser hash b r = r\<lparr>
     us_name := (if uu_firstName b \<noteq> None \<or> uu_lastName b \<noteq> None
                 then fullName (orElse (uu_firstName b) (us_firstName r)) (orElse (uu_lastName b) (us_lastName r))
                 else orElse (uu_name b) (us_name r)),
     us_email := orElse (uu_email b) (us_email r),
     us_username := orElse (uu_username b) (us_username r),
     us_firstName := orElse (uu_firstName b) (us_firstName r),
     us_lastName := orElse (uu_lastName b) (us_lastName r),
     us_role := orElse (uu_role b) (us_role r),
     us_isActive := orElse (uu_isActive b) (us_isActive r),
     us_passwordHash := (case uu_password b of None \<Rightarrow> us_passwordHash r | Some p \<Rightarrow> hash p)\<rparr>"

definition usersPatch ::
  "(string \<Rightarrow> bool) \<Rightarrow> (string \<Rightarrow> string) \<Rightarrow> 'db userDb \<Rightarrow> webSession option \<Rightarrow> string \<Rightarrow> jsval
     \<Rightarrow> (userRow, 'db) route" where
  "usersPatch emailOk hash U session i body = withSession session (\<lambda>s.
     let isSelf = (ws_id s = i); isAdmin = (ws_role s = ''ADMIN'');
         isManager = canAccessUserAdmin (ws_role s)
     in requireRole (isSelf \<or> isManager) accessDenied
      (parsedBody (UpdateUserSchema emailOk body) (\<lambda>b db.
        if uu_username b \<noteq> None \<and> \<not> isSelf
        then refuse 403 ''Vous ne pouvez modifier que votre propre pseudo'' db
        else if (case uu_username b of None \<Rightarrow> False
                 | Some un \<Rightarrow> findUser U db (\<lambda>r. us_username r = un \<and> us_id r \<noteq> i) \<noteq> None)
        then refuse 409 (''Ce pseudo est d'' @ [CHR 0xE9, CHR ''j'', CHR 0xE0] @ '' pris'') db
        else if (uu_firstName b \<noteq> None \<or> uu_lastName b \<noteq> None) \<and> findUser U db (\<lambda>r. us_id r = i) = None
        then (Crashed (Prisma P2025), db)
        else if uu_role b \<noteq> None \<and> \<not> canChangeUserRole (ws_role s)
        then refuse 403 (''Seul un administrateur peut modifier les r'' @ [CHR 0xF4] @ ''les'') db
        else if uu_isActive b \<noteq> None \<and> \<not> isAdmin
        then refuse 403 (''Seul un administrateur peut activer/d'' @ [CHR 0xE9] @ ''sactiver un compte'') db
        else orCrash (updateUser U db i (patchUser hash b)) db (\<lambda>r db. (Reply 200 (publicUser r), db)))))"

definition usersDelete :: "'db userDb \<Rightarrow> webSession option \<Rightarrow> string \<Rightarrow> (string, 'db) route" where
  "usersDelete U session i = withSession session (\<lambda>s.
     requireRole (canDeleteUser (ws_role s)) (403, ''Seul un administrateur peut supprimer des utilisateurs'')
      (\<lambda>db. if ws_id s = i then refuse 400 ''Vous ne pouvez pas supprimer votre propre compte'' db
            else orCrash (deleteUser U db i) db (\<lambda>_ db. (Reply 200 i, db))))"

section \<open>The laws of the store\<close>

text \<open>Two rows that agree in a unique column\<close>

definition sameUserKey :: "userRow \<Rightarrow> userRow \<Rightarrow> bool" where
  "sameUserKey r q \<longleftrightarrow> us_email r = us_email q \<or> us_username r = us_username q"

locale user_store =
  fixes U :: "'db userDb"
    and users :: "'db \<Rightarrow> string \<rightharpoonup> userRow"
    and ok :: "'db \<Rightarrow> bool"
  assumes find_some: "ok db \<Longrightarrow> findUser U db P = Some r \<Longrightarrow> users db (us_id r) = Some r \<and> P r"
    and find_none: "ok db \<Longrightarrow> findUser U db P = None \<Longrightarrow> users db i = Some r \<Longrightarrow> \<not> P r"
    and find_all: "ok db \<Longrightarrow> set (findUsers U db) = ran (users db)"
    and user_key: "ok db \<Longrightarrow> users db i = Some r \<Longrightarrow> us_id r = i"
    and unique: "ok db \<Longrightarrow> users db i = Some r \<Longrightarrow> users db j = Some q \<Longrightarrow> sameUserKey r q \<Longrightarrow> i = j"
    and create_user: "ok db \<Longrightarrow> createUser U db r = Inr (q, db') \<Longrightarrow>
          \<exists>i. users db i = None \<and> q = r\<lparr>us_id := i\<rparr> \<and> users db' = (users db)(i \<mapsto> q) \<and> ok db'"
    and create_fits: "ok db \<Longrightarrow> (\<And>i q. users db i = Some q \<Longrightarrow> \<not> sameUserKey r q) \<Longrightarrow>
          \<exists>x. createUser U db r = Inr x"
    and update_user: "ok db \<Longrightarrow> updateUser U db i f = Inr (q, db') \<Longrightarrow>
          \<exists>r. users db i = Some r \<and> q = f r \<and> users db' = (users db)(i \<mapsto> q) \<and> ok db'"
    and update_fits: "ok db \<Longrightarrow> users db i = Some r \<Longrightarrow> us_id (f r) = us_id r \<Longrightarrow>
          (\<And>j q. users db j = Some q \<Longrightarrow> sameUserKey (f r) q \<Longrightarrow> j = i) \<Longrightarrow>
          \<exists>x. updateUser U db i f = Inr x"
    and delete_user: "ok db \<Longrightarrow> deleteUser U db i = Inr (u, db') \<Longrightarrow>
          users db' = (users db)(i := None) \<and> ok db'"

text \<open>The store as a table with a counter for new identifiers\<close>

record userTable =
  wu_rows :: "userRow list"
  wu_next :: nat

definition wu_users :: "userTable \<Rightarrow> string \<rightharpoonup> userRow" where
  "wu_users t = map_of (map (\<lambda>r. (us_id r, r)) (wu_rows t))"

definition userTableOk :: "userTable \<Rightarrow> bool" where
  "userTableOk t \<longleftrightarrow> distinct (map us_id (wu_rows t)) \<and> distinct (map us_email (wu_rows t))
     \<and> distinct (map us_username (wu_rows t))
     \<and> us_id ` set (wu_rows t) \<subseteq> usedIds (wu_next t)"

definition tableUsers :: "userTable userDb" where
  "tableUsers = \<lparr>findUser = (\<lambda>t P. find P (wu_rows t)), findUsers = wu_rows,
     createUser = (\<lambda>t r. if (\<exists>q \<in> set (wu_rows t). sameUserKey r q) then Inl (Prisma P2002)
        else let q = r\<lparr>us_id := show_nat (wu_next t)\<rparr>
             in Inr (q, t\<lparr>wu_rows := wu_rows t @ [q], wu_next := Suc (wu_next t)\<rparr>)),
     updateUser = (\<lambda>t i f.
        case find (\<lambda>r. us_id r = i) (wu_rows t) of
          None \<Rightarrow> Inl (Prisma P2025)
        | Some r \<Rightarrow>
            if us_id (f r) \<noteq> i \<or> (\<exists>q \<in> set (wu_rows t). us_id q \<noteq> i \<and> sameUserKey (f r) q)
            then Inl (Prisma P2002)
            else Inr (f r, t\<lparr>wu_rows := map (\<lambda>q. if us_id q = i then f r else q) (wu_rows t)\<rparr>)),
     deleteUser = (\<lambda>t i.
        if find (\<lambda>r. us_id r = i) (wu_rows t) = None then Inl (Prisma P2025)
        else Inr ((), t\<lparr>wu_rows := filter (\<lambda>r. us_id r \<noteq> i) (wu_rows t)\<rparr>))\<rparr>"

lemma find_by_key: "find (\<lambda>r. f r = i) rs = map_of (map (\<lambda>r. (f r, r)) rs) i"
  by (induction rs) auto

text \<open>A row of a table with a key and a unique column is replaced\<close>

lemma changed_row:
  assumes "distinct (map key rs)" and "distinct (map uq rs)"
    and "map_of (map (\<lambda>r. (key r, r)) rs) i = Some r" and "\<And>q. key (f q) = key q"
    and "\<And>q. q \<in> set rs \<Longrightarrow> uq q = uq (f r) \<Longrightarrow> key q = i"
  shows "map key (map (\<lambda>q. if key q = i then f q else q) rs) = map key rs"
    and "distinct (map uq (map (\<lambda>q. if key q = i then f q else q) rs))"
    and "map_of (map (\<lambda>r. (key r, r)) (map (\<lambda>q. if key q = i then f q else q) rs))
      = (map_of (map (\<lambda>r. (key r, r)) rs))(i \<mapsto> f r)"
proof -
  let ?h = "\<lambda>q. if key q = i then f q else q"
  show "map key (map ?h rs) = map key rs"
    using assms(4) by simp
  have one: "q = r" if "q \<in> set rs" "key q = i" for q
  proof -
    have "map_of (map (\<lambda>r. (key r, r)) rs) i = Some q"
      using that assms(1) by (simp add: map_of_eq_Some_iff comp_def image_iff)
    with assms(3) show ?thesis by simp
  qed
  have "distinct (map (\<lambda>q. uq (?h q)) rs)"
  proof (rule distinct_map_change [OF assms(2)])
    fix x y assume that: "x \<in> set rs" "y \<in> set rs" "x \<noteq> y"
    show "uq (?h x) \<noteq> uq (?h y)"
    proof (cases "key x = i"; cases "key y = i")
      assume "key x = i" "key y = i"
      with one that show ?thesis by metis
    next
      assume "key x = i" "key y \<noteq> i"
      then show ?thesis using one [OF that(1)] assms(5) [OF that(2)] by auto
    next
      assume "key x \<noteq> i" "key y = i"
      then show ?thesis using one [OF that(2)] assms(5) [OF that(1)] by auto
    next
      assume "key x \<noteq> i" "key y \<noteq> i"
      then show ?thesis using assms(2) that by (auto simp: distinct_map inj_on_def)
    qed
  qed
  then show "distinct (map uq (map ?h rs))"
    by (simp add: comp_def)
  show "map_of (map (\<lambda>r. (key r, r)) (map ?h rs)) = (map_of (map (\<lambda>r. (key r, r)) rs))(i \<mapsto> f r)"
    by (rule map_of_update_row [OF assms(1,3,4)])
qed

lemma wu_users_Some:
  "userTableOk t \<Longrightarrow> wu_users t i = Some r \<longleftrightarrow> r \<in> set (wu_rows t) \<and> us_id r = i"
  unfolding wu_users_def userTableOk_def
  by (subst map_of_eq_Some_iff) (auto simp: comp_def)

lemma wu_users_eq:
  assumes "userTableOk t" and "userTableOk t'"
    and "\<And>r. r \<in> set (wu_rows t') \<longleftrightarrow> m (us_id r) = Some r" and "\<And>i r. m i = Some r \<Longrightarrow> us_id r = i"
  shows "wu_users t' = m"
proof
  fix i
  have "wu_users t' i = Some r \<longleftrightarrow> m i = Some r" for r
    using wu_users_Some [OF assms(2)] assms(3,4) by metis
  then show "wu_users t' i = m i"
    by (metis not_None_eq)
qed

lemma userTable_keys:
  assumes "userTableOk t" and "r \<in> set (wu_rows t)" and "q \<in> set (wu_rows t)"
  shows "us_id r = us_id q \<Longrightarrow> r = q" and "sameUserKey r q \<Longrightarrow> r = q"
  using assms by (auto simp: userTableOk_def sameUserKey_def distinct_map inj_on_def)

lemma table_create:
  assumes "userTableOk t" and "createUser tableUsers t r = Inr (q, t')"
  shows "\<exists>i. wu_users t i = None \<and> q = r\<lparr>us_id := i\<rparr> \<and> wu_users t' = (wu_users t)(i \<mapsto> q) \<and> userTableOk t'"
proof -
  let ?i = "show_nat (wu_next t)"
  have q: "q = r\<lparr>us_id := ?i\<rparr>" "t' = t\<lparr>wu_rows := wu_rows t @ [q], wu_next := Suc (wu_next t)\<rparr>"
    and fresh: "\<forall>p \<in> set (wu_rows t). \<not> sameUserKey r p"
    using assms(2) by (auto simp: tableUsers_def Let_def split: if_splits)
  have new: "?i \<notin> us_id ` set (wu_rows t)"
    using assms(1) fresh_usedIds unfolding userTableOk_def by blast
  have cols: "us_id q = ?i" "us_email q = us_email r" "us_username q = us_username r"
    by (simp_all add: q)
  have "userTableOk t'"
    unfolding userTableOk_def q(2) using assms(1) fresh new cols
    by (auto simp: userTableOk_def sameUserKey_def usedIds_Suc)
  moreover have none: "wu_users t ?i = None"
    using new by (auto simp: wu_users_def map_of_eq_None_iff)
  moreover have "wu_users t' = (wu_users t)(?i \<mapsto> q)"
  proof (intro wu_users_eq [OF assms(1) calculation(1)])
    show "p \<in> set (wu_rows t') \<longleftrightarrow> ((wu_users t)(?i \<mapsto> q)) (us_id p) = Some p" for p
      using new none wu_users_Some [OF assms(1), of "us_id p" p] cols(1)
      by (cases "us_id p = ?i") (auto simp: q(2))
    show "us_id p = i" if "((wu_users t)(?i \<mapsto> q)) i = Some p" for i p
      using that wu_users_Some [OF assms(1)] cols(1) by (auto split: if_splits)
  qed
  ultimately show ?thesis
    using q(1) by blast
qed

lemma table_update:
  assumes "userTableOk t" and "updateUser tableUsers t i f = Inr (q, t')"
  shows "\<exists>r. wu_users t i = Some r \<and> q = f r \<and> wu_users t' = (wu_users t)(i \<mapsto> q) \<and> userTableOk t'"
proof -
  obtain r where r: "find (\<lambda>r. us_id r = i) (wu_rows t) = Some r"
  proof (cases "find (\<lambda>r. us_id r = i) (wu_rows t)")
    case None
    then show ?thesis using assms(2) by (simp add: tableUsers_def)
  qed
  let ?c = "us_id (f r) \<noteq> i \<or> (\<exists>q \<in> set (wu_rows t). us_id q \<noteq> i \<and> sameUserKey (f r) q)"
  let ?h = "\<lambda>q. if us_id q = i then f r else q"
  have upd: "(if ?c then Inl (Prisma P2002) else Inr (f r, t\<lparr>wu_rows := map ?h (wu_rows t)\<rparr>)) = Inr (q, t')"
    using assms(2) by (simp add: tableUsers_def r cong: if_cong)
  have c: "\<not> ?c"
  proof
    assume ?c
    with upd show False by (subst (asm) if_P) simp_all
  qed
  have eqs: "q = f r" "t' = t\<lparr>wu_rows := map ?h (wu_rows t)\<rparr>"
    using upd c by (subst (asm) if_not_P, simp, simp)+
  have mem: "r \<in> set (wu_rows t)" "us_id r = i"
    using r by (auto simp: find_Some_iff)
  have ids: "map us_id (wu_rows t') = map us_id (wu_rows t)"
    using c by (auto simp: eqs)
  have diff: "us_email (?h x) \<noteq> us_email (?h y)" "us_username (?h x) \<noteq> us_username (?h y)"
    if "x \<in> set (wu_rows t)" "y \<in> set (wu_rows t)" "x \<noteq> y" for x y
  proof -
    have "\<not> sameUserKey x y" "us_id x = i \<Longrightarrow> us_id y \<noteq> i"
      using userTable_keys [OF assms(1) that(1,2)] that(3) by auto
    moreover have "us_id z \<noteq> i \<Longrightarrow> \<not> sameUserKey (f r) z" if "z \<in> set (wu_rows t)" for z
      using c that by blast
    ultimately show "us_email (?h x) \<noteq> us_email (?h y)" "us_username (?h x) \<noteq> us_username (?h y)"
      using that(1,2) by (auto simp: sameUserKey_def dest: sym)
  qed
  have cols: "distinct (map k (wu_rows t'))"
    if "\<And>x y. x \<in> set (wu_rows t) \<Longrightarrow> y \<in> set (wu_rows t) \<Longrightarrow> x \<noteq> y \<Longrightarrow> k (?h x) \<noteq> k (?h y)" for k :: "userRow \<Rightarrow> string"
  proof -
    have "distinct (wu_rows t)"
      using assms(1) by (auto simp: userTableOk_def distinct_map)
    then have "distinct (map (\<lambda>x. k (?h x)) (wu_rows t))"
      using that unfolding distinct_map inj_on_def by blast
    then show ?thesis by (simp add: eqs comp_def)
  qed
  have "userTableOk t'"
    unfolding userTableOk_def
  proof (intro conjI)
    show "distinct (map us_id (wu_rows t'))"
      unfolding ids using assms(1) by (simp add: userTableOk_def)
    show "distinct (map us_email (wu_rows t'))" "distinct (map us_username (wu_rows t'))"
      using diff by (blast intro: cols)+
    have "us_id ` set (wu_rows t') = us_id ` set (wu_rows t)"
      using ids by (metis list.set_map)
    then show "us_id ` set (wu_rows t') \<subseteq> usedIds (wu_next t')"
      using assms(1) by (simp add: eqs(2) userTableOk_def)
  qed
  moreover have "wu_users t' = (wu_users t)(i \<mapsto> q)"
  proof (intro wu_users_eq [OF assms(1) calculation(1)])
    show "p \<in> set (wu_rows t') \<longleftrightarrow> ((wu_users t)(i \<mapsto> q)) (us_id p) = Some p" for p
      using mem c eqs(1) wu_users_Some [OF assms(1), of "us_id p" p]
      by (cases "us_id p = i") (auto simp: eqs(2))
    show "us_id p = j" if "((wu_users t)(i \<mapsto> q)) j = Some p" for j p
      using that wu_users_Some [OF assms(1)] c eqs(1) by (auto split: if_splits)
  qed
  ultimately show ?thesis
    using mem eqs(1) wu_users_Some [OF assms(1)] by blast
qed

lemma table_delete:
  assumes "userTableOk t" and "deleteUser tableUsers t i = Inr (u, t')"
  shows "wu_users t' = (wu_users t)(i := None) \<and> userTableOk t'"
proof -
  have t': "t' = t\<lparr>wu_rows := filter (\<lambda>r. us_id r \<noteq> i) (wu_rows t)\<rparr>"
    using assms(2) by (auto simp: tableUsers_def split: if_splits)
  have "userTableOk t'"
    using assms(1) by (auto simp: t' userTableOk_def intro: distinct_map_filter)
  moreover have "wu_users t' = (wu_users t)(i := None)"
    by (intro wu_users_eq [OF assms(1) calculation]) (auto simp: t' wu_users_Some assms(1) split: if_splits)
  ultimately show ?thesis by simp
qed

lemma table_user_store: "user_store tableUsers wu_users userTableOk"
proof (unfold_locales, goal_cases)
  case (1 db P r)
  then show ?case by (auto simp: tableUsers_def wu_users_Some find_Some_iff)
next
  case (2 db P i r)
  then show ?case by (auto simp: tableUsers_def wu_users_Some find_None_iff)
next
  case (3 db)
  then show ?case by (auto simp: tableUsers_def ran_def wu_users_Some)
next
  case (4 db i r)
  then show ?case by (simp add: wu_users_Some)
next
  case (5 db i r j q)
  then show ?case using userTable_keys(2) by (auto simp: wu_users_Some)
next
  case (6 db r q db')
  then show ?case by (rule table_create)
next
  case (7 db r)
  then have "\<not> (\<exists>q \<in> set (wu_rows db). sameUserKey r q)"
    by (metis wu_users_Some)
  then show ?case by (simp add: tableUsers_def Let_def)
next
  case (8 db i f q db')
  then show ?case by (rule table_update)
next
  case (9 db i r f)
  then have "find (\<lambda>r. us_id r = i) (wu_rows db) = Some r" "us_id (f r) = i"
    by (simp_all add: find_by_key wu_users_def wu_users_Some [unfolded wu_users_def])
  moreover have "\<not> (\<exists>q \<in> set (wu_rows db). us_id q \<noteq> i \<and> sameUserKey (f r) q)"
    using 9(1,4) wu_users_Some by blast
  ultimately show ?case
    by (simp add: tableUsers_def)
next
  case (10 db i u db')
  then show ?case by (rule table_delete)
qed

interpretation accounts: user_store tableUsers wu_users userTableOk
  by (rule table_user_store)


section \<open>Requests of accounts\<close>

datatype usersRequest = GetUsers | PostUser jsval | PatchUser string jsval | DeleteUser string

text \<open>What a request of a session leaves in the database\<close>

fun usersServe ::
  "(string \<Rightarrow> bool) \<Rightarrow> (string \<Rightarrow> string) \<Rightarrow> 'db userDb \<Rightarrow> webSession option \<Rightarrow> usersRequest \<Rightarrow> 'db \<Rightarrow> 'db" where
  "usersServe emailOk hash U session GetUsers db = snd (usersGet U session db)"
| "usersServe emailOk hash U session (PostUser body) db = snd (usersPost emailOk hash U session body db)"
| "usersServe emailOk hash U session (PatchUser i body) db = snd (usersPatch emailOk hash U session i body db)"
| "usersServe emailOk hash U session (DeleteUser i) db = snd (usersDelete U session i db)"

lemma level_ADMIN: "atLeast role ADMIN \<longleftrightarrow> role = ''ADMIN''"
  by (auto simp: atLeast_def level_def roleOfName_def ROLES_def)

lemma assigned_below: "role \<noteq> ''ADMIN'' \<Longrightarrow> r \<in> set (allowedRolesToAssign role) \<Longrightarrow> ROLE_LEVEL r < level role"
  by (auto simp: allowedRolesToAssign_def split: if_splits)

lemma withSession_simps [simp]:
  "withSession None route = refuse 401 (''Non authentifi'' @ [CHR 0xE9])" "withSession (Some s) route = route s"
  by (simp_all add: withSession_def)

lemma requireRole_simps [simp]:
  "requireRole False e route = refuse (fst e) (snd e)" "requireRole True e route = route"
  by (simp_all add: requireRole_def)

lemma snd_refuse [simp]: "snd (refuse c m db) = db"
  by (simp add: refuse_def)

context user_store begin

text \<open>What a request may do to the accounts when its session is not of an administrator\<close>

definition modest :: "nat \<Rightarrow> 'db \<Rightarrow> 'db \<Rightarrow> bool" where
  "modest n db db' \<longleftrightarrow> ok db'
     \<and> (\<forall>i r. users db i = Some r \<longrightarrow>
           (\<exists>q. users db' i = Some q \<and> us_role q = us_role r \<and> us_isActive q = us_isActive r))
     \<and> (\<forall>i r. users db i = None \<longrightarrow> users db' i = Some r \<longrightarrow> ROLE_LEVEL (us_role r) < n)"

lemma modest_refl: "ok db \<Longrightarrow> modest n db db"
  by (simp add: modest_def)

lemma modest_trans:
  assumes "modest n db db'" and "modest n db' db''"
  shows "modest n db db''"
  unfolding modest_def
proof (intro conjI allI impI)
  show "ok db''" using assms(2) by (simp add: modest_def)
  show "\<exists>q. users db'' i = Some q \<and> us_role q = us_role r \<and> us_isActive q = us_isActive r"
    if "users db i = Some r" for i r
    using that assms unfolding modest_def by metis
  show "ROLE_LEVEL (us_role r) < n" if "users db i = None" "users db'' i = Some r" for i r
    using that assms unfolding modest_def by (metis not_None_eq option.inject)
qed

lemma modest_mono: "modest n db db' \<Longrightarrow> n \<le> m \<Longrightarrow> modest m db db'"
  unfolding modest_def by (meson order_less_le_trans)

lemma modest_update:
  assumes "ok db" and "\<And>r. us_role (f r) = us_role r" and "\<And>r. us_isActive (f r) = us_isActive r"
  shows "modest n db (snd (orCrash (updateUser U db i f) db (\<lambda>r db. (Reply 200 (publicUser r), db))))"
proof (cases "updateUser U db i f")
  case (Inl e)
  then show ?thesis using assms(1) by (simp add: modest_refl)
next
  case (Inr x)
  then obtain q db' where x: "updateUser U db i f = Inr (q, db')" by (cases x) auto
  from update_user [OF assms(1) x] show ?thesis
    using assms(2,3) by (auto simp: x modest_def split: if_splits)
qed

lemma post_modest:
  assumes "ok db" and "ws_role s \<noteq> ''ADMIN''"
  shows "modest (level (ws_role s)) db (snd (usersPost emailOk hash U (Some s) body db))"
proof (cases "canCreateUser (ws_role s)")
  case True
  show ?thesis
  proof (cases "CreateUserSchema emailOk body")
    case (Inr b)
    show ?thesis
    proof (cases "createUser U db (newUserRow hash b)")
      case (Inr x)
      then obtain q db' where x: "createUser U db (newUserRow hash b) = Inr (q, db')" by (cases x) auto
      from create_user [OF assms(1) x] have "us_role q = cu_role b"
        by (auto simp: newUserRow_def)
      then have "cu_role b \<in> set (allowedRolesToAssign (ws_role s)) \<Longrightarrow> modest (level (ws_role s)) db db'"
        using create_user [OF assms(1) x] assigned_below [OF assms(2)] by (auto simp: modest_def split: if_splits)
      then show ?thesis
        using True \<open>CreateUserSchema emailOk body = Inr b\<close> x assms(1)
        by (auto simp: usersPost_def modest_refl)
    qed (use True \<open>CreateUserSchema emailOk body = Inr b\<close> assms(1) in \<open>auto simp: usersPost_def modest_refl\<close>)
  qed (use True assms(1) in \<open>auto simp: usersPost_def modest_refl\<close>)
qed (use assms(1) in \<open>auto simp: usersPost_def modest_refl\<close>)

lemma patch_modest:
  assumes "ok db" and "ws_role s \<noteq> ''ADMIN''"
  shows "modest n db (snd (usersPatch emailOk hash U (Some s) i body db))"
proof (cases "UpdateUserSchema emailOk body")
  case (Inl e)
  then show ?thesis
    using assms(1) by (cases "ws_id s = i \<or> canAccessUserAdmin (ws_role s)") (auto simp: usersPatch_def modest_refl)
next
  case (Inr b)
  have "modest n db (snd (orCrash (updateUser U db i (patchUser hash b)) db (\<lambda>r db. (Reply 200 (publicUser r), db))))"
    if "uu_role b = None" "uu_isActive b = None"
    using that assms(1) by (intro modest_update) (simp_all add: patchUser_def orElse_def)
  then show ?thesis
    using Inr assms level_ADMIN
    by (cases "ws_id s = i \<or> canAccessUserAdmin (ws_role s)")
       (auto simp: usersPatch_def Let_def modest_refl canChangeUserRole_def)
qed

lemma serve_modest:
  assumes "ok db" and "\<And>s. session = Some s \<Longrightarrow> ws_role s \<noteq> ''ADMIN'' \<and> level (ws_role s) \<le> n"
  shows "modest n db (usersServe emailOk hash U session q db)"
proof (cases session)
  case None
  then show ?thesis
    using assms(1) by (cases q) (simp_all add: usersGet_def usersPost_def usersPatch_def usersDelete_def modest_refl)
next
  case (Some s)
  note s = assms(2) [OF Some]
  show ?thesis
  proof (cases q)
    case GetUsers
    then show ?thesis
      using assms(1) Some by (cases "canAccessUserAdmin (ws_role s)") (simp_all add: usersGet_def modest_refl)
  next
    case (PostUser body)
    then show ?thesis
      using modest_mono [OF post_modest [OF assms(1)]] s Some by simp
  next
    case (PatchUser i body)
    then show ?thesis
      using patch_modest [OF assms(1)] s Some by simp
  next
    case (DeleteUser i)
    have "\<not> canDeleteUser (ws_role s)"
      using s level_ADMIN by (simp add: canDeleteUser_def)
    then show ?thesis
      using assms(1) Some DeleteUser by (simp add: usersDelete_def modest_refl)
  qed
qed

lemma serve_all_modest:
  assumes "ok db" and "\<And>s q. (Some s, q) \<in> set rs \<Longrightarrow> ws_role s \<noteq> ''ADMIN'' \<and> level (ws_role s) \<le> n"
  shows "modest n db (fold (\<lambda>(session, q). usersServe emailOk hash U session q) rs db)"
  using assms
proof (induction rs arbitrary: db)
  case Nil
  then show ?case by (simp add: modest_refl)
next
  case (Cons x rs)
  obtain session q where x: "x = (session, q)" by (cases x)
  have 1: "modest n db (usersServe emailOk hash U session q db)"
    using Cons.prems by (intro serve_modest) (auto simp: x)
  then have "ok (usersServe emailOk hash U session q db)"
    by (simp add: modest_def)
  moreover have "ws_role s \<noteq> ''ADMIN'' \<and> level (ws_role s) \<le> n" if "(Some s, q) \<in> set rs" for s q
    using Cons.prems(2) [of s q] that by simp
  ultimately show ?case
    using modest_trans [OF 1 Cons.IH] by (simp add: x)
qed

text \<open>Login after a change of the password\<close>

lemma find_login:
  assumes "ok db" and "users db i = Some r" and "us_email r = login"
    and "\<And>j q. users db j = Some q \<Longrightarrow> us_username q = login \<Longrightarrow> j = i"
  shows "findUser U db (\<lambda>r. us_email r = login \<or> us_username r = login) = Some r"
proof (cases "findUser U db (\<lambda>r. us_email r = login \<or> us_username r = login)")
  case None
  from find_none [OF assms(1) None assms(2)] assms(3) show ?thesis by simp
next
  case (Some q)
  from find_some [OF assms(1) Some] have q: "users db (us_id q) = Some q" "us_email q = login \<or> us_username q = login"
    by auto
  have "us_id q = i"
    using q(2)
  proof
    assume "us_email q = login"
    then show ?thesis
      using unique [OF assms(1) q(1) assms(2)] assms(3) by (simp add: sameUserKey_def)
  next
    assume "us_username q = login"
    with assms(4) [OF q(1)] show ?thesis by simp
  qed
  with Some q(1) assms(2) show ?thesis by simp
qed

lemma authorize_known:
  assumes "ok db" and "users db i = Some r" and "us_email r = login"
    and "\<And>j q. users db j = Some q \<Longrightarrow> us_username q = login \<Longrightarrow> j = i"
    and "login \<noteq> []" and "p \<noteq> []"
  shows "\<exists>db'. authorize cmp now U (Some login) (Some p) db =
     (Inr (if us_isActive r \<and> cmp p (us_passwordHash r) then Some r else None), db')"
proof -
  from assms(5,6) obtain c e d p' where cons: "login = c # e" "p = d # p'"
    by (cases login; cases p) auto
  have i: "us_id r = i"
    using user_key [OF assms(1,2)] .
  have "\<exists>x. updateUser U db i (\<lambda>r. r\<lparr>us_lastLoginAt := Some now\<rparr>) = Inr x"
    using unique [OF assms(1) _ assms(2)]
    by (intro update_fits [OF assms(1,2)]) (auto simp: sameUserKey_def)
  then obtain x db' where "updateUser U db i (\<lambda>r. r\<lparr>us_lastLoginAt := Some now\<rparr>) = Inr (x, db')"
    by auto
  then show ?thesis
    using find_login [OF assms(1-4)] by (simp add: authorize_def cons i)
qed

lemma patch_password:
  assumes "ok db" and "users db i = Some r" and "ws_id s = i \<or> canAccessUserAdmin (ws_role s)"
    and "8 \<le> length p"
  shows "\<exists>q db'. usersPatch emailOk hash U (Some s) i (JObj [(''password'', JStr p)]) db = (Reply 200 (publicUser q), db')
     \<and> users db' = (users db)(i \<mapsto> q) \<and> ok db' \<and> q = r\<lparr>us_passwordHash := hash p\<rparr>"
proof -
  let ?b = "\<lparr>uu_firstName = None, uu_lastName = None, uu_username = None, uu_name = None, uu_email = None,
     uu_role = None, uu_isActive = None, uu_password = Some p\<rparr>"
  have b: "UpdateUserSchema emailOk (JObj [(''password'', JStr p)]) = Inr ?b"
    using assms(4) by (simp add: UpdateUserSchema_def zObject_def jget_def zOptional_def zMin_def zCheck_def zString_def)
  have f: "patchUser hash ?b = (\<lambda>r. r\<lparr>us_passwordHash := hash p\<rparr>)"
    by (simp add: patchUser_def orElse_def fun_eq_iff)
  have "\<exists>x. updateUser U db i (patchUser hash ?b) = Inr x"
    using unique [OF assms(1) _ assms(2)]
    by (intro update_fits [OF assms(1,2)]) (auto simp: f sameUserKey_def)
  then obtain q db' where x: "updateUser U db i (patchUser hash ?b) = Inr (q, db')"
    by auto
  from update_user [OF assms(1) x] assms(2) f
  have "users db' = (users db)(i \<mapsto> q) \<and> ok db' \<and> q = r\<lparr>us_passwordHash := hash p\<rparr>"
    by auto
  then show ?thesis
    using assms(3) by (auto simp: usersPatch_def b x Let_def)
qed

lemma password_then_login:
  assumes "ok db" and "users db i = Some r" and "ws_id s = i \<or> canAccessUserAdmin (ws_role s)"
    and "8 \<le> length p" and "us_email r \<noteq> []" and "c \<noteq> []"
    and "\<And>j q. users db j = Some q \<Longrightarrow> us_username q = us_email r \<Longrightarrow> j = i"
  shows "\<exists>q db' db''. usersPatch emailOk hash U (Some s) i (JObj [(''password'', JStr p)]) db = (Reply 200 (publicUser q), db')
     \<and> authorize cmp now U (Some (us_email r)) (Some c) db'
         = (Inr (if us_isActive r \<and> cmp c (hash p) then Some q else None), db'')
     \<and> us_role q = us_role r"
proof -
  obtain q db' where 1: "usersPatch emailOk hash U (Some s) i (JObj [(''password'', JStr p)]) db = (Reply 200 (publicUser q), db')"
      "users db' = (users db)(i \<mapsto> q)" "ok db'" "q = r\<lparr>us_passwordHash := hash p\<rparr>"
    using patch_password [OF assms(1-4)] by blast
  have "\<exists>db''. authorize cmp now U (Some (us_email r)) (Some c) db'
      = (Inr (if us_isActive q \<and> cmp c (us_passwordHash q) then Some q else None), db'')"
    using assms(5-7) by (intro authorize_known [OF 1(3)]) (auto simp: 1(2,4) split: if_splits)
  then show ?thesis
    using 1 by auto
qed

end


text \<open>
  C20: No sequence of requests whose sessions are not of administrators changes the role of an
  account, deactivates or deletes one, or creates one whose role is not below the highest role of
  the sessions.
\<close>

theorem requests_stay_below_role:
  assumes "userTableOk t"
    and "\<And>s q. (Some s, q) \<in> set rs \<Longrightarrow> ws_role s \<noteq> ''ADMIN'' \<and> level (ws_role s) \<le> n"
    and "t' = fold (\<lambda>(session, q). usersServe emailOk hash tableUsers session q) rs t"
  shows "userTableOk t'
     \<and> (\<forall>i r. wu_users t i = Some r \<longrightarrow>
          (\<exists>q. wu_users t' i = Some q \<and> us_role q = us_role r \<and> us_isActive q = us_isActive r))
     \<and> (\<forall>i r. wu_users t i = None \<longrightarrow> wu_users t' i = Some r \<longrightarrow> ROLE_LEVEL (us_role r) < n)"
  using accounts.serve_all_modest [OF assms(1,2)] unfolding assms(3) accounts.modest_def .

definition demoUser :: "string \<Rightarrow> string \<Rightarrow> appRole \<Rightarrow> userRow" where
  "demoUser i name role = \<lparr>us_id = i, us_firstName = name, us_lastName = ''B'', us_username = name,
     us_name = name @ '' B'', us_email = name @ ''@e.org'', us_passwordHash = ''h'', us_role = role,
     us_isActive = True, us_lastLoginAt = None\<rparr>"

definition demoUsers :: userTable where
  "demoUsers = \<lparr>wu_rows = [demoUser ''0'' ''ann'' ADMIN, demoUser ''1'' ''rex'' RESPONSABLE_CHANTRE], wu_next = 2\<rparr>"

definition demoSession :: "string \<Rightarrow> appRole \<Rightarrow> webSession" where
  "demoSession i role = \<lparr>ws_id = i, ws_role = roleName role, ws_username = [], ws_firstName = [],
     ws_lastName = [], ws_name = []\<rparr>"

lemma demoUsers_ok: "userTableOk demoUsers"
  by code_simp

theorem requests_stay_below_role_witness:
  "userTableOk (fold (\<lambda>(session, q). usersServe (\<lambda>_. True) id tableUsers session q)
     [(Some (demoSession ''1'' RESPONSABLE_CHANTRE), DeleteUser ''0'')] demoUsers)"
proof (rule conjunct1 [OF requests_stay_below_role [where n = 70, OF demoUsers_ok _ refl]])
  show "ws_role s \<noteq> ''ADMIN'' \<and> level (ws_role s) \<le> 70"
    if "(Some s, q) \<in> set [(Some (demoSession ''1'' RESPONSABLE_CHANTRE), DeleteUser ''0'')]" for s q
    using that by (simp add: demoSession_def level_def roleOfName_def ROLES_def)
qed

text \<open>
  After an account's password was changed, by its owner or by a session that manages accounts,
  a login under its e-mail address with a password succeeds exactly if the account is active and
  the password fits the new hash.
\<close>

theorem new_password_decides_login:
  assumes "userTableOk t" and "wu_users t i = Some r"
    and "ws_id s = i \<or> canAccessUserAdmin (ws_role s)" and "8 \<le> length p"
    and "us_email r \<noteq> []" and "c \<noteq> []"
    and "\<And>j q. wu_users t j = Some q \<Longrightarrow> us_username q = us_email r \<Longrightarrow> j = i"
  shows "\<exists>q t' t''.
     usersPatch emailOk hash tableUsers (Some s) i (JObj [(''password'', JStr p)]) t = (Reply 200 (publicUser q), t')
     \<and> authorize cmp now tableUsers (Some (us_email r)) (Some c) t'
         = (Inr (if us_isActive r \<and> cmp c (hash p) then Some q else None), t'')
     \<and> us_role q = us_role r"
  using assms by (rule accounts.password_then_login)

lemma demoUsers_user: "wu_users demoUsers ''0'' = Some (demoUser ''0'' ''ann'' ADMIN)"
  by (simp add: wu_users_def demoUsers_def demoUser_def)

lemma demoUsers_login:
  "wu_users demoUsers j = Some q \<Longrightarrow> us_username q = us_email (demoUser ''0'' ''ann'' ADMIN) \<Longrightarrow> j = ''0''"
  by (auto simp: wu_users_def demoUsers_def demoUser_def split: if_splits)

theorem new_password_decides_login_witness:
  "\<exists>q t' t''.
     usersPatch (\<lambda>_. True) rev tableUsers (Some (demoSession ''0'' ADMIN)) ''0''
       (JObj [(''password'', JStr ''secret-1'')]) demoUsers = (Reply 200 (publicUser q), t')
     \<and> authorize (\<lambda>p h. h = rev p) 7 tableUsers (Some ''ann@e.org'') (Some ''secret-2'') t'
         = (Inr None, t'') \<and> us_role q = ADMIN"
  using new_password_decides_login [OF demoUsers_ok demoUsers_user, where s = "demoSession ''0'' ADMIN"
      and p = "''secret-1''" and c = "''secret-2''" and emailOk = "\<lambda>_. True" and hash = rev
      and cmp = "\<lambda>p h. h = rev p" and now = 7] demoUsers_login
  by (simp add: demoSession_def demoUser_def)

section \<open>What the checks let through\<close>

text \<open>A manager sets the password of an administrator and logs in as the administrator.\<close>

lemma manager_enters_as_admin:
  assumes "userTableOk t" and "wu_users t i = Some r" and "us_role r = ADMIN" and "us_isActive r"
    and "ws_role s = ''RESPONSABLE_CHANTRE''" and "8 \<le> length p" and "cmp p (hash p)"
    and "us_email r \<noteq> []"
    and "\<And>j q. wu_users t j = Some q \<Longrightarrow> us_username q = us_email r \<Longrightarrow> j = i"
  shows "\<exists>q t' t''.
     usersPatch emailOk hash tableUsers (Some s) i (JObj [(''password'', JStr p)]) t = (Reply 200 (publicUser q), t')
     \<and> authorize cmp now tableUsers (Some (us_email r)) (Some p) t' = (Inr (Some q), t'')
     \<and> us_role q = ADMIN"
proof -
  have "canAccessUserAdmin (ws_role s)" "p \<noteq> []"
    using assms(5,6) by (auto simp: canAccessUserAdmin_def atLeast_def level_def roleOfName_def ROLES_def)
  then show ?thesis
    using accounts.password_then_login [OF assms(1,2) _ assms(6,8) _ assms(9), where s = s and c = p and emailOk = emailOk and hash = hash
        and cmp = cmp and now = now]
      assms(3,4,7) by auto
qed

text \<open>
  The role of a session is the one at login, whatever became of the account: a demoted user keeps
  the rights, and so does a deactivated one, whose session only loses its \<open>id\<close>.
\<close>

lemma session_keeps_login_role: "ws_role (sessionOf U name token db) = tk_role token"
  by (simp add: sessionOf_def Let_def split: option.splits)

lemma deactivated_session_manages:
  assumes "userTableOk t" and "us_role r = RESPONSABLE_CHANTRE" and "us_id r \<noteq> []"
    and "wu_users t (us_id r) = Some r'" and "\<not> us_isActive r'"
  shows "ws_id (sessionOf tableUsers name (jwtToken r) t) = []"
    and "usersGet tableUsers (Some (sessionOf tableUsers name (jwtToken r) t)) t = (Reply 200 (map publicUser (wu_rows t)), t)"
proof -
  have "find (\<lambda>q. us_id q = us_id r) (wu_rows t) = Some r'"
    using assms(4) by (simp add: find_by_key wu_users_def)
  then show "ws_id (sessionOf tableUsers name (jwtToken r) t) = []"
    using assms(3,5) by (simp add: sessionOf_def jwtToken_def tableUsers_def Let_def)
  have "canAccessUserAdmin (roleName (us_role r))"
    using assms(2) by (simp add: canAccessUserAdmin_def atLeast_def level_def roleOfName_def ROLES_def)
  then show "usersGet tableUsers (Some (sessionOf tableUsers name (jwtToken r) t)) t = (Reply 200 (map publicUser (wu_rows t)), t)"
    by (simp add: usersGet_def session_keeps_login_role) (simp add: jwtToken_def tableUsers_def)
qed

end
