(* ===== verification/WebPlans.thy ===== *)
theory WebPlans
  imports WebUsers
begin

text \<open>
  The service plans of the web application: the routes of plans and of their items
  (\<open>app/api/plans\<close>). A date is taken by one plan at most, deleted ones included, and an order by
  one item of a plan; an item that names a song must name one that exists.
\<close>

section \<open>Rows and client\<close>

record webItem =
  wi_order :: int
  wi_kind :: string
  wi_refId :: "string option"
  wi_refSubId :: "string option"
  wi_songId :: "string option"
  wi_title :: "string option"
  wi_content :: "string option"
  wi_notes :: "string option"
  wi_mediaPath :: "string option"
  wi_secondaryContent :: "string option"
  wi_backgroundConfig :: "string option"

text \<open>A plan with its items in their order\<close>

record webPlan =
  wp_id :: string
  wp_date :: int
  wp_title :: "string option"
  wp_backgroundConfig :: "string option"
  wp_deletedAt :: "int option"
  wp_items :: "webItem list"

record 'db webPlanDb =
  vFindPlan :: "'db \<Rightarrow> (webPlan \<Rightarrow> bool) \<Rightarrow> webPlan option"
  vFindPlans :: "'db \<Rightarrow> (webPlan \<Rightarrow> bool) \<Rightarrow> webPlan list"
  vSongTitle :: "'db \<Rightarrow> string \<Rightarrow> string option"
  vCreatePlan :: "'db \<Rightarrow> webPlan \<Rightarrow> failure + webPlan \<times> 'db"
  vUpdatePlan :: "'db \<Rightarrow> string \<Rightarrow> (webPlan \<Rightarrow> webPlan) \<Rightarrow> failure + webPlan \<times> 'db"
  vDeleteItems :: "'db \<Rightarrow> string \<Rightarrow> failure + unit \<times> 'db"
  vCreateItems :: "'db \<Rightarrow> string \<Rightarrow> webItem list \<Rightarrow> failure + nat \<times> 'db"

section \<open>Bodies\<close>

text \<open>
  \<open>isoOk\<close> is zod's pattern of a date and time, \<open>parseDate\<close> is \<open>new Date\<close> on the texts it
  accepts.
\<close>

definition CreatePlanSchema :: "(string \<Rightarrow> bool) \<Rightarrow> (string \<times> string option) zod" where
  "CreatePlanSchema isoOk = zObject (\<lambda>rec.
     andThen (zCheck isoOk (Custom ''Date invalide (ISO 8601 requis)'') zString (jget rec ''date'')) (\<lambda>date.
     andThen (zOptional zString (jget rec ''title'')) (\<lambda>title. Inr (date, title))))"

definition UpdatePlanSchema :: "(string \<Rightarrow> bool) \<Rightarrow> (string option \<times> string zNull) zod" where
  "UpdatePlanSchema isoOk = zObject (\<lambda>rec.
     andThen (zOptional (zCheck isoOk BuiltIn zString) (jget rec ''date'')) (\<lambda>date.
     andThen (zNullish zString (jget rec ''title'')) (\<lambda>title. Inr (date, title))))"

record itemBody =
  ib_order :: int
  ib_kind :: string
  ib_title :: "string option"
  ib_content :: "string option"
  ib_songId :: "string option"

definition ItemSchema :: "itemBody zod" where
  "ItemSchema = zObject (\<lambda>rec.
     andThen (zCheck (\<lambda>n. 0 \<le> n) BuiltIn zInt (jget rec ''order'')) (\<lambda>ord.
     andThen (zMin 1 BuiltIn zString (jget rec ''kind'')) (\<lambda>kind.
     andThen (zNullish zString (jget rec ''title'')) (\<lambda>title.
     andThen (zNullish zString (jget rec ''content'')) (\<lambda>content.
     andThen (zNullish zString (jget rec ''songId'')) (\<lambda>songId.
       Inr \<lparr>ib_order = ord, ib_kind = kind, ib_title = nullToOption title,
         ib_content = nullToOption content, ib_songId = nullToOption songId\<rparr>))))))"

definition BodySchema :: "itemBody list zod" where
  "BodySchema = zObject (\<lambda>rec. zArray ItemSchema (jget rec ''items''))"

section \<open>The routes\<close>

definition planRoleDenied :: "nat \<times> string" where
  "planRoleDenied = (403, ''Acc'' @ [CHR 0xE8] @ ''s refus'' @ [CHR 0xE9] @ '' - r'' @ [CHR 0xF4] @ ''le insuffisant'')"

text \<open>The list has the number of items of each plan.\<close>

definition plansGet :: "'db webPlanDb \<Rightarrow> webSession option \<Rightarrow> ((webPlan \<times> nat) list, 'db) route" where
  "plansGet V session = withSession session (\<lambda>_ db.
     (Reply 200 (map (\<lambda>p. (p\<lparr>wp_items := []\<rparr>, length (wp_items p)))
        (vFindPlans V db (\<lambda>p. wp_deletedAt p = None))), db))"

definition newPlan :: "int \<Rightarrow> string option \<Rightarrow> webPlan" where
  "newPlan date title = \<lparr>wp_id = [], wp_date = date, wp_title = title, wp_backgroundConfig = None,
     wp_deletedAt = None, wp_items = []\<rparr>"

definition plansPost ::
  "(string \<Rightarrow> bool) \<Rightarrow> (string \<Rightarrow> int) \<Rightarrow> 'db webPlanDb \<Rightarrow> webSession option \<Rightarrow> jsval \<Rightarrow> (webPlan, 'db) route" where
  "plansPost isoOk parseDate V session body = withSession session (\<lambda>s.
     requireRole (canManagePlans (ws_role s)) planRoleDenied
      (parsedBody (CreatePlanSchema isoOk body) (\<lambda>(date, title) db.
        if vFindPlan V db (\<lambda>p. wp_date p = parseDate date \<and> wp_deletedAt p = None) \<noteq> None
        then refuse 409 (''Un plan existe d'' @ [CHR 0xE9, CHR ''j'', CHR 0xE0] @ '' pour cette date'') db
        else orCrash (vCreatePlan V db (newPlan (parseDate date) title)) db (\<lambda>p db. (Reply 201 p, db)))))"

definition livePlan :: "'db webPlanDb \<Rightarrow> string \<Rightarrow> (webPlan \<Rightarrow> ('a, 'db) route) \<Rightarrow> ('a, 'db) route" where
  "livePlan V i route db =
     (case vFindPlan V db (\<lambda>p. wp_id p = i) of
        None \<Rightarrow> refuse 404 ''Plan introuvable'' db
      | Some p \<Rightarrow> if wp_deletedAt p \<noteq> None then refuse 404 ''Plan introuvable'' db else route p db)"

text \<open>A plan, and for each item the identifier and title of its song\<close>

definition planGet ::
  "'db webPlanDb \<Rightarrow> webSession option \<Rightarrow> string \<Rightarrow> (webPlan \<times> (string \<times> string) option list, 'db) route" where
  "planGet V session i = withSession session (\<lambda>_. livePlan V i (\<lambda>p db.
     (Reply 200 (p, map (\<lambda>r. case wi_songId r of
          None \<Rightarrow> None
        | Some k \<Rightarrow> map_option (\<lambda>title. (k, title)) (vSongTitle V db k)) (wp_items p)), db)))"

definition patchPlan :: "(string \<Rightarrow> int) \<Rightarrow> string option \<times> string zNull \<Rightarrow> webPlan \<Rightarrow> webPlan" where
  "patchPlan parseDate b p = p\<lparr>
     wp_date := (case fst b of Some (c # d) \<Rightarrow> parseDate (c # d) | _ \<Rightarrow> wp_date p),
     wp_title := (case snd b of Absent \<Rightarrow> wp_title p | NullValue \<Rightarrow> None | Value t \<Rightarrow> Some t)\<rparr>"

definition planPatch ::
  "(string \<Rightarrow> bool) \<Rightarrow> (string \<Rightarrow> int) \<Rightarrow> 'db webPlanDb \<Rightarrow> webSession option \<Rightarrow> string \<Rightarrow> jsval
     \<Rightarrow> (webPlan, 'db) route" where
  "planPatch isoOk parseDate V session i body = withSession session (\<lambda>s.
     requireRole (canManagePlans (ws_role s)) planRoleDenied
      (parsedBody (UpdatePlanSchema isoOk body) (\<lambda>b. livePlan V i (\<lambda>_ db.
        orCrash (vUpdatePlan V db i (patchPlan parseDate b)) db (\<lambda>p db. (Reply 200 p, db))))))"

text \<open>The deletion does not look whether the plan is there or already deleted.\<close>

definition planDelete :: "int \<Rightarrow> 'db webPlanDb \<Rightarrow> webSession option \<Rightarrow> string \<Rightarrow> (string, 'db) route" where
  "planDelete now V session i = withSession session (\<lambda>s.
     requireRole (canManagePlans (ws_role s)) planRoleDenied
      (\<lambda>db. orCrash (vUpdatePlan V db i (\<lambda>p. p\<lparr>wp_deletedAt := Some now\<rparr>)) db
             (\<lambda>_ db. (Reply 200 i, db))))"

definition itemRowOf :: "itemBody \<Rightarrow> webItem" where
  "itemRowOf it = \<lparr>wi_order = ib_order it, wi_kind = ib_kind it, wi_refId = ib_songId it,
     wi_refSubId = None, wi_songId = ib_songId it, wi_title = ib_title it, wi_content = ib_content it,
     wi_notes = None, wi_mediaPath = None, wi_secondaryContent = None, wi_backgroundConfig = None\<rparr>"

text \<open>The transaction deletes the items of the plan and creates those of the body.\<close>

definition itemsPut :: "'db webPlanDb \<Rightarrow> webSession option \<Rightarrow> string \<Rightarrow> jsval \<Rightarrow> (nat, 'db) route" where
  "itemsPut V session i body = withSession session (\<lambda>s.
     requireRole (canManagePlans (ws_role s)) planRoleDenied
      (parsedBody (BodySchema body) (\<lambda>bs. livePlan V i (\<lambda>_ db.
        orCrash (andThen (vDeleteItems V db i) (\<lambda>(_, db). vCreateItems V db i (map itemRowOf bs))) db
          (\<lambda>n db. (Reply 200 n, db))))))"

section \<open>The laws of the store\<close>

definition itemOrderOk :: "int \<Rightarrow> bool" where
  "itemOrderOk n \<longleftrightarrow> - (2 ^ 31) \<le> n \<and> n < 2 ^ 31"

text \<open>\<open>S\<close> are the songs that exist.\<close>

definition itemsOk :: "string set \<Rightarrow> webItem list \<Rightarrow> bool" where
  "itemsOk S rs \<longleftrightarrow> distinct (map wi_order rs) \<and> list_all (\<lambda>r. itemOrderOk (wi_order r)) rs
     \<and> list_all (\<lambda>r. case wi_songId r of None \<Rightarrow> True | Some k \<Rightarrow> k \<in> S) rs"

definition itemsByOrder :: "webItem list \<Rightarrow> webItem list" where
  "itemsByOrder = sort_key wi_order"

definition keepsPlanKeys :: "(webPlan \<Rightarrow> webPlan) \<Rightarrow> bool" where
  "keepsPlanKeys f \<longleftrightarrow> (\<forall>p. wp_id (f p) = wp_id p \<and> wp_items (f p) = wp_items p)"

locale web_plan_store =
  fixes V :: "'db webPlanDb"
    and agenda :: "'db \<Rightarrow> string \<rightharpoonup> webPlan"
    and songSet :: "'db \<Rightarrow> string set"
    and ok :: "'db \<Rightarrow> bool"
  assumes find_some: "ok db \<Longrightarrow> vFindPlan V db P = Some p \<Longrightarrow> agenda db (wp_id p) = Some p \<and> P p"
    and find_none: "ok db \<Longrightarrow> vFindPlan V db P = None \<Longrightarrow> agenda db i = Some p \<Longrightarrow> \<not> P p"
    and plan_key: "ok db \<Longrightarrow> agenda db i = Some p \<Longrightarrow> wp_id p = i"
    and dates: "ok db \<Longrightarrow> agenda db i = Some p \<Longrightarrow> agenda db j = Some q \<Longrightarrow> wp_date p = wp_date q \<Longrightarrow> i = j"
    and create_plan: "ok db \<Longrightarrow> vCreatePlan V db p = Inr (q, db') \<Longrightarrow>
          \<exists>i. agenda db i = None \<and> q = p\<lparr>wp_id := i\<rparr> \<and> agenda db' = (agenda db)(i \<mapsto> q)
              \<and> songSet db' = songSet db \<and> ok db'"
    and create_clash: "ok db \<Longrightarrow> agenda db i = Some q \<Longrightarrow> wp_date q = wp_date p \<Longrightarrow>
          vCreatePlan V db p = Inl (Prisma P2002)"
    and create_fits: "ok db \<Longrightarrow> (\<And>i q. agenda db i = Some q \<Longrightarrow> wp_date q \<noteq> wp_date p) \<Longrightarrow>
          \<exists>x. vCreatePlan V db p = Inr x"
    and update_plan: "ok db \<Longrightarrow> keepsPlanKeys f \<Longrightarrow> vUpdatePlan V db i f = Inr (q, db') \<Longrightarrow>
          \<exists>p. agenda db i = Some p \<and> q = f p \<and> agenda db' = (agenda db)(i \<mapsto> q)
              \<and> songSet db' = songSet db \<and> ok db'"
    and update_fits: "ok db \<Longrightarrow> keepsPlanKeys f \<Longrightarrow> agenda db i = Some p \<Longrightarrow>
          (\<And>j q. agenda db j = Some q \<Longrightarrow> wp_date q = wp_date (f p) \<Longrightarrow> j = i) \<Longrightarrow>
          \<exists>x. vUpdatePlan V db i f = Inr x"
    and delete_items: "ok db \<Longrightarrow> agenda db i = Some p \<Longrightarrow>
          \<exists>db'. vDeleteItems V db i = Inr ((), db') \<and> agenda db' = (agenda db)(i \<mapsto> p\<lparr>wp_items := []\<rparr>)
              \<and> songSet db' = songSet db \<and> ok db'"
    and create_items: "ok db \<Longrightarrow> agenda db i = Some p \<Longrightarrow> wp_items p = [] \<Longrightarrow>
          if itemsOk (songSet db) rs
          then \<exists>db'. vCreateItems V db i rs = Inr (length rs, db')
             \<and> agenda db' = (agenda db)(i \<mapsto> p\<lparr>wp_items := itemsByOrder rs\<rparr>)
             \<and> songSet db' = songSet db \<and> ok db'
          else \<exists>e. vCreateItems V db i rs = Inl e"

text \<open>The store as tables\<close>

record planTable =
  vt_plans :: "webPlan list"
  vt_next :: nat
  vt_songs :: "(string \<times> string) list"

definition vt_agenda :: "planTable \<Rightarrow> string \<rightharpoonup> webPlan" where
  "vt_agenda t = map_of (map (\<lambda>p. (wp_id p, p)) (vt_plans t))"

definition vt_songSet :: "planTable \<Rightarrow> string set" where
  "vt_songSet t = fst ` set (vt_songs t)"

definition planTableOk :: "planTable \<Rightarrow> bool" where
  "planTableOk t \<longleftrightarrow> distinct (map wp_id (vt_plans t)) \<and> distinct (map wp_date (vt_plans t))
     \<and> wp_id ` set (vt_plans t) \<subseteq> usedIds (vt_next t)"

definition changePlan :: "string \<Rightarrow> (webPlan \<Rightarrow> webPlan) \<Rightarrow> planTable \<Rightarrow> planTable" where
  "changePlan i f t = t\<lparr>vt_plans := map (\<lambda>q. if wp_id q = i then f q else q) (vt_plans t)\<rparr>"

definition putItems :: "planTable \<Rightarrow> string \<Rightarrow> webItem list \<Rightarrow> failure + nat \<times> planTable" where
  "putItems t i rs =
     (case vt_agenda t i of
        None \<Rightarrow> if rs = [] then Inr (0, t) else Inl (Prisma P2003)
      | Some p \<Rightarrow>
          if \<not> list_all (\<lambda>r. itemOrderOk (wi_order r)) rs then Inl (ErrorMsg ''order'')
          else if \<not> distinct (map wi_order (wp_items p @ rs)) then Inl (Prisma P2002)
          else if \<not> itemsOk (vt_songSet t) rs then Inl (Prisma P2003)
          else Inr (length rs, changePlan i (\<lambda>p. p\<lparr>wp_items := itemsByOrder (wp_items p @ rs)\<rparr>) t))"

definition tablePlans :: "planTable webPlanDb" where
  "tablePlans = \<lparr>
     vFindPlan = (\<lambda>t P. find P (vt_plans t)),
     vFindPlans = (\<lambda>t P. rev (sort_key wp_date (filter P (vt_plans t)))),
     vSongTitle = (\<lambda>t k. map_of (vt_songs t) k),
     vCreatePlan = (\<lambda>t p.
        if wp_date p \<in> wp_date ` set (vt_plans t) then Inl (Prisma P2002)
        else let q = p\<lparr>wp_id := show_nat (vt_next t)\<rparr>
             in Inr (q, t\<lparr>vt_plans := q # vt_plans t, vt_next := Suc (vt_next t)\<rparr>)),
     vUpdatePlan = (\<lambda>t i f.
        case vt_agenda t i of
          None \<Rightarrow> Inl (Prisma P2025)
        | Some p \<Rightarrow>
            if list_ex (\<lambda>q. wp_id q \<noteq> i \<and> wp_date q = wp_date (f p)) (vt_plans t) then Inl (Prisma P2002)
            else Inr (f p, changePlan i f t)),
     vDeleteItems = (\<lambda>t i. Inr ((), changePlan i (\<lambda>p. p\<lparr>wp_items := []\<rparr>) t)),
     vCreateItems = putItems\<rparr>"

lemma vt_agenda_Some:
  "planTableOk t \<Longrightarrow> vt_agenda t i = Some p \<longleftrightarrow> p \<in> set (vt_plans t) \<and> wp_id p = i"
  unfolding vt_agenda_def planTableOk_def
  by (subst map_of_eq_Some_iff) (auto simp: comp_def)

lemma vt_date: "planTableOk t \<Longrightarrow> p \<in> set (vt_plans t) \<Longrightarrow> q \<in> set (vt_plans t) \<Longrightarrow>
    wp_date p = wp_date q \<Longrightarrow> p = q"
  by (simp add: planTableOk_def distinct_map inj_on_def)

lemma changePlan_ok:
  assumes "planTableOk t" and "vt_agenda t i = Some p" and "\<And>q. wp_id (f q) = wp_id q"
    and "\<And>q. q \<in> set (vt_plans t) \<Longrightarrow> wp_date q = wp_date (f p) \<Longrightarrow> wp_id q = i"
  shows "vt_agenda (changePlan i f t) = (vt_agenda t)(i \<mapsto> f p) \<and> planTableOk (changePlan i f t)
     \<and> vt_songSet (changePlan i f t) = vt_songSet t"
proof -
  have d: "distinct (map wp_id (vt_plans t))" "distinct (map wp_date (vt_plans t))"
    using assms(1) by (simp_all add: planTableOk_def)
  have rs: "vt_plans (changePlan i f t) = map (\<lambda>q. if wp_id q = i then f q else q) (vt_plans t)"
      "vt_next (changePlan i f t) = vt_next t" "vt_songs (changePlan i f t) = vt_songs t"
    by (simp_all add: changePlan_def)
  note c = changed_row [of wp_id "vt_plans t" wp_date i p f, OF d assms(2) [unfolded vt_agenda_def] assms(3,4), folded rs]
  have "wp_id ` set (vt_plans (changePlan i f t)) = wp_id ` set (vt_plans t)"
    using c(1) by (metis list.set_map)
  then show ?thesis
    using c d assms(1) by (simp add: planTableOk_def vt_agenda_def vt_songSet_def rs(2,3))
qed

lemma changePlan_items:
  assumes "planTableOk t" and "vt_agenda t i = Some p"
  shows "vt_agenda (changePlan i (\<lambda>p. p\<lparr>wp_items := g p\<rparr>) t) = (vt_agenda t)(i \<mapsto> p\<lparr>wp_items := g p\<rparr>)
     \<and> planTableOk (changePlan i (\<lambda>p. p\<lparr>wp_items := g p\<rparr>) t)
     \<and> vt_songSet (changePlan i (\<lambda>p. p\<lparr>wp_items := g p\<rparr>) t) = vt_songSet t"
  using vt_date [OF assms(1)] assms vt_agenda_Some [OF assms(1)]
  by (intro changePlan_ok [OF assms]) auto

lemma tables_newPlan:
  assumes "planTableOk t" and "vCreatePlan tablePlans t p = Inr (q, t')"
  shows "\<exists>i. vt_agenda t i = None \<and> q = p\<lparr>wp_id := i\<rparr> \<and> vt_agenda t' = (vt_agenda t)(i \<mapsto> q)
     \<and> vt_songSet t' = vt_songSet t \<and> planTableOk t'"
proof -
  have c: "wp_date p \<notin> wp_date ` set (vt_plans t)"
    and q: "q = p\<lparr>wp_id := show_nat (vt_next t)\<rparr>"
    and t': "t' = t\<lparr>vt_plans := q # vt_plans t, vt_next := Suc (vt_next t)\<rparr>"
    using assms(2) by (auto simp: tablePlans_def Let_def split: if_splits)
  have new: "show_nat (vt_next t) \<notin> wp_id ` set (vt_plans t)"
    using assms(1) fresh_usedIds unfolding planTableOk_def by blast
  have "planTableOk t'"
    using assms(1) c new by (auto simp: t' q planTableOk_def usedIds_Suc)
  moreover have "vt_agenda t (show_nat (vt_next t)) = None"
    using new by (auto simp: vt_agenda_def map_of_eq_None_iff)
  moreover have "vt_agenda t' = (vt_agenda t)(show_nat (vt_next t) \<mapsto> q)" "vt_songSet t' = vt_songSet t"
    by (simp_all add: vt_agenda_def vt_songSet_def t' q)
  ultimately show ?thesis
    using q by blast
qed

lemma tables_patchPlan:
  assumes "planTableOk t" and "keepsPlanKeys f" and "vUpdatePlan tablePlans t i f = Inr (q, t')"
  shows "\<exists>p. vt_agenda t i = Some p \<and> q = f p \<and> vt_agenda t' = (vt_agenda t)(i \<mapsto> q)
     \<and> vt_songSet t' = vt_songSet t \<and> planTableOk t'"
proof (cases "vt_agenda t i")
  case None
  then show ?thesis using assms(3) by (simp add: tablePlans_def)
next
  case (Some p)
  let ?c = "list_ex (\<lambda>q. wp_id q \<noteq> i \<and> wp_date q = wp_date (f p)) (vt_plans t)"
  have c: "\<not> ?c" "q = f p" "t' = changePlan i f t"
    using assms(3) Some by (cases ?c; simp add: tablePlans_def)+
  show ?thesis
    using changePlan_ok [OF assms(1) Some, of f] assms(2) c Some
    by (auto simp: keepsPlanKeys_def list_ex_iff)
qed

lemma tables_putItems:
  assumes "planTableOk t" and "vt_agenda t i = Some p" and "wp_items p = []"
  shows "if itemsOk (vt_songSet t) rs
     then \<exists>t'. vCreateItems tablePlans t i rs = Inr (length rs, t')
        \<and> vt_agenda t' = (vt_agenda t)(i \<mapsto> p\<lparr>wp_items := itemsByOrder rs\<rparr>)
        \<and> vt_songSet t' = vt_songSet t \<and> planTableOk t'
     else \<exists>e. vCreateItems tablePlans t i rs = Inl e"
proof (cases "itemsOk (vt_songSet t) rs")
  case True
  then have "putItems t i rs = Inr (length rs, changePlan i (\<lambda>p. p\<lparr>wp_items := itemsByOrder (wp_items p @ rs)\<rparr>) t)"
    using assms(2,3) by (simp add: putItems_def itemsOk_def)
  then show ?thesis
    using True changePlan_items [OF assms(1,2), of "\<lambda>p. itemsByOrder (wp_items p @ rs)"] assms(3)
    by (simp add: tablePlans_def)
next
  case False
  then have "\<exists>e. putItems t i rs = Inl e"
    using assms(2,3) by (simp add: putItems_def)
  then show ?thesis
    using False by (simp add: tablePlans_def)
qed

lemma tables_web_plans: "web_plan_store tablePlans vt_agenda vt_songSet planTableOk"
proof (unfold_locales, goal_cases)
  case (1 db P p)
  then show ?case by (auto simp: tablePlans_def vt_agenda_Some find_Some_iff)
next
  case (2 db P i p)
  then show ?case by (auto simp: tablePlans_def vt_agenda_Some find_None_iff)
next
  case (3 db i p)
  then show ?case by (simp add: vt_agenda_Some)
next
  case (4 db i p j q)
  then have "p \<in> set (vt_plans db)" "q \<in> set (vt_plans db)" "wp_id p = i" "wp_id q = j"
    by (simp_all add: vt_agenda_Some)
  with vt_date [OF 4(1), of p q] 4(4) show ?case by blast
next
  case (5 db p q db')
  then show ?case by (rule tables_newPlan)
next
  case (6 db i q p)
  then have "wp_date p \<in> wp_date ` set (vt_plans db)"
    using vt_agenda_Some [OF 6(1)] by (metis imageI)
  then show ?case by (simp add: tablePlans_def)
next
  case (7 db p)
  then have "wp_date p \<notin> wp_date ` set (vt_plans db)"
    using vt_agenda_Some [OF 7(1)] by (metis imageE)
  then show ?case by (simp add: tablePlans_def Let_def)
next
  case (8 db f i q db')
  then show ?case by (rule tables_patchPlan)
next
  case (9 db f i p)
  then have "\<not> list_ex (\<lambda>q. wp_id q \<noteq> i \<and> wp_date q = wp_date (f p)) (vt_plans db)"
    using 9(4) [OF vt_agenda_Some [OF 9(1), THEN iffD2]] by (auto simp: list_ex_iff)
  then show ?case using 9(3) by (simp add: tablePlans_def)
next
  case (10 db i p)
  then show ?case using changePlan_items [OF 10, of "\<lambda>_. []"] by (simp add: tablePlans_def)
next
  case (11 db i p rs)
  then show ?case by (rule tables_putItems)
qed

interpretation web_plans: web_plan_store tablePlans vt_agenda vt_songSet planTableOk
  by (rule tables_web_plans)

section \<open>Routes over the laws\<close>

lemma livePlan_simps:
  "vFindPlan V db (\<lambda>p. wp_id p = i) = Some p \<Longrightarrow> wp_deletedAt p = None \<Longrightarrow> livePlan V i route db = route p db"
  by (simp add: livePlan_def)

context web_plan_store begin

lemma find_id: "ok db \<Longrightarrow> vFindPlan V db (\<lambda>p. wp_id p = i) = agenda db i"
proof (cases "vFindPlan V db (\<lambda>p. wp_id p = i)")
  case None
  assume "ok db"
  from find_none [OF this None] plan_key [OF this] None show ?thesis by (metis not_None_eq)
next
  case (Some p)
  assume "ok db"
  from find_some [OF this Some] Some show ?thesis by auto
qed

lemma put_items:
  assumes "ok db" and "canManagePlans (ws_role s)" and "BodySchema body = Inr bs"
    and "agenda db i = Some p" and "wp_deletedAt p = None"
  shows "if itemsOk (songSet db) (map itemRowOf bs)
     then \<exists>db'. itemsPut V (Some s) i body db = (Reply 200 (length bs), db')
        \<and> agenda db' = (agenda db)(i \<mapsto> p\<lparr>wp_items := itemsByOrder (map itemRowOf bs)\<rparr>) \<and> ok db'
     else \<exists>e. itemsPut V (Some s) i body db = (Crashed e, db)"
proof -
  note run = itemsPut_def livePlan_simps [OF find_id [OF assms(1), THEN trans, OF assms(4)] assms(5)] assms(2,3)
  obtain d where d: "vDeleteItems V db i = Inr ((), d)" "agenda d = (agenda db)(i \<mapsto> p\<lparr>wp_items := []\<rparr>)"
      "songSet d = songSet db" "ok d"
    using delete_items [OF assms(1,4)] by blast
  have "agenda d i = Some (p\<lparr>wp_items := []\<rparr>)"
    by (simp add: d(2))
  note c = create_items [OF d(4) this, of "map itemRowOf bs"]
  show ?thesis
  proof (cases "itemsOk (songSet db) (map itemRowOf bs)")
    case True
    with c obtain d' where "vCreateItems V d i (map itemRowOf bs) = Inr (length bs, d')"
        "agenda d' = (agenda d)(i \<mapsto> p\<lparr>wp_items := itemsByOrder (map itemRowOf bs)\<rparr>)" "ok d'"
      by (auto simp: d(3))
    with True show ?thesis
      by (simp add: run d(1,2))
  next
    case False
    with c obtain e where "vCreateItems V d i (map itemRowOf bs) = Inl e"
      by (auto simp: d(3))
    with False show ?thesis
      by (simp add: run d(1))
  qed
qed

lemma post_on_deleted_date:
  assumes "ok db" and "canManagePlans (ws_role s)" and "CreatePlanSchema isoOk body = Inr (date, title)"
    and "agenda db i = Some q" and "wp_deletedAt q \<noteq> None" and "wp_date q = parseDate date"
  shows "plansPost isoOk parseDate V (Some s) body db = (Crashed (Prisma P2002), db)"
proof -
  have "vFindPlan V db (\<lambda>p. wp_date p = parseDate date \<and> wp_deletedAt p = None) = None"
  proof (rule ccontr)
    assume "vFindPlan V db (\<lambda>p. wp_date p = parseDate date \<and> wp_deletedAt p = None) \<noteq> None"
    then obtain r where r: "vFindPlan V db (\<lambda>p. wp_date p = parseDate date \<and> wp_deletedAt p = None) = Some r"
      by blast
    from find_some [OF assms(1) r] dates [OF assms(1,4), of "wp_id r" r] assms(4-6)
    show False by simp
  qed
  moreover have "vCreatePlan V db (newPlan (parseDate date) title) = Inl (Prisma P2002)"
    using assms(6) by (intro create_clash [OF assms(1,4)]) (simp add: newPlan_def)
  ultimately show ?thesis
    using assms(2,3) by (simp add: plansPost_def)
qed

end

section \<open>Properties of the routes\<close>

text \<open>A stored item beside the entry of the body it comes from, column by column\<close>

definition savedItem :: "itemBody \<Rightarrow> webItem \<Rightarrow> bool" where
  "savedItem b r \<longleftrightarrow>
     wi_order r = ib_order b \<and> wi_kind r = ib_kind b \<and> wi_title r = ib_title b \<and> wi_content r = ib_content b
     \<and> wi_songId r = ib_songId b \<and> wi_refId r = ib_songId b \<and> wi_refSubId r = None \<and> wi_notes r = None
     \<and> wi_mediaPath r = None \<and> wi_secondaryContent r = None \<and> wi_backgroundConfig r = None"

definition bodiesFit :: "string set \<Rightarrow> itemBody list \<Rightarrow> bool" where
  "bodiesFit S bs \<longleftrightarrow> distinct (map ib_order bs)
     \<and> list_all (\<lambda>b. itemOrderOk (ib_order b) \<and> (case ib_songId b of None \<Rightarrow> True | Some k \<Rightarrow> k \<in> S)) bs"

lemma savedItem_row: "list_all2 savedItem bs rs \<longleftrightarrow> rs = map itemRowOf bs"
proof -
  have "savedItem b r \<longleftrightarrow> r = itemRowOf b" for b r
    by (cases r) (auto simp: savedItem_def itemRowOf_def)
  then show ?thesis
    by (induction bs arbitrary: rs) (auto simp: list_all2_Cons1)
qed

lemma bodiesFit_rows: "bodiesFit S bs \<longleftrightarrow> itemsOk S (map itemRowOf bs)"
  by (auto simp: bodiesFit_def itemsOk_def comp_def itemRowOf_def list_all_iff)

lemma sort_rows: "itemsByOrder (map itemRowOf bs) = map itemRowOf (sort_key ib_order bs)"
proof -
  have "insort_key wi_order (itemRowOf b) (map itemRowOf cs) = map itemRowOf (insort_key ib_order b cs)" for b cs
    by (induction cs) (simp_all add: itemRowOf_def)
  then show ?thesis
    by (induction bs) (simp_all add: itemsByOrder_def)
qed

text \<open>
  C23: Saving the items of a plan, by a session that may manage plans, either makes them exactly
  the items of the body in their order, with the columns of the body and no others, and changes no
  other plan, or ends in an uncaught error with the database as before; the error comes exactly if
  two items have the same order, an order is out of range or an item names a song that does not exist.
\<close>

theorem items_saved_or_unchanged:
  assumes "planTableOk t" and "canManagePlans (ws_role s)" and "BodySchema body = Inr bs"
    and "vt_agenda t i = Some p" and "wp_deletedAt p = None"
  shows "if bodiesFit (vt_songSet t) bs
     then \<exists>t' rs. itemsPut tablePlans (Some s) i body t = (Reply 200 (length bs), t')
        \<and> vt_agenda t' = (vt_agenda t)(i \<mapsto> p\<lparr>wp_items := rs\<rparr>)
        \<and> list_all2 savedItem (sort_key ib_order bs) rs \<and> planTableOk t'
     else \<exists>e. itemsPut tablePlans (Some s) i body t = (Crashed e, t)"
  using web_plans.put_items [OF assms] by (auto simp: bodiesFit_rows savedItem_row sort_rows split: if_splits)

definition demoAgenda :: planTable where
  "demoAgenda = \<lparr>vt_plans = [\<lparr>wp_id = ''0'', wp_date = 7, wp_title = None, wp_backgroundConfig = None,
     wp_deletedAt = None, wp_items = [\<lparr>wi_order = 1, wi_kind = ''ANNOUNCEMENT_IMAGE'', wi_refId = None,
       wi_refSubId = None, wi_songId = None, wi_title = Some ''Welcome'', wi_content = None,
       wi_notes = Some ''two minutes'', wi_mediaPath = Some ''/m/a.png'', wi_secondaryContent = None,
       wi_backgroundConfig = None\<rparr>]\<rparr>], vt_next = 1, vt_songs = [(''s'', ''Joy'')]\<rparr>"

lemma demoAgenda_ok: "planTableOk demoAgenda"
  by code_simp

definition demoItems :: jsval where
  "demoItems = JObj [(''items'', JArr [
     JObj [(''order'', JNum (Fin 2)), (''kind'', JStr ''SONG_ENTIRE''), (''songId'', JStr ''s'')],
     JObj [(''order'', JNum (Fin 1)), (''kind'', JStr ''ANNOUNCEMENT_IMAGE''), (''title'', JStr ''Welcome'')]])]"

definition demoBodies :: "itemBody list" where
  "demoBodies = [
     \<lparr>ib_order = 2, ib_kind = ''SONG_ENTIRE'', ib_title = None, ib_content = None, ib_songId = Some ''s''\<rparr>,
     \<lparr>ib_order = 1, ib_kind = ''ANNOUNCEMENT_IMAGE'', ib_title = Some ''Welcome'', ib_content = None,
       ib_songId = None\<rparr>]"

lemma demoItems_parsed: "BodySchema demoItems = Inr demoBodies"
  by code_simp

theorem items_saved_or_unchanged_witness:
  "\<exists>t' p. itemsPut tablePlans (Some (demoSession ''1'' ADMIN)) ''0'' demoItems demoAgenda = (Reply 200 2, t')
     \<and> vt_agenda t' ''0'' = Some p \<and> map wi_order (wp_items p) = [1, 2]
     \<and> map wi_title (wp_items p) = [Some ''Welcome'', None] \<and> map wi_songId (wp_items p) = [None, Some ''s'']"
proof -
  have m: "canManagePlans (ws_role (demoSession ''1'' ADMIN))"
    by code_simp
  have p: "vt_agenda demoAgenda ''0'' = Some (hd (vt_plans demoAgenda))" "wp_deletedAt (hd (vt_plans demoAgenda)) = None"
    by (simp_all add: vt_agenda_def demoAgenda_def)
  have fits: "bodiesFit (vt_songSet demoAgenda) demoBodies"
    by (simp add: bodiesFit_def demoBodies_def itemOrderOk_def vt_songSet_def demoAgenda_def)
  have sorted: "sort_key ib_order demoBodies = rev demoBodies" and "length demoBodies = 2"
    by code_simp+
  then obtain t' rs where "itemsPut tablePlans (Some (demoSession ''1'' ADMIN)) ''0'' demoItems demoAgenda = (Reply 200 2, t')"
      "vt_agenda t' = (vt_agenda demoAgenda)(''0'' \<mapsto> (hd (vt_plans demoAgenda))\<lparr>wp_items := rs\<rparr>)"
      "list_all2 savedItem (rev demoBodies) rs"
    using items_saved_or_unchanged [OF demoAgenda_ok m demoItems_parsed p, unfolded if_P [OF fits]] by auto
  moreover from this(3) have "map wi_order rs = [1, 2]" "map wi_title rs = [Some ''Welcome'', None]"
      "map wi_songId rs = [None, Some ''s'']"
    by (auto simp: demoBodies_def list_all2_Cons1 savedItem_def)
  ultimately show ?thesis
    by auto
qed

section \<open>What the checks let through\<close>

text \<open>
  The columns that only the desktop application writes are lost when the web application saves a
  plan, whatever the body holds: an item that shows a picture has no file any more.
\<close>

lemma saved_items_lose_columns:
  assumes "planTableOk t" and "canManagePlans (ws_role s)" and "BodySchema body = Inr bs"
    and "vt_agenda t i = Some p" and "wp_deletedAt p = None"
    and "itemsPut tablePlans (Some s) i body t = (Reply 200 n, t')"
  shows "\<exists>q. vt_agenda t' i = Some q \<and> (\<forall>r \<in> set (wp_items q). wi_mediaPath r = None \<and> wi_notes r = None
     \<and> wi_refSubId r = None \<and> wi_secondaryContent r = None \<and> wi_backgroundConfig r = None)"
proof -
  have ok: "itemsOk (vt_songSet t) (map itemRowOf bs)"
    using web_plans.put_items [OF assms(1-5)] assms(6) by (auto split: if_splits)
  then have "vt_agenda t' i = Some (p\<lparr>wp_items := itemsByOrder (map itemRowOf bs)\<rparr>)"
    using web_plans.put_items [OF assms(1-5)] assms(6) by auto
  then show ?thesis
    by (auto simp: itemsByOrder_def itemRowOf_def)
qed

text \<open>A date of a deleted plan is never free again.\<close>

lemma deleted_date_crashes:
  assumes "planTableOk t" and "canManagePlans (ws_role s)" and "CreatePlanSchema isoOk body = Inr (date, title)"
    and "vt_agenda t i = Some q" and "wp_deletedAt q \<noteq> None" and "wp_date q = parseDate date"
  shows "plansPost isoOk parseDate tablePlans (Some s) body t = (Crashed (Prisma P2002), t)"
  using assms by (rule web_plans.post_on_deleted_date)

text \<open>The deletion of an unknown plan is not answered with 404.\<close>

lemma delete_unknown_plan_crashes:
  assumes "vt_agenda t i = None" and "canManagePlans (ws_role s)"
  shows "planDelete now tablePlans (Some s) i t = (Crashed (Prisma P2025), t)"
  using assms by (simp add: planDelete_def tablePlans_def)

end
