(* ===== verification/WebSongs.thy ===== *)
theory WebSongs
  imports WebUsers "HOL-Library.AList"
begin

text \<open>
  The songs of the web application: the checks of the bodies (\<open>lib/validations.ts\<close>) and the
  routes of songs, favourites, the state of learning and the import (\<open>app/api/songs\<close>). The
  client is a record of operations with the laws of \<open>web_song_store\<close>: a title is taken by one
  song at most, deleted ones included, and an order by one block of a song.
\<close>

section \<open>Rows and client\<close>

record webBlock =
  wb_order :: rat
  wb_type :: string
  wb_title :: "string option"
  wb_content :: string

text \<open>A song with its blocks in their order; a deleted song keeps its row\<close>

record webSong =
  wso_id :: string
  wso_title :: string
  wso_artist :: "string option"
  wso_album :: "string option"
  wso_year :: "string option"
  wso_language :: "string option"
  wso_tags :: "string option"
  wso_deletedAt :: "int option"
  wso_blocks :: "webBlock list"

datatype learningStatus = TO_LEARN | IN_PROGRESS | MASTERED

definition learningNames :: "(string \<times> learningStatus) list" where
  "learningNames = [(''TO_LEARN'', TO_LEARN), (''IN_PROGRESS'', IN_PROGRESS), (''MASTERED'', MASTERED)]"

text \<open>
  \<open>wFindSongs\<close> lists by title. \<open>wCreateSong\<close> creates the song with its blocks; \<open>wUpdateSong\<close>
  changes the columns of a song, \<open>wDeleteBlocks\<close> and \<open>wCreateBlocks\<close> its blocks.
\<close>

record 'db webSongDb =
  wFindSong :: "'db \<Rightarrow> (webSong \<Rightarrow> bool) \<Rightarrow> webSong option"
  wFindSongs :: "'db \<Rightarrow> (webSong \<Rightarrow> bool) \<Rightarrow> webSong list"
  wCreateSong :: "'db \<Rightarrow> webSong \<Rightarrow> failure + webSong \<times> 'db"
  wUpdateSong :: "'db \<Rightarrow> string \<Rightarrow> (webSong \<Rightarrow> webSong) \<Rightarrow> failure + unit \<times> 'db"
  wDeleteBlocks :: "'db \<Rightarrow> string \<Rightarrow> failure + unit \<times> 'db"
  wCreateBlocks :: "'db \<Rightarrow> string \<Rightarrow> webBlock list \<Rightarrow> failure + unit \<times> 'db"
  wIsFavorite :: "'db \<Rightarrow> string \<Rightarrow> string \<Rightarrow> bool"
  wPutFavorite :: "'db \<Rightarrow> string \<Rightarrow> string \<Rightarrow> failure + unit \<times> 'db"
  wDropFavorites :: "'db \<Rightarrow> string \<Rightarrow> string \<Rightarrow> 'db"
  wLearning :: "'db \<Rightarrow> string \<Rightarrow> string \<Rightarrow> learningStatus option"
  wPutLearning :: "'db \<Rightarrow> string \<Rightarrow> string \<Rightarrow> learningStatus \<Rightarrow> failure + unit \<times> 'db"

section \<open>Bodies\<close>

definition blockTypes :: "(string \<times> string) list" where
  "blockTypes = map (\<lambda>s. (s, s)) [''VERSE'', ''CHORUS'', ''BRIDGE'', ''INTRO'', ''OUTRO'', ''OTHER'']"

definition SongBlockSchema :: "webBlock zod" where
  "SongBlockSchema = zObject (\<lambda>rec.
     andThen (zMin 1 (Custom ''Label requis'') zString (jget rec ''label'')) (\<lambda>label.
     andThen (zEnum blockTypes (jget rec ''type'')) (\<lambda>ty.
     andThen (zMin 1 (Custom ''Paroles requises'') zString (jget rec ''content'')) (\<lambda>content.
     andThen (zCheck (\<lambda>n. 0 \<le> n) BuiltIn zInt (jget rec ''order'')) (\<lambda>ord.
       Inr \<lparr>wb_order = of_int ord, wb_type = ty, wb_title = Some label, wb_content = content\<rparr>)))))"

record songBody =
  sb_title :: "string option"
  sb_artist :: "string option"
  sb_album :: "string option"
  sb_year :: "string option"
  sb_language :: "string option"
  sb_tags :: "string option"
  sb_blocks :: "webBlock list option"

text \<open>The shape of the two schemas; in \<open>UpdateSongSchema\<close> every field is optional.\<close>

definition songShape :: "string option zod \<Rightarrow> webBlock list option zod \<Rightarrow> songBody zod" where
  "songShape titleZ blocksZ = zObject (\<lambda>rec.
     andThen (titleZ (jget rec ''title'')) (\<lambda>title.
     andThen (zOptional zString (jget rec ''artist'')) (\<lambda>artist.
     andThen (zOptional zString (jget rec ''album'')) (\<lambda>album.
     andThen (zOptional zString (jget rec ''year'')) (\<lambda>year.
     andThen (zOptional zString (jget rec ''language'')) (\<lambda>language.
     andThen (zOptional zString (jget rec ''tags'')) (\<lambda>tags.
     andThen (blocksZ (jget rec ''blocks'')) (\<lambda>bs.
       Inr \<lparr>sb_title = title, sb_artist = artist, sb_album = album, sb_year = year,
         sb_language = language, sb_tags = tags, sb_blocks = bs\<rparr>))))))))"

definition songTitleZ :: "string zod" where
  "songTitleZ = zMin 1 (Custom ''Titre requis'') zString"

definition songBlocksZ :: "webBlock list zod" where
  "songBlocksZ = zMin 1 (Custom ''Au moins un bloc requis'') (zArray SongBlockSchema)"

definition required :: "'a zod \<Rightarrow> 'a option zod" where
  "required z v = andThen (z v) (\<lambda>x. Inr (Some x))"

definition CreateSongSchema :: "songBody zod" where
  "CreateSongSchema = songShape (required songTitleZ) (required songBlocksZ)"

definition UpdateSongSchema :: "songBody zod" where
  "UpdateSongSchema = songShape (zOptional songTitleZ) (zOptional songBlocksZ)"

section \<open>Songs\<close>

text \<open>The dash of the message is written as a hyphen.\<close>

definition roleDenied :: "nat \<times> string" where
  "roleDenied = (403, ''Acc'' @ [CHR 0xE8] @ ''s refus'' @ [CHR 0xE9] @ '' - r'' @ [CHR 0xF4] @ ''le insuffisant'')"

definition songMissing :: string where
  "songMissing = ''Chant introuvable''"

record songView =
  sv_song :: webSong
  sv_isFavorite :: bool
  sv_learningStatus :: "learningStatus option"

definition viewOf :: "'db webSongDb \<Rightarrow> 'db \<Rightarrow> webSession \<Rightarrow> webSong \<Rightarrow> songView" where
  "viewOf W db s r = \<lparr>sv_song = r, sv_isFavorite = wIsFavorite W db (ws_id s) (wso_id r),
     sv_learningStatus = wLearning W db (ws_id s) (wso_id r)\<rparr>"

text \<open>
  \<open>has q s\<close> and \<open>starts q s\<close> are \<open>contains\<close> and \<open>startsWith\<close> of the database, which ignore the
  case. The list leaves out the lyrics.
\<close>

definition songsGet ::
  "(string \<Rightarrow> string \<Rightarrow> bool) \<Rightarrow> (string \<Rightarrow> string \<Rightarrow> bool) \<Rightarrow> 'db webSongDb \<Rightarrow> webSession option
     \<Rightarrow> string option \<Rightarrow> string option \<Rightarrow> (songView list, 'db) route" where
  "songsGet has starts W session qParam letterParam = withSession session (\<lambda>s db.
     let q = orElse (map_option trim qParam) []; letter = orElse (map_option trim letterParam) [];
         found = wFindSongs W db (\<lambda>r. wso_deletedAt r = None
           \<and> (if q \<noteq> [] then has q (wso_title r) \<or> (case wso_artist r of None \<Rightarrow> False | Some a \<Rightarrow> has q a)
              else letter \<noteq> [] \<longrightarrow> starts letter (wso_title r)));
         noLyrics = (\<lambda>r. r\<lparr>wso_blocks := map (\<lambda>b. b\<lparr>wb_content := []\<rparr>) (wso_blocks r)\<rparr>)
     in (Reply 200 (map (\<lambda>r. viewOf W db s (noLyrics r)) found), db))"

text \<open>The row that a body creates\<close>

definition newSong :: "songBody \<Rightarrow> webSong" where
  "newSong b = \<lparr>wso_id = [], wso_title = orElse (sb_title b) [], wso_artist = sb_artist b,
     wso_album = sb_album b, wso_year = sb_year b, wso_language = sb_language b, wso_tags = sb_tags b,
     wso_deletedAt = None, wso_blocks = orElse (sb_blocks b) []\<rparr>"

definition songsPost :: "'db webSongDb \<Rightarrow> webSession option \<Rightarrow> jsval \<Rightarrow> (webSong, 'db) route" where
  "songsPost W session body = withSession session (\<lambda>s.
     requireRole (canEditSongs (ws_role s)) roleDenied
      (parsedBody (CreateSongSchema body) (\<lambda>b db.
        let song = newSong b
        in if wFindSong W db (\<lambda>r. wso_title r = wso_title song \<and> wso_deletedAt r = None) \<noteq> None
           then refuse 409 (''Un chant avec ce titre existe d'' @ [CHR 0xE9, CHR ''j'', CHR 0xE0]) db
           else orCrash (wCreateSong W db song) db (\<lambda>r db. (Reply 201 r, db)))))"

text \<open>The song under an identifier, unless it is deleted\<close>

definition liveSong :: "'db webSongDb \<Rightarrow> string \<Rightarrow> (webSong \<Rightarrow> ('a, 'db) route) \<Rightarrow> ('a, 'db) route" where
  "liveSong W i route db =
     (case wFindSong W db (\<lambda>r. wso_id r = i) of
        None \<Rightarrow> refuse 404 songMissing db
      | Some r \<Rightarrow> if wso_deletedAt r \<noteq> None then refuse 404 songMissing db else route r db)"

definition songGet :: "'db webSongDb \<Rightarrow> webSession option \<Rightarrow> string \<Rightarrow> (songView, 'db) route" where
  "songGet W session i = withSession session (\<lambda>s.
     liveSong W i (\<lambda>r db. (Reply 200 (viewOf W db s r), db)))"

definition patchSong :: "songBody \<Rightarrow> webSong \<Rightarrow> webSong" where
  "patchSong b r = r\<lparr>
     wso_title := orElse (sb_title b) (wso_title r),
     wso_artist := orOption (sb_artist b) (wso_artist r),
     wso_album := orOption (sb_album b) (wso_album r),
     wso_year := orOption (sb_year b) (wso_year r),
     wso_language := orOption (sb_language b) (wso_language r),
     wso_tags := orOption (sb_tags b) (wso_tags r)\<rparr>"

text \<open>Statements in sequence; in a transaction the first failure undoes all.\<close>

definition bindDb :: "failure + 'a \<times> 'db \<Rightarrow> ('a \<Rightarrow> 'db \<Rightarrow> failure + 'b \<times> 'db) \<Rightarrow> failure + 'b \<times> 'db" where
  "bindDb m k = andThen m (\<lambda>(x, db). k x db)"

definition replaceBlocks :: "'db webSongDb \<Rightarrow> string \<Rightarrow> webBlock list \<Rightarrow> 'db \<Rightarrow> failure + unit \<times> 'db" where
  "replaceBlocks W i bs db = bindDb (wDeleteBlocks W db i) (\<lambda>_ db. wCreateBlocks W db i bs)"

definition songPatch :: "'db webSongDb \<Rightarrow> webSession option \<Rightarrow> string \<Rightarrow> jsval \<Rightarrow> (webSong, 'db) route" where
  "songPatch W session i body = withSession session (\<lambda>s.
     requireRole (canEditSongs (ws_role s)) roleDenied
      (parsedBody (UpdateSongSchema body) (\<lambda>b. liveSong W i (\<lambda>_ db.
        orCrash
          (bindDb (wUpdateSong W db i (patchSong b)) (\<lambda>_ db.
           bindDb (case sb_blocks b of None \<Rightarrow> Inr ((), db) | Some bs \<Rightarrow> replaceBlocks W i bs db) (\<lambda>_ db.
             case wFindSong W db (\<lambda>r. wso_id r = i) of
               None \<Rightarrow> Inl (Prisma P2025)
             | Some r \<Rightarrow> Inr (r, db))))
          db (\<lambda>r db. (Reply 200 r, db))))))"

definition songDelete :: "'db webSongDb \<Rightarrow> int \<Rightarrow> webSession option \<Rightarrow> string \<Rightarrow> (string, 'db) route" where
  "songDelete W now session i = withSession session (\<lambda>s.
     requireRole (canDeleteSongs (ws_role s)) roleDenied
      (liveSong W i (\<lambda>_ db.
        orCrash (wUpdateSong W db i (\<lambda>r. r\<lparr>wso_deletedAt := Some now\<rparr>)) db (\<lambda>_ db. (Reply 200 i, db)))))"

section \<open>Favourites and learning\<close>

definition favoritePost :: "'db webSongDb \<Rightarrow> webSession option \<Rightarrow> string \<Rightarrow> (bool, 'db) route" where
  "favoritePost W session songId = withSession session (\<lambda>s db.
     orCrash (wPutFavorite W db (ws_id s) songId) db (\<lambda>_ db. (Reply 200 True, db)))"

definition favoriteDelete :: "'db webSongDb \<Rightarrow> webSession option \<Rightarrow> string \<Rightarrow> (bool, 'db) route" where
  "favoriteDelete W session songId = withSession session (\<lambda>s db.
     (Reply 200 False, wDropFavorites W db (ws_id s) songId))"

definition learningPut :: "'db webSongDb \<Rightarrow> webSession option \<Rightarrow> string \<Rightarrow> jsval \<Rightarrow> (learningStatus, 'db) route" where
  "learningPut W session songId body = withSession session (\<lambda>s db.
     case zObject (\<lambda>rec. zEnum learningNames (jget rec ''status'')) body of
       Inl _ \<Rightarrow> refuse 400 ''Statut invalide'' db
     | Inr status \<Rightarrow> orCrash (wPutLearning W db (ws_id s) songId status) db (\<lambda>_ db. (Reply 200 status, db)))"

section \<open>The import\<close>

datatype importMode = IGNORE | OVERWRITE

definition ImportBlockSchema :: "webBlock zod" where
  "ImportBlockSchema = zObject (\<lambda>rec.
     andThen (zEnum blockTypes (jget rec ''type'')) (\<lambda>ty.
     andThen (zString (jget rec ''label'')) (\<lambda>label.
     andThen (zString (jget rec ''content'')) (\<lambda>content.
     andThen (zNumber (jget rec ''order'')) (\<lambda>ord.
       Inr \<lparr>wb_order = ord, wb_type = ty, wb_title = Some label, wb_content = content\<rparr>)))))"

record importSong =
  is_title :: string
  is_artist :: "string option"
  is_blocks :: "webBlock list"

definition ImportSongSchema :: "importSong zod" where
  "ImportSongSchema = zObject (\<lambda>rec.
     andThen (zMin 1 BuiltIn zString (jget rec ''title'')) (\<lambda>title.
     andThen (zOptional zString (jget rec ''artist'')) (\<lambda>artist.
     andThen (zArray ImportBlockSchema (jget rec ''blocks'')) (\<lambda>bs.
       Inr \<lparr>is_title = title, is_artist = artist, is_blocks = bs\<rparr>))))"

definition ImportBodySchema :: "(importSong list \<times> importMode) zod" where
  "ImportBodySchema = zObject (\<lambda>rec.
     andThen (zArray ImportSongSchema (jget rec ''songs'')) (\<lambda>ss.
     andThen (zDefault IGNORE (zEnum [(''IGNORE'', IGNORE), (''OVERWRITE'', OVERWRITE)]) (jget rec ''mode'')) (\<lambda>mode.
       Inr (ss, mode))))"

record importCounts =
  ic_created :: nat
  ic_updated :: nat
  ic_skipped :: nat

definition newImportSong :: "importSong \<Rightarrow> webSong" where
  "newImportSong s = \<lparr>wso_id = [], wso_title = is_title s, wso_artist = is_artist s, wso_album = None,
     wso_year = None, wso_language = None, wso_tags = None, wso_deletedAt = None, wso_blocks = is_blocks s\<rparr>"

text \<open>The transaction that overwrites a song\<close>

definition overwriteSong :: "'db webSongDb \<Rightarrow> importSong \<Rightarrow> string \<Rightarrow> 'db \<Rightarrow> failure + unit \<times> 'db" where
  "overwriteSong W s i db = bindDb (replaceBlocks W i (is_blocks s) db) (\<lambda>_ db.
     case is_artist s of
       Some (c # a) \<Rightarrow> wUpdateSong W db i (\<lambda>r. r\<lparr>wso_artist := Some (c # a)\<rparr>)
     | _ \<Rightarrow> Inr ((), db))"

text \<open>The loop: each song is written on its own, so a failure keeps what was written before.\<close>

fun importEach ::
  "'db webSongDb \<Rightarrow> importMode \<Rightarrow> importSong list \<Rightarrow> importCounts \<Rightarrow> 'db \<Rightarrow> (failure + importCounts) \<times> 'db" where
  "importEach W mode [] n db = (Inr n, db)"
| "importEach W mode (s # ss) n db =
     (case wFindSong W db (\<lambda>r. wso_title r = is_title s \<and> wso_deletedAt r = None) of
        Some existing \<Rightarrow>
          if mode = IGNORE then importEach W mode ss (n\<lparr>ic_skipped := ic_skipped n + 1\<rparr>) db
          else (case overwriteSong W s (wso_id existing) db of
                  Inl e \<Rightarrow> (Inl e, db)
                | Inr (_, db) \<Rightarrow> importEach W mode ss (n\<lparr>ic_updated := ic_updated n + 1\<rparr>) db)
      | None \<Rightarrow>
          (case wCreateSong W db (newImportSong s) of
             Inl e \<Rightarrow> (Inl e, db)
           | Inr (_, db) \<Rightarrow> importEach W mode ss (n\<lparr>ic_created := ic_created n + 1\<rparr>) db))"

definition importConfirm :: "'db webSongDb \<Rightarrow> webSession option \<Rightarrow> jsval \<Rightarrow> (importCounts, 'db) route" where
  "importConfirm W session body = withSession session (\<lambda>s.
     requireRole (canImportSongs (ws_role s)) roleDenied
      (parsedBody (ImportBodySchema body) (\<lambda>(ss, mode) db.
        case importEach W mode ss \<lparr>ic_created = 0, ic_updated = 0, ic_skipped = 0\<rparr> db of
          (Inl e, db) \<Rightarrow> (Crashed e, db)
        | (Inr n, db) \<Rightarrow> (Reply 200 n, db))))"

section \<open>The laws of the store\<close>

definition orderOk :: "rat \<Rightarrow> bool" where
  "orderOk n \<longleftrightarrow> n = of_int \<lfloor>n\<rfloor> \<and> - (2 ^ 31) \<le> \<lfloor>n\<rfloor> \<and> \<lfloor>n\<rfloor> < 2 ^ 31"

definition blocksOk :: "webBlock list \<Rightarrow> bool" where
  "blocksOk bs \<longleftrightarrow> distinct (map wb_order bs) \<and> list_all (\<lambda>b. orderOk (wb_order b)) bs"

definition byOrder :: "webBlock list \<Rightarrow> webBlock list" where
  "byOrder = sort_key wb_order"

text \<open>A change of columns that are not keys\<close>

definition keepsSongKeys :: "(webSong \<Rightarrow> webSong) \<Rightarrow> bool" where
  "keepsSongKeys f \<longleftrightarrow> (\<forall>r. wso_id (f r) = wso_id r \<and> wso_blocks (f r) = wso_blocks r)"

locale web_song_store =
  fixes W :: "'db webSongDb"
    and lib :: "'db \<Rightarrow> string \<rightharpoonup> webSong"
    and ok :: "'db \<Rightarrow> bool"
  assumes find_some: "ok db \<Longrightarrow> wFindSong W db P = Some r \<Longrightarrow> lib db (wso_id r) = Some r \<and> P r"
    and find_none: "ok db \<Longrightarrow> wFindSong W db P = None \<Longrightarrow> lib db i = Some r \<Longrightarrow> \<not> P r"
    and find_all: "ok db \<Longrightarrow> set (wFindSongs W db P) = {r \<in> ran (lib db). P r}"
    and song_key: "ok db \<Longrightarrow> lib db i = Some r \<Longrightarrow> wso_id r = i"
    and titles: "ok db \<Longrightarrow> lib db i = Some r \<Longrightarrow> lib db j = Some q \<Longrightarrow> wso_title r = wso_title q \<Longrightarrow> i = j"
    and create_song: "ok db \<Longrightarrow> wCreateSong W db r = Inr (q, db') \<Longrightarrow>
          \<exists>i. lib db i = None \<and> q = r\<lparr>wso_id := i, wso_blocks := byOrder (wso_blocks r)\<rparr>
              \<and> lib db' = (lib db)(i \<mapsto> q) \<and> ok db'"
    and create_fits: "ok db \<Longrightarrow> blocksOk (wso_blocks r) \<Longrightarrow>
          (\<And>i q. lib db i = Some q \<Longrightarrow> wso_title q \<noteq> wso_title r) \<Longrightarrow> \<exists>x. wCreateSong W db r = Inr x"
    and create_clash: "ok db \<Longrightarrow> blocksOk (wso_blocks r) \<Longrightarrow> lib db i = Some q \<Longrightarrow>
          wso_title q = wso_title r \<Longrightarrow> wCreateSong W db r = Inl (Prisma P2002)"
    and update_song: "ok db \<Longrightarrow> keepsSongKeys f \<Longrightarrow> wUpdateSong W db i f = Inr (u, db') \<Longrightarrow>
          \<exists>r. lib db i = Some r \<and> lib db' = (lib db)(i \<mapsto> f r) \<and> ok db'"
    and update_fits: "ok db \<Longrightarrow> keepsSongKeys f \<Longrightarrow> lib db i = Some r \<Longrightarrow>
          (\<And>j q. lib db j = Some q \<Longrightarrow> wso_title q = wso_title (f r) \<Longrightarrow> j = i) \<Longrightarrow>
          \<exists>db'. wUpdateSong W db i f = Inr ((), db')"
    and delete_blocks: "ok db \<Longrightarrow> lib db i = Some r \<Longrightarrow>
          \<exists>db'. wDeleteBlocks W db i = Inr ((), db') \<and> lib db' = (lib db)(i \<mapsto> r\<lparr>wso_blocks := []\<rparr>) \<and> ok db'"
    and create_blocks: "ok db \<Longrightarrow> wCreateBlocks W db i bs = Inr (u, db') \<Longrightarrow> lib db i = Some r \<Longrightarrow>
          lib db' = (lib db)(i \<mapsto> r\<lparr>wso_blocks := byOrder (wso_blocks r @ bs)\<rparr>) \<and> ok db'"
    and create_blocks_iff: "ok db \<Longrightarrow> lib db i = Some r \<Longrightarrow> wso_blocks r = [] \<Longrightarrow>
          (\<exists>x. wCreateBlocks W db i bs = Inr x) \<longleftrightarrow> blocksOk bs"

text \<open>The store as tables\<close>

record webTables =
  wt_songs :: "webSong list"
  wt_next :: nat
  wt_favorites :: "(string \<times> string) list"
  wt_learnings :: "((string \<times> string) \<times> learningStatus) list"

definition wt_lib :: "webTables \<Rightarrow> string \<rightharpoonup> webSong" where
  "wt_lib t = map_of (map (\<lambda>r. (wso_id r, r)) (wt_songs t))"

definition webTablesOk :: "webTables \<Rightarrow> bool" where
  "webTablesOk t \<longleftrightarrow> distinct (map wso_id (wt_songs t)) \<and> distinct (map wso_title (wt_songs t))
     \<and> wso_id ` set (wt_songs t) \<subseteq> usedIds (wt_next t)"

definition changeSong :: "string \<Rightarrow> (webSong \<Rightarrow> webSong) \<Rightarrow> webTables \<Rightarrow> webTables" where
  "changeSong i f t = t\<lparr>wt_songs := map (\<lambda>q. if wso_id q = i then f q else q) (wt_songs t)\<rparr>"

definition putBlocks :: "webTables \<Rightarrow> string \<Rightarrow> webBlock list \<Rightarrow> failure + unit \<times> webTables" where
  "putBlocks t i bs =
     (case wt_lib t i of
        None \<Rightarrow> if bs = [] then Inr ((), t) else Inl (Prisma P2003)
      | Some r \<Rightarrow>
          if \<not> list_all (\<lambda>b. orderOk (wb_order b)) bs then Inl (ErrorMsg ''order'')
          else if \<not> blocksOk (wso_blocks r @ bs) then Inl (Prisma P2002)
          else Inr ((), changeSong i (\<lambda>r. r\<lparr>wso_blocks := byOrder (wso_blocks r @ bs)\<rparr>) t))"

definition tableSongsDb :: "webTables webSongDb" where
  "tableSongsDb = \<lparr>
     wFindSong = (\<lambda>t P. find P (wt_songs t)),
     wFindSongs = (\<lambda>t P. filter P (wt_songs t)),
     wCreateSong = (\<lambda>t r.
        if \<not> list_all (\<lambda>b. orderOk (wb_order b)) (wso_blocks r) then Inl (ErrorMsg ''order'')
        else if wso_title r \<in> wso_title ` set (wt_songs t) \<or> \<not> blocksOk (wso_blocks r) then Inl (Prisma P2002)
        else let q = r\<lparr>wso_id := show_nat (wt_next t), wso_blocks := byOrder (wso_blocks r)\<rparr>
             in Inr (q, t\<lparr>wt_songs := q # wt_songs t, wt_next := Suc (wt_next t)\<rparr>)),
     wUpdateSong = (\<lambda>t i f.
        case wt_lib t i of
          None \<Rightarrow> Inl (Prisma P2025)
        | Some r \<Rightarrow>
            if list_ex (\<lambda>q. wso_id q \<noteq> i \<and> wso_title q = wso_title (f r)) (wt_songs t) then Inl (Prisma P2002)
            else Inr ((), changeSong i f t)),
     wDeleteBlocks = (\<lambda>t i. Inr ((), changeSong i (\<lambda>r. r\<lparr>wso_blocks := []\<rparr>) t)),
     wCreateBlocks = putBlocks,
     wIsFavorite = (\<lambda>t u i. (u, i) \<in> set (wt_favorites t)),
     wPutFavorite = (\<lambda>t u i. if wt_lib t i = None then Inl (Prisma P2003)
        else Inr ((), t\<lparr>wt_favorites := List.insert (u, i) (wt_favorites t)\<rparr>)),
     wDropFavorites = (\<lambda>t u i. t\<lparr>wt_favorites := removeAll (u, i) (wt_favorites t)\<rparr>),
     wLearning = (\<lambda>t u i. map_of (wt_learnings t) (u, i)),
     wPutLearning = (\<lambda>t u i l. if wt_lib t i = None then Inl (Prisma P2003)
        else Inr ((), t\<lparr>wt_learnings := AList.update (u, i) l (wt_learnings t)\<rparr>))\<rparr>"

lemma wt_lib_Some:
  "webTablesOk t \<Longrightarrow> wt_lib t i = Some r \<longleftrightarrow> r \<in> set (wt_songs t) \<and> wso_id r = i"
  unfolding wt_lib_def webTablesOk_def
  by (subst map_of_eq_Some_iff) (auto simp: comp_def)

lemma wt_title: "webTablesOk t \<Longrightarrow> r \<in> set (wt_songs t) \<Longrightarrow> q \<in> set (wt_songs t) \<Longrightarrow>
    wso_title r = wso_title q \<Longrightarrow> r = q"
  by (simp add: webTablesOk_def distinct_map inj_on_def)

lemma changeSong_ok:
  assumes "webTablesOk t" and "wt_lib t i = Some r" and "\<And>q. wso_id (f q) = wso_id q"
    and "\<And>q. q \<in> set (wt_songs t) \<Longrightarrow> wso_title q = wso_title (f r) \<Longrightarrow> wso_id q = i"
  shows "wt_lib (changeSong i f t) = (wt_lib t)(i \<mapsto> f r) \<and> webTablesOk (changeSong i f t)"
proof -
  have d: "distinct (map wso_id (wt_songs t))" "distinct (map wso_title (wt_songs t))"
    using assms(1) by (simp_all add: webTablesOk_def)
  have songs: "wt_songs (changeSong i f t) = map (\<lambda>q. if wso_id q = i then f q else q) (wt_songs t)"
      "wt_next (changeSong i f t) = wt_next t"
    by (simp_all add: changeSong_def)
  note c = changed_row [of wso_id "wt_songs t" wso_title i r f, OF d assms(2) [unfolded wt_lib_def] assms(3,4), folded songs]
  have "wso_id ` set (wt_songs (changeSong i f t)) = wso_id ` set (wt_songs t)"
    using c(1) by (metis list.set_map)
  then show ?thesis
    using c d assms(1) by (simp add: webTablesOk_def wt_lib_def songs(2))
qed

lemma changeSong_blocks:
  assumes "webTablesOk t" and "wt_lib t i = Some r"
  shows "wt_lib (changeSong i (\<lambda>r. r\<lparr>wso_blocks := g r\<rparr>) t) = (wt_lib t)(i \<mapsto> r\<lparr>wso_blocks := g r\<rparr>)
     \<and> webTablesOk (changeSong i (\<lambda>r. r\<lparr>wso_blocks := g r\<rparr>) t)"
  using wt_title [OF assms(1)] assms wt_lib_Some [OF assms(1)]
  by (intro changeSong_ok [OF assms]) auto

lemma tables_createSong:
  assumes "webTablesOk t" and "wCreateSong tableSongsDb t r = Inr (q, t')"
  shows "\<exists>i. wt_lib t i = None \<and> q = r\<lparr>wso_id := i, wso_blocks := byOrder (wso_blocks r)\<rparr>
     \<and> wt_lib t' = (wt_lib t)(i \<mapsto> q) \<and> webTablesOk t'"
proof -
  have c: "wso_title r \<notin> wso_title ` set (wt_songs t)"
    and q: "q = r\<lparr>wso_id := show_nat (wt_next t), wso_blocks := byOrder (wso_blocks r)\<rparr>"
    and t': "t' = t\<lparr>wt_songs := q # wt_songs t, wt_next := Suc (wt_next t)\<rparr>"
    using assms(2) by (auto simp: tableSongsDb_def Let_def split: if_splits)
  have new: "show_nat (wt_next t) \<notin> wso_id ` set (wt_songs t)"
    using assms(1) fresh_usedIds unfolding webTablesOk_def by blast
  have "webTablesOk t'"
    using assms(1) c new by (auto simp: t' q webTablesOk_def usedIds_Suc)
  moreover have "wt_lib t (show_nat (wt_next t)) = None"
    using new by (auto simp: wt_lib_def map_of_eq_None_iff)
  moreover have "wt_lib t' = (wt_lib t)(show_nat (wt_next t) \<mapsto> q)"
    by (simp add: wt_lib_def t' q)
  ultimately show ?thesis
    using q by blast
qed

lemma tables_updateSong:
  assumes "webTablesOk t" and "keepsSongKeys f" and "wUpdateSong tableSongsDb t i f = Inr (u, t')"
  shows "\<exists>r. wt_lib t i = Some r \<and> wt_lib t' = (wt_lib t)(i \<mapsto> f r) \<and> webTablesOk t'"
proof (cases "wt_lib t i")
  case None
  then show ?thesis using assms(3) by (simp add: tableSongsDb_def)
next
  case (Some r)
  let ?c = "list_ex (\<lambda>q. wso_id q \<noteq> i \<and> wso_title q = wso_title (f r)) (wt_songs t)"
  have c: "\<not> ?c" "t' = changeSong i f t"
    using assms(3) Some by (cases ?c; simp add: tableSongsDb_def)+
  show ?thesis
    using changeSong_ok [OF assms(1) Some, of f] assms(2) c Some
    by (auto simp: keepsSongKeys_def list_ex_iff)
qed

lemma putBlocks_Inr:
  assumes "webTablesOk t" and "wt_lib t i = Some r" and "putBlocks t i bs = Inr (u, t')"
  shows "wt_lib t' = (wt_lib t)(i \<mapsto> r\<lparr>wso_blocks := byOrder (wso_blocks r @ bs)\<rparr>) \<and> webTablesOk t'"
  using assms(3) changeSong_blocks [OF assms(1,2), of "\<lambda>r. byOrder (wso_blocks r @ bs)"]
  by (auto simp: putBlocks_def assms(2) split: if_splits)

lemma tables_song_store: "web_song_store tableSongsDb wt_lib webTablesOk"
proof (unfold_locales, goal_cases)
  case (1 db P r)
  then show ?case by (auto simp: tableSongsDb_def wt_lib_Some find_Some_iff)
next
  case (2 db P i r)
  then show ?case by (auto simp: tableSongsDb_def wt_lib_Some find_None_iff)
next
  case (3 db P)
  then show ?case by (auto simp: tableSongsDb_def ran_def wt_lib_Some)
next
  case (4 db i r)
  then show ?case by (simp add: wt_lib_Some)
next
  case (5 db i r j q)
  then have "r \<in> set (wt_songs db)" "q \<in> set (wt_songs db)" "wso_id r = i" "wso_id q = j"
    by (simp_all add: wt_lib_Some)
  with wt_title [OF 5(1), of r q] 5(4) show ?case by blast
next
  case (6 db r q db')
  then show ?case by (rule tables_createSong)
next
  case (7 db r)
  then have "wso_title r \<notin> wso_title ` set (wt_songs db)"
    by (metis imageE wt_lib_Some)
  then show ?case using 7(2) by (simp add: tableSongsDb_def blocksOk_def Let_def)
next
  case (8 db r i q)
  then have "wso_title r \<in> wso_title ` set (wt_songs db)"
    by (metis imageI wt_lib_Some)
  then show ?case using 8(2) by (simp add: tableSongsDb_def blocksOk_def)
next
  case (9 db f i u db')
  then show ?case by (rule tables_updateSong)
next
  case (10 db f i r)
  then have "\<not> list_ex (\<lambda>q. wso_id q \<noteq> i \<and> wso_title q = wso_title (f r)) (wt_songs db)"
    using 10(4) [OF wt_lib_Some [OF 10(1), THEN iffD2]] by (auto simp: list_ex_iff)
  then show ?case using 10(3) by (simp add: tableSongsDb_def)
next
  case (11 db i r)
  then show ?case using changeSong_blocks [OF 11, of "\<lambda>_. []"] by (simp add: tableSongsDb_def)
next
  case (12 db i bs u db' r)
  then have "putBlocks db i bs = Inr (u, db')"
    by (simp add: tableSongsDb_def)
  from putBlocks_Inr [OF 12(1,3) this] show ?case .
next
  case (13 db i r bs)
  have "putBlocks db i bs =
      (if \<not> list_all (\<lambda>b. orderOk (wb_order b)) bs then Inl (ErrorMsg ''order'')
       else if \<not> distinct (map wb_order bs) then Inl (Prisma P2002)
       else Inr ((), changeSong i (\<lambda>r. r\<lparr>wso_blocks := byOrder (wso_blocks r @ bs)\<rparr>) db))"
    using 13(2,3) by (simp add: putBlocks_def blocksOk_def)
  then show ?case
    by (cases "list_all (\<lambda>b. orderOk (wb_order b)) bs"; cases "distinct (map wb_order bs)")
       (simp_all add: tableSongsDb_def blocksOk_def)
qed

interpretation web_songs: web_song_store tableSongsDb wt_lib webTablesOk
  by (rule tables_song_store)

text \<open>What a change makes of a song, column by column: what the body does not name stays.\<close>

definition patched :: "songBody \<Rightarrow> webSong \<Rightarrow> webSong" where
  "patched b q = \<lparr>wso_id = wso_id q,
     wso_title = (case sb_title b of None \<Rightarrow> wso_title q | Some x \<Rightarrow> x),
     wso_artist = (case sb_artist b of None \<Rightarrow> wso_artist q | Some x \<Rightarrow> Some x),
     wso_album = (case sb_album b of None \<Rightarrow> wso_album q | Some x \<Rightarrow> Some x),
     wso_year = (case sb_year b of None \<Rightarrow> wso_year q | Some x \<Rightarrow> Some x),
     wso_language = (case sb_language b of None \<Rightarrow> wso_language q | Some x \<Rightarrow> Some x),
     wso_tags = (case sb_tags b of None \<Rightarrow> wso_tags q | Some x \<Rightarrow> Some x),
     wso_deletedAt = wso_deletedAt q,
     wso_blocks = (case sb_blocks b of None \<Rightarrow> wso_blocks q | Some bs \<Rightarrow> byOrder bs)\<rparr>"

lemma patched_patch:
  "patched b q = (patchSong b q)\<lparr>wso_blocks := (case sb_blocks b of None \<Rightarrow> wso_blocks q | Some bs \<Rightarrow> byOrder bs)\<rparr>"
  by (cases q) (simp only: patched_def patchSong_def orElse_def orOption_def webSong.simps)


section \<open>Statements and routes over the laws\<close>

lemma bindDb_simps [simp]: "bindDb (Inl e) k = Inl e" "bindDb (Inr (x, db)) k = k x db"
  by (simp_all add: bindDb_def)

lemma liveSong_simps:
  "wFindSong W db (\<lambda>r. wso_id r = i) = Some r \<Longrightarrow> wso_deletedAt r = None \<Longrightarrow> liveSong W i route db = route r db"
  "wFindSong W db (\<lambda>r. wso_id r = i) = Some r \<Longrightarrow> wso_deletedAt r \<noteq> None \<Longrightarrow>
     liveSong W i route db = (Refused 404 (Custom songMissing), db)"
  by (auto simp: liveSong_def refuse_def)

lemma map_leD: "m \<subseteq>\<^sub>m m' \<Longrightarrow> m i = Some x \<Longrightarrow> m' i = Some x"
  by (metis domI map_le_def)

lemma keeps_patch: "keepsSongKeys (patchSong b)"
  by (simp add: keepsSongKeys_def patchSong_def)

context web_song_store begin

lemma find_id: "ok db \<Longrightarrow> wFindSong W db (\<lambda>r. wso_id r = i) = lib db i"
proof (cases "wFindSong W db (\<lambda>r. wso_id r = i)")
  case None
  assume "ok db"
  from find_none [OF this None] song_key [OF this] None show ?thesis by (metis not_None_eq)
next
  case (Some r)
  assume "ok db"
  from find_some [OF this Some] Some show ?thesis by auto
qed

lemma find_title:
  assumes "ok db"
  shows "wFindSong W db (\<lambda>r. wso_title r = t \<and> wso_deletedAt r = None) = Some r \<longleftrightarrow>
     (\<exists>i. lib db i = Some r \<and> wso_title r = t \<and> wso_deletedAt r = None)"
proof
  assume "\<exists>i. lib db i = Some r \<and> wso_title r = t \<and> wso_deletedAt r = None"
  then obtain i where i: "lib db i = Some r" "wso_title r = t" "wso_deletedAt r = None" by blast
  show "wFindSong W db (\<lambda>r. wso_title r = t \<and> wso_deletedAt r = None) = Some r"
  proof (cases "wFindSong W db (\<lambda>r. wso_title r = t \<and> wso_deletedAt r = None)")
    case None
    from find_none [OF assms None i(1)] i show ?thesis by simp
  next
    case (Some q)
    from find_some [OF assms Some] titles [OF assms i(1)] i show ?thesis
      using Some by (metis option.inject)
  qed
qed (use find_some [OF assms] in blast)

lemma replace_blocks:
  assumes "ok db" and "lib db i = Some r"
  shows "if blocksOk bs
     then \<exists>db'. replaceBlocks W i bs db = Inr ((), db') \<and> lib db' = (lib db)(i \<mapsto> r\<lparr>wso_blocks := byOrder bs\<rparr>) \<and> ok db'
     else \<exists>e. replaceBlocks W i bs db = Inl e"
proof -
  obtain db' where d: "wDeleteBlocks W db i = Inr ((), db')" "lib db' = (lib db)(i \<mapsto> r\<lparr>wso_blocks := []\<rparr>)" "ok db'"
    using delete_blocks [OF assms] by blast
  have l: "lib db' i = Some (r\<lparr>wso_blocks := []\<rparr>)"
    by (simp add: d(2))
  show ?thesis
  proof (cases "wCreateBlocks W db' i bs")
    case (Inl e)
    then show ?thesis
      using create_blocks_iff [OF d(3) l, of bs] by (simp add: replaceBlocks_def d(1))
  next
    case (Inr x)
    then obtain u db'' where x: "wCreateBlocks W db' i bs = Inr (u, db'')" by (cases x) auto
    then have "blocksOk bs"
      using create_blocks_iff [OF d(3) l, of bs] by auto
    then show ?thesis
      using create_blocks [OF d(3) x l] x by (simp add: replaceBlocks_def d(1,2))
  qed
qed

lemma patch_song:
  assumes "ok db" and "canEditSongs (ws_role s)" and "UpdateSongSchema body = Inr b"
    and "lib db i = Some q" and "wso_deletedAt q = None"
  shows "if (\<forall>j r. lib db j = Some r \<longrightarrow> wso_title r = wso_title (patchSong b q) \<longrightarrow> j = i)
            \<and> (\<forall>bs. sb_blocks b = Some bs \<longrightarrow> blocksOk bs)
     then \<exists>db'. songPatch W (Some s) i body db = (Reply 200 (patched b q), db')
            \<and> lib db' = (lib db)(i \<mapsto> patched b q) \<and> ok db'
     else \<exists>e. songPatch W (Some s) i body db = (Crashed e, db)"
proof -
  note run = songPatch_def liveSong_simps(1) [OF find_id [OF assms(1), THEN trans, OF assms(4)] assms(5)]
    assms(2,3)
  show ?thesis
  proof (cases "wUpdateSong W db i (patchSong b)")
    case (Inl e)
    then have "\<not> (\<forall>j r. lib db j = Some r \<longrightarrow> wso_title r = wso_title (patchSong b q) \<longrightarrow> j = i)"
      using update_fits [OF assms(1) keeps_patch assms(4), of b] by auto
    then show ?thesis
      using Inl by (simp add: run)
  next
    case (Inr x)
    then obtain u d where u: "wUpdateSong W db i (patchSong b) = Inr (u, d)" by (cases x) auto
    from update_song [OF assms(1) keeps_patch u] assms(4)
    have d: "lib d = (lib db)(i \<mapsto> patchSong b q)" "ok d" by auto
    have new: "lib d i = Some (patchSong b q)" by (simp add: d)
    have free: "j = i" if "lib db j = Some r" "wso_title r = wso_title (patchSong b q)" for j r
    proof (rule ccontr)
      assume "j \<noteq> i"
      with that(1) have "lib d j = Some r" by (simp add: d(1))
      from titles [OF d(2) new this] that(2) \<open>j \<noteq> i\<close> show False by simp
    qed
    show ?thesis
    proof (cases "sb_blocks b")
      case None
      have "patched b q = patchSong b q"
        by (simp add: patched_patch None patchSong_def)
      then show ?thesis
        using free d None find_id [OF d(2), of i] by (simp add: run u)
    next
      case (Some bs)
      have p: "patched b q = (patchSong b q)\<lparr>wso_blocks := byOrder bs\<rparr>"
        by (simp add: patched_patch Some)
      show ?thesis
      proof (cases "blocksOk bs")
        case True
        then obtain d' where "replaceBlocks W i bs d = Inr ((), d')" "lib d' = (lib d)(i \<mapsto> patched b q)" "ok d'"
          using replace_blocks [OF d(2) new, of bs] p by auto
        then show ?thesis
          using True free d Some find_id [of d' i] by (simp add: run u)
      next
        case False
        then obtain e where "replaceBlocks W i bs d = Inl e"
          using replace_blocks [OF d(2) new, of bs] by auto
        then show ?thesis
          using False Some by (simp add: run u)
      qed
    qed
  qed
qed

text \<open>The import without overwriting\<close>

abbreviation (input) liveTitle :: "'db \<Rightarrow> string \<Rightarrow> bool" where
  "liveTitle db t \<equiv> \<exists>i r. lib db i = Some r \<and> wso_title r = t \<and> wso_deletedAt r = None"

lemma import_skips:
  assumes "ok db" and "\<And>s. s \<in> set ss \<Longrightarrow> liveTitle db (is_title s)"
  shows "importEach W IGNORE ss n db = (Inr (n\<lparr>ic_skipped := ic_skipped n + length ss\<rparr>), db)"
  using assms(2)
proof (induction ss arbitrary: n)
  case (Cons s ss)
  obtain i r where "lib db i = Some r" "wso_title r = is_title s" "wso_deletedAt r = None"
    using Cons.prems [of s] by auto
  then have "wFindSong W db (\<lambda>r. wso_title r = is_title s \<and> wso_deletedAt r = None) = Some r"
    using find_title [OF assms(1)] by blast
  then show ?case
    using Cons by simp
qed simp

lemma import_ignore:
  assumes "ok db" and "importEach W IGNORE ss n db = (Inr m, db')"
  shows "ok db' \<and> lib db \<subseteq>\<^sub>m lib db' \<and> (\<forall>s \<in> set ss. liveTitle db' (is_title s))
     \<and> ic_updated m = ic_updated n
     \<and> ic_created m + ic_skipped m = ic_created n + ic_skipped n + length ss"
  using assms
proof (induction ss arbitrary: n db)
  case (Cons s ss)
  show ?case
  proof (cases "wFindSong W db (\<lambda>r. wso_title r = is_title s \<and> wso_deletedAt r = None)")
    case (Some r)
    from Some have live: "liveTitle db (is_title s)"
      unfolding find_title [OF Cons.prems(1)] by blast
    note IH = Cons.IH [OF Cons.prems(1), of "n\<lparr>ic_skipped := ic_skipped n + 1\<rparr>"]
    have "liveTitle db' (is_title s)" if "lib db \<subseteq>\<^sub>m lib db'"
      using live map_leD [OF that] by blast
    then show ?thesis
      using IH Cons.prems(2) Some by simp
  next
    case None
    obtain q d where c: "wCreateSong W db (newImportSong s) = Inr (q, d)"
      "importEach W IGNORE ss (n\<lparr>ic_created := ic_created n + 1\<rparr>) d = (Inr m, db')"
    proof (cases "wCreateSong W db (newImportSong s)")
      case (Inl e)
      with Cons.prems(2) None show ?thesis by simp
    next
      case (Inr x)
      obtain q d where "x = (q, d)" by (cases x)
      with Inr Cons.prems(2) None that show ?thesis by simp
    qed
    obtain i where i: "lib db i = None" "lib d = (lib db)(i \<mapsto> q)" "ok d"
        "q = (newImportSong s)\<lparr>wso_id := i, wso_blocks := byOrder (wso_blocks (newImportSong s))\<rparr>"
      using create_song [OF Cons.prems(1) c(1)] by (elim exE conjE)
    have q: "wso_title q = is_title s" "wso_deletedAt q = None" "lib d i = Some q"
      by (simp_all add: i(2,4) newImportSong_def)
    have le: "lib db \<subseteq>\<^sub>m lib d"
      using i(1) by (simp add: i(2) map_le_def) (metis domIff)
    note IH = Cons.IH [OF i(3) c(2)]
    have "lib db' i = Some q"
      by (rule map_leD [where m = "lib d"]) (use IH q(3) in simp_all)
    then have "liveTitle db' (is_title s)"
      using q by blast
    then show ?thesis
      using IH map_le_trans [OF le] by simp
  qed
qed simp

lemma confirm_twice:
  assumes "ok db" and "ImportBodySchema body = Inr (ss, IGNORE)"
    and "importConfirm W session body db = (Reply c n, db')"
  shows "c = 200 \<and> lib db \<subseteq>\<^sub>m lib db' \<and> ic_updated n = 0 \<and> ic_created n + ic_skipped n = length ss
     \<and> (\<forall>s \<in> set ss. liveTitle db' (is_title s))
     \<and> importConfirm W session body db' = (Reply 200 \<lparr>ic_created = 0, ic_updated = 0, ic_skipped = length ss\<rparr>, db')"
proof -
  let ?n = "\<lparr>ic_created = 0, ic_updated = 0, ic_skipped = 0\<rparr>"
  obtain s where s: "session = Some s" "canImportSongs (ws_role s)"
    using assms(3) by (cases session; cases "canImportSongs (ws_role (the session))")
      (auto simp: importConfirm_def refuse_def)
  have e: "importEach W IGNORE ss ?n db = (Inr n, db')" "c = 200"
    using assms(3) s by (auto simp: importConfirm_def assms(2) split: prod.splits sum.splits)
  note r = import_ignore [OF assms(1) e(1)]
  then have "importEach W IGNORE ss ?n db' = (Inr (?n\<lparr>ic_skipped := length ss\<rparr>), db')"
    using import_skips [of db' ss ?n] by auto
  then show ?thesis
    using r e(2) s by (simp add: importConfirm_def assms(2))
qed

text \<open>A song that was posted is shown under its identifier.\<close>

lemma post_then_get:
  assumes "ok db" and "songsPost W (Some s) body db = (Reply c r, db')"
  shows "c = 201 \<and> (\<exists>b i. CreateSongSchema body = Inr b \<and> lib db i = None
       \<and> r = (newSong b)\<lparr>wso_id := i, wso_blocks := byOrder (orElse (sb_blocks b) [])\<rparr>
       \<and> lib db' = (lib db)(i \<mapsto> r))
     \<and> songGet W (Some u) (wso_id r) db' = (Reply 200 (viewOf W db' u r), db')"
proof -
  have edit: "canEditSongs (ws_role s)"
    using assms(2) by (cases "canEditSongs (ws_role s)") (simp_all add: songsPost_def refuse_def)
  obtain b where b: "CreateSongSchema body = Inr b"
    using assms(2) edit by (cases "CreateSongSchema body") (simp_all add: songsPost_def)
  have none: "wFindSong W db (\<lambda>r. wso_title r = wso_title (newSong b) \<and> wso_deletedAt r = None) = None"
    using assms(2) edit
    by (cases "wFindSong W db (\<lambda>r. wso_title r = wso_title (newSong b) \<and> wso_deletedAt r = None)")
       (simp_all add: songsPost_def b refuse_def Let_def)
  obtain x where x: "wCreateSong W db (newSong b) = Inr x"
    using assms(2) edit
    by (cases "wCreateSong W db (newSong b)") (simp_all add: songsPost_def b none Let_def)
  then have c: "wCreateSong W db (newSong b) = Inr (r, db')" "c = 201"
    using assms(2) edit by (cases x; simp add: songsPost_def b none Let_def)+
  obtain i where i: "lib db i = None" "lib db' = (lib db)(i \<mapsto> r)" "ok db'"
      "r = (newSong b)\<lparr>wso_id := i, wso_blocks := byOrder (wso_blocks (newSong b))\<rparr>"
    using create_song [OF assms(1) c(1)] by blast
  have "lib db' (wso_id r) = Some r" "wso_deletedAt r = None"
    using i(2,4) by (simp_all add: newSong_def)
  then have "songGet W (Some u) (wso_id r) db' = (Reply 200 (viewOf W db' u r), db')"
    by (simp add: songGet_def liveSong_simps(1) find_id [OF i(3)])
  then show ?thesis
    using b c(2) i(1,2,4) by (auto simp: newSong_def)
qed

text \<open>The title of a deleted song is never free again.\<close>

lemma deleted_title_stays_taken:
  assumes "ok db" and "canEditSongs (ws_role s)" and "CreateSongSchema body = Inr b"
    and "lib db i = Some q" and "wso_deletedAt q \<noteq> None" and "wso_title q = wso_title (newSong b)"
    and "blocksOk (wso_blocks (newSong b))"
  shows "songsPost W (Some s) body db = (Crashed (Prisma P2002), db)"
proof -
  have "wFindSong W db (\<lambda>r. wso_title r = wso_title (newSong b) \<and> wso_deletedAt r = None) = None"
  proof (rule ccontr)
    assume "wFindSong W db (\<lambda>r. wso_title r = wso_title (newSong b) \<and> wso_deletedAt r = None) \<noteq> None"
    then obtain r where r: "wFindSong W db (\<lambda>r. wso_title r = wso_title (newSong b) \<and> wso_deletedAt r = None) = Some r"
      by blast
    from find_some [OF assms(1) r] titles [OF assms(1,4), of "wso_id r" r] assms(4-6)
    show False by simp
  qed
  then show ?thesis
    using create_clash [OF assms(1,7,4,6)] assms(2,3) by (simp add: songsPost_def Let_def)
qed

end

section \<open>Properties of the routes\<close>


definition demoBlock :: "rat \<Rightarrow> string \<Rightarrow> webBlock" where
  "demoBlock n s = \<lparr>wb_order = n, wb_type = ''VERSE'', wb_title = Some ''Verse'', wb_content = s\<rparr>"

definition demoWebSong :: "string \<Rightarrow> string \<Rightarrow> int option \<Rightarrow> webSong" where
  "demoWebSong i title deleted = \<lparr>wso_id = i, wso_title = title, wso_artist = None, wso_album = None,
     wso_year = None, wso_language = None, wso_tags = None, wso_deletedAt = deleted,
     wso_blocks = [demoBlock 0 ''la'']\<rparr>"

definition demoWeb :: webTables where
  "demoWeb = \<lparr>wt_songs = [demoWebSong ''0'' ''Joy'' None, demoWebSong ''1'' ''Old'' (Some 5)], wt_next = 2,
     wt_favorites = [], wt_learnings = []\<rparr>"

lemma demoWeb_ok: "webTablesOk demoWeb"
  by code_simp





text \<open>
  An import without overwriting that succeeds leaves every song it found as it was, has
  afterwards a song that is not deleted for every title of the list and accounts for every entry;
  the same import once more changes nothing and skips every entry.
\<close>

theorem import_twice:
  assumes "webTablesOk t" and "ImportBodySchema body = Inr (ss, IGNORE)"
    and "importConfirm tableSongsDb session body t = (Reply c n, t')"
  shows "c = 200 \<and> wt_lib t \<subseteq>\<^sub>m wt_lib t' \<and> ic_updated n = 0 \<and> ic_created n + ic_skipped n = length ss
     \<and> (\<forall>s \<in> set ss. \<exists>i r. wt_lib t' i = Some r \<and> wso_title r = is_title s \<and> wso_deletedAt r = None)
     \<and> importConfirm tableSongsDb session body t'
         = (Reply 200 \<lparr>ic_created = 0, ic_updated = 0, ic_skipped = length ss\<rparr>, t')"
  using assms by (rule web_songs.confirm_twice)

definition demoImport :: jsval where
  "demoImport = JObj [(''songs'', JArr [
     JObj [(''title'', JStr ''Joy''), (''blocks'', JArr [])],
     JObj [(''title'', JStr ''Peace''), (''blocks'', JArr [])]])]"

theorem import_twice_witness:
  "\<exists>t'. importConfirm tableSongsDb (Some (demoSession ''7'' CHANTRE)) demoImport demoWeb
          = (Reply 200 \<lparr>ic_created = 1, ic_updated = 0, ic_skipped = 1\<rparr>, t')
     \<and> importConfirm tableSongsDb (Some (demoSession ''7'' CHANTRE)) demoImport t'
          = (Reply 200 \<lparr>ic_created = 0, ic_updated = 0, ic_skipped = 2\<rparr>, t')"
proof -
  let ?s = "Some (demoSession ''7'' CHANTRE)"
  let ?ss = "[\<lparr>is_title = ''Joy'', is_artist = None, is_blocks = []\<rparr>, \<lparr>is_title = ''Peace'', is_artist = None, is_blocks = []\<rparr>]"
  obtain a t' where run: "importConfirm tableSongsDb ?s demoImport demoWeb = (a, t')"
    by (cases "importConfirm tableSongsDb ?s demoImport demoWeb")
  have "fst (importConfirm tableSongsDb ?s demoImport demoWeb)
      = Reply 200 \<lparr>ic_created = 1, ic_updated = 0, ic_skipped = 1\<rparr>"
    by code_simp
  with run have a: "importConfirm tableSongsDb ?s demoImport demoWeb
      = (Reply 200 \<lparr>ic_created = 1, ic_updated = 0, ic_skipped = 1\<rparr>, t')"
    by simp
  have "ImportBodySchema demoImport = Inr (?ss, IGNORE)"
    by code_simp
  from import_twice [OF demoWeb_ok this a] a show ?thesis
    by auto
qed

text \<open>
  A song that the route accepts gets a fresh identifier, holds what the body says with the
  blocks in their order, changes no other song, and is what the route of that identifier shows to
  every session.
\<close>

theorem posted_song_is_shown:
  assumes "webTablesOk t" and "songsPost tableSongsDb (Some s) body t = (Reply c r, t')"
  shows "c = 201 \<and> (\<exists>b i. CreateSongSchema body = Inr b \<and> wt_lib t i = None
       \<and> r = (newSong b)\<lparr>wso_id := i, wso_blocks := byOrder (orElse (sb_blocks b) [])\<rparr>
       \<and> wt_lib t' = (wt_lib t)(i \<mapsto> r))
     \<and> songGet tableSongsDb (Some u) (wso_id r) t' = (Reply 200 (viewOf tableSongsDb t' u r), t')"
  using assms by (rule web_songs.post_then_get)

definition demoPost :: jsval where
  "demoPost = JObj [(''title'', JStr ''Peace''), (''blocks'', JArr [
     JObj [(''label'', JStr ''V2''), (''type'', JStr ''VERSE''), (''content'', JStr ''y''), (''order'', JNum (Fin 1))],
     JObj [(''label'', JStr ''V1''), (''type'', JStr ''VERSE''), (''content'', JStr ''x''), (''order'', JNum (Fin 0))]])]"

theorem posted_song_is_shown_witness:
  "\<exists>r t'. songsPost tableSongsDb (Some (demoSession ''7'' CHANTRE)) demoPost demoWeb = (Reply 201 r, t')
     \<and> songGet tableSongsDb (Some (demoSession ''8'' LECTEUR)) (wso_id r) t'
         = (Reply 200 (viewOf tableSongsDb t' (demoSession ''8'' LECTEUR) r), t')"
proof -
  let ?p = "songsPost tableSongsDb (Some (demoSession ''7'' CHANTRE)) demoPost demoWeb"
  have "case fst ?p of Reply c r \<Rightarrow> c = 201 | _ \<Rightarrow> False"
    by code_simp
  then obtain r t' where p: "?p = (Reply 201 r, t')"
    by (cases ?p) (auto split: reply.splits)
  from posted_song_is_shown [OF demoWeb_ok p, of "demoSession ''8'' LECTEUR"] p show ?thesis
    by blast
qed

section \<open>What the checks let through\<close>

text \<open>The check of the title looks at live songs only, the unique key at all.\<close>

lemma deleted_title_crashes:
  assumes "webTablesOk t" and "canEditSongs (ws_role s)" and "CreateSongSchema body = Inr b"
    and "wt_lib t i = Some q" and "wso_deletedAt q \<noteq> None" and "wso_title q = wso_title (newSong b)"
    and "blocksOk (wso_blocks (newSong b))"
  shows "songsPost tableSongsDb (Some s) body t = (Crashed (Prisma P2002), t)"
  using assms by (rule web_songs.deleted_title_stays_taken)

text \<open>An import that fails has written the songs before the failing one.\<close>

lemma import_stops_midway:
  "\<exists>e n t'. importConfirm tableSongsDb (Some (demoSession ''7'' CHANTRE))
       (JObj [(''songs'', JArr [JObj [(''title'', JStr ''Peace''), (''blocks'', JArr [])],
                               JObj [(''title'', JStr ''Old''), (''blocks'', JArr [])]])]) demoWeb = (Crashed e, t')
     \<and> length (wt_songs t') = Suc (length (wt_songs demoWeb))"
proof -
  let ?p = "importConfirm tableSongsDb (Some (demoSession ''7'' CHANTRE))
       (JObj [(''songs'', JArr [JObj [(''title'', JStr ''Peace''), (''blocks'', JArr [])],
                               JObj [(''title'', JStr ''Old''), (''blocks'', JArr [])]])]) demoWeb"
  have "(case fst ?p of Crashed e \<Rightarrow> True | _ \<Rightarrow> False)
      \<and> length (wt_songs (snd ?p)) = Suc (length (wt_songs demoWeb))"
    by code_simp
  then show ?thesis
    by (cases ?p) (auto split: reply.splits)
qed

end
