(* ===== verification/WebSongParser.thy ===== *)
theory WebSongParser
  imports WebSongs
begin

text \<open>
  The parser of song files of the web application (\<open>lib/songParser.ts\<close>) and the route that shows
  what an import would hold (\<open>app/api/songs/import\<close>). The text of a Word file is a parameter.
\<close>

section \<open>The parser\<close>

record parsedBlock =
  pb_type :: string
  pb_label :: string
  pb_content :: string
  pb_order :: nat

record parsedSong =
  ps_title :: string
  ps_artist :: "string option"
  ps_blocks :: "parsedBlock list"

definition BLOCK_TYPE_MAP :: "(string \<times> string) list" where
  "BLOCK_TYPE_MAP = [(''VERSE'', ''VERSE''), (''COUPLET'', ''VERSE''), (''CHORUS'', ''CHORUS''),
     (''REFRAIN'', ''CHORUS''), (''BRIDGE'', ''BRIDGE''), (''INTRO'', ''INTRO''), (''OUTRO'', ''OUTRO'')]"

text \<open>\<open>/^\d+$/\<close>\<close>

definition allDigits :: "string \<Rightarrow> bool" where
  "allDigits s \<longleftrightarrow> s \<noteq> [] \<and> list_all is_digit s"

definition headsBlock :: "string \<Rightarrow> string \<Rightarrow> bool" where
  "headsBlock upper key \<longleftrightarrow>
     upper = key \<or> allDigits (trim (drop (length key) upper)) \<and> startsWith upper key"

definition detectBlockType :: "string \<Rightarrow> (string \<times> string) option" where
  "detectBlockType line =
     (case find (\<lambda>(key, _). headsBlock (toUpperCase (trim line)) key) BLOCK_TYPE_MAP of
        None \<Rightarrow> None
      | Some (_, ty) \<Rightarrow> Some (ty, trim line))"

text \<open>\<open>flushBlock\<close>: the block of the collected lines, none if they are blank\<close>

definition flushBlock :: "string \<times> string \<Rightarrow> string list \<Rightarrow> nat \<Rightarrow> parsedBlock list" where
  "flushBlock h currentLines ord =
     (let content = trim (join [newline] currentLines)
      in if content \<noteq> []
         then [\<lparr>pb_type = fst h, pb_label = snd h, pb_content = content, pb_order = ord\<rparr>] else [])"

fun collectBlocks :: "string \<times> string \<Rightarrow> string list \<Rightarrow> nat \<Rightarrow> string list \<Rightarrow> parsedBlock list" where
  "collectBlocks h currentLines ord [] = flushBlock h currentLines ord"
| "collectBlocks h currentLines ord (line # lines) =
     (case detectBlockType line of
        Some h' \<Rightarrow>
          (let flushed = flushBlock h currentLines ord
           in flushed @ collectBlocks h' [] (ord + length flushed) lines)
      | None \<Rightarrow> collectBlocks h (currentLines @ [line]) ord lines)"

text \<open>The artist and the lines after the title and the artist\<close>

definition takeArtist :: "string list \<Rightarrow> string option \<times> string list" where
  "takeArtist rest =
     (case rest of
        [] \<Rightarrow> (None, [])
      | l # ls \<Rightarrow>
          let nextLine = trim l; lineAfter = (case ls of [] \<Rightarrow> [] | m # _ \<Rightarrow> trim m)
          in if nextLine \<noteq> [] \<and> detectBlockType nextLine = None \<and> lineAfter = []
             then (Some nextLine, drop 1 ls) else (None, rest))"

definition parseSongText :: "string \<Rightarrow> parsedSong option" where
  "parseSongText s =
     (let lines = split_on newline (crlfToLf s)
      in case dropWhile (\<lambda>l. trim l = []) lines of
           [] \<Rightarrow> None
         | first # rest \<Rightarrow>
             let (artist, body) = takeArtist rest;
                 found = collectBlocks (''VERSE'', ''Couplet'') [] 0 body;
                 content = trim (join [newline] body);
                 bs = (if found = [] \<and> content \<noteq> []
                       then [\<lparr>pb_type = ''VERSE'', pb_label = ''Couplet 1'', pb_content = content, pb_order = 0\<rparr>]
                       else found)
             in if bs \<noteq> [] then Some \<lparr>ps_title = trim first, ps_artist = artist, ps_blocks = bs\<rparr> else None)"

section \<open>The route\<close>

text \<open>A file with its bytes; a result as the route answers it\<close>

record webFile =
  wf_name :: string
  wf_bytes :: string

datatype parseOutcome = ParseFailed string string | ParsedFile string parsedSong "string option"

text \<open>
  \<open>decode\<close> is \<open>file.text()\<close>, \<open>docxText\<close> the text of a Word file or the message of the error.
\<close>

definition parseFile ::
  "(string \<Rightarrow> string) \<Rightarrow> (string \<Rightarrow> string + string) \<Rightarrow> 'db webSongDb \<Rightarrow> 'db \<Rightarrow> webFile \<Rightarrow> parseOutcome" where
  "parseFile decode docxText W db f =
     (case if endsWith (wf_name f) ''.docx'' then docxText (wf_bytes f) else Inr (decode (wf_bytes f)) of
        Inl e \<Rightarrow> ParseFailed (wf_name f) e
      | Inr s \<Rightarrow>
          (case parseSongText s of
             None \<Rightarrow> ParseFailed (wf_name f) ''Impossible de parser le fichier''
           | Some song \<Rightarrow>
               ParsedFile (wf_name f) song
                 (map_option wso_id (wFindSong W db (\<lambda>r. wso_title r = ps_title song \<and> wso_deletedAt r = None)))))"

definition importParse ::
  "(string \<Rightarrow> string) \<Rightarrow> (string \<Rightarrow> string + string) \<Rightarrow> 'db webSongDb \<Rightarrow> webSession option \<Rightarrow> webFile list
     \<Rightarrow> (parseOutcome list, 'db) route" where
  "importParse decode docxText W session fs = withSession session (\<lambda>_ db.
     if fs = [] then refuse 400 ''Aucun fichier fourni'' db
     else (Reply 200 (map (parseFile decode docxText W db) fs), db))"

section \<open>Printed songs\<close>

text \<open>The text of a song in the format that the parser expects\<close>

definition printSong :: "parsedSong \<Rightarrow> string" where
  "printSong s = join [newline]
     (ps_title s # (case ps_artist s of None \<Rightarrow> [[]] | Some a \<Rightarrow> [a, []])
      @ concat (map (\<lambda>b. pb_label b # split_on newline (pb_content b) @ [[]]) (ps_blocks s)))"

definition plainLine :: "string \<Rightarrow> bool" where
  "plainLine l \<longleftrightarrow> l \<noteq> [] \<and> trimmed l \<and> newline \<notin> set l \<and> CHR 0x0D \<notin> set l"

definition printable :: "parsedSong \<Rightarrow> bool" where
  "printable s \<longleftrightarrow> plainLine (ps_title s)
     \<and> (case ps_artist s of None \<Rightarrow> True | Some a \<Rightarrow> plainLine a \<and> detectBlockType a = None)
     \<and> ps_blocks s \<noteq> [] \<and> map pb_order (ps_blocks s) = [0..<length (ps_blocks s)]
     \<and> list_all (\<lambda>b. plainLine (pb_label b) \<and> detectBlockType (pb_label b) = Some (pb_type b, pb_label b)
          \<and> pb_content b \<noteq> [] \<and> trimmed (pb_content b) \<and> CHR 0x0D \<notin> set (pb_content b)
          \<and> list_all (\<lambda>l. detectBlockType l = None) (split_on newline (pb_content b))) (ps_blocks s)"

lemma set_join: "set (join sep ls) \<subseteq> set sep \<union> (\<Union>l \<in> set ls. set l)"
  by (induction sep ls rule: join.induct) auto

lemma detect_empty: "detectBlockType [] = None"
  by code_simp

lemma collect_plain:
  "list_all (\<lambda>l. detectBlockType l = None) ls \<Longrightarrow>
     collectBlocks h cur ord (ls @ rest) = collectBlocks h (cur @ ls) ord rest"
  by (induction ls arbitrary: cur) auto

lemma trim_snoc_newline: "trimmed s \<Longrightarrow> s \<noteq> [] \<Longrightarrow> trim (s @ [newline]) = s"
proof -
  assume "trimmed s" "s \<noteq> []"
  then have h: "\<not> js_space (hd s)" "\<not> js_space (last s)"
    by (auto simp: trimmed_def)
  have "trim_left (s @ [newline]) = s @ [newline]"
    using \<open>s \<noteq> []\<close> h(1) by (cases s) (simp_all add: trim_left_def)
  moreover have "trim_right (s @ [newline]) = s"
    using \<open>s \<noteq> []\<close> h(2) by (cases s rule: rev_cases) (simp_all add: trim_right_def js_space_def)
  ultimately show ?thesis
    by (simp add: trim_def)
qed

lemma join_snoc_empty: "ls \<noteq> [] \<Longrightarrow> join [newline] (ls @ [[]]) = join [newline] ls @ [newline]"
  by (induction "[newline]" ls rule: join.induct) auto

lemma flush_printed:
  assumes "pb_content b \<noteq> []" and "trimmed (pb_content b)"
  shows "flushBlock (pb_type b, pb_label b) (split_on newline (pb_content b) @ [[]]) (pb_order b) = [b]"
proof -
  have "join [newline] (split_on newline (pb_content b) @ [[]]) = pb_content b @ [newline]"
    by (simp add: join_snoc_empty join_split_on)
  then show ?thesis
    using assms by (simp add: flushBlock_def trim_snoc_newline Let_def)
qed

lemma collect_printed:
  assumes "list_all (\<lambda>b. plainLine (pb_label b) \<and> detectBlockType (pb_label b) = Some (pb_type b, pb_label b)
          \<and> pb_content b \<noteq> [] \<and> trimmed (pb_content b) \<and> CHR 0x0D \<notin> set (pb_content b)
          \<and> list_all (\<lambda>l. detectBlockType l = None) (split_on newline (pb_content b))) bs"
    and "map pb_order bs = [n + length (flushBlock h cur n)..<n + length (flushBlock h cur n) + length bs]"
  shows "collectBlocks h cur n (concat (map (\<lambda>b. pb_label b # split_on newline (pb_content b) @ [[]]) bs))
     = flushBlock h cur n @ bs"
  using assms
proof (induction bs arbitrary: h cur n)
  case (Cons b bs)
  let ?n = "n + length (flushBlock h cur n)"
  have b: "pb_order b = ?n" "map pb_order bs = [Suc ?n..<Suc ?n + length bs]"
    using Cons.prems(2) by (simp_all add: upt_conv_Cons del: upt_Suc)
  have flush: "flushBlock (pb_type b, pb_label b) (split_on newline (pb_content b) @ [[]]) ?n = [b]"
    using flush_printed [of b] Cons.prems(1) b(1) by simp
  have plain: "list_all (\<lambda>l. detectBlockType l = None) (split_on newline (pb_content b) @ [[]])"
    using Cons.prems(1) detect_empty by simp
  have "collectBlocks (pb_type b, pb_label b) (split_on newline (pb_content b) @ [[]]) ?n
      (concat (map (\<lambda>b. pb_label b # split_on newline (pb_content b) @ [[]]) bs)) = [b] @ bs"
    using Cons.IH [of ?n "(pb_type b, pb_label b)" "split_on newline (pb_content b) @ [[]]"] Cons.prems(1) b(2)
    by (simp add: flush)
  then show ?case
    using Cons.prems(1) collect_plain [OF plain, of "(pb_type b, pb_label b)" "[]" ?n]
    by (simp add: Let_def)
qed simp

text \<open>
  C39: A song printed in the expected format, its title, its artist if it has one, a blank line and
  the blocks each with its heading, is parsed into the same song.
\<close>

theorem printed_song_parsed:
  assumes "printable s"
  shows "parseSongText (printSong s) = Some s"
proof -
  let ?bs = "concat (map (\<lambda>b. pb_label b # split_on newline (pb_content b) @ [[]]) (ps_blocks s))"
  let ?ls = "ps_title s # (case ps_artist s of None \<Rightarrow> [[]] | Some a \<Rightarrow> [a, []]) @ ?bs"
  note d = assms [unfolded printable_def]
  have blk: "list_all (\<lambda>b. plainLine (pb_label b) \<and> detectBlockType (pb_label b) = Some (pb_type b, pb_label b)
          \<and> pb_content b \<noteq> [] \<and> trimmed (pb_content b) \<and> CHR 0x0D \<notin> set (pb_content b)
          \<and> list_all (\<lambda>l. detectBlockType l = None) (split_on newline (pb_content b))) (ps_blocks s)"
    using d by blast
  have bs: "newline \<notin> set l" "CHR 0x0D \<notin> set l" if l: "l \<in> set ?bs" for l
  proof -
    obtain b where b: "b \<in> set (ps_blocks s)" "l \<in> set (pb_label b # split_on newline (pb_content b) @ [[]])"
      using l unfolding set_concat set_map by blast
    show "newline \<notin> set l" "CHR 0x0D \<notin> set l"
      using b blk split_on_no_sep split_on_chars by (fastforce simp: list_all_iff plainLine_def)+
  qed
  have lines: "newline \<notin> set l \<and> CHR 0x0D \<notin> set l" if "l \<in> set ?ls" for l
    using that d bs by (auto simp: plainLine_def split: option.splits)
  have cr: "CHR 0x0D \<notin> set (join [newline] ?ls)"
    using set_join [of "[newline]" ?ls] lines by auto
  have split: "split_on newline (crlfToLf (printSong s)) = ?ls"
    unfolding printSong_def crlfToLf_id [OF cr] using lines by (intro split_on_join) blast+
  have title: "trim (ps_title s) = ps_title s" "ps_title s \<noteq> []"
    using d by (simp_all add: plainLine_def trim_trimmed)
  have artist: "takeArtist ((case ps_artist s of None \<Rightarrow> [[]] | Some a \<Rightarrow> [a, []]) @ ?bs)
      = (ps_artist s, (case ps_artist s of None \<Rightarrow> [] # ?bs | Some a \<Rightarrow> ?bs))"
    using d by (cases "ps_artist s") (auto simp: takeArtist_def plainLine_def trim_trimmed)
  have flush: "flushBlock h [] n = []" "flushBlock h [[]] n = []" for h n
    by (simp_all add: flushBlock_def)
  have "collectBlocks (''VERSE'', ''Couplet'') [] 0 (case ps_artist s of None \<Rightarrow> [] # ?bs | Some a \<Rightarrow> ?bs) = ps_blocks s"
    using collect_printed [OF blk, of 0 "(''VERSE'', ''Couplet'')" "[]"]
      collect_printed [OF blk, of 0 "(''VERSE'', ''Couplet'')" "[[]]"] d
    by (cases "ps_artist s") (simp_all add: flush detect_empty)
  then show ?thesis
    using title d unfolding parseSongText_def split Let_def by (simp add: artist)
qed

definition demoParsed :: parsedSong where
  "demoParsed = \<lparr>ps_title = ''Joy'', ps_artist = Some ''A. B'', ps_blocks = [
     \<lparr>pb_type = ''VERSE'', pb_label = ''Couplet 1'', pb_content = ''la la'' @ [newline] @ ''lo'', pb_order = 0\<rparr>,
     \<lparr>pb_type = ''CHORUS'', pb_label = ''REFRAIN'', pb_content = ''oh'', pb_order = 1\<rparr>]\<rparr>"

theorem printed_song_parsed_witness:
  "parseSongText (printSong demoParsed) = Some demoParsed"
  by (rule printed_song_parsed) code_simp

section \<open>What the format cannot tell\<close>

text \<open>A first line of lyrics between the title and a blank line is taken for the artist.\<close>

lemma single_line_taken_for_artist:
  "parseSongText (join [newline] [''Joy'', ''Sing to the Lord'', [], ''Sing again''])
     = Some \<lparr>ps_title = ''Joy'', ps_artist = Some ''Sing to the Lord'', ps_blocks = [
         \<lparr>pb_type = ''VERSE'', pb_label = ''Couplet'', pb_content = ''Sing again'', pb_order = 0\<rparr>]\<rparr>"
  by code_simp

end
