(* ===== verification/Migrations.thy ===== *)
theory Migrations
  imports SongHandlers Paths
begin

text \<open>
  The database of the desktop application at its start (\<open>main/db.ts\<close>): its address, the copy before
  a migration, and the migrations that a packaged application applies. What a statement of a
  migration does to the data is the parameter \<open>exec\<close>; the ledger \<open>_prisma_migrations\<close>, which the
  program writes itself, is a list of rows. The statements that the program issues itself, \<open>BEGIN\<close>,
  \<open>COMMIT\<close>, \<open>ROLLBACK\<close> and those on the ledger, run on one connection and may each fail: the
  parameter \<open>fails\<close> has the message of the error.
\<close>

section \<open>The address of the database\<close>

definition backslash :: char where
  "backslash = CHR 0x5C"

definition fileUrlFromPath :: "string \<Rightarrow> string" where
  "fileUrlFromPath p = ''file:'' @ map (\<lambda>c. if c = backslash then slash else c) p"

text \<open>\<open>/^[A-Za-z]:[\\/]/\<close>\<close>

definition hasDrive :: "string \<Rightarrow> bool" where
  "hasDrive p =
     (case p of
        d # c # s # _ \<Rightarrow>
          (let n = (of_char d :: nat) in (65 \<le> n \<and> n \<le> 90 \<or> 97 \<le> n \<and> n \<le> 122) \<and> c = CHR '':'' \<and> s \<in> {backslash, slash})
      | _ \<Rightarrow> False)"

text \<open>\<open>decodeUri\<close> is \<open>decodeURIComponent\<close>; it is \<open>None\<close> for a malformed text, which raises.\<close>

definition databasePathFromUrl ::
  "(string \<Rightarrow> string option) \<Rightarrow> string option \<Rightarrow> string \<Rightarrow> string option result" where
  "databasePathFromUrl decodeUri databaseUrl cwd =
     (case databaseUrl of
        None \<Rightarrow> Inr None
      | Some url \<Rightarrow>
          if \<not> startsWith url ''file:'' then Inr None
          else (case decodeUri (trim (drop 5 url)) of
                  None \<Rightarrow> Inl ''URI malformed''
                | Some raw \<Rightarrow>
                    Inr (if raw = [] then None
                         else if hasDrive raw \<or> startsWith raw [slash] then Some raw
                         else Some (resolvePath cwd raw))))"

text \<open>The address and what becomes of \<open>DATABASE_URL\<close>\<close>

definition ensureRuntimeDatabaseUrl :: "string option \<Rightarrow> bool \<Rightarrow> string \<Rightarrow> string \<times> string option" where
  "ensureRuntimeDatabaseUrl env packaged userData =
     (let envUrl = trim (orElse env [])
      in if envUrl \<noteq> [] then (envUrl, env)
         else let url = (if packaged then fileUrlFromPath (joinPath userData ''app.db'') else ''file:../data/app.db'')
              in (url, Some url))"

section \<open>The copy before a migration\<close>

type_synonym fileStore = "string \<rightharpoonup> string"

definition stampOf :: "string \<Rightarrow> string" where
  "stampOf t = map (\<lambda>c. if c = CHR '':'' \<or> c = CHR ''.'' then CHR ''-'' else c) t"

text \<open>\<open>now\<close> is the time as \<open>toISOString\<close> prints it. The result is the path of the copy.\<close>

definition backupRuntimeDatabaseSnapshot ::
  "(string \<Rightarrow> string option) \<Rightarrow> string option \<Rightarrow> string \<Rightarrow> string \<Rightarrow> string \<Rightarrow> fileStore
     \<Rightarrow> (string option \<times> fileStore) result" where
  "backupRuntimeDatabaseSnapshot decodeUri env cwd now reason fs =
     andThen (databasePathFromUrl decodeUri env cwd) (\<lambda>dbPath.
       case dbPath of
         None \<Rightarrow> Inr (None, fs)
       | Some p \<Rightarrow>
           (case fs p of
              None \<Rightarrow> Inr (None, fs)
            | Some content \<Rightarrow>
                let target = joinPath (joinPath (dirname p) ''backups'')
                      (''app.db.'' @ reason @ ''.'' @ stampOf now @ ''.bak'')
                in Inr (Some target, fs(target \<mapsto> content))))"

section \<open>Statements\<close>

fun collectStatements :: "string \<Rightarrow> string list \<Rightarrow> string list" where
  "collectStatements buffer [] = (if trim buffer \<noteq> [] then [trim buffer] else [])"
| "collectStatements buffer (line # lines) =
     (if startsWith (trim line) ''--'' then collectStatements buffer lines
      else let b = buffer @ line @ [newline]
           in if endsWith (trim line) '';''
              then (if trim b \<noteq> [] then [trim b] else []) @ collectStatements [] lines
              else collectStatements b lines)"

definition splitSqlStatements :: "string \<Rightarrow> string list" where
  "splitSqlStatements sql = collectStatements [] (split_on newline (crlfToLf sql))"

definition isBenignMigrationError :: "string \<Rightarrow> bool" where
  "isBenignMigrationError m =
     (contains (toLowerCase m) ''already exists'' \<or> contains (toLowerCase m) ''duplicate column name'')"

section \<open>The ledger\<close>

record ledgerRow =
  lr_id :: string
  lr_checksum :: string
  lr_finished :: "string option"
  lr_name :: string
  lr_logs :: "string option"
  lr_rolledBack :: "string option"
  lr_started :: string
  lr_steps :: nat

text \<open>\<open>md_open\<close> is what a \<open>ROLLBACK\<close> goes back to, \<open>None\<close> outside a transaction.\<close>

record 'schema migrationDb =
  md_schema :: 'schema
  md_ledger :: "ledgerRow list"
  md_open :: "('schema \<times> ledgerRow list) option"

datatype ownStatement = DeleteUnfinished | InsertRow | BeginTx | CommitTx | RollbackTx | FinishRow | MarkRolledBack

text \<open>Names that are finished and not rolled back; empty texts count as absent.\<close>

definition truthy :: "string option \<Rightarrow> bool" where
  "truthy t \<longleftrightarrow> t \<noteq> None \<and> t \<noteq> Some []"

definition appliedRow :: "ledgerRow \<Rightarrow> bool" where
  "appliedRow r \<longleftrightarrow> lr_name r \<noteq> [] \<and> truthy (lr_finished r) \<and> \<not> truthy (lr_rolledBack r)"

definition getAppliedMigrationNames :: "'schema migrationDb \<Rightarrow> string list" where
  "getAppliedMigrationNames db = remdups (map lr_name (filter appliedRow (md_ledger db)))"

section \<open>Statements of the program\<close>

type_synonym ('a, 'schema) dbStep = "'schema migrationDb \<Rightarrow> 'a result \<times> 'schema migrationDb"

definition thenDo :: "('a, 'schema) dbStep \<Rightarrow> ('a \<Rightarrow> ('b, 'schema) dbStep) \<Rightarrow> ('b, 'schema) dbStep" where
  "thenDo m k db = (case m db of (Inl e, db) \<Rightarrow> (Inl e, db) | (Inr x, db) \<Rightarrow> k x db)"

text \<open>\<open>try { m } catch (err) { h; throw err }\<close>\<close>

definition onError :: "('a, 'schema) dbStep \<Rightarrow> (string \<Rightarrow> (unit, 'schema) dbStep) \<Rightarrow> ('a, 'schema) dbStep" where
  "onError m h db = (case m db of (Inl e, db) \<Rightarrow> thenDo (h e) (\<lambda>_ db. (Inl e, db)) db | (Inr x, db) \<Rightarrow> (Inr x, db))"

definition ownStep ::
  "(ownStatement \<Rightarrow> string option) \<Rightarrow> ownStatement \<Rightarrow> ('schema migrationDb \<Rightarrow> 'schema migrationDb result)
     \<Rightarrow> (unit, 'schema) dbStep" where
  "ownStep fails q f db =
     (case fails q of
        Some e \<Rightarrow> (Inl e, db)
      | None \<Rightarrow> (case f db of Inl e \<Rightarrow> (Inl e, db) | Inr db' \<Rightarrow> (Inr (), db')))"

definition beginTx :: "'schema migrationDb \<Rightarrow> 'schema migrationDb result" where
  "beginTx db =
     (if md_open db = None then Inr (db\<lparr>md_open := Some (md_schema db, md_ledger db)\<rparr>)
      else Inl ''cannot start a transaction within a transaction'')"

definition commitTx :: "'schema migrationDb \<Rightarrow> 'schema migrationDb result" where
  "commitTx db =
     (if md_open db = None then Inl ''cannot commit - no transaction is active'' else Inr (db\<lparr>md_open := None\<rparr>))"

definition rollbackTx :: "'schema migrationDb \<Rightarrow> 'schema migrationDb result" where
  "rollbackTx db =
     (case md_open db of
        None \<Rightarrow> Inl ''cannot rollback - no transaction is active''
      | Some (sch, ledger) \<Rightarrow> Inr (db\<lparr>md_schema := sch, md_ledger := ledger, md_open := None\<rparr>))"

definition deleteUnfinished :: "string \<Rightarrow> 'schema migrationDb \<Rightarrow> 'schema migrationDb result" where
  "deleteUnfinished m db =
     Inr (db\<lparr>md_ledger := filter (\<lambda>r. \<not> (lr_name r = m \<and> lr_finished r = None)) (md_ledger db)\<rparr>)"

definition insertRow :: "ledgerRow \<Rightarrow> 'schema migrationDb \<Rightarrow> 'schema migrationDb result" where
  "insertRow row db =
     (if lr_id row \<in> set (map lr_id (md_ledger db)) then Inl ''UNIQUE constraint failed: _prisma_migrations.id''
      else Inr (db\<lparr>md_ledger := md_ledger db @ [row]\<rparr>))"

text \<open>The updates of one row by its identifier\<close>

definition markRow :: "string \<Rightarrow> (ledgerRow \<Rightarrow> ledgerRow) \<Rightarrow> 'schema migrationDb \<Rightarrow> 'schema migrationDb result" where
  "markRow i f db = Inr (db\<lparr>md_ledger := map (\<lambda>r. if lr_id r = i then f r else r) (md_ledger db)\<rparr>)"

section \<open>Migrations\<close>

text \<open>
  The statements of a migration, with the number of steps or the error. A statement that fails has
  no effect of its own; those before it have theirs until a \<open>ROLLBACK\<close>.
\<close>

fun runStatements ::
  "(string \<Rightarrow> 'schema \<Rightarrow> string + 'schema) \<Rightarrow> string list \<Rightarrow> nat \<Rightarrow> (nat, 'schema) dbStep" where
  "runStatements exec [] n db = (Inr n, db)"
| "runStatements exec (q # qs) n db =
     (case exec q (md_schema db) of
        Inr sch \<Rightarrow> runStatements exec qs (n + 1) (db\<lparr>md_schema := sch\<rparr>)
      | Inl e \<Rightarrow> if isBenignMigrationError e then runStatements exec qs (n + 1) db else (Inl e, db))"

text \<open>The inner \<open>try\<close>: the statements and \<open>COMMIT\<close>, with \<open>ROLLBACK\<close> on an error\<close>

definition committedSteps ::
  "(string \<Rightarrow> 'schema \<Rightarrow> string + 'schema) \<Rightarrow> (ownStatement \<Rightarrow> string option) \<Rightarrow> string list \<Rightarrow> (nat, 'schema) dbStep" where
  "committedSteps exec fails statements =
     onError (thenDo (runStatements exec statements 0) (\<lambda>n. thenDo (ownStep fails CommitTx commitTx) (\<lambda>_ db. (Inr n, db))))
       (\<lambda>_. ownStep fails RollbackTx rollbackTx)"

definition applySingleMigration ::
  "(string \<Rightarrow> 'schema \<Rightarrow> string + 'schema) \<Rightarrow> (ownStatement \<Rightarrow> string option) \<Rightarrow> (string \<Rightarrow> string) \<Rightarrow> string \<Rightarrow> string
     \<Rightarrow> string \<Rightarrow> string \<Rightarrow> (unit, 'schema) dbStep" where
  "applySingleMigration exec fails sha256 now i migrationName sql =
     thenDo (ownStep fails DeleteUnfinished (deleteUnfinished migrationName)) (\<lambda>_.
     thenDo (ownStep fails InsertRow (insertRow \<lparr>lr_id = i, lr_checksum = sha256 sql, lr_finished = None,
         lr_name = migrationName, lr_logs = None, lr_rolledBack = None, lr_started = now, lr_steps = 0\<rparr>)) (\<lambda>_.
       onError
         (thenDo (ownStep fails BeginTx beginTx) (\<lambda>_.
          thenDo (committedSteps exec fails (splitSqlStatements sql)) (\<lambda>appliedSteps.
            ownStep fails FinishRow (markRow i (\<lambda>r. r\<lparr>lr_finished := Some now, lr_steps := appliedSteps, lr_logs := None\<rparr>)))))
         (\<lambda>e. ownStep fails MarkRolledBack (markRow i (\<lambda>r. r\<lparr>lr_rolledBack := Some now, lr_logs := Some e\<rparr>)))))"

record migrationSummary =
  ms_backupPath :: "string option"
  ms_applied :: "string list"
  ms_skipped :: "string list"

text \<open>
  The loop over the migrations; \<open>ids\<close> are the random identifiers, \<open>readSql\<close> reads the file of a
  migration.
\<close>

fun applyEach ::
  "(string \<Rightarrow> 'schema \<Rightarrow> string + 'schema) \<Rightarrow> (ownStatement \<Rightarrow> string option) \<Rightarrow> (string \<Rightarrow> string) \<Rightarrow> (nat \<Rightarrow> string) \<Rightarrow> (string \<Rightarrow> string result)
     \<Rightarrow> string \<Rightarrow> string list \<Rightarrow> string list \<Rightarrow> nat \<Rightarrow> migrationSummary \<Rightarrow> 'schema migrationDb
     \<Rightarrow> migrationSummary result \<times> 'schema migrationDb" where
  "applyEach exec fails sha ids readSql now appliedSet [] k sm db = (Inr sm, db)"
| "applyEach exec fails sha ids readSql now appliedSet (m # ms) k sm db =
     (if m \<in> set appliedSet
      then applyEach exec fails sha ids readSql now appliedSet ms k (sm\<lparr>ms_skipped := ms_skipped sm @ [m]\<rparr>) db
      else case readSql m of
             Inl e \<Rightarrow> (Inl e, db)
           | Inr sql \<Rightarrow>
               (case applySingleMigration exec fails sha now (ids k) m sql db of
                  (Inl e, db) \<Rightarrow> (Inl e, db)
                | (Inr _, db) \<Rightarrow>
                    applyEach exec fails sha ids readSql now appliedSet ms (Suc k)
                      (sm\<lparr>ms_applied := ms_applied sm @ [m]\<rparr>) db))"

text \<open>\<open>/^\d+_/\<close>\<close>

definition isMigrationDir :: "string \<Rightarrow> bool" where
  "isMigrationDir e \<longleftrightarrow> takeWhile is_digit e \<noteq> [] \<and> startsWith (dropWhile is_digit e) ''_''"

text \<open>
  \<open>byLocale\<close> sorts as \<open>localeCompare\<close> does; \<open>backup\<close> is the copy of the database file, taken before,
  as \<open>backupRuntimeDatabaseSnapshot\<close> gives it.
\<close>

definition runSafeMigrationForPackagedRuntime ::
  "(string \<Rightarrow> 'schema \<Rightarrow> string + 'schema) \<Rightarrow> (ownStatement \<Rightarrow> string option) \<Rightarrow> (string \<Rightarrow> string) \<Rightarrow> (nat \<Rightarrow> string) \<Rightarrow> (string \<Rightarrow> string result)
     \<Rightarrow> (string list \<Rightarrow> string list) \<Rightarrow> string \<Rightarrow> bool \<Rightarrow> string list \<Rightarrow> (string option) result
     \<Rightarrow> 'schema migrationDb \<Rightarrow> migrationSummary result \<times> 'schema migrationDb" where
  "runSafeMigrationForPackagedRuntime exec fails sha ids readSql byLocale now packaged entries backup db =
     (if \<not> packaged then (Inr \<lparr>ms_backupPath = None, ms_applied = [], ms_skipped = []\<rparr>, db)
      else case backup of
             Inl e \<Rightarrow> (Inl e, db)
           | Inr path \<Rightarrow>
               applyEach exec fails sha ids readSql now (getAppliedMigrationNames db)
                 (byLocale (filter isMigrationDir entries)) 0
                 \<lparr>ms_backupPath = path, ms_applied = [], ms_skipped = []\<rparr> db)"

section \<open>One migration\<close>

lemma applied_names: "set (getAppliedMigrationNames db) = lr_name ` {r \<in> set (md_ledger db). appliedRow r}"
  by (simp add: getAppliedMigrationNames_def)

text \<open>The rows that a migration leaves of the ledger\<close>

definition otherRows :: "string \<Rightarrow> ledgerRow list \<Rightarrow> ledgerRow list" where
  "otherRows m rs = filter (\<lambda>r. \<not> (lr_name r = m \<and> lr_finished r = None)) rs"

definition freshRow :: "(string \<Rightarrow> string) \<Rightarrow> string \<Rightarrow> string \<Rightarrow> string \<Rightarrow> string \<Rightarrow> ledgerRow" where
  "freshRow sha now i m sql = \<lparr>lr_id = i, lr_checksum = sha sql, lr_finished = None, lr_name = m, lr_logs = None,
     lr_rolledBack = None, lr_started = now, lr_steps = 0\<rparr>"

lemma mark_others:
  "i \<notin> lr_id ` set (md_ledger db) \<Longrightarrow>
     map (\<lambda>r. if lr_id r = i then f r else r) (otherRows m (md_ledger db)) = otherRows m (md_ledger db)"
  by (intro map_idI) (auto simp: otherRows_def)

text \<open>The statements of a migration change the data only and read nothing else.\<close>

lemma statements_frame:
  "runStatements exec qs n (db\<lparr>md_ledger := l, md_open := t\<rparr>) =
     (fst (runStatements exec qs n db), (snd (runStatements exec qs n db))\<lparr>md_ledger := l, md_open := t\<rparr>)
   \<and> md_ledger (snd (runStatements exec qs n db)) = md_ledger db
   \<and> md_open (snd (runStatements exec qs n db)) = md_open db"
proof (induction qs arbitrary: n db)
  case (Cons q qs)
  show ?case
  proof (cases "exec q (md_schema db)")
    case (Inr sch)
    have swap: "db\<lparr>md_ledger := l, md_open := t, md_schema := sch\<rparr> = db\<lparr>md_schema := sch, md_ledger := l, md_open := t\<rparr>"
      by simp
    show ?thesis
      using Cons.IH [of "n + 1" "db\<lparr>md_schema := sch\<rparr>", folded swap] by (simp add: Inr)
  next
    case (Inl e)
    then show ?thesis
      using Cons.IH [of "n + 1" db] by simp
  qed
qed simp

text \<open>What a migration does before its transaction\<close>

definition begunDb :: "string \<Rightarrow> ledgerRow \<Rightarrow> 'schema migrationDb \<Rightarrow> 'schema migrationDb" where
  "begunDb m row db = db\<lparr>md_ledger := otherRows m (md_ledger db) @ [row]\<rparr>"

lemma own_steps:
  assumes "fails DeleteUnfinished = None" and "fails InsertRow = None" and "i \<notin> lr_id ` set (md_ledger db)"
  shows "applySingleMigration exec fails sha now i m sql db =
     onError
       (thenDo (ownStep fails BeginTx beginTx) (\<lambda>_.
        thenDo (committedSteps exec fails (splitSqlStatements sql)) (\<lambda>n.
          ownStep fails FinishRow (markRow i (\<lambda>r. r\<lparr>lr_finished := Some now, lr_steps := n, lr_logs := None\<rparr>)))))
       (\<lambda>e. ownStep fails MarkRolledBack (markRow i (\<lambda>r. r\<lparr>lr_rolledBack := Some now, lr_logs := Some e\<rparr>)))
       (begunDb m (freshRow sha now i m sql) db)"
proof -
  have "i \<notin> lr_id ` {r \<in> set (md_ledger db). lr_name r = m \<longrightarrow> lr_finished r \<noteq> None}"
    using assms(3) by auto
  then show ?thesis
    using assms(1,2)
    by (simp add: applySingleMigration_def thenDo_def ownStep_def deleteUnfinished_def insertRow_def begunDb_def
        otherRows_def freshRow_def)
qed

text \<open>The transaction: committed with the number of steps, or back where it began\<close>

lemma transaction:
  assumes "fails RollbackTx = None" and "md_open db = None"
    and "runStatements exec qs 0 db = (a, d)"
  shows "committedSteps exec fails qs (db\<lparr>md_open := Some (md_schema db, md_ledger db)\<rparr>) =
     (case a of
        Inl e \<Rightarrow> (Inl e, db)
      | Inr n \<Rightarrow> (case fails CommitTx of None \<Rightarrow> (Inr n, d) | Some e \<Rightarrow> (Inl e, db)))"
proof -
  have d: "md_ledger d = md_ledger db" "md_open d = None"
    using statements_frame [of exec qs 0 _ _ db] assms(2,3) by simp_all
  have "runStatements exec qs 0 (db\<lparr>md_ledger := md_ledger db, md_open := Some (md_schema db, md_ledger db)\<rparr>)
      = (a, d\<lparr>md_ledger := md_ledger db, md_open := Some (md_schema db, md_ledger db)\<rparr>)"
    using statements_frame [of exec qs 0 "Some (md_schema db, md_ledger db)" "md_ledger db" db] assms(3) by simp
  then have run: "runStatements exec qs 0 (db\<lparr>md_open := Some (md_schema db, md_ledger db)\<rparr>)
      = (a, d\<lparr>md_open := Some (md_schema db, md_ledger db)\<rparr>)"
    using d(1) by (cases db, cases d) simp
  have undone: "d\<lparr>md_open := None, md_schema := md_schema db, md_ledger := md_ledger db\<rparr> = db" "d\<lparr>md_open := None\<rparr> = d"
      "db\<lparr>md_open := None\<rparr> = db"
    using d assms(2) by (cases db, cases d, simp)+
  show ?thesis
    using assms(1) undone
    by (cases a) (auto simp: committedSteps_def onError_def thenDo_def ownStep_def commitTx_def rollbackTx_def run
        split: option.splits)
qed

definition finishedRow :: "(string \<Rightarrow> string) \<Rightarrow> string \<Rightarrow> string \<Rightarrow> string \<Rightarrow> string \<Rightarrow> nat \<Rightarrow> ledgerRow" where
  "finishedRow sha now i m sql n = (freshRow sha now i m sql)\<lparr>lr_finished := Some now, lr_steps := n\<rparr>"

definition failedRow :: "(string \<Rightarrow> string) \<Rightarrow> string \<Rightarrow> string \<Rightarrow> string \<Rightarrow> string \<Rightarrow> string \<Rightarrow> ledgerRow" where
  "failedRow sha now i m sql e = (freshRow sha now i m sql)\<lparr>lr_rolledBack := Some now, lr_logs := Some e\<rparr>"

lemma mark_own:
  assumes "i \<notin> lr_id ` set (md_ledger db)" and "md_ledger d = md_ledger (begunDb m (freshRow sha now i m sql) db)"
  shows "markRow i f d = Inr (d\<lparr>md_ledger := otherRows m (md_ledger db) @ [f (freshRow sha now i m sql)]\<rparr>)"
  using mark_others [OF assms(1), of f m] assms(2) by (simp add: markRow_def begunDb_def freshRow_def)

text \<open>A migration that answers was finished; a database inside a transaction refuses to begin one.\<close>

lemma apply_success:
  assumes new: "i \<notin> lr_id ` set (md_ledger db)" and run: "applySingleMigration exec fails sha now i m sql db = (Inr u, db')"
  shows "\<exists>n. md_ledger db' = otherRows m (md_ledger db) @ [finishedRow sha now i m sql n]"
proof -
  let ?db = "begunDb m (freshRow sha now i m sql) db"
  let ?qs = "splitSqlStatements sql"
  have own: "fails DeleteUnfinished = None" "fails InsertRow = None"
    using run by (auto simp: applySingleMigration_def thenDo_def ownStep_def split: option.splits sum.splits prod.splits)
  note r = run [unfolded own_steps [OF own new]]
  have "md_open ?db = None"
    using r by (auto simp: onError_def thenDo_def ownStep_def beginTx_def split: option.splits sum.splits prod.splits if_splits)
  moreover have begun: "fails BeginTx = None"
    using r by (auto simp: onError_def thenDo_def ownStep_def split: option.splits sum.splits prod.splits)
  ultimately obtain n d where d: "committedSteps exec fails ?qs (?db\<lparr>md_open := Some (md_schema ?db, md_ledger ?db)\<rparr>) = (Inr n, d)"
    using r by (cases "committedSteps exec fails ?qs (?db\<lparr>md_open := Some (md_schema ?db, md_ledger ?db)\<rparr>)")
      (auto simp: onError_def thenDo_def ownStep_def beginTx_def split: option.splits sum.splits prod.splits)
  have "md_ledger d = md_ledger ?db"
    using d statements_frame [of exec ?qs 0 _ _ "?db\<lparr>md_open := Some (md_schema ?db, md_ledger ?db)\<rparr>"]
    by (auto simp: committedSteps_def onError_def thenDo_def ownStep_def commitTx_def rollbackTx_def
        split: option.splits sum.splits prod.splits if_splits)
  then show ?thesis
    using r \<open>md_open ?db = None\<close> begun d mark_own [OF new, of d m sha now sql]
    by (auto simp: onError_def thenDo_def ownStep_def beginTx_def finishedRow_def freshRow_def split: option.splits)
qed

lemma apply_failure:
  assumes new: "i \<notin> lr_id ` set (md_ledger db)" and closed: "md_open db = None"
    and own: "fails DeleteUnfinished = None" "fails InsertRow = None" "fails RollbackTx = None" "fails MarkRolledBack = None"
    and steps: "runStatements exec (splitSqlStatements sql) 0 db = (a, d)"
    and run: "applySingleMigration exec fails sha now i m sql db = (Inl e, db')"
  shows "db' = (if fails BeginTx = None \<and> fails CommitTx = None \<and> (\<exists>n. a = Inr n) then d else db)
       \<lparr>md_ledger := otherRows m (md_ledger db) @ [failedRow sha now i m sql e]\<rparr>
     \<and> (fails BeginTx = None \<and> fails CommitTx = None \<and> (\<exists>n. a = Inr n) \<longrightarrow> fails FinishRow = Some e)"
proof -
  let ?db = "begunDb m (freshRow sha now i m sql) db"
  have o: "md_open ?db = None"
    using closed by (simp add: begunDb_def)
  have same: "db\<lparr>md_ledger := l, md_open := None\<rparr> = db\<lparr>md_ledger := l\<rparr>" for l
    using closed by (cases db) simp
  have d: "md_ledger d = md_ledger db" "md_open d = None"
    using statements_frame [of exec "splitSqlStatements sql" 0 _ _ db] steps closed by simp_all
  then have "d\<lparr>md_ledger := l, md_open := None\<rparr> = d\<lparr>md_ledger := l\<rparr>" for l
    by (cases d) simp
  then have steps': "runStatements exec (splitSqlStatements sql) 0 ?db = (a, d\<lparr>md_ledger := md_ledger ?db\<rparr>)"
    using statements_frame [of exec "splitSqlStatements sql" 0 None "md_ledger ?db" db] steps same
    by (simp add: begunDb_def)
  note r = run [unfolded own_steps [OF own(1,2) new]]
  note marks = mark_own [OF new, of ?db m sha now sql, OF refl]
    mark_own [OF new, of "d\<lparr>md_ledger := md_ledger ?db\<rparr>" m sha now sql, simplified]
  have frame: "?db\<lparr>md_ledger := l\<rparr> = db\<lparr>md_ledger := l\<rparr>" for l
    by (simp add: begunDb_def)
  show ?thesis
    using r o own(4) marks
    by (cases a) (auto simp: onError_def thenDo_def ownStep_def beginTx_def transaction [where fails = fails and db = ?db, OF own(3) o steps'] failedRow_def
        frame split: option.splits)
qed

section \<open>All migrations\<close>

lemma other_applied: "appliedRow r \<Longrightarrow> r \<in> set rs \<Longrightarrow> r \<in> set (otherRows m rs)"
  by (auto simp: otherRows_def appliedRow_def truthy_def)

lemma others_applied: "{r \<in> set (otherRows m rs). appliedRow r} = {r \<in> set rs. appliedRow r}"
  using other_applied by (auto simp: otherRows_def)

lemma applied_append:
  "md_ledger db' = otherRows m (md_ledger db) @ [r] \<Longrightarrow> set (getAppliedMigrationNames db') =
     (if appliedRow r then insert (lr_name r) (set (getAppliedMigrationNames db)) else set (getAppliedMigrationNames db))"
proof -
  assume "md_ledger db' = otherRows m (md_ledger db) @ [r]"
  then have "{x \<in> set (md_ledger db'). appliedRow x}
      = {x \<in> set (md_ledger db). appliedRow x} \<union> (if appliedRow r then {r} else {})"
    using others_applied [of m "md_ledger db"] by auto
  then show ?thesis
    by (simp add: applied_names)
qed

lemma apply_single_ids:
  assumes "i \<notin> lr_id ` set (md_ledger db)" and "applySingleMigration exec fails sha now i m sql db = (Inr u, db')"
  shows "lr_id ` set (md_ledger db') \<subseteq> insert i (lr_id ` set (md_ledger db))"
  using apply_success [OF assms] by (auto simp: otherRows_def finishedRow_def freshRow_def)

lemma apply_single_names:
  assumes "i \<notin> lr_id ` set (md_ledger db)" and "applySingleMigration exec fails sha now i m sql db = (Inr u, db')"
    and "m \<noteq> []" and "now \<noteq> []"
  shows "set (getAppliedMigrationNames db') = insert m (set (getAppliedMigrationNames db))"
proof -
  obtain n where l: "md_ledger db' = otherRows m (md_ledger db) @ [finishedRow sha now i m sql n]"
    using apply_success [OF assms(1,2)] ..
  have "appliedRow (finishedRow sha now i m sql n)" "lr_name (finishedRow sha now i m sql n) = m"
    using assms(3,4) by (simp_all add: appliedRow_def truthy_def finishedRow_def freshRow_def)
  then show ?thesis
    using applied_append [OF l] by simp
qed

lemma apply_each:
  assumes "\<forall>j \<ge> k. ids j \<notin> lr_id ` set (md_ledger db)" and "inj ids" and "now \<noteq> []" and "[] \<notin> set ms"
    and "applyEach exec fails sha ids readSql now ap ms k sm db = (Inr sm', db')"
  shows "set (getAppliedMigrationNames db') = set (getAppliedMigrationNames db) \<union> (set ms - set ap)
     \<and> ms_applied sm' = ms_applied sm @ filter (\<lambda>m. m \<notin> set ap) ms
     \<and> ms_skipped sm' = ms_skipped sm @ filter (\<lambda>m. m \<in> set ap) ms"
  using assms
proof (induction ms arbitrary: k sm db)
  case (Cons m ms)
  show ?case
  proof (cases "m \<in> set ap")
    case True
    then show ?thesis
      using Cons.IH [OF Cons.prems(1,2,3), of "sm\<lparr>ms_skipped := ms_skipped sm @ [m]\<rparr>"] Cons.prems(4,5) by auto
  next
    case False
    obtain sql where sql: "readSql m = Inr sql"
      using Cons.prems(5) False by (cases "readSql m") simp_all
    obtain a d where ad: "applySingleMigration exec fails sha now (ids k) m sql db = (a, d)"
      by (cases "applySingleMigration exec fails sha now (ids k) m sql db")
    then have a: "a = Inr ()" and rest: "applyEach exec fails sha ids readSql now ap ms (Suc k)
        (sm\<lparr>ms_applied := ms_applied sm @ [m]\<rparr>) d = (Inr sm', db')"
      using Cons.prems(5) False sql by (cases a; simp)+
    have new: "ids k \<notin> lr_id ` set (md_ledger db)"
      using Cons.prems(1) by simp
    have names: "set (getAppliedMigrationNames d) = insert m (set (getAppliedMigrationNames db))"
      using apply_single_names [OF new ad [unfolded a] _ Cons.prems(3)] Cons.prems(4) by auto
    have "\<forall>j \<ge> Suc k. ids j \<notin> lr_id ` set (md_ledger d)"
    proof (intro allI impI)
      fix j assume "Suc k \<le> j"
      then have "ids j \<noteq> ids k" "ids j \<notin> lr_id ` set (md_ledger db)"
        using Cons.prems(1) injD [OF Cons.prems(2), of j k] by auto
      then show "ids j \<notin> lr_id ` set (md_ledger d)"
        using apply_single_ids [OF new ad [unfolded a]] by blast
    qed
    from Cons.IH [OF this Cons.prems(2,3) _ rest] Cons.prems(4)
    show ?thesis
      using names False by auto
  qed
qed simp

lemma apply_each_none:
  assumes "set ms \<subseteq> set ap"
  shows "applyEach exec fails sha ids readSql now ap ms k sm db = (Inr (sm\<lparr>ms_skipped := ms_skipped sm @ ms\<rparr>), db)"
  using assms by (induction ms arbitrary: sm) auto

lemma migration_dir_not_Nil: "isMigrationDir m \<Longrightarrow> m \<noteq> []"
  by (auto simp: isMigrationDir_def)

text \<open>
  C27: When the start of a packaged application migrates its database without an error, the names
  of all migrations of the directory are in the ledger as applied and the report divides them into
  those applied now and those applied before; the next start applies none and changes nothing.
\<close>

theorem migrations_apply_once:
  assumes "\<And>j. ids j \<notin> lr_id ` set (md_ledger db)" and "inj ids" and "now \<noteq> []"
    and "\<And>xs. set (byLocale xs) = set xs"
    and "runSafeMigrationForPackagedRuntime exec fails sha ids readSql byLocale now True entries backup db = (Inr sm, db')"
  shows "set (getAppliedMigrationNames db') = set (getAppliedMigrationNames db) \<union> {m \<in> set entries. isMigrationDir m}
     \<and> set (ms_applied sm) = {m \<in> set entries. isMigrationDir m} - set (getAppliedMigrationNames db)
     \<and> set (ms_skipped sm) = {m \<in> set entries. isMigrationDir m} \<inter> set (getAppliedMigrationNames db)
     \<and> runSafeMigrationForPackagedRuntime exec fails sha ids' readSql byLocale now' True entries (Inr path) db'
         = (Inr \<lparr>ms_backupPath = path, ms_applied = [], ms_skipped = byLocale (filter isMigrationDir entries)\<rparr>, db')"
proof -
  let ?ms = "byLocale (filter isMigrationDir entries)"
  obtain p where p: "backup = Inr p"
    using assms(5) by (cases backup) (simp_all add: runSafeMigrationForPackagedRuntime_def)
  have ms: "set ?ms = {m \<in> set entries. isMigrationDir m}"
    by (simp add: assms(4))
  then have "[] \<notin> set ?ms"
    using migration_dir_not_Nil by auto
  moreover have "applyEach exec fails sha ids readSql now (getAppliedMigrationNames db) ?ms 0
      \<lparr>ms_backupPath = p, ms_applied = [], ms_skipped = []\<rparr> db = (Inr sm, db')"
    using assms(5) by (simp add: runSafeMigrationForPackagedRuntime_def p)
  ultimately have r: "set (getAppliedMigrationNames db') = set (getAppliedMigrationNames db) \<union> set ?ms"
      "ms_applied sm = filter (\<lambda>m. m \<notin> set (getAppliedMigrationNames db)) ?ms"
      "ms_skipped sm = filter (\<lambda>m. m \<in> set (getAppliedMigrationNames db)) ?ms"
    using apply_each [where k = 0 and ms = ?ms] assms(1-3) by fastforce+
  then have known: "set ?ms \<subseteq> set (getAppliedMigrationNames db')"
    by simp
  have "runSafeMigrationForPackagedRuntime exec fails sha ids' readSql byLocale now' True entries (Inr path) db'
      = (Inr \<lparr>ms_backupPath = path, ms_applied = [], ms_skipped = ?ms\<rparr>, db')"
    by (simp add: runSafeMigrationForPackagedRuntime_def apply_each_none [OF known])
  then show ?thesis
    unfolding r(1) using r(2,3) ms by auto
qed

definition demoMigrationDb :: "nat migrationDb" where
  "demoMigrationDb = \<lparr>md_schema = 0, md_ledger = [], md_open = None\<rparr>"

theorem migrations_apply_once_witness:
  "\<exists>sm db'. runSafeMigrationForPackagedRuntime (\<lambda>q n. Inr (n + 1)) (\<lambda>_. None) id show_nat (\<lambda>_. Inr ''CREATE TABLE t;'') id ''1''
       True [''2_b'', ''lock'', ''1_a''] (Inr None) demoMigrationDb = (Inr sm, db')
     \<and> set (getAppliedMigrationNames db') = {''2_b'', ''1_a''}"
proof -
  let ?run = "runSafeMigrationForPackagedRuntime (\<lambda>q n. Inr (n + 1)) (\<lambda>_. None) id show_nat (\<lambda>_. Inr ''CREATE TABLE t;'') id ''1''
       True [''2_b'', ''lock'', ''1_a''] (Inr None) demoMigrationDb"
  have "case fst ?run of Inr _ \<Rightarrow> True | Inl _ \<Rightarrow> False"
    by code_simp
  then obtain sm db' where run: "?run = (Inr sm, db')"
    by (cases ?run) (auto split: sum.splits)
  have "inj show_nat"
    by (auto intro: injI dest: show_nat_inj)
  moreover have "isMigrationDir ''2_b''" "isMigrationDir ''1_a''" "\<not> isMigrationDir ''lock''"
    by code_simp+
  moreover have "getAppliedMigrationNames demoMigrationDb = []"
    by (simp add: demoMigrationDb_def getAppliedMigrationNames_def)
  ultimately show ?thesis
    using migrations_apply_once [OF _ _ _ _ run] run by (auto simp: demoMigrationDb_def)
qed

text \<open>
  C28: A migration that fails inside its transaction, at \<open>BEGIN\<close>, at one of its statements or at
  \<open>COMMIT\<close>, leaves the data as they were before it. If the transaction was committed and only the
  entry of its end fails, the data keep what its statements did. In both cases the transaction is
  over, the row of the migration is marked as rolled back with the message of the error, the other
  rows stay and the names that count as applied are the same. The deletion and insertion of ledger
  rows, \<open>ROLLBACK\<close> and the mark itself are taken to succeed.
\<close>

theorem failed_migration_rolls_back:
  assumes "i \<notin> lr_id ` set (md_ledger db)" and "m \<noteq> []" and "now \<noteq> []" and "md_open db = None"
    and "fails DeleteUnfinished = None" and "fails InsertRow = None"
    and "fails RollbackTx = None" and "fails MarkRolledBack = None"
    and "applySingleMigration exec fails sha now i m sql db = (Inl e, db')"
    and "runStatements exec (splitSqlStatements sql) 0 db = (a, d)"
  shows "(if fails BeginTx = None \<and> fails CommitTx = None \<and> (\<exists>n. a = Inr n)
          then fails FinishRow = Some e \<and> md_schema db' = md_schema d
          else md_schema db' = md_schema db)
     \<and> md_open db' = None
     \<and> set (getAppliedMigrationNames db') = set (getAppliedMigrationNames db)
     \<and> (\<exists>r. md_ledger db' = filter (\<lambda>r. \<not> (lr_name r = m \<and> lr_finished r = None)) (md_ledger db) @ [r]
           \<and> lr_id r = i \<and> lr_name r = m
           \<and> lr_finished r = None \<and> lr_rolledBack r = Some now \<and> lr_logs r = Some e)"
proof -
  note f = apply_failure [OF assms(1,4-8,10,9)]
  then have l: "md_ledger db' = otherRows m (md_ledger db) @ [failedRow sha now i m sql e]"
    by simp
  have "\<not> appliedRow (failedRow sha now i m sql e)"
    using assms(3) by (simp add: appliedRow_def truthy_def failedRow_def freshRow_def)
  then have "set (getAppliedMigrationNames db') = set (getAppliedMigrationNames db)"
    using applied_append [OF l] by simp
  moreover have "md_open d = None"
    using statements_frame [of exec "splitSqlStatements sql" 0 _ _ db] assms(4,10) by simp
  then have "md_open db' = None"
    using f assms(4) by auto
  ultimately show ?thesis
    using f l by (auto simp: failedRow_def freshRow_def otherRows_def)
qed

definition demoExec :: "string \<Rightarrow> nat \<Rightarrow> string + nat" where
  "demoExec q n = (if q = ''B;'' then Inl ''no such table'' else Inr (n + 1))"

theorem failed_migration_rolls_back_witness:
  "\<exists>db'. applySingleMigration demoExec (\<lambda>_. None) id ''1'' ''i'' ''1_a''
       (join [newline] [''A;'', ''B;'']) demoMigrationDb = (Inl ''no such table'', db') \<and> md_schema db' = 0"
proof -
  let ?run = "applySingleMigration demoExec (\<lambda>_. None) id ''1'' ''i'' ''1_a''
       (join [newline] [''A;'', ''B;'']) demoMigrationDb"
  let ?steps = "runStatements demoExec (splitSqlStatements (join [newline] [''A;'', ''B;''])) 0 demoMigrationDb"
  have "fst ?run = Inl ''no such table''" "fst ?steps = Inl ''no such table''"
    by code_simp+
  then obtain db' d where run: "?run = (Inl ''no such table'', db')" and steps: "?steps = (Inl ''no such table'', d)"
    by (cases ?run, cases ?steps) simp
  have "''i'' \<notin> lr_id ` set (md_ledger demoMigrationDb)" "md_schema demoMigrationDb = 0" "md_open demoMigrationDb = None"
    by (simp_all add: demoMigrationDb_def)
  then show ?thesis
    using failed_migration_rolls_back [OF _ _ _ _ _ _ _ _ run steps] run by simp
qed

text \<open>
  The entry of the end comes after \<open>COMMIT\<close>: when it fails, the ledger says that a migration was
  rolled back whose changes stay, and the next start applies it again.
\<close>

lemma committed_recorded_as_rolled_back:
  "(case applySingleMigration demoExec (\<lambda>q. if q = FinishRow then Some ''database is locked'' else None) id ''1'' ''i''
       ''1_a'' ''A;'' demoMigrationDb of
      (r, db') \<Rightarrow> r = Inl ''database is locked'' \<and> md_schema db' = 1 \<and> map lr_rolledBack (md_ledger db') = [Some ''1'']
        \<and> getAppliedMigrationNames db' = [])"
  by code_simp

section \<open>What the splitting cannot read\<close>

text \<open>A trigger, whose body has statements of its own, is cut after the first of them.\<close>

lemma trigger_cut:
  "splitSqlStatements (join [newline]
      [''CREATE TRIGGER t AFTER INSERT ON a BEGIN'', ''  DELETE FROM b;'', ''END;''])
     = [join [newline] [''CREATE TRIGGER t AFTER INSERT ON a BEGIN'', ''  DELETE FROM b;''], ''END;'']"
  by code_simp

end
