(* ===== verification/Bible.thy ===== *)
theory Bible
  imports SongText
begin

text \<open>
  Bible references and the verses of the translation that comes with the application
  (\<open>bible/parseRef.ts\<close>, \<open>bible/lookupLSG1910.ts\<close>). The parser of references is a library; what it
  finds in a text is a parameter. The data are the object of the file \<open>ls1910-full.json\<close>.
\<close>

section \<open>References\<close>

text \<open>A point of a reference as the library gives it, every part of it possibly undefined\<close>

record bcvPoint =
  bp_b :: "string option"
  bp_c :: "int option"
  bp_v :: "int option"

record verseRange =
  vr_bookId :: string
  vr_bookName :: string
  vr_chapter :: int
  vr_from :: int
  vr_to :: int

definition BOOK_NAMES :: "(string \<times> string) list" where
  "BOOK_NAMES = [
     (''Gen'', ''Gen'' @ [CHR 0xE8] @ ''se''), (''Exod'', ''Exode''), (''Lev'', ''L'' @ [CHR 0xE9] @ ''vitique''),
     (''Num'', ''Nombres''), (''Deut'', ''Deut'' @ [CHR 0xE9] @ ''ronome''), (''Josh'', ''Josu'' @ [CHR 0xE9]),
     (''Judg'', ''Juges''), (''Ruth'', ''Ruth''), (''1Sam'', ''1 Samuel''), (''2Sam'', ''2 Samuel''),
     (''1Kgs'', ''1 Rois''), (''2Kgs'', ''2 Rois''), (''1Chr'', ''1 Chroniques''), (''2Chr'', ''2 Chroniques''),
     (''Ezra'', ''Esdras''), (''Neh'', ''N'' @ [CHR 0xE9, CHR ''h'', CHR 0xE9] @ ''mie''), (''Esth'', ''Esther''),
     (''Job'', ''Job''), (''Ps'', ''Psaumes''), (''Prov'', ''Proverbes''),
     (''Eccl'', ''Eccl'' @ [CHR 0xE9] @ ''siaste''), (''Song'', ''Cantique''),
     (''Isa'', [CHR 0xC9] @ ''sa'' @ [CHR 0xEF] @ ''e''), (''Jer'', ''J'' @ [CHR 0xE9, CHR ''r'', CHR 0xE9] @ ''mie''),
     (''Lam'', ''Lamentations''), (''Ezek'', [CHR 0xC9, CHR ''z'', CHR 0xE9] @ ''kiel''), (''Dan'', ''Daniel''),
     (''Hos'', ''Os'' @ [CHR 0xE9] @ ''e''), (''Joel'', ''Jo'' @ [CHR 0xEB] @ ''l''), (''Amos'', ''Amos''),
     (''Obad'', ''Abdias''), (''Jonah'', ''Jonas''), (''Mic'', ''Mich'' @ [CHR 0xE9] @ ''e''), (''Nah'', ''Nahum''),
     (''Hab'', ''Habacuc''), (''Zeph'', ''Sophonie''), (''Hag'', ''Agg'' @ [CHR 0xE9] @ ''e''),
     (''Zech'', ''Zacharie''), (''Mal'', ''Malachie''), (''Matt'', ''Matthieu''), (''Mark'', ''Marc''),
     (''Luke'', ''Luc''), (''John'', ''Jean''), (''Acts'', ''Actes''), (''Rom'', ''Romains''),
     (''1Cor'', ''1 Corinthiens''), (''2Cor'', ''2 Corinthiens''), (''Gal'', ''Galates''),
     (''Eph'', [CHR 0xC9, CHR ''p'', CHR ''h'', CHR 0xE9] @ ''siens''), (''Phil'', ''Philippiens''), (''Col'', ''Colossiens''),
     (''1Thess'', ''1 Thessaloniciens''), (''2Thess'', ''2 Thessaloniciens''),
     (''1Tim'', ''1 Timoth'' @ [CHR 0xE9] @ ''e''), (''2Tim'', ''2 Timoth'' @ [CHR 0xE9] @ ''e''), (''Titus'', ''Tite''),
     (''Phlm'', ''Phil'' @ [CHR 0xE9] @ ''mon''), (''Heb'', ''H'' @ [CHR 0xE9] @ ''breux''), (''Jas'', ''Jacques''),
     (''1Pet'', ''1 Pierre''), (''2Pet'', ''2 Pierre''), (''1John'', ''1 Jean''), (''2John'', ''2 Jean''),
     (''3John'', ''3 Jean''), (''Jude'', ''Jude''), (''Rev'', ''Apocalypse'')]"

text \<open>
  \<open>bcv\<close> gives the start and the end of the first entity, \<open>None\<close> when there is none. An undefined
  number becomes \<open>NaN\<close>, which the checks refuse.
\<close>

definition parseReference ::
  "(string \<Rightarrow> (bcvPoint option \<times> bcvPoint option) option) \<Rightarrow> string \<Rightarrow> verseRange option" where
  "parseReference bcv input =
     (let raw = trim input
      in if raw = [] then None
         else let found = bcv raw;
                  start = Option.bind found fst;
                  fin = orOption (Option.bind found snd) start;
                  bookId = Option.bind start bp_b;
                  chapter = Option.bind start bp_c;
                  vfrom = orElse (Option.bind start bp_v) 1;
                  vto = orElse (Option.bind fin bp_v) vfrom;
                  endBookId = orOption (Option.bind fin bp_b) bookId;
                  endChapter = orOption (Option.bind fin bp_c) chapter
              in case (Option.bind bookId (map_of BOOK_NAMES), bookId, chapter) of
                   (Some name, Some i, Some c) \<Rightarrow>
                     if c \<le> 0 \<or> vfrom \<le> 0 \<or> vto < vfrom \<or> endBookId \<noteq> bookId \<or> endChapter \<noteq> chapter then None
                     else Some \<lparr>vr_bookId = i, vr_bookName = name, vr_chapter = c, vr_from = vfrom, vr_to = vto\<rparr>
                 | _ \<Rightarrow> None)"

section \<open>The data that come with the application\<close>

type_synonym chapterObj = "(string \<times> string) list"

record offlineBook =
  ob_name :: string
  ob_chapters :: "(string \<times> chapterObj) list"

type_synonym offlineData = "(string \<times> offlineBook) list"

record catalogEntry =
  ce_bookid :: nat
  ce_chronorder :: nat
  ce_name :: string
  ce_chapters :: nat
  ce_bookKey :: string

record offlineVerse =
  ov_bookId :: string
  ov_bookName :: string
  ov_chapter :: int
  ov_verse :: int
  ov_text :: string

text \<open>\<open>Number\<close> of a key of the data, which are decimal numbers\<close>

definition keyNumber :: "string \<Rightarrow> int option" where
  "keyNumber s = (if s \<noteq> [] \<and> list_all is_digit s then Some (int (digits_value s)) else None)"

definition toSortedVerses :: "string \<Rightarrow> string \<Rightarrow> int \<Rightarrow> chapterObj \<Rightarrow> offlineVerse list" where
  "toSortedVerses bookId bookName chapter obj =
     sort_key ov_verse
       (List.map_filter (\<lambda>(k, t).
          case keyNumber k of
            None \<Rightarrow> None
          | Some v \<Rightarrow>
              if v > 0 then Some \<lparr>ov_bookId = bookId, ov_bookName = bookName, ov_chapter = chapter, ov_verse = v, ov_text = t\<rparr>
              else None) obj)"

definition listLSG1910Books :: "offlineData \<Rightarrow> catalogEntry list" where
  "listLSG1910Books data = map_idx (\<lambda>idx (bookKey, book).
     \<lparr>ce_bookid = idx + 1, ce_chronorder = idx + 1, ce_name = (if ob_name book = [] then bookKey else ob_name book),
      ce_chapters = length (ob_chapters book), ce_bookKey = bookKey\<rparr>) data"

definition getLSG1910Chapter :: "offlineData \<Rightarrow> int \<Rightarrow> int \<Rightarrow> offlineVerse list option" where
  "getLSG1910Chapter data bookId chapter =
     (case find (\<lambda>e. int (ce_bookid e) = bookId) (listLSG1910Books data) of
        None \<Rightarrow> None
      | Some m \<Rightarrow>
          (case map_of data (ce_bookKey m) of
             None \<Rightarrow> None
           | Some book \<Rightarrow>
               (case map_of (ob_chapters book) (show_int chapter) of
                  None \<Rightarrow> None
                | Some obj \<Rightarrow>
                    let verses = toSortedVerses (ce_bookKey m)
                          (if ob_name book = [] then ce_bookKey m else ob_name book) chapter obj
                    in if verses \<noteq> [] then Some verses else None)))"

text \<open>The loop over the verses; it stops at the first that is missing or empty.\<close>

function takeVerses :: "verseRange \<Rightarrow> chapterObj \<Rightarrow> int \<Rightarrow> offlineVerse list" where
  "takeVerses r obj v =
     (if v > vr_to r then []
      else case map_of obj (show_int v) of
             Some (c # t) \<Rightarrow>
               \<lparr>ov_bookId = vr_bookId r, ov_bookName = vr_bookName r, ov_chapter = vr_chapter r, ov_verse = v,
                ov_text = c # t\<rparr> # takeVerses r obj (v + 1)
           | _ \<Rightarrow> [])"
  by pat_completeness auto
termination
  by (relation "measure (\<lambda>(r, obj, v). nat (vr_to r - v + 1))") auto

declare takeVerses.simps [simp del]

definition lookupLSG1910 ::
  "(string \<Rightarrow> (bcvPoint option \<times> bcvPoint option) option) \<Rightarrow> offlineData \<Rightarrow> string
     \<Rightarrow> (string \<times> offlineVerse list) option" where
  "lookupLSG1910 bcv data reference =
     (case parseReference bcv reference of
        None \<Rightarrow> None
      | Some r \<Rightarrow>
          (case map_of data (vr_bookId r) of
             None \<Rightarrow> None
           | Some book \<Rightarrow>
               (case map_of (ob_chapters book) (show_int (vr_chapter r)) of
                  None \<Rightarrow> None
                | Some obj \<Rightarrow>
                    let verses = takeVerses r obj (vr_from r)
                    in if verses = [] then None
                       else Some (vr_bookName r @ '' '' @ show_int (vr_chapter r) @ '':'' @ show_int (vr_from r)
                              @ (if length verses > 1 then ''-'' @ show_int (ov_verse (last verses)) else []), verses))))"

section \<open>What a reference looks up\<close>

lemma parseReference_ok:
  assumes "parseReference bcv input = Some r"
  shows "map_of BOOK_NAMES (vr_bookId r) = Some (vr_bookName r)" and "0 < vr_chapter r" and "0 < vr_from r"
    and "vr_from r \<le> vr_to r"
proof -
  let ?b = "Option.bind (Option.bind (bcv (trim input)) fst) bp_b"
  obtain name i c where "Option.bind ?b (map_of BOOK_NAMES) = Some name" "?b = Some i"
      "Option.bind (Option.bind (bcv (trim input)) fst) bp_c = Some c"
    using assms by (auto simp: parseReference_def Let_def simp del: Option.bind_assoc split: if_splits option.splits)
  then show "map_of BOOK_NAMES (vr_bookId r) = Some (vr_bookName r)" "0 < vr_chapter r" "0 < vr_from r"
      "vr_from r \<le> vr_to r"
    using assms by (auto simp: parseReference_def Let_def simp del: Option.bind_assoc split: if_splits)
qed

text \<open>The text of a verse that is there and not empty\<close>

definition verseText :: "chapterObj \<Rightarrow> int \<Rightarrow> string option" where
  "verseText obj v = (case map_of obj (show_int v) of Some (c # t) \<Rightarrow> Some (c # t) | _ \<Rightarrow> None)"

definition verseOf :: "verseRange \<Rightarrow> int \<Rightarrow> string \<Rightarrow> offlineVerse" where
  "verseOf r v t = \<lparr>ov_bookId = vr_bookId r, ov_bookName = vr_bookName r, ov_chapter = vr_chapter r, ov_verse = v, ov_text = t\<rparr>"

lemma takeVerses_verses:
  "\<exists>n. takeVerses r obj v = map (\<lambda>k. verseOf r k (the (verseText obj k))) [v..n]
     \<and> (\<forall>k \<in> {v..n}. verseText obj k \<noteq> None) \<and> (n < vr_to r \<longrightarrow> verseText obj (n + 1) = None)
     \<and> v - 1 \<le> n \<and> (v \<le> vr_to r + 1 \<longrightarrow> n \<le> vr_to r)"
proof (induction r obj v rule: takeVerses.induct)
  case (1 r obj v)
  show ?case
  proof (cases "v > vr_to r \<or> verseText obj v = None")
    case True
    then have "takeVerses r obj v = []"
      by (subst takeVerses.simps) (auto simp: verseText_def split: option.splits list.splits)
    then show ?thesis
      using True by (intro exI [of _ "v - 1"]) auto
  next
    case False
    then obtain c t where t: "map_of obj (show_int v) = Some (c # t)" and v: "v \<le> vr_to r"
      by (auto simp: verseText_def split: option.splits list.splits)
    then have step: "takeVerses r obj v = verseOf r v (c # t) # takeVerses r obj (v + 1)"
      by (subst takeVerses.simps) (simp add: verseOf_def)
    from "1.IH" [OF _ t] v obtain n where n:
      "takeVerses r obj (v + 1) = map (\<lambda>k. verseOf r k (the (verseText obj k))) [v + 1..n]"
      "\<forall>k \<in> {v + 1..n}. verseText obj k \<noteq> None" "n < vr_to r \<longrightarrow> verseText obj (n + 1) = None"
      "v \<le> n" "n \<le> vr_to r"
      by auto
    have here: "verseText obj v = Some (c # t)"
      by (simp add: verseText_def t)
    have "takeVerses r obj v = map (\<lambda>k. verseOf r k (the (verseText obj k))) [v..n]"
      using n(4) by (simp add: step n(1) here upto_rec1 [of v n])
    moreover have "\<forall>k \<in> {v..n}. verseText obj k \<noteq> None"
    proof
      fix k assume "k \<in> {v..n}"
      then show "verseText obj k \<noteq> None"
        using n(2) here by (cases "k = v") auto
    qed
    ultimately show ?thesis
      using n(3-5) by (intro exI [of _ n]) auto
  qed
qed

text \<open>
  A reference that finds verses gives those from its first verse up to its last or to the one
  before the first that is missing, without a gap, each with the text of the data, and is labelled
  with what was found.
\<close>

theorem lookup_reads_range:
  assumes "lookupLSG1910 bcv data reference = Some (label, verses)"
  shows "\<exists>r book obj n. parseReference bcv reference = Some r \<and> map_of data (vr_bookId r) = Some book
     \<and> map_of (ob_chapters book) (show_int (vr_chapter r)) = Some obj
     \<and> vr_from r \<le> n \<and> n \<le> vr_to r
     \<and> verses = map (\<lambda>v. verseOf r v (the (verseText obj v))) [vr_from r..n]
     \<and> (\<forall>v \<in> {vr_from r..n}. verseText obj v \<noteq> None) \<and> (n < vr_to r \<longrightarrow> verseText obj (n + 1) = None)
     \<and> label = vr_bookName r @ '' '' @ show_int (vr_chapter r) @ '':'' @ show_int (vr_from r)
                 @ (if n = vr_from r then [] else ''-'' @ show_int n)"
proof -
  obtain r where r: "parseReference bcv reference = Some r"
    using assms by (cases "parseReference bcv reference") (simp_all add: lookupLSG1910_def)
  obtain book where book: "map_of data (vr_bookId r) = Some book"
    using assms by (cases "map_of data (vr_bookId r)") (simp_all add: lookupLSG1910_def r)
  obtain obj where obj: "map_of (ob_chapters book) (show_int (vr_chapter r)) = Some obj"
    using assms by (cases "map_of (ob_chapters book) (show_int (vr_chapter r))") (simp_all add: lookupLSG1910_def r book)
  have v: "verses = takeVerses r obj (vr_from r)" "verses \<noteq> []"
      "label = vr_bookName r @ '' '' @ show_int (vr_chapter r) @ '':'' @ show_int (vr_from r)
         @ (if length verses > 1 then ''-'' @ show_int (ov_verse (last verses)) else [])"
    using assms by (auto simp: lookupLSG1910_def r book obj Let_def split: if_splits)
  obtain n where n: "takeVerses r obj (vr_from r) = map (\<lambda>k. verseOf r k (the (verseText obj k))) [vr_from r..n]"
      "\<forall>k \<in> {vr_from r..n}. verseText obj k \<noteq> None" "n < vr_to r \<longrightarrow> verseText obj (n + 1) = None"
      "vr_from r \<le> vr_to r + 1 \<longrightarrow> n \<le> vr_to r"
    using takeVerses_verses [of r obj "vr_from r"] by blast
  have le: "vr_from r \<le> n"
    using v(1,2) n(1) by (cases "vr_from r \<le> n") simp_all
  have "ov_verse (last verses) = n" "length verses > 1 \<longleftrightarrow> n \<noteq> vr_from r"
    using le by (auto simp: v(1) n(1) last_map upto_rec2 [of "vr_from r" n] verseOf_def)
  then have "label = vr_bookName r @ '' '' @ show_int (vr_chapter r) @ '':'' @ show_int (vr_from r)
         @ (if n = vr_from r then [] else ''-'' @ show_int n)"
    using v(3) by simp
  then show ?thesis
    using r book obj le n v(1) parseReference_ok(4) [OF r] by auto
qed

definition demoBcv :: "string \<Rightarrow> (bcvPoint option \<times> bcvPoint option) option" where
  "demoBcv s = (if s = ''Ps 23:1-9''
     then Some (Some \<lparr>bp_b = Some ''Ps'', bp_c = Some 23, bp_v = Some 1\<rparr>, Some \<lparr>bp_b = Some ''Ps'', bp_c = Some 23, bp_v = Some 9\<rparr>)
     else None)"

definition demoBible :: offlineData where
  "demoBible = [(''Ps'', \<lparr>ob_name = ''Psaumes'', ob_chapters = [(''23'', [(''1'', ''a''), (''2'', ''b''), (''4'', ''d'')])]\<rparr>)]"

lemma demoBible_lookup:
  "lookupLSG1910 demoBcv demoBible '' Ps 23:1-9'' = Some (''Psaumes 23:1-2'',
     [\<lparr>ov_bookId = ''Ps'', ov_bookName = ''Psaumes'', ov_chapter = 23, ov_verse = 1, ov_text = ''a''\<rparr>,
      \<lparr>ov_bookId = ''Ps'', ov_bookName = ''Psaumes'', ov_chapter = 23, ov_verse = 2, ov_text = ''b''\<rparr>])"
  by code_simp

theorem lookup_reads_range_witness:
  "\<exists>r n. parseReference demoBcv '' Ps 23:1-9'' = Some r \<and> vr_from r \<le> n \<and> n \<le> vr_to r
     \<and> ''Psaumes 23:1-2'' = vr_bookName r @ '' '' @ show_int (vr_chapter r) @ '':'' @ show_int (vr_from r)
           @ (if n = vr_from r then [] else ''-'' @ show_int n)"
  using lookup_reads_range [OF demoBible_lookup] by blast

end
