(* ===== verification/Bolls.thy ===== *)
theory Bolls
  imports Bible Dates
begin

text \<open>
  The online Bible of the application (\<open>bible/bollsApi.ts\<close>) and the request of its translations in
  the main process (\<open>main/ipc/bible.ts\<close>): answers of the server \<open>bolls.life\<close>, their copies in the
  store of the browser, and the translation that is there without a network. An answer is a value
  of \<open>fetched\<close>, the argument of each operation.
\<close>

section \<open>Answers and caches\<close>

text \<open>The network failed, the server refused, or the body as the code reads it\<close>

datatype 'a fetched = NetError string | HttpStatus nat | Fetched 'a

record bollsBook =
  bb_bookid :: int
  bb_chronorder :: int
  bb_name :: string
  bb_chapters :: int

record bollsVerse =
  bv_pk :: jsnum
  bv_translation :: string
  bv_book :: jsnum
  bv_chapter :: jsnum
  bv_verse :: jsnum
  bv_text :: string
  bv_comment :: "string option"

record bibleTranslation =
  bt_language :: string
  bt_short_name :: string
  bt_full_name :: string
  bt_dir :: "string option"

definition BOLLS_CACHE_VERSION :: string where
  "BOLLS_CACHE_VERSION = ''2026-02-14-frlsg-v1''"

definition FALLBACK_TRANSLATIONS :: "bibleTranslation list" where
  "FALLBACK_TRANSLATIONS = [\<lparr>bt_language = ''French Fran'' @ [CHR 0xE7] @ ''ais'', bt_short_name = ''FRLSG'',
     bt_full_name = ''Bible Segond 1910'', bt_dir = Some ''ltr''\<rparr>]"

definition OFFLINE_TRANSLATION :: string where
  "OFFLINE_TRANSLATION = ''FRLSG''"

text \<open>
  The variables of the module and the store of the browser, whose entries have the version of the
  code that wrote them. The keys of the three kinds differ, so each kind is a map of its own.
\<close>

record bollsState =
  bl_books :: "string \<rightharpoonup> bollsBook list"
  bl_translations :: "bibleTranslation list option"
  ls_books :: "string \<rightharpoonup> string \<times> bollsBook list"
  ls_chapters :: "string \<rightharpoonup> string \<times> bollsVerse list"
  ls_translations :: "string \<rightharpoonup> string \<times> bibleTranslation list"

definition cacheKey :: "string \<Rightarrow> string option \<Rightarrow> string" where
  "cacheKey kind suffix =
     (case suffix of
        Some (c # s) \<Rightarrow> ''bolls_'' @ BOLLS_CACHE_VERSION @ ''_'' @ kind @ ''_'' @ c # s
      | _ \<Rightarrow> ''bolls_'' @ BOLLS_CACHE_VERSION @ ''_'' @ kind)"

definition readCache :: "(string \<rightharpoonup> string \<times> 'a) \<Rightarrow> string \<Rightarrow> 'a option" where
  "readCache m key =
     (case m key of
        None \<Rightarrow> None
      | Some (version, x) \<Rightarrow> if version \<noteq> BOLLS_CACHE_VERSION then None else Some x)"

definition writeCache :: "string \<Rightarrow> 'a \<Rightarrow> (string \<rightharpoonup> string \<times> 'a) \<Rightarrow> (string \<rightharpoonup> string \<times> 'a)" where
  "writeCache key x m = m(key \<mapsto> (BOLLS_CACHE_VERSION, x))"

section \<open>Texts\<close>

text \<open>\<open>html.replace(/<[^>]+>/g, "")\<close>\<close>

function stripTags :: "string \<Rightarrow> string" where
  "stripTags [] = []"
| "stripTags (c # s) =
     (if c = CHR ''<'' \<and> takeWhile (\<lambda>d. d \<noteq> CHR ''>'') s \<noteq> [] \<and> dropWhile (\<lambda>d. d \<noteq> CHR ''>'') s \<noteq> []
      then stripTags (tl (dropWhile (\<lambda>d. d \<noteq> CHR ''>'') s)) else c # stripTags s)"
  by pat_completeness auto
termination
proof (relation "measure length", simp_all)
  fix s :: string
  have "length (tl (dropWhile (\<lambda>d. d \<noteq> CHR ''>'') s)) \<le> length (dropWhile (\<lambda>d. d \<noteq> CHR ''>'') s)" by simp
  also have "\<dots> \<le> length s" by (rule length_dropWhile_le)
  finally show "length (dropWhile (\<lambda>d. d \<noteq> CHR ''>'') s) - Suc 0 < Suc (length s)" by simp
qed

definition stripHtml :: "string \<Rightarrow> string" where
  "stripHtml html = (if html = [] then [] else trim (collapse js_space (stripTags html)))"

definition normName :: "string \<Rightarrow> string" where
  "normName x = trim (collapse js_space
     (map (\<lambda>c. if is_label_char c \<or> c = CHR '' '' then c else CHR '' '') (stripDiacritics (toLowerCase x))))"

text \<open>What is used when a field of an answer is missing\<close>

record verseFallback =
  vf_translation :: string
  vf_book :: jsnum
  vf_chapter :: jsnum
  vf_verse :: jsnum

definition numOr :: "jsval \<Rightarrow> jsnum \<Rightarrow> jsnum" where
  "numOr v d = (case v of JNum n \<Rightarrow> n | _ \<Rightarrow> d)"

text \<open>\<open>str\<close> is \<open>String\<close> on the values that are not texts.\<close>

definition normalizeVerse :: "(jsval \<Rightarrow> string) \<Rightarrow> (string \<times> jsval) list \<Rightarrow> verseFallback \<Rightarrow> bollsVerse" where
  "normalizeVerse str raw f = \<lparr>
     bv_pk = numOr (jget raw ''pk'') (IntNum 0),
     bv_translation = (case jget raw ''translation'' of JStr s \<Rightarrow> s | _ \<Rightarrow> vf_translation f),
     bv_book = numOr (jget raw ''book'') (vf_book f),
     bv_chapter = numOr (jget raw ''chapter'') (vf_chapter f),
     bv_verse = numOr (jget raw ''verse'') (vf_verse f),
     bv_text = stripHtml (case jget raw ''text'' of JStr s \<Rightarrow> s | v \<Rightarrow> if is_nullish v then [] else str v),
     bv_comment = (case jget raw ''comment'' of JStr s \<Rightarrow> Some s | _ \<Rightarrow> None)\<rparr>"

definition isOfflineTranslation :: "string \<Rightarrow> bool" where
  "isOfflineTranslation translation \<longleftrightarrow> toUpperCase translation = OFFLINE_TRANSLATION"

definition offlineFallbackErrorMessage :: "string \<Rightarrow> string" where
  "offlineFallbackErrorMessage translation =
     ''Connexion indisponible pour '' @ translation @ ''. Bascule sur FRLSG (offline).''"

section \<open>Books\<close>

definition getOfflineBooksFallback :: "offlineData \<Rightarrow> string \<Rightarrow> bollsBook list option" where
  "getOfflineBooksFallback data translation =
     (if \<not> isOfflineTranslation translation then None
      else Some (map (\<lambda>b. \<lparr>bb_bookid = int (ce_bookid b), bb_chronorder = int (ce_chronorder b),
             bb_name = ce_name b, bb_chapters = int (ce_chapters b)\<rparr>) (listLSG1910Books data)))"

definition storeBooks :: "string \<Rightarrow> bollsBook list \<Rightarrow> bollsState \<Rightarrow> bollsState" where
  "storeBooks translation books st = st\<lparr>bl_books := (bl_books st)(translation \<mapsto> books),
     ls_books := writeCache (cacheKey ''books'' (Some translation)) books (ls_books st)\<rparr>"

text \<open>The error of an answer that is not a body\<close>

fun fetchError :: "(nat \<Rightarrow> string) \<Rightarrow> 'a fetched \<Rightarrow> string" where
  "fetchError msgOf (NetError e) = e"
| "fetchError msgOf (HttpStatus n) = msgOf n"
| "fetchError msgOf (Fetched x) = []"

definition fetchBooks ::
  "offlineData \<Rightarrow> string \<Rightarrow> bollsBook list fetched \<Rightarrow> bollsState \<Rightarrow> bollsBook list result \<times> bollsState" where
  "fetchBooks data translation answer st =
     (case answer of
        Fetched books \<Rightarrow> (Inr books, storeBooks translation books st)
      | _ \<Rightarrow>
          (case getOfflineBooksFallback data translation of
             Some books \<Rightarrow> (Inr books, storeBooks translation books st)
           | None \<Rightarrow>
               if \<not> isOfflineTranslation translation then (Inl (offlineFallbackErrorMessage translation), st)
               else (Inl (fetchError (\<lambda>_. ''Traduction inconnue ou indispo ('' @ translation @ '')'') answer), st)))"

text \<open>After a hit in the store the answer of the server is only used by \<open>refreshBooks\<close>.\<close>

definition getBooks ::
  "offlineData \<Rightarrow> string \<Rightarrow> bollsBook list fetched \<Rightarrow> bollsState \<Rightarrow> bollsBook list result \<times> bollsState" where
  "getBooks data translation answer st =
     (case bl_books st translation of
        Some books \<Rightarrow> (Inr books, st)
      | None \<Rightarrow>
          (case readCache (ls_books st) (cacheKey ''books'' (Some translation)) of
             Some books \<Rightarrow> (Inr books, st\<lparr>bl_books := (bl_books st)(translation \<mapsto> books)\<rparr>)
           | None \<Rightarrow> fetchBooks data translation answer st))"

definition refreshBooks :: "offlineData \<Rightarrow> string \<Rightarrow> bollsBook list fetched \<Rightarrow> bollsState \<Rightarrow> bollsState" where
  "refreshBooks data translation answer st =
     (case fetchBooks data translation answer st of
        (Inl _, st) \<Rightarrow> st
      | (Inr fresh, st) \<Rightarrow>
          st\<lparr>ls_books := writeCache (cacheKey ''books'' (Some translation)) fresh (ls_books st)\<rparr>)"

section \<open>Chapters and verses\<close>

definition getOfflineChapterFallback ::
  "(jsval \<Rightarrow> string) \<Rightarrow> offlineData \<Rightarrow> string \<Rightarrow> int \<Rightarrow> int \<Rightarrow> bollsVerse list option" where
  "getOfflineChapterFallback str data translation bookId chapter =
     (if \<not> isOfflineTranslation translation then None
      else case getLSG1910Chapter data bookId chapter of
             None \<Rightarrow> None
           | Some [] \<Rightarrow> None
           | Some (v # vs) \<Rightarrow>
               Some (map (\<lambda>v. normalizeVerse str
                  [(''pk'', JNum (IntNum (int (digits_value (show_int bookId @ padStartN 3 (show_int chapter)
                      @ padStartN 3 (show_int (ov_verse v))))))),
                   (''translation'', JStr translation), (''book'', JNum (IntNum bookId)),
                   (''chapter'', JNum (IntNum chapter)), (''verse'', JNum (IntNum (ov_verse v))), (''text'', JStr (ov_text v))]
                  \<lparr>vf_translation = translation, vf_book = IntNum bookId, vf_chapter = IntNum chapter,
                   vf_verse = IntNum (ov_verse v)\<rparr>) (v # vs)))"

definition chapterKey :: "string \<Rightarrow> int \<Rightarrow> int \<Rightarrow> string" where
  "chapterKey translation bookId chapter =
     cacheKey ''chapter'' (Some (translation @ ''_'' @ show_int bookId @ ''_'' @ show_int chapter))"

definition storeChapter :: "string \<Rightarrow> bollsVerse list \<Rightarrow> bollsState \<Rightarrow> bollsState" where
  "storeChapter key verses st = st\<lparr>ls_chapters := writeCache key verses (ls_chapters st)\<rparr>"

definition readVerses ::
  "(jsval \<Rightarrow> string) \<Rightarrow> string \<Rightarrow> int \<Rightarrow> int \<Rightarrow> (string \<times> jsval) list list \<Rightarrow> bollsVerse list" where
  "readVerses str translation bookId chapter raws = map_idx (\<lambda>idx raw. normalizeVerse str raw
     \<lparr>vf_translation = translation, vf_book = IntNum bookId, vf_chapter = IntNum chapter,
      vf_verse = IntNum (int idx + 1)\<rparr>) raws"

definition getChapter ::
  "(jsval \<Rightarrow> string) \<Rightarrow> offlineData \<Rightarrow> string \<Rightarrow> int \<Rightarrow> int \<Rightarrow> (string \<times> jsval) list list fetched \<Rightarrow> bollsState
     \<Rightarrow> bollsVerse list result \<times> bollsState" where
  "getChapter str data translation bookId chapter answer st =
     (let key = chapterKey translation bookId chapter; cached = readCache (ls_chapters st) key
      in case answer of
           Fetched raws \<Rightarrow>
             (let verses = readVerses str translation bookId chapter raws
              in (Inr verses, storeChapter key verses st))
         | _ \<Rightarrow>
             (case cached of
                Some verses \<Rightarrow> (Inr verses, st)
              | None \<Rightarrow>
                  (case getOfflineChapterFallback str data translation bookId chapter of
                     Some offline \<Rightarrow> (Inr offline, storeChapter key offline st)
                   | None \<Rightarrow>
                       if \<not> isOfflineTranslation translation
                       then (Inl (offlineFallbackErrorMessage translation), st)
                       else (Inl (fetchError (\<lambda>_. ''Chapitre introuvable ('' @ translation @ '' ''
                              @ show_int bookId @ '':'' @ show_int chapter @ '')'') answer), st))))"

definition getVerse ::
  "(jsval \<Rightarrow> string) \<Rightarrow> string \<Rightarrow> int \<Rightarrow> int \<Rightarrow> int \<Rightarrow> (string \<times> jsval) list fetched \<Rightarrow> bollsVerse result" where
  "getVerse str translation bookId chapter verse answer =
     (case answer of
        Fetched raw \<Rightarrow> Inr (normalizeVerse str raw \<lparr>vf_translation = translation, vf_book = IntNum bookId,
           vf_chapter = IntNum chapter, vf_verse = IntNum verse\<rparr>)
      | _ \<Rightarrow> Inl (fetchError (\<lambda>_. ''Verset introuvable ('' @ translation @ '' '' @ show_int bookId @ '':''
               @ show_int chapter @ '':'' @ show_int verse @ '')'') answer))"

record searchOptions =
  so_matchCase :: bool
  so_matchWhole :: bool
  so_page :: "int option"
  so_limit :: "int option"
  so_book :: "string option"

text \<open>The address of a search; \<open>encode\<close> is the encoding of \<open>URLSearchParams\<close>. Zero and empty values are left out.\<close>

definition searchUrl :: "(string \<Rightarrow> string) \<Rightarrow> string \<Rightarrow> string \<Rightarrow> searchOptions \<Rightarrow> string" where
  "searchUrl encode translation query opts =
     ''https://bolls.life/v2/find/'' @ translation @ ''?'' @ join ''&'' (map (\<lambda>(k, v). k @ ''='' @ encode v)
       ([(''search'', query), (''match_case'', if so_matchCase opts then ''true'' else ''false''),
         (''match_whole'', if so_matchWhole opts then ''true'' else ''false'')]
        @ (case so_page opts of None \<Rightarrow> [] | Some p \<Rightarrow> if p = 0 then [] else [(''page'', show_int p)])
        @ (case so_limit opts of None \<Rightarrow> [] | Some l \<Rightarrow> if l = 0 then [] else [(''limit'', show_int l)])
        @ (case so_book opts of None \<Rightarrow> [] | Some b \<Rightarrow> if b = [] then [] else [(''book'', b)])))"

record findResult =
  fr_total :: nat
  fr_exact_matches :: nat
  fr_results :: "bollsVerse list"

definition searchVerses :: "findResult fetched \<Rightarrow> findResult result" where
  "searchVerses answer =
     (case answer of
        Fetched r \<Rightarrow> Inr (r\<lparr>fr_results := map (\<lambda>v. v\<lparr>bv_text := stripHtml (bv_text v)\<rparr>) (fr_results r)\<rparr>)
      | _ \<Rightarrow> Inl (fetchError (\<lambda>n. ''Recherche impossible ('' @ show_nat n @ '')'') answer))"

record versesRequest =
  vq_translation :: string
  vq_book :: int
  vq_chapter :: int
  vq_verses :: "int list"

definition getVersesBatch ::
  "(jsval \<Rightarrow> string) \<Rightarrow> versesRequest list \<Rightarrow> (string \<times> jsval) list list list fetched \<Rightarrow> bollsVerse list list result" where
  "getVersesBatch str payload answer =
     (case answer of
        Fetched arrs \<Rightarrow> Inr (map_idx (\<lambda>idx arr. map_idx (\<lambda>vi raw. normalizeVerse str raw
           (if idx < length payload
            then let q = payload ! idx
                 in \<lparr>vf_translation = vq_translation q, vf_book = IntNum (vq_book q), vf_chapter = IntNum (vq_chapter q),
                     vf_verse = IntNum (if vi < length (vq_verses q) then vq_verses q ! vi else int vi + 1)\<rparr>
            else \<lparr>vf_translation = [], vf_book = IntNum 0, vf_chapter = IntNum 0, vf_verse = IntNum (int vi + 1)\<rparr>)) arr) arrs)
      | _ \<Rightarrow> Inl (fetchError (\<lambda>n. ''Batch verses KO ('' @ show_nat n @ '')'') answer))"

section \<open>Names and labels\<close>

definition findBookIdByName :: "bollsBook list \<Rightarrow> string \<Rightarrow> bollsBook option" where
  "findBookIdByName books search =
     find (\<lambda>b. normName (bb_name b) = normName search \<or> startsWith (normName (bb_name b)) (normName search)) books"

definition maxChapter :: "bollsBook list \<Rightarrow> int \<Rightarrow> int option" where
  "maxChapter books bookId = map_option bb_chapters (find (\<lambda>b. bb_bookid b = bookId) books)"

definition buildReferenceLabel :: "bollsBook option \<Rightarrow> int \<Rightarrow> int list option \<Rightarrow> string" where
  "buildReferenceLabel book chapter verses =
     (case book of
        None \<Rightarrow> []
      | Some b \<Rightarrow>
          bb_name b @ '' '' @ show_int chapter
          @ (case verses of
               None \<Rightarrow> []
             | Some [] \<Rightarrow> []
             | Some [v] \<Rightarrow> '':'' @ show_int v
             | Some vs \<Rightarrow> '':'' @ show_int (Min (set vs)) @ ''-'' @ show_int (Max (set vs))))"

text \<open>\<open>fmt\<close> is the text of a number.\<close>

definition versesToText :: "(jsnum \<Rightarrow> string) \<Rightarrow> bollsVerse list \<Rightarrow> string" where
  "versesToText fmt verses = join [newline, newline]
     (map (\<lambda>v. fmt (bv_chapter v) @ '':'' @ fmt (bv_verse v) @ ''  '' @ trim (bv_text v)) verses)"

section \<open>Translations\<close>

text \<open>The groups of the server: a language with its translations, if it has any\<close>

type_synonym languageGroup = "string \<times> (string \<times> string \<times> string option) list option"

definition flatGroups :: "languageGroup list \<Rightarrow> bibleTranslation list" where
  "flatGroups groups = concat (map (\<lambda>(language, ts). map (\<lambda>(short, full, dir).
     \<lparr>bt_language = language, bt_short_name = short, bt_full_name = full, bt_dir = dir\<rparr>) (orElse ts [])) groups)"

text \<open>\<open>bible:listTranslations\<close> of the main process\<close>

definition bibleListTranslations :: "languageGroup list fetched \<Rightarrow> languageGroup list result" where
  "bibleListTranslations answer =
     (case answer of
        Fetched groups \<Rightarrow> Inr groups
      | _ \<Rightarrow> Inl (fetchError (\<lambda>n. ''HTTP '' @ show_nat n) answer))"

definition storeTranslations :: "bibleTranslation list \<Rightarrow> bollsState \<Rightarrow> bollsState" where
  "storeTranslations flat st = st\<lparr>bl_translations := Some flat,
     ls_translations := writeCache (cacheKey ''translations'' None) flat (ls_translations st)\<rparr>"

text \<open>
  \<open>bridge\<close> is the answer of the main process, \<open>Inl\<close> when the call itself fails; \<open>direct\<close> that of the
  server to the renderer, which is asked when the first gave nothing.
\<close>

definition listTranslations ::
  "languageGroup list result result \<Rightarrow> languageGroup list fetched \<Rightarrow> bollsState
     \<Rightarrow> bibleTranslation list \<times> bollsState" where
  "listTranslations bridge direct st =
     (case bl_translations st of
        Some ts \<Rightarrow> (ts, st)
      | None \<Rightarrow>
          let cached = readCache (ls_translations st) (cacheKey ''translations'' None);
              known = orElse cached [];
              st = (if known \<noteq> [] then st\<lparr>bl_translations := Some known\<rparr> else st);
              second = (case direct of
                  Fetched groups \<Rightarrow> (flatGroups groups, storeTranslations (flatGroups groups) st)
                | _ \<Rightarrow> (if known \<noteq> [] then known else FALLBACK_TRANSLATIONS, st))
          in case bridge of
               Inr (Inr groups) \<Rightarrow> (flatGroups groups, storeTranslations (flatGroups groups) st)
             | Inr (Inl e) \<Rightarrow> second
             | Inl e \<Rightarrow> if known \<noteq> [] then (known, st) else second)"

section \<open>Reading without a network\<close>

text \<open>The operations that the application runs in any order\<close>

datatype bollsOp =
    GetBooks string "bollsBook list fetched"
  | RefreshBooks string "bollsBook list fetched"
  | GetChapter string int int "(string \<times> jsval) list list fetched"
  | ListTranslations "languageGroup list result result" "languageGroup list fetched"

fun bollsStep :: "(jsval \<Rightarrow> string) \<Rightarrow> offlineData \<Rightarrow> bollsOp \<Rightarrow> bollsState \<Rightarrow> bollsState" where
  "bollsStep str data (GetBooks t a) st = snd (getBooks data t a st)"
| "bollsStep str data (RefreshBooks t a) st = refreshBooks data t a st"
| "bollsStep str data (GetChapter t b c a) st = snd (getChapter str data t b c a st)"
| "bollsStep str data (ListTranslations a d) st = snd (listTranslations a d st)"

definition notFetched :: "'a fetched \<Rightarrow> bool" where
  "notFetched a = (case a of Fetched _ \<Rightarrow> False | _ \<Rightarrow> True)"

lemma readCache_write [simp]:
  "readCache (writeCache key x m) k = (if k = key then Some x else readCache m k)"
  by (simp add: readCache_def writeCache_def)

lemma storeBooks_chapters [simp]: "ls_chapters (storeBooks t b st) = ls_chapters st"
  by (simp add: storeBooks_def)

lemma fetchBooks_chapters: "ls_chapters (snd (fetchBooks data t a st)) = ls_chapters st"
  by (simp add: fetchBooks_def split: fetched.splits option.splits)

lemma getBooks_chapters: "ls_chapters (snd (getBooks data t a st)) = ls_chapters st"
  by (simp add: getBooks_def fetchBooks_chapters split: option.splits)

lemma refreshBooks_chapters: "ls_chapters (refreshBooks data t a st) = ls_chapters st"
  using fetchBooks_chapters [of data t a st]
  by (cases "fetchBooks data t a st") (auto simp: refreshBooks_def split: sum.splits)

lemma listTranslations_chapters: "ls_chapters (snd (listTranslations a d st)) = ls_chapters st"
  by (simp add: listTranslations_def storeTranslations_def Let_def split: option.splits sum.splits fetched.splits)

lemma getChapter_cached:
  assumes "notFetched a" and "readCache (ls_chapters st) (chapterKey t b c) = Some vs"
  shows "getChapter str data t b c a st = (Inr vs, st)"
  using assms by (simp add: getChapter_def notFetched_def Let_def split: fetched.splits)

lemma getChapter_stores:
  assumes "getChapter str data t b c a st = (Inr vs, st')"
  shows "readCache (ls_chapters st') (chapterKey t b c) = Some vs"
  using assms
  by (auto simp: getChapter_def storeChapter_def Let_def split: fetched.splits option.splits if_splits)

lemma getChapter_keeps:
  assumes "readCache (ls_chapters st) k \<noteq> None"
  shows "readCache (ls_chapters (snd (getChapter str data t b c a st))) k \<noteq> None"
  using assms
  by (simp add: getChapter_def storeChapter_def Let_def split: fetched.splits option.splits if_splits)

lemma step_keeps:
  "readCache (ls_chapters st) k \<noteq> None \<Longrightarrow> readCache (ls_chapters (bollsStep str data op st)) k \<noteq> None"
  by (cases op)
     (simp_all add: getBooks_chapters refreshBooks_chapters listTranslations_chapters getChapter_keeps del: not_None_eq)

lemma steps_keep:
  "readCache (ls_chapters st) k \<noteq> None \<Longrightarrow>
     readCache (ls_chapters (fold (bollsStep str data) ops st)) k \<noteq> None"
  by (induction ops arbitrary: st) (simp_all add: step_keeps del: not_None_eq)

text \<open>
  A chapter that was read once stays readable: after any further operations, whatever the
  server answered them, it is read when the network is down; and read again at once it has the
  same verses.
\<close>

theorem read_chapter_stays_readable:
  assumes "getChapter str data t b c a st = (Inr vs, st')" and "notFetched a'"
  shows "getChapter str data t b c a' st' = (Inr vs, st')
     \<and> (\<exists>ws. getChapter str data t b c a' (fold (bollsStep str data) ops st')
              = (Inr ws, fold (bollsStep str data) ops st'))"
proof
  note stored = getChapter_stores [OF assms(1)]
  then show "getChapter str data t b c a' st' = (Inr vs, st')"
    by (rule getChapter_cached [OF assms(2)])
  have "readCache (ls_chapters (fold (bollsStep str data) ops st')) (chapterKey t b c) \<noteq> None"
    using stored by (intro steps_keep) simp
  then show "\<exists>ws. getChapter str data t b c a' (fold (bollsStep str data) ops st')
              = (Inr ws, fold (bollsStep str data) ops st')"
    using getChapter_cached [OF assms(2)] by blast
qed

definition freshBolls :: bollsState where
  "freshBolls = \<lparr>bl_books = Map.empty, bl_translations = None, ls_books = Map.empty, ls_chapters = Map.empty,
     ls_translations = Map.empty\<rparr>"

theorem read_chapter_stays_readable_witness:
  "\<exists>vs st'. getChapter (\<lambda>_. []) demoBible ''WEB'' 1 23 (Fetched [[(''text'', JStr ''<b>a</b> b'')]]) freshBolls = (Inr vs, st')
     \<and> map bv_text vs = [''a b'']
     \<and> getChapter (\<lambda>_. []) demoBible ''WEB'' 1 23 (NetError ''down'') st' = (Inr vs, st')"
proof -
  let ?run = "getChapter (\<lambda>_. []) demoBible ''WEB'' 1 23 (Fetched [[(''text'', JStr ''<b>a</b> b'')]]) freshBolls"
  have texts: "map bv_text (readVerses (\<lambda>_. []) ''WEB'' 1 23 [[(''text'', JStr ''<b>a</b> b'')]]) = [''a b'']"
    by code_simp
  obtain vs st' where run: "?run = (Inr vs, st')" "map bv_text vs = [''a b'']"
    using texts by (simp add: getChapter_def Let_def)
  from read_chapter_stays_readable [OF run(1), of "NetError ''down''" "[]"] run show ?thesis
    by (auto simp: notFetched_def)
qed

text \<open>No body, no copy, and not a chapter of the translation that comes with the application\<close>

definition unreadable ::
  "offlineData \<Rightarrow> string \<Rightarrow> int \<Rightarrow> int \<Rightarrow> 'a fetched \<Rightarrow> bollsState \<Rightarrow> bool" where
  "unreadable data t b c a st \<longleftrightarrow> notFetched a \<and> readCache (ls_chapters st) (chapterKey t b c) = None
     \<and> (isOfflineTranslation t \<longrightarrow> getLSG1910Chapter data b c \<in> {None, Some []})"

lemma offline_chapter_None:
  "getOfflineChapterFallback str data t b c = None \<longleftrightarrow>
     (isOfflineTranslation t \<longrightarrow> getLSG1910Chapter data b c \<in> {None, Some []})"
  by (auto simp: getOfflineChapterFallback_def split: option.splits list.splits)

text \<open>
  Reading a chapter fails exactly if the server gives no body, the store has no copy and the
  chapter is not one of the translation that is there without a network; a failure changes
  nothing, and for another translation it says that the connection is missing.
\<close>

theorem chapter_fails_exactly:
  "case getChapter str data t b c a st of
     (Inl e, st') \<Rightarrow> unreadable data t b c a st \<and> st' = st
        \<and> (isOfflineTranslation t \<or> e = offlineFallbackErrorMessage t)
   | (Inr vs, st') \<Rightarrow> \<not> unreadable data t b c a st"
  unfolding unreadable_def offline_chapter_None [of str, symmetric]
  by (simp add: getChapter_def notFetched_def Let_def split: fetched.splits option.splits)

section \<open>What the search of a book gives\<close>

text \<open>An empty name, or one without letters and digits, finds the first book.\<close>

lemma empty_name_finds_first:
  "normName search = [] \<Longrightarrow> findBookIdByName (b # bs) search = Some b"
  by (simp add: findBookIdByName_def)

text \<open>A book whose name begins with the search hides a later one that is named so.\<close>

lemma prefix_hides_exact_name:
  "findBookIdByName
     [\<lparr>bb_bookid = 57, bb_chronorder = 57, bb_name = ''Judas'', bb_chapters = 1\<rparr>,
      \<lparr>bb_bookid = 7, bb_chronorder = 7, bb_name = ''Juda'', bb_chapters = 1\<rparr>] ''Juda''
   = Some \<lparr>bb_bookid = 57, bb_chronorder = 57, bb_name = ''Judas'', bb_chapters = 1\<rparr>"
  by code_simp

end
