(* ===== verification/Projector.thy ===== *)
theory Projector
  imports Handlers PlanStore
begin

text \<open>
  How the control window projects an item of a plan (\<open>lib/projection.ts\<close>, \<open>projection/target.ts\<close>,
  \<open>projection/routing.ts\<close>, \<open>lib/liveProjection.ts\<close>). The calls of the main process are its
  handlers, so a projection ends in a change of the screens or in nothing. \<open>windows\<close> are the
  projection windows that are open.
\<close>

section \<open>The main process as the control window sees it\<close>

record projectorState =
  pj_app :: appState
  pj_windows :: "screenKey \<Rightarrow> bool"

record screenMeta =
  sc_key :: screenKey
  sc_isOpen :: bool
  sc_mirror :: screenMirrorMode

definition screensList :: "projectorState \<Rightarrow> screenMeta list" where
  "screensList st = map (\<lambda>k. \<lparr>sc_key = k, sc_isOpen = pj_windows st k, sc_mirror = mirrors (rt_ctx (pj_app st)) k\<rparr>)
     SCREEN_KEYS"

definition openWindow :: "screenKey \<Rightarrow> projectorState \<Rightarrow> projectorState" where
  "openWindow k st = st\<lparr>pj_windows := (pj_windows st)(k := True)\<rparr>"

text \<open>A content handler of the main process: that of screen A or that of all screens\<close>

datatype content = TextContent jsval | MediaContent jsval

definition sendContent ::
  "(rat \<Rightarrow> string) \<Rightarrow> (screenKey \<Rightarrow> int) \<Rightarrow> content \<Rightarrow> screenKey \<Rightarrow> projectorState
     \<Rightarrow> (screenMutationResult \<times> projectorState) result" where
  "sendContent fmt now c k st =
     andThen (case c of
         TextContent v \<Rightarrow>
           if k = ScreenA then projectionSetContentText fmt now v (pj_app st)
           else screensSetContentText fmt now (JStr (screenName k)) v (pj_app st)
       | MediaContent v \<Rightarrow>
           if k = ScreenA then projectionSetContentMedia now v (pj_app st)
           else screensSetContentMedia now (JStr (screenName k)) v (pj_app st))
       (\<lambda>(app, r). Inr (r, st\<lparr>pj_app := app\<rparr>))"

section \<open>Routing\<close>

definition shouldSkipProjection :: "screenKey \<Rightarrow> (screenKey \<Rightarrow> bool) option \<Rightarrow> bool" where
  "shouldSkipProjection target lockedScreens = (case lockedScreens of None \<Rightarrow> False | Some l \<Rightarrow> l target)"

definition resolveProjectionDestination :: "screenKey \<Rightarrow> screenMeta option \<Rightarrow> screenKey" where
  "resolveProjectionDestination target meta =
     (case meta of
        None \<Rightarrow> target
      | Some m \<Rightarrow> (case sc_mirror m of MIRROR src \<Rightarrow> if target \<noteq> ScreenA then src else target | FREE \<Rightarrow> target))"

definition metaOf :: "screenKey \<Rightarrow> projectorState \<Rightarrow> screenMeta option" where
  "metaOf target st = find (\<lambda>m. sc_key m = target) (screensList st)"

text \<open>\<open>None\<close> is the skipped projection.\<close>

definition resolveProjectionTarget ::
  "screenKey \<Rightarrow> (screenKey \<Rightarrow> bool) option \<Rightarrow> projectorState \<Rightarrow> screenKey option \<times> projectorState" where
  "resolveProjectionTarget target lockedScreens st =
     (if shouldSkipProjection target lockedScreens then (None, st)
      else let meta = metaOf target st;
               st = (if target = ScreenA then openWindow ScreenA st
                     else if \<not> (case meta of None \<Rightarrow> False | Some m \<Rightarrow> sc_isOpen m) then openWindow target st
                     else st)
           in (Some (resolveProjectionDestination target meta), st))"

text \<open>
  \<open>projectTextToScreen\<close> and \<open>projectMediaToScreen\<close>: screen A, or another one and, when it answers
  that it mirrors, the source of the target as it is then.
\<close>

definition projectContent ::
  "(rat \<Rightarrow> string) \<Rightarrow> (screenKey \<Rightarrow> int) \<Rightarrow> content \<Rightarrow> screenKey \<Rightarrow> (screenKey \<Rightarrow> bool) option \<Rightarrow> projectorState
     \<Rightarrow> projectorState result" where
  "projectContent fmt now c target lockedScreens st =
     (case resolveProjectionTarget target lockedScreens st of
        (None, st) \<Rightarrow> Inr st
      | (Some dest, st) \<Rightarrow>
          andThen (sendContent fmt now c dest st) (\<lambda>(r, st).
            if dest = ScreenA then Inr st
            else case r of
                   MutationErr ReasonMirror _ \<Rightarrow>
                     andThen (sendContent fmt now c (resolveProjectionDestination target (metaOf target st)) st)
                       (\<lambda>(_, st). Inr st)
                 | _ \<Rightarrow> Inr st))"

definition optStr :: "string option \<Rightarrow> jsval" where
  "optStr s = (case s of None \<Rightarrow> JUndef | Some x \<Rightarrow> JStr x)"

definition orUndef :: "jsval option \<Rightarrow> jsval" where
  "orUndef v = orElse v JUndef"

definition textPayload :: "string option \<Rightarrow> string \<Rightarrow> jsval \<Rightarrow> jsval option \<Rightarrow> jsval option \<Rightarrow> jsval" where
  "textPayload title body metaSong secondaryTexts backgroundOverride = JObj
     [(''title'', optStr title), (''body'', JStr body), (''metaSong'', metaSong),
      (''secondaryTexts'', orUndef secondaryTexts), (''backgroundOverride'', orUndef backgroundOverride)]"

definition mediaPayload :: "string option \<Rightarrow> string \<Rightarrow> string \<Rightarrow> jsval" where
  "mediaPayload title mediaPath mediaType = JObj
     [(''title'', optStr title), (''mediaPath'', JStr mediaPath), (''mediaType'', JStr mediaType)]"

section \<open>Items of a plan\<close>

text \<open>\<open>readJson\<close> is \<open>JSON.parse\<close>, \<open>None\<close> when it raises.\<close>

definition parsePlanBackground :: "(string \<Rightarrow> jsval option) \<Rightarrow> string option \<Rightarrow> jsval option" where
  "parsePlanBackground readJson backgroundConfig =
     (case backgroundConfig of Some (c # s) \<Rightarrow> readJson (c # s) | _ \<Rightarrow> None)"

definition formatBibleTitle :: "itemRow \<Rightarrow> string" where
  "formatBibleTitle item =
     (let rawTitle = trim (orElse (it_title item) []); reference = trim (orElse (it_refId item) []);
          translation = trim (orElse (it_refSubId item) [])
      in if rawTitle \<noteq> [] then rawTitle
         else if reference = [] then getPlanKindDefaultTitle (it_kind item)
         else if translation \<noteq> [] then reference @ '' ('' @ translation @ '')'' else reference)"

definition inferProjectionTitle :: "itemRow \<Rightarrow> string" where
  "inferProjectionTitle item =
     (if isBiblePlanItemKind (it_kind item) then formatBibleTitle item
      else let rawTitle = trim (orElse (it_title item) [])
           in if rawTitle \<noteq> [] then rawTitle else getPlanKindDefaultTitle (it_kind item))"

text \<open>What counts as true, and the own fields that \<open>{...v}\<close> copies\<close>

fun truthyJs :: "jsval \<Rightarrow> bool" where
  "truthyJs JUndef = False"
| "truthyJs JNull = False"
| "truthyJs (JBool b) = b"
| "truthyJs (JNum n) = (n \<noteq> IntNum 0 \<and> n \<noteq> NaN)"
| "truthyJs (JStr s) = (s \<noteq> [])"
| "truthyJs _ = True"

fun ownFields :: "jsval \<Rightarrow> (string \<times> jsval) list" where
  "ownFields (JObj rec) = rec"
| "ownFields (JArr xs) = map_idx (\<lambda>i v. (show_nat i, v)) xs"
| "ownFields (JStr s) = map_idx (\<lambda>i c. (show_nat i, JStr [c])) s"
| "ownFields _ = []"

text \<open>\<open>{...a, ...b}\<close>; the fields of \<open>b\<close> are found first.\<close>

definition backgroundOverrideOf :: "jsval option \<Rightarrow> jsval option \<Rightarrow> jsval option" where
  "backgroundOverrideOf planBackground itemBg =
     (let a = orUndef planBackground; b = orUndef itemBg
      in if truthyJs a \<or> truthyJs b then Some (JObj (ownFields b @ ownFields a)) else None)"

definition mediaTypeOfKind :: "string \<Rightarrow> string option" where
  "mediaTypeOfKind kind =
     (if kind = ''ANNOUNCEMENT_IMAGE'' then Some ''IMAGE'' else if kind = ''ANNOUNCEMENT_PDF'' then Some ''PDF''
      else if kind = ''ANNOUNCEMENT_VIDEO'' then Some ''VIDEO'' else None)"

text \<open>
  \<open>fileExists\<close> is the answer of \<open>files:existsMedia\<close>; a missing file ends in a message with its
  name and nothing else, the first component.
\<close>

definition fileNameOf :: "string \<Rightarrow> string" where
  "fileNameOf path = rev (takeWhile (\<lambda>c. c \<noteq> CHR ''/'' \<and> c \<noteq> CHR 0x5C) (rev path))"

definition projectPlanItemToTarget ::
  "(rat \<Rightarrow> string) \<Rightarrow> (screenKey \<Rightarrow> int) \<Rightarrow> (string \<Rightarrow> jsval option) \<Rightarrow> (string \<Rightarrow> bool) \<Rightarrow> screenKey \<Rightarrow> itemRow
     \<Rightarrow> cpLiveState option \<Rightarrow> jsval option \<Rightarrow> projectorState \<Rightarrow> (string option \<times> projectorState) result" where
  "projectPlanItemToTarget fmt now readJson fileExists target item live planBackground st =
     (let title = inferProjectionTitle item; body = trim (orElse (it_content item) []);
          lockedScreens = map_option lv_lockedScreens live;
          background = backgroundOverrideOf planBackground (parsePlanBackground readJson (it_backgroundConfig item));
          done = (\<lambda>c. andThen (projectContent fmt now c target lockedScreens st) (\<lambda>st. Inr (None, st)))
      in case (mediaTypeOfKind (it_kind item), it_mediaPath item) of
           (Some ty, Some (c # path)) \<Rightarrow>
             if \<not> fileExists (c # path) then Inr (Some (fileNameOf (c # path)), st)
             else done (MediaContent (mediaPayload (Some title) (c # path) ty))
         | _ \<Rightarrow>
             if it_kind item = ''TIMER''
             then done (TextContent (textPayload (Some (''TIMER:'' @ title)) body JUndef None None))
             else done (TextContent (textPayload (Some title) body JUndef
                    (case it_secondaryContent item of Some (c # s) \<Rightarrow> readJson (c # s) | _ \<Rightarrow> None) background)))"

section \<open>Free projection\<close>

definition shouldResetForFreeProjection :: "cpLiveState option \<Rightarrow> bool" where
  "shouldResetForFreeProjection live =
     (case live of None \<Rightarrow> False
      | Some l \<Rightarrow> lv_enabled l \<and> (lv_planId l \<noteq> None \<or> lv_black l \<or> lv_white l))"

definition freePayload :: "cpLiveState \<Rightarrow> jsval" where
  "freePayload l = JObj ([(''enabled'', JBool True), (''black'', JBool False), (''white'', JBool False)]
     @ (if lv_planId l \<noteq> None then [(''planId'', JNull), (''cursor'', JNum (IntNum 0))] else []))"

text \<open>The live state after it, and the screens\<close>

definition ensureReadyForFreeProjection ::
  "(screenKey \<Rightarrow> int) \<Rightarrow> int \<Rightarrow> cpLiveState option \<Rightarrow> screenContext \<Rightarrow> (screenContext \<times> cpLiveState option) result" where
  "ensureReadyForFreeProjection now t live ctx =
     (if \<not> shouldResetForFreeProjection live then Inr (ctx, live)
      else andThen (liveSet now t (freePayload (the live)) ctx) (\<lambda>(ctx, l). Inr (ctx, Some l)))"

section \<open>Where a projection arrives\<close>

lemma metaOf_key: "metaOf target st = Some \<lparr>sc_key = target, sc_isOpen = pj_windows st target,
    sc_mirror = mirrors (rt_ctx (pj_app st)) target\<rparr>"
  by (cases target) (simp_all add: metaOf_def screensList_def SCREEN_KEYS_def)

text \<open>The screen whose picture the target shows\<close>

definition sourceOf :: "screenContext \<Rightarrow> screenKey \<Rightarrow> screenKey" where
  "sourceOf ctx target =
     (case mirrors ctx target of MIRROR src \<Rightarrow> if target \<noteq> ScreenA then src else target | FREE \<Rightarrow> target)"

lemma resolve_target:
  "resolveProjectionTarget target locked st =
     (if shouldSkipProjection target locked then (None, st)
      else (Some (sourceOf (rt_ctx (pj_app st)) target), openWindow target st))"
  by (auto simp: resolveProjectionTarget_def metaOf_key resolveProjectionDestination_def sourceOf_def
      openWindow_def fun_upd_idem Let_def split: screenMirrorMode.splits)

lemma parse_screenName: "parseScreenKey (JStr (screenName k)) label = Inr k"
  by (cases k) (simp_all add: parseScreenKey_def expectEnum_def expectString_def SCREEN_KEY_NAMES_def
      trim_def trim_left_def trim_right_def js_space_def)

lemma send_text:
  assumes "parseProjectionSetTextPayload fmt v = Inr p"
  shows "sendContent fmt now (TextContent v) k st =
     (let (ctx, r) = setContentText now (rt_ctx (pj_app st)) k p
      in Inr (r, st\<lparr>pj_app := (pj_app st)\<lparr>rt_ctx := ctx\<rparr>\<rparr>))"
  by (simp add: sendContent_def projectionSetContentText_def screensSetContentText_def assms parse_screenName
      onCtx_def Let_def split: prod.splits)

lemma projected_text_result:
  fixes st :: projectorState
  assumes "parseProjectionSetTextPayload fmt v = Inr p" and "\<not> shouldSkipProjection target locked"
    and "ctx = rt_ctx (pj_app st)" and "src = sourceOf ctx target" and "mirrors ctx src = FREE"
    and "\<not> lv_lockedScreens (liveState ctx) src"
  shows "\<exists>st'. projectContent fmt now (TextContent v) target locked st = Inr st'
     \<and> pj_windows st' = (pj_windows st)(target := True)
     \<and> (\<forall>k. screenStates (rt_ctx (pj_app st')) k =
           (if k = src \<or> mirrors ctx k = MIRROR src
            then (textUpdate p (screenStates ctx src))\<lparr>ps_updatedAt := now k\<rparr> else screenStates ctx k))
     \<and> (target = src \<or> mirrors ctx target = MIRROR src)
     \<and> mirrors (rt_ctx (pj_app st')) = mirrors ctx \<and> liveState (rt_ctx (pj_app st')) = liveState ctx"
proof -
  have guard: "guardScreen ctx src = None"
    using assms(5,6) by (simp add: guardScreen_None_iff)
  obtain ctx' r where set: "setContentText now ctx src p = (ctx', r)"
    by (cases "setContentText now ctx src p")
  have states: "\<forall>k. screenStates ctx' k = (if k = src \<or> mirrors ctx k = MIRROR src
            then (textUpdate p (screenStates ctx src))\<lparr>ps_updatedAt := now k\<rparr> else screenStates ctx k)"
    and frame: "mirrors ctx' = mirrors ctx" "liveState ctx' = liveState ctx"
    using txtset.setter_screens [OF assms(5,6), of now p] txtset.setter_frame [of now ctx src p] set by simp_all
  have r: "\<exists>s. r = MutationOk s"
    using txtset.setter_commits [OF guard, of now p] set commitScreen_result
    by (metis snd_conv)
  have "sendContent fmt now (TextContent v) src (openWindow target st)
      = Inr (r, (openWindow target st)\<lparr>pj_app := (pj_app st)\<lparr>rt_ctx := ctx'\<rparr>\<rparr>)"
    using set assms(3) by (simp add: send_text [OF assms(1)] openWindow_def)
  then have "projectContent fmt now (TextContent v) target locked st
      = Inr ((openWindow target st)\<lparr>pj_app := (pj_app st)\<lparr>rt_ctx := ctx'\<rparr>\<rparr>)"
    using assms(2,3,4) r by (auto simp: projectContent_def resolve_target)
  moreover have "target = src \<or> mirrors ctx target = MIRROR src"
    using assms(4) by (auto simp: sourceOf_def split: screenMirrorMode.splits)
  ultimately show ?thesis
    using states frame by (intro exI conjI) (assumption | simp add: openWindow_def)+
qed

text \<open>
  C35: A text that the checks accept, projected to a target that is not locked, arrives: the window
  of the target is open and every screen that is the source of the target or mirrors it shows the
  text, the target itself too; no other screen changes. The source, which is the target itself
  when it is free, must be free and not locked.
\<close>

theorem projected_text_arrives:
  fixes st :: projectorState
  assumes "parseProjectionSetTextPayload fmt v = Inr p" and "\<not> shouldSkipProjection target locked"
    and "ctx = rt_ctx (pj_app st)" and "src = sourceOf ctx target" and "mirrors ctx src = FREE"
    and "\<not> lv_lockedScreens (liveState ctx) src"
  shows "\<exists>st'. projectContent fmt now (TextContent v) target locked st = Inr st'
     \<and> pj_windows st' = (pj_windows st)(target := True)
     \<and> (\<forall>k. screenStates (rt_ctx (pj_app st')) k =
           (if k = src \<or> mirrors ctx k = MIRROR src
            then (textUpdate p (screenStates ctx src))\<lparr>ps_updatedAt := now k\<rparr> else screenStates ctx k))
     \<and> (target = src \<or> mirrors ctx target = MIRROR src)
     \<and> mirrors (rt_ctx (pj_app st')) = mirrors ctx \<and> liveState (rt_ctx (pj_app st')) = liveState ctx"
  using assms by (rule projected_text_result)

definition demoProjector :: projectorState where
  "demoProjector = \<lparr>pj_app = sampleApp\<lparr>rt_ctx := initialContext (\<lambda>_. 0) 0\<rparr>, pj_windows = (\<lambda>_. False)\<rparr>"

lemma demo_text_parsed:
  "parseProjectionSetTextPayload fmt (textPayload (Some ''t'') ''x'' JUndef None None)
     = Inr \<lparr>tp_title = Some ''t'', tp_body = ''x'', tp_metaSong = None, tp_secondaryTexts = None,
            tp_backgroundOverride = None\<rparr>"
  by (simp add: parseProjectionSetTextPayload_def textPayload_def optStr_def orUndef_def expectString_def
      expectOptionalString_def parseSongMeta_def Let_def)

theorem projected_text_arrives_witness:
  "\<exists>st'. projectContent (\<lambda>_. []) (\<lambda>_. 1) (TextContent (textPayload (Some ''t'') ''x'' JUndef None None)) ScreenC None
        demoProjector = Inr st'
     \<and> pj_windows st' ScreenC \<and> pc_body (ps_current (screenStates (rt_ctx (pj_app st')) ScreenC)) = Some ''x''"
proof -
  have m: "mirrors (rt_ctx (pj_app demoProjector)) = initialMirrors"
      "\<not> lv_lockedScreens (liveState (rt_ctx (pj_app demoProjector))) ScreenA"
    by (simp_all add: demoProjector_def initialContext_def createDefaultLiveState_def)
  then have s: "sourceOf (rt_ctx (pj_app demoProjector)) ScreenC = ScreenA"
      "mirrors (rt_ctx (pj_app demoProjector)) ScreenA = FREE"
      "mirrors (rt_ctx (pj_app demoProjector)) ScreenC = MIRROR ScreenA"
    by (simp_all add: sourceOf_def initialMirrors_def)
  show ?thesis
    using projected_text_arrives [OF demo_text_parsed [of "\<lambda>_. []"] _ refl refl, where target = ScreenC and locked = None
        and st = demoProjector and now = "\<lambda>_. 1"] s m(2)
    by (auto simp: shouldSkipProjection_def textUpdate_def)
qed

text \<open>
  Before a free projection an enabled live state, as the control window knows it, is reset: it
  stays enabled and is bound to no plan and neither black nor white, and the handler takes every
  such request.
\<close>

theorem free_projection_ready:
  assumes "lv_enabled (liveState ctx)"
  shows "\<exists>ctx' l. ensureReadyForFreeProjection now t (Some (liveState ctx)) ctx = Inr (ctx', Some l)
     \<and> liveState ctx' = l \<and> lv_enabled l \<and> lv_planId l = None \<and> \<not> lv_black l \<and> \<not> lv_white l
     \<and> mirrors ctx' = mirrors ctx"
proof (cases "shouldResetForFreeProjection (Some (liveState ctx))")
  case False
  then show ?thesis
    using assms by (auto simp: ensureReadyForFreeProjection_def shouldResetForFreeProjection_def)
next
  case True
  show ?thesis
  proof (cases "lv_planId (liveState ctx)")
    case None
    then have "parseLiveSetPayload (freePayload (liveState ctx)) = Inr \<lparr>ls_planId = None, ls_cursor = None,
        ls_enabled = Some True, ls_target = None, ls_black = Some False, ls_white = Some False\<rparr>"
      by (simp add: freePayload_def parseLiveSetPayload_def whenIn_def)
    then show ?thesis
      using True None by (simp add: ensureReadyForFreeProjection_def liveSet_def liveSetPatch_def mergeLive_def
          nextLive_def Let_def)
  next
    case (Some p)
    then have "parseLiveSetPayload (freePayload (liveState ctx)) = Inr \<lparr>ls_planId = Some None,
        ls_cursor = Some (Some (IntNum 0)), ls_enabled = Some True, ls_target = None, ls_black = Some False,
        ls_white = Some False\<rparr>"
      by (simp add: freePayload_def parseLiveSetPayload_def whenIn_def orNull_def expectNumber_def)
    then show ?thesis
      using True Some by (simp add: ensureReadyForFreeProjection_def liveSet_def liveSetPatch_def mergeLive_def
          nextLive_def Let_def)
  qed
qed

theorem free_projection_ready_witness:
  "\<exists>ctx' l. ensureReadyForFreeProjection (\<lambda>_. 0) 0 (Some (liveState
        (sampleContext\<lparr>liveState := (createDefaultLiveState 0)\<lparr>lv_enabled := True, lv_planId := Some ''p'', lv_black := True\<rparr>\<rparr>)))
      (sampleContext\<lparr>liveState := (createDefaultLiveState 0)\<lparr>lv_enabled := True, lv_planId := Some ''p'', lv_black := True\<rparr>\<rparr>)
      = Inr (ctx', Some l) \<and> lv_planId l = None \<and> \<not> lv_black l"
  using free_projection_ready [of "sampleContext\<lparr>liveState := (createDefaultLiveState 0)\<lparr>lv_enabled := True,
      lv_planId := Some ''p'', lv_black := True\<rparr>\<rparr>" "\<lambda>_. 0" 0] by auto

section \<open>Projections that are lost\<close>

text \<open>A projection to a locked target does nothing, not even open its window.\<close>

lemma locked_target_skipped:
  "shouldSkipProjection target locked \<Longrightarrow> projectContent fmt now c target locked st = Inr st"
  by (simp add: projectContent_def resolve_target)

text \<open>
  A text for a screen that mirrors another mirroring screen is lost without an error: the answer
  that the source mirrors leads to the same source again.
\<close>

lemma chained_mirror_loses_text:
  assumes "parseProjectionSetTextPayload fmt v = Inr p" and "\<not> shouldSkipProjection target locked"
    and "target \<noteq> ScreenA" and "mirrors (rt_ctx (pj_app st)) target = MIRROR m"
    and "mirrors (rt_ctx (pj_app st)) m \<noteq> FREE"
  shows "\<exists>st'. projectContent fmt now (TextContent v) target locked st = Inr st'
     \<and> rt_ctx (pj_app st') = rt_ctx (pj_app st)"
proof -
  have guard: "setContentText now (rt_ctx (pj_app st)) m p
      = (rt_ctx (pj_app st), MutationErr ReasonMirror (screenStates (rt_ctx (pj_app st)) m))"
    using assms(5) by (simp add: setContentText_def guardScreen_def)
  have send: "sendContent fmt now (TextContent v) m st'
      = Inr (MutationErr ReasonMirror (screenStates (rt_ctx (pj_app st)) m), st')"
    if "rt_ctx (pj_app st') = rt_ctx (pj_app st)" for st' :: projectorState
    using guard that by (simp add: send_text [OF assms(1)])
  have src: "sourceOf (rt_ctx (pj_app st)) target = m"
    using assms(3,4) by (simp add: sourceOf_def)
  have same: "rt_ctx (pj_app (openWindow target st)) = rt_ctx (pj_app st)"
    by (simp add: openWindow_def)
  have again: "resolveProjectionDestination target (metaOf target (openWindow target st)) = m"
    using assms(3,4) by (simp add: metaOf_key resolveProjectionDestination_def same)
  show ?thesis
    using assms(2) src same again send [OF same] by (auto simp: projectContent_def resolve_target)
qed

text \<open>
  A background of an item that the checks of the main process refuse, here one with an empty
  path, keeps the item from being projected at all.
\<close>

lemma bad_background_blocks_item:
  "\<exists>e. sendContent fmt now (TextContent (textPayload title body JUndef None
       (backgroundOverrideOf None (Some (JObj [(''backgroundMedia'', JStr [])]))))) k st = Inl e"
proof -
  have "\<exists>e. parseProjectionSetTextPayload fmt (textPayload title body JUndef None
       (backgroundOverrideOf None (Some (JObj [(''backgroundMedia'', JStr [])])))) = Inl e"
    by (simp add: parseProjectionSetTextPayload_def textPayload_def backgroundOverrideOf_def orUndef_def
        parseCpItemBackground_def whenPresent_def expectString_def invalid_def Let_def)
  then show ?thesis
    by (auto simp: sendContent_def projectionSetContentText_def screensSetContentText_def parse_screenName
        simp del: screenName.simps)
qed

end
