(* ===== verification/Shortcuts.thy ===== *)
theory Shortcuts
  imports Profiles "HOL-Library.AList"
begin

text \<open>
  The keyboard shortcuts of the control window (\<open>lib/shortcuts.ts\<close>, \<open>hooks/useShortcuts.ts\<close> and the
  capture of \<open>ShortcutsDialog.tsx\<close>) over the settings of the main process. The cache of the module
  and the request under way are its state; a step is one event of the window, so the answer of the
  main process arrives in a step of its own and other steps may come before it.
\<close>

section \<open>Actions\<close>

datatype shortcutAction =
  TargetA | TargetB | TargetC | ToggleBlack | ToggleWhite | Resume | Prev | Next | ToggleProjection

record shortcutDef =
  sd_action :: shortcutAction
  sd_label :: string
  sd_defaults :: "keyBinding list"

definition plainKey :: "string \<Rightarrow> keyBinding" where
  "plainKey k = \<lparr>kb_key = k, kb_ctrlKey = None, kb_shiftKey = None\<rparr>"

definition SHORTCUT_DEFS :: "shortcutDef list" where
  "SHORTCUT_DEFS =
     [\<lparr>sd_action = TargetA, sd_label = ''Ecran A'', sd_defaults = [plainKey ''1'']\<rparr>,
      \<lparr>sd_action = TargetB, sd_label = ''Ecran B'', sd_defaults = [plainKey ''2'']\<rparr>,
      \<lparr>sd_action = TargetC, sd_label = ''Ecran C'', sd_defaults = [plainKey ''3'']\<rparr>,
      \<lparr>sd_action = ToggleBlack, sd_label = ''Ecran noir'', sd_defaults = [plainKey ''b'', plainKey ''B'']\<rparr>,
      \<lparr>sd_action = ToggleWhite, sd_label = ''Ecran blanc'', sd_defaults = [plainKey ''w'', plainKey ''W'']\<rparr>,
      \<lparr>sd_action = Resume, sd_label = ''Reprendre (Normal)'', sd_defaults = [plainKey ''r'', plainKey ''R'']\<rparr>,
      \<lparr>sd_action = Prev, sd_label = ''Precedent'',
       sd_defaults = [plainKey ''ArrowLeft'', plainKey ''q'', plainKey ''Q'']\<rparr>,
      \<lparr>sd_action = Next, sd_label = ''Suivant'',
       sd_defaults = [plainKey ''ArrowRight'', plainKey '' '', plainKey ''d'', plainKey ''D'']\<rparr>,
      \<lparr>sd_action = ToggleProjection, sd_label = ''Basculer projection'',
       sd_defaults = [(plainKey ''p'')\<lparr>kb_ctrlKey := Some True\<rparr>]\<rparr>]"

fun actionName :: "shortcutAction \<Rightarrow> string" where
  "actionName TargetA = ''targetA''"
| "actionName TargetB = ''targetB''"
| "actionName TargetC = ''targetC''"
| "actionName ToggleBlack = ''toggleBlack''"
| "actionName ToggleWhite = ''toggleWhite''"
| "actionName Resume = ''resume''"
| "actionName Prev = ''prev''"
| "actionName Next = ''next''"
| "actionName ToggleProjection = ''toggleProjection''"

definition ACTIONS :: "string list" where
  "ACTIONS = map (actionName \<circ> sd_action) SHORTCUT_DEFS"

section \<open>Overrides\<close>

definition sanitizeBinding :: "jsval \<Rightarrow> keyBinding option" where
  "sanitizeBinding value = sanitizeKeyBinding value"

text \<open>One entry of the object; a name that comes again replaces the value in its place.\<close>

fun sanitizeEntry :: "shortcutOverrides \<Rightarrow> string \<times> jsval \<Rightarrow> shortcutOverrides" where
  "sanitizeEntry out (action, JArr rawBindings) =
     (if action \<in> set ACTIONS then AList.update action (List.map_filter sanitizeBinding rawBindings) out else out)"
| "sanitizeEntry out (action, _) = out"

fun sanitizeOverrides :: "jsval \<Rightarrow> shortcutOverrides" where
  "sanitizeOverrides (JObj rec) = foldl sanitizeEntry [] rec"
| "sanitizeOverrides _ = []"

text \<open>
  The module: \<open>overridesCache\<close>, \<open>hydrated\<close> and \<open>hydratingPromise\<close> with the answer that the main
  process gave and that has not arrived yet.
\<close>

record shortcutsModule =
  sm_overridesCache :: shortcutOverrides
  sm_hydrated :: bool
  sm_hydrating :: "shortcutOverrides result option"

definition freshModule :: shortcutsModule where
  "freshModule = \<lparr>sm_overridesCache = [], sm_hydrated = False, sm_hydrating = None\<rparr>"

type_synonym shortcutsWorld = "appState \<times> shortcutsModule"

definition persistOverrides :: "int \<Rightarrow> shortcutOverrides \<Rightarrow> appState \<Rightarrow> appState" where
  "persistOverrides t overrides app = fst (settingsSetShortcuts t (encodeShortcuts overrides) app)"

definition hydrateShortcuts :: "int \<Rightarrow> shortcutsWorld \<Rightarrow> shortcutsWorld" where
  "hydrateShortcuts t w =
     (let (app, m) = w
      in if sm_hydrated m \<or> sm_hydrating m \<noteq> None then w
         else let (app, answer) = settingsGetShortcuts t app in (app, m\<lparr>sm_hydrating := Some answer\<rparr>))"

definition hydrationArrives :: "shortcutsWorld \<Rightarrow> shortcutsWorld" where
  "hydrationArrives w =
     (let (app, m) = w
      in case sm_hydrating m of
           None \<Rightarrow> w
         | Some answer \<Rightarrow>
             (app, m\<lparr>sm_overridesCache := (case answer of Inr shortcuts \<Rightarrow> sanitizeOverrides (encodeShortcuts shortcuts)
                                                       | Inl _ \<Rightarrow> []),
                     sm_hydrated := True, sm_hydrating := None\<rparr>))"

definition getBindings :: "shortcutsModule \<Rightarrow> shortcutAction \<Rightarrow> keyBinding list" where
  "getBindings m action =
     (case map_of (sm_overridesCache m) (actionName action) of
        Some bindings \<Rightarrow> bindings
      | None \<Rightarrow> (case find (\<lambda>d. sd_action d = action) SHORTCUT_DEFS of Some d \<Rightarrow> sd_defaults d | None \<Rightarrow> []))"

definition storeOverrides :: "int \<Rightarrow> shortcutOverrides \<Rightarrow> shortcutsWorld \<Rightarrow> shortcutsWorld" where
  "storeOverrides t overrides w =
     (let (app, m) = w
      in (persistOverrides t overrides app, m\<lparr>sm_overridesCache := overrides, sm_hydrated := True\<rparr>))"

definition setBindings :: "int \<Rightarrow> shortcutAction \<Rightarrow> keyBinding list \<Rightarrow> shortcutsWorld \<Rightarrow> shortcutsWorld" where
  "setBindings t action bindings w =
     storeOverrides t (AList.update (actionName action) bindings (sm_overridesCache (snd w))) w"

definition resetBindings :: "int \<Rightarrow> shortcutAction \<Rightarrow> shortcutsWorld \<Rightarrow> shortcutsWorld" where
  "resetBindings t action w = storeOverrides t (AList.delete (actionName action) (sm_overridesCache (snd w))) w"

definition resetAll :: "int \<Rightarrow> shortcutsWorld \<Rightarrow> shortcutsWorld" where
  "resetAll t w = storeOverrides t [] w"

section \<open>Keys\<close>

record keyboardEvent =
  ke_key :: string
  ke_ctrlKey :: bool
  ke_shiftKey :: bool
  ke_metaKey :: bool

definition matchesBinding :: "keyboardEvent \<Rightarrow> keyBinding \<Rightarrow> bool" where
  "matchesBinding e binding =
     (let wantCtrl = (kb_ctrlKey binding = Some True); hasCtrl = (ke_ctrlKey e \<or> ke_metaKey e);
          wantShift = (kb_shiftKey binding = Some True)
      in if wantCtrl \<noteq> hasCtrl then False
         else if wantShift \<noteq> ke_shiftKey e then False
         else if ke_key e = kb_key binding then True
         else if toLowerCase (ke_key e) = toLowerCase (kb_key binding) then True else False)"

text \<open>The first definition in order with a binding that matches\<close>

fun matchIn :: "shortcutOverrides \<Rightarrow> keyboardEvent \<Rightarrow> shortcutDef list \<Rightarrow> shortcutAction option" where
  "matchIn overrides e [] = None"
| "matchIn overrides e (d # ds) =
     (if list_ex (matchesBinding e) (orElse (map_of overrides (actionName (sd_action d))) (sd_defaults d))
      then Some (sd_action d) else matchIn overrides e ds)"

definition matchAction :: "shortcutsModule \<Rightarrow> keyboardEvent \<Rightarrow> shortcutAction option" where
  "matchAction m e = matchIn (sm_overridesCache m) e SHORTCUT_DEFS"

text \<open>
  The listener of \<open>useShortcuts\<close>: the action that its handler gets. \<open>editable\<close> tells that the target
  of the event takes text.
\<close>

definition onKeyDown :: "bool \<Rightarrow> shortcutsModule \<Rightarrow> keyboardEvent \<Rightarrow> shortcutAction option" where
  "onKeyDown editable m e = (if editable then None else matchAction m e)"

text \<open>\<open>glyph\<close> gives the text of a character that is not in Latin-1.\<close>

definition formatBinding :: "(nat \<Rightarrow> string) \<Rightarrow> keyBinding \<Rightarrow> string" where
  "formatBinding glyph b =
     (let parts = (if kb_ctrlKey b = Some True then [''Ctrl''] else [])
            @ (if kb_shiftKey b = Some True then [''Shift''] else []);
          keyLabel = (if kb_key b = '' '' then ''Espace''
            else if kb_key b = ''ArrowLeft'' then glyph 0x2190
            else if kb_key b = ''ArrowRight'' then glyph 0x2192
            else if kb_key b = ''ArrowUp'' then glyph 0x2191
            else if kb_key b = ''ArrowDown'' then glyph 0x2193
            else if length (kb_key b) = 1 then toUpperCase (kb_key b) else kb_key b)
      in join ''+'' (parts @ [keyLabel]))"

text \<open>
  The dialog while it waits for a key for \<open>capturing\<close>: a modifier alone is ignored, Escape ends the
  capture, any other key becomes the only binding.
\<close>

definition captureKey ::
  "int \<Rightarrow> keyboardEvent \<Rightarrow> shortcutAction \<Rightarrow> shortcutsWorld \<Rightarrow> shortcutAction option \<times> shortcutsWorld" where
  "captureKey t e capturing w =
     (if ke_key e \<in> set [''Control'', ''Shift'', ''Alt'', ''Meta''] then (Some capturing, w)
      else if ke_key e = ''Escape'' then (None, w)
      else (None, setBindings t capturing
              [\<lparr>kb_key = ke_key e, kb_ctrlKey = (if ke_ctrlKey e then Some True else None),
                kb_shiftKey = (if ke_shiftKey e then Some True else None)\<rparr>] w))"

section \<open>Overrides that stay\<close>

definition keysOk :: "keyBinding list \<Rightarrow> bool" where
  "keysOk bs \<longleftrightarrow> (\<forall>b \<in> set bs. kb_key b \<noteq> [])"

definition cacheOk :: "shortcutOverrides \<Rightarrow> bool" where
  "cacheOk c \<longleftrightarrow> distinct (map fst c) \<and> (\<forall>(a, bs) \<in> set c. a \<in> set ACTIONS \<and> keysOk bs)"

lemma actionName_listed [simp]: "actionName a \<in> set ACTIONS"
  by (cases a) (simp_all add: ACTIONS_def SHORTCUT_DEFS_def)

lemma set_update: "e \<in> set (AList.update k v al) \<Longrightarrow> e = (k, v) \<or> e \<in> set al"
  by (induction al) (auto split: if_splits)

lemma cacheOk_update: "cacheOk c \<Longrightarrow> a \<in> set ACTIONS \<Longrightarrow> keysOk bs \<Longrightarrow> cacheOk (AList.update a bs c)"
  by (auto simp: cacheOk_def distinct_update dest!: set_update)

lemma cacheOk_delete: "cacheOk c \<Longrightarrow> cacheOk (AList.delete a c)"
  by (auto simp: cacheOk_def AList.delete_eq distinct_map_filter)

lemma cacheOk_filter: "cacheOk c \<Longrightarrow> cacheOk (filter P c)"
  by (auto simp: cacheOk_def distinct_map_filter)

lemma bindings_written: "keysOk bs \<Longrightarrow> List.map_filter sanitizeBinding (map encodeKeyBinding bs) = bs"
  by (rule map_filter_map_id) (simp add: keysOk_def sanitizeBinding_def keyBinding_written)

lemma update_fresh: "k \<notin> fst ` set al \<Longrightarrow> AList.update k v al = al @ [(k, v)]"
  by (induction al) auto

text \<open>What the renderer reads of its own overrides, and of those of the main process\<close>

lemma overrides_written: "cacheOk c \<Longrightarrow> sanitizeOverrides (encodeShortcuts c) = c"
proof (induction c rule: rev_induct)
  case (snoc e c)
  obtain a bs where e: "e = (a, bs)" by (cases e)
  have "cacheOk c" and "a \<in> set ACTIONS" and "keysOk bs" and "a \<notin> fst ` set c"
    using snoc.prems by (auto simp: cacheOk_def e)
  then show ?case
    using snoc.IH by (simp add: encodeShortcuts_def e bindings_written update_fresh)
qed (simp add: encodeShortcuts_def)

lemma overrides_ok: "shortcutsOk sc \<Longrightarrow>
    cacheOk (sanitizeOverrides (encodeShortcuts sc)) \<and> (\<forall>(a, bs) \<in> set (sanitizeOverrides (encodeShortcuts sc)). bs \<noteq> [])"
proof (induction sc rule: rev_induct)
  case (snoc e sc)
  obtain a bs where e: "e = (a, bs)" by (cases e)
  have ok: "shortcutsOk sc" and bs: "bs \<noteq> []" "keysOk bs"
    using snoc.prems by (auto simp: shortcutsOk_def keysOk_def e)
  have "sanitizeOverrides (encodeShortcuts (sc @ [e])) =
      (if a \<in> set ACTIONS then AList.update a bs (sanitizeOverrides (encodeShortcuts sc))
       else sanitizeOverrides (encodeShortcuts sc))"
    using bs(2) by (simp add: encodeShortcuts_def e bindings_written)
  then show ?case
    using snoc.IH [OF ok] bs by (auto intro: cacheOk_update dest!: set_update)
qed (simp add: encodeShortcuts_def cacheOk_def)

lemma bindings_sanitized:
  "keysOk bs \<Longrightarrow> sanitizeBindings (a, JArr (map encodeKeyBinding bs)) = (if bs = [] then None else Some (a, bs))"
  using bindings_written [of bs] by (simp add: sanitizeBinding_def [abs_def] Let_def)

lemma main_keeps_nonempty:
  "cacheOk c \<Longrightarrow> sanitizeShortcutOverrides (encodeShortcuts c) = filter (\<lambda>(a, bs). bs \<noteq> []) c"
proof (induction c)
  case (Cons e c)
  obtain a bs where e: "e = (a, bs)" by (cases e)
  have "cacheOk c" and "keysOk bs"
    using Cons.prems by (auto simp: cacheOk_def e)
  then show ?case
    using Cons.IH by (simp add: encodeShortcuts_def e bindings_sanitized List.map_filter_simps del: sanitizeBindings.simps)
qed (simp add: encodeShortcuts_def List.map_filter_simps)

lemma read_shortcuts_ok: "shortcutsOk (readShortcutsConfig t st)"
  using read_settingsOk [of t st]
  by (cases "sg_shortcuts (readSettingsConfig t st)")
    (simp_all add: readShortcutsConfig_def settingsOk_def fieldOk_def shortcutsOk_def)

lemma read_shortcuts_any_time: "readShortcutsConfig t' st = readShortcutsConfig t st"
  by (auto simp: readShortcutsConfig_def readSettingsConfig_def emptySettings_def
      split: option.splits jsval.splits)

lemma shortcuts_stored:
  "readShortcutsConfig t' (writeShortcutsConfig t sc st) = sanitizeShortcutOverrides (encodeShortcuts sc)"
proof -
  have "settingsOk ((readSettingsConfig t st)\<lparr>sg_shortcuts := Some (sanitizeShortcutOverrides (encodeShortcuts sc))\<rparr>)"
    using read_settingsOk [of t st] shortcuts_ok by (simp add: settingsOk_def fieldOk_def)
  then show ?thesis
    by (simp add: readShortcutsConfig_def writeShortcutsConfig_def read_patched [where f = "sg_shortcuts_update _"])
qed

lemma persisted:
  assumes "cacheOk c"
  shows "readShortcutsConfig t' (rt_store (persistOverrides t c app)) = filter (\<lambda>(a, bs). bs \<noteq> []) c"
proof -
  have ok: "cacheOk (filter (\<lambda>(a, bs). bs \<noteq> []) c)"
    using assms by (rule cacheOk_filter)
  have "filter (\<lambda>(a, bs). bs \<noteq> []) (filter (\<lambda>(a, bs). bs \<noteq> []) c) = filter (\<lambda>(a, bs). bs \<noteq> []) c"
    by simp
  then show ?thesis
    using main_keeps_nonempty [OF assms] main_keeps_nonempty [OF ok]
    by (simp add: persistOverrides_def settingsSetShortcuts_def Let_def shortcuts_stored)
qed

section \<open>Sessions\<close>

text \<open>The control window when it has loaded, and the changes that its user makes\<close>

definition openControl :: "int \<Rightarrow> appState \<Rightarrow> shortcutsWorld" where
  "openControl t app = hydrationArrives (hydrateShortcuts t (app, freshModule))"

datatype change = SetTo shortcutAction "keyBinding list" | ResetOne shortcutAction | ResetEvery

fun applyChange :: "int \<Rightarrow> shortcutsWorld \<Rightarrow> change \<Rightarrow> shortcutsWorld" where
  "applyChange t w (SetTo a bs) = setBindings t a bs w"
| "applyChange t w (ResetOne a) = resetBindings t a w"
| "applyChange t w ResetEvery = resetAll t w"

fun changeOk :: "change \<Rightarrow> bool" where
  "changeOk (SetTo a bs) = keysOk bs"
| "changeOk _ = True"

text \<open>The cache and the settings agree up to actions without a binding.\<close>

definition settled :: "shortcutsWorld \<Rightarrow> bool" where
  "settled w \<longleftrightarrow> cacheOk (sm_overridesCache (snd w))
     \<and> (\<forall>t. sanitizeOverrides (encodeShortcuts (readShortcutsConfig t (rt_store (fst w))))
             = filter (\<lambda>(a, bs). bs \<noteq> []) (sm_overridesCache (snd w)))"

lemma openControl_eq:
  "openControl t app = (app, \<lparr>sm_overridesCache = sanitizeOverrides (encodeShortcuts (readShortcutsConfig t (rt_store app))),
     sm_hydrated = True, sm_hydrating = None\<rparr>)"
  by (simp add: openControl_def hydrateShortcuts_def hydrationArrives_def freshModule_def settingsGetShortcuts_def)

lemma openControl_settled: "settled (openControl t app)"
proof -
  have nonempty: "cacheOk c \<and> (\<forall>(a, bs) \<in> set c. bs \<noteq> []) \<Longrightarrow> filter (\<lambda>(a, bs). bs \<noteq> []) c = c"
    for c :: shortcutOverrides
    by (auto intro!: filter_True)
  show ?thesis
    using overrides_ok [OF read_shortcuts_ok, of t "rt_store app"] read_shortcuts_any_time [of _ "rt_store app" t]
      nonempty [OF overrides_ok [OF read_shortcuts_ok, of t "rt_store app"]]
    by (simp add: settled_def openControl_eq) metis
qed

lemma stored_settled: "cacheOk c \<Longrightarrow> settled (storeOverrides t c w)"
  by (cases w) (simp add: settled_def storeOverrides_def persisted overrides_written cacheOk_filter)

lemma change_settled: "settled w \<Longrightarrow> changeOk c \<Longrightarrow> settled (applyChange t w c)"
  by (cases c) (auto simp: setBindings_def resetBindings_def resetAll_def settled_def [of w]
      intro!: stored_settled cacheOk_update cacheOk_delete, simp add: cacheOk_def)

lemma changes_settled: "settled w \<Longrightarrow> list_all changeOk cs \<Longrightarrow> settled (foldl (applyChange t) w cs)"
  by (induction cs arbitrary: w) (simp_all add: change_settled)

lemma lookup_filter:
  "distinct (map fst c) \<Longrightarrow> map_of (filter (\<lambda>(a, bs). bs \<noteq> []) c) k = (case map_of c k of Some [] \<Rightarrow> None | v \<Rightarrow> v)"
  by (induction c) (auto simp: map_of_eq_None_iff split: option.splits list.splits)

text \<open>
  C38: A session of changes to the shortcuts after the first reading of the settings, whatever these held before: after the application
  starts again every action has the bindings it had, an action that was left with no binding its
  defaults.
\<close>

theorem shortcuts_survive_restart:
  assumes "list_all changeOk cs"
  shows "getBindings (snd (openControl t' (fst (foldl (applyChange t) (openControl t0 app) cs)))) a
     = (if getBindings (snd (foldl (applyChange t) (openControl t0 app) cs)) a = []
        then getBindings freshModule a
        else getBindings (snd (foldl (applyChange t) (openControl t0 app) cs)) a)"
proof -
  let ?w = "foldl (applyChange t) (openControl t0 app) cs"
  have w: "settled ?w"
    using openControl_settled assms by (rule changes_settled)
  then have c: "map_of (sm_overridesCache (snd (openControl t' (fst ?w)))) (actionName a)
      = (case map_of (sm_overridesCache (snd ?w)) (actionName a) of Some [] \<Rightarrow> None | v \<Rightarrow> v)"
    by (simp add: openControl_eq settled_def cacheOk_def lookup_filter)
  then show ?thesis
    by (auto simp: getBindings_def freshModule_def split: option.splits list.splits)
qed

theorem shortcuts_survive_restart_witness:
  "getBindings (snd (openControl 2 (fst (foldl (applyChange 1) (openControl 0 sampleApp)
     [SetTo Next [plainKey ''x''], SetTo Prev [plainKey ''y''], ResetOne Prev, SetTo Resume []])))) Next
   = [plainKey ''x'']"
proof -
  let ?cs = "[SetTo Next [plainKey ''x''], SetTo Prev [plainKey ''y''], ResetOne Prev, SetTo Resume []]"
  have ok: "list_all changeOk ?cs"
    by (simp add: keysOk_def plainKey_def)
  have "getBindings (snd (foldl (applyChange 1) (openControl 0 sampleApp) ?cs)) Next = [plainKey ''x'']"
    by (simp add: getBindings_def openControl_eq storeOverrides_def setBindings_def resetBindings_def
        AList.update_conv' AList.delete_conv')
  with shortcuts_survive_restart [OF ok, of 2 1 0 sampleApp Next] show ?thesis
    by (simp del: foldl_Cons)
qed

section \<open>What a captured key does\<close>

lemma matchIn_split:
  "matchIn ov e (ds @ ds') = (case matchIn ov e ds of Some b \<Rightarrow> Some b | None \<Rightarrow> matchIn ov e ds')"
  by (induction ds) simp_all

text \<open>
  A captured key triggers its action when it is pressed again, unless an action that comes
  earlier in the list has a binding for the same key.
\<close>

lemma captured_key_triggers:
  assumes "ke_key e \<notin> set [''Control'', ''Shift'', ''Alt'', ''Meta'', ''Escape'']"
    and "\<not> ke_metaKey e" and "SHORTCUT_DEFS = ds @ d # ds'" and "sd_action d = a"
    and "captureKey t e a w = (c, w')"
  shows "matchAction (snd w') e =
     (case matchIn (sm_overridesCache (snd w')) e ds of Some b \<Rightarrow> Some b | None \<Rightarrow> Some a) \<and> c = None"
proof -
  have cache: "map_of (sm_overridesCache (snd w')) (actionName a) =
      Some [\<lparr>kb_key = ke_key e, kb_ctrlKey = (if ke_ctrlKey e then Some True else None),
             kb_shiftKey = (if ke_shiftKey e then Some True else None)\<rparr>]" and "c = None"
    using assms(1,5) by (auto simp: captureKey_def setBindings_def storeOverrides_def AList.update_conv'
        split: prod.splits)
  moreover have "matchIn (sm_overridesCache (snd w')) e (d # ds') = Some a"
    using cache assms(2,4) by (simp add: matchesBinding_def)
  ultimately show ?thesis
    by (simp add: matchAction_def assms(3) matchIn_split del: matchIn.simps split: option.split)
qed

text \<open>Nothing keeps the dialog from binding a key that an earlier action has.\<close>

lemma captured_key_shadowed:
  "let e = \<lparr>ke_key = ''1'', ke_ctrlKey = False, ke_shiftKey = False, ke_metaKey = False\<rparr>;
       w = snd (captureKey t e ToggleBlack (app, freshModule))
   in getBindings (snd w) ToggleBlack = [plainKey ''1''] \<and> matchAction (snd w) e = Some TargetA"
  by (simp add: captureKey_def setBindings_def storeOverrides_def freshModule_def getBindings_def plainKey_def
      matchAction_def SHORTCUT_DEFS_def matchesBinding_def)

text \<open>
  A key that is captured with the Meta key and without Control never triggers its action: the
  capture does not record Meta, the match takes it for Control.
\<close>

lemma meta_capture_never_fires:
  assumes "ke_metaKey e" and "\<not> ke_ctrlKey e"
    and "ke_key e \<notin> set [''Control'', ''Shift'', ''Alt'', ''Meta'', ''Escape'']"
  shows "\<not> list_ex (matchesBinding e) (getBindings (snd (snd (captureKey t e a w))) a)"
  using assms by (cases w) (simp add: captureKey_def setBindings_def storeOverrides_def getBindings_def
      AList.update_conv' matchesBinding_def)

text \<open>The capital of a default adds nothing: with Shift neither matches, without it both do.\<close>

lemma capital_default_adds_nothing:
  "matchesBinding e (plainKey ''B'') = matchesBinding e (plainKey ''b'')"
  "\<not> list_ex (matchesBinding \<lparr>ke_key = ''B'', ke_ctrlKey = False, ke_shiftKey = True, ke_metaKey = False\<rparr>)
       (getBindings freshModule ToggleBlack)"
proof -
  have "lower_char (CHR ''B'') = CHR ''b''" and "lower_char (CHR ''b'') = CHR ''b''"
    by code_simp+
  then show "matchesBinding e (plainKey ''B'') = matchesBinding e (plainKey ''b'')"
    by (auto simp: matchesBinding_def plainKey_def Let_def toLowerCase_def)
  show "\<not> list_ex (matchesBinding \<lparr>ke_key = ''B'', ke_ctrlKey = False, ke_shiftKey = True, ke_metaKey = False\<rparr>)
       (getBindings freshModule ToggleBlack)"
    by (simp add: getBindings_def freshModule_def SHORTCUT_DEFS_def matchesBinding_def plainKey_def)
qed

text \<open>
  A change that the user makes while the answer to the first request is under way is undone in the
  window when the answer arrives, although the settings have it.
\<close>

lemma hydration_undoes_change:
  assumes "keysOk bs" and "bs \<noteq> []" and "getBindings (snd (openControl t app)) a \<noteq> bs"
  shows "let w = hydrationArrives (setBindings t a bs (hydrateShortcuts t (app, freshModule)))
    in getBindings (snd w) a \<noteq> bs \<and> map_of (readShortcutsConfig t' (rt_store (fst w))) (actionName a) = Some bs"
proof -
  have "cacheOk [(actionName a, bs)]"
    using assms(1) by (simp add: cacheOk_def)
  from persisted [OF this, of t' t app] show ?thesis
    using assms(2,3) by (simp add: hydrateShortcuts_def freshModule_def settingsGetShortcuts_def setBindings_def
        storeOverrides_def hydrationArrives_def openControl_eq getBindings_def)
qed

end
