(* ===== verification/Templates.thy ===== *)
theory Templates
  imports Profiles PlanProps
begin

text \<open>
  The templates of plans (\<open>lib/templates.ts\<close>) over the settings of the main process, and what
  \<open>PlanTemplateDialog.tsx\<close> does with them: it saves the items of a plan as a template and adds the
  items of a template to a plan through the handler of the main process. Every operation of the
  module waits for the first reading of the settings, so a step here is a whole operation.
\<close>

section \<open>Templates that come with the application\<close>

text \<open>What the module shows: a template and its optional field \<open>builtin\<close>\<close>

record shownTemplate = planTemplate +
  pt_builtin :: "bool option"

definition BUILTIN_TEMPLATE_PREFIX :: string where
  "BUILTIN_TEMPLATE_PREFIX = ''builtin:''"

definition builtinItem :: "cpPlanItemKind \<Rightarrow> string \<Rightarrow> string \<Rightarrow> templateItem" where
  "builtinItem kind title content = \<lparr>ti_kind = kind, ti_title = Val title, ti_content = Val content,
     ti_refId = Undef, ti_refSubId = Undef, ti_mediaPath = Undef\<rparr>"

definition builtinTemplate :: "string \<Rightarrow> string \<Rightarrow> templateItem list \<Rightarrow> shownTemplate" where
  "builtinTemplate i name items = \<lparr>pt_id = BUILTIN_TEMPLATE_PREFIX @ i, pt_name = name, pt_items = items,
     pt_createdAt = ''2026-01-01T00:00:00.000Z'', pt_builtin = Some True\<rparr>"

definition BUILTIN_TEMPLATES :: "shownTemplate list" where
  "BUILTIN_TEMPLATES =
     [builtinTemplate ''standard'' ''Standard (Culte)''
        [builtinItem ANNOUNCEMENT_TEXT ''Accueil'' ''Bienvenue a tous.'',
         builtinItem ANNOUNCEMENT_TEXT ''Louange'' ''Temps de louange.'',
         builtinItem BIBLE_PASSAGE ''Lecture biblique'' [],
         builtinItem ANNOUNCEMENT_TEXT ''Predication'' ''Message du jour.'',
         builtinItem ANNOUNCEMENT_TEXT ''Annonces'' ''Infos de la semaine.''],
      builtinTemplate ''veilee'' ''Veillee de priere''
        [builtinItem ANNOUNCEMENT_TEXT ''Accueil'' ''Bienvenue a la veillee.'',
         builtinItem ANNOUNCEMENT_TEXT ''Priere 1'' ''Intercession.'',
         builtinItem ANNOUNCEMENT_TEXT ''Priere 2'' ''Actions de grace.'',
         builtinItem BIBLE_PASSAGE ''Lecture biblique'' [],
         builtinItem ANNOUNCEMENT_TEXT ''Cloture'' ''Benediction finale.''],
      builtinTemplate ''evenement'' ''Evenement special''
        [builtinItem ANNOUNCEMENT_TEXT ''Introduction'' ''Presentation de l'evenement.'',
         builtinItem ANNOUNCEMENT_TEXT ''Programme'' ''Deroulement de la soiree.'',
         builtinItem ANNOUNCEMENT_TEXT ''Intervenant'' ''Presentation de l'invite.'',
         builtinItem ANNOUNCEMENT_TEXT ''Informations'' ''Contacts et suite.'']]"

definition isBuiltinTemplateId :: "string \<Rightarrow> bool" where
  "isBuiltinTemplateId i = (take (length BUILTIN_TEMPLATE_PREFIX) i = BUILTIN_TEMPLATE_PREFIX)"

section \<open>The module\<close>

record templatesModule =
  tm_templatesCache :: "planTemplate list"
  tm_hydrated :: bool

definition freshTemplates :: templatesModule where
  "freshTemplates = \<lparr>tm_templatesCache = [], tm_hydrated = False\<rparr>"

type_synonym templatesWorld = "appState \<times> templatesModule"

definition withBuiltinTemplates :: "planTemplate list \<Rightarrow> shownTemplate list" where
  "withBuiltinTemplates userTemplates =
     BUILTIN_TEMPLATES @ map (\<lambda>t. planTemplate.extend t \<lparr>pt_builtin = None\<rparr>) userTemplates"

text \<open>\<open>sanitizeTemplate\<close> and \<open>sanitizeTemplateItem\<close> are those of the main process.\<close>

definition sanitizeTemplate :: "jsval \<Rightarrow> planTemplate option" where
  "sanitizeTemplate value = sanitizePlanTemplate value"

fun sanitizeTemplates :: "jsval \<Rightarrow> planTemplate list" where
  "sanitizeTemplates (JArr value) =
     filter (\<lambda>t. \<not> isBuiltinTemplateId (pt_id t)) (List.map_filter sanitizeTemplate value)"
| "sanitizeTemplates _ = []"

definition toPersistedTemplates :: "planTemplate list \<Rightarrow> planTemplate list" where
  "toPersistedTemplates templates = filter (\<lambda>t. \<not> isBuiltinTemplateId (pt_id t)) templates"

definition persistTemplates :: "int \<Rightarrow> planTemplate list \<Rightarrow> templatesWorld \<Rightarrow> templatesWorld" where
  "persistTemplates t templates w =
     (let (app, m) = w; cache = toPersistedTemplates templates
      in (fst (settingsSetTemplates t (encodePlanTemplates cache) app), m\<lparr>tm_templatesCache := cache\<rparr>))"

definition hydrateTemplates :: "int \<Rightarrow> templatesWorld \<Rightarrow> templatesWorld" where
  "hydrateTemplates t w =
     (let (app, m) = w
      in if tm_hydrated m then w
         else let (app, answer) = settingsGetTemplates t app
              in (app, m\<lparr>tm_templatesCache :=
                         (case answer of Inr ts \<Rightarrow> sanitizeTemplates (encodePlanTemplates ts) | Inl _ \<Rightarrow> []),
                       tm_hydrated := True\<rparr>))"

definition getTemplates :: "int \<Rightarrow> templatesWorld \<Rightarrow> shownTemplate list \<times> templatesWorld" where
  "getTemplates t w = (let w = hydrateTemplates t w in (withBuiltinTemplates (tm_templatesCache (snd w)), w))"

text \<open>\<open>newId\<close> and \<open>iso\<close> are the identifier and the time that the platform gives.\<close>

definition saveAsTemplate ::
  "int \<Rightarrow> string \<Rightarrow> string \<Rightarrow> string \<Rightarrow> templateItem list \<Rightarrow> templatesWorld \<Rightarrow> planTemplate \<times> templatesWorld" where
  "saveAsTemplate t newId isoNow name items w =
     (let w = hydrateTemplates t w;
          template = \<lparr>pt_id = newId, pt_name = name, pt_items = items, pt_createdAt = isoNow\<rparr>
      in (template, persistTemplates t (tm_templatesCache (snd w) @ [template]) w))"

definition deleteTemplate :: "int \<Rightarrow> string \<Rightarrow> templatesWorld \<Rightarrow> templatesWorld" where
  "deleteTemplate t i w =
     (if isBuiltinTemplateId i then w
      else let w = hydrateTemplates t w
           in persistTemplates t (filter (\<lambda>tp. pt_id tp \<noteq> i) (tm_templatesCache (snd w))) w)"

definition renameTemplate :: "int \<Rightarrow> string \<Rightarrow> string \<Rightarrow> templatesWorld \<Rightarrow> templatesWorld" where
  "renameTemplate t i name w =
     (if isBuiltinTemplateId i then w
      else let w = hydrateTemplates t w
           in persistTemplates t
                (map (\<lambda>tp. if pt_id tp \<noteq> i then tp else tp\<lparr>pt_name := name\<rparr>) (tm_templatesCache (snd w))) w)"

section \<open>The dialog\<close>

definition orNullField :: "string option \<Rightarrow> string nullable" where
  "orNullField x = (case x of None \<Rightarrow> Null | Some s \<Rightarrow> Val s)"

text \<open>An item of a plan as an item of a template; \<open>None\<close> for a kind that is not in the table\<close>

definition templateItemOf :: "itemRow \<Rightarrow> templateItem option" where
  "templateItemOf item = map_option (\<lambda>kind.
     \<lparr>ti_kind = kind, ti_title = orNullField (it_title item), ti_content = orNullField (it_content item),
      ti_refId = orNullField (it_refId item), ti_refSubId = orNullField (it_refSubId item),
      ti_mediaPath = orNullField (it_mediaPath item)\<rparr>) (isCpPlanItemKind (it_kind item))"

text \<open>\<open>prompted\<close> is the answer of the user; a plan without items ends in a message.\<close>

datatype saveOutcome = PlanIsEmpty | Cancelled | Saved templatesWorld

definition handleSaveCurrent ::
  "int \<Rightarrow> string \<Rightarrow> string \<Rightarrow> string option \<Rightarrow> itemRow list \<Rightarrow> templatesWorld \<Rightarrow> saveOutcome" where
  "handleSaveCurrent t newId isoNow prompted planItems w =
     (if planItems = [] then PlanIsEmpty
      else case prompted of
             None \<Rightarrow> Cancelled
           | Some name \<Rightarrow>
               if trim name = [] then Cancelled
               else Saved (snd (saveAsTemplate t newId isoNow (trim name) (List.map_filter templateItemOf planItems) w)))"

definition orUndefined :: "string nullable \<Rightarrow> jsval" where
  "orUndefined x = (case x of Val s \<Rightarrow> JStr s | _ \<Rightarrow> JUndef)"

definition applyPayload :: "string \<Rightarrow> templateItem \<Rightarrow> jsval" where
  "applyPayload planId item = JObj
     [(''planId'', JStr planId), (''kind'', JStr (kindName (ti_kind item))),
      (''title'', orUndefined (ti_title item)), (''content'', orUndefined (ti_content item)),
      (''refId'', orUndefined (ti_refId item)), (''refSubId'', orUndefined (ti_refSubId item)),
      (''mediaPath'', orUndefined (ti_mediaPath item))]"

text \<open>The loop over the items stops at the first one that the main process refuses.\<close>

fun applyItems :: "'db planDb \<Rightarrow> string \<Rightarrow> templateItem list \<Rightarrow> 'db \<Rightarrow> (failure + unit) \<times> 'db" where
  "applyItems D planId [] db = (Inr (), db)"
| "applyItems D planId (item # rest) db =
     (case plansAddItem D (applyPayload planId item) db of
        (Inl e, db) \<Rightarrow> (Inl e, db)
      | (Inr _, db) \<Rightarrow> applyItems D planId rest db)"

section \<open>Templates that stay\<close>

definition userTemplate :: "planTemplate \<Rightarrow> bool" where
  "userTemplate tp \<longleftrightarrow> templateOk tp \<and> \<not> isBuiltinTemplateId (pt_id tp)"

lemma templates_read_back:
  "\<forall>tp \<in> set ts. userTemplate tp \<Longrightarrow> sanitizeTemplates (encodePlanTemplates ts) = ts"
  using templates_written [of ts]
  by (auto simp: encodePlanTemplates_def userTemplate_def sanitizeTemplate_def [abs_def] intro!: filter_True)

lemma sanitizeTemplates_encoded:
  "sanitizeTemplates (encodePlanTemplates ts)
     = filter (\<lambda>t. \<not> isBuiltinTemplateId (pt_id t)) (sanitizePlanTemplates (encodePlanTemplates ts))"
  by (simp add: encodePlanTemplates_def sanitizeTemplate_def [abs_def])

lemma read_templates_ok: "\<forall>tp \<in> set (readTemplatesConfig t st). templateOk tp"
  using read_settingsOk [of t st]
  by (cases "sg_templates (readSettingsConfig t st)")
    (simp_all add: readTemplatesConfig_def settingsOk_def fieldOk_def)

lemma read_templates_any_time: "readTemplatesConfig t' st = readTemplatesConfig t st"
  by (auto simp: readTemplatesConfig_def readSettingsConfig_def emptySettings_def
      split: option.splits jsval.splits)

lemma templates_stored:
  assumes "\<forall>tp \<in> set ts. templateOk tp"
  shows "readTemplatesConfig t' (writeTemplatesConfig t ts st) = ts"
proof -
  have "settingsOk ((readSettingsConfig t st)\<lparr>sg_templates := Some (sanitizePlanTemplates (encodePlanTemplates ts))\<rparr>)"
    using read_settingsOk [of t st] templates_ok by (simp add: settingsOk_def fieldOk_def)
  then show ?thesis
    by (simp add: readTemplatesConfig_def writeTemplatesConfig_def templates_written [OF assms]
        read_patched [where f = "sg_templates_update _"])
qed

text \<open>
  After the first reading the cache holds templates of the user that the settings keep, and the
  settings hold them too.
\<close>

definition templatesSettled :: "templatesWorld \<Rightarrow> bool" where
  "templatesSettled w \<longleftrightarrow> tm_hydrated (snd w) \<and> (\<forall>tp \<in> set (tm_templatesCache (snd w)). userTemplate tp)
     \<and> (\<forall>t. sanitizeTemplates (encodePlanTemplates (readTemplatesConfig t (rt_store (fst w))))
             = tm_templatesCache (snd w))"

lemma hydrate_settled: "templatesSettled (hydrateTemplates t (app, freshTemplates))"
proof -
  have "sanitizeTemplates (encodePlanTemplates (readTemplatesConfig t (rt_store app)))
      = filter (\<lambda>tp. \<not> isBuiltinTemplateId (pt_id tp)) (readTemplatesConfig t (rt_store app))"
    by (simp add: sanitizeTemplates_encoded templates_written [OF read_templates_ok])
  then have "\<forall>tp \<in> set (sanitizeTemplates (encodePlanTemplates (readTemplatesConfig t (rt_store app)))). userTemplate tp"
    using read_templates_ok [of t "rt_store app"] by (simp add: userTemplate_def)
  moreover have "\<forall>t'. sanitizeTemplates (encodePlanTemplates (readTemplatesConfig t' (rt_store app)))
      = sanitizeTemplates (encodePlanTemplates (readTemplatesConfig t (rt_store app)))"
    by (metis read_templates_any_time)
  ultimately show ?thesis
    by (simp add: templatesSettled_def hydrateTemplates_def freshTemplates_def settingsGetTemplates_def)
qed

lemma hydrate_id: "templatesSettled w \<Longrightarrow> hydrateTemplates t w = w"
  by (cases w) (simp add: templatesSettled_def hydrateTemplates_def)

lemma persist_settled:
  assumes "templatesSettled w" and "\<forall>tp \<in> set ts. templateOk tp"
  shows "templatesSettled (persistTemplates t ts w)"
proof -
  obtain app m where w: "w = (app, m)" by (cases w)
  let ?ts = "toPersistedTemplates ts"
  have ok: "\<forall>tp \<in> set ?ts. templateOk tp" and user: "\<forall>tp \<in> set ?ts. userTemplate tp"
    using assms(2) by (auto simp: toPersistedTemplates_def userTemplate_def)
  show ?thesis
    using assms(1) user
    by (simp add: w persistTemplates_def templatesSettled_def Let_def settingsSetTemplates_def
        templates_written [OF ok] templates_stored [OF ok] templates_read_back [OF user])
qed

section \<open>Sessions with templates\<close>

datatype templateChange = SaveAs string string string "templateItem list" | Delete string | Rename string string

fun applyTemplateChange :: "int \<Rightarrow> templatesWorld \<Rightarrow> templateChange \<Rightarrow> templatesWorld" where
  "applyTemplateChange t w (SaveAs newId isoNow name items) = snd (saveAsTemplate t newId isoNow name items w)"
| "applyTemplateChange t w (Delete i) = deleteTemplate t i w"
| "applyTemplateChange t w (Rename i name) = renameTemplate t i name w"

fun templateChangeOk :: "templateChange \<Rightarrow> bool" where
  "templateChangeOk (SaveAs newId isoNow name items) = (newId \<noteq> [] \<and> isoNow \<noteq> [] \<and> name \<noteq> [])"
| "templateChangeOk (Delete i) = True"
| "templateChangeOk (Rename i name) = (name \<noteq> [])"

lemma template_change_settled:
  "templatesSettled w \<Longrightarrow> templateChangeOk c \<Longrightarrow> templatesSettled (applyTemplateChange t w c)"
  by (cases c) (auto simp: saveAsTemplate_def deleteTemplate_def renameTemplate_def hydrate_id Let_def
      templatesSettled_def [of w] userTemplate_def templateOk_def intro!: persist_settled)

lemma template_changes_settled:
  "templatesSettled w \<Longrightarrow> list_all templateChangeOk cs \<Longrightarrow> templatesSettled (foldl (applyTemplateChange t) w cs)"
  by (induction cs arbitrary: w) (simp_all add: template_change_settled)

text \<open>
  After any session of saving, deleting and renaming templates, whatever the settings held
  before, the application shows the same templates in the same order when it starts again.
\<close>

theorem templates_survive_restart:
  assumes "list_all templateChangeOk cs"
    and "w = foldl (applyTemplateChange t) (hydrateTemplates t0 (app, freshTemplates)) cs"
  shows "fst (getTemplates t' (fst w, freshTemplates)) = fst (getTemplates t' w)"
proof -
  have w: "templatesSettled w"
    unfolding assms(2) using hydrate_settled assms(1) by (rule template_changes_settled)
  then have "tm_templatesCache (snd (hydrateTemplates t' (fst w, freshTemplates))) = tm_templatesCache (snd w)"
    by (simp add: hydrateTemplates_def freshTemplates_def settingsGetTemplates_def templatesSettled_def)
  then show ?thesis
    by (simp add: getTemplates_def hydrate_id [OF w] Let_def)
qed

theorem templates_survive_restart_witness:
  "length (fst (getTemplates 2 (fst (foldl (applyTemplateChange 1) (hydrateTemplates 0 (sampleApp, freshTemplates))
       [SaveAs ''u1'' ''2026'' ''Culte'' []]), freshTemplates)))
     = length (fst (getTemplates 2 (foldl (applyTemplateChange 1) (hydrateTemplates 0 (sampleApp, freshTemplates))
       [SaveAs ''u1'' ''2026'' ''Culte'' []])))"
  using templates_survive_restart [of "[SaveAs ''u1'' ''2026'' ''Culte'' []]", OF _ refl, of 2 1 0 sampleApp]
  by (simp del: foldl_Cons)

section \<open>A template becomes items of a plan\<close>

definition trimmedOr :: "string nullable \<Rightarrow> string option" where
  "trimmedOr x = (case x of Val s \<Rightarrow> if trim s = [] then None else Some (trim s) | _ \<Rightarrow> None)"

definition valueOf :: "string nullable \<Rightarrow> string option" where
  "valueOf x = (case x of Val s \<Rightarrow> Some s | _ \<Rightarrow> None)"

definition addedItem :: "string \<Rightarrow> templateItem \<Rightarrow> cpPlanAddItemPayload" where
  "addedItem planId item =
     \<lparr>ai_planId = planId, ai_kind = ti_kind item, ai_title = valueOf (ti_title item),
      ai_content = valueOf (ti_content item), ai_notes = None, ai_refId = trimmedOr (ti_refId item),
      ai_refSubId = trimmedOr (ti_refSubId item), ai_mediaPath = trimmedOr (ti_mediaPath item),
      ai_secondaryContent = None, ai_backgroundConfig = None\<rparr>"

lemma raw_parsed: "optionalRaw (orUndefined x) label = Inr (valueOf x)"
  by (cases x) (simp_all add: expectOptionalString_def orUndefined_def valueOf_def expectString_def)

lemma text_parsed: "optionalText (orUndefined x) label = Inr (trimmedOr x)"
  by (cases x) (simp_all add: expectOptionalString_def orUndefined_def trimmedOr_def expectString_def)

lemma kind_parsed: "expectEnum CP_PLAN_ITEM_KIND_VALUES (JStr (kindName k)) label = Inr k"
  by (cases k) (simp_all add: expectEnum_def parse_eval CP_PLAN_ITEM_KIND_VALUES_def)

lemma apply_parsed:
  assumes "trim planId = planId" and "planId \<noteq> []"
  shows "parsePlanAddItemPayload (applyPayload planId item) = Inr (addedItem planId item)"
proof -
  have "expectText (JStr planId) label = Inr planId" for label
    using assms by (simp add: expectString_def)
  moreover have "optionalRaw JUndef label = Inr None" for label
    by (simp add: expectOptionalString_def)
  ultimately show ?thesis
    by (simp add: parsePlanAddItemPayload_def applyPayload_def raw_parsed text_parsed kind_parsed addedItem_def)
qed

text \<open>The fields of an item that a template keeps\<close>

definition itemFields ::
  "itemRow \<Rightarrow> string \<times> string option \<times> string option \<times> string option \<times> string option \<times> string option" where
  "itemFields r = (it_kind r, it_title r, it_content r, it_refId r, it_refSubId r, it_mediaPath r)"

definition templateFields ::
  "templateItem \<Rightarrow> string \<times> string option \<times> string option \<times> string option \<times> string option \<times> string option" where
  "templateFields i = (kindName (ti_kind i), valueOf (ti_title i), valueOf (ti_content i), trimmedOr (ti_refId i),
     trimmedOr (ti_refSubId i), trimmedOr (ti_mediaPath i))"

lemma itemFields_added: "itemFields ((newItemRow (addedItem planId item) n)\<lparr>it_id := i\<rparr>) = templateFields item"
  by (simp add: itemFields_def templateFields_def newItemRow_def addedItem_def)

text \<open>The song of a song block is there.\<close>

definition songThere :: "string set \<Rightarrow> templateItem \<Rightarrow> bool" where
  "songThere songs item \<longleftrightarrow> ti_kind item = SONG_BLOCK \<longrightarrow>
     (case trimmedOr (ti_refId item) of None \<Rightarrow> True | Some s \<Rightarrow> s \<in> songs)"

lemma added_refs: "planId \<in> dom ps \<Longrightarrow> refsOk ps songs (newItemRow (addedItem planId item) n) \<longleftrightarrow> songThere songs item"
  by (auto simp: refsOk_def newItemRow_def addedItem_def songThere_def)

context plan_store
begin

lemma addItem_at_end:
  assumes "ok db" and "parsePlanAddItemPayload raw = Inr p" and "refsOk (plans db) (songs db) (newItemRow p 0)"
  shows "\<exists>i n db'. plansAddItem D raw db = (Inr ((newItemRow p n)\<lparr>it_id := i\<rparr>), db') \<and> ok db'
     \<and> plans db' = plans db \<and> songs db' = songs db \<and> i \<notin> dom (items db)
     \<and> items db' = (items db)(i \<mapsto> (newItemRow p n)\<lparr>it_id := i\<rparr>)
     \<and> findItems D db' (ofPlan (ai_planId p)) = findItems D db (ofPlan (ai_planId p)) @ [(newItemRow p n)\<lparr>it_id := i\<rparr>]"
proof -
  let ?n = "lastOrder D db (ai_planId p) + 1"
  obtain i db' where c: "createPlanItemWithRetry D p 20 db = (Inr ((newItemRow p ?n)\<lparr>it_id := i\<rparr>), db')"
      "i \<notin> dom (items db)" "items db' = (items db)(i \<mapsto> (newItemRow p ?n)\<lparr>it_id := i\<rparr>)"
      "plans db' = plans db" "songs db' = songs db" "ok db'"
    using createItem_appended [OF assms(1,3), of 19] by auto
  have p: "it_planId ((newItemRow p ?n)\<lparr>it_id := i\<rparr>) = ai_planId p"
    by (simp add: newItemRow_def)
  have "it_order r < it_order ((newItemRow p ?n)\<lparr>it_id := i\<rparr>)" if "r \<in> set (findItems D db (ofPlan (ai_planId p)))" for r
  proof -
    have "items db (it_id r) = Some r" and "it_planId r = ai_planId p"
      using that plan_items_mem [OF assms(1)] by simp_all
    then show ?thesis
      using lastOrder_upper [OF assms(1)] by (fastforce simp: newItemRow_def)
  qed
  then have "findItems D db' (ofPlan (ai_planId p)) = findItems D db (ofPlan (ai_planId p)) @ [(newItemRow p ?n)\<lparr>it_id := i\<rparr>]"
    using find_items_appended [OF assms(1) c(6,3,2)] unfolding p by blast
  moreover have "plansAddItem D raw db = (Inr ((newItemRow p ?n)\<lparr>it_id := i\<rparr>), db')"
    using c(1) assms(2) by (simp add: plansAddItem_def)
  ultimately show ?thesis
    using c by blast
qed

lemma applyItems_append:
  assumes "ok db" and "trim planId = planId" and "planId \<noteq> []" and "planId \<in> dom (plans db)"
    and "\<forall>item \<in> set its. songThere (songs db) item"
  shows "\<exists>db'. applyItems D planId its db = (Inr (), db') \<and> ok db' \<and> plans db' = plans db \<and> songs db' = songs db
     \<and> items db \<subseteq>\<^sub>m items db'
     \<and> map itemFields (findItems D db' (ofPlan planId))
         = map itemFields (findItems D db (ofPlan planId)) @ map templateFields its"
  using assms(1,4,5)
proof (induction its arbitrary: db)
  case (Cons item its)
  have "refsOk (plans db) (songs db) (newItemRow (addedItem planId item) 0)"
    using Cons.prems(2,3) by (simp add: added_refs)
  from addItem_at_end [OF Cons.prems(1) apply_parsed [OF assms(2,3)] this]
  obtain i n db1 where a: "plansAddItem D (applyPayload planId item) db
        = (Inr ((newItemRow (addedItem planId item) n)\<lparr>it_id := i\<rparr>), db1)"
      "ok db1" "plans db1 = plans db" "songs db1 = songs db" "i \<notin> dom (items db)"
      "items db1 = (items db)(i \<mapsto> (newItemRow (addedItem planId item) n)\<lparr>it_id := i\<rparr>)"
      "findItems D db1 (ofPlan planId)
        = findItems D db (ofPlan planId) @ [(newItemRow (addedItem planId item) n)\<lparr>it_id := i\<rparr>]"
    by (auto simp: addedItem_def)
  obtain db' where "applyItems D planId its db1 = (Inr (), db')" "ok db'" "plans db' = plans db1" "songs db' = songs db1"
      "items db1 \<subseteq>\<^sub>m items db'"
      "map itemFields (findItems D db' (ofPlan planId))
         = map itemFields (findItems D db1 (ofPlan planId)) @ map templateFields its"
    using Cons.IH [of db1] Cons.prems a(2-4) by auto
  moreover have "items db \<subseteq>\<^sub>m items db1"
    using a(5,6) by (auto simp: map_le_def)
  ultimately show ?case
    using a by (intro exI [of _ db']) (simp add: itemFields_added map_le_trans [of _ "items db1"])
qed simp

end

text \<open>
  Rows as \<open>plans:addItem\<close> stores them: the kind is one of the table, references and media paths are
  trimmed and not empty, and the song of a song block is there.
\<close>

definition storedText :: "string option \<Rightarrow> bool" where
  "storedText x \<longleftrightarrow> (case x of None \<Rightarrow> True | Some s \<Rightarrow> s \<noteq> [] \<and> trim s = s)"

definition storedRow :: "string set \<Rightarrow> itemRow \<Rightarrow> bool" where
  "storedRow songs r \<longleftrightarrow> it_kind r \<in> range kindName
     \<and> storedText (it_refId r) \<and> storedText (it_refSubId r) \<and> storedText (it_mediaPath r)
     \<and> (it_kind r = ''SONG_BLOCK'' \<longrightarrow> set_option (it_refId r) \<subseteq> songs)"

lemma stored_trimmed: "storedText x \<Longrightarrow> trimmedOr (orNullField x) = x" "valueOf (orNullField y) = y"
  by (auto simp: storedText_def trimmedOr_def valueOf_def orNullField_def split: option.splits)

lemma storedRow_template:
  assumes "storedRow songs r"
  shows "\<exists>item. templateItemOf r = Some item \<and> songThere songs item \<and> templateFields item = itemFields r"
proof -
  obtain k where k: "it_kind r = kindName k"
    using assms by (auto simp: storedRow_def)
  have "k = SONG_BLOCK \<Longrightarrow> set_option (it_refId r) \<subseteq> songs"
    using assms by (simp add: storedRow_def k)
  then show ?thesis
    using assms by (auto simp: storedRow_def k templateItemOf_def templateFields_def itemFields_def songThere_def
        stored_trimmed split: option.split)
qed

text \<open>
  C33: A plan that is saved as a template and applied to a plan gives it, after its own items, the
  items of the saved one in order: the same kinds, titles, contents, references and media. Notes,
  second texts and backgrounds are not part of a template. It takes a plan with items of known kinds
  and trimmed references, as \<open>plans:addItem\<close> stores them, and songs that are still there. The own
  items of the plan do not change.
\<close>

theorem saved_plan_applied:
  assumes "plan_store D plans items songs ok" and "ok db" and "trim planId = planId" and "planId \<noteq> []"
    and "planId \<in> dom (plans db)"
    and "\<forall>r \<in> set rows. storedRow (songs db) r"
    and "handleSaveCurrent t newId isoNow prompted rows w = Saved w'" and "\<not> isBuiltinTemplateId newId"
  shows "\<exists>db'. applyItems D planId (pt_items (last (tm_templatesCache (snd w')))) db = (Inr (), db')
     \<and> map itemFields (findItems D db' (ofPlan planId))
         = map itemFields (findItems D db (ofPlan planId)) @ map itemFields rows
     \<and> items db \<subseteq>\<^sub>m items db'"
proof -
  let ?its = "List.map_filter templateItemOf rows"
  have "\<forall>r \<in> set rows. \<exists>item. templateItemOf r = Some item \<and> songThere (songs db) item \<and> templateFields item = itemFields r"
    using assms(6) storedRow_template by blast
  then have its: "map templateFields ?its = map itemFields rows \<and> (\<forall>item \<in> set ?its. songThere (songs db) item)"
    by (induction rows) (auto simp: List.map_filter_simps)
  obtain name where "w' = snd (saveAsTemplate t newId isoNow (trim name) ?its w)"
    using assms(7) by (auto simp: handleSaveCurrent_def split: if_splits option.splits)
  then have "pt_items (last (tm_templatesCache (snd w'))) = ?its"
    using assms(8) by (simp add: saveAsTemplate_def persistTemplates_def toPersistedTemplates_def Let_def split: prod.splits)
  then show ?thesis
    using plan_store.applyItems_append [OF assms(1-5), of ?its] its by auto
qed

text \<open>A plan with a passage that has all fields, and a timer\<close>

definition sundayRows :: "itemRow list" where
  "sundayRows =
     [(sampleRow ''8'' ''9'' 1)\<lparr>it_kind := ''BIBLE_PASSAGE'', it_title := Some ''Jean 3'', it_content := Some ''Car'',
        it_refId := Some ''FRLSG'', it_refSubId := Some ''43:3'', it_mediaPath := Some ''/m/a.png''\<rparr>,
      sampleRow ''7'' ''9'' 2]"

theorem saved_plan_applied_witness:
  "\<exists>w' db'. handleSaveCurrent 0 ''u1'' ''2026'' (Some '' Culte '') sundayRows (sampleApp, freshTemplates) = Saved w'
     \<and> applyItems tablesDb ''0'' (pt_items (last (tm_templatesCache (snd w')))) sampleTables = (Inr (), db')
     \<and> drop 2 (map itemFields (findItems tablesDb db' (ofPlan ''0''))) =
         [(''BIBLE_PASSAGE'', Some ''Jean 3'', Some ''Car'', Some ''FRLSG'', Some ''43:3'', Some ''/m/a.png''),
          (''TIMER'', None, None, None, None, None)]"
proof -
  have saved: "\<exists>w'. handleSaveCurrent 0 ''u1'' ''2026'' (Some '' Culte '') sundayRows (sampleApp, freshTemplates) = Saved w'"
    by (simp add: handleSaveCurrent_def sundayRows_def parse_eval)
  then obtain w' where w': "handleSaveCurrent 0 ''u1'' ''2026'' (Some '' Culte '') sundayRows (sampleApp, freshTemplates) = Saved w'"
    by blast
  have kinds: "''BIBLE_PASSAGE'' \<in> range kindName" "''TIMER'' \<in> range kindName"
    using rangeI [of kindName BIBLE_PASSAGE] rangeI [of kindName TIMER] by simp_all
  then have rows: "\<forall>r \<in> set sundayRows. storedRow (tb_songs sampleTables) r"
    by (simp add: sundayRows_def sampleRow_def storedRow_def storedText_def parse_eval)
  have "\<not> isBuiltinTemplateId ''u1''" and "trim ''0'' = ''0''"
    by (simp_all add: isBuiltinTemplateId_def BUILTIN_TEMPLATE_PREFIX_def parse_eval)
  with saved_plan_applied [OF tables_plan_store sample_ok _ _ sample_plan rows w'] obtain db' where
      "applyItems tablesDb ''0'' (pt_items (last (tm_templatesCache (snd w')))) sampleTables = (Inr (), db')"
      "map itemFields (findItems tablesDb db' (ofPlan ''0''))
         = map itemFields (findItems tablesDb sampleTables (ofPlan ''0'')) @ map itemFields sundayRows"
    by auto
  moreover from this(2) have "drop 2 (map itemFields (findItems tablesDb db' (ofPlan ''0''))) = map itemFields sundayRows"
    by (simp add: sample_find)
  ultimately show ?thesis
    using w' by (auto simp: sundayRows_def itemFields_def sampleRow_def)
qed

section \<open>A template that stops half way\<close>

text \<open>
  When the song of an item has been deleted, the items before it are added and the others are not;
  the dialog neither undoes them nor tells it.
\<close>

lemma missing_song_stops_template:
  assumes "plan_store D plans items songs ok" and "ok db" and "trim planId = planId" and "planId \<noteq> []"
    and "planId \<in> dom (plans db)" and "\<forall>item \<in> set its. songThere (songs db) item" and "\<not> songThere (songs db) bad"
  shows "\<exists>db'. applyItems D planId (its @ bad # rest) db = (Inl (Prisma P2003), db')
     \<and> map itemFields (findItems D db' (ofPlan planId))
         = map itemFields (findItems D db (ofPlan planId)) @ map templateFields its"
proof -
  have split: "applyItems D planId its d = (Inr (), d') \<Longrightarrow>
      applyItems D planId (its @ bad # rest) d = applyItems D planId (bad # rest) d'" for d d'
    by (induction its arbitrary: d) (auto split: prod.splits sum.splits)
  obtain db' where a: "applyItems D planId its db = (Inr (), db')" "ok db'" "plans db' = plans db" "songs db' = songs db"
      "map itemFields (findItems D db' (ofPlan planId))
         = map itemFields (findItems D db (ofPlan planId)) @ map templateFields its"
    using plan_store.applyItems_append [OF assms(1-6)] by blast
  have "\<not> refsOk (plans db') (songs db') (newItemRow (addedItem planId bad) 0)"
    using assms(5,7) a(3,4) by (simp add: added_refs)
  from plan_store.createItem_dangling [OF assms(1) a(2) this, of 19]
  have "plansAddItem D (applyPayload planId bad) db' = (Inl (Prisma P2003), db')"
    by (simp add: plansAddItem_def apply_parsed [OF assms(3,4)])
  then show ?thesis
    using a(5) by (simp add: split [OF a(1)])
qed

end
