(* ===== verification/PlanContext.thy ===== *)
theory PlanContext
  imports PlanProps
begin

text \<open>
  The plan of the control window, \<open>contexts/PlanContext.tsx\<close>, and the dialog that edits an item,
  \<open>dialogs/EditItemDialog.tsx\<close>. The context keeps a copy of the selected plan beside the database
  of the main process; it changes the copy at once where the code is optimistic and reads it again
  where the code refreshes it. An operation here is a whole operation of the context with the
  answers of the handlers, the next one starts when it has ended; a new selection reads its plan
  before that.
\<close>

section \<open>The context\<close>

record planView =
  vw_planList :: "(string \<times> int \<times> string option) list"
  vw_plan :: "(planRow \<times> itemRow list) option"
  vw_selectedPlanId :: "string option"

text \<open>The messages that the user sees\<close>

datatype toast = CannotAdd | CannotDuplicate | CannotEdit | CannotSetBackground | CannotRemove | CannotRemoveMany
  | CannotReorder | CannotCreate | CannotRename | CannotDeletePlan

type_synonym 'db planWorld = "'db \<times> planView"

text \<open>A selected identifier that is not the empty string\<close>

definition chosen :: "planView \<Rightarrow> string option" where
  "chosen v = (case vw_selectedPlanId v of Some (c # s) \<Rightarrow> Some (c # s) | _ \<Rightarrow> None)"

text \<open>A handler that throws leaves the copy as it is.\<close>

definition refreshPlan :: "'db planDb \<Rightarrow> 'db planWorld \<Rightarrow> 'db planWorld" where
  "refreshPlan D w =
     (let (db, v) = w
      in case chosen v of
           None \<Rightarrow> (db, v\<lparr>vw_plan := None\<rparr>)
         | Some i \<Rightarrow>
             (case plansGet D (JStr i) db of
                (Inl _, db) \<Rightarrow> (db, v)
              | (Inr loaded, db) \<Rightarrow> (db, v\<lparr>vw_plan := loaded\<rparr>)))"

definition setSelectedPlanId :: "'db planDb \<Rightarrow> string option \<Rightarrow> 'db planWorld \<Rightarrow> 'db planWorld" where
  "setSelectedPlanId D i w =
     (let (db, v) = w
      in if vw_selectedPlanId v = i then w else refreshPlan D (db, v\<lparr>vw_selectedPlanId := i\<rparr>))"

text \<open>\<open>seen\<close> is the selection of the render that made the callback.\<close>

definition refreshList :: "'db planDb \<Rightarrow> string option \<Rightarrow> 'db planWorld \<Rightarrow> 'db planWorld" where
  "refreshList D seen w =
     (let (db, v) = w; plans = plansList D db; w = (db, v\<lparr>vw_planList := plans\<rparr>)
      in case plans of
           (i, _) # _ \<Rightarrow> if seen = None \<or> seen = Some [] then setSelectedPlanId D (Some i) w else w
         | [] \<Rightarrow> w)"

text \<open>A call of a handler, then \<open>refreshPlan\<close>, or the message when it throws\<close>

definition callThenRefresh ::
  "'db planDb \<Rightarrow> toast \<Rightarrow> ('db \<Rightarrow> (failure + 'a) \<times> 'db) \<Rightarrow> 'db planWorld \<Rightarrow> ('a option \<times> toast option) \<times> 'db planWorld"
  where
  "callThenRefresh D message call w =
     (let (db, v) = w
      in case call db of
           (Inl _, db) \<Rightarrow> ((None, Some message), (db, v))
         | (Inr x, db) \<Rightarrow> ((Some x, None), refreshPlan D (db, v)))"

definition addItem ::
  "'db planDb \<Rightarrow> (string \<times> jsval) list \<Rightarrow> 'db planWorld \<Rightarrow> (itemRow option \<times> toast option) \<times> 'db planWorld" where
  "addItem D payload w =
     (case chosen (snd w) of
        None \<Rightarrow> ((None, None), w)
      | Some i \<Rightarrow> callThenRefresh D CannotAdd (plansAddItem D (JObj ((''planId'', JStr i) # payload))) w)"

definition undefOr :: "string option \<Rightarrow> jsval" where
  "undefOr x = (case x of None \<Rightarrow> JUndef | Some s \<Rightarrow> JStr s)"

definition copyPayload :: "string \<Rightarrow> itemRow \<Rightarrow> jsval" where
  "copyPayload planId item = JObj
     [(''planId'', JStr planId), (''kind'', JStr (it_kind item)), (''title'', undefOr (it_title item)),
      (''content'', undefOr (it_content item)), (''notes'', undefOr (it_notes item)),
      (''refId'', undefOr (it_refId item)), (''refSubId'', undefOr (it_refSubId item)),
      (''mediaPath'', undefOr (it_mediaPath item)), (''secondaryContent'', undefOr (it_secondaryContent item)),
      (''backgroundConfig'', undefOr (it_backgroundConfig item))]"

definition shownItems :: "planView \<Rightarrow> itemRow list" where
  "shownItems v = (case vw_plan v of None \<Rightarrow> [] | Some (_, its) \<Rightarrow> its)"

definition duplicateItem ::
  "'db planDb \<Rightarrow> string \<Rightarrow> 'db planWorld \<Rightarrow> toast option \<times> 'db planWorld" where
  "duplicateItem D itemId w =
     (case chosen (snd w) of
        None \<Rightarrow> (None, w)
      | Some i \<Rightarrow>
          (case find (\<lambda>r. it_id r = itemId) (shownItems (snd w)) of
             None \<Rightarrow> (None, w)
           | Some item \<Rightarrow>
               let ((_, t), w) = callThenRefresh D CannotDuplicate (plansAddItem D (copyPayload i item)) w in (t, w)))"

definition updatePayload :: "string \<Rightarrow> string \<Rightarrow> (string \<times> jsval) list \<Rightarrow> jsval" where
  "updatePayload planId itemId patch = JObj ([(''planId'', JStr planId), (''itemId'', JStr itemId)] @ patch)"

definition ctxUpdateItem ::
  "'db planDb \<Rightarrow> string \<Rightarrow> (string \<times> jsval) list \<Rightarrow> 'db planWorld \<Rightarrow> toast option \<times> 'db planWorld" where
  "ctxUpdateItem D itemId patch w =
     (case chosen (snd w) of
        None \<Rightarrow> (None, w)
      | Some i \<Rightarrow>
          let ((_, t), w) = callThenRefresh D CannotEdit (plansUpdateItem D (updatePayload i itemId patch)) w in (t, w))"

text \<open>\<open>Promise.all\<close>: every call is made, and it fails when one of them does.\<close>

fun updateAll :: "'db planDb \<Rightarrow> string \<Rightarrow> (string \<times> jsval) list \<Rightarrow> string list \<Rightarrow> 'db \<Rightarrow> (failure + unit) \<times> 'db" where
  "updateAll D planId patch [] db = (Inr (), db)"
| "updateAll D planId patch (i # ids) db =
     (let (r, db) = plansUpdateItem D (updatePayload planId i patch) db;
          (rest, db) = updateAll D planId patch ids db
      in (case r of Inl e \<Rightarrow> Inl e | Inr _ \<Rightarrow> rest, db))"

definition nullOr :: "string option \<Rightarrow> jsval" where
  "nullOr x = (case x of None \<Rightarrow> JNull | Some s \<Rightarrow> JStr s)"

definition updateSongBackground ::
  "'db planDb \<Rightarrow> string \<Rightarrow> string option \<Rightarrow> 'db planWorld \<Rightarrow> toast option \<times> 'db planWorld" where
  "updateSongBackground D refId backgroundConfig w =
     (case (chosen (snd w), vw_plan (snd w)) of
        (Some i, Some (_, its)) \<Rightarrow>
          let songItems = filter (\<lambda>r. it_kind r = ''SONG_BLOCK'' \<and> it_refId r = Some refId) its;
              ((_, t), w) = callThenRefresh D CannotSetBackground
                 (updateAll D i [(''backgroundConfig'', nullOr backgroundConfig)] (map it_id songItems)) w
          in (t, w)
      | _ \<Rightarrow> (None, w))"

text \<open>An optimistic change of the copy, then the call; it is read again only when the call throws.\<close>

definition optimistically ::
  "'db planDb \<Rightarrow> (itemRow list \<Rightarrow> itemRow list) \<Rightarrow> toast \<Rightarrow> ('db \<Rightarrow> (failure + unit) \<times> 'db) \<Rightarrow> 'db planWorld
     \<Rightarrow> toast option \<times> 'db planWorld" where
  "optimistically D change message call w =
     (let (db, v) = w; v = v\<lparr>vw_plan := map_option (\<lambda>(p, its). (p, change its)) (vw_plan v)\<rparr>
      in case call db of
           (Inl _, db) \<Rightarrow> (Some message, refreshPlan D (db, v))
         | (Inr _, db) \<Rightarrow> (None, (db, v)))"

definition removeItem :: "'db planDb \<Rightarrow> string \<Rightarrow> 'db planWorld \<Rightarrow> toast option \<times> 'db planWorld" where
  "removeItem D itemId w =
     (case chosen (snd w) of
        None \<Rightarrow> (None, w)
      | Some i \<Rightarrow> optimistically D (filter (\<lambda>r. it_id r \<noteq> itemId)) CannotRemove
                    (plansRemoveItem D (JObj [(''planId'', JStr i), (''itemId'', JStr itemId)])) w)"

definition removeItems :: "'db planDb \<Rightarrow> string list \<Rightarrow> 'db planWorld \<Rightarrow> toast option \<times> 'db planWorld" where
  "removeItems D itemIds w =
     (case chosen (snd w) of
        None \<Rightarrow> (None, w)
      | Some i \<Rightarrow>
          if itemIds = [] then (None, w)
          else optimistically D (filter (\<lambda>r. it_id r \<notin> set itemIds)) CannotRemoveMany
                 (plansRemoveItems D (JObj [(''planId'', JStr i), (''itemIds'', JArr (map JStr itemIds))])) w)"

text \<open>The place of an item in the requested order, the first one when it has none\<close>

definition idxOf :: "string list \<Rightarrow> itemRow \<Rightarrow> nat" where
  "idxOf ids r = orElse (map_of (rev (zip ids [0..<length ids])) (it_id r)) 0"

definition reorder :: "'db planDb \<Rightarrow> string list \<Rightarrow> 'db planWorld \<Rightarrow> toast option \<times> 'db planWorld" where
  "reorder D orderedItemIds w =
     (case chosen (snd w) of
        None \<Rightarrow> (None, w)
      | Some i \<Rightarrow> optimistically D (sort_key (idxOf orderedItemIds)) CannotReorder
                    (plansReorder D (JObj [(''planId'', JStr i), (''orderedItemIds'', JArr (map JStr orderedItemIds))])) w)"

definition ctxCreatePlan ::
  "'db planDb \<Rightarrow> (string \<Rightarrow> int option) \<Rightarrow> jsval \<Rightarrow> 'db planWorld \<Rightarrow> toast option \<times> 'db planWorld" where
  "ctxCreatePlan D parseDate payload w =
     (let (db, v) = w
      in case plansCreate D parseDate payload db of
           (Inl _, db) \<Rightarrow> (Some CannotCreate, (db, v))
         | (Inr p, db) \<Rightarrow>
             (None, setSelectedPlanId D (Some (pl_id p)) (refreshList D (vw_selectedPlanId v) (db, v))))"

definition ctxUpdatePlan :: "'db planDb \<Rightarrow> string \<Rightarrow> 'db planWorld \<Rightarrow> toast option \<times> 'db planWorld" where
  "ctxUpdatePlan D title w =
     (let (db, v) = w
      in case chosen v of
           None \<Rightarrow> (None, w)
         | Some i \<Rightarrow>
             (case plansUpdate D (JObj [(''planId'', JStr i), (''title'', JStr title)]) db of
                (Inl _, db) \<Rightarrow> (Some CannotRename, (db, v))
              | (Inr _, db) \<Rightarrow>
                  (None, refreshList D (vw_selectedPlanId v)
                    (db, v\<lparr>vw_plan := map_option (\<lambda>(p, its). (p\<lparr>pl_title := Some title\<rparr>, its)) (vw_plan v)\<rparr>))))"

definition ctxDeletePlan :: "'db planDb \<Rightarrow> int \<Rightarrow> string \<Rightarrow> 'db planWorld \<Rightarrow> toast option \<times> 'db planWorld" where
  "ctxDeletePlan D now planId w =
     (let (db, v) = w
      in case plansDelete D now (JStr planId) db of
           (Inl _, db) \<Rightarrow> (Some CannotDeletePlan, (db, v))
         | (Inr _, db) \<Rightarrow>
             (None, refreshList D (vw_selectedPlanId v)
               (if vw_selectedPlanId v = Some planId then setSelectedPlanId D None (db, v) else (db, v))))"

section \<open>What the handlers do, whatever their arguments\<close>

text \<open>Identifiers that survive the trimming of the payload checks\<close>

definition cleanId :: "string \<Rightarrow> bool" where
  "cleanId i \<longleftrightarrow> i \<noteq> [] \<and> trim i = i"

locale clean_plan_store = plan_store +
  assumes plan_clean: "ok db \<Longrightarrow> plans db i = Some p \<Longrightarrow> cleanId i"
    and item_clean: "ok db \<Longrightarrow> items db i = Some r \<Longrightarrow> cleanId i"

lemma digit_not_space: "n < 10 \<Longrightarrow> \<not> js_space (digit_char n)"
  using digit_char_digit [of n] by (auto simp: js_space_def is_digit_def)

lemma show_nat_not_space: "show_nat n \<noteq> [] \<and> (\<forall>c \<in> set (show_nat n). \<not> js_space c)"
proof (induction n rule: show_nat.induct)
  case (1 n)
  then show ?case
    by (subst (1 2) show_nat.simps) (simp add: digit_not_space)
qed

lemma show_nat_clean: "cleanId (show_nat n)"
  using show_nat_not_space [of n] by (auto simp: cleanId_def trimmed_def intro!: trim_trimmed)

lemma tables_clean: "clean_plan_store tablesDb tb_plans tb_items tb_songs tablesOk"
proof (intro clean_plan_store.intro clean_plan_store_axioms.intro)
  show "plan_store tablesDb tb_plans tb_items tb_songs tablesOk"
    by (rule tables_plan_store)
  show "cleanId i" if "tablesOk t" and "tb_plans t i = Some p" for t i p
    using that tb_plans_Some [OF that(1), of i p] by (auto simp: tablesOk_def usedIds_def show_nat_clean)
  show "cleanId i" if "tablesOk t" and "tb_items t i = Some r" for t i r
    using that tb_items_Some [OF that(1), of i r] by (auto simp: tablesOk_def usedIds_def show_nat_clean)
qed

interpretation clean_tables: clean_plan_store tablesDb tb_plans tb_items tb_songs tablesOk
  by (rule tables_clean)

context plan_store
begin

text \<open>A renumbering that succeeds, from whatever orders\<close>

lemma renumber_effect:
  assumes "renumber D idx ids db = Inr db'" and "distinct ids" and "ok db"
  shows "items db' = renumbered idx ids (items db) \<and> set ids \<subseteq> dom (items db) \<and> plans db' = plans db
     \<and> songs db' = songs db \<and> ok db'"
  using assms
proof (induction ids arbitrary: idx db)
  case Nil
  have "renumbered idx [] (items db) = items db"
    by (auto simp: renumbered_def split: option.split)
  then show ?case using Nil by simp
next
  case (Cons i ids)
  let ?f = "\<lambda>r. r\<lparr>it_order := int idx + 1\<rparr>"
  obtain db1 where u: "updateItem D db i ?f = Inr db1" and rest: "renumber D (Suc idx) ids db1 = Inr db'"
    using Cons.prems(1) by (cases "updateItem D db i ?f") auto
  obtain r where r: "items db i = Some r"
    using u update_item_missing [OF Cons.prems(3)] by (cases "items db i") auto
  have "\<not> sameSlot (?f r) q" if "items db j = Some q" "j \<noteq> i" for j q
    using update_item_taken [OF Cons.prems(3) r that(1,2), of ?f] u by auto
  then have db1: "items db1 = (items db)(i \<mapsto> ?f r)" "plans db1 = plans db" "songs db1 = songs db" "ok db1"
    using update_item [OF Cons.prems(3) r, of ?f] u by (auto simp: keepsItemKeys_def)
  have eff: "items db' = renumbered (Suc idx) ids (items db1) \<and> set ids \<subseteq> dom (items db1)
      \<and> plans db' = plans db1 \<and> songs db' = songs db1 \<and> ok db'"
    using Cons.IH [OF rest _ db1(4)] Cons.prems(2) by simp
  have "renumbered (Suc idx) ids (items db1) = renumbered idx (i # ids) (items db)"
  proof
    fix j
    show "renumbered (Suc idx) ids (items db1) j = renumbered idx (i # ids) (items db) j"
      using Cons.prems(2) r index_of_None_iff [of i ids]
      by (auto simp: renumbered_def db1(1) split: option.split)
  qed
  then show ?case
    using eff db1 r by auto
qed

lemma renumbered_plan:
  assumes "ok db" and "ok db'" and "items db' = renumbered 0 ids (items db)"
    and "mset ids = mset (planItemIds D db p)"
  shows "findItems D db' (ofPlan p) = map_idx (\<lambda>k i. (the (items db i))\<lparr>it_order := int k + 1\<rparr>) ids"
    and "q \<noteq> p \<Longrightarrow> findItems D db' (ofPlan q) = findItems D db (ofPlan q)"
proof -
  let ?ys = "map_idx (\<lambda>k i. (the (items db i))\<lparr>it_order := int k + 1\<rparr>) ids"
  have d: "distinct ids" and s: "set ids = set (planItemIds D db p)"
    using plan_items_ids [OF assms(1)] mset_eq_imp_distinct_iff [OF assms(4)] mset_eq_setD [OF assms(4)]
    by (simp_all add: planItemIds_def)
  have mem: "i \<in> set ids \<longleftrightarrow> (\<exists>r. items db i = Some r \<and> it_planId r = p)" for i
    using plan_items_mem [OF assms(1), of _ "ofPlan p"] item_key [OF assms(1), of i]
    by (auto simp: s planItemIds_def image_iff)
  have at: "items db' (ids ! k) = Some ((the (items db (ids ! k)))\<lparr>it_order := int k + 1\<rparr>)" if "k < length ids" for k
    using mem [of "ids ! k"] that index_of_nth [OF d that] by (auto simp: assms(3) renumbered_def)
  have out: "items db' i = items db i" if "i \<notin> set ids" for i
    using that index_of_None_iff [of i ids] by (auto simp: assms(3) renumbered_def split: option.splits)
  show "findItems D db' (ofPlan p) = ?ys"
  proof (rule find_items_unique [OF assms(2)])
    show "sorted_wrt (<) (map it_order ?ys)"
      using map_idx_index [of 0 "\<lambda>k. int k + 1" ids] sorted_numbers by simp
    show "set ?ys = {r \<in> ran (items db'). it_planId r = p}"
    proof (intro set_eqI iffI)
      fix y assume "y \<in> set ?ys"
      then obtain k where k: "k < length ids" "y = (the (items db (ids ! k)))\<lparr>it_order := int k + 1\<rparr>"
        unfolding set_map_idx by auto
      have "items db' (ids ! k) = Some y" and "it_planId y = p"
        using at [OF k(1)] mem [of "ids ! k"] k by auto
      then show "y \<in> {r \<in> ran (items db'). it_planId r = p}"
        by (auto intro: ranI)
    next
      fix y assume "y \<in> {r \<in> ran (items db'). it_planId r = p}"
      then obtain i where i: "items db' i = Some y" "it_planId y = p" by (auto simp: ran_def)
      have "i \<in> set ids"
        using out [of i] mem [of i] i by (cases "i \<in> set ids") auto
      then obtain k where "k < length ids" "ids ! k = i" by (auto simp: in_set_conv_nth)
      with at [of k] i(1) show "y \<in> set ?ys"
        unfolding set_map_idx by auto
    qed
  qed
  show "findItems D db' (ofPlan q) = findItems D db (ofPlan q)" if "q \<noteq> p"
  proof (rule find_items_other [OF assms(1,2)])
    fix i and r :: itemRow assume r: "it_planId r = q"
    show "items db' i = Some r \<longleftrightarrow> items db i = Some r"
    proof (cases "i \<in> set ids")
      case True
      then obtain k where "k < length ids" "ids ! k = i" by (auto simp: in_set_conv_nth)
      then show ?thesis
        using at [of k] mem [of i] r that by auto
    qed (simp add: out)
  qed
qed

end

text \<open>A row as the context shows it: its number in the plan is not shown\<close>

definition shownAs :: "itemRow \<Rightarrow> itemRow" where
  "shownAs r = r\<lparr>it_order := 0\<rparr>"

lemma shownAs_simps [simp]:
  "it_id (shownAs r) = it_id r" "shownAs (r\<lparr>it_order := n\<rparr>) = shownAs r"
  by (simp_all add: shownAs_def)

lemma clean_parsed [simp]: "cleanId i \<Longrightarrow> expectText (JStr i) label = Inr i"
  by (simp add: cleanId_def expectString_def)

lemma trim_parsed: "trim i = i \<Longrightarrow> expectText (JStr i) label = (if i = [] then invalid (label @ '' must not be empty'') else Inr i)"
  by (simp add: expectString_def)

context plan_store
begin

lemma addItem_total:
  assumes "plansAddItem D raw db = (r, db')" and "ok db"
  shows "ok db' \<and> plans db' = plans db \<and> (isl r \<longrightarrow> db' = db)"
proof (cases "parsePlanAddItemPayload raw")
  case (Inl e)
  then show ?thesis using assms by (simp add: plansAddItem_def)
next
  case (Inr p)
  then have c: "createPlanItemWithRetry D p (Suc 19) db = (r, db')"
    using assms(1) by (simp add: plansAddItem_def)
  show ?thesis
  proof (cases "refsOk (plans db) (songs db) (newItemRow p 0)")
    case True
    then show ?thesis using createItem_appended [OF assms(2) True, of 19] c by auto
  next
    case False
    then show ?thesis using createItem_dangling [OF assms(2) False, of 19] c assms(2) by auto
  qed
qed

lemma updateItem_total:
  assumes "plansUpdateItem D raw db = (r, db')" and "ok db"
  shows "ok db' \<and> plans db' = plans db \<and> (isl r \<longrightarrow> db' = db)"
proof (cases "parsePlanUpdateItemPayload raw")
  case (Inl e)
  then show ?thesis using assms by (auto simp: plansUpdateItem_def)
next
  case (Inr p)
  let ?f = "applyItemUpdate p"
  show ?thesis
  proof (cases "items db (ui_itemId p)")
    case None
    then show ?thesis using assms Inr find_item [OF assms(2)] by (auto simp: plansUpdateItem_def)
  next
    case (Some row)
    have "\<not> sameSlot (?f row) q" if "items db j = Some q" "j \<noteq> ui_itemId p" for j q
      using slot_unique [OF assms(2) Some that(1)] that(2) by (auto simp: sameSlot_def applyItemUpdate_def)
    then obtain db1 where "updateItem D db (ui_itemId p) ?f = Inr db1" "plans db1 = plans db" "ok db1"
      using update_item [OF assms(2) Some, of ?f] by (auto simp: keepsItemKeys_def applyItemUpdate_def)
    then show ?thesis
      using assms Inr Some find_item [OF assms(2)] by (auto simp: plansUpdateItem_def split: if_splits)
  qed
qed

lemma deleted_plan:
  assumes "ok db"
  shows "findItems D (deleteItems D db P) (ofPlan q) = filter (\<lambda>r. \<not> P r) (findItems D db (ofPlan q))"
proof (rule find_items_unique)
  note del = delete_items [OF assms, of P]
  show "ok (deleteItems D db P)" using del by blast
  show "sorted_wrt (<) (map it_order (filter (\<lambda>r. \<not> P r) (findItems D db (ofPlan q))))"
    using plan_items_orders [OF assms, of q] by (simp add: sorted_wrt_map sorted_wrt_filter)
  have left: "items (deleteItems D db P) i = Some r \<longleftrightarrow> items db i = Some r \<and> \<not> P r" for i r
    using del by (auto split: option.splits if_splits)
  show "set (filter (\<lambda>r. \<not> P r) (findItems D db (ofPlan q))) = {r \<in> ran (items (deleteItems D db P)). it_planId r = q}"
    using find_items_set [OF assms, of "ofPlan q"] left by (auto simp: ran_def)
qed

lemma shown_renumbered:
  assumes "ok db" and "ok db'" and "items db' = renumbered 0 (planItemIds D db p) (items db)"
  shows "map shownAs (findItems D db' (ofPlan p)) = map shownAs (findItems D db (ofPlan p))"
proof -
  have "the (items db (it_id r)) = r" if "r \<in> set (findItems D db (ofPlan p))" for r
    using that plan_items_mem [OF assms(1), of r "ofPlan p"] by simp
  then show ?thesis
    by (simp add: renumbered_plan(1) [OF assms refl] planItemIds_def map_idx_const)
qed

text \<open>Deleting rows and renumbering the rest of the plan, when it succeeds\<close>

lemma delete_renumber_total:
  assumes "transaction (\<lambda>tx. let tx = deleteItems D tx P
              in andThen (renumber D 0 (planItemIds D tx p) tx) (\<lambda>tx. Inr ((), tx))) db = (r, db')"
    and "ok db"
  shows "ok db' \<and> plans db' = plans db \<and> (isl r \<longrightarrow> db' = db)
     \<and> (\<not> isl r \<longrightarrow> map shownAs (findItems D db' (ofPlan p))
           = map shownAs (filter (\<lambda>r. \<not> P r) (findItems D db (ofPlan p))))"
proof -
  let ?db = "deleteItems D db P"
  have del: "ok ?db" "plans ?db = plans db"
    using delete_items [OF assms(2), of P] by blast+
  show ?thesis
  proof (cases "renumber D 0 (planItemIds D ?db p) ?db")
    case (Inl e)
    then show ?thesis using assms by (auto simp: transaction_def)
  next
    case (Inr db1)
    have "distinct (planItemIds D ?db p)"
      using plan_items_ids [OF del(1)] by (simp add: planItemIds_def)
    from renumber_effect [OF Inr this del(1)]
    have db1: "items db1 = renumbered 0 (planItemIds D ?db p) (items ?db)" "plans db1 = plans db" "ok db1"
      using del(2) by simp_all
    have "r = Inr ()" "db' = db1"
      using assms(1) Inr by (simp_all add: transaction_def)
    then show ?thesis
      using db1(2,3) shown_renumbered [OF del(1) db1(3,1)] by (simp add: deleted_plan [OF assms(2)])
  qed
qed

lemma removeItem_total:
  assumes "plansRemoveItem D (JObj [(''planId'', JStr p), (''itemId'', JStr i)]) db = (r, db')" and "ok db"
    and "cleanId p" and "trim i = i"
  shows "ok db' \<and> plans db' = plans db \<and> (isl r \<longrightarrow> db' = db)
     \<and> (\<not> isl r \<longrightarrow> map shownAs (findItems D db' (ofPlan p))
           = map shownAs (filter (\<lambda>r. it_id r \<noteq> i) (findItems D db (ofPlan p))))"
proof (cases "i = []")
  case True
  then show ?thesis
    using assms by (auto simp: plansRemoveItem_def parsePlanRemoveItemPayload_def trim_parsed invalid_def)
next
  case False
  then have parsed: "parsePlanRemoveItemPayload (JObj [(''planId'', JStr p), (''itemId'', JStr i)]) = Inr (p, i)"
    using assms(3,4) by (simp add: parsePlanRemoveItemPayload_def trim_parsed)
  show ?thesis
  proof (cases "items db i")
    case None
    have "filter (\<lambda>r. it_id r \<noteq> i) (findItems D db (ofPlan p)) = findItems D db (ofPlan p)"
      using None plan_items_mem [OF assms(2), of _ "ofPlan p"] by (intro filter_True) auto
    then show ?thesis
      using assms(1,2) parsed None find_item [OF assms(2)] by (auto simp: plansRemoveItem_def)
  next
    case (Some row)
    then show ?thesis
      using assms(1,2) parsed find_item [OF assms(2)] delete_renumber_total [of "\<lambda>r. it_id r = i" p db r db']
      by (auto simp: plansRemoveItem_def split: if_splits)
  qed
qed

end

lemma ids_parsed: "\<forall>i \<in> set ids. cleanId i \<Longrightarrow> parseIds (JArr (map JStr ids)) label = Inr ids"
  by (simp add: parseIds_def traverse_from_map_id)

context plan_store
begin

lemma removeItems_total:
  assumes "plansRemoveItems D (JObj [(''planId'', JStr p), (''itemIds'', JArr (map JStr ids))]) db = (r, db')" and "ok db"
    and "cleanId p" and "\<forall>i \<in> set ids. cleanId i" and "ids \<noteq> []"
  shows "ok db' \<and> plans db' = plans db \<and> (isl r \<longrightarrow> db' = db)
     \<and> (\<not> isl r \<longrightarrow> map shownAs (findItems D db' (ofPlan p))
           = map shownAs (filter (\<lambda>r. it_id r \<notin> set ids) (findItems D db (ofPlan p))))"
proof -
  have parsed: "parsePlanRemoveItemsPayload (JObj [(''planId'', JStr p), (''itemIds'', JArr (map JStr ids))]) = Inr (p, ids)"
    using assms(3,4) by (simp add: parsePlanRemoveItemsPayload_def ids_parsed)
  show ?thesis
  proof (cases "filter (\<lambda>i. it_planId i \<noteq> p) (findItems D db (\<lambda>r. it_id r \<in> set ids))")
    case Nil
    then have "transaction (\<lambda>tx. let tx = deleteItems D tx (\<lambda>r. it_id r \<in> set ids)
        in andThen (renumber D 0 (planItemIds D tx p) tx) (\<lambda>tx. Inr ((), tx))) db = (r, db')"
      using assms(1,5) parsed by (simp add: plansRemoveItems_def transaction_def)
    from delete_renumber_total [OF this assms(2)] show ?thesis .
  next
    case (Cons f fs)
    then show ?thesis
      using assms(1,2,5) parsed by (auto simp: plansRemoveItems_def transaction_def)
  qed
qed

lemma reorder_total:
  assumes "plansReorder D (JObj [(''planId'', JStr p), (''orderedItemIds'', JArr (map JStr ids))]) db = (r, db')" and "ok db"
    and "cleanId p" and "\<forall>i \<in> set ids. cleanId i"
  shows "ok db' \<and> plans db' = plans db \<and> (isl r \<longrightarrow> db' = db)
     \<and> (\<not> isl r \<longrightarrow> mset ids = mset (planItemIds D db p)
           \<and> map shownAs (findItems D db' (ofPlan p)) = map (\<lambda>i. shownAs (the (items db i))) ids)"
proof -
  have parsed: "parsePlanReorderPayload (JObj [(''planId'', JStr p), (''orderedItemIds'', JArr (map JStr ids))])
      = Inr \<lparr>ro_planId = p, ro_orderedItemIds = ids\<rparr>"
    using assms(3,4) by (simp add: parsePlanReorderPayload_def ids_parsed)
  have d: "distinct (planItemIds D db p)"
    using plan_items_ids [OF assms(2)] by (simp add: planItemIds_def)
  show ?thesis
  proof (cases "validatePlanReorderPayload (planItemIds D db p) ids")
    case (Inl e)
    then show ?thesis using assms(1,2) parsed by (auto simp: plansReorder_def)
  next
    case (Inr u)
    then have perm: "mset ids = mset (planItemIds D db p)"
      using validatePlanReorderPayload_iff [OF d, of ids] by simp
    have run: "transaction (\<lambda>tx. andThen (renumber D 0 ids tx) (\<lambda>tx. Inr ((), tx))) db = (r, db')"
      using assms(1) parsed Inr by (simp add: plansReorder_def)
    show ?thesis
    proof (cases "renumber D 0 ids db")
      case (Inl e)
      then show ?thesis using run assms(2) by (auto simp: transaction_def)
    next
      case (Inr db1)
      have db1: "r = Inr ()" "db' = db1"
        using run Inr by (simp_all add: transaction_def)
      have "distinct ids"
        using d mset_eq_imp_distinct_iff [OF perm] by simp
      from renumber_effect [OF Inr this assms(2)]
      have eff: "items db1 = renumbered 0 ids (items db)" "plans db1 = plans db" "ok db1"
        by simp_all
      show ?thesis
        using eff(2,3) perm renumbered_plan(1) [OF assms(2) eff(3,1) perm] by (simp add: db1 map_idx_const)
    qed
  qed
qed

lemma createLoop_total:
  assumes "createPlanLoop D title n d db = (r, db')" and "ok db"
  shows "case r of Inl _ \<Rightarrow> db' = db
    | Inr q \<Rightarrow> ok db' \<and> items db' = items db \<and> pl_id q \<notin> dom (plans db) \<and> plans db' = (plans db)(pl_id q \<mapsto> q)"
  using assms
proof (induction n arbitrary: d)
  case (Suc n)
  let ?p = "newPlanRow d (Some title) None"
  show ?case
  proof (cases "\<exists>j q. plans db j = Some q \<and> pl_date q = pl_date ?p")
    case True
    then have "createPlan D db ?p = Inl (Prisma P2002)"
      using create_plan_taken [OF Suc.prems(2)] by blast
    then show ?thesis
      using Suc.IH [of "addUtcDays d 1"] Suc.prems by (simp add: isUniqueConstraintError_def)
  next
    case False
    then obtain i db1 where c: "createPlan D db ?p = Inr (?p\<lparr>pl_id := i\<rparr>, db1)" "i \<notin> dom (plans db)"
        "plans db1 = (plans db)(i \<mapsto> ?p\<lparr>pl_id := i\<rparr>)" "items db1 = items db" "ok db1"
      using create_plan [OF Suc.prems(2), of ?p] by blast
    have "r = Inr (?p\<lparr>pl_id := i\<rparr>)" and "db' = db1"
      using Suc.prems(1) c(1) by simp_all
    then show ?thesis
      using c(2-5) by simp
  qed
qed auto

lemma updatePlan_total:
  assumes "statement (updatePlan D db i g) db = (r, db')" and "ok db"
    and "\<And>p'. pl_id (g p') = pl_id p' \<and> pl_date (g p') = pl_date p'"
  shows "ok db' \<and> items db' = items db \<and> (isl r \<longrightarrow> db' = db)
     \<and> (\<not> isl r \<longrightarrow> (\<exists>p. plans db i = Some p \<and> plans db' = (plans db)(i \<mapsto> g p)))"
proof (cases "plans db i")
  case None
  then show ?thesis using assms(1,2) update_plan_missing [OF assms(2)] by (auto simp: statement_def)
next
  case (Some p)
  then obtain db1 where "updatePlan D db i g = Inr db1" "plans db1 = (plans db)(i \<mapsto> g p)" "items db1 = items db" "ok db1"
    using update_plan [OF assms(2) Some assms(3)] by blast
  then show ?thesis using assms(1) Some by auto
qed

end

section \<open>Sorting the copy\<close>

lemma idxOf_at: "distinct ids \<Longrightarrow> k < length ids \<Longrightarrow> it_id r = ids ! k \<Longrightarrow> idxOf ids r = k"
proof -
  assume a: "distinct ids" "k < length ids" "it_id r = ids ! k"
  have "distinct (map fst (rev (zip ids [0..<length ids])))"
    using a(1) by (simp add: rev_map [symmetric])
  moreover have "(ids ! k, k) \<in> set (rev (zip ids [0..<length ids]))"
    using a(2) by (auto simp: set_zip intro!: exI [of _ k])
  ultimately have "map_of (rev (zip ids [0..<length ids])) (ids ! k) = Some k"
    by (rule map_of_is_SomeI)
  then show "idxOf ids r = k"
    by (simp add: idxOf_def a(3))
qed

lemma sorted_by_ids:
  assumes "distinct ids" and "map it_id ys = ids" and "set ys = set xs" and "distinct xs"
  shows "sort_key (idxOf ids) xs = ys"
proof (rule strictly_sorted_unique [where k = "int \<circ> idxOf ids"])
  have at: "idxOf ids (ys ! k) = k" if "k < length ys" for k
    using that assms(2) by (intro idxOf_at [OF assms(1)]) auto
  then have keys: "map (idxOf ids) ys = [0..<length ys]"
    by (intro nth_equalityI) simp_all
  then show "sorted_wrt (<) (map (int \<circ> idxOf ids) ys)"
    by (simp add: sorted_wrt_iff_nth_less at)
  have "inj_on (idxOf ids) (set xs)"
    unfolding assms(3) [symmetric] using keys by (metis distinct_map distinct_upt)
  then have "distinct (map (idxOf ids) (sort_key (idxOf ids) xs))"
    using assms(4) by (simp add: distinct_map)
  then have "sorted_wrt (<) (map (idxOf ids) (sort_key (idxOf ids) xs))"
    by (simp add: strict_sorted_iff)
  then show "sorted_wrt (<) (map (int \<circ> idxOf ids) (sort_key (idxOf ids) xs))"
    by (simp add: sorted_wrt_map)
  show "set (sort_key (idxOf ids) xs) = set ys"
    by (simp add: assms(3))
qed

section \<open>The copy follows the database\<close>

definition followsDb :: "'db planDb \<Rightarrow> ('db \<Rightarrow> string \<rightharpoonup> planRow) \<Rightarrow> 'db planWorld \<Rightarrow> bool" where
  "followsDb D plans w \<longleftrightarrow>
     (case chosen (snd w) of
        None \<Rightarrow> vw_plan (snd w) = None
      | Some i \<Rightarrow> cleanId i \<and> (\<exists>p its. plans (fst w) i = Some p \<and> vw_plan (snd w) = Some (p, its)
          \<and> map shownAs its = map (shownAs \<circ> normalizeItemKind) (findItems D (fst w) (\<lambda>r. it_planId r = i))))"

text \<open>
  The operations that the context offers. A plan that is selected is one of the database, and the
  dialog gives a title that is trimmed and not empty. The import of the tool bar changes the plan
  behind the context's back and is not one of them.
\<close>

inductive ctxStep ::
  "'db planDb \<Rightarrow> (string \<Rightarrow> int option) \<Rightarrow> ('db \<Rightarrow> string \<rightharpoonup> planRow) \<Rightarrow> 'db planWorld \<Rightarrow> 'db planWorld \<Rightarrow> bool"
  for D parseDate plans where
  select: "(case i of None \<Rightarrow> True | Some j \<Rightarrow> j \<in> dom (plans (fst w))) \<Longrightarrow>
     ctxStep D parseDate plans w (setSelectedPlanId D i w)"
| refresh: "ctxStep D parseDate plans w (refreshPlan D w)"
| list: "ctxStep D parseDate plans w (refreshList D seen w)"
| add: "ctxStep D parseDate plans w (snd (addItem D payload w))"
| duplicate: "ctxStep D parseDate plans w (snd (duplicateItem D itemId w))"
| update: "ctxStep D parseDate plans w (snd (ctxUpdateItem D itemId patch w))"
| background: "ctxStep D parseDate plans w (snd (updateSongBackground D refId backgroundConfig w))"
| remove: "trim itemId = itemId \<Longrightarrow> ctxStep D parseDate plans w (snd (removeItem D itemId w))"
| removeMany: "\<forall>i \<in> set itemIds. cleanId i \<Longrightarrow> ctxStep D parseDate plans w (snd (removeItems D itemIds w))"
| order: "\<forall>i \<in> set ids. cleanId i \<Longrightarrow> ctxStep D parseDate plans w (snd (reorder D ids w))"
| create: "ctxStep D parseDate plans w (snd (ctxCreatePlan D parseDate payload w))"
| rename: "cleanId title \<Longrightarrow> ctxStep D parseDate plans w (snd (ctxUpdatePlan D title w))"
| delete: "trim planId = planId \<Longrightarrow> ctxStep D parseDate plans w (snd (ctxDeletePlan D now planId w))"

lemma chosen_clean: "cleanId i \<Longrightarrow> vw_selectedPlanId v = Some i \<Longrightarrow> chosen v = Some i"
  by (cases i) (simp_all add: chosen_def cleanId_def)

lemma chosen_selected: "chosen v = Some i \<Longrightarrow> vw_selectedPlanId v = Some i"
  by (simp add: chosen_def split: option.splits list.splits)

lemma chosen_simps [simp]:
  "chosen (v\<lparr>vw_plan := p\<rparr>) = chosen v" "chosen (v\<lparr>vw_planList := l\<rparr>) = chosen v"
  by (simp_all add: chosen_def)

lemma shown_normalized: "shownAs (normalizeItemKind r) = normalizeItemKind (shownAs r)"
  by (simp add: shownAs_def normalizeItemKind_def)

lemma normalizeItemKind_id [simp]: "it_id (normalizeItemKind r) = it_id r"
  by (simp add: normalizeItemKind_def)

context clean_plan_store
begin

abbreviation follows :: "'a planWorld \<Rightarrow> bool" where
  "follows w \<equiv> ok (fst w) \<and> followsDb D plans w"

text \<open>The selection is one of the database.\<close>

definition selOk :: "'a planWorld \<Rightarrow> bool" where
  "selOk w \<longleftrightarrow> (\<forall>i. chosen (snd w) = Some i \<longrightarrow> cleanId i \<and> i \<in> dom (plans (fst w)))"

lemma follows_selOk: "followsDb D plans w \<Longrightarrow> selOk w"
  by (auto simp: followsDb_def selOk_def)

lemma refreshPlan_follows:
  assumes "ok db" and "selOk (db, v)"
  shows "follows (refreshPlan D (db, v)) \<and> fst (refreshPlan D (db, v)) = db
     \<and> chosen (snd (refreshPlan D (db, v))) = chosen v"
proof (cases "chosen v")
  case None
  then show ?thesis using assms(1) by (simp add: refreshPlan_def followsDb_def)
next
  case (Some i)
  then obtain p where i: "cleanId i" "plans db i = Some p"
    using assms(2) by (auto simp: selOk_def)
  have "plansGet D (JStr i) db = (Inr (Some (p, map normalizeItemKind (findItems D db (ofPlan i)))), db)"
    using i find_plan [OF assms(1), of i] by (simp add: plansGet_def parseNonEmptyString_def planWithItems_def)
  then show ?thesis
    using Some i assms(1) by (simp add: refreshPlan_def followsDb_def comp_def)
qed

lemma setSelected_follows:
  assumes "follows w" and "case i of None \<Rightarrow> True | Some j \<Rightarrow> j \<in> dom (plans (fst w))"
  shows "follows (setSelectedPlanId D i w)"
proof -
  obtain db v where w: "w = (db, v)" by (cases w)
  have "selOk (db, v\<lparr>vw_selectedPlanId := i\<rparr>)"
    using assms plan_clean by (auto simp: selOk_def w dest!: chosen_selected)
  then show ?thesis
    using assms refreshPlan_follows [of db "v\<lparr>vw_selectedPlanId := i\<rparr>"] by (simp add: setSelectedPlanId_def w)
qed

lemma listed_plan: "ok db \<Longrightarrow> plansList D db = (i, x) # rest \<Longrightarrow> i \<in> dom (plans db)"
proof -
  assume a: "ok db" "plansList D db = (i, x) # rest"
  then have "(i, x) \<in> set (plansList D db)"
    by simp
  then have "i \<in> pl_id ` set (findPlans D db)"
    by (force simp: plansList_def dest: in_set_takeD)
  then show ?thesis
    using find_plans [OF a(1)] plan_key [OF a(1)] by (auto simp: ran_def)
qed

lemma refreshList_follows:
  assumes "follows w"
  shows "follows (refreshList D seen w)"
proof -
  obtain db v where w: "w = (db, v)" by (cases w)
  have f: "follows (db, v\<lparr>vw_planList := l\<rparr>)" for l
    using assms by (simp add: w followsDb_def cong: option.case_cong)
  show ?thesis
  proof (cases "plansList D db")
    case (Cons e rest)
    obtain i x where "e = (i, x)" by (cases e)
    then show ?thesis
      using f [of "plansList D db"] setSelected_follows [OF f [of "plansList D db"], of "Some i"]
        listed_plan [of db i x rest] Cons by (simp add: refreshList_def w Let_def)
  qed (use f in \<open>simp add: refreshList_def w Let_def\<close>)
qed

text \<open>A call that changes no plan, and nothing when it throws, then a reading\<close>

lemma callThenRefresh_follows:
  assumes "follows w" and "\<And>r db'. call (fst w) = (r, db') \<Longrightarrow> ok db' \<and> plans db' = plans (fst w) \<and> (isl r \<longrightarrow> db' = fst w)"
  shows "follows (snd (callThenRefresh D t call w))"
proof -
  obtain db v where w: "w = (db, v)" by (cases w)
  obtain r db' where c: "call db = (r, db')" by (cases "call db")
  have a: "ok db'" "plans db' = plans db" "isl r \<longrightarrow> db' = db"
    using assms(2) [of r db'] c by (simp_all add: w)
  have "selOk (db', v)"
    using follows_selOk [of w] assms(1) a(2) by (simp add: selOk_def w)
  then show ?thesis
    using assms(1) a refreshPlan_follows [of db' v] c by (cases r) (simp_all add: callThenRefresh_def w)
qed

text \<open>An optimistic change that does to the copy what the call does to the database\<close>

lemma optimistically_follows:
  assumes "follows w" and "chosen (snd w) = Some i"
    and "\<And>r db'. call (fst w) = (r, db') \<Longrightarrow> ok db' \<and> plans db' = plans (fst w) \<and> (isl r \<longrightarrow> db' = fst w)
           \<and> (\<not> isl r \<longrightarrow> (\<forall>its. map shownAs its = map (shownAs \<circ> normalizeItemKind) (findItems D (fst w) (ofPlan i)) \<longrightarrow>
                map shownAs (change its) = map (shownAs \<circ> normalizeItemKind) (findItems D db' (ofPlan i))))"
  shows "follows (snd (optimistically D change t call w))"
proof -
  obtain db v where w: "w = (db, v)" by (cases w)
  obtain r db' where c: "call db = (r, db')" by (cases "call db")
  note total = assms(3) [of r db', unfolded w fst_conv, OF c]
  obtain p its where v: "cleanId i" "plans db i = Some p" "vw_plan v = Some (p, its)"
      "map shownAs its = map (shownAs \<circ> normalizeItemKind) (findItems D db (ofPlan i))"
    using assms(1,2) by (auto simp: followsDb_def w)
  show ?thesis
  proof (cases r)
    case (Inl e)
    have "selOk (db, v\<lparr>vw_plan := Some (p, change its)\<rparr>)"
      using follows_selOk [of w] assms(1) by (simp add: selOk_def w)
    then show ?thesis
      using refreshPlan_follows [of db] assms(1) total Inl c v(3) by (simp add: optimistically_def w)
  next
    case (Inr u)
    have "map shownAs (change its) = map (shownAs \<circ> normalizeItemKind) (findItems D db' (ofPlan i))"
      using total Inr v(4) by simp
    then show ?thesis
      using total Inr c v assms(2) by (simp add: optimistically_def w followsDb_def)
  qed
qed

lemma filter_shown:
  assumes "map shownAs its = map (shownAs \<circ> normalizeItemKind) xs"
    and "map shownAs xs' = map shownAs (filter (\<lambda>r. P (it_id r)) xs)"
  shows "map shownAs (filter (\<lambda>r. P (it_id r)) its) = map (shownAs \<circ> normalizeItemKind) xs'"
proof -
  have n: "map (shownAs \<circ> normalizeItemKind) ys = map normalizeItemKind (map shownAs ys)" for ys
    by (simp add: shown_normalized)
  have f: "map shownAs (filter (\<lambda>r. P (it_id r)) ys) = filter (\<lambda>r. P (it_id r)) (map shownAs ys)" for ys
    by (simp add: filter_map comp_def)
  show ?thesis
    unfolding n assms(2) f assms(1) by (simp add: filter_map comp_def shown_normalized)
qed

lemma removeItem_follows:
  assumes "follows w" and "trim itemId = itemId"
  shows "follows (snd (removeItem D itemId w))"
proof (cases "chosen (snd w)")
  case (Some i)
  then have "cleanId i"
    using assms(1) by (simp add: followsDb_def)
  then have "follows (snd (optimistically D (filter (\<lambda>r. it_id r \<noteq> itemId)) CannotRemove
      (plansRemoveItem D (JObj [(''planId'', JStr i), (''itemId'', JStr itemId)])) w))"
    using removeItem_total [OF _ _ _ assms(2), of i "fst w"] assms(1) filter_shown [where P = "\<lambda>j. j \<noteq> itemId"]
    by (intro optimistically_follows [OF assms(1) Some]) blast
  then show ?thesis
    by (simp add: removeItem_def Some)
qed (use assms in \<open>simp add: removeItem_def\<close>)

lemma removeItems_follows:
  assumes "follows w" and "\<forall>i \<in> set itemIds. cleanId i"
  shows "follows (snd (removeItems D itemIds w))"
proof (cases "chosen (snd w)")
  case (Some i)
  then have "cleanId i"
    using assms(1) by (simp add: followsDb_def)
  then have "follows (snd (optimistically D (filter (\<lambda>r. it_id r \<notin> set itemIds)) CannotRemoveMany
      (plansRemoveItems D (JObj [(''planId'', JStr i), (''itemIds'', JArr (map JStr itemIds))])) w))" if "itemIds \<noteq> []"
    using removeItems_total [OF _ _ _ assms(2) that, of i "fst w"] assms(1) filter_shown [where P = "\<lambda>j. j \<notin> set itemIds"]
    by (intro optimistically_follows [OF assms(1) Some]) blast
  then show ?thesis
    using assms(1) by (simp add: removeItems_def Some)
qed (use assms in \<open>simp add: removeItems_def\<close>)

lemma reorder_shown:
  assumes "ok db" and "map shownAs its = map (shownAs \<circ> normalizeItemKind) (findItems D db (ofPlan p))"
    and "mset ids = mset (planItemIds D db p)" and "map shownAs xs' = map (\<lambda>i. shownAs (the (items db i))) ids"
  shows "map shownAs (sort_key (idxOf ids) its) = map (shownAs \<circ> normalizeItemKind) xs'"
proof -
  let ?xs = "findItems D db (ofPlan p)" and ?row = "\<lambda>i. the (map_of (map (\<lambda>r. (it_id r, r)) its) i)"
  have ids: "map it_id its = planItemIds D db p"
    using arg_cong [OF assms(2), of "map it_id"] by (simp add: planItemIds_def comp_def)
  then have d: "distinct (map it_id its)" and s: "set ids = it_id ` set its" and di: "distinct ids"
    using plan_items_ids [OF assms(1)] mset_eq_setD [OF assms(3)] mset_eq_imp_distinct_iff [OF assms(3)]
    by (simp_all add: planItemIds_def flip: set_map)
  have row: "?row (it_id r) = r" if "r \<in> set its" for r
    using that d by (subst map_of_is_SomeI [where y = r]) (auto simp: comp_def)
  have shown: "shownAs r = normalizeItemKind (shownAs (the (items db (it_id r))))" if r: "r \<in> set its" for r
  proof -
    have "shownAs r \<in> set (map (shownAs \<circ> normalizeItemKind) ?xs)"
      using r by (simp flip: assms(2))
    then obtain x where x: "x \<in> set ?xs" "shownAs r = shownAs (normalizeItemKind x)"
      by auto
    then have "it_id r = it_id x"
      by (metis normalizeItemKind_id shownAs_simps(1))
    moreover have "items db (it_id x) = Some x"
      using x(1) plan_items_mem [OF assms(1), of x "ofPlan p"] by simp
    ultimately show ?thesis
      using x(2) by (simp add: shown_normalized)
  qed
  have "sort_key (idxOf ids) its = map ?row ids"
  proof (rule sorted_by_ids [OF di])
    show "map it_id (map ?row ids) = ids"
      using row s by (auto intro!: map_idI)
    show "set (map ?row ids) = set its"
      using row s by (force simp: image_image)
    show "distinct its"
      using d by (simp add: distinct_map)
  qed
  moreover have "map shownAs (map ?row ids) = map (\<lambda>i. normalizeItemKind (shownAs (the (items db i)))) ids"
    using row shown s by auto
  moreover have "map (shownAs \<circ> normalizeItemKind) xs' = map normalizeItemKind (map shownAs xs')"
    by (simp add: shown_normalized)
  ultimately show ?thesis
    by (simp add: assms(4) comp_def)
qed

lemma reorder_follows:
  assumes "follows w" and "\<forall>i \<in> set ids. cleanId i"
  shows "follows (snd (reorder D ids w))"
proof (cases "chosen (snd w)")
  case (Some i)
  then have "cleanId i"
    using assms(1) by (simp add: followsDb_def)
  then have "follows (snd (optimistically D (sort_key (idxOf ids)) CannotReorder
      (plansReorder D (JObj [(''planId'', JStr i), (''orderedItemIds'', JArr (map JStr ids))])) w))"
    using reorder_total [OF _ _ _ assms(2), of i "fst w"] assms(1) reorder_shown
    by (intro optimistically_follows [OF assms(1) Some]) blast
  then show ?thesis
    by (simp add: reorder_def Some)
qed (use assms in \<open>simp add: reorder_def\<close>)

lemma background_parsed:
  assumes "cleanId p" and "cleanId i"
  shows "parsePlanUpdateItemPayload (updatePayload p i [(''backgroundConfig'', nullOr bg)]) =
     Inr \<lparr>ui_planId = p, ui_itemId = i, ui_title = None, ui_content = None, ui_notes = None,
          ui_secondaryContent = None, ui_backgroundConfig = (case bg of None \<Rightarrow> Null | Some s \<Rightarrow> Val s)\<rparr>"
proof -
  have "optionalRaw JUndef label = Inr None" for label
    by (simp add: expectOptionalString_def)
  moreover have "nullableRaw (nullOr bg) label = Inr (case bg of None \<Rightarrow> Null | Some s \<Rightarrow> Val s)" for label
    by (simp add: nullableRaw_def nullOr_def expectOptionalString_def expectString_def split: option.split)
  ultimately show ?thesis
    using assms by (simp add: parsePlanUpdateItemPayload_def updatePayload_def)
qed

text \<open>Setting the background of items of a plan\<close>

lemma updateAll_background:
  assumes "ok db" and "cleanId p" and "\<forall>i \<in> set ids. \<exists>r. items db i = Some r \<and> it_planId r = p"
  shows "\<exists>db'. updateAll D p [(''backgroundConfig'', nullOr bg)] ids db = (Inr (), db') \<and> ok db' \<and> plans db' = plans db
     \<and> items db' = (\<lambda>i. if i \<in> set ids then map_option (\<lambda>r. r\<lparr>it_backgroundConfig := bg\<rparr>) (items db i) else items db i)"
  using assms(1,3)
proof (induction ids arbitrary: db)
  case (Cons i ids)
  obtain r where r: "items db i = Some r" "it_planId r = p"
    using Cons.prems(2) by auto
  let ?u = "\<lparr>ui_planId = p, ui_itemId = i, ui_title = None, ui_content = None, ui_notes = None,
     ui_secondaryContent = None, ui_backgroundConfig = (case bg of None \<Rightarrow> Null | Some s \<Rightarrow> Val s)\<rparr>"
  let ?f = "applyItemUpdate ?u"
  have f: "?f r' = r'\<lparr>it_backgroundConfig := bg\<rparr>" for r'
    by (simp add: applyItemUpdate_def orOption_def split: option.split)
  have "\<not> sameSlot (?f r) q" if "items db j = Some q" "j \<noteq> i" for j q
    using slot_unique [OF Cons.prems(1) r(1) that(1)] that(2) unfolding f by (auto simp: sameSlot_def)
  then obtain db1 where u: "updateItem D db i ?f = Inr db1" "items db1 = (items db)(i \<mapsto> ?f r)"
      "plans db1 = plans db" "ok db1"
    using update_item [OF Cons.prems(1) r(1), of ?f] by (auto simp: keepsItemKeys_def f)
  have one: "plansUpdateItem D (updatePayload p i [(''backgroundConfig'', nullOr bg)]) db = (Inr (), db1)"
    using u(1) r find_item [OF Cons.prems(1), of i]
    by (simp add: plansUpdateItem_def background_parsed [OF assms(2) item_clean [OF Cons.prems(1) r(1)]])
  have "\<forall>j \<in> set ids. \<exists>r. items db1 j = Some r \<and> it_planId r = p"
    using Cons.prems(2) r(2) by (auto simp: u(2) f)
  then obtain db' where rest: "updateAll D p [(''backgroundConfig'', nullOr bg)] ids db1 = (Inr (), db')" "ok db'"
      "plans db' = plans db1"
      "items db' = (\<lambda>i. if i \<in> set ids then map_option (\<lambda>r. r\<lparr>it_backgroundConfig := bg\<rparr>) (items db1 i) else items db1 i)"
    using Cons.IH [OF u(4)] by blast
  have "items db' = (\<lambda>j. if j \<in> set (i # ids) then map_option (\<lambda>r. r\<lparr>it_backgroundConfig := bg\<rparr>) (items db j) else items db j)"
    using r(1) by (auto simp: rest(4) u(2) f)
  then show ?case
    using one rest(1-3) u(3) by (intro exI [of _ db']) simp
qed (auto intro!: exI [of _ db])

lemma shown_in_db:
  assumes "ok db" and "map shownAs its = map (shownAs \<circ> normalizeItemKind) (findItems D db (ofPlan p))" and "r \<in> set its"
  shows "\<exists>x. items db (it_id r) = Some x \<and> it_planId x = p \<and> shownAs r = shownAs (normalizeItemKind x)"
proof -
  have "shownAs r \<in> set (map (shownAs \<circ> normalizeItemKind) (findItems D db (ofPlan p)))"
    using assms(3) by (simp flip: assms(2))
  then obtain x where x: "x \<in> set (findItems D db (ofPlan p))" "shownAs r = shownAs (normalizeItemKind x)"
    by auto
  then have "it_id r = it_id x"
    by (metis normalizeItemKind_id shownAs_simps(1))
  then show ?thesis
    using x plan_items_mem [OF assms(1), of x "ofPlan p"] by auto
qed

lemma background_follows:
  assumes "follows w"
  shows "follows (snd (updateSongBackground D refId bg w))"
proof (cases "chosen (snd w)")
  case None
  then show ?thesis using assms by (simp add: updateSongBackground_def)
next
  case (Some i)
  then obtain p its where v: "cleanId i" "vw_plan (snd w) = Some (p, its)"
      "map shownAs its = map (shownAs \<circ> normalizeItemKind) (findItems D (fst w) (ofPlan i))"
    using assms by (auto simp: followsDb_def)
  let ?ids = "map it_id (filter (\<lambda>r. it_kind r = ''SONG_BLOCK'' \<and> it_refId r = Some refId) its)"
  have "\<forall>j \<in> set ?ids. \<exists>r. items (fst w) j = Some r \<and> it_planId r = i"
    using assms shown_in_db [OF _ v(3)] by fastforce
  from updateAll_background [OF _ v(1) this, of bg]
  have "follows (snd (callThenRefresh D CannotSetBackground
      (updateAll D i [(''backgroundConfig'', nullOr bg)] ?ids) w))"
    using assms by (intro callThenRefresh_follows) auto
  then show ?thesis
    using Some v(2) by (auto simp: updateSongBackground_def split: prod.splits)
qed

lemma createPlan_follows:
  assumes "follows w"
  shows "follows (snd (ctxCreatePlan D parseDate payload w))"
proof -
  obtain db v where w: "w = (db, v)" by (cases w)
  obtain r db' where c: "plansCreate D parseDate payload db = (r, db')"
    by (cases "plansCreate D parseDate payload db")
  have total: "case r of Inl _ \<Rightarrow> db' = db
      | Inr q \<Rightarrow> ok db' \<and> items db' = items db \<and> pl_id q \<notin> dom (plans db) \<and> plans db' = (plans db)(pl_id q \<mapsto> q)"
  proof (cases "parsePlanCreatePayload payload")
    case (Inl e)
    then show ?thesis using c by (auto simp: plansCreate_def)
  next
    case (Inr p)
    show ?thesis
    proof (cases "normalizeDateToMidnight parseDate (pr_dateIso p)")
      case (Inl e)
      then show ?thesis using c Inr by (auto simp: plansCreate_def)
    next
      case (Inr d)
      show ?thesis
        using c \<open>parsePlanCreatePayload payload = Inr p\<close> Inr assms
        by (intro createLoop_total [of "orElse (pr_title p) ''Culte''" 3660 d]) (simp_all add: plansCreate_def w)
    qed
  qed
  show ?thesis
  proof (cases r)
    case (Inl e)
    then show ?thesis using c total assms by (simp add: ctxCreatePlan_def w)
  next
    case (Inr q)
    have new: "ok db'" "items db' = items db" "pl_id q \<notin> dom (plans db)" "plans db' = (plans db)(pl_id q \<mapsto> q)"
      using total Inr by simp_all
    have "findItems D db' (ofPlan i) = findItems D db (ofPlan i)" for i
      using assms new by (intro find_items_other) (auto simp: w)
    then have "follows (db', v)"
      using assms new by (auto simp: followsDb_def w split: option.splits)
    from refreshList_follows [OF this] have "follows (refreshList D (vw_selectedPlanId v) (db', v))" .
    moreover have "fst (refreshList D s (db', v)) = db'" for s
    proof -
      have "fst (setSelectedPlanId D x (db', u)) = db'" for x u
        by (auto simp: setSelectedPlanId_def refreshPlan_def plansGet_def withPayload_def
            split: option.split sum.split)
      then show ?thesis
        by (auto simp: refreshList_def Let_def split: list.split)
    qed
    ultimately show ?thesis
      using c Inr new(4) setSelected_follows [of "refreshList D (vw_selectedPlanId v) (db', v)" "Some (pl_id q)"]
      by (simp add: ctxCreatePlan_def w)
  qed
qed

lemma updatePlan_follows:
  assumes "follows w" and "cleanId title"
  shows "follows (snd (ctxUpdatePlan D title w))"
proof (cases "chosen (snd w)")
  case (Some i)
  obtain db v where w: "w = (db, v)" by (cases w)
  obtain p its where v: "cleanId i" "plans db i = Some p" "vw_plan v = Some (p, its)"
      "map shownAs its = map (shownAs \<circ> normalizeItemKind) (findItems D db (ofPlan i))"
    using assms(1) Some by (auto simp: followsDb_def w)
  let ?g = "\<lambda>r. r\<lparr>pl_title := Some title\<rparr>"
  have "nullableRaw JUndef label = Inr Undef" and "optionalText (JStr title) label = Inr (Some title)" for label
    using assms(2) by (simp_all add: nullableRaw_def expectOptionalString_def cleanId_def expectString_def)
  then have "parsePlanUpdatePayload (JObj [(''planId'', JStr i), (''title'', JStr title)])
      = Inr \<lparr>pu_planId = i, pu_title = Some title, pu_backgroundConfig = Undef\<rparr>"
    using v(1) by (simp add: parsePlanUpdatePayload_def)
  then have call: "plansUpdate D (JObj [(''planId'', JStr i), (''title'', JStr title)]) db = statement (updatePlan D db i ?g) db"
    by (simp add: plansUpdate_def orOption_def)
  obtain r db' where c: "statement (updatePlan D db i ?g) db = (r, db')"
    by (cases "statement (updatePlan D db i ?g) db")
  have total: "ok db' \<and> items db' = items db \<and> (isl r \<longrightarrow> db' = db)
      \<and> (\<not> isl r \<longrightarrow> (\<exists>p. plans db i = Some p \<and> plans db' = (plans db)(i \<mapsto> ?g p)))"
    by (rule updatePlan_total [OF c]) (use assms(1) in \<open>simp_all add: w\<close>)
  show ?thesis
  proof (cases r)
    case (Inl e)
    then show ?thesis using assms(1) Some total call c by (simp add: ctxUpdatePlan_def w)
  next
    case (Inr u)
    then have new: "ok db'" "items db' = items db" "plans db' = (plans db)(i \<mapsto> ?g p)"
      using total v(2) by auto
    have "findItems D db' (ofPlan i) = findItems D db (ofPlan i)"
      using assms(1) new by (intro find_items_other) (auto simp: w)
    then have "follows (db', v\<lparr>vw_plan := Some (?g p, its)\<rparr>)"
      using Some v new by (simp add: followsDb_def w)
    from refreshList_follows [OF this, of "vw_selectedPlanId v"]
    show ?thesis
      using Inr Some v(3) call c by (simp add: ctxUpdatePlan_def w)
  qed
qed (use assms in \<open>simp add: ctxUpdatePlan_def case_prod_beta\<close>)

lemma deletePlan_follows:
  assumes "follows w" and "trim planId = planId"
  shows "follows (snd (ctxDeletePlan D now planId w))"
proof -
  obtain db v where w: "w = (db, v)" by (cases w)
  let ?g = "\<lambda>r. r\<lparr>pl_deletedAt := Some now\<rparr>"
  obtain r db' where c: "plansDelete D now (JStr planId) db = (r, db')"
    by (cases "plansDelete D now (JStr planId) db")
  have total: "ok db' \<and> items db' = items db \<and> (isl r \<longrightarrow> db' = db)
      \<and> (\<not> isl r \<longrightarrow> (\<exists>p. plans db planId = Some p \<and> plans db' = (plans db)(planId \<mapsto> ?g p)))"
  proof (cases "planId = []")
    case True
    then show ?thesis
      using c assms by (auto simp: plansDelete_def parseNonEmptyString_def trim_parsed invalid_def w)
  next
    case False
    then have "statement (updatePlan D db planId ?g) db = (r, db')"
      using c assms(2) by (simp add: plansDelete_def parseNonEmptyString_def trim_parsed)
    from updatePlan_total [OF this] show ?thesis
      using assms(1) by (simp add: w)
  qed
  show ?thesis
  proof (cases r)
    case (Inl e)
    then show ?thesis using assms(1) total c by (simp add: ctxDeletePlan_def w)
  next
    case (Inr u)
    then obtain p where new: "ok db'" "items db' = items db" "plans db planId = Some p" "plans db' = (plans db)(planId \<mapsto> ?g p)"
      using total by auto
    have other: "findItems D db' (ofPlan i) = findItems D db (ofPlan i)" for i
      using assms(1) new by (intro find_items_other) (auto simp: w)
    have "follows (if vw_selectedPlanId v = Some planId then setSelectedPlanId D None (db', v) else (db', v))"
    proof (cases "vw_selectedPlanId v = Some planId")
      case True
      have "selOk (db', v\<lparr>vw_selectedPlanId := None\<rparr>)"
        by (simp add: selOk_def chosen_def)
      then show ?thesis
        using True new(1) refreshPlan_follows [OF new(1)] by (simp add: setSelectedPlanId_def)
    next
      case False
      then have "chosen v \<noteq> Some planId"
        using chosen_selected by blast
      then show ?thesis
        using assms(1) False new other by (auto simp: followsDb_def w split: option.splits)
    qed
    from refreshList_follows [OF this] show ?thesis
      using Inr c by (simp add: ctxDeletePlan_def w)
  qed
qed

lemma step_follows:
  assumes "ctxStep D parseDate plans w w'" and "follows w"
  shows "follows w'"
  using assms
proof (induction rule: ctxStep.induct)
  case (refresh w)
  then show ?case
    using refreshPlan_follows [of "fst w" "snd w"] follows_selOk [of w] by simp
next
  case (add w payload)
  then show ?case
    using callThenRefresh_follows [OF add, of "plansAddItem D raw" CannotAdd for raw] addItem_total
    by (auto simp: addItem_def split: option.split)
next
  case (duplicate w itemId)
  have "follows (snd (callThenRefresh D CannotDuplicate (plansAddItem D raw) w))" for raw
    using duplicate addItem_total by (intro callThenRefresh_follows) auto
  then show ?case
    using duplicate by (auto simp: duplicateItem_def split: option.split prod.splits) (metis fst_conv snd_conv)+
next
  case (update w itemId patch)
  have "follows (snd (callThenRefresh D CannotEdit (plansUpdateItem D raw) w))" for raw
    using update updateItem_total by (intro callThenRefresh_follows) auto
  then show ?case
    using update by (auto simp: ctxUpdateItem_def split: option.split prod.splits) (metis fst_conv snd_conv)+
qed (simp_all only: setSelected_follows refreshList_follows background_follows removeItem_follows removeItems_follows
    reorder_follows createPlan_follows updatePlan_follows deletePlan_follows)

lemma steps_follow: "(ctxStep D parseDate plans)\<^sup>*\<^sup>* w w' \<Longrightarrow> follows w \<Longrightarrow> follows w'"
  by (induction rule: rtranclp_induct) (simp_all add: step_follows)

text \<open>A drag in a plan that is numbered 1, 2, 3 and so on\<close>

lemma drag_rolled_back:
  assumes "follows w" and "chosen (snd w) = Some i" and "\<forall>j \<in> set ids. cleanId j"
    and "map it_order (findItems D (fst w) (ofPlan i)) = map (\<lambda>k. int k + 1) [0..<length (findItems D (fst w) (ofPlan i))]"
    and "mset ids = mset (map it_id (shownItems (snd w)))" and "ids \<noteq> map it_id (shownItems (snd w))"
  shows "fst (reorder D ids w) = Some CannotReorder \<and> fst (snd (reorder D ids w)) = fst w
     \<and> map shownAs (shownItems (snd (snd (reorder D ids w)))) = map shownAs (shownItems (snd w))"
proof -
  obtain db v where w: "w = (db, v)" by (cases w)
  obtain p its where v: "cleanId i" "plans db i = Some p" "vw_plan v = Some (p, its)"
      "map shownAs its = map (shownAs \<circ> normalizeItemKind) (findItems D db (ofPlan i))"
    using assms(1,2) by (auto simp: followsDb_def w)
  have shown: "map it_id its = planItemIds D db i"
    using arg_cong [OF v(4), of "map it_id"] by (simp add: planItemIds_def comp_def)
  have "parsePlanReorderPayload (JObj [(''planId'', JStr i), (''orderedItemIds'', JArr (map JStr ids))])
      = Inr \<lparr>ro_planId = i, ro_orderedItemIds = ids\<rparr>"
    using v(1) assms(3) by (simp add: parsePlanReorderPayload_def ids_parsed)
  from reorder_clash [OF _ this] have call:
    "plansReorder D (JObj [(''planId'', JStr i), (''orderedItemIds'', JArr (map JStr ids))]) db = (Inl (Prisma P2002), db)"
    using assms(1,4-6) shown v(3) by (simp add: w shownItems_def)
  let ?v = "v\<lparr>vw_plan := Some (p, sort_key (idxOf ids) its)\<rparr>"
  have "selOk (db, ?v)"
    using follows_selOk [of w] assms(1) by (simp add: selOk_def w)
  then have "follows (refreshPlan D (db, ?v))" "fst (refreshPlan D (db, ?v)) = db" "chosen (snd (refreshPlan D (db, ?v))) = Some i"
    using refreshPlan_follows [of db ?v] assms(1,2) by (simp_all add: w)
  then have "map shownAs (shownItems (snd (refreshPlan D (db, ?v)))) = map shownAs its"
    using v(4) by (auto simp: followsDb_def shownItems_def)
  then show ?thesis
    using assms(2) v(3) call \<open>fst (refreshPlan D (db, ?v)) = db\<close>
    by (simp add: reorder_def optimistically_def w shownItems_def)
qed

end

section \<open>Properties\<close>

definition emptyView :: planView where
  "emptyView = \<lparr>vw_planList = [], vw_plan = None, vw_selectedPlanId = None\<rparr>"

text \<open>
  C12: In every sequence of the operations of the plan context (\<open>PlanContext.tsx\<close>), which select a
  plan, read it again, read the list, add, duplicate, change, remove and order items, set the background of
  a song, and create, rename with a trimmed title that is not empty and delete plans, and whatever
  the handlers answer, the copy of the selected plan agrees with the database after every one: the same
  plan and the same items in the same order, up to the numbers of the items. Optimistic changes that the
  main process refuses are undone. Operations of the control window that change the plan without the
  context, such as the import of the tool bar, are not among them.
\<close>

theorem plan_view_follows_database:
  assumes "clean_plan_store D plans items songs ok" and "ok db"
    and "(ctxStep D parseDate plans)\<^sup>*\<^sup>* (db, emptyView) w"
  shows "followsDb D plans w"
proof -
  have "followsDb D plans (db, emptyView)"
    by (simp add: followsDb_def emptyView_def chosen_def)
  then show ?thesis
    using clean_plan_store.steps_follow [OF assms(1,3)] assms(2) by simp
qed

theorem plan_view_follows_database_witness:
  "followsDb tablesDb tb_plans
     (snd (removeItem tablesDb ''1'' (setSelectedPlanId tablesDb (Some ''0'') (sampleTables, emptyView))))"
proof -
  have "ctxStep tablesDb (\<lambda>_. None) tb_plans (sampleTables, emptyView)
      (setSelectedPlanId tablesDb (Some ''0'') (sampleTables, emptyView))"
    using sample_plan by (intro ctxStep.select) simp
  moreover have "ctxStep tablesDb (\<lambda>_. None) tb_plans (setSelectedPlanId tablesDb (Some ''0'') (sampleTables, emptyView))
      (snd (removeItem tablesDb ''1'' (setSelectedPlanId tablesDb (Some ''0'') (sampleTables, emptyView))))"
    by (rule ctxStep.remove) (simp add: parse_eval)
  ultimately have "(ctxStep tablesDb (\<lambda>_. None) tb_plans)\<^sup>*\<^sup>* (sampleTables, emptyView)
      (snd (removeItem tablesDb ''1'' (setSelectedPlanId tablesDb (Some ''0'') (sampleTables, emptyView))))"
    by (meson rtranclp.rtrancl_into_rtrancl rtranclp.rtrancl_refl)
  from plan_view_follows_database [OF tables_clean sample_ok this] show ?thesis .
qed

text \<open>
  Dragging items never has an effect: in a plan that is numbered as the handlers number it, every
  new order of the shown items ends in the message that it cannot be done, the database stays as
  it is and the items are shown in their old order again.
\<close>

theorem dragging_is_undone:
  assumes "clean_plan_store D plans items songs ok" and "ok (fst w)" and "followsDb D plans w"
    and "chosen (snd w) = Some i" and "\<forall>j \<in> set ids. cleanId j"
    and "map it_order (findItems D (fst w) (\<lambda>r. it_planId r = i))
           = map (\<lambda>k. int k + 1) [0..<length (findItems D (fst w) (\<lambda>r. it_planId r = i))]"
    and "mset ids = mset (map it_id (shownItems (snd w)))" and "ids \<noteq> map it_id (shownItems (snd w))"
  shows "fst (reorder D ids w) = Some CannotReorder \<and> fst (snd (reorder D ids w)) = fst w
     \<and> map shownAs (shownItems (snd (snd (reorder D ids w)))) = map shownAs (shownItems (snd w))"
  using assms(2-8) by (intro clean_plan_store.drag_rolled_back [OF assms(1)] conjI)

theorem dragging_is_undone_witness:
  "fst (reorder tablesDb [''2'', ''1''] (setSelectedPlanId tablesDb (Some ''0'') (sampleTables, emptyView)))
     = Some CannotReorder"
proof -
  let ?w = "setSelectedPlanId tablesDb (Some ''0'') (sampleTables, emptyView)"
  have "followsDb tablesDb tb_plans (sampleTables, emptyView)"
    by (simp add: followsDb_def emptyView_def chosen_def)
  then have f: "tablesOk (fst ?w) \<and> followsDb tablesDb tb_plans ?w"
    using clean_tables.setSelected_follows [of "(sampleTables, emptyView)" "Some ''0''"] sample_ok sample_plan by simp
  obtain p where "tb_plans sampleTables ''0'' = Some p"
    using sample_plan by auto
  then have w: "?w = (sampleTables, \<lparr>vw_planList = [],
      vw_plan = Some (p, map normalizeItemKind [sampleRow ''1'' ''0'' 1, sampleRow ''2'' ''0'' 2]),
      vw_selectedPlanId = Some ''0''\<rparr>)"
    using tables.find_plan [OF sample_ok, of "''0''"]
    by (simp add: setSelectedPlanId_def refreshPlan_def emptyView_def chosen_def plansGet_def parseNonEmptyString_def
        parse_eval planWithItems_def sample_find)
  have "chosen (snd ?w) = Some ''0''"
    by (simp add: w chosen_def)
  moreover have "\<forall>j \<in> set [''2'', ''1'']. cleanId j"
    by (simp add: cleanId_def parse_eval)
  ultimately show ?thesis
    using dragging_is_undone [OF tables_clean _ _ \<open>chosen (snd ?w) = Some ''0''\<close>, of "[''2'', ''1'']"] f
    by (simp add: w shownItems_def sample_find sampleRow_def upt_conv_Cons)
qed

end
