(* ===== verification/Durations.thy ===== *)
theory Durations
  imports PlanStore
begin

text \<open>
  Durations of the items of a plan (\<open>lib/planDuration.ts\<close>) and the minutes and seconds of a timer as
  \<open>EditItemDialog.tsx\<close> and \<open>LiveBar.tsx\<close> read and write them. Seconds are integers, as every caller
  passes them.
\<close>

section \<open>Reading numbers\<close>

text \<open>\<open>parseInt(s, 10) || 0\<close>\<close>

definition parseIntOr0 :: "string \<Rightarrow> int" where
  "parseIntOr0 s =
     (let s = trim_left s;
          negative = (case s of c # _ \<Rightarrow> c = CHR ''-'' | [] \<Rightarrow> False);
          rest = (case s of c # r \<Rightarrow> if c = CHR ''-'' \<or> c = CHR ''+'' then r else s | [] \<Rightarrow> []);
          n = int (digits_value (takeWhile is_digit rest))
      in if negative then - n else n)"

definition nthOr0 :: "nat \<Rightarrow> string list \<Rightarrow> string" where
  "nthOr0 k parts = (if k < length parts then parts ! k else ''0'')"

definition parseMMSS :: "string \<Rightarrow> int \<times> int" where
  "parseMMSS str =
     (let parts = split_on (CHR '':'') str in (parseIntOr0 (nthOr0 0 parts), parseIntOr0 (nthOr0 1 parts)))"

text \<open>The duration that the dialog writes\<close>

definition formatTimer :: "int \<Rightarrow> int \<Rightarrow> string" where
  "formatTimer m s = padStart2 (show_int (max 0 m)) @ '':'' @ padStart2 (show_int (min 59 (max 0 s)))"

section \<open>Plan durations\<close>

definition estimateItemDurationSeconds :: "itemRow \<Rightarrow> int" where
  "estimateItemDurationSeconds item =
     (if it_kind item = ''TIMER'' \<and> it_content item \<noteq> None \<and> it_content item \<noteq> Some []
      then let (m, s) = parseMMSS (the (it_content item)) in m * 60 + s
      else if it_kind item = ''SONG_BLOCK'' then 3 * 60
      else if it_kind item \<in> {''BIBLE_VERSE'', ''BIBLE_PASSAGE'', ''VERSE_MANUAL''} then 2 * 60
      else if it_kind item = ''ANNOUNCEMENT_TEXT'' then 60
      else if it_kind item \<in> {''ANNOUNCEMENT_IMAGE'', ''ANNOUNCEMENT_PDF''} then 2 * 60
      else 2 * 60)"

definition formatMinutes :: "int \<Rightarrow> string" where
  "formatMinutes totalSeconds =
     (let h = totalSeconds div 3600; r = totalSeconds - 3600 * (if totalSeconds < 0 then - ((- totalSeconds) div 3600) else h);
          m = r div 60
      in if h > 0 then show_int h @ ''h'' @ padStart2 (show_int m) else show_int m @ '' min'')"

definition formatMMSS :: "int \<Rightarrow> string" where
  "formatMMSS totalSeconds =
     (let s = max 0 totalSeconds in padStart2 (show_int (s div 60)) @ '':'' @ padStart2 (show_int (s mod 60)))"

section \<open>What is written is read back\<close>

lemma zeros_value: "digits_value (replicate n (CHR ''0'') @ s) = digits_value s"
  by (induction n) (simp_all add: digits_value_def digit_value_def)

lemma padded_digits: "c \<in> set (padStart2 (show_nat n)) \<Longrightarrow> is_digit c"
  using show_nat_digits [of c n] by (auto simp: padStart2_def) (simp add: is_digit_def)

lemma parse_padded: "parseIntOr0 (padStart2 (show_nat n)) = int n"
proof -
  let ?s = "padStart2 (show_nat n)"
  obtain c r where cr: "?s = c # r"
    by (cases ?s) (simp_all add: padStart2_def)
  have c: "is_digit c"
    using padded_digits [of c n] cr by simp
  then have "\<not> js_space c" and "c \<noteq> CHR ''-''" and "c \<noteq> CHR ''+''"
    by (auto simp: is_digit_def js_space_def)
  moreover have "takeWhile is_digit ?s = ?s"
    using padded_digits by (simp add: takeWhile_eq_all_conv)
  moreover have "digits_value ?s = n"
    by (simp add: padStart2_def zeros_value digits_value_show_nat)
  ultimately show ?thesis
    by (simp add: parseIntOr0_def trim_left_def cr)
qed

lemma padded_no_colon: "CHR '':'' \<notin> set (padStart2 (show_nat n))"
  using padded_digits [of "CHR '':''" n] by (auto simp: is_digit_def)

lemma parse_timer: "parseMMSS (padStart2 (show_nat m) @ '':'' @ padStart2 (show_nat s)) = (int m, int s)"
  by (simp add: parseMMSS_def split_on_append split_on_single padded_no_colon nthOr0_def parse_padded)

lemma show_int_nonneg: "0 \<le> i \<Longrightarrow> show_int i = show_nat (nat i)"
  by (simp add: show_int_def)

lemma timer_written: "parseMMSS (formatTimer m s) = (max 0 m, min 59 (max 0 s))"
  using parse_timer [of "nat (max 0 m)" "nat (min 59 (max 0 s))"] by (simp add: formatTimer_def show_int_nonneg)

lemma mmss_written: "parseMMSS (formatMMSS t) = (max 0 t div 60, max 0 t mod 60)"
  using parse_timer [of "nat (max 0 t div 60)" "nat (max 0 t mod 60)"] by (simp add: formatMMSS_def show_int_nonneg Let_def)

end
