(* ===== verification/EditItem.thy ===== *)
theory EditItem
  imports PlanContext Durations
begin

text \<open>
  The dialog that edits an item of a plan, \<open>dialogs/EditItemDialog.tsx\<close>: the fields it shows when it
  opens, and what it saves through the plan context. A background is the typed object of the code;
  \<open>readBg\<close> is \<open>parsePlanBackground\<close> and \<open>writeBg\<close> is \<open>JSON.stringify\<close>.
\<close>

section \<open>The fields\<close>

datatype bgMode = Solid | GradientLinear | GradientRadial | ImageMode | VideoMode

record editState =
  ed_title :: string
  ed_content :: string
  ed_notes :: string
  ed_minutes :: int
  ed_seconds :: int
  ed_bgEnabled :: bool
  ed_bgMode :: bgMode
  ed_bgColor :: string
  ed_bgFrom :: string
  ed_bgTo :: string
  ed_bgAngle :: jsnum
  ed_fgEnabled :: bool
  ed_fgColor :: string
  ed_bgMediaPath :: "string option"

definition initialEdit :: editState where
  "initialEdit = \<lparr>ed_title = [], ed_content = [], ed_notes = [], ed_minutes = 5, ed_seconds = 0, ed_bgEnabled = False,
     ed_bgMode = Solid, ed_bgColor = ''#050505'', ed_bgFrom = ''#2563eb'', ed_bgTo = ''#7c3aed'',
     ed_bgAngle = IntNum 135, ed_fgEnabled = False, ed_fgColor = ''#ffffff'', ed_bgMediaPath = None\<rparr>"

definition isTimer :: "itemRow \<Rightarrow> bool" where
  "isTimer item = (it_kind item = ''TIMER'')"

definition hasContent :: "itemRow \<Rightarrow> bool" where
  "hasContent item = (it_kind item = ''ANNOUNCEMENT_TEXT'' \<or> it_kind item = ''VERSE_MANUAL'')"

definition isSongBlock :: "itemRow \<Rightarrow> bool" where
  "isSongBlock item = (it_kind item = ''SONG_BLOCK'')"

fun modeOf :: "cpBackgroundFillMode option \<Rightarrow> bgMode" where
  "modeOf (Some BG_GRADIENT_LINEAR) = GradientLinear"
| "modeOf (Some BG_GRADIENT_RADIAL) = GradientRadial"
| "modeOf _ = Solid"

definition notEmpty :: "string option \<Rightarrow> bool" where
  "notEmpty x = (x \<noteq> None \<and> x \<noteq> Some [])"

definition showBackground :: "cpItemBackground option \<Rightarrow> editState \<Rightarrow> editState" where
  "showBackground b ed =
     (case b of
        Some bg \<Rightarrow>
          (let media = (ib_backgroundMediaType bg \<noteq> None \<and> notEmpty (ib_backgroundMedia bg))
           in ed\<lparr>ed_bgEnabled := True,
                 ed_bgMode := (if media then if ib_backgroundMediaType bg = Some VIDEO then VideoMode else ImageMode
                               else modeOf (ib_backgroundMode bg)),
                 ed_bgMediaPath := (if media then ib_backgroundMedia bg else None),
                 ed_bgColor := orElse (ib_background bg) ''#050505'',
                 ed_bgFrom := orElse (ib_backgroundGradientFrom bg) ''#2563eb'',
                 ed_bgTo := orElse (ib_backgroundGradientTo bg) ''#7c3aed'',
                 ed_bgAngle := orElse (ib_backgroundGradientAngle bg) (IntNum 135),
                 ed_fgEnabled := notEmpty (ib_foreground bg),
                 ed_fgColor := (if notEmpty (ib_foreground bg) then the (ib_foreground bg) else ''#ffffff'')\<rparr>)
      | None \<Rightarrow>
          ed\<lparr>ed_bgEnabled := False, ed_bgMode := Solid, ed_bgMediaPath := None, ed_bgColor := ''#050505'',
             ed_bgFrom := ''#2563eb'', ed_bgTo := ''#7c3aed'', ed_bgAngle := IntNum 135, ed_fgEnabled := False,
             ed_fgColor := ''#ffffff''\<rparr>)"

text \<open>The fields when the dialog opens for an item\<close>

definition openItem :: "(string option \<Rightarrow> cpItemBackground option) \<Rightarrow> itemRow \<Rightarrow> editState \<Rightarrow> editState" where
  "openItem readBg item ed =
     (let ed = ed\<lparr>ed_title := orElse (it_title item) [], ed_notes := orElse (it_notes item) []\<rparr>;
          ed = (if isTimer item \<and> notEmpty (it_content item)
                then let (m, s) = parseMMSS (the (it_content item)) in ed\<lparr>ed_minutes := m, ed_seconds := s\<rparr>
                else ed\<lparr>ed_content := orElse (it_content item) []\<rparr>)
      in showBackground (readBg (it_backgroundConfig item)) ed)"

section \<open>Saving\<close>

definition emptyBackground :: cpItemBackground where
  "emptyBackground = \<lparr>ib_background = None, ib_backgroundMode = None, ib_backgroundGradientFrom = None,
     ib_backgroundGradientTo = None, ib_backgroundGradientAngle = None, ib_backgroundMedia = None,
     ib_backgroundMediaType = None, ib_foreground = None, ib_foregroundMode = None,
     ib_foregroundGradientFrom = None, ib_foregroundGradientTo = None\<rparr>"

definition chosenBackground :: "editState \<Rightarrow> cpItemBackground" where
  "chosenBackground ed =
     (let bg = (case ed_bgMode ed of
            ImageMode \<Rightarrow> if notEmpty (ed_bgMediaPath ed)
              then emptyBackground\<lparr>ib_backgroundMedia := ed_bgMediaPath ed, ib_backgroundMediaType := Some IMAGE\<rparr>
              else emptyBackground
          | VideoMode \<Rightarrow> if notEmpty (ed_bgMediaPath ed)
              then emptyBackground\<lparr>ib_backgroundMedia := ed_bgMediaPath ed, ib_backgroundMediaType := Some VIDEO\<rparr>
              else emptyBackground
          | Solid \<Rightarrow> emptyBackground\<lparr>ib_backgroundMode := Some BG_SOLID, ib_background := Some (ed_bgColor ed)\<rparr>
          | mode \<Rightarrow> emptyBackground\<lparr>
              ib_backgroundMode := Some (if mode = GradientLinear then BG_GRADIENT_LINEAR else BG_GRADIENT_RADIAL),
              ib_backgroundGradientFrom := Some (ed_bgFrom ed), ib_backgroundGradientTo := Some (ed_bgTo ed),
              ib_backgroundGradientAngle := Some (ed_bgAngle ed)\<rparr>)
      in if ed_fgEnabled ed then bg\<lparr>ib_foreground := Some (ed_fgColor ed)\<rparr> else bg)"

definition editedBackground :: "(cpItemBackground \<Rightarrow> string) \<Rightarrow> editState \<Rightarrow> string option" where
  "editedBackground writeBg ed =
     (if ed_bgEnabled ed \<and> chosenBackground ed \<noteq> emptyBackground then Some (writeBg (chosenBackground ed)) else None)"

definition trimmedOrUndef :: "string \<Rightarrow> jsval" where
  "trimmedOrUndef s = (if trim s = [] then JUndef else JStr (trim s))"

definition newContent :: "itemRow \<Rightarrow> editState \<Rightarrow> string option" where
  "newContent item ed =
     (if isTimer item then Some (formatTimer (ed_minutes ed) (ed_seconds ed))
      else if hasContent item then Some (trim (ed_content ed)) else None)"

datatype message = Failed toast | ItemUpdated

definition messages :: "toast option \<Rightarrow> message list" where
  "messages t = (case t of None \<Rightarrow> [] | Some x \<Rightarrow> [Failed x])"

text \<open>The messages that appear, in order; the dialog closes after the last one.\<close>

definition handleSave ::
  "'db planDb \<Rightarrow> (cpItemBackground \<Rightarrow> string) \<Rightarrow> itemRow \<Rightarrow> editState \<Rightarrow> 'db planWorld \<Rightarrow> message list \<times> 'db planWorld" where
  "handleSave D writeBg item ed w =
     (let backgroundConfig = editedBackground writeBg ed
      in if isSongBlock item \<and> notEmpty (it_refId item)
         then let (t1, w) = ctxUpdateItem D (it_id item)
                    [(''title'', trimmedOrUndef (ed_title ed)), (''notes'', trimmedOrUndef (ed_notes ed))] w;
                  (t2, w) = updateSongBackground D (the (it_refId item)) backgroundConfig w
              in (messages t1 @ messages t2 @ [ItemUpdated], w)
         else let (t, w) = ctxUpdateItem D (it_id item)
                    ([(''title'', trimmedOrUndef (ed_title ed))]
                     @ (case newContent item ed of None \<Rightarrow> [] | Some c \<Rightarrow> [(''content'', JStr c)])
                     @ [(''notes'', trimmedOrUndef (ed_notes ed)), (''backgroundConfig'', nullOr backgroundConfig)]) w
              in (messages t @ [ItemUpdated], w))"

section \<open>Opening and saving again\<close>

definition colorsOk :: "editState \<Rightarrow> bool" where
  "colorsOk ed \<longleftrightarrow> ed_fgColor ed \<noteq> [] \<and> (ed_bgMode ed \<in> {ImageMode, VideoMode} \<longrightarrow> notEmpty (ed_bgMediaPath ed))"

lemma background_reopened:
  assumes "colorsOk ed" and "ed_bgEnabled ed"
  shows "chosenBackground (showBackground (Some (chosenBackground ed)) ed') = chosenBackground ed
     \<and> chosenBackground ed \<noteq> emptyBackground"
  using assms
  by (cases "ed_bgMode ed") (auto simp: chosenBackground_def showBackground_def colorsOk_def notEmpty_def
      emptyBackground_def Let_def)

text \<open>
  A background that the dialog saved is the one it saves again when it is opened and closed
  without a change, and a timer shows the minutes and seconds it was given. It takes a file for
  an image or a video, and what JSON promises: the text of an object reads back as that object.
\<close>

theorem reopened_item_unchanged:
  assumes "readBg (Some (writeBg (chosenBackground ed))) = Some (chosenBackground ed)" and "readBg None = None"
    and "colorsOk ed"
    and "it_backgroundConfig item = editedBackground writeBg ed"
    and "isTimer item \<longrightarrow> it_content item = newContent item ed"
  shows "editedBackground writeBg (openItem readBg item ed') = editedBackground writeBg ed
     \<and> (isTimer item \<longrightarrow> ed_minutes (openItem readBg item ed') = max 0 (ed_minutes ed)
          \<and> ed_seconds (openItem readBg item ed') = min 59 (max 0 (ed_seconds ed)))"
proof
  have shown: "\<exists>ed''. openItem readBg item ed' = showBackground (readBg (it_backgroundConfig item)) ed''"
    by (auto simp: openItem_def Let_def)
  show "editedBackground writeBg (openItem readBg item ed') = editedBackground writeBg ed"
  proof (cases "ed_bgEnabled ed")
    case True
    then show ?thesis
      using shown assms(1,3,4) background_reopened [OF assms(3) True] by (auto simp: editedBackground_def)
        (simp add: showBackground_def Let_def)
  next
    case False
    then show ?thesis
      using shown assms(2,4) by (auto simp: editedBackground_def showBackground_def)
  qed
  show "isTimer item \<longrightarrow> ed_minutes (openItem readBg item ed') = max 0 (ed_minutes ed)
      \<and> ed_seconds (openItem readBg item ed') = min 59 (max 0 (ed_seconds ed))"
  proof
    assume t: "isTimer item"
    then have c: "it_content item = Some (formatTimer (ed_minutes ed) (ed_seconds ed))"
      using assms(5) by (simp add: newContent_def)
    have "formatTimer (ed_minutes ed) (ed_seconds ed) \<noteq> []"
      by (simp add: formatTimer_def)
    then show "ed_minutes (openItem readBg item ed') = max 0 (ed_minutes ed)
        \<and> ed_seconds (openItem readBg item ed') = min 59 (max 0 (ed_seconds ed))"
      using t c by (simp add: openItem_def notEmpty_def timer_written showBackground_def Let_def split: option.split)
  qed
qed

definition demoEdit :: editState where
  "demoEdit = initialEdit\<lparr>ed_minutes := 7, ed_seconds := 30, ed_bgEnabled := True, ed_bgMode := GradientLinear,
     ed_fgEnabled := True\<rparr>"

definition demoTimer :: itemRow where
  "demoTimer = (sampleRow ''1'' ''0'' 1)\<lparr>it_content := Some (formatTimer 7 30), it_backgroundConfig := Some ''{}''\<rparr>"

theorem reopened_item_unchanged_witness:
  "ed_minutes (openItem (map_option (\<lambda>_. chosenBackground demoEdit)) demoTimer initialEdit) = 7
   \<and> ed_seconds (openItem (map_option (\<lambda>_. chosenBackground demoEdit)) demoTimer initialEdit) = 30"
proof -
  have e: "editedBackground (\<lambda>_. ''{}'') demoEdit = Some ''{}''"
    by (simp add: editedBackground_def demoEdit_def initialEdit_def chosenBackground_def emptyBackground_def)
  have c: "colorsOk demoEdit" and t: "isTimer demoTimer" and n: "it_content demoTimer = newContent demoTimer demoEdit"
    by (simp_all add: colorsOk_def demoEdit_def initialEdit_def demoTimer_def isTimer_def newContent_def sampleRow_def)
  show ?thesis
    using reopened_item_unchanged [of "map_option (\<lambda>_. chosenBackground demoEdit)" "\<lambda>_. ''{}''" demoEdit demoTimer
        initialEdit] e c t n by (simp add: demoTimer_def demoEdit_def)
qed

section \<open>What is saved\<close>

definition edited :: "(cpItemBackground \<Rightarrow> string) \<Rightarrow> itemRow \<Rightarrow> editState \<Rightarrow> itemRow \<Rightarrow> itemRow" where
  "edited writeBg item ed r = r\<lparr>
     it_title := (if trim (ed_title ed) = [] then it_title r else Some (trim (ed_title ed))),
     it_content := (case newContent item ed of None \<Rightarrow> it_content r | Some c \<Rightarrow> Some c),
     it_notes := (if trim (ed_notes ed) = [] then it_notes r else Some (trim (ed_notes ed))),
     it_backgroundConfig := editedBackground writeBg ed\<rparr>"

lemma trimmed_raw: "optionalRaw (trimmedOrUndef s) label = Inr (if trim s = [] then None else Some (trim s))"
  by (simp add: trimmedOrUndef_def expectOptionalString_def expectString_def)

lemma raw_absent: "optionalRaw JUndef label = Inr None"
  by (simp add: expectOptionalString_def)

lemma raw_string: "optionalRaw (JStr s) label = Inr (Some s)"
  by (simp add: expectOptionalString_def expectString_def)

lemma background_raw: "nullableRaw (nullOr bg) label = Inr (case bg of None \<Rightarrow> Null | Some s \<Rightarrow> Val s)"
  by (simp add: nullableRaw_def nullOr_def expectOptionalString_def expectString_def split: option.split)

definition savedPatch :: "(cpItemBackground \<Rightarrow> string) \<Rightarrow> itemRow \<Rightarrow> editState \<Rightarrow> (string \<times> jsval) list" where
  "savedPatch writeBg item ed = [(''title'', trimmedOrUndef (ed_title ed))]
     @ (case newContent item ed of None \<Rightarrow> [] | Some c \<Rightarrow> [(''content'', JStr c)])
     @ [(''notes'', trimmedOrUndef (ed_notes ed)), (''backgroundConfig'', nullOr (editedBackground writeBg ed))]"

definition savedUpdate :: "string \<Rightarrow> string \<Rightarrow> (cpItemBackground \<Rightarrow> string) \<Rightarrow> itemRow \<Rightarrow> editState \<Rightarrow> cpPlanUpdateItemPayload" where
  "savedUpdate p i writeBg item ed =
     \<lparr>ui_planId = p, ui_itemId = i,
      ui_title = (if trim (ed_title ed) = [] then None else Some (trim (ed_title ed))), ui_content = newContent item ed,
      ui_notes = (if trim (ed_notes ed) = [] then None else Some (trim (ed_notes ed))), ui_secondaryContent = None,
      ui_backgroundConfig = (case editedBackground writeBg ed of None \<Rightarrow> Null | Some s \<Rightarrow> Val s)\<rparr>"

lemma patch_fields:
  "jget (savedPatch writeBg item ed) ''title'' = trimmedOrUndef (ed_title ed)"
  "jget (savedPatch writeBg item ed) ''content'' = (case newContent item ed of None \<Rightarrow> JUndef | Some c \<Rightarrow> JStr c)"
  "jget (savedPatch writeBg item ed) ''notes'' = trimmedOrUndef (ed_notes ed)"
  "jget (savedPatch writeBg item ed) ''secondaryContent'' = JUndef"
  "jget (savedPatch writeBg item ed) ''backgroundConfig'' = nullOr (editedBackground writeBg ed)"
  by (simp_all add: savedPatch_def split: option.split)

lemma patch_parsed:
  assumes "cleanId p" and "cleanId i"
  shows "parsePlanUpdateItemPayload (updatePayload p i (savedPatch writeBg item ed)) = Inr (savedUpdate p i writeBg item ed)"
proof -
  have "optionalRaw (case newContent item ed of None \<Rightarrow> JUndef | Some c \<Rightarrow> JStr c) label = Inr (newContent item ed)" for label
    by (simp add: raw_absent raw_string split: option.split)
  then show ?thesis
    using assms by (simp add: parsePlanUpdateItemPayload_def updatePayload_def patch_fields trimmed_raw raw_absent
        background_raw savedUpdate_def)
qed

lemma saved_ids: "ui_planId (savedUpdate p i writeBg item ed) = p" "ui_itemId (savedUpdate p i writeBg item ed) = i"
  by (simp_all add: savedUpdate_def)

lemma saved_update: "applyItemUpdate (savedUpdate p i writeBg item ed) = edited writeBg item ed"
  by (rule ext) (simp add: applyItemUpdate_def savedUpdate_def edited_def orOption_def split: option.split)

lemma handleSave_plain:
  "\<not> (isSongBlock item \<and> notEmpty (it_refId item)) \<Longrightarrow> handleSave D writeBg item ed w =
     (let (t, w) = ctxUpdateItem D (it_id item) (savedPatch writeBg item ed) w in (messages t @ [ItemUpdated], w))"
  by (auto simp: handleSave_def savedPatch_def Let_def)

context clean_plan_store
begin

lemma saved_item:
  assumes "follows w" and "chosen (snd w) = Some p" and "items (fst w) (it_id item) = Some r" and "it_planId r = p"
    and "\<not> (isSongBlock item \<and> notEmpty (it_refId item))"
  shows "\<exists>w'. handleSave D writeBg item ed w = ([ItemUpdated], w') \<and> ok (fst w') \<and> followsDb D plans w'
     \<and> items (fst w') = (items (fst w))(it_id item \<mapsto> edited writeBg item ed r)"
proof -
  obtain db v where w: "w = (db, v)" by (cases w)
  have ok: "ok db" and p: "cleanId p"
    using assms(1,2) by (simp_all add: w followsDb_def)
  have u: "parsePlanUpdateItemPayload (updatePayload p (it_id item) (savedPatch writeBg item ed))
      = Inr (savedUpdate p (it_id item) writeBg item ed)"
    using patch_parsed [OF p item_clean [OF ok assms(3) [unfolded w fst_conv]]] .
  let ?f = "edited writeBg item ed"
  have "\<not> sameSlot (?f r) q" if "items db j = Some q" "j \<noteq> it_id item" for j q
    using slot_unique [OF ok assms(3) [unfolded w fst_conv] that(1)] that(2) by (auto simp: sameSlot_def edited_def)
  then obtain db' where d: "updateItem D db (it_id item) ?f = Inr db'" "items db' = (items db)(it_id item \<mapsto> ?f r)"
      "plans db' = plans db" "ok db'"
    using update_item [OF ok assms(3) [unfolded w fst_conv], of ?f] by (auto simp: keepsItemKeys_def edited_def)
  have call: "plansUpdateItem D (updatePayload p (it_id item) (savedPatch writeBg item ed)) db = (Inr (), db')"
    using d(1) assms(3,4) find_item [OF ok] by (simp add: plansUpdateItem_def w u saved_update saved_ids)
  have "selOk (db', v)"
    using follows_selOk [of w] assms(1) d(3) by (simp add: selOk_def w)
  then have "follows (refreshPlan D (db', v))" "fst (refreshPlan D (db', v)) = db'"
    using d(4) refreshPlan_follows [OF d(4)] by simp_all
  then show ?thesis
    using assms(2,5) call d(2)
    by (intro exI [of _ "refreshPlan D (db', v)"])
      (simp add: handleSave_plain ctxUpdateItem_def callThenRefresh_def w messages_def)
qed

end

text \<open>
  C36: Saving an item that is not a block of a song, whose background would go to all blocks of the
  song, changes exactly its row: the title, the content
  and the notes become what the dialog shows, trimmed, but an empty title and empty notes leave
  what the row had, and the background is replaced. The copy of the plan shows the new row.
\<close>

theorem save_changes_row:
  assumes "clean_plan_store D plans items songs ok" and "ok (fst w)" and "followsDb D plans w"
    and "chosen (snd w) = Some p" and "items (fst w) (it_id item) = Some r" and "it_planId r = p"
    and "\<not> (isSongBlock item \<and> notEmpty (it_refId item))"
  shows "\<exists>w'. handleSave D writeBg item ed w = ([ItemUpdated], w') \<and> ok (fst w') \<and> followsDb D plans w'
     \<and> items (fst w') = (items (fst w))(it_id item \<mapsto> edited writeBg item ed r)"
  using assms(2-7) by (intro clean_plan_store.saved_item [OF assms(1)]) simp_all

theorem save_changes_row_witness:
  "\<exists>w'. handleSave tablesDb (\<lambda>_. ''{}'') demoTimer demoEdit (setSelectedPlanId tablesDb (Some ''0'') (sampleTables, emptyView))
     = ([ItemUpdated], w') \<and> tb_items (fst w') ''1'' = Some ((sampleRow ''1'' ''0'' 1)\<lparr>it_content := Some (formatTimer 7 30),
         it_backgroundConfig := Some ''{}''\<rparr>)"
proof -
  let ?w = "setSelectedPlanId tablesDb (Some ''0'') (sampleTables, emptyView)"
  have "followsDb tablesDb tb_plans (sampleTables, emptyView)"
    by (simp add: followsDb_def emptyView_def chosen_def)
  then have f: "tablesOk (fst ?w) \<and> followsDb tablesDb tb_plans ?w"
    using clean_tables.setSelected_follows [of "(sampleTables, emptyView)" "Some ''0''"] sample_ok sample_plan by simp
  have w: "fst ?w = sampleTables" "chosen (snd ?w) = Some ''0''"
    by (simp_all add: setSelectedPlanId_def refreshPlan_def emptyView_def chosen_def plansGet_def parseNonEmptyString_def
        parse_eval)
  have i: "tb_items (fst ?w) (it_id demoTimer) = Some (sampleRow ''1'' ''0'' 1)"
    using sample_items(1) by (simp add: w demoTimer_def sampleRow_def)
  have e: "edited (\<lambda>_. ''{}'') demoTimer demoEdit (sampleRow ''1'' ''0'' 1) = (sampleRow ''1'' ''0'' 1)\<lparr>it_content := Some (formatTimer 7 30),
      it_backgroundConfig := Some ''{}''\<rparr>"
    by (simp add: edited_def demoEdit_def initialEdit_def newContent_def isTimer_def demoTimer_def sampleRow_def
        editedBackground_def chosenBackground_def emptyBackground_def)
  have s: "\<not> (isSongBlock demoTimer \<and> notEmpty (it_refId demoTimer))" and p: "it_planId (sampleRow ''1'' ''0'' 1) = ''0''"
    and k: "it_id demoTimer = ''1''"
    by (simp_all add: isSongBlock_def demoTimer_def sampleRow_def)
  obtain w' where "handleSave tablesDb (\<lambda>_. ''{}'') demoTimer demoEdit ?w = ([ItemUpdated], w')"
      "tb_items (fst w') = (tb_items (fst ?w))(it_id demoTimer \<mapsto> edited (\<lambda>_. ''{}'') demoTimer demoEdit (sampleRow ''1'' ''0'' 1))"
    using save_changes_row [OF tables_clean _ _ w(2) i p s, of "\<lambda>_. ''{}''" demoEdit] f by blast
  then show ?thesis
    by (intro exI [of _ w'] conjI) (assumption, simp add: e k)
qed

section \<open>What the dialog cannot do\<close>

text \<open>Notes that are emptied stay, and so does a title.\<close>

lemma notes_cannot_be_cleared:
  assumes "trim (ed_notes ed) = []" and "trim (ed_title ed) = []"
  shows "it_notes (edited writeBg item ed r) = it_notes r \<and> it_title (edited writeBg item ed r) = it_title r"
  using assms by (simp add: edited_def)

text \<open>A save that fails ends in the message of the failure and in the one of success.\<close>

lemma failed_save_reports_success:
  assumes "chosen (snd w) = Some p" and "plansUpdateItem D (updatePayload p (it_id item) (savedPatch writeBg item ed)) (fst w) = (Inl e, db')"
    and "\<not> (isSongBlock item \<and> notEmpty (it_refId item))"
  shows "fst (handleSave D writeBg item ed w) = [Failed CannotEdit, ItemUpdated]"
  using assms by (cases w) (simp add: handleSave_plain ctxUpdateItem_def callThenRefresh_def messages_def)

text \<open>A background that is only a colour of the text comes back with a plain background.\<close>

lemma text_colour_gains_background:
  assumes "ed_bgMode ed = ImageMode" and "ed_bgMediaPath ed = None" and "ed_fgEnabled ed" and "ed_fgColor ed \<noteq> []"
  shows "chosenBackground ed = emptyBackground\<lparr>ib_foreground := Some (ed_fgColor ed)\<rparr>"
    and "ib_background (chosenBackground (showBackground (Some (chosenBackground ed)) ed')) = Some ''#050505''"
  using assms by (simp_all add: chosenBackground_def showBackground_def notEmpty_def emptyBackground_def Let_def)

text \<open>The file of an image stays chosen when the mode changes to video.\<close>

lemma image_saved_as_video:
  assumes "notEmpty (ed_bgMediaPath ed)"
  shows "ib_backgroundMediaType (chosenBackground (ed\<lparr>ed_bgMode := VideoMode\<rparr>)) = Some VIDEO
     \<and> ib_backgroundMedia (chosenBackground (ed\<lparr>ed_bgMode := VideoMode\<rparr>)) = ed_bgMediaPath ed"
  using assms by (simp add: chosenBackground_def emptyBackground_def Let_def)

end
