(* ===== verification/LiveControl.thy ===== *)
theory LiveControl
  imports Projector Durations Shortcuts
begin

text \<open>
  The live controls of the application: the live context of the control window
  (\<open>contexts/LiveContext.tsx\<close>), the live bar (\<open>layout/LiveBar.tsx\<close>), the buttons of the header
  (\<open>layout/Header.tsx\<close>) and the keys of the projection windows (\<open>pages/ProjectionPage.tsx\<close>). They
  command the live state of the main process and project the items of the plan themselves.
  Operations do not interleave, and the update that the main process sends has arrived before the
  next one starts.
\<close>

section \<open>The live state in the windows\<close>

record controlState =
  co_pj :: projectorState
  co_live :: "cpLiveState option"

definition ctxOf :: "controlState \<Rightarrow> screenContext" where
  "ctxOf st = rt_ctx (pj_app (co_pj st))"

definition withCtx :: "screenContext \<Rightarrow> controlState \<Rightarrow> controlState" where
  "withCtx ctx st = st\<lparr>co_pj := (co_pj st)\<lparr>pj_app := (pj_app (co_pj st))\<lparr>rt_ctx := ctx\<rparr>\<rparr>\<rparr>"

text \<open>\<open>withUpdate\<close>: the answer, which is also what the main process sends, becomes the state.\<close>

definition withUpdate :: "(screenContext \<Rightarrow> screenContext \<times> cpLiveState) \<Rightarrow> controlState \<Rightarrow> controlState" where
  "withUpdate f st = (let (ctx, l) = f (ctxOf st) in (withCtx ctx st)\<lparr>co_live := Some l\<rparr>)"

text \<open>The same for a handler that checks its argument; it changes nothing when it throws.\<close>

definition withChecked :: "(screenContext \<Rightarrow> liveReply) \<Rightarrow> controlState \<Rightarrow> controlState" where
  "withChecked f st =
     (case f (ctxOf st) of Inl _ \<Rightarrow> st | Inr (ctx, l) \<Rightarrow> (withCtx ctx st)\<lparr>co_live := Some l\<rparr>)"

definition FREE_MODE :: jsval where
  "FREE_MODE = JObj [(''enabled'', JBool True), (''planId'', JNull), (''cursor'', JNum (IntNum 0)),
     (''black'', JBool False), (''white'', JBool False)]"

definition startFreeMode :: "(screenKey \<Rightarrow> int) \<Rightarrow> int \<Rightarrow> controlState \<Rightarrow> controlState" where
  "startFreeMode now t = withChecked (liveSet now t FREE_MODE)"

section \<open>Navigation\<close>

text \<open>\<open>Math.max(0, Math.min(cursor + dir, count - 1))\<close>, and the item at an index\<close>

definition nextCursor :: "jsnum \<Rightarrow> int \<Rightarrow> nat \<Rightarrow> jsnum" where
  "nextCursor cursor dir n = num_max (IntNum 0) (num_min (num_add cursor (IntNum dir)) (IntNum (int n - 1)))"

definition itemAt :: "itemRow list \<Rightarrow> jsnum \<Rightarrow> itemRow option" where
  "itemAt its n =
     (case n of
        Fin q \<Rightarrow> if q = of_int \<lfloor>q\<rfloor> \<and> 0 \<le> \<lfloor>q\<rfloor> \<and> nat \<lfloor>q\<rfloor> < length its then Some (its ! nat \<lfloor>q\<rfloor>) else None
      | _ \<Rightarrow> None)"

text \<open>
  \<open>projectPlanItemToTarget\<close> with the live state that the caller has; a refused projection is an
  error that nobody catches. The environment of a projection is a record of its parameters.
\<close>

record projectionEnv =
  pe_fmt :: "rat \<Rightarrow> string"
  pe_now :: "screenKey \<Rightarrow> int"
  pe_readJson :: "string \<Rightarrow> jsval option"
  pe_fileExists :: "string \<Rightarrow> bool"

definition project :: "projectionEnv \<Rightarrow> cpLiveState \<Rightarrow> itemRow \<Rightarrow> jsval option \<Rightarrow> controlState \<Rightarrow> controlState" where
  "project E live item planBackground st =
     (case projectPlanItemToTarget (pe_fmt E) (pe_now E) (pe_readJson E) (pe_fileExists E) (lv_target live) item
             (Some live) planBackground (co_pj st) of
        Inl _ \<Rightarrow> st
      | Inr (_, pj) \<Rightarrow> st\<lparr>co_pj := pj\<rparr>)"

text \<open>\<open>live\<close> is the live state before the command, as the callback has it; \<open>None\<close> without a plan.\<close>

definition handleNavigate ::
  "projectionEnv \<Rightarrow> int \<Rightarrow> int \<Rightarrow> (itemRow list \<times> jsval option) option \<Rightarrow> controlState \<Rightarrow> controlState" where
  "handleNavigate E t dir plan st =
     (let live = co_live st;
          currentCursor = (case live of None \<Rightarrow> IntNum 0 | Some l \<Rightarrow> lv_cursor l);
          its = (case plan of None \<Rightarrow> [] | Some (its, _) \<Rightarrow> its);
          cursor = nextCursor currentCursor dir (length its);
          st = withUpdate (if dir > 0 then liveNext (pe_now E) t else livePrev (pe_now E) t) st
      in case (itemAt its cursor, live, plan) of
           (Some item, Some l, Some (_, bg)) \<Rightarrow> project E l item bg st
         | _ \<Rightarrow> st)"

definition handleItemClick ::
  "projectionEnv \<Rightarrow> int \<Rightarrow> itemRow \<Rightarrow> nat \<Rightarrow> jsval option \<Rightarrow> controlState \<Rightarrow> controlState" where
  "handleItemClick E t item index planBackground st =
     (let live = co_live st;
          st = withChecked (liveSetCursor (pe_now E) t (JNum (IntNum (int index)))) st
      in case live of None \<Rightarrow> st | Some l \<Rightarrow> project E l item planBackground st)"

text \<open>The timer of the automatic advance\<close>

definition autoAdvance :: "projectionEnv \<Rightarrow> int \<Rightarrow> controlState \<Rightarrow> controlState" where
  "autoAdvance E t st = withUpdate (liveNext (pe_now E) t) st"

text \<open>The shortcuts of the live bar, enabled while the live state is\<close>

definition runShortcut ::
  "projectionEnv \<Rightarrow> int \<Rightarrow> (itemRow list \<times> jsval option) option \<Rightarrow> shortcutAction \<Rightarrow> controlState \<Rightarrow> controlState" where
  "runShortcut E t plan action st =
     (if \<not> (case co_live st of None \<Rightarrow> False | Some l \<Rightarrow> lv_enabled l) then st
      else case action of
             Next \<Rightarrow> handleNavigate E t 1 plan st
           | Prev \<Rightarrow> handleNavigate E t (- 1) plan st
           | ToggleBlack \<Rightarrow> withUpdate (liveToggleBlack (pe_now E) t) st
           | ToggleWhite \<Rightarrow> withUpdate (liveToggleWhite (pe_now E) t) st
           | Resume \<Rightarrow> withUpdate (liveResume (pe_now E) t) st
           | TargetA \<Rightarrow> withChecked (liveSetTarget (pe_now E) t (JStr ''A'')) st
           | TargetB \<Rightarrow> withChecked (liveSetTarget (pe_now E) t (JStr ''B'')) st
           | TargetC \<Rightarrow> withChecked (liveSetTarget (pe_now E) t (JStr ''C'')) st
           | ToggleProjection \<Rightarrow> st)"

text \<open>The buttons of the header; \<open>selectedPlanId\<close> is a plan or none.\<close>

definition planModePayload :: "string \<Rightarrow> jsval" where
  "planModePayload i = JObj [(''planId'', JStr i), (''enabled'', JBool True), (''cursor'', JNum (IntNum 0))]"

definition inPlanMode :: "cpLiveState option \<Rightarrow> bool" where
  "inPlanMode live = (case live of None \<Rightarrow> False | Some l \<Rightarrow> lv_enabled l \<and> lv_planId l \<noteq> None)"

definition inFreeMode :: "cpLiveState option \<Rightarrow> bool" where
  "inFreeMode live = (case live of None \<Rightarrow> False | Some l \<Rightarrow> lv_enabled l \<and> lv_planId l = None)"

definition handlePlanModeToggle ::
  "projectionEnv \<Rightarrow> int \<Rightarrow> string option \<Rightarrow> (itemRow list \<times> jsval option) option \<Rightarrow> controlState \<Rightarrow> controlState" where
  "handlePlanModeToggle E t selectedPlanId plan st =
     (if inPlanMode (co_live st) then withUpdate (liveToggle (pe_now E) t) st
      else case selectedPlanId of
             Some (c # i) \<Rightarrow>
               (case liveSet (pe_now E) t (planModePayload (c # i)) (ctxOf st) of
                  Inl _ \<Rightarrow> st
                | Inr (ctx, l) \<Rightarrow>
                    let st = (withCtx ctx st)\<lparr>co_live := Some l\<rparr>
                    in (case plan of Some (item # _, bg) \<Rightarrow> project E l item bg st | _ \<Rightarrow> st))
           | _ \<Rightarrow> st)"

definition handleFreeToggle :: "projectionEnv \<Rightarrow> int \<Rightarrow> controlState \<Rightarrow> controlState" where
  "handleFreeToggle E t st =
     (if inFreeMode (co_live st) then withUpdate (liveToggle (pe_now E) t) st else startFreeMode (pe_now E) t st)"

section \<open>Projection windows\<close>

text \<open>
  The arrow keys in a projection window. \<open>getPlan\<close> is \<open>plans:get\<close>; without a plan the key goes back
  to the control window, the first component.
\<close>

definition projectionKey ::
  "projectionEnv \<Rightarrow> int \<Rightarrow> (string \<Rightarrow> (itemRow list \<times> jsval option) option) \<Rightarrow> string \<Rightarrow> controlState
     \<Rightarrow> int option \<times> controlState" where
  "projectionKey E t getPlan key st =
     (if key \<noteq> ''ArrowLeft'' \<and> key \<noteq> ''ArrowRight'' then (None, st)
      else case co_live st of
             None \<Rightarrow> (None, st)
           | Some l \<Rightarrow>
               if \<not> lv_enabled l then (None, st)
               else let dir = (if key = ''ArrowRight'' then 1 else - 1)
                    in case lv_planId l of
                         Some (c # i) \<Rightarrow>
                           (None, case getPlan (c # i) of
                                    None \<Rightarrow> st
                                  | Some plan \<Rightarrow> handleNavigate E t dir (Some plan) st)
                       | _ \<Rightarrow> (Some dir, st))"

text \<open>The time that a timer has left at \<open>n\<close> milliseconds, in seconds, and the command at its end\<close>

definition timerRemaining :: "string \<Rightarrow> int \<Rightarrow> int \<Rightarrow> rat" where
  "timerRemaining body startedAt n =
     max 0 (of_int (let (m, s) = parseMMSS body in m * 60 + s) - of_int (n - startedAt) / 1000)"

definition isTimerText :: "cpProjectionCurrent \<Rightarrow> bool" where
  "isTimerText c = (pc_kind c = TEXT \<and> (case pc_title c of None \<Rightarrow> False | Some x \<Rightarrow> take 6 x = ''TIMER:''))"

text \<open>
  A window toggles the black screen three seconds after its timer has ended, unless the screen
  changes before; \<open>k\<close> windows do so before the change that the first one makes reaches the others.
\<close>

definition timersExpired :: "projectionEnv \<Rightarrow> int \<Rightarrow> nat \<Rightarrow> controlState \<Rightarrow> controlState" where
  "timersExpired E t k st = (withUpdate (liveToggleBlack (pe_now E) t) ^^ k) st"

section \<open>Progress\<close>

definition totalDuration :: "itemRow list \<Rightarrow> int" where
  "totalDuration its = sum_list (map estimateItemDurationSeconds its)"

definition completedSeconds :: "itemRow list \<Rightarrow> nat \<Rightarrow> int" where
  "completedSeconds its cursor = sum_list (take cursor (map estimateItemDurationSeconds its))"

definition remainingLabel :: "itemRow list \<Rightarrow> nat \<Rightarrow> string option" where
  "remainingLabel its cursor =
     (if totalDuration its > 0 then Some (formatMinutes (totalDuration its - completedSeconds its cursor)) else None)"

section \<open>Where the controls lead\<close>

lemma ctxOf_withCtx [simp]: "ctxOf (withCtx ctx st) = ctx"
  by (simp add: ctxOf_def withCtx_def)

lemma ctxOf_update_live [simp]: "ctxOf (st\<lparr>co_live := l\<rparr>) = ctxOf st"
  by (simp add: ctxOf_def)

lemma withUpdate_ctx [simp]: "ctxOf (withUpdate f st) = fst (f (ctxOf st))"
  by (simp add: withUpdate_def split: prod.splits)

lemma withUpdate_live [simp]: "co_live (withUpdate f st) = Some (snd (f (ctxOf st)))"
  by (simp add: withUpdate_def split: prod.splits)

lemma itemAt_nat: "itemAt its (Fin (of_nat k)) = (if k < length its then Some (its ! k) else None)"
  by (simp add: itemAt_def)


lemma text_item_parsed:
  "\<exists>p. parseProjectionSetTextPayload fmt (textPayload (Some title) body JUndef None None) = Inr p
     \<and> tp_title p = Some title \<and> tp_body p = body"
  by (simp add: parseProjectionSetTextPayload_def textPayload_def optStr_def orUndef_def expectString_def
      expectOptionalString_def parseSongMeta_def Let_def)

definition plainText :: "itemRow \<Rightarrow> bool" where
  "plainText item \<longleftrightarrow> mediaTypeOfKind (it_kind item) = None \<and> it_kind item \<noteq> ''TIMER''
     \<and> it_secondaryContent item = None \<and> it_backgroundConfig item = None"

lemma project_plain:
  assumes "plainText item"
  shows "projectPlanItemToTarget fmt now readJson fileExists target item live None pj
     = andThen (projectContent fmt now (TextContent (textPayload (Some (inferProjectionTitle item))
           (trim (orElse (it_content item) [])) JUndef None None)) target (map_option lv_lockedScreens live) pj)
         (\<lambda>pj. Inr (None, pj))"
  using assms by (simp add: projectPlanItemToTarget_def plainText_def backgroundOverrideOf_def parsePlanBackground_def
      orUndef_def Let_def)

text \<open>A plain item that is projected from any state of the controls\<close>

lemma project_shows:
  assumes "plainText item" and "ctx = ctxOf st" and "src = sourceOf ctx (lv_target live)" and "mirrors ctx src = FREE"
    and "\<not> lv_lockedScreens (liveState ctx) src" and "\<not> lv_lockedScreens live (lv_target live)"
  shows "\<exists>s :: cpProjectionState. (\<forall>k. k = src \<or> mirrors ctx k = MIRROR src \<longrightarrow>
        ps_current (screenStates (ctxOf (project E live item None st)) k) = ps_current s
        \<and> ps_mode (screenStates (ctxOf (project E live item None st)) k) = NORMAL)
     \<and> pc_title (ps_current s) = Some (inferProjectionTitle item)
     \<and> pc_body (ps_current s) = Some (trim (orElse (it_content item) []))
     \<and> (lv_target live = src \<or> mirrors ctx (lv_target live) = MIRROR src)
     \<and> liveState (ctxOf (project E live item None st)) = liveState ctx
     \<and> co_live (project E live item None st) = co_live st"
proof -
  obtain p where p: "parseProjectionSetTextPayload (pe_fmt E) (textPayload (Some (inferProjectionTitle item))
        (trim (orElse (it_content item) [])) JUndef None None) = Inr p"
      "tp_title p = Some (inferProjectionTitle item)" "tp_body p = trim (orElse (it_content item) [])"
    using text_item_parsed by blast
  have unlocked: "\<not> shouldSkipProjection (lv_target live) (Some (lv_lockedScreens live))"
    using assms(6) by (simp add: shouldSkipProjection_def)
  have ctx: "ctx = rt_ctx (pj_app (co_pj st))"
    using assms(2) by (simp add: ctxOf_def)
  obtain pj where pj: "projectContent (pe_fmt E) (pe_now E) (TextContent (textPayload (Some (inferProjectionTitle item))
        (trim (orElse (it_content item) [])) JUndef None None)) (lv_target live) (Some (lv_lockedScreens live)) (co_pj st) = Inr pj"
      "\<forall>k. screenStates (rt_ctx (pj_app pj)) k = (if k = src \<or> mirrors ctx k = MIRROR src
            then (textUpdate p (screenStates ctx src))\<lparr>ps_updatedAt := pe_now E k\<rparr> else screenStates ctx k)"
      "lv_target live = src \<or> mirrors ctx (lv_target live) = MIRROR src" "liveState (rt_ctx (pj_app pj)) = liveState ctx"
    using projected_text_result [OF p(1) unlocked ctx assms(3-5), of "pe_now E"] by blast
  have "project E live item None st = st\<lparr>co_pj := pj\<rparr>"
    by (simp add: project_def project_plain [OF assms(1)] pj(1))
  then show ?thesis
    using pj(2-4) p(2,3)
    by (intro exI [of _ "textUpdate p (screenStates ctx src)"]) (simp add: ctxOf_def textUpdate_def)
qed






section \<open>Where they do not\<close>

text \<open>Going forward on the last item moves the cursor past the end while the last item is shown again.\<close>

lemma cursor_runs_past_plan:
  assumes "co_live st = Some (liveState (ctxOf st))" and "lv_cursor (liveState (ctxOf st)) = IntNum (int k)"
    and "Suc k = length its"
  shows "handleNavigate E t 1 (Some (its, bg)) st = project E (liveState (ctxOf st)) (its ! k) bg
      (withUpdate (liveNext (pe_now E) t) st)
    \<and> lv_cursor (liveState (ctxOf (withUpdate (liveNext (pe_now E) t) st))) = IntNum (int (length its))"
proof -
  have n: "length its = Suc k" using assms(3) by simp
  have "nextCursor (IntNum (int k)) 1 (length its) = IntNum (int k)"
    unfolding n by (simp add: nextCursor_def)
  then show ?thesis
    using assms(1,2) n by (simp add: handleNavigate_def itemAt_nat liveNext_def nextLive_def emptyLivePatch_def Let_def)
qed

text \<open>The automatic advance moves the cursor and projects nothing.\<close>

lemma auto_advance_projects_nothing:
  "ps_current (screenStates (ctxOf (autoAdvance E t st)) k) = ps_current (screenStates (ctxOf st) k)
     \<or> (\<exists>src. mirrors (ctxOf st) k = MIRROR src
          \<and> ps_current (screenStates (ctxOf (autoAdvance E t st)) k) = ps_current (screenStates (ctxOf st) src))"
  by (auto simp: autoAdvance_def liveNext_def applyLive_states nextLive_def emptyLivePatch_def Let_def)

text \<open>Two windows that end the same timer at the same moment toggle twice, so the screen does not stay black.\<close>

lemma two_timers_cancel:
  assumes "\<not> lv_black (liveState (ctxOf st))"
  shows "\<not> lv_black (liveState (ctxOf (timersExpired E t 2 st))) \<and> lv_black (liveState (ctxOf (timersExpired E t 1 st)))"
  using assms by (simp add: timersExpired_def numeral_2_eq_2 liveToggleBlack_def nextLive_def emptyLivePatch_def Let_def)

text \<open>A timer starts again with every command on the live state, as its start is the last change of the screen.\<close>

lemma live_command_restarts_timer:
  assumes "mirrors (ctxOf st) (lv_target (liveState (ctxOf st))) = FREE"
    and "\<not> lv_lockedScreens (liveState (ctxOf st)) (lv_target (liveState (ctxOf st)))"
  shows "ps_updatedAt (screenStates (ctxOf (withUpdate (liveResume now t) st)) (lv_target (liveState (ctxOf st))))
     = now (lv_target (liveState (ctxOf st)))"
  using assms by (simp add: liveResume_def applyLive_states nextLive_def emptyLivePatch_def Let_def)

text \<open>A projection while the screen is black shows the item although the live state stays black.\<close>

lemma projection_lifts_black:
  assumes "plainText item" and "ctx = ctxOf st" and "src = sourceOf ctx (lv_target live)" and "mirrors ctx src = FREE"
    and "\<not> lv_lockedScreens (liveState ctx) src" and "\<not> lv_lockedScreens live (lv_target live)"
    and "lv_black (liveState ctx)"
  shows "lv_black (liveState (ctxOf (project E live item None st)))
     \<and> ps_mode (screenStates (ctxOf (project E live item None st)) src) = NORMAL"
  using project_shows [OF assms(1-6), of E] assms(7) by auto

end
