(* ===== verification/PlanAdding.thy ===== *)
theory PlanAdding
  imports Templates PlanContext
begin

text \<open>
  What \<open>addItem\<close> of the plan context does with a payload that the main process accepts: facts that
  the panels share which add items to the plan (\<open>source/BibleTab.tsx\<close>, \<open>source/SongDetailPanel.tsx\<close>,
  \<open>source/TimerTab.tsx\<close>, \<open>plan/PlanEditor.tsx\<close> and others).
\<close>

section \<open>Fields of a payload\<close>

named_theorems payload_fields

lemma ident_field [payload_fields]: "cleanId i \<Longrightarrow> expectText (JStr i) label = Inr i"
  by simp

lemma raw_fields [payload_fields]:
  "optionalRaw (JStr s) label = Inr (Some s)" "optionalRaw JUndef label = Inr None"
  "optionalRaw (undefOr x) label = Inr x"
  using raw_parsed [of "Val s"] raw_parsed [of Undef]
  by (simp_all add: orUndefined_def valueOf_def undefOr_def expectOptionalString_def expectString_def split: option.split)

lemma text_fields [payload_fields]:
  "optionalText (JStr s) label = Inr (trimmedOr (Val s))" "optionalText JUndef label = Inr None"
  "optionalText (undefOr x) label = Inr (Option.bind x (\<lambda>s. trimmedOr (Val s)))"
  using text_parsed [of "Val s"] text_parsed [of Undef]
  by (simp_all add: orUndefined_def trimmedOr_def undefOr_def expectOptionalString_def expectString_def split: option.split)

lemma kind_field [payload_fields]: "expectEnum CP_PLAN_ITEM_KIND_VALUES (JStr (kindName k)) label = Inr k"
  by (rule kind_parsed)

lemma trimmedOr_trimmed: "trim s = s \<Longrightarrow> s \<noteq> [] \<Longrightarrow> trimmedOr (Val s) = Some s"
  by (simp add: trimmedOr_def)

section \<open>Adding an item\<close>

definition songOf :: "cpPlanAddItemPayload \<Rightarrow> string option" where
  "songOf p = (if ai_kind p = SONG_BLOCK then ai_refId p else None)"

context clean_plan_store
begin

lemma item_added:
  assumes "follows w" and "chosen (snd w) = Some i"
    and "parsePlanAddItemPayload (JObj ((''planId'', JStr i) # payload)) = Inr p" and "ai_planId p = i"
    and "case songOf p of None \<Rightarrow> True | Some s \<Rightarrow> s \<in> songs (fst w)"
  shows "\<exists>k n w'. addItem D payload w = ((Some ((newItemRow p n)\<lparr>it_id := k\<rparr>), None), w') \<and> follows w'
     \<and> chosen (snd w') = Some i \<and> songs (fst w') = songs (fst w)
     \<and> findItems D (fst w') (ofPlan i) = findItems D (fst w) (ofPlan i) @ [(newItemRow p n)\<lparr>it_id := k\<rparr>]"
proof -
  obtain db v where w: "w = (db, v)" by (cases w)
  have i: "cleanId i" "i \<in> dom (plans db)"
    using assms(1,2) by (auto simp: followsDb_def w)
  have "refsOk (plans db) (songs db) (newItemRow p 0)"
    using i(2) assms(4,5) by (auto simp: refsOk_def newItemRow_def songOf_def w split: option.splits)
  from addItem_at_end [OF _ assms(3) this] assms(1) obtain k n db' where
      a: "plansAddItem D (JObj ((''planId'', JStr i) # payload)) db = (Inr ((newItemRow p n)\<lparr>it_id := k\<rparr>), db')"
        "ok db'" "plans db' = plans db" "songs db' = songs db"
        "findItems D db' (ofPlan i) = findItems D db (ofPlan i) @ [(newItemRow p n)\<lparr>it_id := k\<rparr>]"
    by (auto simp: w assms(4))
  have "selOk (db', v)"
    using follows_selOk [of w] assms(1) a(3) by (simp add: selOk_def w)
  then have "follows (refreshPlan D (db', v))" "fst (refreshPlan D (db', v)) = db'"
      "chosen (snd (refreshPlan D (db', v))) = Some i"
    using refreshPlan_follows [OF a(2), of v] a(2) assms(2) by (simp_all add: w)
  then show ?thesis
    using assms(2) a by (intro exI [of _ k] exI [of _ n]) (simp add: addItem_def callThenRefresh_def w)
qed

end

text \<open>The selection of a plan in a window that shows none\<close>

lemma plan_selected:
  fixes w :: "planTables planWorld"
  assumes "tablesOk db" and "''0'' \<in> dom (tb_plans db)" and "w = setSelectedPlanId tablesDb (Some ''0'') (db, emptyView)"
  shows "tablesOk (fst w)" and "followsDb tablesDb tb_plans w" and "chosen (snd w) = Some ''0''" and "fst w = db"
proof -
  have "followsDb tablesDb tb_plans (db, emptyView)"
    by (simp add: followsDb_def chosen_def emptyView_def)
  then show f: "tablesOk (fst w)" "followsDb tablesDb tb_plans w"
    using clean_tables.setSelected_follows [of "(db, emptyView)" "Some ''0''"] assms(1,2) by (simp_all add: assms(3))
  have "clean_plan_store.selOk tb_plans (db, emptyView\<lparr>vw_selectedPlanId := Some ''0''\<rparr>)"
    using assms(2) clean_tables.plan_clean [OF assms(1)] by (auto simp: clean_tables.selOk_def emptyView_def dest!: chosen_selected)
  from clean_tables.refreshPlan_follows [OF assms(1) this]
  show "chosen (snd w) = Some ''0''" "fst w = db"
    by (simp_all add: assms(3) setSelectedPlanId_def chosen_def emptyView_def)
qed

lemma sample_selected:
  fixes w :: "planTables planWorld"
  assumes "w = setSelectedPlanId tablesDb (Some ''0'') (sampleTables, emptyView)"
  shows "tablesOk (fst w)" and "followsDb tablesDb tb_plans w" and "chosen (snd w) = Some ''0''" and "fst w = sampleTables"
  using plan_selected [OF sample_ok sample_plan assms] by simp_all

end
