(* ===== verification/BibleTab.thy ===== *)
theory BibleTab
  imports Bolls PlanAdding LiveControl
begin

text \<open>
  The Bible of the control window, \<open>components/source/BibleTab.tsx\<close>: reading a chapter from the
  texts of the application or from the server, choosing verses, adding them to the plan and
  projecting them. A handler is one step with the answers of the server, the database of the plan
  and the screens as they are then; a delayed handler is its last call. The marks of progress are
  left out.
\<close>

section \<open>Chapters\<close>

record bibleEnv =
  be_data :: offlineData
  be_str :: "jsval \<Rightarrow> string"
  be_answer :: "string \<Rightarrow> int \<Rightarrow> int \<Rightarrow> (string \<times> jsval) list list fetched"
  be_bcv :: "string \<Rightarrow> (bcvPoint option \<times> bcvPoint option) option"
  be_proj :: projectionEnv

text \<open>The numbers of verses that the server gives are whole.\<close>

definition verseNumber :: "jsnum \<Rightarrow> int" where
  "verseNumber n = (case n of Fin q \<Rightarrow> num_trunc q | _ \<Rightarrow> 0)"

definition loadChapter ::
  "bibleEnv \<Rightarrow> string \<Rightarrow> int \<Rightarrow> int \<Rightarrow> bollsState \<Rightarrow> offlineVerse list result \<times> bollsState" where
  "loadChapter E translation bookId chapter st =
     (if translation = ''FRLSG'' then (Inr (orElse (getLSG1910Chapter (be_data E) bookId chapter) []), st)
      else case getChapter (be_str E) (be_data E) translation bookId chapter (be_answer E translation bookId chapter) st of
             (Inl e, st) \<Rightarrow> (Inl e, st)
           | (Inr vs, st) \<Rightarrow>
               (Inr (map (\<lambda>v. \<lparr>ov_bookId = show_int bookId, ov_bookName = [], ov_chapter = chapter,
                   ov_verse = verseNumber (bv_verse v), ov_text = bv_text v\<rparr>) vs), st))"

section \<open>The state of the tab\<close>

datatype bibleView = ReferenceView | BooksView | ChaptersView | VersesView
datatype bibleMode = Browse | SearchAll
datatype projectionMode = VerseMode | PassageMode

type_synonym translationGroup = "string \<times> (string \<times> string) list"

definition TAB_TRANSLATIONS :: "translationGroup list" where
  "TAB_TRANSLATIONS = [(''Fran'' @ [CHR 0xE7] @ ''ais'',
     [(''FRLSG'', ''Bible Segond 1910''), (''FRNEG'', ''Nouvelle '' @ [CHR 0xC9] @ ''dition de Gen'' @ [CHR 0xE8] @ ''ve''),
      (''FRBDS'', ''Bible du Semeur''), (''LSG21'', ''Segond 21'')])]"

text \<open>The selected verses are in the order in which they were chosen, without repetition.\<close>

record bibleTab =
  bi_mode :: bibleMode
  bi_view :: bibleView
  bi_refInput :: string
  bi_books :: "catalogEntry list"
  bi_selectedBook :: "catalogEntry option"
  bi_selectedChapter :: "int option"
  bi_verses :: "offlineVerse list"
  bi_selectedVerses :: "int list"
  bi_projMode :: projectionMode
  bi_cursor :: "int option"
  bi_translation :: string
  bi_translations :: "translationGroup list"
  bi_comparisons :: "string list"
  bi_searchQuery :: string
  bi_results :: "bollsVerse list"
  bi_searchTotal :: nat
  bi_selectedPk :: "jsnum option"

definition initialTab :: bibleTab where
  "initialTab = \<lparr>bi_mode = Browse, bi_view = ReferenceView, bi_refInput = [], bi_books = [], bi_selectedBook = None,
     bi_selectedChapter = None, bi_verses = [], bi_selectedVerses = [], bi_projMode = VerseMode, bi_cursor = None,
     bi_translation = ''FRLSG'', bi_translations = TAB_TRANSLATIONS, bi_comparisons = [], bi_searchQuery = [],
     bi_results = [], bi_searchTotal = 0, bi_selectedPk = None\<rparr>"

text \<open>The messages that the user sees\<close>

datatype bibleMessage = ReferenceNotFound | ChapterNotLoaded | ActivateLive | NoVerseSelected | SearchFailed
  | VersesAdded nat | AddedToPlan | PlanRefused toast

text \<open>The translations of a language in a group, the groups in the order of their first translation\<close>

fun insertGrouped :: "bibleTranslation \<Rightarrow> translationGroup list \<Rightarrow> translationGroup list" where
  "insertGrouped t [] = [(bt_language t, [(bt_short_name t, bt_full_name t)])]"
| "insertGrouped t ((language, ts) # groups) =
     (if language = bt_language t then (language, ts @ [(bt_short_name t, bt_full_name t)]) # groups
      else (language, ts) # insertGrouped t groups)"

definition showTranslations :: "bibleTranslation list \<Rightarrow> bibleTab \<Rightarrow> bibleTab" where
  "showTranslations flat bi =
     (if flat = [] then bi else bi\<lparr>bi_translations := fold insertGrouped flat []\<rparr>)"

section \<open>Browsing\<close>

text \<open>The effect that forgets the cursor when the book or the chapter has changed\<close>

definition afterRender :: "bibleTab \<Rightarrow> bibleTab \<Rightarrow> bibleTab" where
  "afterRender old bi =
     (if bi_selectedBook bi \<noteq> bi_selectedBook old \<or> bi_selectedChapter bi \<noteq> bi_selectedChapter old
      then bi\<lparr>bi_cursor := None\<rparr> else bi)"

definition handleRefInput ::
  "bibleEnv \<Rightarrow> string \<Rightarrow> bibleTab \<times> bollsState \<Rightarrow> bibleMessage list \<times> bibleTab \<times> bollsState" where
  "handleRefInput E v w =
     (let (bi, st) = w; bi = bi\<lparr>bi_refInput := v\<rparr>
      in if trim v = [] then ([], bi, st)
         else case parseReference (be_bcv E) v of
                None \<Rightarrow> ([], bi, st)
              | Some found \<Rightarrow>
                  let book = find (\<lambda>b. ce_bookKey b = vr_bookId found) (bi_books bi)
                  in (case loadChapter E (bi_translation bi) (case book of None \<Rightarrow> 0 | Some b \<Rightarrow> int (ce_bookid b))
                             (vr_chapter found) st of
                        (Inl _, st) \<Rightarrow> ([ReferenceNotFound], bi, st)
                      | (Inr chapter, st) \<Rightarrow>
                          if chapter = [] then ([], bi, st)
                          else ([], afterRender bi (bi\<lparr>bi_selectedBook := book, bi_selectedChapter := Some (vr_chapter found),
                                  bi_verses := chapter, bi_selectedVerses := [vr_from found..vr_to found],
                                  bi_view := VersesView\<rparr>), st)))"

definition handleSelectBook :: "catalogEntry \<Rightarrow> bibleTab \<Rightarrow> bibleTab" where
  "handleSelectBook book bi =
     afterRender bi (bi\<lparr>bi_selectedBook := Some book, bi_selectedChapter := None, bi_view := ChaptersView\<rparr>)"

definition handleSelectChapter ::
  "bibleEnv \<Rightarrow> int \<Rightarrow> bibleTab \<times> bollsState \<Rightarrow> bibleMessage list \<times> bibleTab \<times> bollsState" where
  "handleSelectChapter E chapter w =
     (let (bi, st) = w
      in case bi_selectedBook bi of
           None \<Rightarrow> ([], bi, st)
         | Some book \<Rightarrow>
             (case loadChapter E (bi_translation bi) (int (ce_bookid book)) chapter st of
                (Inl _, st) \<Rightarrow> ([ChapterNotLoaded], bi, st)
              | (Inr loaded, st) \<Rightarrow>
                  ([], bi\<lparr>bi_verses := loaded, bi_selectedChapter := Some chapter, bi_selectedVerses := [],
                          bi_cursor := None, bi_view := VersesView\<rparr>, st)))"

definition toggleVerse :: "int \<Rightarrow> bibleTab \<Rightarrow> bibleTab" where
  "toggleVerse verseNum bi = bi\<lparr>bi_selectedVerses :=
     (if verseNum \<in> set (bi_selectedVerses bi) then filter (\<lambda>v. v \<noteq> verseNum) (bi_selectedVerses bi)
      else bi_selectedVerses bi @ [verseNum])\<rparr>"

text \<open>The Set when a verse is added to it\<close>

definition selectVerse :: "int \<Rightarrow> bibleTab \<Rightarrow> bibleTab" where
  "selectVerse v bi = (if v \<in> set (bi_selectedVerses bi) then bi else bi\<lparr>bi_selectedVerses := bi_selectedVerses bi @ [v]\<rparr>)"

section \<open>The text of a selection\<close>

definition sortedSelection :: "bibleTab \<Rightarrow> int list" where
  "sortedSelection bi = sort (bi_selectedVerses bi)"

definition verseLine :: "int \<Rightarrow> offlineVerse \<Rightarrow> string" where
  "verseLine v verse = show_int v @ ''. '' @ ov_text verse"

definition findVerse :: "int \<Rightarrow> offlineVerse list \<Rightarrow> offlineVerse option" where
  "findVerse v verses = find (\<lambda>vv. ov_verse vv = v) verses"

text \<open>The lines of the verses that are there\<close>

definition passageText :: "int list \<Rightarrow> offlineVerse list \<Rightarrow> string" where
  "passageText nums verses =
     join [CHR 0x0A] (List.map_filter (\<lambda>v. map_option (verseLine v) (findVerse v verses)) nums)"

definition buildVerseContent :: "bibleTab \<Rightarrow> string" where
  "buildVerseContent bi = passageText (sortedSelection bi) (bi_verses bi)"

definition hasChapter :: "bibleTab \<Rightarrow> (catalogEntry \<times> int) option" where
  "hasChapter bi =
     (case (bi_selectedBook bi, bi_selectedChapter bi) of
        (Some b, Some c) \<Rightarrow> if c = 0 then None else Some (b, c)
      | _ \<Rightarrow> None)"

definition buildVerseTitle :: "bibleTab \<Rightarrow> string" where
  "buildVerseTitle bi =
     (case hasChapter bi of
        None \<Rightarrow> ''Bible''
      | Some (b, c) \<Rightarrow>
          let sorted = sortedSelection bi
          in if sorted = [] then ce_name b @ '' '' @ show_int c
             else let mi = hd sorted; ma = last sorted
                  in ce_name b @ '' '' @ show_int c @ '':''
                       @ (if mi = ma then show_int mi else show_int mi @ ''-'' @ show_int ma))"

definition getBookName :: "bibleTab \<Rightarrow> jsnum \<Rightarrow> (jsnum \<Rightarrow> string) \<Rightarrow> string" where
  "getBookName bi bookId str =
     (case find (\<lambda>b. IntNum (int (ce_bookid b)) = bookId) (bi_books bi) of
        Some b \<Rightarrow> ce_name b
      | None \<Rightarrow> ''Livre '' @ str bookId)"

definition getTranslationLabel :: "bibleTab \<Rightarrow> string \<Rightarrow> string" where
  "getTranslationLabel bi shortName =
     orElse (map_of (concat (map snd (bi_translations bi))) shortName) shortName"

record biblePreview =
  bp_id :: string
  bp_title :: string
  bp_subtitle :: string
  bp_content :: string
  bp_itemKind :: cpPlanItemKind
  bp_translation :: string

definition buildSelectionPreview :: "bibleTab \<Rightarrow> biblePreview option" where
  "buildSelectionPreview bi =
     (case hasChapter bi of
        None \<Rightarrow> None
      | Some (b, c) \<Rightarrow>
          if bi_selectedVerses bi = [] then None
          else let sorted = sortedSelection bi; label = getTranslationLabel bi (bi_translation bi);
                   single = (bi_projMode bi = VerseMode \<and> length sorted = 1)
               in Some \<lparr>bp_id = ''browse:'' @ bi_translation bi @ '':'' @ show_nat (ce_bookid b) @ '':'' @ show_int c
                            @ '':'' @ join '','' (map show_int sorted),
                        bp_title = buildVerseTitle bi,
                        bp_subtitle = label @ '' '' @ [CHR 0xB7] @ '' '' @ (if single then ''Verset'' else ''Passage''),
                        bp_content = buildVerseContent bi,
                        bp_itemKind = (if single then BIBLE_VERSE else BIBLE_PASSAGE),
                        bp_translation = label\<rparr>)"

text \<open>What the inspector shows; \<open>str\<close> is \<open>String\<close> on numbers.\<close>

definition inspected :: "(jsnum \<Rightarrow> string) \<Rightarrow> bibleTab \<Rightarrow> biblePreview option" where
  "inspected str bi =
     (case bi_mode bi of
        Browse \<Rightarrow> buildSelectionPreview bi
      | SearchAll \<Rightarrow>
          Option.bind (bi_selectedPk bi) (\<lambda>pk.
            map_option (\<lambda>m. let label = getTranslationLabel bi (bi_translation bi)
              in \<lparr>bp_id = ''search:'' @ bi_translation bi @ '':'' @ str (bv_pk m),
                  bp_title = getBookName bi (bv_book m) str @ '' '' @ str (bv_chapter m) @ '':'' @ str (bv_verse m),
                  bp_subtitle = label @ '' '' @ [CHR 0xB7] @ '' Resultat'',
                  bp_content = str (bv_verse m) @ ''. '' @ bv_text m,
                  bp_itemKind = BIBLE_VERSE, bp_translation = label\<rparr>)
              (find (\<lambda>r. bv_pk r = pk) (bi_results bi))))"

section \<open>Projecting\<close>

text \<open>\<open>String\<close> of a cell of the heading of an item: \<open>undefined\<close> and \<open>null\<close> are written out\<close>

definition shownBook :: "bibleTab \<Rightarrow> string" where
  "shownBook bi = (case bi_selectedBook bi of None \<Rightarrow> ''undefined'' | Some b \<Rightarrow> ce_name b)"

definition shownChapter :: "bibleTab \<Rightarrow> string" where
  "shownChapter bi = (case bi_selectedChapter bi of None \<Rightarrow> ''null'' | Some c \<Rightarrow> show_int c)"

text \<open>\<open>Promise.allSettled\<close>: the chapter in each translation that is compared, \<open>None\<close> when it cannot be read\<close>

fun loadComparisons ::
  "bibleEnv \<Rightarrow> int \<Rightarrow> int \<Rightarrow> string list \<Rightarrow> bollsState \<Rightarrow> (string \<times> offlineVerse list) list \<times> bollsState" where
  "loadComparisons E bookId chapter [] st = ([], st)"
| "loadComparisons E bookId chapter (t # ts) st =
     (let (r, st) = loadChapter E t bookId chapter st; (rest, st) = loadComparisons E bookId chapter ts st
      in (case r of Inl _ \<Rightarrow> rest | Inr vs \<Rightarrow> (t, vs) # rest, st))"

text \<open>The text of the selected verses in the translations that have some of them\<close>

definition comparisonTexts :: "int list \<Rightarrow> (string \<times> offlineVerse list) list \<Rightarrow> (string \<times> string) list" where
  "comparisonTexts nums loaded =
     filter (\<lambda>(_, body). body \<noteq> []) (map (\<lambda>(t, vs). (t, passageText nums vs)) loaded)"

definition secondaryTexts :: "(string \<times> string) list \<Rightarrow> jsval" where
  "secondaryTexts texts = JArr (map (\<lambda>(label, body). JObj [(''label'', JStr label), (''body'', JStr body)]) texts)"

text \<open>
  \<open>ensureReadyForFreeProjection\<close> as a step of the controls: the live state that it gives, or
  \<open>None\<close> when the main process refuses the change, an error that nobody catches.
\<close>

definition readyForFree :: "projectionEnv \<Rightarrow> int \<Rightarrow> controlState \<Rightarrow> (cpLiveState option \<times> controlState) option" where
  "readyForFree P t st =
     (case ensureReadyForFreeProjection (pe_now P) t (co_live st) (ctxOf st) of
        Inl _ \<Rightarrow> None
      | Inr (ctx, live) \<Rightarrow> Some (live, (withCtx ctx st)\<lparr>co_live := live\<rparr>))"

definition projectBibleText ::
  "projectionEnv \<Rightarrow> cpLiveState \<Rightarrow> string \<Rightarrow> string \<Rightarrow> jsval option \<Rightarrow> controlState \<Rightarrow> controlState" where
  "projectBibleText P live title body secondary st =
     (case projectContent (pe_fmt P) (pe_now P) (TextContent (textPayload (Some title) body JUndef secondary None))
             (lv_target live) (Some (lv_lockedScreens live)) (co_pj st) of
        Inl _ \<Rightarrow> st
      | Inr pj \<Rightarrow> st\<lparr>co_pj := pj\<rparr>)"

text \<open>The messages, the caches of the online Bible and the controls after a projection\<close>

type_synonym projected = "bibleMessage list \<times> bollsState \<times> controlState"

definition handleProjectSingle ::
  "bibleEnv \<Rightarrow> int \<Rightarrow> bibleTab \<Rightarrow> offlineVerse \<Rightarrow> bollsState \<Rightarrow> controlState \<Rightarrow> projected" where
  "handleProjectSingle E t bi verse st co =
     (case readyForFree (be_proj E) t co of
           None \<Rightarrow> ([], st, co)
         | Some (None, co) \<Rightarrow> ([ActivateLive], st, co)
         | Some (Some l, co) \<Rightarrow>
             if \<not> lv_enabled l then ([ActivateLive], st, co)
             else case (bi_selectedBook bi, bi_selectedChapter bi) of
                    (Some b, Some c) \<Rightarrow>
                      let base = ce_name b @ '' '' @ show_int c @ '':'' @ show_int (ov_verse verse);
                          label = (if bi_comparisons bi = [] then base else base @ '' ('' @ bi_translation bi @ '')'');
                          body = verseLine (ov_verse verse) verse;
                          (loaded, st) = loadComparisons E (int (ce_bookid b)) c (bi_comparisons bi) st;
                          secondary = (if bi_comparisons bi = [] then None
                                       else Some (secondaryTexts (comparisonTexts [ov_verse verse] loaded)))
                      in ([], st, projectBibleText (be_proj E) l label body secondary co)
                  | _ \<Rightarrow> ([], st, co))"

definition handleVerseClickInVerseMode ::
  "bibleEnv \<Rightarrow> int \<Rightarrow> offlineVerse \<Rightarrow> bibleTab \<Rightarrow> bollsState \<Rightarrow> controlState \<Rightarrow> bibleTab \<times> projected" where
  "handleVerseClickInVerseMode E t verse bi st co =
     (selectVerse (ov_verse verse) (bi\<lparr>bi_cursor := Some (ov_verse verse)\<rparr>), handleProjectSingle E t bi verse st co)"

text \<open>A click on a verse of the list\<close>

definition verseClicked ::
  "bibleEnv \<Rightarrow> int \<Rightarrow> offlineVerse \<Rightarrow> bibleTab \<Rightarrow> bollsState \<Rightarrow> controlState \<Rightarrow> bibleTab \<times> projected" where
  "verseClicked E t verse bi st co =
     (if bi_projMode bi = VerseMode \<and> (case co_live co of None \<Rightarrow> False | Some l \<Rightarrow> lv_enabled l)
      then handleVerseClickInVerseMode E t verse bi st co
      else (toggleVerse (ov_verse verse) bi, [], st, co))"

text \<open>The verses that the arrow keys go through, and the one where a key arrives\<close>

definition navigateThrough :: "bibleTab \<Rightarrow> int list" where
  "navigateThrough bi =
     (if length (bi_selectedVerses bi) > 1 then sortedSelection bi else sort (map ov_verse (bi_verses bi)))"

definition curIdx :: "bibleTab \<Rightarrow> int" where
  "curIdx bi =
     (case Option.bind (bi_cursor bi) (\<lambda>c. index_of c (navigateThrough bi)) of None \<Rightarrow> - 1 | Some k \<Rightarrow> int k)"

definition cursorTarget :: "int \<Rightarrow> bibleTab \<Rightarrow> offlineVerse option" where
  "cursorTarget dir bi =
     (let nav = navigateThrough bi; k = nat (max 0 (min (int (length nav) - 1) (curIdx bi + dir)))
      in if bi_verses bi = [] then None
         else if k < length nav then findVerse (nav ! k) (bi_verses bi) else None)"

definition handleVerseCursorMove ::
  "bibleEnv \<Rightarrow> int \<Rightarrow> int \<Rightarrow> bibleTab \<Rightarrow> bollsState \<Rightarrow> controlState \<Rightarrow> bibleTab \<times> projected" where
  "handleVerseCursorMove E t dir bi st co =
     (case cursorTarget dir bi of
        None \<Rightarrow> (bi, [], st, co)
      | Some verse \<Rightarrow> (bi\<lparr>bi_cursor := Some (ov_verse verse)\<rparr>, handleProjectSingle E t bi verse st co))"

text \<open>The keys of the window, and those that a projection window sends back in free mode\<close>

definition arrowDirection :: "string \<Rightarrow> int option" where
  "arrowDirection key =
     (if key = ''ArrowRight'' \<or> key = ''ArrowDown'' then Some 1
      else if key = ''ArrowLeft'' \<or> key = ''ArrowUp'' then Some (- 1) else None)"

definition bibleKeyDown ::
  "bibleEnv \<Rightarrow> int \<Rightarrow> bool \<Rightarrow> string \<Rightarrow> bibleTab \<Rightarrow> bollsState \<Rightarrow> controlState \<Rightarrow> bibleTab \<times> projected" where
  "bibleKeyDown E t typing key bi st co =
     (if bi_view bi \<noteq> VersesView \<or> bi_projMode bi \<noteq> VerseMode \<or> typing then (bi, [], st, co)
      else case arrowDirection key of
             None \<Rightarrow> (bi, [], st, co)
           | Some dir \<Rightarrow> handleVerseCursorMove E t dir bi st co)"

definition onFreeNavigate ::
  "bibleEnv \<Rightarrow> int \<Rightarrow> int \<Rightarrow> bibleTab \<Rightarrow> bollsState \<Rightarrow> controlState \<Rightarrow> bibleTab \<times> projected" where
  "onFreeNavigate E t dir bi st co =
     (if bi_view bi \<noteq> VersesView \<or> bi_projMode bi \<noteq> VerseMode
         \<or> \<not> (case co_live co of None \<Rightarrow> False | Some l \<Rightarrow> lv_enabled l) then (bi, [], st, co)
      else handleVerseCursorMove E t dir bi st co)"

definition handleProject ::
  "bibleEnv \<Rightarrow> int \<Rightarrow> bibleTab \<Rightarrow> bollsState \<Rightarrow> controlState \<Rightarrow> bibleTab \<times> projected" where
  "handleProject E t bi st co =
     (if \<not> (case co_live co of None \<Rightarrow> False | Some l \<Rightarrow> lv_enabled l) then (bi, [ActivateLive], st, co)
      else case readyForFree (be_proj E) t co of
                None \<Rightarrow> (bi, [], st, co)
              | Some (None, co) \<Rightarrow> (bi, [], st, co)
              | Some (Some l, co) \<Rightarrow>
                  if \<not> lv_enabled l then (bi, [], st, co)
                  else case bi_projMode bi of
                         VerseMode \<Rightarrow>
                           (case sortedSelection bi of
                              [] \<Rightarrow> (bi, [NoVerseSelected], st, co)
                            | first # _ \<Rightarrow>
                                (case findVerse first (bi_verses bi) of
                                   None \<Rightarrow> (bi, [], st, co)
                                 | Some verse \<Rightarrow> (bi\<lparr>bi_cursor := Some first\<rparr>, handleProjectSingle E t bi verse st co)))
                       | PassageMode \<Rightarrow>
                           let content = buildVerseContent bi
                           in if content = [] then (bi, [NoVerseSelected], st, co)
                              else (case (bi_comparisons bi, bi_selectedBook bi, bi_selectedChapter bi) of
                                      (cs, Some b, Some c) \<Rightarrow>
                                        let (loaded, st) = loadComparisons E (int (ce_bookid b)) c cs st;
                                            secondary = (if cs = [] then None
                                              else Some (secondaryTexts (comparisonTexts (sortedSelection bi) loaded)))
                                        in (bi, [], st, projectBibleText (be_proj E) l (buildVerseTitle bi) content secondary co)
                                    | _ \<Rightarrow> (bi, [], st, projectBibleText (be_proj E) l (buildVerseTitle bi) content None co)))"

section \<open>Adding to the plan\<close>

text \<open>\<open>JSON.stringify\<close> of the texts in other translations\<close>

definition hexDigit :: "nat \<Rightarrow> char" where
  "hexDigit n = ''0123456789abcdef'' ! n"

definition jsonChar :: "char \<Rightarrow> string" where
  "jsonChar c =
     (let n = of_char c :: nat
      in if c = CHR 0x22 \<or> c = CHR 0x5C then [CHR 0x5C, c]
         else if n = 8 then [CHR 0x5C, CHR ''b''] else if n = 9 then [CHR 0x5C, CHR ''t'']
         else if n = 10 then [CHR 0x5C, CHR ''n''] else if n = 12 then [CHR 0x5C, CHR ''f'']
         else if n = 13 then [CHR 0x5C, CHR ''r'']
         else if n < 32 then [CHR 0x5C] @ ''u00'' @ [hexDigit (n div 16), hexDigit (n mod 16)]
         else [c])"

definition jsonString :: "string \<Rightarrow> string" where
  "jsonString s = [CHR 0x22] @ concat (map jsonChar s) @ [CHR 0x22]"

definition jsonTexts :: "(string \<times> string) list \<Rightarrow> string" where
  "jsonTexts texts = ''['' @ join '','' (map (\<lambda>(label, body).
     ''{'' @ jsonString ''label'' @ '':'' @ jsonString label @ '','' @ jsonString ''body'' @ '':'' @ jsonString body @ ''}'') texts) @ '']''"

text \<open>What \<open>addItem\<close> gets; \<open>secondaryContent\<close> is only a field of \<open>handleAdd\<close>.\<close>

definition versePayload :: "string \<Rightarrow> string \<Rightarrow> string \<Rightarrow> string \<Rightarrow> (string \<times> jsval) list \<Rightarrow> (string \<times> jsval) list" where
  "versePayload title content refId refSubId extra =
     [(''kind'', JStr ''BIBLE_VERSE''), (''title'', JStr title), (''content'', JStr content), (''refId'', JStr refId),
      (''refSubId'', JStr refSubId)] @ extra"

definition versePayloadOf :: "bibleTab \<Rightarrow> offlineVerse \<Rightarrow> (string \<times> jsval) list \<Rightarrow> (string \<times> jsval) list" where
  "versePayloadOf bi verse extra = versePayload
     ((case bi_selectedBook bi of None \<Rightarrow> ''Bible'' | Some b \<Rightarrow> ce_name b) @ '' '' @ shownChapter bi @ '':''
        @ show_int (ov_verse verse) @ '' ('' @ bi_translation bi @ '')'')
     (verseLine (ov_verse verse) verse) (shownBook bi @ '' '' @ shownChapter bi) (bi_translation bi) extra"

text \<open>The field of the texts in other translations for the verses \<open>nums\<close>\<close>

definition secondaryField :: "bibleEnv \<Rightarrow> bibleTab \<Rightarrow> int list \<Rightarrow> bollsState \<Rightarrow> (string \<times> jsval) list \<times> bollsState" where
  "secondaryField E bi nums st =
     (case (bi_comparisons bi, bi_selectedBook bi, bi_selectedChapter bi) of
        (c # cs, Some b, Some chapter) \<Rightarrow>
          let (loaded, st) = loadComparisons E (int (ce_bookid b)) chapter (c # cs) st;
              texts = comparisonTexts nums loaded
          in ([(''secondaryContent'', if texts = [] then JUndef else JStr (jsonTexts texts))], st)
      | _ \<Rightarrow> ([(''secondaryContent'', JUndef)], st))"

text \<open>One item for each verse; the number of those that were added and the messages of those that were not\<close>

fun addVerses ::
  "'db planDb \<Rightarrow> (offlineVerse \<Rightarrow> bollsState \<Rightarrow> (string \<times> jsval) list \<times> bollsState) \<Rightarrow> bibleTab \<Rightarrow> offlineVerse list
     \<Rightarrow> bollsState \<Rightarrow> 'db planWorld \<Rightarrow> (nat \<times> bibleMessage list) \<times> bollsState \<times> 'db planWorld" where
  "addVerses D extra bi [] st w = ((0, []), st, w)"
| "addVerses D extra bi (verse # rest) st w =
     (let (flds, st) = extra verse st;
          ((r, t), w) = addItem D (versePayloadOf bi verse flds) w;
          ((n, ts), st, w) = addVerses D extra bi rest st w
      in (((if r = None then n else Suc n), (case t of None \<Rightarrow> [] | Some m \<Rightarrow> [PlanRefused m]) @ ts), st, w))"

definition addedMessages :: "nat \<times> bibleMessage list \<Rightarrow> bibleMessage list" where
  "addedMessages r = snd r @ (if fst r > 0 then [VersesAdded (fst r)] else [])"

text \<open>\<open>added\<close> is the answer of \<open>addItem\<close>.\<close>

definition addedOne :: "'a option \<times> toast option \<Rightarrow> bibleMessage list" where
  "addedOne r = (case snd r of None \<Rightarrow> [] | Some m \<Rightarrow> [PlanRefused m]) @ (if fst r = None then [] else [AddedToPlan])"

definition handleAdd ::
  "bibleEnv \<Rightarrow> 'db planDb \<Rightarrow> bibleTab \<Rightarrow> bollsState \<Rightarrow> 'db planWorld \<Rightarrow> bibleMessage list \<times> bollsState \<times> 'db planWorld" where
  "handleAdd E D bi st w =
     (if bi_selectedVerses bi = [] then ([NoVerseSelected], st, w)
      else case bi_projMode bi of
             VerseMode \<Rightarrow>
               let (r, st, w) = addVerses D (\<lambda>verse. secondaryField E bi [ov_verse verse]) bi
                     (List.map_filter (\<lambda>v. findVerse v (bi_verses bi)) (sortedSelection bi)) st w
               in (addedMessages r, st, w)
           | PassageMode \<Rightarrow>
               let content = buildVerseContent bi
               in if content = [] then ([NoVerseSelected], st, w)
                  else let (flds, st) = secondaryField E bi (sortedSelection bi) st;
                           (r, w) = addItem D (versePayload (buildVerseTitle bi) content
                              (shownBook bi @ '' '' @ shownChapter bi) (bi_translation bi) flds) w
                       in (addedOne r, st, w))"

definition handleAddAllVerses ::
  "'db planDb \<Rightarrow> bibleTab \<Rightarrow> bollsState \<Rightarrow> 'db planWorld \<Rightarrow> bibleMessage list \<times> bollsState \<times> 'db planWorld" where
  "handleAddAllVerses D bi st w =
     (let (r, st, w) = addVerses D (\<lambda>_ st. ([], st)) bi (bi_verses bi) st w in (addedMessages r, st, w))"

section \<open>Searching\<close>

text \<open>\<open>answer\<close> is what the server answers to the search.\<close>

definition showResults :: "findResult result \<Rightarrow> bibleTab \<Rightarrow> bibleMessage list \<times> bibleTab" where
  "showResults r bi =
     (case r of
        Inr f \<Rightarrow> ([], bi\<lparr>bi_results := fr_results f, bi_searchTotal := fr_total f\<rparr>)
      | Inl _ \<Rightarrow> ([SearchFailed], bi\<lparr>bi_results := [], bi_searchTotal := 0\<rparr>))"

definition handleSearchInput :: "string \<Rightarrow> findResult fetched \<Rightarrow> bibleTab \<Rightarrow> bibleMessage list \<times> bibleTab" where
  "handleSearchInput query answer bi =
     (let bi = bi\<lparr>bi_searchQuery := query, bi_selectedPk := None\<rparr>
      in if trim query = [] then ([], bi\<lparr>bi_results := [], bi_searchTotal := 0\<rparr>)
         else showResults (searchVerses answer) bi)"

definition handleTranslationChange :: "string \<Rightarrow> findResult fetched \<Rightarrow> bibleTab \<Rightarrow> bibleMessage list \<times> bibleTab" where
  "handleTranslationChange t answer bi =
     (let bi = bi\<lparr>bi_translation := t, bi_results := [], bi_searchTotal := 0, bi_selectedPk := None\<rparr>
      in if trim (bi_searchQuery bi) = [] then ([], bi) else showResults (searchVerses answer) bi)"

definition addComparison :: "string \<Rightarrow> bibleTab \<Rightarrow> bibleTab" where
  "addComparison t bi =
     (if length (bi_comparisons bi) < 3 \<and> t \<noteq> [] \<and> t \<notin> set (bi_comparisons bi) \<and> t \<noteq> bi_translation bi then bi\<lparr>bi_comparisons := bi_comparisons bi @ [t]\<rparr> else bi)"

definition dropComparison :: "string \<Rightarrow> bibleTab \<Rightarrow> bibleTab" where
  "dropComparison t bi = bi\<lparr>bi_comparisons := filter (\<lambda>v. v \<noteq> t) (bi_comparisons bi)\<rparr>"

definition handleAddVerse ::
  "(jsnum \<Rightarrow> string) \<Rightarrow> 'db planDb \<Rightarrow> bollsVerse \<Rightarrow> bibleTab \<Rightarrow> 'db planWorld \<Rightarrow> bibleMessage list \<times> 'db planWorld" where
  "handleAddVerse str D verse bi w =
     (let book = getBookName bi (bv_book verse) str;
          (r, w) = addItem D (versePayload (book @ '' '' @ str (bv_chapter verse) @ '':'' @ str (bv_verse verse))
             (str (bv_verse verse) @ ''. '' @ bv_text verse) (book @ '' '' @ str (bv_chapter verse)) (bi_translation bi) []) w
      in (addedOne r, w))"

text \<open>The item that \<open>handleProjectVerse\<close> makes up; the flds that it leaves out are undefined.\<close>

definition searchItem :: "(jsnum \<Rightarrow> string) \<Rightarrow> bibleTab \<Rightarrow> bollsVerse \<Rightarrow> itemRow" where
  "searchItem str bi verse =
     \<lparr>it_id = ''bible-search-temp'', it_planId = [], it_order = 0, it_kind = ''BIBLE_VERSE'',
      it_refId = None, it_refSubId = None, it_songId = None,
      it_title = Some (getBookName bi (bv_book verse) str @ '' '' @ str (bv_chapter verse) @ '':'' @ str (bv_verse verse)),
      it_content = Some (str (bv_verse verse) @ ''. '' @ bv_text verse), it_notes = None,
      it_mediaPath = None, it_secondaryContent = None, it_backgroundConfig = None\<rparr>"

definition handleProjectVerse ::
  "(jsnum \<Rightarrow> string) \<Rightarrow> projectionEnv \<Rightarrow> int \<Rightarrow> bollsVerse \<Rightarrow> bibleTab \<Rightarrow> controlState \<Rightarrow> bibleMessage list \<times> controlState" where
  "handleProjectVerse str P t verse bi co =
     (case readyForFree P t co of
           None \<Rightarrow> ([], co)
         | Some (None, co) \<Rightarrow> ([ActivateLive], co)
         | Some (Some l, co) \<Rightarrow>
             if \<not> lv_enabled l then ([ActivateLive], co)
             else ([], project P l (searchItem str bi verse) None co))"

section \<open>Moving the cursor\<close>

text \<open>A chapter whose numbers differ, verses chosen from it, and a cursor that is nowhere or on one of them\<close>

definition chapterShown :: "bibleTab \<Rightarrow> bool" where
  "chapterShown bi \<longleftrightarrow> bi_verses bi \<noteq> [] \<and> distinct (map ov_verse (bi_verses bi)) \<and> distinct (bi_selectedVerses bi)
     \<and> set (bi_selectedVerses bi) \<subseteq> ov_verse ` set (bi_verses bi)"

lemma findVerse_Some: "v \<in> ov_verse ` set vs \<Longrightarrow> \<exists>verse. findVerse v vs = Some verse \<and> verse \<in> set vs \<and> ov_verse verse = v"
  by (induction vs) (auto simp: findVerse_def)

lemma findVerse_None: "v \<notin> ov_verse ` set vs \<Longrightarrow> findVerse v vs = None"
  by (auto simp: findVerse_def find_None_iff)

lemma index_of_place: "distinct xs \<Longrightarrow> k < length xs \<Longrightarrow> index_of (xs ! k) xs = Some k"
  by (induction xs arbitrary: k) (auto simp: nth_Cons' gr0_conv_Suc)

lemma navigate_cursor [simp]: "navigateThrough (bi\<lparr>bi_cursor := c\<rparr>) = navigateThrough bi"
  by (simp add: navigateThrough_def sortedSelection_def)

lemma sort_Nil: "sort xs = [] \<longleftrightarrow> xs = []"
  by (metis length_0_conv length_sort)

lemma navigateThrough_ok:
  assumes "chapterShown bi"
  shows "navigateThrough bi \<noteq> []" and "sorted (navigateThrough bi)" and "distinct (navigateThrough bi)"
    and "set (navigateThrough bi) \<subseteq> ov_verse ` set (bi_verses bi)"
proof -
  show "navigateThrough bi \<noteq> []"
    using assms by (auto simp: navigateThrough_def chapterShown_def sortedSelection_def sort_Nil)
qed (use assms in \<open>auto simp: navigateThrough_def chapterShown_def sortedSelection_def\<close>)

text \<open>The index of the cursor, held between the first verse and the last\<close>

definition clamped :: "nat \<Rightarrow> int \<Rightarrow> int" where
  "clamped n k = max 0 (min (int n - 1) k)"

lemma cursor_move:
  assumes "chapterShown bi" and "k = clamped (length (navigateThrough bi)) (curIdx bi + dir)"
  shows "\<exists>r. handleVerseCursorMove E t dir bi st co = (bi\<lparr>bi_cursor := Some (navigateThrough bi ! nat k)\<rparr>, r)"
    and "curIdx (bi\<lparr>bi_cursor := Some (navigateThrough bi ! nat k)\<rparr>) = k"
proof -
  note nav = navigateThrough_ok [OF assms(1)]
  have k: "nat k < length (navigateThrough bi)" "0 \<le> k"
    using nav(1) by (auto simp: assms(2) clamped_def simp flip: length_greater_0_conv)
  then have "navigateThrough bi ! nat k \<in> ov_verse ` set (bi_verses bi)"
    using nav(4) nth_mem by blast
  then obtain verse where verse: "findVerse (navigateThrough bi ! nat k) (bi_verses bi) = Some verse"
      "ov_verse verse = navigateThrough bi ! nat k"
    using findVerse_Some by blast
  have "cursorTarget dir bi = Some verse"
    using assms(1) k(1) verse(1) by (simp add: cursorTarget_def chapterShown_def clamped_def flip: assms(2)
        del: nat_less_iff) (simp add: assms(2) clamped_def)
  then show "\<exists>r. handleVerseCursorMove E t dir bi st co = (bi\<lparr>bi_cursor := Some (navigateThrough bi ! nat k)\<rparr>, r)"
    using verse(2) by (cases "handleProjectSingle E t bi verse st co") (simp add: handleVerseCursorMove_def)
  show "curIdx (bi\<lparr>bi_cursor := Some (navigateThrough bi ! nat k)\<rparr>) = k"
    using index_of_place [OF nav(3) k(1)] k(2) by (simp add: curIdx_def)
qed

text \<open>A session of arrow keys\<close>

fun cursorMoves ::
  "bibleEnv \<Rightarrow> int \<Rightarrow> int list \<Rightarrow> bibleTab \<Rightarrow> bollsState \<Rightarrow> controlState \<Rightarrow> bibleTab \<times> bollsState \<times> controlState" where
  "cursorMoves E t [] bi st co = (bi, st, co)"
| "cursorMoves E t (dir # dirs) bi st co =
     (let (bi, _, st, co) = handleVerseCursorMove E t dir bi st co in cursorMoves E t dirs bi st co)"

text \<open>
  C30: The arrow keys walk through the verses of the chapter in ascending order, or through the
  selected ones when there are several: after any sequence of keys the cursor is on the verse whose
  index is the sum of the moves, held at every step between the first and the last, and nothing
  else of the tab has changed. The first key forward comes to the first verse.
\<close>

theorem cursor_walks_verses:
  assumes "chapterShown bi" and "dirs \<noteq> []"
    and "k = foldl (\<lambda>k dir. clamped (length (navigateThrough bi)) (k + dir)) (curIdx bi) dirs"
  shows "fst (cursorMoves E t dirs bi st co) = bi\<lparr>bi_cursor := Some (navigateThrough bi ! nat k)\<rparr>
     \<and> 0 \<le> k \<and> k < int (length (navigateThrough bi)) \<and> sorted (navigateThrough bi)"
  using assms
proof (induction dirs arbitrary: bi st co)
  case (Cons dir dirs)
  let ?k = "clamped (length (navigateThrough bi)) (curIdx bi + dir)"
  let ?bi = "bi\<lparr>bi_cursor := Some (navigateThrough bi ! nat ?k)\<rparr>"
  obtain m st' co' where move: "handleVerseCursorMove E t dir bi st co = (?bi, m, st', co')"
    using cursor_move(1) [OF Cons.prems(1) refl] by (metis prod.collapse)
  have idx: "curIdx ?bi = ?k" and nav: "navigateThrough ?bi = navigateThrough bi" and ok: "chapterShown ?bi"
    using cursor_move(2) [OF Cons.prems(1) refl] Cons.prems(1)
    by (simp_all add: chapterShown_def)
  have "0 \<le> ?k \<and> ?k < int (length (navigateThrough bi))"
    using navigateThrough_ok(1) [OF Cons.prems(1)] by (auto simp: clamped_def simp flip: length_greater_0_conv)
  then show ?case
    using Cons.IH [OF ok, of st' co'] Cons.prems(3) navigateThrough_ok(2) [OF Cons.prems(1)]
    by (cases "dirs = []") (simp_all add: move idx nav)
qed simp

definition demoTab :: bibleTab where
  "demoTab = initialTab\<lparr>bi_view := VersesView,
     bi_verses := map (\<lambda>v. \<lparr>ov_bookId = ''Ps'', ov_bookName = ''Psaumes'', ov_chapter = 23, ov_verse = v, ov_text = ''a''\<rparr>)
       [1, 2, 3, 4], bi_selectedVerses := [4, 2]\<rparr>"

definition demoEnv :: bibleEnv where
  "demoEnv = \<lparr>be_data = demoBible, be_str = (\<lambda>_. []), be_answer = (\<lambda>_ _ _. NetError []), be_bcv = demoBcv,
     be_proj = \<lparr>pe_fmt = (\<lambda>_. []), pe_now = (\<lambda>_. 0), pe_readJson = (\<lambda>_. None), pe_fileExists = (\<lambda>_. False)\<rparr>\<rparr>"

theorem cursor_walks_verses_witness:
  "\<forall>st co. bi_cursor (fst (cursorMoves demoEnv 0 [1, 1, 1, - 1] demoTab st co)) = Some 2"
proof (intro allI)
  fix st co
  have "chapterShown demoTab" and "navigateThrough demoTab = [2, 4]" and "curIdx demoTab = - 1"
    by (code_simp, code_simp, code_simp)
  then show "bi_cursor (fst (cursorMoves demoEnv 0 [1, 1, 1, - 1] demoTab st co)) = Some 2"
    using cursor_walks_verses [of demoTab "[1, 1, 1, - 1]" 0 demoEnv 0 st co] by (simp add: clamped_def)
qed

section \<open>Adding verses\<close>

text \<open>The optional field that a payload of the tab may have\<close>

definition extraOk :: "(string \<times> jsval) list \<Rightarrow> bool" where
  "extraOk flds \<longleftrightarrow> flds = [] \<or> flds = [(''secondaryContent'', JUndef)] \<or> (\<exists>s. flds = [(''secondaryContent'', JStr s)])"

lemma secondaryField_ok: "extraOk (fst (secondaryField E bi nums st))"
  by (auto simp: secondaryField_def extraOk_def Let_def split: list.split option.split prod.split)

lemma verse_parsed:
  assumes "cleanId i" and "extraOk extra"
  shows "\<exists>p. parsePlanAddItemPayload (JObj ((''planId'', JStr i) # versePayload title content refId refSubId extra)) = Inr p
     \<and> ai_planId p = i \<and> ai_kind p = BIBLE_VERSE \<and> ai_title p = Some title \<and> ai_content p = Some content"
proof -
  note lookups = parsePlanAddItemPayload_def versePayload_def payload_fields kind_field [of BIBLE_VERSE, simplified]
  from assms(2) consider "extra = []" | "extra = [(''secondaryContent'', JUndef)]"
    | s where "extra = [(''secondaryContent'', JStr s)]"
    by (auto simp: extraOk_def)
  then show ?thesis
    using assms(1) by cases (simp_all add: lookups)
qed

definition verseFields :: "itemRow \<Rightarrow> string \<times> string option \<times> string option" where
  "verseFields r = (it_kind r, it_title r, it_content r)"

definition fieldsOfVerse :: "bibleTab \<Rightarrow> offlineVerse \<Rightarrow> string \<times> string option \<times> string option" where
  "fieldsOfVerse bi verse = (''BIBLE_VERSE'',
     Some ((case bi_selectedBook bi of None \<Rightarrow> ''Bible'' | Some b \<Rightarrow> ce_name b) @ '' '' @ shownChapter bi @ '':''
        @ show_int (ov_verse verse) @ '' ('' @ bi_translation bi @ '')''),
     Some (show_int (ov_verse verse) @ ''. '' @ ov_text verse))"

context clean_plan_store
begin

lemma verse_added:
  assumes "follows w" and "chosen (snd w) = Some i" and "extraOk extra"
  shows "\<exists>row w'. addItem D (versePayloadOf bi verse extra) w = ((Some row, None), w') \<and> follows w' \<and> chosen (snd w') = Some i
     \<and> map verseFields (findItems D (fst w') (ofPlan i))
         = map verseFields (findItems D (fst w) (ofPlan i)) @ [fieldsOfVerse bi verse]"
proof -
  have i: "cleanId i"
    using assms(1,2) by (auto simp: followsDb_def)
  obtain p where p: "parsePlanAddItemPayload (JObj ((''planId'', JStr i) # versePayloadOf bi verse extra)) = Inr p"
      "ai_planId p = i" "ai_kind p = BIBLE_VERSE" "ai_title p = Some (the (fst (snd (fieldsOfVerse bi verse))))"
      "ai_content p = Some (verseLine (ov_verse verse) verse)"
    using verse_parsed [OF i assms(3)] unfolding versePayloadOf_def fieldsOfVerse_def by simp blast
  have "verseFields ((newItemRow p n)\<lparr>it_id := k\<rparr>) = fieldsOfVerse bi verse" for n k
    using p by (simp add: verseFields_def newItemRow_def fieldsOfVerse_def verseLine_def)
  moreover have "songOf p = None"
    using p(3) by (simp add: songOf_def)
  ultimately show ?thesis
    using item_added [OF assms(1,2) p(1,2)] by auto
qed

lemma verses_added:
  assumes "follows w" and "chosen (snd w) = Some i" and "\<And>verse st. extraOk (fst (extra verse st))"
  shows "\<exists>st' w'. addVerses D extra bi vs st w = ((length vs, []), st', w') \<and> follows w'
     \<and> map verseFields (findItems D (fst w') (ofPlan i))
         = map verseFields (findItems D (fst w) (ofPlan i)) @ map (fieldsOfVerse bi) vs"
  using assms(1,2)
proof (induction vs arbitrary: st w)
  case (Cons verse vs)
  obtain flds st1 where e: "extra verse st = (flds, st1)" and ok: "extraOk flds"
    using assms(3) [of verse st] by (cases "extra verse st") simp
  obtain row w1 where a: "addItem D (versePayloadOf bi verse flds) w = ((Some row, None), w1)" "follows w1"
      "chosen (snd w1) = Some i" "map verseFields (findItems D (fst w1) (ofPlan i))
         = map verseFields (findItems D (fst w) (ofPlan i)) @ [fieldsOfVerse bi verse]"
    using verse_added [OF Cons.prems ok] by blast
  obtain st' w' where "addVerses D extra bi vs st1 w1 = ((length vs, []), st', w')" "follows w'"
      "map verseFields (findItems D (fst w') (ofPlan i))
         = map verseFields (findItems D (fst w1) (ofPlan i)) @ map (fieldsOfVerse bi) vs"
    using Cons.IH [OF a(2,3)] by blast
  then show ?case
    using a by (simp add: e)
qed simp

end

text \<open>The selected verses that the chapter has, in ascending order\<close>

definition chosenVerses :: "bibleTab \<Rightarrow> offlineVerse list" where
  "chosenVerses bi = List.map_filter (\<lambda>v. findVerse v (bi_verses bi)) (sortedSelection bi)"

text \<open>
  C34: Adding the selection verse by verse to the plan appends one item for each selected verse of the
  chapter, in ascending order whatever the order of the selection, with the number and the text
  of its verse; the message tells how many, nothing is refused, and the copy of the plan in the
  window has them too. It takes a selected plan that the window shows.
\<close>

theorem verses_added_in_order:
  assumes "clean_plan_store D plans items songs ok" and "ok (fst w)" and "followsDb D plans w"
    and "chosen (snd w) = Some i" and "bi_selectedVerses bi \<noteq> []" and "bi_projMode bi = VerseMode"
    and "handleAdd E D bi st w = (ms, st', w')"
  shows "ms = (if chosenVerses bi = [] then [] else [VersesAdded (length (chosenVerses bi))]) \<and> followsDb D plans w'
     \<and> map verseFields (findItems D (fst w') (\<lambda>r. it_planId r = i))
         = map verseFields (findItems D (fst w) (\<lambda>r. it_planId r = i)) @ map (fieldsOfVerse bi) (chosenVerses bi)
     \<and> sorted (map ov_verse (chosenVerses bi))"
proof -
  obtain st1 w1 where a: "addVerses D (\<lambda>verse. secondaryField E bi [ov_verse verse]) bi (chosenVerses bi) st w
        = ((length (chosenVerses bi), []), st1, w1)" "followsDb D plans w1"
      "map verseFields (findItems D (fst w1) (\<lambda>r. it_planId r = i))
         = map verseFields (findItems D (fst w) (\<lambda>r. it_planId r = i)) @ map (fieldsOfVerse bi) (chosenVerses bi)"
    using clean_plan_store.verses_added [OF assms(1) _ assms(4), of "\<lambda>verse. secondaryField E bi [ov_verse verse]" bi
        "chosenVerses bi" st] assms(2,3) secondaryField_ok by blast
  have "sorted (map ov_verse (List.map_filter (\<lambda>v. findVerse v vs) nums))" if "sorted nums" for vs and nums :: "int list"
    using that
  proof (induction nums)
    case (Cons v nums)
    have number: "findVerse u vs = Some verse \<Longrightarrow> ov_verse verse = u" for u verse
      by (auto simp: findVerse_def find_Some_iff)
    have "\<exists>u \<in> set nums. findVerse u vs = Some verse" if "verse \<in> set (List.map_filter (\<lambda>v. findVerse v vs) nums)" for verse
      using that by (force simp: List.map_filter_def)
    then have "\<forall>verse \<in> set (List.map_filter (\<lambda>v. findVerse v vs) nums). v \<le> ov_verse verse"
      using Cons.prems number by fastforce
    then show ?case
      using Cons number by (auto simp: List.map_filter_simps split: option.split)
  qed (simp add: List.map_filter_simps)
  then have "sorted (map ov_verse (chosenVerses bi))"
    by (simp add: chosenVerses_def sortedSelection_def)
  then show ?thesis
    using a assms(5-7) by (auto simp: handleAdd_def chosenVerses_def addedMessages_def)
qed

theorem verses_added_in_order_witness:
  "\<exists>st' w'. handleAdd demoEnv tablesDb demoTab freshBolls (setSelectedPlanId tablesDb (Some ''0'') (sampleTables, emptyView))
       = ([VersesAdded 2], st', w')
     \<and> length (findItems tablesDb (fst w') (\<lambda>r. it_planId r = ''0'')) = 4"
proof -
  let ?w = "setSelectedPlanId tablesDb (Some ''0'') (sampleTables, emptyView)"
  note f = sample_selected [OF refl]
  obtain ms st' w' where h: "handleAdd demoEnv tablesDb demoTab freshBolls ?w = (ms, st', w')"
    by (cases "handleAdd demoEnv tablesDb demoTab freshBolls ?w")
  have "bi_selectedVerses demoTab \<noteq> []" "bi_projMode demoTab = VerseMode" "length (chosenVerses demoTab) = 2"
    by (simp add: demoTab_def, simp add: demoTab_def initialTab_def, code_simp)
  with verses_added_in_order [OF tables_clean f(1-3) _ _ h]
  have "ms = [VersesAdded 2]" "length (map verseFields (findItems tablesDb (fst w') (\<lambda>r. it_planId r = ''0'')))
      = length (map verseFields (findItems tablesDb sampleTables (\<lambda>r. it_planId r = ''0''))) + 2"
    by (auto simp: f(4))
  then show ?thesis
    using h by (simp add: sample_find)
qed

section \<open>What the tab says and does not do\<close>

text \<open>
  A new translation keeps the verses that are shown, so they are added under the name of the new
  translation with the text of the old one.
\<close>

lemma translation_change_keeps_text:
  assumes "trim (bi_searchQuery bi) = []" and "bi' = snd (handleTranslationChange t answer bi)"
  shows "chosenVerses bi' = chosenVerses bi \<and> fieldsOfVerse bi' verse = (''BIBLE_VERSE'',
     Some ((case bi_selectedBook bi of None \<Rightarrow> ''Bible'' | Some b \<Rightarrow> ce_name b) @ '' '' @ shownChapter bi @ '':''
        @ show_int (ov_verse verse) @ '' ('' @ t @ '')''),
     Some (show_int (ov_verse verse) @ ''. '' @ ov_text verse))"
  using assms by (simp add: handleTranslationChange_def Let_def chosenVerses_def sortedSelection_def fieldsOfVerse_def
      shownChapter_def)

text \<open>Without a live state an arrow key moves the cursor and projects nothing.\<close>

lemma keys_need_live_mode:
  assumes "co_live co = None" and "cursorTarget dir bi = Some verse"
  shows "snd (handleVerseCursorMove E t dir bi st co) = ([ActivateLive], st, co)"
proof -
  have "readyForFree P t co = Some (None, co)" for P
    using assms(1) by (simp add: readyForFree_def ensureReadyForFreeProjection_def shouldResetForFreeProjection_def
        withCtx_def ctxOf_def)
  then show ?thesis
    using assms(2) by (simp add: handleVerseCursorMove_def handleProjectSingle_def)
qed

text \<open>
  A click during a projection only ever adds to the selection, so after clicks on two verses the
  arrow keys go between these two.
\<close>

lemma clicked_verses_restrict_keys:
  assumes "bi_selectedVerses bi = []" and "v < u"
  shows "navigateThrough (selectVerse v (selectVerse u bi)) = [v, u]"
    and "selectVerse u (selectVerse v (selectVerse u bi)) = selectVerse v (selectVerse u bi)"
  using assms by (simp_all add: selectVerse_def navigateThrough_def sortedSelection_def)

text \<open>The title of a selection names verses that the chapter does not have.\<close>

lemma title_names_missing_verses:
  "let bi = demoTab\<lparr>bi_selectedBook := Some (hd (listLSG1910Books demoBible)), bi_selectedChapter := Some 23,
         bi_selectedVerses := [1, 2, 3, 4, 5, 6, 7, 8, 9]\<rparr>
   in buildVerseTitle bi = ''Psaumes 23:1-9'' \<and> length (chosenVerses bi) = 4"
  by code_simp

end
