(* ===== verification/SyncServer.thy ===== *)
theory SyncServer
  imports Handlers
begin

text \<open>
  The server for remote controls in the local network, \<open>main/ipc/syncServer.ts\<close>. The library
  \<open>ws\<close> gives the events: a server listens or fails, a client connects, sends a text or closes.
  What is sent to a client is in its inbox. \<open>readJson\<close> is \<open>JSON.parse\<close>, \<open>None\<close> when it raises.
\<close>

section \<open>The module\<close>

definition DEFAULT_PORT :: jsnum where
  "DEFAULT_PORT = IntNum 9477"

text \<open>A client: its number, whether it is open, the length of \<open>sent\<close> when it connected, what it got\<close>

record wsClient =
  cl_id :: nat
  cl_open :: bool
  cl_inbox :: "broadcastMsg list"

datatype wsPhase = Starting | Listening | Ended

record wsServer =
  ws_port :: jsnum
  ws_phase :: wsPhase
  ws_clients :: "wsClient list"

record cpSyncStatus =
  ss_running :: bool
  ss_port :: jsnum
  ss_clients :: nat
  ss_addresses :: "string list"

text \<open>
  Every server that was made, in order; \<open>sw_wss\<close> is the variable of the module and
  \<open>sw_told\<close> what \<open>statusCallback\<close> was called with.
\<close>

record syncWorld =
  sw_ctx :: screenContext
  sw_servers :: "wsServer list"
  sw_wss :: "nat option"
  sw_told :: "cpSyncStatus list"

record netInfo =
  ni_family :: string
  ni_internal :: bool
  ni_address :: string

definition getLocalAddresses :: "netInfo list option list \<Rightarrow> string list" where
  "getLocalAddresses nets = map ni_address (filter (\<lambda>i. ni_family i = ''IPv4'' \<and> \<not> ni_internal i)
     (concat (map (\<lambda>iface. case iface of None \<Rightarrow> [] | Some infos \<Rightarrow> infos) nets)))"

definition getStatus :: "netInfo list option list \<Rightarrow> syncWorld \<Rightarrow> cpSyncStatus" where
  "getStatus nets w =
     (case sw_wss w of
        None \<Rightarrow> \<lparr>ss_running = False, ss_port = DEFAULT_PORT, ss_clients = 0, ss_addresses = []\<rparr>
      | Some k \<Rightarrow> \<lparr>ss_running = True, ss_port = ws_port (sw_servers w ! k),
          ss_clients = length (filter cl_open (ws_clients (sw_servers w ! k))), ss_addresses = getLocalAddresses nets\<rparr>)"

definition broadcastStatus :: "netInfo list option list \<Rightarrow> syncWorld \<Rightarrow> syncWorld" where
  "broadcastStatus nets w = w\<lparr>sw_told := sw_told w @ [getStatus nets w]\<rparr>"

definition onServer :: "nat \<Rightarrow> (wsServer \<Rightarrow> wsServer) \<Rightarrow> syncWorld \<Rightarrow> syncWorld" where
  "onServer k f w = w\<lparr>sw_servers := (sw_servers w)[k := f (sw_servers w ! k)]\<rparr>"

definition onClients :: "(wsClient \<Rightarrow> wsClient) \<Rightarrow> wsServer \<Rightarrow> wsServer" where
  "onClients f s = s\<lparr>ws_clients := map f (ws_clients s)\<rparr>"

text \<open>\<open>syncBroadcastLive\<close> and \<open>syncBroadcastScreenState\<close> of the messages \<open>msgs\<close>\<close>

definition broadcastToClients :: "broadcastMsg list \<Rightarrow> syncWorld \<Rightarrow> syncWorld" where
  "broadcastToClients msgs w =
     (case sw_wss w of
        None \<Rightarrow> w
      | Some k \<Rightarrow> onServer k (onClients (\<lambda>c. if cl_open c then c\<lparr>cl_inbox := cl_inbox c @ msgs\<rparr> else c)) w)"

text \<open>The screens change; what the context broadcasts reaches the clients too.\<close>

definition changeScreens :: "screenContext \<Rightarrow> syncWorld \<Rightarrow> syncWorld" where
  "changeScreens ctx w = broadcastToClients (drop (length (sent (sw_ctx w))) (sent ctx)) (w\<lparr>sw_ctx := ctx\<rparr>)"

datatype syncReply = SyncStarted jsnum "string list" | SyncFailed string | SyncStopped

definition portOf :: "jsval \<Rightarrow> jsnum" where
  "portOf rawPort = (case rawPort of JNum p \<Rightarrow> if num_less (IntNum 0) p then p else DEFAULT_PORT | _ \<Rightarrow> DEFAULT_PORT)"

text \<open>
  \<open>sync:start\<close> up to the events of the new server; \<open>refusedPort\<close> is the error of the constructor.
  \<open>None\<close> is the answer that waits for an event.
\<close>

definition startServer ::
  "netInfo list option list \<Rightarrow> jsnum \<Rightarrow> string option \<Rightarrow> syncWorld \<Rightarrow> syncReply option \<times> syncWorld" where
  "startServer nets port refusedPort w =
     (case sw_wss w of
        Some k \<Rightarrow> (Some (SyncStarted (ws_port (sw_servers w ! k)) (getLocalAddresses nets)), w)
      | None \<Rightarrow>
          (case refusedPort of
             Some e \<Rightarrow> (Some (SyncFailed e), w)
           | None \<Rightarrow> (None, w\<lparr>sw_servers := sw_servers w @ [\<lparr>ws_port = port, ws_phase = Starting, ws_clients = []\<rparr>]\<rparr>)))"

definition serverListening :: "netInfo list option list \<Rightarrow> nat \<Rightarrow> syncWorld \<Rightarrow> syncReply option \<times> syncWorld" where
  "serverListening nets k w =
     (let w = broadcastStatus nets (onServer k (\<lambda>s. s\<lparr>ws_phase := Listening\<rparr>) w\<lparr>sw_wss := Some k\<rparr>)
      in (Some (SyncStarted (ws_port (sw_servers w ! k)) (getLocalAddresses nets)), w))"

definition serverError :: "nat \<Rightarrow> string \<Rightarrow> syncWorld \<Rightarrow> syncReply option \<times> syncWorld" where
  "serverError k err w =
     (if sw_wss w = None then Some (SyncFailed err) else None, onServer k (\<lambda>s. s\<lparr>ws_phase := Ended\<rparr>) w)"

definition clientConnected :: "netInfo list option list \<Rightarrow> nat \<Rightarrow> nat \<Rightarrow> syncWorld \<Rightarrow> syncWorld" where
  "clientConnected nets k c w = broadcastStatus nets
     (onServer k (\<lambda>s. s\<lparr>ws_clients := ws_clients s @ [\<lparr>cl_id = c, cl_open = True, cl_inbox = []\<rparr>]\<rparr>) w)"

definition closeClient :: "nat \<Rightarrow> wsClient \<Rightarrow> wsClient" where
  "closeClient c cl = (if cl_id cl = c then cl\<lparr>cl_open := False\<rparr> else cl)"

definition clientClosed :: "netInfo list option list \<Rightarrow> nat \<Rightarrow> nat \<Rightarrow> syncWorld \<Rightarrow> syncWorld" where
  "clientClosed nets k c w = broadcastStatus nets (onServer k (onClients (closeClient c)) w)"

text \<open>
  A message: a text that is not JSON, \<open>null\<close> and a message without a type do nothing; a type that
  is not a name is no command.
\<close>

definition messageCommand :: "(string \<Rightarrow> jsval option) \<Rightarrow> string \<Rightarrow> (string \<times> jsval) option" where
  "messageCommand readJson raw =
     (case readJson raw of
        Some (JObj msg) \<Rightarrow> (case jget msg ''type'' of JStr (c # cmd) \<Rightarrow> Some (c # cmd, jget msg ''data'') | _ \<Rightarrow> None)
      | _ \<Rightarrow> None)"

definition clientMessage ::
  "(string \<Rightarrow> jsval option) \<Rightarrow> (screenKey \<Rightarrow> int) \<Rightarrow> int \<Rightarrow> string \<Rightarrow> syncWorld \<Rightarrow> syncWorld" where
  "clientMessage readJson now t raw w =
     (case messageCommand readJson raw of
        None \<Rightarrow> w
      | Some (cmd, arg) \<Rightarrow> changeScreens (fst (onLiveCommand now t cmd arg (sw_ctx w))) w)"

definition stopServer :: "netInfo list option list \<Rightarrow> syncWorld \<Rightarrow> syncReply \<times> syncWorld" where
  "stopServer nets w =
     (SyncStopped,
      case sw_wss w of
        None \<Rightarrow> w
      | Some k \<Rightarrow> broadcastStatus nets (onServer k (\<lambda>s. onClients (\<lambda>c. c\<lparr>cl_open := False\<rparr>) s\<lparr>ws_phase := Ended\<rparr>) w
                    \<lparr>sw_wss := None\<rparr>))"

definition syncStart ::
  "netInfo list option list \<Rightarrow> jsval \<Rightarrow> string option \<Rightarrow> syncWorld \<Rightarrow> syncReply option \<times> syncWorld" where
  "syncStart nets rawPort refusedPort w = startServer nets (portOf rawPort) refusedPort w"

section \<open>Events\<close>

definition serverIs :: "wsPhase \<Rightarrow> nat \<Rightarrow> syncWorld \<Rightarrow> bool" where
  "serverIs p k w \<longleftrightarrow> k < length (sw_servers w) \<and> ws_phase (sw_servers w ! k) = p"

definition clientOf :: "nat \<Rightarrow> nat \<Rightarrow> syncWorld \<Rightarrow> bool" where
  "clientOf k c w \<longleftrightarrow> k < length (sw_servers w) \<and> (\<exists>cl \<in> set (ws_clients (sw_servers w ! k)). cl_id cl = c \<and> cl_open cl)"

text \<open>
  What can happen in the main process. \<open>apart\<close> holds when the user does not start the server while
  it is starting. The screens change by their operations and by a profile that is activated; a page
  that has loaded is sent the states again, which the remote clients hear too.
\<close>

inductive syncStep ::
  "bool \<Rightarrow> netInfo list option list \<Rightarrow> (string \<Rightarrow> jsval option) \<Rightarrow> syncWorld \<Rightarrow> syncWorld \<Rightarrow> bool"
  for apart nets readJson where
  start: "(apart \<Longrightarrow> \<forall>k. \<not> serverIs Starting k w) \<Longrightarrow> syncStep apart nets readJson w (snd (syncStart nets port e w))"
| listening: "serverIs Starting k w \<Longrightarrow> syncStep apart nets readJson w (snd (serverListening nets k w))"
| failed: "serverIs Starting k w \<Longrightarrow> syncStep apart nets readJson w (snd (serverError k e w))"
| connected: "serverIs Listening k w \<Longrightarrow> syncStep apart nets readJson w (clientConnected nets k c w)"
| closed: "clientOf k c w \<Longrightarrow> syncStep apart nets readJson w (clientClosed nets k c w)"
| message: "clientOf k c w \<Longrightarrow> syncStep apart nets readJson w (clientMessage readJson now t raw w)"
| stop: "syncStep apart nets readJson w (snd (stopServer nets w))"
| screens: "screenStep op (sw_ctx w) ctx \<Longrightarrow> syncStep apart nets readJson w (changeScreens ctx w)"
| profile: "applyProfileToRuntime ensure now t p app = Inr app' \<Longrightarrow> rt_ctx app = sw_ctx w
    \<Longrightarrow> syncStep apart nets readJson w (changeScreens (rt_ctx app') w)"
| control_page: "syncStep apart nets readJson w (changeScreens (broadcastAllScreensState (sw_ctx w)) w)"
| screen_page: "syncStep apart nets readJson w (changeScreens (broadcast (sw_ctx w) key) w)"

definition initialSync :: "screenContext \<Rightarrow> syncWorld" where
  "initialSync ctx = \<lparr>sw_ctx = ctx, sw_servers = [], sw_wss = None, sw_told = []\<rparr>"

section \<open>The broadcasts tell everything\<close>

text \<open>What a receiver of messages knows of a screen and of the live state\<close>

fun latestScreen :: "screenKey \<Rightarrow> broadcastMsg list \<Rightarrow> cpProjectionState option" where
  "latestScreen k [] = None"
| "latestScreen k (m # ms) = orOption (latestScreen k ms)
     (case m of ScreenMsg j s \<Rightarrow> if j = k then Some s else None | LiveMsg l \<Rightarrow> None)"

fun latestLive :: "broadcastMsg list \<Rightarrow> cpLiveState option" where
  "latestLive [] = None"
| "latestLive (m # ms) = orOption (latestLive ms) (case m of LiveMsg l \<Rightarrow> Some l | ScreenMsg _ _ \<Rightarrow> None)"

lemma latest_append:
  "latestScreen k (xs @ ys) = orOption (latestScreen k ys) (latestScreen k xs)"
  "latestLive (xs @ ys) = orOption (latestLive ys) (latestLive xs)"
  by (induction xs) (auto simp: orOption_def split: option.split)

text \<open>The new messages give the new state from the old one.\<close>

definition tells :: "screenContext \<Rightarrow> screenContext \<Rightarrow> bool" where
  "tells ctx ctx' \<longleftrightarrow> (\<exists>new. sent ctx' = sent ctx @ new
     \<and> (\<forall>k. screenStates ctx' k = orElse (latestScreen k new) (screenStates ctx k))
     \<and> liveState ctx' = orElse (latestLive new) (liveState ctx))"

lemma orElse_orOption: "orElse y (orElse x d) = orElse (orOption y x) d"
  by (cases y) (simp_all add: orElse_def orOption_def)

lemma tells_trans:
  assumes "tells a b" and "tells b c"
  shows "tells a c"
proof -
  obtain xs where xs: "sent b = sent a @ xs" "\<And>k. screenStates b k = orElse (latestScreen k xs) (screenStates a k)"
      "liveState b = orElse (latestLive xs) (liveState a)"
    using assms(1) by (auto simp: tells_def)
  obtain ys where ys: "sent c = sent b @ ys" "\<And>k. screenStates c k = orElse (latestScreen k ys) (screenStates b k)"
      "liveState c = orElse (latestLive ys) (liveState b)"
    using assms(2) by (auto simp: tells_def)
  show ?thesis
    by (simp add: tells_def xs ys latest_append orElse_orOption)
qed

lemma tells_set: "tells ctx (broadcast (setScreenState ctx k s) k)"
  by (auto simp: tells_def broadcast_def setScreenState_def orElse_def orOption_def)

lemma tells_same: "sent ctx' = sent ctx \<Longrightarrow> screenStates ctx' = screenStates ctx \<Longrightarrow> liveState ctx' = liveState ctx
    \<Longrightarrow> tells ctx ctx'"
  by (auto simp: tells_def orElse_def)

lemma tells_mirrors: "tells ctx (applyMirrorsFrom now ctx source)"
proof -
  have "tells ctx (mirrorStep now source ctx k)" for ctx k
    by (auto simp: mirrorStep_def tells_set tells_same split: screenMirrorMode.split)
  then have "tells ctx (foldl (mirrorStep now source) ctx ks)" for ks
    by (induction ks arbitrary: ctx) (auto intro: tells_trans simp: tells_same)
  then show ?thesis
    by (simp add: applyMirrorsFrom_def)
qed

lemma tells_commit: "tells ctx (fst (commitScreen now ctx key s))"
  by (auto simp: commitScreen_def Let_def intro: tells_trans [OF tells_set tells_mirrors])

lemma tells_live: "tells ctx (fst (mergeLive now t ctx patch))"
proof -
  let ?ctx1 = "ctx\<lparr>liveState := nextLive t (liveState ctx) patch\<rparr>"
  have "tells ?ctx1 (applyLiveProjectionMode now ?ctx1)"
    by (auto simp: applyLiveProjectionMode_def Let_def tells_same intro: tells_trans [OF tells_set tells_mirrors])
  moreover have "liveState (applyLiveProjectionMode now ?ctx1) = liveState ?ctx1"
    by (auto simp: applyLiveProjectionMode_def applyMirrorsFrom_def Let_def)
  ultimately show ?thesis
    by (auto simp: tells_def mergeLive_def broadcastLive_def Let_def latest_append orElse_def orOption_def)
qed

lemma screenStep_tells: "screenStep op ctx ctx' \<Longrightarrow> tells ctx ctx'"
  by (induction rule: screenStep.induct)
    (auto simp: setContentText_def setContentMedia_def setMode_def setAppearance_def setStatePatch_def setMirror_def
      Let_def tells_commit tells_live tells_same split: option.split screenMirrorMode.split
      intro: tells_trans [OF tells_same tells_set])

text \<open>The states that a page is sent when it has loaded, and those that a profile sets\<close>

lemma broadcast_all:
  "sent (broadcastAllScreensState ctx) = sent ctx @ map (\<lambda>k. ScreenMsg k (screenStates ctx k)) SCREEN_KEYS"
  "screenStates (broadcastAllScreensState ctx) = screenStates ctx" "liveState (broadcastAllScreensState ctx) = liveState ctx"
  "mirrors (broadcastAllScreensState ctx) = mirrors ctx"
  by (simp_all add: broadcastAllScreensState_def SCREEN_KEYS_def broadcast_def)

lemma broadcast_all_latest:
  "latestScreen k (map (\<lambda>k. ScreenMsg k (s k)) SCREEN_KEYS) = Some (s k)"
  "latestLive (map (\<lambda>k. ScreenMsg k (s k)) SCREEN_KEYS) = None"
  by (cases k) (simp_all add: SCREEN_KEYS_def)

lemma tells_broadcast_all: "tells ctx (broadcastAllScreensState ctx)"
  by (simp add: tells_def broadcast_all broadcast_all_latest orElse_def)

lemma tells_broadcast: "tells ctx (broadcast ctx k)"
  by (auto simp: tells_def broadcast_def orElse_def orOption_def)

lemma profile_tells:
  assumes "applyProfileToRuntime ensure now t p app = Inr app'"
  shows "tells (rt_ctx app) (rt_ctx app')" and "mirrors (rt_ctx app') = mirrors (applyProfileMirrors p (rt_ctx app))"
proof -
  obtain app1 where app1: "applyProfileFiles ensure t p app = Inr app1"
      "rt_ctx app' = broadcastAllScreensState (applyProfileMirrors p (rt_ctx (applyProfileScreens now t p app1)))"
    using assms by (auto simp: applyProfileToRuntime_def andThen_Inr_iff Let_def)
  have ctx: "rt_ctx app1 = rt_ctx app"
    using app1(1) by (auto simp: applyProfileFiles_def split: option.splits if_splits)
  have quiet: "sent (applyProfileMirrors p c) = sent c" "liveState (applyProfileMirrors p c) = liveState c" for c
    by (simp_all add: applyProfileMirrors_def split: option.split)
  have "sent (rt_ctx (applyProfileScreens now t p app1)) = sent (rt_ctx app)"
      "liveState (rt_ctx (applyProfileScreens now t p app1)) = liveState (rt_ctx app)"
      "mirrors (rt_ctx (applyProfileScreens now t p app1)) = mirrors (rt_ctx app)"
    by (simp_all add: applyProfileScreens_def applyScreens_def ctx Let_def split: option.split)
  then show "tells (rt_ctx app) (rt_ctx app')" "mirrors (rt_ctx app') = mirrors (applyProfileMirrors p (rt_ctx app))"
    by (simp_all add: tells_def app1(2) broadcast_all broadcast_all_latest quiet orElse_def applyProfileMirrors_def
        split: option.split cong: option.case_cong)
qed

section \<open>The server is what its status says\<close>

text \<open>What a client has been told is how it is.\<close>

definition upToDate :: "screenContext \<Rightarrow> wsClient \<Rightarrow> bool" where
  "upToDate ctx c \<longleftrightarrow> (\<forall>k s. latestScreen k (cl_inbox c) = Some s \<longrightarrow> screenStates ctx k = s)
     \<and> (\<forall>l. latestLive (cl_inbox c) = Some l \<longrightarrow> liveState ctx = l)"

definition syncOk :: "syncWorld \<Rightarrow> bool" where
  "syncOk w \<longleftrightarrow> (\<forall>k. serverIs Listening k w \<longleftrightarrow> sw_wss w = Some k)
     \<and> (\<forall>k j. serverIs Starting k w \<longrightarrow> sw_wss w = None \<and> (serverIs Starting j w \<longrightarrow> j = k))
     \<and> (\<forall>s \<in> set (sw_servers w). \<forall>c \<in> set (ws_clients s). cl_open c \<longrightarrow> ws_phase s = Listening \<and> upToDate (sw_ctx w) c)"

lemma upToDate_tells:
  assumes "tells ctx ctx'" and "upToDate ctx c"
  shows "upToDate ctx' (c\<lparr>cl_inbox := cl_inbox c @ drop (length (sent ctx)) (sent ctx')\<rparr>)"
proof -
  obtain new where "sent ctx' = sent ctx @ new" "\<And>k. screenStates ctx' k = orElse (latestScreen k new) (screenStates ctx k)"
      "liveState ctx' = orElse (latestLive new) (liveState ctx)"
    using assms(1) by (auto simp: tells_def)
  then show ?thesis
    using assms(2) by (auto simp: upToDate_def latest_append orElse_def orOption_def split: option.splits)
qed

lemma serverIs_onServer:
  "serverIs p j (onServer k f w) \<longleftrightarrow>
     (if j = k then k < length (sw_servers w) \<and> ws_phase (f (sw_servers w ! k)) = p else serverIs p j w)"
  by (auto simp: serverIs_def onServer_def nth_list_update)

lemma serverIs_simps [simp]:
  "serverIs p k (broadcastStatus nets w) = serverIs p k w" "serverIs p k (w\<lparr>sw_wss := x\<rparr>) = serverIs p k w"
  "serverIs p k (w\<lparr>sw_ctx := ctx\<rparr>) = serverIs p k w"
  by (simp_all add: serverIs_def broadcastStatus_def)

lemma onServer_simps [simp]:
  "sw_wss (onServer k f w) = sw_wss w" "sw_ctx (onServer k f w) = sw_ctx w"
  "sw_wss (broadcastStatus nets w) = sw_wss w" "sw_ctx (broadcastStatus nets w) = sw_ctx w"
  "sw_servers (broadcastStatus nets w) = sw_servers w"
  by (simp_all add: onServer_def broadcastStatus_def)

lemma onClients_phase [simp]: "ws_phase (onClients f s) = ws_phase s" "ws_clients (onClients f s) = map f (ws_clients s)"
  by (simp_all add: onClients_def)

lemma in_onServer:
  assumes "s \<in> set (sw_servers (onServer k f w))"
  shows "\<exists>j < length (sw_servers w). s = (if j = k then f (sw_servers w ! k) else sw_servers w ! j)"
proof -
  obtain j where "j < length ((sw_servers w)[k := f (sw_servers w ! k)])" "s = (sw_servers w)[k := f (sw_servers w ! k)] ! j"
    using assms by (auto simp: onServer_def in_set_conv_nth)
  then show ?thesis
    by (intro exI [of _ j]) (auto simp: nth_list_update)
qed

text \<open>The parts of the invariant\<close>

lemma syncOk_client:
  "syncOk w \<Longrightarrow> k < length (sw_servers w) \<Longrightarrow> c \<in> set (ws_clients (sw_servers w ! k)) \<Longrightarrow> cl_open c
     \<Longrightarrow> sw_wss w = Some k \<and> upToDate (sw_ctx w) c"
  by (auto simp: syncOk_def serverIs_def Ball_def in_set_conv_nth) blast+

lemma change_ok:
  assumes "syncOk w" and "tells (sw_ctx w) ctx"
  shows "syncOk (changeScreens ctx w)"
proof (cases "sw_wss w")
  case None
  then have "\<not> cl_open c" if "s \<in> set (sw_servers w)" "c \<in> set (ws_clients s)" for s c
    using assms(1) that syncOk_client [OF assms(1)] by (metis in_set_conv_nth option.distinct(1))
  then show ?thesis
    using assms(1) None by (auto simp: changeScreens_def broadcastToClients_def syncOk_def)
next
  case (Some k)
  let ?f = "onClients (\<lambda>c. if cl_open c then c\<lparr>cl_inbox := cl_inbox c @ drop (length (sent (sw_ctx w))) (sent ctx)\<rparr> else c)"
  have k: "serverIs Listening k w" "k < length (sw_servers w)" "ws_phase (sw_servers w ! k) = Listening"
    using assms(1) Some by (auto simp: syncOk_def serverIs_def)
  have "ws_phase s = Listening \<and> upToDate ctx c"
    if s: "s \<in> set (sw_servers (onServer k ?f (w\<lparr>sw_ctx := ctx\<rparr>)))" and c: "c \<in> set (ws_clients s)" "cl_open c" for s c
  proof -
    obtain j where j: "j < length (sw_servers w)" "s = (if j = k then ?f (sw_servers w ! k) else sw_servers w ! j)"
      using in_onServer [OF s] by auto
    show ?thesis
    proof (cases "j = k")
      case True
      obtain d where d: "d \<in> set (ws_clients (sw_servers w ! k))" "cl_open d"
          "c = d\<lparr>cl_inbox := cl_inbox d @ drop (length (sent (sw_ctx w))) (sent ctx)\<rparr>"
        using c j(2) True by (auto split: if_splits)
      then show ?thesis
        using syncOk_client [OF assms(1) j(1)] upToDate_tells [OF assms(2)] k j(2) True by (auto simp: serverIs_def)
    next
      case False
      then show ?thesis
        using syncOk_client [OF assms(1) j(1)] c j(2) Some by auto
    qed
  qed
  then show ?thesis
    using assms(1) k Some by (auto simp: changeScreens_def broadcastToClients_def syncOk_def serverIs_onServer)
qed

text \<open>A change of one server that gives it no new client that has been told something\<close>

lemma onServer_ok:
  assumes "syncOk w" and "k < length (sw_servers w)"
    and "\<forall>c \<in> set (ws_clients (f (sw_servers w ! k))). cl_open c \<longrightarrow>
           cl_inbox c = [] \<or> (\<exists>d \<in> set (ws_clients (sw_servers w ! k)). cl_open d \<and> cl_inbox d = cl_inbox c)"
    and "s \<in> set (sw_servers (onServer k f w))" and "c \<in> set (ws_clients s)" and "cl_open c"
  shows "upToDate (sw_ctx w) c \<and> (s = f (sw_servers w ! k) \<or> (\<exists>j. j \<noteq> k \<and> sw_wss w = Some j \<and> s = sw_servers w ! j))"
proof -
  obtain j where j: "j < length (sw_servers w)" "s = (if j = k then f (sw_servers w ! k) else sw_servers w ! j)"
    using in_onServer [OF assms(4)] by auto
  show ?thesis
  proof (cases "j = k")
    case True
    then have "cl_inbox c = [] \<or> (\<exists>d. upToDate (sw_ctx w) d \<and> cl_inbox d = cl_inbox c)"
      using assms(3,5,6) j syncOk_client [OF assms(1,2)] by auto
    then show ?thesis
      using j True by (auto simp: upToDate_def)
  next
    case False
    then show ?thesis
      using syncOk_client [OF assms(1) j(1)] assms(5,6) j by auto
  qed
qed

lemma step_syncOk:
  assumes "syncStep True nets readJson w w'" and "syncOk w"
  shows "syncOk w'"
  using assms
proof (induction rule: syncStep.induct)
  case (start w port e)
  have app: "serverIs p k (w\<lparr>sw_servers := sw_servers w @ [\<lparr>ws_port = q, ws_phase = Starting, ws_clients = []\<rparr>]\<rparr>)
      \<longleftrightarrow> serverIs p k w \<or> (k = length (sw_servers w) \<and> p = Starting)" for p k q
    by (auto simp: serverIs_def nth_append less_Suc_eq)
  have "sw_wss w \<noteq> Some (length (sw_servers w))"
    using start.prems by (auto simp: syncOk_def serverIs_def)
  then show ?case
    using start by (auto simp: syncStart_def startServer_def syncOk_def app split: option.split)
next
  case (listening k w)
  let ?f = "\<lambda>s. s\<lparr>ws_phase := Listening\<rparr>"
  have none: "sw_wss w = None" and k: "k < length (sw_servers w)"
    using listening by (auto simp: syncOk_def serverIs_def)
  have keep: "\<forall>c \<in> set (ws_clients (?f (sw_servers w ! k))). cl_open c \<longrightarrow>
      cl_inbox c = [] \<or> (\<exists>d \<in> set (ws_clients (sw_servers w ! k)). cl_open d \<and> cl_inbox d = cl_inbox c)"
    by auto
  have "ws_phase s = Listening \<and> upToDate (sw_ctx w) c"
    if "s \<in> set (sw_servers (onServer k ?f w))" "c \<in> set (ws_clients s)" "cl_open c" for s c
    using onServer_ok [OF listening.prems k keep that] none by auto
  then show ?case
    using listening none k by (auto simp: serverListening_def Let_def syncOk_def serverIs_onServer)
next
  case (failed k w e)
  let ?f = "\<lambda>s. s\<lparr>ws_phase := Ended\<rparr>"
  have none: "sw_wss w = None" and k: "k < length (sw_servers w)"
    using failed by (auto simp: syncOk_def serverIs_def)
  have "\<not> cl_open c" if "s \<in> set (sw_servers (onServer k ?f w))" "c \<in> set (ws_clients s)" for s c
    using in_onServer [OF that(1)] that(2) syncOk_client [OF failed.prems] none by (auto split: if_splits)
  then show ?case
    using failed none k by (auto simp: serverError_def syncOk_def serverIs_onServer)
next
  case (connected k w c)
  let ?f = "\<lambda>s. s\<lparr>ws_clients := ws_clients s @ [\<lparr>cl_id = c, cl_open = True, cl_inbox = []\<rparr>]\<rparr>"
  have k: "k < length (sw_servers w)" "ws_phase (sw_servers w ! k) = Listening" "sw_wss w = Some k"
    using connected by (auto simp: serverIs_def syncOk_def)
  have keep: "\<forall>d \<in> set (ws_clients (?f (sw_servers w ! k))). cl_open d \<longrightarrow>
      cl_inbox d = [] \<or> (\<exists>e \<in> set (ws_clients (sw_servers w ! k)). cl_open e \<and> cl_inbox e = cl_inbox d)"
    by auto
  have "ws_phase s = Listening \<and> upToDate (sw_ctx w) d"
    if "s \<in> set (sw_servers (onServer k ?f w))" "d \<in> set (ws_clients s)" "cl_open d" for s d
    using onServer_ok [OF connected.prems k(1) keep that] k by auto
  then show ?case
    using connected.prems k by (auto simp: clientConnected_def syncOk_def serverIs_onServer)
next
  case (closed k c w)
  have k: "k < length (sw_servers w)" "sw_wss w = Some k"
    using closed syncOk_client by (auto simp: clientOf_def)
  then have phase: "ws_phase (sw_servers w ! k) = Listening"
    using closed.prems by (auto simp: syncOk_def serverIs_def)
  have keep: "\<forall>d \<in> set (ws_clients (onClients (closeClient c) (sw_servers w ! k))). cl_open d \<longrightarrow>
      cl_inbox d = [] \<or> (\<exists>e \<in> set (ws_clients (sw_servers w ! k)). cl_open e \<and> cl_inbox e = cl_inbox d)"
    by (auto simp: closeClient_def)
  have "ws_phase s = Listening \<and> upToDate (sw_ctx w) d"
    if "s \<in> set (sw_servers (onServer k (onClients (closeClient c)) w))" "d \<in> set (ws_clients s)" "cl_open d" for s d
    using onServer_ok [OF closed.prems k(1) keep that] k phase by auto
  then show ?case
    using closed.prems k phase by (auto simp: clientClosed_def syncOk_def serverIs_onServer)
next
  case (message k c w now t raw)
  have "tells (sw_ctx w) (fst (onLiveCommand now t cmd arg (sw_ctx w)))" for cmd arg
    by (simp add: onLiveCommand_def live_defs tells_live tells_same)
  then show ?case
    using message by (auto simp: clientMessage_def change_ok split: option.split)
next
  case (stop w)
  show ?case
  proof (cases "sw_wss w")
    case (Some k)
    let ?f = "\<lambda>s. onClients (\<lambda>c. c\<lparr>cl_open := False\<rparr>) s\<lparr>ws_phase := Ended\<rparr>"
    have k: "serverIs Listening k w" "k < length (sw_servers w)"
      using stop Some by (auto simp: syncOk_def serverIs_def)
    have "\<not> cl_open c" if s: "s \<in> set (sw_servers (onServer k ?f w))" and c: "c \<in> set (ws_clients s)" for s c
    proof -
      obtain j where j: "j < length (sw_servers w)" "s = (if j = k then ?f (sw_servers w ! k) else sw_servers w ! j)"
        using in_onServer [OF s] by blast
      show ?thesis
      proof (cases "j = k")
        case False
        then show ?thesis
          using syncOk_client [OF stop j(1)] c j(2) Some by auto
      qed (use c j(2) in auto)
    qed
    then show ?thesis
      using stop Some k by (auto simp: stopServer_def syncOk_def serverIs_onServer)
  qed (use stop in \<open>simp add: stopServer_def\<close>)
next
  case (screens op w ctx)
  then show ?case
    by (simp add: change_ok screenStep_tells)
next
  case (profile ensure now t p app app' w)
  then show ?case
    using profile_tells(1) [OF profile.hyps(1)] by (simp add: change_ok)
qed (simp_all add: change_ok tells_broadcast_all tells_broadcast)

lemma steps_syncOk: "(syncStep True nets readJson)\<^sup>*\<^sup>* w w' \<Longrightarrow> syncOk w \<Longrightarrow> syncOk w'"
  by (induction rule: rtranclp_induct) (simp_all add: step_syncOk)

lemma initial_syncOk: "syncOk (initialSync ctx)"
  by (simp add: syncOk_def serverIs_def initialSync_def)

text \<open>
  C16: Whatever happens in the network and to the screens, which the windows, the remote controls and
  the activation of profiles change, as long as the server is not started while it is starting (what
  happens then is \<open>second_start_leaks_server\<close>): the status says that the server runs exactly when one listens, every client that
  is open is one that the status counts, and all that it has been told of the screens and of the
  live state is how they are now.
\<close>

theorem remote_clients_up_to_date:
  assumes "(syncStep True nets readJson)\<^sup>*\<^sup>* (initialSync ctx) w" and "st = getStatus nets w"
  shows "(ss_running st \<longleftrightarrow> (\<exists>k. serverIs Listening k w))
     \<and> (\<forall>s \<in> set (sw_servers w). \<forall>c \<in> set (filter cl_open (ws_clients s)). upToDate (sw_ctx w) c)
     \<and> ss_clients st = sum_list (map (\<lambda>s. length (filter cl_open (ws_clients s))) (sw_servers w))"
proof -
  have ok: "syncOk w"
    using steps_syncOk [OF assms(1) initial_syncOk] .
  have count: "length (filter cl_open (ws_clients (sw_servers w ! j))) = (if sw_wss w = Some j then ss_clients st else 0)"
    if "j < length (sw_servers w)" for j
    using syncOk_client [OF ok that] assms(2) by (auto simp: getStatus_def filter_empty_conv)
  have "sum_list (map (\<lambda>s. length (filter cl_open (ws_clients s))) (sw_servers w))
      = (\<Sum>j < length (sw_servers w). if sw_wss w = Some j then ss_clients st else 0)"
    using count by (simp add: sum_list_sum_nth atLeast0LessThan)
  also have "\<dots> = ss_clients st"
  proof (cases "sw_wss w")
    case None
    then show ?thesis by (simp add: assms(2) getStatus_def)
  next
    case (Some k)
    then have "k < length (sw_servers w)"
      using ok by (auto simp: syncOk_def serverIs_def)
    then show ?thesis by (simp add: Some)
  qed
  finally show ?thesis
    using ok assms(2) by (auto simp: syncOk_def getStatus_def split: option.split)
qed

text \<open>A session: the server starts, a remote connects and goes to the next item\<close>

definition demoMessage :: "string \<Rightarrow> jsval option" where
  "demoMessage raw = (if raw = ''next'' then Some (JObj [(''type'', JStr ''live:next'')]) else None)"

definition demoSync :: syncWorld where
  "demoSync = snd (serverListening [] 0 (snd (syncStart [] (JNum (IntNum 8080)) None (initialSync (initialContext (\<lambda>_. 0) 0)))))"

definition demoSession :: syncWorld where
  "demoSession = clientMessage demoMessage (\<lambda>_. 1) 1 ''next'' (clientConnected [] 0 7 demoSync)"

lemma demoSync_eq: "demoSync = \<lparr>sw_ctx = initialContext (\<lambda>_. 0) 0,
    sw_servers = [\<lparr>ws_port = IntNum 8080, ws_phase = Listening, ws_clients = []\<rparr>], sw_wss = Some 0,
    sw_told = [\<lparr>ss_running = True, ss_port = IntNum 8080, ss_clients = 0, ss_addresses = []\<rparr>]\<rparr>"
  by (simp add: demoSync_def syncStart_def portOf_def startServer_def initialSync_def serverListening_def onServer_def
      broadcastStatus_def getStatus_def getLocalAddresses_def)

lemma demo_steps: "(syncStep True [] demoMessage)\<^sup>*\<^sup>* (initialSync (initialContext (\<lambda>_. 0) 0)) demoSession"
proof -
  let ?w0 = "initialSync (initialContext (\<lambda>_. 0) 0)"
  let ?w1 = "snd (syncStart [] (JNum (IntNum 8080)) None ?w0)"
  have "syncStep True [] demoMessage ?w0 ?w1"
    by (rule syncStep.start) (simp add: serverIs_def initialSync_def)
  moreover have "syncStep True [] demoMessage ?w1 demoSync"
    unfolding demoSync_def
    by (rule syncStep.listening)
      (simp add: serverIs_def initialSync_def syncStart_def startServer_def portOf_def)
  moreover have "syncStep True [] demoMessage demoSync (clientConnected [] 0 7 demoSync)"
    by (rule syncStep.connected) (simp add: serverIs_def demoSync_eq)
  moreover have "syncStep True [] demoMessage (clientConnected [] 0 7 demoSync) demoSession"
    unfolding demoSession_def
    by (rule syncStep.message [where k = 0 and c = 7])
      (simp add: clientOf_def clientConnected_def onServer_def demoSync_eq)
  ultimately show ?thesis
    by (meson rtranclp.rtrancl_into_rtrancl rtranclp.rtrancl_refl)
qed

theorem remote_clients_up_to_date_witness:
  "\<exists>c. set (concat (map ws_clients (sw_servers demoSession))) = {c} \<and> cl_open c \<and> upToDate (sw_ctx demoSession) c
     \<and> latestLive (cl_inbox c) = Some (liveState (sw_ctx demoSession)) \<and> lv_cursor (liveState (sw_ctx demoSession)) = IntNum 1"
proof -
  let ?ctx = "initialContext (\<lambda>_. 0) 0"
  let ?ctx' = "fst (liveNext (\<lambda>_. 1) 1 ?ctx)"
  let ?c = "\<lparr>cl_id = 7, cl_open = True, cl_inbox = drop (length (sent ?ctx)) (sent ?ctx')\<rparr>"
  have d: "sw_servers demoSession = [\<lparr>ws_port = IntNum 8080, ws_phase = Listening, ws_clients = [?c]\<rparr>]"
      "sw_ctx demoSession = ?ctx'"
    by (simp_all add: demoSession_def clientMessage_def messageCommand_def demoMessage_def clientConnected_def
        demoSync_eq onServer_def changeScreens_def broadcastToClients_def onClients_def onLiveCommand_def broadcastStatus_def)
  then have u: "upToDate ?ctx' ?c"
    using remote_clients_up_to_date [OF demo_steps refl] by simp
  have "\<exists>ms. sent ?ctx' = ms @ [LiveMsg (liveState ?ctx')]"
    by (simp add: liveNext_def mergeLive_def broadcastLive_def Let_def)
  moreover have "sent ?ctx = []"
    by (simp add: initialContext_def)
  ultimately have "latestLive (cl_inbox ?c) = Some (liveState ?ctx')"
    by (auto simp: latest_append orOption_def)
  moreover have "lv_cursor (liveState ?ctx') = IntNum 1"
    by (simp add: liveNext_def initialContext_def createDefaultLiveState_def nextLive_def emptyLivePatch_def orElse_def Let_def)
  ultimately show ?thesis
    using d u by (intro exI [of _ ?c]) simp
qed

section \<open>Two starts\<close>

text \<open>
  A second start while the first is under way makes a second server; stopping ends only the last one,
  and the clients of the other still command the screens while the status says that nothing runs.
\<close>

definition twoStarts :: syncWorld where
  "twoStarts = (let start = (\<lambda>p w. snd (syncStart [] (JNum (IntNum p)) None w));
       w = start 8081 (start 8080 (initialSync (initialContext (\<lambda>_. 0) 0)));
       w = snd (serverListening [] 1 (snd (serverListening [] 0 w)))
     in snd (stopServer [] (clientConnected [] 0 7 w)))"

lemma second_start_leaks_server:
  "\<not> ss_running (getStatus [] twoStarts) \<and> serverIs Listening 0 twoStarts \<and> clientOf 0 7 twoStarts"
  by (simp add: twoStarts_def Let_def syncStart_def portOf_def startServer_def initialSync_def serverListening_def
      onServer_def broadcastStatus_def clientConnected_def stopServer_def getStatus_def serverIs_def clientOf_def onClients_def)

text \<open>When the second server fails, for instance because the port is taken, its start is never answered.\<close>

lemma second_start_never_answered: "sw_wss w = Some k \<Longrightarrow> fst (serverError j e w) = None"
  by (simp add: serverError_def)

text \<open>A client that connects knows nothing of the screens until they change.\<close>

lemma new_client_knows_nothing:
  "k < length (sw_servers w) \<Longrightarrow> sw_servers (clientConnected nets k c w) ! k
     = (sw_servers w ! k)\<lparr>ws_clients := ws_clients (sw_servers w ! k) @ [\<lparr>cl_id = c, cl_open = True, cl_inbox = []\<rparr>]\<rparr>"
  by (simp add: clientConnected_def onServer_def)

end
