(* ===== verification/PlanPanels.thy ===== *)
theory PlanPanels
  imports PlanAdding EditItem LiveControl Reorder
begin

text \<open>
  The panels of the control window around a plan: the list of its items with selection, clipboard and
  search (\<open>plan/PlanEditor.tsx\<close>), the cards of the list (\<open>plan/PlanItemCard.tsx\<close>), the toolbar with
  title, background, export and import (\<open>plan/PlanToolbar.tsx\<close>), the inspector of an item
  (\<open>inspector/PlanItemInspector.tsx\<close>), the list of the plans (\<open>plan/Dashboard.tsx\<close>) and the dialog
  that creates one (\<open>dialogs/CreatePlanDialog.tsx\<close>). They call the plan context; a message is a
  value of \<open>panelMessage\<close>.
\<close>

section \<open>The list of the items\<close>

datatype panelMessage =
    PlanToast toast | BackgroundUpdated | BackgroundFailed | PlanExported string | PlanImported nat | ImportFailed string
  | PlanDeleted | ElementProjected | ElementDuplicated | ElementDeleted | PlanCreated

definition planToasts :: "toast option \<Rightarrow> panelMessage list" where
  "planToasts t = (case t of None \<Rightarrow> [] | Some x \<Rightarrow> [PlanToast x])"

record planEditor =
  pd_addDialogOpen :: bool
  pd_editSongId :: "string option"
  pd_songEditorOpen :: bool
  pd_editItem :: "itemRow option"
  pd_editItemOpen :: bool
  pd_selectedItemIds :: "string list"
  pd_searchQuery :: string
  pd_clipboard :: "itemRow option"

definition initialEditor :: planEditor where
  "initialEditor = \<lparr>pd_addDialogOpen = False, pd_editSongId = None, pd_songEditorOpen = False, pd_editItem = None,
     pd_editItemOpen = False, pd_selectedItemIds = [], pd_searchQuery = [], pd_clipboard = None\<rparr>"

definition handleCopyItem :: "itemRow \<Rightarrow> planEditor \<Rightarrow> planEditor" where
  "handleCopyItem item ed = ed\<lparr>pd_clipboard := Some item\<rparr>"

text \<open>What \<open>addItem\<close> gets; the context adds the plan.\<close>

definition pastePayload :: "itemRow \<Rightarrow> (string \<times> jsval) list" where
  "pastePayload item =
     [(''kind'', JStr (it_kind item)), (''title'', undefOr (it_title item)), (''content'', undefOr (it_content item)),
      (''notes'', undefOr (it_notes item)), (''refId'', undefOr (it_refId item)),
      (''refSubId'', undefOr (it_refSubId item)), (''mediaPath'', undefOr (it_mediaPath item)),
      (''secondaryContent'', undefOr (it_secondaryContent item)),
      (''backgroundConfig'', undefOr (it_backgroundConfig item))]"

definition handlePaste :: "'db planDb \<Rightarrow> planEditor \<Rightarrow> 'db planWorld \<Rightarrow> panelMessage list \<times> 'db planWorld" where
  "handlePaste D ed w =
     (case pd_clipboard ed of
        None \<Rightarrow> ([], w)
      | Some item \<Rightarrow> (let ((_, t), w) = addItem D (pastePayload item) w in (planToasts t, w)))"

text \<open>\<open>typing\<close>: the key goes to a field of text.\<close>

definition pasteKey ::
  "'db planDb \<Rightarrow> bool \<Rightarrow> string \<Rightarrow> bool \<Rightarrow> planEditor \<Rightarrow> 'db planWorld \<Rightarrow> panelMessage list \<times> 'db planWorld" where
  "pasteKey D ctrlOrMeta key typing ed w =
     (if ctrlOrMeta \<and> key = ''v'' \<and> pd_clipboard ed \<noteq> None \<and> \<not> typing then handlePaste D ed w else ([], w))"

definition toggleItemSelection :: "string \<Rightarrow> planEditor \<Rightarrow> planEditor" where
  "toggleItemSelection i ed = ed\<lparr>pd_selectedItemIds :=
     (if i \<in> set (pd_selectedItemIds ed) then filter (\<lambda>j. j \<noteq> i) (pd_selectedItemIds ed) else pd_selectedItemIds ed @ [i])\<rparr>"

definition handleBatchDelete ::
  "'db planDb \<Rightarrow> planEditor \<Rightarrow> 'db planWorld \<Rightarrow> panelMessage list \<times> planEditor \<times> 'db planWorld" where
  "handleBatchDelete D ed w =
     (let (t, w) = removeItems D (pd_selectedItemIds ed) w in (planToasts t, ed\<lparr>pd_selectedItemIds := []\<rparr>, w))"

definition planItemOf :: "itemRow \<Rightarrow> planItem" where
  "planItemOf r = \<lparr>pi_id = it_id r, pi_order = it_order r, pi_kind = normalizeCpPlanItemKind (Some (it_kind r)),
     pi_title = it_title r, pi_content = it_content r, pi_refId = it_refId r, pi_refSubId = it_refSubId r,
     pi_songId = it_songId r, pi_mediaPath = it_mediaPath r, pi_secondaryContent = it_secondaryContent r,
     pi_backgroundConfig = it_backgroundConfig r\<rparr>"

definition handleDragEnd ::
  "'db planDb \<Rightarrow> string \<Rightarrow> string option \<Rightarrow> 'db planWorld \<Rightarrow> panelMessage list \<times> 'db planWorld" where
  "handleDragEnd D activeId over w =
     (case (over, vw_plan (snd w)) of
        (Some overId, Some (_, its)) \<Rightarrow>
          if activeId = overId then ([], w)
          else (case reorderPlanItems (map planItemOf its) (map planItemOf its) False activeId overId of
                  None \<Rightarrow> ([], w)
                | Some (ids, _) \<Rightarrow> (let (t, w) = reorder D (List.map_filter (\<lambda>i. i) ids) w in (planToasts t, w)))
      | _ \<Rightarrow> ([], w))"

text \<open>\<open>inspects\<close>: the window has an inspector, the identifier goes to it.\<close>

definition handleEdit :: "bool \<Rightarrow> itemRow \<Rightarrow> planEditor \<Rightarrow> string option \<times> planEditor" where
  "handleEdit inspects item ed =
     (if inspects then (Some (it_id item), ed)
      else if it_kind item = ''SONG_BLOCK'' \<and> notEmpty (it_refId item)
      then (None, ed\<lparr>pd_editSongId := it_refId item, pd_songEditorOpen := True\<rparr>)
      else if it_kind item \<in> {''TIMER'', ''ANNOUNCEMENT_TEXT'', ''VERSE_MANUAL''}
      then (None, ed\<lparr>pd_editItem := Some item, pd_editItemOpen := True\<rparr>)
      else (None, ed))"

definition handleEditBackground :: "bool \<Rightarrow> itemRow \<Rightarrow> planEditor \<Rightarrow> string option \<times> planEditor" where
  "handleEditBackground inspects item ed =
     (if inspects then (Some (it_id item), ed) else (None, ed\<lparr>pd_editItem := Some item, pd_editItemOpen := True\<rparr>))"

text \<open>\<open>picked\<close> is the file that the user picks, \<open>None\<close> when there is none.\<close>

definition handleSelectKind ::
  "'db planDb \<Rightarrow> string option \<Rightarrow> cpPlanItemKind \<Rightarrow> planEditor \<Rightarrow> 'db planWorld
     \<Rightarrow> panelMessage list \<times> planEditor \<times> 'db planWorld" where
  "handleSelectKind D picked kind ed w =
     (if kind = SONG_BLOCK then ([], ed\<lparr>pd_editSongId := None, pd_songEditorOpen := True\<rparr>, w)
      else if isMediaPlanItemKind (kindName kind)
      then (case picked of
              None \<Rightarrow> ([], ed, w)
            | Some path \<Rightarrow>
                (let ((_, t), w) = addItem D [(''kind'', JStr (kindName kind)), (''title'', JStr (fileNameOf path)),
                       (''mediaPath'', JStr path)] w
                 in (planToasts t, ed, w)))
      else let ((_, t), w) = addItem D [(''kind'', JStr (kindName kind))] w in (planToasts t, ed, w))"

definition filteredItems :: "string \<Rightarrow> itemRow list \<Rightarrow> itemRow list" where
  "filteredItems query its =
     (let q = toLowerCase (trim query)
      in if q = [] then its
         else filter (\<lambda>r. contains (toLowerCase (orElse (it_title r) [])) q \<or> contains (toLowerCase (orElse (it_content r) [])) q) its)"

definition currentCursor :: "cpLiveState option \<Rightarrow> string \<Rightarrow> jsnum" where
  "currentCursor live planId =
     (case live of Some l \<Rightarrow> if lv_enabled l \<and> lv_planId l = Some planId then lv_cursor l else IntNum (- 1)
      | None \<Rightarrow> IntNum (- 1))"

definition liveItem :: "cpLiveState option \<Rightarrow> string \<Rightarrow> itemRow list \<Rightarrow> itemRow option" where
  "liveItem live planId its =
     (let c = currentCursor live planId in if num_less c (IntNum 0) then None else itemAt its c)"

section \<open>The cards\<close>

definition firstLine :: "string option \<Rightarrow> string option" where
  "firstLine s =
     (case s of
        None \<Rightarrow> None
      | Some t \<Rightarrow> (let line = take 80 (trim (takeWhile (\<lambda>c. c \<noteq> CHR 0x0A) t)) in if line = [] then None else Some line))"

definition getItemSubtitle :: "itemRow \<Rightarrow> string option" where
  "getItemSubtitle item =
     (if it_kind item \<in> {''SONG_BLOCK'', ''BIBLE_VERSE'', ''BIBLE_PASSAGE'', ''VERSE_MANUAL'', ''ANNOUNCEMENT_TEXT'', ''TIMER''}
      then firstLine (it_content item)
      else if it_kind item \<in> {''ANNOUNCEMENT_IMAGE'', ''ANNOUNCEMENT_PDF''} \<and> notEmpty (it_mediaPath item)
      then (let filename = fileNameOf (the (it_mediaPath item))
            in if filename \<noteq> [] \<and> Some filename \<noteq> map_option trim (it_title item) then Some filename else None)
      else None)"

definition displayTitle :: "itemRow \<Rightarrow> string" where
  "displayTitle item =
     (let t = trim (orElse (it_title item) []) in if t = [] then getPlanKindDefaultTitle (it_kind item) else t)"

text \<open>\<open>readBackground\<close> is \<open>parsePlanBackground\<close> as a value for the projection.\<close>

definition cardClick :: "projectionEnv \<Rightarrow> itemRow \<Rightarrow> planRow option \<Rightarrow> controlState \<Rightarrow> controlState" where
  "cardClick E item plan st =
     (case co_live st of
        None \<Rightarrow> st
      | Some l \<Rightarrow> project E l item (parsePlanBackground (pe_readJson E) (Option.bind plan pl_backgroundConfig)) st)"

definition cardRemove :: "'db planDb \<Rightarrow> itemRow \<Rightarrow> 'db planWorld \<Rightarrow> panelMessage list \<times> 'db planWorld" where
  "cardRemove D item w = (let (t, w) = removeItem D (it_id item) w in (planToasts t, w))"

section \<open>The toolbar\<close>

definition planTitle :: "(string \<Rightarrow> int option) \<Rightarrow> planRow option \<Rightarrow> string" where
  "planTitle parseDate plan =
     (case plan of
        None \<Rightarrow> ''Plan''
      | Some p \<Rightarrow> (case pl_title p of Some t \<Rightarrow> t | None \<Rightarrow> isoToYmd parseDate (IsoDate (Some (pl_date p)))))"

text \<open>The fields of the background dialog are those of \<open>editState\<close>; a background that cannot be read leaves them.\<close>

definition openBgDialog :: "(string option \<Rightarrow> cpItemBackground option) \<Rightarrow> planRow option \<Rightarrow> editState \<Rightarrow> editState" where
  "openBgDialog readBg plan ed =
     (let config = Option.bind plan pl_backgroundConfig
      in if notEmpty config
         then (case readBg config of None \<Rightarrow> ed | Some bg \<Rightarrow> showBackground (Some bg) ed)
         else showBackground None ed)"

definition handleSavePlanBg ::
  "'db planDb \<Rightarrow> (cpItemBackground \<Rightarrow> string) \<Rightarrow> editState \<Rightarrow> 'db planWorld \<Rightarrow> panelMessage list \<times> 'db planWorld" where
  "handleSavePlanBg D writeBg ed w =
     (case chosen (snd w) of
        None \<Rightarrow> ([], w)
      | Some i \<Rightarrow>
          (case plansUpdate D (JObj [(''planId'', JStr i), (''backgroundConfig'', nullOr (editedBackground writeBg ed))]) (fst w) of
             (Inl _, db) \<Rightarrow> ([BackgroundFailed], (db, snd w))
           | (Inr _, db) \<Rightarrow> ([BackgroundUpdated], refreshPlan D (db, snd w))))"

definition commitTitle ::
  "'db planDb \<Rightarrow> (string \<Rightarrow> int option) \<Rightarrow> string \<Rightarrow> 'db planWorld \<Rightarrow> panelMessage list \<times> 'db planWorld" where
  "commitTitle D parseDate titleValue w =
     (let t = trim titleValue
      in if t \<noteq> [] \<and> t \<noteq> planTitle parseDate (map_option fst (vw_plan (snd w)))
         then (let (m, w) = ctxUpdatePlan D t w in (planToasts m, w)) else ([], w))"

text \<open>\<open>file\<close> is the answer of the dialog of the main process; an error of a handler is not caught.\<close>

definition handleExport :: "'db planDb \<Rightarrow> string option \<Rightarrow> 'db planWorld \<Rightarrow> panelMessage list \<times> 'db planWorld" where
  "handleExport D file w =
     (case chosen (snd w) of
        None \<Rightarrow> ([], w)
      | Some i \<Rightarrow>
          (case plansExport D file (JObj [(''planId'', JStr i)]) (fst w) of
             (Inr (Some (path, _)), db) \<Rightarrow> ([PlanExported path], (db, snd w))
           | (_, db) \<Rightarrow> ([], (db, snd w))))"

definition handleImport :: "'db planDb \<Rightarrow> string option \<Rightarrow> 'db planWorld \<Rightarrow> panelMessage list \<times> 'db planWorld" where
  "handleImport D file w =
     (case chosen (snd w) of
        None \<Rightarrow> ([], w)
      | Some i \<Rightarrow>
          (case plansImportFromFile D file (JStr i) (fst w) of
             (Inr (ImportAdded n), db) \<Rightarrow> ([PlanImported n], (db, snd w))
           | (Inr ImportEmptyFile, db) \<Rightarrow> ([ImportFailed ''Fichier vide''], (db, snd w))
           | (_, db) \<Rightarrow> ([], (db, snd w))))"

definition handleDelete :: "'db planDb \<Rightarrow> int \<Rightarrow> 'db planWorld \<Rightarrow> panelMessage list \<times> 'db planWorld" where
  "handleDelete D now w =
     (case chosen (snd w) of
        None \<Rightarrow> ([], w)
      | Some i \<Rightarrow> (let (t, w) = ctxDeletePlan D now i w in (planToasts t @ [PlanDeleted], w)))"

section \<open>The inspector of an item\<close>

definition inspectedItem :: "string \<Rightarrow> planView \<Rightarrow> itemRow option" where
  "inspectedItem itemId v = find (\<lambda>r. it_id r = itemId) (shownItems v)"

definition inspectorDuplicate :: "'db planDb \<Rightarrow> string \<Rightarrow> 'db planWorld \<Rightarrow> panelMessage list \<times> 'db planWorld" where
  "inspectorDuplicate D itemId w =
     (case inspectedItem itemId (snd w) of
        None \<Rightarrow> ([], w)
      | Some item \<Rightarrow> (let (t, w) = duplicateItem D (it_id item) w in (planToasts t @ [ElementDuplicated], w)))"

definition inspectorDelete :: "'db planDb \<Rightarrow> string \<Rightarrow> 'db planWorld \<Rightarrow> panelMessage list \<times> 'db planWorld" where
  "inspectorDelete D itemId w =
     (case inspectedItem itemId (snd w) of
        None \<Rightarrow> ([], w)
      | Some item \<Rightarrow> (let (t, w) = removeItem D (it_id item) w in (planToasts t @ [ElementDeleted], w)))"

definition inspectorProject ::
  "projectionEnv \<Rightarrow> string \<Rightarrow> planView \<Rightarrow> controlState \<Rightarrow> panelMessage list \<times> controlState" where
  "inspectorProject E itemId v st =
     (case (inspectedItem itemId v, co_live st) of
        (Some item, Some _) \<Rightarrow> ([ElementProjected], cardClick E item (map_option fst (vw_plan v)) st)
      | _ \<Rightarrow> ([], st))"

text \<open>The file of an item of media, with its folder in the library\<close>

definition mediaFileFromPlanItem :: "itemRow \<Rightarrow> (string \<times> string \<times> string \<times> string) option" where
  "mediaFileFromPlanItem item =
     (if \<not> notEmpty (it_mediaPath item) then None
      else let path = the (it_mediaPath item); name = orElse (it_title item) (fileNameOf path)
           in if it_kind item = ''ANNOUNCEMENT_IMAGE'' then Some (path, name, ''IMAGE'', ''images'')
              else if it_kind item = ''ANNOUNCEMENT_PDF'' then Some (path, name, ''PDF'', ''documents'')
              else if it_kind item = ''ANNOUNCEMENT_VIDEO'' then Some (path, name, ''VIDEO'', ''videos'') else None)"

section \<open>The list of the plans\<close>

text \<open>The plans from today on, six at most, and the older ones that fill the list up; \<open>today\<close> is a day\<close>

definition ymdLess :: "string \<Rightarrow> string \<Rightarrow> bool" where
  "ymdLess a b = lexordp (\<lambda>c d. (of_char c :: nat) < of_char d) a b"

definition planYmd :: "(string \<Rightarrow> int option) \<Rightarrow> string \<times> int \<times> string option \<Rightarrow> string" where
  "planYmd parseDate p = isoToYmd parseDate (IsoDate (Some (fst (snd p))))"

definition upcomingPlans ::
  "(string \<Rightarrow> int option) \<Rightarrow> string \<Rightarrow> (string \<times> int \<times> string option) list \<Rightarrow> (string \<times> int \<times> string option) list" where
  "upcomingPlans parseDate today plans = take 6 (filter (\<lambda>p. \<not> ymdLess (planYmd parseDate p) today) plans)"

definition displayPlans ::
  "(string \<Rightarrow> int option) \<Rightarrow> string \<Rightarrow> (string \<times> int \<times> string option) list \<Rightarrow> (string \<times> int \<times> string option) list" where
  "displayPlans parseDate today plans =
     (let upcoming = upcomingPlans parseDate today plans
      in upcoming @ take (6 - length upcoming) (filter (\<lambda>p. ymdLess (planYmd parseDate p) today) plans))"

definition todayPlan ::
  "(string \<Rightarrow> int option) \<Rightarrow> string \<Rightarrow> (string \<times> int \<times> string option) list \<Rightarrow> (string \<times> int \<times> string option) option" where
  "todayPlan parseDate today plans = find (\<lambda>p. planYmd parseDate p = today) plans"

definition nextPlan ::
  "(string \<Rightarrow> int option) \<Rightarrow> string \<Rightarrow> (string \<times> int \<times> string option) list \<Rightarrow> (string \<times> int \<times> string option) option" where
  "nextPlan parseDate today plans = find (\<lambda>p. planYmd parseDate p \<noteq> today) (upcomingPlans parseDate today plans)"

text \<open>The badge of a day; both days are read as midnight in universal time.\<close>

definition dayNumber :: "string \<Rightarrow> int option" where
  "dayNumber ymd = map_option (\<lambda>(y, m, d). MakeDay y (m - 1) d) (matchYmd ymd)"

definition relativeBadge :: "string \<Rightarrow> string \<Rightarrow> string option" where
  "relativeBadge today ymd =
     (if ymd = today then Some ''Aujourd'hui''
      else case (dayNumber ymd, dayNumber today) of
             (Some a, Some b) \<Rightarrow>
               (if a - b = 1 then Some ''Demain'' else if a - b = - 1 then Some ''Hier''
                else if a - b > 1 \<and> a - b \<le> 7 then Some (''Dans '' @ show_int (a - b) @ ''j'') else None)
           | _ \<Rightarrow> None)"

definition dateAlreadyExists ::
  "(string \<Rightarrow> int option) \<Rightarrow> string \<Rightarrow> (string \<times> int \<times> string option) list \<Rightarrow> bool" where
  "dateAlreadyExists parseDate dateValue plans = list_ex (\<lambda>p. planYmd parseDate p = dateValue) plans"

definition handleCreate ::
  "'db planDb \<Rightarrow> (string \<Rightarrow> int option) \<Rightarrow> string \<Rightarrow> string \<Rightarrow> 'db planWorld \<Rightarrow> panelMessage list \<times> 'db planWorld" where
  "handleCreate D parseDate dateValue titleValue w =
     (if dateValue = [] then ([], w)
      else let (t, w) = ctxCreatePlan D parseDate
                 (JObj [(''dateIso'', JStr dateValue), (''title'', trimmedOrUndef titleValue)]) w
           in ((case t of None \<Rightarrow> [PlanCreated] | Some m \<Rightarrow> [PlanToast m]), w))"

definition handleCreateToday ::
  "'db planDb \<Rightarrow> (string \<Rightarrow> int option) \<Rightarrow> string \<Rightarrow> 'db planWorld \<Rightarrow> panelMessage list \<times> 'db planWorld" where
  "handleCreateToday D parseDate today w =
     (let (t, w) = ctxCreatePlan D parseDate (JObj [(''dateIso'', JStr today)]) w in (planToasts t, w))"

section \<open>Copying an item\<close>

text \<open>What \<open>plans:addItem\<close> stores: a known kind, references that are trimmed, the song of a song block\<close>

definition storedItem :: "itemRow \<Rightarrow> bool" where
  "storedItem r \<longleftrightarrow> (\<exists>k. it_kind r = kindName k)
     \<and> (\<forall>x \<in> {it_refId r, it_refSubId r, it_mediaPath r}. \<forall>s. x = Some s \<longrightarrow> trim s = s \<and> s \<noteq> [])
     \<and> it_songId r = (if it_kind r = ''SONG_BLOCK'' then it_refId r else None)"

lemma stored_field: "(\<forall>s. x = Some s \<longrightarrow> trim s = s \<and> s \<noteq> []) \<Longrightarrow> Option.bind x (\<lambda>s. trimmedOr (Val s)) = x"
  by (cases x) (simp_all add: trimmedOr_trimmed)

lemma kindName_song: "kindName k = ''SONG_BLOCK'' \<longleftrightarrow> k = SONG_BLOCK"
  by (cases k) simp_all

lemma paste_parsed:
  assumes "cleanId i" and "storedItem item"
  shows "\<exists>p. parsePlanAddItemPayload (JObj ((''planId'', JStr i) # pastePayload item)) = Inr p \<and> ai_planId p = i
     \<and> songOf p = it_songId item
     \<and> (\<forall>n k. (newItemRow p n)\<lparr>it_id := k\<rparr> = item\<lparr>it_id := k, it_planId := i, it_order := n\<rparr>)"
proof -
  obtain kind where kind: "it_kind item = kindName kind"
    using assms(2) by (auto simp: storedItem_def)
  have bound: "Option.bind (it_refId item) (\<lambda>s. trimmedOr (Val s)) = it_refId item"
      "Option.bind (it_refSubId item) (\<lambda>s. trimmedOr (Val s)) = it_refSubId item"
      "Option.bind (it_mediaPath item) (\<lambda>s. trimmedOr (Val s)) = it_mediaPath item"
    using assms(2) by (auto simp: storedItem_def intro!: stored_field)
  have "it_songId item = (if kind = SONG_BLOCK then it_refId item else None)"
    using assms(2) by (simp add: storedItem_def kind kindName_song)
  then show ?thesis
    using assms(1)
    by (simp add: parsePlanAddItemPayload_def pastePayload_def kind payload_fields bound songOf_def newItemRow_def)
qed

text \<open>
  Pasting an item that was copied, into the same plan or another one, appends an item with the same
  kind, texts, notes, references, media and background to the selected plan and changes nothing
  else of it, and the window shows it. It takes an item as the main process stores it and, for a
  block of a song, a song that is still there.
\<close>

theorem pasted_item_is_copy:
  assumes "clean_plan_store D plans items songs ok" and "ok (fst w)" and "followsDb D plans w"
    and "chosen (snd w) = Some i" and "storedItem item"
    and "case it_songId item of None \<Rightarrow> True | Some s \<Rightarrow> s \<in> songs (fst w)"
    and "handlePaste D (handleCopyItem item ed) w = (ms, w')"
  shows "ms = [] \<and> followsDb D plans w' \<and> (\<exists>k n. findItems D (fst w') (\<lambda>r. it_planId r = i)
     = findItems D (fst w) (\<lambda>r. it_planId r = i) @ [item\<lparr>it_id := k, it_planId := i, it_order := n\<rparr>])"
proof -
  have i: "cleanId i"
    using assms(3,4) by (auto simp: followsDb_def)
  obtain p where p: "parsePlanAddItemPayload (JObj ((''planId'', JStr i) # pastePayload item)) = Inr p" "ai_planId p = i"
      "songOf p = it_songId item" "\<And>n k. (newItemRow p n)\<lparr>it_id := k\<rparr> = item\<lparr>it_id := k, it_planId := i, it_order := n\<rparr>"
    using paste_parsed [OF i assms(5)] by blast
  have song: "case songOf p of None \<Rightarrow> True | Some s \<Rightarrow> s \<in> songs (fst w)"
    using assms(6) p(3) by simp
  have follows: "ok (fst w) \<and> followsDb D plans w"
    using assms(2,3) by simp
  obtain k n w1 where a: "addItem D (pastePayload item) w = ((Some ((newItemRow p n)\<lparr>it_id := k\<rparr>), None), w1)"
      "followsDb D plans w1" "findItems D (fst w1) (\<lambda>r. it_planId r = i)
         = findItems D (fst w) (\<lambda>r. it_planId r = i) @ [(newItemRow p n)\<lparr>it_id := k\<rparr>]"
    using clean_plan_store.item_added [OF assms(1) follows assms(4) p(1,2) song] by blast
  then have "ms = []" and "w' = w1"
    using assms(7) by (simp_all add: handlePaste_def handleCopyItem_def planToasts_def)
  then show ?thesis
    using a(2,3) p(4) by auto
qed

theorem pasted_item_is_copy_witness:
  "\<exists>w'. handlePaste tablesDb (handleCopyItem (sampleRow ''1'' ''0'' 1) initialEditor)
        (setSelectedPlanId tablesDb (Some ''0'') (sampleTables, emptyView)) = ([], w')
     \<and> length (findItems tablesDb (fst w') (\<lambda>r. it_planId r = ''0'')) = 3"
proof -
  let ?w = "setSelectedPlanId tablesDb (Some ''0'') (sampleTables, emptyView)"
  note f = sample_selected [OF refl]
  have "\<exists>k. ''TIMER'' = kindName k"
    by (rule exI [of _ TIMER]) simp
  then have "storedItem (sampleRow ''1'' ''0'' 1)" and song: "it_songId (sampleRow ''1'' ''0'' 1) = None"
    by (simp_all add: storedItem_def sampleRow_def)
  moreover obtain ms w' where h: "handlePaste tablesDb (handleCopyItem (sampleRow ''1'' ''0'' 1) initialEditor) ?w = (ms, w')"
    by (cases "handlePaste tablesDb (handleCopyItem (sampleRow ''1'' ''0'' 1) initialEditor) ?w")
  ultimately show ?thesis
    using pasted_item_is_copy [OF tables_clean f(1-3) _ _ h] by (auto simp: f(4) sample_find)
qed

section \<open>What the panels do not show\<close>

text \<open>An import adds items to the database and leaves the copy of the window as it was.\<close>

lemma import_not_shown:
  assumes "chosen (snd w) = Some i" and "plansImportFromFile D (Some txt) (JStr i) (fst w) = (Inr (ImportAdded n), db)"
  shows "handleImport D (Some txt) w = ([PlanImported n], (db, snd w))"
  using assms by (simp add: handleImport_def)

text \<open>A plan, an item that is not deleted or duplicated is reported as if it were.\<close>

lemma failed_actions_report_success:
  assumes "chosen (snd w) = Some i" and "fst (ctxDeletePlan D now i w) = Some m"
  shows "fst (handleDelete D now w) = [PlanToast m, PlanDeleted]"
  using assms by (auto simp: handleDelete_def planToasts_def split: prod.split)

lemma failed_item_actions_report_success:
  assumes "inspectedItem itemId (snd w) = Some item"
  shows "last (fst (inspectorDelete D itemId w)) = ElementDeleted"
    and "last (fst (inspectorDuplicate D itemId w)) = ElementDuplicated"
  using assms by (simp_all add: inspectorDelete_def inspectorDuplicate_def split: prod.split)

end
