(* ===== verification/SourceTabs.thy ===== *)
theory SourceTabs
  imports BibleTab SongHandlers LibraryFiles
begin

text \<open>
  The other sources of the control window: the timer (\<open>TimerTab.tsx\<close>), the announcements
  (\<open>AnnouncementsTab.tsx\<close>), a quick text (\<open>QuickTextDialog.tsx\<close>), the media (\<open>MediaTab.tsx\<close>), the
  list of the songs (\<open>SongsTab.tsx\<close>) and an opened song (\<open>SongDetailPanel.tsx\<close>). A handler is
  one step with the database of the plan and the screens as they are then. The marks of progress are left out.
\<close>

section \<open>Messages\<close>

datatype tabMessage =
    TabRefused toast | AddedTab | BlocksAdded nat | DurationTooShort | NoOpenPlan
  | MediaProjected | TextProjected | LiveInactive | LiveNeeded | FileImported | CannotLoadMedia
  | CannotLoadSongs | CannotLoadSong | NoSongImported | SongsImported nat

definition tabToasts :: "toast option \<Rightarrow> tabMessage list" where
  "tabToasts t = (case t of None \<Rightarrow> [] | Some m \<Rightarrow> [TabRefused m])"

definition addedTab :: "'a option \<times> toast option \<Rightarrow> tabMessage list" where
  "addedTab r = tabToasts (snd r) @ (if fst r = None then [] else [AddedTab])"

definition orTitle :: "string \<Rightarrow> string \<Rightarrow> string" where
  "orTitle s other = (if trim s = [] then other else trim s)"

section \<open>Timer\<close>

record timerTab =
  ti_minutes :: int
  ti_seconds :: int
  ti_title :: string

definition initialTimer :: timerTab where
  "initialTimer = \<lparr>ti_minutes = 5, ti_seconds = 0, ti_title = []\<rparr>"

definition totalSeconds :: "timerTab \<Rightarrow> int" where
  "totalSeconds ti = ti_minutes ti * 60 + ti_seconds ti"

text \<open>The remainder of JavaScript has the sign of the number.\<close>

definition formatDuration :: "int \<Rightarrow> string" where
  "formatDuration n =
     (let m = n div 60; s = (if n < 0 then - ((- n) mod 60) else n mod 60)
      in padStart2 (show_int m) @ '':'' @ padStart2 (show_int s))"

datatype timerAction = Preset nat | TypeMinutes string | TypeSeconds string | Adjust int | TypeTitle string

fun timerInput :: "timerAction \<Rightarrow> timerTab \<Rightarrow> timerTab" where
  "timerInput (Preset m) ti = ti\<lparr>ti_minutes := int m, ti_seconds := 0\<rparr>"
| "timerInput (TypeMinutes s) ti = ti\<lparr>ti_minutes := max 0 (parseIntOr0 s)\<rparr>"
| "timerInput (TypeSeconds s) ti = ti\<lparr>ti_seconds := min 59 (max 0 (parseIntOr0 s))\<rparr>"
| "timerInput (Adjust delta) ti = ti\<lparr>ti_minutes := max 0 (ti_minutes ti + delta)\<rparr>"
| "timerInput (TypeTitle s) ti = ti\<lparr>ti_title := s\<rparr>"

definition timerPayload :: "timerTab \<Rightarrow> (string \<times> jsval) list" where
  "timerPayload ti = [(''kind'', JStr ''TIMER''), (''title'', JStr (orTitle (ti_title ti) ''Minuterie'')),
     (''content'', JStr (formatDuration (totalSeconds ti)))]"

definition timerAdd :: "'db planDb \<Rightarrow> timerTab \<Rightarrow> 'db planWorld \<Rightarrow> tabMessage list \<times> 'db planWorld" where
  "timerAdd D ti w =
     (if totalSeconds ti \<le> 0 then ([DurationTooShort], w)
      else let (r, w) = addItem D (timerPayload ti) w in (addedTab r, w))"

section \<open>Announcements\<close>

record announcementsTab =
  an_text :: string
  an_title :: string

definition handleAddText ::
  "'db planDb \<Rightarrow> announcementsTab \<Rightarrow> 'db planWorld \<Rightarrow> tabMessage list \<times> announcementsTab \<times> 'db planWorld" where
  "handleAddText D an w =
     (if trim (an_text an) = [] then ([], an, w)
      else let (r, w) = addItem D [(''kind'', JStr ''ANNOUNCEMENT_TEXT''),
                 (''title'', JStr (orTitle (an_title an) ''Annonce'')), (''content'', JStr (trim (an_text an)))] w
           in (addedTab r, if fst r = None then an else \<lparr>an_text = [], an_title = []\<rparr>, w))"

text \<open>\<open>picked\<close> is the file that \<open>files:pickMedia\<close> gives, \<open>None\<close> when it is cancelled or fails.\<close>

definition addPicked ::
  "string \<Rightarrow> 'db planDb \<Rightarrow> string option \<Rightarrow> 'db planWorld \<Rightarrow> tabMessage list \<times> 'db planWorld" where
  "addPicked kind D picked w =
     (case picked of
        None \<Rightarrow> ([], w)
      | Some path \<Rightarrow> (let (r, w) = addItem D [(''kind'', JStr kind), (''title'', JStr (fileNameOf path)),
            (''mediaPath'', JStr path)] w in (addedTab r, w)))"

definition handleAddImage :: "'db planDb \<Rightarrow> string option \<Rightarrow> 'db planWorld \<Rightarrow> tabMessage list \<times> 'db planWorld" where
  "handleAddImage = addPicked ''ANNOUNCEMENT_IMAGE''"

definition handleAddPdf :: "'db planDb \<Rightarrow> string option \<Rightarrow> 'db planWorld \<Rightarrow> tabMessage list \<times> 'db planWorld" where
  "handleAddPdf = addPicked ''ANNOUNCEMENT_PDF''"

definition handleAddVideo :: "'db planDb \<Rightarrow> string option \<Rightarrow> 'db planWorld \<Rightarrow> tabMessage list \<times> 'db planWorld" where
  "handleAddVideo = addPicked ''ANNOUNCEMENT_VIDEO''"

section \<open>Quick text\<close>

record quickText =
  qt_open :: bool
  qt_text :: string
  qt_title :: string

definition openQuickText :: quickText where
  "openQuickText = \<lparr>qt_open = True, qt_text = [], qt_title = []\<rparr>"

definition projectTab :: "projectionEnv \<Rightarrow> cpLiveState \<Rightarrow> content \<Rightarrow> controlState \<Rightarrow> controlState option" where
  "projectTab P live c st =
     (case projectContent (pe_fmt P) (pe_now P) c (lv_target live) (Some (lv_lockedScreens live)) (co_pj st) of
        Inl _ \<Rightarrow> None
      | Inr pj \<Rightarrow> Some (st\<lparr>co_pj := pj\<rparr>))"

definition quickProject ::
  "projectionEnv \<Rightarrow> int \<Rightarrow> quickText \<Rightarrow> controlState \<Rightarrow> tabMessage list \<times> quickText \<times> controlState" where
  "quickProject P t qt co =
     (if trim (qt_text qt) = [] then ([], qt, co)
      else case readyForFree P t co of
             None \<Rightarrow> ([], qt, co)
           | Some (None, co) \<Rightarrow> ([LiveInactive], qt, co)
           | Some (Some l, co) \<Rightarrow>
               if \<not> lv_enabled l then ([LiveInactive], qt, co)
               else case projectTab P l (TextContent (textPayload
                        (if trim (qt_title qt) = [] then None else Some (trim (qt_title qt)))
                        (trim (qt_text qt)) JUndef None None)) co of
                      None \<Rightarrow> ([], qt, co)
                    | Some co \<Rightarrow> ([TextProjected], qt\<lparr>qt_open := False\<rparr>, co))"

definition quickAdd :: "'db planDb \<Rightarrow> quickText \<Rightarrow> 'db planWorld \<Rightarrow> tabMessage list \<times> quickText \<times> 'db planWorld" where
  "quickAdd D qt w =
     (if trim (qt_text qt) = [] then ([], qt, w)
      else let (r, w) = addItem D [(''kind'', JStr ''ANNOUNCEMENT_TEXT''),
                 (''title'', JStr (orTitle (qt_title qt) ''Texte libre'')), (''content'', JStr (trim (qt_text qt)))] w
           in (addedTab r, if fst r = None then qt else qt\<lparr>qt_open := False\<rparr>, w))"

definition quickKeyDown ::
  "projectionEnv \<Rightarrow> int \<Rightarrow> string \<Rightarrow> bool \<Rightarrow> quickText \<Rightarrow> controlState \<Rightarrow> tabMessage list \<times> quickText \<times> controlState" where
  "quickKeyDown P t key ctrl qt co = (if key = ''Enter'' \<and> ctrl then quickProject P t qt co else ([], qt, co))"

section \<open>Media\<close>

datatype mediaFilter = AllMedia | Only cpLibraryFileKind

definition mediaFiltered :: "mediaFilter \<Rightarrow> mediaFile list \<Rightarrow> mediaFile list" where
  "mediaFiltered f files =
     (case f of
        AllMedia \<Rightarrow> filter (\<lambda>x. mf_kind x = LK_IMAGE \<or> mf_kind x = LK_PDF \<or> mf_kind x = LK_VIDEO) files
      | Only k \<Rightarrow> filter (\<lambda>x. mf_kind x = k) files)"

text \<open>The answer of \<open>files:listMedia\<close>, and the files that were shown before\<close>

definition loadFiles :: "(string \<times> mediaFile list) result \<Rightarrow> mediaFile list \<Rightarrow> tabMessage list \<times> mediaFile list" where
  "loadFiles answer files = (case answer of Inl _ \<Rightarrow> ([CannotLoadMedia], files) | Inr (_, fs) \<Rightarrow> ([], fs))"

definition mediaImport ::
  "string option \<Rightarrow> (string \<times> mediaFile list) result \<Rightarrow> mediaFile list \<Rightarrow> tabMessage list \<times> mediaFile list" where
  "mediaImport picked answer files =
     (if picked = None then ([], files)
      else let (ms, files) = loadFiles answer files in (ms @ [FileImported], files))"

definition mediaItemKind :: "mediaFile \<Rightarrow> string" where
  "mediaItemKind x = (if mf_kind x = LK_IMAGE then ''ANNOUNCEMENT_IMAGE''
     else if mf_kind x = LK_VIDEO then ''ANNOUNCEMENT_VIDEO'' else ''ANNOUNCEMENT_PDF'')"

definition mediaAdd :: "'db planDb \<Rightarrow> mediaFile \<Rightarrow> 'db planWorld \<Rightarrow> tabMessage list \<times> 'db planWorld" where
  "mediaAdd D x w =
     (let ((r, t), w) = addItem D [(''kind'', JStr (mediaItemKind x)), (''title'', JStr (mf_name x)),
            (''mediaPath'', JStr (mf_path x))] w
      in (tabToasts t @ [if r = None then NoOpenPlan else AddedTab], w))"

definition mediaProject :: "projectionEnv \<Rightarrow> int \<Rightarrow> mediaFile \<Rightarrow> controlState \<Rightarrow> tabMessage list \<times> controlState" where
  "mediaProject P t x co =
     (let c = MediaContent (mediaPayload (Some (mf_name x)) (mf_path x)
                (if mf_kind x = LK_IMAGE then ''IMAGE'' else if mf_kind x = LK_VIDEO then ''VIDEO'' else ''PDF''));
          onA = (\<lambda>co. case sendContent (pe_fmt P) (pe_now P) c ScreenA (co_pj co) of
                   Inl _ \<Rightarrow> ([], co) | Inr (_, pj) \<Rightarrow> ([MediaProjected], co\<lparr>co_pj := pj\<rparr>))
      in case readyForFree P t co of
           None \<Rightarrow> ([], co)
         | Some (None, co) \<Rightarrow> onA co
         | Some (Some l, co) \<Rightarrow>
             if \<not> lv_enabled l then onA co
             else case projectTab P l c co of None \<Rightarrow> ([], co) | Some co \<Rightarrow> ([MediaProjected], co))"

section \<open>An opened song\<close>

record songDetail =
  sd_song :: "(songRow \<times> blockRow list) option"
  sd_cursor :: "nat option"

definition blockLabel :: "blockRow \<Rightarrow> string" where
  "blockLabel b = orElse (bl_title b)
     (if bl_type b = ''CHORUS'' then ''Refrain'' else if bl_type b = ''VERSE'' then ''Couplet''
      else if bl_type b = ''BRIDGE'' then ''Pont'' else if bl_type b = ''INTRO'' then ''Intro''
      else if bl_type b = ''OUTRO'' then ''Outro'' else bl_type b)"

definition loadSong :: "'db songDb \<Rightarrow> string \<Rightarrow> 'db \<Rightarrow> songDetail \<Rightarrow> tabMessage list \<times> songDetail" where
  "loadSong S songId db sd =
     (case fst (songsGet S (JStr songId) db) of
        Inl _ \<Rightarrow> ([CannotLoadSong], sd) | Inr detail \<Rightarrow> ([], sd\<lparr>sd_song := detail\<rparr>))"

text \<open>Another song is opened: the cursor is reset.\<close>

definition openSong :: "'db songDb \<Rightarrow> string \<Rightarrow> 'db \<Rightarrow> songDetail \<Rightarrow> tabMessage list \<times> songDetail" where
  "openSong S songId db sd =
     (let (ms, sd) = loadSong S songId db sd in (ms, sd\<lparr>sd_cursor := None\<rparr>))"

definition blockItemPayload :: "songRow \<Rightarrow> blockRow \<Rightarrow> (string \<times> jsval) list" where
  "blockItemPayload song b = [(''kind'', JStr ''SONG_BLOCK''),
     (''title'', JStr (so_title song @ '' - '' @ blockLabel b)), (''content'', JStr (bl_content b)),
     (''refId'', JStr (so_id song)), (''refSubId'', JStr (bl_id b))]"

definition handleAddBlock ::
  "'db planDb \<Rightarrow> songDetail \<Rightarrow> blockRow \<Rightarrow> 'db planWorld \<Rightarrow> tabMessage list \<times> 'db planWorld" where
  "handleAddBlock D sd b w =
     (case sd_song sd of
        None \<Rightarrow> ([], w)
      | Some (song, _) \<Rightarrow> (let (r, w) = addItem D (blockItemPayload song b) w in (addedTab r, w)))"

text \<open>The number of the items that were added, and the messages of those that were not\<close>

fun addBlocks ::
  "'db planDb \<Rightarrow> songRow \<Rightarrow> blockRow list \<Rightarrow> 'db planWorld \<Rightarrow> (nat \<times> tabMessage list) \<times> 'db planWorld" where
  "addBlocks D song [] w = ((0, []), w)"
| "addBlocks D song (b # bs) w =
     (let ((r, t), w) = addItem D (blockItemPayload song b) w;
          ((n, ms), w) = addBlocks D song bs w
      in ((if r = None then n else Suc n, tabToasts t @ ms), w))"

definition addAllBlocks :: "'db planDb \<Rightarrow> songDetail \<Rightarrow> 'db planWorld \<Rightarrow> tabMessage list \<times> 'db planWorld" where
  "addAllBlocks D sd w =
     (case sd_song sd of
        None \<Rightarrow> ([], w)
      | Some (song, bs) \<Rightarrow>
          if bs = [] then ([], w)
          else let ((n, ms), w) = addBlocks D song bs w in (ms @ (if n > 0 then [BlocksAdded n] else []), w))"

definition blockItem :: "songRow \<Rightarrow> blockRow \<Rightarrow> itemRow" where
  "blockItem song b = \<lparr>it_id = bl_id b, it_planId = [], it_order = 0, it_kind = ''SONG_BLOCK'',
     it_refId = Some (so_id song), it_refSubId = Some (bl_id b), it_songId = None, it_title = Some (so_title song),
     it_content = Some (bl_content b), it_notes = None, it_mediaPath = None, it_secondaryContent = None,
     it_backgroundConfig = None\<rparr>"

definition handleProjectBlock ::
  "projectionEnv \<Rightarrow> int \<Rightarrow> blockRow \<Rightarrow> nat option \<Rightarrow> songDetail \<Rightarrow> controlState
     \<Rightarrow> tabMessage list \<times> songDetail \<times> controlState" where
  "handleProjectBlock P t b cursorIndex sd co =
     (case readyForFree P t co of
        None \<Rightarrow> ([], sd, co)
      | Some (None, co) \<Rightarrow> ([LiveNeeded], sd, co)
      | Some (Some l, co) \<Rightarrow>
          if \<not> lv_enabled l then ([LiveNeeded], sd, co)
          else case sd_song sd of
                 None \<Rightarrow> ([], sd, co)
               | Some (song, _) \<Rightarrow>
                   ([], (if cursorIndex = None then sd else sd\<lparr>sd_cursor := cursorIndex\<rparr>),
                    project P l (blockItem song b) None co))"

text \<open>Where a key arrives: \<open>Math.max(0, Math.min(length - 1, current + dir))\<close>\<close>

definition nextBlock :: "int \<Rightarrow> nat option \<Rightarrow> nat \<Rightarrow> nat" where
  "nextBlock dir cursor n = nat (max 0 (min (int n - 1) ((case cursor of None \<Rightarrow> - 1 | Some k \<Rightarrow> int k) + dir)))"

definition handleBlockCursorMove ::
  "projectionEnv \<Rightarrow> int \<Rightarrow> int \<Rightarrow> songDetail \<Rightarrow> controlState \<Rightarrow> songDetail \<times> controlState" where
  "handleBlockCursorMove P t dir sd co =
     (case readyForFree P t co of
        None \<Rightarrow> (sd, co)
      | Some (live, co) \<Rightarrow>
          (case (sd_song sd, live) of
             (Some (song, bs), Some l) \<Rightarrow>
               (let k = nextBlock dir (sd_cursor sd) (length bs)
                in if \<not> lv_enabled l \<or> length bs \<le> k then (sd, co)
                   else (sd\<lparr>sd_cursor := Some k\<rparr>, project P l (blockItem song (bs ! k)) None co))
           | _ \<Rightarrow> (sd, co)))"

definition listensToKeys :: "songDetail \<Rightarrow> controlState \<Rightarrow> bool" where
  "listensToKeys sd co \<longleftrightarrow> sd_song sd \<noteq> None \<and> (case co_live co of None \<Rightarrow> False | Some l \<Rightarrow> lv_enabled l)"

text \<open>The keys of the window outside of its text fields, and those that a projection window sends back\<close>

definition songKeyDown ::
  "projectionEnv \<Rightarrow> int \<Rightarrow> bool \<Rightarrow> string \<Rightarrow> songDetail \<Rightarrow> controlState \<Rightarrow> songDetail \<times> controlState" where
  "songKeyDown P t typing key sd co =
     (if \<not> listensToKeys sd co \<or> typing then (sd, co)
      else case arrowDirection key of None \<Rightarrow> (sd, co) | Some dir \<Rightarrow> handleBlockCursorMove P t dir sd co)"

definition songFreeNavigate ::
  "projectionEnv \<Rightarrow> int \<Rightarrow> int \<Rightarrow> songDetail \<Rightarrow> controlState \<Rightarrow> songDetail \<times> controlState" where
  "songFreeNavigate P t dir sd co = (if listensToKeys sd co then handleBlockCursorMove P t dir sd co else (sd, co))"

section \<open>The list of the songs\<close>

text \<open>The browser's storage: the value of the key of the favourites, parsed (\<open>None\<close> when it is absent or no JSON), and the order.\<close>

record songStorage =
  ls_favorites :: "jsval option"
  ls_sort :: "string option"

text \<open>\<open>new Set(\<dots>)\<close> takes an array or the characters of a string, and raises for most other values.\<close>

definition loadFavorites :: "songStorage \<Rightarrow> jsval list" where
  "loadFavorites ls =
     (case ls_favorites ls of
        Some (JArr vs) \<Rightarrow> rev (remdups (rev vs))
      | Some (JStr s) \<Rightarrow> rev (remdups (rev (map (\<lambda>c. JStr [c]) s)))
      | _ \<Rightarrow> [])"

definition saveFavorites :: "jsval list \<Rightarrow> songStorage \<Rightarrow> songStorage" where
  "saveFavorites ids ls = ls\<lparr>ls_favorites := Some (JArr ids)\<rparr>"

definition sortName :: "songSort \<Rightarrow> string" where
  "sortName s = (case s of SortTitle \<Rightarrow> ''title'' | SortArtist \<Rightarrow> ''artist'' | SortUpdatedAt \<Rightarrow> ''updatedAt''
     | SortCreatedAt \<Rightarrow> ''createdAt'')"

definition loadSort :: "songStorage \<Rightarrow> songSort" where
  "loadSort ls = (case ls_sort ls of None \<Rightarrow> SortTitle | Some raw \<Rightarrow> parseSongSort (JStr raw))"

definition saveSort :: "songSort \<Rightarrow> songStorage \<Rightarrow> songStorage" where
  "saveSort s ls = ls\<lparr>ls_sort := Some (sortName s)\<rparr>"

record songsTab =
  st_query :: string
  st_songs :: "(songRow \<times> string nullable) list"
  st_favoriteIds :: "jsval list"
  st_frequentSongs :: "(songRow \<times> string nullable) list"
  st_sortBy :: songSort

text \<open>The answers of the main process are functions of the query and the order.\<close>

type_synonym songsAnswer = "jsval \<Rightarrow> jsval \<Rightarrow> (failure + (songRow \<times> string nullable) list)"

definition songsAnswerOf :: "(string \<Rightarrow> string \<Rightarrow> bool) \<Rightarrow> 'db songDb \<Rightarrow> 'db \<Rightarrow> songsAnswer" where
  "songsAnswerOf like S db q order = fst (songsList like S q order db)"

definition loadSongs :: "songsAnswer \<Rightarrow> string \<Rightarrow> songSort \<Rightarrow> songsTab \<Rightarrow> tabMessage list \<times> songsTab" where
  "loadSongs answer q order tab =
     (case answer (if q = [] then JUndef else JStr q) (JStr (sortName order)) of
        Inl _ \<Rightarrow> ([CannotLoadSongs], tab) | Inr songs \<Rightarrow> ([], tab\<lparr>st_songs := songs\<rparr>))"

text \<open>The tab as it opens; \<open>frequent\<close> is the answer for the songs used most, at most eight.\<close>

definition openSongsTab ::
  "songsAnswer \<Rightarrow> (failure + (songRow \<times> string nullable) list) \<Rightarrow> songStorage \<Rightarrow> tabMessage list \<times> songsTab" where
  "openSongsTab answer frequent ls =
     (let (ms, tab) = loadSongs answer [] (loadSort ls)
            \<lparr>st_query = [], st_songs = [], st_favoriteIds = loadFavorites ls, st_frequentSongs = [], st_sortBy = loadSort ls\<rparr>
      in (ms, case frequent of Inl _ \<Rightarrow> tab | Inr songs \<Rightarrow> tab\<lparr>st_frequentSongs := songs\<rparr>))"

text \<open>A change of the order is saved, and reloads the list.\<close>

definition handleSortChange ::
  "songsAnswer \<Rightarrow> songSort \<Rightarrow> songsTab \<times> songStorage \<Rightarrow> tabMessage list \<times> songsTab \<times> songStorage" where
  "handleSortChange answer s st =
     (let (tab, ls) = st;
          (ms, tab) = (if st_sortBy tab = s then ([], tab) else loadSongs answer [] s (tab\<lparr>st_sortBy := s\<rparr>))
      in (ms, tab, saveSort s ls))"

definition handleSearch :: "songsAnswer \<Rightarrow> string \<Rightarrow> songsTab \<Rightarrow> tabMessage list \<times> songsTab" where
  "handleSearch answer value tab = loadSongs answer value (st_sortBy tab) (tab\<lparr>st_query := value\<rparr>)"

definition handleClearSearch :: "songsAnswer \<Rightarrow> songsTab \<Rightarrow> tabMessage list \<times> songsTab" where
  "handleClearSearch answer tab = loadSongs answer [] (st_sortBy tab) (tab\<lparr>st_query := []\<rparr>)"

text \<open>The number of songs that \<open>songs:importAuto\<close> took, \<open>None\<close> when it is cancelled or fails\<close>

definition songsImport :: "songsAnswer \<Rightarrow> nat option \<Rightarrow> songsTab \<Rightarrow> tabMessage list \<times> songsTab" where
  "songsImport answer imported tab =
     (case imported of
        None \<Rightarrow> ([], tab)
      | Some n \<Rightarrow> if n = 0 then ([NoSongImported], tab)
                  else let (ms, tab) = loadSongs answer (st_query tab) (st_sortBy tab) tab in (SongsImported n # ms, tab))"

definition handleToggleFavorite :: "string \<Rightarrow> songsTab \<times> songStorage \<Rightarrow> songsTab \<times> songStorage" where
  "handleToggleFavorite songId st =
     (let (tab, ls) = st; prev = st_favoriteIds tab;
          ids = (if JStr songId \<in> set prev then filter (\<lambda>v. v \<noteq> JStr songId) prev else prev @ [JStr songId])
      in (tab\<lparr>st_favoriteIds := ids\<rparr>, saveFavorites ids ls))"

definition isFavorite :: "songsTab \<Rightarrow> songRow \<times> string nullable \<Rightarrow> bool" where
  "isFavorite tab s \<longleftrightarrow> JStr (so_id (fst s)) \<in> set (st_favoriteIds tab)"

text \<open>The sections of the list: the favourites, the songs used most, the others\<close>

definition favSongs :: "songsTab \<Rightarrow> (songRow \<times> string nullable) list" where
  "favSongs tab = (if st_query tab = [] then filter (isFavorite tab) (st_songs tab) else [])"

definition frequentShown :: "songsTab \<Rightarrow> (songRow \<times> string nullable) list" where
  "frequentShown tab =
     (if st_query tab = [] \<and> st_songs tab \<noteq> [] then take 5 (filter (\<lambda>s. \<not> isFavorite tab s) (st_frequentSongs tab)) else [])"

definition listedSongs :: "songsTab \<Rightarrow> (songRow \<times> string nullable) list" where
  "listedSongs tab = (if st_query tab = [] then filter (\<lambda>s. \<not> isFavorite tab s) (st_songs tab) else st_songs tab)"

section \<open>A timer lasts what was chosen\<close>

lemma timer_inputs_ok:
  "0 \<le> ti_minutes ti \<Longrightarrow> 0 \<le> ti_seconds ti \<Longrightarrow> ti_seconds ti \<le> 59 \<Longrightarrow> ti' = fold timerInput ins ti \<Longrightarrow>
     0 \<le> ti_minutes ti' \<and> 0 \<le> ti_seconds ti' \<and> ti_seconds ti' \<le> 59"
proof (induction ins arbitrary: ti)
  case (Cons x ins)
  have "0 \<le> ti_minutes (timerInput x ti) \<and> 0 \<le> ti_seconds (timerInput x ti) \<and> ti_seconds (timerInput x ti) \<le> 59"
    using Cons.prems by (cases x) simp_all
  then show ?case
    using Cons.IH [of "timerInput x ti"] Cons.prems(4) by simp
qed simp

lemma duration_read:
  assumes "0 \<le> m" and "0 \<le> s" and "s \<le> 59"
  shows "parseMMSS (formatDuration (m * 60 + s)) = (m, s)"
  using parse_timer [of "nat m" "nat s"] assms by (simp add: formatDuration_def show_int_nonneg Let_def)

lemma timer_parsed:
  assumes "cleanId i"
  shows "\<exists>p. parsePlanAddItemPayload (JObj ((''planId'', JStr i) # timerPayload ti)) = Inr p \<and> ai_planId p = i
     \<and> ai_kind p = TIMER \<and> ai_title p = Some (orTitle (ti_title ti) ''Minuterie'')
     \<and> ai_content p = Some (formatDuration (totalSeconds ti))"
  using assms by (simp add: parsePlanAddItemPayload_def timerPayload_def payload_fields kind_field [of TIMER, simplified])

text \<open>
  However the minutes and seconds of the timer were typed, chosen or adjusted, they stay within
  their bounds, and the timer that is added to the plan reads back as exactly these minutes and
  seconds, which is also what the plan counts for it; it comes last and the window shows it.
\<close>

theorem timer_lasts_as_chosen:
  assumes "clean_plan_store D plans items songs ok" and "ok (fst w)" and "followsDb D plans w"
    and "chosen (snd w) = Some i" and "ti = fold timerInput ins initialTimer" and "0 < totalSeconds ti"
    and "timerAdd D ti w = (ms, w')"
  shows "0 \<le> ti_minutes ti \<and> 0 \<le> ti_seconds ti \<and> ti_seconds ti \<le> 59 \<and> ms = [AddedTab] \<and> followsDb D plans w'
     \<and> (\<exists>row content. findItems D (fst w') (\<lambda>r. it_planId r = i) = findItems D (fst w) (\<lambda>r. it_planId r = i) @ [row]
        \<and> it_kind row = ''TIMER'' \<and> it_title row = Some (orTitle (ti_title ti) ''Minuterie'') \<and> it_content row = Some content
        \<and> parseMMSS content = (ti_minutes ti, ti_seconds ti) \<and> estimateItemDurationSeconds row = totalSeconds ti)"
proof -
  have bounds: "0 \<le> ti_minutes ti \<and> 0 \<le> ti_seconds ti \<and> ti_seconds ti \<le> 59"
    using timer_inputs_ok [OF _ _ _ assms(5)] by (simp add: initialTimer_def)
  have i: "cleanId i"
    using assms(3,4) by (auto simp: followsDb_def)
  obtain p where p: "parsePlanAddItemPayload (JObj ((''planId'', JStr i) # timerPayload ti)) = Inr p" "ai_planId p = i"
      "ai_kind p = TIMER" "ai_title p = Some (orTitle (ti_title ti) ''Minuterie'')"
      "ai_content p = Some (formatDuration (totalSeconds ti))"
    using timer_parsed [OF i] by blast
  have song: "case songOf p of None \<Rightarrow> True | Some s \<Rightarrow> s \<in> songs (fst w)"
    by (simp add: songOf_def p(3))
  have follows: "ok (fst w) \<and> followsDb D plans w"
    using assms(2,3) by simp
  obtain k n w1 where a: "addItem D (timerPayload ti) w = ((Some ((newItemRow p n)\<lparr>it_id := k\<rparr>), None), w1)"
      "followsDb D plans w1" "findItems D (fst w1) (\<lambda>r. it_planId r = i)
         = findItems D (fst w) (\<lambda>r. it_planId r = i) @ [(newItemRow p n)\<lparr>it_id := k\<rparr>]"
    using clean_plan_store.item_added [OF assms(1) follows assms(4) p(1,2) song] by blast
  have "ms = [AddedTab]" and w: "w' = w1"
    using assms(6,7) a(1) by (simp_all add: timerAdd_def addedTab_def tabToasts_def)
  have read: "parseMMSS (formatDuration (totalSeconds ti)) = (ti_minutes ti, ti_seconds ti)"
    using duration_read bounds by (simp add: totalSeconds_def)
  have "formatDuration (totalSeconds ti) \<noteq> []"
    by (simp add: formatDuration_def Let_def)
  then have "estimateItemDurationSeconds ((newItemRow p n)\<lparr>it_id := k\<rparr>) = totalSeconds ti"
    by (simp add: estimateItemDurationSeconds_def newItemRow_def p(3,5) read) (simp add: totalSeconds_def)
  moreover have "it_kind ((newItemRow p n)\<lparr>it_id := k\<rparr>) = ''TIMER''"
    "it_title ((newItemRow p n)\<lparr>it_id := k\<rparr>) = Some (orTitle (ti_title ti) ''Minuterie'')"
    "it_content ((newItemRow p n)\<lparr>it_id := k\<rparr>) = Some (formatDuration (totalSeconds ti))"
    by (simp_all add: newItemRow_def p)
  ultimately show ?thesis
    using bounds a(2,3) read \<open>ms = [AddedTab]\<close> w by blast
qed

theorem timer_lasts_as_chosen_witness:
  "\<exists>row. last (findItems tablesDb (fst (snd (timerAdd tablesDb (fold timerInput [TypeSeconds ''75'', Adjust (- 1)] initialTimer)
        (setSelectedPlanId tablesDb (Some ''0'') (sampleTables, emptyView))))) (\<lambda>r. it_planId r = ''0'')) = row
     \<and> estimateItemDurationSeconds row = 299"
proof -
  let ?w = "setSelectedPlanId tablesDb (Some ''0'') (sampleTables, emptyView)"
  let ?ti = "fold timerInput [TypeSeconds ''75'', Adjust (- 1)] initialTimer"
  note f = sample_selected [OF refl]
  have t: "totalSeconds ?ti = 299"
    by code_simp
  obtain ms w' where h: "timerAdd tablesDb ?ti ?w = (ms, w')"
    by (cases "timerAdd tablesDb ?ti ?w")
  have "0 < totalSeconds ?ti"
    by (simp only: t)
  from timer_lasts_as_chosen [OF tables_clean f(1-3) refl this h] show ?thesis
    unfolding h t by auto
qed

section \<open>The blocks of a song\<close>

type_synonym blockFields = "string \<times> string option \<times> string option \<times> string option \<times> string option \<times> string option"

definition songFields :: "itemRow \<Rightarrow> blockFields" where
  "songFields r = (it_kind r, it_title r, it_content r, it_refId r, it_refSubId r, it_songId r)"

definition fieldsOfBlock :: "songRow \<Rightarrow> blockRow \<Rightarrow> blockFields" where
  "fieldsOfBlock song b = (''SONG_BLOCK'', Some (so_title song @ '' - '' @ blockLabel b), Some (bl_content b),
     Some (so_id song), Some (bl_id b), Some (so_id song))"

lemma block_parsed:
  assumes "cleanId i" and "cleanId (so_id song)" and "cleanId (bl_id b)"
  shows "\<exists>p. parsePlanAddItemPayload (JObj ((''planId'', JStr i) # blockItemPayload song b)) = Inr p \<and> ai_planId p = i
     \<and> songOf p = Some (so_id song) \<and> (\<forall>k n. songFields ((newItemRow p n)\<lparr>it_id := k\<rparr>) = fieldsOfBlock song b)"
  using assms trimmedOr_trimmed [of "so_id song"] trimmedOr_trimmed [of "bl_id b"]
  by (simp add: cleanId_def parsePlanAddItemPayload_def blockItemPayload_def payload_fields kind_field [of SONG_BLOCK, simplified]
      songOf_def songFields_def newItemRow_def fieldsOfBlock_def)

context clean_plan_store
begin

lemma blocks_added:
  assumes "cleanId (so_id song)" and "\<forall>b \<in> set bs. cleanId (bl_id b)"
    and "follows w" and "chosen (snd w) = Some i" and "so_id song \<in> songs (fst w)"
  shows "\<exists>w'. addBlocks D song bs w = ((length bs, []), w') \<and> follows w'
     \<and> map songFields (findItems D (fst w') (ofPlan i))
         = map songFields (findItems D (fst w) (ofPlan i)) @ map (fieldsOfBlock song) bs"
  using assms(2-5)
proof (induction bs arbitrary: w)
  case (Cons b bs)
  have i: "cleanId i" and b: "cleanId (bl_id b)"
    using Cons.prems by (auto simp: followsDb_def)
  obtain p where p: "parsePlanAddItemPayload (JObj ((''planId'', JStr i) # blockItemPayload song b)) = Inr p" "ai_planId p = i"
      "songOf p = Some (so_id song)" "\<And>k n. songFields ((newItemRow p n)\<lparr>it_id := k\<rparr>) = fieldsOfBlock song b"
    using block_parsed [OF i assms(1) b] by blast
  have song: "case songOf p of None \<Rightarrow> True | Some s \<Rightarrow> s \<in> songs (fst w)"
    using p(3) Cons.prems(4) by simp
  obtain k n w1 where a: "addItem D (blockItemPayload song b) w = ((Some ((newItemRow p n)\<lparr>it_id := k\<rparr>), None), w1)"
      "follows w1" "chosen (snd w1) = Some i" "songs (fst w1) = songs (fst w)"
      "findItems D (fst w1) (ofPlan i) = findItems D (fst w) (ofPlan i) @ [(newItemRow p n)\<lparr>it_id := k\<rparr>]"
    using item_added [OF Cons.prems(2,3) p(1,2) song] by blast
  obtain w' where "addBlocks D song bs w1 = ((length bs, []), w')" "follows w'"
      "map songFields (findItems D (fst w') (ofPlan i))
         = map songFields (findItems D (fst w1) (ofPlan i)) @ map (fieldsOfBlock song) bs"
    using Cons.IH [OF _ a(2,3)] Cons.prems(1,4) a(4) by auto
  then show ?case
    using a(1,5) p(4) by (simp add: tabToasts_def)
qed simp

end

text \<open>
  Adding all blocks of an opened song appends one item for each block, in the order of the song,
  with the title of the song and the label of the block, its text, and references to both that
  also make the database hold on to the song; the message tells how many. It takes a selected
  plan that the window shows and a song that the database still has.
\<close>

theorem song_blocks_added_in_order:
  assumes "clean_plan_store D plans items songs ok" and "ok (fst w)" and "followsDb D plans w"
    and "chosen (snd w) = Some i" and "sd_song sd = Some (song, bs)" and "bs \<noteq> []"
    and "cleanId (so_id song)" and "\<forall>b \<in> set bs. cleanId (bl_id b)" and "so_id song \<in> songs (fst w)"
  shows "\<exists>w'. addAllBlocks D sd w = ([BlocksAdded (length bs)], w') \<and> followsDb D plans w'
     \<and> map songFields (findItems D (fst w') (\<lambda>r. it_planId r = i))
         = map songFields (findItems D (fst w) (\<lambda>r. it_planId r = i)) @ map (fieldsOfBlock song) bs"
  using clean_plan_store.blocks_added [OF assms(1,7,8) _ assms(4,9)] assms(2,3,6)
  by (auto simp: addAllBlocks_def assms(5))

definition songTables :: planTables where
  "songTables = sampleTables\<lparr>tb_songIds := [''0'']\<rparr>"

lemma songTables_ok: "tablesOk songTables" "''0'' \<in> dom (tb_plans songTables)" "''0'' \<in> tb_songs songTables"
  using sample_plan by (simp_all add: songTables_def tablesOk_def sampleTables_def sampleRow_def newPlanRow_def sample_ids
      refsOk_def tb_plans_def tb_songs_def)

definition demoBlocks :: "blockRow list" where
  "demoBlocks = [\<lparr>bl_id = ''b1'', bl_songId = ''0'', bl_order = 1, bl_type = ''VERSE'', bl_title = None, bl_content = ''la''\<rparr>,
     \<lparr>bl_id = ''b2'', bl_songId = ''0'', bl_order = 2, bl_type = ''CHORUS'', bl_title = Some ''R'', bl_content = ''lo''\<rparr>]"

theorem song_blocks_added_in_order_witness:
  "\<exists>w'. addAllBlocks tablesDb \<lparr>sd_song = Some (graceSong, demoBlocks), sd_cursor = None\<rparr>
       (setSelectedPlanId tablesDb (Some ''0'') (songTables, emptyView)) = ([BlocksAdded 2], w')
     \<and> map it_title (drop 2 (findItems tablesDb (fst w') (\<lambda>r. it_planId r = ''0''))) = [Some ''Grace - Couplet'', Some ''Grace - R'']"
proof -
  let ?w = "setSelectedPlanId tablesDb (Some ''0'') (songTables, emptyView)"
  let ?sd = "\<lparr>sd_song = Some (graceSong, demoBlocks), sd_cursor = None\<rparr>"
  note f = plan_selected [OF songTables_ok(1,2) refl]
  have sd: "sd_song ?sd = Some (graceSong, demoBlocks)" and ne: "demoBlocks \<noteq> []"
    by (simp_all add: demoBlocks_def)
  have ids: "cleanId (so_id graceSong)" "\<forall>b \<in> set demoBlocks. cleanId (bl_id b)"
    by (code_simp, code_simp)
  have song: "so_id graceSong \<in> tb_songs (fst ?w)"
    using songTables_ok(3) by (simp add: f(4) graceSong_def)
  obtain w' where w': "addAllBlocks tablesDb ?sd ?w = ([BlocksAdded (length demoBlocks)], w')"
      "map songFields (findItems tablesDb (fst w') (\<lambda>r. it_planId r = ''0''))
         = map songFields (findItems tablesDb songTables (\<lambda>r. it_planId r = ''0'')) @ map (fieldsOfBlock graceSong) demoBlocks"
    using song_blocks_added_in_order [OF tables_clean f(1-3) sd ne ids song] by (auto simp: f(4))
  have "length (findItems tablesDb songTables (\<lambda>r. it_planId r = ''0'')) = 2"
    by code_simp
  then have "map (fst \<circ> snd) (drop 2 (map songFields (findItems tablesDb (fst w') (\<lambda>r. it_planId r = ''0''))))
      = map (fst \<circ> snd) (map (fieldsOfBlock graceSong) demoBlocks)"
    by (simp add: w'(2))
  also have "\<dots> = [Some ''Grace - Couplet'', Some ''Grace - R'']"
    by code_simp
  finally have "map it_title (drop 2 (findItems tablesDb (fst w') (\<lambda>r. it_planId r = ''0''))) = [Some ''Grace - Couplet'', Some ''Grace - R'']"
    by (simp add: drop_map songFields_def comp_def)
  moreover have "length demoBlocks = 2"
    by (simp add: demoBlocks_def)
  ultimately show ?thesis
    using w'(1) by auto
qed

lemma nextBlock_inside: "0 < n \<Longrightarrow> nextBlock dir cursor n < n"
  by (auto simp: nextBlock_def)

section \<open>Favourites\<close>

text \<open>The favourites of a session are there when the window opens again.\<close>

lemma favorite_toggled:
  assumes "distinct (st_favoriteIds (fst st))"
  shows "distinct (st_favoriteIds (fst (handleToggleFavorite i st)))"
    and "loadFavorites (snd (handleToggleFavorite i st)) = st_favoriteIds (fst (handleToggleFavorite i st))"
proof -
  obtain tab ls where st: "st = (tab, ls)" by (cases st)
  show "distinct (st_favoriteIds (fst (handleToggleFavorite i st)))"
    using assms by (simp add: st handleToggleFavorite_def Let_def)
  then show "loadFavorites (snd (handleToggleFavorite i st)) = st_favoriteIds (fst (handleToggleFavorite i st))"
    by (simp add: st handleToggleFavorite_def saveFavorites_def loadFavorites_def Let_def distinct_remdups_id)
qed

lemma favorites_reload:
  assumes "distinct (st_favoriteIds (fst st))" and "loadFavorites (snd st) = st_favoriteIds (fst st)"
  shows "loadFavorites (snd (fold handleToggleFavorite ids st)) = st_favoriteIds (fst (fold handleToggleFavorite ids st))"
  using assms by (induction ids arbitrary: st) (simp_all add: favorite_toggled)

text \<open>Without a search every song is listed once, as a favourite or among the others.\<close>

lemma songs_listed_once:
  "st_query tab = [] \<Longrightarrow> mset (favSongs tab) + mset (listedSongs tab) = mset (st_songs tab)"
  by (simp add: favSongs_def listedSongs_def multiset_partition [symmetric])

section \<open>What the tabs do not do\<close>

text \<open>Another order during a search lists all songs while the search is still shown.\<close>

lemma sort_change_forgets_search:
  assumes "st_sortBy tab \<noteq> s" and "answer JUndef (JStr (sortName s)) = Inr all"
  shows "handleSortChange answer s (tab, ls) = ([], tab\<lparr>st_sortBy := s, st_songs := all\<rparr>, saveSort s ls)"
  using assms by (simp add: handleSortChange_def loadSongs_def)

text \<open>An item that the main process refuses is reported as a missing plan.\<close>

lemma refusal_reported_as_missing_plan:
  assumes "fst (addItem D [(''kind'', JStr (mediaItemKind x)), (''title'', JStr (mf_name x)), (''mediaPath'', JStr (mf_path x))] w)
     = (None, Some m)"
  shows "fst (mediaAdd D x w) = [TabRefused m, NoOpenPlan]"
  using assms by (auto simp: mediaAdd_def tabToasts_def split: prod.splits)

text \<open>On a locked screen nothing is projected, and the message says that it was.\<close>

lemma locked_screen_reported_as_projected:
  assumes "readyForFree P t co = Some (Some l, co')" and "lv_enabled l" and "lv_lockedScreens l (lv_target l)"
  shows "mediaProject P t x co = ([MediaProjected], co')"
  using assms by (simp add: mediaProject_def projectTab_def projectContent_def resolveProjectionTarget_def shouldSkipProjection_def)

end
