(* ===== verification/SongEditor.thy ===== *)
theory SongEditor
  imports SongHandlers PlanAdding Reorder
begin

text \<open>
  The editor of a song, \<open>components/dialogs/SongEditorDialog.tsx\<close>: its fields, its list of blocks and
  the calls of the main process that save them. The marks of progress are left out, and the preview
  is the content of the active block.
\<close>

section \<open>State\<close>

record editableBlock =
  eb_id :: string
  eb_type :: string
  eb_title :: string
  eb_content :: string

text \<open>\<open>se_counter\<close> is the counter of the module, from which the keys of new blocks are made.\<close>

record songEditor =
  se_title :: string
  se_artist :: string
  se_blocks :: "editableBlock list"
  se_activeBlockId :: "string option"
  se_counter :: nat

definition newBlockId :: "songEditor \<Rightarrow> string \<times> songEditor" where
  "newBlockId ed = (''new-'' @ show_nat (Suc (se_counter ed)), ed\<lparr>se_counter := Suc (se_counter ed)\<rparr>)"

definition openNewSong :: "songEditor \<Rightarrow> songEditor" where
  "openNewSong ed =
     (let (i, ed) = newBlockId ed
      in ed\<lparr>se_title := [], se_artist := [],
            se_blocks := [\<lparr>eb_id = i, eb_type = ''VERSE'', eb_title = ''Couplet 1'', eb_content = []\<rparr>],
            se_activeBlockId := None\<rparr>)"

definition editableOf :: "blockRow \<Rightarrow> editableBlock" where
  "editableOf b = \<lparr>eb_id = bl_id b, eb_type = bl_type b, eb_title = orElse (bl_title b) (bl_type b),
     eb_content = bl_content b\<rparr>"

definition firstId :: "editableBlock list \<Rightarrow> string option" where
  "firstId bs = (case bs of [] \<Rightarrow> None | b # _ \<Rightarrow> Some (eb_id b))"

text \<open>The answer of \<open>songs:get\<close>; a song that is not there leaves the editor as it was.\<close>

definition openSongEditor :: "(songRow \<times> blockRow list) option \<Rightarrow> songEditor \<Rightarrow> songEditor" where
  "openSongEditor song ed =
     (case song of
        None \<Rightarrow> ed
      | Some (r, bs) \<Rightarrow> ed\<lparr>se_title := so_title r, se_artist := orElse (so_artist r) [],
          se_blocks := map editableOf bs, se_activeBlockId := firstId (map editableOf bs)\<rparr>)"

definition activeBlock :: "songEditor \<Rightarrow> editableBlock option" where
  "activeBlock ed = Option.bind (se_activeBlockId ed) (\<lambda>i. find (\<lambda>b. eb_id b = i) (se_blocks ed))"

definition previewContent :: "songEditor \<Rightarrow> string" where
  "previewContent ed = (case activeBlock ed of None \<Rightarrow> [] | Some b \<Rightarrow> eb_content b)"

section \<open>Editing\<close>

definition updateBlock :: "string \<Rightarrow> (editableBlock \<Rightarrow> editableBlock) \<Rightarrow> songEditor \<Rightarrow> songEditor" where
  "updateBlock i f ed = ed\<lparr>se_blocks := map (\<lambda>b. if eb_id b = i then f b else b) (se_blocks ed)\<rparr>"

definition addBlock :: "songEditor \<Rightarrow> songEditor" where
  "addBlock ed =
     (let (i, ed) = newBlockId ed; n = length (filter (\<lambda>b. eb_type b = ''VERSE'') (se_blocks ed))
      in ed\<lparr>se_blocks := se_blocks ed @ [\<lparr>eb_id = i, eb_type = ''VERSE'', eb_title = ''Couplet '' @ show_nat (Suc n),
            eb_content = []\<rparr>], se_activeBlockId := Some i\<rparr>)"

definition removeBlock :: "string \<Rightarrow> songEditor \<Rightarrow> songEditor" where
  "removeBlock i ed =
     (let bs = filter (\<lambda>b. eb_id b \<noteq> i) (se_blocks ed)
      in ed\<lparr>se_blocks := bs, se_activeBlockId := (if se_activeBlockId ed = Some i then firstId bs else se_activeBlockId ed)\<rparr>)"

text \<open>
  A block dropped on another; \<open>splice\<close> takes the last element for the index \<open>-1\<close> of a block that is
  not there, and puts one back before the last.
\<close>

definition dragBlock :: "string \<Rightarrow> string option \<Rightarrow> songEditor \<Rightarrow> songEditor" where
  "dragBlock active over ed =
     (case over of
        None \<Rightarrow> ed
      | Some other \<Rightarrow>
          if active = other then ed
          else let bs = se_blocks ed; place = (\<lambda>i. index_of i (map eb_id bs))
               in ed\<lparr>se_blocks := moveArray bs (orElse (place active) (length bs - 1)) (orElse (place other) (length bs - 2))\<rparr>)"

datatype editorAction =
    SetTitle string | SetArtist string | SetBlockTitle string string | SetBlockType string string
  | SetContent string string | AddBlock | RemoveBlock string | DragBlock string "string option" | SelectBlock string

fun editorStep :: "editorAction \<Rightarrow> songEditor \<Rightarrow> songEditor" where
  "editorStep (SetTitle s) ed = ed\<lparr>se_title := s\<rparr>"
| "editorStep (SetArtist s) ed = ed\<lparr>se_artist := s\<rparr>"
| "editorStep (SetBlockTitle i s) ed = updateBlock i (\<lambda>b. b\<lparr>eb_title := s\<rparr>) ed"
| "editorStep (SetBlockType i s) ed = updateBlock i (\<lambda>b. b\<lparr>eb_type := s\<rparr>) ed"
| "editorStep (SetContent i s) ed = updateBlock i (\<lambda>b. b\<lparr>eb_content := s\<rparr>) ed"
| "editorStep AddBlock ed = addBlock ed"
| "editorStep (RemoveBlock i) ed = removeBlock i ed"
| "editorStep (DragBlock active over) ed = dragBlock active over ed"
| "editorStep (SelectBlock i) ed = ed\<lparr>se_activeBlockId := Some i\<rparr>"

section \<open>Saving\<close>

datatype editorMessage = TitleRequired | SaveFailed | SongUpdated | SongCreated

definition blockJson :: "nat \<Rightarrow> editableBlock \<Rightarrow> jsval" where
  "blockJson k b = JObj [(''order'', JNum (IntNum (int k + 1))), (''type'', JStr (eb_type b)),
     (''title'', JStr (if trim (eb_title b) = [] then eb_type b else trim (eb_title b))), (''content'', JStr (eb_content b))]"

definition blocksJson :: "string \<Rightarrow> songEditor \<Rightarrow> jsval" where
  "blocksJson songId ed = JObj [(''songId'', JStr songId), (''blocks'', JArr (map_idx blockJson (se_blocks ed)))]"

definition metaFields :: "songEditor \<Rightarrow> (string \<times> jsval) list" where
  "metaFields ed = [(''title'', JStr (trim (se_title ed))),
     (''artist'', if trim (se_artist ed) = [] then JUndef else JStr (trim (se_artist ed)))]"

text \<open>The messages and the song that the caller gets when the dialog closes\<close>

definition saveSong ::
  "'db songDb \<Rightarrow> string option \<Rightarrow> string option \<Rightarrow> songEditor \<Rightarrow> 'db \<times> jsonFolder
     \<Rightarrow> (editorMessage list \<times> (songRow \<times> blockRow list) option) \<times> 'db \<times> jsonFolder" where
  "saveSong S dirFn songId ed st =
     (if trim (se_title ed) = [] then (([TitleRequired], None), st)
      else case songId of
             Some i \<Rightarrow>
               (case songsUpdateMeta S dirFn (JObj ((''id'', JStr i) # metaFields ed)) st of
                  (Inl _, st) \<Rightarrow> (([SaveFailed], None), st)
                | (Inr _, st) \<Rightarrow>
                    (case songsReplaceBlocks S dirFn (blocksJson i ed) st of
                       (Inr (Some song), st) \<Rightarrow> (([SongUpdated], Some song), st)
                     | (_, st) \<Rightarrow> (([SaveFailed], None), st)))
           | None \<Rightarrow>
               (case songsCreate S dirFn (JObj (metaFields ed)) st of
                  (Inl _, st) \<Rightarrow> (([SaveFailed], None), st)
                | (Inr created, st) \<Rightarrow>
                    (case songsReplaceBlocks S dirFn (blocksJson (so_id (fst created)) ed) st of
                       (Inl _, st) \<Rightarrow> (([SaveFailed], None), st)
                     | (Inr withBlocks, st) \<Rightarrow> (([SongCreated], Some (orElse withBlocks created)), st))))"

section \<open>Keys of the blocks\<close>

text \<open>The blocks of the list keep distinct keys, which neither the database nor an older block has.\<close>

definition keysOk :: "songEditor \<Rightarrow> bool" where
  "keysOk ed \<longleftrightarrow> distinct (map eb_id (se_blocks ed))
     \<and> (\<forall>n > se_counter ed. ''new-'' @ show_nat n \<notin> eb_id ` set (se_blocks ed))"

lemma addBlock_keys: "keysOk ed \<Longrightarrow> keysOk (addBlock ed)"
  by (auto simp: keysOk_def addBlock_def newBlockId_def Let_def dest: show_nat_inj)

lemma keysOk_cong:
  "mset (map eb_id (se_blocks ed')) = mset (map eb_id (se_blocks ed)) \<Longrightarrow> se_counter ed' = se_counter ed \<Longrightarrow>
     keysOk ed \<Longrightarrow> keysOk ed'"
  by (metis keysOk_def mset_eq_imp_distinct_iff mset_eq_setD set_map)

lemma updateBlock_keys:
  assumes "\<And>b. eb_id (f b) = eb_id b" and "keysOk ed"
  shows "keysOk (updateBlock i f ed)"
proof (rule keysOk_cong [OF _ _ assms(2)])
  show "mset (map eb_id (se_blocks (updateBlock i f ed))) = mset (map eb_id (se_blocks ed))"
    by (rule arg_cong [of _ _ mset]) (simp add: updateBlock_def assms(1))
qed (simp add: updateBlock_def)

lemma drag_mset: "mset (se_blocks (dragBlock active over ed)) = mset (se_blocks ed)"
  by (simp add: dragBlock_def Let_def split: option.split)

lemma editor_keys: "keysOk ed \<Longrightarrow> keysOk (editorStep a ed)"
proof (cases a)
  case AddBlock
  then show "keysOk ed \<Longrightarrow> keysOk (editorStep a ed)" by (simp add: addBlock_keys)
next
  case (DragBlock active over)
  have "mset (map eb_id (se_blocks (dragBlock active over ed))) = mset (map eb_id (se_blocks ed))"
    by (simp add: drag_mset)
  then show "keysOk ed \<Longrightarrow> keysOk (editorStep a ed)"
    using DragBlock by (auto elim!: keysOk_cong [rotated 2] simp: dragBlock_def Let_def split: option.split)
next
  case (RemoveBlock i)
  then show "keysOk ed \<Longrightarrow> keysOk (editorStep a ed)"
    by (auto simp: keysOk_def removeBlock_def Let_def intro!: distinct_map_filter)
qed (auto intro!: updateBlock_keys simp: keysOk_def [of "_\<lparr>se_title := _\<rparr>"] keysOk_def [of "_\<lparr>se_artist := _\<rparr>"]
    keysOk_def [of "_\<lparr>se_activeBlockId := _\<rparr>"] keysOk_def [of ed])

section \<open>What is saved\<close>

definition savedBlocks :: "songEditor \<Rightarrow> songBlockPayload list" where
  "savedBlocks ed = map_idx (\<lambda>k b. \<lparr>rb_order = int k + 1, rb_type = eb_type b,
     rb_title = Some (if trim (eb_title b) = [] then eb_type b else trim (eb_title b)), rb_content = eb_content b\<rparr>) (se_blocks ed)"

definition savedMeta :: "string \<Rightarrow> songEditor \<Rightarrow> songUpdateMetaPayload" where
  "savedMeta i ed = \<lparr>su_id = i, su_title = trim (se_title ed), su_artist = trimmedOr (Val (se_artist ed)),
     su_album = None, su_year = None\<rparr>"

text \<open>The song of the library after it\<close>

definition editedSong :: "songEditor \<Rightarrow> importSong \<Rightarrow> importSong" where
  "editedSong ed s = s\<lparr>im_title := trim (se_title ed), im_artist := orOption (trimmedOr (Val (se_artist ed))) (im_artist s),
     im_blocks := savedBlocks ed\<rparr>"

lemma orders_inOrder: "inOrder (savedBlocks ed) = savedBlocks ed" "ordersOk (savedBlocks ed)"
proof -
  have orders: "map rb_order (savedBlocks ed) = map (\<lambda>k. int k + 1) [0..<length (se_blocks ed)]"
    by (simp add: savedBlocks_def map_idx_index)
  then have "sorted_wrt (<) (map rb_order (savedBlocks ed))"
    by (simp add: sorted_numbers)
  then show "inOrder (savedBlocks ed) = savedBlocks ed"
    using inOrder_unique [of "savedBlocks ed" "savedBlocks ed"] by simp
  show "ordersOk (savedBlocks ed)"
    by (simp add: ordersOk_def orders distinct_map inj_on_def)
qed

lemma trimmed_artist:
  "optionalText (if trim a = [] then JUndef else JStr (trim a)) label = Inr (trimmedOr (Val a))"
  by (simp add: text_fields trimmedOr_def)

lemma meta_parsed:
  assumes "cleanId i" and "trim (se_title ed) \<noteq> []"
  shows "parseSongUpdateMetaPayload (JObj ((''id'', JStr i) # metaFields ed)) = Inr (savedMeta i ed)"
    and "parseSongCreatePayload (JObj (metaFields ed)) = Inr \<lparr>sc_title = trim (se_title ed),
       sc_artist = trimmedOr (Val (se_artist ed)), sc_album = None, sc_year = None\<rparr>"
  using assms by (simp_all add: parseSongUpdateMetaPayload_def parseSongCreatePayload_def metaFields_def savedMeta_def
      payload_fields trimmed_artist cleanId_def)

lemma block_json_parsed:
  assumes "cleanId (eb_type b)"
  shows "parseSongBlock j (blockJson k b) = Inr \<lparr>rb_order = int k + 1, rb_type = eb_type b,
     rb_title = Some (if trim (eb_title b) = [] then eb_type b else trim (eb_title b)), rb_content = eb_content b\<rparr>"
proof -
  have "trimmedOr (Val (if trim (eb_title b) = [] then eb_type b else trim (eb_title b)))
      = Some (if trim (eb_title b) = [] then eb_type b else trim (eb_title b))"
    using assms by (simp add: trimmedOr_def cleanId_def)
  moreover have "expectNumber True (Some 1) None (JNum (IntNum (int k + 1))) label = Inr (IntNum (int k + 1))" for label
    by (simp add: expectNumber_def num_isInteger_IntNum)
  moreover have "expectString False True (JStr s) label = Inr s" for s label
    by (simp add: expectString_def)
  moreover have "num_int (Fin (rat_of_nat k + 1)) = int k + 1"
    by (simp add: num_int_def floor_add_int [symmetric])
  ultimately show ?thesis
    using assms by (simp add: parseSongBlock_def blockJson_def payload_fields Let_def)
qed

lemma blocks_parsed:
  assumes "cleanId i" and "\<forall>b \<in> set (se_blocks ed). cleanId (eb_type b)"
  shows "parseSongReplaceBlocksPayload (blocksJson i ed) = Inr (i, savedBlocks ed)"
proof -
  have "traverse_from j parseSongBlock (map_idx_from k blockJson bs) = Inr (map_idx_from k (\<lambda>k b. \<lparr>rb_order = int k + 1,
      rb_type = eb_type b, rb_title = Some (if trim (eb_title b) = [] then eb_type b else trim (eb_title b)),
      rb_content = eb_content b\<rparr>) bs)" if "\<forall>b \<in> set bs. cleanId (eb_type b)" for j k bs
    using that by (induction bs arbitrary: j k) (simp_all add: block_json_parsed)
  then show ?thesis
    using assms by (simp add: parseSongReplaceBlocksPayload_def blocksJson_def payload_fields savedBlocks_def)
qed

context song_store
begin

lemma library_row:
  assumes "ok db" and "library S db i = Some s"
  shows "\<exists>r. rows db i = Some r \<and> so_deletedAt r = None \<and> viewOf r (findBlocks S db (blocksOf i)) = s"
  using assms by (auto simp: library_def find_song split: option.splits if_splits)

lemma saved_result:
  assumes "ok db" and "library S db i = Some s" and "cleanId i" and "trim (se_title ed) \<noteq> []"
    and "\<forall>b \<in> set (se_blocks ed). cleanId (eb_type b)"
  shows "\<exists>r bs db' files'. saveSong S dirFn (Some i) ed (db, files) = (([SongUpdated], Some (r, bs)), db', files')
     \<and> ok db' \<and> library S db' = (library S db)(i \<mapsto> editedSong ed s) \<and> viewOf r bs = editedSong ed s"
proof -
  obtain r0 where r0: "rows db i = Some r0"
    using library_row [OF assms(1,2)] by blast
  have i: "su_id (savedMeta i ed) = i"
    by (simp add: savedMeta_def)
  obtain r1 db1 files1 where meta: "songsUpdateMeta S dirFn (JObj ((''id'', JStr i) # metaFields ed)) (db, files)
        = (Inr (Some r1), db1, files1)" "ok db1"
      "library S db1 = editSong i (metaOf (savedMeta i ed)) (library S db)"
    using songsUpdateMeta_result [OF assms(1) meta_parsed(1) [OF assms(3,4)], of r0 dirFn files] r0 i by auto
  have lib1: "library S db1 i = Some (metaOf (savedMeta i ed) s)"
    using assms(2) by (simp add: meta(3) editSong_def)
  then obtain r where r: "rows db1 i = Some r" "viewOf r (findBlocks S db1 (blocksOf i)) = metaOf (savedMeta i ed) s"
    using library_row [OF meta(2)] by blast
  obtain cs db' where rep: "songsReplaceBlocks S dirFn (blocksJson i ed) (db1, files1)
        = (Inr (Some (r, cs)), db', writeSongJsonAutoSync dirFn (r, cs) files1)"
      "ok db'" "map blockPayload cs = savedBlocks ed"
      "library S db' = editSong i (\<lambda>s. s\<lparr>im_blocks := savedBlocks ed\<rparr>) (library S db1)"
    using songsReplaceBlocks_result [OF meta(2) blocks_parsed [OF assms(3,5)] r(1), of dirFn files1] orders_inOrder [of ed]
    by auto
  have edited: "(metaOf (savedMeta i ed) s)\<lparr>im_blocks := savedBlocks ed\<rparr> = editedSong ed s"
    by (simp add: editedSong_def metaOf_def savedMeta_def)
  have "viewOf r cs = (viewOf r (findBlocks S db1 (blocksOf i)))\<lparr>im_blocks := savedBlocks ed\<rparr>"
    by (simp add: viewOf_def rep(3))
  then have "viewOf r cs = editedSong ed s"
    by (simp add: r(2) edited)
  moreover have "library S db' = (library S db)(i \<mapsto> editedSong ed s)"
    using lib1 edited by (simp add: rep(4) editSong_def) (simp add: meta(3) editSong_def)
  ultimately show ?thesis
    using assms(4) meta(1) rep(1,2) by (simp add: saveSong_def)
qed

end

text \<open>What the editor shows of its blocks, and what it shows of them after they were saved\<close>

definition shownBlocks :: "songEditor \<Rightarrow> (string \<times> string \<times> string) list" where
  "shownBlocks ed = map (\<lambda>b. (eb_type b, eb_title b, eb_content b)) (se_blocks ed)"

definition tidyTitle :: "string \<times> string \<times> string \<Rightarrow> string \<times> string \<times> string" where
  "tidyTitle b = (case b of (ty, title, content) \<Rightarrow> (ty, if trim title = [] then ty else trim title, content))"

lemma shown_payloads:
  "shownBlocks (openSongEditor (Some (r, bs)) ed)
     = map (\<lambda>b. (rb_type b, orElse (rb_title b) (rb_type b), rb_content b)) (im_blocks (viewOf r bs))"
  by (simp add: shownBlocks_def openSongEditor_def editableOf_def viewOf_def blockPayload_def)

lemma saved_shown:
  "map (\<lambda>b. (rb_type b, orElse (rb_title b) (rb_type b), rb_content b)) (savedBlocks ed) = map tidyTitle (shownBlocks ed)"
  by (simp add: savedBlocks_def shownBlocks_def tidyTitle_def map_idx_const cong: if_cong)

text \<open>
  C25: A song that is edited and saved is in the library with the title and exactly the blocks of
  the editor in their order, numbered from 1, with the artist of the editor unless it was emptied,
  which keeps the old one, with nothing else of it and no other song changed; and opened again the
  editor shows what was saved, up to blanks around the texts and titles of blocks that were left
  empty, which become the type. It takes a song that is not deleted and a title that is not empty.
\<close>

theorem edited_song_saved:
  assumes "song_store S rows blocks ok" and "ok db" and "library S db i = Some s" and "cleanId i"
    and "trim (se_title ed) \<noteq> []" and "\<forall>b \<in> set (se_blocks ed). cleanId (eb_type b)"
  shows "\<exists>song db' files'. saveSong S dirFn (Some i) ed (db, files) = (([SongUpdated], Some song), db', files') \<and> ok db'
     \<and> library S db' = (library S db)(i \<mapsto> editedSong ed s)
     \<and> se_title (openSongEditor (Some song) ed') = trim (se_title ed)
     \<and> se_artist (openSongEditor (Some song) ed')
         = (if trim (se_artist ed) = [] then orElse (im_artist s) [] else trim (se_artist ed))
     \<and> shownBlocks (openSongEditor (Some song) ed') = map tidyTitle (shownBlocks ed)"
proof -
  obtain r bs db' files' where saved: "saveSong S dirFn (Some i) ed (db, files) = (([SongUpdated], Some (r, bs)), db', files')"
      "ok db'" "library S db' = (library S db)(i \<mapsto> editedSong ed s)" "viewOf r bs = editedSong ed s"
    using song_store.saved_result [OF assms] by blast
  have "so_title r = im_title (viewOf r bs)" "so_artist r = im_artist (viewOf r bs)"
    by (simp_all add: viewOf_def)
  then have "so_title r = trim (se_title ed)" "so_artist r = orOption (trimmedOr (Val (se_artist ed))) (im_artist s)"
    by (simp_all add: saved(4) editedSong_def)
  moreover have "shownBlocks (openSongEditor (Some (r, bs)) ed') = map tidyTitle (shownBlocks ed)"
    by (simp add: shown_payloads saved(4) editedSong_def saved_shown)
  ultimately show ?thesis
    using saved(1-3) by (simp add: openSongEditor_def trimmedOr_def)
qed

definition emptyEditor :: songEditor where
  "emptyEditor = \<lparr>se_title = [], se_artist = [], se_blocks = [], se_activeBlockId = None, se_counter = 0\<rparr>"

definition graceEdited :: songEditor where
  "graceEdited = fold editorStep [SetTitle '' Hosanna '', AddBlock, SetContent ''new-1'' ''lo'']
     (openSongEditor (songWithBlocks churchSongs graceChurch ''0'') emptyEditor)"

theorem edited_song_saved_witness:
  "\<exists>song db' files'. saveSong churchSongs None (Some ''0'') graceEdited (graceChurch, Map.empty)
       = (([SongUpdated], Some song), db', files')
     \<and> map_option im_title (library churchSongs db' ''0'') = Some ''Hosanna''
     \<and> shownBlocks (openSongEditor (Some song) emptyEditor)
         = [(''VERSE'', ''VERSE'', ''la''), (''VERSE'', ''Couplet 2'', ''lo'')]"
proof -
  have "library churchSongs graceChurch ''0'' \<noteq> None"
    by code_simp
  then obtain s where s: "library churchSongs graceChurch ''0'' = Some s" by blast
  have h: "cleanId ''0''" "trim (se_title graceEdited) \<noteq> []" "\<forall>b \<in> set (se_blocks graceEdited). cleanId (eb_type b)"
    by (code_simp, code_simp, code_simp)
  have t: "trim (se_title graceEdited) = ''Hosanna''"
    "map tidyTitle (shownBlocks graceEdited) = [(''VERSE'', ''VERSE'', ''la''), (''VERSE'', ''Couplet 2'', ''lo'')]"
    by (code_simp, code_simp)
  from edited_song_saved [OF church_song_store sampleChurch_ok(2) s h, of None Map.empty emptyEditor] obtain song db' files' where
      "saveSong churchSongs None (Some ''0'') graceEdited (graceChurch, Map.empty) = (([SongUpdated], Some song), db', files')"
      "library churchSongs db' = (library churchSongs graceChurch)(''0'' \<mapsto> editedSong graceEdited s)"
      "shownBlocks (openSongEditor (Some song) emptyEditor) = map tidyTitle (shownBlocks graceEdited)"
    by blast
  then show ?thesis
    by (simp add: t editedSong_def)
qed

section \<open>A new song\<close>

text \<open>A song that is written and saved is in the library under a new identifier, with the blocks of the editor.\<close>

lemma new_song_saved:
  assumes "song_store S rows blocks ok" and "ok db" and "trim (se_title ed) \<noteq> []"
    and "\<forall>b \<in> set (se_blocks ed). cleanId (eb_type b)" and "\<forall>db. ok db \<longrightarrow> (\<forall>i \<in> dom (rows db). cleanId i)"
  shows "\<exists>i song db' files'. saveSong S dirFn None ed (db, files) = (([SongCreated], Some song), db', files') \<and> ok db'
     \<and> library S db i = None \<and> library S db' = (library S db)(i \<mapsto> \<lparr>im_title = trim (se_title ed),
          im_artist = trimmedOr (Val (se_artist ed)), im_album = None, im_year = None, im_language = None,
          im_tags = None, im_blocks = savedBlocks ed\<rparr>)"
proof -
  let ?p = "\<lparr>sc_title = trim (se_title ed), sc_artist = trimmedOr (Val (se_artist ed)), sc_album = None, sc_year = None\<rparr>"
  have "cleanId ''0''"
    by code_simp
  then obtain r bs db1 where created: "songsCreate S dirFn (JObj (metaFields ed)) (db, files)
        = (Inr (r, bs), db1, writeSongJsonAutoSync dirFn (r, bs) files)" "ok db1" "so_id r \<notin> dom (rows db)"
      "library S db1 = (library S db)(so_id r \<mapsto> createdSong ?p)"
    using song_store.songsCreate_result [OF assms(1,2) meta_parsed(2) [OF _ assms(3)], of _ dirFn files] by blast
  then have lib1: "library S db1 (so_id r) = Some (createdSong ?p)"
    by simp
  then obtain r1 where r1: "rows db1 (so_id r) = Some r1"
    using song_store.library_row [OF assms(1) created(2)] by blast
  then have i: "cleanId (so_id r)"
    using assms(5) created(2) by blast
  obtain cs db' where rep: "songsReplaceBlocks S dirFn (blocksJson (so_id r) ed) (db1, writeSongJsonAutoSync dirFn (r, bs) files)
        = (Inr (Some (r1, cs)), db', writeSongJsonAutoSync dirFn (r1, cs) (writeSongJsonAutoSync dirFn (r, bs) files))"
      "ok db'" "library S db' = editSong (so_id r) (\<lambda>s. s\<lparr>im_blocks := savedBlocks ed\<rparr>) (library S db1)"
    using song_store.songsReplaceBlocks_result [OF assms(1) created(2) blocks_parsed [OF i assms(4)] r1,
        of dirFn "writeSongJsonAutoSync dirFn (r, bs) files"] orders_inOrder [of ed] by auto
  have "library S db' = (library S db)(so_id r \<mapsto> (createdSong ?p)\<lparr>im_blocks := savedBlocks ed\<rparr>)"
    by (simp add: rep(3) editSong_def lib1) (simp add: created(4))
  moreover have "library S db (so_id r) = None"
    using song_store.library_missing [OF assms(1,2)] created(3) by blast
  ultimately show ?thesis
    using assms(3) created(1) rep(1,2)
    by (intro exI [of _ "so_id r"] exI [of _ "(r1, cs)"]) (simp add: saveSong_def createdSong_def)
qed

text \<open>A song that is no longer there opens with what the editor held before, and its keys.\<close>

lemma missing_song_keeps_editor: "openSongEditor None ed = ed"
  by (simp add: openSongEditor_def)

text \<open>When the blocks cannot be saved, the new song stays with the blocks that every new song has.\<close>

lemma failed_blocks_leave_song:
  assumes "trim (se_title ed) \<noteq> []" and "songsCreate S dirFn (JObj (metaFields ed)) st = (Inr created, st1)"
    and "songsReplaceBlocks S dirFn (blocksJson (so_id (fst created)) ed) st1 = (Inl e, st1)"
  shows "saveSong S dirFn None ed st = (([SaveFailed], None), st1)"
  using assms by (simp add: saveSong_def)

end
