(* ===== verification/SettingsForm.thy ===== *)
theory SettingsForm
  imports Projector
begin

text \<open>
  The settings dialog, \<open>components/dialogs/SettingsDialog.tsx\<close>: the form of the appearance with its
  presets, what it applies, the theme and the screens. The answers of the pickers of files are
  arguments; the tabs, the marks of progress and the styles of the preview are left out.
\<close>

section \<open>The form\<close>

record settingsForm =
  sf_bgMode :: cpBackgroundFillMode
  sf_bg :: string
  sf_bgFrom :: string
  sf_bgTo :: string
  sf_bgAngle :: jsnum
  sf_bgImage :: string
  sf_fgMode :: cpForegroundFillMode
  sf_fg :: string
  sf_fgFrom :: string
  sf_fgTo :: string
  sf_textFont :: string
  sf_textFontPath :: string
  sf_textFontLabel :: string
  sf_textScale :: jsnum
  sf_titleTextScale :: jsnum
  sf_logoPath :: string
  sf_logoPosition :: cpLogoPosition
  sf_logoOpacity :: jsnum
  sf_logoScale :: jsnum

definition initialForm :: settingsForm where
  "initialForm = \<lparr>sf_bgMode = BG_SOLID, sf_bg = ''#000000'', sf_bgFrom = ''#000000'', sf_bgTo = ''#1e1b4b'',
     sf_bgAngle = IntNum 180, sf_bgImage = [], sf_fgMode = FG_SOLID, sf_fg = ''#ffffff'', sf_fgFrom = ''#ffffff'',
     sf_fgTo = ''#a5b4fc'', sf_textFont = ''system-ui'', sf_textFontPath = [], sf_textFontLabel = [],
     sf_textScale = IntNum 1, sf_titleTextScale = IntNum 1, sf_logoPath = [], sf_logoPosition = BottomRight,
     sf_logoOpacity = IntNum 80, sf_logoScale = IntNum 100\<rparr>"

text \<open>The form as it opens, from the answer of \<open>projection:getState\<close>\<close>

definition openForm :: "cpProjectionState \<Rightarrow> settingsForm" where
  "openForm s = \<lparr>sf_bgMode = orElse (ps_backgroundMode s) BG_SOLID, sf_bg = ps_background s,
     sf_bgFrom = orElse (ps_backgroundGradientFrom s) ''#000000'', sf_bgTo = orElse (ps_backgroundGradientTo s) ''#1e1b4b'',
     sf_bgAngle = orElse (ps_backgroundGradientAngle s) (IntNum 180), sf_bgImage = orElse (ps_backgroundImage s) [],
     sf_fgMode = orElse (ps_foregroundMode s) FG_SOLID, sf_fg = ps_foreground s,
     sf_fgFrom = orElse (ps_foregroundGradientFrom s) ''#ffffff'', sf_fgTo = orElse (ps_foregroundGradientTo s) ''#a5b4fc'',
     sf_textFont = ps_textFont s, sf_textFontPath = orElse (ps_textFontPath s) [],
     sf_textFontLabel = (case ps_textFontPath s of Some (c # path) \<Rightarrow> fileNameOf (c # path) | _ \<Rightarrow> []),
     sf_textScale = ps_textScale s, sf_titleTextScale = orElse (ps_titleTextScale s) (ps_textScale s),
     sf_logoPath = orElse (ps_logoPath s) [], sf_logoPosition = orElse (ps_logoPosition s) BottomRight,
     sf_logoOpacity = orElse (ps_logoOpacity s) (IntNum 80), sf_logoScale = orElse (ps_logoScale s) (IntNum 100)\<rparr>"

record projectionPreset =
  pp_id :: string
  pp_backgroundMode :: cpBackgroundFillMode
  pp_background :: string
  pp_backgroundGradientFrom :: string
  pp_backgroundGradientTo :: string
  pp_backgroundGradientAngle :: jsnum
  pp_foregroundMode :: cpForegroundFillMode
  pp_foreground :: string
  pp_foregroundGradientFrom :: string
  pp_foregroundGradientTo :: string
  pp_textScale :: jsnum
  pp_titleTextScale :: jsnum
  pp_textFont :: string

definition PROJECTION_PRESETS :: "projectionPreset list" where
  "PROJECTION_PRESETS =
     [\<lparr>pp_id = ''classic'', pp_backgroundMode = BG_SOLID, pp_background = ''#060606'',
       pp_backgroundGradientFrom = ''#060606'', pp_backgroundGradientTo = ''#060606'',
       pp_backgroundGradientAngle = IntNum 180, pp_foregroundMode = FG_SOLID, pp_foreground = ''#ffffff'',
       pp_foregroundGradientFrom = ''#ffffff'', pp_foregroundGradientTo = ''#ffffff'', pp_textScale = IntNum 1,
       pp_titleTextScale = Fin (92 / 100), pp_textFont = ''system-ui''\<rparr>,
      \<lparr>pp_id = ''warm'', pp_backgroundMode = BG_GRADIENT_LINEAR, pp_background = ''#141414'',
       pp_backgroundGradientFrom = ''#1f2937'', pp_backgroundGradientTo = ''#7c2d12'',
       pp_backgroundGradientAngle = IntNum 155, pp_foregroundMode = FG_SOLID, pp_foreground = ''#fff7ed'',
       pp_foregroundGradientFrom = ''#fff7ed'', pp_foregroundGradientTo = ''#fff7ed'', pp_textScale = Fin (105 / 100),
       pp_titleTextScale = Fin (95 / 100), pp_textFont = ''Georgia, serif''\<rparr>,
      \<lparr>pp_id = ''contrast'', pp_backgroundMode = BG_GRADIENT_RADIAL, pp_background = ''#0f172a'',
       pp_backgroundGradientFrom = ''#0f172a'', pp_backgroundGradientTo = ''#020617'',
       pp_backgroundGradientAngle = IntNum 180, pp_foregroundMode = FG_GRADIENT, pp_foreground = ''#ffffff'',
       pp_foregroundGradientFrom = ''#ffffff'', pp_foregroundGradientTo = ''#38bdf8'', pp_textScale = Fin (12 / 10),
       pp_titleTextScale = Fin (108 / 100), pp_textFont = ''Arial, sans-serif''\<rparr>]"

definition applyPreset :: "projectionPreset \<Rightarrow> settingsForm \<Rightarrow> settingsForm" where
  "applyPreset p f = f\<lparr>sf_bgMode := pp_backgroundMode p, sf_bg := pp_background p,
     sf_bgFrom := pp_backgroundGradientFrom p, sf_bgTo := pp_backgroundGradientTo p,
     sf_bgAngle := pp_backgroundGradientAngle p, sf_bgImage := [], sf_fgMode := pp_foregroundMode p,
     sf_fg := pp_foreground p, sf_fgFrom := pp_foregroundGradientFrom p, sf_fgTo := pp_foregroundGradientTo p,
     sf_textFont := pp_textFont p, sf_textFontPath := [], sf_textFontLabel := [], sf_textScale := pp_textScale p,
     sf_titleTextScale := pp_titleTextScale p\<rparr>"

text \<open>A font of the system, and a file that was picked; \<open>validation\<close> gives its family, or that it is not valid.\<close>

definition chooseFont :: "string \<Rightarrow> settingsForm \<Rightarrow> settingsForm" where
  "chooseFont font f = f\<lparr>sf_textFont := font, sf_textFontPath := [], sf_textFontLabel := []\<rparr>"

definition handlePickFont :: "string option \<Rightarrow> string option option \<Rightarrow> settingsForm \<Rightarrow> settingsForm" where
  "handlePickFont picked validation f =
     (case (picked, validation) of
        (Some (c # path), Some family) \<Rightarrow>
          f\<lparr>sf_textFontPath := c # path, sf_textFontLabel := fileNameOf (c # path), sf_textFont := orElse family ''custom''\<rparr>
      | _ \<Rightarrow> f)"

definition handlePickLogo :: "string option \<Rightarrow> settingsForm \<Rightarrow> settingsForm" where
  "handlePickLogo picked f = (case picked of Some (c # path) \<Rightarrow> f\<lparr>sf_logoPath := c # path\<rparr> | _ \<Rightarrow> f)"

definition handlePickBgImage :: "string option \<Rightarrow> settingsForm \<Rightarrow> settingsForm" where
  "handlePickBgImage picked f = (case picked of Some (c # path) \<Rightarrow> f\<lparr>sf_bgImage := c # path\<rparr> | _ \<Rightarrow> f)"

section \<open>What it applies\<close>

datatype settingsMessage = AppearanceApplied | LogoRemoved

definition appearanceOf :: "settingsForm \<Rightarrow> cpProjectionSetAppearancePayload" where
  "appearanceOf f = \<lparr>ap_textScale = Some (sf_textScale f), ap_titleTextScale = Some (sf_titleTextScale f),
     ap_textFont = Some (sf_textFont f), ap_textFontPath = Some (sf_textFontPath f), ap_background = Some (sf_bg f),
     ap_backgroundMode = Some (sf_bgMode f), ap_backgroundGradientFrom = Some (sf_bgFrom f),
     ap_backgroundGradientTo = Some (sf_bgTo f), ap_backgroundGradientAngle = Some (sf_bgAngle f),
     ap_backgroundImage = Some (sf_bgImage f), ap_logoPath = Some (sf_logoPath f),
     ap_logoPosition = Some (sf_logoPosition f), ap_logoOpacity = Some (sf_logoOpacity f),
     ap_logoScale = Some (sf_logoScale f), ap_foregroundMode = Some (sf_fgMode f),
     ap_foregroundGradientFrom = Some (sf_fgFrom f), ap_foregroundGradientTo = Some (sf_fgTo f),
     ap_foreground = Some (sf_fg f)\<rparr>"

text \<open>An error of the main process is not caught, so that there is no message.\<close>

definition sendAppearance ::
  "(screenKey \<Rightarrow> int) \<Rightarrow> int \<Rightarrow> string \<Rightarrow> settingsMessage \<Rightarrow> jsval \<Rightarrow> appState \<Rightarrow> settingsMessage list \<times> appState" where
  "sendAppearance now t uuid m patch app =
     (case projectionSetAppearance now t uuid patch app of Inl _ \<Rightarrow> ([], app) | Inr (app, _) \<Rightarrow> ([m], app))"

definition handleApplyAppearance ::
  "(screenKey \<Rightarrow> int) \<Rightarrow> int \<Rightarrow> string \<Rightarrow> settingsForm \<Rightarrow> appState \<Rightarrow> settingsMessage list \<times> appState" where
  "handleApplyAppearance now t uuid f = sendAppearance now t uuid AppearanceApplied (encodeAppearance (appearanceOf f))"

definition handleClearLogo ::
  "(screenKey \<Rightarrow> int) \<Rightarrow> int \<Rightarrow> string \<Rightarrow> settingsForm \<Rightarrow> appState \<Rightarrow> settingsForm \<times> settingsMessage list \<times> appState" where
  "handleClearLogo now t uuid f app =
     (f\<lparr>sf_logoPath := []\<rparr>, sendAppearance now t uuid LogoRemoved (JObj [(''logoPath'', JStr [])]) app)"

definition handleSetTheme :: "int \<Rightarrow> cpTheme \<Rightarrow> appState \<Rightarrow> cpTheme \<times> appState" where
  "handleSetTheme t theme app = (theme, fst (settingsSetTheme t (JStr (nameIn THEMES theme)) app))"

text \<open>The screens; closing asks the window to close, and the list is read before it has.\<close>

definition handleToggleScreen :: "screenKey \<Rightarrow> bool \<Rightarrow> projectorState \<Rightarrow> screenMeta list \<times> projectorState" where
  "handleToggleScreen key isOpen st =
     (let st = (if isOpen then st else openWindow key st)
      in (screensList st, st))"

definition mirrorJson :: "screenMirrorMode \<Rightarrow> jsval" where
  "mirrorJson m = (case m of FREE \<Rightarrow> JObj [(''kind'', JStr ''FREE'')]
     | MIRROR src \<Rightarrow> JObj [(''kind'', JStr ''MIRROR''), (''from'', JStr (screenName src))])"

definition handleSetMirror ::
  "(screenKey \<Rightarrow> int) \<Rightarrow> int \<Rightarrow> string \<Rightarrow> screenKey \<Rightarrow> screenMirrorMode \<Rightarrow> projectorState
     \<Rightarrow> (screenMeta list \<times> projectorState) option" where
  "handleSetMirror now t uuid key m st =
     (case screensSetMirror now t uuid (JStr (screenName key)) (mirrorJson m) (pj_app st) of
        Inl _ \<Rightarrow> None
      | Inr app \<Rightarrow> let st = st\<lparr>pj_app := app\<rparr> in Some (screensList st, st))"

section \<open>What is applied is shown again\<close>

text \<open>A form that the inputs of the dialog can make: colours, finite numbers, trimmed paths, the label of the font\<close>

definition formOk :: "settingsForm \<Rightarrow> bool" where
  "formOk f \<longleftrightarrow> list_all num_isFinite [sf_bgAngle f, sf_textScale f, sf_titleTextScale f, sf_logoOpacity f, sf_logoScale f]
     \<and> list_all textOk [sf_bg f, sf_bgFrom f, sf_bgTo f, sf_fg f, sf_fgFrom f, sf_fgTo f, sf_textFont f]
     \<and> list_all trimmed [sf_bgImage f, sf_textFontPath f, sf_logoPath f]
     \<and> sf_textFontLabel f = (if sf_textFontPath f = [] then [] else fileNameOf (sf_textFontPath f))"

lemma presets_ok: "formOk f \<Longrightarrow> list_all (\<lambda>p. formOk (applyPreset p f)) PROJECTION_PRESETS"
  by (simp add: PROJECTION_PRESETS_def formOk_def applyPreset_def textOk_def trimmed_def js_space_def)

lemma appearanceOf_ok: "formOk f \<Longrightarrow> appearanceOk (appearanceOf f)"
  by (simp add: formOk_def appearanceOk_def appearanceOf_def)

lemma openForm_patched: "formOk f \<Longrightarrow> openForm ((patchAppearance (appearanceOf f) s)\<lparr>ps_updatedAt := u\<rparr>) = f"
  by (cases "sf_textFontPath f") (simp_all add: openForm_def patchAppearance_def appearanceOf_def formOk_def)

lemma persist_context [simp]:
  "rt_ctx (persistProjectionAppearanceForScreen t uuid key app) = rt_ctx app"
  by (simp add: persistProjectionAppearanceForScreen_def syncActiveProfileFromRuntime_def Let_def split: option.split)

text \<open>
  A form that is applied while screen A is free and not locked is what the dialog shows when it is
  opened again, and what a screen that mirrors A has too.
\<close>

lemma applied_form_shown:
  assumes "formOk f" and "mirrors (rt_ctx app) ScreenA = FREE" and "\<not> lv_lockedScreens (liveState (rt_ctx app)) ScreenA"
  shows "\<exists>app'. handleApplyAppearance now t uuid f app = ([AppearanceApplied], app')
     \<and> openForm (projectionGetState app') = f
     \<and> (\<forall>k. mirrors (rt_ctx app) k = MIRROR ScreenA \<longrightarrow> openForm (screenStates (rt_ctx app') k) = f)"
proof -
  have guard: "guardScreen (rt_ctx app) ScreenA = None"
    using assms(2,3) by (simp add: guardScreen_None_iff)
  have parsed: "parseProjectionSetAppearancePayload (encodeAppearance (appearanceOf f)) = Inr (appearanceOf f)"
    by (rule parse_encodeAppearance [OF appearanceOf_ok [OF assms(1)]])
  let ?c = "commitScreen now (rt_ctx app) ScreenA (patchAppearance (appearanceOf f) (screenStates (rt_ctx app) ScreenA))"
  have "\<exists>app'. handleApplyAppearance now t uuid f app = ([AppearanceApplied], app') \<and> rt_ctx app' = fst ?c"
    by (cases ?c) (simp add: handleApplyAppearance_def sendAppearance_def projectionSetAppearance_def parsed appearanceHandler_def
        onCtx_def setAppearance_def guard)
  then show ?thesis
    by (auto simp: projectionGetState_def commitScreen_states openForm_patched [OF assms(1)])
qed

text \<open>On a locked screen A the dialog says that the appearance was applied, which it was not.\<close>

lemma locked_appearance_reported_as_applied:
  assumes "formOk f" and "lv_lockedScreens (liveState (rt_ctx app)) ScreenA"
  shows "handleApplyAppearance now t uuid f app = ([AppearanceApplied], app)"
proof -
  have parsed: "parseProjectionSetAppearancePayload (encodeAppearance (appearanceOf f)) = Inr (appearanceOf f)"
    by (rule parse_encodeAppearance [OF appearanceOf_ok [OF assms(1)]])
  show ?thesis
    using appset.setter_locked_mirror_refused [of "rt_ctx app" ScreenA now "appearanceOf f"] assms(2)
    by (cases "setAppearance now (rt_ctx app) ScreenA (appearanceOf f)")
      (auto simp: handleApplyAppearance_def sendAppearance_def projectionSetAppearance_def parsed appearanceHandler_def
        onCtx_def isMutationOk_def)
qed

text \<open>A screen whose window is closed in the dialog is still listed as open.\<close>

lemma closed_screen_listed_open:
  "pj_windows st key \<Longrightarrow> \<exists>m \<in> set (fst (handleToggleScreen key True st)). sc_key m = key \<and> sc_isOpen m"
  by (cases key) (simp_all add: handleToggleScreen_def screensList_def SCREEN_KEYS_def)

end
