(* ===== verification/Windows.thy ===== *)
theory Windows
  imports SyncServer
begin

text \<open>
  The windows of the desktop application, \<open>main/main.ts\<close>: the control window and up to three
  projection windows, what the main process sends them, and the choice of the screen in the
  control window (\<open>live/ScreenSelector.tsx\<close>). Electron gives the events: a window loads its page,
  also again, or is closed. A page hears what is sent once it is loaded; its inbox is what it heard.
\<close>

section \<open>Windows and messages\<close>

datatype windowMsg =
    StateMsg broadcastMsg | WindowMsg screenKey bool | MetaMsg screenKey screenMirrorMode
  | FreeNavigateMsg int | VideoControlMsg bool | VideoVolumeMsg jsnum

record appWindow =
  wn_loaded :: bool
  wn_inbox :: "windowMsg list"

record windowWorld =
  ww_ctx :: screenContext
  ww_regie :: "appWindow option"
  ww_proj :: "screenKey \<Rightarrow> appWindow option"

definition hear :: "windowMsg list \<Rightarrow> appWindow \<Rightarrow> appWindow" where
  "hear ms win = (if wn_loaded win then win\<lparr>wn_inbox := wn_inbox win @ ms\<rparr> else win)"

definition toRegie :: "windowMsg list \<Rightarrow> windowWorld \<Rightarrow> windowWorld" where
  "toRegie ms w = w\<lparr>ww_regie := map_option (hear ms) (ww_regie w)\<rparr>"

definition toProjections :: "(screenKey \<Rightarrow> windowMsg list) \<Rightarrow> windowWorld \<Rightarrow> windowWorld" where
  "toProjections ms w = w\<lparr>ww_proj := \<lambda>k. map_option (hear (ms k)) (ww_proj w k)\<rparr>"

text \<open>
  \<open>sendScreenState\<close> and \<open>broadcastLive\<close>: a state goes to the control window and the window of its
  screen, the live state to all.
\<close>

definition concerns :: "screenKey \<Rightarrow> broadcastMsg \<Rightarrow> bool" where
  "concerns k m = (case m of ScreenMsg j _ \<Rightarrow> j = k | LiveMsg _ \<Rightarrow> True)"

definition sendToWindows :: "broadcastMsg list \<Rightarrow> windowWorld \<Rightarrow> windowWorld" where
  "sendToWindows ms w = toProjections (\<lambda>k. map StateMsg (filter (concerns k) ms)) (toRegie (map StateMsg ms) w)"

text \<open>The context changes; what it broadcasts reaches the windows.\<close>

definition changeContext :: "screenContext \<Rightarrow> windowWorld \<Rightarrow> windowWorld" where
  "changeContext ctx w = sendToWindows (drop (length (sent (ww_ctx w))) (sent ctx)) (w\<lparr>ww_ctx := ctx\<rparr>)"

section \<open>Operations\<close>

definition freshWindow :: "bool \<Rightarrow> appWindow" where
  "freshWindow loaded = \<lparr>wn_loaded = loaded, wn_inbox = []\<rparr>"

text \<open>\<open>!!projWins[key]\<close>\<close>

definition openScreens :: "windowWorld \<Rightarrow> screenKey \<Rightarrow> bool" where
  "openScreens w k \<longleftrightarrow> ww_proj w k \<noteq> None"

definition createRegieWindow :: "windowWorld \<Rightarrow> windowWorld" where
  "createRegieWindow w = w\<lparr>ww_regie := Some (freshWindow False)\<rparr>"

definition regieLoaded :: "windowWorld \<Rightarrow> windowWorld" where
  "regieLoaded w = toRegie (map (\<lambda>k. WindowMsg k (openScreens w k)) SCREEN_KEYS)
     (changeContext (broadcastAllScreensState (ww_ctx w)) (w\<lparr>ww_regie := Some (freshWindow True)\<rparr>))"

text \<open>The projection windows are closed with the control window; their own events find none then.\<close>

definition regieClosed :: "windowWorld \<Rightarrow> windowWorld" where
  "regieClosed w = w\<lparr>ww_regie := None, ww_proj := \<lambda>_. None\<rparr>"

definition createScreenWindow :: "screenKey \<Rightarrow> windowWorld \<Rightarrow> windowWorld" where
  "createScreenWindow key w =
     (if ww_proj w key \<noteq> None then w
      else toRegie [WindowMsg key True] (w\<lparr>ww_proj := (ww_proj w)(key := Some (freshWindow False))\<rparr>))"

definition screenLoaded :: "screenKey \<Rightarrow> windowWorld \<Rightarrow> windowWorld" where
  "screenLoaded key w =
     changeContext (broadcast (ww_ctx w) key) (w\<lparr>ww_proj := (ww_proj w)(key := Some (freshWindow True))\<rparr>)"

definition screenClosed :: "screenKey \<Rightarrow> windowWorld \<Rightarrow> windowWorld" where
  "screenClosed key w = toRegie [WindowMsg key False] (w\<lparr>ww_proj := (ww_proj w)(key := None)\<rparr>)"

definition screensOpen :: "jsval \<Rightarrow> windowWorld \<Rightarrow> (bool \<times> windowWorld) result" where
  "screensOpen rawKey w =
     andThen (parseScreenKey rawKey ''screens:open.key'') (\<lambda>key.
       let w = createScreenWindow key w in Inr (openScreens w key, w))"

definition screensIsOpen :: "jsval \<Rightarrow> windowWorld \<Rightarrow> bool result" where
  "screensIsOpen rawKey w =
     andThen (parseScreenKey rawKey ''screens:isOpen.key'') (\<lambda>key. Inr (openScreens w key))"

text \<open>Closing asks the window to close; the answer is given before its event.\<close>

definition screensClose :: "jsval \<Rightarrow> windowWorld \<Rightarrow> (bool \<times> windowWorld) result" where
  "screensClose rawKey w =
     andThen (parseScreenKey rawKey ''screens:close.key'') (\<lambda>key. Inr (openScreens w key, w))"

definition setMirrorWindows :: "(screenKey \<Rightarrow> int) \<Rightarrow> screenKey \<Rightarrow> screenMirrorMode \<Rightarrow> windowWorld \<Rightarrow> windowWorld" where
  "setMirrorWindows now key m w = toRegie [MetaMsg key m] (changeContext (setMirror now (ww_ctx w) key m) w)"

text \<open>\<open>applyProfileToRuntime\<close> sends the modes of the profile, then the states.\<close>

definition profileMetas :: "settingsProfile \<Rightarrow> windowMsg list" where
  "profileMetas profile =
     (case sp_mirrors profile of None \<Rightarrow> []
      | Some m \<Rightarrow> List.map_filter (\<lambda>k. map_option (\<lambda>mode. MetaMsg k (cloneScreenMirrorMode mode)) (m k)) SCREEN_KEYS)"

definition profileWindows :: "settingsProfile \<Rightarrow> screenContext \<Rightarrow> windowWorld \<Rightarrow> windowWorld" where
  "profileWindows profile ctx w = changeContext ctx (toRegie (profileMetas profile) w)"

definition liveFreeNavigate :: "jsval \<Rightarrow> windowWorld \<Rightarrow> windowWorld" where
  "liveFreeNavigate rawDir = toRegie [FreeNavigateMsg (if rawDir = JNum (IntNum 1) then 1 else - 1)]"

definition liveVideoControl :: "jsval \<Rightarrow> windowWorld \<Rightarrow> windowWorld" where
  "liveVideoControl rawAction = toProjections (\<lambda>_. [VideoControlMsg (rawAction = JStr ''PLAY'')])"

definition liveVideoVolume :: "jsval \<Rightarrow> windowWorld \<Rightarrow> windowWorld" where
  "liveVideoVolume rawVolume = toProjections (\<lambda>_. [VideoVolumeMsg (case rawVolume of
     JNum n \<Rightarrow> num_max (IntNum 0) (num_min (IntNum 1) n) | _ \<Rightarrow> IntNum 1)])"

section \<open>Events\<close>

definition noWindow :: "windowWorld \<Rightarrow> bool" where
  "noWindow w \<longleftrightarrow> ww_regie w = None \<and> (\<forall>k. ww_proj w k = None)"

text \<open>A window that asks for a screen is one that is there.\<close>

inductive windowStep :: "windowWorld \<Rightarrow> windowWorld \<Rightarrow> bool" where
  regie_created: "noWindow w \<Longrightarrow> windowStep w (createRegieWindow w)"
| regie_loaded: "ww_regie w \<noteq> None \<Longrightarrow> windowStep w (regieLoaded w)"
| regie_closed: "ww_regie w \<noteq> None \<Longrightarrow> windowStep w (regieClosed w)"
| screen_opened: "\<not> noWindow w \<Longrightarrow> windowStep w (createScreenWindow key w)"
| screen_loaded: "ww_proj w key \<noteq> None \<Longrightarrow> windowStep w (screenLoaded key w)"
| screen_closed: "ww_proj w key \<noteq> None \<Longrightarrow> windowStep w (screenClosed key w)"
| context_changed: "screenStep op (ww_ctx w) ctx \<Longrightarrow> \<forall>key m. op \<noteq> OpMirror key m \<Longrightarrow> windowStep w (changeContext ctx w)"
| mirror_set: "windowStep w (setMirrorWindows now key m w)"
| profile_applied: "applyProfileToRuntime ensure now t profile app = Inr app' \<Longrightarrow> rt_ctx app = ww_ctx w
    \<Longrightarrow> windowStep w (profileWindows profile (rt_ctx app') w)"
| free_navigate: "windowStep w (liveFreeNavigate raw w)"
| video_control: "windowStep w (liveVideoControl raw w)"
| video_volume: "windowStep w (liveVideoVolume raw w)"

definition initialWindows :: "screenContext \<Rightarrow> windowWorld" where
  "initialWindows ctx = \<lparr>ww_ctx = ctx, ww_regie = None, ww_proj = \<lambda>_. None\<rparr>"

section \<open>What a window knows\<close>

fun latestOf :: "('m \<Rightarrow> 'v option) \<Rightarrow> 'm list \<Rightarrow> 'v option" where
  "latestOf f [] = None"
| "latestOf f (m # ms) = orOption (latestOf f ms) (f m)"

definition knownScreen :: "screenKey \<Rightarrow> windowMsg list \<Rightarrow> cpProjectionState option" where
  "knownScreen k = latestOf (\<lambda>m. case m of StateMsg (ScreenMsg j s) \<Rightarrow> if j = k then Some s else None | _ \<Rightarrow> None)"

definition knownLive :: "windowMsg list \<Rightarrow> cpLiveState option" where
  "knownLive = latestOf (\<lambda>m. case m of StateMsg (LiveMsg l) \<Rightarrow> Some l | _ \<Rightarrow> None)"

definition knownWindow :: "screenKey \<Rightarrow> windowMsg list \<Rightarrow> bool option" where
  "knownWindow k = latestOf (\<lambda>m. case m of WindowMsg j b \<Rightarrow> if j = k then Some b else None | _ \<Rightarrow> None)"

definition knownMirror :: "screenKey \<Rightarrow> windowMsg list \<Rightarrow> screenMirrorMode option" where
  "knownMirror k = latestOf (\<lambda>m. case m of MetaMsg j r \<Rightarrow> if j = k then Some r else None | _ \<Rightarrow> None)"

lemma orOption_None_right [simp]: "orOption x None = x"
  by (simp add: orOption_def split: option.split)

lemma latestOf_append: "latestOf f (xs @ ys) = orOption (latestOf f ys) (latestOf f xs)"
  by (induction xs) (auto simp: orOption_def split: option.split)

lemmas known_defs = knownScreen_def knownLive_def knownWindow_def knownMirror_def

lemma known_append:
  "knownScreen k (xs @ ys) = orOption (knownScreen k ys) (knownScreen k xs)"
  "knownLive (xs @ ys) = orOption (knownLive ys) (knownLive xs)"
  "knownWindow k (xs @ ys) = orOption (knownWindow k ys) (knownWindow k xs)"
  "knownMirror k (xs @ ys) = orOption (knownMirror k ys) (knownMirror k xs)"
  by (simp_all add: known_defs latestOf_append)

lemma known_states [simp]:
  "knownScreen k (map StateMsg ms) = latestScreen k ms" "knownLive (map StateMsg ms) = latestLive ms"
  "knownWindow k (map StateMsg ms) = None" "knownMirror k (map StateMsg ms) = None"
  by (induction ms) (simp_all add: known_defs split: broadcastMsg.split)

lemma latest_concerns [simp]:
  "latestScreen k (filter (concerns k) ms) = latestScreen k ms" "latestLive (filter (concerns k) ms) = latestLive ms"
  by (induction ms) (auto simp: concerns_def split: broadcastMsg.split)

text \<open>What a window has heard of screens and of the live state is how they are.\<close>

definition screensKnown :: "screenContext \<Rightarrow> screenKey set \<Rightarrow> windowMsg list \<Rightarrow> bool" where
  "screensKnown ctx ks ms \<longleftrightarrow> (\<forall>k \<in> ks. knownScreen k ms = Some (screenStates ctx k))
     \<and> (\<forall>l. knownLive ms = Some l \<longrightarrow> liveState ctx = l)"

definition regieOk :: "screenContext \<Rightarrow> (screenKey \<Rightarrow> bool) \<Rightarrow> windowMsg list \<Rightarrow> bool" where
  "regieOk ctx isOpen ms \<longleftrightarrow> screensKnown ctx UNIV ms \<and> (\<forall>k. knownWindow k ms = Some (isOpen k))
     \<and> (\<forall>k m. knownMirror k ms = Some m \<longrightarrow> mirrors ctx k = m)"

definition windowsOk :: "windowWorld \<Rightarrow> bool" where
  "windowsOk w \<longleftrightarrow> (\<forall>win. ww_regie w = Some win \<longrightarrow> wn_loaded win \<longrightarrow> regieOk (ww_ctx w) (openScreens w) (wn_inbox win))
     \<and> (\<forall>k win. ww_proj w k = Some win \<longrightarrow> wn_loaded win \<longrightarrow> screensKnown (ww_ctx w) {k} (wn_inbox win))
     \<and> (ww_regie w = None \<longrightarrow> (\<forall>k. ww_proj w k = None))"

section \<open>They are told the truth\<close>

lemma known_other [simp]:
  "knownScreen k [WindowMsg j b] = None" "knownLive [WindowMsg j b] = None" "knownMirror k [WindowMsg j b] = None"
  "knownScreen k [MetaMsg j r] = None" "knownLive [MetaMsg j r] = None" "knownWindow k [MetaMsg j r] = None"
  "knownWindow k [WindowMsg j b] = (if j = k then Some b else None)"
  "knownMirror k [MetaMsg j r] = (if j = k then Some r else None)"
  "knownScreen k [FreeNavigateMsg d] = None" "knownLive [FreeNavigateMsg d] = None"
  "knownWindow k [FreeNavigateMsg d] = None" "knownMirror k [FreeNavigateMsg d] = None"
  by (simp_all add: known_defs)

text \<open>Messages to the control window before and after a change of the context, which are no states\<close>

definition noStates :: "windowMsg list \<Rightarrow> bool" where
  "noStates ms \<longleftrightarrow> (\<forall>k. knownScreen k ms = None \<and> knownWindow k ms = None) \<and> knownLive ms = None"

lemma screensKnown_tells:
  assumes "tells ctx ctx'" and "screensKnown ctx ks ms"
    and "new = drop (length (sent ctx)) (sent ctx')" and "\<And>k. k \<in> ks \<Longrightarrow> latestScreen k sub = latestScreen k new"
    and "latestLive sub = latestLive new"
  shows "screensKnown ctx' ks (ms @ map StateMsg sub)"
proof -
  have "\<And>k. screenStates ctx' k = orElse (latestScreen k new) (screenStates ctx k)"
      "liveState ctx' = orElse (latestLive new) (liveState ctx)"
    using assms(1,3) by (auto simp: tells_def)
  then show ?thesis
    using assms(2,4,5) by (auto simp: screensKnown_def known_append orElse_def orOption_def split: option.splits)
qed

lemma screensKnown_noStates: "noStates ms' \<Longrightarrow> screensKnown ctx ks (ms @ ms') = screensKnown ctx ks ms"
  by (simp add: screensKnown_def noStates_def known_append)

text \<open>The worlds that a change leads to, window by window\<close>

lemma change_windows:
  "ww_ctx (changeContext ctx w) = ctx"
  "ww_regie (changeContext ctx w) = map_option (hear (map StateMsg (drop (length (sent (ww_ctx w))) (sent ctx)))) (ww_regie w)"
  "ww_proj (changeContext ctx w) k
     = map_option (hear (map StateMsg (filter (concerns k) (drop (length (sent (ww_ctx w))) (sent ctx))))) (ww_proj w k)"
  "ww_ctx (toRegie ms w) = ww_ctx w" "ww_regie (toRegie ms w) = map_option (hear ms) (ww_regie w)"
  "ww_proj (toRegie ms w) = ww_proj w"
  by (simp_all add: changeContext_def sendToWindows_def toRegie_def toProjections_def)

lemma hear_simps [simp]: "wn_loaded (hear ms win) = wn_loaded win"
  "wn_loaded win \<Longrightarrow> wn_inbox (hear ms win) = wn_inbox win @ ms"
  by (simp_all add: hear_def)

lemma openScreens_simps [simp]:
  "openScreens (changeContext ctx w) = openScreens w" "openScreens (toRegie ms w) = openScreens w"
  "openScreens (w\<lparr>ww_regie := x\<rparr>) = openScreens w"
  by (auto simp: fun_eq_iff openScreens_def change_windows)

text \<open>A change of the context, with messages about mirrors before and after it\<close>

lemma change_windowsOk:
  assumes "windowsOk w" and "tells (ww_ctx w) ctx" and "noStates pre" and "noStates post"
    and "\<And>k. mirrors ctx k = orElse (knownMirror k (pre @ post)) (mirrors (ww_ctx w) k)"
  shows "windowsOk (toRegie post (changeContext ctx (toRegie pre w)))"
proof -
  let ?new = "drop (length (sent (ww_ctx w))) (sent ctx)"
  have "regieOk ctx (openScreens w) (wn_inbox win @ pre @ map StateMsg ?new @ post)"
    if "ww_regie w = Some win" "wn_loaded win" for win
  proof -
    have ok: "regieOk (ww_ctx w) (openScreens w) (wn_inbox win)"
      using assms(1) that by (simp add: windowsOk_def)
    then have "screensKnown ctx UNIV ((wn_inbox win @ pre) @ map StateMsg ?new)"
      using assms(3) by (intro screensKnown_tells [OF assms(2) _ refl]) (simp_all add: regieOk_def screensKnown_noStates)
    then have "screensKnown ctx UNIV (((wn_inbox win @ pre) @ map StateMsg ?new) @ post)"
      using screensKnown_noStates [OF assms(4)] by blast
    moreover have "mirrors ctx k = m"
      if "knownMirror k (wn_inbox win @ pre @ map StateMsg ?new @ post) = Some m" for k m
      using that ok assms(5) [of k]
      by (cases "knownMirror k post"; cases "knownMirror k pre") (auto simp: known_append regieOk_def)
    ultimately show ?thesis
      using ok assms(3,4) by (auto simp: regieOk_def known_append noStates_def)
  qed
  moreover have "screensKnown ctx {k} (wn_inbox win @ map StateMsg (filter (concerns k) ?new))"
    if "ww_proj w k = Some win" "wn_loaded win" for k win
    using assms(1) that by (intro screensKnown_tells [OF assms(2) _ refl]) (auto simp: windowsOk_def)
  ultimately show ?thesis
    using assms(1) by (auto simp: windowsOk_def change_windows)
qed

lemma toRegie_nothing: "toRegie [] v = v"
proof -
  have "hear [] = (\<lambda>win. win)"
    by (simp add: hear_def fun_eq_iff)
  then show ?thesis
    by (cases v) (simp add: toRegie_def option.map_ident)
qed

lemma changeContext_ok:
  assumes "windowsOk w" and "tells (ww_ctx w) ctx" and "mirrors ctx = mirrors (ww_ctx w)"
  shows "windowsOk (changeContext ctx w)"
proof -
  have "noStates []" and "\<And>k. knownMirror k [] = None"
    by (simp_all add: noStates_def known_defs)
  then show ?thesis
    using change_windowsOk [OF assms(1,2), of "[]" "[]"] assms(3) by (simp add: toRegie_nothing orElse_def)
qed

text \<open>A page that loads hears the states that are sent then, and the control window whether windows are open.\<close>

lemma known_windows:
  "knownWindow k (map (\<lambda>k. WindowMsg k (b k)) SCREEN_KEYS) = Some (b k)"
  "knownScreen k (map (\<lambda>k. WindowMsg k (b k)) SCREEN_KEYS) = None" "knownLive (map (\<lambda>k. WindowMsg k (b k)) SCREEN_KEYS) = None"
  "knownMirror k (map (\<lambda>k. WindowMsg k (b k)) SCREEN_KEYS) = None"
  by (cases k; simp add: SCREEN_KEYS_def known_defs)+

lemma regieLoaded_ok:
  assumes "windowsOk w" and "ww_regie w \<noteq> None"
  shows "windowsOk (regieLoaded w)"
proof -
  let ?ctx = "broadcastAllScreensState (ww_ctx w)"
  let ?new = "map (\<lambda>k. ScreenMsg k (screenStates (ww_ctx w) k)) SCREEN_KEYS"
  let ?windows = "map (\<lambda>k. WindowMsg k (openScreens w k)) SCREEN_KEYS"
  have "regieOk ?ctx (openScreens w) (map StateMsg ?new @ ?windows)"
    by (simp add: regieOk_def screensKnown_def known_append known_windows broadcast_all_latest broadcast_all del: map_map)
  moreover have "screensKnown ?ctx {k} (wn_inbox win @ map StateMsg (filter (concerns k) ?new))"
    if "ww_proj w k = Some win" "wn_loaded win" for k win
    using assms(1) that by (intro screensKnown_tells [OF tells_broadcast_all _ refl]) (auto simp: windowsOk_def broadcast_all)
  ultimately show ?thesis
    using assms(2) by (auto simp: windowsOk_def regieLoaded_def change_windows broadcast_all freshWindow_def)
qed

lemma windowsOk_one:
  assumes "windowsOk w" and "ww_ctx w' = ww_ctx w" and "ww_regie w' = ww_regie w" and "openScreens w' = openScreens w"
    and "\<And>k. k \<noteq> key \<Longrightarrow> ww_proj w' k = ww_proj w k"
    and "\<And>win. ww_proj w' key = Some win \<Longrightarrow> wn_loaded win \<Longrightarrow> screensKnown (ww_ctx w) {key} (wn_inbox win)"
  shows "windowsOk w'"
proof -
  have "screensKnown (ww_ctx w) {k} (wn_inbox win)" if "ww_proj w' k = Some win" "wn_loaded win" for k win
    using assms(1,5,6) that by (cases "k = key") (auto simp: windowsOk_def)
  moreover have "ww_proj w' k = None \<longleftrightarrow> ww_proj w k = None" for k
    using fun_cong [OF assms(4), of k] by (auto simp: openScreens_def)
  ultimately show ?thesis
    using assms(1) by (auto simp: windowsOk_def assms(2-4))
qed

lemma screenLoaded_ok:
  assumes "windowsOk w" and "ww_proj w key \<noteq> None"
  shows "windowsOk (screenLoaded key w)"
proof -
  let ?with = "\<lambda>b. w\<lparr>ww_proj := (ww_proj w)(key := Some (freshWindow b))\<rparr>"
  have same: "openScreens (?with b) = openScreens w" for b
    using assms(2) by (auto simp: fun_eq_iff openScreens_def)
  have "windowsOk (?with False)"
    using assms(1) same by (intro windowsOk_one [OF assms(1), of _ key]) (auto simp: freshWindow_def)
  then have changed: "windowsOk (changeContext (broadcast (ww_ctx w) key) (?with False))"
    using tells_broadcast [of "ww_ctx w" key] by (intro changeContext_ok) (simp_all add: broadcast_def)
  have "concerns key (ScreenMsg key s)" for s
    by (simp add: concerns_def)
  then have "screensKnown (broadcast (ww_ctx w) key) {key}
      (map StateMsg (filter (concerns key) [ScreenMsg key (screenStates (ww_ctx w) key)]))"
    by (simp add: screensKnown_def broadcast_def known_defs)
  then show ?thesis
    using same by (intro windowsOk_one [OF changed, of _ key])
      (auto simp: screenLoaded_def change_windows freshWindow_def broadcast_def hear_def)
qed

text \<open>A window opens or closes, and the control window is told.\<close>

lemma window_changed_ok:
  assumes "windowsOk w" and "win = None \<or> (win = Some (freshWindow False) \<and> ww_regie w \<noteq> None)"
  shows "windowsOk (toRegie [WindowMsg key (win \<noteq> None)] (w\<lparr>ww_proj := (ww_proj w)(key := win)\<rparr>))"
proof -
  have "openScreens (w\<lparr>ww_proj := (ww_proj w)(key := win)\<rparr>) = (openScreens w)(key := win \<noteq> None)"
    by (auto simp: fun_eq_iff openScreens_def)
  moreover have "noStates []"
    by (simp add: noStates_def known_defs)
  ultimately show ?thesis
    using assms
    by (auto simp: windowsOk_def change_windows freshWindow_def regieOk_def known_append screensKnown_def split: if_splits)
qed

lemma noStates_metas [simp]: "noStates [MetaMsg k r]" "noStates []" "noStates (profileMetas p)"
proof -
  have "noStates (List.map_filter (\<lambda>k. map_option (MetaMsg k) (m k)) ks)" for m ks
    by (induction ks) (auto simp: noStates_def known_defs map_filter_simps split: option.split)
  then show "noStates (profileMetas p)"
    by (simp add: profileMetas_def noStates_def [of "[]"] known_defs split: option.split)
qed (auto simp: noStates_def known_defs)

lemma profile_metas_known:
  "orElse (knownMirror k (profileMetas p)) (mirrors ctx k) = mirrors (applyProfileMirrors p ctx) k"
  by (cases k) (simp_all add: profileMetas_def applyProfileMirrors_def SCREEN_KEYS_def map_filter_simps known_defs
      split: option.split)

lemma mirrors_kept: "screenStep op ctx ctx' \<Longrightarrow> \<forall>key m. op \<noteq> OpMirror key m \<Longrightarrow> mirrors ctx' = mirrors ctx"
  by (induction rule: screenStep.induct)
    (auto simp: txtset.setter_frame mediaset.setter_frame modeset.setter_frame appset.setter_frame patchset.setter_frame
      mergeLive_def applyLiveProjectionMode_def Let_def)

lemma video_ok:
  assumes "windowsOk w" and "m = VideoControlMsg b \<or> m = VideoVolumeMsg v"
  shows "windowsOk (toProjections (\<lambda>_. [m]) w)"
proof -
  have "knownScreen k [m] = None" "knownLive [m] = None" for k
    using assms(2) by (auto simp: known_defs)
  then show ?thesis
    using assms(1) by (auto simp: windowsOk_def toProjections_def screensKnown_def known_append regieOk_def openScreens_def)
qed

lemma step_windowsOk:
  assumes "windowStep w w'" and "windowsOk w"
  shows "windowsOk w'"
  using assms
proof (induction rule: windowStep.induct)
  case (regie_created w)
  then show ?case
    by (auto simp: createRegieWindow_def windowsOk_def noWindow_def freshWindow_def)
next
  case (regie_closed w)
  then show ?case
    by (simp add: regieClosed_def windowsOk_def)
next
  case (screen_opened w key)
  then show ?case
    using window_changed_ok [of w "Some (freshWindow False)" key]
    by (auto simp: createScreenWindow_def noWindow_def windowsOk_def [of w])
next
  case (screen_closed w key)
  then show ?case
    using window_changed_ok [of w None key] by (simp add: screenClosed_def)
next
  case (context_changed op w ctx)
  then show ?case
    by (intro changeContext_ok screenStep_tells mirrors_kept)
next
  case (mirror_set w now key m)
  have "tells (ww_ctx w) (setMirror now (ww_ctx w) key m)"
    by (rule screenStep_tells [OF step_mirror])
  then show ?case
    using change_windowsOk [OF mirror_set, of "setMirror now (ww_ctx w) key m" "[]" "[MetaMsg key m]"]
    by (simp add: setMirrorWindows_def toRegie_nothing orElse_def)
next
  case (profile_applied ensure now t profile app app' w)
  then show ?case
    using change_windowsOk [of w "rt_ctx app'" "profileMetas profile" "[]"] profile_tells [OF profile_applied.hyps(1)]
      profile_metas_known [of _ profile "ww_ctx w"]
    by (simp add: profileWindows_def toRegie_nothing)
next
  case (free_navigate w raw)
  then show ?case
    by (auto simp: liveFreeNavigate_def windowsOk_def change_windows regieOk_def screensKnown_def known_append)
next
  case (video_control w raw)
  then show ?case
    by (auto simp: liveVideoControl_def video_ok)
next
  case (video_volume w raw)
  then show ?case
    by (auto simp: liveVideoVolume_def video_ok)
qed (simp_all add: regieLoaded_ok screenLoaded_ok)

lemma steps_windowsOk: "windowStep\<^sup>*\<^sup>* w w' \<Longrightarrow> windowsOk w \<Longrightarrow> windowsOk w'"
  by (induction rule: rtranclp_induct) (simp_all add: step_windowsOk)

lemma known_in: "(\<And>z. x = Some z \<Longrightarrow> y = z) \<Longrightarrow> x \<in> {None, Some y}"
  by (cases x) auto

text \<open>
  C24: In every sequence of events, windows opening, loading and closing in any order, changes of the
  screens by the windows, by the remote controls and by profiles: the control window, once it has loaded, has
  been told the present state of every screen and whether the window of each is open; a loaded
  projection window has been told the present state of its screen; what a window has heard last of the
  mode of a mirror or of the live state is the present one, but it may have heard nothing of them yet;
  and no projection window is left without the control window.
\<close>

theorem windows_told_truth:
  assumes "windowStep\<^sup>*\<^sup>* (initialWindows ctx) w"
  shows "(\<forall>win. ww_regie w = Some win \<and> wn_loaded win \<longrightarrow>
            (\<forall>k. knownScreen k (wn_inbox win) = Some (screenStates (ww_ctx w) k)
               \<and> knownWindow k (wn_inbox win) = Some (ww_proj w k \<noteq> None)
               \<and> knownMirror k (wn_inbox win) \<in> {None, Some (mirrors (ww_ctx w) k)})
            \<and> knownLive (wn_inbox win) \<in> {None, Some (liveState (ww_ctx w))})
     \<and> (\<forall>k win. ww_proj w k = Some win \<and> wn_loaded win \<longrightarrow>
            knownScreen k (wn_inbox win) = Some (screenStates (ww_ctx w) k)
            \<and> knownLive (wn_inbox win) \<in> {None, Some (liveState (ww_ctx w))})
     \<and> (ww_regie w = None \<longrightarrow> (\<forall>k. ww_proj w k = None))"
proof -
  have "windowsOk (initialWindows ctx)"
    by (simp add: windowsOk_def initialWindows_def)
  then have ok: "windowsOk w"
    using steps_windowsOk [OF assms] by blast
  have "(\<forall>k. knownScreen k (wn_inbox win) = Some (screenStates (ww_ctx w) k)
          \<and> knownWindow k (wn_inbox win) = Some (ww_proj w k \<noteq> None)
          \<and> knownMirror k (wn_inbox win) \<in> {None, Some (mirrors (ww_ctx w) k)})
        \<and> knownLive (wn_inbox win) \<in> {None, Some (liveState (ww_ctx w))}" if "ww_regie w = Some win \<and> wn_loaded win" for win
  proof -
    have r: "regieOk (ww_ctx w) (openScreens w) (wn_inbox win)"
      using ok that by (simp add: windowsOk_def)
    then have "knownMirror k (wn_inbox win) \<in> {None, Some (mirrors (ww_ctx w) k)}" for k
      by (intro known_in) (simp add: regieOk_def)
    moreover have "knownLive (wn_inbox win) \<in> {None, Some (liveState (ww_ctx w))}"
      using r by (intro known_in) (simp add: regieOk_def screensKnown_def)
    ultimately show ?thesis
      using r unfolding regieOk_def screensKnown_def openScreens_def by blast
  qed
  moreover have "knownScreen k (wn_inbox win) = Some (screenStates (ww_ctx w) k)
      \<and> knownLive (wn_inbox win) \<in> {None, Some (liveState (ww_ctx w))}" if "ww_proj w k = Some win \<and> wn_loaded win" for k win
  proof -
    have r: "screensKnown (ww_ctx w) {k} (wn_inbox win)"
      using ok that by (simp add: windowsOk_def)
    then have "knownLive (wn_inbox win) \<in> {None, Some (liveState (ww_ctx w))}"
      by (intro known_in) (simp add: screensKnown_def)
    then show ?thesis
      using r by (simp add: screensKnown_def)
  qed
  moreover have "ww_regie w = None \<longrightarrow> (\<forall>k. ww_proj w k = None)"
    using ok by (simp add: windowsOk_def)
  ultimately show ?thesis by blast
qed

text \<open>A session: the control window opens and loads, the window of screen B opens and loads, B is set free, A shows a black picture\<close>

definition demoWindows :: windowWorld where
  "demoWindows =
     (let w = regieLoaded (createRegieWindow (initialWindows (initialContext (\<lambda>_. 0) 0)));
          w = screenLoaded ScreenB (createScreenWindow ScreenB w);
          w = setMirrorWindows (\<lambda>_. 1) ScreenB FREE w
      in changeContext (fst (setMode (\<lambda>_. 2) (ww_ctx w) ScreenA BLACK)) w)"

lemma demo_windows_reached: "windowStep\<^sup>*\<^sup>* (initialWindows (initialContext (\<lambda>_. 0) 0)) demoWindows"
proof -
  let ?w0 = "initialWindows (initialContext (\<lambda>_. 0) 0)"
  let ?w1 = "createRegieWindow ?w0"
  let ?w2 = "regieLoaded ?w1"
  let ?w3 = "createScreenWindow ScreenB ?w2"
  let ?w4 = "screenLoaded ScreenB ?w3"
  let ?w5 = "setMirrorWindows (\<lambda>_. 1) ScreenB FREE ?w4"
  have "windowStep ?w0 ?w1"
    by (rule regie_created) (simp add: noWindow_def initialWindows_def)
  moreover have "windowStep ?w1 ?w2"
    by (rule regie_loaded) (simp add: createRegieWindow_def)
  moreover have "windowStep ?w2 ?w3"
    by (rule screen_opened) (simp add: noWindow_def regieLoaded_def change_windows)
  moreover have "windowStep ?w3 ?w4"
    by (rule screen_loaded) (simp add: createScreenWindow_def change_windows)
  moreover have "windowStep ?w4 ?w5"
    by (rule mirror_set)
  moreover have "windowStep ?w5 demoWindows"
    unfolding demoWindows_def Let_def by (rule context_changed [OF step_mode]) simp
  ultimately show ?thesis
    by (meson rtranclp.rtrancl_into_rtrancl rtranclp.rtrancl_refl)
qed

theorem windows_told_truth_witness:
  "\<exists>win. ww_regie demoWindows = Some win \<and> wn_loaded win
     \<and> map_option ps_mode (knownScreen ScreenA (wn_inbox win)) = Some BLACK \<and> knownWindow ScreenB (wn_inbox win) = Some True
     \<and> knownMirror ScreenB (wn_inbox win) \<in> {None, Some FREE}"
proof -
  obtain win where win: "ww_regie demoWindows = Some win \<and> wn_loaded win"
    by (simp add: demoWindows_def Let_def change_windows setMirrorWindows_def screenLoaded_def createScreenWindow_def
        regieLoaded_def freshWindow_def initialWindows_def createRegieWindow_def openScreens_def)
  have "ww_proj demoWindows ScreenB \<noteq> None" "mirrors (ww_ctx demoWindows) ScreenB = FREE"
      "ps_mode (screenStates (ww_ctx demoWindows) ScreenA) = BLACK"
    by (simp_all add: demoWindows_def Let_def change_windows setMirrorWindows_def screenLoaded_def createScreenWindow_def
        regieLoaded_def setMode_def guardScreen_def commitScreen_states broadcast_all broadcast_def initialContext_def
        initialWindows_def createRegieWindow_def createDefaultLiveState_def initialMirrors_def modeset.setter_frame)
  then show ?thesis
    using windows_told_truth [OF demo_windows_reached, THEN conjunct1, rule_format, OF win] win by auto
qed

section \<open>The screen selector\<close>

text \<open>
  The control window keeps the list of the screens that it read when the selector was shown, with the
  windows that it is told of since. \<open>None\<close> is a screen that the list does not have.
\<close>

definition onWindowState :: "screenKey \<Rightarrow> bool \<Rightarrow> (screenKey \<times> bool) list \<Rightarrow> (screenKey \<times> bool) list" where
  "onWindowState key isOpen metas = map (\<lambda>(k, b). if k = key then (k, isOpen) else (k, b)) metas"

definition handlePillClick ::
  "(screenKey \<Rightarrow> int) \<Rightarrow> int \<Rightarrow> (screenKey \<times> bool) list \<Rightarrow> screenKey \<Rightarrow> windowWorld \<Rightarrow> windowWorld" where
  "handlePillClick now t metas key w =
     (let w = (if map_of metas key = Some False then createScreenWindow key w else w)
      in case liveSetTarget now t (JStr (screenName key)) (ww_ctx w) of
           Inl _ \<Rightarrow> w | Inr (ctx, _) \<Rightarrow> changeContext ctx w)"

definition handleToggleWindow :: "(screenKey \<times> bool) list \<Rightarrow> screenKey \<Rightarrow> windowWorld \<Rightarrow> windowWorld" where
  "handleToggleWindow metas key w = (if map_of metas key = Some True then w else createScreenWindow key w)"

text \<open>A window that is being closed is still reported as open by the answer of its closing.\<close>

lemma closing_answers_open:
  "openScreens w k \<Longrightarrow> screensClose (JStr (screenName k)) w = Inr (True, w)"
  by (cases k) (simp_all add: screensClose_def parseScreenKey_def expectEnum_def expectString_def SCREEN_KEY_NAMES_def
      trim_def trim_left_def trim_right_def js_space_def)

end
