(* ===== verification/WebForms.thy ===== *)
theory WebForms
  imports WebPlans WebSongParser Dates
begin

text \<open>
  The form of a plan in the web application, \<open>components/plans/PlanFormClient.tsx\<close>: its fields, its
  operations and the requests that it sends to the routes of plans; and what all forms share. A form shows the result of a request
  as a message; \<open>RequestCrashed\<close> is a request whose answer is no JSON, or a value that cannot be sent.
  The marks of progress, the delay of the search and the markup are left out.
\<close>

section \<open>Requests\<close>

datatype formOutcome = InvalidForm string | RequestRefused issue | RequestCrashed | FormSaved string

text \<open>\<open>JSON.stringify\<close> leaves out the fields that are \<open>undefined\<close>.\<close>

definition sentText :: "string \<Rightarrow> string option \<Rightarrow> (string \<times> jsval) list" where
  "sentText k v = (case v of None \<Rightarrow> [] | Some s \<Rightarrow> [(k, JStr s)])"

definition sentNull :: "string \<Rightarrow> string zNull \<Rightarrow> (string \<times> jsval) list" where
  "sentNull k v = (case v of Absent \<Rightarrow> [] | NullValue \<Rightarrow> [(k, JNull)] | Value s \<Rightarrow> [(k, JStr s)])"

text \<open>\<open>s || undefined\<close>\<close>

definition orUndefined :: "string \<Rightarrow> string option" where
  "orUndefined s = (if s = [] then None else Some s)"

text \<open>The answer of a request, \<open>if (!json.ok)\<close> and what follows\<close>

definition onReply :: "'a reply \<times> 'db \<Rightarrow> ('a \<Rightarrow> 'db \<Rightarrow> formOutcome \<times> 'db) \<Rightarrow> formOutcome \<times> 'db" where
  "onReply answer k =
     (case answer of
        (Reply _ x, db) \<Rightarrow> k x db
      | (Refused _ e, db) \<Rightarrow> (RequestRefused e, db)
      | (Crashed _, db) \<Rightarrow> (RequestCrashed, db))"

section \<open>The form of a plan\<close>

text \<open>
  An item as \<open>PlanFormClient\<close> keeps it; the row of the store that it starts from has more columns,
  which the route of the items does not read.
\<close>

record planFormItem =
  fi_id :: "string option"
  fi_order :: int
  fi_kind :: string
  fi_title :: "string zNull"
  fi_songId :: "string zNull"
  fi_song :: "(string \<times> string) zNull"
  fi_content :: "string zNull"

record foundSong =
  fs_id :: string
  fs_title :: string
  fs_artist :: "string option"

text \<open>\<open>pf_initial\<close> is the plan that is edited, \<open>None\<close> for a new one.\<close>

record planForm =
  pf_initial :: "string option"
  pf_date :: string
  pf_title :: string
  pf_items :: "planFormItem list"
  pf_songQuery :: string
  pf_songResults :: "foundSong list"
  pf_searchingFor :: "nat option"

definition nullOf :: "'a option \<Rightarrow> 'a zNull" where
  "nullOf v = (case v of None \<Rightarrow> NullValue | Some x \<Rightarrow> Value x)"

definition formItemOf :: "string \<Rightarrow> webItem \<times> (string \<times> string) option \<Rightarrow> planFormItem" where
  "formItemOf i x = \<lparr>fi_id = Some i, fi_order = wi_order (fst x), fi_kind = wi_kind (fst x),
     fi_title = nullOf (wi_title (fst x)), fi_songId = nullOf (wi_songId (fst x)), fi_song = nullOf (snd x),
     fi_content = nullOf (wi_content (fst x))\<rparr>"

text \<open>The plan is that of \<open>planGet\<close> with the songs of its items; \<open>ids\<close> are the identifiers of the items.\<close>

definition openPlanForm :: "(webPlan \<times> (string \<times> string) option list \<times> string list) option \<Rightarrow> planForm" where
  "openPlanForm initial =
     (case initial of
        None \<Rightarrow> \<lparr>pf_initial = None, pf_date = [], pf_title = [], pf_items = [], pf_songQuery = [],
                 pf_songResults = [], pf_searchingFor = None\<rparr>
      | Some (p, songs, ids) \<Rightarrow> \<lparr>pf_initial = Some (wp_id p), pf_date = take 10 (toISOString (wp_date p)),
                 pf_title = orElse (wp_title p) [], pf_items = map2 formItemOf ids (zip (wp_items p) songs),
                 pf_songQuery = [], pf_songResults = [], pf_searchingFor = None\<rparr>)"

text \<open>The search of songs, when its delay has passed\<close>

definition searchSongs ::
  "(string \<Rightarrow> string \<Rightarrow> bool) \<Rightarrow> (string \<Rightarrow> string \<Rightarrow> bool) \<Rightarrow> 'db webSongDb \<Rightarrow> webSession option \<Rightarrow> 'db
     \<Rightarrow> planForm \<Rightarrow> planForm" where
  "searchSongs has starts W session db f =
     (if trim (pf_songQuery f) = [] then f\<lparr>pf_songResults := []\<rparr>
      else (case fst (songsGet has starts W session (Some (pf_songQuery f)) None db) of
              Reply _ found \<Rightarrow> f\<lparr>pf_songResults := map (\<lambda>v. \<lparr>fs_id = wso_id (sv_song v), fs_title = wso_title (sv_song v),
                  fs_artist = wso_artist (sv_song v)\<rparr>) (take 8 found)\<rparr>
            | _ \<Rightarrow> f))"

definition addItem :: "string \<Rightarrow> planForm \<Rightarrow> planForm" where
  "addItem kind f = f\<lparr>pf_items := pf_items f @ [\<lparr>fi_id = None, fi_order = int (length (pf_items f)), fi_kind = kind,
     fi_title = Value [], fi_songId = Absent, fi_song = Absent, fi_content = Absent\<rparr>]\<rparr>"

definition removeItem :: "nat \<Rightarrow> planForm \<Rightarrow> planForm" where
  "removeItem idx f = f\<lparr>pf_items := map_idx (\<lambda>i it. it\<lparr>fi_order := int i\<rparr>)
     (take idx (pf_items f) @ drop (Suc idx) (pf_items f))\<rparr>"

definition updateItem :: "nat \<Rightarrow> (planFormItem \<Rightarrow> planFormItem) \<Rightarrow> planForm \<Rightarrow> planForm" where
  "updateItem idx patch f = f\<lparr>pf_items := map_idx (\<lambda>i it. if i = idx then patch it else it) (pf_items f)\<rparr>"

definition pickSong :: "nat \<Rightarrow> foundSong \<Rightarrow> planForm \<Rightarrow> planForm" where
  "pickSong idx song f =
     (updateItem idx (\<lambda>it. it\<lparr>fi_songId := Value (fs_id song), fi_title := Value (fs_title song),
        fi_song := Value (fs_id song, fs_title song)\<rparr>) f)
     \<lparr>pf_searchingFor := None, pf_songQuery := [], pf_songResults := []\<rparr>"

definition changeKind :: "nat \<Rightarrow> string \<Rightarrow> planForm \<Rightarrow> planForm" where
  "changeKind idx kind = updateItem idx (\<lambda>it. it\<lparr>fi_kind := kind, fi_songId := Absent, fi_song := Absent\<rparr>)"

definition changeSongAgain :: "nat \<Rightarrow> planForm \<Rightarrow> planForm" where
  "changeSongAgain idx f =
     (updateItem idx (\<lambda>it. it\<lparr>fi_songId := Absent, fi_title := Value [], fi_song := Absent\<rparr>) f)\<lparr>pf_searchingFor := Some idx\<rparr>"

definition typeTitle :: "nat \<Rightarrow> string \<Rightarrow> planForm \<Rightarrow> planForm" where
  "typeTitle idx s = updateItem idx (\<lambda>it. it\<lparr>fi_title := Value s\<rparr>)"

text \<open>
  \<open>new Date(date).toISOString()\<close> on the text of a date field, which is a day of the calendar;
  \<open>None\<close> when it raises.
\<close>

definition isoOfField :: "string \<Rightarrow> string option" where
  "isoOfField date =
     (case matchYmd date of
        Some (y, m, d) \<Rightarrow> if validYmd y (m - 1) d then Some (toISOString (MakeDay y (m - 1) d * msPerDay)) else None
      | None \<Rightarrow> None)"

text \<open>\<open>{ ...it, order: i }\<close>\<close>

definition itemJson :: "nat \<Rightarrow> planFormItem \<Rightarrow> jsval" where
  "itemJson i it = JObj (sentText ''id'' (fi_id it) @ [(''order'', JNum (IntNum (int i))), (''kind'', JStr (fi_kind it))]
     @ sentNull ''title'' (fi_title it) @ sentNull ''songId'' (fi_songId it)
     @ (case fi_song it of Absent \<Rightarrow> [] | NullValue \<Rightarrow> [(''song'', JNull)]
        | Value (k, t) \<Rightarrow> [(''song'', JObj [(''id'', JStr k), (''title'', JStr t)])])
     @ sentNull ''content'' (fi_content it))"

definition planJson :: "string \<Rightarrow> planForm \<Rightarrow> jsval" where
  "planJson isoDate f = JObj ((''date'', JStr isoDate) # sentText ''title'' (orUndefined (trim (pf_title f))))"

definition submitPlan ::
  "(string \<Rightarrow> bool) \<Rightarrow> (string \<Rightarrow> int) \<Rightarrow> 'db webPlanDb \<Rightarrow> webSession option \<Rightarrow> planForm \<Rightarrow> 'db
     \<Rightarrow> formOutcome \<times> 'db" where
  "submitPlan isoOk parseDate V session f db =
     (if pf_date f = [] then (InvalidForm ''La date est requise'', db)
      else (case isoOfField (pf_date f) of
         None \<Rightarrow> (RequestCrashed, db)
       | Some isoDate \<Rightarrow>
           onReply (case pf_initial f of
                      Some i \<Rightarrow> planPatch isoOk parseDate V session i (planJson isoDate f) db
                    | None \<Rightarrow> plansPost isoOk parseDate V session (planJson isoDate f) db) (\<lambda>p db.
             let planId = orElse (pf_initial f) (wp_id p)
             in if pf_items f = [] then (FormSaved planId, db)
                else onReply (itemsPut V session planId (JObj [(''items'', JArr (map_idx itemJson (pf_items f)))]) db)
                       (\<lambda>_ db. (FormSaved planId, db)))))"

section \<open>What the form of a plan saves\<close>

definition bodyOfItem :: "nat \<Rightarrow> planFormItem \<Rightarrow> itemBody" where
  "bodyOfItem i it = \<lparr>ib_order = int i, ib_kind = fi_kind it, ib_title = nullToOption (fi_title it),
     ib_content = nullToOption (fi_content it), ib_songId = nullToOption (fi_songId it)\<rparr>"

text \<open>The rows that the items of the form become, column by column, numbered from 0\<close>

definition formRows :: "planForm \<Rightarrow> webItem list" where
  "formRows f = map_idx (\<lambda>i it. \<lparr>wi_order = int i, wi_kind = fi_kind it,
     wi_refId = nullToOption (fi_songId it), wi_refSubId = None, wi_songId = nullToOption (fi_songId it),
     wi_title = nullToOption (fi_title it), wi_content = nullToOption (fi_content it), wi_notes = None,
     wi_mediaPath = None, wi_secondaryContent = None, wi_backgroundConfig = None\<rparr>) (pf_items f)"

definition kindsGiven :: "planForm \<Rightarrow> bool" where
  "kindsGiven f \<longleftrightarrow> list_all (\<lambda>it. fi_kind it \<noteq> []) (pf_items f)"

definition songsKnown :: "string set \<Rightarrow> planForm \<Rightarrow> bool" where
  "songsKnown S f \<longleftrightarrow> list_all (\<lambda>it. case fi_songId it of Value k \<Rightarrow> k \<in> S | _ \<Rightarrow> True) (pf_items f)"

lemma sentNull_nullish: "jget (sentNull k v @ rest) k = (case v of Absent \<Rightarrow> jget rest k | NullValue \<Rightarrow> JNull | Value s \<Rightarrow> JStr s)"
  "k \<noteq> k' \<Longrightarrow> jget (sentNull k' v @ rest) k = jget rest k" "jget (sentNull k v) k = jget (sentNull k v @ []) k"
  by (simp_all add: sentNull_def split: zNull.split)

lemma sentText_get: "jget (sentText k v @ rest) k = (case v of None \<Rightarrow> jget rest k | Some s \<Rightarrow> JStr s)"
  "k \<noteq> k' \<Longrightarrow> jget (sentText k' v @ rest) k = jget rest k" "jget (sentText k v) k = jget (sentText k v @ []) k"
  by (simp_all add: sentText_def split: option.split)

lemma itemJson_parsed: "fi_kind it \<noteq> [] \<Longrightarrow> ItemSchema (itemJson i it) = Inr (bodyOfItem i it)"
  by (cases "fi_song it"; cases "fi_title it"; cases "fi_songId it"; cases "fi_content it"; cases "fi_id it")
    (auto simp: ItemSchema_def itemJson_def zObject_def zCheck_def zMin_def zInt_def zNumber_def zString_def zNullish_def
      bodyOfItem_def sentText_def sentNull_def Suc_le_eq split: prod.split)

lemma items_parsed:
  "kindsGiven f \<Longrightarrow> BodySchema (JObj [(''items'', JArr (map_idx itemJson (pf_items f)))]) = Inr (map_idx bodyOfItem (pf_items f))"
proof -
  have "list_all (\<lambda>it. fi_kind it \<noteq> []) its \<Longrightarrow>
      traverse_from k (\<lambda>_. ItemSchema) (map_idx_from j itemJson its) = Inr (map_idx_from j bodyOfItem its)" for k j its
    by (induction its arbitrary: k j) (simp_all add: itemJson_parsed)
  then show "kindsGiven f \<Longrightarrow> ?thesis"
    by (simp add: BodySchema_def zObject_def zArray_def kindsGiven_def)
qed

lemma formRows_bodies: "formRows f = map itemRowOf (map_idx bodyOfItem (pf_items f))"
  by (simp add: formRows_def itemRowOf_def bodyOfItem_def)

lemma formRows_order: "map wi_order (formRows f) = map int [0..<length (pf_items f)]"
  using map_idx_index [of 0 int "pf_items f"] by (simp add: formRows_def)

lemma formRows_songs:
  "list_all (\<lambda>r. case wi_songId r of None \<Rightarrow> True | Some k \<Rightarrow> k \<in> S) (formRows f) = songsKnown S f"
proof -
  have "list_all (\<lambda>r. case wi_songId r of None \<Rightarrow> True | Some k \<Rightarrow> k \<in> S) (map_idx_from j (\<lambda>i it. itemRowOf (bodyOfItem i it)) its)
      = list_all (\<lambda>it. case fi_songId it of Value k \<Rightarrow> k \<in> S | _ \<Rightarrow> True) its" for j its
    by (induction its arbitrary: j) (simp_all add: itemRowOf_def bodyOfItem_def split: zNull.split)
  then show ?thesis
    by (simp add: formRows_bodies songsKnown_def)
qed

lemma formRows_ok:
  assumes "length (pf_items f) \<le> 2 ^ 31"
  shows "itemsOk S (formRows f) = songsKnown S f" and "itemsByOrder (formRows f) = formRows f"
proof -
  have "itemOrderOk (wi_order r)" if "r \<in> set (formRows f)" for r
  proof -
    have "wi_order r \<in> set (map wi_order (formRows f))"
      using that by simp
    then show ?thesis
      using assms by (auto simp: formRows_order itemOrderOk_def)
  qed
  then show "itemsOk S (formRows f) = songsKnown S f"
    by (simp add: itemsOk_def formRows_order formRows_songs distinct_map) (simp add: list_all_iff)
  have "sorted (map wi_order (formRows f))"
    unfolding formRows_order by (simp add: sorted_map)
  then show "itemsByOrder (formRows f) = formRows f"
    unfolding itemsByOrder_def by (rule sort_key_id_if_sorted)
qed

lemma planJson_parsed:
  "isoOk isoDate \<Longrightarrow> UpdatePlanSchema isoOk (planJson isoDate f)
     = Inr (Some isoDate, case orUndefined (trim (pf_title f)) of None \<Rightarrow> Absent | Some t \<Rightarrow> Value t)"
  "isoOk isoDate \<Longrightarrow> CreatePlanSchema isoOk (planJson isoDate f) = Inr (isoDate, orUndefined (trim (pf_title f)))"
  by (simp_all add: UpdatePlanSchema_def CreatePlanSchema_def planJson_def zObject_def zOptional_def zNullish_def zCheck_def
      zString_def sentText_def split: option.split)

lemma isoOfField_some: "isoOfField date = Some isoDate \<Longrightarrow> date \<noteq> [] \<and> isoDate \<noteq> []"
  by (auto simp: isoOfField_def matchYmd_def toISOString_def Let_def split: option.splits if_splits)

text \<open>The plan with the date and the title of the form; an empty title is not sent.\<close>

definition formHead :: "int \<Rightarrow> planForm \<Rightarrow> webPlan \<Rightarrow> webPlan" where
  "formHead d f p = p\<lparr>wp_date := d, wp_title := (if trim (pf_title f) = [] then wp_title p else Some (trim (pf_title f)))\<rparr>"

context web_plan_store begin

lemma patch_plan:
  assumes "ok db" and "canManagePlans (ws_role s)" and "UpdatePlanSchema isoOk body = Inr b"
    and "agenda db i = Some p" and "wp_deletedAt p = None"
    and "\<And>j q. agenda db j = Some q \<Longrightarrow> wp_date q = wp_date (patchPlan parseDate b p) \<Longrightarrow> j = i"
  shows "\<exists>db'. planPatch isoOk parseDate V (Some s) i body db = (Reply 200 (patchPlan parseDate b p), db')
     \<and> agenda db' = (agenda db)(i \<mapsto> patchPlan parseDate b p) \<and> songSet db' = songSet db \<and> ok db'"
proof -
  have keys: "keepsPlanKeys (patchPlan parseDate b)"
    by (simp add: keepsPlanKeys_def patchPlan_def)
  obtain q db' where u: "vUpdatePlan V db i (patchPlan parseDate b) = Inr (q, db')"
    using update_fits [OF assms(1) keys assms(4,6)] by force
  show ?thesis
    using update_plan [OF assms(1) keys u] assms(2-4) u
    by (auto simp: planPatch_def livePlan_simps [OF find_id [OF assms(1), THEN trans, OF assms(4)] assms(5)])
qed

lemma submit_edited:
  assumes "ok db" and "canManagePlans (ws_role s)" and "pf_initial f = Some i" and "isoOfField (pf_date f) = Some isoDate"
    and "isoOk isoDate" and "agenda db i = Some p" and "wp_deletedAt p = None"
    and "\<forall>j q. agenda db j = Some q \<longrightarrow> wp_date q = parseDate isoDate \<longrightarrow> j = i"
    and "kindsGiven f" and "length (pf_items f) \<le> 2 ^ 31"
  shows "\<exists>db'. submitPlan isoOk parseDate V (Some s) f db
        = (if songsKnown (songSet db) f then FormSaved i else RequestCrashed, db')
     \<and> agenda db' = (agenda db)(i \<mapsto> (formHead (parseDate isoDate) f p)
         \<lparr>wp_items := (if pf_items f \<noteq> [] \<and> songsKnown (songSet db) f then formRows f else wp_items p)\<rparr>) \<and> ok db'"
proof -
  let ?b = "(Some isoDate, case orUndefined (trim (pf_title f)) of None \<Rightarrow> Absent | Some t \<Rightarrow> Value t)"
  have head: "patchPlan parseDate ?b p = formHead (parseDate isoDate) f p"
    using isoOfField_some [OF assms(4)] by (cases isoDate) (auto simp: patchPlan_def formHead_def orUndefined_def)
  have alive: "wp_deletedAt (formHead (parseDate isoDate) f p) = None" "wp_items (formHead d f p) = wp_items p" for d
    using assms(7) by (simp_all add: formHead_def)
  obtain d where d: "planPatch isoOk parseDate V (Some s) i (planJson isoDate f) db = (Reply 200 (formHead (parseDate isoDate) f p), d)"
      "agenda d = (agenda db)(i \<mapsto> formHead (parseDate isoDate) f p)" "songSet d = songSet db" "ok d"
    using patch_plan [OF assms(1,2) planJson_parsed(1) [of isoOk isoDate f, OF assms(5)] assms(6,7), of parseDate] assms(8)
    by (auto simp: head formHead_def)
  have run: "submitPlan isoOk parseDate V (Some s) f db = (if pf_items f = [] then (FormSaved i, d)
      else onReply (itemsPut V (Some s) i (JObj [(''items'', JArr (map_idx itemJson (pf_items f)))]) d) (\<lambda>_ db. (FormSaved i, db)))"
    using isoOfField_some [OF assms(4)] assms(3,4) d(1) by (simp add: submitPlan_def onReply_def)
  have same: "(formHead (parseDate isoDate) f p)\<lparr>wp_items := wp_items p\<rparr> = formHead (parseDate isoDate) f p"
    using alive(2) [of "parseDate isoDate"] by (metis (no_types) webPlan.surjective webPlan.update_convs(6))
  have "agenda d i = Some (formHead (parseDate isoDate) f p)"
    by (simp add: d(2))
  note put = put_items [OF d(4) assms(2) items_parsed [OF assms(9)] this alive(1), folded formRows_bodies,
      unfolded formRows_ok [OF assms(10)] d(3)]
  show ?thesis
  proof (cases "pf_items f = []")
    case True
    then show ?thesis
      using run d(2,4) same by (simp add: songsKnown_def)
  next
    case False
    show ?thesis
    proof (cases "songsKnown (songSet db) f")
      case True
      then show ?thesis
        using put False run d(2) by (auto simp: onReply_def)
    next
      case False
      then obtain e where "itemsPut V (Some s) i (JObj [(''items'', JArr (map_idx itemJson (pf_items f)))]) d = (Crashed e, d)"
        using put by auto
      then show ?thesis
        using False \<open>pf_items f \<noteq> []\<close> run d(2,4) same by (simp add: onReply_def)
    qed
  qed
qed

lemma submit_created:
  assumes "ok db" and "canManagePlans (ws_role s)" and "pf_initial f = None" and "isoOfField (pf_date f) = Some isoDate"
    and "isoOk isoDate" and "\<forall>j q. agenda db j = Some q \<longrightarrow> wp_date q \<noteq> parseDate isoDate"
    and "kindsGiven f" and "length (pf_items f) \<le> 2 ^ 31"
  shows "\<exists>i db'. submitPlan isoOk parseDate V (Some s) f db
        = (if songsKnown (songSet db) f then FormSaved i else RequestCrashed, db') \<and> agenda db i = None
     \<and> agenda db' = (agenda db)(i \<mapsto> (newPlan (parseDate isoDate) (orUndefined (trim (pf_title f))))
         \<lparr>wp_id := i, wp_items := (if songsKnown (songSet db) f then formRows f else [])\<rparr>) \<and> ok db'"
proof -
  let ?p = "newPlan (parseDate isoDate) (orUndefined (trim (pf_title f)))"
  have free: "vFindPlan V db (\<lambda>p. wp_date p = parseDate isoDate \<and> wp_deletedAt p = None) = None"
  proof (rule ccontr)
    assume "vFindPlan V db (\<lambda>p. wp_date p = parseDate isoDate \<and> wp_deletedAt p = None) \<noteq> None"
    then show False
      using find_some [OF assms(1)] assms(6) by fastforce
  qed
  have new: "wp_date ?p = parseDate isoDate" "wp_items ?p = []" "wp_deletedAt ?p = None"
    by (simp_all add: newPlan_def)
  obtain q d where u: "vCreatePlan V db ?p = Inr (q, d)"
    using create_fits [OF assms(1), of ?p] assms(6) new(1) by force
  obtain i where i: "agenda db i = None" "q = ?p\<lparr>wp_id := i\<rparr>" "agenda d = (agenda db)(i \<mapsto> q)" "songSet d = songSet db" "ok d"
    using create_plan [OF assms(1) u] by blast
  have run: "submitPlan isoOk parseDate V (Some s) f db = (if pf_items f = [] then (FormSaved i, d)
      else onReply (itemsPut V (Some s) i (JObj [(''items'', JArr (map_idx itemJson (pf_items f)))]) d) (\<lambda>_ db. (FormSaved i, db)))"
    using isoOfField_some [OF assms(4)] assms(2-5) free u i(2)
    by (simp add: submitPlan_def plansPost_def planJson_parsed onReply_def)
  have "agenda d i = Some q" and alive: "wp_deletedAt q = None"
    using i(2,3) new by simp_all
  note put = put_items [OF i(5) assms(2) items_parsed [OF assms(7)] this, folded formRows_bodies,
      unfolded formRows_ok [OF assms(8)] i(4)]
  have none: "q\<lparr>wp_items := []\<rparr> = q"
    using i(2) new(2) by simp
  show ?thesis
  proof (cases "songsKnown (songSet db) f")
    case True
    show ?thesis
    proof (cases "pf_items f = []")
      case True
      moreover from this have "formRows f = []"
        by (simp add: formRows_def)
      ultimately show ?thesis
        using \<open>songsKnown (songSet db) f\<close> run i none by (intro exI [of _ i]) auto
    next
      case False
      then show ?thesis
        using put True run i by (intro exI [of _ i]) (auto simp: onReply_def)
    qed
  next
    case False
    then obtain e where "itemsPut V (Some s) i (JObj [(''items'', JArr (map_idx itemJson (pf_items f)))]) d = (Crashed e, d)"
      using put by auto
    moreover have "pf_items f \<noteq> []"
      using False by (auto simp: songsKnown_def)
    ultimately show ?thesis
      using False run i none by (intro exI [of _ i]) (auto simp: onReply_def)
  qed
qed

end

text \<open>
  C32: The form of a plan, sent by a session that may manage plans with a date that no other plan
  has. For a plan that is there, the date and the title of the form are stored, an empty title
  leaving the old one; if every song of its items exists the form reports that it is saved and the
  items of the plan are those of the form, column by column and numbered from 0 in their order, unless the form has none,
  which leaves the old ones; otherwise the request of the items fails and the old ones stay. No
  other plan is changed.
\<close>

theorem plan_form_saved:
  assumes "planTableOk t" and "canManagePlans (ws_role s)" and "pf_initial f = Some i"
    and "isoOfField (pf_date f) = Some isoDate" and "isoOk isoDate" and "vt_agenda t i = Some p" and "wp_deletedAt p = None"
    and "\<forall>j q. vt_agenda t j = Some q \<longrightarrow> wp_date q = parseDate isoDate \<longrightarrow> j = i"
    and "kindsGiven f" and "length (pf_items f) \<le> 2 ^ 31"
  shows "\<exists>t'. submitPlan isoOk parseDate tablePlans (Some s) f t
        = (if songsKnown (vt_songSet t) f then FormSaved i else RequestCrashed, t')
     \<and> vt_agenda t' = (vt_agenda t)(i \<mapsto> p\<lparr>wp_date := parseDate isoDate,
         wp_title := (if trim (pf_title f) = [] then wp_title p else Some (trim (pf_title f))),
         wp_items := (if pf_items f \<noteq> [] \<and> songsKnown (vt_songSet t) f then formRows f else wp_items p)\<rparr>)
     \<and> planTableOk t'"
  using web_plans.submit_edited [of t s f i isoDate isoOk p parseDate, OF assms] by (simp add: formHead_def)

text \<open>The plan of the demonstration with its picture removed and a song picked\<close>

definition demoPlanForm :: planForm where
  "demoPlanForm = pickSong 0 \<lparr>fs_id = ''s'', fs_title = ''Joy'', fs_artist = None\<rparr> (addItem ''SONG_BLOCK'' (removeItem 0
     ((openPlanForm (Some (hd (vt_plans demoAgenda), [None], [''x''])))\<lparr>pf_date := ''2024-02-29''\<rparr>)))"

lemma demoPlanForm_items:
  "pf_items demoPlanForm = [\<lparr>fi_id = None, fi_order = 0, fi_kind = ''SONG_BLOCK'', fi_title = Value ''Joy'',
     fi_songId = Value ''s'', fi_song = Value (''s'', ''Joy''), fi_content = Absent\<rparr>]"
  "pf_initial demoPlanForm = Some ''0''" "pf_date demoPlanForm = ''2024-02-29''" "pf_title demoPlanForm = []"
  by (simp_all add: demoPlanForm_def openPlanForm_def demoAgenda_def removeItem_def addItem_def pickSong_def updateItem_def)

theorem plan_form_saved_witness:
  "\<exists>t' p. submitPlan (\<lambda>_. True) (\<lambda>_. 1709164800000) tablePlans (Some (demoSession ''1'' ADMIN)) demoPlanForm demoAgenda
       = (FormSaved ''0'', t')
     \<and> vt_agenda t' ''0'' = Some p \<and> wp_date p = 1709164800000 \<and> map wi_songId (wp_items p) = [Some ''s'']"
proof -
  obtain isoDate where d: "isoOfField (pf_date demoPlanForm) = Some isoDate"
    by (simp add: demoPlanForm_items isoOfField_def matchYmd_def is_digit_def digits_value_def digit_value_def
        validYmd_def monthStart_def leapDay_def InLeapYear_def)
  have m: "canManagePlans (ws_role (demoSession ''1'' ADMIN))"
    by code_simp
  have p: "vt_agenda demoAgenda ''0'' = Some (hd (vt_plans demoAgenda))" "wp_deletedAt (hd (vt_plans demoAgenda)) = None"
    by (simp_all add: vt_agenda_def demoAgenda_def)
  have one: "vt_agenda demoAgenda j = Some q \<Longrightarrow> j = ''0''" for j q
    by (simp add: vt_agenda_def demoAgenda_def split: if_splits)
  have f: "kindsGiven demoPlanForm" "length (pf_items demoPlanForm) \<le> 2 ^ 31" "songsKnown (vt_songSet demoAgenda) demoPlanForm"
    by (simp_all add: kindsGiven_def songsKnown_def demoPlanForm_items vt_songSet_def demoAgenda_def)
  have rows: "map wi_songId (formRows demoPlanForm) = [Some ''s'']"
    by (simp add: formRows_def demoPlanForm_items)
  show ?thesis
    using plan_form_saved [OF demoAgenda_ok m demoPlanForm_items(2) d _ p, of "\<lambda>_. True" "\<lambda>_. 1709164800000"] one f rows
    by (auto simp: demoPlanForm_items)
qed

text \<open>
  A form from which every item is removed reports that it is saved, and the items stay; a new plan
  whose items fail is there afterwards, without items.
\<close>

lemma emptied_plan_keeps_items:
  assumes "planTableOk t" and "canManagePlans (ws_role s)" and "pf_initial f = Some i"
    and "isoOfField (pf_date f) = Some isoDate" and "isoOk isoDate" and "vt_agenda t i = Some p" and "wp_deletedAt p = None"
    and "\<forall>j q. vt_agenda t j = Some q \<longrightarrow> wp_date q = parseDate isoDate \<longrightarrow> j = i" and "pf_items f = []"
  shows "\<exists>t' q. submitPlan isoOk parseDate tablePlans (Some s) f t = (FormSaved i, t')
     \<and> vt_agenda t' i = Some q \<and> wp_items q = wp_items p"
  using web_plans.submit_edited [of t s f i isoDate isoOk p parseDate, OF assms(1-8)] assms(9) by (auto simp: kindsGiven_def songsKnown_def formHead_def)

lemma failed_creation_leaves_plan:
  assumes "planTableOk t" and "canManagePlans (ws_role s)" and "pf_initial f = None"
    and "isoOfField (pf_date f) = Some isoDate" and "isoOk isoDate"
    and "\<forall>j q. vt_agenda t j = Some q \<longrightarrow> wp_date q \<noteq> parseDate isoDate"
    and "kindsGiven f" and "length (pf_items f) \<le> 2 ^ 31" and "\<not> songsKnown (vt_songSet t) f"
  shows "\<exists>t' i q. submitPlan isoOk parseDate tablePlans (Some s) f t = (RequestCrashed, t')
     \<and> vt_agenda t i = None \<and> vt_agenda t' i = Some q \<and> wp_date q = parseDate isoDate \<and> wp_items q = []"
  using web_plans.submit_created [of t s f isoDate isoOk parseDate, OF assms(1-8)] assms(9) by (auto simp: newPlan_def)

end
