(* ===== verification/WebSongForms.thy ===== *)
theory WebSongForms
  imports WebForms
begin

text \<open>
  The form of a song and the import of songs in the web application (\<open>components/songs/SongForm.tsx\<close>
  and \<open>ImportClient.tsx\<close>), and the small controls of a song: the favourite, the state of learning and
  the reading mode. They send their requests to the routes of songs.
\<close>

section \<open>The form of a song\<close>

definition BLOCK_TYPES :: "(string \<times> string) list" where
  "BLOCK_TYPES = [(''VERSE'', ''Couplet''), (''CHORUS'', ''Refrain''), (''BRIDGE'', ''Bridge''), (''INTRO'', ''Intro''),
     (''OUTRO'', ''Outro''), (''OTHER'', ''Autre'')]"

definition typeLabel :: "string \<Rightarrow> string" where
  "typeLabel ty = orElse (map_of BLOCK_TYPES ty) ty"

record songFormBlock =
  fb_id :: string
  fb_label :: string
  fb_type :: string
  fb_content :: string
  fb_order :: rat

record songForm =
  sg_initial :: "string option"
  sg_title :: string
  sg_artist :: string
  sg_tags :: string
  sg_blocks :: "songFormBlock list"

definition newBlock :: "string \<Rightarrow> rat \<Rightarrow> songFormBlock" where
  "newBlock i ord = \<lparr>fb_id = i, fb_label = ''Couplet'', fb_type = ''VERSE'', fb_content = [], fb_order = ord\<rparr>"

text \<open>An element of an array as \<open>join\<close> prints it; \<open>str\<close> is \<open>String\<close> on values that are no texts.\<close>

definition joinedText :: "(jsval \<Rightarrow> string) \<Rightarrow> jsval \<Rightarrow> string" where
  "joinedText str v = (case v of JStr s \<Rightarrow> s | _ \<Rightarrow> if is_nullish v then [] else str v)"

text \<open>\<open>readJson\<close> is \<open>JSON.parse\<close>, \<open>None\<close> when it raises.\<close>

definition parseTags :: "(string \<Rightarrow> jsval option) \<Rightarrow> (jsval \<Rightarrow> string) \<Rightarrow> string option \<Rightarrow> string" where
  "parseTags readJson str tags =
     (case tags of
        Some (c # s) \<Rightarrow> (case readJson (c # s) of Some (JArr vs) \<Rightarrow> join '', '' (map (joinedText str) vs) | _ \<Rightarrow> [])
      | _ \<Rightarrow> [])"

text \<open>\<open>i\<close> and \<open>j\<close> are new identifiers; the blocks of a song come with theirs.\<close>

definition openSongForm ::
  "(string \<Rightarrow> jsval option) \<Rightarrow> (jsval \<Rightarrow> string) \<Rightarrow> string \<Rightarrow> string \<Rightarrow> (webSong \<times> string list) option \<Rightarrow> songForm" where
  "openSongForm readJson str i j initial =
     (let empty = [newBlock i 0, (newBlock j 1)\<lparr>fb_type := ''CHORUS'', fb_label := ''Refrain''\<rparr>]
      in case initial of
           None \<Rightarrow> \<lparr>sg_initial = None, sg_title = [], sg_artist = [], sg_tags = [], sg_blocks = empty\<rparr>
         | Some (r, ids) \<Rightarrow> \<lparr>sg_initial = Some (wso_id r), sg_title = wso_title r, sg_artist = orElse (wso_artist r) [],
             sg_tags = parseTags readJson str (wso_tags r),
             sg_blocks = (if wso_blocks r = [] then empty
               else map2 (\<lambda>k b. \<lparr>fb_id = k, fb_label = orElse (wb_title b) (typeLabel (wb_type b)), fb_type = wb_type b,
                      fb_content = wb_content b, fb_order = wb_order b\<rparr>) ids (wso_blocks r))\<rparr>)"

definition addBlock :: "string \<Rightarrow> string \<Rightarrow> songForm \<Rightarrow> songForm" where
  "addBlock i ty f = f\<lparr>sg_blocks := sg_blocks f @ [\<lparr>fb_id = i, fb_label = typeLabel ty, fb_type = ty, fb_content = [],
     fb_order = of_nat (length (sg_blocks f))\<rparr>]\<rparr>"

definition removeBlock :: "string \<Rightarrow> songForm \<Rightarrow> songForm" where
  "removeBlock i f = f\<lparr>sg_blocks := map_idx (\<lambda>n b. b\<lparr>fb_order := of_nat n\<rparr>) (filter (\<lambda>b. fb_id b \<noteq> i) (sg_blocks f))\<rparr>"

definition updateBlock :: "string \<Rightarrow> (songFormBlock \<Rightarrow> songFormBlock) \<Rightarrow> songForm \<Rightarrow> songForm" where
  "updateBlock i u f = f\<lparr>sg_blocks := map (\<lambda>b. if fb_id b = i then u b else b) (sg_blocks f)\<rparr>"

definition changeBlockType :: "string \<Rightarrow> string \<Rightarrow> songForm \<Rightarrow> songForm" where
  "changeBlockType i ty f = updateBlock i (\<lambda>b. b\<lparr>fb_label := typeLabel ty\<rparr>) (updateBlock i (\<lambda>b. b\<lparr>fb_type := ty\<rparr>) f)"

definition splitTags :: "string \<Rightarrow> string list" where
  "splitTags raw = filter (\<lambda>s. s \<noteq> []) (map trim (split_on (CHR '','') raw))"

definition songBlockJson :: "nat \<Rightarrow> songFormBlock \<Rightarrow> jsval" where
  "songBlockJson i b = JObj [(''label'', JStr (fb_label b)), (''type'', JStr (fb_type b)), (''content'', JStr (fb_content b)),
     (''order'', JNum (IntNum (int i)))]"

text \<open>\<open>writeTags\<close> is \<open>JSON.stringify\<close> on the list of the tags.\<close>

definition songJson :: "(string list \<Rightarrow> string) \<Rightarrow> songForm \<Rightarrow> jsval" where
  "songJson writeTags f = JObj ((''title'', JStr (trim (sg_title f))) # sentText ''artist'' (orUndefined (trim (sg_artist f)))
     @ sentText ''tags'' (if sg_tags f = [] then None else Some (writeTags (splitTags (sg_tags f))))
     @ [(''blocks'', JArr (map_idx songBlockJson (sg_blocks f)))])"

definition submitSong ::
  "(string list \<Rightarrow> string) \<Rightarrow> 'db webSongDb \<Rightarrow> webSession option \<Rightarrow> songForm \<Rightarrow> 'db \<Rightarrow> formOutcome \<times> 'db" where
  "submitSong writeTags W session f db =
     (if trim (sg_title f) = [] then (InvalidForm ''Le titre est requis'', db)
      else if sg_blocks f = [] then (InvalidForm ''Au moins un bloc est requis'', db)
      else if list_ex (\<lambda>b. trim (fb_content b) = []) (sg_blocks f)
      then (InvalidForm ''Tous les blocs doivent avoir du contenu'', db)
      else onReply (case sg_initial f of
                      Some i \<Rightarrow> songPatch W session i (songJson writeTags f) db
                    | None \<Rightarrow> songsPost W session (songJson writeTags f) db)
             (\<lambda>r db. (FormSaved (wso_id r), db)))"

text \<open>What the routes read of the form\<close>

definition bodyOfSongForm :: "(string list \<Rightarrow> string) \<Rightarrow> songForm \<Rightarrow> songBody" where
  "bodyOfSongForm writeTags f = \<lparr>sb_title = Some (trim (sg_title f)), sb_artist = orUndefined (trim (sg_artist f)), sb_album = None,
     sb_year = None, sb_language = None,
     sb_tags = (if sg_tags f = [] then None else Some (writeTags (splitTags (sg_tags f)))),
     sb_blocks = Some (map_idx (\<lambda>i b. \<lparr>wb_order = of_int (int i), wb_type = fb_type b, wb_title = Some (fb_label b),
       wb_content = fb_content b\<rparr>) (sg_blocks f))\<rparr>"

definition songFormOk :: "songForm \<Rightarrow> bool" where
  "songFormOk f \<longleftrightarrow> trim (sg_title f) \<noteq> [] \<and> sg_blocks f \<noteq> []
     \<and> list_all (\<lambda>b. trim (fb_content b) \<noteq> [] \<and> fb_label b \<noteq> [] \<and> fb_type b \<in> fst ` set blockTypes) (sg_blocks f)"

lemma blockTypes_get: "map_of blockTypes ty = (if ty \<in> fst ` set blockTypes then Some ty else None)"
  by (auto simp: blockTypes_def)

lemma songBlock_parsed:
  "trim (fb_content b) \<noteq> [] \<Longrightarrow> fb_label b \<noteq> [] \<Longrightarrow> fb_type b \<in> fst ` set blockTypes \<Longrightarrow> SongBlockSchema (songBlockJson i b)
     = Inr \<lparr>wb_order = of_int (int i), wb_type = fb_type b, wb_title = Some (fb_label b), wb_content = fb_content b\<rparr>"
  by (cases "fb_content b = []")
    (auto simp: SongBlockSchema_def songBlockJson_def zObject_def zCheck_def zMin_def zInt_def zNumber_def zString_def zEnum_def
      blockTypes_get Suc_le_eq trim_def trim_left_def trim_right_def)

lemma shape_parsed:
  assumes "titleZ (JStr title) = Inr t" and "blocksZ bs = Inr b"
  shows "songShape titleZ blocksZ (JObj ((''title'', JStr title) # sentText ''artist'' artist @ sentText ''tags'' tags @ [(''blocks'', bs)]))
     = Inr \<lparr>sb_title = t, sb_artist = artist, sb_album = None, sb_year = None, sb_language = None, sb_tags = tags, sb_blocks = b\<rparr>"
  using assms by (cases artist; cases tags) (simp_all add: songShape_def zObject_def zOptional_def zString_def sentText_def)

lemma songForm_parsed:
  assumes "songFormOk f"
  shows "UpdateSongSchema (songJson writeTags f) = Inr (bodyOfSongForm writeTags f)"
    and "CreateSongSchema (songJson writeTags f) = Inr (bodyOfSongForm writeTags f)"
proof -
  let ?row = "\<lambda>i b. \<lparr>wb_order = of_int (int i), wb_type = fb_type b, wb_title = Some (fb_label b), wb_content = fb_content b\<rparr>"
  have "list_all (\<lambda>b. trim (fb_content b) \<noteq> [] \<and> fb_label b \<noteq> [] \<and> fb_type b \<in> fst ` set blockTypes) bs \<Longrightarrow>
      traverse_from k (\<lambda>_. SongBlockSchema) (map_idx_from j songBlockJson bs) = Inr (map_idx_from j ?row bs)" for k j bs
    by (induction bs arbitrary: k j) (simp_all add: songBlock_parsed)
  moreover have "map_idx ?row (sg_blocks f) \<noteq> []"
    using assms by (cases "sg_blocks f") (simp_all add: songFormOk_def)
  ultimately have "songBlocksZ (JArr (map_idx songBlockJson (sg_blocks f))) = Inr (map_idx ?row (sg_blocks f))"
    using assms by (simp add: songBlocksZ_def songFormOk_def zArray_def zMin_def zCheck_def Suc_le_eq)
  moreover have "songTitleZ (JStr (trim (sg_title f))) = Inr (trim (sg_title f))"
    using assms by (simp add: songTitleZ_def songFormOk_def zMin_def zCheck_def zString_def Suc_le_eq)
  ultimately show "UpdateSongSchema (songJson writeTags f) = Inr (bodyOfSongForm writeTags f)"
      "CreateSongSchema (songJson writeTags f) = Inr (bodyOfSongForm writeTags f)"
    unfolding UpdateSongSchema_def CreateSongSchema_def songJson_def bodyOfSongForm_def
    by (simp_all add: shape_parsed zOptional_def required_def)
qed

section \<open>What the form of a song saves\<close>

definition formBlocks :: "songForm \<Rightarrow> webBlock list" where
  "formBlocks f = map_idx (\<lambda>i b. \<lparr>wb_order = of_int (int i), wb_type = fb_type b, wb_title = Some (fb_label b),
     wb_content = fb_content b\<rparr>) (sg_blocks f)"

lemma formBlocks_ok:
  assumes "length (sg_blocks f) \<le> 2 ^ 31"
  shows "blocksOk (formBlocks f)" and "byOrder (formBlocks f) = formBlocks f"
proof -
  have orders: "map wb_order (formBlocks f) = map (\<lambda>i. of_int (int i)) [0..<length (sg_blocks f)]"
    using map_idx_index [of 0 "\<lambda>i. of_int (int i) :: rat" "sg_blocks f"] by (simp add: formBlocks_def)
  have "orderOk (wb_order b)" if "b \<in> set (formBlocks f)" for b
  proof -
    have "wb_order b \<in> set (map wb_order (formBlocks f))"
      using that by simp
    then show ?thesis
      using assms by (auto simp: orders orderOk_def)
  qed
  then show "blocksOk (formBlocks f)"
    by (simp add: blocksOk_def orders distinct_map list_all_iff inj_on_def)
  have "sorted (map wb_order (formBlocks f))"
    unfolding orders by (simp add: sorted_map)
  then show "byOrder (formBlocks f) = formBlocks f"
    unfolding byOrder_def by (rule sort_key_id_if_sorted)
qed

text \<open>
  The form of a song that is there, sent by a session that may edit: if another song, deleted or not,
  has the title, nothing changes; otherwise the song has the title and the blocks of the form, numbered
  from 0, and the artist and the tags that are not empty. An artist or tags that the user removed stay.
\<close>

lemma song_form_saved:
  assumes "webTablesOk t" and "canEditSongs (ws_role s)" and "sg_initial f = Some i" and "songFormOk f"
    and "wt_lib t i = Some q" and "wso_deletedAt q = None" and "length (sg_blocks f) \<le> 2 ^ 31"
  shows "if \<exists>j r. wt_lib t j = Some r \<and> wso_title r = trim (sg_title f) \<and> j \<noteq> i
     then submitSong writeTags tableSongsDb (Some s) f t = (RequestCrashed, t)
     else \<exists>t'. submitSong writeTags tableSongsDb (Some s) f t = (FormSaved i, t')
        \<and> wt_lib t' = (wt_lib t)(i \<mapsto> q\<lparr>wso_title := trim (sg_title f),
            wso_artist := orOption (orUndefined (trim (sg_artist f))) (wso_artist q),
            wso_tags := (if sg_tags f = [] then wso_tags q else Some (writeTags (splitTags (sg_tags f)))),
            wso_blocks := formBlocks f\<rparr>) \<and> webTablesOk t'"
proof -
  let ?b = "bodyOfSongForm writeTags f"
  have new: "patched ?b q = q\<lparr>wso_title := trim (sg_title f),
      wso_artist := orOption (orUndefined (trim (sg_artist f))) (wso_artist q),
      wso_tags := (if sg_tags f = [] then wso_tags q else Some (writeTags (splitTags (sg_tags f)))), wso_blocks := formBlocks f\<rparr>"
    using formBlocks_ok(2) [OF assms(7)]
    by (simp add: patched_patch patchSong_def bodyOfSongForm_def formBlocks_def orElse_def orOption_def)
  have title: "wso_title (patchSong ?b q) = trim (sg_title f)"
    by (simp add: patchSong_def bodyOfSongForm_def orElse_def)
  have bs: "\<forall>bs. sb_blocks ?b = Some bs \<longrightarrow> blocksOk bs"
    using formBlocks_ok(1) [OF assms(7)] by (simp add: bodyOfSongForm_def formBlocks_def)
  have run: "submitSong writeTags tableSongsDb (Some s) f t
      = onReply (songPatch tableSongsDb (Some s) i (songJson writeTags f) t) (\<lambda>r db. (FormSaved (wso_id r), db))"
    using assms(3,4) by (auto simp: submitSong_def songFormOk_def list_all_iff list_ex_iff)
  note patch = web_songs.patch_song [OF assms(1,2) songForm_parsed(1) [OF assms(4), of writeTags] assms(5,6), unfolded title new]
  have key: "wso_id q = i"
    by (rule web_songs.song_key [OF assms(1,5)])
  show ?thesis
  proof (cases "\<exists>j r. wt_lib t j = Some r \<and> wso_title r = trim (sg_title f) \<and> j \<noteq> i")
    case True
    then have "\<not> ((\<forall>j r. wt_lib t j = Some r \<longrightarrow> wso_title r = trim (sg_title f) \<longrightarrow> j = i)
        \<and> (\<forall>bs. sb_blocks ?b = Some bs \<longrightarrow> blocksOk bs))"
      by blast
    then obtain e where "songPatch tableSongsDb (Some s) i (songJson writeTags f) t = (Crashed e, t)"
      using patch by (metis (no_types, lifting))
    then show ?thesis
      using True by (simp add: run onReply_def)
  next
    case False
    then have "\<forall>j r. wt_lib t j = Some r \<longrightarrow> wso_title r = trim (sg_title f) \<longrightarrow> j = i"
      by blast
    then show ?thesis
      using patch bs key False by (auto simp: run onReply_def)
  qed
qed

text \<open>The tags of a song survive the form, which shows them as one text.\<close>

lemma trim_space: "trim (CHR '' '' # s) = trim s"
  by (simp add: trim_def trim_left_def js_space_def)

lemma split_space: "map trim (split_on (CHR '','') (CHR '' '' # s)) = map trim (split_on (CHR '','') s)"
  by (cases "split_on (CHR '','') s") (simp_all add: trim_space)

lemma split_joined_tags:
  "\<forall>l \<in> set ls. CHR '','' \<notin> set l \<and> l \<noteq> [] \<and> trimmed l \<Longrightarrow> splitTags (join '', '' ls) = ls"
proof -
  have "ls \<noteq> [] \<Longrightarrow> \<forall>l \<in> set ls. CHR '','' \<notin> set l \<and> l \<noteq> [] \<and> trimmed l \<Longrightarrow>
      map trim (split_on (CHR '','') (join '', '' ls)) = ls" for ls
    by (induction "'', ''" ls rule: join.induct)
      (simp_all add: split_on_single split_on_append trim_trimmed split_space del: split_on.simps)
  then show "\<forall>l \<in> set ls. CHR '','' \<notin> set l \<and> l \<noteq> [] \<and> trimmed l \<Longrightarrow> splitTags (join '', '' ls) = ls"
    by (cases "ls = []") (simp_all add: splitTags_def)
qed

text \<open>
  A song whose form is opened and sent without a change stays as it was: its title and artist are
  without blanks at the ends, its tags are texts, its blocks have titles and are numbered from 0.
\<close>

definition formSong :: "(string \<Rightarrow> jsval option) \<Rightarrow> (string list \<Rightarrow> string) \<Rightarrow> webSong \<Rightarrow> bool" where
  "formSong readJson writeTags q \<longleftrightarrow> wso_title q \<noteq> [] \<and> trimmed (wso_title q)
     \<and> (case wso_artist q of None \<Rightarrow> True | Some a \<Rightarrow> a \<noteq> [] \<and> trimmed a)
     \<and> (case wso_tags q of None \<Rightarrow> True
        | Some w \<Rightarrow> w \<noteq> [] \<and> (\<exists>ls. readJson w = Some (JArr (map JStr ls)) \<and> writeTags ls = w
            \<and> (\<forall>l \<in> set ls. CHR '','' \<notin> set l \<and> l \<noteq> [] \<and> trimmed l)))
     \<and> wso_blocks q \<noteq> [] \<and> map wb_order (wso_blocks q) = map (\<lambda>i. of_int (int i)) [0..<length (wso_blocks q)]
     \<and> list_all (\<lambda>b. trim (wb_content b) \<noteq> [] \<and> (case wb_title b of None \<Rightarrow> False | Some l \<Rightarrow> l \<noteq> [])
          \<and> wb_type b \<in> fst ` set blockTypes) (wso_blocks q)"

lemma opened_blocks:
  assumes "length ids = length bs" and "map wb_order bs = map (\<lambda>i. of_int (int i)) [n..<n + length bs]"
    and "list_all (\<lambda>b. wb_title b \<noteq> None) bs"
  shows "map_idx_from n (\<lambda>i b. \<lparr>wb_order = of_int (int i), wb_type = fb_type b, wb_title = Some (fb_label b), wb_content = fb_content b\<rparr>)
     (map2 (\<lambda>k b. \<lparr>fb_id = k, fb_label = orElse (wb_title b) (typeLabel (wb_type b)), fb_type = wb_type b,
        fb_content = wb_content b, fb_order = wb_order b\<rparr>) ids bs) = bs"
  using assms
proof (induction ids bs arbitrary: n rule: list_induct2)
  case (Cons k ids b bs)
  then have "wb_order b = of_int (int n)" "map wb_order bs = map (\<lambda>i. of_int (int i)) [Suc n..<Suc n + length bs]"
    by (simp_all add: upt_conv_Cons del: upt_Suc)
  then show ?case
    using Cons.IH [of "Suc n"] Cons.prems(2) by (cases b) (auto simp: orElse_def)
qed simp

lemma untouched_song_form:
  assumes "webTablesOk t" and "canEditSongs (ws_role s)" and "wt_lib t i = Some q" and "wso_deletedAt q = None"
    and "formSong readJson writeTags q" and "length ids = length (wso_blocks q)" and "length ids \<le> 2 ^ 31"
  shows "\<exists>t'. submitSong writeTags tableSongsDb (Some s) (openSongForm readJson str a b (Some (q, ids))) t = (FormSaved i, t')
     \<and> wt_lib t' = wt_lib t \<and> webTablesOk t'"
proof -
  let ?f = "openSongForm readJson str a b (Some (q, ids))"
  note d = assms(5) [unfolded formSong_def]
  have f: "sg_initial ?f = Some (wso_id q)" "sg_title ?f = wso_title q" "sg_artist ?f = orElse (wso_artist q) []"
      "sg_tags ?f = parseTags readJson str (wso_tags q)" "length (sg_blocks ?f) = length ids"
    using d assms(6) by (simp_all add: openSongForm_def)
  have key: "wso_id q = i"
    by (rule web_songs.song_key [OF assms(1,3)])
  have blocks: "formBlocks ?f = wso_blocks q"
    using opened_blocks [of ids "wso_blocks q" 0] d assms(6)
    by (auto simp: formBlocks_def openSongForm_def list_all_iff split: option.splits)
  have "list_all (\<lambda>b. trim (wb_content b) \<noteq> [] \<and> orElse (wb_title b) [] \<noteq> [] \<and> wb_type b \<in> fst ` set blockTypes) (formBlocks ?f)"
    using d unfolding blocks by (auto simp: list_all_iff orElse_def split: option.splits)
  then have "list_all (\<lambda>b. trim (fb_content b) \<noteq> [] \<and> fb_label b \<noteq> [] \<and> fb_type b \<in> fst ` set blockTypes) (sg_blocks ?f)"
    by (auto simp: formBlocks_def list_all_length nth_map_idx orElse_def)
  then have ok: "songFormOk ?f"
    using d f(5) assms(6) by (auto simp: songFormOk_def f(2) trim_trimmed)
  have artist: "orOption (orUndefined (trim (sg_artist ?f))) (wso_artist q) = wso_artist q"
    using d by (auto simp: f(3) orUndefined_def orOption_def orElse_def trim_trimmed split: option.splits)
  have tags: "(if sg_tags ?f = [] then wso_tags q else Some (writeTags (splitTags (sg_tags ?f)))) = wso_tags q"
  proof (cases "wso_tags q")
    case (Some w)
    then obtain c w' ls where w: "w = c # w'" "readJson w = Some (JArr (map JStr ls))" "writeTags ls = w"
        "\<forall>l \<in> set ls. CHR '','' \<notin> set l \<and> l \<noteq> [] \<and> trimmed l"
      using d by (cases w) auto
    have "sg_tags ?f = join '', '' ls"
      using Some w by (simp add: f(4) parseTags_def joinedText_def comp_def)
    then show ?thesis
      using Some w split_joined_tags by auto
  qed (simp add: f(4) parseTags_def)
  have title: "trim (sg_title ?f) = wso_title q"
    using d by (simp only: f(2) trim_trimmed)
  have "\<not> (\<exists>j r. wt_lib t j = Some r \<and> wso_title r = wso_title q \<and> j \<noteq> i)"
    using web_songs.titles [OF assms(1) _ assms(3)] by blast
  note saved = song_form_saved [OF assms(1,2) f(1) [unfolded key] ok assms(3,4) f(5) [THEN ord_eq_le_trans, OF assms(7)],
      of writeTags, unfolded title artist tags blocks if_not_P [OF this]]
  have "(wt_lib t)(i \<mapsto> q\<lparr>wso_title := wso_title q, wso_artist := wso_artist q, wso_tags := wso_tags q,
      wso_blocks := wso_blocks q\<rparr>) = wt_lib t"
    using assms(3) by auto
  with saved show ?thesis
    by (simp only:)
qed

text \<open>What the user removes from a song stays: an empty artist and empty tags are not sent.\<close>

lemma removed_artist_stays:
  assumes "webTablesOk t" and "canEditSongs (ws_role s)" and "sg_initial f = Some i" and "songFormOk f"
    and "wt_lib t i = Some q" and "wso_deletedAt q = None" and "length (sg_blocks f) \<le> 2 ^ 31"
    and "trim (sg_title f) = wso_title q" and "sg_artist f = []" and "sg_tags f = []"
  shows "\<exists>t' r. submitSong writeTags tableSongsDb (Some s) f t = (FormSaved i, t') \<and> wt_lib t' i = Some r
     \<and> wso_artist r = wso_artist q \<and> wso_tags r = wso_tags q"
proof -
  have free: "\<not> (\<exists>j r. wt_lib t j = Some r \<and> wso_title r = trim (sg_title f) \<and> j \<noteq> i)"
    using web_songs.titles [OF assms(1) _ assms(5)] assms(8) by fastforce
  show ?thesis
    using song_form_saved [OF assms(1-7), of writeTags, unfolded if_not_P [OF free]] assms(9,10)
    by (auto simp: orUndefined_def orOption_def)
qed

section \<open>The import\<close>

record importForm =
  if_detected :: "parseOutcome list"
  if_mode :: importMode

datatype importNotice = OnlyTextFiles | ImportRefused issue | ImportCrashed | ImportDone importCounts

text \<open>The files that are dropped or chosen; the list of the last ones is cleared first.\<close>

definition handleFiles ::
  "(string \<Rightarrow> string) \<Rightarrow> (string \<Rightarrow> string + string) \<Rightarrow> 'db webSongDb \<Rightarrow> webSession option \<Rightarrow> webFile list \<Rightarrow> 'db
     \<Rightarrow> importForm \<Rightarrow> importNotice option \<times> importForm" where
  "handleFiles decode docxText W session chosen db form =
     (let allowed = filter (\<lambda>x. endsWith (wf_name x) ''.txt'' \<or> endsWith (wf_name x) ''.docx'') chosen
      in if allowed = [] then (Some OnlyTextFiles, form)
         else (case fst (importParse decode docxText W session allowed db) of
                 Reply _ found \<Rightarrow> (None, form\<lparr>if_detected := found\<rparr>)
               | Refused _ e \<Rightarrow> (Some (ImportRefused e), form\<lparr>if_detected := []\<rparr>)
               | Crashed _ \<Rightarrow> (Some ImportCrashed, form\<lparr>if_detected := []\<rparr>)))"

text \<open>The cross of an entry of the list\<close>

definition dropDetected :: "nat \<Rightarrow> importForm \<Rightarrow> importForm" where
  "dropDetected i form = form\<lparr>if_detected := take i (if_detected form) @ drop (Suc i) (if_detected form)\<rparr>"

text \<open>\<open>readySongs\<close> and \<open>failedSongs\<close>\<close>

definition readySongs :: "parseOutcome list \<Rightarrow> parsedSong list" where
  "readySongs ds = List.map_filter (\<lambda>d. case d of ParsedFile _ song _ \<Rightarrow> Some song | ParseFailed _ _ \<Rightarrow> None) ds"

definition failedSongs :: "parseOutcome list \<Rightarrow> (string \<times> string) list" where
  "failedSongs ds = List.map_filter (\<lambda>d. case d of ParseFailed name e \<Rightarrow> Some (name, e) | ParsedFile _ _ _ \<Rightarrow> None) ds"

definition parsedBlockJson :: "parsedBlock \<Rightarrow> jsval" where
  "parsedBlockJson b = JObj [(''type'', JStr (pb_type b)), (''label'', JStr (pb_label b)), (''content'', JStr (pb_content b)),
     (''order'', JNum (IntNum (int (pb_order b))))]"

definition parsedSongJson :: "parsedSong \<Rightarrow> jsval" where
  "parsedSongJson x = JObj ((''title'', JStr (ps_title x)) # sentText ''artist'' (ps_artist x)
     @ [(''blocks'', JArr (map parsedBlockJson (ps_blocks x)))])"

fun modeName :: "importMode \<Rightarrow> string" where
  "modeName IGNORE = ''IGNORE''"
| "modeName OVERWRITE = ''OVERWRITE''"

definition importJson :: "parsedSong list \<Rightarrow> importMode \<Rightarrow> jsval" where
  "importJson songs mode = JObj [(''songs'', JArr (map parsedSongJson songs)), (''mode'', JStr (modeName mode))]"

definition processImport ::
  "'db webSongDb \<Rightarrow> webSession option \<Rightarrow> importForm \<Rightarrow> 'db \<Rightarrow> importNotice option \<times> 'db" where
  "processImport W session form db =
     (let valid = readySongs (if_detected form)
      in if valid = [] then (None, db)
         else (case importConfirm W session (importJson valid (if_mode form)) db of
                 (Reply _ n, db) \<Rightarrow> (Some (ImportDone n), db)
               | (Refused _ e, db) \<Rightarrow> (Some (ImportRefused e), db)
               | (Crashed _, db) \<Rightarrow> (Some ImportCrashed, db)))"

text \<open>Every song that the parser finds passes the check of the import.\<close>

definition importSongOf :: "parsedSong \<Rightarrow> importSong" where
  "importSongOf x = \<lparr>is_title = ps_title x, is_artist = ps_artist x, is_blocks = map (\<lambda>b. \<lparr>wb_order = of_int (int (pb_order b)),
     wb_type = pb_type b, wb_title = Some (pb_label b), wb_content = pb_content b\<rparr>) (ps_blocks x)\<rparr>"

definition importable :: "parsedSong \<Rightarrow> bool" where
  "importable x \<longleftrightarrow> ps_title x \<noteq> [] \<and> list_all (\<lambda>b. pb_type b \<in> fst ` set blockTypes) (ps_blocks x)"

lemma detected_type: "detectBlockType line = Some h \<Longrightarrow> fst h \<in> fst ` set blockTypes"
proof -
  assume "detectBlockType line = Some h"
  then obtain k where "(k, fst h) \<in> set BLOCK_TYPE_MAP"
    by (auto simp: detectBlockType_def split: option.splits simp: find_Some_iff dest!: nth_mem)
  then show "fst h \<in> fst ` set blockTypes"
    by (auto simp: BLOCK_TYPE_MAP_def blockTypes_def)
qed

lemma collected_types:
  "fst h \<in> fst ` set blockTypes \<Longrightarrow> list_all (\<lambda>b. pb_type b \<in> fst ` set blockTypes) (collectBlocks h cur ord ls)"
  by (induction h cur ord ls rule: collectBlocks.induct)
    (auto simp: flushBlock_def Let_def detected_type split: option.split)

lemma parsed_importable:
  assumes "parseSongText s = Some x"
  shows "importable x"
proof -
  obtain l ls where l: "dropWhile (\<lambda>l. trim l = []) (split_on newline (crlfToLf s)) = l # ls"
    using assms unfolding parseSongText_def Let_def
    by (cases "dropWhile (\<lambda>l. trim l = []) (split_on newline (crlfToLf s))") simp_all
  then have "trim l \<noteq> []"
    using hd_dropWhile [of "\<lambda>l. trim l = []" "split_on newline (crlfToLf s)"] by simp
  moreover obtain artist body where a: "takeArtist ls = (artist, body)"
    by fastforce
  define found where "found = collectBlocks (''VERSE'', ''Couplet'') [] 0 body"
  have found: "list_all (\<lambda>b. pb_type b \<in> fst ` set blockTypes) found"
    unfolding found_def by (rule collected_types) (simp add: blockTypes_def)
  have "x = \<lparr>ps_title = trim l, ps_artist = artist, ps_blocks = (if found = [] \<and> trim (join [newline] body) \<noteq> []
       then [\<lparr>pb_type = ''VERSE'', pb_label = ''Couplet 1'', pb_content = trim (join [newline] body), pb_order = 0\<rparr>]
       else found)\<rparr>"
    using assms unfolding parseSongText_def l Let_def list.case a prod.case found_def [symmetric]
    by (metis (no_types, lifting) option.distinct(1) option.inject)
  ultimately show ?thesis
    using found by (simp add: importable_def blockTypes_def)
qed

lemma parsedSong_checked: "importable x \<Longrightarrow> ImportSongSchema (parsedSongJson x) = Inr (importSongOf x)"
proof -
  assume x: "importable x"
  have "list_all (\<lambda>b. pb_type b \<in> fst ` set blockTypes) bs \<Longrightarrow> traverse_from k (\<lambda>_. ImportBlockSchema) (map parsedBlockJson bs)
      = Inr (map (\<lambda>b. \<lparr>wb_order = of_int (int (pb_order b)), wb_type = pb_type b, wb_title = Some (pb_label b),
          wb_content = pb_content b\<rparr>) bs)" for k bs
    by (induction bs arbitrary: k)
      (simp_all add: ImportBlockSchema_def parsedBlockJson_def zObject_def zEnum_def zString_def zNumber_def blockTypes_get)
  then show "ImportSongSchema (parsedSongJson x) = Inr (importSongOf x)"
    using x by (cases "ps_artist x")
      (simp_all add: importable_def ImportSongSchema_def parsedSongJson_def importSongOf_def zObject_def zArray_def zOptional_def
        zMin_def zCheck_def zString_def sentText_def Suc_le_eq)
qed

lemma import_checked:
  "list_all importable xs \<Longrightarrow> ImportBodySchema (importJson xs mode) = Inr (map importSongOf xs, mode)"
proof -
  have "list_all importable xs \<Longrightarrow> traverse_from k (\<lambda>_. ImportSongSchema) (map parsedSongJson xs) = Inr (map importSongOf xs)" for k
    by (induction xs arbitrary: k) (simp_all add: parsedSong_checked)
  then show "list_all importable xs \<Longrightarrow> ImportBodySchema (importJson xs mode) = Inr (map importSongOf xs, mode)"
    by (cases mode) (simp_all add: ImportBodySchema_def importJson_def zObject_def zArray_def zDefault_def zEnum_def)
qed

lemma detected_importable:
  "list_all importable (readySongs (map (parseFile decode docxText W db) fs))"
proof -
  have "importable x" if "parseFile decode docxText W db y = ParsedFile name x e" for y name x e
    using that parsed_importable by (auto simp: parseFile_def split: sum.splits option.splits)
  then show ?thesis
    by (induction fs) (auto simp: readySongs_def map_filter_simps split: parseOutcome.split)
qed

text \<open>
  The import of files never meets a refusal of its songs: the route gets the songs that the form shows
  as ready, in their order, with the chosen mode.
\<close>

lemma form_import:
  assumes "handleFiles decode docxText W (Some s) chosen db form = (None, form')" and "readySongs (if_detected form') \<noteq> []"
    and "canImportSongs (ws_role s)"
  shows "processImport W (Some s) form' db'
     = (case importEach W (if_mode form) (map importSongOf (readySongs (if_detected form')))
          \<lparr>ic_created = 0, ic_updated = 0, ic_skipped = 0\<rparr> db' of
          (Inl e, db'') \<Rightarrow> (Some ImportCrashed, db'') | (Inr n, db'') \<Rightarrow> (Some (ImportDone n), db''))"
proof -
  obtain fs where "if_detected form' = map (parseFile decode docxText W db) fs" "if_mode form' = if_mode form"
    using assms(1) by (auto simp: handleFiles_def importParse_def refuse_def Let_def split: if_splits reply.splits)
  then show ?thesis
    using assms(2,3) import_checked [OF detected_importable, of decode docxText W db fs]
    by (simp add: processImport_def importConfirm_def Let_def split: prod.split sum.split)
qed

section \<open>The controls of a song\<close>

text \<open>\<open>FavoriteToggle\<close> and \<open>LearningSelect\<close> keep what the route has confirmed.\<close>

definition succeeded :: "'a reply \<Rightarrow> bool" where
  "succeeded r = (case r of Reply _ _ \<Rightarrow> True | _ \<Rightarrow> False)"

definition toggleFavorite :: "'db webSongDb \<Rightarrow> webSession option \<Rightarrow> string \<Rightarrow> bool \<times> 'db \<Rightarrow> bool \<times> 'db" where
  "toggleFavorite W session songId st =
     (let (r, db) = (if fst st then favoriteDelete else favoritePost) W session songId (snd st)
      in (if succeeded r then \<not> fst st else fst st, db))"

definition learningJson :: "learningStatus \<Rightarrow> jsval" where
  "learningJson l = JObj [(''status'', JStr (case l of TO_LEARN \<Rightarrow> ''TO_LEARN'' | IN_PROGRESS \<Rightarrow> ''IN_PROGRESS''
     | MASTERED \<Rightarrow> ''MASTERED''))]"

definition changeLearning ::
  "'db webSongDb \<Rightarrow> webSession option \<Rightarrow> string \<Rightarrow> learningStatus \<Rightarrow> learningStatus option \<times> 'db
     \<Rightarrow> learningStatus option \<times> 'db" where
  "changeLearning W session songId l st =
     (let (r, db) = learningPut W session songId (learningJson l) (snd st)
      in (if succeeded r then Some l else fst st, db))"

lemma controls_show_store:
  assumes "fst st = wIsFavorite tableSongsDb (snd st) (ws_id s) i"
  shows "fst (toggleFavorite tableSongsDb (Some s) i st)
     = wIsFavorite tableSongsDb (snd (toggleFavorite tableSongsDb (Some s) i st)) (ws_id s) i"
  using assms by (auto simp: toggleFavorite_def favoriteDelete_def favoritePost_def succeeded_def tableSongsDb_def)

lemma learning_shows_store:
  assumes "fst st = wLearning tableSongsDb (snd st) (ws_id s) i"
  shows "fst (changeLearning tableSongsDb (Some s) i l st)
     = wLearning tableSongsDb (snd (changeLearning tableSongsDb (Some s) i l st)) (ws_id s) i"
proof -
  have "zObject (\<lambda>rec. zEnum learningNames (jget rec ''status'')) (learningJson l) = Inr l"
    by (cases l) (simp_all add: learningJson_def zObject_def zEnum_def learningNames_def)
  then show ?thesis
    using assms by (auto simp: changeLearning_def learningPut_def succeeded_def tableSongsDb_def update_conv)
qed

text \<open>\<open>ReadModeClient\<close>: the block that is shown and the size of the letters\<close>

definition readPrev :: "int \<Rightarrow> int" where
  "readPrev c = max 0 (c - 1)"

definition readNext :: "nat \<Rightarrow> int \<Rightarrow> int" where
  "readNext n c = min (int n - 1) (c + 1)"

definition zoomOut :: "int \<Rightarrow> int" where
  "zoomOut px = max 14 (px - 2)"

definition zoomIn :: "int \<Rightarrow> int" where
  "zoomIn px = min 40 (px + 2)"

lemma read_in_bounds:
  "0 \<le> c \<Longrightarrow> c < int n \<Longrightarrow> 0 \<le> readPrev c \<and> readPrev c < int n \<and> 0 \<le> readNext n c \<and> readNext n c < int n"
  "14 \<le> px \<Longrightarrow> px \<le> 40 \<Longrightarrow> 14 \<le> zoomOut px \<and> zoomOut px \<le> 40 \<and> 14 \<le> zoomIn px \<and> zoomIn px \<le> 40"
  by (auto simp: readPrev_def readNext_def zoomOut_def zoomIn_def)

end
