(* ===== verification/WebAccountForms.thy ===== *)
theory WebAccountForms
  imports WebForms
begin

text \<open>
  The forms of accounts in the web application: the table of users with the dialog of a new one
  (\<open>components/admin\<close>), the profile (\<open>components/profile/ProfileClient.tsx\<close>) and the login
  (\<open>components/auth/LoginForm.tsx\<close>), over the routes of users.
\<close>

section \<open>A new user\<close>

record newUserForm =
  nu_firstName :: string
  nu_lastName :: string
  nu_username :: string
  nu_email :: string
  nu_password :: string
  nu_role :: appRole

definition openNewUser :: "appRole list \<Rightarrow> newUserForm" where
  "openNewUser allowedRoles = \<lparr>nu_firstName = [], nu_lastName = [], nu_username = [], nu_email = [], nu_password = [],
     nu_role = (case allowedRoles of [] \<Rightarrow> CHANTRE | r # _ \<Rightarrow> r)\<rparr>"

text \<open>\<open>toLowerCase().replace(/[^a-z0-9_.-]/g, "")\<close>\<close>

definition cleanUsername :: "string \<Rightarrow> string" where
  "cleanUsername s = filter (\<lambda>c. usernameChar c \<and> lower_char c = c) (toLowerCase s)"

definition suggestUsername :: "string \<Rightarrow> string \<Rightarrow> string" where
  "suggestUsername first second = take 20 (cleanUsername (first @ (if second = [] then [] else CHR ''_'' # second)))"

definition handleFirstNameChange :: "string \<Rightarrow> newUserForm \<Rightarrow> newUserForm" where
  "handleFirstNameChange v f =
     (let f' = f\<lparr>nu_firstName := v\<rparr>
      in if nu_username f = [] \<or> nu_username f = suggestUsername (nu_firstName f) (nu_lastName f)
         then f'\<lparr>nu_username := suggestUsername v (nu_lastName f)\<rparr> else f')"

definition handleLastNameChange :: "string \<Rightarrow> newUserForm \<Rightarrow> newUserForm" where
  "handleLastNameChange v f =
     (let f' = f\<lparr>nu_lastName := v\<rparr>
      in if nu_username f = [] \<or> nu_username f = suggestUsername (nu_firstName f) (nu_lastName f)
         then f'\<lparr>nu_username := suggestUsername (nu_firstName f) v\<rparr> else f')"

definition typeUsername :: "string \<Rightarrow> newUserForm \<Rightarrow> newUserForm" where
  "typeUsername s f = f\<lparr>nu_username := cleanUsername s\<rparr>"

definition newUserJson :: "newUserForm \<Rightarrow> jsval" where
  "newUserJson f = JObj [(''firstName'', JStr (nu_firstName f)), (''lastName'', JStr (nu_lastName f)),
     (''username'', JStr (nu_username f)), (''email'', JStr (nu_email f)), (''password'', JStr (nu_password f)),
     (''role'', JStr (roleName (nu_role f)))]"

section \<open>The table of users\<close>

text \<open>\<open>None\<close> in \<open>ut_filter\<close> is the choice \<open>ALL\<close>.\<close>

record userTableView =
  ut_users :: "userRow list"
  ut_filter :: "appRole option"
  ut_showNew :: bool
  ut_confirmDelete :: "userRow option"

definition openUserTable :: "userRow list \<Rightarrow> userTableView" where
  "openUserTable users = \<lparr>ut_users = users, ut_filter = None, ut_showNew = False, ut_confirmDelete = None\<rparr>"

definition shownUsers :: "userTableView \<Rightarrow> userRow list" where
  "shownUsers v = (case ut_filter v of None \<Rightarrow> ut_users v | Some r \<Rightarrow> filter (\<lambda>u. us_role u = r) (ut_users v))"

datatype userNotice = UserCreated string | UserActivated | UserDeactivated | UserDeleted | UpdateFailed | DeleteFailed
  | CreationRefused issue | CreationCrashed

definition handleCreated :: "userRow \<Rightarrow> userTableView \<Rightarrow> userTableView" where
  "handleCreated user v = v\<lparr>ut_users := user # ut_users v, ut_showNew := False\<rparr>"

text \<open>\<open>handleSubmit\<close> of the dialog; the table takes what it is given.\<close>

definition submitNewUser ::
  "(string \<Rightarrow> bool) \<Rightarrow> (string \<Rightarrow> string) \<Rightarrow> 'db userDb \<Rightarrow> webSession option \<Rightarrow> newUserForm \<Rightarrow> userTableView \<times> 'db
     \<Rightarrow> userNotice \<times> userTableView \<times> 'db" where
  "submitNewUser emailOk hash U session f st =
     (case usersPost emailOk hash U session (newUserJson f) (snd st) of
        (Reply _ user, db) \<Rightarrow> (UserCreated (us_name user), handleCreated user (fst st), db)
      | (Refused _ e, db) \<Rightarrow> (CreationRefused e, fst st, db)
      | (Crashed _, db) \<Rightarrow> (CreationCrashed, fst st, db))"

text \<open>\<open>role\<close> is that of the page; the route looks at the session.\<close>

definition toggleActive ::
  "(string \<Rightarrow> bool) \<Rightarrow> (string \<Rightarrow> string) \<Rightarrow> 'db userDb \<Rightarrow> webSession option \<Rightarrow> string \<Rightarrow> userRow \<Rightarrow> userTableView \<times> 'db
     \<Rightarrow> userNotice option \<times> userTableView \<times> 'db" where
  "toggleActive emailOk hash U session role user st =
     (if \<not> canChangeUserRole role then (None, st)
      else (case usersPatch emailOk hash U session (us_id user) (JObj [(''isActive'', JBool (\<not> us_isActive user))]) (snd st) of
              (Reply _ _, db) \<Rightarrow> (Some (if us_isActive user then UserDeactivated else UserActivated),
                 (fst st)\<lparr>ut_users := map (\<lambda>u. if us_id u = us_id user then u\<lparr>us_isActive := \<not> us_isActive user\<rparr> else u)
                    (ut_users (fst st))\<rparr>, db)
            | (_, db) \<Rightarrow> (Some UpdateFailed, fst st, db)))"

definition askDelete :: "userRow \<Rightarrow> userTableView \<Rightarrow> userTableView" where
  "askDelete user v = v\<lparr>ut_confirmDelete := Some user\<rparr>"

definition doDelete ::
  "'db userDb \<Rightarrow> webSession option \<Rightarrow> userRow \<Rightarrow> userTableView \<times> 'db \<Rightarrow> userNotice \<times> userTableView \<times> 'db" where
  "doDelete U session user st =
     (let v = (fst st)\<lparr>ut_confirmDelete := None\<rparr>
      in case usersDelete U session (us_id user) (snd st) of
           (Reply _ _, db) \<Rightarrow> (UserDeleted, v\<lparr>ut_users := filter (\<lambda>u. us_id u \<noteq> us_id user) (ut_users v)\<rparr>, db)
         | (_, db) \<Rightarrow> (DeleteFailed, v, db))"

section \<open>Profile and login\<close>

record profileForm =
  pr_username :: string
  pr_newPassword :: string
  pr_confirmPassword :: string

definition saveInfo ::
  "(string \<Rightarrow> bool) \<Rightarrow> (string \<Rightarrow> string) \<Rightarrow> 'db userDb \<Rightarrow> webSession option \<Rightarrow> string \<Rightarrow> profileForm \<Rightarrow> 'db \<Rightarrow> formOutcome \<times> 'db" where
  "saveInfo emailOk hash U session i f db =
     onReply (usersPatch emailOk hash U session i (JObj [(''username'', JStr (pr_username f))]) db) (\<lambda>_ db. (FormSaved i, db))"

text \<open>The passwords are cleared when the new one is stored.\<close>

definition savePassword ::
  "(string \<Rightarrow> bool) \<Rightarrow> (string \<Rightarrow> string) \<Rightarrow> 'db userDb \<Rightarrow> webSession option \<Rightarrow> string \<Rightarrow> profileForm \<Rightarrow> 'db
     \<Rightarrow> (formOutcome \<times> 'db) \<times> profileForm" where
  "savePassword emailOk hash U session i f db =
     (if pr_newPassword f \<noteq> pr_confirmPassword f then ((InvalidForm ''Les mots de passe ne correspondent pas'', db), f)
      else (let out = onReply (usersPatch emailOk hash U session i (JObj [(''password'', JStr (pr_newPassword f))]) db)
                        (\<lambda>_ db. (FormSaved i, db))
            in (out, case fst out of FormSaved _ \<Rightarrow> f\<lparr>pr_newPassword := [], pr_confirmPassword := []\<rparr> | _ \<Rightarrow> f)))"

text \<open>\<open>signIn\<close> of NextAuth calls \<open>authorize\<close>; no user and an exception are an error of the result.\<close>

definition loginSubmit ::
  "(string \<Rightarrow> string \<Rightarrow> bool) \<Rightarrow> int \<Rightarrow> 'db userDb \<Rightarrow> string \<Rightarrow> string \<Rightarrow> 'db \<Rightarrow> formOutcome \<times> 'db" where
  "loginSubmit cmp now U login password db =
     (case authorize cmp now U (Some login) (Some password) db of
        (Inr (Some user), db) \<Rightarrow> (FormSaved (us_id user), db)
      | (_, db) \<Rightarrow> (InvalidForm ''Email ou mot de passe incorrect'', db))"

section \<open>The table shows the accounts\<close>

text \<open>A suggested name of three letters or more passes the check.\<close>

lemma suggested_username_ok: "suggestUsername first second \<noteq> [] \<Longrightarrow> usernameOk (suggestUsername first second)"
  by (auto simp: usernameOk_def suggestUsername_def cleanUsername_def list_all_iff dest: in_set_takeD)

lemma newUser_parsed:
  assumes "CreateUserSchema emailOk (newUserJson f) = Inr b"
  shows "b = \<lparr>cu_firstName = nu_firstName f, cu_lastName = nu_lastName f, cu_username = nu_username f, cu_email = nu_email f,
     cu_password = nu_password f, cu_role = nu_role f\<rparr>"
proof -
  have "map_of roleNames (roleName r) = Some r" for r
    by (cases r) (simp_all add: roleNames_def ROLES_def)
  then show ?thesis
    using assms
    by (auto simp: CreateUserSchema_def newUserJson_def zObject_def zEnum_def zDefault_def andThen_Inr_iff)
qed

lemma active_parsed:
  "UpdateUserSchema emailOk (JObj [(''isActive'', JBool b)]) = Inr \<lparr>uu_firstName = None, uu_lastName = None, uu_username = None,
     uu_name = None, uu_email = None, uu_role = None, uu_isActive = Some b, uu_password = None\<rparr>"
  by (simp add: UpdateUserSchema_def zObject_def zOptional_def zBoolean_def)

definition succeededUser :: "'a reply \<Rightarrow> bool" where
  "succeededUser r = (case r of Reply _ _ \<Rightarrow> True | _ \<Rightarrow> False)"

definition tableShows :: "('db \<Rightarrow> string \<rightharpoonup> userRow) \<Rightarrow> userTableView \<times> 'db \<Rightarrow> bool" where
  "tableShows users st \<longleftrightarrow> set (ut_users (fst st)) = publicUser ` ran (users (snd st))"

lemma public_id [simp]: "us_id (publicUser r) = us_id r" "us_isActive (publicUser r) = us_isActive r"
  by (simp_all add: publicUser_def)

context user_store begin

lemma created_shown:
  assumes "ok (snd st)" and "tableShows users st"
  shows "tableShows users (snd (submitNewUser emailOk hash U session f st)) \<and> ok (snd (snd (submitNewUser emailOk hash U session f st)))"
proof (cases "usersPost emailOk hash U session (newUserJson f) (snd st)")
  case (Pair r db)
  show ?thesis
  proof (cases r)
    case (Reply n user)
    obtain row q where c: "createUser U (snd st) row = Inr (q, db)" "user = publicUser q"
      using Pair Reply
      by (auto simp: usersPost_def withSession_def requireRole_def parsedBody_def orCrash_def refuse_def
          split: option.splits sum.splits if_splits)
    obtain i where i: "users (snd st) i = None" "users db = (users (snd st))(i \<mapsto> q)" "ok db"
      using create_user [OF assms(1) c(1)] by blast
    then show ?thesis
      using assms(2) Pair Reply c(2) by (simp add: submitNewUser_def tableShows_def handleCreated_def)
  qed (use Pair assms in \<open>auto simp: submitNewUser_def usersPost_def withSession_def requireRole_def parsedBody_def orCrash_def
      refuse_def split: option.splits sum.splits if_splits\<close>)
qed

lemma toggled_shown:
  assumes "ok (snd st)" and "tableShows users st"
  shows "tableShows users (snd (toggleActive emailOk hash U session role user st))
     \<and> ok (snd (snd (toggleActive emailOk hash U session role user st)))"
proof -
  let ?i = "us_id user" and ?b = "\<not> us_isActive user"
  let ?answer = "usersPatch emailOk hash U session ?i (JObj [(''isActive'', JBool ?b)]) (snd st)"
  obtain r db where a: "?answer = (r, db)"
    by fastforce
  show ?thesis
  proof (cases "succeededUser r")
    case True
    obtain f q where c: "updateUser U (snd st) ?i f = Inr (q, db)" "\<And>x. f x = x\<lparr>us_isActive := ?b\<rparr>"
      using a True
      by (auto simp: usersPatch_def active_parsed withSession_def requireRole_def orCrash_def refuse_def succeededUser_def Let_def
          patchUser_def orElse_def split: option.splits sum.splits if_splits)
    obtain x where x: "users (snd st) ?i = Some x" "q = x\<lparr>us_isActive := ?b\<rparr>" "users db = (users (snd st))(?i \<mapsto> q)" "ok db"
      using update_user [OF assms(1) c(1)] c(2) by auto
    have id: "us_id x = ?i"
      by (rule user_key [OF assms(1) x(1)])
    let ?set = "\<lambda>u. if us_id u = ?i then u\<lparr>us_isActive := ?b\<rparr> else u"
    let ?others = "{y \<in> ran (users (snd st)). us_id y \<noteq> ?i}"
    have now: "ran (users db) = insert q ?others"
      using user_key [OF assms(1)] x(3) by (auto simp: ran_def split: if_splits)
    have before: "ran (users (snd st)) = insert x ?others"
      using user_key [OF assms(1)] x(1) by (auto simp: ran_def)
    have "?set ` publicUser ` ran (users (snd st)) = insert (?set (publicUser x)) ((\<lambda>y. ?set (publicUser y)) ` ?others)"
      unfolding image_image by (subst before) (rule image_insert)
    also have "\<dots> = insert (publicUser q) (publicUser ` ?others)"
      using id x(2) by (intro arg_cong2 [where f = insert] image_cong refl) (simp_all add: publicUser_def)
    also have "\<dots> = publicUser ` ran (users db)"
      by (simp only: now image_insert)
    finally have shown: "?set ` set (ut_users (fst st)) = publicUser ` ran (users db)"
      using assms(2) by (simp only: tableShows_def)
    show ?thesis
    proof (cases "canChangeUserRole role")
      case True
      obtain n y where "r = Reply n y"
        using \<open>succeededUser r\<close> by (cases r) (simp_all add: succeededUser_def)
      with True a have "toggleActive emailOk hash U session role user st
          = (Some (if us_isActive user then UserDeactivated else UserActivated),
             (fst st)\<lparr>ut_users := map ?set (ut_users (fst st))\<rparr>, db)"
        by (simp add: toggleActive_def)
      then show ?thesis
        using shown x(4) by (simp add: tableShows_def)
    qed (use assms(1,2) in \<open>simp add: toggleActive_def\<close>)
  next
    case False
    then have "db = snd st"
      using a
      by (auto simp: usersPatch_def active_parsed withSession_def requireRole_def orCrash_def refuse_def succeededUser_def Let_def
          split: option.splits sum.splits if_splits)
    then have "snd (toggleActive emailOk hash U session role user st) = st"
      using a False by (cases r; cases st) (simp_all add: toggleActive_def succeededUser_def)
    then show ?thesis
      using assms(1,2) by simp
  qed
qed

lemma deleted_shown:
  assumes "ok (snd st)" and "tableShows users st"
  shows "tableShows users (snd (doDelete U session user st)) \<and> ok (snd (snd (doDelete U session user st)))"
proof -
  obtain r db where a: "usersDelete U session (us_id user) (snd st) = (r, db)"
    by fastforce
  show ?thesis
  proof (cases "succeededUser r")
    case True
    obtain u where "deleteUser U (snd st) (us_id user) = Inr (u, db)"
      using a True
      by (auto simp: usersDelete_def withSession_def requireRole_def orCrash_def refuse_def succeededUser_def
          split: option.splits sum.splits if_splits)
    from delete_user [OF assms(1) this]
    have d: "users db = (users (snd st))(us_id user := None)" "ok db" by auto
    have left: "ran (users db) = {y \<in> ran (users (snd st)). us_id y \<noteq> us_id user}"
      using user_key [OF assms(1)] by (auto simp: ran_def d(1) split: if_splits)
    have "{u \<in> publicUser ` Y. us_id u \<noteq> us_id user} = publicUser ` {y \<in> Y. us_id y \<noteq> us_id user}" for Y
      by auto
    then have "set (filter (\<lambda>u. us_id u \<noteq> us_id user) (ut_users (fst st))) = publicUser ` ran (users db)"
      using assms(2) by (simp only: left tableShows_def set_filter)
    moreover obtain n y where "r = Reply n y"
      using True by (cases r) (simp_all add: succeededUser_def)
    ultimately show ?thesis
      using a d(2) by (simp add: doDelete_def tableShows_def)
  next
    case False
    then have "db = snd st"
      using a
      by (auto simp: usersDelete_def withSession_def requireRole_def orCrash_def refuse_def succeededUser_def
          split: option.splits sum.splits if_splits)
    then have "snd (doDelete U session user st) = ((fst st)\<lparr>ut_confirmDelete := None\<rparr>, snd st)"
      using a False by (cases r) (simp_all add: doDelete_def succeededUser_def)
    then show ?thesis
      using assms by (simp add: tableShows_def)
  qed
qed

end

text \<open>What the user of the page does, in any order\<close>

inductive adminStep ::
  "(string \<Rightarrow> bool) \<Rightarrow> (string \<Rightarrow> string) \<Rightarrow> webSession option \<Rightarrow> userTableView \<times> userTable \<Rightarrow> userTableView \<times> userTable \<Rightarrow> bool"
  for emailOk hash session where
  user_submitted: "adminStep emailOk hash session st (snd (submitNewUser emailOk hash tableUsers session f st))"
| user_toggled: "adminStep emailOk hash session st (snd (toggleActive emailOk hash tableUsers session role user st))"
| user_deleted: "adminStep emailOk hash session st (snd (doDelete tableUsers session user st))"
| delete_asked: "adminStep emailOk hash session st (askDelete user (fst st), snd st)"
| users_filtered: "adminStep emailOk hash session st ((fst st)\<lparr>ut_filter := r\<rparr>, snd st)"

lemma admin_step_shows:
  "adminStep emailOk hash session st st' \<Longrightarrow> userTableOk (snd st) \<and> tableShows wu_users st
     \<Longrightarrow> userTableOk (snd st') \<and> tableShows wu_users st'"
proof (induction rule: adminStep.induct)
  case (user_submitted st f)
  then show ?case
    using accounts.created_shown by blast
next
  case (user_toggled user st role)
  then show ?case
    using accounts.toggled_shown by blast
next
  case (user_deleted st user)
  then show ?case
    using accounts.deleted_shown by blast
qed (simp_all add: tableShows_def askDelete_def)

text \<open>
  Opened on the accounts that are there, the table shows after any operations of the page exactly
  the accounts that are there then, whatever the routes have refused.
\<close>

lemma admin_table_shows_accounts:
  assumes "(adminStep emailOk hash session)\<^sup>*\<^sup>* (openUserTable (map publicUser (findUsers tableUsers t)), t) st"
    and "userTableOk t"
  shows "set (ut_users (fst st)) = publicUser ` ran (wu_users (snd st))"
proof -
  have "tableShows wu_users (openUserTable (map publicUser (findUsers tableUsers t)), t)"
    using accounts.find_all [OF assms(2)] by (simp add: tableShows_def openUserTable_def)
  with assms have "userTableOk (snd st) \<and> tableShows wu_users st"
    by (induction rule: rtranclp_induct) (auto dest: admin_step_shows)
  then show ?thesis
    by (simp add: tableShows_def)
qed

end
