(* ===== verification/Spec2Isabelle.thy ===== *)
theory Spec2Isabelle
  imports DataProps Handlers LibraryFiles SongFiles Sync WebPlans WebSongParser Migrations Bolls Projector Shortcuts Templates EditItem LiveControl BibleTab SyncServer PlanPanels SourceTabs SongEditor SettingsForm Windows WebSongForms WebAccountForms
begin

text \<open>
  Church Presenter projects songs, Bible verses and media on up to three screens and plans the
  services of a church. This development models its desktop application (\<open>src/apps/desktop\<close>: an
  Electron main process, its control window and its projection windows) and the routes of its
  web application (\<open>src/apps/web\<close>), and proves what each part promises. Paths below are under
  \<open>src/apps/desktop/src\<close> unless they start with \<open>web/\<close>.

  The parts and how they interact. The main process owns the truth: the projection states of the
  screens A, B and C with their mirrors and the live state (in memory), the settings (a JSON
  file), the songs and plans (SQLite through the Prisma client) and the media (a folder). The
  control window and the remote controls send requests of type \<open>unknown\<close>; each is validated,
  changes the state and is broadcast to the windows and the remote clients. The control window
  keeps copies: of the selected plan, of the live state, of shortcuts and templates. The desktop
  pulls songs and plans from a PostgreSQL server and pushes its own; the web application works
  on that server.

  Theories, with the files they model:
  \<^item> \<open>Prelude\<close>: results of code that throws, JavaScript numbers, values and strings, lists and
    maps. \<open>Domain\<close>: the types of \<open>shared/ipc.ts\<close>. \<open>Validation\<close>, \<open>Payloads\<close>:
    \<open>main/ipc/runtimeValidation.ts\<close>.
  \<^item> Screens and live state. \<open>Screens\<close>: \<open>main/ipc/screenState.ts\<close>. \<open>Handlers\<close>: the screen, live
    and remote handlers of \<open>main/main.ts\<close>. \<open>SyncServer\<close>: \<open>main/ipc/syncServer.ts\<close>, the remote
    controls. \<open>Windows\<close>: the windows of \<open>main/main.ts\<close> and \<open>live/ScreenSelector.tsx\<close>.
  \<^item> Plans. \<open>Dates\<close>, \<open>PlanStore\<close> (the tables), \<open>Plans\<close> and \<open>PlanProps\<close>: \<open>main/ipc/plans.ts\<close> and
    what its handlers guarantee. \<open>Reorder\<close>: \<open>lib/reorder.ts\<close>, \<open>main/ipc/reorderValidation.ts\<close>.
  \<^item> Songs. \<open>SongText\<close>, \<open>SongImport\<close>, \<open>SongStore\<close> (the tables), \<open>SongHandlers\<close>, \<open>SongFiles\<close>: the
    three files \<open>main/ipc/songs-meta.ts\<close>, \<open>songs-import.ts\<close> and \<open>songs-export.ts\<close>.
  \<^item> Data. \<open>DataImport\<close>, \<open>DataProps\<close>: \<open>main/ipc/data.ts\<close>, export and import of everything.
    \<open>Settings\<close>, \<open>Profiles\<close>: \<open>main/settings.ts\<close>. \<open>Paths\<close>, \<open>LibraryFiles\<close>: Node's paths,
    \<open>main/ipc/fileUtils.ts\<close> and \<open>main/library.ts\<close>. \<open>Migrations\<close>: \<open>main/db.ts\<close>. \<open>Sync\<close>:
    \<open>main/sync\<close>, pull and push.
  \<^item> Control window. \<open>PlanContext\<close>: the context of the selected plan, with \<open>PlanAdding\<close> for the
    payloads that it adds and \<open>EditItem\<close> for the dialog of an item; \<open>LiveControl\<close>: live context,
    live bar, header and projection page; \<open>Projector\<close>: how an item reaches the screens;
    \<open>Shortcuts\<close>, \<open>Templates\<close>, \<open>Durations\<close>; \<open>PlanPanels\<close>: list, toolbar, inspector and calendar
    of plans; \<open>SourceTabs\<close>: timer, announcements, quick text, media, songs; \<open>SongEditor\<close> and
    \<open>SettingsForm\<close>: the two large dialogs; \<open>Bible\<close>, \<open>Bolls\<close>, \<open>BibleTab\<close>: offline Bible, online
    Bible and the tab that shows them.
  \<^item> Web application. \<open>Zod\<close>: checks of bodies. \<open>WebUsers\<close>, \<open>WebSongs\<close>, \<open>WebPlans\<close>,
    \<open>WebSongParser\<close>: \<open>web/src/lib\<close> and the routes under \<open>web/src/app/api\<close>. \<open>WebForms\<close>,
    \<open>WebSongForms\<close>, \<open>WebAccountForms\<close>: the forms under \<open>web/src/components\<close> and what they send.

  How state and operations correspond. A record of the code is a record with the source's
  fields, an enumeration or tagged union a datatype. A handler takes the raw JSON value and the
  state and gives \<open>Inl\<close> a failure or \<open>Inr\<close> the answer with the new state; every guard and early
  return of the code is a branch. A failure is the text of the error or the code of the Prisma
  client. The callbacks of the screens append to the list of the messages sent; messages to
  windows and clients go to inboxes. A transaction that fails gives back the state before it.
  The control window's operations take the world of both sides: the database with the window's
  copy of it.

  Locales and their interpretations. \<open>plan_store\<close>, \<open>clean_plan_store\<close>, \<open>song_store\<close> and
  \<open>church_store\<close> (the SQLite client), \<open>pg_server\<close> (the PostgreSQL client), \<open>user_store\<close>,
  \<open>web_song_store\<close> and \<open>web_plan_store\<close> (the client of the web application) hold the laws the
  code relies on: keys, references, cascades, unique dates. Each is interpreted on concrete
  tables; a property holds for every store with the laws, and its witness is on the tables.
  \<open>content_setter\<close> is the contract the setters of the screens share; it is interpreted on all
  five.

  What the lemmas show. Behaviour of the handlers on every branch: refusals
  (\<open>Screens.setters_refuse\<close>), renumbering, copying and adding (\<open>PlanProps\<close>), all-or-nothing
  imports, patches and savings; what rows a pull, a push or a saving of items leaves is stated
  column by column, not by the functions of the code. Refinement: the song handlers implement a
  library of songs, a pull gives the tables of the server, a projected text is what the screen
  shows. Invariants by rule induction over step relations, each with its exceptions: mirrors
  (under the screen and live handlers, not the profiles), live cursor, the folder of songs (while
  no deleted song is edited), the copy of the plan (under the operations of its context, not the
  import of the tool bar), remote clients (without a start during a start) and windows that
  know the present state. Round trips: export and import, settings, shortcuts, printed songs, the
  song editor. Safety: media access stays in the library, a role never grants more than its own, a
  synchronisation keeps the rows of the server, a migration that fails inside its transaction
  leaves the data. Termination and liveness: word packs end with every song written; a conflict of
  dates blocks every retry of the synchronisation until the next start, which pulls without
  pushing; a change of the order of a plan numbered from one always fails, because the code
  renumbers under the unique key of plan and order.

  Bounds. A loop that counts is written with its count: 20 attempts for an order number, 3,660
  days for a free date of a plan; the properties say what comes out when they are used up. Loops
  that need not end are partial functions (\<open>chunkLoop\<close>, \<open>freeDocxName\<close>) and shown to return. No
  fuel is used otherwise; the functions that are not structural have measures. Orders in
  PostgreSQL have 32 bits; those that do not fit are refused by the routes of the web application.
  Orders in the SQLite tables are integers without a bound.

  Parameters, for what is not in the repository: the clock (\<open>now\<close>, \<open>t\<close>, time values in
  milliseconds), \<open>fmt\<close> and \<open>parse\<close> (texts of numbers and dates by the engine), \<open>decode\<close> (UTF-8),
  \<open>like\<close> and \<open>localeCompare\<close>, \<open>readJson\<close> (\<open>JSON.parse\<close> of a client's text), the hash of
  passwords, the finder of Bible references, mammoth, zip and docx, the statements of a
  migration and which of the program's own statements around them fail. Answers of the online Bible and of file dialogs are arguments.

  Decisions. Characters are those of Latin-1; a dash beyond it is written as a hyphen. A JSON
  object is a list of keys and values in order. Handlers and operations of the control window
  run to their end before the next one starts, except the answer of the main process to the
  shortcuts, the events of the remote controls and those of the windows, which come in any
  order. Reading and writing settings succeeds. The statements of a migration run on one
  connection, with \<open>BEGIN\<close>, \<open>COMMIT\<close> and \<open>ROLLBACK\<close> as statements of their own.

  Not modelled: markup, styles and the primitives of the interface; the previews; the rendering
  of PDF and media in a projection window; geometry and displays, Electron's start and developer
  tools; the preload bridge, which forwards calls; schemas as text, seeds and build scripts; the
  pages and the navigation of the web application and the configuration of its session library;
  tests. None of them keeps state of the program beyond what is shown.
\<close>

end
